(* ===== verification/Prelude.thy ===== *)
theory Prelude
  imports Complex_Main "HOL-Library.Word" "HOL-Library.Log_Nat"
begin

section \<open>Shared vocabulary of the VoxHF development\<close>

text \<open>
  What every component uses: the insertion-ordered \<open>Map\<close> of JavaScript as an
  association list, the contract of a state machine whose operations keep an invariant
  (\<open>machine\<close>), the contract of a store whose entries expire (\<open>expiring_store\<close>) and the
  contract of a parser that is fed a byte stream in arbitrary chunks (\<open>chunked\<close>). The
  collections \<open>map_simps\<close> and \<open>inv_intros\<close> gather the facts that carry the proofs of the
  components.
\<close>

named_theorems map_simps
named_theorems inv_intros

subsection \<open>The insertion-ordered map of JavaScript\<close>

text \<open>
  \<open>Map\<close> keeps its keys in insertion order; \<open>set\<close> on a present key keeps the position,
  \<open>delete\<close> drops the pair. Iteration visits the pairs in order.
\<close>

type_synonym ('k, 'v) jmap = "('k \<times> 'v) list"

abbreviation mget :: "('k, 'v) jmap \<Rightarrow> 'k \<Rightarrow> 'v option" where
  "mget \<equiv> map_of"

fun mput :: "('k, 'v) jmap \<Rightarrow> 'k \<Rightarrow> 'v \<Rightarrow> ('k, 'v) jmap" where
  "mput [] k v = [(k, v)]"
| "mput ((a, b) # m) k v = (if a = k then (a, v) # m else (a, b) # mput m k v)"

definition mdel :: "('k, 'v) jmap \<Rightarrow> 'k \<Rightarrow> ('k, 'v) jmap" where
  "mdel m k = filter (\<lambda>p. fst p \<noteq> k) m"

definition mfilter :: "('k \<Rightarrow> 'v \<Rightarrow> bool) \<Rightarrow> ('k, 'v) jmap \<Rightarrow> ('k, 'v) jmap" where
  "mfilter P m = filter (\<lambda>p. P (fst p) (snd p)) m"

definition mhas :: "('k, 'v) jmap \<Rightarrow> 'k \<Rightarrow> bool" where
  "mhas m k = (mget m k \<noteq> None)"

definition mwf :: "('k, 'v) jmap \<Rightarrow> bool" where
  "mwf m = distinct (map fst m)"

lemma mget_mput [simp, map_simps]: "mget (mput m k v) x = (if x = k then Some v else mget m x)"
  by (induction m) auto

lemma mget_mdel [simp, map_simps]: "mget (mdel m k) x = (if x = k then None else mget m x)"
  by (induction m) (auto simp: mdel_def)

lemma mget_mfilter [map_simps]:
  "mwf m \<Longrightarrow> mget (mfilter P m) k = (case mget m k of None \<Rightarrow> None | Some v \<Rightarrow> if P k v then Some v else None)"
proof (induction m)
  case (Cons p m)
  obtain a b where p: "p = (a, b)" by force
  have "mget m a = None" using Cons.prems by (simp add: mwf_def p map_of_eq_None_iff)
  with Cons show ?case by (auto simp: mwf_def mfilter_def p split: option.splits)
qed (simp add: mfilter_def)

lemma keys_mput: "set (map fst (mput m k v)) = insert k (set (map fst m))"
proof (induction m)
  case (Cons p m)
  then show ?case by (cases p) (simp add: insert_commute)
qed simp

lemma mwf_Nil [simp, inv_intros]: "mwf []"
  by (simp add: mwf_def)

lemma mwf_mput [simp, inv_intros]: "mwf m \<Longrightarrow> mwf (mput m k v)"
proof (induction m)
  case (Cons p m)
  obtain a b where p: "p = (a, b)" by force
  show ?case
  proof (cases "a = k")
    case False
    have "a \<notin> set (map fst (mput m k v))"
      using Cons.prems False by (simp only: keys_mput) (simp add: mwf_def p)
    with Cons False show ?thesis by (simp add: mwf_def p)
  qed (use Cons.prems in \<open>simp add: mwf_def p\<close>)
qed (simp add: mwf_def)

lemma mwf_mdel [simp, inv_intros]: "mwf m \<Longrightarrow> mwf (mdel m k)"
  by (simp add: mwf_def mdel_def distinct_map_filter)

lemma mwf_mfilter [simp, inv_intros]: "mwf m \<Longrightarrow> mwf (mfilter P m)"
  by (simp add: mwf_def mfilter_def distinct_map_filter)

lemma set_mput: "set (mput m k v) \<subseteq> insert (k, v) (set m)"
  by (induction m) (auto split: if_splits)

lemma set_mdel: "set (mdel m k) \<subseteq> set m"
  by (auto simp: mdel_def)

lemma set_mfilter: "set (mfilter P m) \<subseteq> set m"
  by (auto simp: mfilter_def)

lemma mget_in: "mget m k = Some v \<Longrightarrow> (k, v) \<in> set m"
  by (rule map_of_SomeD)

lemma mwf_mget: "mwf m \<Longrightarrow> (k, v) \<in> set m \<Longrightarrow> mget m k = Some v"
  by (simp add: mwf_def)

lemma length_mput: "length (mput m k v) = (if mhas m k then length m else Suc (length m))"
  by (induction m) (auto simp: mhas_def)

lemma length_mdel_le: "length (mdel m k) \<le> length m"
  by (simp add: mdel_def)

lemma length_mfilter_le: "length (mfilter P m) \<le> length m"
  by (simp add: mfilter_def)

lemma mfilter_all: "(\<And>k v. (k, v) \<in> set m \<Longrightarrow> P k v) \<Longrightarrow> mfilter P m = m"
  by (force simp: mfilter_def filter_id_conv)

subsection \<open>State machines that keep an invariant\<close>

text \<open>
  Several components are objects with a handful of operations. Each operation is an event;
  \<open>step\<close> gives the next state and the outputs. The contract is that the initial state
  satisfies an invariant and that every admissible event keeps it; then every run does.
\<close>

locale machine =
  fixes init :: 's
    and step :: "'e \<Rightarrow> 's \<Rightarrow> 's \<times> 'o list"
    and ok :: "'e \<Rightarrow> bool"
    and inv :: "'s \<Rightarrow> bool"
  assumes inv_init: "inv init"
    and inv_step: "inv s \<Longrightarrow> ok e \<Longrightarrow> inv (fst (step e s))"
begin

lemma inv_run: "inv s \<Longrightarrow> list_all ok es \<Longrightarrow> inv (fold (\<lambda>e s. fst (step e s)) es s)"
  by (induction es arbitrary: s) (auto simp: inv_step)

lemma inv_reachable: "list_all ok es \<Longrightarrow> inv (fold (\<lambda>e s. fst (step e s)) es init)"
  by (rule inv_run [OF inv_init])

end

fun run_machine :: "('e \<Rightarrow> 's \<Rightarrow> 's \<times> 'o list) \<Rightarrow> 'e list \<Rightarrow> 's \<Rightarrow> 's \<times> 'o list" where
  "run_machine step [] s = (s, [])"
| "run_machine step (e # es) s =
     (let (s1, o1) = step e s; (s2, o2) = run_machine step es s1 in (s2, o1 @ o2))"

lemma fst_run_machine: "fst (run_machine step es s) = fold (\<lambda>e s. fst (step e s)) es s"
  by (induction es arbitrary: s) (auto simp: Let_def split: prod.splits, metis fst_conv)

lemma run_machine_append:
  "run_machine step (es @ fs) s =
     (let (s1, o1) = run_machine step es s; (s2, o2) = run_machine step fs s1 in (s2, o1 @ o2))"
  by (induction es arbitrary: s) (auto simp: Let_def split: prod.splits)

subsection \<open>Handlers\<close>

text \<open>
  A handler of an event takes a state to the next state and its outputs, in order. \<open>andThen\<close> runs
  two in sequence, \<open>each\<close> one for every element of a list, as the loops over a \<open>Map\<close> do.
  \<open>good I Q r\<close> says that a result keeps the invariant \<open>I\<close> and that its outputs satisfy \<open>Q\<close>.
\<close>

definition andThen :: "('s \<Rightarrow> 's \<times> 'o list) \<Rightarrow> ('s \<Rightarrow> 's \<times> 'o list) \<Rightarrow> 's \<Rightarrow> 's \<times> 'o list" where
  "andThen f g s = (let (s1, o1) = f s; (s2, o2) = g s1 in (s2, o1 @ o2))"

fun each :: "('a \<Rightarrow> 's \<Rightarrow> 's \<times> 'o list) \<Rightarrow> 'a list \<Rightarrow> 's \<Rightarrow> 's \<times> 'o list" where
  "each f [] s = (s, [])"
| "each f (x # xs) s = andThen (f x) (each f xs) s"

definition good :: "('s \<Rightarrow> bool) \<Rightarrow> ('o \<Rightarrow> bool) \<Rightarrow> 's \<times> 'o list \<Rightarrow> bool" where
  "good I Q r \<longleftrightarrow> I (fst r) \<and> list_all Q (snd r)"

lemma good_pair [simp]: "good I Q (s, os) \<longleftrightarrow> I s \<and> list_all Q os"
  by (simp add: good_def)

lemma good_andThen:
  "good I Q (f s) \<Longrightarrow> (\<And>t. I t \<Longrightarrow> good I Q (g t)) \<Longrightarrow> good I Q (andThen f g s)"
  by (auto simp: good_def andThen_def case_prod_beta Let_def)

lemma good_then:
  "good J R (f s) \<Longrightarrow> (\<And>x. R x \<Longrightarrow> Q x) \<Longrightarrow> (\<And>t. J t \<Longrightarrow> good I Q (g t)) \<Longrightarrow> good I Q (andThen f g s)"
  by (auto simp: good_def andThen_def case_prod_beta Let_def list_all_iff)

lemma good_each:
  "I s \<Longrightarrow> (\<And>x t. x \<in> set xs \<Longrightarrow> I t \<Longrightarrow> good I Q (f x t)) \<Longrightarrow> good I Q (each f xs s)"
proof (induction xs arbitrary: s)
  case (Cons x xs)
  show ?case
    using Cons.IH Cons.prems by (auto intro: good_andThen)
qed simp

lemma good_if: "(b \<Longrightarrow> good I Q x) \<Longrightarrow> (\<not> b \<Longrightarrow> good I Q y) \<Longrightarrow> good I Q (if b then x else y)"
  by simp

lemma good_mono: "good I Q r \<Longrightarrow> (\<And>s. I s \<Longrightarrow> J s) \<Longrightarrow> (\<And>x. Q x \<Longrightarrow> R x) \<Longrightarrow> good J R r"
  by (auto simp: good_def list_all_iff)

lemma good_inv: "good I Q r \<Longrightarrow> I (fst r)"
  by (simp add: good_def)

lemma good_out: "good I Q r \<Longrightarrow> x \<in> set (snd r) \<Longrightarrow> Q x"
  by (simp add: good_def list_all_iff)

subsection \<open>Stores whose entries expire\<close>

text \<open>
  Pairing codes, registration invites, watchdog receipts and rate windows are maps that are
  swept before use: \<open>purge now m\<close> removes exactly the entries that are stale at \<open>now\<close>.
\<close>

locale expiring_store =
  fixes purge :: "int \<Rightarrow> ('k, 'v) jmap \<Rightarrow> ('k, 'v) jmap"
    and stale :: "int \<Rightarrow> 'v \<Rightarrow> bool"
  assumes purge_eq: "purge now m = mfilter (\<lambda>k v. \<not> stale now v) m"
begin

lemma get_purge: "mwf m \<Longrightarrow> mget (purge now m) k = Some v \<longleftrightarrow> mget m k = Some v \<and> \<not> stale now v"
  by (auto simp: purge_eq mget_mfilter split: option.splits)

lemma purge_fresh: "(k, v) \<in> set (purge now m) \<Longrightarrow> \<not> stale now v"
  by (auto simp: purge_eq mfilter_def)

lemma purge_subset: "set (purge now m) \<subseteq> set m"
  by (simp add: purge_eq set_mfilter)

lemma purge_wf: "mwf m \<Longrightarrow> mwf (purge now m)"
  by (simp add: purge_eq)

lemma purge_idem: "purge now (purge now m) = purge now m"
  by (simp add: purge_eq mfilter_def)

lemma purge_length: "length (purge now m) \<le> length m"
  by (simp add: purge_eq length_mfilter_le)

end

subsection \<open>Stream parsers fed in chunks\<close>

text \<open>
  A TCP or pipe consumer keeps a tail buffer and, on each chunk, emits the complete records.
  \<open>feed s c\<close> is the state and the records after a chunk. When one feed of a concatenation
  equals two feeds, the records do not depend on how the transport cut the stream.
\<close>

fun feed_all :: "('s \<Rightarrow> 'b list \<Rightarrow> 's \<times> 'r list) \<Rightarrow> 's \<Rightarrow> 'b list list \<Rightarrow> 's \<times> 'r list" where
  "feed_all feed s [] = (s, [])"
| "feed_all feed s (c # cs) =
     (let (s1, r1) = feed s c; (s2, r2) = feed_all feed s1 cs in (s2, r1 @ r2))"

locale chunked =
  fixes feed :: "'s \<Rightarrow> 'b list \<Rightarrow> 's \<times> 'r list"
    and good :: "'s \<Rightarrow> bool"
  assumes feed_append: "good s \<Longrightarrow> feed s (a @ b) =
      (let (s1, r1) = feed s a; (s2, r2) = feed s1 b in (s2, r1 @ r2))"
    and feed_good: "good s \<Longrightarrow> good (fst (feed s a))"
    and feed_Nil: "good s \<Longrightarrow> feed s [] = (s, [])"
begin

lemma feed_all_concat: "good s \<Longrightarrow> feed_all feed s cs = feed s (concat cs)"
proof (induction cs arbitrary: s)
  case (Cons c cs)
  have "good (fst (feed s c))" using Cons.prems by (rule feed_good)
  then show ?case
    using Cons by (auto simp: feed_append [OF Cons.prems] Let_def split: prod.splits)
qed (simp add: feed_Nil)

lemma chunking_irrelevant:
  "good s \<Longrightarrow> concat cs = concat ds \<Longrightarrow> feed_all feed s cs = feed_all feed s ds"
  by (simp add: feed_all_concat)

end

end
