(* ===== verification/JStrings.thy ===== *)
theory JStrings
  imports Prelude
begin

section \<open>JavaScript strings\<close>

text \<open>
  A JavaScript string is a sequence of UTF-16 code units; here a list of natural numbers, each
  meant to be below 65536. \<open>js\<close> turns an ASCII literal into one. The functions are those of
  the standard library that the program calls: \<open>trim\<close>, \<open>toUpperCase\<close>, \<open>toLowerCase\<close>,
  \<open>split\<close>, \<open>join\<close>, \<open>startsWith\<close>, \<open>includes\<close>, \<open>slice\<close> and \<open>Buffer.byteLength\<close>. The case
  mappings are exact below U+0180 and for every unit whose mapping contains an ASCII letter;
  other units are left unchanged, which no test of the program (all are against ASCII classes
  or ASCII literals) can tell.
\<close>

type_synonym jstr = "nat list"

definition js :: "string \<Rightarrow> jstr" where
  "js s = map of_char s"

lemma js_eq_iff [simp]: "js a = js b \<longleftrightarrow> a = b"
  by (simp add: js_def inj_map_eq_map inj_def)

lemma js_Nil [simp]: "js [] = []"
  by (simp add: js_def)

lemma js_eq_Nil [simp]: "js a = [] \<longleftrightarrow> a = []" "[] = js a \<longleftrightarrow> a = []"
  by (simp_all add: js_def)

lemma js_append [simp]: "js (a @ b) = js a @ js b"
  by (simp add: js_def)

lemma length_js [simp]: "length (js a) = length a"
  by (simp add: js_def)

subsection \<open>Character classes\<close>

definition is_digit :: "nat \<Rightarrow> bool" where
  "is_digit c = (48 \<le> c \<and> c \<le> 57)"

definition is_upper :: "nat \<Rightarrow> bool" where
  "is_upper c = (65 \<le> c \<and> c \<le> 90)"

definition is_lower :: "nat \<Rightarrow> bool" where
  "is_lower c = (97 \<le> c \<and> c \<le> 122)"

definition is_octal :: "nat \<Rightarrow> bool" where
  "is_octal c = (48 \<le> c \<and> c \<le> 55)"

definition one_of :: "string \<Rightarrow> nat \<Rightarrow> bool" where
  "one_of s c = List.member (js s) c"

lemmas char_classes = is_digit_def is_upper_def is_lower_def is_octal_def one_of_def

text \<open>White space as \<open>trim\<close> and \<open>\s\<close> understand it.\<close>

definition is_ws :: "nat \<Rightarrow> bool" where
  "is_ws c = ((9 \<le> c \<and> c \<le> 13) \<or> c = 32 \<or> c = 160 \<or> c = 5760 \<or> (8192 \<le> c \<and> c \<le> 8202)
     \<or> c = 8232 \<or> c = 8233 \<or> c = 8239 \<or> c = 8287 \<or> c = 12288 \<or> c = 65279)"

subsection \<open>Trimming\<close>

definition trim :: "jstr \<Rightarrow> jstr" where
  "trim s = rev (dropWhile is_ws (rev (dropWhile is_ws s)))"

lemma dropWhile_rev_hd:
  "dropWhile P xs = [] \<or> \<not> P (hd (dropWhile P xs))"
  by (induction xs) auto

lemma trim_subset: "set (trim s) \<subseteq> set s"
  by (metis set_dropWhileD set_rev subsetI trim_def)

lemma trim_no_ws: "\<forall>c \<in> set s. \<not> is_ws c \<Longrightarrow> trim s = s"
proof -
  assume a: "\<forall>c \<in> set s. \<not> is_ws c"
  then have "dropWhile is_ws s = s" by (cases s) auto
  moreover have "dropWhile is_ws (rev s) = rev s"
    using a by (cases "rev s") (simp, metis dropWhile.simps(2) list.set_intros(1) set_rev)
  ultimately show ?thesis by (simp add: trim_def)
qed

lemma trim_hd: "trim s \<noteq> [] \<Longrightarrow> \<not> is_ws (hd (trim s))"
proof -
  let ?t = "dropWhile is_ws s"
  assume n: "trim s \<noteq> []"
  obtain u where u: "rev ?t = u @ dropWhile is_ws (rev ?t)"
    by (metis takeWhile_dropWhile_id)
  then have "?t = trim s @ rev u"
    unfolding trim_def by (metis rev_append rev_rev_ident)
  then have "hd (trim s) = hd ?t" "?t \<noteq> []" using n by auto
  with dropWhile_rev_hd [of is_ws s] show ?thesis by auto
qed

lemma trim_last: "trim s \<noteq> [] \<Longrightarrow> \<not> is_ws (last (trim s))"
  unfolding trim_def using dropWhile_rev_hd [of is_ws "rev (dropWhile is_ws s)"]
  by (auto simp: last_rev)

lemma trim_fixed: "s = [] \<or> \<not> is_ws (hd s) \<and> \<not> is_ws (last s) \<Longrightarrow> trim s = s"
proof (cases s)
  case (Cons a t)
  assume "s = [] \<or> \<not> is_ws (hd s) \<and> \<not> is_ws (last s)"
  with Cons have a: "\<not> is_ws (hd s)" "\<not> is_ws (last s)" by auto
  then have 1: "dropWhile is_ws s = s" using Cons by simp
  have "dropWhile is_ws (rev s) = rev s"
    using a(2) Cons by (cases "rev s") (simp, metis dropWhile.simps(2) hd_rev list.sel(1))
  with 1 show ?thesis by (simp add: trim_def)
qed (simp add: trim_def)

lemma trim_trim [simp]: "trim (trim s) = trim s"
  by (rule trim_fixed) (use trim_hd trim_last in blast)

lemma trim_Nil [simp]: "trim [] = []"
  by (simp add: trim_def)

lemma length_trim_le: "length (trim s) \<le> length s"
  by (metis length_dropWhile_le length_rev order_trans trim_def)

subsection \<open>Case mappings\<close>

definition upper_special :: "(nat \<times> jstr) list" where
  "upper_special =
     [(181, [924]), (223, [83, 83]), (255, [376]), (305, [73]), (329, [700, 78]), (383, [83]),
      (496, [74, 780]), (7830, [72, 817]), (7831, [84, 776]), (7832, [87, 778]),
      (7833, [89, 778]), (7834, [65, 702]), (64256, [70, 70]), (64257, [70, 73]),
      (64258, [70, 76]), (64259, [70, 70, 73]), (64260, [70, 70, 76]), (64261, [83, 84]),
      (64262, [83, 84])]"

definition latin_lower :: "nat \<Rightarrow> bool" where
  "latin_lower c = ((256 \<le> c \<and> c \<le> 311 \<or> 330 \<le> c \<and> c \<le> 375) \<and> odd c
     \<or> (313 \<le> c \<and> c \<le> 328 \<or> 377 \<le> c \<and> c \<le> 382) \<and> even c)"

definition upper_unit :: "nat \<Rightarrow> jstr" where
  "upper_unit c =
     (if is_lower c then [c - 32]
      else (case map_of upper_special c of
        Some r \<Rightarrow> r
      | None \<Rightarrow>
          if 224 \<le> c \<and> c \<le> 254 \<and> c \<noteq> 247 then [c - 32]
          else if latin_lower c then [c - 1]
          else [c]))"

definition upper :: "jstr \<Rightarrow> jstr" where
  "upper s = concat (map upper_unit s)"

definition lower_special :: "(nat \<times> jstr) list" where
  "lower_special = [(304, [105, 775]), (376, [255]), (8490, [107]), (8491, [229])]"

definition latin_upper :: "nat \<Rightarrow> bool" where
  "latin_upper c = ((256 \<le> c \<and> c \<le> 311 \<or> 330 \<le> c \<and> c \<le> 375) \<and> even c
     \<or> (313 \<le> c \<and> c \<le> 328 \<or> 377 \<le> c \<and> c \<le> 382) \<and> odd c)"

definition lower_unit :: "nat \<Rightarrow> jstr" where
  "lower_unit c =
     (if is_upper c then [c + 32]
      else (case map_of lower_special c of
        Some r \<Rightarrow> r
      | None \<Rightarrow>
          if 192 \<le> c \<and> c \<le> 222 \<and> c \<noteq> 215 then [c + 32]
          else if latin_upper c then [c + 1]
          else [c]))"

definition lower :: "jstr \<Rightarrow> jstr" where
  "lower s = concat (map lower_unit s)"

lemma upper_Nil [simp]: "upper [] = []" and lower_Nil [simp]: "lower [] = []"
  by (simp_all add: upper_def lower_def)

lemma upper_unit_ascii: "c < 128 \<Longrightarrow> upper_unit c = (if is_lower c then [c - 32] else [c])"
proof -
  assume a: "c < 128"
  then have "map_of upper_special c = None" by (simp add: upper_special_def)
  with a show ?thesis by (simp add: upper_unit_def latin_lower_def)
qed

lemma lower_unit_ascii: "c < 128 \<Longrightarrow> lower_unit c = (if is_upper c then [c + 32] else [c])"
proof -
  assume a: "c < 128"
  then have "map_of lower_special c = None" by (simp add: lower_special_def)
  with a show ?thesis by (simp add: lower_unit_def latin_upper_def)
qed

lemma upper_id: "\<forall>c \<in> set s. c < 128 \<and> \<not> is_lower c \<Longrightarrow> upper s = s"
  by (induction s) (auto simp: upper_def upper_unit_ascii)

lemma lower_id: "\<forall>c \<in> set s. c < 128 \<and> \<not> is_upper c \<Longrightarrow> lower s = s"
  by (induction s) (auto simp: lower_def lower_unit_ascii)

lemma upper_unit_no_lower: "d \<in> set (upper_unit c) \<Longrightarrow> \<not> is_lower d"
proof (cases "is_lower c")
  case True
  then show "d \<in> set (upper_unit c) \<Longrightarrow> ?thesis" by (auto simp: upper_unit_def is_lower_def)
next
  case False
  assume d: "d \<in> set (upper_unit c)"
  show ?thesis
  proof (cases "map_of upper_special c")
    case (Some r)
    then have "(c, r) \<in> set upper_special" by (rule map_of_SomeD)
    then have "list_all (\<lambda>x. \<not> is_lower x) r"
      by (auto simp: upper_special_def is_lower_def)
    with Some d False show ?thesis by (simp add: upper_unit_def list_all_iff)
  next
    case None
    with d False show ?thesis
      by (auto simp: upper_unit_def is_lower_def latin_lower_def split: if_splits)
  qed
qed

lemma lower_unit_no_upper: "d \<in> set (lower_unit c) \<Longrightarrow> \<not> is_upper d"
proof (cases "is_upper c")
  case True
  then show "d \<in> set (lower_unit c) \<Longrightarrow> ?thesis" by (auto simp: lower_unit_def is_upper_def)
next
  case False
  assume d: "d \<in> set (lower_unit c)"
  show ?thesis
  proof (cases "map_of lower_special c")
    case (Some r)
    then have "(c, r) \<in> set lower_special" by (rule map_of_SomeD)
    then have "list_all (\<lambda>x. \<not> is_upper x) r"
      by (auto simp: lower_special_def is_upper_def)
    with Some d False show ?thesis by (simp add: lower_unit_def list_all_iff)
  next
    case None
    with d False show ?thesis
      by (auto simp: lower_unit_def is_upper_def latin_upper_def split: if_splits)
  qed
qed

lemma upper_no_lower: "c \<in> set (upper s) \<Longrightarrow> \<not> is_lower c"
  by (auto simp: upper_def dest: upper_unit_no_lower)

lemma lower_no_upper: "c \<in> set (lower s) \<Longrightarrow> \<not> is_upper c"
  by (auto simp: lower_def dest: lower_unit_no_upper)

subsection \<open>Splitting and joining\<close>

text \<open>\<open>s.split(c)\<close> for a one-unit separator: never empty.\<close>

fun split_on :: "nat \<Rightarrow> jstr \<Rightarrow> jstr list" where
  "split_on c [] = [[]]"
| "split_on c (x # s) =
     (if x = c then [] # split_on c s
      else (case split_on c s of [] \<Rightarrow> [[x]] | p # ps \<Rightarrow> (x # p) # ps))"

fun join :: "jstr \<Rightarrow> jstr list \<Rightarrow> jstr" where
  "join sep [] = []"
| "join sep [x] = x"
| "join sep (x # y # ys) = x @ sep @ join sep (y # ys)"

lemma split_on_ne [simp]: "split_on c s \<noteq> []"
  by (cases s) (auto split: list.splits)

lemma length_split_on: "0 < length (split_on c s)"
  by simp

lemma join_split: "join [c] (split_on c s) = s"
proof (induction s)
  case (Cons x s)
  show ?case
  proof (cases "split_on c s")
    case (Cons p ps)
    with Cons.IH show ?thesis by (cases ps) auto
  qed simp
qed simp

lemma split_on_no_sep: "p \<in> set (split_on c s) \<Longrightarrow> c \<notin> set p"
proof (induction s arbitrary: p)
  case (Cons x s)
  then show ?case
    by (cases "split_on c s") (auto split: if_splits)
qed simp

lemma split_on_single: "c \<notin> set s \<Longrightarrow> split_on c s = [s]"
  by (induction s) auto

lemma split_on_append: "c \<notin> set a \<Longrightarrow> split_on c (a @ c # b) = a # split_on c b"
  by (induction a) auto

lemma split_on_join:
  "ps \<noteq> [] \<Longrightarrow> \<forall>p \<in> set ps. c \<notin> set p \<Longrightarrow> split_on c (join [c] ps) = ps"
proof (induction ps)
  case (Cons p ps)
  show ?case
  proof (cases ps)
    case Nil
    with Cons.prems show ?thesis by (simp add: split_on_single)
  next
    case (Cons q qs)
    with Cons.IH Cons.prems show ?thesis by (simp add: split_on_append)
  qed
qed simp

lemma split_on_cat:
  "split_on c (a @ b) =
     butlast (split_on c a) @ (last (split_on c a) @ hd (split_on c b)) # tl (split_on c b)"
proof (induction a)
  case (Cons x a)
  show ?case
  proof (cases "split_on c a")
    case (Cons p ps)
    then show ?thesis using Cons.IH by (cases ps) auto
  qed simp
qed simp

subsection \<open>Searching\<close>

fun starts_with :: "jstr \<Rightarrow> jstr \<Rightarrow> bool" where
  "starts_with s [] = True"
| "starts_with [] (p # ps) = False"
| "starts_with (x # s) (p # ps) = (x = p \<and> starts_with s ps)"

definition ends_with :: "jstr \<Rightarrow> jstr \<Rightarrow> bool" where
  "ends_with s p = starts_with (rev s) (rev p)"

fun str_includes :: "jstr \<Rightarrow> jstr \<Rightarrow> bool" where
  "str_includes [] p = (p = [])"
| "str_includes (x # s) p = (starts_with (x # s) p \<or> str_includes s p)"

text \<open>\<open>indexOf\<close> and \<open>lastIndexOf\<close> of one unit, \<open>None\<close> for \<open>-1\<close>.\<close>

fun index_of :: "nat \<Rightarrow> jstr \<Rightarrow> nat option" where
  "index_of c [] = None"
| "index_of c (x # s) = (if x = c then Some 0 else map_option Suc (index_of c s))"

definition last_index_of :: "nat \<Rightarrow> jstr \<Rightarrow> nat option" where
  "last_index_of c s = map_option (\<lambda>i. length s - 1 - i) (index_of c (rev s))"

lemma starts_with_iff: "starts_with s p \<longleftrightarrow> (\<exists>t. s = p @ t)"
  by (induction s p rule: starts_with.induct) auto

lemma starts_with_append [simp]: "starts_with (p @ t) p"
  by (auto simp: starts_with_iff)

lemma ends_with_append [simp]: "ends_with (t @ p) p"
  by (simp add: ends_with_def)

lemma ends_with_iff: "ends_with s p \<longleftrightarrow> (\<exists>t. s = t @ p)"
  unfolding ends_with_def starts_with_iff
  by (metis rev_append rev_rev_ident)

lemma index_of_Some: "index_of c s = Some i \<Longrightarrow> i < length s \<and> s ! i = c \<and> c \<notin> set (take i s)"
  by (induction s arbitrary: i) (auto split: if_splits)

lemma index_of_None: "index_of c s = None \<longleftrightarrow> c \<notin> set s"
  by (induction s) auto

subsection \<open>Order\<close>

text \<open>The order of \<open>sort()\<close> without a comparator: by code units.\<close>

fun jstr_le :: "jstr \<Rightarrow> jstr \<Rightarrow> bool" where
  "jstr_le [] t = True"
| "jstr_le (x # s) [] = False"
| "jstr_le (x # s) (y # t) = (x < y \<or> x = y \<and> jstr_le s t)"

fun jstr_insert :: "jstr \<Rightarrow> jstr list \<Rightarrow> jstr list" where
  "jstr_insert x [] = [x]"
| "jstr_insert x (y # ys) = (if jstr_le x y then x # y # ys else y # jstr_insert x ys)"

definition jstr_sort :: "jstr list \<Rightarrow> jstr list" where
  "jstr_sort xs = foldr jstr_insert xs []"

lemma set_jstr_insert [simp]: "set (jstr_insert x ys) = insert x (set ys)"
  by (induction ys) auto

lemma set_jstr_sort [simp]: "set (jstr_sort xs) = set xs"
  by (induction xs) (simp_all add: jstr_sort_def)

subsection \<open>UTF-8 length\<close>

definition is_high :: "nat \<Rightarrow> bool" where
  "is_high c = (55296 \<le> c \<and> c \<le> 56319)"

definition is_low :: "nat \<Rightarrow> bool" where
  "is_low c = (56320 \<le> c \<and> c \<le> 57343)"

text \<open>
  \<open>Buffer.byteLength(s, 'utf8')\<close>: a surrogate pair takes four bytes, a lone surrogate is
  replaced by U+FFFD and takes three.
\<close>

fun utf8_len :: "jstr \<Rightarrow> nat" where
  "utf8_len [] = 0"
| "utf8_len [c] = (if c < 128 then 1 else if c < 2048 then 2 else 3)"
| "utf8_len (c # d # s) =
     (if c < 128 then 1 + utf8_len (d # s)
      else if c < 2048 then 2 + utf8_len (d # s)
      else if is_high c \<and> is_low d then 4 + utf8_len s
      else 3 + utf8_len (d # s))"

lemma utf8_len_ge: "length s \<le> utf8_len s"
  by (induction s rule: utf8_len.induct) auto

lemma utf8_len_le: "utf8_len s \<le> 3 * length s"
  by (induction s rule: utf8_len.induct) auto

lemma utf8_len_ascii: "\<forall>c \<in> set s. c < 128 \<Longrightarrow> utf8_len s = length s"
  by (induction s rule: utf8_len.induct) auto

end
