(* ===== verification/JNumbers.thy ===== *)
theory JNumbers
  imports JStrings
begin

section \<open>JavaScript numbers\<close>

text \<open>
  A Number is a binary64 value: \<open>Fin q\<close> for the finite value \<open>q\<close> (both zeros are
  \<open>Fin 0\<close>), or an infinity, or NaN. \<open>fl\<close> rounds a rational to the nearest binary64 value,
  ties to even, with subnormals and overflow, so that \<open>Number(text)\<close> and products are the
  values the program computes. \<open>toFixed\<close>, \<open>Math.round\<close>, \<open>Math.trunc\<close> and
  \<open>Number.isInteger\<close> are exact on them.
\<close>

datatype jnum = NaN | PosInf | NegInf | Fin rat

definition pow2 :: "int \<Rightarrow> rat" where
  "pow2 e = (if 0 \<le> e then 2 ^ nat e else 1 / 2 ^ nat (- e))"

definition ilog2 :: "rat \<Rightarrow> int" where
  "ilog2 q = (let (a, b) = quotient_of q; k = bitlen a - bitlen b
              in if pow2 k \<le> q then k else k - 1)"

definition round_even :: "rat \<Rightarrow> int" where
  "round_even q = (let f = \<lfloor>q\<rfloor>; d = q - of_int f
     in if d < 1 / 2 then f else if 1 / 2 < d then f + 1 else if even f then f else f + 1)"

definition fl_pos :: "rat \<Rightarrow> jnum" where
  "fl_pos q = (let e = max (ilog2 q - 52) (-1074); v = of_int (round_even (q / pow2 e)) * pow2 e
     in if pow2 1024 \<le> v then PosInf else Fin v)"

fun jneg :: "jnum \<Rightarrow> jnum" where
  "jneg NaN = NaN"
| "jneg PosInf = NegInf"
| "jneg NegInf = PosInf"
| "jneg (Fin q) = Fin (- q)"

definition fl :: "rat \<Rightarrow> jnum" where
  "fl q = (if q = 0 then Fin 0 else if 0 < q then fl_pos q else jneg (fl_pos (- q)))"

definition is_finite :: "jnum \<Rightarrow> bool" where
  "is_finite x = (case x of Fin q \<Rightarrow> True | _ \<Rightarrow> False)"

fun jle :: "jnum \<Rightarrow> jnum \<Rightarrow> bool" where
  "jle NaN y = False"
| "jle x NaN = False"
| "jle NegInf y = True"
| "jle x PosInf = True"
| "jle (Fin a) (Fin b) = (a \<le> b)"
| "jle x y = False"

fun jlt :: "jnum \<Rightarrow> jnum \<Rightarrow> bool" where
  "jlt NaN y = False"
| "jlt x NaN = False"
| "jlt NegInf NegInf = False"
| "jlt NegInf y = True"
| "jlt PosInf y = False"
| "jlt (Fin a) PosInf = True"
| "jlt (Fin a) NegInf = False"
| "jlt (Fin a) (Fin b) = (a < b)"

text \<open>\<open>Math.round\<close> rounds half up; \<open>Number.isInteger\<close>.\<close>

definition math_round :: "rat \<Rightarrow> int" where
  "math_round q = \<lfloor>q + 1 / 2\<rfloor>"

definition is_integer :: "jnum \<Rightarrow> bool" where
  "is_integer x = (case x of Fin q \<Rightarrow> q \<in> \<int> | _ \<Rightarrow> False)"

lemma is_integer_code [code]:
  "is_integer x = (case x of Fin q \<Rightarrow> of_int \<lfloor>q\<rfloor> = q | _ \<Rightarrow> False)"
  by (auto simp: is_integer_def Ints_def split: jnum.splits)

subsection \<open>Decimal digits\<close>

definition dec_value :: "jstr \<Rightarrow> nat" where
  "dec_value s = foldl (\<lambda>n c. 10 * n + (c - 48)) 0 s"

fun nat_digits :: "nat \<Rightarrow> jstr" where
  "nat_digits n = (if n < 10 then [48 + n] else nat_digits (n div 10) @ [48 + n mod 10])"

declare nat_digits.simps [simp del]

lemma dec_value_snoc: "dec_value (s @ [c]) = 10 * dec_value s + (c - 48)"
  by (simp add: dec_value_def)

lemma dec_value_digits [simp]: "dec_value (nat_digits n) = n"
proof (induction n rule: nat_digits.induct)
  case (1 n)
  show ?case
  proof (cases "n < 10")
    case True
    then show ?thesis by (subst nat_digits.simps) (simp add: dec_value_def)
  next
    case False
    with "1.IH" show ?thesis by (subst nat_digits.simps) (simp add: dec_value_snoc)
  qed
qed

lemma nat_digits_digit: "c \<in> set (nat_digits n) \<Longrightarrow> is_digit c"
proof (induction n rule: nat_digits.induct)
  case (1 n)
  then show ?case
    by (cases "n < 10") (auto simp: nat_digits.simps [of n] is_digit_def)
qed

lemma nat_digits_ne [simp]: "nat_digits n \<noteq> []"
  by (subst nat_digits.simps) simp

lemma nat_digits_inj: "nat_digits m = nat_digits n \<longleftrightarrow> m = n"
  by (metis dec_value_digits)

definition int_digits :: "int \<Rightarrow> jstr" where
  "int_digits i = (if i < 0 then 45 # nat_digits (nat (- i)) else nat_digits (nat i))"

text \<open>Left padding: \<open>s.padStart(n, c)\<close> for one unit \<open>c\<close>.\<close>

definition pad_start :: "nat \<Rightarrow> nat \<Rightarrow> jstr \<Rightarrow> jstr" where
  "pad_start n c s = replicate (n - length s) c @ s"

lemma length_pad_start: "length (pad_start n c s) = max n (length s)"
  by (simp add: pad_start_def)

lemma dec_value_zeros: "dec_value (replicate k 48 @ s) = dec_value s"
proof -
  have "foldl (\<lambda>n c. 10 * n + (c - 48)) 0 (replicate k 48) = (0 :: nat)"
    by (induction k) auto
  then show ?thesis by (simp add: dec_value_def)
qed

subsection \<open>\<open>Number(text)\<close>\<close>

text \<open>
  The text is trimmed; an empty text is 0. Then \<open>Infinity\<close> with an optional sign, an unsigned
  hexadecimal, octal or binary literal, or a decimal literal with optional sign, fraction and
  exponent. Anything else is NaN.
\<close>

definition radix_digit :: "nat \<Rightarrow> nat" where
  "radix_digit c = (if is_digit c then c - 48 else if is_upper c then c - 55
     else if is_lower c then c - 87 else 99)"

definition radix_value :: "nat \<Rightarrow> jstr \<Rightarrow> rat option" where
  "radix_value b s =
     (if s \<noteq> [] \<and> list_all (\<lambda>c. radix_digit c < b) s
      then Some (of_nat (foldl (\<lambda>n c. b * n + radix_digit c) 0 s)) else None)"

definition span :: "(nat \<Rightarrow> bool) \<Rightarrow> jstr \<Rightarrow> jstr \<times> jstr" where
  "span P s = (takeWhile P s, dropWhile P s)"

definition pow10 :: "int \<Rightarrow> rat" where
  "pow10 e = (if 0 \<le> e then 10 ^ nat e else 1 / 10 ^ nat (- e))"

fun parse_exponent :: "jstr \<Rightarrow> int option" where
  "parse_exponent [] = Some 0"
| "parse_exponent (c # s) =
     (if c \<noteq> 101 \<and> c \<noteq> 69 then None
      else (let (neg, t) = (case s of x # t \<Rightarrow> if x = 45 then (True, t) else if x = 43 then (False, t)
                                              else (False, s) | [] \<Rightarrow> (False, s))
            in if t \<noteq> [] \<and> list_all is_digit t
               then Some (if neg then - int (dec_value t) else int (dec_value t)) else None))"

definition parse_unsigned :: "jstr \<Rightarrow> rat option" where
  "parse_unsigned s =
     (let (ip, r) = span is_digit s;
          (fp, r2) = (case r of x # t \<Rightarrow> if x = 46 then span is_digit t else ([], r) | [] \<Rightarrow> ([], r))
      in if ip = [] \<and> fp = [] then None
         else (case parse_exponent r2 of
             None \<Rightarrow> None
           | Some e \<Rightarrow> Some (of_nat (dec_value (ip @ fp)) * pow10 (e - int (length fp)))))"

definition unsigned_number :: "jstr \<Rightarrow> jnum" where
  "unsigned_number s =
     (if s = js ''Infinity'' then PosInf
      else (case parse_unsigned s of Some q \<Rightarrow> fl q | None \<Rightarrow> NaN))"

definition to_number :: "jstr \<Rightarrow> jnum" where
  "to_number text =
     (let s = trim text in
      if s = [] then Fin 0
      else (case s of
          c # t \<Rightarrow>
            if c = 43 then unsigned_number t
            else if c = 45 then jneg (unsigned_number t)
            else (case s of
                z # x # t \<Rightarrow>
                  (let b = (if z \<noteq> 48 then 0 else if x = 120 \<or> x = 88 then 16
                            else if x = 111 \<or> x = 79 then 8 else if x = 98 \<or> x = 66 then 2 else 0)
                   in if b = 0 then unsigned_number s
                      else (case radix_value b t of Some q \<Rightarrow> fl q | None \<Rightarrow> NaN))
              | _ \<Rightarrow> unsigned_number s)
        | [] \<Rightarrow> Fin 0))"

subsection \<open>\<open>String(number)\<close> and \<open>toFixed(3)\<close>\<close>

text \<open>
  \<open>String(x)\<close> writes the shortest decimal that rounds back to \<open>x\<close>: \<open>dec_exp\<close> is the place
  of its first digit, \<open>shortest\<close> tries one digit, two digits and so on up to seventeen, which
  always suffice for a binary64 value.
\<close>

definition dec_exp :: "rat \<Rightarrow> int" where
  "dec_exp q = (let p = \<lfloor>of_int (ilog2 q) * (30103 :: rat) / 100000\<rfloor> + 1
     in if q < pow10 (p - 1) then p - 1 else if pow10 p \<le> q then p + 1 else p)"

definition try_digits :: "rat \<Rightarrow> int \<Rightarrow> nat \<Rightarrow> (nat \<times> int) option" where
  "try_digits q p k =
     (let m = q / pow10 (p - int k); a = \<lfloor>m\<rfloor>;
          hit = (\<lambda>i. fl (of_int i * pow10 (p - int k)) = Fin q \<and> 10 ^ (k - 1) \<le> i);
          res = (\<lambda>i. Some (if i = 10 ^ k then (10 ^ (k - 1), p + 1) else (nat i, p)))
      in if hit a \<and> hit (a + 1) then res (if m - of_int a \<le> 1 / 2 then a else a + 1)
         else if hit a then res a
         else if hit (a + 1) then res (a + 1)
         else None)"

fun shortest :: "rat \<Rightarrow> int \<Rightarrow> nat list \<Rightarrow> nat \<times> int" where
  "shortest q p [] = (nat \<lfloor>q / pow10 (p - 17)\<rfloor>, p)"
| "shortest q p (k # ks) = (case try_digits q p k of Some r \<Rightarrow> r | None \<Rightarrow> shortest q p ks)"

definition format_digits :: "jstr \<Rightarrow> int \<Rightarrow> jstr" where
  "format_digits ds n =
     (let k = int (length ds) in
      if k \<le> n \<and> n \<le> 21 then ds @ replicate (nat (n - k)) 48
      else if 0 < n \<and> n \<le> 21 then take (nat n) ds @ [46] @ drop (nat n) ds
      else if -6 < n \<and> n \<le> 0 then [48, 46] @ replicate (nat (- n)) 48 @ ds
      else (let e = n - 1;
                mant = (if k = 1 then ds else take 1 ds @ [46] @ drop 1 ds)
            in mant @ [101, if e < 0 then 45 else 43] @ nat_digits (nat \<bar>e\<bar>)))"

definition pos_to_string :: "rat \<Rightarrow> jstr" where
  "pos_to_string q = (let (d, n) = shortest q (dec_exp q) [1..<18] in format_digits (nat_digits d) n)"

fun num_to_string :: "jnum \<Rightarrow> jstr" where
  "num_to_string NaN = js ''NaN''"
| "num_to_string PosInf = js ''Infinity''"
| "num_to_string NegInf = js ''-Infinity''"
| "num_to_string (Fin q) =
     (if q = 0 then [48] else if q < 0 then 45 # pos_to_string (- q) else pos_to_string q)"

text \<open>
  \<open>toFixed(3)\<close>, for a magnitude below \<open>10^21\<close>: the integer \<open>n\<close> nearest to \<open>1000 x\<close>, the
  larger of two, written with three decimals; from \<open>10^21\<close> on it is \<open>String(x)\<close>.
\<close>

definition fixed3_pos :: "rat \<Rightarrow> jstr" where
  "fixed3_pos q =
     (if 10 ^ 21 \<le> q then pos_to_string q
      else (let n = nat \<lfloor>1000 * q + 1 / 2\<rfloor>
            in nat_digits (n div 1000) @ [46] @ pad_start 3 48 (nat_digits (n mod 1000))))"

definition to_fixed3 :: "rat \<Rightarrow> jstr" where
  "to_fixed3 q = (if q < 0 then 45 # fixed3_pos (- q) else fixed3_pos q)"

section \<open>Rounding error of binary64\<close>

text \<open>
  The relative error of \<open>fl\<close> on normal values is at most \<open>2^-53\<close>. It is what makes the
  frequency arithmetic of the program exact: a frequency with three decimals survives
  \<open>Number\<close>, a multiplication by 1000 and a rounding.
\<close>

lemma pow2_0 [simp]: "pow2 0 = 1"
  by (simp add: pow2_def)

lemma pow2_pos [simp]: "0 < pow2 e"
  by (simp add: pow2_def)

lemma pow2_ne [simp]: "pow2 e \<noteq> 0"
  using pow2_pos [of e] by linarith

lemma pow2_powi: "pow2 e = 2 powi e"
  by (auto simp: pow2_def power_int_def field_simps)

lemma pow2_add: "pow2 (a + b) = pow2 a * pow2 b"
  by (simp add: pow2_powi power_int_add)

lemma pow2_diff: "pow2 (a - b) = pow2 a / pow2 b"
  by (simp add: pow2_powi power_int_diff)

lemma pow2_mono: "a \<le> b \<Longrightarrow> pow2 a \<le> pow2 b"
  by (simp add: pow2_powi power_int_increasing)

lemma pow2_less: "pow2 a < pow2 b \<Longrightarrow> a < b"
  by (meson linorder_not_less pow2_mono)

lemma pow2_nat: "pow2 (int n) = 2 ^ n"
  by (simp add: pow2_def)

lemma bitlen_rat: "0 < a \<Longrightarrow> pow2 (bitlen a - 1) \<le> of_int a \<and> of_int a < pow2 (bitlen a)"
proof -
  assume a: "0 < a"
  obtain n where n: "bitlen a = int n" using bitlen_nonneg zero_le_imp_eq_int by blast
  have p: "0 < bitlen a" using a bitlen_eq_zero_iff [of a] bitlen_nonneg [of a] by linarith
  have b: "2 ^ (n - 1) \<le> a" "a < 2 ^ n"
    using bitlen_bounds [OF a] n p by (simp_all add: nat_diff_distrib)
  have e: "bitlen a - 1 = int (n - 1)" using n p by simp
  have "(of_int (2 ^ (n - 1)) :: rat) \<le> of_int a" "(of_int a :: rat) < of_int (2 ^ n)"
    using b by (simp_all only: of_int_le_iff of_int_less_iff)
  then show ?thesis unfolding e by (simp only: n pow2_nat) simp
qed

lemma ilog2_bounds: "0 < q \<Longrightarrow> pow2 (ilog2 q) \<le> q \<and> q < pow2 (ilog2 q + 1)"
proof -
  assume q: "0 < q"
  obtain a b where ab: "quotient_of q = (a, b)" by force
  have b: "0 < b" using ab by (rule quotient_of_denom_pos)
  have qe: "q = of_int a / of_int b" using ab by (rule quotient_of_div)
  with q b have a: "0 < a" by (simp add: zero_less_divide_iff)
  let ?k = "bitlen a - bitlen b"
  have A: "pow2 (bitlen a - 1) \<le> of_int a" "of_int a < pow2 (bitlen a)"
    and B: "pow2 (bitlen b - 1) \<le> of_int b" "of_int b < pow2 (bitlen b)"
    using bitlen_rat a b by auto
  have "q < pow2 (bitlen a) / pow2 (bitlen b - 1)"
    unfolding qe using A(2) B(1) a b by (intro frac_less) auto
  then have hi: "q < pow2 (?k + 1)" by (simp add: pow2_diff [symmetric] algebra_simps)
  have "pow2 (bitlen a - 1) / pow2 (bitlen b) \<le> q"
    unfolding qe using A(1) B(2) a b by (intro frac_le) auto
  then have lo: "pow2 (?k - 1) \<le> q" by (simp add: pow2_diff [symmetric] algebra_simps)
  show ?thesis
    using hi lo by (auto simp: ilog2_def ab Let_def)
qed

lemma round_even_error: "\<bar>of_int (round_even q) - q\<bar> \<le> 1 / 2"
proof -
  have "of_int \<lfloor>q\<rfloor> \<le> q" "q < of_int \<lfloor>q\<rfloor> + 1" by linarith+
  then show ?thesis by (auto simp: round_even_def Let_def)
qed

lemma fl_error:
  assumes "1 \<le> q" "q < 2 ^ 1000"
  shows "\<exists>v. fl q = Fin v \<and> \<bar>v - q\<bar> \<le> q / 2 ^ 53"
proof -
  let ?l = "ilog2 q" and ?e = "ilog2 q - 52"
  have l: "pow2 ?l \<le> q" "q < pow2 (?l + 1)" using ilog2_bounds [of q] assms by auto
  have "0 \<le> ?l" using l(2) assms pow2_less [of 0 "?l + 1"] by simp
  have "?l < 1000" using l(1) assms(2) pow2_less [of ?l 1000] pow2_nat [of 1000] by simp
  have e: "max ?e (-1074) = ?e" using \<open>0 \<le> ?l\<close> by simp
  let ?m = "of_int (round_even (q / pow2 ?e)) :: rat"
  let ?v = "?m * pow2 ?e"
  have "?v - q = (?m - q / pow2 ?e) * pow2 ?e" by (simp add: algebra_simps)
  then have "\<bar>?v - q\<bar> = \<bar>?m - q / pow2 ?e\<bar> * pow2 ?e"
    using abs_of_pos [OF pow2_pos [of ?e]] by (simp only: abs_mult)
  also have "\<dots> \<le> 1 / 2 * pow2 ?e"
    using round_even_error [of "q / pow2 ?e"] less_imp_le [OF pow2_pos] by (rule mult_right_mono)
  also have "\<dots> = pow2 ?l / 2 ^ 53" by (simp add: pow2_diff) (simp add: pow2_def)
  also have "\<dots> \<le> q / 2 ^ 53" using l(1) by (simp add: divide_right_mono)
  finally have err: "\<bar>?v - q\<bar> \<le> q / 2 ^ 53" .
  have "?v \<le> q + q / 2 ^ 53" using err by linarith
  also have "\<dots> \<le> 2 * q" using assms by (simp add: field_simps)
  also have "\<dots> < pow2 1024" using assms(2) by (simp add: pow2_def)
  finally have "\<not> pow2 1024 \<le> ?v" by simp
  with err assms(1) show ?thesis by (simp add: fl_def fl_pos_def e Let_def)
qed

lemma floor_eq_int: "of_int n \<le> (x :: rat) \<Longrightarrow> x < of_int n + 1 \<Longrightarrow> \<lfloor>x\<rfloor> = n"
  by linarith

lemma fl_of_small_int:
  assumes "1 \<le> n" "n < 2 ^ 53"
  shows "fl (of_int n) = Fin (of_int n)"
proof -
  let ?q = "of_int n :: rat"
  have q: "1 \<le> ?q" using assms by simp
  have l: "pow2 (ilog2 ?q) \<le> ?q" "?q < pow2 (ilog2 ?q + 1)" using ilog2_bounds [of ?q] q by auto
  have "0 \<le> ilog2 ?q" using l(2) q pow2_less [of 0 "ilog2 ?q + 1"] by simp
  have "?q < pow2 53" using assms(2) pow2_nat [of 53] by (simp flip: of_int_less_iff)
  then have "ilog2 ?q < 53" using l(1) by (intro pow2_less) linarith
  then obtain k where k: "ilog2 ?q - 52 = - int k"
    using nonpos_int_cases [of "ilog2 ?q - 52"] by auto
  have p: "pow2 (- int k) = 1 / 2 ^ k" by (simp add: pow2_def)
  have i: "?q / pow2 (- int k) = of_int (n * 2 ^ k)" by (simp add: p)
  have r: "round_even (of_int (n * 2 ^ k)) = n * 2 ^ k" by (simp only: round_even_def Let_def floor_of_int) simp
  have e: "max (ilog2 ?q - 52) (-1074) = - int k" using k \<open>0 \<le> ilog2 ?q\<close> by simp
  have "\<not> pow2 1024 \<le> ?q"
    using \<open>?q < pow2 53\<close> pow2_mono [of 53 1024] by linarith
  then show ?thesis
    using q by (simp add: fl_def fl_pos_def e Let_def i r del: of_int_mult of_int_power) (simp add: p)
qed

end
