(* ===== verification/JRegex.thy ===== *)
theory JRegex
  imports JStrings
begin

section \<open>Regular expressions\<close>

text \<open>
  The program validates text with regular expressions anchored at both ends. \<open>rx\<close> has the
  constructs they use; \<open>rx_match\<close> is an executable matcher by derivatives and \<open>rx_lang\<close> the
  language it decides. \<open>Reps P n m\<close> is a class with a bounded repetition, \<open>[..]{n,m}\<close>. For a
  pattern anchored at both ends \<open>test\<close> is membership in the language, whatever the engine's
  matching order.
\<close>

datatype rx = Zero | Eps | Chr "nat \<Rightarrow> bool" | Reps "nat \<Rightarrow> bool" nat nat
  | Seq rx rx | Alt rx rx | Star rx

inductive_set kstar :: "jstr set \<Rightarrow> jstr set" for A where
  kstar_Nil [simp, intro]: "[] \<in> kstar A"
| kstar_app: "u \<in> A \<Longrightarrow> v \<in> kstar A \<Longrightarrow> u @ v \<in> kstar A"

primrec rx_lang :: "rx \<Rightarrow> jstr set" where
  "rx_lang Zero = {}"
| "rx_lang Eps = {[]}"
| "rx_lang (Chr P) = {[c] | c. P c}"
| "rx_lang (Reps P n m) = {s. n \<le> length s \<and> length s \<le> m \<and> list_all P s}"
| "rx_lang (Seq r s) = {u @ v | u v. u \<in> rx_lang r \<and> v \<in> rx_lang s}"
| "rx_lang (Alt r s) = rx_lang r \<union> rx_lang s"
| "rx_lang (Star r) = kstar (rx_lang r)"

primrec nullable :: "rx \<Rightarrow> bool" where
  "nullable Zero = False"
| "nullable Eps = True"
| "nullable (Chr P) = False"
| "nullable (Reps P n m) = (n = 0)"
| "nullable (Seq r s) = (nullable r \<and> nullable s)"
| "nullable (Alt r s) = (nullable r \<or> nullable s)"
| "nullable (Star r) = True"

text \<open>Constructors that drop dead branches keep the derivatives small.\<close>

fun seq :: "rx \<Rightarrow> rx \<Rightarrow> rx" where
  "seq Zero s = Zero"
| "seq Eps s = s"
| "seq r s = Seq r s"

fun alt :: "rx \<Rightarrow> rx \<Rightarrow> rx" where
  "alt Zero s = s"
| "alt r Zero = r"
| "alt r s = Alt r s"

primrec deriv :: "nat \<Rightarrow> rx \<Rightarrow> rx" where
  "deriv c Zero = Zero"
| "deriv c Eps = Zero"
| "deriv c (Chr P) = (if P c then Eps else Zero)"
| "deriv c (Reps P n m) = (if 0 < m \<and> P c then Reps P (n - 1) (m - 1) else Zero)"
| "deriv c (Seq r s) =
     alt (seq (deriv c r) s) (if nullable r then deriv c s else Zero)"
| "deriv c (Alt r s) = alt (deriv c r) (deriv c s)"
| "deriv c (Star r) = seq (deriv c r) (Star r)"

definition rx_match :: "rx \<Rightarrow> jstr \<Rightarrow> bool" where
  "rx_match r s = nullable (foldl (\<lambda>r c. deriv c r) r s)"

text \<open>The matcher decides the language.\<close>

lemma rx_lang_seq [simp]: "rx_lang (seq r s) = rx_lang (Seq r s)"
  by (cases r) auto

lemma rx_lang_alt [simp]: "rx_lang (alt r s) = rx_lang (Alt r s)"
  by (cases r; cases s) auto

lemma nullable_iff: "nullable r \<longleftrightarrow> [] \<in> rx_lang r"
  by (induction r) auto

lemma kstar_Cons: "c # s \<in> kstar A \<longleftrightarrow> (\<exists>u v. s = u @ v \<and> c # u \<in> A \<and> v \<in> kstar A)"
proof
  have "w \<in> kstar A \<Longrightarrow> w = c # s \<Longrightarrow> \<exists>u v. s = u @ v \<and> c # u \<in> A \<and> v \<in> kstar A" for w
  proof (induction arbitrary: s rule: kstar.induct)
    case (kstar_app u v)
    then show ?case by (cases u) auto
  qed simp
  then show "c # s \<in> kstar A \<Longrightarrow> \<exists>u v. s = u @ v \<and> c # u \<in> A \<and> v \<in> kstar A" by blast
next
  assume "\<exists>u v. s = u @ v \<and> c # u \<in> A \<and> v \<in> kstar A"
  then show "c # s \<in> kstar A" using kstar_app [of "c # _" A] by force
qed

lemma seq_Cons:
  "(\<exists>u v. c # s = u @ v \<and> u \<in> A \<and> v \<in> B) \<longleftrightarrow>
     (\<exists>u v. s = u @ v \<and> c # u \<in> A \<and> v \<in> B) \<or> [] \<in> A \<and> c # s \<in> B"
  by (auto simp: Cons_eq_append_conv)

lemma deriv_lang: "s \<in> rx_lang (deriv c r) \<longleftrightarrow> c # s \<in> rx_lang r"
proof (induction r arbitrary: s)
  case (Seq r1 r2)
  then show ?case by (auto simp: seq_Cons nullable_iff)
next
  case (Star r)
  then show ?case by (auto simp: kstar_Cons)
qed auto

theorem rx_match_iff: "rx_match r s \<longleftrightarrow> s \<in> rx_lang r"
proof (induction s arbitrary: r)
  case Nil
  then show ?case by (simp add: rx_match_def nullable_iff)
next
  case (Cons c s)
  have "rx_match r (c # s) = rx_match (deriv c r) s" by (simp add: rx_match_def)
  with Cons show ?case by (simp add: deriv_lang)
qed

lemma rx_match_Reps [simp]:
  "rx_match (Reps P n m) s \<longleftrightarrow> n \<le> length s \<and> length s \<le> m \<and> list_all P s"
  by (simp add: rx_match_iff)

subsection \<open>Derived patterns\<close>

primrec lit_units :: "jstr \<Rightarrow> rx" where
  "lit_units [] = Eps"
| "lit_units (c # s) = Seq (Chr ((=) c)) (lit_units s)"

definition lit :: "string \<Rightarrow> rx" where
  "lit s = lit_units (js s)"

definition opt :: "rx \<Rightarrow> rx" where
  "opt r = Alt Eps r"

definition plus :: "rx \<Rightarrow> rx" where
  "plus r = Seq r (Star r)"

primrec seqs :: "rx list \<Rightarrow> rx" where
  "seqs [] = Eps"
| "seqs (r # rs) = Seq r (seqs rs)"

definition many :: "(nat \<Rightarrow> bool) \<Rightarrow> rx" where
  "many P = Star (Chr P)"

definition any_unit :: "nat \<Rightarrow> bool" where
  "any_unit c = True"

lemma rx_lang_lit_units [simp]: "rx_lang (lit_units s) = {s}"
  by (induction s) auto

lemma rx_lang_lit [simp]: "rx_lang (lit s) = {js s}"
  by (simp add: lit_def)

lemma rx_lang_opt [simp]: "rx_lang (opt r) = insert [] (rx_lang r)"
  by (simp add: opt_def)

lemma kstar_chars: "kstar {[c] | c. P c} = {s. list_all P s}"
proof -
  have "s \<in> kstar {[c] | c. P c} \<longleftrightarrow> list_all P s" for s
    by (induction s) (auto simp: kstar_Cons)
  then show ?thesis by blast
qed

lemma rx_lang_many [simp]: "rx_lang (many P) = {s. list_all P s}"
  by (simp add: many_def kstar_chars)

lemma rx_lang_plus_Chr [simp]: "rx_lang (plus (Chr P)) = {s. s \<noteq> [] \<and> list_all P s}"
proof -
  have "s \<in> rx_lang (plus (Chr P)) \<longleftrightarrow> s \<noteq> [] \<and> list_all P s" for s
  proof (cases s)
    case (Cons c t)
    have "c # t = [c] @ t" by simp
    then show ?thesis
      unfolding plus_def rx_lang.simps kstar_chars Cons mem_Collect_eq
      by (metis append_Cons append_Nil list.inject list.simps(3) list.pred_inject(2))
  qed (auto simp: plus_def)
  then show ?thesis by blast
qed

lemma rx_match_plus_Chr [simp]: "rx_match (plus (Chr P)) s \<longleftrightarrow> s \<noteq> [] \<and> list_all P s"
  by (simp add: rx_match_iff)

end
