(* ===== verification/Json.thy ===== *)
theory Json
  imports JNumbers JRegex
begin

section \<open>JSON values\<close>

text \<open>
  The values of \<open>JSON.parse\<close>. An object is its list of own properties in enumeration order; a
  property that is absent reads as \<open>undefined\<close>, here \<open>None\<close>. \<open>url\<close> holds the components of
  \<open>new URL(text)\<close> that the program reads; the URL parser itself is an argument of the
  definitions that use it.
\<close>

datatype json = JNull | JBool bool | JNum jnum | JStr jstr | JArr "json list"
  | JObj "(jstr \<times> json) list"

type_synonym payload = "(jstr, json) jmap"

record url =
  u_protocol :: jstr
  u_hostname :: jstr
  u_username :: jstr
  u_password :: jstr
  u_port :: jstr
  u_origin :: jstr

type_synonym url_parser = "jstr \<Rightarrow> url option"

abbreviation fld :: "payload \<Rightarrow> string \<Rightarrow> json option" where
  "fld p k \<equiv> mget p (js k)"

fun truthy :: "json \<Rightarrow> bool" where
  "truthy JNull = False"
| "truthy (JBool b) = b"
| "truthy (JNum x) = (x \<noteq> NaN \<and> x \<noteq> Fin 0)"
| "truthy (JStr s) = (s \<noteq> [])"
| "truthy (JArr xs) = True"
| "truthy (JObj ps) = True"

text \<open>\<open>a || b\<close> where \<open>a\<close> may be \<open>undefined\<close>.\<close>

definition or_else :: "json option \<Rightarrow> json \<Rightarrow> json" where
  "or_else a b = (case a of Some v \<Rightarrow> if truthy v then v else b | None \<Rightarrow> b)"

definition opt_truthy :: "json option \<Rightarrow> bool" where
  "opt_truthy a = (case a of Some v \<Rightarrow> truthy v | None \<Rightarrow> False)"

text \<open>\<open>String(v)\<close>; the elements of an array are joined by commas, \<open>null\<close> as the empty text.\<close>

fun to_str :: "json \<Rightarrow> jstr" where
  "to_str JNull = js ''null''"
| "to_str (JBool b) = (if b then js ''true'' else js ''false'')"
| "to_str (JNum x) = num_to_string x"
| "to_str (JStr s) = s"
| "to_str (JArr xs) = join [44] (map (\<lambda>x. if x = JNull then [] else to_str x) xs)"
| "to_str (JObj ps) = js ''[object Object]''"

text \<open>\<open>String(v || '')\<close>.\<close>

definition str_or_empty :: "json option \<Rightarrow> jstr" where
  "str_or_empty v = (if opt_truthy v then to_str (the v) else [])"

lemma str_or_empty_JStr [simp]: "str_or_empty (Some (JStr s)) = s"
  by (simp add: str_or_empty_def opt_truthy_def)

lemma str_or_empty_None [simp]: "str_or_empty None = []"
  by (simp add: str_or_empty_def opt_truthy_def)

subsection \<open>Results\<close>

text \<open>The code's \<open>{ ok: true, payload }\<close> and \<open>{ ok: false, error }\<close>.\<close>

type_synonym 'a res = "jstr + 'a"

definition is_ok :: "'a res \<Rightarrow> bool" where
  "is_ok r = (case r of Inr x \<Rightarrow> True | Inl e \<Rightarrow> False)"

lemma is_ok_simps [simp]: "is_ok (Inr x)" "\<not> is_ok (Inl e)"
  by (simp_all add: is_ok_def)

end
