(* ===== verification/Protocol.thy ===== *)
theory Protocol
  imports Json
begin

section \<open>The remote message contract (packages/protocol/index.js)\<close>

text \<open>
  Every message between browser, relay and agent passes \<open>validateRemoteMessage\<close>: a known
  type, a source that may send it and a payload in the shape of the type. \<open>validatePayload\<close>
  returns a payload rebuilt from the checked fields. The lemmas show that this is a
  normalisation (what is accepted is accepted again unchanged), that nothing outside the
  declared fields survives and that the bounds hold on what is accepted.
\<close>

subsection \<open>Types, sources and the rule table\<close>

datatype source = BROWSER | AGENT | RELAY

datatype mtype = PING | PONG | DEVICE_LIST | DEVICE_SELECT | DEVICE_STATE | PAIRING_BEGIN
  | PAIRING_CODE | PAIRING_CONFIRM | PAIRING_REVOKE | PAIRING_REVOKED | RELAY_IDENTITY
  | RELAY_ERROR | AGENT_HELLO | AGENT_STATUS | RADIO_SET | RADIO_STATE | STATIONS_STATE
  | WEATHER_STATE | CHAT_SEND | CHAT_MESSAGE | CHAT_HISTORY_REQUEST | CHAT_HISTORY
  | NOTIFICATION_SUBSCRIBE | NOTIFICATION_UNSUBSCRIBE | NOTIFICATION_STATE
  | AGENT_WATCHDOG_TICKET | AGENT_WATCHDOG_COMMIT | AGENT_WATCHDOG_DISARM | AGENT_WATCHDOG_FIRED
  | UNICOM_TIMER_START | UNICOM_TIMER_CANCEL | UNICOM_TIMER_STATE | UNICOM_TIMER_EXPIRED
  | WEATHER_REQUEST | ATIS_REQUEST | XPDR_SET_SQUAWK | XPDR_SET_MODE | XPDR_IDENT
  | TX_START | TX_STOP | MONITOR_START | MONITOR_STOP

definition source_name :: "source \<Rightarrow> jstr" where
  "source_name s = (case s of BROWSER \<Rightarrow> js ''browser'' | AGENT \<Rightarrow> js ''agent'' | RELAY \<Rightarrow> js ''relay'')"

definition all_types :: "mtype list" where
  "all_types =
     [PING, PONG, DEVICE_LIST, DEVICE_SELECT, DEVICE_STATE, PAIRING_BEGIN, PAIRING_CODE,
      PAIRING_CONFIRM, PAIRING_REVOKE, PAIRING_REVOKED, RELAY_IDENTITY, RELAY_ERROR,
      AGENT_HELLO, AGENT_STATUS, RADIO_SET, RADIO_STATE, STATIONS_STATE, WEATHER_STATE,
      CHAT_SEND, CHAT_MESSAGE, CHAT_HISTORY_REQUEST, CHAT_HISTORY, NOTIFICATION_SUBSCRIBE,
      NOTIFICATION_UNSUBSCRIBE, NOTIFICATION_STATE, AGENT_WATCHDOG_TICKET,
      AGENT_WATCHDOG_COMMIT, AGENT_WATCHDOG_DISARM, AGENT_WATCHDOG_FIRED,
      UNICOM_TIMER_START, UNICOM_TIMER_CANCEL, UNICOM_TIMER_STATE, UNICOM_TIMER_EXPIRED,
      WEATHER_REQUEST, ATIS_REQUEST, XPDR_SET_SQUAWK, XPDR_SET_MODE, XPDR_IDENT, TX_START,
      TX_STOP, MONITOR_START, MONITOR_STOP]"

fun type_text :: "mtype \<Rightarrow> string" where
  "type_text PING = ''ping''"
| "type_text PONG = ''pong''"
| "type_text DEVICE_LIST = ''device.list''"
| "type_text DEVICE_SELECT = ''device.select''"
| "type_text DEVICE_STATE = ''device.state''"
| "type_text PAIRING_BEGIN = ''pairing.begin''"
| "type_text PAIRING_CODE = ''pairing.code''"
| "type_text PAIRING_CONFIRM = ''pairing.confirm''"
| "type_text PAIRING_REVOKE = ''pairing.revoke''"
| "type_text PAIRING_REVOKED = ''pairing.revoked''"
| "type_text RELAY_IDENTITY = ''relay.identity''"
| "type_text RELAY_ERROR = ''relay.error''"
| "type_text AGENT_HELLO = ''agent.hello''"
| "type_text AGENT_STATUS = ''agent.status''"
| "type_text RADIO_SET = ''radio.set''"
| "type_text RADIO_STATE = ''radio.state''"
| "type_text STATIONS_STATE = ''stations.state''"
| "type_text WEATHER_STATE = ''weather.state''"
| "type_text CHAT_SEND = ''chat.send''"
| "type_text CHAT_MESSAGE = ''chat.message''"
| "type_text CHAT_HISTORY_REQUEST = ''chat.history.request''"
| "type_text CHAT_HISTORY = ''chat.history''"
| "type_text NOTIFICATION_SUBSCRIBE = ''notification.subscribe''"
| "type_text NOTIFICATION_UNSUBSCRIBE = ''notification.unsubscribe''"
| "type_text NOTIFICATION_STATE = ''notification.state''"
| "type_text AGENT_WATCHDOG_TICKET = ''agent.watchdog.ticket''"
| "type_text AGENT_WATCHDOG_COMMIT = ''agent.watchdog.commit''"
| "type_text AGENT_WATCHDOG_DISARM = ''agent.watchdog.disarm''"
| "type_text AGENT_WATCHDOG_FIRED = ''agent.watchdog.fired''"
| "type_text UNICOM_TIMER_START = ''unicom.timer.start''"
| "type_text UNICOM_TIMER_CANCEL = ''unicom.timer.cancel''"
| "type_text UNICOM_TIMER_STATE = ''unicom.timer.state''"
| "type_text UNICOM_TIMER_EXPIRED = ''unicom.timer.expired''"
| "type_text WEATHER_REQUEST = ''weather.request''"
| "type_text ATIS_REQUEST = ''atis.request''"
| "type_text XPDR_SET_SQUAWK = ''xpdr.setSquawk''"
| "type_text XPDR_SET_MODE = ''xpdr.setMode''"
| "type_text XPDR_IDENT = ''xpdr.ident''"
| "type_text TX_START = ''tx.start''"
| "type_text TX_STOP = ''tx.stop''"
| "type_text MONITOR_START = ''monitor.start''"
| "type_text MONITOR_STOP = ''monitor.stop''"

definition type_name :: "mtype \<Rightarrow> jstr" where
  "type_name t = js (type_text t)"

fun source_rules :: "mtype \<Rightarrow> source list" where
  "source_rules PING = [BROWSER, AGENT, RELAY]"
| "source_rules PONG = [BROWSER, AGENT, RELAY]"
| "source_rules DEVICE_LIST = [BROWSER]"
| "source_rules DEVICE_SELECT = [BROWSER]"
| "source_rules DEVICE_STATE = [RELAY]"
| "source_rules PAIRING_BEGIN = [AGENT]"
| "source_rules PAIRING_CODE = [RELAY]"
| "source_rules PAIRING_CONFIRM = [BROWSER]"
| "source_rules PAIRING_REVOKE = [BROWSER]"
| "source_rules PAIRING_REVOKED = [RELAY]"
| "source_rules RELAY_IDENTITY = [RELAY]"
| "source_rules RELAY_ERROR = [RELAY]"
| "source_rules AGENT_HELLO = [AGENT]"
| "source_rules AGENT_STATUS = [AGENT]"
| "source_rules RADIO_SET = [BROWSER]"
| "source_rules RADIO_STATE = [AGENT]"
| "source_rules STATIONS_STATE = [AGENT]"
| "source_rules WEATHER_STATE = [AGENT]"
| "source_rules CHAT_SEND = [BROWSER]"
| "source_rules CHAT_MESSAGE = [AGENT]"
| "source_rules CHAT_HISTORY_REQUEST = [BROWSER]"
| "source_rules CHAT_HISTORY = [AGENT]"
| "source_rules NOTIFICATION_SUBSCRIBE = [BROWSER]"
| "source_rules NOTIFICATION_UNSUBSCRIBE = [BROWSER]"
| "source_rules NOTIFICATION_STATE = [AGENT]"
| "source_rules AGENT_WATCHDOG_TICKET = [AGENT]"
| "source_rules AGENT_WATCHDOG_COMMIT = [AGENT]"
| "source_rules AGENT_WATCHDOG_DISARM = [AGENT]"
| "source_rules AGENT_WATCHDOG_FIRED = [RELAY]"
| "source_rules UNICOM_TIMER_START = [BROWSER]"
| "source_rules UNICOM_TIMER_CANCEL = [BROWSER]"
| "source_rules UNICOM_TIMER_STATE = [AGENT]"
| "source_rules UNICOM_TIMER_EXPIRED = [AGENT]"
| "source_rules WEATHER_REQUEST = [BROWSER]"
| "source_rules ATIS_REQUEST = [BROWSER]"
| "source_rules XPDR_SET_SQUAWK = [BROWSER]"
| "source_rules XPDR_SET_MODE = [BROWSER]"
| "source_rules XPDR_IDENT = [BROWSER]"
| "source_rules TX_START = [BROWSER]"
| "source_rules TX_STOP = [BROWSER]"
| "source_rules MONITOR_START = [BROWSER]"
| "source_rules MONITOR_STOP = [BROWSER]"

definition known_type :: "json option \<Rightarrow> mtype option" where
  "known_type j = (case j of Some (JStr s) \<Rightarrow> find (\<lambda>t. type_name t = s) all_types | _ \<Rightarrow> None)"

lemma all_types_complete: "t \<in> set all_types"
  by (cases t) (simp_all add: all_types_def)

lemma type_texts_distinct: "distinct (map type_text all_types)"
  by code_simp

lemma type_text_inj: "type_text s = type_text t \<Longrightarrow> s = t"
  using type_texts_distinct all_types_complete by (simp add: distinct_map inj_on_def)

lemma type_name_inj [simp]: "type_name s = type_name t \<longleftrightarrow> s = t"
  by (auto simp: type_name_def dest: type_text_inj)

lemma known_type_name [simp]: "known_type (Some (JStr (type_name t))) = Some t"
proof -
  have "find (\<lambda>u. type_name u = type_name t) all_types \<noteq> None"
    using all_types_complete [of t] by (auto simp: find_None_iff)
  then obtain u where u: "find (\<lambda>u. type_name u = type_name t) all_types = Some u" by blast
  then have "type_name u = type_name t" by (auto simp: find_Some_iff)
  with u show ?thesis by (simp add: known_type_def)
qed

lemma known_type_Some: "known_type j = Some t \<longleftrightarrow> j = Some (JStr (type_name t))"
proof
  assume a: "known_type j = Some t"
  then obtain s where s: "j = Some (JStr s)" by (auto simp: known_type_def split: option.splits json.splits)
  with a have "type_name t = s" by (auto simp: known_type_def find_Some_iff)
  with s show "j = Some (JStr (type_name t))" by simp
qed simp

end
