(* ===== verification/Validate.thy ===== *)
theory Validate
  imports Protocol
begin

section \<open>Payload validation (packages/protocol/index.js)\<close>

text \<open>
  The field validators, \<open>requireShape\<close>, the validators of the structured payloads and
  \<open>validateRemoteMessage\<close>. The URL parser of the platform is the argument \<open>U\<close>.
\<close>

definition MAX_JSON_MESSAGE_BYTES :: nat where
  "MAX_JSON_MESSAGE_BYTES = 64 * 1024"

definition MAX_TEXT_BYTES :: nat where
  "MAX_TEXT_BYTES = 1024"

subsection \<open>Field validators\<close>

definition alnum :: "nat \<Rightarrow> bool" where
  "alnum c = (is_upper c \<or> is_lower c \<or> is_digit c)"

definition token_char :: "nat \<Rightarrow> bool" where
  "token_char c = (alnum c \<or> one_of ''._:-'' c)"

definition str_test :: "(jstr \<Rightarrow> bool) \<Rightarrow> json \<Rightarrow> bool" where
  "str_test P v = (case v of JStr s \<Rightarrow> P s | _ \<Rightarrow> False)"

definition isId :: "json \<Rightarrow> bool" where
  "isId = str_test (rx_match (Reps token_char 1 96))"

definition isTokenLike :: "json \<Rightarrow> bool" where
  "isTokenLike = str_test (rx_match (Reps token_char 8 160))"

definition isUserId :: "json \<Rightarrow> bool" where
  "isUserId = str_test (rx_match (Reps (\<lambda>c. alnum c \<or> one_of ''._-'' c) 2 48))"

definition isPairingCode :: "json \<Rightarrow> bool" where
  "isPairingCode = str_test (rx_match (Reps (\<lambda>c. is_upper c \<or> is_digit c \<or> one_of ''-'' c) 6 32))"

definition isShortText :: "json \<Rightarrow> bool" where
  "isShortText = str_test (\<lambda>s. 0 < length s \<and> utf8_len s \<le> 128)"

definition isText :: "json \<Rightarrow> bool" where
  "isText = str_test (\<lambda>s. 0 < length s \<and> utf8_len s \<le> MAX_TEXT_BYTES)"

definition isShortishText :: "nat \<Rightarrow> json \<Rightarrow> bool" where
  "isShortishText maxBytes = str_test (\<lambda>s. utf8_len s \<le> maxBytes)"

definition version_rx :: rx where
  "version_rx =
     (let dotnum = Seq (lit ''.'') (plus (Chr is_digit)) in
      seqs [opt (lit ''v''), plus (Chr is_digit), dotnum, opt dotnum, opt dotnum,
            opt (Seq (Chr (one_of ''-+'')) (plus (Chr (\<lambda>c. alnum c \<or> one_of ''.:-'' c))))])"

definition isVersionText :: "json \<Rightarrow> bool" where
  "isVersionText = str_test (\<lambda>s. rx_match version_rx s \<and> utf8_len s \<le> 48)"

definition isUrlText :: "url_parser \<Rightarrow> json \<Rightarrow> bool" where
  "isUrlText U = str_test (\<lambda>s. utf8_len s \<le> 512 \<and> (case U s of None \<Rightarrow> False
     | Some u \<Rightarrow> u_protocol u = js ''https:'' \<or> u_protocol u = js ''http:''))"

definition isPushEndpoint :: "url_parser \<Rightarrow> json \<Rightarrow> bool" where
  "isPushEndpoint U = str_test (\<lambda>s. utf8_len s \<le> 4096 \<and> (case U s of None \<Rightarrow> False
     | Some u \<Rightarrow> u_protocol u = js ''https:''))"

definition isPushAppUrl :: "url_parser \<Rightarrow> json \<Rightarrow> bool" where
  "isPushAppUrl U = str_test (\<lambda>s. utf8_len s \<le> 512 \<and> (case U s of None \<Rightarrow> False
     | Some u \<Rightarrow>
         (let loopback = List.member [js ''localhost'', js ''127.0.0.1'', js ''[::1]''] (u_hostname u)
          in u_protocol u = js ''https:'' \<or> (u_protocol u = js ''http:'' \<and> loopback))))"

definition base64url_char :: "nat \<Rightarrow> bool" where
  "base64url_char c = (alnum c \<or> one_of ''_-'' c)"

definition isPushKey :: "json \<Rightarrow> bool" where
  "isPushKey = str_test (\<lambda>s. 8 \<le> length s \<and> length s \<le> 512 \<and> rx_match (plus (Chr base64url_char)) s)"

definition isWatchdogAuthorization :: "json \<Rightarrow> bool" where
  "isWatchdogAuthorization =
     str_test (\<lambda>s. 16 \<le> length s \<and> utf8_len s \<le> 4096 \<and> \<not> list_ex (\<lambda>c. c = 13 \<or> c = 10) s)"

definition isWatchdogContentEncoding :: "json \<Rightarrow> bool" where
  "isWatchdogContentEncoding v = (v = JStr (js ''aes128gcm''))"

definition isWatchdogBody :: "json \<Rightarrow> bool" where
  "isWatchdogBody = str_test (\<lambda>s. 16 \<le> length s \<and> utf8_len s \<le> 24 * 1024
     \<and> rx_match (plus (Chr base64url_char)) s)"

definition isBoolean :: "json \<Rightarrow> bool" where
  "isBoolean v = (case v of JBool b \<Rightarrow> True | _ \<Rightarrow> False)"

definition num_test :: "(jnum \<Rightarrow> bool) \<Rightarrow> json \<Rightarrow> bool" where
  "num_test P v = (case v of JNum x \<Rightarrow> P x | _ \<Rightarrow> False)"

definition isSubscriptionCount :: "json \<Rightarrow> bool" where
  "isSubscriptionCount = num_test (\<lambda>x. is_integer x \<and> jle (Fin 0) x \<and> jle x (Fin 32))"

definition isSampleRate :: "json \<Rightarrow> bool" where
  "isSampleRate = num_test (\<lambda>x. is_integer x \<and> jle (Fin 8000) x \<and> jle x (Fin 48000))"

definition isCom :: "json \<Rightarrow> bool" where
  "isCom v = (v = JNum (Fin 1) \<or> v = JNum (Fin 2))"

definition freq_rx :: rx where
  "freq_rx = seqs [lit ''1'', Reps is_digit 2 2, lit ''.'', Reps is_digit 3 3]"

definition isFrequency :: "json \<Rightarrow> bool" where
  "isFrequency = str_test (\<lambda>s. rx_match freq_rx s
     \<and> (let mhz = to_number s in is_finite mhz \<and> jle (Fin 118) mhz \<and> jle mhz (fl (136975 / 1000))))"

definition isStationName :: "json \<Rightarrow> bool" where
  "isStationName = str_test (\<lambda>s. s = []
     \<or> rx_match (Reps (\<lambda>c. is_upper c \<or> is_digit c \<or> one_of ''_ -'' c) 1 32) s)"

definition recipient_rx :: rx where
  "recipient_rx = Alt (lit ''*'') (Alt (Seq (lit ''@'') (Reps is_digit 5 5))
     (Reps (\<lambda>c. is_upper c \<or> is_digit c \<or> one_of ''_'' c) 2 16))"

definition isRecipient :: "json \<Rightarrow> bool" where
  "isRecipient = str_test (rx_match recipient_rx)"

definition isCallsign :: "json \<Rightarrow> bool" where
  "isCallsign = str_test (rx_match (Reps (\<lambda>c. is_upper c \<or> is_digit c) 2 16))"

definition isFlightPlanStatus :: "json \<Rightarrow> bool" where
  "isFlightPlanStatus v = (v = JStr (js ''filed'') \<or> v = JStr (js ''missing''))"

definition isWeatherKind :: "json \<Rightarrow> bool" where
  "isWeatherKind v = (v = JStr (js ''metar'') \<or> v = JStr (js ''taf''))"

definition isWeatherSource :: "json \<Rightarrow> bool" where
  "isWeatherSource v = (v = JStr (js ''manual'') \<or> v = JStr (js ''panel'') \<or> v = JStr (js ''auto''))"

definition isWeatherRole :: "json \<Rightarrow> bool" where
  "isWeatherRole v = (v = JStr (js ''departure'') \<or> v = JStr (js ''destination''))"

definition isIcao :: "json \<Rightarrow> bool" where
  "isIcao = str_test (rx_match (Reps is_upper 4 4))"

definition isCoordinate :: "rat \<Rightarrow> rat \<Rightarrow> json \<Rightarrow> bool" where
  "isCoordinate lo hi = num_test (\<lambda>x. is_finite x \<and> jle (Fin lo) x \<and> jle x (Fin hi))"

definition isOwnPosition :: "json \<Rightarrow> bool" where
  "isOwnPosition v = (case v of
     JObj p \<Rightarrow> (case (fld p ''lat'', fld p ''lon'') of
         (Some lat, Some lon) \<Rightarrow> isCoordinate (-90) 90 lat \<and> isCoordinate (-180) 180 lon
       | _ \<Rightarrow> False)
   | _ \<Rightarrow> False)"

definition isDirection :: "json \<Rightarrow> bool" where
  "isDirection v = (v = JStr (js ''incoming'') \<or> v = JStr (js ''outgoing''))"

definition isSquawk :: "json \<Rightarrow> bool" where
  "isSquawk = str_test (rx_match (Reps is_octal 4 4))"

definition isXpdrMode :: "json \<Rightarrow> bool" where
  "isXpdrMode v = (v = JStr (js ''stby'') \<or> v = JStr (js ''alt''))"

definition iso_rx :: rx where
  "iso_rx = seqs [Reps is_digit 4 4, lit ''-'', Reps is_digit 2 2, lit ''-'', Reps is_digit 2 2,
     lit ''T'', many any_unit]"

definition isIsoLike :: "json \<Rightarrow> bool" where
  "isIsoLike = str_test (rx_match iso_rx)"

text \<open>A validator applied to a property that may be \<open>undefined\<close>; no validator accepts it.\<close>

definition holds :: "(json \<Rightarrow> bool) \<Rightarrow> json option \<Rightarrow> bool" where
  "holds V v = (case v of None \<Rightarrow> False | Some x \<Rightarrow> V x)"

subsection \<open>Shapes\<close>

type_synonym schema = "(jstr \<times> (json \<Rightarrow> bool)) list"

text \<open>The first property whose name is not in the list.\<close>

fun unexpected :: "jstr list \<Rightarrow> payload \<Rightarrow> jstr option" where
  "unexpected allowed [] = None"
| "unexpected allowed ((k, v) # p) = (if List.member allowed k then unexpected allowed p else Some k)"

definition unexpected_error :: "jstr \<Rightarrow> jstr" where
  "unexpected_error k = js ''unexpected payload field: '' @ k"

definition missing_error :: "jstr \<Rightarrow> jstr" where
  "missing_error k = js ''missing payload field: '' @ k"

definition invalid_error :: "jstr \<Rightarrow> jstr" where
  "invalid_error k = js ''invalid payload field: '' @ k"

fun take_required :: "payload \<Rightarrow> schema \<Rightarrow> payload \<Rightarrow> payload res" where
  "take_required p [] acc = Inr acc"
| "take_required p ((k, V) # r) acc =
     (case mget p k of
        None \<Rightarrow> Inl (missing_error k)
      | Some v \<Rightarrow> if V v then take_required p r (mput acc k v) else Inl (invalid_error k))"

fun take_optional :: "payload \<Rightarrow> schema \<Rightarrow> payload \<Rightarrow> payload res" where
  "take_optional p [] acc = Inr acc"
| "take_optional p ((k, V) # r) acc =
     (case mget p k of
        None \<Rightarrow> take_optional p r acc
      | Some v \<Rightarrow> if V v then take_optional p r (mput acc k v) else Inl (invalid_error k))"

definition requireShape :: "payload \<Rightarrow> schema \<Rightarrow> schema \<Rightarrow> payload res" where
  "requireShape p required optional =
     (case unexpected (map fst required @ map fst optional) p of
        Some k \<Rightarrow> Inl (unexpected_error k)
      | None \<Rightarrow> (case take_required p required [] of
            Inl e \<Rightarrow> Inl e
          | Inr acc \<Rightarrow> take_optional p optional acc))"

definition noExtraPayload :: "payload \<Rightarrow> payload res" where
  "noExtraPayload p = (if length p = 0 then Inr [] else Inl (js ''payload must be empty''))"

definition sch :: "(string \<times> (json \<Rightarrow> bool)) list \<Rightarrow> schema" where
  "sch = map (\<lambda>(k, V). (js k, V))"


subsection \<open>Structured payloads\<close>

text \<open>\<open>isPlainObject\<close>: an object that is neither \<open>null\<close> nor an array, with its properties.\<close>

definition isPlainObject :: "json \<Rightarrow> payload option" where
  "isPlainObject v = (case v of JObj p \<Rightarrow> Some p | _ \<Rightarrow> None)"

definition val :: "payload \<Rightarrow> string \<Rightarrow> json" where
  "val p k = (case fld p k of Some v \<Rightarrow> v | None \<Rightarrow> JNull)"

fun collect :: "('a \<Rightarrow> 'b res) \<Rightarrow> 'a list \<Rightarrow> 'b list res" where
  "collect f [] = Inr []"
| "collect f (x # xs) =
     (case f x of
        Inl e \<Rightarrow> Inl e
      | Inr y \<Rightarrow> (case collect f xs of Inl e \<Rightarrow> Inl e | Inr ys \<Rightarrow> Inr (y # ys)))"

definition chat_required :: schema where
  "chat_required = sch [(''sender'', isShortText), (''recipient'', isShortText), (''text'', isText),
     (''timestamp'', isIsoLike)]"

definition chat_optional :: schema where
  "chat_optional = sch [(''direction'', isDirection), (''messageId'', isId)]"

definition validateChatMessagePayload :: "payload \<Rightarrow> payload res" where
  "validateChatMessagePayload p = requireShape p chat_required chat_optional"

definition validateUnicomTimerState :: "payload \<Rightarrow> payload res" where
  "validateUnicomTimerState p =
     (case unexpected [js ''active'', js ''startedAt'', js ''expiresAt''] p of
        Some k \<Rightarrow> Inl (unexpected_error k)
      | None \<Rightarrow>
          if \<not> holds isBoolean (fld p ''active'') then Inl (invalid_error (js ''active''))
          else if \<not> opt_truthy (fld p ''active'') then
            (if length p \<noteq> 1 then Inl (js ''inactive timer payload must contain only active'')
             else Inr [(js ''active'', JBool False)])
          else if \<not> holds isIsoLike (fld p ''startedAt'') then Inl (invalid_error (js ''startedAt''))
          else if \<not> holds isIsoLike (fld p ''expiresAt'') then Inl (invalid_error (js ''expiresAt''))
          else Inr [(js ''active'', JBool True), (js ''startedAt'', val p ''startedAt''),
                    (js ''expiresAt'', val p ''expiresAt'')])"

definition ticket_schema :: "url_parser \<Rightarrow> schema" where
  "ticket_schema U = sch [(''deviceId'', isTokenLike), (''endpoint'', isPushEndpoint U),
     (''expiresAt'', isIsoLike), (''authorization'', isWatchdogAuthorization),
     (''contentEncoding'', isWatchdogContentEncoding), (''body'', isWatchdogBody)]"

definition validateAgentWatchdogTicket :: "url_parser \<Rightarrow> payload \<Rightarrow> payload res" where
  "validateAgentWatchdogTicket U p =
     (case unexpected [js ''sessionId'', js ''batchId'', js ''ticket''] p of
        Some k \<Rightarrow> Inl (unexpected_error k)
      | None \<Rightarrow>
          if \<not> holds isTokenLike (fld p ''sessionId'') then Inl (invalid_error (js ''sessionId''))
          else if \<not> holds isTokenLike (fld p ''batchId'') then Inl (invalid_error (js ''batchId''))
          else (case isPlainObject (val p ''ticket'') of
              None \<Rightarrow> Inl (invalid_error (js ''ticket''))
            | Some t \<Rightarrow> (case requireShape t (ticket_schema U) [] of
                Inl e \<Rightarrow> Inl e
              | Inr t' \<Rightarrow> Inr [(js ''sessionId'', val p ''sessionId''), (js ''batchId'', val p ''batchId''),
                              (js ''ticket'', JObj t')])))"

definition history_item :: "json \<Rightarrow> json res" where
  "history_item m = (case isPlainObject m of
     None \<Rightarrow> Inl (js ''invalid chat history message'')
   | Some p \<Rightarrow> (case validateChatMessagePayload p of Inl e \<Rightarrow> Inl e | Inr q \<Rightarrow> Inr (JObj q)))"

definition validateChatHistory :: "payload \<Rightarrow> payload res" where
  "validateChatHistory p =
     (if unexpected [js ''messages''] p \<noteq> None then Inl (js ''invalid chat history payload'')
      else (case fld p ''messages'' of
          Some (JArr ms) \<Rightarrow>
            if length ms > 50 then Inl (invalid_error (js ''messages''))
            else (case collect history_item ms of
                Inl e \<Rightarrow> Inl e
              | Inr ms' \<Rightarrow> Inr [(js ''messages'', JArr ms')])
        | _ \<Rightarrow> Inl (invalid_error (js ''messages''))))"

text \<open>\<open>v === undefined\<close>, or \<open>v === ''\<close>, or valid: the optional text fields of a station.\<close>

definition absent_or :: "(json \<Rightarrow> bool) \<Rightarrow> json option \<Rightarrow> bool" where
  "absent_or V v = (case v of None \<Rightarrow> True | Some x \<Rightarrow> V x)"

definition opt_pair :: "string \<Rightarrow> json option \<Rightarrow> payload" where
  "opt_pair k v = (case v of None \<Rightarrow> [] | Some x \<Rightarrow> [(js k, x)])"

definition normalizeStationSnapshot :: "json \<Rightarrow> json option" where
  "normalizeStationSnapshot station =
     (case isPlainObject station of
        None \<Rightarrow> None
      | Some p \<Rightarrow>
          if unexpected [js ''callsign'', js ''freq'', js ''lat'', js ''lon'', js ''voice''] p \<noteq> None then None
          else if \<not> holds isStationName (fld p ''callsign'') \<or> \<not> opt_truthy (fld p ''callsign'') then None
          else if \<not> absent_or (\<lambda>v. v = JStr [] \<or> isFrequency v) (fld p ''freq'') then None
          else if \<not> absent_or (isCoordinate (-90) 90) (fld p ''lat'') then None
          else if \<not> absent_or (isCoordinate (-180) 180) (fld p ''lon'') then None
          else if \<not> absent_or (\<lambda>v. v = JStr [] \<or> isShortishText 256 v) (fld p ''voice'') then None
          else Some (JObj ([(js ''callsign'', val p ''callsign''),
                            (js ''freq'', or_else (fld p ''freq'') (JStr []))]
                 @ opt_pair ''lat'' (fld p ''lat'') @ opt_pair ''lon'' (fld p ''lon'')
                 @ (case fld p ''voice'' of None \<Rightarrow> [] | v \<Rightarrow> [(js ''voice'', or_else v (JStr []))]))))"

definition station_item :: "json \<Rightarrow> json res" where
  "station_item v = (case normalizeStationSnapshot v of
     None \<Rightarrow> Inl (js ''invalid station snapshot'') | Some s \<Rightarrow> Inr s)"

definition own_position :: "json \<Rightarrow> json" where
  "own_position v = (case v of
     JObj p \<Rightarrow> JObj [(js ''lat'', val p ''lat''), (js ''lon'', val p ''lon'')] | _ \<Rightarrow> JNull)"

definition validateStationsState :: "payload \<Rightarrow> payload res" where
  "validateStationsState p =
     (case unexpected [js ''stations'', js ''ownPosition''] p of
        Some k \<Rightarrow> Inl (unexpected_error k)
      | None \<Rightarrow> (case fld p ''stations'' of
          Some (JArr ss) \<Rightarrow>
            if length ss > 250 then Inl (invalid_error (js ''stations''))
            else (case collect station_item ss of
                Inl e \<Rightarrow> Inl e
              | Inr ss' \<Rightarrow> (case fld p ''ownPosition'' of
                    None \<Rightarrow> Inr [(js ''stations'', JArr ss')]
                  | Some v \<Rightarrow>
                      if isOwnPosition v
                      then Inr [(js ''stations'', JArr ss'), (js ''ownPosition'', own_position v)]
                      else Inl (invalid_error (js ''ownPosition''))))
        | _ \<Rightarrow> Inl (invalid_error (js ''stations''))))"

text \<open>An ICAO field that may be absent or falsy: \<open>value || ''\<close>, then checked when it is truthy.\<close>

definition icao_or_empty :: "json option \<Rightarrow> json option" where
  "icao_or_empty v = (let x = or_else v (JStr []) in if truthy x \<and> \<not> isIcao x then None else Some x)"

definition normalizeFlightPlanSnapshot :: "json \<Rightarrow> json option" where
  "normalizeFlightPlanSnapshot value =
     (case isPlainObject value of
        None \<Rightarrow> None
      | Some p \<Rightarrow>
          if unexpected [js ''departure'', js ''destination'', js ''alternate''] p \<noteq> None then None
          else (case icao_or_empty (fld p ''departure'') of None \<Rightarrow> None
            | Some d \<Rightarrow> (case icao_or_empty (fld p ''destination'') of None \<Rightarrow> None
            | Some e \<Rightarrow> (case icao_or_empty (fld p ''alternate'') of None \<Rightarrow> None
            | Some a \<Rightarrow> Some (JObj [(js ''departure'', d), (js ''destination'', e), (js ''alternate'', a)])))))"

definition normalizeWeatherEntry :: "json option \<Rightarrow> json" where
  "normalizeWeatherEntry entry =
     (case entry of
        Some (JObj p) \<Rightarrow>
          if unexpected [js ''text'', js ''receivedAt'', js ''source''] p \<noteq> None then JNull
          else if \<not> holds (isShortishText 4096) (fld p ''text'') then JNull
          else if \<not> holds isIsoLike (fld p ''receivedAt'') then JNull
          else if \<not> absent_or (isShortishText 64) (fld p ''source'') then JNull
          else JObj [(js ''text'', val p ''text''), (js ''receivedAt'', val p ''receivedAt''),
                     (js ''source'', or_else (fld p ''source'') (JStr []))]
      | _ \<Rightarrow> JNull)"

definition normalizeWeatherSlot :: "json \<Rightarrow> json option" where
  "normalizeWeatherSlot slot =
     (case isPlainObject slot of
        None \<Rightarrow> None
      | Some p \<Rightarrow>
          if unexpected [js ''icao'', js ''metar'', js ''taf''] p \<noteq> None then None
          else (case icao_or_empty (fld p ''icao'') of None \<Rightarrow> None
            | Some icao \<Rightarrow>
                (let metar = normalizeWeatherEntry (fld p ''metar'');
                     taf = normalizeWeatherEntry (fld p ''taf'')
                 in if opt_truthy (fld p ''metar'') \<and> \<not> truthy metar then None
                    else if opt_truthy (fld p ''taf'') \<and> \<not> truthy taf then None
                    else Some (JObj [(js ''icao'', icao), (js ''metar'', metar), (js ''taf'', taf)]))))"

definition normalizeWeatherSnapshot :: "json \<Rightarrow> json option" where
  "normalizeWeatherSnapshot value =
     (case isPlainObject value of
        None \<Rightarrow> None
      | Some p \<Rightarrow>
          if unexpected [js ''departure'', js ''destination''] p \<noteq> None then None
          else (case normalizeWeatherSlot (or_else (fld p ''departure'') (JObj [])) of None \<Rightarrow> None
            | Some d \<Rightarrow> (case normalizeWeatherSlot (or_else (fld p ''destination'') (JObj [])) of None \<Rightarrow> None
            | Some e \<Rightarrow> Some (JObj [(js ''departure'', d), (js ''destination'', e)]))))"

definition validateWeatherState :: "payload \<Rightarrow> payload res" where
  "validateWeatherState p =
     (case unexpected [js ''flightPlanStatus'', js ''flightPlan'', js ''weatherState''] p of
        Some k \<Rightarrow> Inl (unexpected_error k)
      | None \<Rightarrow>
          if \<not> holds isFlightPlanStatus (fld p ''flightPlanStatus'')
          then Inl (invalid_error (js ''flightPlanStatus''))
          else (case normalizeFlightPlanSnapshot (or_else (fld p ''flightPlan'') (JObj [])) of
              None \<Rightarrow> Inl (invalid_error (js ''flightPlan''))
            | Some fp \<Rightarrow> (case normalizeWeatherSnapshot (or_else (fld p ''weatherState'') (JObj [])) of
                None \<Rightarrow> Inl (invalid_error (js ''weatherState''))
              | Some w \<Rightarrow> Inr [(js ''flightPlanStatus'', val p ''flightPlanStatus''),
                              (js ''flightPlan'', fp), (js ''weatherState'', w)])))"

subsection \<open>Payloads by type\<close>

text \<open>The required and optional fields of the types checked by \<open>requireShape\<close> alone.\<close>

fun shape_of :: "url_parser \<Rightarrow> mtype \<Rightarrow> (schema \<times> schema) option" where
  "shape_of U DEVICE_SELECT = Some (sch [(''deviceId'', isTokenLike)], [])"
| "shape_of U DEVICE_STATE = Some (sch [(''deviceId'', isTokenLike), (''deviceName'', isShortText),
     (''online'', isBoolean)], sch [(''agentVersion'', isVersionText)])"
| "shape_of U PAIRING_BEGIN = Some (sch [(''deviceName'', isShortText)], sch [(''agentVersion'', isVersionText)])"
| "shape_of U PAIRING_CODE = Some (sch [(''code'', isPairingCode), (''expiresAt'', isIsoLike)], [])"
| "shape_of U PAIRING_CONFIRM = Some (sch [(''code'', isPairingCode)], [])"
| "shape_of U PAIRING_REVOKE = Some (sch [(''deviceId'', isTokenLike)], [])"
| "shape_of U PAIRING_REVOKED = Some (sch [(''deviceId'', isTokenLike)], [])"
| "shape_of U RELAY_IDENTITY = Some (sch [(''userId'', isUserId)], sch [(''userName'', isShortText),
     (''relayVersion'', isVersionText), (''recommendedAgentVersion'', isVersionText),
     (''minimumAgentVersion'', isVersionText), (''downloadUrl'', isUrlText U)])"
| "shape_of U RELAY_ERROR = Some (sch [(''code'', isShortText), (''message'', isText)], [])"
| "shape_of U AGENT_HELLO = Some (sch [(''deviceName'', isShortText)],
     sch [(''deviceId'', isTokenLike), (''agentVersion'', isVersionText)])"
| "shape_of U AGENT_STATUS = Some (sch [(''connected'', isBoolean)], sch [(''callsign'', isCallsign),
     (''flightPlanStatus'', isFlightPlanStatus), (''webTxEnabled'', isBoolean), (''txReady'', isBoolean),
     (''txSampleRate'', isSampleRate), (''squawk'', isSquawk), (''xpdrMode'', isXpdrMode),
     (''agentVersion'', isVersionText)])"
| "shape_of U RADIO_SET = Some (sch [(''com'', isCom), (''freq'', isFrequency)], sch [(''station'', isStationName)])"
| "shape_of U RADIO_STATE = Some (sch [(''com1'', isFrequency), (''com2'', isFrequency)],
     sch [(''station1'', isStationName), (''station2'', isStationName)])"
| "shape_of U CHAT_SEND = Some (sch [(''recipient'', isRecipient), (''text'', isText)], [])"
| "shape_of U CHAT_MESSAGE = Some (chat_required, chat_optional)"
| "shape_of U NOTIFICATION_SUBSCRIBE = Some (sch [(''endpoint'', isPushEndpoint U), (''p256dh'', isPushKey),
     (''auth'', isPushKey), (''deviceId'', isTokenLike), (''deviceName'', isShortText),
     (''appUrl'', isPushAppUrl U)],
     sch [(''notifyIvaoConnected'', isBoolean), (''notifyAgentOffline'', isBoolean)])"
| "shape_of U NOTIFICATION_UNSUBSCRIBE = Some (sch [(''endpoint'', isPushEndpoint U)], [])"
| "shape_of U NOTIFICATION_STATE = Some (sch [(''available'', isBoolean), (''vapidPublicKey'', isPushKey),
     (''subscriptionCount'', isSubscriptionCount)], [])"
| "shape_of U AGENT_WATCHDOG_COMMIT = Some (sch [(''sessionId'', isTokenLike), (''batchId'', isTokenLike)], [])"
| "shape_of U AGENT_WATCHDOG_DISARM = Some (sch [(''sessionId'', isTokenLike)], [])"
| "shape_of U AGENT_WATCHDOG_FIRED = Some (sch [(''sessionId'', isTokenLike)], [])"
| "shape_of U UNICOM_TIMER_EXPIRED = Some (sch [(''expiredAt'', isIsoLike)], [])"
| "shape_of U WEATHER_REQUEST = Some (sch [(''kind'', isWeatherKind), (''icao'', isIcao)],
     sch [(''source'', isWeatherSource), (''role'', isWeatherRole)])"
| "shape_of U ATIS_REQUEST = Some (sch [(''callsign'', isStationName)], [])"
| "shape_of U XPDR_SET_SQUAWK = Some (sch [(''code'', isSquawk)], [])"
| "shape_of U XPDR_SET_MODE = Some (sch [(''mode'', isXpdrMode)], [])"
| "shape_of U TX_START = Some (sch [(''com'', isCom)], [])"
| "shape_of U MONITOR_START = Some (sch [(''com'', isCom)], [])"
| "shape_of U _ = None"

definition empty_types :: "mtype list" where
  "empty_types = [PING, PONG, DEVICE_LIST, CHAT_HISTORY_REQUEST, XPDR_IDENT, UNICOM_TIMER_START,
     UNICOM_TIMER_CANCEL, TX_STOP, MONITOR_STOP]"

definition validatePayload :: "url_parser \<Rightarrow> mtype \<Rightarrow> payload \<Rightarrow> payload res" where
  "validatePayload U t p =
     (if List.member empty_types t then noExtraPayload p
      else (case shape_of U t of
          Some (required, optional) \<Rightarrow> requireShape p required optional
        | None \<Rightarrow>
            if t = STATIONS_STATE then validateStationsState p
            else if t = WEATHER_STATE then validateWeatherState p
            else if t = CHAT_HISTORY then validateChatHistory p
            else if t = AGENT_WATCHDOG_TICKET then validateAgentWatchdogTicket U p
            else if t = UNICOM_TIMER_STATE then validateUnicomTimerState p
            else Inl (js ''payload validator missing'')))"

subsection \<open>Messages\<close>

record message =
  m_id :: jstr
  m_type :: mtype
  m_payload :: payload

text \<open>The wire form of a message, as \<open>createRemoteMessage\<close> and \<open>validateRemoteMessage\<close> build it.\<close>

definition wire :: "message \<Rightarrow> json" where
  "wire m = JObj [(js ''v'', JNum (Fin 1)), (js ''id'', JStr (m_id m)),
     (js ''type'', JStr (type_name (m_type m))), (js ''payload'', JObj (m_payload m))]"

text \<open>\<open>gen\<close> is the identifier made from the clock and the random source when none is given.\<close>

definition createRemoteMessage :: "jstr \<Rightarrow> mtype \<Rightarrow> payload \<Rightarrow> jstr \<Rightarrow> message" where
  "createRemoteMessage gen t p i = \<lparr>m_id = (if i \<noteq> [] then i else gen), m_type = t, m_payload = p\<rparr>"

definition source_error :: "mtype \<Rightarrow> source \<Rightarrow> jstr" where
  "source_error t s = js ''message type '' @ type_name t @ js '' is not allowed from '' @ source_name s"

definition validateRemoteMessage :: "url_parser \<Rightarrow> source option \<Rightarrow> json \<Rightarrow> message res" where
  "validateRemoteMessage U src v =
     (case isPlainObject v of
        None \<Rightarrow> Inl (js ''message must be an object'')
      | Some m \<Rightarrow>
          if fld m ''v'' \<noteq> Some (JNum (Fin 1)) then Inl (js ''unsupported protocol version'')
          else if \<not> holds isId (fld m ''id'') then Inl (js ''invalid message id'')
          else (case known_type (fld m ''type'') of
              None \<Rightarrow> Inl (js ''unknown message type'')
            | Some t \<Rightarrow>
                (case (case src of None \<Rightarrow> None
                         | Some s \<Rightarrow> if List.member (source_rules t) s then None else Some s) of
                   Some s \<Rightarrow> Inl (source_error t s)
                 | None \<Rightarrow>
                    (case (case fld m ''payload'' of None \<Rightarrow> Some [] | Some p \<Rightarrow> isPlainObject p) of
                       None \<Rightarrow> Inl (js ''payload must be an object'')
                     | Some p \<Rightarrow> (case validatePayload U t p of
                           Inl e \<Rightarrow> Inl e
                         | Inr q \<Rightarrow> Inr \<lparr>m_id = to_str (val m ''id''), m_type = t, m_payload = q\<rparr>)))))"

text \<open>
  \<open>parseRemoteJson\<close>: the size limit first, then the platform's JSON parser \<open>parse\<close> (\<open>None\<close>
  where it throws).
\<close>

definition parseRemoteJson ::
  "(jstr \<Rightarrow> json option) \<Rightarrow> url_parser \<Rightarrow> source option \<Rightarrow> jstr \<Rightarrow> message res" where
  "parseRemoteJson parse U src text =
     (if utf8_len text > MAX_JSON_MESSAGE_BYTES then Inl (js ''message too large'')
      else (case parse text of
          None \<Rightarrow> Inl (js ''invalid json'')
        | Some v \<Rightarrow> validateRemoteMessage U src v))"

end
