(* ===== verification/ValidateFacts.thy ===== *)
theory ValidateFacts
  imports Validate
begin

section \<open>What validation guarantees\<close>

text \<open>
  The contract of the validators is \<open>normaliser\<close>: a result is accepted again and unchanged.
  \<open>requireShape\<close> satisfies it for every schema, and the structured payloads inherit it, so the
  relay and the agent can validate the same message one after the other without changing it.
\<close>

locale normaliser =
  fixes norm :: "'a \<Rightarrow> 'a res"
  assumes idem: "norm p = Inr q \<Longrightarrow> norm q = Inr q"
begin

lemma collect_idem: "collect norm xs = Inr ys \<Longrightarrow> collect norm ys = Inr ys"
  by (induction xs arbitrary: ys) (auto simp: idem split: sum.splits)

lemma twice: "norm p = Inr q \<Longrightarrow> norm q = Inr r \<Longrightarrow> r = q"
  using idem by fastforce

end

lemma collect_length: "collect f xs = Inr ys \<Longrightarrow> length ys = length xs"
  by (induction xs arbitrary: ys) (auto split: sum.splits)

subsection \<open>Shapes\<close>

lemma unexpected_None: "unexpected A p = None \<longleftrightarrow> fst ` set p \<subseteq> set A"
  by (induction A p rule: unexpected.induct) auto

lemma unexpected_Some: "unexpected A p = Some k \<Longrightarrow> k \<in> fst ` set p \<and> k \<notin> set A"
  by (induction A p rule: unexpected.induct) (auto split: if_splits)

lemma take_required_Inr:
  "take_required p R acc = Inr q \<Longrightarrow>
     (\<forall>(k, V) \<in> set R. \<exists>v. mget p k = Some v \<and> V v) \<and>
     (\<forall>k. mget q k = (if k \<in> fst ` set R then mget p k else mget acc k))"
  by (induction p R acc rule: take_required.induct) (auto split: option.splits if_splits)

lemma take_optional_Inr:
  "take_optional p Q acc = Inr q \<Longrightarrow>
     (\<forall>(k, V) \<in> set Q. \<forall>v. mget p k = Some v \<longrightarrow> V v) \<and>
     (\<forall>k. mget q k = (if k \<in> fst ` set Q \<and> mget p k \<noteq> None then mget p k else mget acc k))"
  by (induction p Q acc rule: take_optional.induct) (auto split: option.splits if_splits)

lemma take_required_cong:
  "(\<And>k. mget p k = mget q k) \<Longrightarrow> take_required p R acc = take_required q R acc"
  by (induction p R acc rule: take_required.induct) (auto split: option.splits)

lemma take_optional_cong:
  "(\<And>k. mget p k = mget q k) \<Longrightarrow> take_optional p Q acc = take_optional q Q acc"
  by (induction p Q acc rule: take_optional.induct) (auto split: option.splits)

lemma requireShape_Inr:
  assumes "requireShape p R Q = Inr q"
  shows requireShape_allowed: "fst ` set p \<subseteq> fst ` set R \<union> fst ` set Q"
    and requireShape_required: "\<forall>(k, V) \<in> set R. \<exists>v. mget q k = Some v \<and> V v"
    and requireShape_optional: "\<forall>(k, V) \<in> set Q. \<forall>v. mget q k = Some v \<longrightarrow> V v"
    and requireShape_mget: "mget q k = mget p k"
proof -
  from assms obtain acc where u: "unexpected (map fst R @ map fst Q) p = None"
    and r: "take_required p R [] = Inr acc" and o: "take_optional p Q acc = Inr q"
    by (auto simp: requireShape_def split: option.splits sum.splits)
  show a: "fst ` set p \<subseteq> fst ` set R \<union> fst ` set Q" using u by (simp add: unexpected_None)
  have m: "mget q k = mget p k" for k
  proof (cases "k \<in> fst ` set p")
    case True
    then have "mget p k \<noteq> None" "k \<in> fst ` set R \<union> fst ` set Q"
      using a by (auto simp: map_of_eq_None_iff)
    then show ?thesis using take_required_Inr [OF r] take_optional_Inr [OF o] by auto
  next
    case False
    then have "mget p k = None" by (simp add: map_of_eq_None_iff)
    then show ?thesis using take_required_Inr [OF r] take_optional_Inr [OF o]
      by (auto split: if_splits)
  qed
  show "mget q k = mget p k" by (rule m)
  show "\<forall>(k, V) \<in> set R. \<exists>v. mget q k = Some v \<and> V v"
    using take_required_Inr [OF r] m by auto
  show "\<forall>(k, V) \<in> set Q. \<forall>v. mget q k = Some v \<longrightarrow> V v"
    using take_optional_Inr [OF o] m by auto
qed

lemma mget_keys: "(\<And>k. mget p k = mget q k) \<Longrightarrow> fst ` set p = fst ` set q"
  by (metis (no_types, lifting) map_of_eq_None_iff set_eqI)

lemma requireShape_idem: "requireShape p R Q = Inr q \<Longrightarrow> requireShape q R Q = Inr q"
proof -
  assume a: "requireShape p R Q = Inr q"
  have m: "mget q k = mget p k" for k by (rule requireShape_mget [OF a])
  have k: "fst ` set q = fst ` set p" by (rule mget_keys) (rule m)
  have "unexpected (map fst R @ map fst Q) q = None"
    using requireShape_allowed [OF a] k by (simp add: unexpected_None)
  with a show ?thesis
    unfolding requireShape_def
    by (auto simp: take_required_cong [of q p, OF m] take_optional_cong [of q p, OF m]
        split: option.splits sum.splits)
qed

interpretation shape: normaliser "\<lambda>p. requireShape p R Q" for R Q
  by unfold_locales (rule requireShape_idem)

interpretation chat: normaliser validateChatMessagePayload
  by unfold_locales (simp add: validateChatMessagePayload_def requireShape_idem)

subsection \<open>Structured payloads\<close>

lemma history_item_idem: "history_item m = Inr q \<Longrightarrow> history_item q = Inr q"
  by (auto simp: history_item_def isPlainObject_def dest: chat.idem split: json.splits option.splits sum.splits)

interpretation history: normaliser history_item
  by unfold_locales (rule history_item_idem)

lemma validateChatHistory_shape:
  assumes "validateChatHistory p = Inr q"
  obtains ms ms' where "length ms \<le> 50" "collect history_item ms = Inr ms'" "q = [(js ''messages'', JArr ms')]"
proof (cases "fld p ''messages''")
  case None
  with assms show ?thesis by (simp add: validateChatHistory_def split: if_splits)
next
  case (Some v)
  with assms obtain ms where v: "v = JArr ms"
    unfolding validateChatHistory_def by (cases v) (simp_all split: if_splits)
  obtain ms' where "length ms \<le> 50" "collect history_item ms = Inr ms'" "q = [(js ''messages'', JArr ms')]"
    using assms unfolding validateChatHistory_def Some v by (auto split: if_splits sum.splits)
  then show ?thesis by (rule that)
qed

lemma validateChatHistory_idem: "validateChatHistory p = Inr q \<Longrightarrow> validateChatHistory q = Inr q"
  by (erule validateChatHistory_shape)
     (simp add: validateChatHistory_def history.collect_idem collect_length)

lemma holds_Some: "holds V x \<Longrightarrow> \<exists>v. x = Some v \<and> V v"
  by (auto simp: holds_def split: option.splits)

lemma val_Some: "fld p k = Some v \<Longrightarrow> val p k = v"
  by (simp add: val_def)

lemma validateUnicomTimerState_cases:
  assumes "validateUnicomTimerState p = Inr q"
  obtains (inactive) "q = [(js ''active'', JBool False)]"
  | (active) s e where "isIsoLike s" "isIsoLike e"
      "q = [(js ''active'', JBool True), (js ''startedAt'', s), (js ''expiresAt'', e)]"
proof (cases "opt_truthy (fld p ''active'')")
  case True
  then have h: "holds isIsoLike (fld p ''startedAt'')" "holds isIsoLike (fld p ''expiresAt'')"
    and q: "q = [(js ''active'', JBool True), (js ''startedAt'', val p ''startedAt''),
      (js ''expiresAt'', val p ''expiresAt'')]"
    using assms unfolding validateUnicomTimerState_def by (simp_all split: option.splits if_splits)
  obtain s e where "fld p ''startedAt'' = Some s" "isIsoLike s" "fld p ''expiresAt'' = Some e" "isIsoLike e"
    using h [THEN holds_Some] by blast
  with active q show thesis by (simp only: val_Some)
next
  case False
  then show thesis
    using assms inactive unfolding validateUnicomTimerState_def by (simp split: option.splits if_splits)
qed

lemma validateUnicomTimerState_idem:
  "validateUnicomTimerState p = Inr q \<Longrightarrow> validateUnicomTimerState q = Inr q"
  by (erule validateUnicomTimerState_cases)
     (simp_all add: validateUnicomTimerState_def holds_def isBoolean_def opt_truthy_def val_def)

lemma validateAgentWatchdogTicket_idem:
  "validateAgentWatchdogTicket U p = Inr q \<Longrightarrow> validateAgentWatchdogTicket U q = Inr q"
  by (auto simp: validateAgentWatchdogTicket_def holds_def val_def isPlainObject_def
      dest: requireShape_idem split: if_splits option.splits json.splits sum.splits)

lemma or_else_idem [simp]: "or_else (Some (or_else v d)) d = or_else v d"
  by (auto simp: or_else_def split: option.splits)

lemma icao_or_empty_idem: "icao_or_empty v = Some x \<Longrightarrow> icao_or_empty (Some x) = Some x"
  by (auto simp: icao_or_empty_def Let_def split: if_splits)

lemma normalizeFlightPlanSnapshot_idem:
  "normalizeFlightPlanSnapshot v = Some w \<Longrightarrow> normalizeFlightPlanSnapshot w = Some w"
  by (auto simp: normalizeFlightPlanSnapshot_def isPlainObject_def dest: icao_or_empty_idem
      split: if_splits option.splits json.splits)

lemma normalizeWeatherEntry_cases:
  "normalizeWeatherEntry e = JNull \<or> (\<exists>p. normalizeWeatherEntry e = JObj p)"
  by (auto simp: normalizeWeatherEntry_def split: option.splits json.splits)

lemma isShortishText_Nil [simp]: "isShortishText n (JStr [])"
  by (simp add: isShortishText_def str_test_def)

lemma normalizeWeatherEntry_shape:
  obtains (null) "normalizeWeatherEntry e = JNull"
  | (entry) t r c where "isShortishText 4096 t" "isIsoLike r" "isShortishText 64 (or_else c (JStr []))"
      "normalizeWeatherEntry e = JObj [(js ''text'', t), (js ''receivedAt'', r),
         (js ''source'', or_else c (JStr []))]"
proof -
  have o: "absent_or (isShortishText 64) s \<Longrightarrow> isShortishText 64 (or_else s (JStr []))" for s
    by (auto simp: absent_or_def or_else_def split: option.splits)
  show thesis
  proof (cases "normalizeWeatherEntry e = JNull")
    case False
    then obtain p where p: "e = Some (JObj p)"
      by (auto simp: normalizeWeatherEntry_def split: option.splits json.splits)
    have h: "holds (isShortishText 4096) (fld p ''text'')" "holds isIsoLike (fld p ''receivedAt'')"
      "absent_or (isShortishText 64) (fld p ''source'')"
      and q: "normalizeWeatherEntry e = JObj [(js ''text'', val p ''text''),
        (js ''receivedAt'', val p ''receivedAt''), (js ''source'', or_else (fld p ''source'') (JStr []))]"
      using False unfolding p normalizeWeatherEntry_def by (simp_all split: if_splits)
    obtain t r where "fld p ''text'' = Some t" "isShortishText 4096 t"
      "fld p ''receivedAt'' = Some r" "isIsoLike r"
      using h(1,2) [THEN holds_Some] by blast
    with entry q o [OF h(3)] show thesis by (simp only: val_Some)
  qed (rule null)
qed

lemma normalizeWeatherEntry_idem:
  "normalizeWeatherEntry (Some (normalizeWeatherEntry e)) = normalizeWeatherEntry e"
  by (rule normalizeWeatherEntry_shape [of e])
     (simp_all add: normalizeWeatherEntry_def holds_def val_def absent_or_def)

lemma normalizeWeatherSlot_shape:
  assumes "normalizeWeatherSlot v = Some w"
  obtains i x m t where "icao_or_empty i = Some x"
    "w = JObj [(js ''icao'', x), (js ''metar'', normalizeWeatherEntry m), (js ''taf'', normalizeWeatherEntry t)]"
proof -
  obtain p where p: "v = JObj p"
    using assms by (auto simp: normalizeWeatherSlot_def isPlainObject_def split: json.splits)
  obtain x where "icao_or_empty (fld p ''icao'') = Some x"
    using assms unfolding p by (auto simp: normalizeWeatherSlot_def isPlainObject_def split: if_splits option.splits)
  moreover from this have "w = JObj [(js ''icao'', x), (js ''metar'', normalizeWeatherEntry (fld p ''metar'')),
      (js ''taf'', normalizeWeatherEntry (fld p ''taf''))]"
    using assms unfolding p by (simp add: normalizeWeatherSlot_def isPlainObject_def Let_def split: if_splits)
  ultimately show thesis by (rule that)
qed

lemma normalizeWeatherSlot_idem:
  "normalizeWeatherSlot v = Some w \<Longrightarrow> normalizeWeatherSlot w = Some w"
  by (erule normalizeWeatherSlot_shape)
     (simp add: normalizeWeatherSlot_def isPlainObject_def Let_def normalizeWeatherEntry_idem
        opt_truthy_def icao_or_empty_idem)

lemma normalizeWeatherSlot_obj: "normalizeWeatherSlot v = Some w \<Longrightarrow> \<exists>p. w = JObj p"
  by (auto simp: normalizeWeatherSlot_def Let_def split: if_splits option.splits)

lemma or_else_obj: "or_else (Some (JObj p)) d = JObj p"
  by (simp add: or_else_def)

lemma normalizeWeatherSnapshot_idem:
  "normalizeWeatherSnapshot v = Some w \<Longrightarrow> normalizeWeatherSnapshot w = Some w"
proof -
  assume "normalizeWeatherSnapshot v = Some w"
  then obtain d e x y where w: "w = JObj [(js ''departure'', d), (js ''destination'', e)]"
    and d: "normalizeWeatherSlot x = Some d" and e: "normalizeWeatherSlot y = Some e"
    by (auto simp: normalizeWeatherSnapshot_def split: if_splits option.splits)
  obtain dp ep where p: "d = JObj dp" "e = JObj ep"
    using normalizeWeatherSlot_obj d e by blast
  show ?thesis
    using normalizeWeatherSlot_idem [OF d] normalizeWeatherSlot_idem [OF e]
    by (simp add: w p normalizeWeatherSnapshot_def isPlainObject_def or_else_obj)
qed

lemma normalizeFlightPlanSnapshot_obj: "normalizeFlightPlanSnapshot v = Some w \<Longrightarrow> \<exists>p. w = JObj p"
  by (auto simp: normalizeFlightPlanSnapshot_def split: if_splits option.splits)

lemma normalizeWeatherSnapshot_obj: "normalizeWeatherSnapshot v = Some w \<Longrightarrow> \<exists>p. w = JObj p"
  by (auto simp: normalizeWeatherSnapshot_def split: if_splits option.splits)

lemma validateWeatherState_idem:
  "validateWeatherState p = Inr q \<Longrightarrow> validateWeatherState q = Inr q"
proof -
  assume "validateWeatherState p = Inr q"
  then obtain s fp w x y where s: "isFlightPlanStatus s"
    and q: "q = [(js ''flightPlanStatus'', s), (js ''flightPlan'', fp), (js ''weatherState'', w)]"
    and fp: "normalizeFlightPlanSnapshot x = Some fp" and w: "normalizeWeatherSnapshot y = Some w"
    by (auto simp: validateWeatherState_def holds_def val_def split: if_splits option.splits)
  obtain fpp wp where p: "fp = JObj fpp" "w = JObj wp"
    using normalizeFlightPlanSnapshot_obj [OF fp] normalizeWeatherSnapshot_obj [OF w] by blast
  show ?thesis
    using normalizeFlightPlanSnapshot_idem [OF fp] normalizeWeatherSnapshot_idem [OF w] s
    by (simp add: q p validateWeatherState_def holds_def val_def or_else_obj)
qed

text \<open>A station snapshot is rebuilt from five fields, three of them optional.\<close>

definition station_obj :: "json \<Rightarrow> json \<Rightarrow> json option \<Rightarrow> json option \<Rightarrow> json option \<Rightarrow> json" where
  "station_obj c f lat lon voice = JObj ([(js ''callsign'', c), (js ''freq'', f)]
     @ opt_pair ''lat'' lat @ opt_pair ''lon'' lon @ opt_pair ''voice'' voice)"

definition station_ok :: "json \<Rightarrow> json \<Rightarrow> json option \<Rightarrow> json option \<Rightarrow> json option \<Rightarrow> bool" where
  "station_ok c f lat lon voice \<longleftrightarrow> isStationName c \<and> truthy c \<and> (f = JStr [] \<or> isFrequency f)
     \<and> absent_or (isCoordinate (-90) 90) lat \<and> absent_or (isCoordinate (-180) 180) lon
     \<and> absent_or (\<lambda>v. v = JStr [] \<or> isShortishText 256 v) voice"

lemma or_else_Nil_freq: "f = JStr [] \<or> isFrequency f \<Longrightarrow> or_else (Some f) (JStr []) = f"
  by (auto simp: or_else_def isFrequency_def str_test_def split: json.splits)

lemma or_else_text: "v = JStr [] \<or> isShortishText n v \<Longrightarrow> or_else (Some v) (JStr []) = v"
  by (auto simp: or_else_def isShortishText_def str_test_def split: json.splits)

lemma normalizeStationSnapshot_obj:
  assumes "station_ok c f lat lon voice"
  shows "normalizeStationSnapshot (station_obj c f lat lon voice) = Some (station_obj c f lat lon voice)"
proof -
  have f: "or_else (Some f) (JStr []) = f" "f = JStr [] \<or> isFrequency f"
    using assms or_else_Nil_freq by (auto simp: station_ok_def)
  have v: "voice = Some v \<Longrightarrow> or_else (Some v) (JStr []) = v" for v
    using assms or_else_text [of v 256] by (auto simp: station_ok_def absent_or_def)
  show ?thesis
    using assms f v
    by (cases lat; cases lon; cases voice)
       (simp_all add: normalizeStationSnapshot_def station_obj_def station_ok_def isPlainObject_def
          opt_pair_def holds_def opt_truthy_def val_def absent_or_def)
qed

lemma normalizeStationSnapshot_shape:
  assumes "normalizeStationSnapshot v = Some w"
  shows "\<exists>c f lat lon voice. station_ok c f lat lon voice \<and> w = station_obj c f lat lon voice"
proof -
  obtain p where p: "v = JObj p"
    using assms by (auto simp: normalizeStationSnapshot_def isPlainObject_def split: json.splits)
  have h: "holds isStationName (fld p ''callsign'')" "opt_truthy (fld p ''callsign'')"
    "absent_or (\<lambda>v. v = JStr [] \<or> isFrequency v) (fld p ''freq'')"
    "absent_or (isCoordinate (-90) 90) (fld p ''lat'')" "absent_or (isCoordinate (-180) 180) (fld p ''lon'')"
    "absent_or (\<lambda>v. v = JStr [] \<or> isShortishText 256 v) (fld p ''voice'')"
    and w: "w = JObj ([(js ''callsign'', val p ''callsign''), (js ''freq'', or_else (fld p ''freq'') (JStr []))]
      @ opt_pair ''lat'' (fld p ''lat'') @ opt_pair ''lon'' (fld p ''lon'')
      @ (case fld p ''voice'' of None \<Rightarrow> [] | v \<Rightarrow> [(js ''voice'', or_else v (JStr []))]))"
    using assms unfolding p normalizeStationSnapshot_def isPlainObject_def
    by (simp_all split: if_splits)
  obtain c where c: "fld p ''callsign'' = Some c" "isStationName c" "truthy c"
    using h(1,2) by (auto simp: holds_def opt_truthy_def split: option.splits)
  let ?vo = "map_option (\<lambda>v. or_else (Some v) (JStr [])) (fld p ''voice'')"
  let ?f = "or_else (fld p ''freq'') (JStr [])"
  have f: "?f = JStr [] \<or> isFrequency ?f"
    using h(3) by (auto simp: absent_or_def or_else_def split: option.splits)
  have vo: "absent_or (\<lambda>v. v = JStr [] \<or> isShortishText 256 v) ?vo"
    using h(6) by (auto simp: absent_or_def or_else_def split: option.splits)
  have "station_ok c ?f (fld p ''lat'') (fld p ''lon'') ?vo"
    unfolding station_ok_def using c f vo h(4,5) by blast
  moreover have "w = station_obj c ?f (fld p ''lat'') (fld p ''lon'') ?vo"
    unfolding w station_obj_def using val_Some [OF c(1)]
    by (simp add: opt_pair_def split: option.splits)
  ultimately show ?thesis by blast
qed

interpretation station: normaliser station_item
proof
  fix v w
  assume "station_item v = Inr w"
  then have "normalizeStationSnapshot v = Some w"
    by (simp add: station_item_def split: option.splits)
  from normalizeStationSnapshot_shape [OF this] obtain c f lat lon voice
    where "station_ok c f lat lon voice" "w = station_obj c f lat lon voice" by blast
  then show "station_item w = Inr w"
    by (simp add: station_item_def normalizeStationSnapshot_obj)
qed

lemma own_position_idem:
  "isOwnPosition v \<Longrightarrow> isOwnPosition (own_position v) \<and> own_position (own_position v) = own_position v"
  by (auto simp: isOwnPosition_def own_position_def val_def split: json.splits option.splits)

lemma validateStationsState_shape:
  assumes "validateStationsState p = Inr q"
  obtains ss ss' pos where "length ss \<le> 250" "collect station_item ss = Inr ss'"
    "absent_or isOwnPosition pos"
    "q = (js ''stations'', JArr ss') # opt_pair ''ownPosition'' (map_option own_position pos)"
proof (cases "fld p ''stations''")
  case None
  with assms show ?thesis by (simp add: validateStationsState_def split: option.splits)
next
  case (Some v)
  with assms obtain ss where v: "v = JArr ss"
    unfolding validateStationsState_def by (cases v) (simp_all split: option.splits)
  obtain ss' where ss: "collect station_item ss = Inr ss'" "length ss \<le> 250"
    using assms unfolding validateStationsState_def Some v
    by (auto split: option.splits if_splits sum.splits)
  with assms have "absent_or isOwnPosition (fld p ''ownPosition'')"
    "q = (js ''stations'', JArr ss') # opt_pair ''ownPosition'' (map_option own_position (fld p ''ownPosition''))"
    unfolding validateStationsState_def Some v
    by (auto simp: absent_or_def opt_pair_def split: option.splits if_splits)
  then show ?thesis by (rule that [OF ss(2,1)])
qed

lemma validateStationsState_idem:
  "validateStationsState p = Inr q \<Longrightarrow> validateStationsState q = Inr q"
proof -
  assume "validateStationsState p = Inr q"
  then obtain ss ss' pos where s: "length ss \<le> 250" "collect station_item ss = Inr ss'"
    and pos: "absent_or isOwnPosition pos"
    and q: "q = (js ''stations'', JArr ss') # opt_pair ''ownPosition'' (map_option own_position pos)"
    by (rule validateStationsState_shape)
  have "collect station_item ss' = Inr ss'" "length ss' \<le> 250"
    using s(1) station.collect_idem [OF s(2)] collect_length [OF s(2)] by auto
  then show ?thesis
    using pos own_position_idem
    by (cases pos) (simp_all add: q validateStationsState_def opt_pair_def absent_or_def)
qed

subsection \<open>The whole contract\<close>

lemma noExtraPayload_idem: "noExtraPayload p = Inr q \<Longrightarrow> noExtraPayload q = Inr q"
  by (auto simp: noExtraPayload_def split: if_splits)

lemma validatePayload_idem: "validatePayload U t p = Inr q \<Longrightarrow> validatePayload U t q = Inr q"
  unfolding validatePayload_def
  by (auto simp: noExtraPayload_idem validateStationsState_idem validateWeatherState_idem
      validateChatHistory_idem validateAgentWatchdogTicket_idem validateUnicomTimerState_idem
      requireShape_idem split: if_splits option.splits)

lemma validateRemoteMessage_Inr:
  assumes "validateRemoteMessage U src v = Inr m"
  shows validated_id: "isId (JStr (m_id m))"
    and validated_source: "src = Some s \<Longrightarrow> s \<in> set (source_rules (m_type m))"
    and validated_payload: "\<exists>p. validatePayload U (m_type m) p = Inr (m_payload m)"
proof -
  obtain o' where v: "v = JObj o'"
    using assms by (auto simp: validateRemoteMessage_def isPlainObject_def split: json.splits)
  obtain i t p q where i: "fld o' ''id'' = Some i" "isId i" and t: "known_type (fld o' ''type'') = Some t"
    and s: "\<And>s. src = Some s \<Longrightarrow> s \<in> set (source_rules t)"
    and p: "validatePayload U t p = Inr q"
    and m: "m = \<lparr>m_id = to_str (val o' ''id''), m_type = t, m_payload = q\<rparr>"
    using assms unfolding v validateRemoteMessage_def isPlainObject_def
    by (fastforce dest: holds_Some split: if_splits option.splits sum.splits)
  obtain x where x: "i = JStr x" using i(2) by (auto simp: isId_def str_test_def split: json.splits)
  have idx: "m_id m = x" using i(1) x by (simp add: m val_Some)
  show "isId (JStr (m_id m))" using i(2) x idx by simp
  show "src = Some s \<Longrightarrow> s \<in> set (source_rules (m_type m))" using s m by simp
  show "\<exists>p. validatePayload U (m_type m) p = Inr (m_payload m)" using p m by auto
qed

lemma validateRemoteMessage_wire:
  assumes "isId (JStr (m_id m))" "validatePayload U (m_type m) (m_payload m) = Inr (m_payload m)"
    and "\<And>s. src = Some s \<Longrightarrow> s \<in> set (source_rules (m_type m))"
  shows "validateRemoteMessage U src (wire m) = Inr m"
proof -
  have "(case src of None \<Rightarrow> None | Some s \<Rightarrow> if List.member (source_rules (m_type m)) s then None else Some s) = None"
    using assms(3) by (auto split: option.splits)
  then show ?thesis using assms(1,2)
    by (simp add: validateRemoteMessage_def wire_def isPlainObject_def holds_def val_def)
qed

end
