(* ===== verification/Versions.thy ===== *)
theory Versions
  imports JNumbers Validate
begin

section \<open>Version comparison (packages/protocol/index.js)\<close>

text \<open>
  \<open>compareVersions\<close> decides whether an agent is too old. It returns a Number whose sign is
  used; the model returns the sign. \<open>coll\<close> is the collator behind \<open>localeCompare\<close> with the
  numeric option, a parameter.
\<close>

record version =
  v_parts :: "jnum list"
  v_prerelease :: jstr

definition strip_v :: "jstr \<Rightarrow> jstr" where
  "strip_v s = (case s of [] \<Rightarrow> [] | c # t \<Rightarrow> if c = 118 \<or> c = 86 then t else s)"

definition normalizeVersionText :: "json option \<Rightarrow> jstr" where
  "normalizeVersionText v = strip_v (trim (str_or_empty v))"

text \<open>The groups \<open>(?:\.[0-9]+){0,n}\<close>, taken greedily, with the rest of the text.\<close>

fun dot_groups :: "nat \<Rightarrow> jstr \<Rightarrow> jstr list \<times> jstr" where
  "dot_groups 0 s = ([], s)"
| "dot_groups (Suc n) s =
     (case s of
        [] \<Rightarrow> ([], s)
      | c # t \<Rightarrow>
          if c \<noteq> 46 then ([], s)
          else (let (d, r) = span is_digit t
                in if d = [] then ([], s) else (let (gs, r') = dot_groups n r in (d # gs, r'))))"

definition prerelease_of :: "jstr \<Rightarrow> jstr" where
  "prerelease_of s = (case s of [] \<Rightarrow> [] | c # t \<Rightarrow>
     if c = 45 then takeWhile (\<lambda>c. alnum c \<or> one_of ''.:-'' c) t else [])"

definition parseVersion :: "json option \<Rightarrow> version option" where
  "parseVersion v =
     (let (d, r) = span is_digit (normalizeVersionText v); (gs, r') = dot_groups 3 r
      in if d = [] \<or> gs = [] then None
         else (let parts = map to_number (d # gs)
               in Some \<lparr>v_parts = parts @ replicate (4 - length parts) (Fin 0),
                        v_prerelease = prerelease_of r'\<rparr>))"

fun compare_parts :: "jnum list \<Rightarrow> jnum list \<Rightarrow> int" where
  "compare_parts (x # xs) (y # ys) =
     (if x \<noteq> y then (if jlt x y then -1 else 1) else compare_parts xs ys)"
| "compare_parts _ _ = 0"

definition compareVersions :: "(jstr \<Rightarrow> jstr \<Rightarrow> int) \<Rightarrow> json option \<Rightarrow> json option \<Rightarrow> int" where
  "compareVersions coll l r =
     (case (parseVersion l, parseVersion r) of
        (Some a, Some b) \<Rightarrow>
          (let c = compare_parts (v_parts a) (v_parts b) in
           if c \<noteq> 0 then c
           else if v_prerelease a = v_prerelease b then 0
           else if v_prerelease a = [] then 1
           else if v_prerelease b = [] then -1
           else coll (v_prerelease a) (v_prerelease b))
      | _ \<Rightarrow> 0)"

subsection \<open>The order\<close>

lemma jneg_not_NaN: "x \<noteq> NaN \<Longrightarrow> jneg x \<noteq> NaN"
  by (cases x) auto

lemma fl_not_NaN: "fl q \<noteq> NaN"
  by (simp add: fl_def fl_pos_def Let_def jneg_not_NaN)

lemma to_number_digits:
  assumes "s \<noteq> []" "list_all is_digit s"
  shows "to_number s = fl (of_nat (dec_value s))"
proof -
  have "\<forall>c \<in> set s. \<not> is_ws c" using assms(2) by (auto simp: list_all_iff is_digit_def is_ws_def)
  then have t: "trim s = s" by (rule trim_no_ws)
  have sp: "takeWhile is_digit s = s" "dropWhile is_digit s = []"
    using assms(2) by (simp_all add: list_all_iff)
  have p: "parse_unsigned s = Some (of_nat (dec_value s))"
    using assms(1) by (simp add: parse_unsigned_def span_def sp pow10_def)
  obtain c r where c: "s = c # r" "is_digit c" using assms by (cases s) auto
  have i: "s \<noteq> js ''Infinity''" using c by (auto simp: js_def is_digit_def)
  have u: "unsigned_number s = fl (of_nat (dec_value s))" using p i by (simp add: unsigned_number_def)
  have "x \<noteq> 120 \<and> x \<noteq> 88 \<and> x \<noteq> 111 \<and> x \<noteq> 79 \<and> x \<noteq> 98 \<and> x \<noteq> 66" if "x \<in> set s" for x
    using assms(2) that by (auto simp: list_all_iff is_digit_def)
  then show ?thesis
    using c u t by (cases r) (auto simp: to_number_def is_digit_def Let_def)
qed

lemma dot_groups_digits: "dot_groups n s = (gs, r) \<Longrightarrow> list_all (\<lambda>g. g \<noteq> [] \<and> list_all is_digit g) gs"
proof (induction n s arbitrary: gs r rule: dot_groups.induct)
  case (2 n s)
  show ?case
  proof (cases "\<exists>t d r'. s = 46 # t \<and> span is_digit t = (d, r') \<and> d \<noteq> []")
    case True
    then obtain t d r' where s: "s = 46 # t" "span is_digit t = (d, r')" "d \<noteq> []" by blast
    obtain hs q where h: "dot_groups n r' = (hs, q)" by force
    have "list_all is_digit d" using s(2) by (auto simp: span_def list_all_iff dest: set_takeWhileD)
    then show ?thesis using "2.IH" [of 46 t "(d, r')" d r' hs q] "2.prems" s h by auto
  next
    case False
    with "2.prems" have "gs = []" by (auto split: list.splits if_splits prod.splits)
    then show ?thesis by simp
  qed
qed simp

lemma dot_groups_length: "dot_groups n s = (gs, r) \<Longrightarrow> length gs \<le> n"
proof (induction n s arbitrary: gs r rule: dot_groups.induct)
  case (2 n s)
  then show ?case by (fastforce split: list.splits if_splits prod.splits)
qed simp

lemma parseVersion_parts:
  assumes "parseVersion v = Some a"
  shows "length (v_parts a) = 4" and "x \<in> set (v_parts a) \<Longrightarrow> x \<noteq> NaN"
proof -
  obtain d r gs r' where d: "span is_digit (normalizeVersionText v) = (d, r)" "dot_groups 3 r = (gs, r')" "d \<noteq> []"
    and a: "v_parts a = map to_number (d # gs) @ replicate (4 - length (d # gs)) (Fin 0)"
    using assms by (auto simp: parseVersion_def Let_def split: prod.splits if_splits)
  show "length (v_parts a) = 4" using dot_groups_length [OF d(2)] by (simp add: a)
  have "list_all is_digit d" using d(1) by (auto simp: span_def list_all_iff dest: set_takeWhileD)
  then have "list_all (\<lambda>g. g \<noteq> [] \<and> list_all is_digit g) (d # gs)"
    using d(3) dot_groups_digits [OF d(2)] by simp
  then have "list_all (\<lambda>x. x \<noteq> NaN) (map to_number (d # gs))"
    by (simp only: list.pred_map) (auto simp: list_all_iff to_number_digits fl_not_NaN)
  then show "x \<in> set (v_parts a) \<Longrightarrow> x \<noteq> NaN" unfolding a list_all_iff by auto
qed

lemma jlt_total: "x \<noteq> NaN \<Longrightarrow> y \<noteq> NaN \<Longrightarrow> x \<noteq> y \<Longrightarrow> jlt x y \<or> jlt y x"
  by (cases x; cases y) auto

lemma jlt_asym: "jlt x y \<Longrightarrow> \<not> jlt y x"
  by (cases x; cases y) auto

lemma jlt_trans: "jlt x y \<Longrightarrow> jlt y z \<Longrightarrow> jlt x z"
  by (cases x; cases y; cases z) auto

lemma jlt_irrefl [simp]: "\<not> jlt x x"
  by (cases x) auto

lemma compare_parts_swap:
  "\<forall>x \<in> set xs. x \<noteq> NaN \<Longrightarrow> \<forall>y \<in> set ys. y \<noteq> NaN \<Longrightarrow> compare_parts xs ys = - compare_parts ys xs"
  by (induction xs ys rule: compare_parts.induct) (auto dest: jlt_asym jlt_total)

lemma compare_parts_values: "compare_parts xs ys \<in> {-1, 0, 1}"
  by (induction xs ys rule: compare_parts.induct) auto

lemma compare_parts_0: "length xs = length ys \<Longrightarrow> compare_parts xs ys = 0 \<longleftrightarrow> xs = ys"
  by (induction xs ys rule: compare_parts.induct) auto

lemma compare_parts_trans:
  "length xs = length ys \<Longrightarrow> length ys = length zs \<Longrightarrow>
   compare_parts xs ys = -1 \<Longrightarrow> compare_parts ys zs = -1 \<Longrightarrow> compare_parts xs zs = -1"
proof (induction xs ys arbitrary: zs rule: compare_parts.induct)
  case (1 x xs y ys)
  then obtain z zs' where z: "zs = z # zs'" by (cases zs) auto
  show ?case using 1 jlt_trans [of x y z] jlt_asym [of x y] by (auto simp: z split: if_splits)
qed auto

lemma compareVersions_refl [simp]: "compareVersions coll v v = 0"
  by (simp add: compareVersions_def compare_parts_0 split: option.splits)

end
