(* ===== verification/Freq.thy ===== *)
theory Freq
  imports JNumbers Validate
begin

section \<open>Frequency texts\<close>

text \<open>
  A frequency is written in MHz with three decimals. \<open>freq_text a b c d e\<close> is such a text and
  \<open>freq_khz\<close> the kHz it denotes. The lemmas connect the regular expression, \<open>Number\<close> and the
  floating-point comparisons: the checks of the code are exact checks on the kHz.
\<close>

definition freq_text :: "nat \<Rightarrow> nat \<Rightarrow> nat \<Rightarrow> nat \<Rightarrow> nat \<Rightarrow> jstr" where
  "freq_text a b c d e = [49, 48 + a, 48 + b, 46, 48 + c, 48 + d, 48 + e]"

definition freq_khz :: "nat \<Rightarrow> nat \<Rightarrow> nat \<Rightarrow> nat \<Rightarrow> nat \<Rightarrow> nat" where
  "freq_khz a b c d e = 100000 + 10000 * a + 1000 * b + 100 * c + 10 * d + e"

definition digits5 :: "nat \<Rightarrow> nat \<Rightarrow> nat \<Rightarrow> nat \<Rightarrow> nat \<Rightarrow> bool" where
  "digits5 a b c d e \<longleftrightarrow> a < 10 \<and> b < 10 \<and> c < 10 \<and> d < 10 \<and> e < 10"

lemma is_digit_add: "is_digit (48 + a) \<longleftrightarrow> a < 10"
  by (auto simp: is_digit_def)

lemma is_digit_ex: "is_digit c \<longleftrightarrow> (\<exists>a < 10. c = 48 + a)"
  unfolding is_digit_def
  by (metis (no_types) add_le_cancel_left le_add1 le_iff_add less_Suc_eq_le numeral_plus_numeral
      add_num_simps(8) eval_nat_numeral(3) numeral_nat(7) is_digit_add is_digit_def)

lemma length_Suc: "length s = Suc n \<longleftrightarrow> (\<exists>x t. s = x # t \<and> length t = n)"
  by (cases s) auto

lemma rx_freq: "rx_match freq_rx s \<longleftrightarrow> (\<exists>a b c d e. digits5 a b c d e \<and> s = freq_text a b c d e)"
proof
  assume "rx_match freq_rx s"
  then obtain u v where "s = js ''1'' @ u @ js ''.'' @ v" "length u = 2" "list_all is_digit u"
    "length v = 3" "list_all is_digit v"
    by (fastforce simp: rx_match_iff freq_rx_def)
  moreover have "js ''1'' = [49]" "js ''.'' = [46]" by (simp_all add: js_def)
  ultimately show "\<exists>a b c d e. digits5 a b c d e \<and> s = freq_text a b c d e"
    by (fastforce simp: length_Suc numeral_2_eq_2 numeral_3_eq_3 is_digit_ex freq_text_def digits5_def)
next
  assume "\<exists>a b c d e. digits5 a b c d e \<and> s = freq_text a b c d e"
  then obtain a b c d e where "digits5 a b c d e" "s = freq_text a b c d e" by blast
  then have s: "s = js ''1'' @ [48 + a, 48 + b] @ js ''.'' @ [48 + c, 48 + d, 48 + e] @ []"
    and "list_all is_digit [48 + a, 48 + b]" "list_all is_digit [48 + c, 48 + d, 48 + e]"
    by (simp_all add: freq_text_def digits5_def is_digit_add js_def)
  then have "[48 + a, 48 + b] \<in> rx_lang (Reps is_digit 2 2)"
    "[48 + c, 48 + d, 48 + e] \<in> rx_lang (Reps is_digit 3 3)" by simp_all
  then show "rx_match freq_rx s"
    unfolding rx_match_iff freq_rx_def seqs.simps rx_lang.simps rx_lang_lit s by blast
qed

lemma freq_text_trim: "digits5 a b c d e \<Longrightarrow> trim (freq_text a b c d e) = freq_text a b c d e"
  by (rule trim_fixed) (simp add: freq_text_def digits5_def is_ws_def)

lemma freq_text_number:
  assumes "digits5 a b c d e"
  shows "to_number (freq_text a b c d e) = fl (of_nat (freq_khz a b c d e) / 1000)"
proof -
  have d: "is_digit (48 + a)" "is_digit (48 + b)" "is_digit (48 + c)" "is_digit (48 + d)" "is_digit (48 + e)"
    using assms by (simp_all add: digits5_def is_digit_add)
  have n: "\<not> is_digit 46" "is_digit 49" by (simp_all add: is_digit_def)
  have ip: "span is_digit (freq_text a b c d e) = ([49, 48 + a, 48 + b], [46, 48 + c, 48 + d, 48 + e])"
    using d n by (simp add: span_def freq_text_def)
  have fp: "span is_digit [48 + c, 48 + d, 48 + e] = ([48 + c, 48 + d, 48 + e], [])"
    using d by (simp add: span_def)
  have v: "dec_value ([49, 48 + a, 48 + b] @ [48 + c, 48 + d, 48 + e]) = freq_khz a b c d e"
    by (simp add: dec_value_def freq_khz_def)
  have p: "parse_unsigned (freq_text a b c d e) = Some (of_nat (freq_khz a b c d e) / 1000)"
    unfolding parse_unsigned_def ip using fp v by (simp add: pow10_def Let_def)
  have "to_number (freq_text a b c d e) = unsigned_number (freq_text a b c d e)"
    unfolding to_number_def freq_text_trim [OF assms] by (simp add: freq_text_def)
  also have "\<dots> = fl (of_nat (freq_khz a b c d e) / 1000)"
    using p by (simp add: unsigned_number_def) (simp add: freq_text_def js_def)
  finally show ?thesis .
qed

text \<open>The kHz of a frequency are the number that its digits write, without the point.\<close>

lemma freq_khz_digits: "digits5 a b c d e \<Longrightarrow> dec_value (filter is_digit (freq_text a b c d e)) = freq_khz a b c d e"
  by (simp add: freq_text_def freq_khz_def dec_value_def digits5_def is_digit_def)

lemma freq_khz_bounds: "digits5 a b c d e \<Longrightarrow> 100000 \<le> freq_khz a b c d e \<and> freq_khz a b c d e < 200000"
  by (simp add: freq_khz_def digits5_def)

lemma fl_khz:
  assumes "100000 \<le> k" "k < (200000 :: nat)"
  shows "\<exists>v. fl (of_nat k / 1000) = Fin v \<and> \<bar>v - of_nat k / 1000\<bar> < 1 / 10 ^ 6"
proof -
  let ?q = "of_nat k / 1000 :: rat"
  have q: "1 \<le> ?q" "?q < 200" using assms by simp_all
  have "?q < 2 ^ 1000" by (rule less_trans [OF q(2)]) simp
  from fl_error [OF q(1) this] obtain v where v: "fl ?q = Fin v" "\<bar>v - ?q\<bar> \<le> ?q / 2 ^ 53" by blast
  have "?q / 2 ^ 53 < 200 / 2 ^ 53" using q(2) by (simp add: divide_strict_right_mono)
  also have "\<dots> < 1 / (10 ^ 6 :: rat)" by simp
  finally show ?thesis using v by auto
qed

lemma khz_le:
  assumes "100000 \<le> j" "j < (200000 :: nat)" "100000 \<le> k" "k < 200000"
  shows "jle (fl (of_nat j / 1000)) (fl (of_nat k / 1000)) \<longleftrightarrow> j \<le> k"
proof -
  obtain v w where v: "fl (of_nat j / 1000) = Fin v" "\<bar>v - of_nat j / 1000\<bar> < 1 / 10 ^ 6"
    and w: "fl (of_nat k / 1000) = Fin w" "\<bar>w - of_nat k / 1000\<bar> < 1 / 10 ^ 6"
    using fl_khz assms by blast
  have lt: "v < w" if "j < k"
  proof -
    have "of_nat j + 1 \<le> (of_nat k :: rat)" using that by (metis Suc_leI of_nat_Suc of_nat_le_iff add.commute)
    then show ?thesis using v(2) w(2) unfolding abs_less_iff by (simp add: field_simps)
  qed
  have gt: "w < v" if "k < j"
  proof -
    have "of_nat k + 1 \<le> (of_nat j :: rat)" using that by (metis Suc_leI of_nat_Suc of_nat_le_iff add.commute)
    then show ?thesis using v(2) w(2) unfolding abs_less_iff by (simp add: field_simps)
  qed
  have eq: "v = w" if "j = k" using v(1) w(1) that by simp
  show ?thesis using lt gt eq v(1) w(1) by (cases j k rule: linorder_cases) auto
qed

lemma fl_118: "fl 118 = Fin 118"
  using fl_of_small_int [of 118] by simp

lemma khz_ge_118:
  assumes "100000 \<le> k" "k < (200000 :: nat)"
  shows "jle (Fin 118) (fl (of_nat k / 1000)) \<longleftrightarrow> 118000 \<le> k"
  using khz_le [of 118000 k] assms by (simp add: fl_118)

lemma khz_le_max:
  assumes "100000 \<le> k" "k < (200000 :: nat)"
  shows "jle (fl (of_nat k / 1000)) (fl (136975 / 1000)) \<longleftrightarrow> k \<le> 136975"
  using khz_le [of k 136975] assms by simp

lemma khz_finite: "100000 \<le> k \<Longrightarrow> k < (200000 :: nat) \<Longrightarrow> is_finite (fl (of_nat k / 1000))"
  using fl_khz [of k] by (auto simp: is_finite_def)

lemma isFrequency_iff:
  "isFrequency (JStr s) \<longleftrightarrow> (\<exists>a b c d e. digits5 a b c d e \<and> s = freq_text a b c d e
     \<and> 118000 \<le> freq_khz a b c d e \<and> freq_khz a b c d e \<le> 136975)"
proof -
  have m: "(let mhz = to_number (freq_text a b c d e) in is_finite mhz \<and> jle (Fin 118) mhz \<and> jle mhz (fl (136975 / 1000)))
     \<longleftrightarrow> 118000 \<le> freq_khz a b c d e \<and> freq_khz a b c d e \<le> 136975" if "digits5 a b c d e" for a b c d e
    using freq_khz_bounds [OF that] unfolding Let_def freq_text_number [OF that]
    by (simp only: khz_ge_118 khz_le_max khz_finite simp_thms)
  show ?thesis
    unfolding isFrequency_def str_test_def json.case rx_freq using m by blast
qed

end
