(* ===== verification/ProtocolProps.thy ===== *)
theory ProtocolProps
  imports ValidateFacts Versions Freq
begin

section \<open>Properties of the message contract\<close>

text \<open>A concrete message that the witnesses use: a browser opening the microphone on COM1.\<close>

definition sample_tx :: message where
  "sample_tx = \<lparr>m_id = js ''m1'', m_type = TX_START, m_payload = [(js ''com'', JNum (Fin 1))]\<rparr>"

definition sample_radio :: message where
  "sample_radio = \<lparr>m_id = js ''m2'', m_type = RADIO_SET,
     m_payload = [(js ''com'', JNum (Fin 2)), (js ''freq'', JStr (js ''122.800''))]\<rparr>"

lemma sample_id: "isId (JStr (js ''m1''))" "isId (JStr (js ''m2''))"
  by (simp_all add: isId_def str_test_def js_def token_char_def alnum_def char_classes)

lemma set_empty_types [simp]:
  "t \<in> set empty_types \<longleftrightarrow> t \<in> {PING, PONG, DEVICE_LIST, CHAT_HISTORY_REQUEST, XPDR_IDENT,
     UNICOM_TIMER_START, UNICOM_TIMER_CANCEL, TX_STOP, MONITOR_STOP}"
  by (auto simp: empty_types_def)

lemma sample_tx_payload:
  "validatePayload U TX_START [(js ''com'', JNum (Fin 1))] = Inr [(js ''com'', JNum (Fin 1))]"
  by (simp add: validatePayload_def requireShape_def sch_def isCom_def)

lemma sample_tx_ok: "validateRemoteMessage U (Some BROWSER) (wire sample_tx) = Inr sample_tx"
  by (rule validateRemoteMessage_wire) (simp_all add: sample_tx_def sample_id sample_tx_payload)

lemma sample_freq: "isFrequency (JStr (js ''122.800''))"
  unfolding isFrequency_iff
  by (rule exI [of _ 2], rule exI [of _ 2], rule exI [of _ 8], rule exI [of _ 0], rule exI [of _ 0])
     (simp add: digits5_def freq_text_def freq_khz_def js_def)

lemma sample_radio_payload: "validatePayload U RADIO_SET (m_payload sample_radio) = Inr (m_payload sample_radio)"
  using sample_freq by (simp add: validatePayload_def requireShape_def sch_def isCom_def sample_radio_def)

lemma sample_radio_ok: "validateRemoteMessage U (Some BROWSER) (wire sample_radio) = Inr sample_radio"
  using sample_radio_payload
  by (intro validateRemoteMessage_wire) (simp_all add: sample_radio_def sample_id)

definition sample_history :: message where
  "sample_history = \<lparr>m_id = js ''m1'', m_type = CHAT_HISTORY, m_payload = [(js ''messages'', JArr [])]\<rparr>"

lemma sample_history_ok: "validateRemoteMessage U (Some AGENT) (wire sample_history) = Inr sample_history"
  by (rule validateRemoteMessage_wire)
     (simp_all add: sample_history_def sample_id validatePayload_def validateChatHistory_def)

text \<open>
  C1: Validation is a normalisation. A message the relay accepted from a source is accepted
  again, unchanged, when its wire form is validated a second time, with the same source rule
  or with none, so every later hop sees exactly what the first one checked.
\<close>
theorem accepted_revalidates:
  assumes "validateRemoteMessage U src v = Inr m"
  shows "validateRemoteMessage U src (wire m) = Inr m \<and> validateRemoteMessage U None (wire m) = Inr m"
proof -
  obtain p where "validatePayload U (m_type m) p = Inr (m_payload m)"
    using validated_payload [OF assms] by blast
  then have "validatePayload U (m_type m) (m_payload m) = Inr (m_payload m)" by (rule validatePayload_idem)
  then show ?thesis
    using validated_id [OF assms] validated_source [OF assms]
    by (auto intro!: validateRemoteMessage_wire)
qed

theorem accepted_revalidates_witness:
  "validateRemoteMessage (\<lambda>s. None) None (wire sample_tx) = Inr sample_tx"
  using accepted_revalidates [OF sample_tx_ok [of "\<lambda>s. None"]] by blast

lemma source_rules_shared:
  "s \<in> set (source_rules x) \<Longrightarrow> t \<in> set (source_rules x) \<Longrightarrow> s \<noteq> t \<Longrightarrow> x = PING \<or> x = PONG"
  by (cases x) simp_all

text \<open>
  The source rules separate the three parties. Two messages of the same type accepted from
  different sources can only be pings and pongs: a browser can never speak as an agent or as the
  relay, nor an agent as a browser.
\<close>
theorem sources_separated:
  assumes "validateRemoteMessage U (Some s) v = Inr m" "validateRemoteMessage U (Some t) w = Inr n"
    and "m_type m = m_type n" "s \<noteq> t"
  shows "m_type m = PING \<or> m_type m = PONG"
  using validated_source [OF assms(1) refl] validated_source [OF assms(2) refl] assms(3,4)
  by (metis source_rules_shared)

definition sample_ping :: message where
  "sample_ping = \<lparr>m_id = js ''m1'', m_type = PING, m_payload = []\<rparr>"

lemma sample_ping_ok: "validateRemoteMessage U (Some s) (wire sample_ping) = Inr sample_ping"
  by (rule validateRemoteMessage_wire)
     (cases s; simp add: sample_ping_def sample_id validatePayload_def noExtraPayload_def)+

theorem sources_separated_witness: "m_type sample_ping = PING \<or> m_type sample_ping = PONG"
  using sources_separated [OF sample_ping_ok [of "\<lambda>s. None" BROWSER] sample_ping_ok [of _ AGENT]] by simp

text \<open>
  Nothing undeclared crosses the boundary. For every type whose payload is a flat shape, an
  accepted payload has only declared fields, every required field is there with a valid value, and
  every optional field that is there is valid.
\<close>
theorem accepted_fields:
  assumes "validateRemoteMessage U src v = Inr m" and "shape_of U (m_type m) = Some (required, optional)"
  shows "fst ` set (m_payload m) \<subseteq> fst ` set required \<union> fst ` set optional
    \<and> (\<forall>(k, V) \<in> set required. \<exists>x. mget (m_payload m) k = Some x \<and> V x)
    \<and> (\<forall>(k, V) \<in> set optional. \<forall>x. mget (m_payload m) k = Some x \<longrightarrow> V x)"
proof -
  have "m_type m \<notin> set empty_types" using assms(2) by (cases "m_type m") simp_all
  moreover obtain p where "validatePayload U (m_type m) p = Inr (m_payload m)"
    using validated_payload [OF assms(1)] by blast
  ultimately have r: "requireShape p required optional = Inr (m_payload m)"
    using assms(2) by (simp add: validatePayload_def)
  have "fst ` set (m_payload m) = fst ` set p" by (rule mget_keys) (rule requireShape_mget [OF r])
  then show ?thesis
    using requireShape_allowed [OF r] requireShape_required [OF r] requireShape_optional [OF r] by simp
qed

theorem accepted_fields_witness: "fst ` set (m_payload sample_tx) \<subseteq> {js ''com''}"
  using accepted_fields [OF sample_tx_ok [of "\<lambda>s. None"], of "sch [(''com'', isCom)]" "[]"]
  by (simp add: sample_tx_def sch_def)

text \<open>
  C2: A radio command that is accepted names COM1 or COM2 and a VHF channel: its frequency text
  has three decimals and denotes a kHz value from 118000 to 136975. The comparisons are made on
  binary64 values; the theorem shows that they are exact on the decimal value.
\<close>
theorem radio_set_bounds:
  assumes "validateRemoteMessage U src v = Inr m" and "m_type m = RADIO_SET"
  shows "(fld (m_payload m) ''com'' = Some (JNum (Fin 1)) \<or> fld (m_payload m) ''com'' = Some (JNum (Fin 2)))
    \<and> (\<exists>a b c d e. digits5 a b c d e \<and> fld (m_payload m) ''freq'' = Some (JStr (freq_text a b c d e))
         \<and> 118000 \<le> freq_khz a b c d e \<and> freq_khz a b c d e \<le> 136975)"
proof -
  obtain p where "validatePayload U RADIO_SET p = Inr (m_payload m)"
    using validated_payload [OF assms(1)] assms(2) by auto
  then have r: "requireShape p (sch [(''com'', isCom), (''freq'', isFrequency)]) (sch [(''station'', isStationName)])
      = Inr (m_payload m)"
    by (simp add: validatePayload_def)
  obtain x y where x: "fld (m_payload m) ''com'' = Some x" "isCom x"
    and y: "fld (m_payload m) ''freq'' = Some y" "isFrequency y"
    using requireShape_required [OF r] by (auto simp: sch_def)
  obtain s where s: "y = JStr s" using y(2) by (auto simp: isFrequency_def str_test_def split: json.splits)
  show ?thesis using x y(1) y(2) unfolding s isFrequency_iff isCom_def by blast
qed

theorem radio_set_bounds_witness:
  "\<exists>a b c d e. digits5 a b c d e \<and> fld (m_payload sample_radio) ''freq'' = Some (JStr (freq_text a b c d e))
     \<and> 118000 \<le> freq_khz a b c d e \<and> freq_khz a b c d e \<le> 136975"
  using radio_set_bounds [OF sample_radio_ok [of "\<lambda>s. None"]] by (simp add: sample_radio_def)

text \<open>
  Bounded messages. Whatever the JSON parser returns, \<open>parseRemoteJson\<close> only accepts a text
  of at most 64 KiB; an accepted chat history has at most 50 messages and an accepted station list
  at most 250 stations.
\<close>
theorem accepted_bounds:
  assumes "parseRemoteJson parse U src text = Inr m"
  shows "utf8_len text \<le> 65536
    \<and> (m_type m = CHAT_HISTORY \<longrightarrow> (\<exists>ms. m_payload m = [(js ''messages'', JArr ms)] \<and> length ms \<le> 50))
    \<and> (m_type m = STATIONS_STATE \<longrightarrow> (\<exists>ss. fld (m_payload m) ''stations'' = Some (JArr ss) \<and> length ss \<le> 250))"
proof -
  obtain v where len: "utf8_len text \<le> 65536" and v: "validateRemoteMessage U src v = Inr m"
    using assms by (auto simp: parseRemoteJson_def MAX_JSON_MESSAGE_BYTES_def split: if_splits option.splits)
  obtain p where p: "validatePayload U (m_type m) p = Inr (m_payload m)"
    using validated_payload [OF v] by blast
  have h: "\<exists>ms. m_payload m = [(js ''messages'', JArr ms)] \<and> length ms \<le> 50" if "m_type m = CHAT_HISTORY"
  proof -
    have "validateChatHistory p = Inr (m_payload m)" using p that by (simp add: validatePayload_def)
    then show ?thesis by (rule validateChatHistory_shape) (auto simp: collect_length)
  qed
  have s: "\<exists>ss. fld (m_payload m) ''stations'' = Some (JArr ss) \<and> length ss \<le> 250" if "m_type m = STATIONS_STATE"
  proof -
    have "validateStationsState p = Inr (m_payload m)" using p that by (simp add: validatePayload_def)
    then show ?thesis by (rule validateStationsState_shape) (auto simp: collect_length)
  qed
  show ?thesis using len h s by blast
qed

theorem accepted_bounds_witness:
  "utf8_len (js ''x'') \<le> 65536 \<and>
     (\<exists>ms. m_payload sample_history = [(js ''messages'', JArr ms)] \<and> length ms \<le> 50)"
proof -
  have "parseRemoteJson (\<lambda>s. Some (wire sample_history)) (\<lambda>s. None) (Some AGENT) (js ''x'') = Inr sample_history"
    by (simp add: parseRemoteJson_def sample_history_ok MAX_JSON_MESSAGE_BYTES_def js_def)
  from accepted_bounds [OF this] show ?thesis by (simp add: sample_history_def)
qed

text \<open>
  The version order is antisymmetric: where the collator is, swapping the arguments of
  \<open>compareVersions\<close> negates the result, for every pair of inputs, malformed ones included.
\<close>
theorem compareVersions_swap:
  assumes "\<And>a b. coll a b = - coll b a"
  shows "compareVersions coll l r = - compareVersions coll r l"
proof (cases "parseVersion l"; cases "parseVersion r")
  fix a b
  assume l: "parseVersion l = Some a" and r: "parseVersion r = Some b"
  have c: "compare_parts (v_parts a) (v_parts b) = - compare_parts (v_parts b) (v_parts a)"
    using parseVersion_parts(2) [OF l] parseVersion_parts(2) [OF r] by (intro compare_parts_swap) auto
  show ?thesis
    using assms [of "v_prerelease a" "v_prerelease b"] c by (auto simp: compareVersions_def l r Let_def)
qed (simp_all add: compareVersions_def)

theorem compareVersions_swap_witness:
  "compareVersions (\<lambda>a b. 0) (Some (JStr (js ''1.2''))) (Some (JStr (js ''1.3'')))
     = - compareVersions (\<lambda>a b. 0) (Some (JStr (js ''1.3''))) (Some (JStr (js ''1.2'')))"
  by (rule compareVersions_swap) simp

end
