(* ===== verification/Watchdog.thy ===== *)
theory Watchdog
  imports Validate
begin

section \<open>The agent watchdog (apps/relay/agent-watchdog.js)\<close>

text \<open>
  The relay holds sealed Web Push requests (tickets) that a local agent prepared, and sends
  them when the agent stays offline for a grace period. Tickets arrive one by one in a batch, a
  commit makes the batch the active one of the device, a disconnect starts a timer, a reconnect
  or a disarm cancels it. The grace timer is a callback that carries a generation number;
  \<open>fire\<close> is asynchronous, so it is modelled by the part before the requests (\<open>fireBegin\<close>) and
  the part after they settled (\<open>fireEnd\<close>), with any operations in between.

  Parameters: the URL parser \<open>U\<close>, \<open>net.isIP\<close>, and \<open>Date.parse\<close> (\<open>None\<close> for NaN). Times are
  milliseconds.
\<close>

record ticket =
  t_deviceId :: jstr
  t_endpoint :: jstr
  t_expiresAt :: jstr
  t_authorization :: jstr
  t_contentEncoding :: jstr
  t_body :: jstr

record batch =
  b_deviceKey :: jstr
  b_sessionId :: jstr
  b_batchId :: jstr
  b_createdAtMs :: int
  b_tickets :: "(jstr, ticket) jmap"

record armed =
  a_sessionId :: jstr
  a_tickets :: "ticket list"
  a_offlineTimer :: "nat option"
  a_offlineGeneration :: nat

text \<open>\<open>rc_id\<close> is the identity of the receipt object, which \<open>fire\<close> compares after the requests.\<close>

record receipt =
  rc_id :: nat
  rc_sessionId :: jstr
  rc_sent :: bool
  rc_expiresAtMs :: int

record watchdog =
  wd_active :: "(jstr, armed) jmap"
  wd_batches :: "(jstr, batch) jmap"
  wd_fired :: "(jstr, receipt) jmap"
  wd_generation :: nat
  wd_nextTimer :: nat
  wd_nextReceipt :: nat

record wd_config =
  offlineDelayMs :: int
  maxTicketLifetimeMs :: int
  firedReceiptTtlMs :: int
  maxTickets :: nat
  maxBatchesPerDevice :: nat
  allowedPushOrigins :: "jstr list"

record platform =
  p_url :: url_parser
  p_isIP :: "jstr \<Rightarrow> bool"
  p_dateParse :: "jstr \<Rightarrow> int option"

datatype wd_out = SetTimer nat jstr jstr nat int
  | ClearTimer nat
  | SendTickets nat "ticket list"

definition positiveInteger :: "jnum \<Rightarrow> int \<Rightarrow> int" where
  "positiveInteger value fallback =
     (case value of Fin q \<Rightarrow> if is_integer value \<and> 0 < q then \<lfloor>q\<rfloor> else fallback | _ \<Rightarrow> fallback)"

text \<open>The configuration of \<open>createAgentWatchdog\<close> from its options (\<open>Number(value)\<close> each).\<close>

definition createConfig :: "jnum \<Rightarrow> jnum \<Rightarrow> jnum \<Rightarrow> jnum \<Rightarrow> jnum \<Rightarrow> jstr list \<Rightarrow> wd_config" where
  "createConfig delay lifetime ttl tickets batches origins =
     \<lparr>offlineDelayMs = positiveInteger delay 30000,
      maxTicketLifetimeMs = positiveInteger lifetime (20 * 60 * 1000),
      firedReceiptTtlMs = positiveInteger ttl (30 * 60 * 1000),
      maxTickets = nat (positiveInteger tickets 32),
      maxBatchesPerDevice = nat (positiveInteger batches 4),
      allowedPushOrigins = origins\<rparr>"

definition initWatchdog :: watchdog where
  "initWatchdog = \<lparr>wd_active = [], wd_batches = [], wd_fired = [], wd_generation = 0,
     wd_nextTimer = 1, wd_nextReceipt = 0\<rparr>"

subsection \<open>The push allowlist\<close>

definition isAllowedPushEndpoint :: "platform \<Rightarrow> jstr list \<Rightarrow> jstr \<Rightarrow> bool" where
  "isAllowedPushEndpoint P extraOrigins value =
     (if utf8_len value > 4096 then False
      else (case p_url P value of
          None \<Rightarrow> False
        | Some url \<Rightarrow>
            if u_protocol url \<noteq> js ''https:'' \<or> u_username url \<noteq> [] \<or> u_password url \<noteq> []
               \<or> (u_port url \<noteq> [] \<and> u_port url \<noteq> js ''443'') then False
            else (let hostname = lower (u_hostname url) in
              if hostname = [] \<or> p_isIP P hostname then False
              else (let allowedHost = hostname = js ''fcm.googleapis.com''
                        \<or> hostname = js ''updates.push.services.mozilla.com''
                        \<or> hostname = js ''push.apple.com''
                        \<or> ends_with hostname (js ''.push.apple.com'')
                        \<or> hostname = js ''notify.windows.com''
                        \<or> ends_with hostname (js ''.notify.windows.com'')
                    in allowedHost
                       \<or> List.member (map (\<lambda>x. lower (trim x)) extraOrigins) (lower (u_origin url))))))"

definition safeAuthorization :: "jstr \<Rightarrow> bool" where
  "safeAuthorization value = (16 \<le> length value \<and> utf8_len value \<le> 4096
     \<and> \<not> list_ex (\<lambda>c. c = 13 \<or> c = 10) value)"

definition MAX_TICKET_BODY_BYTES :: nat where
  "MAX_TICKET_BODY_BYTES = 16 * 1024"

text \<open>
  The request of \<open>sendSealedPushTicket\<close>: an error, or the endpoint, the two headers taken from
  the ticket and the body. \<open>decode\<close> is the base64url decoder of the platform; redirects are an
  error and the method is POST in every request.
\<close>

record push_request =
  pr_url :: jstr
  pr_authorization :: jstr
  pr_encoding :: jstr
  pr_body :: "8 word list"

definition sealedPushRequest ::
  "platform \<Rightarrow> (jstr \<Rightarrow> 8 word list) \<Rightarrow> jstr list \<Rightarrow> ticket \<Rightarrow> push_request res" where
  "sealedPushRequest P decode origins t =
     (if \<not> isAllowedPushEndpoint P origins (t_endpoint t)
      then Inl (js ''watchdog push endpoint is not allowlisted'')
      else if \<not> safeAuthorization (t_authorization t) then Inl (js ''invalid watchdog authorization'')
      else if t_contentEncoding t \<noteq> js ''aes128gcm'' then Inl (js ''unsupported watchdog content encoding'')
      else (let body = decode (t_body t) in
        if body = [] \<or> length body > MAX_TICKET_BODY_BYTES then Inl (js ''invalid watchdog payload size'')
        else Inr \<lparr>pr_url = t_endpoint t, pr_authorization = t_authorization t,
                  pr_encoding = t_contentEncoding t, pr_body = body\<rparr>))"

text \<open>What a response status means: sent, expired subscription.\<close>

definition pushOutcome :: "int \<Rightarrow> bool \<times> bool" where
  "pushOutcome status = (200 \<le> status \<and> status < 300, status = 404 \<or> status = 410)"

subsection \<open>Housekeeping\<close>

definition batchKey :: "jstr \<Rightarrow> jstr \<Rightarrow> jstr" where
  "batchKey deviceKey batchId = deviceKey @ [10] @ batchId"

definition staleBatch :: "wd_config \<Rightarrow> int \<Rightarrow> batch \<Rightarrow> bool" where
  "staleBatch C now b = (now - b_createdAtMs b > maxTicketLifetimeMs C)"

definition staleReceipt :: "int \<Rightarrow> receipt \<Rightarrow> bool" where
  "staleReceipt now r = (rc_expiresAtMs r \<le> now)"

definition sweepBatches :: "wd_config \<Rightarrow> int \<Rightarrow> (jstr, batch) jmap \<Rightarrow> (jstr, batch) jmap" where
  "sweepBatches C now m = mfilter (\<lambda>k b. \<not> staleBatch C now b) m"

definition sweepFired :: "int \<Rightarrow> (jstr, receipt) jmap \<Rightarrow> (jstr, receipt) jmap" where
  "sweepFired now m = mfilter (\<lambda>k r. \<not> staleReceipt now r) m"

definition cleanup :: "wd_config \<Rightarrow> int \<Rightarrow> watchdog \<Rightarrow> watchdog" where
  "cleanup C now w = w\<lparr>wd_batches := sweepBatches C now (wd_batches w),
     wd_fired := sweepFired now (wd_fired w)\<rparr>"

definition clearActiveTimer :: "jstr \<Rightarrow> watchdog \<Rightarrow> watchdog \<times> wd_out list" where
  "clearActiveTimer dk w =
     (case mget (wd_active w) dk of
        None \<Rightarrow> (w, [])
      | Some a \<Rightarrow> (case a_offlineTimer a of
          None \<Rightarrow> (w, [])
        | Some t \<Rightarrow> (w\<lparr>wd_active := mput (wd_active w) dk
                        (a\<lparr>a_offlineTimer := None, a_offlineGeneration := 0\<rparr>)\<rparr>, [ClearTimer t])))"

definition deleteDeviceBatches :: "jstr \<Rightarrow> watchdog \<Rightarrow> watchdog" where
  "deleteDeviceBatches dk w = w\<lparr>wd_batches := mfilter (\<lambda>k b. b_deviceKey b \<noteq> dk) (wd_batches w)\<rparr>"

subsection \<open>Operations\<close>

text \<open>The batch a ticket goes to: the pending one, or a new one unless the device has too many.\<close>

definition openBatch ::
  "wd_config \<Rightarrow> int \<Rightarrow> jstr \<Rightarrow> jstr \<Rightarrow> jstr \<Rightarrow> watchdog \<Rightarrow> (watchdog \<times> batch) option" where
  "openBatch C now dk sessionId batchId w =
     (case mget (wd_batches w) (batchKey dk batchId) of
        Some b \<Rightarrow> Some (w, b)
      | None \<Rightarrow>
          if length (filter (\<lambda>p. b_deviceKey (snd p) = dk) (wd_batches w)) \<ge> maxBatchesPerDevice C then None
          else (let b = \<lparr>b_deviceKey = dk, b_sessionId = sessionId, b_batchId = batchId,
                         b_createdAtMs = now, b_tickets = []\<rparr>
                in Some (w\<lparr>wd_batches := mput (wd_batches w) (batchKey dk batchId) b\<rparr>, b)))"

text \<open>\<open>stage\<close>: the number of tickets in the batch, or the error; the state changes either way.\<close>

definition stage ::
  "platform \<Rightarrow> wd_config \<Rightarrow> int \<Rightarrow> jstr \<Rightarrow> jstr \<Rightarrow> jstr \<Rightarrow> ticket \<Rightarrow> watchdog \<Rightarrow> watchdog \<times> nat res" where
  "stage P C now dk sessionId batchId t w0 =
     (let w = cleanup C now w0 in
      if \<not> (case p_dateParse P (t_expiresAt t) of
               None \<Rightarrow> False
             | Some expiresAtMs \<Rightarrow> now + offlineDelayMs C < expiresAtMs
                 \<and> expiresAtMs \<le> now + maxTicketLifetimeMs C)
      then (w, Inl (js ''watchdog ticket expiry is outside the allowed window''))
      else if \<not> isAllowedPushEndpoint P (allowedPushOrigins C) (t_endpoint t)
      then (w, Inl (js ''watchdog push endpoint is not allowlisted''))
      else (case openBatch C now dk sessionId batchId w of
          None \<Rightarrow> (w, Inl (js ''too many pending watchdog batches''))
        | Some (w1, b) \<Rightarrow>
            if b_sessionId b \<noteq> sessionId then (w1, Inl (js ''watchdog batch session mismatch''))
            else if \<not> mhas (b_tickets b) (t_deviceId t) \<and> length (b_tickets b) \<ge> maxTickets C
            then (w1, Inl (js ''too many watchdog tickets''))
            else (let b1 = b\<lparr>b_tickets := mput (b_tickets b) (t_deviceId t) t\<rparr>
                  in (w1\<lparr>wd_batches := mput (wd_batches w1) (batchKey dk batchId) b1\<rparr>,
                      Inr (length (b_tickets b1))))))"

definition commit ::
  "wd_config \<Rightarrow> int \<Rightarrow> jstr \<Rightarrow> jstr \<Rightarrow> jstr \<Rightarrow> watchdog \<Rightarrow> watchdog \<times> nat res \<times> wd_out list" where
  "commit C now dk sessionId batchId w0 =
     (let w = cleanup C now w0 in
      case mget (wd_batches w) (batchKey dk batchId) of
        None \<Rightarrow> (w, Inl (js ''watchdog batch is missing or empty''), [])
      | Some b \<Rightarrow>
          if b_sessionId b \<noteq> sessionId \<or> length (b_tickets b) < 1
          then (w, Inl (js ''watchdog batch is missing or empty''), [])
          else (let (w1, outs) = clearActiveTimer dk w;
                    w2 = deleteDeviceBatches dk w1;
                    w3 = w2\<lparr>wd_fired := mdel (wd_fired w2) dk\<rparr>
                in (w3\<lparr>wd_active := mput (wd_active w3) dk
                        \<lparr>a_sessionId = sessionId, a_tickets = map snd (b_tickets b),
                         a_offlineTimer = None, a_offlineGeneration = 0\<rparr>\<rparr>,
                    Inr (length (b_tickets b)), outs)))"

definition disarm ::
  "wd_config \<Rightarrow> int \<Rightarrow> jstr \<Rightarrow> jstr \<Rightarrow> watchdog \<Rightarrow> watchdog \<times> bool \<times> wd_out list" where
  "disarm C now dk sessionId w0 =
     (let w = cleanup C now w0;
          mine = (case mget (wd_active w) dk of
                    None \<Rightarrow> True | Some a \<Rightarrow> sessionId = [] \<or> a_sessionId a = sessionId);
          (w1, outs) = (if mine
             then (let (v, os) = clearActiveTimer dk w
                   in (deleteDeviceBatches dk (v\<lparr>wd_active := mdel (wd_active v) dk\<rparr>), os))
             else (w, []));
          didFire = (case mget (wd_fired w1) dk of
                       None \<Rightarrow> False | Some r \<Rightarrow> rc_sessionId r = sessionId \<and> rc_sent r)
      in (if didFire then w1\<lparr>wd_fired := mdel (wd_fired w1) dk\<rparr> else w1, didFire, outs))"

definition agentOnline :: "jstr \<Rightarrow> watchdog \<Rightarrow> watchdog \<times> wd_out list" where
  "agentOnline dk w = clearActiveTimer dk w"

definition agentOffline :: "wd_config \<Rightarrow> int \<Rightarrow> jstr \<Rightarrow> watchdog \<Rightarrow> watchdog \<times> bool \<times> wd_out list" where
  "agentOffline C now dk w0 =
     (let w = cleanup C now w0 in
      case mget (wd_active w) dk of
        None \<Rightarrow> (w, False, [])
      | Some a \<Rightarrow>
          if a_offlineTimer a \<noteq> None \<or> a_tickets a = [] then (w, False, [])
          else (let g = Suc (wd_generation w); t = wd_nextTimer w
                in (w\<lparr>wd_generation := g, wd_nextTimer := Suc t,
                      wd_active := mput (wd_active w) dk
                        (a\<lparr>a_offlineTimer := Some t, a_offlineGeneration := g\<rparr>)\<rparr>,
                    True, [SetTimer t dk (a_sessionId a) g (offlineDelayMs C)])))"

text \<open>\<open>fire\<close> up to the requests: the receipt made and the tickets still valid, if it fires at all.\<close>

definition fireBegin ::
  "platform \<Rightarrow> wd_config \<Rightarrow> int \<Rightarrow> jstr \<Rightarrow> jstr \<Rightarrow> nat \<Rightarrow> watchdog \<Rightarrow> watchdog \<times> wd_out list" where
  "fireBegin P C now dk sessionId expectedGeneration w =
     (case mget (wd_active w) dk of
        None \<Rightarrow> (w, [])
      | Some a \<Rightarrow>
          if a_sessionId a \<noteq> sessionId \<or> a_offlineGeneration a \<noteq> expectedGeneration then (w, [])
          else (let w1 = deleteDeviceBatches dk (w\<lparr>wd_active := mdel (wd_active w) dk\<rparr>);
                    tickets = filter (\<lambda>t. case p_dateParse P (t_expiresAt t) of
                                        None \<Rightarrow> False | Some e \<Rightarrow> e > now) (a_tickets a);
                    i = wd_nextReceipt w1
                in (w1\<lparr>wd_nextReceipt := Suc i,
                       wd_fired := mput (wd_fired w1) dk
                         \<lparr>rc_id = i, rc_sessionId = sessionId, rc_sent = False,
                          rc_expiresAtMs = now + firedReceiptTtlMs C\<rparr>\<rparr>,
                    [SendTickets i tickets])))"

text \<open>
  The rest of \<open>fire\<close> once every request settled: \<open>sent\<close> of them succeeded and \<open>reported\<close> is
  whether the callback could tell the agent (\<open>False\<close> where it throws).
\<close>

definition fireEnd :: "wd_config \<Rightarrow> int \<Rightarrow> jstr \<Rightarrow> nat \<Rightarrow> nat \<Rightarrow> bool \<Rightarrow> watchdog \<Rightarrow> watchdog" where
  "fireEnd C now dk i sent reported w =
     (case mget (wd_fired w) dk of
        None \<Rightarrow> w
      | Some r \<Rightarrow>
          if rc_id r \<noteq> i then w
          else if sent > 0 then
            (if reported then w\<lparr>wd_fired := mdel (wd_fired w) dk\<rparr>
             else w\<lparr>wd_fired := mput (wd_fired w) dk
                      (r\<lparr>rc_sent := True, rc_expiresAtMs := now + firedReceiptTtlMs C\<rparr>)\<rparr>)
          else w\<lparr>wd_fired := mdel (wd_fired w) dk\<rparr>)"

record wd_view =
  wv_sessionId :: jstr
  wv_ticketCount :: nat
  wv_offlinePending :: bool

definition getState :: "jstr \<Rightarrow> watchdog \<Rightarrow> wd_view option" where
  "getState dk w = map_option (\<lambda>a. \<lparr>wv_sessionId = a_sessionId a, wv_ticketCount = length (a_tickets a),
     wv_offlinePending = (a_offlineTimer a \<noteq> None)\<rparr>) (mget (wd_active w) dk)"

definition disposeWatchdog :: "watchdog \<Rightarrow> watchdog \<times> wd_out list" where
  "disposeWatchdog w =
     (let (v, outs) = fold (\<lambda>k (v, os). let (v1, o1) = clearActiveTimer k v in (v1, os @ o1))
                        (map fst (wd_active w)) (w, [])
      in (v\<lparr>wd_active := [], wd_batches := [], wd_fired := []\<rparr>, outs))"

subsection \<open>The watchdog as a machine\<close>

text \<open>
  The events, each with the time at which it happens. The relay calls the first five, timers
  call \<open>Fire\<close> (also timers that were cleared too late), and the end of the requests is \<open>Settled\<close>.
\<close>

datatype wd_event = Stage int jstr jstr jstr ticket
  | Commit int jstr jstr jstr
  | Disarm int jstr jstr
  | Online jstr
  | Offline int jstr
  | Fire int jstr jstr nat
  | Settled int jstr nat nat bool
  | Dispose

fun wdStep :: "platform \<Rightarrow> wd_config \<Rightarrow> wd_event \<Rightarrow> watchdog \<Rightarrow> watchdog \<times> wd_out list" where
  "wdStep P C (Stage now dk sid bid t) w = (fst (stage P C now dk sid bid t w), [])"
| "wdStep P C (Commit now dk sid bid) w = (let (v, r, outs) = commit C now dk sid bid w in (v, outs))"
| "wdStep P C (Disarm now dk sid) w = (let (v, r, outs) = disarm C now dk sid w in (v, outs))"
| "wdStep P C (Online dk) w = agentOnline dk w"
| "wdStep P C (Offline now dk) w = (let (v, r, outs) = agentOffline C now dk w in (v, outs))"
| "wdStep P C (Fire now dk sid g) w = fireBegin P C now dk sid g w"
| "wdStep P C (Settled now dk i sent rep) w = (fireEnd C now dk i sent rep w, [])"
| "wdStep P C Dispose w = disposeWatchdog w"

end
