(* ===== verification/WatchdogFacts.thy ===== *)
theory WatchdogFacts
  imports Watchdog
begin

section \<open>Invariants of the watchdog\<close>

text \<open>
  Every staged and every armed ticket goes to an allowlisted endpoint, the batches and tickets
  are bounded, and an armed device has a pending timer exactly when its generation is not 0.
  The sweeps of both maps are instances of \<open>expiring_store\<close>; the machine as a whole is an
  instance of \<open>machine\<close>.
\<close>

interpretation batches: expiring_store "sweepBatches C" "staleBatch C" for C
  by unfold_locales (simp add: sweepBatches_def)

interpretation receipts: expiring_store sweepFired staleReceipt
  by unfold_locales (simp add: sweepFired_def)

definition allowedTicket :: "platform \<Rightarrow> wd_config \<Rightarrow> ticket \<Rightarrow> bool" where
  "allowedTicket P C t = isAllowedPushEndpoint P (allowedPushOrigins C) (t_endpoint t)"

definition batchOk :: "platform \<Rightarrow> wd_config \<Rightarrow> jstr \<Rightarrow> batch \<Rightarrow> bool" where
  "batchOk P C k b \<longleftrightarrow> k = batchKey (b_deviceKey b) (b_batchId b) \<and> mwf (b_tickets b)
     \<and> length (b_tickets b) \<le> maxTickets C \<and> (\<forall>p \<in> set (b_tickets b). allowedTicket P C (snd p))"

definition deviceBatches :: "jstr \<Rightarrow> (jstr, batch) jmap \<Rightarrow> nat" where
  "deviceBatches dk m = length (filter (\<lambda>p. b_deviceKey (snd p) = dk) m)"

definition batchesOk :: "platform \<Rightarrow> wd_config \<Rightarrow> (jstr, batch) jmap \<Rightarrow> bool" where
  "batchesOk P C m \<longleftrightarrow> mwf m \<and> (\<forall>p \<in> set m. batchOk P C (fst p) (snd p))
     \<and> (\<forall>dk. deviceBatches dk m \<le> maxBatchesPerDevice C)"

definition armedOk :: "platform \<Rightarrow> wd_config \<Rightarrow> nat \<Rightarrow> armed \<Rightarrow> bool" where
  "armedOk P C g a \<longleftrightarrow> a_tickets a \<noteq> [] \<and> length (a_tickets a) \<le> maxTickets C
     \<and> (\<forall>t \<in> set (a_tickets a). allowedTicket P C t)
     \<and> a_offlineGeneration a \<le> g \<and> (a_offlineTimer a = None \<longleftrightarrow> a_offlineGeneration a = 0)"

definition activeOk :: "platform \<Rightarrow> wd_config \<Rightarrow> nat \<Rightarrow> (jstr, armed) jmap \<Rightarrow> bool" where
  "activeOk P C g m \<longleftrightarrow> mwf m \<and> (\<forall>p \<in> set m. armedOk P C g (snd p))"

definition wdInv :: "platform \<Rightarrow> wd_config \<Rightarrow> watchdog \<Rightarrow> bool" where
  "wdInv P C w \<longleftrightarrow> batchesOk P C (wd_batches w) \<and> activeOk P C (wd_generation w) (wd_active w)
     \<and> mwf (wd_fired w)"

subsection \<open>The parts\<close>

lemma deviceBatches_filter: "deviceBatches dk (mfilter Q m) \<le> deviceBatches dk m"
  by (induction m) (auto simp: deviceBatches_def mfilter_def)

lemma deviceBatches_mput:
  "deviceBatches dk (mput m k b) \<le> deviceBatches dk m +
     (case mget m k of Some b0 \<Rightarrow> if b_deviceKey b0 = b_deviceKey b then 0 else 1
                     | None \<Rightarrow> if b_deviceKey b = dk then 1 else 0)"
  by (induction m) (auto simp: deviceBatches_def split: option.splits if_splits)

lemma batchesOk_Nil [simp, inv_intros]: "batchesOk P C []"
  by (simp add: batchesOk_def deviceBatches_def)

lemma batchesOk_mfilter [simp, inv_intros]: "batchesOk P C m \<Longrightarrow> batchesOk P C (mfilter Q m)"
  unfolding batchesOk_def using deviceBatches_filter set_mfilter
  by (metis (no_types, lifting) le_trans mwf_mfilter subsetD)

lemma batchesOk_replace:
  assumes "batchesOk P C m" "mget m k = Some b0" "b_deviceKey b0 = b_deviceKey b" "batchOk P C k b"
  shows "batchesOk P C (mput m k b)"
proof -
  have "deviceBatches dk (mput m k b) \<le> deviceBatches dk m" for dk
    using deviceBatches_mput [of dk m k b] assms(2,3) by simp
  then have "deviceBatches dk (mput m k b) \<le> maxBatchesPerDevice C" for dk
    using assms(1) le_trans unfolding batchesOk_def by blast
  then show ?thesis
    using assms set_mput [of m k b] unfolding batchesOk_def by auto
qed

lemma batchesOk_add:
  assumes "batchesOk P C m" "mget m k = None" "deviceBatches (b_deviceKey b) m < maxBatchesPerDevice C"
    and "batchOk P C k b"
  shows "batchesOk P C (mput m k b)"
proof -
  have "deviceBatches dk (mput m k b) \<le> maxBatchesPerDevice C" for dk
    using deviceBatches_mput [of dk m k b] assms(1,2,3)
    by (cases "b_deviceKey b = dk") (auto simp: batchesOk_def intro: le_trans)
  then show ?thesis
    using assms set_mput [of m k b] unfolding batchesOk_def by auto
qed

lemma batchesOk_mget: "batchesOk P C m \<Longrightarrow> mget m k = Some b \<Longrightarrow> batchOk P C k b"
  using mget_in unfolding batchesOk_def by fastforce

lemma activeOk_Nil [simp, inv_intros]: "activeOk P C g []"
  by (simp add: activeOk_def)

lemma activeOk_mdel [simp, inv_intros]: "activeOk P C g m \<Longrightarrow> activeOk P C g (mdel m k)"
  using set_mdel unfolding activeOk_def by fastforce

lemma activeOk_mput [simp, inv_intros]:
  "activeOk P C g m \<Longrightarrow> armedOk P C g a \<Longrightarrow> activeOk P C g (mput m k a)"
  using set_mput [of m k a] unfolding activeOk_def by auto

lemma activeOk_mget: "activeOk P C g m \<Longrightarrow> mget m k = Some a \<Longrightarrow> armedOk P C g a"
  using mget_in unfolding activeOk_def by fastforce

lemma armedOk_clear:
  "armedOk P C g a \<Longrightarrow> armedOk P C g (a\<lparr>a_offlineTimer := None, a_offlineGeneration := 0\<rparr>)"
  by (simp add: armedOk_def)

lemma armedOk_arm:
  "armedOk P C g a \<Longrightarrow> g \<le> h \<Longrightarrow> 0 < h \<Longrightarrow> armedOk P C h (a\<lparr>a_offlineTimer := Some t, a_offlineGeneration := h\<rparr>)"
  by (simp add: armedOk_def)

lemma activeOk_mono: "activeOk P C g m \<Longrightarrow> g \<le> h \<Longrightarrow> activeOk P C h m"
  unfolding activeOk_def armedOk_def by (meson le_trans)

subsection \<open>The operations\<close>

lemma wdInv_init [inv_intros]: "wdInv P C initWatchdog"
  by (simp add: wdInv_def initWatchdog_def)

lemma wdInv_cleanup [inv_intros]: "wdInv P C w \<Longrightarrow> wdInv P C (cleanup C now w)"
  by (simp add: wdInv_def cleanup_def sweepBatches_def sweepFired_def)

lemma wdInv_clear: "wdInv P C w \<Longrightarrow> wdInv P C (fst (clearActiveTimer dk w))"
  by (auto simp: wdInv_def clearActiveTimer_def dest: activeOk_mget intro!: activeOk_mput armedOk_clear split: option.splits)

lemma wdInv_deleteBatches: "wdInv P C w \<Longrightarrow> wdInv P C (deleteDeviceBatches dk w)"
  by (simp add: wdInv_def deleteDeviceBatches_def)

lemma wdInv_updates:
  "wdInv P C w \<Longrightarrow> wdInv P C (w\<lparr>wd_active := mdel (wd_active w) dk\<rparr>)"
  "wdInv P C w \<Longrightarrow> wdInv P C (w\<lparr>wd_fired := mdel (wd_fired w) dk\<rparr>)"
  "wdInv P C w \<Longrightarrow> wdInv P C (w\<lparr>wd_fired := mput (wd_fired w) dk r\<rparr>)"
  "wdInv P C w \<Longrightarrow> armedOk P C (wd_generation w) a \<Longrightarrow> wdInv P C (w\<lparr>wd_active := mput (wd_active w) dk a\<rparr>)"
  by (simp_all add: wdInv_def)

lemma batchOk_new: "batchOk P C (batchKey dk bid) \<lparr>b_deviceKey = dk, b_sessionId = sid, b_batchId = bid,
     b_createdAtMs = now, b_tickets = []\<rparr>"
  by (simp add: batchOk_def)

lemma batchOk_insert:
  assumes "batchOk P C k b" "allowedTicket P C t"
    and "mhas (b_tickets b) d \<or> length (b_tickets b) < maxTickets C"
  shows "batchOk P C k (b\<lparr>b_tickets := mput (b_tickets b) d t\<rparr>)"
  using assms set_mput [of "b_tickets b" d t] unfolding batchOk_def by (auto simp: length_mput)

lemma openBatch_Some:
  assumes "wdInv P C w" "openBatch C now dk sid bid w = Some (v, b)"
  shows "wdInv P C v" and "mget (wd_batches v) (batchKey dk bid) = Some b"
proof -
  have "wdInv P C v \<and> mget (wd_batches v) (batchKey dk bid) = Some b"
  proof (cases "mget (wd_batches w) (batchKey dk bid)")
    case (Some c)
    with assms show ?thesis by (simp add: openBatch_def)
  next
    case None
    let ?new = "\<lparr>b_deviceKey = dk, b_sessionId = sid, b_batchId = bid, b_createdAtMs = now, b_tickets = []\<rparr>"
    have "deviceBatches dk (wd_batches w) < maxBatchesPerDevice C" "b = ?new"
      "v = w\<lparr>wd_batches := mput (wd_batches w) (batchKey dk bid) ?new\<rparr>"
      using assms(2) None by (auto simp: openBatch_def deviceBatches_def Let_def split: if_splits)
    with assms(1) None show ?thesis
      by (auto simp: wdInv_def intro!: batchesOk_add batchOk_new)
  qed
  then show "wdInv P C v" and "mget (wd_batches v) (batchKey dk bid) = Some b" by auto
qed

lemma wdInv_putTicket:
  assumes "wdInv P C v" "mget (wd_batches v) k = Some b" "allowedTicket P C t"
    "mhas (b_tickets b) d \<or> length (b_tickets b) < maxTickets C"
  shows "wdInv P C (v\<lparr>wd_batches := mput (wd_batches v) k (b\<lparr>b_tickets := mput (b_tickets b) d t\<rparr>)\<rparr>)"
  using assms by (auto simp: wdInv_def intro!: batchesOk_replace batchOk_insert dest: batchesOk_mget)

lemma wdInv_stage:
  assumes "wdInv P C w0"
  shows "wdInv P C (fst (stage P C now dk sid bid t w0))"
proof -
  have w: "wdInv P C (cleanup C now w0)" using assms by (rule wdInv_cleanup)
  show ?thesis
  proof (cases "openBatch C now dk sid bid (cleanup C now w0)")
    case None
    with w show ?thesis by (simp add: stage_def Let_def)
  next
    case (Some p)
    obtain v b where p: "p = (v, b)" by force
    note v = openBatch_Some [OF w Some [unfolded p]]
    show ?thesis
      using w v(1) wdInv_putTicket [OF v]
      by (simp add: stage_def Let_def Some p allowedTicket_def not_le)
  qed
qed

lemma wdInv_commit: "wdInv P C w0 \<Longrightarrow> wdInv P C (fst (commit C now dk sid bid w0))"
proof -
  assume "wdInv P C w0"
  then have w: "wdInv P C (cleanup C now w0)" by (rule wdInv_cleanup)
  show ?thesis
  proof (cases "mget (wd_batches (cleanup C now w0)) (batchKey dk bid)")
    case None
    with w show ?thesis by (simp add: commit_def)
  next
    case (Some b)
    then have b: "batchOk P C (batchKey dk bid) b" using w batchesOk_mget unfolding wdInv_def by blast
    let ?a = "\<lparr>a_sessionId = sid, a_tickets = map snd (b_tickets b), a_offlineTimer = None, a_offlineGeneration = 0\<rparr>"
    have a: "b_tickets b \<noteq> [] \<Longrightarrow> armedOk P C g ?a" for g
      using b by (auto simp: batchOk_def armedOk_def)
    obtain v os where v: "clearActiveTimer dk (cleanup C now w0) = (v, os)" by force
    then have "wdInv P C v" using wdInv_clear [OF w, of dk] by simp
    then have "wdInv P C (deleteDeviceBatches dk v)" by (rule wdInv_deleteBatches)
    then have "wdInv P C ((deleteDeviceBatches dk v)\<lparr>wd_fired := mdel (wd_fired (deleteDeviceBatches dk v)) dk\<rparr>)"
      (is "wdInv P C ?u") by (rule wdInv_updates)
    then have "b_tickets b \<noteq> [] \<Longrightarrow> wdInv P C (?u\<lparr>wd_active := mput (wd_active ?u) dk ?a\<rparr>)"
      by (rule wdInv_updates(4)) (rule a)
    with w show ?thesis by (simp add: commit_def Some v Let_def less_Suc_eq)
  qed
qed

lemma wdInv_disarm: "wdInv P C w0 \<Longrightarrow> wdInv P C (fst (disarm C now dk sid w0))"
proof -
  assume "wdInv P C w0"
  then have w: "wdInv P C (cleanup C now w0)" by (rule wdInv_cleanup)
  obtain v os where v: "clearActiveTimer dk (cleanup C now w0) = (v, os)" by force
  then have "wdInv P C v" using wdInv_clear [OF w, of dk] by simp
  then have "wdInv P C (deleteDeviceBatches dk (v\<lparr>wd_active := mdel (wd_active v) dk\<rparr>))"
    by (intro wdInv_deleteBatches wdInv_updates(1))
  with w show ?thesis
    by (simp add: disarm_def Let_def v wdInv_updates(2) split: option.split)
qed

lemma wdInv_offline: "wdInv P C w0 \<Longrightarrow> wdInv P C (fst (agentOffline C now dk w0))"
proof -
  assume "wdInv P C w0"
  then have w: "wdInv P C (cleanup C now w0)" by (rule wdInv_cleanup)
  then show ?thesis
    by (auto simp: agentOffline_def Let_def wdInv_def
        dest: activeOk_mget intro!: activeOk_mput armedOk_arm intro: activeOk_mono split: option.splits)
qed

lemma wdInv_fireBegin: "wdInv P C w \<Longrightarrow> wdInv P C (fst (fireBegin P C now dk sid g w))"
  by (simp add: fireBegin_def wdInv_def deleteDeviceBatches_def Let_def split: option.split)

lemma wdInv_fireEnd: "wdInv P C w \<Longrightarrow> wdInv P C (fireEnd C now dk i sent rep w)"
  by (simp add: fireEnd_def wdInv_updates split: option.split)

lemma dispose_clear:
  "wdInv P C w \<Longrightarrow> wdInv P C (fst (fold (\<lambda>k (v, os). let (v1, o1) = clearActiveTimer k v in (v1, os @ o1)) ks (w, os)))"
proof (induction ks arbitrary: w os)
  case (Cons k ks)
  obtain v o1 where v: "clearActiveTimer k w = (v, o1)" by force
  then have "wdInv P C v" using wdInv_clear [OF Cons.prems, of k] by simp
  then show ?case using Cons.IH by (simp add: v)
qed simp

lemma wdInv_dispose: "wdInv P C w \<Longrightarrow> wdInv P C (fst (disposeWatchdog w))"
  using dispose_clear [of P C w] by (auto simp: disposeWatchdog_def Let_def wdInv_def split: prod.splits)

lemma wdInv_step: "wdInv P C w \<Longrightarrow> wdInv P C (fst (wdStep P C e w))"
  by (cases e)
     (simp_all add: wdInv_stage wdInv_clear agentOnline_def wdInv_fireBegin wdInv_fireEnd wdInv_dispose
        wdInv_commit wdInv_disarm wdInv_offline case_prod_beta Let_def)

interpretation wd: machine initWatchdog "wdStep P C" "\<lambda>e. True" "wdInv P C" for P C
  by unfold_locales (auto intro: wdInv_init wdInv_step)

end
