(* ===== verification/WatchdogProps.thy ===== *)
theory WatchdogProps
  imports WatchdogFacts
begin

section \<open>Properties of the watchdog\<close>

abbreviation wdRun :: "platform \<Rightarrow> wd_config \<Rightarrow> wd_event list \<Rightarrow> watchdog" where
  "wdRun P C es \<equiv> fst (run_machine (wdStep P C) es initWatchdog)"

abbreviation wdOuts :: "platform \<Rightarrow> wd_config \<Rightarrow> wd_event list \<Rightarrow> wd_out list" where
  "wdOuts P C es \<equiv> snd (run_machine (wdStep P C) es initWatchdog)"

lemma wdInv_run: "wdInv P C (wdRun P C es)"
  using wd.inv_reachable [of es P C] by (simp add: fst_run_machine list_all_iff)

lemma run_machine_snoc:
  "run_machine f (es @ [e]) s = (fst (f e (fst (run_machine f es s))),
     snd (run_machine f es s) @ snd (f e (fst (run_machine f es s))))"
  by (simp add: run_machine_append case_prod_beta Let_def)

subsection \<open>Where pushes go\<close>

lemma clear_outs: "o1 \<in> set (snd (clearActiveTimer dk w)) \<Longrightarrow> \<exists>t. o1 = ClearTimer t"
  by (auto simp: clearActiveTimer_def split: option.splits)

lemma dispose_outs_aux:
  "\<forall>x \<in> set os. \<exists>t. x = ClearTimer t \<Longrightarrow>
   \<forall>x \<in> set (snd (fold (\<lambda>k (v, os). let (v1, o1) = clearActiveTimer k v in (v1, os @ o1)) ks (w, os))).
     \<exists>t. x = ClearTimer t"
proof (induction ks arbitrary: w os)
  case (Cons k ks)
  obtain v o1 where v: "clearActiveTimer k w = (v, o1)" by force
  then have "\<forall>x \<in> set (os @ o1). \<exists>t. x = ClearTimer t"
    using Cons.prems clear_outs [of _ k w] by auto
  from Cons.IH [OF this, of v] show ?case by (simp add: v)
qed simp

lemma dispose_outs: "x \<in> set (snd (disposeWatchdog w)) \<Longrightarrow> \<exists>t. x = ClearTimer t"
  using dispose_outs_aux [of "[]" "map fst (wd_active w)" w]
  by (auto simp: disposeWatchdog_def Let_def split: prod.splits)

lemma commit_outs: "x \<in> set (snd (snd (commit C now dk sid bid w))) \<Longrightarrow> \<exists>t. x = ClearTimer t"
proof -
  assume x: "x \<in> set (snd (snd (commit C now dk sid bid w)))"
  obtain v os where v: "clearActiveTimer dk (cleanup C now w) = (v, os)" by force
  from x have "x \<in> set os"
    by (simp add: commit_def v Let_def split: option.splits if_splits)
  then show ?thesis using clear_outs [of x dk "cleanup C now w"] by (simp add: v)
qed

lemma disarm_outs: "x \<in> set (snd (snd (disarm C now dk sid w))) \<Longrightarrow> \<exists>t. x = ClearTimer t"
proof -
  assume x: "x \<in> set (snd (snd (disarm C now dk sid w)))"
  obtain v os where v: "clearActiveTimer dk (cleanup C now w) = (v, os)" by force
  define mine where "mine = (case mget (wd_active (cleanup C now w)) dk of
    None \<Rightarrow> True | Some a \<Rightarrow> sid = [] \<or> a_sessionId a = sid)"
  from x have "x \<in> set os"
    by (simp add: disarm_def v Let_def mine_def [symmetric] split: if_splits)
  then show ?thesis using clear_outs [of x dk "cleanup C now w"] by (simp add: v)
qed

lemma offline_outs:
  "x \<in> set (snd (snd (agentOffline C now dk w))) \<Longrightarrow> \<exists>t s g d. x = SetTimer t dk s g d"
  by (auto simp: agentOffline_def Let_def split: option.splits if_splits)

text \<open>Requests leave only from \<open>fireBegin\<close>, and only for the device's own armed tickets.\<close>

lemma step_sends:
  assumes "SendTickets i ts \<in> set (snd (wdStep P C e w))"
  shows "\<exists>now dk sid g a. e = Fire now dk sid g \<and> mget (wd_active w) dk = Some a
    \<and> a_offlineGeneration a = g \<and> a_sessionId a = sid
    \<and> ts = filter (\<lambda>t. case p_dateParse P (t_expiresAt t) of None \<Rightarrow> False | Some x \<Rightarrow> x > now) (a_tickets a)"
proof (cases e)
  case (Commit now dk sid bid)
  then show ?thesis using assms commit_outs by (fastforce simp: case_prod_beta Let_def)
next
  case (Disarm now dk sid)
  then show ?thesis using assms disarm_outs by (fastforce simp: case_prod_beta Let_def)
next
  case (Offline now dk)
  then show ?thesis using assms offline_outs by (fastforce simp: case_prod_beta Let_def)
next
  case (Online dk)
  then show ?thesis using assms clear_outs by (fastforce simp: agentOnline_def)
next
  case Dispose
  then show ?thesis using assms dispose_outs by fastforce
next
  case (Fire now dk sid g)
  then show ?thesis using assms by (auto simp: fireBegin_def Let_def split: option.splits if_splits)
qed (use assms in simp_all)

lemma step_sends_allowed:
  assumes "wdInv P C w" "SendTickets i ts \<in> set (snd (wdStep P C e w))" "t \<in> set ts"
  shows "allowedTicket P C t"
proof -
  obtain dk a where a: "mget (wd_active w) dk = Some a" "t \<in> set (a_tickets a)"
    using step_sends [OF assms(2)] assms(3) by auto
  then show ?thesis using assms(1) activeOk_mget unfolding wdInv_def armedOk_def by blast
qed

lemma run_sends_allowed:
  "SendTickets i ts \<in> set (wdOuts P C es) \<Longrightarrow> t \<in> set ts \<Longrightarrow> allowedTicket P C t"
proof (induction es rule: rev_induct)
  case (snoc e es)
  then show ?case
    using step_sends_allowed [OF wdInv_run] by (auto simp: run_machine_snoc)
qed simp

subsection \<open>Dead generations\<close>

text \<open>
  A generation is dead for a device when it was handed out already and the device does not
  carry it. Generations only grow, so a dead one stays dead.
\<close>

definition deadGen :: "jstr \<Rightarrow> nat \<Rightarrow> watchdog \<Rightarrow> bool" where
  "deadGen dk g w \<longleftrightarrow> 0 < g \<and> g \<le> wd_generation w
     \<and> (\<forall>a. mget (wd_active w) dk = Some a \<longrightarrow> a_offlineGeneration a \<noteq> g)"

lemma deadGen_fire: "deadGen dk g w \<Longrightarrow> fireBegin P C now dk sid g w = (w, [])"
  by (auto simp: deadGen_def fireBegin_def split: option.split)

lemma deadGen_cleanup [simp]: "deadGen dk g (cleanup C now w) = deadGen dk g w"
  by (simp add: deadGen_def cleanup_def)

lemma deadGen_deleteBatches [simp]: "deadGen dk g (deleteDeviceBatches x w) = deadGen dk g w"
  by (simp add: deadGen_def deleteDeviceBatches_def)

lemma deadGen_fired [simp]: "deadGen dk g (w\<lparr>wd_fired := m\<rparr>) = deadGen dk g w"
  by (simp add: deadGen_def)

lemma deadGen_batches [simp]: "deadGen dk g (w\<lparr>wd_batches := m\<rparr>) = deadGen dk g w"
  by (simp add: deadGen_def)

lemma deadGen_receiptId [simp]: "deadGen dk g (w\<lparr>wd_nextReceipt := n\<rparr>) = deadGen dk g w"
  by (simp add: deadGen_def)

lemma deadGen_mdel: "deadGen dk g w \<Longrightarrow> deadGen dk g (w\<lparr>wd_active := mdel (wd_active w) x\<rparr>)"
  by (simp add: deadGen_def)

lemma deadGen_mput0:
  "deadGen dk g w \<Longrightarrow> a_offlineGeneration a = 0 \<Longrightarrow> deadGen dk g (w\<lparr>wd_active := mput (wd_active w) x a\<rparr>)"
  by (auto simp: deadGen_def)

lemma deadGen_clear: "deadGen dk g w \<Longrightarrow> deadGen dk g (fst (clearActiveTimer x w))"
  by (auto simp: clearActiveTimer_def deadGen_mput0 split: option.split)

lemma deadGen_stage: "deadGen dk g w \<Longrightarrow> deadGen dk g (fst (stage P C now x sid bid t w))"
proof -
  assume d: "deadGen dk g w"
  show ?thesis
  proof (cases "openBatch C now x sid bid (cleanup C now w)")
    case None
    with d show ?thesis by (simp add: stage_def Let_def)
  next
    case (Some p)
    obtain v b where p: "p = (v, b)" by force
    have "deadGen dk g v"
      using Some d unfolding p openBatch_def by (auto simp: Let_def split: option.splits if_splits)
    with d show ?thesis by (simp add: stage_def Let_def Some p)
  qed
qed

lemma deadGen_commit: "deadGen dk g w \<Longrightarrow> deadGen dk g (fst (commit C now x sid bid w))"
proof -
  assume d: "deadGen dk g w"
  obtain v os where v: "clearActiveTimer x (cleanup C now w) = (v, os)" by force
  let ?u = "(deleteDeviceBatches x v)\<lparr>wd_fired := mdel (wd_fired (deleteDeviceBatches x v)) x\<rparr>"
  have "deadGen dk g ?u" using deadGen_clear [of dk g "cleanup C now w" x] d by (simp add: v)
  from deadGen_mput0 [OF this] have "a_offlineGeneration a = 0 \<Longrightarrow> deadGen dk g
      (?u\<lparr>wd_active := mput (wd_active ?u) x a\<rparr>)" for a .
  with d show ?thesis by (simp add: commit_def v Let_def split: option.split)
qed

lemma deadGen_disarm: "deadGen dk g w \<Longrightarrow> deadGen dk g (fst (disarm C now x sid w))"
proof -
  assume d: "deadGen dk g w"
  obtain v os where v: "clearActiveTimer x (cleanup C now w) = (v, os)" by force
  have "deadGen dk g (v\<lparr>wd_active := mdel (wd_active v) x\<rparr>)"
    using deadGen_clear [of dk g "cleanup C now w" x] d by (intro deadGen_mdel) (simp add: v)
  with d show ?thesis by (simp add: disarm_def v Let_def split: option.split)
qed

lemma deadGen_offline: "deadGen dk g w \<Longrightarrow> deadGen dk g (fst (agentOffline C now x w))"
  by (auto simp: agentOffline_def Let_def deadGen_def cleanup_def split: option.splits)

lemma deadGen_fireBegin: "deadGen dk g w \<Longrightarrow> deadGen dk g (fst (fireBegin P C now x sid h w))"
  by (auto simp: fireBegin_def Let_def deadGen_mdel split: option.splits)

lemma deadGen_fireEnd: "deadGen dk g w \<Longrightarrow> deadGen dk g (fireEnd C now x i sent rep w)"
  by (auto simp: fireEnd_def split: option.splits)

lemma dispose_generation:
  "wd_generation (fst (fold (\<lambda>k (v, os). let (v1, o1) = clearActiveTimer k v in (v1, os @ o1)) ks (w, os)))
     = wd_generation w"
proof (induction ks arbitrary: w os)
  case (Cons k ks)
  obtain v o1 where v: "clearActiveTimer k w = (v, o1)" by force
  then have "wd_generation v = wd_generation w" by (auto simp: clearActiveTimer_def split: option.splits)
  then show ?case using Cons.IH [of v "os @ o1"] by (simp add: v)
qed simp

lemma deadGen_dispose: "deadGen dk g w \<Longrightarrow> deadGen dk g (fst (disposeWatchdog w))"
  using dispose_generation [of "map fst (wd_active w)" w "[]"]
  by (auto simp: disposeWatchdog_def Let_def deadGen_def split: prod.splits)

lemma deadGen_step: "deadGen dk g w \<Longrightarrow> deadGen dk g (fst (wdStep P C e w))"
  by (cases e)
     (simp_all add: deadGen_stage deadGen_clear agentOnline_def deadGen_fireBegin deadGen_fireEnd
        deadGen_dispose deadGen_commit deadGen_disarm deadGen_offline case_prod_beta Let_def)

lemma deadGen_run: "deadGen dk g w \<Longrightarrow> deadGen dk g (fst (run_machine (wdStep P C) fs w))"
  by (induction fs arbitrary: w) (auto simp: deadGen_step case_prod_beta Let_def)

lemma deadGen_online:
  assumes "wdInv P C w" "0 < g" "g \<le> wd_generation w"
  shows "deadGen dk g (fst (agentOnline dk w))"
proof -
  have "armedOk P C (wd_generation w) a" if "mget (wd_active w) dk = Some a" for a
    using assms(1) activeOk_mget that unfolding wdInv_def by blast
  then show ?thesis
    using assms(2,3)
    by (auto simp: agentOnline_def clearActiveTimer_def deadGen_def armedOk_def split: option.split)
qed

lemma wdRun_append: "wdRun P C (es @ fs) = fst (run_machine (wdStep P C) fs (wdRun P C es))"
  by (simp add: run_machine_append case_prod_beta Let_def)

subsection \<open>Statements\<close>

text \<open>
  C3: Sealed pushes only reach allowlisted hosts. In every run of the watchdog, whatever the order
  of messages, disconnects and timers, every ticket that is sent has an endpoint that
  \<open>isAllowedPushEndpoint\<close> accepts: the relay cannot be used to post to an arbitrary server.
\<close>
theorem pushes_allowlisted:
  assumes "SendTickets i ts \<in> set (wdOuts P C es)" and "t \<in> set ts"
  shows "isAllowedPushEndpoint P (allowedPushOrigins C) (t_endpoint t)"
  using run_sends_allowed [OF assms] by (simp add: allowedTicket_def)

text \<open>A platform and a configuration for the witnesses: one URL parses, every date is one second.\<close>

definition demo_platform :: platform where
  "demo_platform = \<lparr>p_url = (\<lambda>s. Some \<lparr>u_protocol = js ''https:'', u_hostname = js ''fcm.googleapis.com'',
     u_username = [], u_password = [], u_port = [], u_origin = js ''https://fcm.googleapis.com''\<rparr>),
     p_isIP = (\<lambda>h. False), p_dateParse = (\<lambda>s. Some 100000)\<rparr>"

definition demo_config :: wd_config where
  "demo_config = \<lparr>offlineDelayMs = 30000, maxTicketLifetimeMs = 1200000, firedReceiptTtlMs = 1800000,
     maxTickets = 32, maxBatchesPerDevice = 4, allowedPushOrigins = []\<rparr>"

definition demo_ticket :: ticket where
  "demo_ticket = \<lparr>t_deviceId = [3], t_endpoint = [2], t_expiresAt = [3], t_authorization = [4],
     t_contentEncoding = [5], t_body = [6]\<rparr>"

definition demo_arm :: "wd_event list" where
  "demo_arm = [Stage 0 [7] [8] [9] demo_ticket, Commit 0 [7] [8] [9], Offline 0 [7]]"

lemma demo_allowed: "isAllowedPushEndpoint demo_platform [] [2]"
proof -
  have l: "lower (js ''fcm.googleapis.com'') = js ''fcm.googleapis.com''"
    by (rule lower_id) (simp add: js_def is_upper_def)
  show ?thesis by (simp add: isAllowedPushEndpoint_def demo_platform_def l Let_def)
qed

definition demo_armed :: watchdog where
  "demo_armed = \<lparr>wd_active = [([7], \<lparr>a_sessionId = [8], a_tickets = [demo_ticket], a_offlineTimer = Some 1,
     a_offlineGeneration = 1\<rparr>)], wd_batches = [], wd_fired = [], wd_generation = 1, wd_nextTimer = 2,
     wd_nextReceipt = 0\<rparr>"

lemma demo_armed_run: "wdRun demo_platform demo_config demo_arm = demo_armed"
proof -
  have s: "fst (stage demo_platform demo_config 0 [7] [8] [9] demo_ticket initWatchdog) =
      initWatchdog\<lparr>wd_batches := [([7, 10, 9], \<lparr>b_deviceKey = [7], b_sessionId = [8], b_batchId = [9],
        b_createdAtMs = 0, b_tickets = [([3], demo_ticket)]\<rparr>)]\<rparr>"
    using demo_allowed
    by (simp add: stage_def openBatch_def cleanup_def sweepBatches_def sweepFired_def mfilter_def
        initWatchdog_def Let_def demo_config_def demo_ticket_def batchKey_def mhas_def)
       (simp add: demo_platform_def)
  let ?b = "\<lparr>b_deviceKey = [7], b_sessionId = [8], b_batchId = [9], b_createdAtMs = 0,
      b_tickets = [([3], demo_ticket)]\<rparr>"
  let ?a = "\<lparr>a_sessionId = [8], a_tickets = [demo_ticket], a_offlineTimer = None, a_offlineGeneration = 0\<rparr>"
  have c: "commit demo_config 0 [7] [8] [9] (initWatchdog\<lparr>wd_batches := [([7, 10, 9], ?b)]\<rparr>)
      = (initWatchdog\<lparr>wd_active := [([7], ?a)]\<rparr>, Inr 1, [])"
    by (simp add: commit_def cleanup_def sweepBatches_def sweepFired_def mfilter_def staleBatch_def
        initWatchdog_def demo_config_def batchKey_def clearActiveTimer_def deleteDeviceBatches_def
        mdel_def Let_def)
  have o: "agentOffline demo_config 0 [7] (initWatchdog\<lparr>wd_active := [([7], ?a)]\<rparr>)
      = (demo_armed, True, [SetTimer 1 [7] [8] 1 30000])"
    by (simp add: agentOffline_def cleanup_def sweepBatches_def sweepFired_def mfilter_def
        initWatchdog_def demo_config_def demo_armed_def Let_def)
  show ?thesis by (simp add: demo_arm_def s c o)
qed

lemma demo_fire: "wdOuts demo_platform demo_config (demo_arm @ [Fire 40000 [7] [8] 1])
    = wdOuts demo_platform demo_config demo_arm @ [SendTickets 0 [demo_ticket]]"
  unfolding run_machine_snoc demo_armed_run
  by (simp add: fireBegin_def demo_armed_def demo_platform_def deleteDeviceBatches_def mfilter_def
      mdel_def Let_def)

theorem pushes_allowlisted_witness: "isAllowedPushEndpoint demo_platform (allowedPushOrigins demo_config) [2]"
  using pushes_allowlisted [of 0 "[demo_ticket]" demo_platform demo_config
      "demo_arm @ [Fire 40000 [7] [8] 1]" demo_ticket] demo_fire
  by (simp add: demo_ticket_def)

text \<open>
  C4: A reconnect makes every earlier grace timer harmless. After any run, once the agent of a
  device is online again, a callback of a generation handed out before changes nothing and sends
  nothing, however late it runs and whatever happens in between.
\<close>
theorem reconnect_defuses:
  assumes "0 < g" and "g \<le> wd_generation (wdRun P C es)"
  shows "fireBegin P C now dk sid g (wdRun P C (es @ [Online dk] @ fs))
    = (wdRun P C (es @ [Online dk] @ fs), [])"
proof -
  have "deadGen dk g (wdRun P C (es @ [Online dk]))"
    using deadGen_online [OF wdInv_run assms] by (simp add: run_machine_snoc)
  then have "deadGen dk g (wdRun P C ((es @ [Online dk]) @ fs))"
    unfolding wdRun_append by (rule deadGen_run)
  then show ?thesis by (simp add: deadGen_fire)
qed

theorem reconnect_defuses_witness:
  "fireBegin demo_platform demo_config 40000 [7] [8] 1 (wdRun demo_platform demo_config (demo_arm @ [Online [7]] @ []))
    = (wdRun demo_platform demo_config (demo_arm @ [Online [7]] @ []), [])"
  by (rule reconnect_defuses) (simp_all only: demo_armed_run, simp_all add: demo_armed_def)

text \<open>
  C17: A timer fires at most once. If a callback of generation \<open>g\<close> has sent the tickets of a
  device, no later callback of that generation sends again, whatever happens in between.
\<close>
theorem fires_at_most_once:
  assumes "wdInv P C w" and "0 < g" and "SendTickets i ts \<in> set (snd (fireBegin P C now dk sid g w))"
  shows "snd (fireBegin P C now' dk sid' g
    (fst (run_machine (wdStep P C) fs (fst (fireBegin P C now dk sid g w))))) = []"
proof -
  obtain a where a: "mget (wd_active w) dk = Some a" "a_offlineGeneration a = g"
    using assms(3) by (auto simp: fireBegin_def split: option.splits if_splits)
  have "g \<le> wd_generation w"
    using assms(1) a activeOk_mget unfolding wdInv_def armedOk_def by blast
  then have "deadGen dk g (fst (fireBegin P C now dk sid g w))"
    using assms(2,3) by (auto simp: fireBegin_def Let_def deadGen_def deleteDeviceBatches_def split: option.splits if_splits)
  from deadGen_run [OF this] show ?thesis by (simp add: deadGen_fire)
qed

theorem fires_at_most_once_witness:
  "snd (fireBegin demo_platform demo_config 50000 [7] [8] 1
    (fst (run_machine (wdStep demo_platform demo_config) [] (fst (fireBegin demo_platform demo_config 40000 [7] [8] 1
      (wdRun demo_platform demo_config demo_arm)))))) = []"
proof (rule fires_at_most_once [OF wdInv_run])
  show "SendTickets 0 [demo_ticket] \<in> set (snd (fireBegin demo_platform demo_config 40000 [7] [8] 1
      (wdRun demo_platform demo_config demo_arm)))"
    unfolding demo_armed_run
    by (simp add: fireBegin_def demo_armed_def demo_platform_def deleteDeviceBatches_def mfilter_def mdel_def Let_def)
qed simp

text \<open>
  A stale session cannot disarm a newer flight. A disarm that names another session leaves
  the armed entry of the device in place, its timer included, and clears no timer.
\<close>
theorem disarm_other_session:
  assumes "mget (wd_active w) dk = Some a" and "sid \<noteq> []" and "a_sessionId a \<noteq> sid"
  shows "mget (wd_active (fst (disarm C now dk sid w))) dk = Some a
    \<and> snd (snd (disarm C now dk sid w)) = []"
  using assms by (simp add: disarm_def cleanup_def Let_def)

theorem disarm_other_session_witness:
  "mget (wd_active (fst (disarm demo_config 0 [7] [99] demo_armed))) [7] = mget (wd_active demo_armed) [7]"
  using disarm_other_session [of demo_armed "[7]" _ "[99]" demo_config 0]
  by (simp add: demo_armed_def)

text \<open>
  A delivery receipt is handed over once. If a disarm reports that the alert was delivered, the
  very next disarm of the device by the same session does not report it again, at any time.
\<close>
theorem receipt_once:
  assumes "fst (snd (disarm C now dk sid w))"
  shows "\<not> fst (snd (disarm C now' dk sid (fst (disarm C now dk sid w))))"
proof -
  obtain v b os where d: "disarm C now dk sid w = (v, b, os)" by (metis prod_cases3)
  have b: "b" using assms d by simp
  then have n: "dk \<notin> fst ` set (wd_fired v)"
    using d by (auto simp: disarm_def Let_def mdel_def split: if_splits prod.splits option.splits)
  have "mget (wd_fired (cleanup C now' v)) dk = None"
    using n set_mfilter [of "\<lambda>k r. \<not> staleReceipt now' r" "wd_fired v"]
    by (auto simp: cleanup_def sweepFired_def map_of_eq_None_iff)
  moreover have "wd_fired (fst (clearActiveTimer dk u)) = wd_fired u" for u
    by (auto simp: clearActiveTimer_def split: option.split)
  ultimately have "\<not> fst (snd (disarm C now' dk sid v))"
    by (auto simp: disarm_def Let_def deleteDeviceBatches_def case_prod_beta split: if_splits)
  then show ?thesis by (simp add: d)
qed

definition demo_fired :: watchdog where
  "demo_fired = initWatchdog\<lparr>wd_fired := [([7], \<lparr>rc_id = 0, rc_sessionId = [8], rc_sent = True, rc_expiresAtMs = 10\<rparr>)]\<rparr>"

theorem receipt_once_witness:
  "\<not> fst (snd (disarm demo_config 1 [7] [8] (fst (disarm demo_config 0 [7] [8] demo_fired))))"
  by (rule receipt_once)
     (simp add: disarm_def demo_fired_def initWatchdog_def cleanup_def sweepBatches_def sweepFired_def mfilter_def
       staleReceipt_def clearActiveTimer_def deleteDeviceBatches_def mdel_def Let_def)

text \<open>
  C5: The relay's memory is bounded. In every reachable state a device has at most
  \<open>maxBatchesPerDevice\<close> pending batches, no batch and no armed entry has more than \<open>maxTickets\<close>
  tickets, and an armed entry is never empty.
\<close>
theorem watchdog_bounded:
  "deviceBatches dk (wd_batches (wdRun P C es)) \<le> maxBatchesPerDevice C
   \<and> (\<forall>(k, b) \<in> set (wd_batches (wdRun P C es)). length (b_tickets b) \<le> maxTickets C)
   \<and> (\<forall>(k, a) \<in> set (wd_active (wdRun P C es)). a_tickets a \<noteq> [] \<and> length (a_tickets a) \<le> maxTickets C)"
  using wdInv_run [of P C es]
  by (auto simp: wdInv_def batchesOk_def activeOk_def batchOk_def armedOk_def)

theorem watchdog_bounded_witness:
  "deviceBatches [7] (wd_batches (wdRun demo_platform demo_config demo_arm)) \<le> 4"
  using watchdog_bounded [of "[7]" demo_platform demo_config demo_arm] by (simp add: demo_config_def)

end
