(* ===== verification/JDates.thy ===== *)
theory JDates
  imports JNumbers
begin

section \<open>Dates and radix strings of JavaScript\<close>

text \<open>
  \<open>new Date(ms).toISOString()\<close> for a time in milliseconds since 1970 within the range of \<open>Date\<close>
  (|ms| at most 8.64e15; a clock value always is), and \<open>n.toString(36)\<close>, which the program uses
  to make message identifiers.
\<close>

text \<open>The proleptic Gregorian date of a day number, counted in eras of 400 years from March 1st.\<close>

definition civil_of_days :: "int \<Rightarrow> int \<times> int \<times> int" where
  "civil_of_days days =
     (let z = days + 719468; era = z div 146097; doe = z mod 146097;
          yoe = (doe - doe div 1460 + doe div 36524 - doe div 146096) div 365;
          doy = doe - (365 * yoe + yoe div 4 - yoe div 100);
          mp = (5 * doy + 2) div 153;
          d = doy - (153 * mp + 2) div 5 + 1;
          m = (if mp < 10 then mp + 3 else mp - 9);
          y = yoe + era * 400 + (if m \<le> 2 then 1 else 0)
      in (y, m, d))"

definition pad_int :: "nat \<Rightarrow> int \<Rightarrow> jstr" where
  "pad_int w i = pad_start w 48 (nat_digits (nat i))"

definition iso_year :: "int \<Rightarrow> jstr" where
  "iso_year y = (if 0 \<le> y \<and> y \<le> 9999 then pad_int 4 y
     else (if y < 0 then 45 else 43) # pad_int 6 \<bar>y\<bar>)"

definition iso_string :: "int \<Rightarrow> jstr" where
  "iso_string ms =
     (let days = ms div 86400000; t = ms mod 86400000; (y, m, d) = civil_of_days days
      in iso_year y @ [45] @ pad_int 2 m @ [45] @ pad_int 2 d @ [84]
         @ pad_int 2 (t div 3600000) @ [58] @ pad_int 2 (t div 60000 mod 60) @ [58]
         @ pad_int 2 (t div 1000 mod 60) @ [46] @ pad_int 3 (t mod 1000) @ [90])"

definition digit36 :: "nat \<Rightarrow> nat" where
  "digit36 d = (if d < 10 then 48 + d else 87 + d)"

fun nat36 :: "nat \<Rightarrow> jstr" where
  "nat36 n = (if n < 36 then [digit36 n] else nat36 (n div 36) @ [digit36 (n mod 36)])"

declare nat36.simps [simp del]

definition to_string36 :: "int \<Rightarrow> jstr" where
  "to_string36 i = (if i < 0 then 45 # nat36 (nat (- i)) else nat36 (nat i))"

end
