(* ===== verification/RelayBase.thy ===== *)
theory RelayBase
  imports Versions JDates Watchdog
begin

section \<open>The relay: configuration, identities and admission (apps/relay/index.js)\<close>

text \<open>
  The relay reads its configuration from the environment, keeps the users with the hashes of
  their agent tokens, and decides at the HTTP upgrade who may open a WebSocket and as whom.
  This theory holds the parsers of the configuration, the user table and the admission
  decision. SHA-256 (as a hexadecimal text), the URL parser and the collator of
  \<open>localeCompare\<close> are fields of \<open>node\<close>, the platform the relay runs on.
\<close>

record node =
  n_platform :: platform
  n_sha :: "jstr \<Rightarrow> jstr"
  n_coll :: "jstr \<Rightarrow> jstr \<Rightarrow> int"
  n_parse :: "jstr \<Rightarrow> json option"

datatype auth_mode = EnvMode | SqliteFallback | Sqlite

subsection \<open>Configuration texts\<close>

text \<open>Case folding of a regular expression with the flag \<open>i\<close>, on the ASCII letters it can meet.\<close>

definition fold_case :: "jstr \<Rightarrow> jstr" where
  "fold_case s = map (\<lambda>c. if is_upper c then c + 32 else c) s"

definition parseList :: "jstr \<Rightarrow> jstr list" where
  "parseList value = filter (\<lambda>x. x \<noteq> []) (map trim (split_on 44 value))"

definition parseBool :: "jstr option \<Rightarrow> bool \<Rightarrow> bool" where
  "parseBool value fallback =
     (case value of
        None \<Rightarrow> fallback
      | Some v \<Rightarrow> if v = [] then fallback
          else List.member (map js [''1'', ''true'', ''yes'', ''on'']) (fold_case v))"

definition math_trunc :: "rat \<Rightarrow> int" where
  "math_trunc q = (if q < 0 then \<lceil>q\<rceil> else \<lfloor>q\<rfloor>)"

definition clampInteger :: "jstr option \<Rightarrow> int \<Rightarrow> int \<Rightarrow> int \<Rightarrow> int" where
  "clampInteger value fallback lo hi =
     (case (case value of None \<Rightarrow> NaN | Some v \<Rightarrow> to_number v) of
        Fin q \<Rightarrow> max lo (min hi (math_trunc q))
      | _ \<Rightarrow> fallback)"

definition parseRelayAuthMode :: "jstr option \<Rightarrow> auth_mode option" where
  "parseRelayAuthMode value =
     (let explicit = lower (trim (case value of None \<Rightarrow> [] | Some v \<Rightarrow> v)) in
      if explicit = [] then Some EnvMode
      else if explicit = js ''env'' then Some EnvMode
      else if explicit = js ''sqlite-fallback'' then Some SqliteFallback
      else if explicit = js ''sqlite'' then Some Sqlite
      else None)"

definition relay_version_rx :: rx where
  "relay_version_rx =
     (let dotnum = Seq (lit ''.'') (plus (Chr is_digit)) in
      seqs [opt (lit ''v''), plus (Chr is_digit), dotnum, opt dotnum, opt dotnum,
            opt (Seq (Chr (one_of ''-+'')) (plus (Chr (\<lambda>c. alnum c \<or> one_of ''.:-'' c))))])"

definition validateVersionText :: "jstr option \<Rightarrow> jstr \<Rightarrow> jstr" where
  "validateVersionText value fallback =
     (let text = trim (case value of None \<Rightarrow> [] | Some v \<Rightarrow> v) in
      if text = [] then fallback
      else if rx_match relay_version_rx text then text
      else fallback)"

definition validateHttpUrl :: "url_parser \<Rightarrow> jstr option \<Rightarrow> jstr \<Rightarrow> jstr" where
  "validateHttpUrl U value fallback =
     (let text = trim (case value of None \<Rightarrow> [] | Some v \<Rightarrow> v) in
      case U text of
        None \<Rightarrow> fallback
      | Some u \<Rightarrow> if u_protocol u = js ''https:'' \<or> u_protocol u = js ''http:'' then text else fallback)"

text \<open>\<open>/^Bearer\s+([^\s]+)$/i\<close> on the trimmed header.\<close>

definition readBearerToken :: "jstr \<Rightarrow> jstr" where
  "readBearerToken authorization =
     (let header = trim authorization; (w, t) = span is_ws (drop 6 header) in
      if fold_case (take 6 header) = js ''bearer'' \<and> w \<noteq> [] \<and> t \<noteq> [] \<and> \<not> list_ex is_ws t
      then t else [])"

definition line_end :: "nat \<Rightarrow> bool" where
  "line_end c = (c = 10 \<or> c = 13 \<or> c = 8232 \<or> c = 8233)"

text \<open>
  \<open>/^Bearer\s+(.+)$/i\<close> on the raw header, then \<open>match[1].trim()\<close>. The white space run is greedy
  and gives back one unit when nothing follows it; the trimmed group is the same either way.
\<close>

definition admin_bearer :: "jstr \<Rightarrow> jstr option" where
  "admin_bearer header =
     (let (w, t) = span is_ws (drop 6 header) in
      if fold_case (take 6 header) \<noteq> js ''bearer'' \<or> w = [] then None
      else if t \<noteq> [] then (if list_ex line_end t then None else Some (trim t))
      else if length w < 2 \<or> line_end (last w) then None
      else Some [])"

subsection \<open>Secrets\<close>

definition hashSecret :: "node \<Rightarrow> jstr \<Rightarrow> jstr" where
  "hashSecret N value = n_sha N value"

definition verifySecret :: "node \<Rightarrow> jstr \<Rightarrow> jstr \<Rightarrow> bool" where
  "verifySecret N value expectedHash = (hashSecret N value = expectedHash)"

datatype admin_decision = AdminOk | AdminDenied nat jstr

definition authorizeAdminTokenRequest :: "node \<Rightarrow> jstr option \<Rightarrow> jstr \<Rightarrow> admin_decision" where
  "authorizeAdminTokenRequest N adminTokenHash header =
     (case adminTokenHash of
        None \<Rightarrow> AdminDenied 403 (js ''admin token is not configured'')
      | Some h \<Rightarrow> (case admin_bearer header of
          None \<Rightarrow> AdminDenied 401 (js ''unauthorized'')
        | Some t \<Rightarrow> if verifySecret N t h then AdminOk else AdminDenied 401 (js ''unauthorized'')))"

definition scopedDeviceKey :: "jstr \<Rightarrow> jstr \<Rightarrow> jstr" where
  "scopedDeviceKey userId deviceId = userId @ [58] @ deviceId"

definition browserAuthorizationKey :: "node \<Rightarrow> jstr \<Rightarrow> jstr \<Rightarrow> jstr" where
  "browserAuthorizationKey N userId browserId = n_sha N (userId @ [58] @ browserId)"

definition unscopedBrowserAuthorizationKey :: "node \<Rightarrow> jstr \<Rightarrow> jstr" where
  "unscopedBrowserAuthorizationKey N browserId = n_sha N browserId"

definition token_like :: "jstr \<Rightarrow> bool" where
  "token_like s = rx_match (Reps token_char 8 160) s"

definition user_id_like :: "jstr \<Rightarrow> bool" where
  "user_id_like s = rx_match (Reps (\<lambda>c. alnum c \<or> one_of ''._-'' c) 2 48) s"

subsection \<open>The user table\<close>

record relay_user =
  ru_userId :: jstr
  ru_userName :: jstr
  ru_tokenHashes :: "jstr list"

type_synonym relay_users = "(jstr, relay_user) jmap"

definition addRelayUserToken :: "relay_users \<Rightarrow> jstr \<Rightarrow> jstr \<Rightarrow> jstr \<Rightarrow> relay_users" where
  "addRelayUserToken users userId userName tokenHash =
     (case mget users userId of
        Some u \<Rightarrow> mput users userId (u\<lparr>ru_tokenHashes := ru_tokenHashes u @ [tokenHash]\<rparr>)
      | None \<Rightarrow> mput users userId
          \<lparr>ru_userId = userId, ru_userName = (if userName \<noteq> [] then userName else userId),
           ru_tokenHashes = [tokenHash]\<rparr>)"

definition DEFAULT_USER_ID :: jstr where
  "DEFAULT_USER_ID = js ''default''"

text \<open>The separator of an entry of \<open>VOXHF_RELAY_USERS\<close> and its position.\<close>

definition entry_split :: "jstr \<Rightarrow> nat option" where
  "entry_split entry = index_of (if List.member entry 61 then 61 else 58) entry"

text \<open>One entry of the list: the error, or the users and the user ids seen so far.\<close>

definition env_entry :: "node \<Rightarrow> jstr \<Rightarrow> relay_users \<times> jstr list \<Rightarrow> (relay_users \<times> jstr list) res" where
  "env_entry N entry us =
     (case entry_split entry of
        None \<Rightarrow> Inl (js ''Invalid VOXHF_RELAY_USERS entry: '' @ entry)
      | Some i \<Rightarrow>
          if i = 0 \<or> Suc i \<ge> length entry then Inl (js ''Invalid VOXHF_RELAY_USERS entry: '' @ entry)
          else (let userId = trim (take i entry); token = trim (drop (Suc i) entry) in
            if \<not> user_id_like userId \<or> token = []
            then Inl (js ''Invalid relay user or token in VOXHF_RELAY_USERS entry: '' @ entry)
            else if List.member (snd us) userId
            then Inl (js ''Duplicate relay user in VOXHF_RELAY_USERS: '' @ userId)
            else Inr (addRelayUserToken (fst us) userId userId (hashSecret N token), userId # snd us)))"

fun env_entries :: "node \<Rightarrow> jstr list \<Rightarrow> relay_users \<times> jstr list \<Rightarrow> (relay_users \<times> jstr list) res" where
  "env_entries N [] us = Inr us"
| "env_entries N (e # es) us = (case env_entry N e us of Inl x \<Rightarrow> Inl x | Inr vs \<Rightarrow> env_entries N es vs)"

definition defines_default :: "jstr \<Rightarrow> bool" where
  "defines_default entry = (case entry_split entry of
     None \<Rightarrow> False | Some i \<Rightarrow> 0 < i \<and> trim (take i entry) = DEFAULT_USER_ID)"

text \<open>\<open>loadEnvRelayUsers\<close> on the users loaded so far; \<open>Inl\<close> where the process exits.\<close>

definition loadEnvRelayUsers :: "node \<Rightarrow> jstr \<Rightarrow> jstr \<Rightarrow> relay_users \<Rightarrow> relay_users res" where
  "loadEnvRelayUsers N usersText defaultToken users =
     (let entries = parseList usersText in
      case env_entries N entries (users, []) of
        Inl e \<Rightarrow> Inl e
      | Inr (us, seen) \<Rightarrow>
          if defaultToken = [] then Inr us
          else if list_ex defines_default entries
          then Inl (js ''VOXHF_RELAY_USERS cannot also define the reserved user id'')
          else Inr (addRelayUserToken us DEFAULT_USER_ID (js ''Default'') (hashSecret N defaultToken)))"

text \<open>The rows of the active agent tokens of the database: user id, name, hash.\<close>

definition loadDatabaseRelayUsers :: "(jstr \<times> jstr \<times> jstr) list \<Rightarrow> relay_users \<Rightarrow> relay_users" where
  "loadDatabaseRelayUsers rows users =
     fold (\<lambda>(userId, userName, tokenHash) us.
        if \<not> user_id_like userId \<or> tokenHash = [] then us
        else addRelayUserToken us userId (if userName \<noteq> [] then userName else userId) tokenHash) rows users"

definition loadRelayUsers ::
  "node \<Rightarrow> auth_mode \<Rightarrow> (jstr \<times> jstr \<times> jstr) list \<Rightarrow> jstr \<Rightarrow> jstr \<Rightarrow> relay_users res" where
  "loadRelayUsers N mode rows usersText defaultToken =
     (let us = (if mode = Sqlite \<or> mode = SqliteFallback then loadDatabaseRelayUsers rows [] else []) in
      if mode = EnvMode \<or> mode = SqliteFallback then loadEnvRelayUsers N usersText defaultToken us
      else Inr us)"

definition findRelayUserByToken :: "node \<Rightarrow> relay_users \<Rightarrow> jstr \<Rightarrow> relay_user option" where
  "findRelayUserByToken N users token =
     (if token = [] then None
      else find (\<lambda>u. list_ex (verifySecret N token) (ru_tokenHashes u)) (map snd users))"

subsection \<open>The upgrade\<close>

text \<open>
  What the upgrade reads of a request: the path and the query of its URL (\<open>''\<close> for a missing
  parameter), the \<open>Origin\<close> and \<open>Authorization\<close> headers and the user of its session cookie.
\<close>

record upgrade =
  up_path :: jstr
  up_source :: jstr
  up_browserId :: jstr
  up_token :: jstr
  up_origin :: jstr
  up_authorization :: jstr
  up_session :: "(jstr \<times> jstr \<times> jstr) option"

datatype auth_kind = TOKEN | SESSION

record decision =
  d_source :: source
  d_browserId :: jstr
  d_userId :: jstr
  d_userName :: jstr
  d_authKind :: auth_kind
  d_sessionId :: jstr

datatype upgrade_result = Deny nat jstr | Allow decision

record relay_config =
  rc_authMode :: auth_mode
  rc_allowedOrigins :: "jstr list"
  rc_allowQueryToken :: bool
  rc_requirePairing :: bool
  rc_persistPairings :: bool
  rc_persistAudit :: bool
  rc_pairingTtlMs :: int
  rc_inviteTtlMs :: int
  rc_maxClients :: nat
  rc_rateWindowMs :: int
  rc_maxMessages :: nat
  rc_maxCommands :: nat
  rc_maxPairingAttempts :: nat
  rc_maxHttpRateKeys :: nat
  rc_maxAudioFrameBytes :: nat
  rc_maxTxDurationMs :: int
  rc_minimumVersion :: jstr
  rc_recommendedVersion :: jstr
  rc_appVersion :: jstr
  rc_downloadUrl :: jstr
  rc_watchdog :: wd_config

definition up_is_agent :: "upgrade \<Rightarrow> bool" where
  "up_is_agent r = (up_source r = source_name AGENT)"

definition up_header_token :: "upgrade \<Rightarrow> jstr" where
  "up_header_token r = (if up_is_agent r then readBearerToken (up_authorization r) else [])"

definition up_effective_token :: "relay_config \<Rightarrow> upgrade \<Rightarrow> jstr" where
  "up_effective_token C r =
     (if up_is_agent r
      then (if up_header_token r \<noteq> [] then up_header_token r
            else if rc_allowQueryToken C then up_token r else [])
      else up_token r)"

definition authorizeUpgrade :: "node \<Rightarrow> relay_config \<Rightarrow> relay_users \<Rightarrow> nat \<Rightarrow> upgrade \<Rightarrow> upgrade_result" where
  "authorizeUpgrade N C users clientCount r =
     (if up_path r \<noteq> js ''/ws'' then Deny 404 (js ''not found'')
      else if clientCount \<ge> rc_maxClients C then Deny 503 (js ''too many clients'')
      else if up_source r \<noteq> source_name BROWSER \<and> up_source r \<noteq> source_name AGENT
      then Deny 400 (js ''invalid source'')
      else if up_source r = source_name BROWSER \<and> up_origin r = [] then Deny 403 (js ''missing origin'')
      else if up_origin r \<noteq> [] \<and> \<not> List.member (rc_allowedOrigins C) (up_origin r)
      then Deny 403 (js ''forbidden origin'')
      else if up_source r = source_name BROWSER \<and> up_browserId r \<noteq> [] \<and> \<not> token_like (up_browserId r)
      then Deny 400 (js ''invalid browser id'')
      else if up_is_agent r \<and> up_header_token r \<noteq> [] \<and> up_token r \<noteq> []
      then Deny 400 (js ''ambiguous credentials'')
      else if up_is_agent r \<and> up_token r \<noteq> [] \<and> \<not> rc_allowQueryToken C
      then Deny 401 (js ''agent query token disabled'')
      else (let src = (if up_is_agent r then AGENT else BROWSER) in
        case findRelayUserByToken N users (up_effective_token C r) of
          Some u \<Rightarrow> Allow \<lparr>d_source = src, d_browserId = up_browserId r, d_userId = ru_userId u,
                     d_userName = ru_userName u, d_authKind = TOKEN, d_sessionId = []\<rparr>
        | None \<Rightarrow>
            (case (if src = BROWSER then up_session r else None) of
               Some (userId, userName, sessionId) \<Rightarrow>
                 Allow \<lparr>d_source = src, d_browserId = up_browserId r, d_userId = userId,
                        d_userName = userName, d_authKind = SESSION, d_sessionId = sessionId\<rparr>
             | None \<Rightarrow> Deny 401 (js ''unauthorized''))))"

subsection \<open>HTTP requests\<close>

definition json_content_type :: "jstr \<Rightarrow> bool" where
  "json_content_type s =
     (starts_with s (js ''application/json'')
      \<and> (let r = snd (span is_ws (drop 16 s)) in r = [] \<and> length s = 16 \<or> r \<noteq> [] \<and> hd r = 59))"

datatype api_check = ApiOk | ApiError nat jstr jstr

definition validateApiRequest :: "relay_config \<Rightarrow> jstr \<Rightarrow> jstr \<Rightarrow> jstr \<Rightarrow> api_check" where
  "validateApiRequest C requestMethod originHeader contentTypeHeader =
     (let origin = trim originHeader in
      if origin \<noteq> [] \<and> \<not> List.member (rc_allowedOrigins C) origin
      then ApiError 403 (js ''forbidden_origin'') (js ''forbidden origin'')
      else if requestMethod = js ''POST'' \<and> \<not> json_content_type (lower contentTypeHeader)
      then ApiError 415 (js ''unsupported_media_type'') (js ''application/json is required'')
      else ApiOk)"

definition corsHeaders :: "relay_config \<Rightarrow> jstr \<Rightarrow> (jstr \<times> jstr) list" where
  "corsHeaders C origin =
     (if origin = [] \<or> \<not> List.member (rc_allowedOrigins C) origin then []
      else [(js ''access-control-allow-origin'', origin),
            (js ''access-control-allow-credentials'', js ''true''), (js ''vary'', js ''Origin'')])"

definition getRequestIp :: "jstr \<Rightarrow> jstr \<Rightarrow> jstr" where
  "getRequestIp forwardedFor remoteAddress =
     (let forwarded = trim (hd (split_on 44 forwardedFor)) in
      if forwarded \<noteq> [] then forwarded else remoteAddress)"

subsection \<open>Codes a user types\<close>

definition normalizePairingCode :: "jstr \<Rightarrow> jstr" where
  "normalizePairingCode value =
     (let raw = filter (\<lambda>c. is_upper c \<or> is_digit c) (upper value) in
      if length raw > 3 then take 3 raw @ [45] @ drop 3 raw else raw)"

definition invite_rx :: rx where
  "invite_rx = Seq (lit ''VHF-'') (Reps (\<lambda>c. is_upper c \<or> is_digit c \<or> one_of ''_-'' c) 20 64)"

definition normalizeRegistrationInvite :: "jstr \<Rightarrow> jstr" where
  "normalizeRegistrationInvite value =
     (let code = upper (trim value) in if rx_match invite_rx code then code else [])"

definition registrationInviteKey :: "node \<Rightarrow> jstr \<Rightarrow> jstr" where
  "registrationInviteKey N code = n_sha N code"

end
