(* ===== verification/Relay.thy ===== *)
theory Relay
  imports RelayBase
begin

section \<open>The relay: state and handlers (apps/relay/index.js)\<close>

text \<open>
  A socket is a number. \<open>r_obj\<close> holds the client object that the handlers of a socket close over;
  it outlives the entry of the \<open>clients\<close> map, whose keys are \<open>r_clients\<close> in insertion order.
  \<open>r_open\<close> are the sockets whose \<open>readyState\<close> is \<open>OPEN\<close>: \<open>send\<close> writes to no other, and \<open>close\<close>
  removes the socket from it at once. Handlers are state passing functions with the list of
  their outputs. An absent property of a client object reads as \<open>[]\<close>, which is as falsy.
\<close>

subsection \<open>State\<close>

datatype bucket = Messages | Commands | Pairings

record rate =
  windowStartMs :: int
  r_messages :: nat
  r_commands :: nat
  r_pairings :: nat

record client =
  c_id :: jstr
  c_source :: source
  c_userId :: jstr
  c_userName :: jstr
  c_authKind :: auth_kind
  c_sessionId :: jstr
  c_browserId :: jstr
  c_connectedAt :: int
  c_remoteAddress :: jstr
  c_rate :: rate
  c_heartbeatAlive :: bool
  c_deviceId :: jstr
  c_deviceKey :: jstr
  c_deviceName :: jstr
  c_selectedDeviceId :: jstr
  c_activeTxDeviceId :: jstr
  c_activeTxCom :: jnum
  c_activeTxStartedAt :: int

record device =
  dv_key :: jstr
  dv_userId :: jstr
  dv_deviceId :: jstr
  dv_deviceName :: jstr
  dv_agentVersion :: jstr
  dv_online :: bool
  dv_ws :: nat
  dv_clientId :: jstr
  dv_connectedAt :: int
  dv_lastSeenAt :: int
  dv_lastMessages :: "(mtype, message) jmap"

record pairing =
  pc_userId :: jstr
  pc_deviceId :: jstr
  pc_expiresAtMs :: int

record relay =
  r_obj :: "(nat, client) jmap"
  r_clients :: "nat list"
  r_open :: "nat list"
  r_devices :: "(jstr, device) jmap"
  r_codes :: "(jstr, pairing) jmap"
  r_auth :: "(jstr, jstr list) jmap"
  r_watchdog :: watchdog

text \<open>What a handler reads of the platform: the clock, a message identifier, a UUID, random bytes.\<close>

record env =
  e_now :: int
  e_gen :: jstr
  e_uuid :: jstr
  e_hex :: "nat \<Rightarrow> jstr"

record audit =
  au_event :: string
  au_userId :: jstr
  au_actorType :: string
  au_actorId :: jstr
  au_ip :: jstr
  au_target :: jstr
  au_metadata :: "(jstr \<times> jstr) list"

datatype r_out = Send nat message
  | SendBinary nat "8 word list"
  | CloseSocket nat jstr
  | CloseLater nat jstr nat
  | PingSocket nat
  | Terminate nat
  | StorePairings "(jstr \<times> jstr list \<times> jstr) list"
  | UpsertPairing jstr jstr jstr jstr
  | RevokePairingRow jstr jstr jstr
  | UpsertAgent jstr jstr jstr
  | Audit audit
  | Watch wd_out

definition initRelay :: "(jstr, jstr list) jmap \<Rightarrow> relay" where
  "initRelay persisted = \<lparr>r_obj = [], r_clients = [], r_open = [], r_devices = [], r_codes = [],
     r_auth = persisted, r_watchdog = initWatchdog\<rparr>"

definition createRateState :: "int \<Rightarrow> rate" where
  "createRateState now = \<lparr>windowStartMs = now, r_messages = 0, r_commands = 0, r_pairings = 0\<rparr>"

definition blank_client :: client where
  "blank_client = \<lparr>c_id = [], c_source = RELAY, c_userId = [], c_userName = [], c_authKind = TOKEN,
     c_sessionId = [], c_browserId = [], c_connectedAt = 0, c_remoteAddress = [],
     c_rate = createRateState 0, c_heartbeatAlive = False, c_deviceId = [], c_deviceKey = [],
     c_deviceName = [], c_selectedDeviceId = [], c_activeTxDeviceId = [], c_activeTxCom = Fin 0,
     c_activeTxStartedAt = 0\<rparr>"

text \<open>The client object of a socket; every socket that raises an event has one.\<close>

definition client_of :: "relay \<Rightarrow> nat \<Rightarrow> client" where
  "client_of s ws = (case mget (r_obj s) ws of Some c \<Rightarrow> c | None \<Rightarrow> blank_client)"

definition upd_client :: "nat \<Rightarrow> (client \<Rightarrow> client) \<Rightarrow> relay \<Rightarrow> relay" where
  "upd_client ws f s = s\<lparr>r_obj := mput (r_obj s) ws (f (client_of s ws))\<rparr>"

definition is_open :: "relay \<Rightarrow> nat \<Rightarrow> bool" where
  "is_open s ws = List.member (r_open s) ws"

subsection \<open>Messages and sockets\<close>

definition send :: "nat \<Rightarrow> message \<Rightarrow> relay \<Rightarrow> relay \<times> r_out list" where
  "send ws m s = (s, if is_open s ws then [Send ws m] else [])"

definition sendBinary :: "nat \<Rightarrow> 8 word list \<Rightarrow> relay \<Rightarrow> relay \<times> r_out list" where
  "sendBinary ws frame s = (s, if is_open s ws then [SendBinary ws frame] else [])"

definition closeProtocol :: "nat \<Rightarrow> jstr \<Rightarrow> relay \<Rightarrow> relay \<times> r_out list" where
  "closeProtocol ws reason s = (s\<lparr>r_open := filter (\<lambda>x. x \<noteq> ws) (r_open s)\<rparr>, [CloseSocket ws reason])"

abbreviation quiet :: "(relay \<Rightarrow> relay) \<Rightarrow> relay \<Rightarrow> relay \<times> r_out list" where
  "quiet f s \<equiv> (f s, [])"

definition text_fields :: "(string \<times> jstr) list \<Rightarrow> payload" where
  "text_fields ps = map (\<lambda>(k, v). (js k, JStr v)) ps"

definition relay_error :: "env \<Rightarrow> string \<Rightarrow> jstr \<Rightarrow> jstr \<Rightarrow> message" where
  "relay_error E code text i =
     createRemoteMessage (e_gen E) RELAY_ERROR (text_fields [(''code'', js code), (''message'', text)]) i"

definition ptext :: "message \<Rightarrow> string \<Rightarrow> jstr" where
  "ptext m k = str_or_empty (fld (m_payload m) k)"

definition publicDevice :: "device \<Rightarrow> payload" where
  "publicDevice d = [(js ''deviceId'', JStr (dv_deviceId d)), (js ''deviceName'', JStr (dv_deviceName d)),
     (js ''online'', JBool (dv_online d))]
     @ (if dv_agentVersion d \<noteq> [] then [(js ''agentVersion'', JStr (dv_agentVersion d))] else [])"

definition device_state :: "env \<Rightarrow> payload \<Rightarrow> jstr \<Rightarrow> message" where
  "device_state E p i = createRemoteMessage (e_gen E) DEVICE_STATE p i"

definition pairingsUseDatabase :: "relay_config \<Rightarrow> bool" where
  "pairingsUseDatabase C = (rc_persistPairings C \<and> rc_authMode C \<noteq> EnvMode)"

definition recordAuditEvent :: "relay_config \<Rightarrow> audit \<Rightarrow> relay \<Rightarrow> relay \<times> r_out list" where
  "recordAuditEvent C a s = (s, if \<not> rc_persistAudit C \<or> rc_authMode C = EnvMode then [] else [Audit a])"

definition rememberRelayAgent :: "relay_config \<Rightarrow> device \<Rightarrow> relay \<Rightarrow> relay \<times> r_out list" where
  "rememberRelayAgent C d s = (s, if \<not> pairingsUseDatabase C then [] else
     [UpsertAgent (dv_userId d) (dv_deviceId d)
        (if dv_deviceName d \<noteq> [] then dv_deviceName d else dv_deviceId d)])"

subsection \<open>Rate limits\<close>

definition rate_count :: "bucket \<Rightarrow> rate \<Rightarrow> nat" where
  "rate_count b r = (case b of Messages \<Rightarrow> r_messages r | Commands \<Rightarrow> r_commands r | Pairings \<Rightarrow> r_pairings r)"

definition rate_inc :: "bucket \<Rightarrow> rate \<Rightarrow> rate" where
  "rate_inc b r = (case b of
     Messages \<Rightarrow> r\<lparr>r_messages := Suc (r_messages r)\<rparr>
   | Commands \<Rightarrow> r\<lparr>r_commands := Suc (r_commands r)\<rparr>
   | Pairings \<Rightarrow> r\<lparr>r_pairings := Suc (r_pairings r)\<rparr>)"

definition rate_error :: "env \<Rightarrow> bucket \<Rightarrow> message" where
  "rate_error E b = (case b of
     Commands \<Rightarrow> relay_error E ''command-rate-limited'' (js ''Too many remote commands. Slow down and try again.'') []
   | Pairings \<Rightarrow> relay_error E ''pairing-rate-limited'' (js ''Too many pairing attempts. Slow down and try again.'') []
   | Messages \<Rightarrow> relay_error E ''message-rate-limited'' (js ''Too many remote messages. Slow down and try again.'') [])"

definition rate_step :: "int \<Rightarrow> int \<Rightarrow> bucket \<Rightarrow> rate \<Rightarrow> rate" where
  "rate_step window now b r =
     rate_inc b (if now - windowStartMs r > window then createRateState now else r)"

text \<open>The verdict of \<open>allowRate\<close>, and the state and the error message it leaves.\<close>

definition rate_allows :: "relay_config \<Rightarrow> env \<Rightarrow> nat \<Rightarrow> bucket \<Rightarrow> nat \<Rightarrow> relay \<Rightarrow> bool" where
  "rate_allows C E ws b limit s =
     (rate_count b (rate_step (rc_rateWindowMs C) (e_now E) b (c_rate (client_of s ws))) \<le> limit)"

definition allowRate :: "relay_config \<Rightarrow> env \<Rightarrow> nat \<Rightarrow> bucket \<Rightarrow> nat \<Rightarrow> relay \<Rightarrow> relay \<times> r_out list" where
  "allowRate C E ws b limit s =
     (let s1 = upd_client ws (\<lambda>c. c\<lparr>c_rate := rate_step (rc_rateWindowMs C) (e_now E) b (c_rate c)\<rparr>) s in
      if rate_allows C E ws b limit s then (s1, []) else send ws (rate_error E b) s1)"

subsection \<open>Access\<close>

definition authorized_for :: "relay \<Rightarrow> jstr \<Rightarrow> jstr \<Rightarrow> bool" where
  "authorized_for s key deviceId = (case mget (r_auth s) key of
     None \<Rightarrow> False | Some ds \<Rightarrow> List.member ds deviceId)"

definition canClientAccessDevice :: "node \<Rightarrow> relay_config \<Rightarrow> relay \<Rightarrow> client \<Rightarrow> jstr \<Rightarrow> bool" where
  "canClientAccessDevice N C s c deviceId =
     (if (case mget (r_devices s) (scopedDeviceKey (c_userId c) deviceId) of
            Some d \<Rightarrow> dv_userId d \<noteq> c_userId c | None \<Rightarrow> False) then False
      else if \<not> rc_requirePairing C then True
      else if c_source c = AGENT \<and> c_deviceId c = deviceId then True
      else if c_source c = BROWSER \<and> c_authKind c = SESSION then True
      else if c_source c \<noteq> BROWSER \<or> c_browserId c = [] then False
      else if authorized_for s (browserAuthorizationKey N (c_userId c) (c_browserId c)) deviceId then True
      else c_userId c = DEFAULT_USER_ID
           \<and> authorized_for s (unscopedBrowserAuthorizationKey N (c_browserId c)) deviceId)"

text \<open>The file store writes the whole map, the device ids of each browser sorted.\<close>

definition persistPairings :: "env \<Rightarrow> relay \<Rightarrow> relay \<times> r_out list" where
  "persistPairings E s = (s, [StorePairings (map (\<lambda>(k, ds). (k, jstr_sort ds, iso_string (e_now E))) (r_auth s))])"

definition persistBrowserAuthorization ::
  "relay_config \<Rightarrow> env \<Rightarrow> jstr \<Rightarrow> jstr \<Rightarrow> jstr \<Rightarrow> relay \<Rightarrow> relay \<times> r_out list" where
  "persistBrowserAuthorization C E userId browserId deviceId s =
     (if \<not> rc_persistPairings C then (s, [])
      else if \<not> pairingsUseDatabase C then persistPairings E s
      else (s, [UpsertPairing userId deviceId
        (case mget (r_devices s) (scopedDeviceKey userId deviceId) of
           Some d \<Rightarrow> if dv_deviceName d \<noteq> [] then dv_deviceName d else deviceId
         | None \<Rightarrow> deviceId) browserId]))"

definition persistBrowserRevocation ::
  "relay_config \<Rightarrow> env \<Rightarrow> jstr \<Rightarrow> jstr \<Rightarrow> jstr \<Rightarrow> relay \<Rightarrow> relay \<times> r_out list" where
  "persistBrowserRevocation C E userId browserId deviceId s =
     (if \<not> rc_persistPairings C then (s, [])
      else if \<not> pairingsUseDatabase C then persistPairings E s
      else (s, [RevokePairingRow userId browserId deviceId]))"

definition set_add :: "'a \<Rightarrow> 'a list \<Rightarrow> 'a list" where
  "set_add x xs = (if List.member xs x then xs else xs @ [x])"

definition authorizeBrowser ::
  "node \<Rightarrow> relay_config \<Rightarrow> env \<Rightarrow> jstr \<Rightarrow> jstr \<Rightarrow> jstr \<Rightarrow> relay \<Rightarrow> relay \<times> r_out list" where
  "authorizeBrowser N C E userId browserId deviceId s =
     (let key = browserAuthorizationKey N userId browserId;
          old = (case mget (r_auth s) key of Some ds \<Rightarrow> ds | None \<Rightarrow> [])
      in persistBrowserAuthorization C E userId browserId deviceId
           (s\<lparr>r_auth := mput (r_auth s) key (set_add deviceId old)\<rparr>))"

text \<open>\<open>revokeBrowserAuthorizationByHash\<close>: the change of the map that both revocations make.\<close>

definition revokeBrowserAuthorizationByHash :: "jstr \<Rightarrow> jstr \<Rightarrow> relay \<Rightarrow> relay" where
  "revokeBrowserAuthorizationByHash key deviceId s =
     (case mget (r_auth s) key of
        None \<Rightarrow> s
      | Some ds \<Rightarrow> (let ds' = filter (\<lambda>d. d \<noteq> deviceId) ds in
          s\<lparr>r_auth := (if ds' \<noteq> [] then mput (r_auth s) key ds' else mdel (r_auth s) key)\<rparr>))"

definition revokeBrowserAuthorization ::
  "node \<Rightarrow> relay_config \<Rightarrow> env \<Rightarrow> jstr \<Rightarrow> jstr \<Rightarrow> jstr \<Rightarrow> relay \<Rightarrow> relay \<times> r_out list" where
  "revokeBrowserAuthorization N C E userId browserId deviceId s =
     (let key = browserAuthorizationKey N userId browserId in
      if mhas (r_auth s) key
      then persistBrowserRevocation C E userId browserId deviceId (revokeBrowserAuthorizationByHash key deviceId s)
      else (s, []))"

subsection \<open>Browser transmission\<close>

definition clearBrowserTx :: "nat \<Rightarrow> relay \<Rightarrow> relay" where
  "clearBrowserTx ws = upd_client ws (\<lambda>c. c\<lparr>c_activeTxDeviceId := [], c_activeTxCom := Fin 0,
     c_activeTxStartedAt := 0\<rparr>)"

definition startBrowserTx :: "env \<Rightarrow> nat \<Rightarrow> jstr \<Rightarrow> jnum \<Rightarrow> relay \<Rightarrow> relay" where
  "startBrowserTx E ws deviceId com = upd_client ws (\<lambda>c. c\<lparr>c_activeTxDeviceId := deviceId,
     c_activeTxCom := com, c_activeTxStartedAt := e_now E\<rparr>)"

definition stopBrowserTx :: "env \<Rightarrow> nat \<Rightarrow> relay \<Rightarrow> relay \<times> r_out list" where
  "stopBrowserTx E ws s =
     (let c = client_of s ws; deviceId = c_activeTxDeviceId c; s1 = clearBrowserTx ws s in
      if deviceId = [] then (s1, [])
      else (case mget (r_devices s1) (scopedDeviceKey (c_userId c) deviceId) of
          Some d \<Rightarrow> if dv_online d \<and> is_open s1 (dv_ws d)
            then send (dv_ws d) (createRemoteMessage (e_gen E) TX_STOP []
                   (js ''tx-stop-'' @ to_string36 (e_now E))) s1
            else (s1, [])
        | None \<Rightarrow> (s1, [])))"

end
