(* ===== verification/RelayHandlers.thy ===== *)
theory RelayHandlers
  imports Relay
begin

section \<open>The relay: message routing (apps/relay/index.js)\<close>

text \<open>
  The handlers of the messages that agents and browsers send, in the order of the source, the
  handlers of binary frames, and the end of a connection. \<open>relayStep\<close> is the relay as a
  machine over the events of its sockets, its timers and the account and admin interfaces.
\<close>

subsection \<open>Message classes\<close>

definition browser_to_agent_types :: "mtype list" where
  "browser_to_agent_types = [RADIO_SET, CHAT_SEND, CHAT_HISTORY_REQUEST, NOTIFICATION_SUBSCRIBE,
     NOTIFICATION_UNSUBSCRIBE, UNICOM_TIMER_START, UNICOM_TIMER_CANCEL, WEATHER_REQUEST, ATIS_REQUEST,
     XPDR_SET_SQUAWK, XPDR_SET_MODE, XPDR_IDENT, TX_START, TX_STOP, MONITOR_START, MONITOR_STOP]"

definition agent_to_browser_types :: "mtype list" where
  "agent_to_browser_types = [AGENT_STATUS, RADIO_STATE, STATIONS_STATE, WEATHER_STATE, CHAT_MESSAGE,
     CHAT_HISTORY, NOTIFICATION_STATE, UNICOM_TIMER_STATE, UNICOM_TIMER_EXPIRED]"

definition agent_watchdog_types :: "mtype list" where
  "agent_watchdog_types = [AGENT_WATCHDOG_TICKET, AGENT_WATCHDOG_COMMIT, AGENT_WATCHDOG_DISARM]"

definition snapshot_types :: "mtype list" where
  "snapshot_types = [AGENT_STATUS, RADIO_STATE, STATIONS_STATE, WEATHER_STATE, NOTIFICATION_STATE,
     UNICOM_TIMER_STATE]"

definition shouldRateLimitBrowserCommand :: "mtype \<Rightarrow> bool" where
  "shouldRateLimitBrowserCommand t = (List.member browser_to_agent_types t \<and> t \<noteq> TX_START \<and> t \<noteq> TX_STOP)"

subsection \<open>Devices\<close>

definition rememberDeviceSnapshot :: "message \<Rightarrow> device \<Rightarrow> device" where
  "rememberDeviceSnapshot m d =
     (if List.member snapshot_types (m_type m)
      then d\<lparr>dv_lastMessages := mput (dv_lastMessages d) (m_type m) m\<rparr> else d)"

definition sendCachedDeviceState :: "nat \<Rightarrow> device \<Rightarrow> relay \<Rightarrow> relay \<times> r_out list" where
  "sendCachedDeviceState ws d =
     each (\<lambda>t s. case mget (dv_lastMessages d) t of Some m \<Rightarrow> send ws m s | None \<Rightarrow> (s, [])) snapshot_types"

definition broadcastDeviceState ::
  "node \<Rightarrow> relay_config \<Rightarrow> env \<Rightarrow> jstr \<Rightarrow> jstr \<Rightarrow> payload \<Rightarrow> relay \<Rightarrow> relay \<times> r_out list" where
  "broadcastDeviceState N C E userId deviceId p s =
     each (\<lambda>ws s. let c = client_of s ws in
       if c_userId c = userId \<and> c_source c = BROWSER \<and> canClientAccessDevice N C s c deviceId
       then send ws (device_state E p (js ''device-'' @ deviceId)) s
       else (s, [])) (r_clients s) s"

definition sendDeviceList :: "node \<Rightarrow> relay_config \<Rightarrow> env \<Rightarrow> nat \<Rightarrow> relay \<Rightarrow> relay \<times> r_out list" where
  "sendDeviceList N C E ws s =
     each (\<lambda>d s. let c = client_of s ws in
       if dv_userId d = c_userId c \<and> canClientAccessDevice N C s c (dv_deviceId d)
       then send ws (device_state E (publicDevice d) (js ''device-list-'' @ dv_deviceId d)) s
       else (s, [])) (map snd (r_devices s)) s"

definition run_watchdog :: "(watchdog \<Rightarrow> watchdog \<times> wd_out list) \<Rightarrow> relay \<Rightarrow> relay \<times> r_out list" where
  "run_watchdog f s = (let (w, os) = f (r_watchdog s) in (s\<lparr>r_watchdog := w\<rparr>, map Watch os))"

text \<open>The device entry that an announcement makes; the snapshots of an earlier entry are kept.\<close>

definition announced :: "env \<Rightarrow> nat \<Rightarrow> client \<Rightarrow> message \<Rightarrow> jstr \<Rightarrow> device option \<Rightarrow> device" where
  "announced E ws c m deviceId existing =
     (let v = ptext m ''agentVersion'' in
      \<lparr>dv_key = scopedDeviceKey (c_userId c) deviceId, dv_userId = c_userId c, dv_deviceId = deviceId,
       dv_deviceName = ptext m ''deviceName'',
       dv_agentVersion = (if v \<noteq> [] then v else case existing of Some d \<Rightarrow> dv_agentVersion d | None \<Rightarrow> []),
       dv_online = True, dv_ws = ws, dv_clientId = c_id c, dv_connectedAt = c_connectedAt c,
       dv_lastSeenAt = e_now E,
       dv_lastMessages = (case existing of Some d \<Rightarrow> dv_lastMessages d | None \<Rightarrow> [])\<rparr>)"

definition version_rejected :: "node \<Rightarrow> relay_config \<Rightarrow> jstr \<Rightarrow> bool" where
  "version_rejected N C v = (rc_minimumVersion C \<noteq> []
     \<and> (v = [] \<or> compareVersions (n_coll N) (Some (JStr v)) (Some (JStr (rc_minimumVersion C))) < 0))"

definition agent_audit :: "string \<Rightarrow> client \<Rightarrow> jstr \<Rightarrow> jstr \<Rightarrow> audit" where
  "agent_audit event c deviceId deviceName =
     \<lparr>au_event = event, au_userId = c_userId c, au_actorType = ''agent'', au_actorId = deviceId,
      au_ip = c_remoteAddress c, au_target = deviceId,
      au_metadata = [(js ''deviceName'', if deviceName \<noteq> [] then deviceName else deviceId)]\<rparr>"

definition setDevice :: "nat \<Rightarrow> jstr \<Rightarrow> device \<Rightarrow> relay \<Rightarrow> relay" where
  "setDevice ws key d s =
     (let old = c_deviceKey (client_of s ws);
          s1 = (if old \<noteq> [] \<and> old \<noteq> key then s\<lparr>r_devices := mdel (r_devices s) old\<rparr> else s);
          s2 = upd_client ws (\<lambda>c. c\<lparr>c_deviceKey := key, c_deviceId := dv_deviceId d,
                 c_deviceName := dv_deviceName d\<rparr>) s1
      in s2\<lparr>r_devices := mput (r_devices s2) key d\<rparr>)"

definition registerAgent ::
  "node \<Rightarrow> relay_config \<Rightarrow> env \<Rightarrow> nat \<Rightarrow> message \<Rightarrow> relay \<Rightarrow> relay \<times> r_out list" where
  "registerAgent N C E ws m s =
     (if version_rejected N C (ptext m ''agentVersion'') then
        andThen (send ws (relay_error E ''agent-update-required''
            (js ''VoxHF '' @ rc_minimumVersion C @ js '' or newer is required.'')
            (js ''agent-version-'' @ m_id m)))
          (\<lambda>s. (s, [CloseLater ws (js ''agent update required'') 50])) s
      else
       (let c = client_of s ws;
            deviceId = (if ptext m ''deviceId'' \<noteq> [] then ptext m ''deviceId'' else js ''dev-'' @ e_uuid E);
            key = scopedDeviceKey (c_userId c) deviceId;
            d = announced E ws c m deviceId (mget (r_devices s) key)
        in andThen (quiet (setDevice ws key d))
          (andThen (run_watchdog (agentOnline key))
          (andThen (rememberRelayAgent C d)
          (andThen (recordAuditEvent C (agent_audit ''agent.connected'' c deviceId (dv_deviceName d)))
          (andThen (send ws (device_state E [(js ''deviceId'', JStr deviceId),
              (js ''deviceName'', JStr (dv_deviceName d)), (js ''online'', JBool True)]
              (js ''device-'' @ m_id m)))
            (broadcastDeviceState N C E (dv_userId d) deviceId (publicDevice d)))))) s))"

subsection \<open>The watchdog of an agent\<close>

definition ticket_of :: "message \<Rightarrow> ticket" where
  "ticket_of m =
     (case fld (m_payload m) ''ticket'' of
        Some (JObj t) \<Rightarrow>
          \<lparr>t_deviceId = str_or_empty (fld t ''deviceId''), t_endpoint = str_or_empty (fld t ''endpoint''),
           t_expiresAt = str_or_empty (fld t ''expiresAt''),
           t_authorization = str_or_empty (fld t ''authorization''),
           t_contentEncoding = str_or_empty (fld t ''contentEncoding''),
           t_body = str_or_empty (fld t ''body'')\<rparr>
      | _ \<Rightarrow> \<lparr>t_deviceId = [], t_endpoint = [], t_expiresAt = [], t_authorization = [],
             t_contentEncoding = [], t_body = []\<rparr>)"

definition report_invalid :: "env \<Rightarrow> nat \<Rightarrow> 'a res \<Rightarrow> relay \<Rightarrow> relay \<times> r_out list" where
  "report_invalid E ws r s = (case r of Inr _ \<Rightarrow> (s, [])
     | Inl e \<Rightarrow> send ws (relay_error E ''watchdog-invalid'' e []) s)"

definition fired_message :: "env \<Rightarrow> jstr \<Rightarrow> message" where
  "fired_message E sessionId = createRemoteMessage (e_gen E) AGENT_WATCHDOG_FIRED
     (text_fields [(''sessionId'', sessionId)]) (js ''watchdog-fired-'' @ to_string36 (e_now E))"

definition owns_device :: "relay \<Rightarrow> nat \<Rightarrow> bool" where
  "owns_device s ws = (let c = client_of s ws in
     c_source c = AGENT \<and> c_deviceKey c \<noteq> []
     \<and> (case mget (r_devices s) (c_deviceKey c) of Some d \<Rightarrow> dv_ws d = ws | None \<Rightarrow> False))"

definition handleAgentWatchdogMessage ::
  "node \<Rightarrow> relay_config \<Rightarrow> env \<Rightarrow> nat \<Rightarrow> message \<Rightarrow> relay \<Rightarrow> relay \<times> r_out list" where
  "handleAgentWatchdogMessage N C E ws m s =
     (if \<not> owns_device s ws then
        send ws (relay_error E ''watchdog-unavailable''
          (js ''Agent must announce itself before configuring the watchdog'') []) s
      else (let key = c_deviceKey (client_of s ws); sid = ptext m ''sessionId''; bid = ptext m ''batchId'' in
        if m_type m = AGENT_WATCHDOG_TICKET then
          (let (w, r) = stage (n_platform N) (rc_watchdog C) (e_now E) key sid bid (ticket_of m) (r_watchdog s)
           in report_invalid E ws r (s\<lparr>r_watchdog := w\<rparr>))
        else if m_type m = AGENT_WATCHDOG_COMMIT then
          (let (w, r, os) = commit (rc_watchdog C) (e_now E) key sid bid (r_watchdog s)
           in andThen (\<lambda>s. (s\<lparr>r_watchdog := w\<rparr>, map Watch os)) (report_invalid E ws r) s)
        else
          (let (w, didFire, os) = disarm (rc_watchdog C) (e_now E) key sid (r_watchdog s)
           in andThen (\<lambda>s. (s\<lparr>r_watchdog := w\<rparr>, map Watch os))
                (if didFire then send ws (fired_message E sid) else (\<lambda>s. (s, []))) s)))"

subsection \<open>Pairing\<close>

definition stalePairing :: "int \<Rightarrow> pairing \<Rightarrow> bool" where
  "stalePairing now p = (pc_expiresAtMs p \<le> now)"

definition purgeExpiredPairingCodes :: "int \<Rightarrow> (jstr, pairing) jmap \<Rightarrow> (jstr, pairing) jmap" where
  "purgeExpiredPairingCodes now m = mfilter (\<lambda>k p. \<not> stalePairing now p) m"

definition deletePairingCodesForDevice :: "jstr \<Rightarrow> jstr \<Rightarrow> relay \<Rightarrow> relay" where
  "deletePairingCodesForDevice userId deviceId s =
     s\<lparr>r_codes := mfilter (\<lambda>k p. \<not> (pc_userId p = userId \<and> pc_deviceId p = deviceId)) (r_codes s)\<rparr>"

text \<open>\<open>crypto.randomBytes(4).toString('hex')\<close> of attempt \<open>k\<close> is \<open>e_hex E k\<close>.\<close>

definition code_of :: "jstr \<Rightarrow> jstr" where
  "code_of hex = (let raw = upper (take 6 hex) in take 3 raw @ [45] @ drop 3 raw)"

fun first_free_code :: "(nat \<Rightarrow> jstr) \<Rightarrow> (jstr, pairing) jmap \<Rightarrow> nat \<Rightarrow> nat \<Rightarrow> jstr option" where
  "first_free_code hex codes k 0 = None"
| "first_free_code hex codes k (Suc n) =
     (if \<not> mhas codes (code_of (hex k)) then Some (code_of (hex k))
      else first_free_code hex codes (Suc k) n)"

definition last_n :: "nat \<Rightarrow> 'a list \<Rightarrow> 'a list" where
  "last_n n xs = drop (length xs - n) xs"

definition generatePairingCode :: "env \<Rightarrow> (jstr, pairing) jmap \<Rightarrow> (jstr, pairing) jmap \<times> jstr" where
  "generatePairingCode E codes0 =
     (let codes = purgeExpiredPairingCodes (e_now E) codes0 in
      (codes, case first_free_code (e_hex E) codes 0 20 of
         Some code \<Rightarrow> code
       | None \<Rightarrow> upper (last_n 3 (to_string36 (e_now E)) @ [45] @ take 3 (e_hex E 20))))"

definition refreshPairingCode :: "relay_config \<Rightarrow> env \<Rightarrow> nat \<Rightarrow> relay \<Rightarrow> relay \<times> r_out list" where
  "refreshPairingCode C E ws s =
     (if \<not> rc_requirePairing C then (s, [])
      else (let c = client_of s ws in
        if c_source c \<noteq> AGENT \<or> c_deviceId c = [] then
          send ws (relay_error E ''pairing-unavailable''
            (js ''Agent must announce itself before requesting a pairing code'') []) s
        else (let s1 = deletePairingCodesForDevice (c_userId c) (c_deviceId c) s;
                  (codes, code) = generatePairingCode E (r_codes s1);
                  expires = e_now E + rc_pairingTtlMs C;
                  s2 = s1\<lparr>r_codes := mput codes code \<lparr>pc_userId = c_userId c,
                         pc_deviceId = c_deviceId c, pc_expiresAtMs = expires\<rparr>\<rparr>
              in send ws (createRemoteMessage (e_gen E) PAIRING_CODE
                   (text_fields [(''code'', code), (''expiresAt'', iso_string expires)])
                   (js ''pairing-'' @ c_deviceId c)) s2)))"

definition pairing_audit :: "node \<Rightarrow> string \<Rightarrow> client \<Rightarrow> jstr \<Rightarrow> audit" where
  "pairing_audit N event c deviceId =
     \<lparr>au_event = event, au_userId = c_userId c, au_actorType = ''browser'',
      au_actorId = take 12 (browserAuthorizationKey N (c_userId c) (c_browserId c)),
      au_ip = c_remoteAddress c, au_target = deviceId, au_metadata = [(js ''deviceId'', deviceId)]\<rparr>"

text \<open>The pairing a code stands for and its online device, if the browser's user owns both.\<close>

definition usable_pairing :: "client \<Rightarrow> jstr \<Rightarrow> relay \<Rightarrow> (pairing \<times> device) option" where
  "usable_pairing c code s =
     (case mget (r_codes s) code of
        None \<Rightarrow> None
      | Some p \<Rightarrow>
          if pc_userId p \<noteq> c_userId c then None
          else (case mget (r_devices s) (scopedDeviceKey (c_userId c) (pc_deviceId p)) of
              None \<Rightarrow> None
            | Some d \<Rightarrow> if dv_online d then Some (p, d) else None))"

definition confirmPairing ::
  "node \<Rightarrow> relay_config \<Rightarrow> env \<Rightarrow> nat \<Rightarrow> jstr \<Rightarrow> relay \<Rightarrow> relay \<times> r_out list" where
  "confirmPairing N C E ws code s =
     (let c = client_of s ws in
      if c_source c \<noteq> BROWSER then
        send ws (relay_error E ''invalid-source'' (js ''Only browser clients can confirm pairing'') []) s
      else if c_browserId c = [] then
        send ws (relay_error E ''browser-id-required''
          (js ''This browser does not have a remote browser id'') []) s
      else (let s1 = s\<lparr>r_codes := purgeExpiredPairingCodes (e_now E) (r_codes s)\<rparr>;
                normalizedCode = normalizePairingCode code
            in case usable_pairing c normalizedCode s1 of
                None \<Rightarrow> send ws (relay_error E ''pairing-invalid''
                    (js ''Pairing code is invalid or expired'') []) s1
              | Some (p, d) \<Rightarrow>
                  andThen (authorizeBrowser N C E (c_userId c) (c_browserId c) (pc_deviceId p))
                  (andThen (recordAuditEvent C (pairing_audit N ''pairing.created'' c (pc_deviceId p)))
                  (andThen (quiet (\<lambda>s. upd_client ws (\<lambda>c. c\<lparr>c_selectedDeviceId := pc_deviceId p\<rparr>)
                      (s\<lparr>r_codes := mdel (r_codes s) normalizedCode\<rparr>)))
                  (andThen (send ws (device_state E (publicDevice d) (js ''paired-'' @ pc_deviceId p)))
                    (sendCachedDeviceState ws d)))) s1))"

definition revokePairing ::
  "node \<Rightarrow> relay_config \<Rightarrow> env \<Rightarrow> nat \<Rightarrow> jstr \<Rightarrow> relay \<Rightarrow> relay \<times> r_out list" where
  "revokePairing N C E ws deviceId s =
     (let c = client_of s ws in
      if c_source c \<noteq> BROWSER then
        send ws (relay_error E ''invalid-source'' (js ''Only browser clients can revoke browser pairing'') []) s
      else if c_browserId c = [] \<or> \<not> canClientAccessDevice N C s c deviceId then
        send ws (relay_error E ''pairing-not-found'' (js ''This browser is not paired with that agent'') []) s
      else
        andThen (if c_activeTxDeviceId c = deviceId then stopBrowserTx E ws else (\<lambda>s. (s, [])))
        (andThen (revokeBrowserAuthorization N C E (c_userId c) (c_browserId c) deviceId)
        (andThen (recordAuditEvent C (pairing_audit N ''pairing.revoked_browser'' c deviceId))
        (andThen (quiet (upd_client ws (\<lambda>c. if c_selectedDeviceId c = deviceId
            then c\<lparr>c_selectedDeviceId := []\<rparr> else c)))
          (send ws (createRemoteMessage (e_gen E) PAIRING_REVOKED (text_fields [(''deviceId'', deviceId)])
            (js ''revoked-'' @ deviceId)))))) s)"

subsection \<open>Selection and commands\<close>

definition selectDevice ::
  "node \<Rightarrow> relay_config \<Rightarrow> env \<Rightarrow> nat \<Rightarrow> jstr \<Rightarrow> relay \<Rightarrow> relay \<times> r_out list" where
  "selectDevice N C E ws deviceId s =
     (let c = client_of s ws in
      if c_source c \<noteq> BROWSER then
        send ws (relay_error E ''invalid-source'' (js ''Only browser clients can select devices'') []) s
      else (case mget (r_devices s) (scopedDeviceKey (c_userId c) deviceId) of
          None \<Rightarrow> send ws (relay_error E ''device-not-found'' (js ''Device is not online'') []) s
        | Some d \<Rightarrow>
            if \<not> canClientAccessDevice N C s c deviceId then
              send ws (relay_error E ''pairing-required''
                (js ''Enter the pairing code shown by VoxHF on the Altitude PC'') []) s
            else
              andThen (if c_activeTxDeviceId c \<noteq> [] \<and> c_activeTxDeviceId c \<noteq> deviceId
                       then stopBrowserTx E ws else (\<lambda>s. (s, [])))
              (andThen (quiet (upd_client ws (\<lambda>c. c\<lparr>c_selectedDeviceId := deviceId\<rparr>)))
              (andThen (send ws (device_state E (publicDevice d) (js ''selected-'' @ deviceId)))
                (sendCachedDeviceState ws d))) s))"

definition payload_com :: "message \<Rightarrow> jnum" where
  "payload_com m = (case fld (m_payload m) ''com'' of Some (JNum x) \<Rightarrow> x | _ \<Rightarrow> NaN)"

definition selected_device :: "relay \<Rightarrow> client \<Rightarrow> device option" where
  "selected_device s c = (if c_selectedDeviceId c = [] then None
     else mget (r_devices s) (scopedDeviceKey (c_userId c) (c_selectedDeviceId c)))"

definition route_error :: "env \<Rightarrow> string \<Rightarrow> jstr \<Rightarrow> message \<Rightarrow> message" where
  "route_error E code text m = relay_error E code text (js ''route-error-'' @ m_id m)"

definition routeBrowserCommand ::
  "node \<Rightarrow> relay_config \<Rightarrow> env \<Rightarrow> nat \<Rightarrow> message \<Rightarrow> relay \<Rightarrow> relay \<times> r_out list" where
  "routeBrowserCommand N C E ws m s =
     (let c = client_of s ws in
      if c_source c \<noteq> BROWSER then
        send ws (route_error E ''invalid-source''
          (type_name (m_type m) @ js '' is only routable from browser clients'') m) s
      else (case selected_device s c of
          None \<Rightarrow> send ws (route_error E ''device-not-selected''
              (js ''Select an online device before sending commands'') m) s
        | Some d \<Rightarrow>
            if \<not> canClientAccessDevice N C s c (dv_deviceId d) then
              send ws (route_error E ''pairing-required''
                (js ''Pair this browser before sending commands'') m) s
            else if \<not> dv_online d \<or> \<not> is_open s (dv_ws d) then
              send ws (route_error E ''device-not-selected''
                (js ''Select an online device before sending commands'') m) s
            else
              andThen (quiet (if m_type m = TX_START then startBrowserTx E ws (dv_deviceId d) (payload_com m)
                         else if m_type m = TX_STOP then clearBrowserTx ws else (\<lambda>s. s)))
                (send (dv_ws d) m) s))"

definition watches :: "relay \<Rightarrow> jstr \<Rightarrow> jstr \<Rightarrow> nat \<Rightarrow> bool" where
  "watches s userId deviceId ws = (let t = client_of s ws in
     c_userId t = userId \<and> c_source t = BROWSER \<and> c_selectedDeviceId t = deviceId)"

definition touch_device :: "jstr \<Rightarrow> (device \<Rightarrow> device) \<Rightarrow> relay \<Rightarrow> relay" where
  "touch_device key f s = (case mget (r_devices s) key of
     Some d \<Rightarrow> s\<lparr>r_devices := mput (r_devices s) key (f d)\<rparr> | None \<Rightarrow> s)"

definition routeAgentUpdate :: "env \<Rightarrow> nat \<Rightarrow> message \<Rightarrow> relay \<Rightarrow> relay \<times> r_out list" where
  "routeAgentUpdate E ws m s =
     (let c = client_of s ws in
      if c_source c \<noteq> AGENT \<or> c_deviceId c = [] then
        send ws (route_error E ''invalid-source''
          (type_name (m_type m) @ js '' requires an announced agent device'') m) s
      else
        andThen (quiet (touch_device (c_deviceKey c)
            (\<lambda>d. rememberDeviceSnapshot m (d\<lparr>dv_lastSeenAt := e_now E\<rparr>))))
          (each (\<lambda>t s. if watches s (c_userId c) (c_deviceId c) t then send t m s else (s, []))
            (r_clients s)) s)"

definition routeAgentAudio :: "env \<Rightarrow> nat \<Rightarrow> 8 word list \<Rightarrow> relay \<Rightarrow> relay \<times> r_out list" where
  "routeAgentAudio E ws frame s =
     (let c = client_of s ws in
      case mget (r_devices s) (c_deviceKey c) of
        None \<Rightarrow> (s, [])
      | Some d \<Rightarrow>
          if dv_ws d \<noteq> ws then (s, [])
          else andThen (quiet (touch_device (c_deviceKey c) (\<lambda>d. d\<lparr>dv_lastSeenAt := e_now E\<rparr>)))
            (each (\<lambda>t s. if watches s (c_userId c) (c_deviceId c) t then sendBinary t frame s else (s, []))
              (r_clients s)) s)"

definition TX_PACKET_MAGIC :: "8 word list" where
  "TX_PACKET_MAGIC = [67, 84, 88, 49]"

definition handleBrowserTxAudio ::
  "node \<Rightarrow> relay_config \<Rightarrow> env \<Rightarrow> nat \<Rightarrow> 8 word list \<Rightarrow> relay \<Rightarrow> relay \<times> r_out list" where
  "handleBrowserTxAudio N C E ws frame s =
     (let c = client_of s ws in
      if c_activeTxDeviceId c = [] \<or> c_activeTxDeviceId c \<noteq> c_selectedDeviceId c then (s, [])
      else if e_now E - c_activeTxStartedAt c > rc_maxTxDurationMs C then stopBrowserTx E ws s
      else if length frame \<le> length TX_PACKET_MAGIC \<or> take 4 frame \<noteq> TX_PACKET_MAGIC
      then closeProtocol ws (js ''invalid tx audio frame'') s
      else (case mget (r_devices s) (scopedDeviceKey (c_userId c) (c_activeTxDeviceId c)) of
          None \<Rightarrow> stopBrowserTx E ws s
        | Some d \<Rightarrow>
            if \<not> dv_online d \<or> \<not> is_open s (dv_ws d) \<or> \<not> canClientAccessDevice N C s c (dv_deviceId d)
            then stopBrowserTx E ws s
            else sendBinary (dv_ws d) (drop 4 frame) s))"

definition handleBinaryMessage ::
  "node \<Rightarrow> relay_config \<Rightarrow> env \<Rightarrow> nat \<Rightarrow> 8 word list \<Rightarrow> relay \<Rightarrow> relay \<times> r_out list" where
  "handleBinaryMessage N C E ws frame s =
     (let c = client_of s ws in
      if frame = [] \<or> length frame > rc_maxAudioFrameBytes C
      then closeProtocol ws (js ''invalid audio frame size'') s
      else if c_source c = AGENT \<and> c_deviceId c \<noteq> [] then routeAgentAudio E ws frame s
      else if c_source c = BROWSER then handleBrowserTxAudio N C E ws frame s
      else closeProtocol ws (js ''unsupported binary source'') s)"

definition handleMessage ::
  "node \<Rightarrow> relay_config \<Rightarrow> env \<Rightarrow> nat \<Rightarrow> message \<Rightarrow> relay \<Rightarrow> relay \<times> r_out list" where
  "handleMessage N C E ws m s =
     (if m_type m = PING then send ws (createRemoteMessage (e_gen E) PONG [] (js ''pong-'' @ m_id m)) s
      else if m_type m = AGENT_HELLO then registerAgent N C E ws m s
      else if m_type m = PAIRING_BEGIN then refreshPairingCode C E ws s
      else if m_type m = PAIRING_CONFIRM then confirmPairing N C E ws (ptext m ''code'') s
      else if m_type m = PAIRING_REVOKE then revokePairing N C E ws (ptext m ''deviceId'') s
      else if m_type m = DEVICE_LIST then sendDeviceList N C E ws s
      else if m_type m = DEVICE_SELECT then selectDevice N C E ws (ptext m ''deviceId'') s
      else if List.member agent_watchdog_types (m_type m) then handleAgentWatchdogMessage N C E ws m s
      else if List.member browser_to_agent_types (m_type m) then routeBrowserCommand N C E ws m s
      else if List.member agent_to_browser_types (m_type m) then routeAgentUpdate E ws m s
      else send ws (relay_error E ''not-routed'' (js ''validated '' @ type_name (m_type m) @ js '' from ''
        @ source_name (c_source (client_of s ws)) @ js '', routing is not implemented yet'') []) s)"

subsection \<open>Connections\<close>

definition welcome_messages :: "relay_config \<Rightarrow> env \<Rightarrow> client \<Rightarrow> message list" where
  "welcome_messages C E c =
     [createRemoteMessage (e_gen E) PONG [] (js ''welcome-'' @ c_id c),
      createRemoteMessage (e_gen E) RELAY_IDENTITY
        (text_fields ([(''userId'', c_userId c),
          (''userName'', if c_userName c \<noteq> [] then c_userName c else c_userId c),
          (''relayVersion'', rc_appVersion C), (''recommendedAgentVersion'', rc_recommendedVersion C)]
          @ (if rc_minimumVersion C \<noteq> [] then [(''minimumAgentVersion'', rc_minimumVersion C)] else [])
          @ [(''downloadUrl'', rc_downloadUrl C)])) (js ''identity-'' @ c_id c)]"

definition new_client :: "env \<Rightarrow> decision \<Rightarrow> jstr \<Rightarrow> client" where
  "new_client E d remoteAddress = blank_client\<lparr>c_id := e_uuid E, c_source := d_source d,
     c_userId := d_userId d, c_userName := d_userName d, c_authKind := d_authKind d,
     c_sessionId := d_sessionId d, c_browserId := d_browserId d, c_connectedAt := e_now E,
     c_remoteAddress := remoteAddress, c_rate := createRateState (e_now E), c_heartbeatAlive := True\<rparr>"

definition onConnection ::
  "relay_config \<Rightarrow> env \<Rightarrow> nat \<Rightarrow> decision \<Rightarrow> jstr \<Rightarrow> relay \<Rightarrow> relay \<times> r_out list" where
  "onConnection C E ws d remoteAddress s =
     (let c = new_client E d remoteAddress;
          s1 = s\<lparr>r_obj := mput (r_obj s) ws c, r_clients := r_clients s @ [ws], r_open := ws # r_open s\<rparr>
      in each (send ws) (welcome_messages C E c) s1)"

text \<open>A message that parsed, behind the limits of its kind.\<close>

definition onParsed ::
  "node \<Rightarrow> relay_config \<Rightarrow> env \<Rightarrow> nat \<Rightarrow> message \<Rightarrow> relay \<Rightarrow> relay \<times> r_out list" where
  "onParsed N C E ws m s =
     (if shouldRateLimitBrowserCommand (m_type m) \<and> \<not> rate_allows C E ws Commands (rc_maxCommands C) s
      then allowRate C E ws Commands (rc_maxCommands C) s
      else if m_type m = PAIRING_CONFIRM \<and> \<not> rate_allows C E ws Pairings (rc_maxPairingAttempts C) s
      then allowRate C E ws Pairings (rc_maxPairingAttempts C) s
      else andThen (if shouldRateLimitBrowserCommand (m_type m) then allowRate C E ws Commands (rc_maxCommands C)
                    else if m_type m = PAIRING_CONFIRM
                    then allowRate C E ws Pairings (rc_maxPairingAttempts C) else (\<lambda>s. (s, [])))
             (handleMessage N C E ws m) s)"

definition onText :: "node \<Rightarrow> relay_config \<Rightarrow> env \<Rightarrow> nat \<Rightarrow> jstr \<Rightarrow> relay \<Rightarrow> relay \<times> r_out list" where
  "onText N C E ws text s =
     (case parseRemoteJson (n_parse N) (p_url (n_platform N)) (Some (c_source (client_of s ws))) text of
        Inl e \<Rightarrow> send ws (relay_error E ''invalid-message'' e []) s
      | Inr m \<Rightarrow> onParsed N C E ws m s)"

definition setAlive :: "nat \<Rightarrow> relay \<Rightarrow> relay" where
  "setAlive ws = upd_client ws (\<lambda>c. c\<lparr>c_heartbeatAlive := True\<rparr>)"

definition onMessage ::
  "node \<Rightarrow> relay_config \<Rightarrow> env \<Rightarrow> nat \<Rightarrow> jstr \<Rightarrow> relay \<Rightarrow> relay \<times> r_out list" where
  "onMessage N C E ws text s =
     (if \<not> rate_allows C E ws Messages (rc_maxMessages C) (setAlive ws s)
      then allowRate C E ws Messages (rc_maxMessages C) (setAlive ws s)
      else andThen (allowRate C E ws Messages (rc_maxMessages C)) (onText N C E ws text) (setAlive ws s))"

definition onBinary ::
  "node \<Rightarrow> relay_config \<Rightarrow> env \<Rightarrow> nat \<Rightarrow> 8 word list \<Rightarrow> relay \<Rightarrow> relay \<times> r_out list" where
  "onBinary N C E ws frame s =
     handleBinaryMessage N C E ws frame (setAlive ws s)"

definition onPong :: "env \<Rightarrow> nat \<Rightarrow> relay \<Rightarrow> relay" where
  "onPong E ws s =
     (let s1 = setAlive ws s; key = c_deviceKey (client_of s1 ws)
      in if key = [] then s1 else touch_device key (\<lambda>d. d\<lparr>dv_lastSeenAt := e_now E\<rparr>) s1)"

text \<open>One tick of the heartbeat: an agent that did not answer since the last one is terminated.\<close>

definition heartbeat :: "relay \<Rightarrow> relay \<times> r_out list" where
  "heartbeat s = each (\<lambda>ws s.
     if c_source (client_of s ws) \<noteq> AGENT \<or> \<not> is_open s ws then (s, [])
     else if \<not> c_heartbeatAlive (client_of s ws)
     then (s\<lparr>r_open := filter (\<lambda>x. x \<noteq> ws) (r_open s)\<rparr>, [Terminate ws])
     else (upd_client ws (\<lambda>c. c\<lparr>c_heartbeatAlive := False\<rparr>) s, [PingSocket ws])) (r_clients s) s"

text \<open>The end of the announced socket of a device.\<close>

definition agentGone :: "node \<Rightarrow> relay_config \<Rightarrow> env \<Rightarrow> client \<Rightarrow> relay \<Rightarrow> relay \<times> r_out list" where
  "agentGone N C E c =
     andThen (run_watchdog (\<lambda>w. let (v, b, os) = agentOffline (rc_watchdog C) (e_now E) (c_deviceKey c) w in (v, os)))
     (andThen (quiet (\<lambda>s. deletePairingCodesForDevice (c_userId c) (c_deviceId c)
         (s\<lparr>r_devices := mdel (r_devices s) (c_deviceKey c)\<rparr>)))
     (andThen (recordAuditEvent C (agent_audit ''agent.disconnected'' c (c_deviceId c) (c_deviceName c)))
       (broadcastDeviceState N C E (c_userId c) (c_deviceId c)
          [(js ''deviceId'', JStr (c_deviceId c)),
           (js ''deviceName'', JStr (if c_deviceName c \<noteq> [] then c_deviceName c else js ''Unknown device'')),
           (js ''online'', JBool False)])))"

definition agentLeaves :: "node \<Rightarrow> relay_config \<Rightarrow> env \<Rightarrow> nat \<Rightarrow> client \<Rightarrow> relay \<Rightarrow> relay \<times> r_out list" where
  "agentLeaves N C E ws c s =
     (if c_source c \<noteq> AGENT \<or> c_deviceId c = [] then (s, [])
      else (case mget (r_devices s) (c_deviceKey c) of
          None \<Rightarrow> (s, [])
        | Some d \<Rightarrow> if dv_ws d \<noteq> ws then (s, []) else agentGone N C E c s))"

definition removeClient :: "node \<Rightarrow> relay_config \<Rightarrow> env \<Rightarrow> nat \<Rightarrow> relay \<Rightarrow> relay \<times> r_out list" where
  "removeClient N C E ws s =
     (if \<not> List.member (r_clients s) ws then (s, [])
      else
       (let c = client_of s ws in
        andThen (quiet (\<lambda>s. s\<lparr>r_clients := filter (\<lambda>x. x \<noteq> ws) (r_clients s)\<rparr>))
        (andThen (if c_source c = BROWSER \<and> c_activeTxDeviceId c \<noteq> [] then stopBrowserTx E ws else (\<lambda>s. (s, [])))
          (agentLeaves N C E ws c)) s))"

subsection \<open>Accounts and administration\<close>

definition close_and_remove ::
  "node \<Rightarrow> relay_config \<Rightarrow> env \<Rightarrow> jstr \<Rightarrow> (client \<Rightarrow> bool) \<Rightarrow> relay \<Rightarrow> relay \<times> r_out list" where
  "close_and_remove N C E reason P s =
     each (\<lambda>ws s. if P (client_of s ws) then andThen (closeProtocol ws reason) (removeClient N C E ws) s
                  else (s, [])) (r_clients s) s"

definition closeAgentClientsForUser ::
  "node \<Rightarrow> relay_config \<Rightarrow> env \<Rightarrow> jstr \<Rightarrow> jstr \<Rightarrow> relay \<Rightarrow> relay \<times> r_out list" where
  "closeAgentClientsForUser N C E userId reason =
     close_and_remove N C E reason (\<lambda>c. c_userId c = userId \<and> c_source c = AGENT)"

definition closeBrowserSessionClients ::
  "node \<Rightarrow> relay_config \<Rightarrow> env \<Rightarrow> jstr \<Rightarrow> jstr list \<Rightarrow> jstr \<Rightarrow> relay \<Rightarrow> relay \<times> r_out list" where
  "closeBrowserSessionClients N C E userId sessionIds reason =
     (if sessionIds = [] then (\<lambda>s. (s, []))
      else close_and_remove N C E reason (\<lambda>c. c_userId c = userId \<and> c_source c = BROWSER
        \<and> c_authKind c = SESSION \<and> List.member sessionIds (c_sessionId c)))"

definition closeClientsForUser ::
  "node \<Rightarrow> relay_config \<Rightarrow> env \<Rightarrow> jstr \<Rightarrow> jstr \<Rightarrow> relay \<Rightarrow> relay \<times> r_out list" where
  "closeClientsForUser N C E userId reason = close_and_remove N C E reason (\<lambda>c. c_userId c = userId)"

definition disconnectRevokedPairingClients ::
  "node \<Rightarrow> env \<Rightarrow> jstr \<Rightarrow> jstr \<Rightarrow> jstr \<Rightarrow> relay \<Rightarrow> relay \<times> r_out list" where
  "disconnectRevokedPairingClients N E userId browserHash deviceId s =
     each (\<lambda>ws s. let c = client_of s ws in
       if c_userId c \<noteq> userId \<or> c_source c \<noteq> BROWSER \<or> c_browserId c = []
          \<or> browserAuthorizationKey N userId (c_browserId c) \<noteq> browserHash then (s, [])
       else
         andThen (if c_activeTxDeviceId c = deviceId then stopBrowserTx E ws else (\<lambda>s. (s, [])))
         (andThen (quiet (upd_client ws (\<lambda>c. if c_selectedDeviceId c = deviceId
             then c\<lparr>c_selectedDeviceId := []\<rparr> else c)))
           (send ws (createRemoteMessage (e_gen E) PAIRING_REVOKED (text_fields [(''deviceId'', deviceId)])
             (js ''admin-revoked-'' @ deviceId)))) s) (r_clients s) s"

text \<open>The callback \<open>onFired\<close> of the relay: whether the agent could be told, and what is sent.\<close>

definition onFired :: "env \<Rightarrow> jstr \<Rightarrow> jstr \<Rightarrow> nat \<Rightarrow> relay \<Rightarrow> bool \<times> r_out list" where
  "onFired E deviceKey sessionId sent s =
     (if sent < 1 then (False, [])
      else (case mget (r_devices s) deviceKey of
          None \<Rightarrow> (False, [])
        | Some d \<Rightarrow> if \<not> is_open s (dv_ws d) then (False, [])
            else (True, snd (send (dv_ws d) (fired_message E sessionId) s))))"

definition watchdogSettled :: "relay_config \<Rightarrow> env \<Rightarrow> jstr \<Rightarrow> nat \<Rightarrow> nat \<Rightarrow> relay \<Rightarrow> relay \<times> r_out list" where
  "watchdogSettled C E deviceKey receiptId sent s =
     (case mget (wd_fired (r_watchdog s)) deviceKey of
        None \<Rightarrow> (s, [])
      | Some r \<Rightarrow>
          if rc_id r \<noteq> receiptId then (s, [])
          else (let (told, os) = onFired E deviceKey (rc_sessionId r) sent s
                in (s\<lparr>r_watchdog := fireEnd (rc_watchdog C) (e_now E) deviceKey receiptId sent told
                       (r_watchdog s)\<rparr>, os)))"

subsection \<open>The relay as a machine\<close>

datatype r_event = Connect nat decision jstr
  | Message nat jstr
  | Binary nat "8 word list"
  | Pong nat
  | SocketClosed nat
  | SocketFailed nat
  | CloseTimer nat jstr
  | Heartbeat
  | WatchdogTimer jstr jstr nat
  | WatchdogSettled jstr nat nat
  | CloseAgents jstr jstr
  | CloseSessions jstr "jstr list" jstr
  | CloseUser jstr jstr
  | AdminRevoke jstr jstr jstr

text \<open>
  A socket connects once, and only a socket that connected raises events; other numbers name no
  socket and the step leaves the state alone.
\<close>

definition on_socket :: "nat \<Rightarrow> (relay \<Rightarrow> relay \<times> r_out list) \<Rightarrow> relay \<Rightarrow> relay \<times> r_out list" where
  "on_socket ws f s = (if mhas (r_obj s) ws then f s else (s, []))"

fun relayStep :: "node \<Rightarrow> relay_config \<Rightarrow> env \<times> r_event \<Rightarrow> relay \<Rightarrow> relay \<times> r_out list" where
  "relayStep N C (E, Connect ws d addr) s =
     (if mhas (r_obj s) ws then (s, []) else onConnection C E ws d addr s)"
| "relayStep N C (E, Message ws text) s = on_socket ws (onMessage N C E ws text) s"
| "relayStep N C (E, Binary ws frame) s = on_socket ws (onBinary N C E ws frame) s"
| "relayStep N C (E, Pong ws) s = on_socket ws (\<lambda>s. (onPong E ws s, [])) s"
| "relayStep N C (E, SocketClosed ws) s =
     removeClient N C E ws (s\<lparr>r_open := filter (\<lambda>x. x \<noteq> ws) (r_open s)\<rparr>)"
| "relayStep N C (E, SocketFailed ws) s = removeClient N C E ws s"
| "relayStep N C (E, CloseTimer ws reason) s = closeProtocol ws reason s"
| "relayStep N C (E, Heartbeat) s = heartbeat s"
| "relayStep N C (E, WatchdogTimer key sid g) s =
     run_watchdog (fireBegin (n_platform N) (rc_watchdog C) (e_now E) key sid g) s"
| "relayStep N C (E, WatchdogSettled key i sent) s = watchdogSettled C E key i sent s"
| "relayStep N C (E, CloseAgents userId reason) s = closeAgentClientsForUser N C E userId reason s"
| "relayStep N C (E, CloseSessions userId ids reason) s = closeBrowserSessionClients N C E userId ids reason s"
| "relayStep N C (E, CloseUser userId reason) s = closeClientsForUser N C E userId reason s"
| "relayStep N C (E, AdminRevoke userId hash deviceId) s =
     andThen (quiet (revokeBrowserAuthorizationByHash hash deviceId))
       (disconnectRevokedPairingClients N E userId hash deviceId) s"

end
