(* ===== verification/RelayFacts.thy ===== *)
theory RelayFacts
  imports RelayHandlers WatchdogFacts ValidateFacts
begin

section \<open>Invariants of the relay\<close>

text \<open>
  Every device entry is stored under the key of its own user and device id and belongs to the
  socket of an agent of that user; user ids hold no colon, so keys of different users differ.
  \<open>relayInv U\<close> fixes the identity \<open>U\<close> of every socket; \<open>routed U ws\<close> says where a message may go
  that a socket's event causes. Each handler keeps the one and produces only the other.
\<close>

definition ident :: "relay \<Rightarrow> nat \<Rightarrow> source \<times> jstr" where
  "ident s w = (let c = client_of s w in (c_source c, c_userId c))"

definition colon_free :: "jstr \<Rightarrow> bool" where
  "colon_free u = (\<not> List.member u 58)"

definition deviceOk :: "(nat \<Rightarrow> source \<times> jstr) \<Rightarrow> jstr \<Rightarrow> device \<Rightarrow> bool" where
  "deviceOk U k d \<longleftrightarrow> k = scopedDeviceKey (dv_userId d) (dv_deviceId d) \<and> U (dv_ws d) = (AGENT, dv_userId d)"

definition relayInv :: "(nat \<Rightarrow> source \<times> jstr) \<Rightarrow> relay \<Rightarrow> bool" where
  "relayInv U s \<longleftrightarrow> ident s = U \<and> (\<forall>w. colon_free (snd (U w))) \<and> mwf (r_devices s)
     \<and> (\<forall>p \<in> set (r_devices s). deviceOk U (fst p) (snd p))"

definition routed :: "(nat \<Rightarrow> source \<times> jstr) \<Rightarrow> nat \<Rightarrow> r_out \<Rightarrow> bool" where
  "routed U ws out \<longleftrightarrow> (case out of
     Send w m \<Rightarrow> snd (U w) = snd (U ws) \<and> (w = ws
       \<or> fst (U ws) = BROWSER \<and> fst (U w) = AGENT \<and> m_type m \<in> set browser_to_agent_types
       \<or> fst (U ws) = AGENT \<and> fst (U w) = BROWSER
         \<and> (m_type m \<in> set agent_to_browser_types \<or> m_type m = DEVICE_STATE))
   | SendBinary w f \<Rightarrow> snd (U w) = snd (U ws)
       \<and> (fst (U ws) = BROWSER \<and> fst (U w) = AGENT \<or> fst (U ws) = AGENT \<and> fst (U w) = BROWSER)
   | _ \<Rightarrow> True)"

subsection \<open>Keys and clients\<close>

lemma scopedDeviceKey_inj:
  assumes "colon_free u" "colon_free v"
  shows "scopedDeviceKey u d = scopedDeviceKey v e \<longleftrightarrow> u = v \<and> d = e"
proof
  assume "scopedDeviceKey u d = scopedDeviceKey v e"
  then have eq: "u @ 58 # d = v @ 58 # e" by (simp add: scopedDeviceKey_def)
  have "hd (split_on 58 (u @ 58 # d)) = u" "hd (split_on 58 (v @ 58 # e)) = v"
    using assms by (simp_all add: split_on_append colon_free_def)
  with eq have "u = v" by metis
  with eq show "u = v \<and> d = e" by simp
qed simp

lemma client_of_upd [simp]:
  "client_of (upd_client ws f s) w = (if w = ws then f (client_of s ws) else client_of s w)"
  by (simp add: client_of_def upd_client_def)

lemma upd_client_sel [simp]:
  "r_devices (upd_client ws f s) = r_devices s" "r_clients (upd_client ws f s) = r_clients s"
  "r_open (upd_client ws f s) = r_open s" "r_codes (upd_client ws f s) = r_codes s"
  "r_auth (upd_client ws f s) = r_auth s" "r_watchdog (upd_client ws f s) = r_watchdog s"
  by (simp_all add: upd_client_def)

lemma client_of_other [simp]:
  "client_of (s\<lparr>r_devices := x\<rparr>) w = client_of s w" "client_of (s\<lparr>r_clients := y\<rparr>) w = client_of s w"
  "client_of (s\<lparr>r_open := z\<rparr>) w = client_of s w" "client_of (s\<lparr>r_codes := c\<rparr>) w = client_of s w"
  "client_of (s\<lparr>r_auth := a\<rparr>) w = client_of s w" "client_of (s\<lparr>r_watchdog := v\<rparr>) w = client_of s w"
  by (simp_all add: client_of_def)

lemma ident_upd:
  "(\<And>c. c_source (f c) = c_source c \<and> c_userId (f c) = c_userId c) \<Longrightarrow> ident (upd_client ws f s) = ident s"
  by (rule ext) (simp add: ident_def Let_def)

lemma relayInv_upd:
  "relayInv U s \<Longrightarrow> (\<And>c. c_source (f c) = c_source c \<and> c_userId (f c) = c_userId c) \<Longrightarrow>
     relayInv U (upd_client ws f s)"
  by (simp add: relayInv_def ident_upd)

lemma relayInv_other [simp]:
  "relayInv U (s\<lparr>r_clients := y\<rparr>) = relayInv U s" "relayInv U (s\<lparr>r_open := z\<rparr>) = relayInv U s"
  "relayInv U (s\<lparr>r_codes := c\<rparr>) = relayInv U s" "relayInv U (s\<lparr>r_auth := a\<rparr>) = relayInv U s"
  "relayInv U (s\<lparr>r_watchdog := v\<rparr>) = relayInv U s"
  by (simp_all add: relayInv_def ident_def fun_eq_iff)

lemma relayInv_mdel: "relayInv U s \<Longrightarrow> relayInv U (s\<lparr>r_devices := mdel (r_devices s) k\<rparr>)"
  using set_mdel [of "r_devices s" k] by (auto simp: relayInv_def ident_def fun_eq_iff)

lemma relayInv_mput:
  "relayInv U s \<Longrightarrow> deviceOk U k d \<Longrightarrow> relayInv U (s\<lparr>r_devices := mput (r_devices s) k d\<rparr>)"
  using set_mput [of "r_devices s" k d] by (auto simp: relayInv_def ident_def fun_eq_iff)

lemma relayInv_device: "relayInv U s \<Longrightarrow> mget (r_devices s) k = Some d \<Longrightarrow> deviceOk U k d"
  using mget_in unfolding relayInv_def by fastforce

lemma relayInv_ident: "relayInv U s \<Longrightarrow> U w = (c_source (client_of s w), c_userId (client_of s w))"
  by (auto simp: relayInv_def ident_def Let_def)

lemma relayInv_source: "relayInv U s \<Longrightarrow> c_source (client_of s w) = fst (U w)"
  by (simp add: relayInv_ident)

lemma relayInv_user: "relayInv U s \<Longrightarrow> c_userId (client_of s w) = snd (U w)"
  by (simp add: relayInv_ident)

lemma relayInv_colon: "relayInv U s \<Longrightarrow> colon_free (snd (U w))"
  by (simp add: relayInv_def)

text \<open>A device found under a user's key belongs to that user, and so does its socket.\<close>

lemma lookup_device:
  assumes "relayInv U s" "mget (r_devices s) (scopedDeviceKey (snd (U w)) x) = Some d"
  shows "dv_userId d = snd (U w)" and "dv_deviceId d = x" and "U (dv_ws d) = (AGENT, snd (U w))"
proof -
  have d: "deviceOk U (scopedDeviceKey (snd (U w)) x) d" using relayInv_device [OF assms] .
  moreover have "colon_free (snd (U (dv_ws d)))" "colon_free (snd (U w))"
    using relayInv_colon [OF assms(1)] by blast+
  ultimately show "dv_userId d = snd (U w)" and "dv_deviceId d = x" and "U (dv_ws d) = (AGENT, snd (U w))"
    by (auto simp: deviceOk_def scopedDeviceKey_inj)
qed

subsection \<open>The small steps\<close>

lemma good_send [inv_intros]:
  "relayInv U s \<Longrightarrow> routed U ws (Send w m) \<Longrightarrow> good (relayInv U) (routed U ws) (send w m s)"
  by (simp add: send_def)

lemma good_sendBinary:
  "relayInv U s \<Longrightarrow> routed U ws (SendBinary w f) \<Longrightarrow> good (relayInv U) (routed U ws) (sendBinary w f s)"
  by (simp add: sendBinary_def)

lemma routed_self [simp]: "routed U ws (Send ws m)"
  by (simp add: routed_def)

lemma good_reply [inv_intros]: "relayInv U s \<Longrightarrow> good (relayInv U) (routed U ws) (send ws m s)"
  by (simp add: good_send)

lemma good_close [inv_intros]: "relayInv U s \<Longrightarrow> good (relayInv U) (routed U ws) (closeProtocol w r s)"
  by (simp add: closeProtocol_def routed_def)

lemma good_audit [inv_intros]: "relayInv U s \<Longrightarrow> good (relayInv U) (routed U ws) (recordAuditEvent C a s)"
  by (simp add: recordAuditEvent_def routed_def)

lemma good_remember [inv_intros]: "relayInv U s \<Longrightarrow> good (relayInv U) (routed U ws) (rememberRelayAgent C d s)"
  by (simp add: rememberRelayAgent_def routed_def)

lemma good_watch [inv_intros]: "relayInv U s \<Longrightarrow> good (relayInv U) (routed U ws) (run_watchdog f s)"
  by (simp add: run_watchdog_def case_prod_beta routed_def list_all_iff)

lemma good_rate [inv_intros]: "relayInv U s \<Longrightarrow> good (relayInv U) (routed U ws) (allowRate C E ws b n s)"
  by (simp add: allowRate_def Let_def good_reply relayInv_upd)

lemma good_persist:
  "relayInv U s \<Longrightarrow> good (relayInv U) (routed U ws) (persistBrowserAuthorization C E u b d s)"
  "relayInv U s \<Longrightarrow> good (relayInv U) (routed U ws) (persistBrowserRevocation C E u b d s)"
  by (simp_all add: persistBrowserAuthorization_def persistBrowserRevocation_def persistPairings_def routed_def)

lemma good_authorize [inv_intros]:
  "relayInv U s \<Longrightarrow> good (relayInv U) (routed U ws) (authorizeBrowser N C E u b d s)"
  by (simp add: authorizeBrowser_def Let_def good_persist)

lemma relayInv_revokeByHash [simp]:
  "relayInv U (revokeBrowserAuthorizationByHash h d s) = relayInv U s"
  by (simp add: revokeBrowserAuthorizationByHash_def Let_def split: option.split)

lemma good_revoke [inv_intros]:
  "relayInv U s \<Longrightarrow> good (relayInv U) (routed U ws) (revokeBrowserAuthorization N C E u b d s)"
  by (simp add: revokeBrowserAuthorization_def Let_def good_persist)

lemma relayInv_clearTx: "relayInv U s \<Longrightarrow> relayInv U (clearBrowserTx ws s)"
  by (simp add: clearBrowserTx_def relayInv_upd)

lemma relayInv_startTx: "relayInv U s \<Longrightarrow> relayInv U (startBrowserTx E ws d x s)"
  by (simp add: startBrowserTx_def relayInv_upd)

lemma createRemoteMessage_type [simp]: "m_type (createRemoteMessage g t p i) = t"
  by (simp add: createRemoteMessage_def)

lemma good_stopTx [inv_intros]:
  assumes "relayInv U s" "fst (U ws) = BROWSER"
  shows "good (relayInv U) (routed U ws) (stopBrowserTx E ws s)"
proof -
  let ?s = "clearBrowserTx ws s"
  have i: "relayInv U ?s" using assms(1) by (rule relayInv_clearTx)
  have r: "good (relayInv U) (routed U ws) (send (dv_ws d) m ?s)"
    if "mget (r_devices ?s) (scopedDeviceKey (snd (U ws)) x) = Some d" "m_type m = TX_STOP" for d x m
  proof -
    have u: "U (dv_ws d) = (AGENT, snd (U ws))" by (rule lookup_device(3) [OF i that(1)])
    show ?thesis
      by (rule good_send [OF i]) (simp add: routed_def u assms(2) that(2) browser_to_agent_types_def)
  qed
  show ?thesis
    using i r [OF _ createRemoteMessage_type]
    by (simp add: stopBrowserTx_def Let_def relayInv_user [OF assms(1)] split: option.split)
qed

lemma good_cached [inv_intros]: "relayInv U s \<Longrightarrow> good (relayInv U) (routed U ws) (sendCachedDeviceState ws d s)"
  unfolding sendCachedDeviceState_def by (rule good_each) (auto simp: good_reply split: option.split)

lemma good_deviceList [inv_intros]: "relayInv U s \<Longrightarrow> good (relayInv U) (routed U ws) (sendDeviceList N C E ws s)"
  unfolding sendDeviceList_def by (rule good_each) (auto simp: good_reply Let_def)

lemma good_broadcast:
  assumes "relayInv U s" "fst (U ws) = AGENT" "snd (U ws) = u"
  shows "good (relayInv U) (routed U ws) (broadcastDeviceState N C E u x p s)"
  unfolding broadcastDeviceState_def
proof (rule good_each, rule assms(1))
  fix w t
  assume t: "relayInv U t"
  show "good (relayInv U) (routed U ws) (let c = client_of t w in
      if c_userId c = u \<and> c_source c = BROWSER \<and> canClientAccessDevice N C t c x
      then send w (device_state E p (js ''device-'' @ x)) t else (t, []))"
    using t assms(2,3)
    by (auto simp: Let_def relayInv_source [OF t] relayInv_user [OF t] device_state_def routed_def intro!: good_send)
qed

section \<open>Every handler keeps the relay's invariant and routes within one user\<close>

lemma good_watchdogMessage [inv_intros]:
  assumes "relayInv U s"
  shows "good (relayInv U) (routed U ws) (handleAgentWatchdogMessage N C E ws m s)"
proof -
  have r: "good (relayInv U) (routed U ws) (report_invalid E ws r t)" if "relayInv U t" for r t
    using that by (simp add: report_invalid_def good_reply split: sum.split)
  have w: "list_all (routed U ws) (map Watch os)" for os
    by (simp add: list_all_iff routed_def)
  have g: "good (relayInv U) (routed U ws) (andThen (\<lambda>s. (s\<lparr>r_watchdog := v\<rparr>, map Watch os)) h s)"
    if "\<And>t. relayInv U t \<Longrightarrow> good (relayInv U) (routed U ws) (h t)" for v os h
    by (rule good_andThen) (use assms w that in simp_all)
  show ?thesis
    using assms
    by (auto simp: handleAgentWatchdogMessage_def Let_def case_prod_beta intro!: r g good_reply)
qed

lemma good_refresh [inv_intros]:
  "relayInv U s \<Longrightarrow> good (relayInv U) (routed U ws) (refreshPairingCode C E ws s)"
  by (simp add: refreshPairingCode_def Let_def case_prod_beta good_reply deletePairingCodesForDevice_def)

lemma good_quiet: "I (f s) \<Longrightarrow> good I Q (f s, [])"
  by simp

lemma good_skip: "I s \<Longrightarrow> good I Q (s, [])"
  by simp

lemma good_confirm [inv_intros]:
  assumes "relayInv U s"
  shows "good (relayInv U) (routed U ws) (confirmPairing N C E ws code s)"
proof -
  let ?s = "s\<lparr>r_codes := purgeExpiredPairingCodes (e_now E) (r_codes s)\<rparr>"
  have i: "relayInv U ?s" using assms by simp
  have step: "good (relayInv U) (routed U ws)
      (andThen (authorizeBrowser N C E u b x)
        (andThen (recordAuditEvent C a)
        (andThen (quiet (\<lambda>s. upd_client ws (\<lambda>c. c\<lparr>c_selectedDeviceId := x\<rparr>) (s\<lparr>r_codes := mdel (r_codes s) k\<rparr>)))
        (andThen (send ws m) (sendCachedDeviceState ws d)))) ?s)" for u b x a k m d
    by (intro good_andThen good_authorize good_audit good_quiet good_reply good_cached relayInv_upd i)
       (simp_all del: relayInv_other(3) add: relayInv_other)
  show ?thesis
    using assms i step
    by (auto simp: confirmPairing_def Let_def split: option.split intro!: good_reply)
qed

lemma good_revokePairing [inv_intros]:
  assumes "relayInv U s"
  shows "good (relayInv U) (routed U ws) (revokePairing N C E ws x s)"
proof -
  have stop: "good (relayInv U) (routed U ws) ((if b then stopBrowserTx E ws else (\<lambda>s. (s, []))) s)"
    if "fst (U ws) = BROWSER" for b
    using good_stopTx [OF assms that] assms by simp
  have step: "good (relayInv U) (routed U ws)
      (andThen (if b then stopBrowserTx E ws else (\<lambda>s. (s, [])))
        (andThen (revokeBrowserAuthorization N C E u v x)
        (andThen (recordAuditEvent C a)
        (andThen (quiet (upd_client ws (\<lambda>c. if c_selectedDeviceId c = x then c\<lparr>c_selectedDeviceId := []\<rparr> else c)))
          (send ws m)))) s)" if "fst (U ws) = BROWSER" for b u v a m
    by (intro good_andThen stop [OF that] good_revoke good_audit good_quiet good_reply relayInv_upd) simp_all
  show ?thesis
    unfolding revokePairing_def Let_def relayInv_source [OF assms]
    by (intro good_if good_reply assms step) simp_all
qed

lemma good_select [inv_intros]:
  assumes "relayInv U s"
  shows "good (relayInv U) (routed U ws) (selectDevice N C E ws x s)"
proof -
  have stop: "good (relayInv U) (routed U ws) ((if b then stopBrowserTx E ws else (\<lambda>s. (s, []))) s)"
    if "fst (U ws) = BROWSER" for b
    using good_stopTx [OF assms that] assms by simp
  have step: "good (relayInv U) (routed U ws)
      (andThen (if b then stopBrowserTx E ws else (\<lambda>s. (s, [])))
        (andThen (quiet (upd_client ws (\<lambda>c. c\<lparr>c_selectedDeviceId := x\<rparr>)))
        (andThen (send ws m) (sendCachedDeviceState ws d))) s)" if "fst (U ws) = BROWSER" for b m d
    by (intro good_andThen stop [OF that] good_quiet good_reply good_cached relayInv_upd) simp_all
  show ?thesis
  proof (cases "mget (r_devices s) (scopedDeviceKey (c_userId (client_of s ws)) x)")
    case None
    show ?thesis unfolding selectDevice_def Let_def None option.case by (intro good_if good_reply assms)
  next
    case (Some d)
    show ?thesis
      unfolding selectDevice_def Let_def Some option.case relayInv_source [OF assms]
      by (intro good_if good_reply assms step) simp_all
  qed
qed

lemma selected_device_user:
  assumes "relayInv U s" "selected_device s (client_of s ws) = Some d"
  shows "U (dv_ws d) = (AGENT, snd (U ws))"
  using assms(2) lookup_device(3) [OF assms(1)]
  by (auto simp: selected_device_def relayInv_user [OF assms(1)] split: if_splits)

lemma good_command [inv_intros]:
  assumes "relayInv U s" "m_type m \<in> set browser_to_agent_types"
  shows "good (relayInv U) (routed U ws) (routeBrowserCommand N C E ws m s)"
proof -
  have step: "good (relayInv U) (routed U ws)
      (andThen (quiet (if m_type m = TX_START then startBrowserTx E ws (dv_deviceId d) x
         else if m_type m = TX_STOP then clearBrowserTx ws else (\<lambda>s. s))) (send (dv_ws d) m) s)"
    if "fst (U ws) = BROWSER" "selected_device s (client_of s ws) = Some d" for d x
  proof (rule good_andThen)
    show "good (relayInv U) (routed U ws) (quiet (if m_type m = TX_START then startBrowserTx E ws (dv_deviceId d) x
         else if m_type m = TX_STOP then clearBrowserTx ws else (\<lambda>s. s)) s)"
      using assms(1) by (simp add: relayInv_startTx relayInv_clearTx)
    show "good (relayInv U) (routed U ws) (send (dv_ws d) m t)" if "relayInv U t" for t
      using that assms(2) \<open>fst (U ws) = BROWSER\<close>
        selected_device_user [OF assms(1) \<open>selected_device s (client_of s ws) = Some d\<close>]
      by (intro good_send) (auto simp: routed_def)
  qed
  show ?thesis
  proof (cases "selected_device s (client_of s ws)")
    case None
    show ?thesis
      unfolding routeBrowserCommand_def Let_def None option.case by (intro good_if good_reply assms(1))
  next
    case (Some d)
    show ?thesis
      unfolding routeBrowserCommand_def Let_def Some option.case relayInv_source [OF assms(1)]
      by (intro good_if good_reply assms(1) step Some) simp_all
  qed
qed

lemma relayInv_touch:
  assumes "relayInv U s"
    "\<And>d. dv_userId (f d) = dv_userId d \<and> dv_deviceId (f d) = dv_deviceId d \<and> dv_ws (f d) = dv_ws d"
  shows "relayInv U (touch_device k f s)"
proof (cases "mget (r_devices s) k")
  case (Some d)
  then have "deviceOk U k (f d)" using relayInv_device [OF assms(1)] assms(2) by (simp add: deviceOk_def)
  then show ?thesis by (simp add: touch_device_def Some relayInv_mput [OF assms(1)])
qed (simp add: touch_device_def assms(1))

lemma remember_sel [simp]:
  "dv_userId (rememberDeviceSnapshot m d) = dv_userId d" "dv_deviceId (rememberDeviceSnapshot m d) = dv_deviceId d"
  "dv_ws (rememberDeviceSnapshot m d) = dv_ws d"
  by (simp_all add: rememberDeviceSnapshot_def)

lemma good_update [inv_intros]:
  assumes "relayInv U s" "m_type m \<in> set agent_to_browser_types"
  shows "good (relayInv U) (routed U ws) (routeAgentUpdate E ws m s)"
proof -
  have fan: "good (relayInv U) (routed U ws)
      (each (\<lambda>t s. if watches s (snd (U ws)) x t then send t m s else (s, [])) xs t)"
    if "relayInv U t" "fst (U ws) = AGENT" for t x xs
    by (rule good_each, rule that(1), rule good_if, rule good_send)
       (use that(2) assms(2) in \<open>auto simp: watches_def Let_def routed_def relayInv_source relayInv_user\<close>)
  show ?thesis
    unfolding routeAgentUpdate_def Let_def relayInv_source [OF assms(1)] relayInv_user [OF assms(1)]
    by (intro good_if good_reply assms(1) good_andThen good_quiet relayInv_touch fan) auto
qed

lemma good_audio [inv_intros]:
  assumes "relayInv U s" "fst (U ws) = AGENT"
  shows "good (relayInv U) (routed U ws) (routeAgentAudio E ws frame s)"
proof -
  have fan: "good (relayInv U) (routed U ws)
      (each (\<lambda>t s. if watches s (snd (U ws)) x t then sendBinary t frame s else (s, [])) xs t)"
    if "relayInv U t" for t x xs
    by (rule good_each, rule that, rule good_if, rule good_sendBinary)
       (use assms(2) in \<open>auto simp: watches_def Let_def routed_def relayInv_source relayInv_user\<close>)
  have step: "good (relayInv U) (routed U ws)
      (andThen (quiet (touch_device k (\<lambda>d. d\<lparr>dv_lastSeenAt := e_now E\<rparr>)))
        (each (\<lambda>t s. if watches s (snd (U ws)) x t then sendBinary t frame s else (s, [])) xs) s)" for k x xs
    by (intro good_andThen good_quiet relayInv_touch fan assms(1)) simp_all
  show ?thesis
    unfolding routeAgentAudio_def Let_def relayInv_user [OF assms(1)]
    using assms(1) step by (auto split: option.split)
qed

lemma good_txAudio [inv_intros]:
  assumes "relayInv U s" "fst (U ws) = BROWSER"
  shows "good (relayInv U) (routed U ws) (handleBrowserTxAudio N C E ws frame s)"
proof -
  have s: "good (relayInv U) (routed U ws) (sendBinary (dv_ws d) f s)"
    if "mget (r_devices s) (scopedDeviceKey (snd (U ws)) x) = Some d" for d f x
    by (rule good_sendBinary [OF assms(1)])
       (simp add: routed_def assms(2) lookup_device(3) [OF assms(1) that])
  show ?thesis
    unfolding handleBrowserTxAudio_def Let_def relayInv_user [OF assms(1)]
    using assms s by (auto split: option.split intro!: good_stopTx good_close)
qed

lemma good_binary [inv_intros]:
  assumes "relayInv U s"
  shows "good (relayInv U) (routed U ws) (handleBinaryMessage N C E ws frame s)"
  unfolding handleBinaryMessage_def Let_def relayInv_source [OF assms]
  by (intro good_if good_close good_audio good_txAudio assms) simp_all

lemma relayInv_setDevice:
  assumes "relayInv U s" "deviceOk U k d"
  shows "relayInv U (setDevice ws k d s)"
  unfolding setDevice_def Let_def
  by (intro relayInv_mput relayInv_upd assms(2)) (use assms(1) relayInv_mdel in auto)

lemma good_register [inv_intros]:
  assumes "relayInv U s" "fst (U ws) = AGENT"
  shows "good (relayInv U) (routed U ws) (registerAgent N C E ws m s)"
proof -
  have later: "good (relayInv U) (routed U ws) (t, [CloseLater ws r n])" if "relayInv U t" for t r n
    using that by (simp add: routed_def)
  have dev: "deviceOk U (scopedDeviceKey (snd (U ws)) x) (announced E ws (client_of s ws) m x e)" for x e
    using relayInv_ident [OF assms(1), of ws] assms(2) by (simp add: deviceOk_def announced_def Let_def)
  have ann: "dv_userId (announced E ws (client_of s ws) m x e) = snd (U ws)" for x e
    by (simp add: announced_def Let_def relayInv_user [OF assms(1)])
  show ?thesis
    unfolding registerAgent_def Let_def relayInv_user [OF assms(1)] ann
    by (intro good_if good_andThen good_reply later good_quiet relayInv_setDevice dev good_watch good_remember
        good_audit good_broadcast assms) simp_all
qed

text \<open>A message that passed validation comes from a source that may send its type.\<close>

lemma good_message [inv_intros]:
  assumes "relayInv U s" "fst (U ws) \<in> set (source_rules (m_type m))"
  shows "good (relayInv U) (routed U ws) (handleMessage N C E ws m s)"
proof -
  have "m_type m = AGENT_HELLO \<Longrightarrow> fst (U ws) = AGENT" using assms(2) by simp
  then show ?thesis
    unfolding handleMessage_def
    by (intro good_if good_reply good_register good_refresh good_confirm good_revokePairing good_deviceList
        good_select good_watchdogMessage good_command good_update assms(1)) simp_all
qed

lemma good_parsed [inv_intros]:
  assumes "relayInv U s" "fst (U ws) \<in> set (source_rules (m_type m))"
  shows "good (relayInv U) (routed U ws) (onParsed N C E ws m s)"
proof -
  have "good (relayInv U) (routed U ws) ((if a then allowRate C E ws Commands x else if b
      then allowRate C E ws Pairings y else (\<lambda>s. (s, []))) s)" for a b x y
    using good_rate [OF assms(1)] assms(1) by simp
  then show ?thesis
    unfolding onParsed_def
    by (intro good_if good_rate good_andThen [where f = "if _ then _ else _"] good_message assms)
qed

lemma good_text [inv_intros]:
  assumes "relayInv U s"
  shows "good (relayInv U) (routed U ws) (onText N C E ws text s)"
proof (cases "parseRemoteJson (n_parse N) (p_url (n_platform N)) (Some (fst (U ws))) text")
  case (Inl e)
  then show ?thesis by (simp add: onText_def relayInv_source [OF assms] good_reply assms)
next
  case (Inr m)
  then have "fst (U ws) \<in> set (source_rules (m_type m))"
    using validated_source by (auto simp: parseRemoteJson_def split: if_splits option.splits)
  with Inr show ?thesis by (simp add: onText_def relayInv_source [OF assms] good_parsed assms)
qed

lemma relayInv_setAlive: "relayInv U s \<Longrightarrow> relayInv U (setAlive ws s)"
  by (simp add: setAlive_def relayInv_upd)

lemma good_onMessage [inv_intros]:
  "relayInv U s \<Longrightarrow> good (relayInv U) (routed U ws) (onMessage N C E ws text s)"
  unfolding onMessage_def by (intro good_if good_andThen good_rate good_text relayInv_setAlive)

lemma good_onBinary [inv_intros]:
  "relayInv U s \<Longrightarrow> good (relayInv U) (routed U ws) (onBinary N C E ws frame s)"
  unfolding onBinary_def by (intro good_binary relayInv_setAlive)

lemma relayInv_onPong: "relayInv U s \<Longrightarrow> relayInv U (onPong E ws s)"
  using relayInv_touch relayInv_setAlive by (simp add: onPong_def Let_def)

lemma good_agentGone:
  assumes "relayInv U s" "fst (U ws) = AGENT" "c_userId c = snd (U ws)"
  shows "good (relayInv U) (routed U ws) (agentGone N C E c s)"
proof -
  have "relayInv U (deletePairingCodesForDevice u x (t\<lparr>r_devices := mdel (r_devices t) k\<rparr>))"
    if "relayInv U t" for u x t k
    using relayInv_mdel [OF that] by (simp add: deletePairingCodesForDevice_def)
  then show ?thesis
    unfolding agentGone_def
    by (intro good_andThen good_watch good_quiet good_audit good_broadcast assms) (simp_all add: assms)
qed

lemma good_agentLeaves:
  assumes "relayInv U s" "c_source c = fst (U ws)" "c_userId c = snd (U ws)"
  shows "good (relayInv U) (routed U ws) (agentLeaves N C E ws c s)"
  using good_agentGone [OF assms(1) _ assms(3)] assms(1,2)
  by (auto simp: agentLeaves_def split: option.split)

lemma good_removeClient [inv_intros]:
  assumes "relayInv U s"
  shows "good (relayInv U) (routed U ws) (removeClient N C E ws s)"
proof -
  have "good (relayInv U) (routed U ws)
      ((if fst (U ws) = BROWSER \<and> b then stopBrowserTx E ws else (\<lambda>s. (s, []))) t)" if "relayInv U t" for b t
    using good_stopTx [OF that] that by simp
  then show ?thesis
    unfolding removeClient_def Let_def relayInv_source [OF assms]
    by (intro good_if good_skip assms good_andThen good_quiet good_agentLeaves)
       (simp_all add: relayInv_source [OF assms] relayInv_user [OF assms] assms)
qed

end
