(* ===== verification/RelayReach.thy ===== *)
theory RelayReach
  imports RelayFacts
begin

section \<open>Reachable states of the relay\<close>

text \<open>
  The relay with its invariant is an instance of \<open>machine\<close>; the admissible connections are
  those whose user id holds no colon, which every admission decision satisfies. The pairing
  codes are an instance of \<open>expiring_store\<close>. The second part tracks the authorization map:
  no event adds to it but the confirmation of a valid code.
\<close>

interpretation pairing_codes: expiring_store purgeExpiredPairingCodes stalePairing
  by unfold_locales (simp add: purgeExpiredPairingCodes_def)

definition relayOk :: "env \<times> r_event \<Rightarrow> bool" where
  "relayOk e = (case snd e of Connect ws d addr \<Rightarrow> colon_free (d_userId d) | _ \<Rightarrow> True)"

definition relayWf :: "relay \<Rightarrow> bool" where
  "relayWf s \<longleftrightarrow> relayInv (ident s) s \<and> mwf (r_codes s)"

lemma relayInv_ident_eq: "relayInv U s \<Longrightarrow> ident s = U"
  by (simp add: relayInv_def)

lemma relayInv_self: "relayInv U s \<Longrightarrow> relayInv (ident s) s"
  using relayInv_ident_eq by auto

subsection \<open>The identity invariant\<close>

abbreviation keeps :: "(nat \<Rightarrow> source \<times> jstr) \<Rightarrow> relay \<times> r_out list \<Rightarrow> bool" where
  "keeps U \<equiv> good (relayInv U) (\<lambda>out. True)"

lemma keeps_routed: "good (relayInv U) (routed U ws) r \<Longrightarrow> keeps U r"
  by (rule good_mono) simp_all

lemma keeps_send: "relayInv U s \<Longrightarrow> keeps U (send w m s)"
  by (simp add: send_def)

lemma keeps_close: "relayInv U s \<Longrightarrow> keeps U (closeProtocol w r s)"
  by (simp add: closeProtocol_def)

lemma keeps_close_remove: "relayInv U s \<Longrightarrow> keeps U (close_and_remove N C E r P s)"
  unfolding close_and_remove_def
  by (intro good_each good_if good_skip good_andThen keeps_close keeps_routed [OF good_removeClient])

lemma keeps_stop: "relayInv U s \<Longrightarrow> fst (U ws) = BROWSER \<Longrightarrow> keeps U (stopBrowserTx E ws s)"
  by (rule keeps_routed [OF good_stopTx])

lemma keeps_disconnect: "relayInv U s \<Longrightarrow> keeps U (disconnectRevokedPairingClients N E u h x s)"
proof -
  assume s: "relayInv U s"
  have stop: "keeps U ((if b then stopBrowserTx E ws else (\<lambda>s. (s, []))) t)"
    if "relayInv U t" "fst (U ws) = BROWSER" for b ws t
    using keeps_stop [OF that] that(1) by simp
  have step: "keeps U (andThen (if b then stopBrowserTx E ws else (\<lambda>s. (s, [])))
      (andThen (quiet (upd_client ws (\<lambda>c. if c_selectedDeviceId c = x then c\<lparr>c_selectedDeviceId := []\<rparr> else c)))
        (send ws m)) t)" if "relayInv U t" "fst (U ws) = BROWSER" for b ws m t
    by (intro good_andThen stop that good_quiet keeps_send relayInv_upd) simp_all
  show ?thesis
    unfolding disconnectRevokedPairingClients_def Let_def
    by (rule good_each, rule s, rule good_if)
       (use step in \<open>auto simp: relayInv_source\<close>)
qed

lemma keeps_heartbeat: "relayInv U s \<Longrightarrow> keeps U (heartbeat s)"
  unfolding heartbeat_def
  by (rule good_each) (auto intro!: relayInv_upd)

lemma keeps_settled: "relayInv U s \<Longrightarrow> keeps U (watchdogSettled C E k i n s)"
  by (simp add: watchdogSettled_def case_prod_beta Let_def list_all_iff split: option.split)

lemma ident_connect:
  "ident (s\<lparr>r_obj := mput (r_obj s) ws c, r_clients := x, r_open := y\<rparr>) = (ident s)(ws := (c_source c, c_userId c))"
  by (rule ext) (simp add: ident_def client_of_def Let_def)

lemma relayInv_connect:
  assumes "relayInv U s" "\<not> mhas (r_obj s) ws" "colon_free (d_userId d)"
  shows "\<exists>V. keeps V (onConnection C E ws d addr s)"
proof -
  let ?c = "new_client E d addr"
  let ?s = "s\<lparr>r_obj := mput (r_obj s) ws ?c, r_clients := r_clients s @ [ws], r_open := ws # r_open s\<rparr>"
  have b: "client_of s ws = blank_client" using assms(2) by (simp add: client_of_def mhas_def)
  then have u: "U ws = (RELAY, [])" using relayInv_ident [OF assms(1), of ws] by (simp add: blank_client_def)
  have c: "c_userId ?c = d_userId d" by (simp add: new_client_def)
  have "deviceOk (ident ?s) k e" if "deviceOk U k e" for k e
    using that u relayInv_ident_eq [OF assms(1)] by (auto simp: deviceOk_def ident_connect)
  moreover have "colon_free (snd (ident ?s w))" for w
    using assms(3) relayInv_colon [OF assms(1), of w] relayInv_ident_eq [OF assms(1)]
    by (simp add: ident_connect c)
  ultimately have "relayInv (ident ?s) ?s"
    using assms(1) unfolding relayInv_def by auto
  then have "keeps (ident ?s) (onConnection C E ws d addr s)"
    unfolding onConnection_def Let_def by (intro good_each keeps_send)
  then show ?thesis by blast
qed

lemma keeps_socket: "keeps U (f s) \<Longrightarrow> relayInv U s \<Longrightarrow> keeps U (on_socket ws f s)"
  by (simp add: on_socket_def)

lemma relayInv_step:
  assumes "relayInv U s" "relayOk (E, e)"
  shows "\<exists>V. keeps V (relayStep N C (E, e) s)"
proof (cases e)
  case (Connect ws d addr)
  show ?thesis
  proof (cases "mhas (r_obj s) ws")
    case True
    with assms(1) Connect show ?thesis by auto
  next
    case False
    then show ?thesis using relayInv_connect [OF assms(1) False] assms(2) Connect by (simp add: relayOk_def)
  qed
next
  case (Message ws t)
  have "keeps U (onMessage N C E ws t s)" by (rule keeps_routed [OF good_onMessage [OF assms(1)]])
  with Message show ?thesis using keeps_socket [of U "onMessage N C E ws t"] assms(1) by auto
next
  case (Binary ws frame)
  have "keeps U (onBinary N C E ws frame s)" by (rule keeps_routed [OF good_onBinary [OF assms(1)]])
  with Binary show ?thesis using keeps_socket [of U "onBinary N C E ws frame"] assms(1) by auto
next
  case (Pong ws)
  then show ?thesis using relayInv_onPong [OF assms(1)] assms(1) by (auto simp: on_socket_def)
next
  case (SocketClosed ws)
  have "relayInv U (s\<lparr>r_open := filter (\<lambda>x. x \<noteq> ws) (r_open s)\<rparr>)" using assms(1) by simp
  then have "keeps U (removeClient N C E ws (s\<lparr>r_open := filter (\<lambda>x. x \<noteq> ws) (r_open s)\<rparr>))"
    by (rule keeps_routed [OF good_removeClient])
  with SocketClosed show ?thesis by auto
next
  case (SocketFailed ws)
  have "keeps U (removeClient N C E ws s)" by (rule keeps_routed [OF good_removeClient [OF assms(1)]])
  with SocketFailed show ?thesis by auto
next
  case (CloseTimer ws reason)
  then show ?thesis using keeps_close [OF assms(1)] by auto
next
  case Heartbeat
  then show ?thesis using keeps_heartbeat [OF assms(1)] by auto
next
  case (WatchdogTimer k sid g)
  then show ?thesis using keeps_routed [OF good_watch [OF assms(1)]] by auto
next
  case (WatchdogSettled k i n)
  then show ?thesis using keeps_settled [OF assms(1)] by (auto intro!: exI [where x = U])
next
  case (CloseAgents u r)
  then show ?thesis using keeps_close_remove [OF assms(1)]
    by (auto simp: closeAgentClientsForUser_def intro!: exI [where x = U])
next
  case (CloseSessions u ids r)
  then show ?thesis using keeps_close_remove [OF assms(1)] assms(1)
    by (auto simp: closeBrowserSessionClients_def intro!: exI [where x = U])
next
  case (CloseUser u r)
  then show ?thesis using keeps_close_remove [OF assms(1)]
    by (auto simp: closeClientsForUser_def intro!: exI [where x = U])
next
  case (AdminRevoke u h x)
  have "keeps U (andThen (quiet (revokeBrowserAuthorizationByHash h x)) (disconnectRevokedPairingClients N E u h x) s)"
    by (intro good_andThen good_quiet keeps_disconnect) (simp_all add: assms(1))
  with AdminRevoke show ?thesis by auto
qed

definition relaySafe :: "relay \<Rightarrow> bool" where
  "relaySafe s = relayInv (ident s) s"

lemma relaySafe_init [simp]: "relaySafe (initRelay persisted)"
  by (simp add: relaySafe_def relayInv_def initRelay_def ident_def client_of_def blank_client_def colon_free_def Let_def)

lemma relaySafe_step: "relaySafe s \<Longrightarrow> relayOk e \<Longrightarrow> relaySafe (fst (relayStep N C e s))"
proof -
  assume a: "relaySafe s" "relayOk e"
  obtain E x where e: "e = (E, x)" by force
  obtain V where "keeps V (relayStep N C (E, x) s)"
    using relayInv_step a unfolding e relaySafe_def by blast
  then show ?thesis unfolding e relaySafe_def by (rule relayInv_self [OF good_inv])
qed

interpretation relay: machine "initRelay persisted" "relayStep N C" relayOk relaySafe for persisted N C
  by unfold_locales (auto intro: relaySafe_step)

abbreviation relayRun :: "node \<Rightarrow> relay_config \<Rightarrow> (jstr, jstr list) jmap \<Rightarrow> (env \<times> r_event) list \<Rightarrow> relay" where
  "relayRun N C persisted es \<equiv> fst (run_machine (relayStep N C) es (initRelay persisted))"

lemma relayRun_safe: "list_all relayOk es \<Longrightarrow> relaySafe (relayRun N C persisted es)"
  using relay.inv_reachable [of es] by (simp add: fst_run_machine)

text \<open>The events that one socket raises, and where they may send.\<close>

definition socket_event :: "nat \<Rightarrow> r_event \<Rightarrow> bool" where
  "socket_event ws e = (case e of Message w t \<Rightarrow> w = ws | Binary w f \<Rightarrow> w = ws | Pong w \<Rightarrow> w = ws
     | SocketClosed w \<Rightarrow> w = ws | SocketFailed w \<Rightarrow> w = ws | _ \<Rightarrow> False)"

lemma socket_event_routed:
  assumes "relaySafe s" "socket_event ws e" "x \<in> set (snd (relayStep N C (E, e) s))"
  shows "routed (ident s) ws x"
proof -
  have i: "relayInv (ident s) s" using assms(1) by (simp add: relaySafe_def)
  have "good (relayInv (ident s)) (routed (ident s) ws) (relayStep N C (E, e) s)"
    using assms(2) i good_onMessage [OF i] good_onBinary [OF i] relayInv_onPong [OF i] good_removeClient [OF i]
    by (cases e) (auto simp: socket_event_def on_socket_def intro!: good_removeClient)
  then show ?thesis using assms(3) by (rule good_out)
qed

end
