(* ===== verification/RelayAuth.thy ===== *)
theory RelayAuth
  imports RelayReach
begin

section \<open>Where browser authorizations come from\<close>

text \<open>
  \<open>auth_in A s\<close>: every authorization of the state is in \<open>A\<close>. All steps but the confirmation of a
  usable code keep it, so an authorization that is new after an event was created by one.
\<close>

definition auth_in :: "(jstr \<Rightarrow> jstr \<Rightarrow> bool) \<Rightarrow> relay \<Rightarrow> bool" where
  "auth_in A s \<longleftrightarrow> (\<forall>k x. authorized_for s k x \<longrightarrow> A k x)"

abbreviation bounded :: "(jstr \<Rightarrow> jstr \<Rightarrow> bool) \<Rightarrow> relay \<times> r_out list \<Rightarrow> bool" where
  "bounded A \<equiv> good (auth_in A) (\<lambda>out. True)"

lemma auth_in_auth: "r_auth t = r_auth s \<Longrightarrow> auth_in A t = auth_in A s"
  by (simp add: auth_in_def authorized_for_def)

lemma auth_in_upd [simp]: "auth_in A (upd_client ws f s) = auth_in A s"
  by (simp add: auth_in_def authorized_for_def)

lemma auth_in_other [simp]:
  "auth_in A (s\<lparr>r_clients := y\<rparr>) = auth_in A s" "auth_in A (s\<lparr>r_open := z\<rparr>) = auth_in A s"
  "auth_in A (s\<lparr>r_codes := c\<rparr>) = auth_in A s" "auth_in A (s\<lparr>r_devices := a\<rparr>) = auth_in A s"
  "auth_in A (s\<lparr>r_watchdog := v\<rparr>) = auth_in A s" "auth_in A (s\<lparr>r_obj := ob\<rparr>) = auth_in A s"
  by (simp_all add: auth_in_def authorized_for_def)

lemma auth_in_steps [simp]:
  "auth_in A (clearBrowserTx ws s) = auth_in A s" "auth_in A (startBrowserTx E ws x n s) = auth_in A s"
  "auth_in A (setAlive ws s) = auth_in A s" "auth_in A (deletePairingCodesForDevice u x s) = auth_in A s"
  "auth_in A (touch_device k f s) = auth_in A s" "auth_in A (setDevice ws k d s) = auth_in A s"
  "auth_in A (onPong E ws s) = auth_in A s"
  by (simp_all add: clearBrowserTx_def startBrowserTx_def setAlive_def deletePairingCodesForDevice_def
      touch_device_def setDevice_def onPong_def Let_def split: option.split)

lemma auth_in_revoke [simp]: "auth_in A s \<Longrightarrow> auth_in A (revokeBrowserAuthorizationByHash h x s)"
  by (auto simp: auth_in_def authorized_for_def revokeBrowserAuthorizationByHash_def Let_def
      split: option.splits if_splits)

lemma bounded_simps [simp]:
  "auth_in A s \<Longrightarrow> bounded A (send w m s)" "auth_in A s \<Longrightarrow> bounded A (sendBinary w f s)"
  "auth_in A s \<Longrightarrow> bounded A (closeProtocol w r s)" "auth_in A s \<Longrightarrow> bounded A (recordAuditEvent C a s)"
  "auth_in A s \<Longrightarrow> bounded A (rememberRelayAgent C d s)" "auth_in A s \<Longrightarrow> bounded A (run_watchdog g s)"
  "auth_in A s \<Longrightarrow> bounded A (persistBrowserAuthorization C E u b x s)"
  "auth_in A s \<Longrightarrow> bounded A (persistBrowserRevocation C E u b x s)"
  by (simp_all add: send_def sendBinary_def closeProtocol_def recordAuditEvent_def rememberRelayAgent_def
      run_watchdog_def case_prod_beta list_all_iff persistBrowserAuthorization_def
      persistBrowserRevocation_def persistPairings_def)

lemma bounded_more [simp]:
  "auth_in A s \<Longrightarrow> bounded A (allowRate C E ws bk n s)"
  "auth_in A s \<Longrightarrow> bounded A (stopBrowserTx E ws s)"
  "auth_in A s \<Longrightarrow> bounded A (report_invalid E ws r s)"
  "auth_in A s \<Longrightarrow> bounded A (revokeBrowserAuthorization N C E u b x s)"
  by (simp_all add: allowRate_def stopBrowserTx_def report_invalid_def revokeBrowserAuthorization_def Let_def
      split: option.split sum.split)

lemma bounded_loops [simp]:
  "auth_in A s \<Longrightarrow> bounded A (sendCachedDeviceState ws d s)"
  "auth_in A s \<Longrightarrow> bounded A (sendDeviceList N C E ws s)"
  "auth_in A s \<Longrightarrow> bounded A (broadcastDeviceState N C E u x p s)"
  "auth_in A s \<Longrightarrow> bounded A (heartbeat s)"
  unfolding sendCachedDeviceState_def sendDeviceList_def broadcastDeviceState_def heartbeat_def Let_def
  by (rule good_each; auto split: option.split)+

lemma bounded_fan [simp]:
  "auth_in A s \<Longrightarrow> bounded A (each (\<lambda>t s. if P t s then send t m s else (s, [])) xs s)"
  "auth_in A s \<Longrightarrow> bounded A (each (\<lambda>t s. if P t s then sendBinary t f s else (s, [])) xs s)"
  by (rule good_each; simp)+

lemma bounded_if: "bounded A (f s) \<Longrightarrow> bounded A (g s) \<Longrightarrow> bounded A ((if b then f else g) s)"
  by simp

lemma bounded_register [simp]: "auth_in A s \<Longrightarrow> bounded A (registerAgent N C E ws m s)"
  unfolding registerAgent_def Let_def by (intro good_if good_andThen) simp_all

lemma bounded_watchdog [simp]: "auth_in A s \<Longrightarrow> bounded A (handleAgentWatchdogMessage N C E ws m s)"
proof -
  assume s: "auth_in A s"
  have g: "bounded A (andThen (\<lambda>s. (s\<lparr>r_watchdog := v\<rparr>, os)) h s)" if "\<And>t. auth_in A t \<Longrightarrow> bounded A (h t)" for v os h
    by (rule good_andThen) (use s that in \<open>simp_all add: list_all_iff\<close>)
  show ?thesis
    using s by (auto simp: handleAgentWatchdogMessage_def Let_def case_prod_beta intro!: g)
qed

lemma bounded_refresh [simp]: "auth_in A s \<Longrightarrow> bounded A (refreshPairingCode C E ws s)"
  by (simp add: refreshPairingCode_def Let_def case_prod_beta)

lemma bounded_revoke [simp]: "auth_in A s \<Longrightarrow> bounded A (revokePairing N C E ws x s)"
  unfolding revokePairing_def Let_def by (intro good_if good_andThen bounded_if) simp_all

lemma bounded_select [simp]: "auth_in A s \<Longrightarrow> bounded A (selectDevice N C E ws x s)"
proof -
  assume s: "auth_in A s"
  have "bounded A (andThen (if b then stopBrowserTx E ws else (\<lambda>s. (s, [])))
      (andThen (quiet (upd_client ws f)) (andThen (send ws m) (sendCachedDeviceState ws d))) s)" for b f m d
    by (intro good_andThen bounded_if) (simp_all add: s)
  then show ?thesis
    unfolding selectDevice_def Let_def
    using s by (cases "mget (r_devices s) (scopedDeviceKey (c_userId (client_of s ws)) x)")
      (simp_all only: option.case bounded_simps good_if split: if_split)
qed

lemma bounded_command [simp]: "auth_in A s \<Longrightarrow> bounded A (routeBrowserCommand N C E ws m s)"
proof -
  assume s: "auth_in A s"
  have "bounded A (andThen (quiet (if m_type m = TX_START then startBrowserTx E ws x n
      else if m_type m = TX_STOP then clearBrowserTx ws else (\<lambda>s. s))) (send w m) s)" for x n w
    by (intro good_andThen) (simp_all add: s)
  then show ?thesis
    unfolding routeBrowserCommand_def Let_def
    using s by (cases "selected_device s (client_of s ws)")
      (simp_all only: option.case bounded_simps good_if split: if_split)
qed

lemma bounded_update [simp]: "auth_in A s \<Longrightarrow> bounded A (routeAgentUpdate E ws m s)"
  unfolding routeAgentUpdate_def Let_def by (intro good_if good_andThen) simp_all

lemma bounded_audio [simp]: "auth_in A s \<Longrightarrow> bounded A (routeAgentAudio E ws f s)"
proof -
  assume s: "auth_in A s"
  have "bounded A (andThen (quiet (touch_device k g))
      (each (\<lambda>t s. if watches s u x t then sendBinary t f s else (s, [])) xs) s)" for k g u x xs
    by (intro good_andThen) (simp_all add: s)
  then show ?thesis unfolding routeAgentAudio_def Let_def using s by (simp split: option.split)
qed

lemma bounded_binary [simp]: "auth_in A s \<Longrightarrow> bounded A (handleBinaryMessage N C E ws f s)"
  by (simp add: handleBinaryMessage_def handleBrowserTxAudio_def Let_def split: option.split)

lemma bounded_gone: "auth_in A s \<Longrightarrow> bounded A (agentGone N C E c s)"
  unfolding agentGone_def by (intro good_andThen) simp_all

lemma bounded_leaves: "auth_in A s \<Longrightarrow> bounded A (agentLeaves N C E ws c s)"
  by (simp add: agentLeaves_def bounded_gone split: option.split)

lemma bounded_remove [simp]: "auth_in A s \<Longrightarrow> bounded A (removeClient N C E ws s)"
  unfolding removeClient_def Let_def
  by (intro good_if good_andThen bounded_if bounded_leaves) simp_all

lemma bounded_close_remove [simp]: "auth_in A s \<Longrightarrow> bounded A (close_and_remove N C E r P s)"
  unfolding close_and_remove_def by (intro good_each good_if good_andThen) simp_all

lemma bounded_disconnect [simp]: "auth_in A s \<Longrightarrow> bounded A (disconnectRevokedPairingClients N E u h x s)"
  unfolding disconnectRevokedPairingClients_def Let_def
  by (intro good_each good_if good_andThen bounded_if) simp_all

lemma bounded_connect [simp]: "auth_in A s \<Longrightarrow> bounded A (onConnection C E ws d addr s)"
  unfolding onConnection_def Let_def by (intro good_each) simp_all

lemma bounded_settled [simp]: "auth_in A s \<Longrightarrow> bounded A (watchdogSettled C E k i n s)"
  by (simp add: watchdogSettled_def case_prod_beta Let_def list_all_iff split: option.split)

subsection \<open>The confirmation of a code\<close>

definition grants :: "node \<Rightarrow> client \<Rightarrow> jstr \<Rightarrow> (jstr \<Rightarrow> jstr \<Rightarrow> bool) \<Rightarrow> jstr \<Rightarrow> jstr \<Rightarrow> bool" where
  "grants N c x A k y = (A k y \<or> k = browserAuthorizationKey N (c_userId c) (c_browserId c) \<and> y = x)"

lemma bounded_authorize:
  "auth_in A s \<Longrightarrow> bounded (grants N c x A) (authorizeBrowser N C E (c_userId c) (c_browserId c) x s)"
proof -
  assume a: "auth_in A s"
  let ?k = "browserAuthorizationKey N (c_userId c) (c_browserId c)"
  let ?old = "case mget (r_auth s) ?k of Some ds \<Rightarrow> ds | None \<Rightarrow> []"
  have "authorized_for s ?k y" if "y \<in> set ?old" for y
    using that by (cases "mget (r_auth s) ?k") (simp_all add: authorized_for_def)
  then have "auth_in (grants N c x A) (s\<lparr>r_auth := mput (r_auth s) ?k (set_add x ?old)\<rparr>)"
    using a by (auto simp: auth_in_def grants_def authorized_for_def set_add_def)
  then show ?thesis by (simp add: authorizeBrowser_def Let_def)
qed

lemma bounded_confirm:
  assumes "auth_in A s"
    and "\<not> (c_source (client_of s ws) = BROWSER \<and> c_browserId (client_of s ws) \<noteq> [] \<and>
      usable_pairing (client_of s ws) (normalizePairingCode code)
        (s\<lparr>r_codes := purgeExpiredPairingCodes (e_now E) (r_codes s)\<rparr>) \<noteq> None)"
  shows "bounded A (confirmPairing N C E ws code s)"
proof (cases "c_source (client_of s ws) = BROWSER \<and> c_browserId (client_of s ws) \<noteq> []")
  case True
  then have "usable_pairing (client_of s ws) (normalizePairingCode code)
      (s\<lparr>r_codes := purgeExpiredPairingCodes (e_now E) (r_codes s)\<rparr>) = None"
    using assms(2) by blast
  with True assms(1) show ?thesis by (simp add: confirmPairing_def Let_def)
next
  case False
  with assms(1) show ?thesis by (cases "c_source (client_of s ws) = BROWSER") (simp_all add: confirmPairing_def Let_def)
qed

lemma bounded_confirm_grants:
  assumes "auth_in A s"
    and "usable_pairing (client_of s ws) (normalizePairingCode code)
        (s\<lparr>r_codes := purgeExpiredPairingCodes (e_now E) (r_codes s)\<rparr>) = Some (p, d)"
  shows "bounded (grants N (client_of s ws) (pc_deviceId p) A) (confirmPairing N C E ws code s)"
proof -
  let ?s = "s\<lparr>r_codes := purgeExpiredPairingCodes (e_now E) (r_codes s)\<rparr>"
  let ?c = "client_of s ws"
  let ?G = "grants N ?c (pc_deviceId p) A"
  have w: "auth_in ?G s" using assms(1) by (simp add: auth_in_def grants_def)
  have a: "bounded ?G (authorizeBrowser N C E (c_userId ?c) (c_browserId ?c) (pc_deviceId p) ?s)"
    by (rule bounded_authorize) (simp add: assms(1))
  have step: "bounded ?G (andThen (authorizeBrowser N C E (c_userId ?c) (c_browserId ?c) (pc_deviceId p))
      (andThen (recordAuditEvent C au) (andThen (quiet (\<lambda>s. upd_client ws f (s\<lparr>r_codes := mdel (r_codes s) k\<rparr>)))
        (andThen (send ws m) (sendCachedDeviceState ws e)))) ?s)" for au f k m e
    by (intro good_andThen a) simp_all
  show ?thesis
    unfolding confirmPairing_def Let_def assms(2) option.case prod.case
    by (intro good_if step) (simp_all add: w)
qed

subsection \<open>From the event to the confirmation\<close>

text \<open>What a confirmation reads of a state; the rate limits and the heartbeat do not change it.\<close>

definition same_view :: "nat \<Rightarrow> relay \<Rightarrow> relay \<Rightarrow> bool" where
  "same_view ws s t \<longleftrightarrow> r_codes t = r_codes s \<and> r_devices t = r_devices s \<and> r_auth t = r_auth s
     \<and> c_source (client_of t ws) = c_source (client_of s ws)
     \<and> c_userId (client_of t ws) = c_userId (client_of s ws)
     \<and> c_browserId (client_of t ws) = c_browserId (client_of s ws)"

lemma same_view_alive: "same_view ws s (setAlive ws s)"
  by (simp add: same_view_def setAlive_def)

lemma same_view_rate: "same_view ws s t \<Longrightarrow> same_view ws s (fst (allowRate C E ws b n t))"
  by (simp add: same_view_def allowRate_def Let_def send_def)

lemma same_view_auth_in: "same_view ws s t \<Longrightarrow> auth_in A s \<Longrightarrow> auth_in A t"
  by (simp add: same_view_def auth_in_def authorized_for_def)

text \<open>A usable pairing for the browser of a socket: a code of its user that is not expired, and an online device.\<close>

definition valid_code :: "relay \<Rightarrow> int \<Rightarrow> nat \<Rightarrow> jstr \<Rightarrow> pairing \<Rightarrow> bool" where
  "valid_code s now ws code p \<longleftrightarrow> (normalizePairingCode code, p) \<in> set (r_codes s)
     \<and> now < pc_expiresAtMs p \<and> pc_userId p = c_userId (client_of s ws)
     \<and> c_source (client_of s ws) = BROWSER \<and> c_browserId (client_of s ws) \<noteq> []
     \<and> (\<exists>d. mget (r_devices s) (scopedDeviceKey (pc_userId p) (pc_deviceId p)) = Some d \<and> dv_online d)"

lemma usable_valid:
  assumes "usable_pairing (client_of t ws) (normalizePairingCode code)
      (t\<lparr>r_codes := purgeExpiredPairingCodes now (r_codes t)\<rparr>) = Some (p, d)"
    and "same_view ws s t" "c_source (client_of t ws) = BROWSER" "c_browserId (client_of t ws) \<noteq> []"
  shows "valid_code s now ws code p"
proof -
  have p: "mget (purgeExpiredPairingCodes now (r_codes t)) (normalizePairingCode code) = Some p"
    and u: "pc_userId p = c_userId (client_of t ws)"
    and d: "mget (r_devices t) (scopedDeviceKey (c_userId (client_of t ws)) (pc_deviceId p)) = Some d" "dv_online d"
    using assms(1) by (auto simp: usable_pairing_def split: option.splits if_splits)
  from mget_in [OF p] have "(normalizePairingCode code, p) \<in> set (r_codes t)" "now < pc_expiresAtMs p"
    using pairing_codes.purge_subset pairing_codes.purge_fresh by (blast, fastforce simp: stalePairing_def)
  with u d assms(2,3,4) show ?thesis by (simp add: valid_code_def same_view_def)
qed

definition granted :: "node \<Rightarrow> relay \<Rightarrow> int \<Rightarrow> nat \<Rightarrow> jstr \<Rightarrow> jstr \<Rightarrow> jstr \<Rightarrow> bool" where
  "granted N s now ws code k x \<longleftrightarrow> (\<exists>p. valid_code s now ws code p \<and> x = pc_deviceId p
     \<and> k = browserAuthorizationKey N (c_userId (client_of s ws)) (c_browserId (client_of s ws)))"

text \<open>What is authorized after a confirmation: what was before, and what the code stands for.\<close>

definition after_code :: "node \<Rightarrow> relay \<Rightarrow> int \<Rightarrow> nat \<Rightarrow> jstr \<Rightarrow> jstr \<Rightarrow> jstr \<Rightarrow> bool" where
  "after_code N s now ws code k x = (authorized_for s k x \<or> granted N s now ws code k x)"

lemma auth_in_self: "auth_in (authorized_for s) s"
  by (simp add: auth_in_def)

lemma auth_in_mono: "auth_in A s \<Longrightarrow> (\<And>k x. A k x \<Longrightarrow> B k x) \<Longrightarrow> auth_in B s"
  by (simp add: auth_in_def)

lemma confirm_after:
  assumes "same_view ws s t"
  shows "bounded (after_code N s (e_now E) ws code) (confirmPairing N C E ws code t)"
proof (cases "c_source (client_of t ws) = BROWSER \<and> c_browserId (client_of t ws) \<noteq> [] \<and>
      usable_pairing (client_of t ws) (normalizePairingCode code)
        (t\<lparr>r_codes := purgeExpiredPairingCodes (e_now E) (r_codes t)\<rparr>) \<noteq> None")
  case False
  have "auth_in (after_code N s (e_now E) ws code) t"
    by (rule auth_in_mono [OF same_view_auth_in [OF assms auth_in_self]]) (simp add: after_code_def)
  then show ?thesis using False by (rule bounded_confirm)
next
  case True
  then obtain p d where u: "usable_pairing (client_of t ws) (normalizePairingCode code)
      (t\<lparr>r_codes := purgeExpiredPairingCodes (e_now E) (r_codes t)\<rparr>) = Some (p, d)" by auto
  have v: "valid_code s (e_now E) ws code p" using usable_valid [OF u assms] True by blast
  have "bounded (grants N (client_of t ws) (pc_deviceId p) (authorized_for s)) (confirmPairing N C E ws code t)"
    by (rule bounded_confirm_grants [OF same_view_auth_in [OF assms auth_in_self] u])
  then show ?thesis
    by (rule good_mono)
       (use v assms in \<open>auto elim!: auth_in_mono simp: grants_def after_code_def granted_def same_view_def\<close>)
qed

lemma message_after:
  assumes "same_view ws s t" "auth_in A t"
    and "m_type m = PAIRING_CONFIRM \<Longrightarrow> A = after_code N s (e_now E) ws (ptext m ''code'')"
  shows "bounded A (handleMessage N C E ws m t)"
  using assms(2,3) confirm_after [OF assms(1)]
  by (simp add: handleMessage_def)

definition parsed :: "node \<Rightarrow> source \<Rightarrow> jstr \<Rightarrow> message res" where
  "parsed N src t = parseRemoteJson (n_parse N) (p_url (n_platform N)) (Some src) t"

text \<open>The authorizations after a text message.\<close>

definition after_text :: "node \<Rightarrow> relay \<Rightarrow> int \<Rightarrow> nat \<Rightarrow> jstr \<Rightarrow> jstr \<Rightarrow> jstr \<Rightarrow> bool" where
  "after_text N s now ws t k x \<longleftrightarrow> authorized_for s k x \<or> (\<exists>m. parsed N (c_source (client_of s ws)) t = Inr m
     \<and> m_type m = PAIRING_CONFIRM \<and> granted N s now ws (ptext m ''code'') k x)"

lemma onMessage_after: "bounded (after_text N s (e_now E) ws t) (onMessage N C E ws t s)"
proof -
  let ?A = "after_text N s (e_now E) ws t"
  have A: "auth_in ?A u" if "same_view ws s u" for u
    by (rule auth_in_mono [OF same_view_auth_in [OF that auth_in_self]]) (simp add: after_text_def)
  have rate: "same_view ws s (fst (allowRate C E ws b n u)) \<and> bounded ?A (allowRate C E ws b n u)"
    if "same_view ws s u" for b n u
    using that A by (simp add: same_view_rate)
  have msg: "bounded ?A (handleMessage N C E ws m u)"
    if "same_view ws s u" "parsed N (c_source (client_of s ws)) t = Inr m" for m u
  proof (rule good_mono)
    let ?B = "if m_type m = PAIRING_CONFIRM then after_code N s (e_now E) ws (ptext m ''code'') else authorized_for s"
    show "bounded ?B (handleMessage N C E ws m u)"
      by (rule message_after [OF that(1)])
         (use auth_in_mono [OF same_view_auth_in [OF that(1) auth_in_self]] in \<open>auto simp: after_code_def\<close>)
    show "auth_in ?A v" if "auth_in ?B v" for v
      using that \<open>parsed N (c_source (client_of s ws)) t = Inr m\<close>
      by (auto elim!: auth_in_mono simp: after_text_def after_code_def split: if_splits)
  qed simp
  have seq: "bounded ?A (andThen (allowRate C E ws b n) f u)"
    if "same_view ws s u" "bounded ?A (f (fst (allowRate C E ws b n u)))" for b n f u
    using that(2) by (simp add: good_def andThen_def case_prod_beta Let_def list_all_iff)
  have parsed: "bounded ?A (onParsed N C E ws m u)"
    if u: "same_view ws s u" and m: "parsed N (c_source (client_of s ws)) t = Inr m" for m u
    unfolding onParsed_def
    using rate [OF u] seq [OF u] msg [OF same_view_rate [OF u] m] msg [OF u m] A [OF u]
    by (auto simp: andThen_def)
  have words: "bounded ?A (onText N C E ws t u)" if u: "same_view ws s u" for u
  proof -
    have src: "c_source (client_of u ws) = c_source (client_of s ws)" using u by (simp add: same_view_def)
    show ?thesis
      using A [OF u] parsed [OF u] unfolding onText_def src
      by (auto simp: parsed_def split: sum.split)
  qed
  have "bounded ?A (andThen (allowRate C E ws Messages n) (onText N C E ws t) (setAlive ws s))" for n
    by (rule seq [OF same_view_alive], rule words, rule same_view_rate, rule same_view_alive)
  then show ?thesis
    unfolding onMessage_def using rate [OF same_view_alive] by simp
qed

text \<open>The authorizations after any event.\<close>

definition after_event :: "node \<Rightarrow> relay \<Rightarrow> env \<times> r_event \<Rightarrow> jstr \<Rightarrow> jstr \<Rightarrow> bool" where
  "after_event N s e k x = (case snd e of Message ws t \<Rightarrow> after_text N s (e_now (fst e)) ws t k x
     | _ \<Rightarrow> authorized_for s k x)"

lemma step_after: "auth_in (after_event N s e) (fst (relayStep N C e s))"
proof -
  obtain E x where e: "e = (E, x)" by force
  note b = auth_in_self [of s]
  have g: "bounded A r \<Longrightarrow> auth_in A (fst r)" for A r by (rule good_inv)
  show ?thesis
  proof (cases x)
    case (Message ws t)
    have "auth_in (after_text N s (e_now E) ws t) s"
      by (rule auth_in_mono [OF b]) (simp add: after_text_def)
    then show ?thesis
      using g [OF onMessage_after] by (simp add: e Message after_event_def [abs_def] on_socket_def)
  next
    case (AdminRevoke u h y)
    have "bounded (authorized_for s) (relayStep N C e s)"
      by (simp add: e AdminRevoke) (intro good_andThen, simp_all add: b)
    then show ?thesis by (simp add: e AdminRevoke after_event_def [abs_def] good_inv)
  qed (use b in \<open>auto simp: e after_event_def [abs_def] on_socket_def onBinary_def closeAgentClientsForUser_def
         closeBrowserSessionClients_def closeClientsForUser_def intro!: g\<close>)
qed

end
