(* ===== verification/RelayReplies.thy ===== *)
theory RelayReplies
  imports RelayAuth
begin

section \<open>What a browser's message can send to other sockets\<close>

text \<open>
  For every message but a command, a browser's handler answers the browser itself and, when the
  message ends a pairing or selects another device, stops the transmission that was active when it
  arrived (\<open>own_stop\<close>). A command goes to the device that was selected when the message arrived.
\<close>

subsection \<open>What the limits leave\<close>

text \<open>The rate limits and the heartbeat leave everything a command depends on as it was.\<close>

definition unrated :: "client \<Rightarrow> client" where
  "unrated c = c\<lparr>c_rate := createRateState 0, c_heartbeatAlive := False\<rparr>"

lemma unrated_eqD:
  assumes "unrated c = unrated d"
  shows "c_source c = c_source d" "c_userId c = c_userId d" "c_browserId c = c_browserId d"
    "c_authKind c = c_authKind d" "c_deviceId c = c_deviceId d" "c_selectedDeviceId c = c_selectedDeviceId d"
    "c_activeTxDeviceId c = c_activeTxDeviceId d"
  using assms by (cases c; cases d; simp add: unrated_def)+

lemma unrated_upd [simp]: "unrated (c\<lparr>c_rate := r\<rparr>) = unrated c" "unrated (c\<lparr>c_heartbeatAlive := h\<rparr>) = unrated c"
  by (simp_all add: unrated_def)

definition rated :: "nat \<Rightarrow> relay \<Rightarrow> relay \<Rightarrow> bool" where
  "rated ws s t \<longleftrightarrow> r_devices t = r_devices s \<and> r_auth t = r_auth s \<and> r_open t = r_open s
     \<and> unrated (client_of t ws) = unrated (client_of s ws)"

lemma rated_alive: "rated ws s (setAlive ws s)"
  by (simp add: rated_def setAlive_def)

lemma rated_rate: "rated ws s t \<Longrightarrow> rated ws s (fst (allowRate C E ws b n t))"
  by (auto simp: rated_def allowRate_def Let_def send_def)

lemma rated_access:
  assumes "rated ws s t"
  shows "canClientAccessDevice N C t (client_of t ws) x = canClientAccessDevice N C s (client_of s ws) x"
    and "selected_device t (client_of t ws) = selected_device s (client_of s ws)"
    and "is_open t w = is_open s w"
    and "c_source (client_of t ws) = c_source (client_of s ws)"
proof -
  have c: "unrated (client_of t ws) = unrated (client_of s ws)"
    and d: "r_devices t = r_devices s" "r_auth t = r_auth s" "r_open t = r_open s"
    using assms by (simp_all add: rated_def)
  note c = unrated_eqD [OF c]
  show "canClientAccessDevice N C t (client_of t ws) x = canClientAccessDevice N C s (client_of s ws) x"
    unfolding canClientAccessDevice_def authorized_for_def c d ..
  show "selected_device t (client_of t ws) = selected_device s (client_of s ws)"
    unfolding selected_device_def c d ..
  show "is_open t w = is_open s w" by (simp add: is_open_def d)
  show "c_source (client_of t ws) = c_source (client_of s ws)" by (simp add: c)
qed

subsection \<open>Replies\<close>

text \<open>The \<open>tx.stop\<close> of the relay itself, to the device of the transmission that is active in \<open>s\<close>.\<close>

definition own_stop :: "env \<Rightarrow> relay \<Rightarrow> nat \<Rightarrow> nat \<Rightarrow> message \<Rightarrow> bool" where
  "own_stop E s ws w m \<longleftrightarrow> (let c = client_of s ws in
     m = createRemoteMessage (e_gen E) TX_STOP [] (js ''tx-stop-'' @ to_string36 (e_now E))
     \<and> c_activeTxDeviceId c \<noteq> []
     \<and> (\<exists>d. mget (r_devices s) (scopedDeviceKey (c_userId c) (c_activeTxDeviceId c)) = Some d \<and> dv_ws d = w
          \<and> dv_online d \<and> is_open s w))"

text \<open>\<open>stops\<close> says that the message may end a transmission.\<close>

definition reply_only :: "env \<Rightarrow> relay \<Rightarrow> bool \<Rightarrow> nat \<Rightarrow> r_out \<Rightarrow> bool" where
  "reply_only E s stops ws out = (case out of
     Send w m \<Rightarrow> w = ws \<or> (stops \<and> own_stop E s ws w m) | SendBinary w f \<Rightarrow> False | _ \<Rightarrow> True)"

abbreviation replies :: "env \<Rightarrow> relay \<Rightarrow> bool \<Rightarrow> nat \<Rightarrow> relay \<times> r_out list \<Rightarrow> bool" where
  "replies E s stops ws \<equiv> good (\<lambda>t. True) (reply_only E s stops ws)"

lemma replies_simps [simp]:
  "replies E u k ws (send ws m s)" "replies E u k ws (s, [])" "replies E u k ws (closeProtocol w r s)"
  "replies E u k ws (recordAuditEvent C a s)" "replies E u k ws (rememberRelayAgent C d s)"
  "replies E u k ws (run_watchdog g s)"
  "replies E u k ws (persistBrowserAuthorization C E' i b x s)" "replies E u k ws (persistBrowserRevocation C E' i b x s)"
  by (simp_all add: send_def reply_only_def closeProtocol_def recordAuditEvent_def rememberRelayAgent_def
      run_watchdog_def case_prod_beta list_all_iff persistBrowserAuthorization_def
      persistBrowserRevocation_def persistPairings_def)

lemma replies_more [simp]:
  "replies E u k ws (allowRate C E' ws bk n s)" "replies E u k ws (report_invalid E' ws r s)"
  "replies E u k ws (revokeBrowserAuthorization N C E' i b x s)" "replies E u k ws (authorizeBrowser N C E' i b x s)"
  by (simp_all add: allowRate_def report_invalid_def revokeBrowserAuthorization_def authorizeBrowser_def
      Let_def split: sum.split)

lemma replies_stop:
  assumes "rated ws u s"
  shows "replies E u True ws (stopBrowserTx E ws s)"
proof -
  have c: "unrated (client_of s ws) = unrated (client_of u ws)" and d: "r_devices s = r_devices u" "r_open s = r_open u"
    using assms by (simp_all add: rated_def)
  note c = unrated_eqD [OF c]
  have "r_devices (clearBrowserTx ws s) = r_devices u" "is_open (clearBrowserTx ws s) w = is_open u w" for w
    by (simp_all add: clearBrowserTx_def is_open_def d)
  then show ?thesis
    by (auto simp: stopBrowserTx_def send_def reply_only_def own_stop_def Let_def c split: option.split)
qed

lemma replies_loops [simp]:
  "replies E u k ws (sendCachedDeviceState ws d s)" "replies E u k ws (sendDeviceList N C E' ws s)"
  unfolding sendCachedDeviceState_def sendDeviceList_def Let_def
  by (rule good_each; auto split: option.split)+

lemma replies_confirm [simp]: "replies E u k ws (confirmPairing N C E ws code s)"
proof -
  have "replies E u k ws (andThen (authorizeBrowser N C E i b x) (andThen (recordAuditEvent C a)
      (andThen (\<lambda>s. (f s, [])) (andThen (send ws m) (sendCachedDeviceState ws d)))) t)" for i b x a f m d t
    by (intro good_andThen) simp_all
  then show ?thesis by (simp add: confirmPairing_def Let_def split: option.split)
qed

lemma replies_stop_if:
  assumes "rated ws u s"
  shows "replies E u True ws ((if b then stopBrowserTx E ws else (\<lambda>s. (s, []))) s)"
  using replies_stop [OF assms] by simp

lemma replies_revoke: "rated ws u s \<Longrightarrow> replies E u True ws (revokePairing N C E ws x s)"
  unfolding revokePairing_def Let_def
  by (intro good_if good_andThen replies_stop_if) simp_all

lemma replies_select: "rated ws u s \<Longrightarrow> replies E u True ws (selectDevice N C E ws x s)"
proof -
  assume r: "rated ws u s"
  have "replies E u True ws (andThen (if b then stopBrowserTx E ws else (\<lambda>s. (s, [])))
      (andThen (\<lambda>s. (f s, [])) (andThen (send ws m) (sendCachedDeviceState ws d))) s)" for b f m d
    by (intro good_andThen replies_stop_if r) simp_all
  then show ?thesis
    unfolding selectDevice_def Let_def
    by (cases "mget (r_devices s) (scopedDeviceKey (c_userId (client_of s ws)) x)")
      (simp_all only: option.case replies_simps good_if split: if_split)
qed

lemma replies_refresh [simp]: "replies E u k ws (refreshPairingCode C E ws s)"
  by (simp add: refreshPairingCode_def Let_def case_prod_beta)

lemma replies_watchdog [simp]: "replies E u k ws (handleAgentWatchdogMessage N C E ws m s)"
proof -
  have "replies E u k ws (andThen (\<lambda>s. (s\<lparr>r_watchdog := v\<rparr>, map Watch os)) h s)" if "\<And>t. replies E u k ws (h t)" for v os h
    by (rule good_andThen) (use that in \<open>simp_all add: list_all_iff reply_only_def\<close>)
  then show ?thesis by (auto simp: handleAgentWatchdogMessage_def Let_def case_prod_beta)
qed

lemma replies_update: "c_source (client_of s ws) = BROWSER \<Longrightarrow> replies E u k ws (routeAgentUpdate E ws m s)"
  by (simp add: routeAgentUpdate_def Let_def)

definition may_stop :: "mtype \<Rightarrow> bool" where
  "may_stop t \<longleftrightarrow> t = DEVICE_SELECT \<or> t = PAIRING_REVOKE"

lemma replies_message:
  assumes "rated ws u s" "c_source (client_of s ws) = BROWSER" "BROWSER \<in> set (source_rules (m_type m))"
    and "m_type m \<notin> set browser_to_agent_types"
  shows "replies E u (may_stop (m_type m)) ws (handleMessage N C E ws m s)"
proof -
  have "m_type m \<noteq> AGENT_HELLO" using assms(3) by auto
  with assms show ?thesis
    by (simp add: handleMessage_def replies_update replies_revoke replies_select may_stop_def)
qed

lemma command_message:
  assumes "m_type m \<in> set browser_to_agent_types"
  shows "handleMessage N C E ws m s = routeBrowserCommand N C E ws m s"
  using assms by (auto simp: handleMessage_def browser_to_agent_types_def agent_watchdog_types_def)

subsection \<open>The command\<close>

text \<open>Where a command of a browser may go: the socket of the selected device, under these conditions.\<close>

definition command_target :: "node \<Rightarrow> relay_config \<Rightarrow> relay \<Rightarrow> nat \<Rightarrow> nat \<Rightarrow> bool" where
  "command_target N C s ws w \<longleftrightarrow> (\<exists>d. selected_device s (client_of s ws) = Some d \<and> dv_ws d = w \<and> dv_online d
     \<and> is_open s w \<and> canClientAccessDevice N C s (client_of s ws) (dv_deviceId d))"

definition command_out :: "node \<Rightarrow> relay_config \<Rightarrow> env \<Rightarrow> relay \<Rightarrow> nat \<Rightarrow> message option \<Rightarrow> r_out \<Rightarrow> bool" where
  "command_out N C E s ws m out = (reply_only E s (\<exists>c. m = Some c \<and> may_stop (m_type c)) ws out \<or>
     (\<exists>w c. out = Send w c \<and> m = Some c \<and> m_type c \<in> set browser_to_agent_types \<and> command_target N C s ws w))"

lemma is_open_upd [simp]: "is_open (upd_client v f s) w = is_open s w"
  by (simp add: is_open_def)

lemma is_open_tx [simp]:
  "is_open (startBrowserTx E v x n s) w = is_open s w" "is_open (clearBrowserTx v s) w = is_open s w"
  by (simp_all add: startBrowserTx_def clearBrowserTx_def)

lemma rated_target: "rated ws s t \<Longrightarrow> command_target N C t ws w = command_target N C s ws w"
  by (simp add: command_target_def rated_access)

abbreviation commanded :: "node \<Rightarrow> relay_config \<Rightarrow> env \<Rightarrow> relay \<Rightarrow> nat \<Rightarrow> message option \<Rightarrow> relay \<times> r_out list \<Rightarrow> bool" where
  "commanded N C E s ws m \<equiv> good (\<lambda>t. True) (command_out N C E s ws m)"

lemma commanded_replies: "replies E s (\<exists>c. m = Some c \<and> may_stop (m_type c)) ws r \<Longrightarrow> commanded N C E s ws m r"
  by (auto simp: good_def list_all_iff command_out_def)

lemma commanded_seq:
  "commanded N C E s ws m (f u) \<Longrightarrow> commanded N C E s ws m (g (fst (f u))) \<Longrightarrow> commanded N C E s ws m (andThen f g u)"
  by (auto simp: good_def andThen_def case_prod_beta Let_def list_all_iff)

lemma route_out:
  assumes u: "rated ws u s" and m: "m_type m \<in> set browser_to_agent_types"
  shows "commanded N C E u ws (Some m) (routeBrowserCommand N C E ws m s)"
proof -
  have r: "commanded N C E u ws (Some m) (send ws x s)" for x
    by (rule commanded_replies) simp
  show ?thesis
  proof (cases "selected_device s (client_of s ws)")
    case None
    show ?thesis unfolding routeBrowserCommand_def Let_def None option.case by (intro good_if r)
  next
    case (Some d)
    show ?thesis
      unfolding routeBrowserCommand_def Let_def Some option.case
    proof (intro good_if r)
      assume a: "\<not> \<not> canClientAccessDevice N C s (client_of s ws) (dv_deviceId d)"
        "\<not> (\<not> dv_online d \<or> \<not> is_open s (dv_ws d))"
      then have "command_target N C s ws (dv_ws d)" using Some by (auto simp: command_target_def)
      then have "command_target N C u ws (dv_ws d)" by (simp add: rated_target [OF u])
      then show "commanded N C E u ws (Some m)
          (andThen (quiet (if m_type m = TX_START then startBrowserTx E ws (dv_deviceId d) (payload_com m)
             else if m_type m = TX_STOP then clearBrowserTx ws else (\<lambda>s. s))) (send (dv_ws d) m) s)"
        using m by (simp add: andThen_def send_def good_def command_out_def)
    qed
  qed
qed

definition parse_opt :: "node \<Rightarrow> source \<Rightarrow> jstr \<Rightarrow> message option" where
  "parse_opt N src t = (case parsed N src t of Inl e \<Rightarrow> None | Inr m \<Rightarrow> Some m)"

lemma commanded_handle:
  assumes "rated ws s u" "c_source (client_of s ws) = BROWSER" "BROWSER \<in> set (source_rules (m_type m))"
  shows "commanded N C E s ws (Some m) (handleMessage N C E ws m u)"
proof (cases "m_type m \<in> set browser_to_agent_types")
  case True
  show ?thesis unfolding command_message [OF True] by (rule route_out [OF assms(1) True])
next
  case False
  then show ?thesis
    using assms rated_access(4) [OF assms(1)] replies_message [OF assms(1), of m E N C]
    by (intro commanded_replies) simp
qed

lemma commanded_parsed:
  assumes "rated ws s u" "c_source (client_of s ws) = BROWSER" "BROWSER \<in> set (source_rules (m_type m))"
  shows "commanded N C E s ws (Some m) (onParsed N C E ws m u)"
proof -
  have h: "commanded N C E s ws (Some m) (handleMessage N C E ws m u)"
    by (rule commanded_handle [OF assms])
  have r: "commanded N C E s ws (Some m) (andThen (allowRate C E ws b n) (handleMessage N C E ws m) u)" for b n
    by (intro commanded_seq commanded_replies replies_more commanded_handle rated_rate assms)
  have "commanded N C E s ws (Some m) (allowRate C E ws b n u)" for b n
    by (rule commanded_replies) simp
  then show ?thesis
    unfolding onParsed_def using r h by (simp add: andThen_def split: if_split)
qed

lemma commanded_onMessage:
  assumes "c_source (client_of s ws) = BROWSER"
  shows "commanded N C E s ws (parse_opt N BROWSER t) (onMessage N C E ws t s)"
proof -
  have words: "commanded N C E s ws (parse_opt N BROWSER t) (onText N C E ws t u)" if u: "rated ws s u" for u
  proof (cases "parsed N BROWSER t")
    case (Inl e)
    have "replies E s (\<exists>c. parse_opt N BROWSER t = Some c \<and> may_stop (m_type c)) ws (onText N C E ws t u)"
      using Inl rated_access(4) [OF u] assms by (simp add: onText_def parsed_def)
    then show ?thesis by (rule commanded_replies)
  next
    case (Inr m)
    then have src: "BROWSER \<in> set (source_rules (m_type m))"
      using validated_source by (auto simp: parsed_def parseRemoteJson_def split: if_splits option.splits)
    show ?thesis
      using Inr rated_access(4) [OF u] assms commanded_parsed [OF u assms src, of N C E]
      by (simp add: onText_def parsed_def parse_opt_def)
  qed
  have "commanded N C E s ws (parse_opt N BROWSER t)
      (andThen (allowRate C E ws Messages n) (onText N C E ws t) (setAlive ws s))" for n
    by (intro commanded_seq commanded_replies replies_more words rated_rate rated_alive)
  moreover have "commanded N C E s ws x (allowRate C E ws Messages n (setAlive ws s))" for n x
    by (rule commanded_replies) simp
  ultimately show ?thesis by (simp add: onMessage_def)
qed

section \<open>A small relay for the witnesses\<close>

text \<open>
  One user with an agent (socket 10) and a browser (socket 20). The texts [2], [3] and [4] are an
  announcement, an \<open>xpdr.ident\<close> command and the confirmation of the code ABC-DEF; any other text
  is no JSON. The hash is the identity.
\<close>

definition demo_hello :: message where
  "demo_hello = \<lparr>m_id = js ''m1'', m_type = AGENT_HELLO, m_payload = [(js ''deviceName'', JStr (js ''pc''))]\<rparr>"

definition demo_ident :: message where
  "demo_ident = \<lparr>m_id = js ''m1'', m_type = XPDR_IDENT, m_payload = []\<rparr>"

definition demo_confirm :: message where
  "demo_confirm = \<lparr>m_id = js ''m1'', m_type = PAIRING_CONFIRM, m_payload = [(js ''code'', JStr (js ''ABC-DEF''))]\<rparr>"

definition demo_node :: node where
  "demo_node = \<lparr>n_platform = \<lparr>p_url = (\<lambda>s. None), p_isIP = (\<lambda>h. False), p_dateParse = (\<lambda>s. None)\<rparr>,
     n_sha = (\<lambda>s. s), n_coll = (\<lambda>a b. 0),
     n_parse = (\<lambda>t. if t = [2] then Some (wire demo_hello) else if t = [3] then Some (wire demo_ident)
       else if t = [4] then Some (wire demo_confirm) else None)\<rparr>"

definition demo_rc :: "bool \<Rightarrow> relay_config" where
  "demo_rc pairing = \<lparr>rc_authMode = EnvMode, rc_allowedOrigins = [[79]], rc_allowQueryToken = False,
     rc_requirePairing = pairing, rc_persistPairings = False, rc_persistAudit = False,
     rc_pairingTtlMs = 600000, rc_inviteTtlMs = 600000, rc_maxClients = 100, rc_rateWindowMs = 10000,
     rc_maxMessages = 240, rc_maxCommands = 80, rc_maxPairingAttempts = 10, rc_maxHttpRateKeys = 1000,
     rc_maxAudioFrameBytes = 32768, rc_maxTxDurationMs = 120000, rc_minimumVersion = [],
     rc_recommendedVersion = [], rc_appVersion = [], rc_downloadUrl = [],
     rc_watchdog = createConfig NaN NaN NaN NaN NaN []\<rparr>"

definition demo_env :: env where
  "demo_env = \<lparr>e_now = 1000, e_gen = [103], e_uuid = [117], e_hex = (\<lambda>k. [])\<rparr>"

definition demo_decision :: "source \<Rightarrow> decision" where
  "demo_decision src = \<lparr>d_source = src, d_browserId = (if src = BROWSER then [98] else []), d_userId = [85, 86],
     d_userName = [85], d_authKind = TOKEN, d_sessionId = []\<rparr>"

definition demo_agent :: client where
  "demo_agent = (new_client demo_env (demo_decision AGENT) [])
     \<lparr>c_deviceId := [100], c_deviceKey := [85, 86, 58, 100], c_deviceName := [112]\<rparr>"

definition demo_browser :: client where
  "demo_browser = (new_client demo_env (demo_decision BROWSER) [])
     \<lparr>c_selectedDeviceId := [100], c_activeTxDeviceId := [100], c_activeTxStartedAt := 500\<rparr>"

definition demo_device :: device where
  "demo_device = \<lparr>dv_key = [85, 86, 58, 100], dv_userId = [85, 86], dv_deviceId = [100], dv_deviceName = [112],
     dv_agentVersion = [], dv_online = True, dv_ws = 10, dv_clientId = [117], dv_connectedAt = 0,
     dv_lastSeenAt = 0, dv_lastMessages = []\<rparr>"

definition demo_pairing :: pairing where
  "demo_pairing = \<lparr>pc_userId = [85, 86], pc_deviceId = [100], pc_expiresAtMs = 2000\<rparr>"

definition demo_state :: "(jstr, jstr list) jmap \<Rightarrow> relay" where
  "demo_state auth = \<lparr>r_obj = [(10, demo_agent), (20, demo_browser)], r_clients = [10, 20], r_open = [10, 20],
     r_devices = [([85, 86, 58, 100], demo_device)], r_codes = [(js ''ABC-DEF'', demo_pairing)],
     r_auth = auth, r_watchdog = initWatchdog\<rparr>"

lemma demo_id: "isId (JStr (js ''m1''))"
  by (simp add: isId_def str_test_def rx_match_Reps js_def token_char_def alnum_def char_classes)

lemma demo_code_ok: "isPairingCode (JStr (js ''ABC-DEF''))"
  by (simp add: isPairingCode_def str_test_def rx_match_Reps js_def char_classes)

lemma demo_hello_ok: "parseRemoteJson (n_parse demo_node) U (Some AGENT) [2] = Inr demo_hello"
proof -
  have "isShortText (JStr (js ''pc''))" by (simp add: isShortText_def str_test_def js_def)
  then have "validateRemoteMessage U (Some AGENT) (wire demo_hello) = Inr demo_hello"
    by (intro validateRemoteMessage_wire)
       (simp_all add: demo_hello_def demo_id validatePayload_def empty_types_def requireShape_def sch_def)
  then show ?thesis by (simp add: parseRemoteJson_def demo_node_def MAX_JSON_MESSAGE_BYTES_def)
qed

lemma demo_ident_ok: "parseRemoteJson (n_parse demo_node) U (Some BROWSER) [3] = Inr demo_ident"
proof -
  have "validateRemoteMessage U (Some BROWSER) (wire demo_ident) = Inr demo_ident"
    by (intro validateRemoteMessage_wire)
       (simp_all add: demo_ident_def demo_id validatePayload_def empty_types_def noExtraPayload_def)
  then show ?thesis by (simp add: parseRemoteJson_def demo_node_def MAX_JSON_MESSAGE_BYTES_def)
qed

lemma demo_confirm_ok: "parseRemoteJson (n_parse demo_node) U (Some BROWSER) [4] = Inr demo_confirm"
proof -
  have "validateRemoteMessage U (Some BROWSER) (wire demo_confirm) = Inr demo_confirm"
    by (intro validateRemoteMessage_wire)
       (simp_all add: demo_confirm_def demo_id demo_code_ok validatePayload_def empty_types_def requireShape_def sch_def)
  then show ?thesis by (simp add: parseRemoteJson_def demo_node_def MAX_JSON_MESSAGE_BYTES_def)
qed

lemma demo_parse_sel [simp]: "p_url (n_platform demo_node) = (\<lambda>s. None)"
  by (simp add: demo_node_def)

lemmas demo_rate = setAlive_def upd_client_def rate_allows_def allowRate_def rate_step_def rate_inc_def
  rate_count_def createRateState_def

lemma demo_browser_sel [simp]:
  "c_source demo_browser = BROWSER" "c_userId demo_browser = [85, 86]" "c_browserId demo_browser = [98]"
  "c_authKind demo_browser = TOKEN" "c_selectedDeviceId demo_browser = [100]"
  "c_activeTxDeviceId demo_browser = [100]" "c_activeTxStartedAt demo_browser = 500"
  "c_rate demo_browser = createRateState 1000"
  by (simp_all add: demo_browser_def new_client_def demo_decision_def demo_env_def)

lemma demo_clients [simp]:
  "client_of (demo_state a) 10 = demo_agent" "client_of (demo_state a) 20 = demo_browser"
  "mhas (r_obj (demo_state a)) 10" "mhas (r_obj (demo_state a)) 20"
  by (simp_all add: client_of_def demo_state_def mhas_def)

end
