(* ===== verification/RelayHttp.thy ===== *)
theory RelayHttp
  imports RelayBase
begin

section \<open>HTTP attempts and registration invites (apps/relay/index.js)\<close>

text \<open>
  The limiter of authentication attempts counts per address and bucket in fixed windows; its map
  is trimmed so that a flood of addresses cannot grow it. Invites are stored by their hash
  until they expire or are consumed. The attempts are counted before the response is known, so
  \<open>allowHttpAttempt\<close> returns the verdict with the value of \<open>retry-after\<close>.
\<close>

record http_rate =
  hr_windowStartMs :: int
  hr_count :: nat

type_synonym http_rates = "(jstr, http_rate) jmap"

definition httpRateKey :: "jstr \<Rightarrow> jstr \<Rightarrow> jstr" where
  "httpRateKey ip buck = buck @ [58] @ (if ip \<noteq> [] then ip else js ''unknown'')"

definition staleAttempt :: "int \<Rightarrow> int \<Rightarrow> http_rate \<Rightarrow> bool" where
  "staleAttempt window now r = (now - hr_windowStartMs r \<ge> window)"

definition dropStaleAttempts :: "int \<Rightarrow> int \<Rightarrow> http_rates \<Rightarrow> http_rates" where
  "dropStaleAttempts window now m = mfilter (\<lambda>k r. \<not> staleAttempt window now r) m"

text \<open>The oldest entries go first: deleting the first key of the map until it is small enough.\<close>

definition trimHttpRateStates :: "nat \<Rightarrow> int \<Rightarrow> int \<Rightarrow> http_rates \<Rightarrow> http_rates" where
  "trimHttpRateStates maxKeys window now m =
     (if length m \<le> maxKeys then m
      else (let m1 = dropStaleAttempts window now m in drop (length m1 - maxKeys) m1))"

definition allowHttpAttempt ::
  "relay_config \<Rightarrow> int \<Rightarrow> jstr \<Rightarrow> nat \<Rightarrow> http_rates \<Rightarrow> http_rates \<times> (int + unit)" where
  "allowHttpAttempt C now key limit m =
     (let window = rc_rateWindowMs C;
          fresh = \<lparr>hr_windowStartMs = now, hr_count = 0\<rparr>;
          st = (case mget m key of Some r \<Rightarrow> if now - hr_windowStartMs r \<ge> window then fresh else r | None \<Rightarrow> fresh);
          st1 = st\<lparr>hr_count := Suc (hr_count st)\<rparr>;
          m1 = trimHttpRateStates (rc_maxHttpRateKeys C) window now (mput m key st1)
      in (m1, if hr_count st1 \<le> limit then Inr ()
              else Inl (max 1 (\<lceil>rat_of_int (window - (now - hr_windowStartMs st1)) / 1000\<rceil>))))"

definition clearHttpAttempts :: "jstr \<Rightarrow> http_rates \<Rightarrow> http_rates" where
  "clearHttpAttempts key m = mdel m key"

subsection \<open>Invites\<close>

type_synonym invites = "(jstr, int) jmap"

definition staleInvite :: "int \<Rightarrow> int \<Rightarrow> bool" where
  "staleInvite now expiresAtMs = (expiresAtMs \<le> now)"

definition purgeExpiredRegistrationInvites :: "int \<Rightarrow> invites \<Rightarrow> invites" where
  "purgeExpiredRegistrationInvites now m = mfilter (\<lambda>k e. \<not> staleInvite now e) m"

text \<open>\<open>random\<close> is the base64url text of the 18 random bytes.\<close>

definition createRegistrationInvite ::
  "node \<Rightarrow> relay_config \<Rightarrow> int \<Rightarrow> jstr \<Rightarrow> invites \<Rightarrow> invites \<times> jstr \<times> jstr" where
  "createRegistrationInvite N C now random m =
     (let code = js ''VHF-'' @ upper random; expires = now + rc_inviteTtlMs C
      in (mput (purgeExpiredRegistrationInvites now m) (registrationInviteKey N code) expires,
          code, iso_string expires))"

definition hasRegistrationInvite :: "node \<Rightarrow> int \<Rightarrow> jstr \<Rightarrow> invites \<Rightarrow> invites \<times> bool" where
  "hasRegistrationInvite N now value m =
     (let m1 = purgeExpiredRegistrationInvites now m; code = normalizeRegistrationInvite value
      in (m1, code \<noteq> [] \<and> mhas m1 (registrationInviteKey N code)))"

definition consumeRegistrationInvite :: "node \<Rightarrow> jstr \<Rightarrow> invites \<Rightarrow> invites \<times> bool" where
  "consumeRegistrationInvite N value m =
     (let code = normalizeRegistrationInvite value; key = registrationInviteKey N code
      in if code = [] then (m, False) else (mdel m key, mhas m key))"

subsection \<open>Facts\<close>

interpretation attempts: expiring_store "dropStaleAttempts w" "staleAttempt w" for w
  by unfold_locales (simp add: dropStaleAttempts_def)

interpretation invites: expiring_store purgeExpiredRegistrationInvites staleInvite
  by unfold_locales (simp add: purgeExpiredRegistrationInvites_def)

lemma length_trim_rates: "length (trimHttpRateStates n w now m) \<le> n"
  unfolding trimHttpRateStates_def Let_def by (cases "length m \<le> n") auto

lemma mwf_drop: "mwf m \<Longrightarrow> mwf (drop n m)"
  by (simp add: mwf_def drop_map [symmetric] distinct_drop)

lemma mwf_trim_rates: "mwf m \<Longrightarrow> mwf (trimHttpRateStates n w now m)"
  by (simp add: trimHttpRateStates_def Let_def mwf_drop attempts.purge_wf)

text \<open>An invite that was created can be used until it expires, and until it was consumed.\<close>

lemma invite_char: "is_upper c \<or> is_digit c \<or> one_of ''_-'' c \<Longrightarrow> c < 128 \<and> \<not> is_lower c \<and> \<not> is_ws c"
  by (auto simp: char_classes js_def is_ws_def)

lemma created_is_normal:
  assumes "20 \<le> length random" "length random \<le> 64" "\<forall>c \<in> set random. base64url_char c"
  shows "normalizeRegistrationInvite (js ''VHF-'' @ upper random) = js ''VHF-'' @ upper random"
proof -
  have a: "c < 128 \<and> \<not> is_ws c" if "base64url_char c" for c
    using that by (auto simp: base64url_char_def alnum_def char_classes js_def is_ws_def)
  have up: "upper random = map (\<lambda>c. if is_lower c then c - 32 else c) random"
    using a assms(3) by (induction random) (auto simp: upper_def upper_unit_ascii)
  have len: "length (upper random) = length random" by (simp add: up)
  have cs: "is_upper c \<or> is_digit c \<or> one_of ''_-'' c" if "c \<in> set (upper random)" for c
    using that assms(3) unfolding up by (auto simp: base64url_char_def alnum_def char_classes js_def)
  have lit: "js ''VHF-'' = [86, 72, 70, 45]" by (simp add: js_def)
  have ascii: "c < 128 \<and> \<not> is_lower c \<and> \<not> is_ws c" if "c \<in> set (js ''VHF-'' @ upper random)" for c
    using that invite_char [OF cs] invite_char [of c]
    unfolding set_append lit by (auto simp: char_classes js_def)
  have t: "trim (js ''VHF-'' @ upper random) = js ''VHF-'' @ upper random"
    using ascii by (intro trim_no_ws) blast
  have u: "upper (js ''VHF-'' @ upper random) = js ''VHF-'' @ upper random"
    using ascii by (intro upper_id) blast
  have "rx_match invite_rx (js ''VHF-'' @ upper random)"
    unfolding invite_rx_def rx_match_iff
    using cs len assms(1,2)
    by (auto simp: rx_lang.simps list_all_iff)
  then show ?thesis by (simp add: normalizeRegistrationInvite_def t u)
qed

end
