(* ===== verification/RelayProps.thy ===== *)
theory RelayProps
  imports RelayReplies RelayHttp
begin

section \<open>Properties of the relay\<close>

subsection \<open>Tenants\<close>

text \<open>The socket an output writes to.\<close>

definition out_target :: "r_out \<Rightarrow> nat option" where
  "out_target out = (case out of Send w m \<Rightarrow> Some w | SendBinary w f \<Rightarrow> Some w | _ \<Rightarrow> None)"

text \<open>
  C6: Tenants are isolated. In every run of the relay, whatever a socket does (a message of any
  content, a binary frame, a close), everything the relay writes because of it goes to a
  socket of the same user, and if it is another socket, from a browser to an agent or from an
  agent to a browser.
\<close>
theorem tenant_isolation:
  assumes "list_all relayOk es" and "socket_event ws e"
    and "out \<in> set (snd (relayStep N C (E, e) (relayRun N C persisted es)))" and "out_target out = Some w"
  shows "c_userId (client_of (relayRun N C persisted es) w) = c_userId (client_of (relayRun N C persisted es) ws)
    \<and> (w = ws
       \<or> c_source (client_of (relayRun N C persisted es) ws) = BROWSER
         \<and> c_source (client_of (relayRun N C persisted es) w) = AGENT
       \<or> c_source (client_of (relayRun N C persisted es) ws) = AGENT
         \<and> c_source (client_of (relayRun N C persisted es) w) = BROWSER)"
  using socket_event_routed [OF relayRun_safe [OF assms(1)] assms(2,3)] assms(4)
  by (auto simp: routed_def out_target_def ident_def Let_def split: r_out.splits)

text \<open>The agent and a browser of one user connect; the browser hears of the agent's announcement.\<close>

definition demo_connects :: "(env \<times> r_event) list" where
  "demo_connects = [(demo_env, Connect 10 (demo_decision AGENT) []), (demo_env, Connect 20 (demo_decision BROWSER) [])]"

definition demo_two :: relay where
  "demo_two = \<lparr>r_obj = [(10, new_client demo_env (demo_decision AGENT) []),
     (20, new_client demo_env (demo_decision BROWSER) [])], r_clients = [10, 20], r_open = [20, 10],
     r_devices = [], r_codes = [], r_auth = [], r_watchdog = initWatchdog\<rparr>"

lemma demo_two_run: "relayRun demo_node (demo_rc p) [] demo_connects = demo_two"
  by (simp add: demo_connects_def demo_two_def initRelay_def onConnection_def welcome_messages_def
      andThen_def send_def mhas_def Let_def)

lemma demo_two_sel [simp]:
  "client_of demo_two 10 = new_client demo_env (demo_decision AGENT) []"
  "client_of demo_two 20 = new_client demo_env (demo_decision BROWSER) []" "mhas (r_obj demo_two) 10"
  by (simp_all add: client_of_def demo_two_def mhas_def)

lemma demo_new_sel [simp]:
  "c_source (new_client E d a) = d_source d" "c_userId (new_client E d a) = d_userId d"
  "c_authKind (new_client E d a) = d_authKind d" "c_deviceKey (new_client E d a) = []"
  "c_rate (new_client E d a) = createRateState (e_now E)" "c_browserId (new_client E d a) = d_browserId d"
  by (simp_all add: new_client_def blank_client_def)

lemma demo_hello_sends:
  "\<exists>m. Send 20 m \<in> set (snd (relayStep demo_node (demo_rc False) (demo_env, Message 10 [2]) demo_two))"
proof -
  let ?s = "fst (allowRate (demo_rc False) demo_env 10 Messages 240 (setAlive 10 demo_two))"
  have r: "rate_allows (demo_rc False) demo_env 10 Messages 240 (setAlive 10 demo_two)"
    by (simp add: demo_rate demo_two_def client_of_def demo_rc_def demo_env_def)
  have src: "c_source (client_of ?s 10) = AGENT"
    by (simp add: allowRate_def Let_def send_def setAlive_def demo_decision_def)
  have m: "snd (relayStep demo_node (demo_rc False) (demo_env, Message 10 [2]) demo_two) =
      snd (andThen (allowRate (demo_rc False) demo_env 10 Messages 240) (onText demo_node (demo_rc False) demo_env 10 [2])
        (setAlive 10 demo_two))"
    using r by (simp add: on_socket_def onMessage_def) (simp add: demo_rc_def)
  have t: "onText demo_node (demo_rc False) demo_env 10 [2] ?s = registerAgent demo_node (demo_rc False) demo_env 10 demo_hello ?s"
    using src demo_hello_ok
    by (simp add: onText_def onParsed_def handleMessage_def shouldRateLimitBrowserCommand_def browser_to_agent_types_def
        andThen_def) (simp add: demo_hello_def)
  have "\<exists>m. Send 20 m \<in> set (snd (registerAgent demo_node (demo_rc False) demo_env 10 demo_hello ?s))"
    by (simp add: registerAgent_def version_rejected_def demo_rc_def demo_rate demo_two_def client_of_def andThen_def
        setDevice_def run_watchdog_def agentOnline_def clearActiveTimer_def initWatchdog_def rememberRelayAgent_def
        pairingsUseDatabase_def recordAuditEvent_def send_def broadcastDeviceState_def announced_def
        canClientAccessDevice_def demo_decision_def demo_env_def is_open_def Let_def)
  then show ?thesis unfolding m by (auto simp: andThen_def case_prod_beta Let_def t)
qed

theorem tenant_isolation_witness:
  "c_userId (client_of (relayRun demo_node (demo_rc False) [] demo_connects) 20)
     = c_userId (client_of (relayRun demo_node (demo_rc False) [] demo_connects) 10)"
proof -
  obtain m where m: "Send 20 m \<in> set (snd (relayStep demo_node (demo_rc False) (demo_env, Message 10 [2])
      (relayRun demo_node (demo_rc False) [] demo_connects)))"
    using demo_hello_sends demo_two_run by metis
  have "list_all relayOk demo_connects"
    by (simp add: demo_connects_def relayOk_def demo_decision_def colon_free_def)
  from tenant_isolation [OF this _ m, of 10] show ?thesis
    by (simp add: socket_event_def out_target_def)
qed

subsection \<open>Commands\<close>

text \<open>
  C7: A browser's message reaches another socket only as a command to the device it selected, or as
  the end of its own transmission. If a message of a browser makes the relay write to another
  socket, then either what is written is the validated message itself, of a type that browsers may
  send to agents (\<open>tx.stop\<close> as well), and the target is the open socket of the online device that the
  browser had selected and may access; or the message selects a device or ends a pairing, what is
  written is the relay's own \<open>tx.stop\<close>, and the target is the open socket of the online device that
  the browser was transmitting to.
\<close>
theorem command_authorized:
  assumes "c_source (client_of s ws) = BROWSER"
    and "Send w m \<in> set (snd (relayStep N C (E, Message ws t) s))" and "w \<noteq> ws"
  shows "(\<exists>r. parseRemoteJson (n_parse N) (p_url (n_platform N)) (Some BROWSER) t = Inr r
    \<and> (m = r \<and> m_type r \<in> set browser_to_agent_types
       \<and> (\<exists>d. selected_device s (client_of s ws) = Some d \<and> dv_ws d = w \<and> dv_online d \<and> is_open s w
            \<and> canClientAccessDevice N C s (client_of s ws) (dv_deviceId d))
     \<or> (m_type r = DEVICE_SELECT \<or> m_type r = PAIRING_REVOKE)
       \<and> m = createRemoteMessage (e_gen E) TX_STOP [] (js ''tx-stop-'' @ to_string36 (e_now E))
       \<and> c_activeTxDeviceId (client_of s ws) \<noteq> []
       \<and> (\<exists>d. mget (r_devices s) (scopedDeviceKey (c_userId (client_of s ws)) (c_activeTxDeviceId (client_of s ws))) = Some d
            \<and> dv_ws d = w \<and> dv_online d \<and> is_open s w)))"
proof -
  have "Send w m \<in> set (snd (onMessage N C E ws t s))"
    using assms(2) by (simp add: on_socket_def split: if_splits)
  then have "command_out N C E s ws (parse_opt N BROWSER t) (Send w m)"
    by (rule good_out [OF commanded_onMessage [OF assms(1)]])
  then show ?thesis
    using assms(3)
    by (auto simp: command_out_def reply_only_def own_stop_def may_stop_def command_target_def parse_opt_def parsed_def Let_def
      split: sum.splits)
qed

theorem command_authorized_witness:
  "\<exists>d. selected_device (demo_state [([85, 86, 58, 98], [[100]])]) demo_browser = Some d \<and> dv_ws d = 10
     \<and> canClientAccessDevice demo_node (demo_rc True) (demo_state [([85, 86, 58, 98], [[100]])]) demo_browser (dv_deviceId d)"
proof -
  let ?s = "demo_state [([85, 86, 58, 98], [[100]])]"
  have "Send 10 demo_ident \<in> set (snd (relayStep demo_node (demo_rc True) (demo_env, Message 20 [3]) ?s))"
    using demo_ident_ok
    by (simp add: on_socket_def onMessage_def onText_def onParsed_def andThen_def demo_rate client_of_def demo_state_def
        demo_rc_def demo_env_def handleMessage_def shouldRateLimitBrowserCommand_def
        browser_to_agent_types_def agent_watchdog_types_def demo_ident_def routeBrowserCommand_def selected_device_def
        scopedDeviceKey_def canClientAccessDevice_def authorized_for_def browserAuthorizationKey_def demo_device_def
        is_open_def send_def Let_def)
       (simp add: demo_node_def mhas_def)
  then have "\<exists>d. selected_device ?s (client_of ?s 20) = Some d \<and> dv_ws d = 10 \<and> dv_online d \<and> is_open ?s 10
      \<and> canClientAccessDevice demo_node (demo_rc True) ?s (client_of ?s 20) (dv_deviceId d)"
    using command_authorized [of ?s 20 10 demo_ident demo_node "demo_rc True" demo_env "[3]"]
    by (auto simp: demo_ident_def createRemoteMessage_def)
  then show ?thesis by auto
qed

text \<open>
  C8: A browser's microphone reaches an agent only inside its transmission window. A binary frame
  of a browser is forwarded only if a transmission is active on the selected device, it did
  not last longer than the limit, the frame carries the \<open>CTX1\<close> prefix, and the device is
  online and accessible; what is forwarded is the non-empty rest of the frame.
\<close>
theorem tx_window:
  assumes "c_source (client_of s ws) = BROWSER"
    and "SendBinary w f \<in> set (snd (relayStep N C (E, Binary ws frame) s))"
  shows "frame = TX_PACKET_MAGIC @ f \<and> f \<noteq> [] \<and> length frame \<le> rc_maxAudioFrameBytes C
    \<and> c_activeTxDeviceId (client_of s ws) \<noteq> []
    \<and> c_activeTxDeviceId (client_of s ws) = c_selectedDeviceId (client_of s ws)
    \<and> e_now E - c_activeTxStartedAt (client_of s ws) \<le> rc_maxTxDurationMs C
    \<and> (\<exists>d. selected_device s (client_of s ws) = Some d \<and> dv_ws d = w \<and> dv_online d \<and> is_open s w
         \<and> canClientAccessDevice N C s (client_of s ws) (dv_deviceId d))"
proof -
  let ?s = "setAlive ws s"
  have r: "rated ws s ?s" by (rule rated_alive)
  have b: "SendBinary w f \<in> set (snd (handleBrowserTxAudio N C E ws frame ?s))"
    and len: "length frame \<le> rc_maxAudioFrameBytes C"
    using assms rated_access(4) [OF r]
    by (auto simp: on_socket_def onBinary_def handleBinaryMessage_def closeProtocol_def Let_def split: if_splits)
  have stop: "SendBinary w f \<notin> set (snd (stopBrowserTx E ws ?s))"
    by (auto simp: stopBrowserTx_def send_def Let_def split: option.splits)
  define c where "c = client_of ?s ws"
  from b stop obtain d where g: "c_activeTxDeviceId c \<noteq> []" "c_activeTxDeviceId c = c_selectedDeviceId c"
      "e_now E - c_activeTxStartedAt c \<le> rc_maxTxDurationMs C"
      "4 < length frame" "take 4 frame = TX_PACKET_MAGIC"
      "mget (r_devices ?s) (scopedDeviceKey (c_userId c) (c_activeTxDeviceId c)) = Some d"
      "dv_online d" "is_open ?s (dv_ws d)" "canClientAccessDevice N C ?s c (dv_deviceId d)"
      "SendBinary w f \<in> set (snd (sendBinary (dv_ws d) (drop 4 frame) ?s))"
    unfolding handleBrowserTxAudio_def Let_def c_def [symmetric]
    by (auto simp: closeProtocol_def TX_PACKET_MAGIC_def split: if_splits option.splits)
  from g(10) have w: "w = dv_ws d" "f = drop 4 frame" by (simp_all add: sendBinary_def split: if_splits)
  have frame: "frame = TX_PACKET_MAGIC @ f" using g(5) w(2) append_take_drop_id [of 4 frame] by simp
  have sel: "selected_device ?s c = Some d" using g(1,2,6) by (simp add: selected_device_def)
  have c: "c_activeTxDeviceId c = c_activeTxDeviceId (client_of s ws)"
    "c_selectedDeviceId c = c_selectedDeviceId (client_of s ws)"
    "c_activeTxStartedAt c = c_activeTxStartedAt (client_of s ws)"
    by (simp_all add: c_def setAlive_def)
  have ne: "f \<noteq> []" using g(4) w(2) by simp
  have acc: "selected_device s (client_of s ws) = Some d" "is_open s (dv_ws d)"
    "canClientAccessDevice N C s (client_of s ws) (dv_deviceId d)"
    using sel g(8,9) unfolding c_def by (simp_all add: rated_access [OF r])
  show ?thesis
    by (intro conjI exI [of _ d]) (use g(1,2,3,7) in \<open>simp_all add: frame [symmetric] ne len acc w(1) c\<close>)
qed

theorem tx_window_witness:
  "[67, 84, 88, 49, 7] = TX_PACKET_MAGIC @ ([7] :: 8 word list)
   \<and> e_now demo_env - c_activeTxStartedAt demo_browser \<le> rc_maxTxDurationMs (demo_rc False)"
proof -
  let ?s = "demo_state []"
  have "SendBinary 10 [7] \<in> set (snd (relayStep demo_node (demo_rc False)
      (demo_env, Binary 20 [67, 84, 88, 49, 7]) ?s))"
    by (simp add: on_socket_def mhas_def onBinary_def handleBinaryMessage_def setAlive_def upd_client_def client_of_def
        demo_state_def demo_rc_def demo_env_def handleBrowserTxAudio_def TX_PACKET_MAGIC_def scopedDeviceKey_def
        demo_device_def is_open_def canClientAccessDevice_def sendBinary_def Let_def)
  then show ?thesis
    using tx_window [of ?s 20 10 "[7]" demo_node "demo_rc False" demo_env "[67, 84, 88, 49, 7]"] by simp
qed

subsection \<open>Pairing\<close>

text \<open>
  C9: Pairings come only from pairing codes. If a browser identity is authorized for a device
  after an event and was not before, the event is a text message that validated as
  \<open>pairing.confirm\<close> from a browser socket, the new authorization is for this browser and user, and its
  code was stored, unexpired, for the same user and device, which is online.
\<close>
theorem authorization_origin:
  assumes "authorized_for (fst (relayStep N C e s)) k x" and "\<not> authorized_for s k x"
  shows "\<exists>E ws t m p d. e = (E, Message ws t)
    \<and> parseRemoteJson (n_parse N) (p_url (n_platform N)) (Some BROWSER) t = Inr m
    \<and> m_type m = PAIRING_CONFIRM \<and> c_source (client_of s ws) = BROWSER
    \<and> k = browserAuthorizationKey N (c_userId (client_of s ws)) (c_browserId (client_of s ws))
    \<and> (normalizePairingCode (ptext m ''code''), p) \<in> set (r_codes s) \<and> e_now E < pc_expiresAtMs p
    \<and> pc_userId p = c_userId (client_of s ws) \<and> pc_deviceId p = x
    \<and> mget (r_devices s) (scopedDeviceKey (pc_userId p) x) = Some d \<and> dv_online d"
proof -
  have "after_event N s e k x" using step_after [of N s e C] assms(1) by (simp add: auth_in_def)
  with assms(2) obtain E ws t where e: "e = (E, Message ws t)" "after_text N s (e_now E) ws t k x"
    by (cases e) (auto simp: after_event_def split: r_event.splits)
  then obtain m where m: "parsed N (c_source (client_of s ws)) t = Inr m" "m_type m = PAIRING_CONFIRM"
    and g: "granted N s (e_now E) ws (ptext m ''code'') k x"
    using assms(2) by (auto simp: after_text_def)
  then obtain p where "valid_code s (e_now E) ws (ptext m ''code'') p" "x = pc_deviceId p"
    "k = browserAuthorizationKey N (c_userId (client_of s ws)) (c_browserId (client_of s ws))"
    by (auto simp: granted_def)
  then show ?thesis using e(1) m by (auto simp: valid_code_def parsed_def)
qed

lemma demo_code: "normalizePairingCode (js ''ABC-DEF'') = js ''ABC-DEF''"
proof -
  have "upper (js ''ABC-DEF'') = js ''ABC-DEF''" by (rule upper_id) (simp add: js_def is_lower_def)
  then show ?thesis by (simp add: normalizePairingCode_def js_def char_classes)
qed

lemma demo_usable:
  "usable_pairing demo_browser (normalizePairingCode (js ''ABC-DEF''))
     ((demo_state a)\<lparr>r_codes := purgeExpiredPairingCodes 1000 (r_codes (demo_state a))\<rparr>) = Some (demo_pairing, demo_device)"
  unfolding demo_code
  by (simp add: usable_pairing_def demo_state_def purgeExpiredPairingCodes_def mfilter_def stalePairing_def
      demo_pairing_def scopedDeviceKey_def demo_device_def)

theorem authorization_origin_witness:
  "\<exists>p. (normalizePairingCode (js ''ABC-DEF''), p) \<in> set (r_codes (demo_state [])) \<and> 1000 < pc_expiresAtMs p
     \<and> pc_deviceId p = [100]"
proof -
  let ?s = "demo_state []"
  let ?k = "[85, 86, 58, 98] :: jstr"
  let ?t = "fst (allowRate (demo_rc True) demo_env 20 Pairings 10 (fst (allowRate (demo_rc True) demo_env 20 Messages 240
    (setAlive 20 ?s))))"
  have c: "fst (relayStep demo_node (demo_rc True) (demo_env, Message 20 [4]) ?s)
      = fst (confirmPairing demo_node (demo_rc True) demo_env 20 (js ''ABC-DEF'') ?t)"
    using demo_confirm_ok
    by (simp add: on_socket_def mhas_def onMessage_def onText_def onParsed_def andThen_def demo_rate client_of_def
        demo_state_def demo_rc_def demo_env_def handleMessage_def shouldRateLimitBrowserCommand_def
        browser_to_agent_types_def case_prod_beta Let_def demo_confirm_def ptext_def)
  have "authorized_for (fst (confirmPairing demo_node (demo_rc True) demo_env 20 (js ''ABC-DEF'') ?t)) ?k [100]"
    by (simp add: demo_rate demo_state_def client_of_def demo_rc_def demo_env_def confirmPairing_def demo_code
        usable_pairing_def purgeExpiredPairingCodes_def mfilter_def stalePairing_def demo_pairing_def scopedDeviceKey_def
        demo_device_def authorizeBrowser_def persistBrowserAuthorization_def recordAuditEvent_def andThen_def send_def
        sendCachedDeviceState_def snapshot_types_def authorized_for_def browserAuthorizationKey_def demo_node_def
        set_add_def mdel_def Let_def)
  moreover have "\<not> authorized_for ?s ?k [100]" by (simp add: authorized_for_def demo_state_def)
  ultimately show ?thesis
    using authorization_origin [of demo_node "demo_rc True" "(demo_env, Message 20 [4])" ?s ?k "[100]"] demo_confirm_ok
    unfolding c by (auto simp: demo_env_def demo_confirm_def ptext_def)
qed

text \<open>A code that is gone stays unusable, and confirming it changes no authorization.\<close>

lemma codes_kept [simp]:
  "r_codes (fst (send w m s)) = r_codes s" "r_codes (fst (recordAuditEvent C a s)) = r_codes s"
  by (simp_all add: send_def recordAuditEvent_def)

lemma no_code_confirm:
  assumes "mget (r_codes s) (normalizePairingCode code) = None"
  shows "r_auth (fst (confirmPairing N C E ws code s)) = r_auth s"
proof -
  have "normalizePairingCode code \<notin> fst ` set (purgeExpiredPairingCodes (e_now E) (r_codes s))"
    using assms image_mono [OF pairing_codes.purge_subset, of fst "e_now E" "r_codes s"]
    by (auto simp: map_of_eq_None_iff)
  then have "usable_pairing (client_of s ws) (normalizePairingCode code)
      (s\<lparr>r_codes := purgeExpiredPairingCodes (e_now E) (r_codes s)\<rparr>) = None"
    by (simp add: usable_pairing_def map_of_eq_None_iff [symmetric])
  then show ?thesis by (simp add: confirmPairing_def Let_def send_def)
qed

lemma confirmed_code_gone:
  assumes "usable_pairing (client_of s ws) (normalizePairingCode code)
      (s\<lparr>r_codes := purgeExpiredPairingCodes (e_now E) (r_codes s)\<rparr>) = Some (p, d)"
    and "c_source (client_of s ws) = BROWSER" "c_browserId (client_of s ws) \<noteq> []"
  shows "mget (r_codes (fst (confirmPairing N C E ws code s))) (normalizePairingCode code) = None"
proof -
  let ?I = "\<lambda>t. mget (r_codes t) (normalizePairingCode code) = None"
  have loop: "good ?I (\<lambda>x. True) (sendCachedDeviceState ws e t)" if "?I t" for e t
    unfolding sendCachedDeviceState_def
    by (rule good_each, rule that) (auto simp: good_def list_all_iff split: option.split)
  have sent: "good ?I (\<lambda>x. True) (send ws m t)" if "?I t" for m t
    using that by (simp add: good_def list_all_iff)
  have step: "good ?I (\<lambda>x. True) (andThen (authorizeBrowser N C E u b x) (andThen (recordAuditEvent C a)
      (andThen (quiet (\<lambda>s. upd_client ws f (s\<lparr>r_codes := mdel (r_codes s) (normalizePairingCode code)\<rparr>)))
        (andThen (send ws m) (sendCachedDeviceState ws e)))) t)" for u b x a f m e t
    by (rule good_then [where J = "\<lambda>t. True" and R = "\<lambda>x. True"], simp add: good_def list_all_iff, simp,
        rule good_then [where J = "\<lambda>t. True" and R = "\<lambda>x. True"], simp add: good_def list_all_iff, simp)
       (intro good_andThen good_quiet sent loop, simp_all)
  have "good ?I (\<lambda>x. True) (confirmPairing N C E ws code s)"
    unfolding confirmPairing_def Let_def assms(1) option.case prod.case
    by (intro good_if step) (use assms(2,3) in simp_all)
  then show ?thesis by (rule good_inv)
qed

text \<open>
  C10: A pairing code works once. When a browser confirmed a code that was usable, no
  confirmation of that code (written in any way that normalizes to it), by any socket, at any
  time, changes who is authorized.
\<close>
theorem pairing_single_use:
  assumes "usable_pairing (client_of s ws) (normalizePairingCode code)
      (s\<lparr>r_codes := purgeExpiredPairingCodes (e_now E) (r_codes s)\<rparr>) = Some (p, d)"
    and "c_source (client_of s ws) = BROWSER" and "c_browserId (client_of s ws) \<noteq> []"
    and "normalizePairingCode code' = normalizePairingCode code"
  shows "r_auth (fst (confirmPairing N C E' ws' code' (fst (confirmPairing N C E ws code s))))
    = r_auth (fst (confirmPairing N C E ws code s))"
  using no_code_confirm [of "fst (confirmPairing N C E ws code s)" code'] confirmed_code_gone [OF assms(1-3)]
  by (simp add: assms(4))

theorem pairing_single_use_witness:
  "r_auth (fst (confirmPairing demo_node (demo_rc True) demo_env 20 (js ''ABC-DEF'')
      (fst (confirmPairing demo_node (demo_rc True) demo_env 20 (js ''ABC-DEF'') (demo_state [])))))
    = r_auth (fst (confirmPairing demo_node (demo_rc True) demo_env 20 (js ''ABC-DEF'') (demo_state [])))"
  by (rule pairing_single_use [where p = demo_pairing and d = demo_device])
     (use demo_usable in \<open>simp_all add: demo_env_def\<close>)

text \<open>
  C11: Revoking takes effect for every connection of the browser. After a browser that was paired by
  code revoked its pairing with a device, no connection with the same user and browser id that
  authenticated with a token may access the device. (The user \<open>default\<close> is left out: its old unscoped
  authorizations survive, see \<open>default_user_keeps_access\<close>.)
\<close>
theorem revoke_effective:
  assumes "rc_requirePairing C" and "c_source (client_of s ws) = BROWSER" and "c_browserId (client_of s ws) \<noteq> []"
    and "canClientAccessDevice N C s (client_of s ws) x"
    and "c_source c = BROWSER" and "c_authKind c = TOKEN" and "c_userId c \<noteq> DEFAULT_USER_ID"
    and "c_userId c = c_userId (client_of s ws)" and "c_browserId c = c_browserId (client_of s ws)"
  shows "\<not> canClientAccessDevice N C (fst (revokePairing N C E ws x s)) c x"
proof -
  let ?k = "browserAuthorizationKey N (c_userId (client_of s ws)) (c_browserId (client_of s ws))"
  let ?I = "\<lambda>t. \<not> authorized_for t ?k x"
  have rev: "good ?I (\<lambda>x. True) (revokeBrowserAuthorization N C E (c_userId (client_of s ws))
      (c_browserId (client_of s ws)) x t)" for t
  proof -
    have "\<not> authorized_for (revokeBrowserAuthorizationByHash ?k x t) ?k x"
      by (cases "mget (r_auth t) ?k") (auto simp: revokeBrowserAuthorizationByHash_def authorized_for_def Let_def)
    moreover have "r_auth (fst (persistBrowserRevocation C E u b y v)) = r_auth v" for u b y v
      by (simp add: persistBrowserRevocation_def persistPairings_def)
    ultimately show ?thesis
      by (auto simp: good_def list_all_iff revokeBrowserAuthorization_def Let_def authorized_for_def mhas_def
          split: option.split)
  qed
  have upd: "?I (upd_client v f t) = ?I t" for v f t by (simp add: authorized_for_def)
  have keep: "good ?I (\<lambda>x. True) (send v m t)" "good ?I (\<lambda>x. True) (recordAuditEvent C a t)" if "?I t" for v m a t
    using that by (simp_all add: good_def list_all_iff send_def recordAuditEvent_def)
  have step: "good ?I (\<lambda>x. True) (andThen g (andThen (revokeBrowserAuthorization N C E (c_userId (client_of s ws))
      (c_browserId (client_of s ws)) x) (andThen (recordAuditEvent C a) (andThen (quiet (upd_client ws f)) (send ws m)))) s)"
    for g a f m
    by (rule good_then [where J = "\<lambda>t. True" and R = "\<lambda>x. True"], simp add: good_def list_all_iff, simp)
       (intro good_andThen rev keep good_quiet, simp_all add: upd)
  have "good ?I (\<lambda>x. True) (revokePairing N C E ws x s)"
    unfolding revokePairing_def Let_def by (intro good_if step) (use assms(2,3,4) in simp_all)
  then have "?I (fst (revokePairing N C E ws x s))" by (rule good_inv)
  then show ?thesis using assms by (auto simp: canClientAccessDevice_def)
qed


theorem revoke_effective_witness:
  "\<not> canClientAccessDevice demo_node (demo_rc True)
     (fst (revokePairing demo_node (demo_rc True) demo_env 20 [100] (demo_state [([85, 86, 58, 98], [[100]])]))) demo_browser [100]"
  by (rule revoke_effective)
     (simp_all add: demo_rc_def canClientAccessDevice_def demo_state_def scopedDeviceKey_def demo_device_def
       client_of_def authorized_for_def browserAuthorizationKey_def demo_node_def DEFAULT_USER_ID_def js_def)

subsection \<open>Two limits of revocation\<close>

text \<open>
  The user \<open>default\<close> keeps access after a revocation that was answered with
  \<open>pairing.revoked\<close>, when the authorization came from the older, unscoped store: only the scoped
  key is deleted.
\<close>

definition default_browser :: client where
  "default_browser = demo_browser\<lparr>c_userId := DEFAULT_USER_ID\<rparr>"

definition default_state :: relay where
  "default_state = (demo_state [([98], [[100]])])\<lparr>r_obj := [(20, default_browser)], r_devices := []\<rparr>"

lemma default_user_keeps_access:
  "canClientAccessDevice demo_node (demo_rc True)
     (fst (revokePairing demo_node (demo_rc True) demo_env 20 [100] default_state)) default_browser [100]"
  "\<exists>m \<in> set (snd (revokePairing demo_node (demo_rc True) demo_env 20 [100] default_state)).
     case m of Send w x \<Rightarrow> w = 20 \<and> m_type x = PAIRING_REVOKED | _ \<Rightarrow> False"
  by (simp_all add: revokePairing_def default_state_def default_browser_def demo_state_def client_of_def
      canClientAccessDevice_def demo_rc_def scopedDeviceKey_def authorized_for_def browserAuthorizationKey_def
      unscopedBrowserAuthorizationKey_def demo_node_def andThen_def stopBrowserTx_def clearBrowserTx_def
      upd_client_def revokeBrowserAuthorization_def mhas_def recordAuditEvent_def send_def is_open_def DEFAULT_USER_ID_def
      js_def Let_def)

text \<open>
  A second tab of the browser goes on receiving the agent's messages after a revocation: only the
  revoking connection loses its selection, and \<open>routeAgentUpdate\<close> does not ask for access.
\<close>

definition two_tabs :: relay where
  "two_tabs = (demo_state [([85, 86, 58, 98], [[100]])])\<lparr>r_obj := [(10, demo_agent), (20, demo_browser), (30, demo_browser)],
     r_clients := [10, 20, 30], r_open := [10, 20, 30]\<rparr>"

lemma second_tab_still_watches:
  "watches (fst (revokePairing demo_node (demo_rc True) demo_env 20 [100] two_tabs)) [85, 86] [100] 30"
  "\<not> canClientAccessDevice demo_node (demo_rc True)
     (fst (revokePairing demo_node (demo_rc True) demo_env 20 [100] two_tabs)) demo_browser [100]"
  by (simp_all add: revokePairing_def two_tabs_def demo_state_def client_of_def watches_def
      canClientAccessDevice_def demo_rc_def scopedDeviceKey_def authorized_for_def browserAuthorizationKey_def
      demo_node_def andThen_def stopBrowserTx_def clearBrowserTx_def demo_device_def
      upd_client_def revokeBrowserAuthorization_def revokeBrowserAuthorizationByHash_def persistBrowserRevocation_def
      mhas_def recordAuditEvent_def send_def is_open_def DEFAULT_USER_ID_def mdel_def js_def Let_def)

text \<open>
  A pairing confirmed while a transmission runs changes the selection without ending the
  transmission: the device that was transmitting is sent no \<open>tx.stop\<close>.
\<close>

definition busy_browser :: client where
  "busy_browser = demo_browser\<lparr>c_selectedDeviceId := [101], c_activeTxDeviceId := [101]\<rparr>"

definition busy_state :: relay where
  "busy_state = (demo_state [])\<lparr>r_obj := [(10, demo_agent), (20, busy_browser)]\<rparr>"

lemma confirm_leaves_tx:
  "c_activeTxDeviceId (client_of (fst (confirmPairing demo_node (demo_rc True) demo_env 20 (js ''ABC-DEF'') busy_state)) 20) = [101]"
  "c_selectedDeviceId (client_of (fst (confirmPairing demo_node (demo_rc True) demo_env 20 (js ''ABC-DEF'') busy_state)) 20) = [100]"
  by (simp_all add: busy_state_def busy_browser_def demo_state_def client_of_def demo_rc_def demo_env_def confirmPairing_def demo_code
        usable_pairing_def purgeExpiredPairingCodes_def mfilter_def stalePairing_def demo_pairing_def scopedDeviceKey_def
        demo_device_def authorizeBrowser_def persistBrowserAuthorization_def recordAuditEvent_def andThen_def send_def
        sendCachedDeviceState_def snapshot_types_def upd_client_def Let_def)
end
