(* ===== verification/RelayLimits.thy ===== *)
theory RelayLimits
  imports RelayReplies RelayHttp
begin

section \<open>Rate limits, the end of a transmission and admission\<close>

subsection \<open>Messages per window\<close>

text \<open>
  How many calls of \<open>allowRate\<close> for the bucket \<open>b\<close> succeed in a sequence of calls of one
  connection, for any buckets.
\<close>

fun admitted :: "relay_config \<Rightarrow> nat \<Rightarrow> bucket \<Rightarrow> nat \<Rightarrow> (env \<times> bucket) list \<Rightarrow> relay \<Rightarrow> nat" where
  "admitted C ws b n [] s = 0"
| "admitted C ws b n ((E, b') # xs) s =
     (if b' = b \<and> rate_allows C E ws b n s then 1 else 0)
     + admitted C ws b n xs (fst (allowRate C E ws b' n s))"

text \<open>The same count on the rate record alone.\<close>

fun count_rate :: "int \<Rightarrow> bucket \<Rightarrow> nat \<Rightarrow> (int \<times> bucket) list \<Rightarrow> rate \<Rightarrow> nat" where
  "count_rate w b n [] r = 0"
| "count_rate w b n ((t, b') # xs) r =
     (let r1 = rate_step w t b' r
      in (if b' = b \<and> rate_count b r1 \<le> n then 1 else 0) + count_rate w b n xs r1)"

lemma allowRate_rate:
  "c_rate (client_of (fst (allowRate C E ws b n s)) ws) = rate_step (rc_rateWindowMs C) (e_now E) b (c_rate (client_of s ws))"
  by (simp add: allowRate_def send_def upd_client_def client_of_def Let_def)

lemma admitted_count:
  "admitted C ws b n xs s = count_rate (rc_rateWindowMs C) b n (map (\<lambda>(E, b'). (e_now E, b')) xs) (c_rate (client_of s ws))"
  by (induction C ws b n xs s rule: admitted.induct) (simp_all add: rate_allows_def Let_def allowRate_rate)

lemma rate_inc_sel [simp]:
  "windowStartMs (rate_inc b r) = windowStartMs r"
  "rate_count b (rate_inc b' r) = (if b' = b then Suc (rate_count b r) else rate_count b r)"
  by (cases b; cases b'; simp add: rate_inc_def rate_count_def)+

lemma rate_fresh_sel [simp]: "windowStartMs (createRateState t) = t" "rate_count b (createRateState t) = 0"
  by (cases b; simp add: createRateState_def rate_count_def)+

lemma count_one_window:
  "\<forall>(t, b') \<in> set xs. t - windowStartMs r \<le> w \<Longrightarrow> count_rate w b n xs r \<le> n - rate_count b r"
proof (induction xs arbitrary: r)
  case (Cons x xs)
  obtain t b' where x: "x = (t, b')" by force
  have r: "rate_step w t b' r = rate_inc b' r" using Cons.prems x by (simp add: rate_step_def)
  have "count_rate w b n xs (rate_inc b' r) \<le> n - rate_count b (rate_inc b' r)"
    using Cons.IH [of "rate_inc b' r"] Cons.prems by simp
  then show ?case by (auto simp: x r Let_def)
qed simp

lemma count_two_windows:
  "\<forall>(t, b') \<in> set xs. lo \<le> t \<and> t \<le> lo + w \<Longrightarrow> count_rate w b n xs r \<le> (n - rate_count b r) + n"
proof (induction xs arbitrary: r)
  case (Cons x xs)
  obtain t b' where x: "x = (t, b')" by force
  show ?case
  proof (cases "t - windowStartMs r > w")
    case True
    then have r: "rate_step w t b' r = rate_inc b' (createRateState t)" by (simp add: rate_step_def)
    have "\<forall>(u, b') \<in> set xs. u - windowStartMs (rate_inc b' (createRateState t)) \<le> w"
      using Cons.prems x by fastforce
    then have "\<forall>(u, c) \<in> set xs. u - windowStartMs (rate_inc b' (createRateState t)) \<le> w" by simp
    from count_one_window [OF this, of b n] show ?thesis by (auto simp: x r Let_def)
  next
    case False
    then have r: "rate_step w t b' r = rate_inc b' r" by (simp add: rate_step_def)
    have "count_rate w b n xs (rate_inc b' r) \<le> (n - rate_count b (rate_inc b' r)) + n"
      using Cons.IH [of "rate_inc b' r"] Cons.prems by simp
    then show ?thesis by (auto simp: x r Let_def)
  qed
qed simp

text \<open>
  C12: The rate limit bounds every window. In any sequence of calls of one connection, mixed over
  the buckets, whose times lie within one window length, at most twice the limit of a bucket
  is admitted, whatever the counters were before (the windows are fixed, so a burst can
  straddle two of them, but never more).
\<close>
theorem rate_bound:
  assumes "\<forall>(E, b') \<in> set xs. lo \<le> e_now E \<and> e_now E \<le> lo + rc_rateWindowMs C"
  shows "admitted C ws b n xs s \<le> 2 * n"
proof -
  have "\<forall>(t, b') \<in> set (map (\<lambda>(E, b'). (e_now E, b')) xs). lo \<le> t \<and> t \<le> lo + rc_rateWindowMs C"
    using assms by fastforce
  from count_two_windows [OF this, of b n "c_rate (client_of s ws)"] show ?thesis
    by (simp add: admitted_count)
qed

theorem rate_bound_witness:
  "admitted (demo_rc False) 20 Messages 1 [(demo_env, Messages), (demo_env, Messages), (demo_env, Commands)] (demo_state []) \<le> 2 * 1"
  by (rule rate_bound [of _ 1000]) (simp add: demo_env_def demo_rc_def)

subsection \<open>The end of a transmission\<close>

lemma each_send_first: "x \<in> set (snd (f s)) \<Longrightarrow> x \<in> set (snd (andThen f g s))"
  by (auto simp: andThen_def case_prod_beta Let_def)

text \<open>
  C13: A browser that disappears while it transmits releases the radio. When the socket of a
  connected browser with an active transmission closes or fails, the relay sends \<open>tx.stop\<close> to
  the device that is transmitting, if it is online and its socket open, and clears the transmission.
\<close>
theorem disconnect_stops_tx:
  assumes "ws \<in> set (r_clients s)" and "c_source (client_of s ws) = BROWSER"
    and "c_activeTxDeviceId (client_of s ws) \<noteq> []"
    and "mget (r_devices s) (scopedDeviceKey (c_userId (client_of s ws)) (c_activeTxDeviceId (client_of s ws))) = Some d"
    and "dv_online d" and "is_open s (dv_ws d)" and "dv_ws d \<noteq> ws"
    and "e = SocketClosed ws \<or> e = SocketFailed ws"
  shows "(\<exists>m. Send (dv_ws d) m \<in> set (snd (relayStep N C (E, e) s)) \<and> m_type m = TX_STOP \<and> m_payload m = [])
    \<and> c_activeTxDeviceId (client_of (fst (relayStep N C (E, e) s)) ws) = []"
proof -
  define m where "m = createRemoteMessage (e_gen E) TX_STOP [] (js ''tx-stop-'' @ to_string36 (e_now E))"
  have rem: "removeClient N C E ws t =
      ((clearBrowserTx ws (t\<lparr>r_clients := filter (\<lambda>x. x \<noteq> ws) (r_clients t)\<rparr>)), [Send (dv_ws d) m])"
    if t: "client_of t ws = client_of s ws" "r_devices t = r_devices s" "r_clients t = r_clients s" "is_open t (dv_ws d)" for t
  proof -
    have "is_open (clearBrowserTx ws (t\<lparr>r_clients := filter (\<lambda>x. x \<noteq> ws) (r_clients t)\<rparr>)) (dv_ws d)"
      using t(4) by (simp add: clearBrowserTx_def is_open_def)
    moreover have "r_devices (clearBrowserTx ws (t\<lparr>r_clients := filter (\<lambda>x. x \<noteq> ws) (r_clients t)\<rparr>)) = r_devices s"
      by (simp add: clearBrowserTx_def t(2))
    ultimately show ?thesis
      using assms(1-5) t
      by (simp add: removeClient_def andThen_def stopBrowserTx_def Let_def send_def agentLeaves_def m_def)
  qed
  let ?t = "s\<lparr>r_open := filter (\<lambda>x. x \<noteq> ws) (r_open s)\<rparr>"
  have o: "is_open ?t (dv_ws d)" using assms(6,7) by (simp add: is_open_def)
  have "m_type m = TX_STOP" "m_payload m = []" by (simp_all add: m_def createRemoteMessage_def)
  then show ?thesis
    using assms(8) rem [of s] rem [of ?t] o assms(6) by (auto simp: clearBrowserTx_def)
qed

theorem disconnect_stops_tx_witness:
  "\<exists>m. Send 10 m \<in> set (snd (relayStep demo_node (demo_rc True) (demo_env, SocketClosed 20) (demo_state []))) \<and> m_type m = TX_STOP"
  using disconnect_stops_tx [of 20 "demo_state []" demo_device "SocketClosed 20" demo_node "demo_rc True" demo_env]
  by (simp add: demo_state_def client_of_def demo_device_def is_open_def scopedDeviceKey_def) blast

subsection \<open>Admission\<close>

text \<open>
  Who gets a WebSocket. An upgrade is allowed only below the connection limit, from an
  allowlisted origin (a browser must send one), with a token whose hash belongs to the user it is
  admitted as, or, for a browser only, with the session of that user.
\<close>
theorem upgrade_admission:
  assumes "authorizeUpgrade N C users n r = Allow d"
  shows "n < rc_maxClients C \<and> (up_origin r \<noteq> [] \<or> d_source d = BROWSER \<longrightarrow> up_origin r \<in> set (rc_allowedOrigins C))
    \<and> (d_source d = BROWSER \<or> d_source d = AGENT)
    \<and> (case d_authKind d of
         TOKEN \<Rightarrow> up_effective_token C r \<noteq> [] \<and> (\<exists>u \<in> snd ` set users. d_userId d = ru_userId u
           \<and> n_sha N (up_effective_token C r) \<in> set (ru_tokenHashes u))
       | SESSION \<Rightarrow> d_source d = BROWSER \<and> (\<exists>name. up_session r = Some (d_userId d, name, d_sessionId d)))"
proof -
  have find: "x \<in> snd ` set users \<and> n_sha N t \<in> set (ru_tokenHashes x) \<and> t \<noteq> []"
    if "findRelayUserByToken N users t = Some x" for x t
    using that
    by (auto simp: findRelayUserByToken_def find_Some_iff list_ex_iff verifySecret_def hashSecret_def split: if_splits)
  have ne: "source_name AGENT \<noteq> source_name BROWSER" by (simp add: source_name_def)
  show ?thesis
  proof (cases "findRelayUserByToken N users (up_effective_token C r)")
    case None
    then show ?thesis
      using assms ne by (auto simp: authorizeUpgrade_def up_is_agent_def Let_def split: if_splits option.splits)
  next
    case (Some u)
    then have "d_authKind d = TOKEN" "d_userId d = ru_userId u" "n < rc_maxClients C"
      "up_origin r \<noteq> [] \<or> d_source d = BROWSER \<longrightarrow> up_origin r \<in> set (rc_allowedOrigins C)"
      "d_source d = BROWSER \<or> d_source d = AGENT"
      using assms ne by (auto simp: authorizeUpgrade_def up_is_agent_def Let_def split: if_splits)
    with find [OF Some] show ?thesis by auto
  qed
qed

theorem upgrade_admission_witness:
  "[79] \<in> set (rc_allowedOrigins (demo_rc True))"
proof -
  let ?r = "\<lparr>up_path = js ''/ws'', up_source = source_name BROWSER, up_browserId = [], up_token = [5],
    up_origin = [79], up_authorization = [], up_session = None\<rparr>"
  let ?u = "[([85, 86], \<lparr>ru_userId = [85, 86], ru_userName = [85], ru_tokenHashes = [[5]]\<rparr>)]"
  have "authorizeUpgrade demo_node (demo_rc True) ?u 0 ?r = Allow \<lparr>d_source = BROWSER, d_browserId = [],
      d_userId = [85, 86], d_userName = [85], d_authKind = TOKEN, d_sessionId = []\<rparr>"
    by (simp add: authorizeUpgrade_def demo_rc_def up_is_agent_def up_effective_token_def findRelayUserByToken_def
        verifySecret_def hashSecret_def demo_node_def source_name_def)
  from upgrade_admission [OF this] show ?thesis by simp
qed

text \<open>The user table: every entry stands under its own, well-formed id.\<close>

definition usersOk :: "relay_users \<Rightarrow> bool" where
  "usersOk us \<longleftrightarrow> (\<forall>(k, u) \<in> set us. ru_userId u = k \<and> user_id_like k)"

lemma usersOk_add:
  assumes "usersOk us" "user_id_like i"
  shows "usersOk (addRelayUserToken us i name h)"
proof (cases "mget us i")
  case None
  let ?u = "\<lparr>ru_userId = i, ru_userName = (if name \<noteq> [] then name else i), ru_tokenHashes = [h]\<rparr>"
  show ?thesis
    using assms set_mput [of us i ?u] by (auto simp: usersOk_def addRelayUserToken_def None)
next
  case (Some u)
  let ?v = "u\<lparr>ru_tokenHashes := ru_tokenHashes u @ [h]\<rparr>"
  have "(i, u) \<in> set us" using Some by (rule mget_in)
  then have v: "ru_userId ?v = i" using assms(1) by (auto simp: usersOk_def)
  have "p = (i, ?v) \<or> p \<in> set us" if "p \<in> set (mput us i ?v)" for p
    using that set_mput [of us i ?v] by blast
  then have "case p of (k, w) \<Rightarrow> ru_userId w = k \<and> user_id_like k" if "p \<in> set (mput us i ?v)" for p
    using that v assms unfolding usersOk_def by fastforce
  then show ?thesis by (simp add: usersOk_def addRelayUserToken_def Some)
qed

lemma usersOk_env_entries:
  "env_entries N es (us, seen) = Inr (vs, seen') \<Longrightarrow> usersOk us \<Longrightarrow> usersOk vs"
proof (induction es arbitrary: us seen)
  case (Cons e es)
  then obtain i name h seen1 where "env_entry N e (us, seen) = Inr (addRelayUserToken us i name h, seen1)"
      "user_id_like i" "env_entries N es (addRelayUserToken us i name h, seen1) = Inr (vs, seen')"
    by (auto simp: env_entry_def Let_def split: sum.splits option.splits if_splits)
  with Cons show ?case using usersOk_add by blast
qed simp

lemma usersOk_db: "usersOk us \<Longrightarrow> usersOk (loadDatabaseRelayUsers rows us)"
proof (induction rows arbitrary: us)
  case (Cons r rows)
  then show ?case by (cases r) (simp add: loadDatabaseRelayUsers_def usersOk_add)
qed (simp add: loadDatabaseRelayUsers_def)

lemma default_id: "user_id_like DEFAULT_USER_ID"
  by (simp add: user_id_like_def DEFAULT_USER_ID_def rx_match_Reps js_def alnum_def char_classes)

lemma usersOk_load: "loadRelayUsers N mode rows usersText defaultToken = Inr us \<Longrightarrow> usersOk us"
proof -
  assume l: "loadRelayUsers N mode rows usersText defaultToken = Inr us"
  have nil: "usersOk []" by (simp add: usersOk_def)
  have env: "usersOk vs" if ev: "loadEnvRelayUsers N usersText defaultToken ws = Inr vs" "usersOk ws" for ws vs
  proof -
    obtain us' seen where e: "env_entries N (parseList usersText) (ws, []) = Inr (us', seen)"
      using ev(1) by (auto simp: loadEnvRelayUsers_def Let_def split: sum.splits)
    have "usersOk us'" by (rule usersOk_env_entries [OF e ev(2)])
    then show ?thesis
      using ev(1) usersOk_add [OF _ default_id] by (auto simp: loadEnvRelayUsers_def Let_def e split: if_splits)
  qed
  show ?thesis
    using l env usersOk_db [OF nil] nil
    by (cases mode) (auto simp: loadRelayUsers_def)
qed

lemma user_id_colon_free: "user_id_like u \<Longrightarrow> colon_free u"
  by (auto simp: user_id_like_def rx_match_Reps colon_free_def list_all_iff alnum_def char_classes js_def)

text \<open>
  The admission feeds the isolation proof. Whatever the authentication mode, the
  \<open>VOXHF_RELAY_USERS\<close> text and the rows of the database, a connection that is admitted to the
  relay is an admissible event of the machine of \<open>relayStep\<close>, where the user of a session has a well-formed id.
\<close>
theorem admitted_ok:
  assumes "loadRelayUsers N mode rows usersText defaultToken = Inr users"
    and "authorizeUpgrade N C users n r = Allow d"
    and "\<And>u name sid. up_session r = Some (u, name, sid) \<Longrightarrow> user_id_like u"
  shows "relayOk (E, Connect ws d addr)"
proof -
  have find: "user_id_like (ru_userId x)" if "findRelayUserByToken N users t = Some x" for x t
  proof -
    from that have "x \<in> snd ` set users"
      by (auto simp: findRelayUserByToken_def find_Some_iff split: if_splits)
    then show ?thesis using usersOk_load [OF assms(1)] by (auto simp: usersOk_def)
  qed
  have "user_id_like (d_userId d)"
    using assms(2,3) find [of "up_effective_token C r"]
    unfolding authorizeUpgrade_def Let_def by (auto split: if_splits option.splits)
  then show ?thesis by (simp add: relayOk_def user_id_colon_free)
qed

theorem admitted_ok_witness:
  "relayOk (demo_env, Connect 10 \<lparr>d_source = BROWSER, d_browserId = [], d_userId = DEFAULT_USER_ID,
     d_userName = js ''Default'', d_authKind = TOKEN, d_sessionId = []\<rparr> [])"
proof -
  let ?r = "\<lparr>up_path = js ''/ws'', up_source = source_name BROWSER, up_browserId = [], up_token = [5],
    up_origin = [79], up_authorization = [], up_session = None\<rparr>"
  let ?u = "[(DEFAULT_USER_ID, \<lparr>ru_userId = DEFAULT_USER_ID, ru_userName = js ''Default'', ru_tokenHashes = [[5]]\<rparr>)]"
  have l: "loadRelayUsers demo_node EnvMode [] [] [5] = Inr ?u"
    by (simp add: loadRelayUsers_def loadEnvRelayUsers_def parseList_def addRelayUserToken_def hashSecret_def demo_node_def)
  have a: "authorizeUpgrade demo_node (demo_rc True) ?u 0 ?r = Allow \<lparr>d_source = BROWSER, d_browserId = [],
      d_userId = DEFAULT_USER_ID, d_userName = js ''Default'', d_authKind = TOKEN, d_sessionId = []\<rparr>"
    by (simp add: authorizeUpgrade_def demo_rc_def up_is_agent_def up_effective_token_def findRelayUserByToken_def
        verifySecret_def hashSecret_def demo_node_def source_name_def)
  show ?thesis by (rule admitted_ok [OF l a]) simp
qed

subsection \<open>Attempts\<close>

text \<open>
  C14: The limiter of HTTP attempts is bounded and never tells a client to retry at once. After
  every attempt the map holds at most its maximum of keys, however many addresses
  were seen, its keys stay distinct, and a refused attempt carries a \<open>retry-after\<close> of at least one second.
\<close>
theorem http_attempts_bounded:
  assumes "mwf m"
  shows "length (fst (allowHttpAttempt C now key limit m)) \<le> rc_maxHttpRateKeys C
    \<and> mwf (fst (allowHttpAttempt C now key limit m))
    \<and> (\<forall>seconds. snd (allowHttpAttempt C now key limit m) = Inl seconds \<longrightarrow> 1 \<le> seconds)"
  using assms by (simp add: allowHttpAttempt_def Let_def length_trim_rates mwf_trim_rates)

theorem http_attempts_bounded_witness:
  "length (fst (allowHttpAttempt (demo_rc True) 0 [107] 10 [])) \<le> rc_maxHttpRateKeys (demo_rc True)"
  using http_attempts_bounded [of "[]"] by simp

end
