(* ===== verification/FsdParser.thy ===== *)
theory FsdParser
  imports Json RelayBase
begin

section \<open>FSD lines (proxy/fsd-parser.js)\<close>

text \<open>
  The proxy reads the text lines that PilotCore and the IVAO server exchange and turns those it
  understands into typed events. Texts are decoded UTF-16; the time stamp of an event is an
  argument. \<open>parseLines\<close> cuts the stream into lines: it is an instance of \<open>chunked\<close>, so the events
  do not depend on how the stream was cut (after decoding).
\<close>

datatype direction = Incoming | Outgoing

record flight_plan =
  fp_departure :: jstr
  fp_destination :: jstr
  fp_alternate :: jstr

datatype message_type = FREQUENCY | BROADCAST | SYSTEM | PRIVATE

record own_pos =
  op_callsign :: "jstr option"
  op_lat :: jnum
  op_lon :: jnum
  op_groundSpeed :: "jnum option"
  op_squawk :: jstr
  op_xpdrMode :: jstr

datatype fsd_event = FlightPlanFiled flight_plan
  | FlightPlanMissing
  | ChatText message_type jstr "jstr option" jstr
  | AtcDetected jstr "jstr option" "(jnum \<times> jnum) option"
  | OwnPosition own_pos
  | Login jstr
  | Logout jstr
  | AtcVoiceInfo jstr jstr jstr

record fsd_msg =
  fm_raw :: jstr
  fm_event :: fsd_event
  fm_timestamp :: jstr

definition part :: "jstr list \<Rightarrow> nat \<Rightarrow> jstr option" where
  "part ps i = (if i < length ps then Some (ps ! i) else None)"

definition opt_text :: "jstr option \<Rightarrow> jstr" where
  "opt_text v = (case v of Some s \<Rightarrow> s | None \<Rightarrow> [])"

definition opt_number :: "jstr option \<Rightarrow> jnum" where
  "opt_number v = (case v of Some s \<Rightarrow> to_number s | None \<Rightarrow> NaN)"

definition fields :: "jstr \<Rightarrow> jstr list" where
  "fields s = split_on 58 s"

definition join_fields :: "jstr list \<Rightarrow> jstr" where
  "join_fields ps = join [58] ps"

subsection \<open>Field normalizers\<close>

definition normalizeIcao :: "jstr option \<Rightarrow> jstr" where
  "normalizeIcao value = (let t = upper (trim (opt_text value)) in
     if length t = 4 \<and> list_all is_upper t then t else [])"

definition atis_rx :: rx where
  "atis_rx = seqs [plus (Chr (\<lambda>c. is_upper c \<or> is_digit c)), lit ''_'',
     plus (Chr (\<lambda>c. is_upper c \<or> is_digit c \<or> c = 95))]"

definition normalizeAtisStation :: "jstr option \<Rightarrow> jstr" where
  "normalizeAtisStation value = (let t = upper (trim (opt_text value)) in
     if t = js ''SERVER'' then []
     else if rx_match atis_rx t \<and> length t \<le> 32 then t else [])"

definition voice_target_rx :: rx where
  "voice_target_rx = seqs [plus (Chr (\<lambda>c. alnum c \<or> one_of ''.-'' c)), lit ''/'',
     plus (Chr (\<lambda>c. alnum c \<or> one_of ''_'' c))]"

definition isAtisVoiceTarget :: "jstr \<Rightarrow> bool" where
  "isAtisVoiceTarget value = rx_match voice_target_rx (trim value)"

definition mhz_rx :: rx where
  "mhz_rx = seqs [lit ''1'', Reps is_digit 2 2, lit ''.'', Reps is_digit 1 3]"

definition normalizeAtcFrequency :: "jstr option \<Rightarrow> jstr" where
  "normalizeAtcFrequency value =
     (let t = trim (opt_text value) in
      if t = [] then []
      else if rx_match mhz_rx t then (case to_number t of Fin q \<Rightarrow> to_fixed3 q | _ \<Rightarrow> [])
      else if length t = 6 \<and> list_all is_digit t \<and> hd t = 49 then take 3 t @ [46] @ drop 3 t
      else if length t = 5 \<and> list_all is_digit t then 49 # take 2 t @ [46] @ drop 2 t
      else [])"

definition jabs_gt :: "jnum \<Rightarrow> rat \<Rightarrow> bool" where
  "jabs_gt x b = (case x of Fin q \<Rightarrow> \<bar>q\<bar> > b | NaN \<Rightarrow> False | _ \<Rightarrow> True)"

definition readLatLon :: "jstr option \<Rightarrow> jstr option \<Rightarrow> (jnum \<times> jnum) option" where
  "readLatLon latValue lonValue =
     (let lat = opt_number latValue; lon = opt_number lonValue in
      if \<not> is_finite lat \<or> \<not> is_finite lon then None
      else if jabs_gt lat 90 \<or> jabs_gt lon 180 then None
      else if lat = Fin 0 \<and> lon = Fin 0 then None
      else Some (lat, lon))"

definition normalizeSquawkCode :: "jstr option \<Rightarrow> jstr" where
  "normalizeSquawkCode value = (let t = trim (opt_text value) in
     if length t = 4 \<and> list_all is_octal t then t else [])"

definition parseFsdXpdrMode :: "jstr option \<Rightarrow> jstr" where
  "parseFsdXpdrMode value =
     (let s = opt_text value;
          token = upper (trim (case s of c # t \<Rightarrow> if c = 64 then t else s | [] \<Rightarrow> []))
      in if token = [] then []
         else if List.member token 83 then js ''stby''
         else if list_all is_upper token then js ''alt''
         else [])"

definition parseBoundedNumber :: "jstr option \<Rightarrow> rat \<Rightarrow> rat \<Rightarrow> jnum option" where
  "parseBoundedNumber value lo hi =
     (let t = trim (opt_text value); x = to_number t in
      if t = [] then None
      else if is_finite x \<and> jle (Fin lo) x \<and> jle x (Fin hi) then Some x else None)"

definition first_nonempty :: "jstr \<Rightarrow> jstr option \<Rightarrow> jstr" where
  "first_nonempty a b = (if a \<noteq> [] then a else opt_text b)"

definition parseFlightPlanFields :: "jstr list \<Rightarrow> flight_plan" where
  "parseFlightPlanFields parts =
     (let fixed = \<lparr>fp_departure = normalizeIcao (part parts 5), fp_destination = normalizeIcao (part parts 9),
                   fp_alternate = normalizeIcao (part parts 14)\<rparr>
      in if fp_departure fixed \<noteq> [] \<and> fp_destination fixed \<noteq> [] then fixed
         else (let candidates = filter (\<lambda>x. x \<noteq> []) (map (\<lambda>p. normalizeIcao (Some p)) parts)
               in \<lparr>fp_departure = first_nonempty (fp_departure fixed) (part candidates 0),
                   fp_destination = first_nonempty (fp_destination fixed) (part candidates 1),
                   fp_alternate = first_nonempty (fp_alternate fixed) (part candidates 2)\<rparr>))"

definition normalizeFsdRecipient :: "jstr \<Rightarrow> jstr" where
  "normalizeFsdRecipient value = (let r = upper (trim value) in
     if rx_match (Alt (lit ''*'') (Alt (Seq (lit ''@'') (Reps is_digit 5 5))
          (Reps (\<lambda>c. is_upper c \<or> is_digit c \<or> c = 95) 2 16))) r then r else [])"

text \<open>\<open>text.slice(0, end)\<close> with \<open>end\<close> counted down until the UTF-8 length fits.\<close>

fun cut_bytes :: "nat \<Rightarrow> nat \<Rightarrow> jstr \<Rightarrow> jstr" where
  "cut_bytes maxBytes 0 s = []"
| "cut_bytes maxBytes (Suc n) s =
     (if utf8_len (take (Suc n) s) > maxBytes then cut_bytes maxBytes n s else take (Suc n) s)"

definition limitUtf8Bytes :: "jstr \<Rightarrow> nat \<Rightarrow> jstr" where
  "limitUtf8Bytes s maxBytes = (if utf8_len s \<le> maxBytes then s else cut_bytes maxBytes (length s) s)"

text \<open>\<open>replace(/[\r\n]+/g, ' ')\<close>: every run of line ends becomes one space.\<close>

function squash :: "jstr \<Rightarrow> jstr" where
  "squash [] = []"
| "squash (c # s) =
     (if c = 13 \<or> c = 10 then 32 # squash (dropWhile (\<lambda>c. c = 13 \<or> c = 10) s) else c # squash s)"
  by pat_completeness auto

termination squash
  by (relation "measure length") (auto simp: le_imp_less_Suc length_dropWhile_le)

definition normalizeFsdText :: "jstr \<Rightarrow> jstr" where
  "normalizeFsdText value = limitUtf8Bytes (trim (squash value)) 1024"

subsection \<open>Lines of the stream\<close>

definition parseLines :: "jstr \<Rightarrow> jstr \<Rightarrow> jstr \<times> jstr list" where
  "parseLines buffer chunk =
     (let ls = split_on 10 (buffer @ chunk)
      in (last ls, filter (\<lambda>l. trim l \<noteq> []) (butlast ls)))"

subsection \<open>One line\<close>

definition parse_chat :: "jstr \<Rightarrow> fsd_event option" where
  "parse_chat line =
     (let parts = fields (drop 3 line) in
      if length parts < 3 then None
      else (let recipient = parts ! 1;
                mt = (if recipient = js ''*'' then BROADCAST
                      else if recipient = js ''FP'' then SYSTEM
                      else if \<not> starts_with recipient (js ''@'') then PRIVATE
                      else FREQUENCY)
            in Some (ChatText mt (parts ! 0) (Some recipient) (join_fields (drop 2 parts)))))"

definition parse_atc :: "jstr \<Rightarrow> fsd_event option" where
  "parse_atc line =
     (let parts = fields (drop 1 line); callsign = parts ! 0 in
      if callsign \<noteq> [] \<and> List.member callsign 95
      then Some (AtcDetected callsign (Some (normalizeAtcFrequency (part parts 1)))
                   (readLatLon (part parts 5) (part parts 6)))
      else None)"

definition parse_position :: "jstr \<Rightarrow> direction \<Rightarrow> fsd_event option" where
  "parse_position line direction =
     (let parts = fields line; lat = opt_number (part parts 4); lon = opt_number (part parts 5) in
      if direction = Outgoing \<and> is_finite lat \<and> is_finite lon
      then Some (OwnPosition \<lparr>op_callsign = part parts 1, op_lat = lat, op_lon = lon,
             op_groundSpeed = parseBoundedNumber (part parts 7) 0 9999,
             op_squawk = normalizeSquawkCode (part parts 2), op_xpdrMode = parseFsdXpdrMode (part parts 0)\<rparr>)
      else None)"

definition atis_text :: "jstr \<Rightarrow> jstr \<Rightarrow> jstr" where
  "atis_text station t = station @ js '': '' @ t"

definition parse_datalink_atis :: "jstr \<Rightarrow> fsd_event option" where
  "parse_datalink_atis line =
     (let parts = fields (drop 3 line) in
      if length parts < 3 then None
      else (let station = normalizeAtisStation (part parts 0); t = trim (join_fields (drop 2 parts)) in
        if station \<noteq> [] \<and> t \<noteq> [] \<and> \<not> isAtisVoiceTarget t
        then Some (ChatText SYSTEM (js ''ATIS'') (part parts 1) (atis_text station t)) else None))"

definition parse_error :: "jstr \<Rightarrow> fsd_event" where
  "parse_error line = (if str_includes line (js ''FSD_FPL_ERROR'') then FlightPlanMissing
     else ChatText SYSTEM (js ''SERVER'') None line)"

fun find_index :: "('a \<Rightarrow> bool) \<Rightarrow> nat \<Rightarrow> 'a list \<Rightarrow> nat option" where
  "find_index P i [] = None"
| "find_index P i (x # xs) = (if P x then Some i else find_index P (Suc i) xs)"

definition marker :: "jstr \<Rightarrow> jstr" where
  "marker p = upper (trim p)"

definition parse_atis_reply :: "jstr list \<Rightarrow> fsd_event option" where
  "parse_atis_reply parts =
     (case find_index (\<lambda>p. marker p = js ''ATIS'') 0 parts of
        None \<Rightarrow> None
      | Some a \<Rightarrow>
          (case find_index (\<lambda>p. List.member (map js [''V'', ''T'', ''E'']) (marker p)) (Suc a) (drop (Suc a) parts) of
             None \<Rightarrow> None
           | Some m \<Rightarrow>
               if marker (parts ! m) \<noteq> js ''T'' then None
               else (let embedded = find (\<lambda>s. s \<noteq> []) (map (\<lambda>p. normalizeAtisStation (Some p))
                                      (take (m - Suc a) (drop (Suc a) parts)));
                         own = normalizeAtisStation (part parts 0);
                         station = (case embedded of Some s \<Rightarrow> s
                           | None \<Rightarrow> if own \<noteq> [] then own else js ''ATIS'')
                     in Some (ChatText SYSTEM (js ''ATIS'') (part parts 1)
                          (atis_text station (join_fields (drop (Suc m) parts)))))))"

definition parse_reply :: "jstr \<Rightarrow> fsd_event option" where
  "parse_reply line =
     (let parts = fields (drop 3 line) in
      if length parts \<ge> 3 \<and> parts ! 2 = js ''FP'' then Some (FlightPlanFiled (parseFlightPlanFields (drop 3 parts)))
      else if length parts \<ge> 5 \<and> parts ! 2 = js ''VOICE''
      then (let atc = parts ! 3; target = parts ! 4 in
        case last_index_of 47 target of
          Some i \<Rightarrow> Some (AtcVoiceInfo atc (take i target) (drop (Suc i) target))
        | None \<Rightarrow> Some (AtcVoiceInfo atc target atc))
      else parse_atis_reply parts)"

definition parse_weather :: "jstr \<Rightarrow> fsd_event option" where
  "parse_weather line =
     (let parts = fields (drop 2 line) in
      if length parts \<ge> 4
      then Some (ChatText SYSTEM (if parts ! 2 = js ''1'' then js ''TAF'' else js ''METAR'') (part parts 1)
                   (join_fields (drop 3 parts)))
      else None)"

definition parse_voice_query :: "jstr \<Rightarrow> fsd_event option" where
  "parse_voice_query line =
     (let parts = fields (drop 3 line) in
      if length parts \<ge> 4 \<and> parts ! 2 = js ''VOICE'' then Some (AtcDetected (parts ! 3) None None) else None)"

text \<open>The tests in the order of the source; the prefixes exclude each other.\<close>

definition fsd_event_of :: "jstr \<Rightarrow> direction \<Rightarrow> fsd_event option" where
  "fsd_event_of line direction =
     (let pre = (\<lambda>p. starts_with line (js p)) in
      if line = [] then None
      else if pre ''$FP'' \<or> pre ''#FP'' then Some (FlightPlanFiled (parseFlightPlanFields (fields (drop 3 line))))
      else if pre ''#TM'' then parse_chat line
      else if pre ''%'' then parse_atc line
      else if pre ''@'' then parse_position line direction
      else if direction = Incoming \<and> pre ''#AT'' then parse_datalink_atis line
      else if pre ''#AP'' then Some (Login (fields (drop 3 line) ! 0))
      else if pre ''#DP'' then Some (Logout (fields (drop 3 line) ! 0))
      else if pre ''$ER'' then Some (parse_error line)
      else if pre ''$CQ'' then parse_voice_query line
      else if pre ''$CR'' then parse_reply line
      else if pre ''&D'' then parse_weather line
      else None)"

definition parseFsdLine :: "jstr \<Rightarrow> jstr \<Rightarrow> direction \<Rightarrow> fsd_msg option" where
  "parseFsdLine stamp rawLine direction =
     (let line = trim rawLine in
      map_option (\<lambda>e. \<lparr>fm_raw = line, fm_event = e, fm_timestamp = stamp\<rparr>) (fsd_event_of line direction))"

text \<open>What the webapp gets: the event without the raw line.\<close>

definition publicFsdEvent :: "fsd_msg \<Rightarrow> fsd_event \<times> jstr" where
  "publicFsdEvent m = (fm_event m, fm_timestamp m)"

end
