(* ===== verification/Bytes.thy ===== *)
theory Bytes
  imports JNumbers
begin

section \<open>Buffers\<close>

text \<open>
  A \<open>Buffer\<close> is a list of bytes, here natural numbers that are meant to be below 256. The
  readers and writers are those of Node: little and big endian integers, and UTF-8 with the
  replacement of malformed input by U+FFFD, one for each maximal malformed part.
\<close>

type_synonym bytes = "nat list"

definition is_bytes :: "bytes \<Rightarrow> bool" where
  "is_bytes b = list_all (\<lambda>x. x < 256) b"

subsection \<open>Integers\<close>

primrec write_le :: "nat \<Rightarrow> nat \<Rightarrow> bytes" where
  "write_le 0 n = []"
| "write_le (Suc k) n = n mod 256 # write_le k (n div 256)"

primrec read_le :: "bytes \<Rightarrow> nat" where
  "read_le [] = 0"
| "read_le (b # bs) = b + 256 * read_le bs"

definition write_be :: "nat \<Rightarrow> nat \<Rightarrow> bytes" where
  "write_be k n = rev (write_le k n)"

definition read_be :: "bytes \<Rightarrow> nat" where
  "read_be b = read_le (rev b)"

lemma length_write_le [simp]: "length (write_le k n) = k"
  by (induction k arbitrary: n) auto

lemma length_write_be [simp]: "length (write_be k n) = k"
  by (simp add: write_be_def)

lemma read_write_le: "n < 256 ^ k \<Longrightarrow> read_le (write_le k n) = n"
proof (induction k arbitrary: n)
  case (Suc k)
  then have "n div 256 < 256 ^ k" by (simp add: less_mult_imp_div_less mult.commute)
  from Suc.IH [OF this] show ?case by simp
qed simp

lemma read_write_be: "n < 256 ^ k \<Longrightarrow> read_be (write_be k n) = n"
  by (simp add: read_be_def write_be_def read_write_le)

lemma write_le_bytes: "x \<in> set (write_le k n) \<Longrightarrow> x < 256"
  by (induction k arbitrary: n) auto

lemma write_be_bytes: "x \<in> set (write_be k n) \<Longrightarrow> x < 256"
  using write_le_bytes by (simp add: write_be_def)

subsection \<open>Base64url\<close>

definition b64_unit :: "nat \<Rightarrow> nat" where
  "b64_unit d = (if d < 26 then 65 + d else if d < 52 then 71 + d else if d < 62 then d - 4
     else if d = 62 then 45 else 95)"

text \<open>\<open>toString('base64url')\<close>: four characters for three bytes, no padding.\<close>

fun base64url :: "bytes \<Rightarrow> jstr" where
  "base64url [] = []"
| "base64url [a] = [b64_unit (a div 4), b64_unit (a mod 4 * 16)]"
| "base64url [a, b] = [b64_unit (a div 4), b64_unit (a mod 4 * 16 + b div 16), b64_unit (b mod 16 * 4)]"
| "base64url (a # b # c # s) =
     b64_unit (a div 4) # b64_unit (a mod 4 * 16 + b div 16) # b64_unit (b mod 16 * 4 + c div 64)
       # b64_unit (c mod 64) # base64url s"

subsection \<open>UTF-8\<close>

definition replacement :: bytes where
  "replacement = [239, 191, 189]"

fun utf8_encode :: "jstr \<Rightarrow> bytes" where
  "utf8_encode [] = []"
| "utf8_encode [c] =
     (if c < 128 then [c]
      else if c < 2048 then [192 + c div 64, 128 + c mod 64]
      else if is_high c \<or> is_low c then replacement
      else [224 + c div 4096, 128 + c div 64 mod 64, 128 + c mod 64])"
| "utf8_encode (c # d # s) =
     (if c < 128 then c # utf8_encode (d # s)
      else if c < 2048 then [192 + c div 64, 128 + c mod 64] @ utf8_encode (d # s)
      else if is_high c \<and> is_low d then
        (let cp = 65536 + (c - 55296) * 1024 + (d - 56320)
         in [240 + cp div 262144, 128 + cp div 4096 mod 64, 128 + cp div 64 mod 64, 128 + cp mod 64] @ utf8_encode s)
      else if is_high c \<or> is_low c then replacement @ utf8_encode (d # s)
      else [224 + c div 4096, 128 + c div 64 mod 64, 128 + c mod 64] @ utf8_encode (d # s))"

text \<open>The lead byte: its value bits and the ranges of the bytes that may follow.\<close>

definition utf8_lead :: "nat \<Rightarrow> (nat \<times> (nat \<times> nat) list) option" where
  "utf8_lead b =
     (if 194 \<le> b \<and> b \<le> 223 then Some (b - 192, [(128, 191)])
      else if b = 224 then Some (0, [(160, 191), (128, 191)])
      else if b = 237 then Some (13, [(128, 159), (128, 191)])
      else if 225 \<le> b \<and> b \<le> 239 then Some (b - 224, [(128, 191), (128, 191)])
      else if b = 240 then Some (0, [(144, 191), (128, 191), (128, 191)])
      else if 241 \<le> b \<and> b \<le> 243 then Some (b - 240, [(128, 191), (128, 191), (128, 191)])
      else if b = 244 then Some (4, [(128, 143), (128, 191), (128, 191)])
      else None)"

text \<open>The bytes that follow as long as they are in range, their number and the rest.\<close>

fun utf8_follow :: "nat \<Rightarrow> (nat \<times> nat) list \<Rightarrow> bytes \<Rightarrow> nat option \<times> bytes" where
  "utf8_follow acc [] s = (Some acc, s)"
| "utf8_follow acc ((lo, hi) # rs) [] = (None, [])"
| "utf8_follow acc ((lo, hi) # rs) (b # s) =
     (if lo \<le> b \<and> b \<le> hi then utf8_follow (acc * 64 + (b - 128)) rs s else (None, b # s))"

definition utf16_units :: "nat \<Rightarrow> jstr" where
  "utf16_units cp = (if cp < 65536 then [cp]
     else [55296 + (cp - 65536) div 1024, 56320 + (cp - 65536) mod 1024])"

lemma utf8_follow_shorter: "utf8_follow acc rs s = (r, t) \<Longrightarrow> length t \<le> length s"
  by (induction acc rs s rule: utf8_follow.induct) (auto split: if_splits)

function utf8_decode :: "bytes \<Rightarrow> jstr" where
  "utf8_decode [] = []"
| "utf8_decode (b # s) =
     (if b < 128 then b # utf8_decode s
      else (case utf8_lead b of
          None \<Rightarrow> 65533 # utf8_decode s
        | Some (acc, rs) \<Rightarrow>
            (case utf8_follow acc rs s of
               (Some cp, t) \<Rightarrow> utf16_units cp @ utf8_decode t
             | (None, t) \<Rightarrow> 65533 # utf8_decode t)))"
  by pat_completeness auto

termination utf8_decode
  by (relation "measure length") (auto dest!: sym [of _ "utf8_follow _ _ _"] dest: utf8_follow_shorter simp: le_imp_less_Suc)

declare utf8_decode.simps [simp del]

lemmas utf8_decode_simps = utf8_decode.simps

text \<open>Strings without lone surrogates.\<close>

fun well_formed :: "jstr \<Rightarrow> bool" where
  "well_formed [] = True"
| "well_formed [c] = (c < 65536 \<and> \<not> is_high c \<and> \<not> is_low c)"
| "well_formed (c # d # s) =
     (if is_high c then is_low d \<and> well_formed s
      else c < 65536 \<and> \<not> is_low c \<and> well_formed (d # s))"

lemma decode_one:
  assumes "128 \<le> b" "utf8_lead b = Some (acc, rs)" "utf8_follow acc rs (cs @ t) = (Some cp, t)"
  shows "utf8_decode (b # cs @ t) = utf16_units cp @ utf8_decode t"
  using assms by (simp add: utf8_decode_simps)

lemma decode_two:
  assumes "128 \<le> c" "c < 2048"
  shows "utf8_decode ((192 + c div 64) # (128 + c mod 64) # t) = c # utf8_decode t"
proof -
  have b: "2 \<le> c div 64" "c div 64 < 32" using assms by (simp_all add: less_mult_imp_div_less div_le_mono)
  then have l: "utf8_lead (192 + c div 64) = Some (c div 64, [(128, 191)])" by (simp add: utf8_lead_def)
  have "c div 64 * 64 + c mod 64 = c" by simp
  moreover have "c mod 64 < 64" by simp
  ultimately have "utf8_follow (c div 64) [(128, 191)] ([128 + c mod 64] @ t) = (Some c, t)"
    by (simp del: mod_less_divisor)
  from decode_one [OF _ l this] show ?thesis using assms by (simp add: utf16_units_def)
qed

lemma digits64:
  "c = h * 4096 + m * 64 + l \<Longrightarrow> (h * 64 + m) * 64 + l = (c :: nat)"
  "c = h * 262144 + n * 4096 + m * 64 + l \<Longrightarrow> ((h * 64 + n) * 64 + m) * 64 + l = (c :: nat)"
  by simp_all

lemma decode_three:
  assumes "2048 \<le> c" "c < 65536" "\<not> is_high c" "\<not> is_low c"
  shows "utf8_decode ((224 + c div 4096) # (128 + c div 64 mod 64) # (128 + c mod 64) # t) = c # utf8_decode t"
proof -
  let ?h = "c div 4096" and ?m = "c div 64 mod 64" and ?l = "c mod 64"
  have c: "c = ?h * 4096 + ?m * 64 + ?l"
  proof -
    have "c = 64 * (c div 64) + ?l" by simp
    moreover have "c div 64 = 64 * (c div 64 div 64) + ?m" by (rule mult_div_mod_eq [symmetric])
    moreover have "c div 64 div 64 = ?h" by (simp add: div_mult2_eq [symmetric])
    ultimately show ?thesis by linarith
  qed
  have r: "?m < 64" "?l < 64" "?h < 16" using assms(2) by (simp_all add: less_mult_imp_div_less)
  obtain lo hi where l: "utf8_lead (224 + ?h) = Some (?h, [(lo, hi), (128, 191)])" "lo \<le> 128 + ?m" "128 + ?m \<le> hi"
  proof (cases "?h = 0 \<or> ?h = 13")
    case True
    then show ?thesis
    proof
      assume h: "?h = 0"
      then have "32 \<le> ?m" using assms(1) c r by linarith
      then show ?thesis using that [of 160 191] h r by (simp add: utf8_lead_def)
    next
      assume h: "?h = 13"
      have "?m < 32"
      proof (rule ccontr)
        assume "\<not> ?m < 32"
        then have "55296 \<le> c \<and> c < 57344" using c h r by linarith
        then show False using assms(3,4) by (auto simp: is_high_def is_low_def)
      qed
      then show ?thesis using that [of 128 159] h by (simp add: utf8_lead_def)
    qed
  next
    case False
    then show ?thesis using that [of 128 191] r by (simp add: utf8_lead_def)
  qed
  have "(?h * 64 + ?m) * 64 + ?l = c" using c by (rule digits64)
  then have "utf8_follow ?h [(lo, hi), (128, 191)] ([128 + ?m, 128 + ?l] @ t) = (Some c, t)"
    using l(2,3) r(2) by (simp del: mod_less_divisor)
  from decode_one [OF _ l(1) this] show ?thesis using assms by (simp add: utf16_units_def)
qed


lemma decode_four:
  assumes "65536 \<le> c" "c < 1114112"
  shows "utf8_decode ((240 + c div 262144) # (128 + c div 4096 mod 64) # (128 + c div 64 mod 64)
           # (128 + c mod 64) # t) = utf16_units c @ utf8_decode t"
proof -
  let ?h = "c div 262144" and ?n = "c div 4096 mod 64" and ?m = "c div 64 mod 64" and ?l = "c mod 64"
  have c: "c = ?h * 262144 + ?n * 4096 + ?m * 64 + ?l"
  proof -
    have "c = 64 * (c div 64) + ?l" by simp
    moreover have "c div 64 = 64 * (c div 64 div 64) + ?m" by (rule mult_div_mod_eq [symmetric])
    moreover have "c div 64 div 64 = c div 4096" by (simp add: div_mult2_eq [symmetric])
    moreover have "c div 4096 = 64 * (c div 4096 div 64) + ?n" by (rule mult_div_mod_eq [symmetric])
    moreover have "c div 4096 div 64 = ?h" by (simp add: div_mult2_eq [symmetric])
    ultimately show ?thesis by linarith
  qed
  have r: "?m < 64" "?l < 64" "?n < 64" by simp_all
  have h: "?h \<le> 4" using assms(2) by linarith
  obtain lo hi where l: "utf8_lead (240 + ?h) = Some (?h, [(lo, hi), (128, 191), (128, 191)])"
    "lo \<le> 128 + ?n" "128 + ?n \<le> hi"
  proof -
    consider "?h = 0" | "?h = 4" | "1 \<le> ?h" "?h \<le> 3" using h by linarith
    then show ?thesis
    proof cases
      case 1
      then have "16 \<le> ?n" using assms(1) c r by linarith
      then show ?thesis using that [of 144 191] 1 r by (simp add: utf8_lead_def)
    next
      case 2
      then have "?n < 16" using assms(2) c r by linarith
      then show ?thesis using that [of 128 143] 2 by (simp add: utf8_lead_def)
    next
      case 3
      then show ?thesis using that [of 128 191] r by (simp add: utf8_lead_def)
    qed
  qed
  have "((?h * 64 + ?n) * 64 + ?m) * 64 + ?l = c" using c by (rule digits64)
  then have "utf8_follow ?h [(lo, hi), (128, 191), (128, 191)] ([128 + ?n, 128 + ?m, 128 + ?l] @ t) = (Some c, t)"
    using l(2,3) r by (simp del: mod_less_divisor)
  from decode_one [OF _ l(1) this] show ?thesis by simp
qed

lemma pair_units:
  assumes "is_high c" "is_low d"
  shows "utf16_units (65536 + (c - 55296) * 1024 + (d - 56320)) = [c, d]"
    "65536 + (c - 55296) * 1024 + (d - 56320) < 1114112"
proof -
  from assms have "55296 \<le> c" "c < 56320" "56320 \<le> d" "d < 57344" by (auto simp: is_high_def is_low_def)
  moreover define x y where "x = c - 55296" and "y = d - 56320"
  ultimately have *: "c = 55296 + x" "d = 56320 + y" "x < 1024" "y < 1024" by auto
  show "utf16_units (65536 + (c - 55296) * 1024 + (d - 56320)) = [c, d]"
    using * by (simp add: utf16_units_def div_mult_self3)
  show "65536 + (c - 55296) * 1024 + (d - 56320) < 1114112" using * by simp
qed

lemma decode_unit:
  assumes "c < 65536" "\<not> is_high c" "\<not> is_low c"
  shows "utf8_decode (utf8_encode [c] @ t) = c # utf8_decode t"
proof -
  consider "c < 128" | "128 \<le> c" "c < 2048" | "2048 \<le> c" by linarith
  then show ?thesis
  proof cases
    case 1
    then show ?thesis by (simp add: utf8_decode_simps)
  next
    case 2
    then show ?thesis by (simp add: decode_two)
  next
    case 3
    then show ?thesis using assms by (simp add: decode_three)
  qed
qed

lemma encode_cons:
  assumes "\<not> is_high c"
  shows "utf8_encode (c # s) = utf8_encode [c] @ utf8_encode s"
  using assms by (cases s) (simp_all add: Let_def)

theorem utf8_roundtrip: "well_formed s \<Longrightarrow> utf8_decode (utf8_encode s) = s"
proof (induction s rule: well_formed.induct)
  case 1
  show ?case by (simp add: utf8_decode_simps)
next
  case (2 c)
  then show ?case using decode_unit [of c "[]"] by (simp add: utf8_decode_simps)
next
  case (3 c d s)
  show ?case
  proof (cases "is_high c")
    case True
    with 3 have d: "is_low d" "utf8_decode (utf8_encode s) = s" by auto
    have c: "\<not> c < 2048" using True by (simp add: is_high_def)
    show ?thesis
      using True d c decode_four [OF _ pair_units(2) [OF True d(1)], of "utf8_encode s"] pair_units(1) [OF True d(1)]
      by (simp add: Let_def)
  next
    case False
    with 3 have c: "c < 65536" "\<not> is_low c" "utf8_decode (utf8_encode (d # s)) = d # s" by auto
    have "utf8_encode (c # d # s) = utf8_encode [c] @ utf8_encode (d # s)" by (rule encode_cons [OF False])
    then show ?thesis using decode_unit [OF c(1) False c(2), of "utf8_encode (d # s)"] c(3)
      by (simp only:)
  qed
qed

end
