(* ===== verification/PilotCore.thy ===== *)
theory PilotCore
  imports Bytes Freq Json
begin

section \<open>PilotUI and PilotCore packets (proxy/pilot-core.js)\<close>

text \<open>
  Two binary protocols: the legacy one with fixed headers, and the MessagePack envelope of
  Altitude 1.14. Values of MessagePack are the values of \<open>Json\<close>; an exception is a value of
  \<open>pack_error\<close>. The reader of values is bounded by a fuel that \<open>decodeMessagePack\<close> sets to one
  more than the number of bytes: every value consumes a marker byte, so it never runs out (the
  depth of the call stack of the host is not modelled, an overflow there is an exception that the
  frame reader drops like any other). The keys of a decoded object keep the order of their first
  occurrence; the program reads no object, it only traces it.
\<close>

datatype pack_error = Truncated | Trailing | TooLarge | Unsupported | OutOfRange | NoFuel

type_synonym 'a packed = "pack_error + 'a"

subsection \<open>Numbers of the host\<close>

text \<open>\<open>Math.round(x * 1000)\<close>; the product is rounded to binary64 first.\<close>

fun jtimes :: "jnum \<Rightarrow> rat \<Rightarrow> jnum" where
  "jtimes (Fin q) k = fl (q * k)"
| "jtimes NaN k = NaN"
| "jtimes PosInf k = (if 0 < k then PosInf else if k < 0 then NegInf else NaN)"
| "jtimes NegInf k = (if 0 < k then NegInf else if k < 0 then PosInf else NaN)"

fun jround :: "jnum \<Rightarrow> jnum" where
  "jround (Fin q) = Fin (of_int (math_round q))"
| "jround x = x"

definition to_khz :: "jnum \<Rightarrow> jnum" where
  "to_khz mhz = jround (jtimes mhz 1000)"

text \<open>\<open>writeUIntLE(value, offset, 3)\<close>: NaN writes zeros, a value out of range throws.\<close>

definition write_u24 :: "jnum \<Rightarrow> bytes packed" where
  "write_u24 v = (case v of Fin q \<Rightarrow> if 0 \<le> q \<and> q \<le> 16777215 then Inr (write_le 3 (nat \<lfloor>q\<rfloor>)) else Inl OutOfRange
     | NaN \<Rightarrow> Inr [0, 0, 0] | _ \<Rightarrow> Inl OutOfRange)"

text \<open>\<open>Buffer.from(s, 'ascii')\<close> keeps the low byte; \<open>toString('ascii')\<close> the low seven bits.\<close>

definition ascii_bytes :: "jstr \<Rightarrow> bytes" where
  "ascii_bytes s = map (\<lambda>c. c mod 256) s"

definition ascii_text :: "bytes \<Rightarrow> jstr" where
  "ascii_text b = map (\<lambda>c. c mod 128) b"

subsection \<open>Legacy packets\<close>

definition makeFreqPacket :: "nat \<Rightarrow> jstr \<Rightarrow> bytes packed" where
  "makeFreqPacket com freqMhz =
     (case write_u24 (to_khz (to_number freqMhz)) of
        Inl e \<Rightarrow> Inl e
      | Inr f \<Rightarrow> Inr ([7, 0, 0, 0, 32, 32, com mod 256] @ f @ [0]))"

definition makeSquawkPacket :: "jstr \<Rightarrow> bytes" where
  "makeSquawkPacket code = [12, 0, 0, 0, 0, 48, 0, 1, 4, 0, 0, 0] @ ascii_bytes (pad_start 4 48 code)"

definition makeCoreFrame :: "nat \<Rightarrow> jstr \<Rightarrow> bytes" where
  "makeCoreFrame type payload =
     (let body = ascii_bytes payload
      in write_le 4 (8 + length body) @ write_le 4 (type mod 2 ^ 32) @ write_le 4 (length body) @ body)"

subsection \<open>MessagePack\<close>

definition pack_string :: "bytes \<Rightarrow> bytes packed" where
  "pack_string body =
     (let n = length body in
      if n < 32 then Inr ((160 + n) # body)
      else if n \<le> 255 then Inr ([217, n] @ body)
      else if n \<le> 65535 then Inr (218 # write_be 2 n @ body)
      else Inl Unsupported)"

definition pack_nat :: "nat \<Rightarrow> bytes packed" where
  "pack_nat n =
     (if n < 128 then Inr [n]
      else if n \<le> 255 then Inr [204, n]
      else if n \<le> 65535 then Inr (205 # write_be 2 n)
      else if n \<le> 4294967295 then Inr (206 # write_be 4 n)
      else Inl Unsupported)"

definition pack_number :: "jnum \<Rightarrow> bytes packed" where
  "pack_number x = (case x of Fin q \<Rightarrow> if is_integer x \<and> 0 \<le> q then pack_nat (nat \<lfloor>q\<rfloor>) else Inl Unsupported
     | _ \<Rightarrow> Inl Unsupported)"

fun encodeMessagePack :: "json \<Rightarrow> bytes packed"
  and encode_items :: "json list \<Rightarrow> bytes packed" where
  "encodeMessagePack JNull = Inr [192]"
| "encodeMessagePack (JBool b) = Inr [if b then 195 else 194]"
| "encodeMessagePack (JNum x) = pack_number x"
| "encodeMessagePack (JStr s) = pack_string (utf8_encode s)"
| "encodeMessagePack (JArr xs) =
     (if 16 \<le> length xs then Inl TooLarge
      else (case encode_items xs of Inl e \<Rightarrow> Inl e | Inr b \<Rightarrow> Inr ((144 + length xs) # b)))"
| "encodeMessagePack (JObj ps) = Inl Unsupported"
| "encode_items [] = Inr []"
| "encode_items (x # xs) =
     (case encodeMessagePack x of Inl e \<Rightarrow> Inl e
      | Inr b \<Rightarrow> (case encode_items xs of Inl e \<Rightarrow> Inl e | Inr c \<Rightarrow> Inr (b @ c)))"

definition makeMessagePackFrame :: "nat \<Rightarrow> json \<Rightarrow> bytes packed" where
  "makeMessagePackFrame type payload =
     (case encodeMessagePack (JArr [JNum (Fin (of_nat type)), payload]) of
        Inl e \<Rightarrow> Inl e
      | Inr body \<Rightarrow> Inr (write_le 4 (length body) @ body))"

definition radio_of :: "nat \<Rightarrow> nat" where
  "radio_of com = (if com = 2 then 2 else 1)"

definition makeV114FreqPacket :: "nat \<Rightarrow> jstr \<Rightarrow> bytes packed" where
  "makeV114FreqPacket com freqMhz =
     makeMessagePackFrame 6144 (JArr [JNum (Fin (of_nat (radio_of com))), JNum (to_khz (to_number freqMhz))])"

definition makeV114CoreEventFrame :: "nat \<Rightarrow> jstr \<Rightarrow> bytes packed" where
  "makeV114CoreEventFrame type payload =
     makeMessagePackFrame 12288 (JArr [JNum (Fin (of_nat type)), JStr payload])"

definition makeV114SquawkPacket :: "jstr \<Rightarrow> bytes packed" where
  "makeV114SquawkPacket code = makeV114CoreEventFrame 256 (pad_start 4 48 code)"

definition makeV114XpdrTogglePacket :: "bytes packed" where
  "makeV114XpdrTogglePacket = makeMessagePackFrame 5633 (JArr [])"

definition makeV114IdentPacket :: "bytes packed" where
  "makeV114IdentPacket = makeMessagePackFrame 5634 (JArr [])"

definition volume_text :: "nat \<Rightarrow> nat \<Rightarrow> jstr" where
  "volume_text radio level = nat_digits radio @ [124] @ nat_digits level"

definition makeV114RadioVolumePacket :: "nat \<Rightarrow> jnum \<Rightarrow> bytes packed" where
  "makeV114RadioVolumePacket com volume =
     (case jround volume of
        Fin q \<Rightarrow> if q < 0 \<or> q > 100 then Inl OutOfRange
               else makeV114CoreEventFrame 56806 (volume_text (radio_of com) (nat \<lfloor>q\<rfloor>))
      | _ \<Rightarrow> Inl OutOfRange)"

subsection \<open>Reading values\<close>

definition signed :: "nat \<Rightarrow> nat \<Rightarrow> int" where
  "signed bits n = (if n < 2 ^ (bits - 1) then int n else int n - 2 ^ bits)"

text \<open>Binary32 and binary64: sign, exponent of \<open>ew\<close> bits, fraction of \<open>fw\<close> bits.\<close>

definition ieee :: "nat \<Rightarrow> nat \<Rightarrow> nat \<Rightarrow> jnum" where
  "ieee ew fw n =
     (let s = n div 2 ^ (ew + fw); e = n div 2 ^ fw mod 2 ^ ew; f = n mod 2 ^ fw;
          bias = 2 ^ (ew - 1) - 1 :: int;
          v = (if e = 2 ^ ew - 1 then (if f = 0 then PosInf else NaN)
               else if e = 0 then Fin (of_nat f * pow2 (1 - bias - int fw))
               else Fin (of_nat (2 ^ fw + f) * pow2 (int e - bias - int fw)))
      in if s mod 2 = 1 then jneg v else v)"

definition take_bytes :: "nat \<Rightarrow> bytes \<Rightarrow> (bytes \<times> bytes) packed" where
  "take_bytes n s = (if length s < n then Inl Truncated else Inr (take n s, drop n s))"

definition read_number :: "nat \<Rightarrow> (nat \<Rightarrow> jnum) \<Rightarrow> bytes \<Rightarrow> (json \<times> bytes) packed" where
  "read_number n conv s = (case take_bytes n s of Inl e \<Rightarrow> Inl e
     | Inr (b, t) \<Rightarrow> Inr (JNum (conv (read_be b)), t))"

definition readString :: "nat \<Rightarrow> bytes \<Rightarrow> (json \<times> bytes) packed" where
  "readString n s = (case take_bytes n s of Inl e \<Rightarrow> Inl e | Inr (b, t) \<Rightarrow> Inr (JStr (utf8_decode b), t))"

definition fin_nat :: "nat \<Rightarrow> jnum" where
  "fin_nat n = Fin (of_nat n)"

definition fin_signed :: "nat \<Rightarrow> nat \<Rightarrow> jnum" where
  "fin_signed bits n = Fin (of_int (signed bits n))"

text \<open>A length prefix of \<open>n\<close> bytes.\<close>

definition read_length :: "nat \<Rightarrow> bytes \<Rightarrow> (nat \<times> bytes) packed" where
  "read_length n s = (case take_bytes n s of Inl e \<Rightarrow> Inl e | Inr (b, t) \<Rightarrow> Inr (read_be b, t))"

datatype shape = Value json | Number nat "nat \<Rightarrow> jnum" | Text nat | TextL nat
  | Items nat | ItemsL nat | Pairs nat | PairsL nat | Bad

text \<open>What a marker byte announces.\<close>

definition marker_shape :: "nat \<Rightarrow> shape" where
  "marker_shape m =
     (if m \<le> 127 then Value (JNum (fin_nat m))
      else if m \<ge> 224 then Value (JNum (Fin (of_int (int m - 256))))
      else if 160 \<le> m \<and> m < 192 then Text (m mod 32)
      else if 144 \<le> m \<and> m < 160 then Items (m mod 16)
      else if m < 144 then Pairs (m mod 16)
      else if m = 192 then Value JNull
      else if m = 194 then Value (JBool False)
      else if m = 195 then Value (JBool True)
      else if m = 202 then Number 4 (ieee 8 23)
      else if m = 203 then Number 8 (ieee 11 52)
      else if m = 204 then Number 1 fin_nat
      else if m = 205 then Number 2 fin_nat
      else if m = 206 then Number 4 fin_nat
      else if m = 208 then Number 1 (fin_signed 8)
      else if m = 209 then Number 2 (fin_signed 16)
      else if m = 210 then Number 4 (fin_signed 32)
      else if m = 217 then TextL 1
      else if m = 218 then TextL 2
      else if m = 220 then ItemsL 2
      else if m = 222 then PairsL 2
      else Bad)"

function (sequential) mp_read :: "nat \<Rightarrow> bytes \<Rightarrow> (json \<times> bytes) packed"
  and mp_array :: "nat \<Rightarrow> nat \<Rightarrow> bytes \<Rightarrow> (json \<times> bytes) packed"
  and mp_map :: "nat \<Rightarrow> nat \<Rightarrow> bytes \<Rightarrow> (json \<times> bytes) packed"
  and mp_items :: "nat \<Rightarrow> nat \<Rightarrow> bytes \<Rightarrow> (json list \<times> bytes) packed"
  and mp_pairs :: "nat \<Rightarrow> nat \<Rightarrow> (jstr \<times> json) list \<Rightarrow> bytes \<Rightarrow> ((jstr \<times> json) list \<times> bytes) packed" where
  "mp_read 0 s = Inl NoFuel"
| "mp_read (Suc k) [] = Inl Truncated"
| "mp_read (Suc k) (m # s) =
     (case marker_shape m of
        Value v \<Rightarrow> Inr (v, s)
      | Number n conv \<Rightarrow> read_number n conv s
      | Text n \<Rightarrow> readString n s
      | TextL w \<Rightarrow> (case read_length w s of Inl e \<Rightarrow> Inl e | Inr (n, t) \<Rightarrow> readString n t)
      | Items n \<Rightarrow> mp_array k n s
      | ItemsL w \<Rightarrow> (case read_length w s of Inl e \<Rightarrow> Inl e | Inr (n, t) \<Rightarrow> mp_array k n t)
      | Pairs n \<Rightarrow> mp_map k n s
      | PairsL w \<Rightarrow> (case read_length w s of Inl e \<Rightarrow> Inl e | Inr (n, t) \<Rightarrow> mp_map k n t)
      | Bad \<Rightarrow> Inl Unsupported)"
| "mp_array k n s =
     (if n > 256 then Inl TooLarge
      else (case mp_items k n s of Inl e \<Rightarrow> Inl e | Inr (vs, t) \<Rightarrow> Inr (JArr vs, t)))"
| "mp_map k n s =
     (if n > 256 then Inl TooLarge
      else (case mp_pairs k n [] s of Inl e \<Rightarrow> Inl e | Inr (ps, t) \<Rightarrow> Inr (JObj ps, t)))"
| "mp_items k 0 s = Inr ([], s)"
| "mp_items k (Suc n) s =
     (case mp_read k s of Inl e \<Rightarrow> Inl e
      | Inr (v, t) \<Rightarrow> (case mp_items k n t of Inl e \<Rightarrow> Inl e | Inr (vs, u) \<Rightarrow> Inr (v # vs, u)))"
| "mp_pairs k 0 ps s = Inr (ps, s)"
| "mp_pairs k (Suc n) ps s =
     (case mp_read k s of Inl e \<Rightarrow> Inl e
      | Inr (key, t) \<Rightarrow> (case mp_read k t of Inl e \<Rightarrow> Inl e
          | Inr (v, u) \<Rightarrow> mp_pairs k n (mput ps (to_str key) v) u))"
  by pat_completeness auto

termination
proof (relation "measures
     [\<lambda>a. case a of Inl (Inl (k, s)) \<Rightarrow> k | Inl (Inr (k, n, s)) \<Rightarrow> k | Inr (Inl (k, n, s)) \<Rightarrow> k
        | Inr (Inr (Inl (k, n, s))) \<Rightarrow> k | Inr (Inr (Inr (k, n, ps, s))) \<Rightarrow> k,
      \<lambda>a. case a of Inl (Inl (k, s)) \<Rightarrow> 0 | Inl (Inr (k, n, s)) \<Rightarrow> 2 | Inr (Inl (k, n, s)) \<Rightarrow> 2
        | Inr (Inr (Inl (k, n, s))) \<Rightarrow> 1 | Inr (Inr (Inr (k, n, ps, s))) \<Rightarrow> 1,
      \<lambda>a. case a of Inl (Inl (k, s)) \<Rightarrow> 0 | Inl (Inr (k, n, s)) \<Rightarrow> n | Inr (Inl (k, n, s)) \<Rightarrow> n
        | Inr (Inr (Inl (k, n, s))) \<Rightarrow> n | Inr (Inr (Inr (k, n, ps, s))) \<Rightarrow> n]")
qed auto

definition decodeMessagePack :: "bytes \<Rightarrow> json packed" where
  "decodeMessagePack b =
     (case mp_read (Suc (length b)) b of Inl e \<Rightarrow> Inl e
      | Inr (v, t) \<Rightarrow> if t = [] then Inr v else Inl Trailing)"

subsection \<open>The frame reader\<close>

definition MAX_PILOT_CORE_FRAME_BYTES :: nat where
  "MAX_PILOT_CORE_FRAME_BYTES = 1024 * 1024"

definition observed :: "json packed \<Rightarrow> json list" where
  "observed r = (case r of Inr v \<Rightarrow> [v] | Inl e \<Rightarrow> [])"

function drain_frames :: "bytes \<Rightarrow> bytes \<times> json list" where
  "drain_frames pending =
     (if length pending < 4 then (pending, [])
      else (let n = read_le (take 4 pending) in
        if n < 1 \<or> n > MAX_PILOT_CORE_FRAME_BYTES then ([], [])
        else if length pending < n + 4 then (pending, [])
        else (let (p, ms) = drain_frames (drop (n + 4) pending)
              in (p, observed (decodeMessagePack (take n (drop 4 pending))) @ ms))))"
  by pat_completeness auto

termination drain_frames
  by (relation "measure length") auto

declare drain_frames.simps [simp del]

text \<open>\<open>push(data)\<close> of \<open>createMessagePackFrameReader\<close>: the bytes kept and the messages.\<close>

definition push_frames :: "bytes \<Rightarrow> bytes \<Rightarrow> bytes \<times> json list" where
  "push_frames pending chunk = (if chunk = [] then (pending, []) else drain_frames (pending @ chunk))"

subsection \<open>Texts and frequencies\<close>

fun replace_first :: "nat \<Rightarrow> nat \<Rightarrow> jstr \<Rightarrow> jstr" where
  "replace_first a b [] = []"
| "replace_first a b (c # s) = (if c = a then b # s else c # replace_first a b s)"

definition formatComFrequency :: "json \<Rightarrow> jstr" where
  "formatComFrequency freq =
     (case to_number (replace_first 44 46 (str_or_empty (Some freq))) of Fin q \<Rightarrow> to_fixed3 q | _ \<Rightarrow> [])"

definition normalizePilotComFrequency :: "json \<Rightarrow> jstr" where
  "normalizePilotComFrequency freq =
     (let formatted = formatComFrequency freq; value = to_number formatted in
      if \<not> rx_match freq_rx formatted then []
      else if jlt value (Fin 118) \<or> jlt (fl (136975 / 1000)) value then []
      else formatted)"

definition loopbackSameLength :: "nat \<Rightarrow> jstr" where
  "loopbackSameLength len =
     js (if len = 9 then ''127.0.0.1'' else if len = 10 then ''127.0.0.01''
      else if len = 11 then ''127.0.00.01'' else if len = 12 then ''127.00.0.001''
      else if len = 13 then ''127.000.0.001'' else if len = 14 then ''127.000.00.001''
      else if len = 15 then ''127.000.000.001'' else ''127.000.0.001'')"

definition printable :: "nat \<Rightarrow> bool" where
  "printable b = (b = 9 \<or> b = 10 \<or> b = 13 \<or> 32 \<le> b \<and> b \<le> 126)"

definition isMostlyPrintable :: "bytes \<Rightarrow> bool" where
  "isMostlyPrintable b =
     (b \<noteq> [] \<and> jle (fl (85 / 100)) (fl (of_nat (length (filter printable b)) / of_nat (length b))))"

definition payload_text :: "bytes \<Rightarrow> jstr" where
  "payload_text b = trim (map (\<lambda>c. if c = 0 then 32 else c) (ascii_text b))"

function core_payloads :: "bytes \<Rightarrow> jstr list" where
  "core_payloads s =
     (if length s < 12 then []
      else (let frameLength = read_le (take 4 s); payloadLength = read_le (take 4 (drop 8 s)) in
        if frameLength < 8 \<or> payloadLength > frameLength - 8 \<or> 4 + frameLength > length s
        then core_payloads (tl s)
        else (let payload = take payloadLength (drop 12 s) in
          (if isMostlyPrintable payload then [payload_text payload] else [])
             @ core_payloads (drop (4 + frameLength) s))))"
  by pat_completeness auto

termination core_payloads
  by (relation "measure length") auto

declare core_payloads.simps [simp del]

definition extractCoreTextPayloads :: "bytes \<Rightarrow> jstr list" where
  "extractCoreTextPayloads data = filter (\<lambda>t. t \<noteq> []) (core_payloads data)"

definition parseComToken :: "jstr \<Rightarrow> nat" where
  "parseComToken value =
     (let t = upper (trim value) in
      if rx_match (Seq (opt (Alt (lit ''COM'') (Alt (lit ''COMM'') (lit ''RADIO'')))) (Chr (one_of ''12''))) t
      then last t - 48 else 0)"

definition com_first :: rx where
  "com_first = seqs [lit ''1'', Chr (one_of ''123''), Chr is_digit]"

definition normalizeComCandidate :: "jstr \<Rightarrow> jstr" where
  "normalizeComCandidate value =
     (let s = replace_first 44 46 (trim value);
          mhz = (if rx_match (seqs [com_first, lit ''.'', Reps is_digit 1 3]) s
                 then (case to_number s of Fin q \<Rightarrow> to_fixed3 q | _ \<Rightarrow> [])
                 else if rx_match (seqs [com_first, Reps is_digit 3 3]) s then take 3 s @ [46] @ drop 3 s
                 else if rx_match (Reps is_digit 5 5) s then 49 # take 2 s @ [46] @ drop 2 s
                 else []);
          number = to_number mhz
      in if \<not> is_finite number \<or> jlt number (Fin 118) \<or> jlt (Fin 137) number then []
         else (case number of Fin q \<Rightarrow> to_fixed3 q | _ \<Rightarrow> []))"

end
