(* ===== verification/AppState.thy ===== *)
theory AppState
  imports FsdParser PilotCore JDates
begin

section \<open>The state of the agent (proxy/app-state.js)\<close>

text \<open>
  What the webapp shows: connection, callsign, COM frequencies, transponder, flight plan, weather,
  stations, position and the message history. Every operation returns the new state and the
  events it publishes. \<open>now\<close> is the clock in milliseconds; \<open>timestamp()\<close> is \<open>iso_string now\<close>. The
  Boolean results that no caller reads are left out.
\<close>

definition FLIGHT_TELEMETRY_MAX_AGE_MS :: int where
  "FLIGHT_TELEMETRY_MAX_AGE_MS = 20000"

definition STATIONARY_SAMPLE_COUNT :: nat where
  "STATIONARY_SAMPLE_COUNT = 2"

definition STATIONARY_MAX_GROUNDSPEED_KT :: rat where
  "STATIONARY_MAX_GROUNDSPEED_KT = 5"

definition MESSAGE_LOG_MAX :: nat where
  "MESSAGE_LOG_MAX = 200"

record chat_msg =
  cm_type :: message_type
  cm_sender :: jstr
  cm_recipient :: "jstr option"
  cm_text :: jstr
  cm_direction :: direction
  cm_timestamp :: jstr

record known_station =
  ks_callsign :: jstr
  ks_freq :: jstr
  ks_lat :: "jnum option"
  ks_lon :: "jnum option"
  ks_voice :: jstr

record weather_slot =
  ws_icao :: jstr
  ws_metar :: "(jstr \<times> jstr) option"
  ws_taf :: "(jstr \<times> jstr) option"

datatype weather_role = Departure | Destination
datatype weather_kind = METAR | TAF
datatype plan_status = Filed | NoPlan

record telemetry =
  tl_groundSpeed :: "jnum option"
  tl_samples :: nat
  tl_observedAt :: jstr

record app_state =
  as_log :: "(jstr \<times> chat_msg) list"
  as_com :: "nat \<Rightarrow> jstr"
  as_com_station :: "nat \<Rightarrow> jstr"
  as_squawk :: jstr
  as_xpdr_mode :: jstr
  as_stations :: "(jstr, known_station) jmap"
  as_sequence :: nat
  as_callsign :: "jstr option"
  as_connected :: bool
  as_plan_status :: plan_status
  as_plan :: flight_plan
  as_departure :: weather_slot
  as_destination :: weather_slot
  as_position :: "(jnum \<times> jnum) option"
  as_telemetry :: "telemetry option"
  as_samples :: nat

datatype app_out = PubMessage jstr chat_msg
  | PubStatus bool "jstr option"
  | PubLogin jstr jstr
  | PubFreq nat jstr jstr
  | PubXpdr jstr jstr jstr
  | PubPlan plan_status flight_plan weather_slot weather_slot jstr
  | PubWeather weather_slot weather_slot jstr
  | PubFsd fsd_event jstr direction

type_synonym app_handler = "app_state \<Rightarrow> app_state \<times> app_out list"

definition no_plan :: flight_plan where
  "no_plan = \<lparr>fp_departure = [], fp_destination = [], fp_alternate = []\<rparr>"

definition createWeatherSlot :: "jstr \<Rightarrow> weather_slot" where
  "createWeatherSlot icao = \<lparr>ws_icao = normalizeIcao (Some icao), ws_metar = None, ws_taf = None\<rparr>"

definition createAppState :: app_state where
  "createAppState =
     \<lparr>as_log = [], as_com = (\<lambda>_. []), as_com_station = (\<lambda>_. []), as_squawk = [], as_xpdr_mode = [],
      as_stations = [], as_sequence = 0, as_callsign = None, as_connected = False,
      as_plan_status = NoPlan, as_plan = no_plan, as_departure = createWeatherSlot [],
      as_destination = createWeatherSlot [], as_position = None, as_telemetry = None, as_samples = 0\<rparr>"

subsection \<open>Messages, connection, callsign\<close>

text \<open>\<open>push\<close>, then \<open>shift\<close> when there are more than 200.\<close>

definition log_push :: "'a list \<Rightarrow> 'a \<Rightarrow> 'a list" where
  "log_push l x = (let l1 = l @ [x] in if length l1 > MESSAGE_LOG_MAX then tl l1 else l1)"

definition message_id :: "int \<Rightarrow> nat \<Rightarrow> jstr" where
  "message_id now sequence = js ''local-'' @ to_string36 now @ [45] @ to_string36 (int sequence)"

definition broadcast_message :: "int \<Rightarrow> chat_msg \<Rightarrow> app_handler" where
  "broadcast_message now m s =
     (let n = Suc (as_sequence s); i = message_id now n
      in (s\<lparr>as_sequence := n, as_log := log_push (as_log s) (i, m)\<rparr>, [PubMessage i m]))"

definition setConnected :: "bool \<Rightarrow> app_handler" where
  "setConnected v s = (s\<lparr>as_connected := v\<rparr>, [PubStatus v (as_callsign s)])"

definition callsign_ok :: "jstr \<Rightarrow> bool" where
  "callsign_ok c = rx_match (Reps (\<lambda>c. is_upper c \<or> is_digit c \<or> c = 45) 2 10) c"

definition setCallsign :: "int \<Rightarrow> jstr \<Rightarrow> bool \<Rightarrow> app_handler" where
  "setCallsign now value notify s =
     (let n = upper (trim value) in
      if \<not> callsign_ok n \<or> as_callsign s = Some n then (s, [])
      else (s\<lparr>as_callsign := Some n\<rparr>, if notify then [PubLogin n (iso_string now)] else []))"

subsection \<open>Radios\<close>

definition freq_of :: "jstr \<Rightarrow> jstr" where
  "freq_of f = formatComFrequency (JStr f)"

definition stationForFrequency :: "app_state \<Rightarrow> jstr \<Rightarrow> jstr \<Rightarrow> jstr" where
  "stationForFrequency s freq preferred =
     (let value = freq_of freq;
          other = (if value = js ''122.800'' then js ''UNICOM''
            else (case find (\<lambda>p. freq_of (ks_freq (snd p)) = value) (as_stations s) of
                Some p \<Rightarrow> ks_callsign (snd p) | None \<Rightarrow> []))
      in case mget (as_stations s) (upper preferred) of
           Some st \<Rightarrow> if freq_of (ks_freq st) = value then ks_callsign st else other
         | None \<Rightarrow> other)"

definition updateComFrequency :: "nat \<Rightarrow> json \<Rightarrow> jstr \<Rightarrow> app_handler" where
  "updateComFrequency com freq station s =
     (let radio = radio_of com; value = formatComFrequency freq in
      if value = [] then (s, [])
      else (let selected = stationForFrequency s value
                  (if station \<noteq> [] then station else as_com_station s radio) in
        if as_com s radio = value \<and> as_com_station s radio = selected then (s, [])
        else (s\<lparr>as_com := (as_com s)(radio := value), as_com_station := (as_com_station s)(radio := selected)\<rparr>,
              [PubFreq radio value selected])))"

definition updateXpdrState :: "int \<Rightarrow> jstr \<Rightarrow> jstr \<Rightarrow> app_handler" where
  "updateXpdrState now squawk mode s =
     (let code = normalizeSquawkCode (Some squawk);
          newCode = (code \<noteq> [] \<and> as_squawk s \<noteq> code);
          newMode = ((mode = js ''stby'' \<or> mode = js ''alt'') \<and> as_xpdr_mode s \<noteq> mode);
          s1 = (if newCode then s\<lparr>as_squawk := code\<rparr> else s);
          s2 = (if newMode then s1\<lparr>as_xpdr_mode := mode\<rparr> else s1)
      in (s2, if newCode \<or> newMode then [PubXpdr (as_squawk s2) (as_xpdr_mode s2) (iso_string now)] else []))"

subsection \<open>Flight plan and weather\<close>

definition or_text :: "jstr \<Rightarrow> jstr \<Rightarrow> jstr" where
  "or_text a b = (if a \<noteq> [] then a else b)"

definition normalizeFlightPlan :: "flight_plan \<Rightarrow> flight_plan \<Rightarrow> flight_plan" where
  "normalizeFlightPlan nxt fallback =
     \<lparr>fp_departure = or_text (normalizeIcao (Some (fp_departure nxt))) (normalizeIcao (Some (fp_departure fallback))),
      fp_destination = or_text (normalizeIcao (Some (fp_destination nxt))) (normalizeIcao (Some (fp_destination fallback))),
      fp_alternate = or_text (normalizeIcao (Some (fp_alternate nxt))) (normalizeIcao (Some (fp_alternate fallback)))\<rparr>"

definition sameFlightPlan :: "flight_plan \<Rightarrow> flight_plan \<Rightarrow> bool" where
  "sameFlightPlan a b =
     (normalizeIcao (Some (fp_departure a)) = normalizeIcao (Some (fp_departure b))
      \<and> normalizeIcao (Some (fp_destination a)) = normalizeIcao (Some (fp_destination b))
      \<and> normalizeIcao (Some (fp_alternate a)) = normalizeIcao (Some (fp_alternate b)))"

text \<open>\<open>updateFlightPlanStatus(status, plan)\<close>: \<open>Some\<close> plan for \<open>filed\<close>, \<open>None\<close> for \<open>missing\<close>.\<close>

definition updateFlightPlanStatus :: "int \<Rightarrow> flight_plan option \<Rightarrow> app_handler" where
  "updateFlightPlanStatus now filed s =
     (let status = (case filed of Some p \<Rightarrow> Filed | None \<Rightarrow> NoPlan);
          plan = (case filed of Some p \<Rightarrow> normalizeFlightPlan p (as_plan s) | None \<Rightarrow> no_plan);
          changed = (\<not> sameFlightPlan (as_plan s) plan)
      in if as_plan_status s = status \<and> \<not> changed then (s, [])
         else (let s1 = s\<lparr>as_plan_status := status\<rparr>;
                   s2 = (if changed then s1\<lparr>as_plan := plan, as_departure := createWeatherSlot (fp_departure plan),
                           as_destination := createWeatherSlot (fp_destination plan)\<rparr> else s1)
               in (s2, [PubPlan status (as_plan s2) (as_departure s2) (as_destination s2) (iso_string now)])))"

definition set_weather :: "weather_kind \<Rightarrow> jstr \<times> jstr \<Rightarrow> weather_slot \<Rightarrow> weather_slot" where
  "set_weather kind v slot = (case kind of METAR \<Rightarrow> slot\<lparr>ws_metar := Some v\<rparr> | TAF \<Rightarrow> slot\<lparr>ws_taf := Some v\<rparr>)"

definition slot_of :: "app_state \<Rightarrow> weather_role \<Rightarrow> weather_slot" where
  "slot_of s role = (case role of Departure \<Rightarrow> as_departure s | Destination \<Rightarrow> as_destination s)"

definition updateWeather :: "int \<Rightarrow> weather_role \<Rightarrow> weather_kind \<Rightarrow> jstr \<Rightarrow> jstr \<Rightarrow> app_handler" where
  "updateWeather now role kind icao t s =
     (let code = normalizeIcao (Some icao); v = (trim t, iso_string now) in
      if code = [] \<or> ws_icao (slot_of s role) \<noteq> code then (s, [])
      else (let s1 = (case role of
                 Departure \<Rightarrow> s\<lparr>as_departure := set_weather kind v (as_departure s)\<rparr>
               | Destination \<Rightarrow> s\<lparr>as_destination := set_weather kind v (as_destination s)\<rparr>)
            in (s1, [PubWeather (as_departure s1) (as_destination s1) (iso_string now)])))"

definition roleForWeatherIcao :: "app_state \<Rightarrow> jstr \<Rightarrow> weather_role option" where
  "roleForWeatherIcao s icao =
     (let code = normalizeIcao (Some icao) in
      if code = [] then None
      else if fp_departure (as_plan s) = code then Some Departure
      else if fp_destination (as_plan s) = code then Some Destination
      else None)"

subsection \<open>Stations, position, telemetry\<close>

definition finite_or :: "jnum option \<Rightarrow> jnum option \<Rightarrow> jnum option" where
  "finite_or v old = (case v of Some x \<Rightarrow> if is_finite x then Some x else old | None \<Rightarrow> old)"

text \<open>A station as it is remembered: callsign, frequency, position, TS2 server and channel.\<close>

definition rememberStation ::
  "jstr \<Rightarrow> jstr option \<Rightarrow> (jnum \<times> jnum) option \<Rightarrow> (jstr \<times> jstr) option \<Rightarrow> app_state \<Rightarrow> app_state" where
  "rememberStation callsign freq pos voice s =
     (let c = upper callsign in
      if c = [] \<or> ends_with c (js ''_OBS'') \<or> \<not> List.member c 95 \<and> c \<noteq> js ''UNICOM'' then s
      else (let cur = (case mget (as_stations s) c of Some st \<Rightarrow> st
                  | None \<Rightarrow> \<lparr>ks_callsign = c, ks_freq = [], ks_lat = None, ks_lon = None, ks_voice = []\<rparr>);
                new = \<lparr>ks_callsign = c, ks_freq = or_text (opt_text freq) (ks_freq cur),
                       ks_lat = finite_or (map_option fst pos) (ks_lat cur),
                       ks_lon = finite_or (map_option snd pos) (ks_lon cur),
                       ks_voice = (case voice of
                           Some (server, channel) \<Rightarrow>
                             if server \<noteq> [] then server @ [47] @ or_text channel c else ks_voice cur
                         | None \<Rightarrow> ks_voice cur)\<rparr>
            in s\<lparr>as_stations := mput (as_stations s) c new\<rparr>))"

definition stationary :: "jnum option \<Rightarrow> bool" where
  "stationary speed = (case speed of Some x \<Rightarrow> is_finite x \<and> jle x (Fin STATIONARY_MAX_GROUNDSPEED_KT) | None \<Rightarrow> False)"

definition rememberFsdState :: "int \<Rightarrow> fsd_event \<Rightarrow> jstr \<Rightarrow> app_handler" where
  "rememberFsdState now e stamp s =
     (case e of
        OwnPosition p \<Rightarrow>
          (let speed = finite_or (op_groundSpeed p) None;
               n = (if stationary speed then as_samples s + 1 else 0)
           in updateXpdrState now (op_squawk p) (op_xpdrMode p)
                (s\<lparr>as_position := Some (op_lat p, op_lon p), as_samples := n,
                   as_telemetry := Some \<lparr>tl_groundSpeed = speed, tl_samples = n,
                     tl_observedAt = or_text stamp (iso_string now)\<rparr>\<rparr>))
      | AtcDetected c freq pos \<Rightarrow> (rememberStation c freq pos None s, [])
      | AtcVoiceInfo c server channel \<Rightarrow> (rememberStation c None None (Some (server, channel)) s, [])
      | _ \<Rightarrow> (s, []))"

definition resetFlightTelemetry :: "app_state \<Rightarrow> app_state" where
  "resetFlightTelemetry s = s\<lparr>as_telemetry := None, as_samples := 0\<rparr>"

text \<open>The reason why a disconnect is not worth an alert; \<open>parse\<close> is \<open>Date.parse\<close>.\<close>

definition disconnectAlertSuppressionReason ::
  "(jstr \<Rightarrow> int option) \<Rightarrow> telemetry option \<Rightarrow> int \<Rightarrow> jstr" where
  "disconnectAlertSuppressionReason parse t now =
     (case t of None \<Rightarrow> []
      | Some d \<Rightarrow>
          (case parse (tl_observedAt d) of None \<Rightarrow> []
           | Some observedAt \<Rightarrow>
               (let age = now - observedAt in
                if age < 0 \<or> age > FLIGHT_TELEMETRY_MAX_AGE_MS then []
                else (case tl_groundSpeed d of
                    Some (Fin q) \<Rightarrow>
                      if q \<le> STATIONARY_MAX_GROUNDSPEED_KT \<and> tl_samples d \<ge> STATIONARY_SAMPLE_COUNT
                      then js ''aircraft stationary at '' @ int_digits (math_round q) @ js '' kt'' else []
                  | Some x \<Rightarrow> []
                  | None \<Rightarrow> if tl_samples d \<ge> STATIONARY_SAMPLE_COUNT then js ''aircraft stationary at 0 kt'' else []))))"

subsection \<open>Snapshots\<close>

text \<open>\<open>getMessageLog(limit)\<close>: the last messages, at least one and at most 200, 100 by default.\<close>

definition getMessageLog :: "app_state \<Rightarrow> int \<Rightarrow> (jstr \<times> chat_msg) list" where
  "getMessageLog s limit =
     (let count = nat (max 1 (min 200 (if limit = 0 then 100 else limit)))
      in drop (length (as_log s) - count) (as_log s))"

definition getRadioState :: "app_state \<Rightarrow> jstr \<times> jstr \<times> jstr \<times> jstr" where
  "getRadioState s = (as_com s 1, as_com s 2, as_com_station s 1, as_com_station s 2)"

definition getStationsState :: "app_state \<Rightarrow> known_station list \<times> (jnum \<times> jnum) option" where
  "getStationsState s = (map snd (as_stations s), as_position s)"

end
