(* ===== verification/FsdProxy.thy ===== *)
theory FsdProxy
  imports AppState Bytes
begin

section \<open>The FSD proxy (proxy/fsd-proxy.js)\<close>

text \<open>
  PilotCore connects to the proxy, the proxy to the IVAO server: a pair of sockets, numbered by
  the event that opens it (\<open>CoreOpened\<close>). Besides the pair the code gives every connection a
  session id, \<open>++activeSessionId\<close>, and sets \<open>activeSessionId\<close> back to 0 when the session
  closes. Records are read from the server's bytes, recorded in the state of the agent and
  forwarded; in a VOICE reply the host is replaced by a local endpoint, whose address the voice
  router promises: \<open>voice\<close> is its answer, and the settled promise a later event. \<open>now\<close> is the clock.
  Traces and logs are left out.
\<close>

definition WEATHER_PENDING_TTL_MS :: int where
  "WEATHER_PENDING_TTL_MS = 2 * 60 * 1000"

definition MAX_REMOTE_LINE_BYTES :: nat where
  "MAX_REMOTE_LINE_BYTES = 64 * 1024"

definition MAX_PENDING_BYTES :: nat where
  "MAX_PENDING_BYTES = 1024 * 1024"

datatype request_source = Manual | Panel | Auto

record weather_request =
  wr_source :: request_source
  wr_role :: "weather_role option"
  wr_requestedAt :: int

type_synonym weather_key = "weather_kind \<times> jstr"

record fsd_pair =
  pr_session :: nat
  pr_core_open :: bool
  pr_remote_open :: bool
  pr_core_text :: jstr
  pr_pending :: bytes
  pr_waiting :: "(bytes \<times> bytes) option"

record fsd =
  fx_pairs :: "(nat, fsd_pair) jmap"
  fx_ivao :: "nat option"
  fx_core :: "nat option"
  fx_active :: nat
  fx_confirmed :: nat
  fx_weather :: "(weather_key, weather_request list) jmap"
  fx_app :: app_state

definition createFsdProxy :: fsd where
  "createFsdProxy = \<lparr>fx_pairs = [], fx_ivao = None, fx_core = None, fx_active = 0, fx_confirmed = 0,
     fx_weather = [], fx_app = createAppState\<rparr>"

datatype fsd_out = ToPilot nat bytes | ToIvao nat bytes | DestroyPilot nat | DestroyIvao nat
  | PauseIvao nat | ResumeIvao nat | Published app_out | SessionOpened | SessionEnded bool
  | Complaint jstr

type_synonym fsd_handler = "fsd \<Rightarrow> fsd \<times> fsd_out list"

text \<open>An operation of the agent's state inside the proxy.\<close>

definition in_app :: "app_handler \<Rightarrow> fsd_handler" where
  "in_app f s = (let (a, outs) = f (fx_app s) in (s\<lparr>fx_app := a\<rparr>, map Published outs))"

definition skip :: fsd_handler where
  "skip s = (s, [])"

definition complain :: "string \<Rightarrow> fsd_handler" where
  "complain m s = (s, [Complaint (js m)])"

definition pair_of :: "fsd \<Rightarrow> nat \<Rightarrow> fsd_pair" where
  "pair_of s p = (case mget (fx_pairs s) p of Some x \<Rightarrow> x
     | None \<Rightarrow> \<lparr>pr_session = 0, pr_core_open = False, pr_remote_open = False, pr_core_text = [],
                 pr_pending = [], pr_waiting = None\<rparr>)"

definition upd_pair :: "nat \<Rightarrow> (fsd_pair \<Rightarrow> fsd_pair) \<Rightarrow> fsd \<Rightarrow> fsd" where
  "upd_pair p f s = (case mget (fx_pairs s) p of
     Some x \<Rightarrow> s\<lparr>fx_pairs := mput (fx_pairs s) p (f x)\<rparr> | None \<Rightarrow> s)"

definition ivao_open :: "fsd \<Rightarrow> nat option" where
  "ivao_open s = (case fx_ivao s of Some p \<Rightarrow> if pr_remote_open (pair_of s p) then Some p else None | None \<Rightarrow> None)"

definition core_open :: "fsd \<Rightarrow> nat option" where
  "core_open s = (case fx_core s of Some p \<Rightarrow> if pr_core_open (pair_of s p) then Some p else None | None \<Rightarrow> None)"

subsection \<open>Weather requests\<close>

definition savePendingWeatherList :: "weather_key \<Rightarrow> weather_request list \<Rightarrow> fsd \<Rightarrow> fsd" where
  "savePendingWeatherList key l s =
     s\<lparr>fx_weather := (if l \<noteq> [] then mput (fx_weather s) key l else mdel (fx_weather s) key)\<rparr>"

definition fresh_requests :: "int \<Rightarrow> weather_request list \<Rightarrow> weather_request list" where
  "fresh_requests now l = filter (\<lambda>r. now - WEATHER_PENDING_TTL_MS \<le> wr_requestedAt r) l"

definition cleanupPendingWeatherRequests :: "int \<Rightarrow> fsd \<Rightarrow> fsd" where
  "cleanupPendingWeatherRequests now s =
     s\<lparr>fx_weather := filter (\<lambda>e. snd e \<noteq> []) (map (\<lambda>(k, l). (k, fresh_requests now l)) (fx_weather s))\<rparr>"

definition pending_list :: "fsd \<Rightarrow> weather_key \<Rightarrow> weather_request list" where
  "pending_list s key = (case mget (fx_weather s) key of Some l \<Rightarrow> l | None \<Rightarrow> [])"

text \<open>\<open>slice(-8)\<close>.\<close>

definition last_eight :: "'a list \<Rightarrow> 'a list" where
  "last_eight l = drop (length l - 8) l"

definition rememberPendingWeatherRequest ::
  "int \<Rightarrow> weather_key \<Rightarrow> request_source \<Rightarrow> weather_role option \<Rightarrow> fsd \<Rightarrow> fsd" where
  "rememberPendingWeatherRequest now key src role s0 =
     (let s = cleanupPendingWeatherRequests now s0;
          r = \<lparr>wr_source = src, wr_role = role, wr_requestedAt = now\<rparr>
      in s\<lparr>fx_weather := mput (fx_weather s) key (last_eight (pending_list s key @ [r]))\<rparr>)"

definition normalizeWeatherRequestSource :: "json option \<Rightarrow> request_source" where
  "normalizeWeatherRequestSource v = (if v = Some (JStr (js ''panel'')) then Panel
     else if v = Some (JStr (js ''auto'')) then Auto else Manual)"

definition icao_text :: "jstr \<Rightarrow> bool" where
  "icao_text t = (length t = 4 \<and> list_all is_upper t)"

text \<open>\<open>split(/\s+/)\<close> of a trimmed text.\<close>

fun ws_tokens :: "jstr \<Rightarrow> jstr list" where
  "ws_tokens [] = [[]]"
| "ws_tokens (c # s) =
     (if is_ws c then (case s of d # r \<Rightarrow> if is_ws d then ws_tokens s else [] # ws_tokens s | [] \<Rightarrow> [[], []])
      else (case ws_tokens s of [] \<Rightarrow> [[c]] | t # ts \<Rightarrow> (c # t) # ts))"

definition ci_units :: "jstr \<Rightarrow> jstr" where
  "ci_units t = map (\<lambda>c. if is_lower c then c - 32 else c) t"

definition head_is :: "string list \<Rightarrow> jstr list \<Rightarrow> bool" where
  "head_is ws ts = (case ts of t # r \<Rightarrow> List.member (map js ws) (ci_units t) | [] \<Rightarrow> False)"

definition skip_word :: "string list \<Rightarrow> jstr list \<Rightarrow> jstr list" where
  "skip_word ws ts = (if head_is ws ts then tl ts else ts)"

definition readWeatherIcao :: "weather_kind \<Rightarrow> jstr \<Rightarrow> jstr" where
  "readWeatherIcao kind t =
     (let t1 = (if t \<noteq> [] \<and> last t = 61 then butlast t else t);
          tokens = ws_tokens (trim t1);
          rest = (case kind of
              METAR \<Rightarrow> skip_word [''COR''] (skip_word [''METAR'', ''SPECI''] tokens)
            | TAF \<Rightarrow> skip_word [''AMD'', ''COR''] (skip_word [''TAF''] tokens));
          candidate = (case rest of c # r \<Rightarrow> upper c | [] \<Rightarrow> [])
      in if icao_text candidate then candidate else [])"

definition parseWeatherReply :: "jstr \<Rightarrow> jstr \<Rightarrow> (weather_kind \<times> jstr \<times> jstr) option" where
  "parseWeatherReply sender t =
     (let s = upper sender;
          kind = (if s = js ''TAF'' then Some TAF else if s = js ''METAR'' then Some METAR else None)
      in case kind of None \<Rightarrow> None
         | Some k \<Rightarrow> (let icao = readWeatherIcao k t in if icao = [] then None else Some (k, icao, trim t)))"

definition updateWeatherPanel :: "int \<Rightarrow> weather_kind \<Rightarrow> jstr \<Rightarrow> jstr \<Rightarrow> weather_request \<Rightarrow> fsd_handler" where
  "updateWeatherPanel now kind icao t r s =
     (case (case wr_role r of Some role \<Rightarrow> Some role | None \<Rightarrow> roleForWeatherIcao (fx_app s) icao) of
        None \<Rightarrow> (s, [])
      | Some role \<Rightarrow> in_app (updateWeather now role kind icao t) s)"

text \<open>The first element with \<open>P\<close> and the list without it.\<close>

fun remove_first :: "('a \<Rightarrow> bool) \<Rightarrow> 'a list \<Rightarrow> ('a \<times> 'a list) option" where
  "remove_first P [] = None"
| "remove_first P (x # xs) =
     (if P x then Some (x, xs) else map_option (\<lambda>(y, ys). (y, x # ys)) (remove_first P xs))"

definition manual :: "weather_request \<Rightarrow> bool" where
  "manual r = (wr_source r = Manual)"

text \<open>\<open>True\<close> when the reply was for the panel alone and must not appear in the chat.\<close>

definition handleWeatherReply :: "int \<Rightarrow> jstr \<Rightarrow> jstr \<Rightarrow> fsd \<Rightarrow> bool \<times> fsd \<times> fsd_out list" where
  "handleWeatherReply now sender t s0 =
     (case parseWeatherReply sender t of
        None \<Rightarrow> (False, s0, [])
      | Some (kind, icao, body) \<Rightarrow>
          (let s = cleanupPendingWeatherRequests now s0; key = (kind, icao); l = pending_list s key in
           case remove_first manual l of
             Some (m, l1) \<Rightarrow>
               (case remove_first (\<lambda>r. \<not> manual r) l1 of
                  Some (r, l2) \<Rightarrow>
                    (let (s1, outs) = updateWeatherPanel now kind icao body r s
                     in (False, savePendingWeatherList key l2 s1, outs))
                | None \<Rightarrow> (False, savePendingWeatherList key l1 s, []))
           | None \<Rightarrow>
               (case remove_first (\<lambda>r. \<not> manual r) l of
                  Some (r, l1) \<Rightarrow>
                    (let (s1, outs) = updateWeatherPanel now kind icao body r (savePendingWeatherList key l1 s)
                     in (True, s1, outs))
                | None \<Rightarrow> (False, s, []))))"

subsection \<open>Lines\<close>

definition reconnect_seen :: fsd_handler where
  "reconnect_seen s = (if \<not> as_connected (fx_app s) then in_app (setConnected True) s else (s, []))"

definition publish_event :: "int \<Rightarrow> fsd_msg \<Rightarrow> direction \<Rightarrow> app_handler" where
  "publish_event now m direction =
     (case publicFsdEvent m of
        (ChatText t sender recipient b, stamp) \<Rightarrow>
          broadcast_message now \<lparr>cm_type = t, cm_sender = sender, cm_recipient = recipient, cm_text = b,
            cm_direction = direction, cm_timestamp = stamp\<rparr>
      | (e, stamp) \<Rightarrow> (\<lambda>a. (a, [PubFsd e stamp direction])))"

text \<open>What follows once the event is in the state of the agent.\<close>

definition fsd_event_handler :: "int \<Rightarrow> fsd_msg \<Rightarrow> direction \<Rightarrow> fsd_handler" where
  "fsd_event_handler now m direction s =
     (case fm_event m of
        FlightPlanFiled p \<Rightarrow> in_app (updateFlightPlanStatus now (Some p)) s
      | FlightPlanMissing \<Rightarrow> in_app (updateFlightPlanStatus now None) s
      | ChatText t sender recipient b \<Rightarrow>
          (let (swallow, s1, outs) = handleWeatherReply now sender b s in
           if swallow then (s1, outs)
           else (let (s2, outs2) = in_app (publish_event now m direction) s1 in (s2, outs @ outs2)))
      | Login c \<Rightarrow>
          andThen (\<lambda>s. if as_callsign (fx_app s) = None \<or> as_callsign (fx_app s) = Some c
                        then in_app (setCallsign now c False) s else (s, []))
            (andThen (\<lambda>s. if as_callsign (fx_app s) = Some c then in_app (setConnected True) s else (s, []))
              (in_app (publish_event now m direction))) s
      | e \<Rightarrow> andThen (in_app (rememberFsdState now e (fm_timestamp m)))
               (in_app (publish_event now m direction)) s)"

definition handleFsdLine :: "int \<Rightarrow> direction \<Rightarrow> jstr \<Rightarrow> fsd_handler" where
  "handleFsdLine now direction line =
     andThen reconnect_seen
       (case parseFsdLine (iso_string now) line direction of
          None \<Rightarrow> skip
        | Some m \<Rightarrow> fsd_event_handler now m direction)"

subsection \<open>Closing\<close>

definition close :: "nat \<Rightarrow> fsd_handler" where
  "close p s =
     (let x = pair_of s p;
          s1 = upd_pair p (\<lambda>x. x\<lparr>pr_core_open := False, pr_remote_open := False\<rparr>) s;
          outs = (if pr_core_open x then [DestroyPilot p] else []) @ (if pr_remote_open x then [DestroyIvao p] else [])
      in if pr_session x \<noteq> fx_active s then (s1, outs)
         else (let was = (fx_confirmed s = pr_session x);
                   (s2, outs2) = in_app (setConnected False)
                     (s1\<lparr>fx_active := 0, fx_confirmed := 0, fx_core := None, fx_ivao := None\<rparr>)
               in (s2, outs @ outs2 @ [SessionEnded was])))"

text \<open>A socket that emits \<open>close\<close> is destroyed.\<close>

definition on_core_closed :: "nat \<Rightarrow> fsd_handler" where
  "on_core_closed p s = close p (upd_pair p (\<lambda>x. x\<lparr>pr_core_open := False\<rparr>) s)"

definition on_remote_closed :: "nat \<Rightarrow> fsd_handler" where
  "on_remote_closed p s = close p (upd_pair p (\<lambda>x. x\<lparr>pr_remote_open := False\<rparr>) s)"

definition rejectOversizedLine :: "nat \<Rightarrow> fsd_handler" where
  "rejectOversizedLine p s = close p (upd_pair p (\<lambda>x. x\<lparr>pr_pending := []\<rparr>) s)"

subsection \<open>VOICE replies\<close>

datatype endpoint = Address jstr | Promised | Refused

datatype rewritten = Forward bytes | Withheld | Await bytes bytes

text \<open>\<open>/^(\$CR[^:]+:[^:]+:VOICE:[^:]+:)([^/\r\n]+)(\/[^\r\n]*)/\<close>: prefix, host, rest of the record.\<close>

definition voice_fields :: "bytes \<Rightarrow> (bytes \<times> bytes \<times> bytes) option" where
  "voice_fields b =
     (if \<not> starts_with b (js ''$CR'') then None
      else (let (f1, r1) = span (\<lambda>c. c \<noteq> 58) (drop 3 b); (f2, r2) = span (\<lambda>c. c \<noteq> 58) (tl r1) in
        if f1 = [] \<or> r1 = [] \<or> f2 = [] \<or> \<not> starts_with r2 (js '':VOICE:'') then None
        else (let (f3, r3) = span (\<lambda>c. c \<noteq> 58) (drop 7 r2);
                  (host, r4) = span (\<lambda>c. c \<noteq> 47 \<and> c \<noteq> 13 \<and> c \<noteq> 10) (tl r3)
              in if f3 = [] \<or> r3 = [] \<or> host = [] \<or> r4 = [] \<or> hd r4 \<noteq> 47 then None
                 else Some (take (length b - length host - length r4) b, host, r4))))"

definition rewriteVoiceServer :: "(jstr \<Rightarrow> endpoint) \<Rightarrow> bytes \<Rightarrow> rewritten" where
  "rewriteVoiceServer voice b =
     (if \<not> str_includes b (js '':VOICE:'') then Forward b
      else (case voice_fields b of
          None \<Rightarrow> Forward b
        | Some (pre, host, post) \<Rightarrow>
            (case voice host of
               Address a \<Rightarrow> Forward (pre @ ascii_bytes a @ post)
             | Promised \<Rightarrow> Await pre post
             | Refused \<Rightarrow> Withheld)))"

subsection \<open>Records from the server\<close>

definition forward :: "nat \<Rightarrow> bytes \<Rightarrow> fsd_handler" where
  "forward p b s = (s, if pr_core_open (pair_of s p) then [ToPilot p b] else [])"

definition keep_pending :: "nat \<Rightarrow> bytes \<Rightarrow> fsd_handler" where
  "keep_pending p b s = (upd_pair p (\<lambda>x. x\<lparr>pr_pending := b\<rparr>) s, [])"

definition await_endpoint :: "nat \<Rightarrow> bytes \<Rightarrow> bytes \<Rightarrow> bytes \<Rightarrow> fsd_handler" where
  "await_endpoint p pre post rest s =
     (let s1 = upd_pair p (\<lambda>x. x\<lparr>pr_pending := rest\<rparr>) s in
      if length rest > MAX_PENDING_BYTES then rejectOversizedLine p s1
      else (upd_pair p (\<lambda>x. x\<lparr>pr_waiting := Some (pre, post)\<rparr>) s1, [PauseIvao p]))"

text \<open>The loop of \<open>drainRecords\<close> over the bytes that were received.\<close>

function drain_loop :: "(jstr \<Rightarrow> endpoint) \<Rightarrow> int \<Rightarrow> nat \<Rightarrow> bytes \<Rightarrow> fsd_handler" where
  "drain_loop voice now p received s =
     (case index_of 10 received of
        None \<Rightarrow> (if length received > MAX_REMOTE_LINE_BYTES then rejectOversizedLine p s
                 else keep_pending p received s)
      | Some i \<Rightarrow>
          if i > MAX_REMOTE_LINE_BYTES then rejectOversizedLine p s
          else (let line = utf8_decode (take i received); rest = drop (Suc i) received in
            andThen (if trim line \<noteq> [] then handleFsdLine now Incoming line else skip)
              (case rewriteVoiceServer voice (take (Suc i) received) of
                 Forward b \<Rightarrow> andThen (forward p b) (drain_loop voice now p rest)
               | Withheld \<Rightarrow> drain_loop voice now p rest
               | Await pre post \<Rightarrow> await_endpoint p pre post rest) s))"
  by pat_completeness auto

termination drain_loop
  by (relation "measure (\<lambda>(voice, now, p, received, s). length received)") (auto dest!: index_of_Some)

declare drain_loop.simps [simp del]

definition drainRecords :: "(jstr \<Rightarrow> endpoint) \<Rightarrow> int \<Rightarrow> nat \<Rightarrow> fsd_handler" where
  "drainRecords voice now p s =
     (let x = pair_of s p in
      if pr_session x \<noteq> fx_active s \<or> \<not> pr_core_open x \<or> \<not> pr_remote_open x then (s, [])
      else drain_loop voice now p (pr_pending x) s)"

subsection \<open>Events of the sockets\<close>

definition on_core_opened :: "nat \<Rightarrow> fsd_handler" where
  "on_core_opened p s =
     (let n = Suc (fx_active s);
          x = \<lparr>pr_session = n, pr_core_open = True, pr_remote_open = True, pr_core_text = [],
               pr_pending = [], pr_waiting = None\<rparr>
      in in_app (\<lambda>a. setConnected True (resetFlightTelemetry a))
           (s\<lparr>fx_active := n, fx_core := Some p, fx_pairs := mput (fx_pairs s) p x\<rparr>))"

definition on_remote_connected :: "nat \<Rightarrow> fsd_handler" where
  "on_remote_connected p s =
     (let x = pair_of s p in
      if pr_session x \<noteq> fx_active s
      then (upd_pair p (\<lambda>x. x\<lparr>pr_remote_open := False\<rparr>) s, if pr_remote_open x then [DestroyIvao p] else [])
      else (s\<lparr>fx_ivao := Some p, fx_confirmed := pr_session x\<rparr>, [SessionOpened]))"

definition on_core_data :: "int \<Rightarrow> nat \<Rightarrow> bytes \<Rightarrow> fsd_handler" where
  "on_core_data now p b s =
     (let (t, ls) = parseLines (pr_core_text (pair_of s p)) (utf8_decode b)
      in andThen (each (handleFsdLine now Outgoing) ls)
           (\<lambda>s. (s, if pr_remote_open (pair_of s p) then [ToIvao p b] else []))
           (upd_pair p (\<lambda>x. x\<lparr>pr_core_text := t\<rparr>) s))"

definition on_remote_data :: "(jstr \<Rightarrow> endpoint) \<Rightarrow> int \<Rightarrow> nat \<Rightarrow> bytes \<Rightarrow> fsd_handler" where
  "on_remote_data voice now p b s =
     (let s1 = upd_pair p (\<lambda>x. x\<lparr>pr_pending := pr_pending x @ b\<rparr>) s; x = pair_of s1 p in
      if pr_waiting x \<noteq> None
      then (if length (pr_pending x) > MAX_PENDING_BYTES then rejectOversizedLine p s1 else (s1, []))
      else drainRecords voice now p s1)"

text \<open>The promise of an endpoint was kept (\<open>Some\<close> address) or broken.\<close>

definition on_endpoint :: "(jstr \<Rightarrow> endpoint) \<Rightarrow> int \<Rightarrow> nat \<Rightarrow> jstr option \<Rightarrow> fsd_handler" where
  "on_endpoint voice now p answer s =
     (case pr_waiting (pair_of s p) of
        None \<Rightarrow> (s, [])
      | Some (pre, post) \<Rightarrow>
          andThen (case answer of
              Some a \<Rightarrow> if pr_session (pair_of s p) = fx_active s then forward p (pre @ ascii_bytes a @ post) else skip
            | None \<Rightarrow> skip)
            (andThen (drainRecords voice now p)
              (\<lambda>s. (s, if pr_waiting (pair_of s p) = None \<and> pr_session (pair_of s p) = fx_active s
                       then [ResumeIvao p] else [])))
            (upd_pair p (\<lambda>x. x\<lparr>pr_waiting := None\<rparr>) s))"

subsection \<open>Commands\<close>

record chat_command =
  cc_callsign :: "json option"
  cc_recipient :: "json option"
  cc_text :: "json option"

definition chat_line :: "jstr \<Rightarrow> jstr \<Rightarrow> jstr \<Rightarrow> jstr" where
  "chat_line cs recipient t = js ''#TM'' @ cs @ [58] @ recipient @ [58] @ t"

definition recipient_type :: "jstr \<Rightarrow> message_type" where
  "recipient_type r = (if r = js ''*'' then BROADCAST
     else if starts_with r (js ''@'') then FREQUENCY else PRIVATE)"

definition chat_callsign :: "chat_command \<Rightarrow> fsd \<Rightarrow> jstr option" where
  "chat_callsign cmd s =
     (case as_callsign (fx_app s) of Some c \<Rightarrow> Some c
      | None \<Rightarrow> if opt_truthy (cc_callsign cmd) then Some (to_str (the (cc_callsign cmd))) else None)"

definition sendChatCommand :: "int \<Rightarrow> chat_command \<Rightarrow> fsd_handler" where
  "sendChatCommand now cmd s =
     (case ivao_open s of
        None \<Rightarrow> complain ''Not connected to IVAO'' s
      | Some p \<Rightarrow>
          (let recipient = normalizeFsdRecipient (to_str (or_else (cc_recipient cmd) (JStr (js ''@22800''))));
               t = normalizeFsdText (str_or_empty (cc_text cmd));
               bytes_of = (\<lambda>cs. utf8_encode (chat_line cs recipient t @ [10]))
           in case chat_callsign cmd s of
                None \<Rightarrow> complain ''No callsign detected'' s
              | Some cs \<Rightarrow>
                  if recipient = [] then complain ''Invalid message recipient'' s
                  else if t = [] then (s, [])
                  else andThen (\<lambda>s. (s, [ToIvao p (bytes_of cs)]
                     @ (case core_open s of Some q \<Rightarrow> [ToPilot q (bytes_of cs)] | None \<Rightarrow> [])))
                   (in_app (broadcast_message now
                     \<lparr>cm_type = recipient_type recipient, cm_sender = cs, cm_recipient = Some recipient,
                      cm_text = t, cm_direction = Outgoing, cm_timestamp = iso_string now\<rparr>)) s))"

definition line_ok :: "jstr \<Rightarrow> bool" where
  "line_ok line = (\<not> List.member line 13 \<and> \<not> List.member line 10)"

text \<open>The handler and whether the line was written.\<close>

definition writeFsdLine :: "jstr \<Rightarrow> fsd \<Rightarrow> bool \<times> fsd \<times> fsd_out list" where
  "writeFsdLine line s =
     (if \<not> line_ok line then (False, complain ''Invalid FSD command'' s)
      else (case ivao_open s of
          None \<Rightarrow> (False, complain ''Not connected to IVAO'' s)
        | Some p \<Rightarrow> (True, s, [ToIvao p (utf8_encode (line @ [10]))])))"

definition weather_line :: "jstr \<Rightarrow> weather_kind \<Rightarrow> jstr \<Rightarrow> jstr" where
  "weather_line cs kind code = js ''&D'' @ cs @ js '':SERVER:'' @ [case kind of TAF \<Rightarrow> 49 | METAR \<Rightarrow> 48, 58] @ code"

definition sendWeatherRequest ::
  "int \<Rightarrow> weather_kind \<Rightarrow> jstr \<Rightarrow> request_source \<Rightarrow> weather_role option \<Rightarrow> fsd_handler" where
  "sendWeatherRequest now kind icao src role s =
     (case as_callsign (fx_app s) of
        None \<Rightarrow> complain ''No callsign detected'' s
      | Some cs \<Rightarrow>
          (let code = upper (trim icao) in
           if \<not> icao_text code then complain ''Invalid ICAO code'' s
           else (let (ok, s1, outs) = writeFsdLine (weather_line cs kind code) s
                 in (if ok then rememberPendingWeatherRequest now (kind, code) src role s1 else s1, outs))))"

definition atis_callsign_ok :: "jstr \<Rightarrow> bool" where
  "atis_callsign_ok c = rx_match (Reps (\<lambda>c. is_upper c \<or> is_digit c \<or> c = 95) 2 32) c"

definition sendAtisRequest :: "jstr \<Rightarrow> fsd_handler" where
  "sendAtisRequest callsign s =
     (case as_callsign (fx_app s) of
        None \<Rightarrow> complain ''No callsign detected'' s
      | Some cs \<Rightarrow>
          (let station = upper (trim callsign) in
           if \<not> atis_callsign_ok station then complain ''Invalid ATIS callsign'' s
           else snd (writeFsdLine (js ''$CQ'' @ cs @ [58] @ station @ js '':ATIS'') s)))"

subsection \<open>The machine\<close>

datatype fsd_in = CoreOpened nat | RemoteConnected nat | CoreData nat bytes | RemoteData nat bytes
  | EndpointSettled nat "jstr option" | CoreClosed nat | RemoteClosed nat
  | Chat chat_command | Weather weather_kind jstr request_source "weather_role option" | Atis jstr

text \<open>Only a pair that was opened emits events.\<close>

definition on_pair :: "nat \<Rightarrow> fsd_handler \<Rightarrow> fsd_handler" where
  "on_pair p f s = (if mhas (fx_pairs s) p then f s else (s, []))"

fun fsd_step :: "(jstr \<Rightarrow> endpoint) \<Rightarrow> int \<times> fsd_in \<Rightarrow> fsd_handler" where
  "fsd_step voice (now, CoreOpened p) = on_core_opened p"
| "fsd_step voice (now, RemoteConnected p) = on_pair p (on_remote_connected p)"
| "fsd_step voice (now, CoreData p b) = on_pair p (on_core_data now p b)"
| "fsd_step voice (now, RemoteData p b) = on_pair p (on_remote_data voice now p b)"
| "fsd_step voice (now, EndpointSettled p a) = on_pair p (on_endpoint voice now p a)"
| "fsd_step voice (now, CoreClosed p) = on_pair p (on_core_closed p)"
| "fsd_step voice (now, RemoteClosed p) = on_pair p (on_remote_closed p)"
| "fsd_step voice (now, Chat cmd) = sendChatCommand now cmd"
| "fsd_step voice (now, Weather kind icao src role) = sendWeatherRequest now kind icao src role"
| "fsd_step voice (now, Atis c) = sendAtisRequest c"

end
