(* ===== verification/FsdFacts.thy ===== *)
theory FsdFacts
  imports FsdParser FsdProxy
begin

section \<open>Facts about FSD lines\<close>

subsection \<open>The stream\<close>

lemma last_split_no_sep: "c \<notin> set (last (split_on c s))"
  using split_on_no_sep [of "last (split_on c s)" c s] by simp

lemma split_on_last_append:
  "split_on c (a @ b) = butlast (split_on c a) @ split_on c (last (split_on c a) @ b)"
proof -
  have "split_on c (last (split_on c a) @ b)
      = (last (split_on c a) @ hd (split_on c b)) # tl (split_on c b)"
    using split_on_cat [of c "last (split_on c a)" b] split_on_single [OF last_split_no_sep [of c a]] by simp
  then show ?thesis by (simp add: split_on_cat [of c a b])
qed

lemma last_append_split [simp]: "last (xs @ split_on c s) = last (split_on c s)"
  by (simp add: last_append)

lemma butlast_append_split [simp]: "butlast (xs @ split_on c s) = xs @ butlast (split_on c s)"
  by (simp add: butlast_append)

text \<open>The tail that the caller keeps never holds a line end; then two chunks are one.\<close>

interpretation fsd_lines: chunked parseLines "\<lambda>s. 10 \<notin> set s"
proof unfold_locales
  fix s a b :: jstr
  assume "10 \<notin> set s"
  have "split_on 10 (s @ a @ b) = butlast (split_on 10 (s @ a)) @ split_on 10 (last (split_on 10 (s @ a)) @ b)"
    using split_on_last_append [of 10 "s @ a" b] by simp
  then show "parseLines s (a @ b) = (let (s1, r1) = parseLines s a; (s2, r2) = parseLines s1 b in (s2, r1 @ r2))"
    by (simp add: parseLines_def Let_def)
next
  fix s a :: jstr
  show "10 \<notin> set (fst (parseLines s a))" by (simp add: parseLines_def Let_def last_split_no_sep)
next
  fix s :: jstr
  assume "10 \<notin> set s"
  then show "parseLines s [] = (s, [])" by (simp add: parseLines_def Let_def split_on_single)
qed

subsection \<open>The text of a chat line\<close>

lemma squash_no_line_end: "c \<in> set (squash s) \<Longrightarrow> c \<noteq> 13 \<and> c \<noteq> 10"
  by (induction s rule: squash.induct) (auto split: if_splits)

lemma squash_id: "\<forall>c \<in> set s. c \<noteq> 13 \<and> c \<noteq> 10 \<Longrightarrow> squash s = s"
  by (induction s) auto

lemma cut_bytes_prefix: "\<exists>t. s = cut_bytes m n s @ t"
  by (induction n) (auto, metis append_take_drop_id)

lemma cut_bytes_len: "n \<le> length s \<Longrightarrow> utf8_len (cut_bytes m n s) \<le> m"
  by (induction n) auto

lemma limit_prefix: "\<exists>t. s = limitUtf8Bytes s m @ t"
  using cut_bytes_prefix by (simp add: limitUtf8Bytes_def)

lemma limit_len: "utf8_len (limitUtf8Bytes s m) \<le> m"
  by (simp add: limitUtf8Bytes_def cut_bytes_len)

lemma limit_subset: "set (limitUtf8Bytes s m) \<subseteq> set s"
proof -
  obtain t where "s = limitUtf8Bytes s m @ t" using limit_prefix by blast
  then have "set s = set (limitUtf8Bytes s m) \<union> set t" by (metis set_append)
  then show ?thesis by blast
qed

lemma normalizeFsdText_line: "c \<in> set (normalizeFsdText v) \<Longrightarrow> c \<noteq> 13 \<and> c \<noteq> 10"
  using limit_subset [of "trim (squash v)" 1024] trim_subset [of "squash v"] squash_no_line_end [of c v]
  unfolding normalizeFsdText_def by blast

lemma normalizeFsdText_len: "utf8_len (normalizeFsdText v) \<le> 1024"
  by (simp add: normalizeFsdText_def limit_len)

text \<open>The next character would not fit: the cut is the longest prefix within the budget.\<close>

lemma cut_bytes_longest:
  "n \<le> length s \<Longrightarrow> length (cut_bytes m n s) < k \<Longrightarrow> k \<le> n \<Longrightarrow> utf8_len (take k s) > m"
proof (induction n)
  case (Suc n)
  then show ?case by (cases "k = Suc n") (auto split: if_splits)
qed simp

text \<open>A recipient is a frequency, a callsign or the broadcast mark, without a colon or a line end.\<close>

lemma recipient_chars:
  assumes "c \<in> set (normalizeFsdRecipient v)"
  shows "is_upper c \<or> is_digit c \<or> c = 95 \<or> c = 42 \<or> c = 64"
proof -
  have "rx_match (Alt (lit ''*'') (Alt (Seq (lit ''@'') (Reps is_digit 5 5))
          (Reps (\<lambda>c. is_upper c \<or> is_digit c \<or> c = 95) 2 16))) (normalizeFsdRecipient v)"
    using assms by (auto simp: normalizeFsdRecipient_def Let_def split: if_splits)
  then have "normalizeFsdRecipient v \<in> {js ''*''} \<union> {js ''@'' @ w | w. list_all is_digit w}
      \<union> {w. list_all (\<lambda>c. is_upper c \<or> is_digit c \<or> c = 95) w}"
    unfolding rx_match_iff by (auto simp: rx_lang.simps)
  then show ?thesis using assms by (auto simp: js_def list_all_iff)
qed

lemma recipient_separators:
  "10 \<notin> set (normalizeFsdRecipient v)" "13 \<notin> set (normalizeFsdRecipient v)" "58 \<notin> set (normalizeFsdRecipient v)"
  using recipient_chars [of _ v] by (fastforce simp: char_classes)+

section \<open>Facts about the FSD proxy\<close>

text \<open>
  Which handlers touch the sockets: reading a line only changes the agent's state and the pending
  weather requests, so the loop over the records keeps the pair alive. What is written to
  PilotCore is then the image of the stream, record by record.
\<close>

subsection \<open>Handlers that leave the sockets alone\<close>

text \<open>The result of a handler that changes no socket and writes to none.\<close>

fun quiet_out :: "fsd_out \<Rightarrow> bool" where
  "quiet_out (Published x) = True"
| "quiet_out (Complaint x) = True"
| "quiet_out _ = False"

definition sockets :: "fsd \<Rightarrow> (nat, fsd_pair) jmap \<times> nat option \<times> nat option \<times> nat \<times> nat" where
  "sockets s = (fx_pairs s, fx_ivao s, fx_core s, fx_active s, fx_confirmed s)"

definition calm :: "fsd \<Rightarrow> fsd \<times> fsd_out list \<Rightarrow> bool" where
  "calm s r \<longleftrightarrow> sockets (fst r) = sockets s \<and> list_all quiet_out (snd r)"

named_theorems calms

lemma calm_pair [calms]: "calm s (s, [])"
  by (simp add: calm_def)

lemma calm_in_app [calms]: "calm s (in_app f s)"
  by (auto simp: calm_def in_app_def sockets_def list_all_iff split: prod.splits)

lemma calm_skip [calms]: "calm s (skip s)"
  by (simp add: calm_def skip_def)

lemma calm_andThen: "calm s (f s) \<Longrightarrow> (\<And>t. calm t (g t)) \<Longrightarrow> calm s (andThen f g s)"
  by (auto simp: calm_def andThen_def Let_def split: prod.splits) (metis fst_conv snd_conv)+

lemma sockets_weather [simp]: "sockets (s\<lparr>fx_weather := w\<rparr>) = sockets s"
  by (simp add: sockets_def)

lemma sockets_save [simp]: "sockets (savePendingWeatherList k l s) = sockets s"
  by (simp add: savePendingWeatherList_def)

lemma sockets_cleanup [simp]: "sockets (cleanupPendingWeatherRequests now s) = sockets s"
  by (simp add: cleanupPendingWeatherRequests_def)

lemma sockets_remember [simp]: "sockets (rememberPendingWeatherRequest now key src role s) = sockets s"
  by (simp add: rememberPendingWeatherRequest_def Let_def)

lemma calm_panel [calms]: "calm s (updateWeatherPanel now kind icao t r s)"
  by (auto simp: updateWeatherPanel_def calms split: option.splits)

lemma calm_eq: "calm t r \<Longrightarrow> sockets t = sockets s \<Longrightarrow> calm s r"
  by (simp add: calm_def)

lemma calm_weather: "calm s (snd (handleWeatherReply now sender t s))"
proof (cases "parseWeatherReply sender t")
  case (Some m)
  obtain kind icao body where m: "m = (kind, icao, body)" by (cases m) auto
  have p: "sockets x = sockets s \<and> list_all quiet_out y"
    if "updateWeatherPanel now kind icao body r t = (x, y)" "sockets t = sockets s" for r t x y
    using calm_eq [OF calm_panel that(2), of now kind icao body r] that(1) by (simp add: calm_def)
  have q: "sockets (fst (updateWeatherPanel now kind icao body r t)) = sockets s"
    "list_all quiet_out (snd (updateWeatherPanel now kind icao body r t))" if "sockets t = sockets s" for r t
    using p [OF surjective_pairing that] by simp_all
  show ?thesis
    by (auto simp: handleWeatherReply_def Some m calm_def Let_def q dest!: p split: option.splits prod.splits)
qed (simp add: handleWeatherReply_def calm_pair)

lemma calm_event [calms]: "calm s (fsd_event_handler now m direction s)"
proof (cases "fm_event m")
  case (ChatText t sender recipient b)
  obtain w s1 o1 where w: "handleWeatherReply now sender b s = (w, s1, o1)" by (metis prod_cases3)
  have c: "calm s (s1, o1)" using calm_weather [of s now sender b] by (simp add: w)
  have "calm s1 (in_app (publish_event now m direction) s1)" by (rule calms)
  with c show ?thesis
    by (auto simp: fsd_event_handler_def ChatText w calm_def split: prod.splits)
next
  case (Login c)
  show ?thesis unfolding fsd_event_handler_def Login fsd_event.case
    by (intro calm_andThen) (simp_all add: calms)
qed (simp_all add: fsd_event_handler_def calms calm_andThen)

lemma calm_reconnect [calms]: "calm s (reconnect_seen s)"
  by (simp add: reconnect_seen_def calms)

lemma calm_line [calms]: "calm s (handleFsdLine now direction line s)"
  unfolding handleFsdLine_def by (rule calm_andThen) (simp_all add: calms split: option.splits)

lemma calm_each: "(\<And>x t. calm t (f x t)) \<Longrightarrow> calm s (each f xs s)"
  by (induction xs arbitrary: s) (auto simp: calms intro: calm_andThen)

subsection \<open>Pairs\<close>

lemma pair_of_upd [simp]:
  "pair_of (upd_pair p f s) q = (if q = p \<and> mhas (fx_pairs s) p then f (pair_of s p) else pair_of s q)"
  by (auto simp: pair_of_def upd_pair_def mhas_def split: option.splits)

lemma upd_pair_sel [simp]:
  "fx_active (upd_pair p f s) = fx_active s" "fx_app (upd_pair p f s) = fx_app s"
  "fx_ivao (upd_pair p f s) = fx_ivao s" "fx_core (upd_pair p f s) = fx_core s"
  "fx_confirmed (upd_pair p f s) = fx_confirmed s" "fx_weather (upd_pair p f s) = fx_weather s"
  by (simp_all add: upd_pair_def split: option.splits)

lemma mhas_upd [simp]: "mhas (fx_pairs (upd_pair p f s)) q = mhas (fx_pairs s) q"
  by (auto simp: upd_pair_def mhas_def split: option.splits)

text \<open>A pair of the current session with both sockets open and no endpoint awaited.\<close>

definition live :: "nat \<Rightarrow> fsd \<Rightarrow> bool" where
  "live p s \<longleftrightarrow> pr_core_open (pair_of s p) \<and> pr_remote_open (pair_of s p)
     \<and> pr_session (pair_of s p) = fx_active s \<and> pr_waiting (pair_of s p) = None"

lemma live_known: "live p s \<Longrightarrow> mhas (fx_pairs s) p"
  by (auto simp: live_def pair_of_def mhas_def split: option.splits)

lemma calm_pairs: "calm s (t, os) \<Longrightarrow> pair_of t p = pair_of s p \<and> fx_active t = fx_active s"
  by (simp add: calm_def sockets_def pair_of_def)

lemma calm_live: "calm s (t, os) \<Longrightarrow> live p t = live p s"
  by (simp add: live_def calm_pairs)

definition to_pilot :: "nat \<Rightarrow> fsd_out list \<Rightarrow> bytes" where
  "to_pilot p outs = concat (map (\<lambda>x. case x of ToPilot q b \<Rightarrow> if q = p then b else [] | _ \<Rightarrow> []) outs)"

lemma to_pilot_append [simp]: "to_pilot p (xs @ ys) = to_pilot p xs @ to_pilot p ys"
  by (simp add: to_pilot_def)

lemma to_pilot_simps [simp]: "to_pilot p [] = []" "to_pilot p [ToPilot p b] = b"
  by (simp_all add: to_pilot_def)

lemma to_pilot_quiet: "list_all quiet_out os \<Longrightarrow> to_pilot p os = []"
proof (induction os)
  case (Cons x os)
  then show ?case by (cases x) (auto simp: to_pilot_def)
qed simp

subsection \<open>The stream, record by record\<close>

definition with_lf :: "bytes \<Rightarrow> bytes" where
  "with_lf r = r @ [10]"

text \<open>What PilotCore gets for a record when the voice router answers at once.\<close>

definition forwarded :: "(jstr \<Rightarrow> endpoint) \<Rightarrow> bytes \<Rightarrow> bytes" where
  "forwarded voice r = (case rewriteVoiceServer voice (with_lf r) of Forward b \<Rightarrow> b | _ \<Rightarrow> [])"

definition plain_record :: "(jstr \<Rightarrow> endpoint) \<Rightarrow> bytes \<Rightarrow> bool" where
  "plain_record voice r \<longleftrightarrow> 10 \<notin> set r \<and> length r \<le> MAX_REMOTE_LINE_BYTES
     \<and> (\<forall>pre post. rewriteVoiceServer voice (with_lf r) \<noteq> Await pre post)"

lemma index_of_line: "10 \<notin> set r \<Longrightarrow> index_of 10 (r @ 10 # s) = Some (length r)"
  by (induction r) auto

lemma drain_line:
  assumes "plain_record voice r" "live p s"
  shows "\<exists>t os. live p t \<and> to_pilot p os = forwarded voice r
    \<and> drain_loop voice now p (with_lf r @ rest) s
      = (let (u, os2) = drain_loop voice now p rest t in (u, os @ os2))"
proof -
  let ?h = "if trim (utf8_decode r) \<noteq> [] then handleFsdLine now Incoming (utf8_decode r) else skip"
  obtain t os where h: "?h s = (t, os)" by force
  have "calm s (?h s)" by (simp add: calms)
  then have c: "calm s (t, os)" by (simp only: h)
  then have l: "live p t" using assms(2) calm_live by blast
  have q: "to_pilot p os = []" using c by (simp add: calm_def to_pilot_quiet)
  have r: "10 \<notin> set r" "\<not> length r > MAX_REMOTE_LINE_BYTES" using assms(1) by (auto simp: plain_record_def)
  have take: "take (Suc (length r)) (r @ 10 # rest) = with_lf r" by (simp add: with_lf_def)
  have step: "drain_loop voice now p (with_lf r @ rest) s = andThen ?h
      (case rewriteVoiceServer voice (with_lf r) of
         Forward b \<Rightarrow> andThen (forward p b) (drain_loop voice now p rest)
       | Withheld \<Rightarrow> drain_loop voice now p rest
       | Await pre post \<Rightarrow> await_endpoint p pre post rest) s"
    using r take by (simp add: drain_loop.simps with_lf_def index_of_line)
  show ?thesis
  proof (cases "rewriteVoiceServer voice (with_lf r)")
    case (Forward b)
    have "forward p b t = (t, [ToPilot p b])" using l by (simp add: forward_def live_def)
    then show ?thesis using l q
      by (intro exI [of _ t] exI [of _ "os @ [ToPilot p b]"])
        (simp add: step Forward forwarded_def andThen_def h Let_def split: prod.splits)
  next
    case Withheld
    then show ?thesis using l q
      by (intro exI [of _ t] exI [of _ os]) (simp add: step forwarded_def andThen_def h Let_def)
  next
    case (Await pre post)
    then show ?thesis using assms(1) by (simp add: plain_record_def)
  qed
qed

lemma drain_stream:
  assumes "list_all (plain_record voice) rs" "live p s" "10 \<notin> set rest" "length rest \<le> MAX_REMOTE_LINE_BYTES"
  shows "\<exists>t os. drain_loop voice now p (concat (map with_lf rs) @ rest) s = (t, os)
    \<and> live p t \<and> pr_pending (pair_of t p) = rest \<and> to_pilot p os = concat (map (forwarded voice) rs)"
  using assms(1,2)
proof (induction rs arbitrary: s)
  case Nil
  have "index_of 10 rest = None" using assms(3) by (simp add: index_of_None)
  then have "drain_loop voice now p rest s = keep_pending p rest s"
    using assms(4) by (simp add: drain_loop.simps)
  then show ?case using Nil.prems(2) live_known [OF Nil.prems(2)] by (simp add: keep_pending_def live_def)
next
  case (Cons r rs)
  obtain t os where t: "live p t" "to_pilot p os = forwarded voice r"
    "drain_loop voice now p (with_lf r @ concat (map with_lf rs) @ rest) s
      = (let (u, os2) = drain_loop voice now p (concat (map with_lf rs) @ rest) t in (u, os @ os2))"
    using drain_line [of voice r p s now "concat (map with_lf rs) @ rest"] Cons.prems by auto
  obtain u os2 where "drain_loop voice now p (concat (map with_lf rs) @ rest) t = (u, os2)" "live p u"
    "pr_pending (pair_of u p) = rest" "to_pilot p os2 = concat (map (forwarded voice) rs)"
    using Cons.IH [OF _ t(1)] Cons.prems(1) by auto
  then show ?case using t by simp
qed

text \<open>A prefix of a stream of records: complete records and a tail without a line end.\<close>

lemma split_stream:
  assumes "x @ y = concat (map with_lf rs) @ rest" "list_all (\<lambda>r. 10 \<notin> set r \<and> length r \<le> m) rs"
    "10 \<notin> set rest" "length rest \<le> m"
  shows "\<exists>as bs t. rs = as @ bs \<and> x = concat (map with_lf as) @ t \<and> 10 \<notin> set t \<and> length t \<le> m
    \<and> t @ y = concat (map with_lf bs) @ rest"
  using assms(1,2)
proof (induction rs arbitrary: x)
  case Nil
  then have "set x \<subseteq> set rest" "length x \<le> length rest"
    by (auto dest: arg_cong [of _ _ set] arg_cong [of _ _ length])
  then show ?case using assms(3,4) Nil by auto
next
  case (Cons r rs)
  let ?z = "concat (map with_lf rs) @ rest"
  have e: "x @ y = r @ 10 # ?z" using Cons.prems(1) by (simp add: with_lf_def [of r])
  show ?case
  proof (cases "length x \<le> length r")
    case True
    then obtain v where v: "r = x @ v" using e by (metis append_eq_append_conv_if append_take_drop_id)
    then show ?thesis using Cons.prems by (intro exI [of _ "[]"] exI [of _ "r # rs"] exI [of _ x]) auto
  next
    case False
    then obtain w where w: "x = r @ w" "w @ y = 10 # ?z" "w \<noteq> []"
      using e by (auto simp: append_eq_append_conv2)
    then obtain w' where w': "w = 10 # w'" "w' @ y = ?z" by (cases w) auto
    obtain as bs t where "rs = as @ bs" "w' = concat (map with_lf as) @ t" "10 \<notin> set t" "length t \<le> m"
      "t @ y = concat (map with_lf bs) @ rest"
      using Cons.IH [OF w'(2)] Cons.prems(2) by auto
    then show ?thesis using w w' by (intro exI [of _ "r # as"] exI [of _ bs] exI [of _ t]) (simp add: with_lf_def [of r])
  qed
qed

lemma remote_data_stream:
  assumes "live p s" "list_all (plain_record voice) rs" "10 \<notin> set rest" "length rest \<le> MAX_REMOTE_LINE_BYTES"
    "pr_pending (pair_of s p) @ c = concat (map with_lf rs) @ rest"
  shows "\<exists>t os. on_remote_data voice now p c s = (t, os) \<and> live p t \<and> pr_pending (pair_of t p) = rest
    \<and> to_pilot p os = concat (map (forwarded voice) rs)"
proof -
  let ?s = "upd_pair p (\<lambda>x. x\<lparr>pr_pending := pr_pending x @ c\<rparr>) s"
  have k: "mhas (fx_pairs s) p" using assms(1) by (rule live_known)
  have l: "live p ?s" using assms(1) by (simp add: live_def)
  have "on_remote_data voice now p c s = drain_loop voice now p (concat (map with_lf rs) @ rest) ?s"
    using assms(1,5) k by (simp add: on_remote_data_def drainRecords_def live_def Let_def)
  with drain_stream [OF assms(2) l assms(3,4)] show ?thesis by simp
qed

definition remote_events :: "nat \<Rightarrow> (int \<times> bytes) list \<Rightarrow> (int \<times> fsd_in) list" where
  "remote_events p cs = map (\<lambda>(now, c). (now, RemoteData p c)) cs"

lemma remote_stream:
  assumes "live p s" "list_all (plain_record voice) rs" "10 \<notin> set rest" "length rest \<le> MAX_REMOTE_LINE_BYTES"
    "pr_pending (pair_of s p) @ concat (map snd cs) = concat (map with_lf rs) @ rest"
    "cs = [] \<longrightarrow> rs = []"
  shows "to_pilot p (snd (run_machine (fsd_step voice) (remote_events p cs) s)) = concat (map (forwarded voice) rs)"
  using assms(1,2,5,6)
proof (induction cs arbitrary: s rs)
  case Nil
  then show ?case by (simp add: remote_events_def)
next
  case (Cons nc cs)
  obtain now c where nc: "nc = (now, c)" by force
  have p: "list_all (\<lambda>r. 10 \<notin> set r \<and> length r \<le> MAX_REMOTE_LINE_BYTES) rs"
    using Cons.prems(2) by (auto simp: list_all_iff plain_record_def)
  obtain as bs t where ab: "rs = as @ bs" "pr_pending (pair_of s p) @ c = concat (map with_lf as) @ t"
    "10 \<notin> set t" "length t \<le> MAX_REMOTE_LINE_BYTES"
    "t @ concat (map snd cs) = concat (map with_lf bs) @ rest"
    using split_stream [OF _ p assms(3,4), of "pr_pending (pair_of s p) @ c" "concat (map snd cs)"] Cons.prems(3)
    by (auto simp: nc)
  obtain u os where u: "on_remote_data voice now p c s = (u, os)" "live p u" "pr_pending (pair_of u p) = t"
    "to_pilot p os = concat (map (forwarded voice) as)"
    using remote_data_stream [OF Cons.prems(1) _ ab(3,4,2), where voice = voice and now = now] Cons.prems(2) ab(1) by auto
  have "bs = []" if "cs = []"
  proof (cases bs)
    case (Cons b bs')
    then have "10 \<in> set (t @ concat (map snd cs))" by (simp add: ab(5) with_lf_def)
    then show ?thesis using ab(3) that by simp
  qed simp
  then have "to_pilot p (snd (run_machine (fsd_step voice) (remote_events p cs) u)) = concat (map (forwarded voice) bs)"
    using Cons.IH [OF u(2)] Cons.prems(2) ab(1,5) u(3) by simp
  then show ?case using u ab(1) live_known [OF Cons.prems(1)] by (simp add: on_pair_def remote_events_def nc Let_def case_prod_beta)
qed

end
