(* ===== verification/FsdProps.thy ===== *)
theory FsdProps
  imports FsdFacts
begin

section \<open>Properties of the FSD proxy\<close>

subsection \<open>The invariant of the agent\<close>

definition appInv :: "app_state \<Rightarrow> bool" where
  "appInv a \<longleftrightarrow> length (as_log a) \<le> MESSAGE_LOG_MAX \<and> (\<forall>c. as_callsign a = Some c \<longrightarrow> callsign_ok c)"

definition weatherInv :: "(weather_key, weather_request list) jmap \<Rightarrow> bool" where
  "weatherInv w \<longleftrightarrow> list_all (\<lambda>(k, l). l \<noteq> [] \<and> length l \<le> 8) w"

text \<open>Without a session there is no socket to IVAO, and no session is confirmed.\<close>

definition fsdInv :: "fsd \<Rightarrow> bool" where
  "fsdInv s \<longleftrightarrow> appInv (fx_app s) \<and> weatherInv (fx_weather s)
     \<and> list_all (\<lambda>(p, x). 0 < pr_session x) (fx_pairs s)
     \<and> (fx_active s = 0 \<longrightarrow> fx_ivao s = None \<and> fx_core s = None \<and> fx_confirmed s = 0)"

lemma appInv_init: "appInv createAppState"
  by (simp add: appInv_def createAppState_def)

lemma length_log_push: "length l \<le> MESSAGE_LOG_MAX \<Longrightarrow> length (log_push l x) \<le> MESSAGE_LOG_MAX"
  by (simp add: log_push_def Let_def)

lemma appInv_message: "appInv a \<Longrightarrow> appInv (fst (broadcast_message now m a))"
  by (simp add: appInv_def broadcast_message_def Let_def length_log_push)

lemma appInv_connected: "appInv a \<Longrightarrow> appInv (fst (setConnected v a))"
  by (simp add: appInv_def setConnected_def)

lemma appInv_callsign: "appInv a \<Longrightarrow> appInv (fst (setCallsign now v b a))"
  by (auto simp: appInv_def setCallsign_def Let_def)

lemma appInv_xpdr: "appInv a \<Longrightarrow> appInv (fst (updateXpdrState now c m a))"
  by (simp add: appInv_def updateXpdrState_def Let_def)

lemma appInv_plan: "appInv a \<Longrightarrow> appInv (fst (updateFlightPlanStatus now p a))"
  by (simp add: appInv_def updateFlightPlanStatus_def Let_def)

lemma appInv_weather: "appInv a \<Longrightarrow> appInv (fst (updateWeather now role kind icao t a))"
  by (cases role) (simp_all add: appInv_def updateWeather_def Let_def)

lemma appInv_station: "appInv a \<Longrightarrow> appInv (rememberStation c f p v a)"
  by (simp add: appInv_def rememberStation_def Let_def)

lemma appInv_position:
  "appInv a \<Longrightarrow> appInv (a\<lparr>as_position := p, as_samples := n, as_telemetry := t\<rparr>)"
  by (simp add: appInv_def)

lemma appInv_fsd: "appInv a \<Longrightarrow> appInv (fst (rememberFsdState now e stamp a))"
  by (cases e) (simp_all add: rememberFsdState_def Let_def appInv_station appInv_xpdr appInv_position)

lemma appInv_publish: "appInv a \<Longrightarrow> appInv (fst (publish_event now m d a))"
  by (cases "fm_event m") (simp_all add: publish_event_def publicFsdEvent_def appInv_message)

lemma appInv_reset: "appInv a \<Longrightarrow> appInv (resetFlightTelemetry a)"
  by (simp add: appInv_def resetFlightTelemetry_def)

lemmas app_invs = appInv_message appInv_connected appInv_callsign appInv_plan appInv_weather
  appInv_fsd appInv_publish appInv_reset

subsection \<open>Handlers keep it\<close>

definition keeps :: "fsd_handler \<Rightarrow> bool" where
  "keeps f \<longleftrightarrow> (\<forall>s. fsdInv s \<longrightarrow> fsdInv (fst (f s)))"

named_theorems keepers

lemma keepsD: "keeps f \<Longrightarrow> fsdInv s \<Longrightarrow> fsdInv (fst (f s))"
  by (simp add: keeps_def)

lemma kept_in_app [keepers]: "(\<And>a. appInv a \<Longrightarrow> appInv (fst (f a))) \<Longrightarrow> keeps (in_app f)"
  by (auto simp: keeps_def in_app_def fsdInv_def Let_def case_prod_beta)

lemma kept_skip [keepers]: "keeps skip"
  by (simp add: keeps_def skip_def)

lemma kept_outs [keepers]: "keeps (\<lambda>s. (s, f s))"
  by (simp add: keeps_def)

lemma kept_andThen [keepers]: "keeps f \<Longrightarrow> keeps g \<Longrightarrow> keeps (andThen f g)"
  by (simp add: keeps_def andThen_def case_prod_beta Let_def)

lemma kept_each: "(\<And>x. keeps (f x)) \<Longrightarrow> keeps (each f xs)"
proof (induction xs)
  case (Cons x xs)
  have "each f (x # xs) = andThen (f x) (each f xs)" by (rule ext) simp
  then show ?case using Cons by (simp add: kept_andThen)
qed (simp add: keeps_def)

lemma kept_if: "(b \<Longrightarrow> keeps f) \<Longrightarrow> (\<not> b \<Longrightarrow> keeps g) \<Longrightarrow> keeps (if b then f else g)"
  by simp

lemma weatherInv_save: "weatherInv w \<Longrightarrow> length l \<le> 8 \<Longrightarrow> weatherInv (if l \<noteq> [] then mput w k l else mdel w k)"
  using set_mput [of w k l] set_mdel [of w k] by (auto simp: weatherInv_def list_all_iff)

lemma fsdInv_save: "fsdInv s \<Longrightarrow> length l \<le> 8 \<Longrightarrow> fsdInv (savePendingWeatherList k l s)"
  using weatherInv_save [of "fx_weather s" l k] by (simp add: fsdInv_def savePendingWeatherList_def)

lemma fsdInv_cleanup: "fsdInv s \<Longrightarrow> fsdInv (cleanupPendingWeatherRequests now s)"
proof -
  have "length (fresh_requests now l) \<le> length l" for l by (simp add: fresh_requests_def)
  then show "fsdInv s \<Longrightarrow> ?thesis"
    by (fastforce simp: fsdInv_def cleanupPendingWeatherRequests_def weatherInv_def list_all_iff intro: le_trans)
qed

lemma pending_short: "fsdInv s \<Longrightarrow> length (pending_list s k) \<le> 8"
  by (auto simp: fsdInv_def weatherInv_def list_all_iff pending_list_def dest!: mget_in split: option.splits)

lemma fsdInv_remember: "fsdInv s \<Longrightarrow> fsdInv (rememberPendingWeatherRequest now k src role s)"
proof -
  assume i: "fsdInv s"
  let ?s = "cleanupPendingWeatherRequests now s" and ?r = "\<lparr>wr_source = src, wr_role = role, wr_requestedAt = now\<rparr>"
  let ?l = "last_eight (pending_list ?s k @ [?r])"
  have "rememberPendingWeatherRequest now k src role s = savePendingWeatherList k ?l ?s"
    by (simp add: rememberPendingWeatherRequest_def savePendingWeatherList_def last_eight_def Let_def)
  moreover have "length ?l \<le> 8" by (simp add: last_eight_def)
  ultimately show ?thesis using fsdInv_save [OF fsdInv_cleanup [OF i]] by simp
qed

lemma kept_panel: "keeps (updateWeatherPanel now kind icao t r)"
  using kept_in_app [of "updateWeather now _ kind icao t"] appInv_weather
  by (auto simp: keeps_def updateWeatherPanel_def split: option.splits)

lemma remove_first_length: "remove_first P l = Some (x, l2) \<Longrightarrow> length l = Suc (length l2)"
  by (induction l arbitrary: l2) (auto split: if_splits)

lemma fsdInv_weather: "fsdInv s \<Longrightarrow> fsdInv (fst (snd (handleWeatherReply now sender t s)))"
proof (cases "parseWeatherReply sender t")
  case (Some m)
  assume i: "fsdInv s"
  obtain kind icao body where m: "m = (kind, icao, body)" by (cases m) auto
  let ?s = "cleanupPendingWeatherRequests now s" and ?k = "(kind, icao)"
  have s: "fsdInv ?s" "length (pending_list ?s ?k) \<le> 8" using fsdInv_cleanup [OF i] pending_short by auto
  have p: "fsdInv (fst (updateWeatherPanel now kind icao body r u))" if "fsdInv u" for r u
    using keepsD [OF kept_panel that] .
  show ?thesis
    using s p fsdInv_save [OF s(1)] fsdInv_save [OF p [OF s(1)]]
    by (auto simp: handleWeatherReply_def Some m Let_def case_prod_beta dest!: remove_first_length split: option.splits)
qed (simp add: handleWeatherReply_def)

lemma kept_event: "keeps (fsd_event_handler now m direction)"
proof -
  have "fsdInv (fst (fsd_event_handler now m direction s))" if i: "fsdInv s" for s
  proof (cases "fm_event m")
    case (ChatText t sender recipient b)
    obtain w s1 o1 where w: "handleWeatherReply now sender b s = (w, s1, o1)" by (metis prod_cases3)
    have "fsdInv s1" using fsdInv_weather [OF i, of now sender b] by (simp add: w)
    then show ?thesis using keepsD [OF kept_in_app [of "publish_event now m direction"]] appInv_publish
      by (auto simp: fsd_event_handler_def ChatText w case_prod_beta Let_def)
  next
    case (Login c)
    have k: "keeps (\<lambda>s. if P s then in_app f s else (s, []))" if "keeps (in_app f)" for P f
      using that by (simp add: keeps_def)
    show ?thesis unfolding fsd_event_handler_def Login fsd_event.case
      by (rule keepsD [OF _ i]) (intro keepers k; simp add: app_invs)
  next
    case (FlightPlanFiled f)
    show ?thesis unfolding fsd_event_handler_def FlightPlanFiled fsd_event.case
      by (rule keepsD [OF _ i]) (intro keepers; simp add: app_invs)
  next
    case FlightPlanMissing
    show ?thesis unfolding fsd_event_handler_def FlightPlanMissing fsd_event.case
      by (rule keepsD [OF _ i]) (intro keepers; simp add: app_invs)
  qed (simp_all add: fsd_event_handler_def keepsD [OF _ i] keepers app_invs)
  then show ?thesis by (simp add: keeps_def)
qed

lemma kept_line: "keeps (handleFsdLine now direction line)"
proof -
  have "keeps reconnect_seen"
    using kept_in_app [of "setConnected True"] appInv_connected by (auto simp: keeps_def reconnect_seen_def)
  then have "keeps (andThen reconnect_seen (case x of None \<Rightarrow> skip | Some m \<Rightarrow> fsd_event_handler now m direction))" for x
    by (cases x) (simp_all add: keepers kept_event)
  then show ?thesis unfolding keeps_def handleFsdLine_def by simp
qed

lemma fsdInv_upd: "(\<And>x. pr_session (f x) = pr_session x) \<Longrightarrow> fsdInv s \<Longrightarrow> fsdInv (upd_pair p f s)"
proof (cases "mget (fx_pairs s) p")
  case (Some x)
  assume f: "\<And>x. pr_session (f x) = pr_session x" and i: "fsdInv s"
  have "0 < pr_session x" using i mget_in [OF Some] by (auto simp: fsdInv_def list_all_iff)
  then have "list_all (\<lambda>(p, x). 0 < pr_session x) (mput (fx_pairs s) p (f x))"
    using i f set_mput [of "fx_pairs s" p "f x"] by (auto simp: fsdInv_def list_all_iff)
  then show ?thesis using i Some by (simp add: fsdInv_def upd_pair_def)
qed (simp add: upd_pair_def)

lemma known_session: "fsdInv s \<Longrightarrow> mhas (fx_pairs s) p \<Longrightarrow> 0 < pr_session (pair_of s p)"
proof -
  assume i: "fsdInv s" and "mhas (fx_pairs s) p"
  then obtain x where x: "mget (fx_pairs s) p = Some x" by (auto simp: mhas_def)
  with i mget_in [OF x] show ?thesis by (auto simp: fsdInv_def list_all_iff pair_of_def)
qed

lemma fsdInv_end: "fsdInv s \<Longrightarrow> fsdInv (s\<lparr>fx_active := 0, fx_confirmed := 0, fx_core := None, fx_ivao := None\<rparr>)"
  by (simp add: fsdInv_def)

lemma kept_close: "keeps (close p)"
proof -
  have "fsdInv (fst (close p s))" if i: "fsdInv s" for s
  proof -
    have u: "fsdInv (upd_pair p (\<lambda>x. x\<lparr>pr_core_open := False, pr_remote_open := False\<rparr>) s)"
      by (rule fsdInv_upd [OF _ i]) simp
    have "keeps (in_app (setConnected False))" by (intro keepers) (rule appInv_connected)
    from keepsD [OF this fsdInv_end [OF u]] u show ?thesis
      by (simp add: close_def Let_def case_prod_beta)
  qed
  then show ?thesis by (simp add: keeps_def)
qed

lemma kept_upd: "keeps f \<Longrightarrow> (\<And>x. pr_session (g x) = pr_session x) \<Longrightarrow> keeps (\<lambda>s. f (upd_pair p g s))"
  by (simp add: keeps_def fsdInv_upd)

lemma kept_reject: "keeps (rejectOversizedLine p)"
  unfolding rejectOversizedLine_def using kept_close by (rule kept_upd) simp

lemma kept_await: "keeps (await_endpoint p pre post rest)"
  using kept_reject by (auto simp: keeps_def await_endpoint_def fsdInv_upd Let_def)

lemma kept_forward: "keeps (forward p b)"
  unfolding forward_def by (rule kept_outs)

lemma kept_drain_loop: "keeps (drain_loop voice now p received)"
proof -
  have "fsdInv s \<Longrightarrow> fsdInv (fst (drain_loop voice now p received s))" for s
  proof (induction voice now p received s rule: drain_loop.induct)
    case (1 voice now p received s)
    show ?case
    proof (cases "index_of 10 received")
      case None
      then show ?thesis using "1.prems" keepsD [OF kept_reject]
        by (subst drain_loop.simps) (simp add: keep_pending_def fsdInv_upd)
    next
      case (Some i)
      let ?line = "utf8_decode (take i received)" and ?rest = "drop (Suc i) received"
      let ?h = "if trim ?line \<noteq> [] then handleFsdLine now Incoming ?line else skip"
      have h: "fsdInv (fst (?h s))" using keepsD [OF kept_line "1.prems"] "1.prems" by (simp add: skip_def)
      show ?thesis
      proof (cases "i > MAX_REMOTE_LINE_BYTES")
        case True
        then show ?thesis using keepsD [OF kept_reject "1.prems"] Some by (subst drain_loop.simps) simp
      next
        case False
        have fst: "fst (andThen ?h g s) = fst (g (fst (?h s)))" for g
          by (simp add: andThen_def case_prod_beta Let_def)
        show ?thesis
        proof (cases "rewriteVoiceServer voice (take (Suc i) received)")
          case (Forward b)
          have "fst (andThen (forward p b) (drain_loop voice now p ?rest) (fst (?h s)))
              = fst (drain_loop voice now p ?rest (fst (?h s)))"
            by (simp add: andThen_def forward_def case_prod_beta Let_def)
          then show ?thesis using "1.IH"(1) [OF Some False refl refl Forward] h Some False Forward fst
            by (subst drain_loop.simps) (simp add: Let_def)
        next
          case Withheld
          then show ?thesis using "1.IH"(2) [OF Some False refl refl Withheld h] Some False fst
            by (subst drain_loop.simps) (simp add: Let_def)
        next
          case (Await pre post)
          then show ?thesis using keepsD [OF kept_await h] Some False fst
            by (subst drain_loop.simps) (simp add: Let_def)
        qed
      qed
    qed
  qed
  then show ?thesis by (simp add: keeps_def)
qed

lemma kept_drain: "keeps (drainRecords voice now p)"
  using kept_drain_loop by (simp add: keeps_def drainRecords_def Let_def)

lemma kept_open: "keeps (on_core_opened p)"
proof -
  have k: "keeps (in_app (\<lambda>a. setConnected True (resetFlightTelemetry a)))"
    by (intro keepers) (simp add: app_invs)
  have "fsdInv (s\<lparr>fx_active := Suc n, fx_core := Some p, fx_pairs := mput (fx_pairs s) p x\<rparr>)"
    if "fsdInv s" "0 < pr_session x" for s n x
    using that set_mput [of "fx_pairs s" p x] by (auto simp: fsdInv_def list_all_iff)
  then show ?thesis using keepsD [OF k] by (simp add: keeps_def on_core_opened_def Let_def)
qed

lemma kept_on_pair:
  "(\<And>s. fsdInv s \<Longrightarrow> mhas (fx_pairs s) p \<Longrightarrow> fsdInv (fst (f s))) \<Longrightarrow> keeps (on_pair p f)"
  by (simp add: keeps_def on_pair_def)

lemma kept_connect: "keeps (on_pair p (on_remote_connected p))"
proof (rule kept_on_pair)
  fix s assume i: "fsdInv s" "mhas (fx_pairs s) p"
  have "fsdInv (upd_pair p (\<lambda>x. x\<lparr>pr_remote_open := False\<rparr>) s)" by (rule fsdInv_upd [OF _ i(1)]) simp
  then show "fsdInv (fst (on_remote_connected p s))"
    using i known_session [OF i] by (auto simp: on_remote_connected_def fsdInv_def Let_def)
qed

lemma kept_core_data: "keeps (on_core_data now p b)"
proof -
  have "keeps (andThen (each (handleFsdLine now Outgoing) ls) (\<lambda>s. (s, f s)))" for ls f
    by (intro keepers kept_each kept_line)
  then show ?thesis by (auto simp: keeps_def on_core_data_def fsdInv_upd Let_def case_prod_beta)
qed

lemma kept_remote_data: "keeps (on_remote_data voice now p b)"
  using kept_reject kept_drain by (simp add: keeps_def on_remote_data_def fsdInv_upd Let_def)

lemma kept_endpoint: "keeps (on_endpoint voice now p a)"
proof -
  have "fsdInv (fst (on_endpoint voice now p a s))" if i: "fsdInv s" for s
  proof (cases "pr_waiting (pair_of s p)")
    case (Some w)
    obtain pre post where w: "w = (pre, post)" by force
    have u: "fsdInv (upd_pair p (\<lambda>x. x\<lparr>pr_waiting := None\<rparr>) s)" by (rule fsdInv_upd [OF _ i]) simp
    have "keeps (case a of Some x \<Rightarrow> if c then forward p (f x) else skip | None \<Rightarrow> skip)" for c f
      using kept_forward kept_skip by (cases a) simp_all
    then have "keeps (andThen (case a of Some x \<Rightarrow> if c then forward p (f x) else skip | None \<Rightarrow> skip)
        (andThen (drainRecords voice now p) (\<lambda>s. (s, g s))))" for c f g
      by (intro keepers kept_drain)
    from keepsD [OF this u] show ?thesis by (simp add: on_endpoint_def Some w)
  qed (simp add: on_endpoint_def i)
  then show ?thesis by (simp add: keeps_def)
qed

lemma kept_chat: "keeps (sendChatCommand now cmd)"
proof -
  have k: "keeps (andThen (\<lambda>s. (s, f s)) (in_app (broadcast_message now m)))" for f m
    by (intro keepers) (rule appInv_message)
  have "fsdInv (fst (sendChatCommand now cmd s))" if i: "fsdInv s" for s
    using keepsD [OF k i] i by (simp add: sendChatCommand_def complain_def Let_def split: option.splits)
  then show ?thesis by (simp add: keeps_def)
qed

lemma write_line: "fst (snd (writeFsdLine line s)) = s"
  by (simp add: writeFsdLine_def complain_def split: option.splits)

lemma kept_requests:
  "keeps (sendWeatherRequest now kind icao src role)" "keeps (sendAtisRequest c)"
  using write_line
  by (simp_all add: keeps_def sendWeatherRequest_def sendAtisRequest_def complain_def fsdInv_remember
      case_prod_beta Let_def split: option.splits)

lemma kept_closed: "keeps (on_core_closed p)" "keeps (on_remote_closed p)"
  unfolding on_core_closed_def on_remote_closed_def by (rule kept_upd [OF kept_close], simp)+

lemma kept_pair: "keeps f \<Longrightarrow> keeps (on_pair p f)"
  by (simp add: keeps_def on_pair_def)

lemma kept_step: "keeps (fsd_step voice e)"
proof (cases "(voice, e)" rule: fsd_step.cases)
  case (2 voice' now p)
  then show ?thesis using kept_connect [of p] by simp
qed (simp_all add: kept_open kept_pair kept_core_data kept_remote_data kept_endpoint kept_closed
    kept_chat kept_requests)

lemma fsdInv_init: "fsdInv createFsdProxy"
  by (simp add: fsdInv_def createFsdProxy_def weatherInv_def appInv_init)

text \<open>The proxy is a machine with this invariant.\<close>

interpretation fsd: machine createFsdProxy "fsd_step voice" "\<lambda>e. True" fsdInv for voice
  by unfold_locales (simp_all add: fsdInv_init keepsD [OF kept_step])

definition fsdRun :: "(jstr \<Rightarrow> endpoint) \<Rightarrow> (int \<times> fsd_in) list \<Rightarrow> fsd" where
  "fsdRun voice es = fst (run_machine (fsd_step voice) es createFsdProxy)"

lemma fsdInv_run: "fsdInv (fsdRun voice es)"
  using fsd.inv_reachable [of es voice] by (simp add: fsdRun_def fst_run_machine list_all_iff)

subsection \<open>Chat lines\<close>

lemma normalizeFsdText_head:
  assumes "normalizeFsdText v \<noteq> []"
  shows "\<not> is_ws (hd (normalizeFsdText v))"
proof -
  let ?u = "trim (squash v)"
  obtain w where w: "?u = normalizeFsdText v @ w"
    using limit_prefix [of ?u 1024] by (auto simp: normalizeFsdText_def)
  then have "hd ?u = hd (normalizeFsdText v)" "?u \<noteq> []" using assms by (auto simp: hd_append)
  then show ?thesis using trim_hd [of "squash v"] by simp
qed

lemma trim_kept_head:
  assumes "\<not> is_ws c" "t \<noteq> []" "\<not> is_ws (hd t)"
  shows "trim (c # u @ t) = c # u @ trim t"
proof -
  obtain d r where t: "t = d # r" "\<not> is_ws d" using assms(2,3) by (cases t) auto
  have "dropWhile is_ws (rev t @ rev u @ [c]) = dropWhile is_ws (rev t) @ rev u @ [c]"
    using dropWhile_append1 [of d "rev t" is_ws "rev u @ [c]"] t by simp
  then show ?thesis using assms t by (simp add: trim_def)
qed

lemma callsign_ok_char: "callsign_ok c \<Longrightarrow> x \<in> set c \<Longrightarrow> is_upper x \<or> is_digit x \<or> x = 45"
  by (auto simp: callsign_ok_def list_all_iff)

lemma parse_chat_line:
  assumes "callsign_ok cs" "58 \<notin> set r" "r \<noteq> []" "t \<noteq> []" "\<not> is_ws (hd t)"
  shows "parseFsdLine stamp (chat_line cs r t) d = Some \<lparr>fm_raw = chat_line cs r (trim t),
    fm_event = ChatText (if r = js ''FP'' then SYSTEM else recipient_type r) cs (Some r) (trim t), fm_timestamp = stamp\<rparr>"
proof -
  have cs: "58 \<notin> set cs" using callsign_ok_char [OF assms(1), of 58] by (auto simp: char_classes)
  have trim: "trim (chat_line cs r t) = chat_line cs r (trim t)"
    using trim_kept_head [of 35 t "[84, 77] @ cs @ [58] @ r @ [58]"] assms(4,5)
    by (simp add: chat_line_def js_def is_ws_def)
  have f: "FsdParser.fields (cs @ 58 # r @ 58 # trim t) = cs # r # FsdParser.fields (trim t)"
    unfolding FsdParser.fields_def using cs assms(2) by (simp add: split_on_append)
  have j: "join_fields (FsdParser.fields (trim t)) = trim t"
    by (simp add: join_fields_def FsdParser.fields_def join_split)
  have "FsdParser.fields (trim t) \<noteq> []" by (simp add: FsdParser.fields_def)
  then have "parse_chat (chat_line cs r (trim t))
      = Some (ChatText (if r = js ''FP'' then SYSTEM else recipient_type r) cs (Some r) (trim t))"
    using f j by (auto simp: parse_chat_def chat_line_def Let_def recipient_type_def js_def Suc_le_eq)
  moreover have "fsd_event_of (chat_line cs r (trim t)) d = parse_chat (chat_line cs r (trim t))"
    by (simp add: fsd_event_of_def chat_line_def js_def Let_def)
  ultimately show ?thesis by (simp add: parseFsdLine_def trim Let_def)
qed

lemma chat_sends:
  assumes "ToIvao q b \<in> set (snd (sendChatCommand now cmd s))"
  shows "\<exists>cs r t. chat_callsign cmd s = Some cs \<and> r \<noteq> [] \<and> t \<noteq> [] \<and> ivao_open s = Some q
    \<and> r = normalizeFsdRecipient (to_str (or_else (cc_recipient cmd) (JStr (js ''@22800''))))
    \<and> t = normalizeFsdText (str_or_empty (cc_text cmd)) \<and> b = utf8_encode (chat_line cs r t @ [10])"
proof -
  obtain p where p: "ivao_open s = Some p"
    using assms by (auto simp: sendChatCommand_def complain_def split: option.splits)
  obtain cs where cs: "chat_callsign cmd s = Some cs"
    using assms p by (auto simp: sendChatCommand_def complain_def Let_def split: option.splits)
  have app: "ToIvao q b \<notin> set (snd (in_app f u))" for f u
    by (auto simp: in_app_def split: prod.splits)
  show ?thesis
    using assms app
    by (auto simp: sendChatCommand_def p cs complain_def Let_def andThen_def case_prod_beta
        split: if_splits option.splits)
qed

subsection \<open>Properties\<close>

text \<open>Concrete sessions.\<close>

definition no_voice :: "jstr \<Rightarrow> endpoint" where
  "no_voice host = Refused"

definition demo_open :: "(int \<times> fsd_in) list" where
  "demo_open = [(0, CoreOpened 7), (0, RemoteConnected 7), (0, CoreData 7 (js ''#APAZA1:S'' @ [10]))]"

lemma demo_pair:
  "fx_pairs (fsdRun voice [(0, CoreOpened 7)]) = [(7, \<lparr>pr_session = 1, pr_core_open = True, pr_remote_open = True,
     pr_core_text = [], pr_pending = [], pr_waiting = None\<rparr>)]"
  "fx_active (fsdRun voice [(0, CoreOpened 7)]) = 1"
  by (simp_all add: fsdRun_def on_core_opened_def in_app_def createFsdProxy_def setConnected_def Let_def)

lemma utf8_decode_ascii: "\<forall>c \<in> set s. c < 128 \<Longrightarrow> utf8_decode s = s"
  by (induction s) (simp_all add: utf8_decode_simps)

lemma demo_login: "parseFsdLine stamp (js ''#APAZA1:S'') Outgoing
    = Some \<lparr>fm_raw = js ''#APAZA1:S'', fm_event = Login (js ''AZA1''), fm_timestamp = stamp\<rparr>"
  by (simp add: parseFsdLine_def fsd_event_of_def FsdParser.fields_def js_def Let_def trim_def is_ws_def)

lemma demo_lines: "parseLines [] (utf8_decode (js ''#APAZA1:S'' @ [10])) = ([], [js ''#APAZA1:S''])"
proof -
  have "utf8_decode (js ''#APAZA1:S'' @ [10]) = js ''#APAZA1:S'' @ [10]"
    by (rule utf8_decode_ascii) (simp add: js_def)
  then show ?thesis by (simp add: parseLines_def js_def trim_def is_ws_def)
qed

lemma demo_callsign: "callsign_ok (js ''AZA1'')" "upper (trim (js ''AZA1'')) = js ''AZA1''"
  by (simp_all add: callsign_ok_def js_def char_classes trim_def is_ws_def upper_def upper_unit_def
      upper_special_def latin_lower_def)

lemma demo_open_run:
  "as_callsign (fx_app (fsdRun voice demo_open)) = Some (js ''AZA1'')"
  "ivao_open (fsdRun voice demo_open) = Some 7"
proof -
  let ?s = "fsdRun voice [(0, CoreOpened 7), (0, RemoteConnected 7)]"
  have s: "fx_pairs ?s = [(7, \<lparr>pr_session = 1, pr_core_open = True, pr_remote_open = True,
     pr_core_text = [], pr_pending = [], pr_waiting = None\<rparr>)]" "fx_active ?s = 1" "fx_ivao ?s = Some 7"
    "as_connected (fx_app ?s)" "as_callsign (fx_app ?s) = None"
    by (simp_all add: fsdRun_def on_core_opened_def in_app_def createFsdProxy_def setConnected_def
        resetFlightTelemetry_def createAppState_def on_pair_def mhas_def on_remote_connected_def pair_of_def Let_def)
  let ?u = "fst (handleFsdLine 0 Outgoing (js ''#APAZA1:S'') (upd_pair 7 (\<lambda>x. x\<lparr>pr_core_text := []\<rparr>) ?s))"
  have r: "fsdRun voice demo_open = ?u"
    using s by (simp add: fsdRun_def demo_open_def on_pair_def mhas_def on_core_data_def pair_of_def demo_lines
        andThen_def case_prod_beta Let_def)
  have "sockets ?u = sockets (upd_pair 7 (\<lambda>x. x\<lparr>pr_core_text := []\<rparr>) ?s)"
    using calm_line [of "upd_pair 7 (\<lambda>x. x\<lparr>pr_core_text := []\<rparr>) ?s" 0 Outgoing "js ''#APAZA1:S''"]
    by (simp add: calm_def)
  then show "ivao_open (fsdRun voice demo_open) = Some 7"
    unfolding r using s by (simp add: sockets_def ivao_open_def pair_of_def upd_pair_def)
  show "as_callsign (fx_app (fsdRun voice demo_open)) = Some (js ''AZA1'')"
    unfolding r using s demo_callsign
    by (simp add: handleFsdLine_def demo_login fsd_event_handler_def andThen_def reconnect_seen_def in_app_def
        setCallsign_def setConnected_def publish_event_def publicFsdEvent_def case_prod_beta Let_def)
qed

lemma demo_chat_parts:
  "normalizeFsdRecipient (js ''@22800'') = js ''@22800''" "normalizeFsdText (js ''hi'') = js ''hi''"
proof -
  have u: "upper (trim (js ''@22800'')) = js ''@22800''"
    by (simp add: js_def trim_def is_ws_def upper_def upper_unit_def upper_special_def latin_lower_def is_lower_def)
  show "normalizeFsdRecipient (js ''@22800'') = js ''@22800''"
    unfolding normalizeFsdRecipient_def u Let_def
    by (simp add: js_def rx_match_def lit_def char_classes)
  show "normalizeFsdText (js ''hi'') = js ''hi''"
    by (simp add: normalizeFsdText_def js_def trim_def is_ws_def limitUtf8Bytes_def)
qed

definition demo_chat :: chat_command where
  "demo_chat = \<lparr>cc_callsign = None, cc_recipient = None, cc_text = Some (JStr (js ''hi''))\<rparr>"

lemma demo_chat_sent:
  "ToIvao 7 (utf8_encode (chat_line (js ''AZA1'') (js ''@22800'') (js ''hi'') @ [10]))
     \<in> set (snd (sendChatCommand now demo_chat (fsdRun voice demo_open)))"
  using demo_open_run [of voice] demo_chat_parts
  by (simp add: sendChatCommand_def chat_callsign_def demo_chat_def or_else_def andThen_def case_prod_beta Let_def)

text \<open>
  C27: the stream from IVAO reaches PilotCore record by record, whatever TCP does. For a live session,
  however the bytes are cut into chunks and whenever the chunks come, what is written to PilotCore is
  the concatenation of the images of the complete records, in order: each record itself, byte for byte,
  or the record with its VOICE host replaced, or nothing when the voice router refuses the host.
  (Records within the limit, and a router that answers at once.)
\<close>

theorem stream_by_records:
  assumes "live p s" "pr_pending (pair_of s p) = []"
    and "list_all (plain_record voice) rs" "10 \<notin> set rest" "length rest \<le> MAX_REMOTE_LINE_BYTES"
    and "concat (map snd chunks) = concat (map with_lf rs) @ rest"
  shows "to_pilot p (snd (run_machine (fsd_step voice) (remote_events p chunks) s)) = concat (map (forwarded voice) rs)"
proof (rule remote_stream [OF assms(1,3,4,5)])
  show "pr_pending (pair_of s p) @ concat (map snd chunks) = concat (map with_lf rs) @ rest"
    using assms(2,6) by simp
  show "chunks = [] \<longrightarrow> rs = []"
    using assms(6) by (cases rs) (auto simp: with_lf_def)
qed

theorem stream_by_records_witness:
  "to_pilot 7 (snd (run_machine (fsd_step no_voice) (remote_events 7 [(5, [37]), (9, [65, 10, 66, 10, 67])])
     (fsdRun no_voice [(0, CoreOpened 7)]))) = [37, 65, 10, 66, 10]"
proof -
  have f: "rewriteVoiceServer no_voice [37, 65, 10] = Forward [37, 65, 10]"
    "rewriteVoiceServer no_voice [66, 10] = Forward [66, 10]"
    by (simp_all add: rewriteVoiceServer_def js_def)
  have "to_pilot 7 (snd (run_machine (fsd_step no_voice) (remote_events 7 [(5, [37]), (9, [65, 10, 66, 10, 67])])
     (fsdRun no_voice [(0, CoreOpened 7)]))) = concat (map (forwarded no_voice) [[37, 65], [66]])"
    by (rule stream_by_records [where rest = "[67]"])
      (simp_all add: live_def pair_of_def demo_pair plain_record_def with_lf_def f MAX_REMOTE_LINE_BYTES_def)
  then show ?thesis by (simp add: forwarded_def with_lf_def f)
qed

text \<open>
  C28: a chat command is one FSD line. In every reachable state with a known callsign, whatever a
  chat command makes the proxy write to IVAO is one line: no CR or LF before its end, a text of at
  most 1024 bytes; and the line parses back to a chat message with the same sender and
  recipient and the same text (up to the white space that a cut left at its end).
\<close>

theorem chat_is_one_line:
  assumes "as_callsign (fx_app (fsdRun voice es)) = Some cs"
    and "ToIvao q b \<in> set (snd (sendChatCommand now cmd (fsdRun voice es)))"
  shows "\<exists>r t. b = utf8_encode (chat_line cs r t @ [10]) \<and> line_ok (chat_line cs r t) \<and> utf8_len t \<le> 1024
    \<and> parseFsdLine stamp (chat_line cs r t) d = Some \<lparr>fm_raw = chat_line cs r (trim t),
        fm_event = ChatText (if r = js ''FP'' then SYSTEM else recipient_type r) cs (Some r) (trim t), fm_timestamp = stamp\<rparr>"
proof -
  have cs: "callsign_ok cs" using fsdInv_run [of voice es] assms(1) by (simp add: fsdInv_def appInv_def)
  obtain r t where rt: "r \<noteq> []" "t \<noteq> []" "b = utf8_encode (chat_line cs r t @ [10])"
    "r = normalizeFsdRecipient (to_str (or_else (cc_recipient cmd) (JStr (js ''@22800''))))"
    "t = normalizeFsdText (str_or_empty (cc_text cmd))"
    using chat_sends [OF assms(2)] assms(1) by (auto simp: chat_callsign_def)
  have "10 \<notin> set cs" "13 \<notin> set cs" using callsign_ok_char [OF cs, of 10] callsign_ok_char [OF cs, of 13]
    by (auto simp: char_classes)
  moreover have "10 \<notin> set r" "13 \<notin> set r" "58 \<notin> set r" unfolding rt(4) by (rule recipient_separators)+
  moreover have "10 \<notin> set t" "13 \<notin> set t" unfolding rt(5) using normalizeFsdText_line by blast+
  ultimately have "line_ok (chat_line cs r t)" "58 \<notin> set r"
    by (auto simp: line_ok_def chat_line_def js_def)
  moreover have "utf8_len t \<le> 1024" unfolding rt(5) by (rule normalizeFsdText_len)
  moreover have "\<not> is_ws (hd t)" using rt(2) normalizeFsdText_head unfolding rt(5) by blast
  ultimately show ?thesis using parse_chat_line [OF cs _ rt(1,2)] rt(3) by blast
qed

theorem chat_is_one_line_witness:
  "\<exists>r t. utf8_encode (chat_line (js ''AZA1'') (js ''@22800'') (js ''hi'') @ [10])
      = utf8_encode (chat_line (js ''AZA1'') r t @ [10])
    \<and> line_ok (chat_line (js ''AZA1'') r t) \<and> utf8_len t \<le> 1024
    \<and> parseFsdLine [] (chat_line (js ''AZA1'') r t) Incoming = Some \<lparr>fm_raw = chat_line (js ''AZA1'') r (trim t),
        fm_event = ChatText (if r = js ''FP'' then SYSTEM else recipient_type r) (js ''AZA1'') (Some r) (trim t),
        fm_timestamp = []\<rparr>"
  by (rule chat_is_one_line [OF demo_open_run(1) demo_chat_sent [of 0 no_voice]])

text \<open>
  the agent's memory of a session is bounded. After every run the message history has at most 200
  entries, every list of pending weather requests has one to eight entries, and without an active
  session no socket to IVAO is in use.
\<close>

theorem agent_bounded:
  "length (as_log (fx_app (fsdRun voice es))) \<le> 200
   \<and> list_all (\<lambda>(k, l). l \<noteq> [] \<and> length l \<le> 8) (fx_weather (fsdRun voice es))
   \<and> (fx_active (fsdRun voice es) = 0 \<longrightarrow> ivao_open (fsdRun voice es) = None)"
  using fsdInv_run [of voice es]
  by (simp add: fsdInv_def appInv_def weatherInv_def MESSAGE_LOG_MAX_def ivao_open_def)

theorem agent_bounded_witness: "ivao_open (fsdRun no_voice []) = None"
  using agent_bounded [of no_voice "[]"] by (simp add: fsdRun_def createFsdProxy_def)

subsection \<open>What the model shows beyond\<close>

text \<open>
  Session ids are used again: \<open>close\<close> sets \<open>activeSessionId\<close> to 0, so the next connection gets id 1.
  An older pair with the same id that is still open then counts as the current session: its close
  marks the new session as disconnected and drops its socket.
\<close>

lemma session_id_reused:
  "fx_active (fsdRun no_voice [(0, CoreOpened 1), (1, CoreOpened 2), (2, CoreClosed 2),
      (3, CoreOpened 3), (4, RemoteConnected 3)]) = 1"
  "ivao_open (fsdRun no_voice [(0, CoreOpened 1), (1, CoreOpened 2), (2, CoreClosed 2),
      (3, CoreOpened 3), (4, RemoteConnected 3)]) = Some 3"
  "ivao_open (fsdRun no_voice [(0, CoreOpened 1), (1, CoreOpened 2), (2, CoreClosed 2),
      (3, CoreOpened 3), (4, RemoteConnected 3), (5, CoreClosed 1)]) = None"
  by (simp_all add: fsdRun_def on_core_opened_def in_app_def createFsdProxy_def setConnected_def on_pair_def
      mhas_def on_remote_connected_def pair_of_def on_core_closed_def close_def upd_pair_def ivao_open_def Let_def)

text \<open>The bytes for a pair that was superseded but is still open are kept and never read.\<close>

lemma superseded_pair_grows:
  assumes "mhas (fx_pairs s) p" "pr_session (pair_of s p) \<noteq> fx_active s" "pr_waiting (pair_of s p) = None"
  shows "pr_pending (pair_of (fst (on_remote_data voice now p c s)) p) = pr_pending (pair_of s p) @ c"
  using assms by (simp add: on_remote_data_def drainRecords_def Let_def)

text \<open>The callsign of a local command is not checked: it can end the line and start another.\<close>

lemma local_callsign_injects:
  assumes "as_callsign (fx_app s) = None" "ivao_open s = Some p"
  shows "ToIvao p (utf8_encode (js ''#TMA'' @ [10] @ js ''#DPA:@22800:hi'' @ [10]))
    \<in> set (snd (sendChatCommand now (demo_chat\<lparr>cc_callsign := Some (JStr (js ''A'' @ [10] @ js ''#DPA''))\<rparr>) s))"
  using assms demo_chat_parts
  by (simp add: sendChatCommand_def chat_callsign_def demo_chat_def or_else_def opt_truthy_def chat_line_def
      js_def andThen_def case_prod_beta Let_def)

end
