(* ===== verification/PilotFacts.thy ===== *)
theory PilotFacts
  imports PilotCore
begin

section \<open>Facts about the packets\<close>

text \<open>
  The reader of MessagePack values never runs out of fuel and reads back what the encoder wrote;
  the frame reader finds the frames of a valid stream whatever the chunks; the kHz of a frequency
  packet are exact.
\<close>

named_theorems mp_simps

lemma take_bytes_Inr: "take_bytes n s = Inr (b, t) \<longleftrightarrow> s = b @ t \<and> length b = n"
  by (auto simp: take_bytes_def)

lemma take_bytes_append [simp, mp_simps]: "length b = n \<Longrightarrow> take_bytes n (b @ t) = Inr (b, t)"
  by (simp add: take_bytes_Inr)

lemma take_bytes_Inl: "take_bytes n s = Inl e \<Longrightarrow> e = Truncated"
  by (auto simp: take_bytes_def split: if_splits)

lemma read_number_Inr: "read_number n conv s = Inr (v, t) \<Longrightarrow> length t \<le> length s"
  by (auto simp: read_number_def take_bytes_Inr split: sum.splits)

lemma readString_Inr: "readString n s = Inr (v, t) \<Longrightarrow> length t \<le> length s"
  by (auto simp: readString_def take_bytes_Inr split: sum.splits)

lemma read_length_Inr: "read_length w s = Inr (n, t) \<Longrightarrow> length t \<le> length s"
  by (auto simp: read_length_def take_bytes_Inr split: sum.splits)

lemma read_errors:
  "read_number n conv s = Inl e \<Longrightarrow> e = Truncated"
  "readString n s = Inl e \<Longrightarrow> e = Truncated"
  "read_length n s = Inl e \<Longrightarrow> e = Truncated"
  by (auto simp: read_number_def readString_def read_length_def dest: take_bytes_Inl split: sum.splits)

lemma write_le_digits [mp_simps]:
  "write_le 2 n = [n mod 256, n div 256 mod 256]"
  "write_le 3 n = [n mod 256, n div 256 mod 256, n div 65536 mod 256]"
  "write_le 4 n = [n mod 256, n div 256 mod 256, n div 65536 mod 256, n div 16777216 mod 256]"
proof -
  have *: "2 = Suc (Suc 0)" "3 = Suc (Suc (Suc 0))" "4 = Suc (Suc (Suc (Suc 0)))" by simp_all
  show "write_le 2 n = [n mod 256, n div 256 mod 256]"
    "write_le 3 n = [n mod 256, n div 256 mod 256, n div 65536 mod 256]"
    "write_le 4 n = [n mod 256, n div 256 mod 256, n div 65536 mod 256, n div 16777216 mod 256]"
    unfolding * write_le.simps by (simp_all add: div_mult2_eq [symmetric])
qed

lemma write_be_digits [mp_simps]:
  "write_be 2 n = [n div 256 mod 256, n mod 256]"
  "write_be 4 n = [n div 16777216 mod 256, n div 65536 mod 256, n div 256 mod 256, n mod 256]"
  by (simp_all add: write_be_def write_le_digits)

lemma pack_number_nat [mp_simps]: "pack_number (Fin (of_nat n)) = pack_nat n"
  by (simp add: pack_number_def is_integer_def)

subsection \<open>Fuel\<close>

text \<open>A result that leaves at most \<open>n\<close> bytes, and is not the lack of fuel when \<open>n\<close> is below the fuel.\<close>

definition within_fuel :: "nat \<Rightarrow> bool \<Rightarrow> ('a \<times> bytes) packed \<Rightarrow> bool" where
  "within_fuel n b r = (case r of Inl e \<Rightarrow> b \<longrightarrow> e \<noteq> NoFuel | Inr (v, t) \<Rightarrow> length t \<le> n)"

lemma within_fuel_Inl [simp]: "within_fuel n b (Inl e) \<longleftrightarrow> (b \<longrightarrow> e \<noteq> NoFuel)"
  by (simp add: within_fuel_def)

lemma within_fuel_Inr [simp]: "within_fuel n b (Inr (v, t)) \<longleftrightarrow> length t \<le> n"
  by (simp add: within_fuel_def)

lemma within_fuel_reads:
  "within_fuel (length s) b (read_number n conv s)"
  "within_fuel (length s) b (readString n s)"
  "within_fuel (length s) b (read_length n s)"
  using read_number_Inr [of n conv s] readString_Inr [of n s] read_length_Inr [of n s]
  by (auto simp: within_fuel_def dest: read_errors split: sum.splits)

lemma within_fuel_bind:
  assumes "within_fuel n b r" "\<And>v t. r = Inr (v, t) \<Longrightarrow> length t \<le> n \<Longrightarrow> within_fuel m b (f v t)"
  shows "within_fuel m b (case r of Inl e \<Rightarrow> Inl e | Inr (v, t) \<Rightarrow> f v t)"
  using assms by (cases r) (auto split: prod.splits)

lemma within_fuel_mono: "within_fuel n b r \<Longrightarrow> n \<le> m \<Longrightarrow> (c \<Longrightarrow> b) \<Longrightarrow> within_fuel m c r"
  by (auto simp: within_fuel_def split: sum.splits)

lemma mp_fuel:
  "within_fuel (length s - 1) (length s < k) (mp_read k s)"
  "within_fuel (length s) (length s < k) (mp_array k n s)"
  "within_fuel (length s) (length s < k) (mp_map k n s)"
  "within_fuel (length s) (length s < k) (mp_items k n s)"
  "within_fuel (length s) (length s < k) (mp_pairs k n ps s)"
proof (induction k s and k n s and k n s and k n s and k n ps s
    rule: mp_read_mp_array_mp_map_mp_items_mp_pairs.induct)
  case (3 k m s)
  show ?case
  proof (cases "marker_shape m")
    case (TextL w)
    show ?thesis unfolding mp_read.simps TextL shape.case
      by (rule within_fuel_bind [OF within_fuel_reads(3)])
        (rule within_fuel_mono [OF within_fuel_reads(2)], auto)
  next
    case (Number n conv)
    then show ?thesis using within_fuel_reads(1) [of s _ n conv] by simp
  next
    case (Text n)
    then show ?thesis using within_fuel_reads(2) [of s _ n] by simp
  next
    case (Items n)
    then show ?thesis using "3.IH"(1) [OF Items] by (simp add: within_fuel_mono)
  next
    case (Pairs n)
    then show ?thesis using "3.IH"(3) [OF Pairs] by (simp add: within_fuel_mono)
  next
    case (ItemsL w)
    show ?thesis unfolding mp_read.simps ItemsL shape.case
      by (rule within_fuel_bind [OF within_fuel_reads(3)])
        (rule within_fuel_mono [OF "3.IH"(2) [OF ItemsL _ refl]], auto)
  next
    case (PairsL w)
    show ?thesis unfolding mp_read.simps PairsL shape.case
      by (rule within_fuel_bind [OF within_fuel_reads(3)])
        (rule within_fuel_mono [OF "3.IH"(4) [OF PairsL _ refl]], auto)
  qed simp_all
next
  case (4 k n s)
  then show ?case by (auto intro!: within_fuel_bind)
next
  case (5 k n s)
  then show ?case by (auto intro!: within_fuel_bind)
next
  case (7 k n s)
  show ?case unfolding mp_items.simps
    by (rule within_fuel_bind [OF "7.IH"(1)], rule within_fuel_bind [OF within_fuel_mono [OF "7.IH"(2) [OF _ refl]]]) auto
next
  case (9 k n ps s)
  show ?case unfolding mp_pairs.simps
  proof (rule within_fuel_bind [OF "9.IH"(1)])
    fix key t
    assume key: "mp_read k s = Inr (key, t)" "length t \<le> length s - 1"
    have "within_fuel (length t - 1) (length s < k) (mp_read k t)"
      by (rule within_fuel_mono [OF "9.IH"(2) [OF key(1) refl]]) (use key(2) in auto)
    then show "within_fuel (length s) (length s < k)
        (case mp_read k t of Inl e \<Rightarrow> Inl e | Inr (v, u) \<Rightarrow> mp_pairs k n (mput ps (to_str key) v) u)"
    proof (rule within_fuel_bind)
      fix v u
      assume v: "mp_read k t = Inr (v, u)" "length u \<le> length t - 1"
      show "within_fuel (length s) (length s < k) (mp_pairs k n (mput ps (to_str key) v) u)"
        by (rule within_fuel_mono [OF "9.IH"(3) [OF key(1) refl v(1) refl]]) (use key(2) v(2) in auto)
    qed
  qed
qed simp_all

lemma decode_never_out_of_fuel: "decodeMessagePack b \<noteq> Inl NoFuel"
  using mp_fuel(1) [of b "Suc (length b)"]
  by (auto simp: decodeMessagePack_def split: sum.splits)

text \<open>More fuel changes no result but the lack of it.\<close>

lemma mp_more:
  "mp_read k s \<noteq> Inl NoFuel \<Longrightarrow> mp_read (Suc k) s = mp_read k s"
  "mp_array k n s \<noteq> Inl NoFuel \<Longrightarrow> mp_array (Suc k) n s = mp_array k n s"
  "mp_map k n s \<noteq> Inl NoFuel \<Longrightarrow> mp_map (Suc k) n s = mp_map k n s"
  "mp_items k n s \<noteq> Inl NoFuel \<Longrightarrow> mp_items (Suc k) n s = mp_items k n s"
  "mp_pairs k n ps s \<noteq> Inl NoFuel \<Longrightarrow> mp_pairs (Suc k) n ps s = mp_pairs k n ps s"
proof (induction k s and k n s and k n s and k n s and k n ps s
    rule: mp_read_mp_array_mp_map_mp_items_mp_pairs.induct)
  case (3 k m s)
  then show ?case by (cases "marker_shape m") (auto simp del: mp_array.simps mp_map.simps split: sum.splits prod.splits)
next
  case (4 k n s)
  then show ?case by (auto split: sum.splits prod.splits if_splits)
next
  case (5 k n s)
  then show ?case by (auto split: sum.splits prod.splits if_splits)
next
  case (7 k n s)
  then show ?case
  proof (cases "mp_read k s")
    case (Inr r)
    obtain v t where r: "r = (v, t)" by force
    have "mp_read (Suc k) s = Inr (v, t)" using "7.IH"(1) Inr r by simp
    moreover have "mp_items k n t \<noteq> Inl NoFuel" using "7.prems" Inr r by auto
    ultimately show ?thesis using "7.IH"(2) [OF Inr r [symmetric]] Inr r by simp
  qed simp
next
  case (9 k n ps s)
  then show ?case
  proof (cases "mp_read k s")
    case (Inr r)
    obtain key t where r: "r = (key, t)" by force
    have k: "mp_read (Suc k) s = Inr (key, t)" using "9.IH"(1) Inr r by simp
    show ?thesis
    proof (cases "mp_read k t")
      case i: (Inr q)
      obtain v u where q: "q = (v, u)" by force
      have "mp_read (Suc k) t = Inr (v, u)" using "9.IH"(2) [OF Inr r [symmetric]] "9.prems" Inr r i q by simp
      moreover have "mp_pairs k n (mput ps (to_str key) v) u \<noteq> Inl NoFuel" using "9.prems" Inr r i q by simp
      ultimately show ?thesis using "9.IH"(3) [OF Inr r [symmetric] i q [symmetric]] Inr r i q k by simp
    qed (use "9.IH"(2) [OF Inr r [symmetric]] "9.prems" Inr r k in simp)
  qed simp
qed simp_all

lemma mp_enough: "length s < k \<Longrightarrow> mp_read (k + j) s = mp_read k s"
proof (induction j)
  case (Suc j)
  have "mp_read (k + j) s \<noteq> Inl NoFuel" using mp_fuel(1) [of s "k + j"] Suc.prems by (auto simp: within_fuel_def)
  then show ?case using mp_more(1) [of "k + j" s] Suc by simp
qed simp

subsection \<open>Values survive a round trip\<close>

text \<open>Texts without lone surrogates; those are replaced when they are encoded.\<close>

fun packable :: "json \<Rightarrow> bool" where
  "packable (JStr s) = well_formed s"
| "packable (JArr xs) = list_all packable xs"
| "packable v = True"

lemma read_be_2 [mp_simps]: "n \<le> 65535 \<Longrightarrow> read_be (write_be 2 n) = n"
  by (rule read_write_be) simp

lemma read_be_4 [mp_simps]: "n \<le> 4294967295 \<Longrightarrow> read_be (write_be 4 n) = n"
  by (rule read_write_be) simp

lemma read_be_1 [mp_simps]: "read_be [n] = n"
  by (simp add: read_be_def)

lemma pack_nat_read:
  assumes "pack_nat n = Inr b" "length b \<le> k"
  shows "mp_read k (b @ t) = Inr (JNum (fin_nat n), t)"
proof -
  obtain j where k: "k = Suc j" using assms by (cases k) (auto simp: pack_nat_def split: if_splits)
  consider "n < 128" "b = [n]" | "128 \<le> n" "n \<le> 255" "b = [204, n]"
    | "n \<le> 65535" "b = 205 # write_be 2 n" | "n \<le> 4294967295" "b = 206 # write_be 4 n"
    using assms(1) by (auto simp: pack_nat_def split: if_splits)
  then show ?thesis
  proof cases
    case 1
    then show ?thesis by (simp add: k marker_shape_def)
  next
    case 2
    then show ?thesis using take_bytes_append [of "[n]" 1 t]
      by (simp add: k marker_shape_def read_number_def read_be_1)
  next
    case 3
    then show ?thesis by (simp add: k marker_shape_def read_number_def read_be_2)
  next
    case 4
    then show ?thesis by (simp add: k marker_shape_def read_number_def read_be_4)
  qed
qed

lemma pack_number_read:
  assumes "pack_number x = Inr b" "length b \<le> k"
  shows "mp_read k (b @ t) = Inr (JNum x, t)"
proof -
  obtain q where x: "x = Fin q" "is_integer x" "0 \<le> q" "pack_nat (nat \<lfloor>q\<rfloor>) = Inr b"
    using assms(1) by (auto simp: pack_number_def split: jnum.splits if_splits)
  then obtain i where q: "q = of_int i" by (auto simp: is_integer_def elim: Ints_cases)
  with x(3) have "fin_nat (nat \<lfloor>q\<rfloor>) = x" by (simp add: fin_nat_def x(1))
  with pack_nat_read [OF x(4) assms(2)] show ?thesis by simp
qed

lemma pack_string_read:
  assumes "pack_string body = Inr b" "length b \<le> k"
  shows "mp_read k (b @ t) = Inr (JStr (utf8_decode body), t)"
proof -
  let ?n = "length body"
  obtain j where k: "k = Suc j" using assms by (cases k) (auto simp: pack_string_def Let_def split: if_splits)
  consider "?n < 32" "b = (160 + ?n) # body" | "32 \<le> ?n" "?n \<le> 255" "b = 217 # ?n # body"
    | "?n \<le> 65535" "b = 218 # write_be 2 ?n @ body"
    using assms(1) by (auto simp: pack_string_def Let_def split: if_splits)
  then show ?thesis
  proof cases
    case 1
    moreover have "(160 + ?n) mod 32 = ?n" using 1 by (simp add: mod_add_left_eq [symmetric])
    ultimately show ?thesis by (simp add: k marker_shape_def readString_def)
  next
    case 2
    then show ?thesis using take_bytes_append [of "[?n]" 1 "body @ t"]
      by (simp add: k marker_shape_def readString_def read_length_def read_be_1)
  next
    case 3
    then show ?thesis by (simp add: k marker_shape_def readString_def read_length_def read_be_2)
  qed
qed

lemma encode_ne: "encodeMessagePack v = Inr b \<Longrightarrow> b \<noteq> []"
  by (cases v) (auto simp: pack_number_def pack_nat_def pack_string_def Let_def split: if_splits jnum.splits sum.splits)

lemma encode_read:
  "encodeMessagePack v = Inr b \<Longrightarrow> packable v \<Longrightarrow> length b \<le> k \<Longrightarrow> mp_read k (b @ t) = Inr (v, t)"
  "encode_items vs = Inr b \<Longrightarrow> list_all packable vs \<Longrightarrow> length b \<le> k \<Longrightarrow>
     mp_items k (length vs) (b @ t) = Inr (vs, t)"
proof (induction v and vs arbitrary: k b t and k b t rule: encodeMessagePack_encode_items.induct)
  case 1
  then show ?case by (cases k) (auto simp: marker_shape_def)
next
  case (2 c)
  then show ?case by (cases k) (auto simp: marker_shape_def)
next
  case (3 x)
  then show ?case by (simp add: pack_number_read)
next
  case (4 s)
  then show ?case by (simp add: pack_string_read utf8_roundtrip)
next
  case (5 xs)
  let ?n = "length xs"
  obtain c where c: "?n < 16" "encode_items xs = Inr c" "b = (144 + ?n) # c"
    using "5.prems"(1) by (auto split: if_splits sum.splits)
  obtain j where k: "k = Suc j" "length c \<le> j" using "5.prems"(3) c(3) by (cases k) auto
  have "mp_items j ?n (c @ t) = Inr (xs, t)"
    using "5.IH" "5.prems"(2) c k by simp
  moreover have "marker_shape (144 + ?n) = Items ?n" using c(1) by (simp add: marker_shape_def mod_add_left_eq [symmetric])
  ultimately show ?case using c k by simp
next
  case (8 x xs)
  obtain c d where cd: "encodeMessagePack x = Inr c" "encode_items xs = Inr d" "b = c @ d"
    using "8.prems"(1) by (auto split: sum.splits)
  have "mp_read k (c @ d @ t) = Inr (x, d @ t)"
    using "8.IH"(1) [OF cd(1)] "8.prems" cd by simp
  moreover have "mp_items k (length xs) (d @ t) = Inr (xs, t)"
    using "8.IH"(2) [OF cd(1,2)] "8.prems" cd by simp
  ultimately show ?case using cd by simp
qed auto

lemma decode_encode:
  assumes "encodeMessagePack v = Inr b" "packable v"
  shows "decodeMessagePack b = Inr v"
  using encode_read(1) [OF assms, of "Suc (length b)" "[]"] by (simp add: decodeMessagePack_def)

subsection \<open>Frames in chunks\<close>

text \<open>A frame whose body is within the limit.\<close>

definition frame_of :: "bytes \<Rightarrow> bytes" where
  "frame_of body = write_le 4 (length body) @ body"

definition valid_body :: "bytes \<Rightarrow> bool" where
  "valid_body body \<longleftrightarrow> body \<noteq> [] \<and> length body \<le> MAX_PILOT_CORE_FRAME_BYTES"

definition seen :: "bytes list \<Rightarrow> json list" where
  "seen bodies = concat (map (\<lambda>b. observed (decodeMessagePack b)) bodies)"

lemma seen_simps [simp]: "seen [] = []" "seen (b # bs) = observed (decodeMessagePack b) @ seen bs"
  "seen (as @ bs) = seen as @ seen bs"
  by (simp_all add: seen_def)

lemma length_frame [simp]: "length (frame_of b) = 4 + length b"
  by (simp add: frame_of_def)

lemma frame_length:
  assumes "valid_body b" "x @ r = frame_of b @ s" "4 \<le> length x"
  shows "read_le (take 4 x) = length b"
proof -
  have "take 4 x = take 4 (x @ r)" using assms(3) by simp
  also have "\<dots> = write_le 4 (length b)" by (simp add: assms(2) frame_of_def)
  finally show ?thesis
    using assms(1) by (simp add: read_write_le valid_body_def MAX_PILOT_CORE_FRAME_BYTES_def)
qed

lemma drain_frame:
  assumes "valid_body b"
  shows "drain_frames (frame_of b @ s) = (let (p, ms) = drain_frames s in (p, observed (decodeMessagePack b) @ ms))"
  using frame_length [OF assms, of "frame_of b @ s" "[]" s] assms
  by (subst drain_frames.simps)
    (auto simp: valid_body_def frame_of_def Let_def split: prod.splits)

lemma drain_partial:
  assumes "valid_body b" "x @ r = frame_of b @ s" "length x < 4 + length b"
  shows "drain_frames x = (x, [])"
proof (cases "length x < 4")
  case True
  then show ?thesis by (subst drain_frames.simps) simp
next
  case False
  then show ?thesis using frame_length [OF assms(1,2)] assms
    by (subst drain_frames.simps) (auto simp: valid_body_def)
qed

lemma drain_valid:
  assumes "list_all valid_body bs" "x @ r = concat (map frame_of bs)"
  shows "\<exists>ds rest p. bs = ds @ rest \<and> drain_frames x = (p, seen ds) \<and> p @ r = concat (map frame_of rest)
      \<and> (r = [] \<longrightarrow> rest = [])"
  using assms
proof (induction bs arbitrary: x)
  case Nil
  then show ?case by (subst drain_frames.simps) simp
next
  case (Cons b bs)
  show ?case
  proof (cases "length x < 4 + length b")
    case True
    have "r \<noteq> []" using Cons.prems(2) True by (cases r) (auto dest: arg_cong [of _ _ length])
    then show ?thesis
      using drain_partial [of b x r "concat (map frame_of bs)"] Cons.prems True
      by (intro exI [of _ "[]"] exI [of _ "b # bs"] exI [of _ x]) auto
  next
    case False
    let ?y = "drop (4 + length b) x"
    have "take (4 + length b) x = take (4 + length b) (x @ r)" using False by simp
    then have x: "x = frame_of b @ ?y"
      using Cons.prems(2) append_take_drop_id [of "4 + length b" x] by simp
    then have y: "?y @ r = concat (map frame_of bs)"
      using Cons.prems(2) by (metis append.assoc concat.simps(2) list.simps(9) same_append_eq)
    obtain ds rest p where d: "bs = ds @ rest" "drain_frames ?y = (p, seen ds)"
      "p @ r = concat (map frame_of rest)" "r = [] \<longrightarrow> rest = []"
      using Cons.IH [OF _ y] Cons.prems(1) by auto
    have "drain_frames x = (p, seen (b # ds))"
      using drain_frame [of b ?y] Cons.prems(1) d(2) x by simp
    then show ?thesis using d(1,3,4) by (intro exI [of _ "b # ds"] exI [of _ rest] exI [of _ p]) simp
  qed
qed

lemma drain_stable: "drain_frames x = (p, ms) \<Longrightarrow> drain_frames p = (p, [])"
proof (induction x arbitrary: p ms rule: drain_frames.induct)
  case (1 x)
  let ?n = "read_le (take 4 x)"
  show ?case
  proof (cases "length x < 4 \<or> ?n < 1 \<or> ?n > MAX_PILOT_CORE_FRAME_BYTES \<or> length x < ?n + 4")
    case True
    then have "p = x \<and> ms = [] \<or> p = []"
      using "1.prems" by (subst (asm) drain_frames.simps) (auto simp: Let_def split: if_splits)
    then show ?thesis using "1.prems" by (auto simp: drain_frames.simps [of "[]"])
  next
    case False
    then obtain q ns where "drain_frames (drop (?n + 4) x) = (q, ns)" "p = q"
      using "1.prems" by (subst (asm) drain_frames.simps) (auto simp: Let_def split: prod.splits)
    then show ?thesis using "1.IH" [OF _ refl] False by simp
  qed
qed

lemma feed_frames:
  assumes "list_all valid_body bs" "p @ concat cs = concat (map frame_of bs)" "drain_frames p = (p, [])"
  shows "feed_all push_frames p cs = ([], seen bs)"
  using assms
proof (induction cs arbitrary: p bs)
  case Nil
  then show ?case using drain_valid [of bs p "[]"] by auto
next
  case (Cons c cs)
  show ?case
  proof (cases "c = []")
    case True
    then show ?thesis using Cons by (simp add: push_frames_def)
  next
    case False
    obtain ds rest q where d: "bs = ds @ rest" "drain_frames (p @ c) = (q, seen ds)"
      "q @ concat cs = concat (map frame_of rest)"
      using drain_valid [OF Cons.prems(1), of "p @ c" "concat cs"] Cons.prems(2) by auto
    have "feed_all push_frames q cs = ([], seen rest)"
      using Cons.IH [OF _ d(3) drain_stable [OF d(2)]] Cons.prems(1) d(1) by simp
    then show ?thesis using False d(1,2) by (simp add: push_frames_def [of p c])
  qed
qed

lemma frame_bodies:
  assumes "makeMessagePackFrame type v = Inr f" "packable v"
  obtains body where "f = frame_of body" "body \<noteq> []"
    "observed (decodeMessagePack body) = [JArr [JNum (Fin (of_nat type)), v]]"
proof -
  let ?a = "JArr [JNum (Fin (of_nat type)), v]"
  obtain body where b: "encodeMessagePack ?a = Inr body" "f = frame_of body"
    using assms(1) unfolding makeMessagePackFrame_def frame_of_def
    by (cases "encodeMessagePack ?a") auto
  have "decodeMessagePack body = Inr ?a" using decode_encode [OF b(1)] assms(2) by simp
  with b encode_ne [OF b(1)] that show ?thesis by (simp add: observed_def)
qed

subsection \<open>Exact kHz\<close>

lemma write_u24_nat: "n \<le> 16777215 \<Longrightarrow> write_u24 (Fin (of_nat n)) = Inr (write_le 3 n)"
  by (simp add: write_u24_def)

lemma to_khz_exact:
  assumes "100000 \<le> k" "k < (200000 :: nat)"
  shows "to_khz (fl (of_nat k / 1000)) = Fin (of_nat k)"
proof -
  obtain v where v: "fl (of_nat k / 1000) = Fin v" "\<bar>v - of_nat k / 1000\<bar> < 1 / 10 ^ 6"
    using fl_khz [OF assms] by blast
  have k: "100000 \<le> (of_nat k :: rat)" "(of_nat k :: rat) < 200000"
    using assms by (metis of_nat_le_iff of_nat_numeral, metis of_nat_less_iff of_nat_numeral)
  have v1: "\<bar>v * 1000 - of_nat k\<bar> < 1 / 1000" using v(2) unfolding abs_less_iff by (simp add: field_simps)
  then have b: "1 \<le> v * 1000" "v * 1000 < 200001" using k unfolding abs_less_iff by linarith+
  have "v * 1000 < 2 ^ 1000" by (rule less_trans [OF b(2)]) simp
  from fl_error [OF b(1) this] obtain w where w: "fl (v * 1000) = Fin w" "\<bar>w - v * 1000\<bar> \<le> v * 1000 / 2 ^ 53"
    by blast
  have "v * 1000 / 2 ^ 53 < 200001 / 2 ^ 53" using b(2) by (simp add: divide_strict_right_mono)
  also have "\<dots> < 1 / (1000000 :: rat)" by simp
  finally have "\<bar>w - v * 1000\<bar> < 1 / 1000000" using w(2) by linarith
  then have "\<bar>w - of_nat k\<bar> < 1 / 2" using v1 unfolding abs_less_iff by (elim conjE, intro conjI) linarith+
  then have "\<lfloor>w + 1 / 2\<rfloor> = int k" unfolding abs_less_iff by (intro floor_eq_int) (auto simp: field_simps)
  then show ?thesis by (simp add: to_khz_def v(1) w(1) math_round_def)
qed

lemma freq_packet:
  assumes "digits5 a b c d e"
  shows "makeFreqPacket com (freq_text a b c d e)
    = Inr ([7, 0, 0, 0, 32, 32, com mod 256] @ write_le 3 (freq_khz a b c d e) @ [0])"
  using freq_khz_bounds [OF assms] freq_text_number [OF assms]
  by (simp add: makeFreqPacket_def to_khz_exact write_u24_nat)

end
