(* ===== verification/PilotBridge.thy ===== *)
theory PilotBridge
  imports PilotCore RelayBase
begin

section \<open>The bridge between PilotUI and PilotCore (proxy/pilot-bridge.js)\<close>

text \<open>
  Every connection of PilotUI gets one connection to PilotCore. What either side sends is read
  for callsigns and frequencies and forwarded unchanged, but for the address of the FSD server,
  which the bridge replaces. A connection is numbered by the event that opens it; a socket that
  was destroyed no longer takes writes, and its own \<open>close\<close> comes as a later event. Logs and
  traces are not modelled.
\<close>

subsection \<open>Callsigns\<close>

definition callsign_unit :: "nat \<Rightarrow> bool" where
  "callsign_unit c = (is_upper c \<or> is_digit c \<or> c = 45)"

text \<open>
  \<open>/([A-Z0-9-]{2,10})\|\d{4,7}\|/\<close> at the head of a text. Both classes exclude the bar, so a
  match takes the whole runs.
\<close>

definition callsign_at :: "jstr \<Rightarrow> jstr option" where
  "callsign_at s =
     (let (cs, r) = span callsign_unit s in
      case r of [] \<Rightarrow> None
      | bar # r2 \<Rightarrow>
        (let (vid, r3) = span is_digit r2 in
         if 2 \<le> length cs \<and> length cs \<le> 10 \<and> bar = 124 \<and> 4 \<le> length vid \<and> length vid \<le> 7
            \<and> r3 \<noteq> [] \<and> hd r3 = 124
         then Some cs else None))"

fun learnCallsignFromText :: "jstr \<Rightarrow> jstr option" where
  "learnCallsignFromText [] = None"
| "learnCallsignFromText (c # s) =
     (case callsign_at (c # s) of Some cs \<Rightarrow> Some cs | None \<Rightarrow> learnCallsignFromText s)"

subsection \<open>COM frequencies\<close>

text \<open>A frequency seen: the radio and the value, in MHz or as a text.\<close>

type_synonym com_seen = "nat \<times> json"

fun legacy_freqs :: "bytes \<Rightarrow> com_seen list" where
  "legacy_freqs [] = []"
| "legacy_freqs (b # s) =
     (let data = b # s; com = data ! 6; khz = read_le (take 3 (drop 7 data)) in
      if length data \<le> 10 then []
      else if b = 7 \<and> data ! 4 = 32 \<and> data ! 5 = 32 \<and> (com = 1 \<or> com = 2) \<and> 118000 \<le> khz \<and> khz \<le> 137000
      then (com, JNum (fl (of_nat khz / 1000))) # legacy_freqs s
      else legacy_freqs s)"

definition is_word :: "nat \<Rightarrow> bool" where
  "is_word c = (is_upper c \<or> is_lower c \<or> is_digit c \<or> c = 95)"

definition word_ends :: "jstr \<Rightarrow> bool" where
  "word_ends s = (s = [] \<or> \<not> is_word (hd s))"

definition ascii_upper :: "jstr \<Rightarrow> jstr" where
  "ascii_upper s = map (\<lambda>c. if is_lower c then c - 32 else c) s"

text \<open>
  \<open>(?:COM|COMM|RADIO)\s*([12])\b\<close>, case-insensitive, at the head of a text, and the rest.
\<close>

definition radio_keyword :: "jstr \<Rightarrow> jstr \<Rightarrow> (nat \<times> jstr) option" where
  "radio_keyword kw s =
     (if starts_with (ascii_upper s) kw
      then (case dropWhile is_ws (drop (length kw) s) of
          [] \<Rightarrow> None
        | d # r \<Rightarrow> if (d = 49 \<or> d = 50) \<and> word_ends r then Some (d - 48, r) else None)
      else None)"

definition first_some :: "'a option \<Rightarrow> 'a option \<Rightarrow> 'a option" where
  "first_some a b = (case a of Some x \<Rightarrow> Some x | None \<Rightarrow> b)"

definition radio_at :: "jstr \<Rightarrow> (nat \<times> jstr) option" where
  "radio_at s = first_some (radio_keyword (js ''COM'') s)
     (first_some (radio_keyword (js ''COMM'') s) (radio_keyword (js ''RADIO'') s))"

text \<open>
  \<open>1[1-3]\d(?:[.,]\d{1,3}|\d{3})\<close> and \<open>\d{5}\<close> at the head of a text: the matched text and the
  rest. What follows a frequency is never a digit, so a repetition is taken whole.
\<close>

definition freq_long :: "jstr \<Rightarrow> (jstr \<times> jstr) option" where
  "freq_long s =
     (case s of
        a # b # c # d # r \<Rightarrow>
          (if a = 49 \<and> 49 \<le> b \<and> b \<le> 51 \<and> is_digit c then
             (if d = 46 \<or> d = 44 then
                (let n = min 3 (length (takeWhile is_digit r)) in
                 if n = 0 then None else Some ([a, b, c, d] @ take n r, drop n r))
              else if 2 \<le> length r \<and> list_all is_digit (d # take 2 r)
              then Some ([a, b, c, d] @ take 2 r, drop 2 r) else None)
           else None)
      | _ \<Rightarrow> None)"

definition freq_short :: "jstr \<Rightarrow> (jstr \<times> jstr) option" where
  "freq_short s = (if 5 \<le> length s \<and> list_all is_digit (take 5 s) then Some (take 5 s, drop 5 s) else None)"

text \<open>\<open>\b(?:COM|COMM|RADIO)\s*([12])\b[^0-9]{0,24}(freq)\<close>; \<open>prev\<close> tells whether a word character stands before.\<close>

definition named_at :: "bool \<Rightarrow> jstr \<Rightarrow> (nat \<times> jstr) option" where
  "named_at prev s =
     (if prev then None
      else (case radio_at s of
          None \<Rightarrow> None
        | Some (com, r) \<Rightarrow>
            (let (gap, f) = span (\<lambda>c. \<not> is_digit c) r in
             if length gap > 24 then None
             else map_option (\<lambda>m. (com, fst m)) (first_some (freq_long f) (freq_short f)))))"

fun named_search :: "bool \<Rightarrow> jstr \<Rightarrow> (nat \<times> jstr) option" where
  "named_search prev [] = None"
| "named_search prev (c # s) = first_some (named_at prev (c # s)) (named_search (is_word c) s)"

text \<open>\<open>(freq)[^A-Z0-9]{0,24}\b(?:COM|COMM|RADIO)\s*([12])\b\<close>.\<close>

definition reversed_tail :: "(jstr \<times> jstr) option \<Rightarrow> (nat \<times> jstr) option" where
  "reversed_tail m =
     (case m of None \<Rightarrow> None
      | Some (f, r) \<Rightarrow>
          (let (gap, k) = span (\<lambda>c. \<not> (is_upper c \<or> is_lower c \<or> is_digit c)) r in
           if gap = [] \<or> length gap > 24 \<or> is_word (last gap) then None
           else map_option (\<lambda>x. (fst x, f)) (radio_at k)))"

fun reversed_search :: "jstr \<Rightarrow> (nat \<times> jstr) option" where
  "reversed_search [] = None"
| "reversed_search (c # s) =
     first_some (reversed_tail (freq_long (c # s)))
       (first_some (reversed_tail (freq_short (c # s))) (reversed_search s))"

text \<open>\<open>split(/[|;,=\s]+/).filter(Boolean)\<close>.\<close>

definition is_sep :: "nat \<Rightarrow> bool" where
  "is_sep c = (one_of ''|;,='' c \<or> is_ws c)"

fun split_tokens :: "jstr \<Rightarrow> jstr list" where
  "split_tokens [] = []"
| "split_tokens (c # s) =
     (if is_sep c then split_tokens s
      else (case s of [] \<Rightarrow> [[c]]
        | d # r \<Rightarrow> if is_sep d then [c] # split_tokens s
                  else (case split_tokens s of [] \<Rightarrow> [[c]] | t # ts \<Rightarrow> (c # t) # ts)))"

fun token_pairs :: "jstr list \<Rightarrow> com_seen list" where
  "token_pairs (a # b # ts) =
     (let com = parseComToken a; freq = normalizeComCandidate b in
      (if com \<noteq> 0 \<and> freq \<noteq> [] then [(com, JStr freq)] else []) @ token_pairs (b # ts))"
| "token_pairs ts = []"

definition learnComFrequencyFromText :: "jstr \<Rightarrow> com_seen list" where
  "learnComFrequencyFromText t =
     (let value = trim t in
      if value = [] then []
      else (case named_search False value of
          Some (com, f) \<Rightarrow> [(com, JStr (normalizeComCandidate f))]
        | None \<Rightarrow> (case reversed_search value of
            Some (com, f) \<Rightarrow> [(com, JStr (normalizeComCandidate f))]
          | None \<Rightarrow> token_pairs (split_tokens value))))"

definition learnComFrequency :: "bytes \<Rightarrow> com_seen list" where
  "learnComFrequency data =
     legacy_freqs data @ concat (map learnComFrequencyFromText (extractCoreTextPayloads data))"

subsection \<open>MessagePack messages\<close>

text \<open>\<open>Number(v)\<close>, \<open>None\<close> for \<open>undefined\<close>.\<close>

fun json_number :: "json \<Rightarrow> jnum" where
  "json_number JNull = Fin 0"
| "json_number (JBool b) = Fin (if b then 1 else 0)"
| "json_number (JNum x) = x"
| "json_number (JStr s) = to_number s"
| "json_number (JArr xs) = to_number (to_str (JArr xs))"
| "json_number (JObj ps) = NaN"

definition item_number :: "json list \<Rightarrow> nat \<Rightarrow> jnum" where
  "item_number xs i = (if i < length xs then json_number (xs ! i) else NaN)"

datatype link = UiToCore | CoreToUi

definition com_change :: "json list \<Rightarrow> com_seen list" where
  "com_change xs =
     (let com = item_number xs 0; khz = item_number xs 1 in
      case khz of Fin q \<Rightarrow>
        (if (com = Fin 1 \<or> com = Fin 2) \<and> is_integer khz \<and> 118000 \<le> q \<and> q \<le> 137000
         then [(if com = Fin 1 then 1 else 2, JNum (fl (q / 1000)))] else [])
      | _ \<Rightarrow> [])"

text \<open>\<open>None\<close> when the message does not have the envelope and is ignored.\<close>

definition observeMessagePack :: "link \<Rightarrow> json \<Rightarrow> com_seen list option" where
  "observeMessagePack direction message =
     (case message of
        JArr [JNum type, payload] \<Rightarrow>
          (if is_integer type then
             Some ((if direction = UiToCore \<and> type = Fin 6144
                    then (case payload of JArr xs \<Rightarrow> com_change xs | _ \<Rightarrow> []) else [])
                 @ (if type = Fin 12288
                    then (case payload of JArr (_ # JStr t # _) \<Rightarrow> learnComFrequencyFromText t | _ \<Rightarrow> []) else []))
           else None)
      | _ \<Rightarrow> None)"

subsection \<open>The address of the FSD server\<close>

definition octet :: "jstr \<Rightarrow> (jstr \<times> jstr) option" where
  "octet s = (let (d, r) = span is_digit s in if 1 \<le> length d \<and> length d \<le> 3 then Some (d, r) else None)"

text \<open>\<open>(\d{1,3}\.\d{1,3}\.\d{1,3}\.\d{1,3})\|port\<close> at the head: the address and the rest.\<close>

fun octets :: "nat \<Rightarrow> jstr \<Rightarrow> (jstr \<times> jstr) option" where
  "octets 0 s = octet s"
| "octets (Suc n) s =
     (case octet s of
        Some (d, c # r) \<Rightarrow>
          if c = 46 then (case octets n r of Some (e, t) \<Rightarrow> Some (d @ 46 # e, t) | None \<Rightarrow> None) else None
      | _ \<Rightarrow> None)"

definition address_at :: "nat \<Rightarrow> jstr \<Rightarrow> (jstr \<times> jstr) option" where
  "address_at port s =
     (case octets 3 s of
        Some (ip, r) \<Rightarrow> let p = 124 # nat_digits port in
          if starts_with r p then Some (ip, drop (length p) r) else None
      | None \<Rightarrow> None)"

lemma octet_split: "octet s = Some (d, r) \<Longrightarrow> s = d @ r \<and> 1 \<le> length d \<and> length d \<le> 3 \<and> list_all is_digit d"
  by (auto simp: octet_def span_def list_all_iff split: if_splits dest: set_takeWhileD)

lemma octets_split: "octets n s = Some (ip, r) \<Longrightarrow> s = ip @ r \<and> ip \<noteq> []"
proof (induction n arbitrary: s ip r)
  case 0
  then show ?case by (auto dest!: octet_split)
next
  case (Suc n)
  from Suc.prems obtain d c u e where *: "octet s = Some (d, c # u)" "c = 46" "octets n u = Some (e, r)" "ip = d @ 46 # e"
    by (auto split: option.splits list.splits if_splits)
  then show ?case using Suc.IH [OF *(3)] octet_split [OF *(1)] by auto
qed

lemma address_split:
  "address_at port s = Some (ip, r) \<Longrightarrow> s = ip @ 124 # nat_digits port @ r \<and> ip \<noteq> []"
  by (auto simp: address_at_def Let_def starts_with_iff dest!: octets_split split: option.splits if_splits)

text \<open>The text with the addresses replaced, and the addresses that were.\<close>

function rewrite_hosts :: "nat \<Rightarrow> jstr \<Rightarrow> jstr \<times> jstr list" where
  "rewrite_hosts port [] = ([], [])"
| "rewrite_hosts port (c # s) =
     (case address_at port (c # s) of
        None \<Rightarrow> (let (t, ips) = rewrite_hosts port s in (c # t, ips))
      | Some (ip, r) \<Rightarrow>
          (let (t, ips) = rewrite_hosts port r; bar = 124 # nat_digits port in
           if starts_with ip (js ''127.'') then (ip @ bar @ t, ips)
           else (loopbackSameLength (length ip) @ bar @ t, ip # ips)))"
  by pat_completeness auto

termination rewrite_hosts
  by (relation "measure (\<lambda>(port, s). length s)")
    (auto dest!: address_split arg_cong [of "_ # _" _ length])

declare rewrite_hosts.simps [simp del]

lemmas rewrite_hosts_simps = rewrite_hosts.simps

subsection \<open>Connections\<close>

datatype protocol = Legacy | MessagePack

record bridge_conn =
  bc_ui_open :: bool
  bc_core_open :: bool
  bc_ui_pending :: bytes
  bc_core_pending :: bytes

record bridge =
  br_conns :: "(nat, bridge_conn) jmap"
  br_ui :: "nat option"
  br_core :: "nat option"
  br_protocol :: protocol

definition bridge_init :: bridge where
  "bridge_init = \<lparr>br_conns = [], br_ui = None, br_core = None, br_protocol = Legacy\<rparr>"

datatype bridge_out = ToUi nat bytes | ToCore nat bytes | DestroyUi nat | DestroyCore nat
  | ComSeen nat json | HostSeen jstr | CallsignSeen jstr | Thrown pack_error | Replied bool

datatype bridge_event = UiConnected nat | CoreConnected nat | UiData nat bytes | CoreData nat bytes
  | UiClosed nat | CoreClosed nat | CoreFailed nat
  | SetCom nat jstr | SetSquawk jstr | ToggleXpdr | SendIdent | SetRadioVolume nat jnum | SetTxLamp nat bool

type_synonym bridge_handler = "bridge \<Rightarrow> bridge \<times> bridge_out list"

definition com_outs :: "com_seen list \<Rightarrow> bridge_out list" where
  "com_outs cs = map (\<lambda>(com, v). ComSeen com v) cs"

definition no_handler :: bridge_handler where
  "no_handler s = (s, [])"

text \<open>A message that was read: it settles the protocol.\<close>

definition observe :: "link \<Rightarrow> json \<Rightarrow> bridge_handler" where
  "observe direction m s =
     (case observeMessagePack direction m of
        None \<Rightarrow> (s, [])
      | Some cs \<Rightarrow> (s\<lparr>br_protocol := MessagePack\<rparr>, com_outs cs))"

text \<open>\<open>onFsdHost\<close> and the callsign of the whole text, for each address replaced.\<close>

definition host_outs :: "jstr \<Rightarrow> jstr list \<Rightarrow> bridge_out list" where
  "host_outs t ips = concat (map (\<lambda>ip. HostSeen ip #
     (case learnCallsignFromText t of Some cs \<Rightarrow> [CallsignSeen cs] | None \<Rightarrow> [])) ips)"

definition on_connect :: "nat \<Rightarrow> bridge_handler" where
  "on_connect i s =
     (s\<lparr>br_conns := mput (br_conns s) i
          \<lparr>bc_ui_open = True, bc_core_open = True, bc_ui_pending = [], bc_core_pending = []\<rparr>,
        br_ui := Some i, br_protocol := Legacy\<rparr>, [])"

definition on_core_connect :: "nat \<Rightarrow> bridge_handler" where
  "on_core_connect i s = (s\<lparr>br_core := Some i\<rparr>, [])"

definition on_ui_data :: "nat \<Rightarrow> nat \<Rightarrow> bytes \<Rightarrow> bridge_handler" where
  "on_ui_data port i data s =
     (case mget (br_conns s) i of
        None \<Rightarrow> (s, [])
      | Some c \<Rightarrow>
          (let (pending, ms) = push_frames (bc_ui_pending c) data;
               s1 = s\<lparr>br_conns := mput (br_conns s) i (c\<lparr>bc_ui_pending := pending\<rparr>)\<rparr>;
               (t, ips) = rewrite_hosts port data
           in andThen (each (observe UiToCore) ms)
                (\<lambda>s2. (s2, com_outs (learnComFrequency data) @ host_outs data ips
                   @ (if bc_core_open c then [ToCore i t] else []))) s1))"

definition on_core_data :: "nat \<Rightarrow> bytes \<Rightarrow> bridge_handler" where
  "on_core_data i data s =
     (case mget (br_conns s) i of
        None \<Rightarrow> (s, [])
      | Some c \<Rightarrow>
          (let (pending, ms) = push_frames (bc_core_pending c) data;
               s1 = s\<lparr>br_conns := mput (br_conns s) i (c\<lparr>bc_core_pending := pending\<rparr>)\<rparr>
           in andThen (each (observe CoreToUi) ms)
                (\<lambda>s2. (s2, com_outs (learnComFrequency data)
                   @ (if bc_ui_open c then [ToUi i data] else []))) s1))"

text \<open>
  One side closed: the other is destroyed, and the references to this one are dropped. A socket
  that failed is destroyed before its \<open>error\<close> is emitted.
\<close>

definition on_ui_close :: "nat \<Rightarrow> bridge_handler" where
  "on_ui_close i s =
     (case mget (br_conns s) i of
        None \<Rightarrow> (s, [])
      | Some c \<Rightarrow>
          (s\<lparr>br_conns := mput (br_conns s) i (c\<lparr>bc_ui_open := False, bc_core_open := False\<rparr>),
             br_ui := (if br_ui s = Some i then None else br_ui s)\<rparr>,
           if bc_core_open c then [DestroyCore i] else []))"

definition on_core_close :: "nat \<Rightarrow> bridge_handler" where
  "on_core_close i s =
     (case mget (br_conns s) i of
        None \<Rightarrow> (s, [])
      | Some c \<Rightarrow>
          (s\<lparr>br_conns := mput (br_conns s) i (c\<lparr>bc_ui_open := False, bc_core_open := False\<rparr>),
             br_core := (if br_core s = Some i then None else br_core s)\<rparr>,
           if bc_ui_open c then [DestroyUi i] else []))"

definition on_core_error :: "nat \<Rightarrow> bridge_handler" where
  "on_core_error i s =
     (case mget (br_conns s) i of
        None \<Rightarrow> (s, [])
      | Some c \<Rightarrow> (s\<lparr>br_conns := mput (br_conns s) i (c\<lparr>bc_ui_open := False, bc_core_open := False\<rparr>)\<rparr>,
                   if bc_ui_open c then [DestroyUi i] else []))"

subsection \<open>Commands\<close>

definition ui_open :: "bridge \<Rightarrow> nat option" where
  "ui_open s = (case br_ui s of None \<Rightarrow> None
     | Some i \<Rightarrow> (case mget (br_conns s) i of Some c \<Rightarrow> if bc_ui_open c then Some i else None | None \<Rightarrow> None))"

definition core_open :: "bridge \<Rightarrow> nat option" where
  "core_open s = (case br_core s of None \<Rightarrow> None
     | Some i \<Rightarrow> (case mget (br_conns s) i of Some c \<Rightarrow> if bc_core_open c then Some i else None | None \<Rightarrow> None))"

definition sendToCore :: "bridge \<Rightarrow> bytes packed \<Rightarrow> bridge_out list" where
  "sendToCore s packet =
     (case packet of Inl e \<Rightarrow> [Thrown e]
      | Inr b \<Rightarrow> (case core_open s of Some i \<Rightarrow> [ToCore i b, Replied True] | None \<Rightarrow> [Replied False]))"

definition setCom :: "nat \<Rightarrow> jstr \<Rightarrow> bridge_handler" where
  "setCom com freq s = (s, sendToCore s
     (if br_protocol s = MessagePack then makeV114FreqPacket com freq else makeFreqPacket com freq))"

definition setSquawk :: "jstr \<Rightarrow> bridge_handler" where
  "setSquawk code s = (s, sendToCore s
     (if br_protocol s = MessagePack then makeV114SquawkPacket code else Inr (makeSquawkPacket code)))"

definition toggleXpdr :: bridge_handler where
  "toggleXpdr s = (s, sendToCore s
     (if br_protocol s = MessagePack then makeV114XpdrTogglePacket else Inr [3, 0, 0, 0, 1, 32, 0]))"

definition sendIdent :: bridge_handler where
  "sendIdent s = (s, sendToCore s
     (if br_protocol s = MessagePack then makeV114IdentPacket else Inr [3, 0, 0, 0, 2, 32, 0]))"

definition setRadioVolume :: "nat \<Rightarrow> jnum \<Rightarrow> bridge_handler" where
  "setRadioVolume com volume s =
     (s, if br_protocol s \<noteq> MessagePack then [Replied False]
         else (case makeV114RadioVolumePacket com volume of
             Inl e \<Rightarrow> [Replied False]
           | Inr b \<Rightarrow> (case core_open s of
                 None \<Rightarrow> [Replied False]
               | Some i \<Rightarrow> [ToCore i b] @ (case ui_open s of Some j \<Rightarrow> [ToUi j b] | None \<Rightarrow> []) @ [Replied True])))"

definition setTxLamp :: "nat \<Rightarrow> bool \<Rightarrow> bridge_handler" where
  "setTxLamp com active s =
     (let payload = nat_digits (radio_of com) @ [124, if active then 49 else 48] @ js ''|0|0'';
          packet = (if br_protocol s = MessagePack then makeV114CoreEventFrame 56805 payload
                    else Inr (makeCoreFrame 3722784768 payload))
      in (s, case packet of Inl e \<Rightarrow> [Thrown e]
           | Inr b \<Rightarrow> (case ui_open s of Some j \<Rightarrow> [ToUi j b, Replied True] | None \<Rightarrow> [Replied False])))"

fun bridge_step :: "nat \<Rightarrow> bridge_event \<Rightarrow> bridge_handler" where
  "bridge_step port (UiConnected i) = on_connect i"
| "bridge_step port (CoreConnected i) = on_core_connect i"
| "bridge_step port (UiData i data) = on_ui_data port i data"
| "bridge_step port (CoreData i data) = on_core_data i data"
| "bridge_step port (UiClosed i) = on_ui_close i"
| "bridge_step port (CoreClosed i) = on_core_close i"
| "bridge_step port (CoreFailed i) = on_core_error i"
| "bridge_step port (SetCom com freq) = setCom com freq"
| "bridge_step port (SetSquawk code) = setSquawk code"
| "bridge_step port ToggleXpdr = toggleXpdr"
| "bridge_step port SendIdent = sendIdent"
| "bridge_step port (SetRadioVolume com volume) = setRadioVolume com volume"
| "bridge_step port (SetTxLamp com active) = setTxLamp com active"

end
