(* ===== verification/PilotProps.thy ===== *)
theory PilotProps
  imports PilotFacts PilotBridge
begin

section \<open>Properties of the bridge to PilotCore\<close>

subsection \<open>Helpers\<close>

lemma frames_of:
  assumes "list_all2 (\<lambda>(type, v) f. makeMessagePackFrame type v = Inr f \<and> packable v
      \<and> length f \<le> 4 + MAX_PILOT_CORE_FRAME_BYTES) ms fs"
  shows "\<exists>bs. list_all valid_body bs \<and> fs = map frame_of bs
    \<and> seen bs = map (\<lambda>(type, v). JArr [JNum (Fin (of_nat type)), v]) ms"
  using assms
proof (induction ms arbitrary: fs)
  case Nil
  then show ?case by (intro exI [of _ "[]"]) simp
next
  case (Cons m ms)
  obtain type v where m: "m = (type, v)" by force
  obtain f gs where f: "fs = f # gs" using Cons.prems by (cases fs) auto
  have 1: "makeMessagePackFrame type v = Inr f" "packable v" "length f \<le> 4 + MAX_PILOT_CORE_FRAME_BYTES"
    using Cons.prems by (simp_all add: f m)
  obtain body where b: "f = frame_of body" "body \<noteq> []"
    "observed (decodeMessagePack body) = [JArr [JNum (Fin (of_nat type)), v]]"
    using frame_bodies [OF 1(1,2)] by blast
  obtain bs where "list_all valid_body bs" "gs = map frame_of bs"
    "seen bs = map (\<lambda>(type, v). JArr [JNum (Fin (of_nat type)), v]) ms"
    using Cons.IH [of gs] Cons.prems f by auto
  then show ?case
    using b 1(3) f m by (intro exI [of _ "body # bs"]) (simp add: valid_body_def [of body])
qed

lemma short_no_text: "length b < 12 \<Longrightarrow> extractCoreTextPayloads b = []"
  by (simp add: extractCoreTextPayloads_def core_payloads.simps)

lemma short_no_freq: "length b \<le> 10 \<Longrightarrow> legacy_freqs b = []"
  by (cases b) auto

lemma freq_packet_seen:
  assumes "com = 1 \<or> com = 2" "118000 \<le> k" "k \<le> 137000"
  shows "learnComFrequency ([7, 0, 0, 0, 32, 32, com mod 256] @ write_le 3 k @ [0])
    = [(com, JNum (fl (of_nat k / 1000)))]"
proof -
  have "read_le (write_le 3 k) = k" using assms by (intro read_write_le) simp
  then show ?thesis
    using assms(1,2,3) by (auto simp: learnComFrequency_def short_no_text write_le_digits short_no_freq simp del: read_le.simps)
qed

lemma loopback_length: "9 \<le> n \<Longrightarrow> n \<le> 15 \<Longrightarrow> length (loopbackSameLength n) = n"
proof -
  assume "9 \<le> n" "n \<le> 15"
  then have "n = 9 \<or> n = 10 \<or> n = 11 \<or> n = 12 \<or> n = 13 \<or> n = 14 \<or> n = 15" by auto
  then show ?thesis by (elim disjE) (simp_all add: loopbackSameLength_def)
qed

lemma octets_length: "octets n s = Some (ip, r) \<Longrightarrow> length ip \<le> 4 * n + 3"
proof (induction n arbitrary: s ip r)
  case 0
  then show ?case by (auto dest!: octet_split)
next
  case (Suc n)
  from Suc.prems obtain d c u e where *: "octet s = Some (d, c # u)" "octets n u = Some (e, r)" "ip = d @ 46 # e"
    by (auto split: option.splits list.splits if_splits)
  then show ?case using Suc.IH [OF *(2)] octet_split [OF *(1)] by simp
qed

lemma address_length: "address_at port s = Some (ip, r) \<Longrightarrow> length ip \<le> 15"
  by (auto simp: address_at_def Let_def dest!: octets_length split: option.splits if_splits)

lemma rewrite_length:
  "list_all (\<lambda>ip. 9 \<le> length ip) (snd (rewrite_hosts port s)) \<Longrightarrow> length (fst (rewrite_hosts port s)) = length s"
proof (induction port s rule: rewrite_hosts.induct)
  case (2 port c s)
  show ?case
  proof (cases "address_at port (c # s)")
    case None
    then show ?thesis using "2.IH"(1) [OF None] "2.prems"
      by (auto simp: rewrite_hosts_simps split: prod.splits)
  next
    case (Some m)
    obtain ip r where m: "m = (ip, r)" by force
    have l: "length ip \<le> 15" "length (c # s) = length ip + length (124 # nat_digits port) + length r"
      using address_length Some address_split [of port "c # s" ip r] by (auto simp: m)
    have IH: "length (fst (rewrite_hosts port r)) = length r"
      if "list_all (\<lambda>ip. 9 \<le> length ip) (snd (rewrite_hosts port r))"
      using "2.IH"(2) [OF Some m [symmetric]] that by simp
    show ?thesis
      using IH l "2.prems" loopback_length [of "length ip"]
      by (auto simp: rewrite_hosts_simps Some m Let_def split: prod.splits if_splits)
  qed
qed (simp add: rewrite_hosts_simps)

subsection \<open>Properties\<close>

text \<open>Concrete texts.\<close>

lemma port_digits: "nat_digits 6809 = [54, 56, 48, 57]"
  by (simp add: nat_digits.simps)

lemmas host_eval = rewrite_hosts_simps address_at_def octet_def span_def is_digit_def port_digits
  js_def loopbackSameLength_def numeral_3_eq_3

lemmas com_eval = learnComFrequencyFromText_def named_at_def radio_at_def radio_keyword_def first_some_def
  ascii_upper_def is_ws_def word_ends_def is_word_def is_upper_def is_lower_def is_digit_def span_def
  freq_long_def freq_short_def trim_def js_def

text \<open>
  C23: MessagePack round trip. Whatever \<open>encodeMessagePack\<close> accepts, \<open>decodeMessagePack\<close> reads
  back as the same value (texts without lone surrogates).
\<close>

theorem pack_roundtrip:
  assumes "encodeMessagePack v = Inr b" "packable v"
  shows "decodeMessagePack b = Inr v"
  by (rule decode_encode [OF assms])

theorem pack_roundtrip_witness:
  "decodeMessagePack [146, 205, 24, 0, 146, 2, 206, 0, 1, 220, 146]
     = Inr (JArr [JNum (Fin 6144), JArr [JNum (Fin 2), JNum (Fin 122002)]])"
proof (rule pack_roundtrip)
  show "encodeMessagePack (JArr [JNum (Fin 6144), JArr [JNum (Fin 2), JNum (Fin 122002)]])
      = Inr [146, 205, 24, 0, 146, 2, 206, 0, 1, 220, 146]"
    using pack_number_nat [of 6144] pack_number_nat [of 2] pack_number_nat [of 122002]
    by (simp add: pack_nat_def write_be_digits)
qed simp

text \<open>
  C24: the frame reader finds the frames that were written, whatever the chunks. Frames built
  by \<open>makeMessagePackFrame\<close> and written one after the other come out as their messages, in
  order, for every way TCP cuts the bytes, and nothing is left in the buffer.
\<close>

theorem frames_chunked:
  assumes "list_all2 (\<lambda>(type, v) f. makeMessagePackFrame type v = Inr f \<and> packable v
      \<and> length f \<le> 4 + MAX_PILOT_CORE_FRAME_BYTES) ms fs"
    and "concat chunks = concat fs"
  shows "feed_all push_frames [] chunks = ([], map (\<lambda>(type, v). JArr [JNum (Fin (of_nat type)), v]) ms)"
proof -
  obtain bs where bs: "list_all valid_body bs" "fs = map frame_of bs"
    "seen bs = map (\<lambda>(type, v). JArr [JNum (Fin (of_nat type)), v]) ms"
    using frames_of [OF assms(1)] by blast
  have "drain_frames [] = ([], [])" by (simp add: drain_frames.simps)
  with feed_frames [OF bs(1), of "[]" chunks] assms(2) bs show ?thesis by simp
qed

theorem frames_chunked_witness:
  "feed_all push_frames [] [[5, 0], [0, 0, 146, 205], [22, 2, 144], []]
     = ([], map (\<lambda>(type, v). JArr [JNum (Fin (of_nat type)), v]) [(5634, JArr [])])"
proof (rule frames_chunked [where fs = "[[5, 0, 0, 0, 146, 205, 22, 2, 144]]"])
  have "makeMessagePackFrame 5634 (JArr []) = Inr [5, 0, 0, 0, 146, 205, 22, 2, 144]"
    using pack_number_nat [of 5634]
    by (simp add: makeMessagePackFrame_def pack_nat_def write_be_digits write_le_digits)
  then show "list_all2 (\<lambda>(type, v) f. makeMessagePackFrame type v = Inr f \<and> packable v
      \<and> length f \<le> 4 + MAX_PILOT_CORE_FRAME_BYTES) [(5634, JArr [])] [[5, 0, 0, 0, 146, 205, 22, 2, 144]]"
    by (simp add: MAX_PILOT_CORE_FRAME_BYTES_def)
qed simp

text \<open>
  C25: a frequency set from the webapp is the frequency the bridge sees. For a valid COM text
  the legacy packet carries exactly its kHz, the number that the digits of the text write, in
  little endian; and the bridge's own scanner reads from it the same radio and the same frequency,
  the number of MHz that the text denotes, and nothing else.
\<close>

theorem com_packet_exact:
  assumes "com = 1 \<or> com = 2" "isFrequency (JStr s)"
  shows "\<exists>k p. k = dec_value (filter is_digit s) \<and> 118000 \<le> k \<and> k \<le> 136975
    \<and> makeFreqPacket com s = Inr p \<and> p = [7, 0, 0, 0, 32, 32, com] @ write_le 3 k @ [0]
    \<and> learnComFrequency p = [(com, JNum (to_number s))] \<and> to_number s = fl (of_nat k / 1000)"
proof -
  obtain a b c d e where f: "digits5 a b c d e" "s = freq_text a b c d e"
    "118000 \<le> freq_khz a b c d e" "freq_khz a b c d e \<le> 136975"
    using assms(2) unfolding isFrequency_iff by blast
  let ?k = "freq_khz a b c d e"
  have com: "com mod 256 = com" using assms(1) by auto
  have "?k = dec_value (filter is_digit s)" by (simp add: f(2) freq_khz_digits [OF f(1)])
  moreover have "to_number s = fl (of_nat ?k / 1000)" using freq_text_number [OF f(1)] by (simp only: f(2))
  moreover have "makeFreqPacket com s = Inr ([7, 0, 0, 0, 32, 32, com] @ write_le 3 ?k @ [0])"
    using freq_packet [OF f(1), of com] by (simp only: f(2) com)
  moreover have "learnComFrequency ([7, 0, 0, 0, 32, 32, com] @ write_le 3 ?k @ [0])
      = [(com, JNum (fl (of_nat ?k / 1000)))]"
    using freq_packet_seen [OF assms(1) f(3)] f(4) by (simp only: com)
  ultimately show ?thesis
    using f(3,4) by (intro exI [of _ ?k] exI [of _ "[7, 0, 0, 0, 32, 32, com] @ write_le 3 ?k @ [0]"]) simp
qed

theorem com_packet_exact_witness:
  "makeFreqPacket 2 (js ''122.800'') = Inr ([7, 0, 0, 0, 32, 32, 2] @ write_le 3 122800 @ [0])
    \<and> learnComFrequency ([7, 0, 0, 0, 32, 32, 2] @ write_le 3 122800 @ [0]) = [(2, JNum (to_number (js ''122.800'')))]"
proof -
  have "digits5 2 2 8 0 0" "js ''122.800'' = freq_text 2 2 8 0 0"
    by (simp_all add: digits5_def freq_text_def js_def)
  then have "isFrequency (JStr (js ''122.800''))"
    unfolding isFrequency_iff by (force simp: freq_khz_def)
  moreover have "dec_value (filter is_digit (js ''122.800'')) = 122800"
    by (simp add: js_def is_digit_def dec_value_def)
  ultimately show ?thesis using com_packet_exact [of 2 "js ''122.800''"] by auto
qed

text \<open>
  replacing the FSD address keeps the size of the packet, as PilotCore needs, whenever every
  replaced address has nine characters or more; and PilotCore is sent the rewritten bytes.
\<close>

theorem rewrite_keeps_size:
  assumes "rewrite_hosts port packet = (t, ips)" "list_all (\<lambda>ip. 9 \<le> length ip) ips"
  shows "length t = length packet"
  using rewrite_length [of port packet] assms by simp

theorem rewrite_keeps_size_witness:
  "length (js ''AB|127.000.0.001|6809|X'') = length (js ''AB|91.121.16.120|6809|X'')"
proof (rule rewrite_keeps_size)
  show "rewrite_hosts 6809 (js ''AB|91.121.16.120|6809|X'') = (js ''AB|127.000.0.001|6809|X'', [js ''91.121.16.120''])"
    by (simp add: host_eval)
  show "list_all (\<lambda>ip. 9 \<le> length ip) [js ''91.121.16.120'']" by simp
qed

text \<open>The bound is needed: the replacement of a shorter address is longer than it.\<close>

lemma short_address_grows:
  "rewrite_hosts 6809 (js ''8.8.8.8|6809'') = (js ''127.000.0.001|6809'', [js ''8.8.8.8''])"
  by (simp add: host_eval)

text \<open>
  A text that names a radio before a number that is no VHF frequency yields an empty frequency,
  and an empty frequency is formatted as 0.000: a COM label of the webapp can become 0.000.
\<close>

lemma bad_candidate_is_zero:
  "learnComFrequencyFromText (js ''COM1 10000'') = [(1, JStr [])]"
  "formatComFrequency (JStr []) = js ''0.000''"
proof -
  have "to_number [49, 49, 48, 46, 48, 48, 48] = Fin 110"
    using freq_text_number [of 1 0 0 0 0] fl_of_small_int [of 110]
    by (simp add: freq_text_def digits5_def freq_khz_def)
  moreover have "rx_match (Reps is_digit 5 5) [49, 48, 48, 48, 48]" by (simp add: is_digit_def)
  moreover have "\<not> rx_match (seqs [com_first, Reps is_digit 3 3]) [49, 48, 48, 48, 48]"
    "\<not> rx_match (seqs [com_first, lit ''.'', Reps is_digit 1 3]) [49, 48, 48, 48, 48]"
    by (simp_all add: rx_match_def com_first_def lit_def js_def one_of_def)
  ultimately have "normalizeComCandidate (js ''10000'') = []"
    unfolding normalizeComCandidate_def
    by (simp add: Let_def js_def trim_def is_ws_def is_finite_def del: rx_match_Reps seqs.simps)
  then show "learnComFrequencyFromText (js ''COM1 10000'') = [(1, JStr [])]"
    by (simp add: com_eval)
  show "formatComFrequency (JStr []) = js ''0.000''"
    by (simp add: formatComFrequency_def to_number_def trim_def to_fixed3_def fixed3_pos_def
        nat_digits.simps pad_start_def js_def numeral_2_eq_2)
qed

subsection \<open>The reader ends\<close>

text \<open>
  C26: Reading MessagePack ends on every input: the fuel that stands for the recursion of the reader,
  one more than the bytes, is never exhausted, and any larger amount gives the same value or the
  same error. Bytes of an attacker cannot make the reader run on.
\<close>
theorem message_pack_terminates:
  assumes "length b < k"
  shows "decodeMessagePack b \<noteq> Inl NoFuel
    \<and> decodeMessagePack b = (case mp_read k b of Inl e \<Rightarrow> Inl e | Inr (v, t) \<Rightarrow> if t = [] then Inr v else Inl Trailing)"
  using decode_never_out_of_fuel [of b] mp_enough [of b "Suc (length b)" "k - Suc (length b)"] assms
  by (simp add: decodeMessagePack_def)

theorem message_pack_terminates_witness:
  "decodeMessagePack [147, 1, 2, 3] \<noteq> Inl NoFuel
    \<and> decodeMessagePack [147, 1, 2, 3] = (case mp_read 100 [147, 1, 2, 3] of Inl e \<Rightarrow> Inl e
        | Inr (v, t) \<Rightarrow> if t = [] then Inr v else Inl Trailing)"
  by (rule message_pack_terminates) simp

end
