(* ===== verification/PushNotifications.thy ===== *)
theory PushNotifications
  imports AppState Watchdog Bytes
begin

section \<open>Web Push notifications of the agent (proxy/push-notifications.js)\<close>

text \<open>
  The agent keeps the VAPID keys and the push subscriptions of the browsers in a file, and
  notifies them of messages, of connections and of the timer. A delivery is asynchronous: the
  targets and payloads are fixed when it begins (\<open>deliver_begin\<close>), the answers are counted and
  expired subscriptions dropped when it ends (\<open>deliver_end\<close>), with any operations in between.

  Parameters (\<open>push_env\<close>): the URL parser, the serialization of a URL without its query and
  fragment (\<open>pe_page\<close>), and SHA-256 as a hexadecimal and as a base64url text. The package
  web-push is a parameter of the tickets.
\<close>

record push_env =
  pe_url :: url_parser
  pe_page :: "jstr \<Rightarrow> jstr"
  pe_hash :: "jstr \<Rightarrow> jstr"
  pe_hash64 :: "jstr \<Rightarrow> jstr"

record subscription =
  ps_endpoint :: jstr
  ps_p256dh :: jstr
  ps_auth :: jstr
  ps_deviceId :: jstr
  ps_deviceName :: jstr
  ps_appUrl :: jstr
  ps_notifyIvaoConnected :: bool
  ps_notifyAgentOffline :: bool
  ps_createdAt :: "jstr option"

record push_store =
  st_vapid :: json
  st_subscriptions :: "subscription list"

definition MAX_SUBSCRIPTIONS :: nat where
  "MAX_SUBSCRIPTIONS = 32"

definition RECENT_MESSAGE_TTL_MS :: int where
  "RECENT_MESSAGE_TTL_MS = 30000"

definition WATCHDOG_TICKET_LIFETIME_MS :: int where
  "WATCHDOG_TICKET_LIFETIME_MS = 15 * 60 * 1000"

subsection \<open>Validation\<close>

definition validPushKey :: "jstr \<Rightarrow> bool" where
  "validPushKey value \<longleftrightarrow> 8 \<le> length value \<and> length value \<le> 512 \<and> rx_match (plus (Chr base64url_char)) value"

definition validPushEndpoint :: "push_env \<Rightarrow> jstr \<Rightarrow> bool" where
  "validPushEndpoint E value =
     (if value = [] \<or> utf8_len value > 4096 then False
      else (case pe_url E value of None \<Rightarrow> False | Some u \<Rightarrow> u_protocol u = js ''https:''))"

definition normalizeAppUrl :: "push_env \<Rightarrow> jstr \<Rightarrow> jstr" where
  "normalizeAppUrl E value =
     (case pe_url E value of
        None \<Rightarrow> []
      | Some u \<Rightarrow>
          (let loopback = List.member [js ''localhost'', js ''127.0.0.1'', js ''[::1]''] (u_hostname u)
           in if u_protocol u \<noteq> js ''https:'' \<and> \<not> (u_protocol u = js ''http:'' \<and> loopback) then []
              else pe_page E value))"

definition normalizeCallsign :: "jstr \<Rightarrow> jstr" where
  "normalizeCallsign value =
     (let t = upper (trim value) in
      if rx_match (Reps (\<lambda>c. is_upper c \<or> is_digit c \<or> c = 45) 2 16) t then t else [])"

text \<open>A property of a value that may be \<open>undefined\<close> or no object (\<open>value?.name\<close>).\<close>

definition member_at :: "json option \<Rightarrow> string \<Rightarrow> json option" where
  "member_at v k = (case v of Some (JObj p) \<Rightarrow> fld p k | _ \<Rightarrow> None)"

text \<open>\<open>String(a || b || '')\<close>.\<close>

definition str_or_2 :: "json option \<Rightarrow> json option \<Rightarrow> jstr" where
  "str_or_2 a b = (if opt_truthy a then str_or_empty a else str_or_empty b)"

definition normalizeSubscription :: "push_env \<Rightarrow> json \<Rightarrow> subscription option" where
  "normalizeSubscription E value =
     (case value of
        JObj p \<Rightarrow>
          (let endpoint = trim (str_or_empty (fld p ''endpoint''));
               p256dh = trim (str_or_2 (member_at (fld p ''keys'') ''p256dh'') (fld p ''p256dh''));
               auth = trim (str_or_2 (member_at (fld p ''keys'') ''auth'') (fld p ''auth''));
               deviceId = trim (str_or_empty (fld p ''deviceId''));
               deviceName = take 80 (trim (to_str (or_else (fld p ''deviceName'') (JStr (js ''Browser device'')))));
               appUrl = normalizeAppUrl E (str_or_empty (fld p ''appUrl''))
           in if \<not> validPushEndpoint E endpoint \<or> \<not> validPushKey p256dh \<or> \<not> validPushKey auth then None
              else if deviceId \<noteq> [] \<and> \<not> rx_match (Reps token_char 8 160) deviceId then None
              else if appUrl = [] then None
              else Some \<lparr>ps_endpoint = endpoint, ps_p256dh = p256dh, ps_auth = auth,
                ps_deviceId = (if deviceId \<noteq> [] then deviceId else take 32 (pe_hash E endpoint)),
                ps_deviceName = (if deviceName \<noteq> [] then deviceName else js ''Browser device''),
                ps_appUrl = appUrl,
                ps_notifyIvaoConnected = (fld p ''notifyIvaoConnected'' = Some (JBool True)),
                ps_notifyAgentOffline = (fld p ''notifyAgentOffline'' = Some (JBool True)),
                ps_createdAt = None\<rparr>)
      | _ \<Rightarrow> None)"

definition str_key :: "json option \<Rightarrow> bool" where
  "str_key v = (case v of Some (JStr s) \<Rightarrow> validPushKey s | _ \<Rightarrow> False)"

definition validVapid :: "json \<Rightarrow> bool" where
  "validVapid value = (truthy value \<and> str_key (member_at (Some value) ''publicKey'')
     \<and> str_key (member_at (Some value) ''privateKey''))"

subsection \<open>The store\<close>

text \<open>
  \<open>file\<close> is the parsed file, \<open>None\<close> when it is missing, unreadable or no JSON (the exception is
  caught). Reading a property of \<open>null\<close> throws as well.
\<close>

definition last_32 :: "'a list \<Rightarrow> 'a list" where
  "last_32 l = drop (length l - MAX_SUBSCRIPTIONS) l"

definition empty_store :: push_store where
  "empty_store = \<lparr>st_vapid = JNull, st_subscriptions = []\<rparr>"

definition loadStore :: "push_env \<Rightarrow> json option \<Rightarrow> push_store" where
  "loadStore E file =
     (case file of
        None \<Rightarrow> empty_store
      | Some JNull \<Rightarrow> empty_store
      | Some v \<Rightarrow>
          \<lparr>st_vapid = or_else (member_at (Some v) ''vapid'') JNull,
           st_subscriptions = (case member_at (Some v) ''subscriptions'' of
               Some (JArr l) \<Rightarrow> last_32 (List.map_filter (normalizeSubscription E) l)
             | _ \<Rightarrow> [])\<rparr>)"

definition subscription_json :: "subscription \<Rightarrow> json" where
  "subscription_json s = JObj
     ([(js ''endpoint'', JStr (ps_endpoint s)),
       (js ''keys'', JObj [(js ''p256dh'', JStr (ps_p256dh s)), (js ''auth'', JStr (ps_auth s))]),
       (js ''deviceId'', JStr (ps_deviceId s)), (js ''deviceName'', JStr (ps_deviceName s)),
       (js ''appUrl'', JStr (ps_appUrl s)),
       (js ''notifyIvaoConnected'', JBool (ps_notifyIvaoConnected s)),
       (js ''notifyAgentOffline'', JBool (ps_notifyAgentOffline s))]
      @ (case ps_createdAt s of Some t \<Rightarrow> [(js ''createdAt'', JStr t)] | None \<Rightarrow> []))"

text \<open>The value whose text \<open>persistStore\<close> writes.\<close>

definition persistStore :: "push_store \<Rightarrow> json" where
  "persistStore st = JObj [(js ''version'', JNum (Fin 1)), (js ''vapid'', st_vapid st),
     (js ''subscriptions'', JArr (map subscription_json (st_subscriptions st)))]"

record push =
  pn_store :: push_store
  pn_recent :: "(jstr, int) jmap"

text \<open>Title, body, \<open>navigate\<close> and tag; the other fields are constant.\<close>

datatype push_payload = Payload jstr jstr jstr jstr

datatype push_out = Persisted json | PushSent subscription push_payload nat

text \<open>\<open>keys\<close> are what \<open>generateVAPIDKeys\<close> returns.\<close>

definition createPushNotifications :: "push_env \<Rightarrow> json \<Rightarrow> json option \<Rightarrow> push \<times> push_out list" where
  "createPushNotifications E keys file =
     (let st = loadStore E file in
      if validVapid (st_vapid st) then (\<lparr>pn_store = st, pn_recent = []\<rparr>, [])
      else (let st1 = st\<lparr>st_vapid := keys\<rparr>
            in (\<lparr>pn_store = st1, pn_recent = []\<rparr>, [Persisted (persistStore st1)])))"

definition set_subscriptions :: "subscription list \<Rightarrow> push \<Rightarrow> push" where
  "set_subscriptions l s = s\<lparr>pn_store := (pn_store s)\<lparr>st_subscriptions := l\<rparr>\<rparr>"

abbreviation subscriptions :: "push \<Rightarrow> subscription list" where
  "subscriptions s \<equiv> st_subscriptions (pn_store s)"

definition addSubscription :: "push_env \<Rightarrow> int \<Rightarrow> json \<Rightarrow> push \<Rightarrow> push \<times> nat option \<times> push_out list" where
  "addSubscription E now value s =
     (case normalizeSubscription E value of
        None \<Rightarrow> (s, None, [])
      | Some sub \<Rightarrow>
          (let kept = filter (\<lambda>i. ps_endpoint i \<noteq> ps_endpoint sub
                 \<and> (ps_deviceId sub = [] \<or> ps_deviceId i \<noteq> ps_deviceId sub)) (subscriptions s);
               l = kept @ [sub\<lparr>ps_createdAt := Some (iso_string now)\<rparr>];
               s1 = set_subscriptions (if length l > MAX_SUBSCRIPTIONS then last_32 l else l) s
           in (s1, Some (length (subscriptions s1)), [Persisted (persistStore (pn_store s1))])))"

definition removeSubscription :: "json option \<Rightarrow> push \<Rightarrow> push \<times> nat \<times> nat \<times> push_out list" where
  "removeSubscription endpoint s =
     (let value = trim (str_or_empty endpoint);
          l = filter (\<lambda>i. ps_endpoint i \<noteq> value) (subscriptions s);
          removed = length (subscriptions s) - length l;
          s1 = set_subscriptions l s
      in (s1, removed, length l, if removed \<noteq> 0 then [Persisted (persistStore (pn_store s1))] else []))"

subsection \<open>Payloads\<close>

definition app_or_default :: "push_env \<Rightarrow> jstr \<Rightarrow> jstr" where
  "app_or_default E appUrl =
     (let u = normalizeAppUrl E appUrl in if u \<noteq> [] then u else js ''https://app.voxhf.com/'')"

definition titled :: "string \<Rightarrow> jstr \<Rightarrow> jstr" where
  "titled t own = (if own \<noteq> [] then js t @ js '' - '' @ own else js t)"

definition ivaoDisconnectPayload :: "push_env \<Rightarrow> jstr \<Rightarrow> jstr \<Rightarrow> push_payload" where
  "ivaoDisconnectPayload E callsign appUrl =
     Payload (titled ''IVAO disconnected'' (normalizeCallsign callsign))
       (js ''VoxHF lost the IVAO connection. Reconnect Altitude as soon as possible.'')
       (app_or_default E appUrl) (js ''voxhf-ivao-disconnected'')"

definition ivaoConnectedPayload :: "push_env \<Rightarrow> jstr \<Rightarrow> jstr \<Rightarrow> push_payload" where
  "ivaoConnectedPayload E callsign appUrl =
     Payload (titled ''IVAO online'' (normalizeCallsign callsign))
       (js ''VoxHF notifications are active on this device.'')
       (app_or_default E appUrl) (js ''voxhf-ivao-connected'')"

definition unicomTimerPayload :: "push_env \<Rightarrow> jstr \<Rightarrow> jstr \<Rightarrow> push_payload" where
  "unicomTimerPayload E callsign appUrl =
     Payload (titled ''Timer expired'' (normalizeCallsign callsign))
       (js ''You can now disconnect and report the leg.'')
       (app_or_default E appUrl) (js ''voxhf-unicom-timer'')"

definition agentOfflinePayload :: "push_env \<Rightarrow> jstr \<Rightarrow> jstr \<Rightarrow> push_payload" where
  "agentOfflinePayload E callsign appUrl =
     Payload (titled ''VoxHF agent offline'' (normalizeCallsign callsign))
       (js ''The local VoxHF proxy is no longer reachable.'')
       (app_or_default E appUrl) (js ''voxhf-agent-offline'')"

subsection \<open>Which messages notify\<close>

datatype push_trigger = PrivateMessage | Addressed

definition textAddressesCallsign :: "jstr \<Rightarrow> jstr \<Rightarrow> bool" where
  "textAddressesCallsign t callsign =
     (let value = upper (dropWhile is_ws t) in
      starts_with value callsign
      \<and> (case drop (length callsign) value of [] \<Rightarrow> True | c # _ \<Rightarrow> is_ws c \<or> one_of '',:;'' c))"

definition notificationTrigger :: "chat_msg \<Rightarrow> jstr \<Rightarrow> push_trigger option" where
  "notificationTrigger m callsign =
     (let own = normalizeCallsign callsign in
      if own = [] then None
      else if cm_type m = PRIVATE then
        (if cm_direction m = Incoming then Some PrivateMessage
         else if normalizeCallsign (cm_sender m) = own \<and> normalizeCallsign (opt_text (cm_recipient m)) = own
         then Some PrivateMessage else None)
      else if cm_direction m \<noteq> Incoming \<or> (cm_type m \<noteq> FREQUENCY \<and> cm_type m \<noteq> BROADCAST) then None
      else if textAddressesCallsign (cm_text m) own then Some Addressed else None)"

definition isIvaoServerMessage :: "chat_msg \<Rightarrow> bool" where
  "isIvaoServerMessage m \<longleftrightarrow> cm_direction m \<noteq> Outgoing \<and> normalizeCallsign (cm_sender m) = js ''SERVER''"

definition trigger_text :: "push_trigger \<Rightarrow> jstr" where
  "trigger_text t = (case t of PrivateMessage \<Rightarrow> js ''private'' | Addressed \<Rightarrow> js ''addressed'')"

text \<open>\<open>replace(/\s+/g, ' ')\<close>.\<close>

function squash_ws :: "jstr \<Rightarrow> jstr" where
  "squash_ws [] = []"
| "squash_ws (c # s) = (if is_ws c then 32 # squash_ws (dropWhile is_ws s) else c # squash_ws s)"
  by pat_completeness auto

termination squash_ws
  by (relation "measure length") (auto simp: le_imp_less_Suc length_dropWhile_le)

definition notificationPayload :: "push_env \<Rightarrow> push_trigger \<Rightarrow> chat_msg \<Rightarrow> jstr \<Rightarrow> jstr \<Rightarrow> push_payload" where
  "notificationPayload E trigger m callsign appUrl =
     (let own = normalizeCallsign callsign;
          sender = take 64 (trim (or_text (cm_sender m) (js ''IVAO'')));
          t = take 240 (squash_ws (trim (cm_text m)));
          digest = take 24 (pe_hash64 E (trigger_text trigger @ [124] @ sender @ [124] @ t))
      in Payload ((if trigger = PrivateMessage then js ''Private message for '' else js ''Message for '') @ own)
           (sender @ js '': '' @ t) (app_or_default E appUrl) (js ''voxhf-'' @ digest))"

definition messageSignature :: "push_env \<Rightarrow> push_trigger \<Rightarrow> chat_msg \<Rightarrow> jstr \<Rightarrow> jstr" where
  "messageSignature E trigger m callsign = pe_hash E (join [124]
     [trigger_text trigger, normalizeCallsign callsign, normalizeCallsign (cm_sender m),
      normalizeCallsign (opt_text (cm_recipient m)), upper (trim (cm_text m))])"

definition cleanupRecentMessages :: "(jstr, int) jmap \<Rightarrow> int \<Rightarrow> (jstr, int) jmap" where
  "cleanupRecentMessages recent currentTime =
     mfilter (\<lambda>k t. \<not> currentTime - t > RECENT_MESSAGE_TTL_MS) recent"

subsection \<open>Delivery\<close>

record delivery =
  dl_sent :: nat
  dl_failed :: nat
  dl_expired :: nat
  dl_subscriptionCount :: nat
  dl_targetCount :: nat

definition no_delivery :: "nat \<Rightarrow> delivery" where
  "no_delivery n = \<lparr>dl_sent = 0, dl_failed = 0, dl_expired = 0, dl_subscriptionCount = n, dl_targetCount = 0\<rparr>"

text \<open>Either there is nobody to notify, or the requests.\<close>

definition deliver_begin ::
  "(subscription \<Rightarrow> push_payload) \<Rightarrow> nat \<Rightarrow> (subscription \<Rightarrow> bool) \<Rightarrow> push \<Rightarrow> delivery + push_out list" where
  "deliver_begin makePayload ttl wanted s =
     (if subscriptions s = [] then Inl (no_delivery 0)
      else (let targets = filter wanted (subscriptions s) in
        if targets = [] then Inl (no_delivery (length (subscriptions s)))
        else Inr (map (\<lambda>t. PushSent t (makePayload t) ttl) targets)))"

datatype push_answer = Delivered | Status int

definition gone :: "push_answer \<Rightarrow> bool" where
  "gone a = (a = Status 404 \<or> a = Status 410)"

definition deliver_end ::
  "(subscription \<times> push_answer) list \<Rightarrow> push \<Rightarrow> push \<times> delivery \<times> push_out list" where
  "deliver_end answers s =
     (let expired = remdups (map (ps_endpoint \<circ> fst) (filter (gone \<circ> snd) answers));
          s1 = (if expired \<noteq> []
                then set_subscriptions (filter (\<lambda>i. ps_endpoint i \<notin> set expired) (subscriptions s)) s else s)
      in (s1,
          \<lparr>dl_sent = length (filter (\<lambda>(t, a). a = Delivered) answers),
           dl_failed = length (filter (\<lambda>(t, a). a \<noteq> Delivered \<and> \<not> gone a) answers),
           dl_expired = length expired, dl_subscriptionCount = length (subscriptions s1),
           dl_targetCount = length answers\<rparr>,
          if expired \<noteq> [] then [Persisted (persistStore (pn_store s1))] else []))"

definition notifyIvaoDisconnected :: "push_env \<Rightarrow> jstr \<Rightarrow> push \<Rightarrow> delivery + push_out list" where
  "notifyIvaoDisconnected E callsign =
     deliver_begin (\<lambda>t. ivaoDisconnectPayload E callsign (ps_appUrl t)) (30 * 60) (\<lambda>t. True)"

definition notifyIvaoConnected :: "push_env \<Rightarrow> jstr \<Rightarrow> push \<Rightarrow> delivery + push_out list" where
  "notifyIvaoConnected E callsign =
     deliver_begin (\<lambda>t. ivaoConnectedPayload E callsign (ps_appUrl t)) 300 ps_notifyIvaoConnected"

definition notifyUnicomTimerExpired :: "push_env \<Rightarrow> jstr \<Rightarrow> push \<Rightarrow> delivery + push_out list" where
  "notifyUnicomTimerExpired E callsign =
     deliver_begin (\<lambda>t. unicomTimerPayload E callsign (ps_appUrl t)) 300 (\<lambda>t. True)"

text \<open>What \<open>notifyForMessage\<close> returns; \<open>Requests\<close> leads to a delivery.\<close>

datatype notified = NotMatched | NoSubscribers | Suppressed | Duplicate | Requests "delivery + push_out list"

definition notifyForMessage ::
  "push_env \<Rightarrow> int \<Rightarrow> chat_msg \<Rightarrow> jstr \<Rightarrow> bool \<Rightarrow> push \<Rightarrow> push \<times> notified" where
  "notifyForMessage E now m callsign suppressStartupServer s =
     (case notificationTrigger m callsign of
        None \<Rightarrow> (s, NotMatched)
      | Some trigger \<Rightarrow>
          if subscriptions s = [] then (s, NoSubscribers)
          else if suppressStartupServer \<and> isIvaoServerMessage m then (s, Suppressed)
          else (let recent = cleanupRecentMessages (pn_recent s) now;
                    signature = messageSignature E trigger m callsign
                in if mhas recent signature then (s\<lparr>pn_recent := recent\<rparr>, Duplicate)
                   else (let s1 = s\<lparr>pn_recent := mput recent signature now\<rparr>
                         in (s1, Requests (deliver_begin
                              (\<lambda>t. notificationPayload E trigger m callsign (ps_appUrl t)) 300 (\<lambda>t. True) s1)))))"

subsection \<open>Tickets for the relay's watchdog\<close>

text \<open>
  \<open>generateRequestDetails\<close> and \<open>getVapidHeaders\<close> of web-push are parameters; \<open>None\<close> is an
  exception, \<open>[]\<close> a header that is missing. The second one is given the origin, the content
  encoding and the expiry in seconds.
\<close>

record request_details =
  rd_endpoint :: jstr
  rd_encoding :: jstr
  rd_body :: bytes

record web_push =
  wp_request :: "subscription \<Rightarrow> push_payload \<Rightarrow> request_details option"
  wp_vapid :: "jstr \<Rightarrow> jstr \<Rightarrow> int \<Rightarrow> jstr option"

definition watchdog_ticket :: "push_env \<Rightarrow> web_push \<Rightarrow> int \<Rightarrow> jstr \<Rightarrow> subscription \<Rightarrow> ticket option" where
  "watchdog_ticket E W expiresAtMs callsign sub =
     (case wp_request W sub (agentOfflinePayload E callsign (ps_appUrl sub)) of
        None \<Rightarrow> None
      | Some details \<Rightarrow>
          (let contentEncoding = lower (rd_encoding details) in
           case pe_url E (rd_endpoint details) of
             None \<Rightarrow> None
           | Some u \<Rightarrow>
               (case wp_vapid W (u_origin u) contentEncoding (expiresAtMs div 1000) of
                  None \<Rightarrow> None
                | Some authorization \<Rightarrow>
                    if rd_body details = [] \<or> authorization = [] \<or> contentEncoding \<noteq> js ''aes128gcm'' then None
                    else Some \<lparr>t_deviceId = ps_deviceId sub, t_endpoint = rd_endpoint details,
                      t_expiresAt = iso_string expiresAtMs, t_authorization = authorization,
                      t_contentEncoding = contentEncoding, t_body = base64url (rd_body details)\<rparr>)))"

definition createAgentOfflineWatchdogTickets ::
  "push_env \<Rightarrow> web_push \<Rightarrow> int \<Rightarrow> jstr \<Rightarrow> push \<Rightarrow> ticket list" where
  "createAgentOfflineWatchdogTickets E W now callsign s =
     (let expiresAtMs = now + WATCHDOG_TICKET_LIFETIME_MS
      in List.map_filter (watchdog_ticket E W expiresAtMs callsign)
           (filter ps_notifyAgentOffline (subscriptions s)))"

text \<open>A ticket as it goes into a message.\<close>

definition ticket_json :: "ticket \<Rightarrow> json" where
  "ticket_json t = JObj [(js ''deviceId'', JStr (t_deviceId t)), (js ''endpoint'', JStr (t_endpoint t)),
     (js ''expiresAt'', JStr (t_expiresAt t)), (js ''authorization'', JStr (t_authorization t)),
     (js ''contentEncoding'', JStr (t_contentEncoding t)), (js ''body'', JStr (t_body t))]"

subsection \<open>The machine\<close>

text \<open>
  The operations in the order in which they happen; \<open>Settled\<close> is the end of a delivery with the
  answers to its requests.
\<close>

datatype push_in = Subscribe json | Unsubscribe "json option" | Settled "(subscription \<times> push_answer) list"
  | MessageSeen chat_msg jstr bool

fun push_step :: "push_env \<Rightarrow> int \<times> push_in \<Rightarrow> push \<Rightarrow> push \<times> push_out list" where
  "push_step E (now, Subscribe v) s = (let (s1, r, outs) = addSubscription E now v s in (s1, outs))"
| "push_step E (now, Unsubscribe v) s = (let (s1, n, m, outs) = removeSubscription v s in (s1, outs))"
| "push_step E (now, Settled answers) s = (let (s1, d, outs) = deliver_end answers s in (s1, outs))"
| "push_step E (now, MessageSeen m callsign suppress) s =
     (let (s1, r) = notifyForMessage E now m callsign suppress s
      in (s1, case r of Requests (Inr outs) \<Rightarrow> outs | _ \<Rightarrow> []))"

end
