(* ===== verification/UnicomTimer.thy ===== *)
theory UnicomTimer
  imports JNumbers JDates
begin

section \<open>The UNICOM timer (proxy/unicom-timer.js)\<close>

text \<open>
  A countdown that a user can restart and cancel. \<open>setTimer\<close> hands out a timer whose callback
  carries the generation of its start; the callback is an event of its own, at any time and
  with any generation, so nothing depends on \<open>clearTimer\<close> being in time. \<open>now\<close> is the clock.
\<close>

definition DEFAULT_DURATION_MS :: int where
  "DEFAULT_DURATION_MS = 3 * 60 * 1000"

definition normalizeDuration :: "jnum \<Rightarrow> int" where
  "normalizeDuration duration =
     (case duration of Fin q \<Rightarrow> if 1000 \<le> q then math_round q else DEFAULT_DURATION_MS | _ \<Rightarrow> DEFAULT_DURATION_MS)"

record unicom =
  ut_timer :: "nat option"
  ut_generation :: nat
  ut_running :: "(jstr \<times> jstr) option"

definition createUnicomTimer :: unicom where
  "createUnicomTimer = \<lparr>ut_timer = None, ut_generation = 0, ut_running = None\<rparr>"

datatype unicom_out = TimerState "(jstr \<times> jstr) option" | TimerSet nat int | TimerCleared nat | TimerExpired jstr

datatype unicom_in = StartTimer | CancelTimer | TimerFires nat

definition clear_timer :: "unicom \<Rightarrow> unicom_out list" where
  "clear_timer s = (case ut_timer s of Some t \<Rightarrow> [TimerCleared t] | None \<Rightarrow> [])"

definition unicom_start :: "int \<Rightarrow> int \<Rightarrow> unicom \<Rightarrow> unicom \<times> unicom_out list" where
  "unicom_start durationMs now s =
     (let g = Suc (ut_generation s); running = Some (iso_string now, iso_string (now + durationMs))
      in (\<lparr>ut_timer = Some g, ut_generation = g, ut_running = running\<rparr>,
          clear_timer s @ [TimerSet g durationMs, TimerState running]))"

definition unicom_cancel :: "unicom \<Rightarrow> unicom \<times> unicom_out list" where
  "unicom_cancel s =
     (\<lparr>ut_timer = None, ut_generation = Suc (ut_generation s), ut_running = None\<rparr>,
      clear_timer s @ (if ut_running s \<noteq> None \<or> ut_timer s \<noteq> None then [TimerState None] else []))"

definition unicom_expire :: "nat \<Rightarrow> unicom \<Rightarrow> unicom \<times> unicom_out list" where
  "unicom_expire expected s =
     (case ut_running s of
        None \<Rightarrow> (s, [])
      | Some (startedAt, expiresAt) \<Rightarrow>
          if expected \<noteq> ut_generation s then (s, [])
          else (s\<lparr>ut_timer := None, ut_running := None\<rparr>, [TimerState None, TimerExpired expiresAt]))"

fun unicom_step :: "int \<Rightarrow> int \<times> unicom_in \<Rightarrow> unicom \<Rightarrow> unicom \<times> unicom_out list" where
  "unicom_step durationMs (now, StartTimer) = unicom_start durationMs now"
| "unicom_step durationMs (now, CancelTimer) = unicom_cancel"
| "unicom_step durationMs (now, TimerFires g) = unicom_expire g"

subsection \<open>Reachable states\<close>

text \<open>
  What a state remembers of the events that led to it: a running timer was started by the last
  start, no cancel came since, and the generation is that of this start.
\<close>

definition unicom_run :: "int \<Rightarrow> (int \<times> unicom_in) list \<Rightarrow> unicom" where
  "unicom_run durationMs es = fst (run_machine (unicom_step durationMs) es createUnicomTimer)"

definition callback_only :: "int \<times> unicom_in \<Rightarrow> bool" where
  "callback_only e = (case snd e of TimerFires g \<Rightarrow> True | _ \<Rightarrow> False)"

definition generations :: "(int \<times> unicom_in) list \<Rightarrow> nat" where
  "generations es = length (filter (\<lambda>e. \<not> callback_only e) es)"

lemma unicom_run_snoc: "unicom_run D (es @ [e]) = fst (unicom_step D e (unicom_run D es))"
  by (simp add: unicom_run_def run_machine_append case_prod_beta Let_def)

lemma unicom_generation: "ut_generation (unicom_run D es) = generations es"
proof (induction es rule: rev_induct)
  case (snoc e es)
  obtain now i where e: "e = (now, i)" by force
  show ?case
    using snoc by (cases i)
      (auto simp: e unicom_run_snoc generations_def callback_only_def unicom_start_def unicom_cancel_def
        unicom_expire_def Let_def split: option.splits)
qed (simp add: unicom_run_def createUnicomTimer_def generations_def)

lemma unicom_running:
  "ut_running (unicom_run D es) = Some (a, x) \<Longrightarrow>
     \<exists>as now bs. es = as @ (now, StartTimer) # bs \<and> list_all callback_only bs
       \<and> a = iso_string now \<and> x = iso_string (now + D)"
proof (induction es rule: rev_induct)
  case (snoc e es)
  obtain t i where e: "e = (t, i)" by force
  show ?case
  proof (cases i)
    case StartTimer
    then have "a = iso_string t" "x = iso_string (t + D)" "es @ [e] = es @ (t, StartTimer) # []"
      using snoc.prems by (simp_all add: e unicom_run_snoc unicom_start_def Let_def)
    then show ?thesis by (metis list.pred_inject(1))
  next
    case CancelTimer
    then show ?thesis using snoc.prems by (simp add: e unicom_run_snoc unicom_cancel_def)
  next
    case (TimerFires g)
    then have "ut_running (unicom_run D es) = Some (a, x)"
      using snoc.prems by (auto simp: e unicom_run_snoc unicom_expire_def split: option.splits if_splits)
    then obtain as now bs where *: "es = as @ (now, StartTimer) # bs" "list_all callback_only bs"
      "a = iso_string now" "x = iso_string (now + D)"
      using snoc.IH by blast
    then have "es @ [e] = as @ (now, StartTimer) # (bs @ [e])" "list_all callback_only (bs @ [e])"
      using TimerFires by (simp_all add: e callback_only_def)
    with * show ?thesis by blast
  qed
qed (simp add: unicom_run_def createUnicomTimer_def)

lemma callback_only_keeps:
  "list_all (\<lambda>e. callback_only e \<and> snd e \<noteq> TimerFires (ut_generation s)) bs \<Longrightarrow>
     fst (run_machine (unicom_step D) bs s) = s"
proof (induction bs)
  case (Cons e bs)
  obtain t i where e: "e = (t, i)" by force
  with Cons.prems obtain g where "i = TimerFires g" "g \<noteq> ut_generation s"
    by (cases i) (auto simp: callback_only_def)
  then have "fst (unicom_step D e s) = s" by (simp add: e unicom_expire_def split: option.splits)
  then show ?case using Cons by (simp add: case_prod_beta Let_def)
qed simp

text \<open>
  C29: the timer expires exactly when it should. An expiry is announced only by the callback of the
  last start, which no cancel and no other start followed, with the time of that start plus the
  duration, and it is not announced again; and as long as only callbacks of other generations
  come, the callback of the last start does announce it.
\<close>

theorem unicom_expiry:
  "(TimerExpired x \<in> set (snd (unicom_expire g (unicom_run D es))) \<longrightarrow>
      (\<exists>as now bs. es = as @ (now, StartTimer) # bs \<and> list_all callback_only bs \<and> g = generations es
         \<and> x = iso_string (now + D))
      \<and> (\<forall>h. snd (unicom_expire h (fst (unicom_expire g (unicom_run D es)))) = []))
   \<and> (list_all (\<lambda>e. callback_only e \<and> snd e \<noteq> TimerFires (Suc (generations es))) bs \<longrightarrow>
      TimerExpired (iso_string (now + D)) \<in>
        set (snd (unicom_expire (Suc (generations es)) (unicom_run D (es @ (now, StartTimer) # bs)))))"
proof (intro conjI impI)
  assume x: "TimerExpired x \<in> set (snd (unicom_expire g (unicom_run D es)))"
  then obtain a where a: "ut_running (unicom_run D es) = Some (a, x)" "g = ut_generation (unicom_run D es)"
    by (auto simp: unicom_expire_def split: option.splits if_splits)
  show "\<exists>as now bs. es = as @ (now, StartTimer) # bs \<and> list_all callback_only bs \<and> g = generations es
      \<and> x = iso_string (now + D)"
    using unicom_running [OF a(1)] a(2) unicom_generation [of D es] by auto
  show "\<forall>h. snd (unicom_expire h (fst (unicom_expire g (unicom_run D es)))) = []"
    using a by (simp add: unicom_expire_def)
next
  assume bs: "list_all (\<lambda>e. callback_only e \<and> snd e \<noteq> TimerFires (Suc (generations es))) bs"
  let ?s = "unicom_run D (es @ [(now, StartTimer)])"
  have s: "ut_running ?s = Some (iso_string now, iso_string (now + D))" "ut_generation ?s = Suc (generations es)"
    using unicom_generation [of D es] by (simp_all add: unicom_run_snoc unicom_start_def Let_def)
  have "unicom_run D (es @ (now, StartTimer) # bs) = fst (run_machine (unicom_step D) bs ?s)"
    using run_machine_append [of "unicom_step D" "es @ [(now, StartTimer)]" bs createUnicomTimer]
    by (simp add: unicom_run_def case_prod_beta Let_def)
  also have "\<dots> = ?s" using callback_only_keeps [of ?s bs D] bs s(2) by simp
  finally show "TimerExpired (iso_string (now + D)) \<in>
      set (snd (unicom_expire (Suc (generations es)) (unicom_run D (es @ (now, StartTimer) # bs))))"
    using s by (simp add: unicom_expire_def)
qed

theorem unicom_expiry_witness:
  "TimerExpired (iso_string (5 + 180000)) \<in>
     set (snd (unicom_expire (Suc (generations [(3, CancelTimer)]))
       (unicom_run 180000 ([(3, CancelTimer)] @ (5, StartTimer) # [(6, TimerFires 9)]))))"
  by (rule unicom_expiry [THEN conjunct2, rule_format]) (simp add: callback_only_def generations_def)

end
