(* ===== verification/Agent.thy ===== *)
theory Agent
  imports PushNotifications UnicomTimer FsdProxy PilotBridge
begin

section \<open>The agent (proxy.js)\<close>

text \<open>
  The local program puts its parts together: the bridge to PilotCore, the FSD proxy with the state
  of the agent, the push notifications and the UNICOM timer. What it adds is kept in \<open>alerts\<close>:
  the alert that IVAO was lost, which is delivered after ten seconds and retried for half an hour,
  the notice that the flight is online, the quiet period at its start, and the session for which
  the relay's watchdog is armed.

  A timer callback is an event that carries the generation it was made with. The answers to a
  delivery come with an event of their own. The environment (\<open>agent_env\<close>) has the platform of the
  notifications, \<open>Date.parse\<close> and the endpoints of the voice router; an event comes with the time
  and the UUID that the next session would get.
\<close>

definition IVAO_DISCONNECT_ALERT_DELAY_MS :: int where
  "IVAO_DISCONNECT_ALERT_DELAY_MS = 10000"

definition IVAO_DISCONNECT_ALERT_RETRY_MS :: int where
  "IVAO_DISCONNECT_ALERT_RETRY_MS = 30000"

definition IVAO_DISCONNECT_ALERT_WINDOW_MS :: int where
  "IVAO_DISCONNECT_ALERT_WINDOW_MS = 30 * 60 * 1000"

definition IVAO_STARTUP_NOTIFICATION_QUIET_MS :: int where
  "IVAO_STARTUP_NOTIFICATION_QUIET_MS = 2000"

definition DEFAULT_VHF1_VOLUME :: rat where
  "DEFAULT_VHF1_VOLUME = 76"

definition DEFAULT_VHF2_VOLUME :: rat where
  "DEFAULT_VHF2_VOLUME = 50"

record alerts =
  al_timer :: "nat option"
  al_deadline :: int
  al_generation :: nat
  al_connection :: nat
  al_connected_timer :: "nat option"
  al_quiet_until :: int
  al_armed :: bool
  al_session :: jstr

record agent =
  ag_fsd :: fsd
  ag_bridge :: bridge
  ag_unicom :: unicom
  ag_push :: push
  ag_alerts :: alerts
  ag_host :: jstr

record agent_env =
  ae_push :: push_env
  ae_parse :: "jstr \<Rightarrow> int option"
  ae_voice :: "jstr \<Rightarrow> FsdProxy.endpoint"

record moment =
  at_now :: int
  at_uuid :: jstr

datatype agent_out = FsdOut fsd_out | BridgeOut bridge_out | AppOut app_out | PushOut push_out
  | UnicomOut unicom_out | DisconnectTimerSet nat int | ConnectedTimerSet nat int
  | SyncAgentWatchdog | VoiceReset | ExpiredNotice jstr

type_synonym agent_handler = "agent \<Rightarrow> agent \<times> agent_out list"

definition init_alerts :: alerts where
  "init_alerts = \<lparr>al_timer = None, al_deadline = 0, al_generation = 0, al_connection = 0,
     al_connected_timer = None, al_quiet_until = 0, al_armed = False, al_session = []\<rparr>"

definition init_agent :: "push \<Rightarrow> agent" where
  "init_agent p = \<lparr>ag_fsd = createFsdProxy, ag_bridge = bridge_init, ag_unicom = createUnicomTimer,
     ag_push = p, ag_alerts = init_alerts, ag_host = js ''ws-1.eu-west-2.ivao.aero''\<rparr>"

definition isConnected :: "agent \<Rightarrow> bool" where
  "isConnected s = (ivao_open (ag_fsd s) \<noteq> None)"

abbreviation app_of :: "agent \<Rightarrow> app_state" where
  "app_of s \<equiv> fx_app (ag_fsd s)"

definition callsign_text :: "agent \<Rightarrow> jstr" where
  "callsign_text s = opt_text (as_callsign (app_of s))"

definition on_alerts :: "(alerts \<Rightarrow> alerts) \<Rightarrow> agent \<Rightarrow> agent" where
  "on_alerts f s = s\<lparr>ag_alerts := f (ag_alerts s)\<rparr>"

definition app_op :: "app_handler \<Rightarrow> agent_handler" where
  "app_op f s = (let (a, outs) = f (app_of s)
     in (s\<lparr>ag_fsd := (ag_fsd s)\<lparr>fx_app := a\<rparr>\<rparr>, map AppOut outs))"

definition bridge_op :: "bridge_handler \<Rightarrow> agent_handler" where
  "bridge_op f s = (let (b, outs) = f (ag_bridge s) in (s\<lparr>ag_bridge := b\<rparr>, map BridgeOut outs))"

subsection \<open>Alerts\<close>

definition cancelIvaoDisconnectAlert :: "agent \<Rightarrow> agent" where
  "cancelIvaoDisconnectAlert = on_alerts (\<lambda>a. a\<lparr>al_generation := Suc (al_generation a), al_timer := None,
     al_deadline := 0\<rparr>)"

definition cancelIvaoConnectedAlert :: "agent \<Rightarrow> agent" where
  "cancelIvaoConnectedAlert = on_alerts (\<lambda>a. a\<lparr>al_connection := Suc (al_connection a),
     al_connected_timer := None, al_quiet_until := 0\<rparr>)"

definition armAgentOfflineWatchdog :: "jstr \<Rightarrow> agent_handler" where
  "armAgentOfflineWatchdog uuid s =
     (on_alerts (\<lambda>a. a\<lparr>al_armed := True, al_session := js ''flight-'' @ uuid\<rparr>) s, [SyncAgentWatchdog])"

definition disarmAgentOfflineWatchdog :: agent_handler where
  "disarmAgentOfflineWatchdog s =
     (if al_session (ag_alerts s) = [] then (s, [])
      else (on_alerts (\<lambda>a. a\<lparr>al_armed := False\<rparr>) s, [SyncAgentWatchdog]))"

definition handleAgentWatchdogFired :: "jstr \<Rightarrow> agent \<Rightarrow> agent" where
  "handleAgentWatchdogFired sessionId s =
     (if sessionId = [] \<or> sessionId \<noteq> al_session (ag_alerts s) then s else cancelIvaoDisconnectAlert s)"

definition handleIvaoConnected :: "moment \<Rightarrow> agent_handler" where
  "handleIvaoConnected t =
     andThen (bridge_op (PilotBridge.setRadioVolume 1 (Fin DEFAULT_VHF1_VOLUME)))
       (andThen (bridge_op (PilotBridge.setRadioVolume 2 (Fin DEFAULT_VHF2_VOLUME)))
         (andThen (\<lambda>s. (cancelIvaoDisconnectAlert s, []))
           (andThen (armAgentOfflineWatchdog (at_uuid t))
             (\<lambda>s. let s1 = cancelIvaoConnectedAlert s; g = al_connection (ag_alerts s1)
                  in (on_alerts (\<lambda>a. a\<lparr>al_quiet_until := at_now t + IVAO_STARTUP_NOTIFICATION_QUIET_MS,
                                      al_connected_timer := Some g\<rparr>) s1,
                      [ConnectedTimerSet g IVAO_STARTUP_NOTIFICATION_QUIET_MS])))))"

text \<open>The requests of a delivery; without targets there are none.\<close>

definition requests :: "delivery + push_out list \<Rightarrow> agent_out list" where
  "requests r = (case r of Inl d \<Rightarrow> [] | Inr outs \<Rightarrow> map PushOut outs)"

definition connected_timer_fires :: "agent_env \<Rightarrow> nat \<Rightarrow> agent_handler" where
  "connected_timer_fires E generation s =
     (let s1 = on_alerts (\<lambda>a. a\<lparr>al_connected_timer := None\<rparr>) s in
      if generation \<noteq> al_connection (ag_alerts s1) \<or> \<not> isConnected s1 then (s1, [])
      else (s1, requests (notifyIvaoConnected (ae_push E) (callsign_text s1) (ag_push s1))))"

definition scheduleIvaoDisconnectAlert :: "agent_env \<Rightarrow> int \<Rightarrow> agent_handler" where
  "scheduleIvaoDisconnectAlert E now s0 =
     (let s = cancelIvaoDisconnectAlert s0 in
      if length (subscriptions (ag_push s)) < 1 then (s, [])
      else if disconnectAlertSuppressionReason (ae_parse E) (as_telemetry (app_of s)) now \<noteq> [] then (s, [])
      else (let generation = al_generation (ag_alerts s)
            in (on_alerts (\<lambda>a. a\<lparr>al_deadline := now + IVAO_DISCONNECT_ALERT_WINDOW_MS,
                                al_timer := Some generation\<rparr>) s,
                [DisconnectTimerSet generation IVAO_DISCONNECT_ALERT_DELAY_MS])))"

text \<open>\<open>deliverIvaoDisconnectAlert\<close> up to the request.\<close>

definition deliverIvaoDisconnectAlert :: "agent_env \<Rightarrow> int \<Rightarrow> nat \<Rightarrow> agent_handler" where
  "deliverIvaoDisconnectAlert E now generation s =
     (if generation \<noteq> al_generation (ag_alerts s) then (s, [])
      else (let s1 = on_alerts (\<lambda>a. a\<lparr>al_timer := None\<rparr>) s in
        if isConnected s1 then (cancelIvaoDisconnectAlert s1, [])
        else if now > al_deadline (ag_alerts s1) then (cancelIvaoDisconnectAlert s1, [])
        else (s1, requests (notifyIvaoDisconnected (ae_push E) (callsign_text s1) (ag_push s1)))))"

definition retryIvaoDisconnectAlert :: "int \<Rightarrow> nat \<Rightarrow> agent_handler" where
  "retryIvaoDisconnectAlert now generation s =
     (if now + IVAO_DISCONNECT_ALERT_RETRY_MS > al_deadline (ag_alerts s) then (cancelIvaoDisconnectAlert s, [])
      else (on_alerts (\<lambda>a. a\<lparr>al_timer := Some generation\<rparr>) s,
            [DisconnectTimerSet generation IVAO_DISCONNECT_ALERT_RETRY_MS]))"

text \<open>
  Its rest, once the answers are there (\<open>[]\<close> when nothing was sent). \<open>thrown\<close> says that the
  delivery ended with an exception, as when the file cannot be written.
\<close>

definition disconnect_answered ::
  "int \<Rightarrow> nat \<Rightarrow> (subscription \<times> push_answer) list \<Rightarrow> bool \<Rightarrow> agent_handler" where
  "disconnect_answered now generation answers thrown s0 =
     (let (p, result, outs) = deliver_end answers (ag_push s0);
          s = s0\<lparr>ag_push := p\<rparr>
      in if thrown then retryIvaoDisconnectAlert now generation s
         else andThen (\<lambda>s. (s, map PushOut outs))
           (\<lambda>s. if generation \<noteq> al_generation (ag_alerts s) then (s, [])
                else if dl_sent result > 0 then (cancelIvaoDisconnectAlert s, [])
                else if dl_subscriptionCount result < 1 then (cancelIvaoDisconnectAlert s, [])
                else if isConnected s then (cancelIvaoDisconnectAlert s, [])
                else retryIvaoDisconnectAlert now generation s) s)"

subsection \<open>Sessions of the FSD proxy\<close>

definition handleIvaoClosed :: "agent_env \<Rightarrow> moment \<Rightarrow> bool \<Rightarrow> agent_handler" where
  "handleIvaoClosed E t wasConnected =
     andThen (\<lambda>s. (cancelIvaoConnectedAlert s, []))
       (andThen (if wasConnected then disarmAgentOfflineWatchdog else (\<lambda>s. (s, [])))
         (andThen (\<lambda>s. (s, [VoiceReset]))
           (if wasConnected then scheduleIvaoDisconnectAlert E (at_now t) else (\<lambda>s. (s, [])))))"

text \<open>
  The callbacks of the proxy run when it calls them, here when its step is done: a session that
  opens or ends is the last change of a step.
\<close>

definition fsd_react :: "agent_env \<Rightarrow> moment \<Rightarrow> fsd_out \<Rightarrow> agent_handler" where
  "fsd_react E t out =
     (case out of
        SessionOpened \<Rightarrow> handleIvaoConnected t
      | SessionEnded was \<Rightarrow> handleIvaoClosed E t was
      | out \<Rightarrow> (\<lambda>s. (s, [FsdOut out])))"

definition agent_fsd :: "agent_env \<Rightarrow> moment \<Rightarrow> fsd_in \<Rightarrow> agent_handler" where
  "agent_fsd E t e s =
     (let (f, outs) = fsd_step (ae_voice E) (at_now t, e) (ag_fsd s)
      in each (fsd_react E t) outs (s\<lparr>ag_fsd := f\<rparr>))"

subsection \<open>Callbacks of the bridge\<close>

definition bridge_react :: "moment \<Rightarrow> bridge_out \<Rightarrow> agent_handler" where
  "bridge_react t out =
     (case out of
        HostSeen ip \<Rightarrow> (\<lambda>s. (s\<lparr>ag_host := ip\<rparr>, []))
      | CallsignSeen c \<Rightarrow> app_op (setCallsign (at_now t) c True)
      | ComSeen com freq \<Rightarrow> app_op (updateComFrequency com freq [])
      | out \<Rightarrow> (\<lambda>s. (s, [BridgeOut out])))"

definition agent_bridge :: "moment \<Rightarrow> bridge_event \<Rightarrow> agent_handler" where
  "agent_bridge t e s =
     (let (b, outs) = bridge_step 6809 e (ag_bridge s)
      in each (bridge_react t) outs (s\<lparr>ag_bridge := b\<rparr>))"

subsection \<open>Commands to PilotCore\<close>

text \<open>What the bridge answered; a command it could not encode ends with an exception.\<close>

definition replied :: "bridge_out list \<Rightarrow> bool" where
  "replied outs = List.member outs (Replied True)"

definition setCom :: "nat \<Rightarrow> json \<Rightarrow> jstr \<Rightarrow> agent \<Rightarrow> agent \<times> agent_out list \<times> bool" where
  "setCom com freq station s =
     (let value = normalizePilotComFrequency freq in
      if value = [] then (s, [], False)
      else (let (b, outs) = PilotBridge.setCom com value (ag_bridge s);
                s1 = s\<lparr>ag_bridge := b\<rparr>; ok = replied outs;
                (s2, outs2) = (if ok then app_op (updateComFrequency com (JStr value) station) s1 else (s1, []))
            in (s2, map BridgeOut outs @ outs2, ok)))"

definition setSquawk :: "moment \<Rightarrow> jstr \<Rightarrow> agent \<Rightarrow> agent \<times> agent_out list \<times> bool" where
  "setSquawk t code s =
     (let squawk = normalizeSquawkCode (Some code) in
      if squawk = [] then (s, [], False)
      else (let (b, outs) = PilotBridge.setSquawk squawk (ag_bridge s);
                s1 = s\<lparr>ag_bridge := b\<rparr>; ok = replied outs;
                (s2, outs2) = (if ok then app_op (updateXpdrState (at_now t) squawk []) s1 else (s1, []))
            in (s2, map BridgeOut outs @ outs2, ok)))"

definition toggleXpdr :: "moment \<Rightarrow> jstr \<Rightarrow> agent \<Rightarrow> agent \<times> agent_out list \<times> bool" where
  "toggleXpdr t mode s =
     (let (b, outs) = PilotBridge.toggleXpdr (ag_bridge s);
          s1 = s\<lparr>ag_bridge := b\<rparr>; ok = replied outs;
          (s2, outs2) = (if ok \<and> (mode = js ''stby'' \<or> mode = js ''alt'')
            then app_op (updateXpdrState (at_now t) [] mode) s1 else (s1, []))
      in (s2, map BridgeOut outs @ outs2, ok))"

definition sendIdent :: "agent \<Rightarrow> agent \<times> agent_out list \<times> bool" where
  "sendIdent s = (let (b, outs) = PilotBridge.sendIdent (ag_bridge s)
     in (s\<lparr>ag_bridge := b\<rparr>, map BridgeOut outs, replied outs))"

subsection \<open>Messages and the timer\<close>

text \<open>The notification of a published message; \<open>callsign\<close> is the one at that time.\<close>

definition publishToClients :: "agent_env \<Rightarrow> int \<Rightarrow> chat_msg \<Rightarrow> jstr \<Rightarrow> agent_handler" where
  "publishToClients E now m callsign s =
     (let suppressStartupServer = (now < al_quiet_until (ag_alerts s));
          (p, r) = notifyForMessage (ae_push E) now m callsign suppressStartupServer (ag_push s)
      in (s\<lparr>ag_push := p\<rparr>, case r of Requests q \<Rightarrow> requests q | _ \<Rightarrow> []))"

definition deliverUnicomTimerAlert :: "agent_env \<Rightarrow> jstr \<Rightarrow> agent_handler" where
  "deliverUnicomTimerAlert E expiredAt s =
     (s, ExpiredNotice expiredAt # requests (notifyUnicomTimerExpired (ae_push E) (callsign_text s) (ag_push s)))"

definition unicom_react :: "agent_env \<Rightarrow> unicom_out \<Rightarrow> agent_handler" where
  "unicom_react E out = (case out of
     TimerExpired x \<Rightarrow> deliverUnicomTimerAlert E x | out \<Rightarrow> (\<lambda>s. (s, [UnicomOut out])))"

definition agent_unicom :: "agent_env \<Rightarrow> moment \<Rightarrow> unicom_in \<Rightarrow> agent_handler" where
  "agent_unicom E t e s =
     (let (u, outs) = unicom_step DEFAULT_DURATION_MS (at_now t, e) (ag_unicom s)
      in each (unicom_react E) outs (s\<lparr>ag_unicom := u\<rparr>))"

subsection \<open>The machine\<close>

datatype agent_in = FsdIn fsd_in | BridgeIn bridge_event | UnicomIn unicom_in | PushIn push_in
  | DisconnectTimer nat | DisconnectAnswered nat "(subscription \<times> push_answer) list" bool
  | ConnectedTimer nat | WatchdogFired jstr | Publish chat_msg jstr
  | CommandCom nat json jstr | CommandSquawk jstr | CommandXpdr jstr | CommandIdent

definition command :: "agent \<times> agent_out list \<times> bool \<Rightarrow> agent \<times> agent_out list" where
  "command r = (fst r, fst (snd r))"

fun agent_step :: "agent_env \<Rightarrow> moment \<times> agent_in \<Rightarrow> agent_handler" where
  "agent_step E (t, FsdIn e) s = agent_fsd E t e s"
| "agent_step E (t, BridgeIn e) s = agent_bridge t e s"
| "agent_step E (t, UnicomIn e) s = agent_unicom E t e s"
| "agent_step E (t, PushIn e) s =
     (let (p, outs) = push_step (ae_push E) (at_now t, e) (ag_push s) in (s\<lparr>ag_push := p\<rparr>, map PushOut outs))"
| "agent_step E (t, DisconnectTimer g) s = deliverIvaoDisconnectAlert E (at_now t) g s"
| "agent_step E (t, DisconnectAnswered g answers thrown) s = disconnect_answered (at_now t) g answers thrown s"
| "agent_step E (t, ConnectedTimer g) s = connected_timer_fires E g s"
| "agent_step E (t, WatchdogFired sid) s = (handleAgentWatchdogFired sid s, [])"
| "agent_step E (t, Publish m c) s = publishToClients E (at_now t) m c s"
| "agent_step E (t, CommandCom com freq station) s = command (setCom com freq station s)"
| "agent_step E (t, CommandSquawk code) s = command (setSquawk t code s)"
| "agent_step E (t, CommandXpdr mode) s = command (toggleXpdr t mode s)"
| "agent_step E (t, CommandIdent) s = command (sendIdent s)"

end
