(* ===== verification/DateFacts.thy ===== *)
theory DateFacts
  imports JDates Validate
begin

section \<open>Timestamps are well formed\<close>

text \<open>
  \<open>toISOString\<close> of a time between 1970 and the year 9575 passes the timestamp validator of the
  protocol: the year has four digits, the month and the day two.
\<close>

lemma year_of_era: "0 \<le> doe \<Longrightarrow> doe \<le> 146096 \<Longrightarrow>
   0 \<le> (doe - doe div 1460 + doe div 36524 - doe div 146096) div 365 \<and>
   (doe - doe div 1460 + doe div 36524 - doe div 146096) div 365 \<le> (400::int)"
  by (intro conjI; linarith)

text \<open>The bounds need not be tight: two digits are enough for month and day.\<close>

lemma civil_bounds:
  assumes "0 \<le> days" "days < 2786860" "civil_of_days days = (y, m, d)"
  shows "0 \<le> y \<and> y \<le> 9999 \<and> m < 100 \<and> d < 100"
proof -
  define z where "z = days + 719468"
  define era where "era = z div 146097"
  define doe where "doe = z mod 146097"
  define yoe where "yoe = (doe - doe div 1460 + doe div 36524 - doe div 146096) div 365"
  define doy where "doy = doe - (365 * yoe + yoe div 4 - yoe div 100)"
  define mp where "mp = (5 * doy + 2) div 153"
  have doe: "0 \<le> doe" "doe \<le> 146096" by (simp_all add: doe_def)
  have yoe: "0 \<le> yoe" "yoe \<le> 400" using year_of_era [OF doe] by (simp_all add: yoe_def)
  have era: "0 \<le> era" "era \<le> 23" using assms(1,2) unfolding era_def z_def by linarith+
  define N where "N = doe - doe div 1460 + doe div 36524 - doe div 146096"
  have "365 * yoe \<ge> N - 364" unfolding yoe_def N_def [symmetric] by linarith
  moreover have "doe div 1460 \<le> 101" "0 \<le> doe div 36524" "doe div 146096 \<le> 1" "0 \<le> yoe div 4" "yoe div 100 \<le> 4"
    using doe yoe by linarith+
  ultimately have doy: "doy \<le> 1000" unfolding doy_def N_def by linarith
  have mp: "mp \<le> 90" using doy unfolding mp_def by linarith
  have d: "doy - (153 * mp + 2) div 5 + 1 < 100" unfolding mp_def by linarith
  have "civil_of_days days =
      (yoe + era * 400 + (if (if mp < 10 then mp + 3 else mp - 9) \<le> 2 then 1 else 0),
       (if mp < 10 then mp + 3 else mp - 9), doy - (153 * mp + 2) div 5 + 1)"
    unfolding civil_of_days_def Let_def mp_def doy_def yoe_def doe_def era_def z_def by (rule refl)
  then have "y = yoe + era * 400 + (if m \<le> 2 then 1 else 0)" "d = doy - (153 * mp + 2) div 5 + 1"
    "m = (if mp < 10 then mp + 3 else mp - 9)"
    using assms(3) by (simp_all only: prod.inject)
  then show ?thesis using yoe era mp d by auto
qed

lemma nat_digits_short: "n < 10 ^ k \<Longrightarrow> 0 < k \<Longrightarrow> length (nat_digits n) \<le> k"
proof (induction n arbitrary: k rule: nat_digits.induct)
  case (1 n)
  show ?case
  proof (cases "n < 10")
    case True then show ?thesis using 1 by (subst nat_digits.simps) simp
  next
    case False
    then obtain j where k: "k = Suc j" "0 < j" using "1.prems" by (cases k; cases "k - 1") auto
    have "n div 10 < 10 ^ j" using "1.prems"(1) k by (simp add: less_mult_imp_div_less mult.commute)
    then show ?thesis using "1.IH" [OF False, of j] k False by (subst nat_digits.simps) simp
  qed
qed

lemma pad_int_digits: "i < 10 ^ w \<Longrightarrow> 0 < w \<Longrightarrow> rx_match (Reps is_digit w w) (pad_int w i)"
proof -
  assume i: "i < 10 ^ w" "0 < w"
  have "nat i < 10 ^ w" using i by (simp add: nat_less_iff)
  then have "length (nat_digits (nat i)) \<le> w" using nat_digits_short i by blast
  then show ?thesis
    by (auto simp: pad_int_def length_pad_start list_all_iff pad_start_def is_digit_def dest: nat_digits_digit)
qed

lemma seqI: "u \<in> rx_lang r \<Longrightarrow> v \<in> rx_lang s \<Longrightarrow> u @ v \<in> rx_lang (Seq r s)"
  by auto

lemma iso_like: "0 \<le> ms \<Longrightarrow> ms < 240000000000000 \<Longrightarrow> isIsoLike (JStr (iso_string ms))"
proof -
  assume ms: "0 \<le> ms" "ms < 240000000000000"
  obtain y m d where c: "civil_of_days (ms div 86400000) = (y, m, d)" by (metis prod_cases3)
  have "0 \<le> ms div 86400000" "ms div 86400000 < 2786860" using ms by linarith+
  from civil_bounds [OF this c] have b: "0 \<le> y" "y \<le> 9999" "m < 100" "d < 100" by auto
  have y: "rx_match (Reps is_digit 4 4) (iso_year y)" "rx_match (Reps is_digit 2 2) (pad_int 2 m)"
    "rx_match (Reps is_digit 2 2) (pad_int 2 d)"
    using b pad_int_digits [of y 4] pad_int_digits [of m 2] pad_int_digits [of d 2] by (simp_all add: iso_year_def)
  have "\<exists>rest. iso_string ms = iso_year y @ js ''-'' @ pad_int 2 m @ js ''-'' @ pad_int 2 d @ js ''T'' @ rest @ []"
    by (simp add: iso_string_def c Let_def js_def)
  then obtain rest where e: "iso_string ms =
      iso_year y @ js ''-'' @ pad_int 2 m @ js ''-'' @ pad_int 2 d @ js ''T'' @ rest @ []" by blast
  have t: "s \<in> rx_lang (many any_unit)" for s by (simp add: any_unit_def list_all_iff)
  have "iso_string ms \<in> rx_lang iso_rx"
    unfolding iso_rx_def seqs.simps
    by (subst e, intro seqI t) (use y in \<open>simp_all add: rx_match_iff\<close>)
  then show ?thesis by (simp add: isIsoLike_def str_test_def rx_match_iff)
qed

end
