(* ===== verification/PushProps.thy ===== *)
theory PushProps
  imports PushNotifications DateFacts
begin

section \<open>Properties of the push notifications\<close>

subsection \<open>What the platform is relied on for\<close>

text \<open>
  SHA-256 as a hexadecimal text has 64 digits. The serialization of a URL parses to a URL of the
  same protocol and host, and is its own serialization (WHATWG URL, "URL serializing").
\<close>

definition sha256_hex :: "push_env \<Rightarrow> bool" where
  "sha256_hex E \<longleftrightarrow> (\<forall>s. length (pe_hash E s) = 64 \<and> list_all (\<lambda>c. is_digit c \<or> (97 \<le> c \<and> c \<le> 102)) (pe_hash E s))"

definition url_serializes :: "push_env \<Rightarrow> bool" where
  "url_serializes E \<longleftrightarrow> (\<forall>s u. pe_url E s = Some u \<longrightarrow>
     pe_page E (pe_page E s) = pe_page E s
     \<and> (\<exists>v. pe_url E (pe_page E s) = Some v \<and> u_protocol v = u_protocol u \<and> u_hostname v = u_hostname u))"

lemma normalizeAppUrl_again:
  "url_serializes E \<Longrightarrow> normalizeAppUrl E s \<noteq> [] \<Longrightarrow> normalizeAppUrl E (normalizeAppUrl E s) = normalizeAppUrl E s"
proof -
  assume h: "url_serializes E" "normalizeAppUrl E s \<noteq> []"
  then obtain u where u: "pe_url E s = Some u" by (auto simp: normalizeAppUrl_def split: option.splits)
  have n: "normalizeAppUrl E s = pe_page E s"
    using h(2) by (simp add: normalizeAppUrl_def u Let_def split: if_splits)
  obtain v where "pe_url E (pe_page E s) = Some v" "u_protocol v = u_protocol u" "u_hostname v = u_hostname u"
    "pe_page E (pe_page E s) = pe_page E s"
    using h(1) u by (auto simp: url_serializes_def)
  then show ?thesis using h(2) n by (auto simp: normalizeAppUrl_def u Let_def split: if_splits)
qed

subsection \<open>Subscriptions\<close>

definition sub_ok :: "push_env \<Rightarrow> subscription \<Rightarrow> bool" where
  "sub_ok E s \<longleftrightarrow> validPushEndpoint E (ps_endpoint s) \<and> trim (ps_endpoint s) = ps_endpoint s
     \<and> validPushKey (ps_p256dh s) \<and> validPushKey (ps_auth s)
     \<and> rx_match (Reps token_char 8 160) (ps_deviceId s)
     \<and> length (ps_deviceName s) \<le> 80 \<and> trim (ps_deviceName s) \<noteq> []
     \<and> ps_appUrl s \<noteq> [] \<and> normalizeAppUrl E (ps_appUrl s) = ps_appUrl s"

lemma hex_token: "sha256_hex E \<Longrightarrow> rx_match (Reps token_char 8 160) (take 32 (pe_hash E s))"
proof -
  assume "sha256_hex E"
  then have h: "length (pe_hash E s) = 64" "\<forall>c \<in> set (pe_hash E s). is_digit c \<or> (97 \<le> c \<and> c \<le> 102)"
    by (auto simp: sha256_hex_def list_all_iff)
  have "\<forall>c \<in> set (take 32 (pe_hash E s)). token_char c"
    using h(2) by (auto dest!: in_set_takeD simp: token_char_def alnum_def is_digit_def is_lower_def)
  then show ?thesis using h(1) by (simp add: list_all_iff)
qed

lemma base64_no_ws: "base64url_char c \<Longrightarrow> \<not> is_ws c" and token_no_ws: "token_char c \<Longrightarrow> \<not> is_ws c"
  by (auto simp: base64url_char_def token_char_def alnum_def char_classes is_ws_def js_def)

lemma trim_key: "validPushKey s \<Longrightarrow> trim s = s"
  by (rule trim_no_ws) (auto simp: validPushKey_def list_all_iff base64_no_ws)

lemma trim_token: "rx_match (Reps token_char n m) s \<Longrightarrow> trim s = s"
  by (rule trim_no_ws) (auto simp: list_all_iff token_no_ws)

lemma trim_take: "take n (trim s) \<noteq> [] \<Longrightarrow> trim (take n (trim s)) \<noteq> []"
proof -
  assume a: "take n (trim s) \<noteq> []"
  then have h: "hd (take n (trim s)) = hd (trim s)" "trim s \<noteq> []" by (cases n; cases "trim s"; simp)+
  then have "\<not> is_ws (hd (take n (trim s)))" using trim_hd by simp
  then obtain c t where ct: "take n (trim s) = c # t" "\<not> is_ws c" using a by (cases "take n (trim s)") auto
  then have "c \<in> set (trim (take n (trim s)))"
    by (auto simp: trim_def dropWhile_append)
  then show ?thesis by auto
qed

lemma default_name: "trim (js ''Browser device'') \<noteq> []" "length (js ''Browser device'') \<le> 80"
  by (simp_all add: js_def trim_def is_ws_def)

lemma normalized_ok:
  assumes "sha256_hex E" "url_serializes E" "normalizeSubscription E v = Some s"
  shows "sub_ok E s"
proof -
  obtain p where v: "v = JObj p" using assms(3) by (auto simp: normalizeSubscription_def split: json.splits)
  note d = assms(3) [unfolded v normalizeSubscription_def json.case Let_def, simplified]
  show ?thesis
    using d hex_token [OF assms(1)] normalizeAppUrl_again [OF assms(2)] trim_take default_name
    by (fastforce simp: sub_ok_def split: if_splits)
qed

text \<open>What a subscription is after it was written and read: \<open>createdAt\<close> is not read back.\<close>

definition reload :: "subscription \<Rightarrow> subscription" where
  "reload s = s\<lparr>ps_createdAt := None, ps_deviceName := trim (ps_deviceName s)\<rparr>"

lemma validPushEndpoint_ne: "validPushEndpoint E s \<Longrightarrow> s \<noteq> []"
  by (auto simp: validPushEndpoint_def split: if_splits)

lemma normalize_reload: "sub_ok E s \<Longrightarrow> normalizeSubscription E (subscription_json s) = Some (reload s)"
proof -
  assume s: "sub_ok E s"
  have k: "trim (ps_p256dh s) = ps_p256dh s" "trim (ps_auth s) = ps_auth s" "trim (ps_deviceId s) = ps_deviceId s"
    "ps_p256dh s \<noteq> []" "ps_auth s \<noteq> []" "ps_deviceId s \<noteq> []" "ps_deviceName s \<noteq> []"
    using s trim_key trim_token by (auto simp: sub_ok_def validPushKey_def)
  have n: "take 80 (trim (ps_deviceName s)) = trim (ps_deviceName s)"
    using s length_trim_le [of "ps_deviceName s"] by (simp add: sub_ok_def)
  show ?thesis
    using s k n validPushEndpoint_ne [of E "ps_endpoint s"] by (cases "ps_createdAt s")
      (simp_all add: sub_ok_def normalizeSubscription_def subscription_json_def member_at_def str_or_2_def
        opt_truthy_def str_or_empty_def or_else_def reload_def Let_def)
qed

lemma last_32_short: "length l \<le> MAX_SUBSCRIPTIONS \<Longrightarrow> last_32 l = l"
  by (simp add: last_32_def)

lemma length_last_32: "length (last_32 l) \<le> MAX_SUBSCRIPTIONS"
  by (simp add: last_32_def)

lemma set_last_32: "set (last_32 l) \<subseteq> set l"
  by (simp add: last_32_def set_drop_subset)

lemma map_last_32: "map f (last_32 l) = last_32 (map f l)"
  by (simp add: last_32_def drop_map)

lemma distinct_last_32: "distinct l \<Longrightarrow> distinct (last_32 l)"
  by (simp add: last_32_def)

text \<open>The store: at most 32 valid subscriptions, one for an endpoint and one for a device.\<close>

definition storeInv :: "push_env \<Rightarrow> push \<Rightarrow> bool" where
  "storeInv E s \<longleftrightarrow> length (subscriptions s) \<le> MAX_SUBSCRIPTIONS \<and> list_all (sub_ok E) (subscriptions s)
     \<and> distinct (map ps_endpoint (subscriptions s)) \<and> distinct (map ps_deviceId (subscriptions s))
     \<and> validVapid (st_vapid (pn_store s))"

lemma load_persist:
  assumes "storeInv E s"
  shows "loadStore E (Some (persistStore (pn_store s))) =
    (pn_store s)\<lparr>st_subscriptions := map reload (subscriptions s)\<rparr>"
proof -
  have "List.map_filter (normalizeSubscription E) (map subscription_json l) = map reload l"
    if "list_all (sub_ok E) l" for l
    using that by (induction l) (simp_all add: List.map_filter_simps normalize_reload)
  moreover have "length (map reload (subscriptions s)) \<le> MAX_SUBSCRIPTIONS" using assms by (simp add: storeInv_def)
  ultimately show ?thesis
    using assms by (simp add: loadStore_def persistStore_def member_at_def storeInv_def last_32_short validVapid_def or_else_def)
qed

subsection \<open>Every operation\<close>

text \<open>
  An operation leaves the subscriptions as they are and writes nothing, or the last thing it
  writes is the store it leaves behind; and it keeps the invariant.
\<close>

definition written :: "push_out list \<Rightarrow> json option \<Rightarrow> json option" where
  "written outs file = fold (\<lambda>out f. case out of Persisted j \<Rightarrow> Some j | _ \<Rightarrow> f) outs file"

lemma written_append [simp]: "written (a @ b) f = written b (written a f)"
  and written_Nil [simp]: "written [] f = f"
  and written_Persisted [simp]: "written [Persisted j] f = Some j"
  by (simp_all add: written_def)

lemma written_sent [simp]: "written (map (\<lambda>t. PushSent t (g t) n) ts) f = f"
  by (induction ts) (simp_all add: written_def)

definition saves :: "push \<Rightarrow> push \<times> push_out list \<Rightarrow> bool" where
  "saves s r \<longleftrightarrow> (pn_store (fst r) = pn_store s \<and> (\<forall>f. written (snd r) f = f))
     \<or> (\<forall>f. written (snd r) f = Some (persistStore (pn_store (fst r))))"

lemma pn_store_set [simp]: "pn_store (set_subscriptions l s) = (pn_store s)\<lparr>st_subscriptions := l\<rparr>"
  by (simp add: set_subscriptions_def)

lemma storeInv_cong: "pn_store s = pn_store t \<Longrightarrow> storeInv E s = storeInv E t"
  by (simp add: storeInv_def)

lemma storeInv_filter: "storeInv E s \<Longrightarrow> storeInv E (set_subscriptions (filter P (subscriptions s)) s)"
  by (auto simp: storeInv_def distinct_map_filter list_all_iff intro: le_trans [OF length_filter_le])

lemma add_ok:
  assumes "sha256_hex E" "url_serializes E" "storeInv E s"
  shows "storeInv E (fst (push_step E (now, Subscribe v) s)) \<and> saves s (push_step E (now, Subscribe v) s)"
proof (cases "normalizeSubscription E v")
  case None
  then show ?thesis using assms(3) by (simp add: addSubscription_def saves_def)
next
  case (Some sub)
  have sub: "sub_ok E sub" by (rule normalized_ok [OF assms(1,2) Some])
  then have d: "ps_deviceId sub \<noteq> []" by (auto simp: sub_ok_def)
  let ?kept = "filter (\<lambda>i. ps_endpoint i \<noteq> ps_endpoint sub \<and> ps_deviceId i \<noteq> ps_deviceId sub) (subscriptions s)"
  let ?l = "?kept @ [sub\<lparr>ps_createdAt := Some (iso_string now)\<rparr>]"
  have l: "list_all (sub_ok E) ?l" "distinct (map ps_endpoint ?l)" "distinct (map ps_deviceId ?l)"
    using assms(3) sub by (auto simp: storeInv_def list_all_iff sub_ok_def distinct_map_filter)
  have k: "(if length ?l > MAX_SUBSCRIPTIONS then last_32 ?l else ?l) = last_32 ?l"
    by (simp add: last_32_def)
  have v: "validVapid (st_vapid (pn_store s))" using assms(3) by (simp add: storeInv_def)
  have e: "push_step E (now, Subscribe v) s =
      (set_subscriptions (last_32 ?l) s, [Persisted (persistStore (pn_store (set_subscriptions (last_32 ?l) s)))])"
    using d k by (simp add: addSubscription_def Some Let_def)
  have "storeInv E (set_subscriptions (last_32 ?l) s)"
    using l(1) set_last_32 [of ?l] length_last_32 [of ?l] distinct_last_32 [OF l(2)] distinct_last_32 [OF l(3)] v
    by (auto simp: storeInv_def list_all_iff map_last_32)
  then show ?thesis unfolding e by (simp add: saves_def)
qed

lemma remove_ok: "storeInv E s \<Longrightarrow>
    storeInv E (fst (push_step E (now, Unsubscribe v) s)) \<and> saves s (push_step E (now, Unsubscribe v) s)"
proof -
  assume i: "storeInv E s"
  let ?l = "filter (\<lambda>i. ps_endpoint i \<noteq> trim (str_or_empty v)) (subscriptions s)"
  have "?l = subscriptions s" if "length (subscriptions s) \<le> length ?l"
    using that by (metis filter_id_conv length_filter_less not_less)
  then show ?thesis
    using i storeInv_filter [OF i] by (auto simp: removeSubscription_def saves_def Let_def)
qed

lemma settled_ok: "storeInv E s \<Longrightarrow>
    storeInv E (fst (push_step E (now, Settled a) s)) \<and> saves s (push_step E (now, Settled a) s)"
  using storeInv_filter [of E s] by (simp add: deliver_end_def saves_def Let_def)

lemma message_ok: "storeInv E s \<Longrightarrow>
    storeInv E (fst (push_step E (now, MessageSeen m c b) s)) \<and> saves s (push_step E (now, MessageSeen m c b) s)"
proof -
  assume i: "storeInv E s"
  have r: "pn_store (fst (notifyForMessage E now m c b s)) = pn_store s"
    by (simp add: notifyForMessage_def Let_def split: option.splits)
  have "written (case snd (notifyForMessage E now m c b s) of Requests (Inr outs) \<Rightarrow> outs | _ \<Rightarrow> []) f = f" for f
    by (simp add: notifyForMessage_def deliver_begin_def Let_def split: option.splits)
  then show ?thesis
    using r i storeInv_cong [OF r] by (simp add: saves_def case_prod_beta Let_def)
qed

lemma push_step_ok:
  assumes "sha256_hex E" "url_serializes E" "storeInv E s"
  shows "storeInv E (fst (push_step E e s)) \<and> saves s (push_step E e s)"
proof -
  obtain now i where "e = (now, i)" by force
  then show ?thesis
    using add_ok [OF assms] remove_ok settled_ok message_ok assms(3) by (cases i) blast+
qed

text \<open>The file and the store agree: what would be read is what is there.\<close>

definition saved :: "push_env \<Rightarrow> json option \<Rightarrow> push \<Rightarrow> bool" where
  "saved E file s \<longleftrightarrow> storeInv E s
     \<and> loadStore E file = (pn_store s)\<lparr>st_subscriptions := map reload (subscriptions s)\<rparr>"

lemma saved_step:
  assumes "sha256_hex E" "url_serializes E" "saved E f s"
  shows "saved E (written (snd (push_step E e s)) f) (fst (push_step E e s))"
proof -
  have s: "storeInv E s" "storeInv E (fst (push_step E e s))" "saves s (push_step E e s)"
    using push_step_ok [OF assms(1,2)] assms(3) by (simp_all add: saved_def)
  from s(3) show ?thesis
    unfolding saves_def using assms(3) s(2) load_persist [OF s(2)] by (auto simp: saved_def)
qed

lemma saved_run:
  assumes "sha256_hex E" "url_serializes E" "saved E f s"
  shows "saved E (written (snd (run_machine (push_step E) es s)) f) (fst (run_machine (push_step E) es s))"
  using assms(3)
proof (induction es arbitrary: s f)
  case (Cons e es)
  then show ?case using saved_step [OF assms(1,2) Cons.prems, of e] Cons.IH
    by (simp add: case_prod_beta Let_def)
qed simp

lemma reload_reload [simp]: "reload (reload s) = reload s"
  by (simp add: reload_def)

lemma reload_ok: "sub_ok E s \<Longrightarrow> sub_ok E (reload s)"
  using length_trim_le [of "ps_deviceName s"] by (simp add: sub_ok_def reload_def)

lemma reload_simps [simp]: "ps_endpoint (reload s) = ps_endpoint s" "ps_deviceId (reload s) = ps_deviceId s"
  by (simp_all add: reload_def)

lemma saved_fresh:
  assumes "validVapid keys" "createPushNotifications E keys None = (s, outs)"
  shows "saved E (written outs None) s"
proof -
  have s: "s = \<lparr>pn_store = \<lparr>st_vapid = keys, st_subscriptions = []\<rparr>, pn_recent = []\<rparr>"
    "outs = [Persisted (persistStore (pn_store s))]"
    using assms(2) by (auto simp: createPushNotifications_def loadStore_def empty_store_def validVapid_def Let_def)
  have i: "storeInv E s" using assms(1) by (simp add: s(1) storeInv_def)
  show ?thesis using load_persist [OF i] i by (simp add: s(2) saved_def)
qed

lemma saved_restart:
  assumes "saved E f t" "createPushNotifications E keys f = (s, outs)"
  shows "outs = [] \<and> subscriptions s = map reload (subscriptions t) \<and> saved E f s"
proof -
  let ?st = "(pn_store t)\<lparr>st_subscriptions := map reload (subscriptions t)\<rparr>"
  have t: "storeInv E t" "loadStore E f = ?st" using assms(1) by (simp_all add: saved_def)
  then have s: "s = \<lparr>pn_store = ?st, pn_recent = []\<rparr>" "outs = []"
    using assms(2) by (simp_all add: createPushNotifications_def storeInv_def)
  have "storeInv E s"
    using t(1) by (auto simp: s(1) storeInv_def list_all_iff comp_def intro: reload_ok)
  then show ?thesis using t(2) s by (simp add: saved_def comp_def)
qed

text \<open>
  Lives of the agent, one list of events each: it starts on the file the last one left, and stops
  at any point between two operations.
\<close>

fun lives :: "push_env \<Rightarrow> json \<Rightarrow> (int \<times> push_in) list list \<Rightarrow> json option \<times> push \<Rightarrow> json option \<times> push" where
  "lives E keys [] x = x"
| "lives E keys (es # ess) (f, t) =
     (let (s, o0) = createPushNotifications E keys f; (s1, o1) = run_machine (push_step E) es s
      in lives E keys ess (written (o0 @ o1) f, s1))"

lemma saved_lives:
  assumes "sha256_hex E" "url_serializes E" "saved E f t"
  shows "saved E (fst (lives E keys ess (f, t))) (snd (lives E keys ess (f, t)))"
  using assms(3)
proof (induction ess arbitrary: f t)
  case (Cons es ess)
  obtain s o0 where c: "createPushNotifications E keys f = (s, o0)" by force
  have "o0 = []" "saved E f s" using saved_restart [OF Cons.prems c] by auto
  then show ?case using saved_run [OF assms(1,2), of f s es] Cons.IH by (simp add: c case_prod_beta Let_def)
qed simp

subsection \<open>Recent messages\<close>

definition signature_of :: "push_env \<Rightarrow> push_in \<Rightarrow> jstr option" where
  "signature_of E i = (case i of
     MessageSeen m c b \<Rightarrow> map_option (\<lambda>t. messageSignature E t m c) (notificationTrigger m c) | _ \<Rightarrow> None)"

lemma recent_other: "\<nexists>m c b. i = MessageSeen m c b \<Longrightarrow> pn_recent (fst (push_step E (now, i) s)) = pn_recent s"
  by (cases i) (simp_all add: addSubscription_def removeSubscription_def deliver_end_def set_subscriptions_def
      Let_def split: option.splits)

lemma recent_step:
  "pn_recent (fst (push_step E (now, i) s)) = pn_recent s
   \<or> pn_recent (fst (push_step E (now, i) s)) = cleanupRecentMessages (pn_recent s) now
   \<or> (\<exists>g. signature_of E i = Some g
       \<and> \<not> mhas (cleanupRecentMessages (pn_recent s) now) g
       \<and> pn_recent (fst (push_step E (now, i) s)) = mput (cleanupRecentMessages (pn_recent s) now) g now)"
proof (cases "\<exists>m c b. i = MessageSeen m c b")
  case True
  then obtain m c b where i: "i = MessageSeen m c b" by blast
  show ?thesis
    by (cases "notificationTrigger m c")
      (simp_all add: i notifyForMessage_def signature_of_def case_prod_beta Let_def)
next
  case False
  then show ?thesis using recent_other [of i] by blast
qed

lemma mwf_cleanup [simp]: "mwf r \<Longrightarrow> mwf (cleanupRecentMessages r now)"
  by (simp add: cleanupRecentMessages_def mwf_mfilter)

lemma get_cleanup: "mwf r \<Longrightarrow> mget (cleanupRecentMessages r now) g = Some t \<longleftrightarrow>
    mget r g = Some t \<and> now - t \<le> RECENT_MESSAGE_TTL_MS"
  by (auto simp: cleanupRecentMessages_def mget_mfilter split: option.splits)

lemma recent_wf: "mwf (pn_recent s) \<Longrightarrow> mwf (pn_recent (fst (push_step E e s)))"
proof -
  assume "mwf (pn_recent s)"
  moreover obtain now i where "e = (now, i)" by force
  ultimately show ?thesis using recent_step [of E now i s] by auto
qed

lemma recent_wf_run: "mwf (pn_recent s) \<Longrightarrow> mwf (pn_recent (fst (run_machine (push_step E) es s)))"
  by (induction es arbitrary: s) (simp_all add: recent_wf case_prod_beta Let_def)

lemma recent_kept:
  assumes "mwf (pn_recent s)" "mget (pn_recent s) g = Some t" "\<And>e. e \<in> set es \<Longrightarrow> fst e - t \<le> RECENT_MESSAGE_TTL_MS"
  shows "mget (pn_recent (fst (run_machine (push_step E) es s))) g = Some t"
  using assms
proof (induction es arbitrary: s)
  case (Cons e es)
  obtain now i where e: "e = (now, i)" by force
  have "now - t \<le> RECENT_MESSAGE_TTL_MS" using Cons.prems(3) [of e] e by simp
  then have c: "mget (cleanupRecentMessages (pn_recent s) now) g = Some t"
    using Cons.prems(1,2) by (simp add: get_cleanup)
  then have "mget (pn_recent (fst (push_step E (now, i) s))) g = Some t"
    using recent_step [of E now i s] Cons.prems(2) by (auto simp: mhas_def)
  then show ?case
    using Cons.IH [OF recent_wf [OF Cons.prems(1)]] Cons.prems(3) e by (simp add: case_prod_beta Let_def)
qed simp

lemma recent_source:
  assumes "mwf (pn_recent s)" "mget (pn_recent (fst (run_machine (push_step E) es s))) g = Some t"
  shows "mget (pn_recent s) g = Some t \<or> (\<exists>i. (t, i) \<in> set es \<and> signature_of E i = Some g)"
  using assms
proof (induction es arbitrary: s)
  case (Cons e es)
  obtain now i where e: "e = (now, i)" by force
  let ?s = "fst (push_step E (now, i) s)"
  have "mget (pn_recent ?s) g = Some t \<or> (\<exists>i. (t, i) \<in> set es \<and> signature_of E i = Some g)"
    using Cons.IH [OF recent_wf [OF Cons.prems(1)]] Cons.prems(2) e by (simp add: case_prod_beta Let_def)
  moreover have "mget (pn_recent s) g = Some t \<or> (t = now \<and> signature_of E i = Some g)"
    if "mget (pn_recent ?s) g = Some t"
    using that recent_step [of E now i s] Cons.prems(1) by (auto simp: get_cleanup split: if_splits)
  ultimately show ?case using e by auto
qed simp

text \<open>A message that notifies, by what is remembered.\<close>

definition message_requests :: "push_env \<Rightarrow> push_trigger \<Rightarrow> chat_msg \<Rightarrow> jstr \<Rightarrow> push \<Rightarrow> push_out list" where
  "message_requests E tr m c s =
     map (\<lambda>t. PushSent t (notificationPayload E tr m c (ps_appUrl t)) 300) (subscriptions s)"

lemma message_outs:
  assumes "notificationTrigger m c = Some tr"
  shows "snd (push_step E (now, MessageSeen m c b) s) =
    (if (b \<and> isIvaoServerMessage m) \<or> mhas (cleanupRecentMessages (pn_recent s) now) (messageSignature E tr m c)
     then [] else message_requests E tr m c s)"
  using assms by (simp add: notifyForMessage_def deliver_begin_def message_requests_def case_prod_beta Let_def)

lemma message_remembered:
  assumes "mwf (pn_recent s)" "snd (push_step E (now, MessageSeen m c b) s) \<noteq> []" "notificationTrigger m c = Some tr"
  shows "mget (pn_recent (fst (push_step E (now, MessageSeen m c b) s))) (messageSignature E tr m c) = Some now"
  using assms(2,3) by (auto simp: notifyForMessage_def case_prod_beta Let_def split: if_splits)

lemma recent_init: "pn_recent (fst (createPushNotifications E keys file)) = []"
  by (simp add: createPushNotifications_def Let_def)

subsection \<open>Surviving restarts\<close>

definition sample_env :: push_env where
  "sample_env = \<lparr>pe_url = (\<lambda>s. Some \<lparr>u_protocol = js ''https:'', u_hostname = js ''h'', u_username = [],
     u_password = [], u_port = [], u_origin = js ''https://h''\<rparr>), pe_page = (\<lambda>s. js ''https://h/''),
     pe_hash = (\<lambda>s. replicate 64 48), pe_hash64 = (\<lambda>s. [])\<rparr>"

definition sample_keys :: json where
  "sample_keys = JObj [(js ''publicKey'', JStr (js ''AAAAAAAA'')), (js ''privateKey'', JStr (js ''BBBBBBBB''))]"

lemma sample_ok: "sha256_hex sample_env" "url_serializes sample_env" "validVapid sample_keys"
  by (simp_all add: sha256_hex_def url_serializes_def sample_env_def sample_keys_def validVapid_def is_digit_def
      str_key_def member_at_def validPushKey_def base64url_char_def alnum_def char_classes js_def list_all_iff)

text \<open>
  C30: subscriptions survive. An agent that is installed fresh and then lives any number of lives,
  each a sequence of operations that starts on the file the last life left, holds at most 32
  subscriptions, at most one for an endpoint and one for a device, each of them valid; and when it
  starts again it needs no new keys and has the same subscriptions, but for \<open>createdAt\<close>, which
  is not read back, and for white space at the end of a device name that was cut at 80 characters.
\<close>

theorem restart_keeps_subscriptions:
  assumes "sha256_hex E" and "url_serializes E" and "validVapid keys"
    and "lives E keys (es # ess) (None, t) = (file, s)"
    and "createPushNotifications E keys file = (s2, outs)"
  shows "subscriptions s2 = map reload (subscriptions s)
    \<and> st_vapid (pn_store s2) = st_vapid (pn_store s) \<and> outs = []
    \<and> length (subscriptions s) \<le> MAX_SUBSCRIPTIONS \<and> list_all (sub_ok E) (subscriptions s)
    \<and> distinct (map ps_endpoint (subscriptions s)) \<and> distinct (map ps_deviceId (subscriptions s))"
proof -
  obtain s0 o0 where c: "createPushNotifications E keys None = (s0, o0)" by force
  let ?r = "run_machine (push_step E) es s0"
  have "saved E (written (o0 @ snd ?r) None) (fst ?r)"
    using saved_run [OF assms(1,2) saved_fresh [OF assms(3) c]] by simp
  then have "saved E (fst (lives E keys (es # ess) (None, t))) (snd (lives E keys (es # ess) (None, t)))"
    using saved_lives [OF assms(1,2)] by (simp add: c case_prod_beta Let_def)
  then have f: "saved E file s" unfolding assms(4) by simp
  have "st_vapid (pn_store s2) = st_vapid (pn_store s)"
    using f assms(5) by (auto simp: saved_def storeInv_def createPushNotifications_def Let_def)
  then show ?thesis using saved_restart [OF f assms(5)] f by (simp add: saved_def storeInv_def)
qed

theorem restart_keeps_subscriptions_witness:
  "distinct (map ps_deviceId (subscriptions
     (snd (lives sample_env sample_keys [[(5, Unsubscribe None)], [(9, Settled [])]]
       (None, \<lparr>pn_store = empty_store, pn_recent = []\<rparr>)))))"
  using restart_keeps_subscriptions [OF sample_ok surjective_pairing surjective_pairing] by blast

subsection \<open>One notification for a message\<close>

text \<open>
  C31: a message is pushed once. In a run of the agent, a message that was pushed is not pushed
  again within 30 seconds, whatever happens in between (every event of the run carries its time);
  and a message that concerns the pilot and is no server message of the quiet period is pushed to
  every subscription, unless one with the same signature came within the 30 seconds before.
\<close>

theorem message_pushed_once:
  assumes "notificationTrigger m c = Some tr" and "createPushNotifications E keys file = (s0, outs)"
    and "fst (run_machine (push_step E) es s0) = s"
  shows "(\<forall>as t1 m1 c1 b1 bs.
       es = as @ (t1, MessageSeen m1 c1 b1) # bs
       \<and> snd (push_step E (t1, MessageSeen m1 c1 b1) (fst (run_machine (push_step E) as s0))) \<noteq> []
       \<and> signature_of E (MessageSeen m1 c1 b1) = Some (messageSignature E tr m c)
       \<and> (\<forall>e \<in> set bs. fst e \<le> now) \<and> now - t1 \<le> RECENT_MESSAGE_TTL_MS
       \<longrightarrow> snd (push_step E (now, MessageSeen m c b) s) = [])
   \<and> ((\<forall>t i. (t, i) \<in> set es \<and> signature_of E i = Some (messageSignature E tr m c) \<longrightarrow> now - t > RECENT_MESSAGE_TTL_MS)
       \<and> \<not> (b \<and> isIvaoServerMessage m)
       \<longrightarrow> snd (push_step E (now, MessageSeen m c b) s) = message_requests E tr m c s)"
proof (intro conjI allI impI; elim conjE)
  have wf0: "mwf (pn_recent s0)" using recent_init [of E keys "file"] assms(2) by (simp add: mwf_def)
  let ?g = "messageSignature E tr m c"
  {
    fix as t1 m1 c1 b1 bs
    assume es: "es = as @ (t1, MessageSeen m1 c1 b1) # bs"
      and sent: "snd (push_step E (t1, MessageSeen m1 c1 b1) (fst (run_machine (push_step E) as s0))) \<noteq> []"
      and g: "signature_of E (MessageSeen m1 c1 b1) = Some ?g"
      and bs: "\<forall>e \<in> set bs. fst e \<le> now" and t: "now - t1 \<le> RECENT_MESSAGE_TTL_MS"
    let ?a = "fst (run_machine (push_step E) as s0)"
    let ?b = "fst (push_step E (t1, MessageSeen m1 c1 b1) ?a)"
    have wf: "mwf (pn_recent ?a)" by (rule recent_wf_run [OF wf0])
    obtain tr1 where "notificationTrigger m1 c1 = Some tr1" "messageSignature E tr1 m1 c1 = ?g"
      using g by (auto simp: signature_of_def)
    then have b: "mget (pn_recent ?b) ?g = Some t1" using message_remembered [OF wf sent] by simp
    have "fst e - t1 \<le> RECENT_MESSAGE_TTL_MS" if "e \<in> set bs" for e using bs t that by fastforce
    then have "mget (pn_recent (fst (run_machine (push_step E) bs ?b))) ?g = Some t1"
      by (rule recent_kept [OF recent_wf [OF wf] b])
    moreover have "fst (run_machine (push_step E) bs ?b) = s"
      by (simp add: assms(3) [symmetric] es fst_run_machine)
    ultimately have "mhas (cleanupRecentMessages (pn_recent s) now) ?g"
      using get_cleanup [of "pn_recent s" now ?g t1] recent_wf_run [OF wf0, of E es] assms(3) t by (simp add: mhas_def)
    then show "snd (push_step E (now, MessageSeen m c b) s) = []" by (simp add: message_outs [OF assms(1)] del: push_step.simps)
  next
    assume es: "\<forall>t i. (t, i) \<in> set es \<and> signature_of E i = Some ?g \<longrightarrow> now - t > RECENT_MESSAGE_TTL_MS"
      and b: "\<not> (b \<and> isIvaoServerMessage m)"
    have "\<not> mhas (cleanupRecentMessages (pn_recent s) now) ?g"
    proof
      assume "mhas (cleanupRecentMessages (pn_recent s) now) ?g"
      then obtain t where t: "mget (cleanupRecentMessages (pn_recent s) now) ?g = Some t" by (auto simp: mhas_def)
      have wf: "mwf (pn_recent s)" using recent_wf_run [OF wf0, of E es] assms(3) by simp
      have "mget (pn_recent s) ?g = Some t" "now - t \<le> RECENT_MESSAGE_TTL_MS" using t get_cleanup [OF wf] by blast+
      moreover have "pn_recent s0 = []" using recent_init [of E keys "file"] assms(2) by simp
      ultimately show False using recent_source [OF wf0, of E es ?g t] assms(3) es by auto
    qed
    then show "snd (push_step E (now, MessageSeen m c b) s) = message_requests E tr m c s"
      using b by (auto simp: message_outs [OF assms(1)] simp del: push_step.simps)
  }
qed

definition sample_message :: chat_msg where
  "sample_message = \<lparr>cm_type = PRIVATE, cm_sender = js ''EDDF_TWR'', cm_recipient = None, cm_text = js ''hi'',
     cm_direction = Incoming, cm_timestamp = []\<rparr>"

lemma sample_trigger: "notificationTrigger sample_message (js ''DLH1'') = Some PrivateMessage"
  by (simp add: notificationTrigger_def sample_message_def normalizeCallsign_def trim_def upper_def upper_unit_def
      upper_special_def latin_lower_def is_ws_def char_classes js_def)

theorem message_pushed_once_witness:
  "snd (push_step sample_env (7, MessageSeen sample_message (js ''DLH1'') False)
      (fst (createPushNotifications sample_env sample_keys None))) =
    message_requests sample_env PrivateMessage sample_message (js ''DLH1'')
      (fst (createPushNotifications sample_env sample_keys None))"
  using message_pushed_once [OF sample_trigger surjective_pairing refl, where es = "[]" and now = 7 and b = False]
  by simp

subsection \<open>Tickets that the relay takes\<close>

text \<open>
  The package web-push returns the endpoint of the subscription, a body of at least 12 and at most
  16384 bytes (the aes128gcm header alone has 86, the payload is one record) and a VAPID header on
  one line of 16 to 4096 characters.
\<close>

definition web_push_ok :: "web_push \<Rightarrow> bool" where
  "web_push_ok W \<longleftrightarrow>
     (\<forall>sub p r. wp_request W sub p = Some r \<longrightarrow> rd_endpoint r = ps_endpoint sub
        \<and> 12 \<le> length (rd_body r) \<and> length (rd_body r) \<le> 16384 \<and> is_bytes (rd_body r))
     \<and> (\<forall>origin enc t a. wp_vapid W origin enc t = Some a \<longrightarrow> a = [] \<or> safeAuthorization a)"

lemma b64_unit_char: "d < 64 \<Longrightarrow> base64url_char (b64_unit d)"
  by (auto simp: b64_unit_def base64url_char_def alnum_def char_classes js_def)

lemma base64url_chars: "is_bytes b \<Longrightarrow> list_all base64url_char (base64url b)"
proof (induction b rule: base64url.induct)
  case (2 a)
  then show ?case by (simp add: is_bytes_def b64_unit_char)
next
  case (3 a b)
  then show ?case by (auto simp: is_bytes_def intro!: b64_unit_char)
next
  case (4 a b c s)
  then show ?case by (auto simp: is_bytes_def intro!: b64_unit_char)
qed simp

lemma length_base64url: "3 * length (base64url b) \<le> 4 * length b + 4" "4 * length b \<le> 3 * length (base64url b)"
  by (induction b rule: base64url.induct) auto

lemma base64_ascii: "base64url_char c \<Longrightarrow> c < 128"
  by (auto simp: base64url_char_def alnum_def char_classes js_def)

lemma ticket_fields:
  assumes "watchdog_ticket E W x callsign sub = Some t"
  obtains r where "wp_request W sub (agentOfflinePayload E callsign (ps_appUrl sub)) = Some r"
    "t_deviceId t = ps_deviceId sub" "t_endpoint t = rd_endpoint r" "t_expiresAt t = iso_string x"
    "t_contentEncoding t = js ''aes128gcm''" "t_body t = base64url (rd_body r)" "t_authorization t \<noteq> []"
    "\<exists>origin enc e. wp_vapid W origin enc e = Some (t_authorization t)"
  using assms by (auto simp: watchdog_ticket_def Let_def split: option.splits if_splits) blast

lemma body_ok: "is_bytes b \<Longrightarrow> 12 \<le> length b \<Longrightarrow> length b \<le> 16384 \<Longrightarrow> isWatchdogBody (JStr (base64url b))"
proof -
  assume b: "is_bytes b" "12 \<le> length b" "length b \<le> 16384"
  have l: "16 \<le> length (base64url b)" "length (base64url b) \<le> 21846" using length_base64url [of b] b by auto
  moreover have "utf8_len (base64url b) = length (base64url b)"
    using base64url_chars [OF b(1)] base64_ascii by (intro utf8_len_ascii) (auto simp: list_all_iff)
  ultimately show ?thesis
    using base64url_chars [OF b(1)] by (cases "base64url b") (auto simp: isWatchdogBody_def str_test_def)
qed

lemma ticket_valid:
  assumes "web_push_ok W" "sub_ok E sub" "watchdog_ticket E W x callsign sub = Some t"
    and "0 \<le> x" "x < 240000000000000"
  shows "requireShape (case ticket_json t of JObj p \<Rightarrow> p | _ \<Rightarrow> []) (ticket_schema (pe_url E)) []
    = Inr (case ticket_json t of JObj p \<Rightarrow> p | _ \<Rightarrow> [])"
proof -
  obtain r where r: "wp_request W sub (agentOfflinePayload E callsign (ps_appUrl sub)) = Some r"
    "t_deviceId t = ps_deviceId sub" "t_endpoint t = rd_endpoint r" "t_expiresAt t = iso_string x"
    "t_contentEncoding t = js ''aes128gcm''" "t_body t = base64url (rd_body r)" "t_authorization t \<noteq> []"
    "\<exists>origin enc e. wp_vapid W origin enc e = Some (t_authorization t)"
    using assms(3) by (rule ticket_fields)
  have w: "rd_endpoint r = ps_endpoint sub" "isWatchdogBody (JStr (base64url (rd_body r)))"
    "safeAuthorization (t_authorization t)"
    using assms(1) r(1,7,8) body_ok unfolding web_push_ok_def by blast+
  have v: "isTokenLike (JStr (t_deviceId t))" "isPushEndpoint (pe_url E) (JStr (t_endpoint t))"
    "isIsoLike (JStr (t_expiresAt t))" "isWatchdogAuthorization (JStr (t_authorization t))"
    "isWatchdogContentEncoding (JStr (t_contentEncoding t))" "isWatchdogBody (JStr (t_body t))"
    using assms(2) w r iso_like [OF assms(4,5)]
    by (auto simp: isTokenLike_def isPushEndpoint_def isWatchdogAuthorization_def safeAuthorization_def
        isWatchdogContentEncoding_def str_test_def sub_ok_def validPushEndpoint_def split: if_splits option.splits)
  then show ?thesis by (simp add: ticket_json_def requireShape_def ticket_schema_def sch_def)
qed

lemma stage_lifetime:
  assumes "p_dateParse P (t_expiresAt t) = Some e"
    and "now + offlineDelayMs C < e" "e \<le> now + maxTicketLifetimeMs C"
    and "isAllowedPushEndpoint P (allowedPushOrigins C) (t_endpoint t)"
    and "wd_batches w = []" "0 < maxBatchesPerDevice C" "0 < maxTickets C"
  shows "is_ok (snd (stage P C now dk sessionId batchId t w))"
  using assms by (simp add: stage_def openBatch_def cleanup_def sweepBatches_def mfilter_def mhas_def Let_def)

text \<open>
  the tickets of the agent are tickets of the protocol, and the relay takes them. Each ticket
  made for a valid subscription, with what web-push returns, passes the validator of the protocol
  unchanged, in a message with well-formed identifiers; and a relay with the default limits whose
  clock is less than five minutes behind and less than 14 minutes ahead of the agent's stages it as
  the first one of a batch, unless the endpoint is not on the allowlist.
\<close>

theorem tickets_accepted:
  assumes "storeInv E s" and "web_push_ok W"
    and "t \<in> set (createAgentOfflineWatchdogTickets E W now callsign s)"
    and "0 \<le> now" and "now < 200000000000000"
    and "isTokenLike (JStr sessionId)" and "isTokenLike (JStr batchId)"
    and "p_dateParse P (iso_string (now + WATCHDOG_TICKET_LIFETIME_MS)) = Some (now + WATCHDOG_TICKET_LIFETIME_MS)"
    and "now - 5 * 60 * 1000 \<le> relay_now" and "relay_now < now + 14 * 60 * 1000"
    and "C = createConfig NaN NaN NaN NaN NaN origins" and "isAllowedPushEndpoint P origins (t_endpoint t)"
    and "wd_batches w = []"
  shows "validateAgentWatchdogTicket (pe_url E)
      [(js ''sessionId'', JStr sessionId), (js ''batchId'', JStr batchId), (js ''ticket'', ticket_json t)]
      = Inr [(js ''sessionId'', JStr sessionId), (js ''batchId'', JStr batchId), (js ''ticket'', ticket_json t)]
    \<and> is_ok (snd (stage P C relay_now dk sessionId batchId t w))"
proof -
  let ?x = "now + WATCHDOG_TICKET_LIFETIME_MS"
  have l: "WATCHDOG_TICKET_LIFETIME_MS = 900000" by (simp add: WATCHDOG_TICKET_LIFETIME_MS_def)
  obtain sub where sub: "sub \<in> set (subscriptions s)" "watchdog_ticket E W ?x callsign sub = Some t"
    using assms(3) by (auto simp: createAgentOfflineWatchdogTickets_def List.map_filter_def Let_def)
  then have ok: "sub_ok E sub" using assms(1) by (auto simp: storeInv_def list_all_iff)
  have v: "requireShape (case ticket_json t of JObj p \<Rightarrow> p | _ \<Rightarrow> []) (ticket_schema (pe_url E)) []
      = Inr (case ticket_json t of JObj p \<Rightarrow> p | _ \<Rightarrow> [])"
    using ticket_valid [OF assms(2) ok sub(2)] assms(4,5) l by simp
  have "validateAgentWatchdogTicket (pe_url E)
      [(js ''sessionId'', JStr sessionId), (js ''batchId'', JStr batchId), (js ''ticket'', ticket_json t)]
      = Inr [(js ''sessionId'', JStr sessionId), (js ''batchId'', JStr batchId), (js ''ticket'', ticket_json t)]"
    using v assms(6,7) by (simp add: validateAgentWatchdogTicket_def holds_def val_def
        isPlainObject_def ticket_json_def)
  moreover have "t_expiresAt t = iso_string ?x"
    using sub(2) by (auto simp: watchdog_ticket_def Let_def split: option.splits if_splits)
  then have "is_ok (snd (stage P C relay_now dk sessionId batchId t w))"
    using assms(8-13) l by (intro stage_lifetime) (auto simp: createConfig_def positiveInteger_def)
  ultimately show ?thesis ..
qed

definition sample_sub :: subscription where
  "sample_sub = \<lparr>ps_endpoint = js ''https://updates.push.services.mozilla.com/'', ps_p256dh = js ''AAAAAAAA'',
     ps_auth = js ''AAAAAAAA'', ps_deviceId = js ''device-1'', ps_deviceName = js ''phone'',
     ps_appUrl = js ''https://h/'', ps_notifyIvaoConnected = False, ps_notifyAgentOffline = True,
     ps_createdAt = None\<rparr>"

definition sample_push :: push where
  "sample_push = \<lparr>pn_store = \<lparr>st_vapid = sample_keys, st_subscriptions = [sample_sub]\<rparr>, pn_recent = []\<rparr>"

definition sample_web :: web_push where
  "sample_web = \<lparr>wp_request = (\<lambda>s p. Some \<lparr>rd_endpoint = ps_endpoint s, rd_encoding = js ''aes128gcm'',
       rd_body = replicate 12 0\<rparr>),
     wp_vapid = (\<lambda>a b c. Some (js ''vapid t=a.b.c, k=d''))\<rparr>"

definition sample_platform :: platform where
  "sample_platform = \<lparr>p_url = (\<lambda>s. Some \<lparr>u_protocol = js ''https:'',
       u_hostname = js ''updates.push.services.mozilla.com'', u_username = [], u_password = [], u_port = [],
       u_origin = []\<rparr>), p_isIP = (\<lambda>s. False), p_dateParse = (\<lambda>s. Some 900005)\<rparr>"

definition sample_ticket :: ticket where
  "sample_ticket = \<lparr>t_deviceId = js ''device-1'', t_endpoint = ps_endpoint sample_sub,
     t_expiresAt = iso_string 900005, t_authorization = js ''vapid t=a.b.c, k=d'',
     t_contentEncoding = js ''aes128gcm'', t_body = base64url (replicate 12 0)\<rparr>"

lemma sample_push_ok: "storeInv sample_env sample_push"
  using sample_ok(3)
  by (simp add: storeInv_def sample_push_def sample_sub_def sub_ok_def validPushEndpoint_def validPushKey_def
      normalizeAppUrl_def sample_env_def trim_def is_ws_def token_char_def base64url_char_def alnum_def
      char_classes js_def MAX_SUBSCRIPTIONS_def)

lemma sample_web_ok: "web_push_ok sample_web"
  by (auto simp: web_push_ok_def sample_web_def is_bytes_def list_all_iff safeAuthorization_def js_def)

lemma sample_ticket_made:
  "sample_ticket \<in> set (createAgentOfflineWatchdogTickets sample_env sample_web 5 [] sample_push)"
  by (simp add: createAgentOfflineWatchdogTickets_def List.map_filter_def watchdog_ticket_def sample_push_def
      sample_sub_def sample_web_def sample_env_def sample_ticket_def WATCHDOG_TICKET_LIFETIME_MS_def
      lower_def lower_unit_def lower_special_def latin_upper_def char_classes js_def)

theorem tickets_accepted_witness:
  "is_ok (snd (stage sample_platform (createConfig NaN NaN NaN NaN NaN []) 7 (js ''d'') (js ''flight-1'') (js ''batch-01'')
     sample_ticket initWatchdog))"
  by (rule tickets_accepted [OF sample_push_ok sample_web_ok sample_ticket_made, THEN conjunct2])
    (simp_all add: WATCHDOG_TICKET_LIFETIME_MS_def sample_platform_def initWatchdog_def isTokenLike_def str_test_def
      isAllowedPushEndpoint_def sample_ticket_def sample_sub_def token_char_def alnum_def char_classes js_def
      lower_def lower_unit_def lower_special_def latin_upper_def)

end
