(* ===== verification/AgentProps.thy ===== *)
theory AgentProps
  imports Agent PushProps PilotFacts
begin

section \<open>Properties of the agent\<close>

subsection \<open>What the parts leave alone\<close>

text \<open>
  \<open>fixes_ f h\<close>: the handler \<open>h\<close> does not change \<open>f\<close> of the state.
\<close>

definition stable :: "(agent \<Rightarrow> 'a) \<Rightarrow> agent_handler \<Rightarrow> bool" where
  "stable f h \<longleftrightarrow> (\<forall>s. f (fst (h s)) = f s)"

named_theorems stables

lemma stableD: "stable f h \<Longrightarrow> f (fst (h s)) = f s"
  by (simp add: stable_def)

lemma stable_andThen [stables]: "stable f g \<Longrightarrow> stable f h \<Longrightarrow> stable f (andThen g h)"
  by (simp add: stable_def andThen_def case_prod_beta Let_def)

lemma stable_outs [stables]: "stable f (\<lambda>s. (s, g s))"
  by (simp add: stable_def)

lemma stable_if [stables]: "stable f g \<Longrightarrow> stable f h \<Longrightarrow> stable f (if b then g else h)"
  by simp

lemma stable_each: "(\<And>x. stable f (g x)) \<Longrightarrow> stable f (each g xs)"
proof (induction xs)
  case (Cons x xs)
  have "each g (x # xs) = andThen (g x) (each g xs)" by (rule ext) simp
  then show ?case using Cons by (simp add: stable_andThen)
qed (simp add: stable_def)

lemma stable_bridge [stables]:
  "stable ag_alerts (bridge_op g)" "stable ag_push (bridge_op g)" "stable ag_fsd (bridge_op g)"
  by (simp_all add: stable_def bridge_op_def case_prod_beta Let_def)

lemma stable_app [stables]: "stable ag_alerts (app_op g)" "stable ag_push (app_op g)"
  by (simp_all add: stable_def app_op_def case_prod_beta Let_def)

lemma on_alerts_simps [simp]:
  "ag_alerts (on_alerts f s) = f (ag_alerts s)" "ag_fsd (on_alerts f s) = ag_fsd s"
  "ag_push (on_alerts f s) = ag_push s" "ag_bridge (on_alerts f s) = ag_bridge s"
  by (simp_all add: on_alerts_def)

lemma cancel_simps [simp]:
  "ag_fsd (cancelIvaoDisconnectAlert s) = ag_fsd s" "ag_push (cancelIvaoDisconnectAlert s) = ag_push s"
  "ag_fsd (cancelIvaoConnectedAlert s) = ag_fsd s" "ag_push (cancelIvaoConnectedAlert s) = ag_push s"
  "al_deadline (ag_alerts (cancelIvaoDisconnectAlert s)) = 0"
  "al_generation (ag_alerts (cancelIvaoDisconnectAlert s)) = Suc (al_generation (ag_alerts s))"
  "al_connection (ag_alerts (cancelIvaoDisconnectAlert s)) = al_connection (ag_alerts s)"
  "al_deadline (ag_alerts (cancelIvaoConnectedAlert s)) = al_deadline (ag_alerts s)"
  "al_generation (ag_alerts (cancelIvaoConnectedAlert s)) = al_generation (ag_alerts s)"
  "al_session (ag_alerts (cancelIvaoConnectedAlert s)) = al_session (ag_alerts s)"
  "al_connection (ag_alerts (cancelIvaoConnectedAlert s)) = Suc (al_connection (ag_alerts s))"
  by (simp_all add: cancelIvaoDisconnectAlert_def cancelIvaoConnectedAlert_def)

lemma stable_cancels [stables]:
  "stable ag_fsd (\<lambda>s. (cancelIvaoDisconnectAlert s, os))" "stable ag_push (\<lambda>s. (cancelIvaoDisconnectAlert s, os))"
  "stable ag_fsd (\<lambda>s. (cancelIvaoConnectedAlert s, os))" "stable ag_push (\<lambda>s. (cancelIvaoConnectedAlert s, os))"
  by (simp_all add: stable_def)

lemma stable_watchdog [stables]:
  "stable ag_fsd (armAgentOfflineWatchdog u)" "stable ag_push (armAgentOfflineWatchdog u)"
  "stable ag_fsd disarmAgentOfflineWatchdog" "stable ag_push disarmAgentOfflineWatchdog"
  by (simp_all add: stable_def armAgentOfflineWatchdog_def disarmAgentOfflineWatchdog_def)

lemma stable_connected [stables]: "stable ag_fsd (handleIvaoConnected t)" "stable ag_push (handleIvaoConnected t)"
  unfolding handleIvaoConnected_def by (intro stables; simp add: stable_def Let_def)+

lemma stable_schedule [stables]:
  "stable ag_fsd (scheduleIvaoDisconnectAlert E n)" "stable ag_push (scheduleIvaoDisconnectAlert E n)"
  by (simp_all add: stable_def scheduleIvaoDisconnectAlert_def Let_def)

lemma stable_closed [stables]: "stable ag_fsd (handleIvaoClosed E t b)" "stable ag_push (handleIvaoClosed E t b)"
  unfolding handleIvaoClosed_def by (intro stables)+

lemma stable_react: "stable ag_fsd (fsd_react E t out)" "stable ag_push (fsd_react E t out)"
  by (cases out; simp add: fsd_react_def; intro stables)+

subsection \<open>The alert that IVAO was lost\<close>

definition session_outs :: "agent_env \<Rightarrow> agent \<Rightarrow> moment \<Rightarrow> fsd_in \<Rightarrow> fsd_out set" where
  "session_outs E s t x = set (snd (fsd_step (ae_voice E) (at_now t, x) (ag_fsd s)))"

lemma connected_alerts:
  "al_deadline (ag_alerts (fst (handleIvaoConnected t s))) = 0"
  "al_connection (ag_alerts (fst (handleIvaoConnected t s))) = Suc (al_connection (ag_alerts s))"
  by (simp_all add: handleIvaoConnected_def andThen_def armAgentOfflineWatchdog_def bridge_op_def
      cancelIvaoDisconnectAlert_def case_prod_beta Let_def)

lemma schedule_alerts:
  "al_deadline (ag_alerts (fst (scheduleIvaoDisconnectAlert E now s))) = 0 \<or>
   (subscriptions (ag_push s) \<noteq> []
    \<and> disconnectAlertSuppressionReason (ae_parse E) (as_telemetry (app_of s)) now = []
    \<and> al_deadline (ag_alerts (fst (scheduleIvaoDisconnectAlert E now s))) = now + IVAO_DISCONNECT_ALERT_WINDOW_MS)"
  "al_connection (ag_alerts (fst (scheduleIvaoDisconnectAlert E now s))) = al_connection (ag_alerts s)"
  by (auto simp: scheduleIvaoDisconnectAlert_def Let_def)

lemma disarm_alerts:
  "al_deadline (ag_alerts (fst (disarmAgentOfflineWatchdog s))) = al_deadline (ag_alerts s)"
  "al_connection (ag_alerts (fst (disarmAgentOfflineWatchdog s))) = al_connection (ag_alerts s)"
  by (simp_all add: disarmAgentOfflineWatchdog_def)

lemma closed_alerts:
  "b \<Longrightarrow> al_deadline (ag_alerts (fst (handleIvaoClosed E t b s))) = 0 \<or>
   (subscriptions (ag_push s) \<noteq> []
    \<and> disconnectAlertSuppressionReason (ae_parse E) (as_telemetry (app_of s)) (at_now t) = []
    \<and> al_deadline (ag_alerts (fst (handleIvaoClosed E t b s))) = at_now t + IVAO_DISCONNECT_ALERT_WINDOW_MS)"
  "\<not> b \<Longrightarrow> al_deadline (ag_alerts (fst (handleIvaoClosed E t b s))) = al_deadline (ag_alerts s)
    \<and> al_generation (ag_alerts (fst (handleIvaoClosed E t b s))) = al_generation (ag_alerts s)
    \<and> al_session (ag_alerts (fst (handleIvaoClosed E t b s))) = al_session (ag_alerts s)"
  "al_connection (ag_alerts (fst (handleIvaoClosed E t b s))) = Suc (al_connection (ag_alerts s))"
proof -
  let ?s = "fst (disarmAgentOfflineWatchdog (cancelIvaoConnectedAlert s))"
  have "ag_push ?s = ag_push s" "ag_fsd ?s = ag_fsd s" by (simp_all add: disarmAgentOfflineWatchdog_def)
  then show "b \<Longrightarrow> al_deadline (ag_alerts (fst (handleIvaoClosed E t b s))) = 0 \<or>
     (subscriptions (ag_push s) \<noteq> []
      \<and> disconnectAlertSuppressionReason (ae_parse E) (as_telemetry (app_of s)) (at_now t) = []
      \<and> al_deadline (ag_alerts (fst (handleIvaoClosed E t b s))) = at_now t + IVAO_DISCONNECT_ALERT_WINDOW_MS)"
    using schedule_alerts(1) [of E "at_now t" ?s]
    by (simp add: handleIvaoClosed_def andThen_def case_prod_beta Let_def)
qed (simp_all add: handleIvaoClosed_def andThen_def schedule_alerts disarm_alerts case_prod_beta Let_def)

text \<open>The callbacks of a step, by the session events among its outputs.\<close>

lemma reacts_alerts:
  fixes E t
  defines "after \<equiv> \<lambda>outs s. ag_alerts (fst (each (fsd_react E t) outs s))"
  shows "SessionOpened \<notin> set outs \<and> SessionEnded True \<notin> set outs
      \<and> al_deadline (after outs s) = al_deadline (ag_alerts s)
      \<and> al_generation (after outs s) = al_generation (ag_alerts s)
      \<and> al_session (after outs s) = al_session (ag_alerts s)
    \<or> al_deadline (after outs s) = 0
    \<or> SessionEnded True \<in> set outs \<and> subscriptions (ag_push s) \<noteq> []
      \<and> disconnectAlertSuppressionReason (ae_parse E) (as_telemetry (app_of s)) (at_now t) = []
      \<and> al_deadline (after outs s) = at_now t + IVAO_DISCONNECT_ALERT_WINDOW_MS"
proof (induction outs arbitrary: s)
  case (Cons out outs)
  let ?u = "fst (fsd_react E t out s)"
  have p: "ag_push ?u = ag_push s" "ag_fsd ?u = ag_fsd s" by (rule stableD, rule stable_react)+
  have e: "after (out # outs) s = after outs ?u"
    by (simp add: after_def andThen_def case_prod_beta Let_def)
  have "SessionOpened \<noteq> out \<and> SessionEnded True \<noteq> out
      \<and> al_deadline (ag_alerts ?u) = al_deadline (ag_alerts s)
      \<and> al_generation (ag_alerts ?u) = al_generation (ag_alerts s)
      \<and> al_session (ag_alerts ?u) = al_session (ag_alerts s)
    \<or> al_deadline (ag_alerts ?u) = 0
    \<or> SessionEnded True = out \<and> subscriptions (ag_push s) \<noteq> []
      \<and> disconnectAlertSuppressionReason (ae_parse E) (as_telemetry (app_of s)) (at_now t) = []
      \<and> al_deadline (ag_alerts ?u) = at_now t + IVAO_DISCONNECT_ALERT_WINDOW_MS"
  proof (cases out)
    case SessionOpened
    then show ?thesis by (simp add: fsd_react_def connected_alerts)
  next
    case (SessionEnded b)
    then show ?thesis using closed_alerts(1,2) [of b E t s] by (cases b) (auto simp: fsd_react_def)
  qed (simp_all add: fsd_react_def)
  then show ?case using Cons.IH [of ?u] unfolding e p by auto
qed (simp add: after_def)

text \<open>
  What an event means for a scheduled alert: a close that schedules one, and an event that calls
  it off (a connection, a new confirmed close, a delivery that reached a device, the relay's
  watchdog).
\<close>

definition schedules :: "agent_env \<Rightarrow> agent \<Rightarrow> moment \<Rightarrow> fsd_in \<Rightarrow> bool" where
  "schedules E s t x \<longleftrightarrow> SessionEnded True \<in> session_outs E s t x \<and> subscriptions (ag_push s) \<noteq> []
     \<and> disconnectAlertSuppressionReason (ae_parse E)
         (as_telemetry (fx_app (fst (fsd_step (ae_voice E) (at_now t, x) (ag_fsd s))))) (at_now t) = []"

fun calls_off :: "agent_env \<Rightarrow> agent \<Rightarrow> moment \<times> agent_in \<Rightarrow> bool" where
  "calls_off E s (t, FsdIn x) \<longleftrightarrow> SessionOpened \<in> session_outs E s t x \<or> SessionEnded True \<in> session_outs E s t x"
| "calls_off E s (t, DisconnectAnswered g answers thrown) \<longleftrightarrow>
     \<not> thrown \<and> g = al_generation (ag_alerts s) \<and> Delivered \<in> snd ` set answers"
| "calls_off E s (t, WatchdogFired sid) \<longleftrightarrow> sid \<noteq> [] \<and> sid = al_session (ag_alerts s)"
| "calls_off E s e \<longleftrightarrow> False"

text \<open>\<open>never P E s es\<close>: no event of \<open>es\<close> has the property \<open>P\<close> in the state it meets.\<close>

fun never :: "(agent_env \<Rightarrow> agent \<Rightarrow> moment \<times> agent_in \<Rightarrow> bool) \<Rightarrow> agent_env \<Rightarrow> agent \<Rightarrow>
    (moment \<times> agent_in) list \<Rightarrow> bool" where
  "never P E s [] \<longleftrightarrow> True"
| "never P E s (e # es) \<longleftrightarrow> \<not> P E s e \<and> never P E (fst (agent_step E e s)) es"

abbreviation undisturbed :: "agent_env \<Rightarrow> agent \<Rightarrow> (moment \<times> agent_in) list \<Rightarrow> bool" where
  "undisturbed \<equiv> never calls_off"

definition agent_run :: "agent_env \<Rightarrow> push \<Rightarrow> (moment \<times> agent_in) list \<Rightarrow> agent" where
  "agent_run E p es = fst (run_machine (agent_step E) es (init_agent p))"

lemma agent_run_snoc: "agent_run E p (es @ [e]) = fst (agent_step E e (agent_run E p es))"
  by (simp add: agent_run_def fst_run_machine)

lemma never_snoc:
  "never P E s (es @ [e]) \<longleftrightarrow> never P E s es \<and> \<not> P E (fst (run_machine (agent_step E) es s)) e"
  by (induction es arbitrary: s) (simp_all add: case_prod_beta Let_def)

lemma retry_deadline:
  "al_deadline (ag_alerts (fst (retryIvaoDisconnectAlert now g s))) = 0 \<or>
   al_deadline (ag_alerts (fst (retryIvaoDisconnectAlert now g s))) = al_deadline (ag_alerts s)"
  by (simp add: retryIvaoDisconnectAlert_def)

lemma delivered_sent: "dl_sent (fst (snd (deliver_end answers p))) > 0 \<longleftrightarrow> Delivered \<in> snd ` set answers"
  by (force simp: deliver_end_def Let_def filter_empty_conv)

lemma answered_alerts:
  "al_deadline (ag_alerts (fst (disconnect_answered now g answers thrown s))) = 0 \<or>
   al_deadline (ag_alerts (fst (disconnect_answered now g answers thrown s))) = al_deadline (ag_alerts s)
     \<and> \<not> (\<not> thrown \<and> g = al_generation (ag_alerts s) \<and> Delivered \<in> snd ` set answers)"
proof -
  obtain p d outs where d: "deliver_end answers (ag_push s) = (p, d, outs)" by (metis prod_cases3)
  then have sent: "dl_sent d > 0 \<longleftrightarrow> Delivered \<in> snd ` set answers"
    using delivered_sent [of answers "ag_push s"] by simp
  show ?thesis
    using retry_deadline [of now g "s\<lparr>ag_push := p\<rparr>"] sent
    by (auto simp: disconnect_answered_def d andThen_def case_prod_beta Let_def)
qed

lemma app_op_alerts [simp]: "ag_alerts (fst (app_op f s)) = ag_alerts s"
  by (simp add: app_op_def case_prod_beta Let_def)

lemma commands_alerts:
  "ag_alerts (fst (setCom com freq station s)) = ag_alerts s"
  "ag_alerts (fst (setSquawk t code s)) = ag_alerts s"
  "ag_alerts (fst (toggleXpdr t mode s)) = ag_alerts s"
  "ag_alerts (fst (sendIdent s)) = ag_alerts s"
  by (simp_all add: setCom_def setSquawk_def toggleXpdr_def sendIdent_def case_prod_beta Let_def)

lemma stable_bridge_react: "stable ag_alerts (bridge_react t out)"
  by (cases out) (simp_all add: bridge_react_def stable_def)

lemma stable_unicom_react: "stable ag_alerts (unicom_react E out)" "stable ag_fsd (unicom_react E out)"
  by (cases out; simp add: unicom_react_def deliverUnicomTimerAlert_def stable_def)+

lemma bridge_alerts: "ag_alerts (fst (agent_bridge t e s)) = ag_alerts s"
  using stableD [OF stable_each [of ag_alerts "bridge_react t", OF stable_bridge_react]] by (simp add: agent_bridge_def case_prod_beta Let_def)

lemma unicom_alerts: "ag_alerts (fst (agent_unicom E t e s)) = ag_alerts s"
  using stableD [OF stable_each [of ag_alerts "unicom_react E", OF stable_unicom_react(1)]] by (simp add: agent_unicom_def case_prod_beta Let_def)

lemma publish_alerts: "ag_alerts (fst (publishToClients E now m c s)) = ag_alerts s"
  by (simp add: publishToClients_def case_prod_beta Let_def)

text \<open>One step of the deadline.\<close>

lemma step_deadline:
  "al_deadline (ag_alerts (fst (agent_step E (t, i) s))) = 0
   \<or> al_deadline (ag_alerts (fst (agent_step E (t, i) s))) = al_deadline (ag_alerts s) \<and> \<not> calls_off E s (t, i)
   \<or> (\<exists>x. i = FsdIn x \<and> schedules E s t x
       \<and> al_deadline (ag_alerts (fst (agent_step E (t, i) s))) = at_now t + IVAO_DISCONNECT_ALERT_WINDOW_MS)"
proof (cases i)
  case (FsdIn x)
  then show ?thesis
    using reacts_alerts [of "snd (fsd_step (ae_voice E) (at_now t, x) (ag_fsd s))" E t
        "s\<lparr>ag_fsd := fst (fsd_step (ae_voice E) (at_now t, x) (ag_fsd s))\<rparr>"]
    by (auto simp: agent_fsd_def schedules_def session_outs_def case_prod_beta Let_def)
next
  case (DisconnectAnswered g answers thrown)
  then show ?thesis using answered_alerts [of "at_now t" g answers thrown s] by auto
qed (auto simp: bridge_alerts unicom_alerts publish_alerts commands_alerts command_def deliverIvaoDisconnectAlert_def
    connected_timer_fires_def handleAgentWatchdogFired_def Let_def case_prod_beta)

lemma deadline_source:
  "al_deadline (ag_alerts (agent_run E p es)) \<noteq> 0 \<Longrightarrow>
   \<exists>as t0 x bs. es = as @ (t0, FsdIn x) # bs \<and> schedules E (agent_run E p as) t0 x
     \<and> al_deadline (ag_alerts (agent_run E p es)) = at_now t0 + IVAO_DISCONNECT_ALERT_WINDOW_MS
     \<and> undisturbed E (agent_run E p (as @ [(t0, FsdIn x)])) bs"
proof (induction es rule: rev_induct)
  case (snoc e es)
  obtain t i where e: "e = (t, i)" by force
  let ?s = "agent_run E p es"
  have s: "agent_run E p (es @ [e]) = fst (agent_step E (t, i) ?s)" by (simp add: agent_run_snoc e)
  consider "al_deadline (ag_alerts (fst (agent_step E (t, i) ?s))) = al_deadline (ag_alerts ?s)" "\<not> calls_off E ?s (t, i)"
    | x where "i = FsdIn x" "schedules E ?s t x"
      "al_deadline (ag_alerts (fst (agent_step E (t, i) ?s))) = at_now t + IVAO_DISCONNECT_ALERT_WINDOW_MS"
    using step_deadline [of E t i ?s] snoc.prems s by auto
  then show ?case
  proof cases
    case 1
    then obtain as t0 x bs where *: "es = as @ (t0, FsdIn x) # bs" "schedules E (agent_run E p as) t0 x"
      "al_deadline (ag_alerts ?s) = at_now t0 + IVAO_DISCONNECT_ALERT_WINDOW_MS"
      "undisturbed E (agent_run E p (as @ [(t0, FsdIn x)])) bs"
      using snoc by (auto simp: s)
    have "fst (run_machine (agent_step E) bs (agent_run E p (as @ [(t0, FsdIn x)]))) = ?s"
      by (simp add: *(1) agent_run_def fst_run_machine)
    then have "undisturbed E (agent_run E p (as @ [(t0, FsdIn x)])) (bs @ [e])"
      using *(4) 1(2) by (simp add: never_snoc e)
    then show ?thesis using * 1(1) s e
      by (intro exI [of _ as] exI [of _ t0] exI [of _ x] exI [of _ "bs @ [e]"]) simp
  next
    case 2
    then show ?thesis using s e
      by (intro exI [of _ es] exI [of _ t] exI [of _ x] exI [of _ "[]"]) simp
  qed
qed (simp add: agent_run_def init_agent_def init_alerts_def)

lemma disconnect_requests:
  "subscriptions q \<noteq> [] \<Longrightarrow> requests (notifyIvaoDisconnected P c q) =
     map (\<lambda>sub. PushOut (PushSent sub (ivaoDisconnectPayload P c (ps_appUrl sub)) 1800)) (subscriptions q)"
  by (simp add: requests_def notifyIvaoDisconnected_def deliver_begin_def comp_def)

lemma deliver_outs:
  "o1 \<in> set (snd (deliverIvaoDisconnectAlert E now g s)) \<Longrightarrow>
     g = al_generation (ag_alerts s) \<and> \<not> isConnected s \<and> now \<le> al_deadline (ag_alerts s)
     \<and> (\<exists>sub. sub \<in> set (subscriptions (ag_push s)) \<and>
          o1 = PushOut (PushSent sub (ivaoDisconnectPayload (ae_push E) (callsign_text s) (ps_appUrl sub)) 1800))"
  by (auto simp: deliverIvaoDisconnectAlert_def isConnected_def callsign_text_def requests_def notifyIvaoDisconnected_def
      deliver_begin_def Let_def split: if_splits)

text \<open>
  C32: the alert that IVAO was lost is sent when it should be. In a run of the agent, the callback
  of the alert timer notifies only while there is no connection, at most 30 minutes after the close
  of a confirmed session at which there were subscriptions and the aircraft was not known to
  be stationary, and since when no session was opened or closed, no alert reached a device and the
  relay's watchdog did not fire for the flight. While the alert is pending, the callback of the
  current generation does notify every subscription; and a delivery that reached nobody is
  tried again after 30 seconds as long as the window allows.
\<close>

theorem disconnect_alert:
  assumes "0 < at_now t" and s_def: "s = agent_run E p es"
  shows "(o1 \<in> set (snd (agent_step E (t, DisconnectTimer g) s)) \<longrightarrow>
      \<not> isConnected s
      \<and> (\<exists>sub \<in> set (subscriptions (ag_push s)).
          o1 = PushOut (PushSent sub (ivaoDisconnectPayload (ae_push E) (callsign_text s) (ps_appUrl sub)) 1800))
      \<and> (\<exists>as t0 x bs. es = as @ (t0, FsdIn x) # bs \<and> schedules E (agent_run E p as) t0 x
          \<and> at_now t \<le> at_now t0 + IVAO_DISCONNECT_ALERT_WINDOW_MS
          \<and> undisturbed E (agent_run E p (as @ [(t0, FsdIn x)])) bs))
    \<and> (at_now t \<le> al_deadline (ag_alerts s) \<and> \<not> isConnected s \<and> subscriptions (ag_push s) \<noteq> [] \<longrightarrow>
      snd (agent_step E (t, DisconnectTimer (al_generation (ag_alerts s))) s) =
        map (\<lambda>sub. PushOut (PushSent sub (ivaoDisconnectPayload (ae_push E) (callsign_text s) (ps_appUrl sub)) 1800))
          (subscriptions (ag_push s)))
    \<and> (at_now t + IVAO_DISCONNECT_ALERT_RETRY_MS \<le> al_deadline (ag_alerts s) \<and> \<not> isConnected s
       \<and> Delivered \<notin> snd ` set answers \<and> subscriptions (fst (deliver_end answers (ag_push s))) \<noteq> [] \<longrightarrow>
      DisconnectTimerSet (al_generation (ag_alerts s)) IVAO_DISCONNECT_ALERT_RETRY_MS
          \<in> set (snd (agent_step E (t, DisconnectAnswered (al_generation (ag_alerts s)) answers thrown) s))
      \<and> al_deadline (ag_alerts (fst (agent_step E
          (t, DisconnectAnswered (al_generation (ag_alerts s)) answers thrown) s))) = al_deadline (ag_alerts s))"
proof (intro conjI impI)
  assume o1: "o1 \<in> set (snd (agent_step E (t, DisconnectTimer g) s))"
  then have d: "\<not> isConnected s" "at_now t \<le> al_deadline (ag_alerts s)"
    "\<exists>sub. sub \<in> set (subscriptions (ag_push s)) \<and>
       o1 = PushOut (PushSent sub (ivaoDisconnectPayload (ae_push E) (callsign_text s) (ps_appUrl sub)) 1800)"
    using deliver_outs by auto
  then show "\<not> isConnected s" "\<exists>sub \<in> set (subscriptions (ag_push s)).
     o1 = PushOut (PushSent sub (ivaoDisconnectPayload (ae_push E) (callsign_text s) (ps_appUrl sub)) 1800)" by auto
  have "al_deadline (ag_alerts (agent_run E p es)) \<noteq> 0" using d(2) assms(1) by (simp add: s_def)
  then obtain as t0 x bs where "es = as @ (t0, FsdIn x) # bs" "schedules E (agent_run E p as) t0 x"
    "al_deadline (ag_alerts s) = at_now t0 + IVAO_DISCONNECT_ALERT_WINDOW_MS"
    "undisturbed E (agent_run E p (as @ [(t0, FsdIn x)])) bs"
    using deadline_source [of E p es] by (auto simp: s_def)
  with d(2) show "\<exists>as t0 x bs. es = as @ (t0, FsdIn x) # bs
      \<and> schedules E (agent_run E p as) t0 x \<and> at_now t \<le> at_now t0 + IVAO_DISCONNECT_ALERT_WINDOW_MS
      \<and> undisturbed E (agent_run E p (as @ [(t0, FsdIn x)])) bs"
    by fastforce
next
  assume "at_now t \<le> al_deadline (ag_alerts s) \<and> \<not> isConnected s \<and> subscriptions (ag_push s) \<noteq> []"
  then show "snd (agent_step E (t, DisconnectTimer (al_generation (ag_alerts s))) s) =
      map (\<lambda>sub. PushOut (PushSent sub (ivaoDisconnectPayload (ae_push E) (callsign_text s) (ps_appUrl sub)) 1800))
        (subscriptions (ag_push s))"
    by (simp add: deliverIvaoDisconnectAlert_def isConnected_def callsign_text_def Let_def disconnect_requests)
next
  assume a: "at_now t + IVAO_DISCONNECT_ALERT_RETRY_MS \<le> al_deadline (ag_alerts s) \<and> \<not> isConnected s
    \<and> Delivered \<notin> snd ` set answers \<and> subscriptions (fst (deliver_end answers (ag_push s))) \<noteq> []"
  obtain q d outs where d: "deliver_end answers (ag_push s) = (q, d, outs)" by (metis prod_cases3)
  have "\<not> dl_sent d > 0" using a delivered_sent [of answers "ag_push s"] by (simp add: d)
  moreover have "dl_subscriptionCount d = length (subscriptions q)"
    using d by (auto simp: deliver_end_def Let_def)
  ultimately have "agent_step E (t, DisconnectAnswered (al_generation (ag_alerts s)) answers thrown) s =
      (fst (retryIvaoDisconnectAlert (at_now t) (al_generation (ag_alerts s)) (s\<lparr>ag_push := q\<rparr>)),
       (if thrown then [] else map PushOut outs) @
         [DisconnectTimerSet (al_generation (ag_alerts s)) IVAO_DISCONNECT_ALERT_RETRY_MS])"
    using a by (simp add: disconnect_answered_def d andThen_def retryIvaoDisconnectAlert_def isConnected_def Let_def)
  then show "DisconnectTimerSet (al_generation (ag_alerts s)) IVAO_DISCONNECT_ALERT_RETRY_MS
        \<in> set (snd (agent_step E (t, DisconnectAnswered (al_generation (ag_alerts s)) answers thrown) s))"
    "al_deadline (ag_alerts (fst (agent_step E
        (t, DisconnectAnswered (al_generation (ag_alerts s)) answers thrown) s))) = al_deadline (ag_alerts s)"
    using a by (simp_all add: retryIvaoDisconnectAlert_def)
qed

definition demo_env :: agent_env where
  "demo_env = \<lparr>ae_push = sample_env, ae_parse = (\<lambda>s. None), ae_voice = (\<lambda>h. Refused)\<rparr>"

definition demo_lost :: "(moment \<times> agent_in) list" where
  "demo_lost = [(\<lparr>at_now = 5, at_uuid = [97]\<rparr>, FsdIn (CoreOpened 1)),
     (\<lparr>at_now = 6, at_uuid = [98]\<rparr>, FsdIn (RemoteConnected 1)),
     (\<lparr>at_now = 7, at_uuid = [99]\<rparr>, FsdIn (FsdProxy.CoreClosed 1))]"

lemma demo_lost_state:
  "al_deadline (ag_alerts (agent_run demo_env sample_push demo_lost)) = 1800007"
  "al_generation (ag_alerts (agent_run demo_env sample_push demo_lost)) = 2"
  "\<not> isConnected (agent_run demo_env sample_push demo_lost)"
  "subscriptions (ag_push (agent_run demo_env sample_push demo_lost)) = [sample_sub]"
  by (simp_all add: agent_run_def demo_lost_def agent_fsd_def on_core_opened_def in_app_def setConnected_def
      resetFlightTelemetry_def init_agent_def createFsdProxy_def createAppState_def Let_def fsd_react_def
      on_pair_def on_remote_connected_def pair_of_def mhas_def handleIvaoConnected_def andThen_def bridge_op_def
      PilotBridge.setRadioVolume_def bridge_init_def init_alerts_def cancelIvaoDisconnectAlert_def
      armAgentOfflineWatchdog_def cancelIvaoConnectedAlert_def on_core_closed_def close_def upd_pair_def
      handleIvaoClosed_def disarmAgentOfflineWatchdog_def scheduleIvaoDisconnectAlert_def on_alerts_def
      disconnectAlertSuppressionReason_def isConnected_def ivao_open_def sample_push_def
      IVAO_DISCONNECT_ALERT_WINDOW_MS_def)

theorem disconnect_alert_witness:
  "snd (agent_step demo_env (\<lparr>at_now = 10007, at_uuid = []\<rparr>, DisconnectTimer 2)
      (agent_run demo_env sample_push demo_lost)) =
    [PushOut (PushSent sample_sub (ivaoDisconnectPayload sample_env
      (callsign_text (agent_run demo_env sample_push demo_lost)) (ps_appUrl sample_sub)) 1800)]"
  using disconnect_alert [of "\<lparr>at_now = 10007, at_uuid = []\<rparr>", OF _ refl, where E = demo_env and p = sample_push and es = demo_lost]
    demo_lost_state by (simp add: demo_env_def del: agent_step.simps)

subsection \<open>The notice that the flight is online\<close>

fun session_out :: "fsd_out \<Rightarrow> bool" where
  "session_out SessionOpened = True"
| "session_out (SessionEnded b) = True"
| "session_out out = False"

fun new_session :: "agent_env \<Rightarrow> agent \<Rightarrow> moment \<times> agent_in \<Rightarrow> bool" where
  "new_session E s (t, FsdIn x) \<longleftrightarrow> (\<exists>out \<in> session_outs E s t x. session_out out)"
| "new_session E s e \<longleftrightarrow> False"

lemma react_connection:
  "al_connection (ag_alerts (fst (fsd_react E t out s))) =
     al_connection (ag_alerts s) + (if session_out out then 1 else 0)"
  "\<not> session_out out \<Longrightarrow> al_quiet_until (ag_alerts (fst (fsd_react E t out s))) = al_quiet_until (ag_alerts s)"
  by (cases out; simp add: fsd_react_def connected_alerts closed_alerts)+

lemma reacts_connection:
  "al_connection (ag_alerts (fst (each (fsd_react E t) outs s))) =
     al_connection (ag_alerts s) + length (filter session_out outs)"
  "filter session_out outs = [] \<Longrightarrow>
     al_quiet_until (ag_alerts (fst (each (fsd_react E t) outs s))) = al_quiet_until (ag_alerts s)"
  by (induction outs arbitrary: s) (auto simp: react_connection andThen_def case_prod_beta Let_def split: if_splits)

lemma other_connection:
  "al_connection (ag_alerts (cancelIvaoDisconnectAlert s)) = al_connection (ag_alerts s)
   \<and> al_quiet_until (ag_alerts (cancelIvaoDisconnectAlert s)) = al_quiet_until (ag_alerts s)"
  "al_connection (ag_alerts (fst (retryIvaoDisconnectAlert now g s))) = al_connection (ag_alerts s)
   \<and> al_quiet_until (ag_alerts (fst (retryIvaoDisconnectAlert now g s))) = al_quiet_until (ag_alerts s)"
  by (simp_all add: retryIvaoDisconnectAlert_def cancelIvaoDisconnectAlert_def)

text \<open>The connection count grows with a session event, and only then; so does the quiet period.\<close>

lemma step_connection:
  "al_connection (ag_alerts s) \<le> al_connection (ag_alerts (fst (agent_step E e s)))
   \<and> (new_session E s e \<longrightarrow> al_connection (ag_alerts s) < al_connection (ag_alerts (fst (agent_step E e s))))
   \<and> (\<not> new_session E s e \<longrightarrow>
        al_connection (ag_alerts (fst (agent_step E e s))) = al_connection (ag_alerts s)
        \<and> al_quiet_until (ag_alerts (fst (agent_step E e s))) = al_quiet_until (ag_alerts s))"
proof -
  obtain t i where e: "e = (t, i)" by force
  show ?thesis
  proof (cases i)
    case (FsdIn x)
    let ?r = "fsd_step (ae_voice E) (at_now t, x) (ag_fsd s)"
    have "new_session E s e \<longleftrightarrow> filter session_out (snd ?r) \<noteq> []"
      by (auto simp: e FsdIn session_outs_def filter_empty_conv)
    then show ?thesis
      using reacts_connection [where E = E and t = t and outs = "snd ?r" and s = "s\<lparr>ag_fsd := fst ?r\<rparr>"]
      by (auto simp: e FsdIn agent_fsd_def case_prod_beta Let_def)
  next
    case (DisconnectAnswered g answers thrown)
    then show ?thesis
      by (simp add: e disconnect_answered_def andThen_def case_prod_beta Let_def other_connection)
  qed (auto simp: e bridge_alerts unicom_alerts publish_alerts commands_alerts command_def
      deliverIvaoDisconnectAlert_def connected_timer_fires_def handleAgentWatchdogFired_def other_connection
      Let_def case_prod_beta)
qed

lemma run_connection:
  "al_connection (ag_alerts s) \<le> al_connection (ag_alerts (fst (run_machine (agent_step E) es s)))
   \<and> (al_connection (ag_alerts (fst (run_machine (agent_step E) es s))) = al_connection (ag_alerts s)
        \<longleftrightarrow> never new_session E s es)
   \<and> (never new_session E s es \<longrightarrow>
        al_quiet_until (ag_alerts (fst (run_machine (agent_step E) es s))) = al_quiet_until (ag_alerts s))"
proof (induction es arbitrary: s)
  case (Cons e es)
  let ?u = "fst (agent_step E e s)"
  have r: "fst (run_machine (agent_step E) (e # es) s) = fst (run_machine (agent_step E) es ?u)"
    by (simp add: case_prod_beta Let_def)
  show ?case unfolding r never.simps using step_connection [of s E e] Cons.IH [of ?u] by linarith
qed simp

lemma opens_alone:
  "SessionOpened \<in> set (snd (fsd_step V (n, RemoteConnected q) f)) \<Longrightarrow>
     snd (fsd_step V (n, RemoteConnected q) f) = [SessionOpened]"
  by (auto simp: on_pair_def on_remote_connected_def Let_def split: if_splits)

lemma opened_state:
  assumes "SessionOpened \<in> session_outs E s t (RemoteConnected q)"
  shows "al_quiet_until (ag_alerts (fst (agent_step E (t, FsdIn (RemoteConnected q)) s))) =
      at_now t + IVAO_STARTUP_NOTIFICATION_QUIET_MS"
    "ConnectedTimerSet (al_connection (ag_alerts (fst (agent_step E (t, FsdIn (RemoteConnected q)) s))))
        IVAO_STARTUP_NOTIFICATION_QUIET_MS \<in> set (snd (agent_step E (t, FsdIn (RemoteConnected q)) s))"
  using opens_alone [of "ae_voice E" "at_now t" q "ag_fsd s"] assms
  by (simp_all add: session_outs_def agent_fsd_def fsd_react_def handleIvaoConnected_def andThen_def
      case_prod_beta Let_def del: fsd_step.simps)

text \<open>
  the notice that the flight is online, and the quiet start. The connection of a session sets a
  timer; when it fires, it notifies only if the flight is connected and no session was opened or
  closed since, only devices that asked for it, and then all of them. For two seconds after the
  connection, unless a session event comes in between, messages of SERVER are not pushed.
\<close>

theorem online_alert:
  assumes "es = as @ (t0, FsdIn (RemoteConnected q)) # bs"
    and "SessionOpened \<in> session_outs E (agent_run E p as) t0 (RemoteConnected q)"
    and "s0 = agent_run E p (as @ [(t0, FsdIn (RemoteConnected q))])"
    and "g = al_connection (ag_alerts s0)" and "s = agent_run E p es"
  shows "ConnectedTimerSet g IVAO_STARTUP_NOTIFICATION_QUIET_MS
        \<in> set (snd (agent_step E (t0, FsdIn (RemoteConnected q)) (agent_run E p as)))
    \<and> snd (agent_step E (t, ConnectedTimer g) s) =
       (if never new_session E s0 bs \<and> isConnected s
        then map (\<lambda>sub. PushOut (PushSent sub (ivaoConnectedPayload (ae_push E) (callsign_text s) (ps_appUrl sub)) 300))
               (filter ps_notifyIvaoConnected (subscriptions (ag_push s)))
        else [])
    \<and> (never new_session E s0 bs \<and> at_now t < at_now t0 + IVAO_STARTUP_NOTIFICATION_QUIET_MS
        \<and> isIvaoServerMessage m \<longrightarrow> snd (agent_step E (t, Publish m c) s) = [])"
proof -
  have s0: "s0 = fst (agent_step E (t0, FsdIn (RemoteConnected q)) (agent_run E p as))"
    by (simp add: assms(3) agent_run_snoc)
  have s: "s = fst (run_machine (agent_step E) bs s0)"
    by (simp add: assms(1,3,5) agent_run_def fst_run_machine)
  note o = opened_state [OF assms(2), folded s0]
  have g: "g = al_connection (ag_alerts s) \<longleftrightarrow> never new_session E s0 bs"
    using run_connection [of s0 E bs] s assms(4) by auto
  have "snd (agent_step E (t, ConnectedTimer g) s) =
      (if g = al_connection (ag_alerts s) \<and> isConnected s
       then map (\<lambda>sub. PushOut (PushSent sub (ivaoConnectedPayload (ae_push E) (callsign_text s) (ps_appUrl sub)) 300))
              (filter ps_notifyIvaoConnected (subscriptions (ag_push s)))
       else [])"
    by (simp add: connected_timer_fires_def isConnected_def callsign_text_def requests_def notifyIvaoConnected_def
        deliver_begin_def comp_def Let_def)
  moreover have "snd (agent_step E (t, Publish m c) s) = []"
    if "never new_session E s0 bs" "at_now t < at_now t0 + IVAO_STARTUP_NOTIFICATION_QUIET_MS" "isIvaoServerMessage m"
    using that run_connection [of s0 E bs] o(1)
    by (simp add: s publishToClients_def notifyForMessage_def Let_def split: option.splits)
  ultimately show ?thesis using o(2) assms(4) g by simp
qed

definition online_push :: push where
  "online_push = set_subscriptions [sample_sub\<lparr>ps_notifyIvaoConnected := True\<rparr>] sample_push"

definition demo_online :: "(moment \<times> agent_in) list" where
  "demo_online = [(\<lparr>at_now = 5, at_uuid = [97]\<rparr>, FsdIn (CoreOpened 1))] @
     (\<lparr>at_now = 6, at_uuid = [98]\<rparr>, FsdIn (RemoteConnected 1)) # []"

lemmas opening_defs = agent_run_def demo_online_def agent_fsd_def on_core_opened_def in_app_def setConnected_def
  resetFlightTelemetry_def init_agent_def createFsdProxy_def createAppState_def fsd_react_def
  on_pair_def on_remote_connected_def pair_of_def mhas_def handleIvaoConnected_def andThen_def bridge_op_def
  PilotBridge.setRadioVolume_def bridge_init_def init_alerts_def cancelIvaoDisconnectAlert_def
  armAgentOfflineWatchdog_def cancelIvaoConnectedAlert_def on_alerts_def isConnected_def ivao_open_def

lemma demo_online_state:
  "SessionOpened \<in> session_outs demo_env
     (agent_run demo_env online_push [(\<lparr>at_now = 5, at_uuid = [97]\<rparr>, FsdIn (CoreOpened 1))])
     \<lparr>at_now = 6, at_uuid = [98]\<rparr> (RemoteConnected 1)"
  "al_connection (ag_alerts (agent_run demo_env online_push demo_online)) = 1"
  "isConnected (agent_run demo_env online_push demo_online)"
  "filter ps_notifyIvaoConnected (subscriptions (ag_push (agent_run demo_env online_push demo_online)))
     = [sample_sub\<lparr>ps_notifyIvaoConnected := True\<rparr>]"
  by (simp_all add: session_outs_def opening_defs online_push_def set_subscriptions_def Let_def)

theorem online_alert_witness:
  "snd (agent_step demo_env (\<lparr>at_now = 2006, at_uuid = []\<rparr>, ConnectedTimer 1)
      (agent_run demo_env online_push demo_online)) =
    [PushOut (PushSent (sample_sub\<lparr>ps_notifyIvaoConnected := True\<rparr>) (ivaoConnectedPayload sample_env
      (callsign_text (agent_run demo_env online_push demo_online)) (ps_appUrl sample_sub)) 300)]"
  using online_alert [OF demo_online_def demo_online_state(1) refl refl refl,
      where t = "\<lparr>at_now = 2006, at_uuid = []\<rparr>", THEN conjunct2, THEN conjunct1]
    demo_online_state(2-4)
  by (simp add: demo_env_def demo_online_def del: agent_step.simps)

subsection \<open>Commands to PilotCore\<close>

lemma digits_two: "0 < c \<Longrightarrow> c < 10 \<Longrightarrow> d < 10 \<Longrightarrow> nat_digits (10 * c + d) = [48 + c, 48 + d]"
  by (subst nat_digits.simps) (simp add: nat_digits.simps [of c])

lemma digits_three: "0 < c \<Longrightarrow> c < 10 \<Longrightarrow> d < 10 \<Longrightarrow> e < 10 \<Longrightarrow>
    nat_digits (100 * c + 10 * d + e) = [48 + c, 48 + d, 48 + e]"
proof -
  assume a: "0 < c" "c < 10" "d < 10" "e < 10"
  have n: "nat_digits n = nat_digits (n div 10) @ [48 + n mod 10]" if "\<not> n < 10" for n
    using that by (subst nat_digits.simps) (rule if_not_P)
  have r: "100 * c + 10 * d + e = 10 * (10 * c + d) + e" by simp
  have "(10 * x + e) div 10 = x" "(10 * x + e) mod 10 = e" for x using a(4) by simp_all
  then have "(100 * c + 10 * d + e) div 10 = 10 * c + d" "(100 * c + 10 * d + e) mod 10 = e"
    unfolding r by blast+
  moreover have "\<not> 100 * c + 10 * d + e < 10" using a(1) by simp
  ultimately show ?thesis using n [of "100 * c + 10 * d + e"] digits_two [OF a(1,2,3)] by (simp only: append.simps not_False_eq_True)
qed

lemma padded_three: "c < 10 \<Longrightarrow> d < 10 \<Longrightarrow> e < 10 \<Longrightarrow>
    pad_start 3 48 (nat_digits (100 * c + 10 * d + e)) = [48 + c, 48 + d, 48 + e]"
proof (cases "c = 0")
  case True
  assume "d < 10" "e < 10"
  then show ?thesis using True digits_two [of d e]
    by (cases "d = 0") (simp_all add: pad_start_def nat_digits.simps [of e] numeral_eq_Suc)
next
  case False
  assume "c < 10" "d < 10" "e < 10"
  then show ?thesis using False digits_three [of c d e] by (simp add: pad_start_def)
qed

lemma format_freq:
  assumes f: "digits5 a b c d e"
  shows "formatComFrequency (JStr (freq_text a b c d e)) = freq_text a b c d e"
proof -
  let ?k = "freq_khz a b c d e"
  have l: "a < 10" "b < 10" "c < 10" "d < 10" "e < 10" using f by (simp_all add: digits5_def)
  obtain v where v: "fl (of_nat ?k / 1000) = Fin v" "\<bar>v - of_nat ?k / 1000\<bar> < 1 / 10 ^ 6"
    using fl_khz [of ?k] freq_khz_bounds [OF f] by auto
  have k: "100000 \<le> (of_nat ?k :: rat)" "(of_nat ?k :: rat) < 200000"
    using freq_khz_bounds [OF f] by (simp_all add: of_nat_le_iff [symmetric] of_nat_less_iff [symmetric] del: of_nat_le_iff of_nat_less_iff)
  have b: "v - of_nat ?k / 1000 < 1 / 1000000" "of_nat ?k / 1000 - v < 1 / 1000000"
  proof -
    have m: "1 / 10 ^ 6 = (1 / 1000000 :: rat)" by simp
    show "v - of_nat ?k / 1000 < 1 / 1000000" "of_nat ?k / 1000 - v < 1 / 1000000"
      using v(2) unfolding m abs_less_iff by linarith+
  qed
  have "\<lfloor>1000 * v + 1 / 2\<rfloor> = int ?k"
    using b by (intro floor_unique; unfold of_int_of_nat_eq; linarith)
  then have "nat \<lfloor>1000 * v + 1 / 2\<rfloor> = ?k" by simp
  moreover have "?k div 1000 = 100 * 1 + 10 * a + b" "?k mod 1000 = 100 * c + 10 * d + e"
  proof -
    have r: "?k = 1000 * (100 + 10 * a + b) + (100 * c + 10 * d + e)" by (simp add: freq_khz_def)
    have "(1000 * x + y) div 1000 = x" "(1000 * x + y) mod 1000 = y" if "y < 1000" for x y :: nat
      using that by simp_all
    moreover have "100 * c + 10 * d + e < 1000" using l by simp
    ultimately show "?k div 1000 = 100 * 1 + 10 * a + b" "?k mod 1000 = 100 * c + 10 * d + e"
      unfolding r by (simp_all only: mult_1_right)
  qed
  moreover have "\<not> v < 0" using b k by linarith
  moreover have "v < 1000000" using b k by linarith
  then have "\<not> 10 ^ 21 \<le> v" by simp
  ultimately have t: "to_fixed3 v = freq_text a b c d e"
    using digits_three [of 1 a b] padded_three [of c d e] l
    by (simp add: to_fixed3_def fixed3_pos_def freq_text_def Let_def)
  have "replace_first 44 46 (freq_text a b c d e) = freq_text a b c d e"
    by (simp add: freq_text_def)
  then show ?thesis
    using freq_text_number [OF f] v(1) t by (simp add: formatComFrequency_def)
qed
lemma normalized_freq:
  assumes "normalizePilotComFrequency freq \<noteq> []"
  shows "isFrequency (JStr (normalizePilotComFrequency freq))"
proof -
  let ?v = "formatComFrequency freq"
  have v: "normalizePilotComFrequency freq = ?v" "rx_match freq_rx ?v"
    "\<not> jlt (to_number ?v) (Fin 118)" "\<not> jlt (fl (136975 / 1000)) (to_number ?v)"
    using assms by (auto simp: normalizePilotComFrequency_def Let_def split: if_splits)
  obtain a b c d e where f: "digits5 a b c d e" "?v = freq_text a b c d e" using v(2) rx_freq by blast
  have n: "to_number ?v = fl (of_nat (freq_khz a b c d e) / 1000)" using freq_text_number [OF f(1)] f(2) by simp
  obtain w where w: "to_number ?v = Fin w" using fl_khz freq_khz_bounds [OF f(1)] n by force
  obtain m where m: "fl (136975 / 1000) = Fin m" using fl_khz [of 136975] by auto
  show ?thesis
    unfolding v(1) isFrequency_def str_test_def using v w m by (simp add: is_finite_def)
qed

lemma set_com_shape:
  assumes "Agent.setCom com freq station s = (s', outs, ok)"
  shows "(\<not> ok \<longrightarrow> app_of s' = app_of s \<and> (\<forall>out. AppOut out \<notin> set outs))
    \<and> (ok \<longrightarrow> (let v = normalizePilotComFrequency freq in
          v \<noteq> [] \<and> app_of s' = fst (updateComFrequency com (JStr v) station (app_of s))
          \<and> BridgeOut (Replied True) \<in> set outs \<and> set (snd (PilotBridge.setCom com v (ag_bridge s))) \<subseteq> {b. BridgeOut b \<in> set outs}
          \<and> Replied True \<in> set (snd (PilotBridge.setCom com v (ag_bridge s)))))"
  using assms
  by (auto simp: Agent.setCom_def replied_def app_op_def case_prod_beta Let_def split: if_splits)

text \<open>What the bridge sends when it answers that it did.\<close>

lemma bridge_sent:
  assumes "Replied True \<in> set (snd (PilotBridge.setCom com v b))"
  shows "\<exists>i pkt. (if br_protocol b = MessagePack then makeV114FreqPacket com v else makeFreqPacket com v) = Inr pkt
    \<and> ToCore i pkt \<in> set (snd (PilotBridge.setCom com v b))"
  using assms by (auto simp: PilotBridge.setCom_def sendToCore_def split: sum.splits option.splits if_splits)

lemma freq_text_ne: "freq_text a b c d e \<noteq> []"
  by (simp add: freq_text_def)

lemma com_shown:
  "digits5 a b c d e \<Longrightarrow> com = 1 \<or> com = 2 \<Longrightarrow>
     as_com (fst (updateComFrequency com (JStr (freq_text a b c d e)) station s)) com = freq_text a b c d e"
  using format_freq [of a b c d e] by (auto simp: updateComFrequency_def Let_def radio_of_def freq_text_ne)

text \<open>
  what is shown is what was sent. A radio command of the webapp that is not sent changes
  nothing in the state of the agent and publishes nothing. One that is sent puts a packet on
  the wire to PilotCore that carries the radio and exactly the kHz of a frequency between 118.000
  and 136.975 MHz, in the encoding of the protocol in use, and the state then shows that frequency.
\<close>

theorem radio_command_exact:
  assumes "com = 1 \<or> com = 2" and "Agent.setCom com freq station s = (s', outs, ok)"
  shows "(\<not> ok \<longrightarrow> app_of s' = app_of s \<and> (\<forall>out. AppOut out \<notin> set outs))
    \<and> (ok \<longrightarrow> (\<exists>k i pkt. 118000 \<le> k \<and> k \<le> 136975 \<and> BridgeOut (ToCore i pkt) \<in> set outs
         \<and> (br_protocol (ag_bridge s) = Legacy \<longrightarrow> pkt = [7, 0, 0, 0, 32, 32, com] @ write_le 3 k @ [0])
         \<and> (br_protocol (ag_bridge s) = MessagePack \<longrightarrow>
              makeMessagePackFrame 6144 (JArr [JNum (Fin (of_nat com)), JNum (Fin (of_nat k))]) = Inr pkt)
         \<and> to_khz (to_number (as_com (app_of s') com)) = Fin (of_nat k)))"
proof (intro conjI impI)
  assume "\<not> ok"
  then show "app_of s' = app_of s" "\<forall>out. AppOut out \<notin> set outs" using set_com_shape [OF assms(2)] by auto
next
  assume ok: "ok"
  let ?v = "normalizePilotComFrequency freq"
  have v: "?v \<noteq> []" "app_of s' = fst (updateComFrequency com (JStr ?v) station (app_of s))"
    "Replied True \<in> set (snd (PilotBridge.setCom com ?v (ag_bridge s)))"
    "set (snd (PilotBridge.setCom com ?v (ag_bridge s))) \<subseteq> {b. BridgeOut b \<in> set outs}"
    using set_com_shape [OF assms(2)] ok by (auto simp: Let_def)
  obtain a b c d e where f: "digits5 a b c d e" "?v = freq_text a b c d e"
    "118000 \<le> freq_khz a b c d e" "freq_khz a b c d e \<le> 136975"
    using normalized_freq [OF v(1)] unfolding isFrequency_iff by blast
  let ?k = "freq_khz a b c d e"
  obtain i pkt where pkt: "(if br_protocol (ag_bridge s) = MessagePack then makeV114FreqPacket com ?v
      else makeFreqPacket com ?v) = Inr pkt" "BridgeOut (ToCore i pkt) \<in> set outs"
    using bridge_sent [OF v(3)] v(4) by blast
  have khz: "to_khz (to_number (freq_text a b c d e)) = Fin (of_nat ?k)"
    using freq_khz_bounds [OF f(1)] freq_text_number [OF f(1)] by (simp add: to_khz_exact)
  have com: "com mod 256 = com" "radio_of com = com" using assms(1) by (auto simp: radio_of_def)
  have "as_com (app_of s') com = freq_text a b c d e" using com_shown [OF f(1) assms(1)] v(2) f(2) by simp
  moreover have "br_protocol (ag_bridge s) = Legacy \<longrightarrow> pkt = [7, 0, 0, 0, 32, 32, com] @ write_le 3 ?k @ [0]"
    using pkt(1) freq_packet [OF f(1), of com] f(2) com by auto
  moreover have "br_protocol (ag_bridge s) = MessagePack \<longrightarrow>
      makeMessagePackFrame 6144 (JArr [JNum (Fin (of_nat com)), JNum (Fin (of_nat ?k))]) = Inr pkt"
  proof
    assume "br_protocol (ag_bridge s) = MessagePack"
    then have "makeV114FreqPacket com (freq_text a b c d e) = Inr pkt" using pkt(1) by (simp add: f(2))
    then show "makeMessagePackFrame 6144 (JArr [JNum (Fin (of_nat com)), JNum (Fin (of_nat ?k))]) = Inr pkt"
      by (simp only: makeV114FreqPacket_def khz com(2))
  qed
  ultimately show "\<exists>k i pkt. 118000 \<le> k \<and> k \<le> 136975 \<and> BridgeOut (ToCore i pkt) \<in> set outs
         \<and> (br_protocol (ag_bridge s) = Legacy \<longrightarrow> pkt = [7, 0, 0, 0, 32, 32, com] @ write_le 3 k @ [0])
         \<and> (br_protocol (ag_bridge s) = MessagePack \<longrightarrow>
              makeMessagePackFrame 6144 (JArr [JNum (Fin (of_nat com)), JNum (Fin (of_nat k))]) = Inr pkt)
         \<and> to_khz (to_number (as_com (app_of s') com)) = Fin (of_nat k)"
    using f(3,4) pkt(2) khz by auto
qed

definition demo_linked :: agent where
  "demo_linked = (init_agent sample_push)\<lparr>ag_bridge :=
     \<lparr>br_conns = [(0, \<lparr>bc_ui_open = True, bc_core_open = True, bc_ui_pending = [], bc_core_pending = []\<rparr>)],
      br_ui = Some 0, br_core = Some 0, br_protocol = Legacy\<rparr>\<rparr>"

lemma demo_set_com: "snd (snd (Agent.setCom 2 (JStr (js ''122.800'')) [] demo_linked))"
proof -
  have t: "js ''122.800'' = freq_text 2 2 8 0 0" by (simp add: freq_text_def js_def)
  have d: "digits5 2 2 8 0 0" by (simp add: digits5_def)
  have k: "freq_khz 2 2 8 0 0 = 122800" by (simp add: freq_khz_def)
  have "isFrequency (JStr (freq_text 2 2 8 0 0))" unfolding isFrequency_iff using d k by force
  then have "normalizePilotComFrequency (JStr (freq_text 2 2 8 0 0)) = freq_text 2 2 8 0 0"
    using fl_khz [of 122800] fl_khz [of 136975] freq_text_number [OF d]
    by (auto simp: normalizePilotComFrequency_def Let_def format_freq [OF d] isFrequency_def str_test_def k)
  then show ?thesis
    using freq_packet [OF d, of 2] freq_text_ne [of 2 2 8 0 0]
    by (simp add: t Agent.setCom_def PilotBridge.setCom_def sendToCore_def PilotBridge.core_open_def demo_linked_def
        replied_def case_prod_beta Let_def)
qed

theorem radio_command_exact_witness:
  "\<exists>k. 118000 \<le> k \<and> k \<le> 136975
     \<and> to_khz (to_number (as_com (app_of (fst (Agent.setCom 2 (JStr (js ''122.800'')) [] demo_linked))) 2)) = Fin (of_nat k)"
proof -
  obtain s' outs ok where r: "Agent.setCom 2 (JStr (js ''122.800'')) [] demo_linked = (s', outs, ok)"
    by (metis prod_cases3)
  have "ok" using demo_set_com by (simp add: r)
  then show ?thesis using radio_command_exact [OF _ r] by (simp add: r) blast
qed

end
