(* ===== verification/OggSpeex.thy ===== *)
theory OggSpeex
  imports Bytes "HOL-Library.Word"
begin

section \<open>Ogg pages with Speex packets (proxy/ogg-speex.js)\<close>

text \<open>
  The encoder and decoder processes speak Ogg, the voice servers raw Speex packets. \<open>OggSpeexWriter\<close>
  wraps each packet into a page with its checksum; \<open>OggPacketReader\<close> takes the packets
  out of a byte stream that is cut into chunks anywhere, and drops the two header packets.
  The checksum is on 32-bit words, as in the code.
\<close>

unbundle bit_operations_syntax

subsection \<open>The checksum\<close>

definition crc_shift :: "32 word \<Rightarrow> 32 word" where
  "crc_shift r = (if r AND 0x80000000 \<noteq> 0 then push_bit 1 r XOR 0x04c11db7 else push_bit 1 r)"

definition crc_entry :: "nat \<Rightarrow> 32 word" where
  "crc_entry i = (crc_shift ^^ 8) (push_bit 24 (word_of_nat i))"

definition CRC32_OGG :: "32 word list" where
  "CRC32_OGG = map crc_entry [0..<256]"

definition crc_step :: "32 word \<Rightarrow> nat \<Rightarrow> 32 word" where
  "crc_step crc b = push_bit 8 crc XOR (CRC32_OGG ! unat ((drop_bit 24 crc XOR word_of_nat b) AND 0xff))"

definition oggCrc :: "bytes \<Rightarrow> 32 word" where
  "oggCrc page = foldl crc_step 0 page"

subsection \<open>The writer\<close>

text \<open>\<open>serial\<close> is the random serial number; \<open>granule\<close> and \<open>seq\<close> stay below \<open>2^63\<close> and \<open>2^32\<close>.\<close>

record ogg_writer =
  ow_sampleRate :: nat
  ow_framesPerPacket :: nat
  ow_serial :: nat
  ow_seq :: nat
  ow_granule :: nat

definition new_writer :: "nat \<Rightarrow> nat \<Rightarrow> nat \<Rightarrow> ogg_writer" where
  "new_writer sampleRate framesPerPacket serial =
     \<lparr>ow_sampleRate = sampleRate, ow_framesPerPacket = framesPerPacket, ow_serial = serial mod 2 ^ 32,
      ow_seq = 0, ow_granule = 0\<rparr>"

definition frameSize :: "ogg_writer \<Rightarrow> nat" where
  "frameSize w = (if ow_sampleRate w = 16000 then 320 else if ow_sampleRate w = 32000 then 640 else 160)"

definition OggS :: bytes where
  "OggS = [79, 103, 103, 83]"

definition lacing :: "bytes \<Rightarrow> bytes" where
  "lacing data = replicate (length data div 255) 255 @ [length data mod 255]"

definition page_with :: "ogg_writer \<Rightarrow> bytes \<Rightarrow> nat \<Rightarrow> nat \<Rightarrow> bytes \<Rightarrow> bytes" where
  "page_with w data flags granule crc =
     OggS @ [0, flags] @ write_le 8 granule @ write_le 4 (ow_serial w) @ write_le 4 (ow_seq w) @ crc
       @ [length (lacing data) mod 256] @ lacing data @ data"

definition page :: "bytes \<Rightarrow> nat \<Rightarrow> nat \<Rightarrow> ogg_writer \<Rightarrow> ogg_writer \<times> bytes" where
  "page data flags granule w =
     (w\<lparr>ow_seq := Suc (ow_seq w)\<rparr>,
      page_with w data flags granule (write_le 4 (unat (oggCrc (page_with w data flags granule [0, 0, 0, 0])))))"

definition speex_header :: "ogg_writer \<Rightarrow> bytes" where
  "speex_header w =
     [83, 112, 101, 101, 120, 32, 32, 32] @ [49, 46, 50, 46, 49] @ replicate 15 0
     @ write_le 4 1 @ write_le 4 80 @ write_le 4 (ow_sampleRate w)
     @ write_le 4 (if ow_sampleRate w = 32000 then 2 else if ow_sampleRate w = 16000 then 1 else 0)
     @ write_le 4 4 @ write_le 4 1 @ [255, 255, 255, 255] @ write_le 4 (frameSize w) @ write_le 4 0
     @ write_le 4 (ow_framesPerPacket w) @ replicate 12 0"

definition speex_comment :: bytes where
  "speex_comment = write_le 4 5 @ [86, 111, 120, 72, 70] @ write_le 4 0"

definition headers :: "ogg_writer \<Rightarrow> ogg_writer \<times> bytes" where
  "headers w = (let (w1, p1) = page (speex_header w) 2 0 w; (w2, p2) = page speex_comment 0 0 w1 in (w2, p1 @ p2))"

definition frame :: "bytes \<Rightarrow> ogg_writer \<Rightarrow> ogg_writer \<times> bytes" where
  "frame data w =
     (let g = ow_granule w + frameSize w * ow_framesPerPacket w
      in page data 0 g (w\<lparr>ow_granule := g\<rparr>))"

fun frames :: "bytes list \<Rightarrow> ogg_writer \<Rightarrow> ogg_writer \<times> bytes" where
  "frames [] w = (w, [])"
| "frames (d # ds) w = (let (w1, p) = frame d w; (w2, q) = frames ds w1 in (w2, p @ q))"

subsection \<open>The reader\<close>

record ogg_reader =
  og_buffer :: bytes
  og_pending :: bytes
  og_count :: nat

definition new_reader :: ogg_reader where
  "new_reader = \<lparr>og_buffer = [], og_pending = [], og_count = 0\<rparr>"

fun indexOf_OggS :: "bytes \<Rightarrow> nat option" where
  "indexOf_OggS [] = None"
| "indexOf_OggS (b # s) = (if take 4 (b # s) = OggS then Some 0 else map_option Suc (indexOf_OggS s))"

text \<open>The loop over the segments of a page.\<close>

fun take_segments :: "bytes \<Rightarrow> bytes \<Rightarrow> bytes \<Rightarrow> nat \<Rightarrow> bytes \<times> nat \<times> bytes list" where
  "take_segments [] data pending count = (pending, count, [])"
| "take_segments (len # segs) data pending count =
     (let packet = pending @ take len data; rest = drop len data in
      if len < 255 then
        (let (p, c, out) = take_segments segs rest [] (Suc count)
         in (p, c, if Suc count > 2 \<and> packet \<noteq> [] then packet # out else out))
      else take_segments segs rest packet count)"

definition page_table :: "bytes \<Rightarrow> bytes" where
  "page_table b = take (b ! 26) (drop 27 b)"

definition page_length :: "bytes \<Rightarrow> nat" where
  "page_length b = 27 + b ! 26 + sum_list (page_table b)"

function drain_pages :: "bytes \<Rightarrow> bytes \<Rightarrow> nat \<Rightarrow> ogg_reader \<times> bytes list" where
  "drain_pages buf pending count =
     (if length buf < 27 then (\<lparr>og_buffer = buf, og_pending = pending, og_count = count\<rparr>, [])
      else (case indexOf_OggS buf of
          None \<Rightarrow> (\<lparr>og_buffer = [], og_pending = pending, og_count = count\<rparr>, [])
        | Some start \<Rightarrow>
            (let b = drop start buf in
             if length b < 27 \<or> length b < 27 + b ! 26 \<or> length b < page_length b
             then (\<lparr>og_buffer = b, og_pending = pending, og_count = count\<rparr>, [])
             else (let (p, c, out) = take_segments (page_table b)
                       (drop (27 + b ! 26) (take (page_length b) b)) pending count;
                       (r, out2) = drain_pages (drop (page_length b) b) p c
                   in (r, out @ out2)))))"
  by pat_completeness auto

termination drain_pages
  by (relation "measure (\<lambda>(b, p, c). length b)") (auto simp: page_length_def)

declare drain_pages.simps [simp del]

definition ogg_push :: "ogg_reader \<Rightarrow> bytes \<Rightarrow> ogg_reader \<times> bytes list" where
  "ogg_push r chunk = drain_pages (og_buffer r @ chunk) (og_pending r) (og_count r)"

end
