(* ===== verification/OggProps.thy ===== *)
theory OggProps
  imports OggSpeex
begin

section \<open>Properties of the Ogg pages\<close>

unbundle bit_operations_syntax

subsection \<open>The checksum is the remainder of a division\<close>

text \<open>
  \<open>crc_shift\<close> is a linear map with no kernel; eight of them are a byte of the bit by bit division
  by the polynomial 0x04c11db7.
\<close>

definition crc_bits :: "32 word \<Rightarrow> nat \<Rightarrow> 32 word" where
  "crc_bits crc b = (crc_shift ^^ 8) (crc XOR push_bit 24 (word_of_nat b))"

lemma top_bit: "r AND 0x80000000 \<noteq> 0 \<longleftrightarrow> bit (r :: 32 word) 31"
proof -
  have "0x80000000 = (2 ^ 31 :: 32 word)" by simp
  then show ?thesis by (simp only: and_exp_eq_0_iff_not_bit not_not)
qed

lemma crc_shift_bit: "crc_shift r = (if bit r 31 then push_bit 1 r XOR 0x04c11db7 else push_bit 1 r)"
  by (simp only: crc_shift_def top_bit)

lemma xor_cancel: "a XOR p XOR (b XOR p) = a XOR (b :: 32 word)"
  by (simp add: xor.left_commute xor.commute)

lemma crc_shift_xor: "crc_shift (x XOR y) = crc_shift x XOR crc_shift y"
  by (simp add: crc_shift_bit bit_xor_iff push_bit_xor xor_cancel ac_simps)

lemma crc_shifts_xor: "(crc_shift ^^ n) (x XOR y) = (crc_shift ^^ n) x XOR (crc_shift ^^ n) y"
  by (induction n) (simp_all add: crc_shift_xor)

lemma crc_shift_0: "crc_shift z = 0 \<Longrightarrow> z = 0"
proof -
  assume z: "crc_shift z = 0"
  have "\<not> bit z 31"
  proof
    assume "bit z 31"
    then have "push_bit 1 z XOR 0x04c11db7 = 0" using z by (simp add: crc_shift_bit)
    then have "bit (push_bit 1 z XOR 0x04c11db7) 0 = bit (0 :: 32 word) 0" by (simp only:)
    moreover have "\<not> bit (push_bit 1 z) 0" unfolding bit_push_bit_iff by simp
    moreover have "bit (0x04c11db7 :: 32 word) 0" by simp
    ultimately show False by (simp only: bit_xor_iff bit_0_eq) simp
  qed
  then have p: "push_bit 1 z = 0" using z by (simp add: crc_shift_bit)
  have "\<not> bit z n" if "n < 32" for n
  proof (cases "n = 31")
    case False
    then have "bit (push_bit 1 z) (Suc n) = bit z n" using that unfolding bit_push_bit_iff by simp
    then show ?thesis unfolding p by simp
  qed (use \<open>\<not> bit z 31\<close> in simp)
  then show ?thesis by (intro bit_word_eqI) simp
qed

lemma xor_eq_0: "a XOR b = 0 \<longleftrightarrow> a = (b :: 32 word)"
  by (metis xor.assoc xor.left_neutral xor.right_neutral xor_self_eq)

lemma crc_shift_inj: "crc_shift x = crc_shift y \<Longrightarrow> x = y"
  using crc_shift_0 [of "x XOR y"] by (simp add: crc_shift_xor xor_eq_0)

lemma crc_shifts_inj: "(crc_shift ^^ n) x = (crc_shift ^^ n) y \<Longrightarrow> x = y"
  by (induction n) (auto dest: crc_shift_inj)

lemma low_shifts: "(\<And>n. n \<ge> 24 \<Longrightarrow> \<not> bit x n) \<Longrightarrow> k \<le> 8 \<Longrightarrow> (crc_shift ^^ k) x = push_bit k x"
proof (induction k)
  case (Suc k)
  then have "\<not> bit (push_bit k x) 31" by (simp add: bit_push_bit_iff)
  then show ?case using Suc by (simp add: crc_shift_bit push_bit_push_bit)
qed simp

lemma crc_step_bits: "b < 256 \<Longrightarrow> crc_step crc b = crc_bits crc b"
proof -
  assume b: "b < 256"
  let ?b = "word_of_nat b :: 32 word"
  let ?i = "drop_bit 24 crc XOR ?b"
  have hb: "\<not> bit ?b n" if "8 \<le> n" for n
  proof -
    have "take_bit 8 b = b" using b by (simp add: take_bit_nat_eq_self)
    then have "bit b n = (n < 8 \<and> bit b n)" by (metis bit_take_bit_iff)
    then show ?thesis using that by (simp add: bit_of_nat_iff)
  qed
  have hi: "\<not> bit ?i n" if "8 \<le> n" for n
    using hb [OF that] that by (auto simp: bit_xor_iff bit_drop_bit_eq dest: bit_imp_le_length)
  have m: "?i AND 0xff = ?i"
  proof (rule bit_word_eqI)
    fix n assume "n < LENGTH(32)"
    have e: "(0xff :: 32 word) = mask 8" by (simp add: mask_eq_exp_minus_1)
    show "bit (?i AND 0xff) n = bit ?i n"
      unfolding e using hi [of n] \<open>n < LENGTH(32)\<close> by (cases "n < 8") (simp_all add: bit_and_iff bit_mask_iff)
  qed
  have "?i = take_bit 8 ?i" by (rule bit_word_eqI) (unfold bit_take_bit_iff, use hi in \<open>meson not_le\<close>)
  then have "unat ?i = take_bit 8 (unat ?i)" by (metis unsigned_take_bit_eq)
  then have u: "unat ?i < 256" using take_bit_nat_less_exp [of 8 "unat ?i"] by simp
  have t: "(crc_shift ^^ 8) (take_bit 24 crc) = push_bit 8 (take_bit 24 crc)"
    by (rule low_shifts) (simp_all add: bit_take_bit_iff)
  have p: "push_bit 8 (take_bit 24 crc) = push_bit 8 crc"
    by (rule bit_word_eqI) (auto simp: bit_push_bit_iff bit_take_bit_iff)
  have s: "crc XOR push_bit 24 ?b = push_bit 24 ?i XOR take_bit 24 crc"
    by (rule bit_word_eqI) (auto simp: bit_push_bit_iff bit_take_bit_iff bit_xor_iff bit_drop_bit_eq)
  have "crc_bits crc b = crc_entry (unat ?i) XOR push_bit 8 crc"
    by (simp add: crc_bits_def s crc_shifts_xor t p crc_entry_def)
  moreover have "crc_step crc b = push_bit 8 crc XOR crc_entry (unat ?i)"
    unfolding crc_step_def m CRC32_OGG_def using u by simp
  ultimately show ?thesis by (simp only: xor.commute)
qed

lemma oggCrc_bits: "is_bytes p \<Longrightarrow> foldl crc_step c p = foldl crc_bits c p"
  by (induction p arbitrary: c) (simp_all add: is_bytes_def crc_step_bits)

lemma crc_bits_inj: "crc_bits c b = crc_bits d b \<Longrightarrow> c = d"
proof -
  assume "crc_bits c b = crc_bits d b"
  then have "c XOR push_bit 24 (word_of_nat b) = d XOR push_bit 24 (word_of_nat b :: 32 word)"
    unfolding crc_bits_def by (rule crc_shifts_inj)
  then have "(c XOR push_bit 24 (word_of_nat b)) XOR push_bit 24 (word_of_nat b) =
      (d XOR push_bit 24 (word_of_nat b)) XOR push_bit 24 (word_of_nat b :: 32 word)" by (simp only:)
  then show ?thesis by (simp only: xor.assoc xor_self_eq xor.right_neutral)
qed

lemma fold_bits_inj: "foldl crc_bits c p = foldl crc_bits d p \<Longrightarrow> c = d"
  by (induction p arbitrary: c d) (auto dest: crc_bits_inj)

lemma crc_bits_byte: "a < 256 \<Longrightarrow> b < 256 \<Longrightarrow> crc_bits c a = crc_bits c b \<Longrightarrow> a = b"
proof -
  assume ab: "a < 256" "b < 256" and e: "crc_bits c a = crc_bits c b"
  have x: "c XOR push_bit 24 (word_of_nat a) = c XOR push_bit 24 (word_of_nat b :: 32 word)"
    by (rule crc_shifts_inj [OF e [unfolded crc_bits_def]])
  have "c XOR (c XOR push_bit 24 (word_of_nat a)) = c XOR (c XOR push_bit 24 (word_of_nat b :: 32 word))"
    unfolding x by (rule refl)
  then have p: "push_bit 24 (word_of_nat a) = push_bit 24 (word_of_nat b :: 32 word)"
    by (simp only: xor.assoc [symmetric] xor_self_eq xor.left_neutral)
  have "bit a n = bit b n" for n
  proof (cases "n < 8")
    case True
    then have "bit (push_bit 24 (word_of_nat a) :: 32 word) (n + 24) = bit (word_of_nat a :: 32 word) n"
      "bit (push_bit 24 (word_of_nat b) :: 32 word) (n + 24) = bit (word_of_nat b :: 32 word) n"
      unfolding bit_push_bit_iff by simp_all
    then have "bit (word_of_nat a :: 32 word) n = bit (word_of_nat b :: 32 word) n" unfolding p by simp
    then show ?thesis using True by (simp add: bit_of_nat_iff)
  next
    case False
    have "take_bit 8 a = a" "take_bit 8 b = b" using ab by (simp_all add: take_bit_nat_eq_self)
    then show ?thesis using False by (metis bit_take_bit_iff)
  qed
  then show "a = b" by (rule bit_eqI)
qed

lemma one_byte_changed:
  assumes "is_bytes p" "i < length p" "x < 256" "x \<noteq> p ! i"
  shows "oggCrc (p[i := x]) \<noteq> oggCrc p"
proof
  assume e: "oggCrc (p[i := x]) = oggCrc p"
  have b: "is_bytes (p[i := x])" using assms by (auto simp: is_bytes_def list_all_iff dest: set_update_subset_insert [THEN subsetD])
  have u: "p[i := x] = take i p @ x # drop (Suc i) p" "p = take i p @ p ! i # drop (Suc i) p"
    using assms(2) by (simp_all add: upd_conv_take_nth_drop id_take_nth_drop [symmetric])
  let ?c = "foldl crc_bits 0 (take i p)"
  have "foldl crc_bits 0 (p[i := x]) = foldl crc_bits 0 p"
    using e oggCrc_bits [OF b] oggCrc_bits [OF assms(1)] by (simp add: oggCrc_def)
  then have "foldl crc_bits (crc_bits ?c x) (drop (Suc i) p) = foldl crc_bits (crc_bits ?c (p ! i)) (drop (Suc i) p)"
    by (subst (asm) u(1), subst (asm) (2) u(2)) simp
  then have "crc_bits ?c x = crc_bits ?c (p ! i)" by (rule fold_bits_inj)
  moreover have "p ! i < 256" using assms(1,2) by (simp add: is_bytes_def list_all_length)
  ultimately show False using crc_bits_byte [of x "p ! i" ?c] assms(3,4) by simp
qed

subsection \<open>The reader on a stream of pages\<close>

definition is_page :: "bytes \<Rightarrow> bool" where
  "is_page p \<longleftrightarrow> 27 \<le> length p \<and> take 4 p = OggS \<and> length p = page_length p"

fun read_pages :: "bytes list \<Rightarrow> bytes \<Rightarrow> nat \<Rightarrow> bytes \<times> nat \<times> bytes list" where
  "read_pages [] pending count = (pending, count, [])"
| "read_pages (p # ps) pending count =
     (let (pd, c, out) = take_segments (page_table p) (drop (27 + p ! 26) p) pending count;
          (pd2, c2, out2) = read_pages ps pd c in (pd2, c2, out @ out2))"

lemma read_pages_append:
  "read_pages (ps @ qs) pending count =
     (let (pd, c, out) = read_pages ps pending count; (pd2, c2, out2) = read_pages qs pd c in (pd2, c2, out @ out2))"
  by (induction ps arbitrary: pending count) (auto simp: Let_def split: prod.splits)

lemma index_at_start: "take 4 b = OggS \<Longrightarrow> indexOf_OggS b = Some 0"
  by (cases b) (simp_all add: OggS_def)

lemma take_prefix: "n \<le> length a \<Longrightarrow> take n (a @ b) = take n a"
  by simp

lemma ogg_partial:
  assumes "is_page p" "b @ t = p" "t \<noteq> []"
  shows "drain_pages b pending count = (\<lparr>og_buffer = b, og_pending = pending, og_count = count\<rparr>, [])"
proof (cases "length b < 27")
  case True
  then show ?thesis by (subst drain_pages.simps) simp
next
  case False
  have m: "take 4 b = OggS" "b ! 26 = p ! 26"
    using assms False by (auto simp: is_page_def nth_append)
  show ?thesis
  proof (cases "length b < 27 + b ! 26")
    case True
    then show ?thesis using False index_at_start [OF m(1)] by (subst drain_pages.simps) simp
  next
    case f: False
    then have "page_table b = page_table p" using m(2) assms(2) by (auto simp: page_table_def)
    then have "page_length b = length p" using m(2) assms(1) by (simp add: page_length_def is_page_def)
    then have "length b < page_length b" using assms(2,3) by auto
    then show ?thesis using False index_at_start [OF m(1)] by (subst drain_pages.simps) simp
  qed
qed

lemma drain_page:
  assumes "is_page p"
  shows "drain_pages (p @ rest) pending count =
    (let (pd, c, out) = take_segments (page_table p) (drop (27 + p ! 26) p) pending count;
         (r, out2) = drain_pages rest pd c in (r, out @ out2))"
proof -
  have l: "27 \<le> length p" "27 + p ! 26 \<le> length p" using assms by (auto simp: is_page_def page_length_def)
  have m: "take 4 (p @ rest) = OggS" "(p @ rest) ! 26 = p ! 26" "page_table (p @ rest) = page_table p"
    using assms l by (auto simp: is_page_def nth_append page_table_def)
  then have n: "page_length (p @ rest) = length p" using assms by (simp add: page_length_def is_page_def)
  show ?thesis
    by (subst drain_pages.simps) (use l m n index_at_start [OF m(1)] in \<open>simp add: Let_def\<close>)
qed

lemma ogg_stream:
  assumes "list_all is_page ps" "b @ rest = concat ps"
  shows "\<exists>k t. t @ rest = concat (drop k ps) \<and> (drop k ps = [] \<and> t = [] \<or> drop k ps \<noteq> [] \<and> length t < length (hd (drop k ps)))
    \<and> drain_pages b pending count =
        (let (pd, c, out) = read_pages (take k ps) pending count
         in (\<lparr>og_buffer = t, og_pending = pd, og_count = c\<rparr>, out))"
  using assms
proof (induction ps arbitrary: b pending count)
  case Nil
  then show ?case by (intro exI [of _ 0] exI [of _ "[]"]) (simp add: drain_pages.simps [of "[]"])
next
  case (Cons p ps)
  have p: "is_page p" "list_all is_page ps" using Cons.prems(1) by simp_all
  show ?case
  proof (cases "length b < length p")
    case True
    then obtain t where t: "b @ t = p" "t \<noteq> []"
      using Cons.prems(2) by (auto simp: append_eq_append_conv2)
    show ?thesis
      by (intro exI [of _ 0] exI [of _ b]) (use Cons.prems(2) True ogg_partial [OF p(1) t] in simp)
  next
    case False
    then obtain b' where b: "b = p @ b'" using Cons.prems(2) by (auto simp: append_eq_append_conv2)
    have r: "b' @ rest = concat ps" using Cons.prems(2) by (simp add: b)
    obtain pd c out where s: "take_segments (page_table p) (drop (27 + p ! 26) p) pending count = (pd, c, out)"
      by (metis prod_cases3)
    obtain k t where k: "t @ rest = concat (drop k ps)"
      "drop k ps = [] \<and> t = [] \<or> drop k ps \<noteq> [] \<and> length t < length (hd (drop k ps))"
      "drain_pages b' pd c = (let (pd, c, out) = read_pages (take k ps) pd c
         in (\<lparr>og_buffer = t, og_pending = pd, og_count = c\<rparr>, out))"
      using Cons.IH [OF p(2) r, of pd c] by blast
    show ?thesis
      by (intro exI [of _ "Suc k"] exI [of _ t])
        (use k in \<open>simp add: b drain_page [OF p(1)] s Let_def split: prod.splits\<close>)
  qed
qed

lemma feed_stream:
  assumes "list_all is_page ps" "t @ concat chunks = concat ps"
    and "ps = [] \<and> t = [] \<or> ps \<noteq> [] \<and> length t < length (hd ps)"
  shows "feed_all ogg_push \<lparr>og_buffer = t, og_pending = pending, og_count = count\<rparr> chunks =
    (let (pd, c, out) = read_pages ps pending count in (\<lparr>og_buffer = [], og_pending = pd, og_count = c\<rparr>, out))"
  using assms
proof (induction chunks arbitrary: t ps pending count)
  case Nil
  then have "ps = []" by (cases ps) auto
  then show ?case using Nil by simp
next
  case (Cons chunk chunks)
  have e: "(t @ chunk) @ concat chunks = concat ps" using Cons.prems(2) by simp
  obtain k u where k: "u @ concat chunks = concat (drop k ps)"
    "drop k ps = [] \<and> u = [] \<or> drop k ps \<noteq> [] \<and> length u < length (hd (drop k ps))"
    "drain_pages (t @ chunk) pending count = (let (pd, c, out) = read_pages (take k ps) pending count
       in (\<lparr>og_buffer = u, og_pending = pd, og_count = c\<rparr>, out))"
    using ogg_stream [OF Cons.prems(1) e] by blast
  obtain pd c out where r: "read_pages (take k ps) pending count = (pd, c, out)" by (metis prod_cases3)
  have "list_all is_page (drop k ps)" using Cons.prems(1) by (auto simp: list_all_iff dest: in_set_dropD)
  from Cons.IH [OF this k(1,2), of pd c] show ?case
    using read_pages_append [of "take k ps" "drop k ps" pending count]
    by (simp add: ogg_push_def k(3) r Let_def split: prod.splits)
qed

subsection \<open>The pages of the writer\<close>

lemma sum_lacing: "sum_list (lacing d) = length d"
proof -
  have "sum_list (replicate n 255) = 255 * n" for n :: nat by (induction n) simp_all
  then show ?thesis by (simp add: lacing_def)
qed

lemma length_lacing: "length d < 65025 \<Longrightarrow> length (lacing d) < 256"
proof -
  assume "length d < 65025"
  then have "length d div 255 < 255" by (simp add: less_mult_imp_div_less)
  then show ?thesis by (simp add: lacing_def)
qed

lemma page_with_parts:
  assumes "length d < 65025" "length crc = 4"
  shows "is_page (page_with w d flags g crc)" "page_table (page_with w d flags g crc) = lacing d"
    "drop (27 + page_with w d flags g crc ! 26) (page_with w d flags g crc) = d"
proof -
  define h where "h = OggS @ [0, flags] @ write_le 8 g @ write_le 4 (ow_serial w) @ write_le 4 (ow_seq w) @ crc"
  have h: "length h = 26" using assms(2) by (simp add: OggS_def h_def)
  have p: "page_with w d flags g crc = h @ length (lacing d) # lacing d @ d"
    using length_lacing [OF assms(1)] by (simp add: page_with_def h_def)
  have n: "page_with w d flags g crc ! 26 = length (lacing d)" unfolding p by (simp add: h nth_append)
  show t: "page_table (page_with w d flags g crc) = lacing d"
    unfolding page_table_def n unfolding p by (simp add: h)
  show "drop (27 + page_with w d flags g crc ! 26) (page_with w d flags g crc) = d"
    unfolding n unfolding p by (simp add: h)
  have "length (page_with w d flags g crc) = 27 + length (lacing d) + length d"
    unfolding p by (simp add: h)
  moreover have "take 4 (page_with w d flags g crc) = OggS" by (simp add: page_with_def OggS_def)
  ultimately show "is_page (page_with w d flags g crc)"
    unfolding is_page_def page_length_def t n using sum_lacing [of d] by simp
qed

lemma take_lacing:
  "take_segments (lacing d) d pending count =
     ([], Suc count, if Suc count > 2 \<and> pending @ d \<noteq> [] then [pending @ d] else [])"
proof -
  have "take_segments (replicate n 255 @ [length d - 255 * n]) d pending count =
      ([], Suc count, if Suc count > 2 \<and> pending @ d \<noteq> [] then [pending @ d] else [])"
    if "255 * n \<le> length d" "length d - 255 * n < 255" for n and d :: bytes
    using that
  proof (induction n arbitrary: d pending)
    case (Suc n)
    then show ?case using Suc.IH [of "drop 255 d" "pending @ take 255 d"] by simp
  qed simp
  from this [of "length d div 255" d] show ?thesis
    by (simp add: lacing_def minus_mult_div_eq_mod)
qed

lemma read_page:
  assumes "length d < 65025" "page d flags g w = (w2, pg)"
  shows "is_page pg" "read_pages (pg # ps) [] count = (let (pd, c, out) = read_pages ps [] (Suc count)
    in (pd, c, (if Suc count > 2 \<and> d \<noteq> [] then [d] else []) @ out))"
proof -
  let ?crc = "write_le 4 (unat (oggCrc (page_with w d flags g [0, 0, 0, 0])))"
  have pg: "pg = page_with w d flags g ?crc" using assms(2) by (simp add: page_def)
  note parts = page_with_parts [OF assms(1), of ?crc w flags g, folded pg]
  show "is_page pg" using parts by simp
  show "read_pages (pg # ps) [] count = (let (pd, c, out) = read_pages ps [] (Suc count)
    in (pd, c, (if Suc count > 2 \<and> d \<noteq> [] then [d] else []) @ out))"
    using parts(2,3) take_lacing [of d "[]" count] by (simp add: Let_def split: prod.splits)
qed

lemma read_frames:
  assumes "\<forall>d \<in> set ds. d \<noteq> [] \<and> length d < 65025" "frames ds w = (w2, s)" "2 \<le> count"
  shows "\<exists>ps. s = concat ps \<and> list_all is_page ps \<and> read_pages ps [] count = ([], count + length ds, ds)"
  using assms
proof (induction ds arbitrary: w s count)
  case Nil
  then show ?case by (intro exI [of _ "[]"]) simp
next
  case (Cons d ds)
  obtain w1 pg where f: "frame d w = (w1, pg)" by force
  obtain q where q: "frames ds w1 = (w2, q)" using Cons.prems(2) by (cases "frames ds w1") (simp add: f)
  have s: "s = pg @ q" using Cons.prems(2) by (simp add: f q)
  obtain ps where ps: "q = concat ps" "list_all is_page ps" "read_pages ps [] (Suc count) = ([], Suc count + length ds, ds)"
    using Cons.IH [OF _ q, of "Suc count"] Cons.prems(1,3) by auto
  have d: "length d < 65025" "d \<noteq> []" using Cons.prems(1) by simp_all
  have "page d 0 (ow_granule w + frameSize w * ow_framesPerPacket w)
      (w\<lparr>ow_granule := ow_granule w + frameSize w * ow_framesPerPacket w\<rparr>) = (w1, pg)"
    using f by (simp add: frame_def Let_def)
  note r = read_page [OF d(1) this]
  show ?case
    by (intro exI [of _ "pg # ps"]) (use r(1) r(2) [of ps count] ps s d Cons.prems(3) in simp)
qed

lemma read_headers:
  assumes "headers w = (w1, h)"
  shows "\<exists>p1 p2. h = p1 @ p2 \<and> is_page p1 \<and> is_page p2
    \<and> (\<forall>ps. read_pages (p1 # p2 # ps) [] 0 = read_pages ps [] 2)"
proof -
  obtain w2 p1 where p1: "page (speex_header w) 2 0 w = (w2, p1)" by force
  obtain w3 p2 where p2: "page speex_comment 0 0 w2 = (w3, p2)" by force
  have l: "length (speex_header w) < 65025" "length speex_comment < 65025"
    by (simp_all add: speex_header_def speex_comment_def)
  note r = read_page [OF l(1) p1] read_page [OF l(2) p2]
  have "h = p1 @ p2" using assms p1 p2 by (simp add: headers_def)
  then show ?thesis
    using r by (intro exI [of _ p1] exI [of _ p2]) (simp del: read_pages.simps add: numeral_2_eq_2 Let_def split: prod.splits)
qed

text \<open>
  C33: what was written is read. For every list of non-empty packets of less than 65025 bytes, the
  pages the writer makes (the two headers, then a page for each packet) are read back as exactly
  these packets, in order, whatever the chunks in which the stream arrives, and nothing is left.
\<close>

theorem ogg_roundtrip:
  assumes "headers (new_writer sampleRate framesPerPacket serial) = (w1, h)"
    and "frames packets w1 = (w2, s)" and "\<forall>d \<in> set packets. d \<noteq> [] \<and> length d < 65025"
    and "concat chunks = h @ s"
  shows "feed_all ogg_push new_reader chunks =
    (\<lparr>og_buffer = [], og_pending = [], og_count = 2 + length packets\<rparr>, packets)"
proof -
  obtain p1 p2 where h: "h = p1 @ p2" "is_page p1" "is_page p2" "\<And>ps. read_pages (p1 # p2 # ps) [] 0 = read_pages ps [] 2"
    using read_headers [OF assms(1)] by blast
  obtain ps where ps: "s = concat ps" "list_all is_page ps" "read_pages ps [] 2 = ([], 2 + length packets, packets)"
    using read_frames [OF assms(3,2), of 2] by auto
  have "p1 \<noteq> []" using h(2) by (auto simp: is_page_def)
  then have "feed_all ogg_push \<lparr>og_buffer = [], og_pending = [], og_count = 0\<rparr> chunks =
      (let (pd, c, out) = read_pages (p1 # p2 # ps) [] 0 in (\<lparr>og_buffer = [], og_pending = pd, og_count = c\<rparr>, out))"
    by (intro feed_stream) (use h ps assms(4) in simp_all)
  then show ?thesis unfolding h(4) ps(3) by (simp add: new_reader_def)
qed

theorem ogg_roundtrip_witness:
  "snd (feed_all ogg_push new_reader
      [take 30 (snd (headers (new_writer 16000 1 7)) @ snd (frames [[1, 2], [3]] (fst (headers (new_writer 16000 1 7))))),
       drop 30 (snd (headers (new_writer 16000 1 7)) @ snd (frames [[1, 2], [3]] (fst (headers (new_writer 16000 1 7)))))])
    = [[1, 2], [3]]"
proof -
  obtain w1 h where h: "headers (new_writer 16000 1 7) = (w1, h)" by force
  obtain w2 s where s: "frames [[1, 2], [3]] w1 = (w2, s)" by force
  show ?thesis
    unfolding h fst_conv snd_conv s
    using ogg_roundtrip [OF h s, of "[take 30 (h @ s), drop 30 (h @ s)]"] by (simp del: take_append drop_append)
qed

subsection \<open>The checksum of a page\<close>

definition blank_crc :: "bytes \<Rightarrow> bytes" where
  "blank_crc pg = take 22 pg @ [0, 0, 0, 0] @ drop 26 pg"

definition page_checks :: "bytes \<Rightarrow> bool" where
  "page_checks pg \<longleftrightarrow> take 4 (drop 22 pg) = write_le 4 (unat (oggCrc (blank_crc pg)))"

lemma is_bytes_append [simp]: "is_bytes (a @ b) \<longleftrightarrow> is_bytes a \<and> is_bytes b"
  by (simp add: is_bytes_def)

lemma write_le_is_bytes: "is_bytes (write_le k n)"
  by (auto simp: is_bytes_def list_all_iff dest: write_le_bytes)

lemma lacing_is_bytes: "is_bytes (lacing d)"
  by (auto simp: is_bytes_def list_all_iff lacing_def)

lemma page_shape:
  assumes "page d flags g w = (w2, pg)" "is_bytes d" "flags < 256"
  shows "is_bytes pg" "27 \<le> length pg" "page_checks pg"
proof -
  let ?z = "page_with w d flags g [0, 0, 0, 0]"
  let ?crc = "write_le 4 (unat (oggCrc ?z))"
  define h where "h = OggS @ [0, flags] @ write_le 8 g @ write_le 4 (ow_serial w) @ write_le 4 (ow_seq w)"
  define r where "r = [length (lacing d) mod 256] @ lacing d @ d"
  have h: "length h = 22" by (simp add: h_def OggS_def)
  have pg: "pg = h @ ?crc @ r" using assms(1) by (simp add: page_def page_with_def h_def r_def)
  have "is_bytes h" "is_bytes r"
    using assms(2,3) write_le_is_bytes lacing_is_bytes [of d] by (simp_all add: h_def r_def OggS_def is_bytes_def)
  then show "is_bytes pg" using write_le_is_bytes by (simp add: pg)
  show "27 \<le> length pg" by (simp add: pg h r_def)
  have "blank_crc pg = ?z" by (simp add: blank_crc_def pg h page_with_def h_def [symmetric] r_def [symmetric])
      (simp add: h_def r_def)
  then show "page_checks pg" by (simp add: page_checks_def) (simp add: pg h)
qed

lemma write_le_4_inj: "write_le 4 (unat a) = write_le 4 (unat b) \<Longrightarrow> a = (b :: 32 word)"
proof -
  have u: "unat c < 256 ^ 4" for c :: "32 word" using unsigned_less [of c] by simp
  assume "write_le 4 (unat a) = write_le 4 (unat b)"
  then have "unat a = unat b" using read_write_le [OF u] by metis
  then show "a = b" by (rule unsigned_word_eqI)
qed

lemma corrupted:
  assumes "is_bytes pg" "27 \<le> length pg" "page_checks pg" "i < length pg" "x < 256" "x \<noteq> pg ! i"
  shows "\<not> page_checks (pg[i := x])"
proof (cases "22 \<le> i \<and> i < 26")
  case True
  then have "blank_crc (pg[i := x]) = blank_crc pg" by (simp add: blank_crc_def)
  moreover have "take 4 (drop 22 (pg[i := x])) ! (i - 22) = x" "take 4 (drop 22 pg) ! (i - 22) = pg ! i"
    using True assms(2,4) by auto
  ultimately show ?thesis using assms(3,6) by (auto simp: page_checks_def)
next
  case False
  let ?z = "blank_crc pg"
  define a m r where "a = take 22 pg" and "m = take 4 (drop 22 pg)" and "r = drop 26 pg"
  have l: "length a = 22" "length m = 4" using assms(2) by (simp_all add: a_def m_def)
  have "drop 22 pg = m @ r" unfolding m_def r_def using append_take_drop_id [of 4 "drop 22 pg"] by simp
  then have pg: "pg = a @ m @ r" unfolding a_def using append_take_drop_id [of 22 pg] by simp
  have b: "blank_crc (u @ m @ v) = u @ [0, 0, 0, 0] @ v" "take 4 (drop 22 (u @ m @ v)) = m" if "length u = 22" for u v
    using that l(2) by (simp_all add: blank_crc_def)
  have z: "is_bytes ?z" "length ?z = length pg"
    using assms(1) l unfolding pg b [OF l(1)] by (simp_all add: is_bytes_def)
  have "blank_crc (pg[i := x]) = ?z[i := x] \<and> ?z ! i = pg ! i \<and> take 4 (drop 22 (pg[i := x])) = take 4 (drop 22 pg)"
  proof (cases "i < 22")
    case True
    then have "pg[i := x] = a[i := x] @ m @ r" by (simp add: pg l list_update_append)
    then show ?thesis using True b [of "a[i := x]" r] b [OF l(1), of r] l by (simp add: pg nth_append list_update_append)
  next
    case f: False
    then obtain j where j: "i = 26 + j" using False by (metis le_Suc_ex not_less)
    have "pg[i := x] = a @ m @ r[j := x]" by (simp add: pg l list_update_append j)
    then show ?thesis using b [OF l(1), of "r[j := x]"] b [OF l(1), of r] l
      by (simp add: pg nth_append list_update_append j)
  qed
  moreover have "oggCrc (?z[i := x]) \<noteq> oggCrc ?z"
    using one_byte_changed [OF z(1), of i x] z(2) assms(4-6) calculation by simp
  ultimately show ?thesis using assms(3) write_le_4_inj by (metis page_checks_def)
qed

text \<open>
  C34: the checksum of a page. The table-driven loop computes the bit by bit remainder for every
  byte string; the page that the writer makes carries the checksum of the page with an empty
  checksum field; and when any one byte of the page is changed, the checksum is wrong.
\<close>

theorem page_checksum:
  assumes "page data flags granule w = (w2, pg)" and "is_bytes data" and "flags < 256"
  shows "(is_bytes p \<longrightarrow> oggCrc p = foldl crc_bits 0 p) \<and> page_checks pg
    \<and> (i < length pg \<and> x < 256 \<and> x \<noteq> pg ! i \<longrightarrow> \<not> page_checks (pg[i := x]))"
  using page_shape [OF assms] corrupted oggCrc_bits by (auto simp: oggCrc_def)

theorem page_checksum_witness:
  "page_checks (snd (page [5, 6] 0 640 (new_writer 32000 3 9)))"
  using page_checksum [OF surjective_pairing, where data = "[5, 6]" and flags = 0 and granule = 640
      and w = "new_writer 32000 3 9"] by (simp add: is_bytes_def)

end
