(* ===== verification/Ts2Proxy.thy ===== *)
theory Ts2Proxy
  imports OggSpeex JNumbers Prelude
begin

section \<open>The proxy of one voice server (proxy/ts2-voice-proxy.js)\<close>

text \<open>
  Voice traffic passes through: each local UDP source gets a socket of its own to the server, a
  TCP connection a connection of its own. Packets of the client are shown to the router before
  they are sent; voice packets of the server are also fed to a decoder, as Ogg pages. Sockets and
  decoders are numbers that the event supplies (each new one a fresh number); \<open>serial\<close> is the random
  serial number of a new Ogg stream. Diagnostics and traces are left out.
\<close>

definition CLASS_SVOICE :: nat where "CLASS_SVOICE = 48880"
definition CLASS_TXVOICE :: nat where "CLASS_TXVOICE = 48882"
definition CLASS_RXVOICE :: nat where "CLASS_RXVOICE = 48883"
definition SUBTYPE_VOICE :: nat where "SUBTYPE_VOICE = 3072"
definition RX_HEADER_BYTES :: nat where "RX_HEADER_BYTES = 22"

type_synonym target = "jstr \<times> nat"

record ts2_config =
  tc_port :: nat
  tc_voiceDecode :: bool
  tc_stripBytes :: nat
  tc_sampleRate :: nat
  tc_framesPerPacket :: nat
  tc_accept :: "jstr \<Rightarrow> bool"

record ts2 =
  tp_server :: jstr
  tp_ip :: "jstr option"
  tp_dns :: nat
  tp_udp :: "(jstr, nat \<times> target) jmap"
  tp_tcp :: "nat list"
  tp_decoder :: "(nat \<times> ogg_writer) option"

datatype ts2_out = ResolveServer nat jstr | ToServer nat bytes target | ToClient jstr bytes
  | ClientPacket bytes jstr nat target | ClientClose jstr jstr | CloseUdp nat
  | SpawnDecoder nat | DecoderWrite nat bytes | DecoderEnd nat | PcmOut bytes
  | TcpConnect nat target | TcpRefused nat | TcpToServer nat bytes | TcpToClient nat bytes | TcpDestroy nat

type_synonym ts2_handler = "ts2 \<Rightarrow> ts2 \<times> ts2_out list"

definition u16 :: "bytes \<Rightarrow> nat \<Rightarrow> nat" where
  "u16 b i = read_le (take 2 (drop i b))"

subsection \<open>The server\<close>

definition resolveServer :: ts2_handler where
  "resolveServer s = (s\<lparr>tp_dns := Suc (tp_dns s)\<rparr>, [ResolveServer (Suc (tp_dns s)) (tp_server s)])"

definition dns_answer :: "nat \<Rightarrow> jstr option \<Rightarrow> ts2_handler" where
  "dns_answer generation ip s =
     (if generation \<noteq> tp_dns s then (s, [])
      else (case ip of Some a \<Rightarrow> (s\<lparr>tp_ip := Some a\<rparr>, []) | None \<Rightarrow> (s, [])))"

definition setServer :: "jstr \<Rightarrow> ts2_handler" where
  "setServer server s =
     (let t = trim server in
      if t = [] then (s, [])
      else resolveServer (if t \<noteq> tp_server s then s\<lparr>tp_server := t, tp_ip := None\<rparr> else s))"

definition getTarget :: "ts2_config \<Rightarrow> ts2 \<Rightarrow> target" where
  "getTarget C s = ((case tp_ip s of Some a \<Rightarrow> a | None \<Rightarrow> tp_server s), tc_port C)"

definition createTs2VoiceProxy :: "jstr \<Rightarrow> ts2 \<times> ts2_out list" where
  "createTs2VoiceProxy initialServer = resolveServer
     \<lparr>tp_server = initialServer, tp_ip = None, tp_dns = 0, tp_udp = [], tp_tcp = [], tp_decoder = None\<rparr>"

subsection \<open>The decoder\<close>

definition startVoiceDecoder :: "ts2_config \<Rightarrow> nat \<Rightarrow> nat \<Rightarrow> ts2_handler" where
  "startVoiceDecoder C d serial s =
     (if \<not> tc_voiceDecode C \<or> tp_decoder s \<noteq> None then (s, [])
      else (let (w, h) = headers (new_writer (tc_sampleRate C) (tc_framesPerPacket C) serial)
            in (s\<lparr>tp_decoder := Some (d, w)\<rparr>, [SpawnDecoder d, DecoderWrite d h])))"

definition stopVoiceDecoder :: ts2_handler where
  "stopVoiceDecoder s =
     (s\<lparr>tp_decoder := None\<rparr>, case tp_decoder s of Some (d, w) \<Rightarrow> [DecoderEnd d] | None \<Rightarrow> [])"

definition decodeIncomingVoice :: "ts2_config \<Rightarrow> nat \<Rightarrow> nat \<Rightarrow> bytes \<Rightarrow> ts2_handler" where
  "decodeIncomingVoice C d serial payload s =
     (if \<not> tc_voiceDecode C then (s, [])
      else andThen (startVoiceDecoder C d serial)
        (\<lambda>s. case tp_decoder s of
            None \<Rightarrow> (s, [])
          | Some (i, w) \<Rightarrow>
              (let speex = drop (tc_stripBytes C) payload in
               if speex = [] then (s, [])
               else (let (w1, p) = frame speex w in (s\<lparr>tp_decoder := Some (i, w1)\<rparr>, [DecoderWrite i p])))) s)"

definition decoder_data :: "nat \<Rightarrow> bytes \<Rightarrow> ts2_handler" where
  "decoder_data d pcm s = (s, case tp_decoder s of Some (i, w) \<Rightarrow> if i = d then [PcmOut pcm] else [] | None \<Rightarrow> [])"

definition decoder_exit :: "nat \<Rightarrow> ts2_handler" where
  "decoder_exit d s =
     ((case tp_decoder s of Some (i, w) \<Rightarrow> if i = d then s\<lparr>tp_decoder := None\<rparr> else s | None \<Rightarrow> s), [])"

subsection \<open>UDP\<close>

definition cleanupUdpClient :: "jstr \<Rightarrow> nat \<Rightarrow> jstr \<Rightarrow> ts2_handler" where
  "cleanupUdpClient key sock reason s =
     (case mget (tp_udp s) key of
        None \<Rightarrow> (s, [])
      | Some (i, t) \<Rightarrow> if i \<noteq> sock then (s, []) else (s\<lparr>tp_udp := mdel (tp_udp s) key\<rparr>, [ClientClose key reason]))"

definition resetUdpClients :: "jstr \<Rightarrow> ts2_handler" where
  "resetUdpClients reason s =
     each (\<lambda>(key, sock, t). andThen (cleanupUdpClient key sock reason) (\<lambda>s. (s, [CloseUdp sock]))) (tp_udp s) s"

definition udp_key :: "jstr \<Rightarrow> nat \<Rightarrow> jstr" where
  "udp_key address port = address @ [58] @ nat_digits port"

definition udp_message :: "ts2_config \<Rightarrow> jstr \<Rightarrow> nat \<Rightarrow> bytes \<Rightarrow> nat \<Rightarrow> ts2_handler" where
  "udp_message C address port msg new_sock s =
     (if \<not> tc_accept C address then (s, [])
      else (let key = udp_key address port;
                s1 = (if mhas (tp_udp s) key then s
                      else s\<lparr>tp_udp := mput (tp_udp s) key (new_sock, getTarget C s)\<rparr>)
            in case mget (tp_udp s1) key of
                 None \<Rightarrow> (s1, [])
               | Some (sock, t) \<Rightarrow> (s1, [ClientPacket msg key sock t, ToServer sock msg t])))"

definition server_reply :: "ts2_config \<Rightarrow> jstr \<Rightarrow> nat \<Rightarrow> bytes \<Rightarrow> bool \<Rightarrow> nat \<Rightarrow> nat \<Rightarrow> ts2_handler" where
  "server_reply C key sock reply shouldDecode d serial s =
     (case mget (tp_udp s) key of
        None \<Rightarrow> (s, [])
      | Some (i, t) \<Rightarrow>
          if i \<noteq> sock then (s, [])
          else andThen (\<lambda>s. (s, [ToClient key reply]))
            (if \<not> shouldDecode then (\<lambda>s. (s, []))
             else (let cls = (if length reply \<ge> 2 then u16 reply 0 else 0);
                       subtype = (if length reply \<ge> 4 then u16 reply 2 else 0)
                   in if cls = CLASS_RXVOICE \<and> subtype = SUBTYPE_VOICE \<and> length reply > RX_HEADER_BYTES
                      then decodeIncomingVoice C d serial (drop RX_HEADER_BYTES reply)
                      else if cls = CLASS_SVOICE \<and> subtype = SUBTYPE_VOICE \<and> length reply > 20
                      then decodeIncomingVoice C d serial (drop 20 reply)
                      else (\<lambda>s. (s, [])))) s)"

definition udp_error :: "jstr \<Rightarrow> nat \<Rightarrow> ts2_handler" where
  "udp_error key sock = andThen (cleanupUdpClient key sock (js ''TS2 UDP socket error'')) (\<lambda>s. (s, [CloseUdp sock]))"

definition udp_closed :: "jstr \<Rightarrow> nat \<Rightarrow> ts2_handler" where
  "udp_closed key sock = cleanupUdpClient key sock (js ''TS2 UDP socket closed'')"

subsection \<open>TCP\<close>

text \<open>A destroyed side emits \<open>close\<close>, which destroys the other; a pair is one number.\<close>

definition tcp_open :: "ts2_config \<Rightarrow> nat \<Rightarrow> jstr \<Rightarrow> ts2_handler" where
  "tcp_open C i address s =
     (if \<not> tc_accept C address then (s, [TcpRefused i])
      else (s\<lparr>tp_tcp := tp_tcp s @ [i]\<rparr>, [TcpConnect i (getTarget C s)]))"

definition tcp_closed :: "nat \<Rightarrow> ts2_handler" where
  "tcp_closed i s = (s\<lparr>tp_tcp := filter (\<lambda>j. j \<noteq> i) (tp_tcp s)\<rparr>, [TcpDestroy i])"

definition tcp_data :: "bool \<Rightarrow> nat \<Rightarrow> bytes \<Rightarrow> ts2_handler" where
  "tcp_data from_client i b s =
     (s, if i \<in> set (tp_tcp s) then [if from_client then TcpToServer i b else TcpToClient i b] else [])"

definition close_proxy :: "jstr \<Rightarrow> ts2_handler" where
  "close_proxy reason =
     andThen (resetUdpClients reason) (andThen stopVoiceDecoder (\<lambda>s. (s, map TcpDestroy (tp_tcp s))))"

end
