(* ===== verification/WebTx.thy ===== *)
theory WebTx
  imports OggSpeex Ts2Proxy
begin

section \<open>Transmitting from the browser (proxy/web-tx.js)\<close>

text \<open>
  The agent learns the session of the flight client from its UDP packets, lets an encoder turn the
  microphone of the browser into Speex packets, and sends them as packets of that session over
  the same socket, one for each tick of a timer. Sockets of browsers, encoders and UDP sockets are
  numbers; a transmission has the number of its encoder, fresh for each \<open>start\<close>. Messages to a
  browser are sent if its socket is still open. Statistics, logs and the arguments of the encoder
  are left out.
\<close>

definition CLASS_SESSION :: nat where "CLASS_SESSION = 48880"
definition CLASS_ACK :: nat where "CLASS_ACK = 48881"
definition CLASS_CONTROL :: nat where "CLASS_CONTROL = 48884"
definition TS2_PAYLOAD_SIZE :: nat where "TS2_PAYLOAD_SIZE = 309"
definition DERIVED_INITIAL_SEQ :: nat where "DERIVED_INITIAL_SEQ = 4294967295"

definition speexLimit :: nat where
  "speexLimit = TS2_PAYLOAD_SIZE - 1"

record webtx_config =
  wx_enabled :: bool
  wx_fixed :: bool
  wx_sampleRate :: nat
  wx_framesPerPacket :: nat

record tx_session =
  ts_clientKey :: jstr
  ts_serverSock :: nat
  ts_header :: bytes
  ts_seq :: nat

record tx_state =
  tx_id :: nat
  tx_com :: nat
  tx_monitorOnly :: bool
  tx_monitor :: "ogg_writer option"
  tx_queue :: "bytes list"
  tx_timer :: bool
  tx_reader :: ogg_reader

record webtx =
  wt_session :: "tx_session option"
  wt_by_socket :: "(nat, tx_state) jmap"

datatype webtx_out = Ready | NotReady | UdpSend nat bytes "jstr \<times> nat" | Lamp nat bool
  | WsError nat jstr | WsVoiceTx nat bool nat bool jstr | SpawnEncoder nat | EncoderWrite nat bytes
  | EncoderKill nat | SpawnMonitor nat bytes | MonitorWrite nat bytes | MonitorClose nat
  | WsPcm nat bytes | PumpTimer nat nat

type_synonym webtx_handler = "webtx \<Rightarrow> webtx \<times> webtx_out list"

definition createWebTx :: webtx where
  "createWebTx = \<lparr>wt_session = None, wt_by_socket = []\<rparr>"

subsection \<open>Stopping\<close>

definition stop :: "nat \<Rightarrow> jstr \<Rightarrow> webtx_handler" where
  "stop ws reason s =
     (case mget (wt_by_socket s) ws of
        None \<Rightarrow> (s, [])
      | Some tx \<Rightarrow>
          (s\<lparr>wt_by_socket := mdel (wt_by_socket s) ws\<rparr>,
           (if \<not> tx_monitorOnly tx then [Lamp (tx_com tx) False] else [])
           @ (if tx_monitor tx \<noteq> None then [MonitorClose (tx_id tx)] else [])
           @ [EncoderKill (tx_id tx), WsVoiceTx ws False (tx_com tx) (tx_monitorOnly tx) reason]))"

definition stop_transmissions :: "jstr \<Rightarrow> webtx_handler" where
  "stop_transmissions reason s =
     each (\<lambda>(ws, tx). if \<not> tx_monitorOnly tx then stop ws reason else (\<lambda>s. (s, []))) (wt_by_socket s) s"

subsection \<open>The session of the flight client\<close>

definition replaceTxSession :: "tx_session \<Rightarrow> jstr \<Rightarrow> webtx_handler" where
  "replaceTxSession nextSession reason s =
     (let changed = (case wt_session s of None \<Rightarrow> False
            | Some p \<Rightarrow> ts_clientKey p \<noteq> ts_clientKey nextSession \<or> ts_header p \<noteq> ts_header nextSession)
      in andThen (if changed then stop_transmissions reason else (\<lambda>s. (s, [])))
           (\<lambda>s1. (s1\<lparr>wt_session := Some nextSession\<rparr>, if wt_session s = None then [Ready] else [])) s)"

definition isTxSeedSetupPacket :: "bytes \<Rightarrow> bool" where
  "isTxSeedSetupPacket msg =
     (let cls = u16 msg 0; subtype = u16 msg 2 in
      (cls = CLASS_SESSION \<and> subtype = 5) \<or> (cls = CLASS_ACK \<and> subtype = 0) \<or> (cls = CLASS_CONTROL \<and> subtype = 1))"

definition derived_header :: "bytes \<Rightarrow> bytes" where
  "derived_header sessionBytes = write_le 2 CLASS_TXVOICE @ write_le 2 SUBTYPE_VOICE @ sessionBytes"

definition deriveTxSessionFromSetup :: "bytes \<Rightarrow> jstr \<Rightarrow> nat \<Rightarrow> webtx_handler" where
  "deriveTxSessionFromSetup msg clientKey serverSock s =
     (if \<not> isTxSeedSetupPacket msg then (s, [])
      else (let sessionBytes = take 8 (drop 4 msg) in
        if list_all (\<lambda>b. b = 0) sessionBytes then (s, [])
        else (let header = derived_header sessionBytes in
          if (case wt_session s of Some a \<Rightarrow> ts_clientKey a = clientKey \<and> ts_header a = header | None \<Rightarrow> False)
          then (s, [])
          else replaceTxSession \<lparr>ts_clientKey = clientKey, ts_serverSock = serverSock, ts_header = header,
                 ts_seq = DERIVED_INITIAL_SEQ\<rparr> (js ''TS2 setup session changed'') s)))"

definition cacheTxSession :: "bytes \<Rightarrow> jstr \<Rightarrow> nat \<Rightarrow> webtx_handler" where
  "cacheTxSession msg clientKey serverSock s =
     (if length msg < 16 then (s, [])
      else if u16 msg 0 \<noteq> CLASS_TXVOICE then deriveTxSessionFromSetup msg clientKey serverSock s
      else replaceTxSession \<lparr>ts_clientKey = clientKey, ts_serverSock = serverSock, ts_header = take 12 msg,
             ts_seq = read_le (take 4 (drop 12 msg))\<rparr> (js ''native TS2 TX session changed'') s)"

definition invalidateTxSession :: "jstr \<Rightarrow> jstr \<Rightarrow> webtx_handler" where
  "invalidateTxSession reason clientKey s =
     (if clientKey \<noteq> [] \<and> (case wt_session s of Some a \<Rightarrow> ts_clientKey a \<noteq> clientKey | None \<Rightarrow> True) then (s, [])
      else andThen (stop_transmissions reason)
             (\<lambda>s1. (s1, if wt_session s \<noteq> None then [NotReady] else [])) (s\<lparr>wt_session := None\<rparr>))"

subsection \<open>Sending\<close>

definition normalizeSpeexPacket :: "bytes \<Rightarrow> bytes" where
  "normalizeSpeexPacket packet = (if length packet \<le> speexLimit then packet else take speexLimit packet)"

definition tx_packet :: "bool \<Rightarrow> tx_session \<Rightarrow> bytes \<Rightarrow> bytes" where
  "tx_packet fixed a speex =
     ts_header a @ write_le 4 (ts_seq a) @ [5] @ speex
       @ (if fixed then replicate (TS2_PAYLOAD_SIZE - 1 - length speex) 255 else [])"

text \<open>\<open>sends\<close> is false when the UDP socket refuses (an exception); the number is used up then too.\<close>

definition sendPacket :: "webtx_config \<Rightarrow> target \<Rightarrow> bool \<Rightarrow> bytes \<Rightarrow> webtx \<Rightarrow> webtx \<times> bool \<times> webtx_out list" where
  "sendPacket C target sends speexPacket s =
     (case wt_session s of
        None \<Rightarrow> (s, False, [])
      | Some a \<Rightarrow>
          (let normalized = normalizeSpeexPacket speexPacket;
               a1 = a\<lparr>ts_seq := (ts_seq a + 1) mod 2 ^ 32\<rparr>;
               s1 = s\<lparr>wt_session := Some a1\<rparr>
           in if sends then (s1, True, [UdpSend (ts_serverSock a1) (tx_packet (wx_fixed C) a1 normalized) target])
              else (s1, False, [])))"

definition put_tx :: "nat \<Rightarrow> tx_state \<Rightarrow> webtx \<Rightarrow> webtx" where
  "put_tx ws tx s = s\<lparr>wt_by_socket := mput (wt_by_socket s) ws tx\<rparr>"

definition pumpQueue :: "nat \<Rightarrow> tx_state \<Rightarrow> webtx_handler" where
  "pumpQueue ws tx s =
     (if tx_timer tx \<or> tx_monitorOnly tx then (s, [])
      else (put_tx ws (tx\<lparr>tx_timer := True\<rparr>) s, [PumpTimer ws (tx_id tx)]))"

definition last_24 :: "bytes list \<Rightarrow> bytes list" where
  "last_24 q = drop (length q - 24) q"

definition queuePacket :: "nat \<Rightarrow> bytes \<Rightarrow> webtx_handler" where
  "queuePacket ws packet s =
     (case mget (wt_by_socket s) ws of
        None \<Rightarrow> (s, [])
      | Some tx \<Rightarrow> (let tx1 = tx\<lparr>tx_queue := last_24 (tx_queue tx @ [packet])\<rparr> in pumpQueue ws tx1 (put_tx ws tx1 s)))"

definition pump_fires :: "webtx_config \<Rightarrow> target \<Rightarrow> bool \<Rightarrow> nat \<Rightarrow> nat \<Rightarrow> webtx_handler" where
  "pump_fires C target sends ws i s0 =
     (case mget (wt_by_socket s0) ws of
        None \<Rightarrow> (s0, [])
      | Some tx0 \<Rightarrow>
          if tx_id tx0 \<noteq> i then (s0, [])
          else (let tx = tx0\<lparr>tx_timer := False, tx_queue := tl (tx_queue tx0)\<rparr>; s = put_tx ws tx s0;
                    (s1, outs) = (case tx_queue tx0 of
                        [] \<Rightarrow> (s, [])
                      | packet # _ \<Rightarrow> (let (s1, ok, outs) = sendPacket C target sends packet s
                          in (s1, outs @ (if ok then [] else [WsError ws (js ''Web TX frame was not sent.'')]))));
                    (s2, outs2) = (if tx_queue tx \<noteq> [] then pumpQueue ws tx s1 else (s1, []))
                in (s2, outs @ outs2)))"

subsection \<open>Starting\<close>

definition encoded_packet :: "nat \<Rightarrow> bytes \<Rightarrow> webtx_handler" where
  "encoded_packet ws packet s =
     (case mget (wt_by_socket s) ws of
        None \<Rightarrow> (s, [])
      | Some tx \<Rightarrow>
          (let normalized = normalizeSpeexPacket packet;
               (s1, outs) = (case tx_monitor tx of
                   None \<Rightarrow> (s, [])
                 | Some w \<Rightarrow> (let (w1, p) = frame normalized w
                     in (put_tx ws (tx\<lparr>tx_monitor := Some w1\<rparr>) s, [MonitorWrite (tx_id tx) p])));
               (s2, outs2) = (if tx_monitorOnly tx then (s1, []) else queuePacket ws normalized s1)
           in (s2, outs @ outs2)))"

definition encoder_data :: "nat \<Rightarrow> nat \<Rightarrow> bytes \<Rightarrow> webtx_handler" where
  "encoder_data ws i chunk s =
     (case mget (wt_by_socket s) ws of
        None \<Rightarrow> (s, [])
      | Some tx \<Rightarrow>
          if tx_id tx \<noteq> i then (s, [])
          else (let (r, packets) = ogg_push (tx_reader tx) chunk
                in each (encoded_packet ws) packets (put_tx ws (tx\<lparr>tx_reader := r\<rparr>) s)))"

definition encoder_exit :: "nat \<Rightarrow> nat \<Rightarrow> webtx_handler" where
  "encoder_exit ws i s =
     (case mget (wt_by_socket s) ws of
        None \<Rightarrow> (s, [])
      | Some tx \<Rightarrow> if tx_id tx \<noteq> i then (s, []) else stop ws (js ''encoder closed'') s)"

definition monitor_data :: "nat \<Rightarrow> nat \<Rightarrow> bytes \<Rightarrow> webtx_handler" where
  "monitor_data ws i pcm s =
     (s, case mget (wt_by_socket s) ws of
           None \<Rightarrow> []
         | Some tx \<Rightarrow> if tx_id tx = i \<and> tx_monitor tx \<noteq> None then [WsPcm ws pcm] else [])"

text \<open>\<open>i\<close> is the number of the new transmission, \<open>serial\<close> the random number of the monitor's stream.\<close>

definition start :: "webtx_config \<Rightarrow> nat \<Rightarrow> nat \<Rightarrow> nat \<Rightarrow> nat \<Rightarrow> bool \<Rightarrow> bool \<Rightarrow> webtx \<Rightarrow> webtx \<times> bool \<times> webtx_out list" where
  "start C i serial ws com monitorOnly monitor s =
     (if \<not> wx_enabled C then (s, False, [WsError ws (js ''Web TX is disabled in config.json.'')])
      else if \<not> monitorOnly \<and> wt_session s = None then
        (s, False, [WsError ws (js ''Join a voice channel first. If Web TX is still not ready, press the real Altitude PTT once.'')])
      else (let (s1, outs) = stop ws [] s;
                radio = (if com = 2 then 2 else 1);
                (w, h) = headers (new_writer (wx_sampleRate C) (wx_framesPerPacket C) serial);
                withMonitor = (monitorOnly \<or> monitor);
                tx = \<lparr>tx_id = i, tx_com = radio, tx_monitorOnly = monitorOnly,
                      tx_monitor = (if withMonitor then Some w else None), tx_queue = [], tx_timer = False,
                      tx_reader = new_reader\<rparr>
            in (put_tx ws tx s1, True,
                outs @ (if withMonitor then [SpawnMonitor i h] else []) @ [SpawnEncoder i]
                @ (if \<not> monitorOnly then [Lamp radio True] else [])
                @ [WsVoiceTx ws True radio monitorOnly
                    (if monitorOnly then [] else js ''TX COM'' @ nat_digits radio @ js '' active'')])))"

text \<open>\<open>alive\<close>: the input of the encoder is not destroyed.\<close>

definition writePcm :: "nat \<Rightarrow> bytes \<Rightarrow> bool \<Rightarrow> webtx \<Rightarrow> webtx \<times> bool \<times> webtx_out list" where
  "writePcm ws pcm alive s =
     (case mget (wt_by_socket s) ws of
        None \<Rightarrow> (s, False, [])
      | Some tx \<Rightarrow> if \<not> alive then (s, False, []) else (s, True, [EncoderWrite (tx_id tx) pcm]))"

end
