(* ===== verification/Ts2Router.thy ===== *)
theory Ts2Router
  imports WebTx JRegex
begin

section \<open>The voice router (proxy/ts2-voice-router.js) and its use in proxy.js\<close>

text \<open>
  A VOICE reply names a voice server; the router gives each server a loopback address of its own,
  with a proxy behind it, so that the address chosen by the flight client says which server it
  talks to. The route of the last login is the active one: it alone is decoded, and the browser
  transmits to it.

  The state has the web transmitter too: \<open>onSessionReset\<close>, \<open>onClientPacket\<close> and \<open>onClientClose\<close> are
  the callbacks that proxy.js installs. The callbacks of a route's proxy run here after the step of
  the proxy that makes them (they read and write nothing that the rest of the step uses).
  \<open>sha256\<close> is the hash of a hostname.
\<close>

definition MAX_SERVERS :: nat where
  "MAX_SERVERS = 32"

record route =
  rt_address :: jstr
  rt_failure :: "jstr option"
  rt_remaining :: nat
  rt_settled :: bool
  rt_proxy :: ts2

record voice =
  vc_routes :: "(jstr, route) jmap"
  vc_active :: "jstr option"
  vc_key :: jstr
  vc_target :: "target option"
  vc_session :: "bytes option"
  vc_closed :: bool
  vc_tx :: webtx

record voice_env =
  ve_sha256 :: "jstr \<Rightarrow> bytes"
  ve_local :: "jstr list"
  ve_ts2 :: ts2_config
  ve_webtx :: webtx_config

datatype voice_out = ProxyOut jstr ts2_out | TxOut webtx_out | RxPcm bytes | ListenOn jstr
  | EndpointPromise jstr | EndpointRefused jstr | EndpointReady jstr jstr | EndpointFailed jstr jstr

type_synonym voice_handler = "voice \<Rightarrow> voice \<times> voice_out list"

definition init_voice :: voice where
  "init_voice = \<lparr>vc_routes = [], vc_active = None, vc_key = [], vc_target = None, vc_session = None,
     vc_closed = False, vc_tx = createWebTx\<rparr>"

definition on_tx :: "webtx_handler \<Rightarrow> voice_handler" where
  "on_tx f v = (let (w, outs) = f (vc_tx v) in (v\<lparr>vc_tx := w\<rparr>, map TxOut outs))"

subsection \<open>The active route\<close>

definition put_proxy :: "jstr \<Rightarrow> ts2 \<Rightarrow> voice \<Rightarrow> voice" where
  "put_proxy host p v =
     (case mget (vc_routes v) host of None \<Rightarrow> v
      | Some rt \<Rightarrow> v\<lparr>vc_routes := mput (vc_routes v) host (rt\<lparr>rt_proxy := p\<rparr>)\<rparr>)"

definition stop_decoder :: "jstr \<Rightarrow> voice_handler" where
  "stop_decoder host v =
     (case mget (vc_routes v) host of None \<Rightarrow> (v, [])
      | Some rt \<Rightarrow> (let (p, outs) = stopVoiceDecoder (rt_proxy rt) in (put_proxy host p v, map (ProxyOut host) outs)))"

definition clearActive :: "jstr \<Rightarrow> voice_handler" where
  "clearActive reason =
     andThen (\<lambda>v. case vc_active v of Some host \<Rightarrow> stop_decoder host v | None \<Rightarrow> (v, []))
       (\<lambda>v. on_tx (invalidateTxSession reason [])
          (v\<lparr>vc_active := None, vc_key := [], vc_target := None, vc_session := None\<rparr>))"

definition getServer :: "voice \<Rightarrow> jstr" where
  "getServer v = (case vc_active v of Some host \<Rightarrow> host | None \<Rightarrow> [])"

definition router_target :: "voice_env \<Rightarrow> voice \<Rightarrow> target" where
  "router_target E v = (case vc_target v of Some t \<Rightarrow> t | None \<Rightarrow> ([], tc_port (ve_ts2 E)))"

definition scoped_key :: "jstr \<Rightarrow> jstr \<Rightarrow> jstr" where
  "scoped_key address key = address @ [47] @ key"

subsection \<open>Callbacks of a route\<close>

definition is_login :: "bytes \<Rightarrow> bool" where
  "is_login packet = (length packet \<ge> 16 \<and> u16 packet 0 = 48884 \<and> u16 packet 2 = 3)"

definition is_setup :: "bytes \<Rightarrow> bool" where
  "is_setup packet = (u16 packet 0 = 48880 \<and> u16 packet 2 = 5)"

definition is_seed :: "bytes \<Rightarrow> bool" where
  "is_seed packet = (is_setup packet \<or> u16 packet 0 = 48882 \<or> (u16 packet 0 = 48881 \<and> u16 packet 2 = 0)
     \<or> (u16 packet 0 = 48884 \<and> u16 packet 2 = 1))"

definition session_of :: "bytes \<Rightarrow> bytes" where
  "session_of packet = take 8 (drop 4 packet)"

definition learn_session :: "jstr \<Rightarrow> bytes \<Rightarrow> voice \<Rightarrow> voice" where
  "learn_session key packet v =
     (if vc_session v = None \<and> vc_key v = key \<and> is_setup packet \<and> \<not> list_all (\<lambda>b. b = 0) (session_of packet)
      then v\<lparr>vc_session := Some (session_of packet)\<rparr> else v)"

definition onClientPacket :: "jstr \<Rightarrow> jstr \<Rightarrow> bytes \<Rightarrow> jstr \<Rightarrow> nat \<Rightarrow> target \<Rightarrow> voice_handler" where
  "onClientPacket host address packet key sock target =
     (let scopedKey = scoped_key address key in
      andThen (if is_login packet
               then andThen (clearActive (js ''voice connection changed''))
                      (\<lambda>v. (v\<lparr>vc_active := Some host, vc_key := scopedKey, vc_target := Some target\<rparr>, []))
               else (\<lambda>v. (v, [])))
        (\<lambda>v. if vc_active v \<noteq> Some host \<or> length packet < 16 then (v, [])
             else (let v1 = learn_session scopedKey packet v in
               if \<not> is_seed packet \<or> vc_session v1 \<noteq> Some (session_of packet) then (v1, [])
               else on_tx (cacheTxSession packet scopedKey sock)
                      (v1\<lparr>vc_key := scopedKey, vc_target := Some target\<rparr>))))"

definition onClientClose :: "jstr \<Rightarrow> jstr \<Rightarrow> jstr \<Rightarrow> jstr \<Rightarrow> voice_handler" where
  "onClientClose host address key reason =
     (let scopedKey = scoped_key address key in
      andThen (\<lambda>v. if vc_active v = Some host \<and> vc_key v = scopedKey then clearActive reason v else (v, []))
        (on_tx (invalidateTxSession (if reason = [] then js ''TS2 UDP client closed'' else reason) scopedKey)))"

fun callback :: "jstr \<Rightarrow> jstr \<Rightarrow> ts2_out \<Rightarrow> voice_handler" where
  "callback host address (ClientPacket packet key sock target) v = onClientPacket host address packet key sock target v"
| "callback host address (ClientClose key reason) v = onClientClose host address key reason v"
| "callback host address (PcmOut pcm) v = (v, if vc_active v = Some host then [RxPcm pcm] else [])"
| "callback host address out v = (v, [ProxyOut host out])"

definition proxy_op :: "jstr \<Rightarrow> ts2_handler \<Rightarrow> voice_handler" where
  "proxy_op host f v =
     (case mget (vc_routes v) host of
        None \<Rightarrow> (v, [])
      | Some rt \<Rightarrow> (let (p, outs) = f (rt_proxy rt) in each (callback host (rt_address rt)) outs (put_proxy host p v)))"

subsection \<open>Endpoints\<close>

definition ts2_host :: rx where
  "ts2_host = seqs [lit ''ts-'', plus (Chr is_digit), lit ''.'',
     plus (Chr (\<lambda>c. is_lower c \<or> is_digit c \<or> c = 45)), lit ''.ivao.aero'']"

fun local_address :: "bytes \<Rightarrow> jstr" where
  "local_address (a # b # c # _) = js ''127.'' @ nat_digits (64 + a mod 64) @ [46] @ nat_digits b @ [46]
     @ nat_digits (1 + c mod 254)"
| "local_address _ = []"

definition is_local :: "jstr list \<Rightarrow> jstr \<Rightarrow> bool" where
  "is_local locals address = (starts_with address (js ''127.'') \<or> address \<in> set locals)"

definition new_route :: "jstr \<Rightarrow> ts2 \<Rightarrow> route" where
  "new_route address p = \<lparr>rt_address = address, rt_failure = None, rt_remaining = 2, rt_settled = False, rt_proxy = p\<rparr>"

definition getEndpoint :: "voice_env \<Rightarrow> jstr \<Rightarrow> voice_handler" where
  "getEndpoint E text v =
     (let host = lower (trim text) in
      if \<not> rx_match ts2_host host then (v, [EndpointRefused (js ''Unsupported IVAO TS2 hostname'')])
      else if vc_closed v then (v, [EndpointRefused (js ''TS2 router is closed'')])
      else (case mget (vc_routes v) host of
          Some rt \<Rightarrow> (v, [case rt_failure rt of Some e \<Rightarrow> EndpointRefused e | None \<Rightarrow> EndpointPromise host])
        | None \<Rightarrow>
            if length (vc_routes v) \<ge> MAX_SERVERS then (v, [EndpointRefused (js ''TS2 endpoint limit reached'')])
            else (let address = local_address (ve_sha256 E host) in
              if \<exists>(h, rt) \<in> set (vc_routes v). rt_address rt = address
              then (v, [EndpointRefused (js ''TS2 local endpoint address collision'')])
              else (let (p, outs) = createTs2VoiceProxy host in
                (v\<lparr>vc_routes := mput (vc_routes v) host (new_route address p)\<rparr>,
                 map (ProxyOut host) outs @ [ListenOn address, EndpointPromise host])))))"

definition endpoint_error :: "jstr \<Rightarrow> jstr \<Rightarrow> jstr" where
  "endpoint_error address message = js ''Cannot open local TS2 endpoint '' @ address @ js '': '' @ message"

definition endpoint_failed :: jstr where
  "endpoint_failed = js ''voice endpoint failed''"

definition fail :: "jstr \<Rightarrow> jstr \<Rightarrow> voice_handler" where
  "fail host message v =
     (case mget (vc_routes v) host of
        None \<Rightarrow> (v, [])
      | Some rt \<Rightarrow>
          if rt_failure rt \<noteq> None then (v, [])
          else (let failure = endpoint_error (rt_address rt) message;
                    v1 = v\<lparr>vc_routes := mput (vc_routes v) host (rt\<lparr>rt_failure := Some failure, rt_settled := True\<rparr>)\<rparr>
            in if rt_settled rt
               then andThen (\<lambda>v. if vc_active v = Some host then clearActive endpoint_failed v else (v, []))
                      (proxy_op host (close_proxy endpoint_failed)) v1
               else andThen (proxy_op host (close_proxy endpoint_failed)) (\<lambda>v. (v, [EndpointFailed host failure])) v1))"

definition listening :: "jstr \<Rightarrow> voice_handler" where
  "listening host v =
     (case mget (vc_routes v) host of
        None \<Rightarrow> (v, [])
      | Some rt \<Rightarrow>
          if rt_settled rt then (v, [])
          else if rt_remaining rt - 1 \<noteq> 0
          then (v\<lparr>vc_routes := mput (vc_routes v) host (rt\<lparr>rt_remaining := rt_remaining rt - 1\<rparr>)\<rparr>, [])
          else (v\<lparr>vc_routes := mput (vc_routes v) host (rt\<lparr>rt_remaining := 0, rt_settled := True\<rparr>)\<rparr>,
                [EndpointReady host (rt_address rt)]))"

definition cancel_route :: "jstr \<Rightarrow> jstr \<Rightarrow> voice_handler" where
  "cancel_route message host v =
     (case mget (vc_routes v) host of
        None \<Rightarrow> (v, []) | Some rt \<Rightarrow> if rt_settled rt then (v, []) else fail host message v)"

subsection \<open>The whole router\<close>

definition hosts :: "voice \<Rightarrow> jstr list" where
  "hosts v = map fst (vc_routes v)"

definition router_resetUdpClients :: "jstr \<Rightarrow> voice_handler" where
  "router_resetUdpClients reason =
     andThen (clearActive reason) (\<lambda>v. each (\<lambda>host. proxy_op host (resetUdpClients reason)) (hosts v) v)"

definition router_stopVoiceDecoder :: voice_handler where
  "router_stopVoiceDecoder v = each stop_decoder (hosts v) v"

definition router_close :: voice_handler where
  "router_close v =
     andThen (clearActive (js ''voice router closed''))
       (\<lambda>v. each (\<lambda>host. andThen (cancel_route (js ''TS2 router closed'') host)
                     (proxy_op host (close_proxy (js ''voice router closed'')))) (hosts v) v)
       (v\<lparr>vc_closed := True\<rparr>)"

text \<open>What proxy.js does about voice when the FSD connection is closed.\<close>

definition fsd_closed :: voice_handler where
  "fsd_closed =
     andThen router_stopVoiceDecoder
       (andThen (router_resetUdpClients (js ''FSD disconnected''))
          (on_tx (invalidateTxSession (js ''FSD disconnected'') [])))"

subsection \<open>Events\<close>

text \<open>
  Everything that can happen to the voice side of the agent: requests for an endpoint and what its
  sockets report, packets of the flight client (\<open>UdpMessage\<close>) and of a server (\<open>UdpReply\<close>), name
  resolution, decoders and TCP, and the browser's transmissions. A timer of the bind is cleared
  when the endpoint is settled.
\<close>

datatype voice_in = GetEndpoint jstr | Listening jstr | EndpointError jstr jstr | BindTimeout jstr
  | UdpMessage jstr jstr nat bytes nat | UdpReply jstr jstr nat bytes nat nat
  | UdpError jstr jstr nat | UdpClosed jstr jstr nat | DnsAnswer jstr nat "jstr option"
  | DecoderData jstr nat bytes | DecoderExit jstr nat
  | TcpOpen jstr nat jstr | TcpClosed jstr nat | TcpData jstr bool nat bytes
  | FsdClosed | RouterClose
  | TxStart nat nat nat nat bool bool | TxStop nat jstr | TxPcm nat bytes bool
  | EncoderData nat nat bytes | EncoderExit nat nat | MonitorData nat nat bytes | TxPump nat nat bool

definition route_config :: "voice_env \<Rightarrow> ts2_config" where
  "route_config E = (ve_ts2 E)\<lparr>tc_accept := is_local (ve_local E)\<rparr>"

definition without_answer :: "(webtx \<Rightarrow> webtx \<times> bool \<times> webtx_out list) \<Rightarrow> webtx_handler" where
  "without_answer f w = (let (w1, answer, outs) = f w in (w1, outs))"

fun voice_step :: "voice_env \<Rightarrow> voice_in \<Rightarrow> voice_handler" where
  "voice_step E (GetEndpoint text) v = getEndpoint E text v"
| "voice_step E (Listening host) v = listening host v"
| "voice_step E (EndpointError host message) v = fail host message v"
| "voice_step E (BindTimeout host) v = cancel_route (js ''TS2 endpoint bind timeout'') host v"
| "voice_step E (UdpMessage host address port msg sock) v =
     proxy_op host (udp_message (route_config E) address port msg sock) v"
| "voice_step E (UdpReply host key sock reply d serial) v =
     proxy_op host (server_reply (route_config E) key sock reply (vc_active v = Some host) d serial) v"
| "voice_step E (UdpError host key sock) v = proxy_op host (udp_error key sock) v"
| "voice_step E (UdpClosed host key sock) v = proxy_op host (udp_closed key sock) v"
| "voice_step E (DnsAnswer host g ip) v = proxy_op host (dns_answer g ip) v"
| "voice_step E (DecoderData host d pcm) v = proxy_op host (decoder_data d pcm) v"
| "voice_step E (DecoderExit host d) v = proxy_op host (decoder_exit d) v"
| "voice_step E (TcpOpen host i address) v = proxy_op host (tcp_open (route_config E) i address) v"
| "voice_step E (TcpClosed host i) v = proxy_op host (tcp_closed i) v"
| "voice_step E (TcpData host from_client i b) v = proxy_op host (tcp_data from_client i b) v"
| "voice_step E FsdClosed v = fsd_closed v"
| "voice_step E RouterClose v = router_close v"
| "voice_step E (TxStart i serial ws com monitorOnly monitor) v =
     on_tx (without_answer (start (ve_webtx E) i serial ws com monitorOnly monitor)) v"
| "voice_step E (TxStop ws reason) v = on_tx (stop ws reason) v"
| "voice_step E (TxPcm ws pcm alive) v = on_tx (without_answer (writePcm ws pcm alive)) v"
| "voice_step E (EncoderData ws i chunk) v = on_tx (encoder_data ws i chunk) v"
| "voice_step E (EncoderExit ws i) v = on_tx (encoder_exit ws i) v"
| "voice_step E (MonitorData ws i pcm) v = on_tx (monitor_data ws i pcm) v"
| "voice_step E (TxPump ws i sends) v = on_tx (pump_fires (ve_webtx E) (router_target E v) sends ws i) v"

definition voice_run :: "voice_env \<Rightarrow> voice_in list \<Rightarrow> voice" where
  "voice_run E es = fst (run_machine (voice_step E) es init_voice)"

end
