(* ===== verification/WebTxFacts.thy ===== *)
theory WebTxFacts
  imports WebTx
begin

section \<open>Facts about the web transmitter\<close>

text \<open>
  \<open>tx_link\<close> is what a session says about the voice connection: whose flow it is, the socket and the
  header of its packets. \<open>txOk\<close> is the invariant of the transmitter: a transmission exists only
  if transmitting is configured; a microphone test has an empty queue; any other has a session.
\<close>

definition tx_link :: "webtx \<Rightarrow> (jstr \<times> nat \<times> bytes) option" where
  "tx_link w = map_option (\<lambda>a. (ts_clientKey a, ts_serverSock a, ts_header a)) (wt_session w)"

definition txOk :: "webtx_config \<Rightarrow> webtx \<Rightarrow> bool" where
  "txOk C w \<longleftrightarrow> (\<forall>ws tx. mget (wt_by_socket w) ws = Some tx \<longrightarrow>
     wx_enabled C \<and> (tx_monitorOnly tx \<longrightarrow> tx_queue tx = []) \<and> (\<not> tx_monitorOnly tx \<longrightarrow> wt_session w \<noteq> None))"

definition no_send :: "webtx_out \<Rightarrow> bool" where
  "no_send out = (case out of UdpSend _ _ _ \<Rightarrow> False | _ \<Rightarrow> True)"

text \<open>A good result keeps the invariant and the link, and sends nothing.\<close>

abbreviation quiet :: "webtx_config \<Rightarrow> (jstr \<times> nat \<times> bytes) option \<Rightarrow> webtx \<times> webtx_out list \<Rightarrow> bool" where
  "quiet C l \<equiv> good (\<lambda>w. txOk C w \<and> tx_link w = l) no_send"

lemma tx_link_None [simp]: "tx_link w = None \<longleftrightarrow> wt_session w = None"
  by (simp add: tx_link_def)

lemma txOkD:
  assumes "txOk C w" "mget (wt_by_socket w) ws = Some tx"
  shows "wx_enabled C" "tx_monitorOnly tx \<Longrightarrow> tx_queue tx = []" "\<not> tx_monitorOnly tx \<Longrightarrow> wt_session w \<noteq> None"
  using assms unfolding txOk_def by blast+

lemma txOk_put:
  assumes "txOk C w" "wx_enabled C" "tx_monitorOnly tx \<Longrightarrow> tx_queue tx = []"
    and "\<not> tx_monitorOnly tx \<Longrightarrow> wt_session w \<noteq> None"
  shows "txOk C (put_tx ws tx w)"
  using assms by (auto simp: txOk_def put_tx_def)

lemma link_put [simp]: "tx_link (put_tx ws tx w) = tx_link w" "wt_session (put_tx ws tx w) = wt_session w"
  "mget (wt_by_socket (put_tx ws tx w)) x = (if x = ws then Some tx else mget (wt_by_socket w) x)"
  by (simp_all add: tx_link_def put_tx_def)

lemma txOk_fewer:
  assumes "txOk C w" "\<And>ws tx. mget (wt_by_socket w') ws = Some tx \<Longrightarrow> mget (wt_by_socket w) ws = Some tx"
    and "wt_session w = None \<longleftrightarrow> wt_session w' = None"
  shows "txOk C w'"
  using assms unfolding txOk_def by blast

subsection \<open>Stopping\<close>

lemma stop_quiet: "txOk C w \<Longrightarrow> quiet C (tx_link w) (stop ws reason w)"
proof (cases "mget (wt_by_socket w) ws")
  case (Some tx)
  assume "txOk C w"
  then have "txOk C (w\<lparr>wt_by_socket := mdel (wt_by_socket w) ws\<rparr>)" by (rule txOk_fewer) (auto split: if_splits)
  with Some show ?thesis by (simp add: stop_def tx_link_def no_send_def)
qed (simp add: stop_def)

lemma stop_session: "wt_session (fst (stop ws reason w)) = wt_session w"
  by (simp add: stop_def split: option.splits)

lemma stop_get: "mget (wt_by_socket (fst (stop ws reason w))) x = (if x = ws then None else mget (wt_by_socket w) x)"
  by (simp add: stop_def split: option.splits)

text \<open>After the loop over the transmissions only microphone tests are left.\<close>

definition stopped_from :: "webtx \<Rightarrow> webtx \<Rightarrow> bool" where
  "stopped_from w w' \<longleftrightarrow> wt_session w' = wt_session w \<and>
     (\<forall>ws tx. mget (wt_by_socket w') ws = Some tx \<longrightarrow> mget (wt_by_socket w) ws = Some tx)"

definition tests_only :: "(nat \<times> tx_state) list \<Rightarrow> webtx \<Rightarrow> bool" where
  "tests_only xs w' \<longleftrightarrow>
     (\<forall>(ws, tx) \<in> set xs. mget (wt_by_socket w') ws = Some tx \<longrightarrow> tx_monitorOnly tx)"

lemma stop_loop:
  "good (\<lambda>w'. stopped_from w w' \<and> tests_only xs w') no_send
     (each (\<lambda>(ws, tx). if \<not> tx_monitorOnly tx then stop ws reason else (\<lambda>s. (s, []))) xs w)"
proof (induction xs arbitrary: w)
  case (Cons x xs)
  obtain ws tx where x: "x = (ws, tx)" by force
  let ?f = "if \<not> tx_monitorOnly tx then stop ws reason else (\<lambda>s. (s, []))"
  have from_w: "stopped_from w (fst (?f w))"
    by (auto simp: stopped_from_def stop_session stop_get split: if_splits)
  have outs: "list_all no_send (snd (?f w))" by (simp add: stop_def no_send_def split: option.splits)
  have gone: "stopped_from (fst (?f w)) w' \<Longrightarrow> mget (wt_by_socket w') ws = Some tx \<Longrightarrow> tx_monitorOnly tx" for w'
    by (auto simp: stopped_from_def stop_get split: if_splits)
  have trans: "stopped_from (fst (?f w)) w' \<Longrightarrow> stopped_from w w'" for w'
    using from_w by (simp add: stopped_from_def)
  have all: "stopped_from (fst (?f w)) w' \<Longrightarrow> tests_only xs w' \<Longrightarrow> tests_only (x # xs) w'" for w'
    using gone [of w'] by (simp add: x tests_only_def)
  have "good (\<lambda>w'. stopped_from w w' \<and> tests_only (x # xs) w') no_send
      (each (\<lambda>(ws, tx). if \<not> tx_monitorOnly tx then stop ws reason else (\<lambda>s. (s, []))) xs (fst (?f w)))"
    by (rule good_mono [OF Cons.IH]) (use trans all in blast)+
  with outs show ?case unfolding each.simps x prod.case by (simp add: good_def andThen_def case_prod_beta Let_def)
qed (simp add: good_def stopped_from_def tests_only_def)

lemma stop_transmissions_quiet:
  "good (\<lambda>w'. stopped_from w w' \<and> (\<forall>ws tx. mget (wt_by_socket w') ws = Some tx \<longrightarrow> tx_monitorOnly tx)) no_send
     (stop_transmissions reason w)"
  unfolding stop_transmissions_def
proof (rule good_mono [OF stop_loop])
  fix u assume u: "stopped_from w u \<and> tests_only (wt_by_socket w) u"
  have "tx_monitorOnly tx" if g: "mget (wt_by_socket u) ws = Some tx" for ws tx
  proof -
    have "(ws, tx) \<in> set (wt_by_socket w)" using u g mget_in [of _ ws tx] by (simp add: stopped_from_def)
    then show ?thesis using u g unfolding tests_only_def by fast
  qed
  with u show "stopped_from w u \<and> (\<forall>ws tx. mget (wt_by_socket u) ws = Some tx \<longrightarrow> tx_monitorOnly tx)" by blast
qed

lemma stopped_ok:
  assumes "txOk C w" "wt_by_socket w = wt_by_socket u" "stopped_from u w'"
    "\<forall>ws tx. mget (wt_by_socket w') ws = Some tx \<longrightarrow> tx_monitorOnly tx" "wt_by_socket v = wt_by_socket w'"
  shows "txOk C v"
  using assms unfolding txOk_def stopped_from_def by metis

lemma invalidate_quiet:
  assumes "txOk C w"
  shows "quiet C (if k \<noteq> [] \<and> (\<forall>s h. tx_link w \<noteq> Some (k, s, h)) then tx_link w else None)
    (invalidateTxSession reason k w)"
proof (cases "k \<noteq> [] \<and> (\<forall>s h. tx_link w \<noteq> Some (k, s, h))")
  case True
  then have "invalidateTxSession reason k w = (w, [])"
    by (auto simp: invalidateTxSession_def tx_link_def split: option.splits)
  with True assms show ?thesis by simp
next
  case False
  let ?r = "stop_transmissions reason (w\<lparr>wt_session := None\<rparr>)"
  have r: "stopped_from (w\<lparr>wt_session := None\<rparr>) (fst ?r)"
    "\<forall>ws tx. mget (wt_by_socket (fst ?r)) ws = Some tx \<longrightarrow> tx_monitorOnly tx" "list_all no_send (snd ?r)"
    using stop_transmissions_quiet [of "w\<lparr>wt_session := None\<rparr>" reason] by (simp_all add: good_def)
  have "txOk C (fst ?r)" by (rule stopped_ok [OF assms _ r(1,2)]) simp_all
  moreover have "wt_session (fst ?r) = None" using r(1) by (simp add: stopped_from_def)
  moreover have "invalidateTxSession reason k w = andThen (stop_transmissions reason)
      (\<lambda>s1. (s1, if wt_session w \<noteq> None then [NotReady] else [])) (w\<lparr>wt_session := None\<rparr>)"
    using False by (auto simp: invalidateTxSession_def tx_link_def split: option.splits)
  ultimately show ?thesis
    using r(3) False by (auto simp: good_def andThen_def case_prod_beta Let_def no_send_def)
qed

subsection \<open>Learning a session\<close>

lemma replace_quiet:
  assumes "txOk C w"
  shows "quiet C (Some (ts_clientKey a, ts_serverSock a, ts_header a)) (replaceTxSession a reason w)"
proof -
  define changed where "changed = (case wt_session w of None \<Rightarrow> False
    | Some p \<Rightarrow> ts_clientKey p \<noteq> ts_clientKey a \<or> ts_header p \<noteq> ts_header a)"
  let ?r = "(if changed then stop_transmissions reason else (\<lambda>s. (s, []))) w"
  have r: "stopped_from w (fst ?r) \<and> list_all no_send (snd ?r)"
  proof (cases changed)
    case True
    with stop_transmissions_quiet [of w reason] show ?thesis by (simp only: good_def if_True simp_thms)
  qed (simp add: stopped_from_def)
  have get: "mget (wt_by_socket (fst ?r)) ws = Some tx \<Longrightarrow> mget (wt_by_socket w) ws = Some tx" for ws tx
    using r unfolding stopped_from_def by blast
  have "txOk C ((fst ?r)\<lparr>wt_session := Some a\<rparr>)"
    unfolding txOk_def using txOkD [OF assms get] by simp
  moreover have "replaceTxSession a reason w = ((fst ?r)\<lparr>wt_session := Some a\<rparr>,
      snd ?r @ (if wt_session w = None then [Ready] else []))"
    unfolding replaceTxSession_def changed_def [symmetric] by (simp add: andThen_def case_prod_beta Let_def)
  ultimately show ?thesis using r by (simp add: tx_link_def no_send_def)
qed

definition link_of :: "jstr \<Rightarrow> nat \<Rightarrow> bytes \<Rightarrow> webtx \<Rightarrow> webtx \<Rightarrow> bool" where
  "link_of k sock sessionBytes w w' \<longleftrightarrow> (\<exists>s h. tx_link w' = Some (k, s, h) \<and> length h = 12
     \<and> take 8 (drop 4 h) = sessionBytes \<and> u16 h 0 = CLASS_TXVOICE \<and> (s = sock \<or> tx_link w = Some (k, s, h)))"

lemma derived_header_facts:
  "length b = 8 \<Longrightarrow> length (derived_header b) = 12" "length b = 8 \<Longrightarrow> take 8 (drop 4 (derived_header b)) = b"
  "u16 (derived_header b) 0 = CLASS_TXVOICE"
proof -
  show "length b = 8 \<Longrightarrow> length (derived_header b) = 12" by (simp add: derived_header_def)
  show "length b = 8 \<Longrightarrow> take 8 (drop 4 (derived_header b)) = b" by (simp add: derived_header_def)
  have "take 2 (drop 0 (derived_header b)) = write_le 2 CLASS_TXVOICE" by (simp add: derived_header_def)
  moreover have "CLASS_TXVOICE < 256 ^ 2" by (simp add: CLASS_TXVOICE_def)
  ultimately show "u16 (derived_header b) 0 = CLASS_TXVOICE" unfolding u16_def by (simp only: read_write_le)
qed

lemma cache_quiet:
  assumes ok: "txOk C w" and len: "16 \<le> length msg"
    and seed: "u16 msg 0 = CLASS_TXVOICE \<or> isTxSeedSetupPacket msg"
    and nonzero: "\<not> list_all (\<lambda>b. b = 0) (take 8 (drop 4 msg))"
  shows "good (\<lambda>w'. txOk C w' \<and> link_of k sock (take 8 (drop 4 msg)) w w') no_send (cacheTxSession msg k sock w)"
proof (cases "u16 msg 0 = CLASS_TXVOICE")
  case True
  let ?a = "\<lparr>ts_clientKey = k, ts_serverSock = sock, ts_header = take 12 msg, ts_seq = read_le (take 4 (drop 12 msg))\<rparr>"
  have "u16 (take 12 msg) 0 = CLASS_TXVOICE" using True by (simp add: u16_def)
  moreover have "take 8 (drop 4 (take 12 msg)) = take 8 (drop 4 msg)" by (simp add: drop_take)
  moreover have "cacheTxSession msg k sock w = replaceTxSession ?a (js ''native TS2 TX session changed'') w"
    using True len by (simp add: cacheTxSession_def)
  ultimately show ?thesis
    using len by (auto intro!: good_mono [OF replace_quiet [OF ok, of ?a]] simp: link_of_def)
next
  case False
  let ?b = "take 8 (drop 4 msg)"
  let ?a = "\<lparr>ts_clientKey = k, ts_serverSock = sock, ts_header = derived_header ?b, ts_seq = DERIVED_INITIAL_SEQ\<rparr>"
  have b: "length ?b = 8" using len by simp
  have d: "cacheTxSession msg k sock w =
      (if (case wt_session w of Some a \<Rightarrow> ts_clientKey a = k \<and> ts_header a = derived_header ?b | None \<Rightarrow> False)
       then (w, []) else replaceTxSession ?a (js ''TS2 setup session changed'') w)"
    using False len seed nonzero by (simp add: cacheTxSession_def deriveTxSessionFromSetup_def Let_def)
  show ?thesis
  proof (cases "case wt_session w of Some a \<Rightarrow> ts_clientKey a = k \<and> ts_header a = derived_header ?b | None \<Rightarrow> False")
    case True
    then obtain a where "wt_session w = Some a" "ts_clientKey a = k" "ts_header a = derived_header ?b"
      by (auto split: option.splits)
    then have "link_of k sock ?b w w" using derived_header_facts [of ?b] b by (simp add: link_of_def tx_link_def)
    with ok show ?thesis by (simp only: d True if_True good_pair list.pred_inject)
  next
    case False
    have "link_of k sock ?b w w'" if "tx_link w' = Some (k, sock, derived_header ?b)" for w'
      using that derived_header_facts [of ?b] b by (simp add: link_of_def)
    with False show ?thesis
      by (simp only: d if_False) (auto intro!: good_mono [OF replace_quiet [OF ok, of ?a]])
  qed
qed

subsection \<open>Transmitting\<close>

lemma pump_quiet:
  assumes "txOk C w" "wx_enabled C" "tx_monitorOnly tx \<Longrightarrow> tx_queue tx = []"
    and "\<not> tx_monitorOnly tx \<Longrightarrow> wt_session w \<noteq> None"
  shows "quiet C (tx_link w) (pumpQueue ws tx w)"
  using assms by (auto simp: pumpQueue_def no_send_def intro!: txOk_put)

lemma queue_quiet:
  assumes ok: "txOk C w" and tx: "\<And>tx. mget (wt_by_socket w) ws = Some tx \<Longrightarrow> \<not> tx_monitorOnly tx"
  shows "quiet C (tx_link w) (queuePacket ws packet w)"
proof (cases "mget (wt_by_socket w) ws")
  case (Some tx)
  let ?tx = "tx\<lparr>tx_queue := last_24 (tx_queue tx @ [packet])\<rparr>"
  have t: "wx_enabled C" "\<not> tx_monitorOnly tx" "wt_session w \<noteq> None"
    using txOkD [OF ok Some] tx [OF Some] by auto
  have "quiet C (tx_link (put_tx ws ?tx w)) (pumpQueue ws ?tx (put_tx ws ?tx w))"
    using t by (intro pump_quiet txOk_put ok) auto
  with Some show ?thesis by (simp add: queuePacket_def Let_def)
qed (use ok in \<open>simp add: queuePacket_def\<close>)

lemma packet_quiet:
  assumes ok: "txOk C w"
  shows "quiet C (tx_link w) (encoded_packet ws packet w)"
proof (cases "mget (wt_by_socket w) ws")
  case (Some tx)
  note t = txOkD [OF ok Some]
  let ?m = "case tx_monitor tx of
      None \<Rightarrow> (w, [])
    | Some x \<Rightarrow> (let (x1, p) = frame (normalizeSpeexPacket packet) x
        in (put_tx ws (tx\<lparr>tx_monitor := Some x1\<rparr>) w, [MonitorWrite (tx_id tx) p]))"
  have m: "quiet C (tx_link w) ?m"
    using ok t by (auto simp: no_send_def case_prod_beta Let_def intro!: txOk_put split: option.split)
  have mono: "mget (wt_by_socket (fst ?m)) ws = Some tx' \<Longrightarrow> tx_monitorOnly tx' = tx_monitorOnly tx" for tx'
    using Some by (auto simp: case_prod_beta Let_def split: option.splits)
  have q: "quiet C (tx_link w) ((if tx_monitorOnly tx then (\<lambda>u. (u, [])) else queuePacket ws (normalizeSpeexPacket packet)) (fst ?m))"
    using m mono queue_quiet [of C "fst ?m" ws] by (auto simp: good_def)
  have e: "encoded_packet ws packet w =
      andThen (\<lambda>_. ?m) (if tx_monitorOnly tx then (\<lambda>u. (u, [])) else queuePacket ws (normalizeSpeexPacket packet)) w"
    using Some by (simp add: encoded_packet_def andThen_def Let_def case_prod_beta)
  show ?thesis using m q unfolding e by (simp add: good_def andThen_def case_prod_beta Let_def)
qed (use ok in \<open>simp add: encoded_packet_def\<close>)

lemma encoder_data_quiet:
  assumes ok: "txOk C w"
  shows "quiet C (tx_link w) (encoder_data ws i chunk w)"
proof (cases "mget (wt_by_socket w) ws")
  case (Some tx)
  note t = txOkD [OF ok Some]
  obtain r packets where p: "ogg_push (tx_reader tx) chunk = (r, packets)" by force
  have "quiet C (tx_link w) (each (encoded_packet ws) packets (put_tx ws (tx\<lparr>tx_reader := r\<rparr>) w))"
  proof (rule good_each)
    show "txOk C (put_tx ws (tx\<lparr>tx_reader := r\<rparr>) w) \<and> tx_link (put_tx ws (tx\<lparr>tx_reader := r\<rparr>) w) = tx_link w"
      using t by (auto intro!: txOk_put [OF ok])
  next
    fix x u assume u: "txOk C u \<and> tx_link u = tx_link w"
    then have "quiet C (tx_link u) (encoded_packet ws x u)" by (intro packet_quiet) simp
    with u show "quiet C (tx_link w) (encoded_packet ws x u)" by simp
  qed
  with Some ok show ?thesis by (simp add: encoder_data_def p)
qed (use ok in \<open>simp add: encoder_data_def\<close>)

lemma encoder_exit_quiet: "txOk C w \<Longrightarrow> quiet C (tx_link w) (encoder_exit ws i w)"
  by (simp add: encoder_exit_def stop_quiet split: option.split)

lemma monitor_quiet: "txOk C w \<Longrightarrow> quiet C (tx_link w) (monitor_data ws i pcm w)"
  by (simp add: monitor_data_def no_send_def split: option.split)

lemma pcm_quiet: "txOk C w \<Longrightarrow> writePcm ws pcm alive w = (w', b, outs) \<Longrightarrow> quiet C (tx_link w) (w', outs)"
  by (auto simp: writePcm_def no_send_def split: option.splits if_splits)

lemma start_quiet:
  assumes ok: "txOk C w" and r: "start C i serial ws com monitorOnly monitor w = (w', b, outs)"
  shows "quiet C (tx_link w) (w', outs)"
proof (cases "wx_enabled C \<and> (monitorOnly \<or> wt_session w \<noteq> None)")
  case True
  obtain w1 o1 where s: "stop ws [] w = (w1, o1)" by force
  have w1: "txOk C w1" "tx_link w1 = tx_link w" "list_all no_send o1"
    using stop_quiet [OF ok, of ws "[]"] by (simp_all add: s)
  have "monitorOnly \<or> wt_session w1 \<noteq> None" using True w1(2) by (metis tx_link_None)
  then show ?thesis
    using True r w1 by (auto simp: start_def s Let_def case_prod_beta no_send_def intro!: txOk_put)
qed (use ok r in \<open>auto simp: start_def no_send_def split: if_splits\<close>)

text \<open>Only the timer of a transmission sends, and only a packet of the session.\<close>

definition sent_ok :: "webtx_config \<Rightarrow> target \<Rightarrow> webtx \<Rightarrow> nat \<Rightarrow> webtx_out \<Rightarrow> bool" where
  "sent_ok C target w ws out = (case out of
     UdpSend sock packet t \<Rightarrow> t = target \<and> wx_enabled C
       \<and> (\<exists>tx. mget (wt_by_socket w) ws = Some tx \<and> \<not> tx_monitorOnly tx)
       \<and> (\<exists>a q speex. wt_session w = Some a \<and> sock = ts_serverSock a \<and> length speex \<le> speexLimit
            \<and> packet = tx_packet (wx_fixed C) (a\<lparr>ts_seq := q\<rparr>) speex)
   | _ \<Rightarrow> True)"

lemma send_sent:
  assumes ok: "txOk C w" and r: "sendPacket C target sends packet w = (w', b, outs)"
    and tx: "mget (wt_by_socket w) ws = Some tx" "\<not> tx_monitorOnly tx"
  shows "txOk C w'" "tx_link w' = tx_link w" "wt_by_socket w' = wt_by_socket w" "list_all (sent_ok C target w ws) outs"
proof -
  note t = txOkD [OF ok tx(1)] tx(2)
  obtain a where a: "wt_session w = Some a" using t by auto
  let ?q = "(ts_seq a + 1) mod 2 ^ 32"
  have n: "length (normalizeSpeexPacket packet) \<le> speexLimit" by (simp add: normalizeSpeexPacket_def)
  have e: "w' = w\<lparr>wt_session := Some (a\<lparr>ts_seq := ?q\<rparr>)\<rparr>"
    "outs = (if sends then [UdpSend (ts_serverSock a)
       (tx_packet (wx_fixed C) (a\<lparr>ts_seq := ?q\<rparr>) (normalizeSpeexPacket packet)) target] else [])"
    using r by (auto simp: sendPacket_def a Let_def split: if_splits)
  show "txOk C w'" using ok a unfolding e(1) txOk_def by auto
  show "tx_link w' = tx_link w" "wt_by_socket w' = wt_by_socket w" using a by (simp_all add: e(1) tx_link_def)
  have "sent_ok C target w ws (UdpSend (ts_serverSock a)
       (tx_packet (wx_fixed C) (a\<lparr>ts_seq := ?q\<rparr>) (normalizeSpeexPacket packet)) target)"
    unfolding sent_ok_def webtx_out.case using t tx a n by blast
  then show "list_all (sent_ok C target w ws) outs" by (simp add: e(2))
qed

lemma no_send_sent: "no_send out \<Longrightarrow> sent_ok C target w ws out"
  by (cases out) (simp_all add: no_send_def sent_ok_def)

lemma pump_sent:
  assumes ok: "txOk C w"
  shows "good (\<lambda>w'. txOk C w' \<and> tx_link w' = tx_link w) (sent_ok C target w ws) (pump_fires C target sends ws i w)"
proof (cases "\<exists>tx. mget (wt_by_socket w) ws = Some tx \<and> tx_id tx = i")
  case True
  then obtain tx0 where tx0: "mget (wt_by_socket w) ws = Some tx0" "tx_id tx0 = i" by blast
  note t = txOkD [OF ok tx0(1)]
  define tx where "tx = tx0\<lparr>tx_timer := False, tx_queue := tl (tx_queue tx0)\<rparr>"
  define s where "s = put_tx ws tx w"
  define r where "r = (case tx_queue tx0 of [] \<Rightarrow> (s, [])
    | packet # _ \<Rightarrow> (let (s1, ok, outs) = sendPacket C target sends packet s
        in (s1, outs @ (if ok then [] else [WsError ws (js ''Web TX frame was not sent.'')]))))"
  have s: "txOk C s" "tx_link s = tx_link w" "wt_session s = wt_session w"
    using t unfolding s_def by (auto intro!: txOk_put [OF ok] simp: tx_def)
  have r: "good (\<lambda>w'. txOk C w' \<and> tx_link w' = tx_link w) (sent_ok C target w ws) r"
  proof (cases "tx_queue tx0")
    case (Cons packet rest)
    obtain s1 b outs where p: "sendPacket C target sends packet s = (s1, b, outs)" by (metis prod.exhaust)
    have live: "\<not> tx_monitorOnly tx0" using t(2) Cons by auto
    then have "mget (wt_by_socket s) ws = Some tx" "\<not> tx_monitorOnly tx" by (simp_all add: s_def tx_def)
    note sent = send_sent [OF s(1) p this]
    have "sent_ok C target s ws out \<Longrightarrow> sent_ok C target w ws out" for out
      using live tx0(1) s(3) by (auto simp: sent_ok_def split: webtx_out.splits)
    then have "list_all (sent_ok C target w ws) outs" using sent(4) by (simp add: list_all_iff)
    moreover have "sent_ok C target w ws (WsError ws (js ''Web TX frame was not sent.''))" by (simp add: sent_ok_def)
    ultimately show ?thesis using sent s(2) by (simp add: r_def Cons p)
  qed (use s in \<open>simp add: r_def\<close>)
  have pump: "good (\<lambda>w'. txOk C w' \<and> tx_link w' = tx_link w) (sent_ok C target w ws)
      ((if tx_queue tx \<noteq> [] then pumpQueue ws tx else (\<lambda>u. (u, []))) u)"
    if u: "txOk C u \<and> tx_link u = tx_link w" for u
  proof (cases "tx_queue tx = []")
    case False
    then have "\<not> tx_monitorOnly tx" "\<not> tx_monitorOnly tx0" using t(2) by (auto simp: tx_def)
    moreover from this have "wt_session u \<noteq> None" using t(3) u by (metis tx_link_None)
    ultimately have "quiet C (tx_link u) (pumpQueue ws tx u)" using u t(1) by (intro pump_quiet) simp_all
    then have "good (\<lambda>w'. txOk C w' \<and> tx_link w' = tx_link w) (sent_ok C target w ws) (pumpQueue ws tx u)"
      by (rule good_mono) (use u no_send_sent in auto)
    with False show ?thesis by simp
  qed (use u in simp)
  have "pump_fires C target sends ws i w =
      andThen (\<lambda>_. r) (if tx_queue tx \<noteq> [] then pumpQueue ws tx else (\<lambda>u. (u, []))) w"
    unfolding pump_fires_def andThen_def Let_def case_prod_beta r_def s_def tx_def using tx0 by simp
  with good_andThen [of _ _ "\<lambda>_. r", OF r pump] show ?thesis by simp
next
  case False
  with ok show ?thesis by (auto simp: pump_fires_def split: option.splits)
qed

end
