(* ===== verification/Ts2Facts.thy ===== *)
theory Ts2Facts
  imports Ts2Router WebTxFacts
begin

section \<open>Facts about the voice router\<close>

text \<open>
  \<open>views\<close> is what the invariant sees of the routes: for each host the address, and of its proxy the
  server, its resolved address and the UDP flows. \<open>routesOk\<close> is about the routes alone, \<open>flowOk\<close>
  ties the active route, the flow that it was chosen by and the session of the transmitter.
  While the callbacks of a proxy run, the flow may be one whose \<open>ClientClose\<close> is still to come
  (\<open>pend\<close>, the callbacks of \<open>host\<close> that are left). \<open>R host ip\<close> says that \<open>ip\<close> is an address that
  the name \<open>host\<close> was resolved to.
\<close>

record route_view =
  rv_address :: jstr
  rv_server :: jstr
  rv_ip :: "jstr option"
  rv_udp :: "(jstr, nat \<times> target) jmap"

definition view :: "route \<Rightarrow> route_view" where
  "view rt = \<lparr>rv_address = rt_address rt, rv_server = tp_server (rt_proxy rt), rv_ip = tp_ip (rt_proxy rt),
     rv_udp = tp_udp (rt_proxy rt)\<rparr>"

definition views :: "voice \<Rightarrow> (jstr, route_view) jmap" where
  "views v = map (\<lambda>(h, rt). (h, view rt)) (vc_routes v)"

definition targetOk :: "nat \<Rightarrow> (jstr \<Rightarrow> jstr \<Rightarrow> bool) \<Rightarrow> jstr \<Rightarrow> target \<Rightarrow> bool" where
  "targetOk port R h t \<longleftrightarrow> snd t = port \<and> (fst t = h \<or> R h (fst t))"

definition viewOk :: "nat \<Rightarrow> (jstr \<Rightarrow> jstr \<Rightarrow> bool) \<Rightarrow> jstr \<Rightarrow> route_view \<Rightarrow> bool" where
  "viewOk port R h w \<longleftrightarrow> rv_server w = h \<and> (\<forall>x. rv_ip w = Some x \<longrightarrow> R h x)
     \<and> (\<forall>key sock t. mget (rv_udp w) key = Some (sock, t) \<longrightarrow> targetOk port R h t)"

definition routesOk :: "voice_env \<Rightarrow> (jstr \<Rightarrow> jstr \<Rightarrow> bool) \<Rightarrow> (jstr, route_view) jmap \<Rightarrow> bool" where
  "routesOk E R m \<longleftrightarrow> mwf m \<and> length m \<le> MAX_SERVERS \<and> distinct (map (\<lambda>p. rv_address (snd p)) m)
     \<and> (\<forall>h w. mget m h = Some w \<longrightarrow> rx_match ts2_host h \<and> rv_address w = local_address (ve_sha256 E h)
          \<and> viewOk (tc_port (ve_ts2 E)) R h w)"

definition linkOk :: "voice \<Rightarrow> nat \<Rightarrow> bool" where
  "linkOk v sock \<longleftrightarrow> (\<forall>k s h. tx_link (vc_tx v) = Some (k, s, h) \<longrightarrow> k = vc_key v \<and> s = sock
     \<and> vc_session v = Some (take 8 (drop 4 h)) \<and> u16 h 0 = CLASS_TXVOICE \<and> length h = 12)"

definition activeOk :: "ts2_out list \<Rightarrow> jstr \<Rightarrow> voice \<Rightarrow> jstr \<Rightarrow> bool" where
  "activeOk pend host v h \<longleftrightarrow> (\<exists>w key sock t. mget (views v) h = Some w
     \<and> vc_key v = scoped_key (rv_address w) key \<and> vc_target v = Some t
     \<and> (mget (rv_udp w) key = Some (sock, t) \<or> (h = host \<and> (\<exists>r. ClientClose key r \<in> set pend)))
     \<and> linkOk v sock)"

definition flowOk :: "voice_env \<Rightarrow> ts2_out list \<Rightarrow> jstr \<Rightarrow> voice \<Rightarrow> bool" where
  "flowOk E pend host v \<longleftrightarrow> txOk (ve_webtx E) (vc_tx v)
     \<and> (\<forall>b. vc_session v = Some b \<longrightarrow> \<not> list_all (\<lambda>x. x = 0) b)
     \<and> (vc_active v = None \<longrightarrow> tx_link (vc_tx v) = None)
     \<and> (\<forall>h. vc_active v = Some h \<longrightarrow> activeOk pend host v h)"

definition no_tx :: "voice_out \<Rightarrow> bool" where
  "no_tx out = (case out of TxOut x \<Rightarrow> no_send x | _ \<Rightarrow> True)"

definition voiceOk :: "voice_env \<Rightarrow> (jstr \<Rightarrow> jstr \<Rightarrow> bool) \<Rightarrow> voice \<Rightarrow> bool" where
  "voiceOk E R v \<longleftrightarrow> routesOk E R (views v) \<and> flowOk E [] [] v"

declare tx_link_None [simp del]

subsection \<open>Views\<close>

lemma map_mput: "map (\<lambda>(h, x). (h, g x)) (mput m k b) = mput (map (\<lambda>(h, x). (h, g x)) m) k (g b)"
  by (induction m) auto

lemma mput_same: "mget m k = Some x \<Longrightarrow> mput m k x = m"
  by (induction m) (auto split: if_splits)

lemma map_mput_value:
  "mget m k = Some y \<Longrightarrow> g y = g x \<Longrightarrow> map (\<lambda>p. g (snd p)) (mput m k x) = map (\<lambda>p. g (snd p)) m"
  by (induction m) (auto split: if_splits)

lemma get_view: "mget (views v) h = map_option view (mget (vc_routes v) h)"
  by (simp add: views_def map_of_map option.map_comp)

lemma views_put: "views (v\<lparr>vc_routes := mput (vc_routes v) h rt\<rparr>) = mput (views v) h (view rt)"
  by (simp add: views_def map_mput)

lemma views_same: "mget (vc_routes v) h = Some rt \<Longrightarrow> view rt' = view rt \<Longrightarrow>
    views (v\<lparr>vc_routes := mput (vc_routes v) h rt'\<rparr>) = views v"
  by (simp add: views_put mput_same get_view)

lemma views_other [simp]:
  "views (v\<lparr>vc_tx := w\<rparr>) = views v" "views (v\<lparr>vc_active := h\<rparr>) = views v"
  "views (v\<lparr>vc_key := k\<rparr>) = views v" "views (v\<lparr>vc_target := t\<rparr>) = views v"
  "views (v\<lparr>vc_session := b\<rparr>) = views v" "views (v\<lparr>vc_closed := c\<rparr>) = views v"
  by (simp_all add: views_def)

lemma scoped_key_eq [simp]: "scoped_key a k = scoped_key a k' \<longleftrightarrow> k = k'"
  by (simp add: scoped_key_def)

lemma put_proxy_other [simp]:
  "vc_active (put_proxy h p v) = vc_active v" "vc_key (put_proxy h p v) = vc_key v"
  "vc_target (put_proxy h p v) = vc_target v" "vc_session (put_proxy h p v) = vc_session v"
  "vc_tx (put_proxy h p v) = vc_tx v" "vc_closed (put_proxy h p v) = vc_closed v"
  by (simp_all add: put_proxy_def split: option.split)

lemma routesOk_put:
  assumes ok: "routesOk E R m" and y: "mget m h = Some y" and x: "rv_address x = rv_address y" "viewOk (tc_port (ve_ts2 E)) R h x"
  shows "routesOk E R (mput m h x)"
proof -
  have "length (mput m h x) = length m" using y by (simp add: length_mput mhas_def)
  moreover have "map (\<lambda>p. rv_address (snd p)) (mput m h x) = map (\<lambda>p. rv_address (snd p)) m"
    by (rule map_mput_value [OF y]) (simp add: x(1))
  ultimately show ?thesis using ok x y unfolding routesOk_def by (simp add: mwf_mput)
qed

subsection \<open>The active route\<close>

lemma flowOk_cong:
  assumes "flowOk E pend host v" "views v' = views v" "vc_active v' = vc_active v" "vc_key v' = vc_key v"
    "vc_target v' = vc_target v" "vc_session v' = vc_session v" "vc_tx v' = vc_tx v"
  shows "flowOk E pend host v'"
  using assms(1) unfolding flowOk_def activeOk_def linkOk_def assms(2-) .

lemma stop_decoder_good:
  "flowOk E pend host v \<Longrightarrow> good (\<lambda>v'. flowOk E pend host v' \<and> views v' = views v) no_tx (stop_decoder h v)"
proof (cases "mget (vc_routes v) h")
  case (Some rt)
  assume ok: "flowOk E pend host v"
  obtain p outs where p: "stopVoiceDecoder (rt_proxy rt) = (p, outs)" by force
  then have "view (rt\<lparr>rt_proxy := p\<rparr>) = view rt" by (auto simp: stopVoiceDecoder_def view_def)
  then have "views (put_proxy h p v) = views v" using Some by (simp add: put_proxy_def views_same)
  moreover from flowOk_cong [OF ok this] have "flowOk E pend host (put_proxy h p v)" by simp
  ultimately show ?thesis by (simp add: stop_decoder_def Some p no_tx_def list_all_iff)
qed (simp add: stop_decoder_def)

definition idle :: "voice_env \<Rightarrow> voice \<Rightarrow> voice \<Rightarrow> bool" where
  "idle E v v' \<longleftrightarrow> views v' = views v \<and> vc_active v' = None \<and> vc_session v' = None
     \<and> txOk (ve_webtx E) (vc_tx v') \<and> tx_link (vc_tx v') = None"

lemma on_tx_good:
  assumes "good (\<lambda>w. I (v\<lparr>vc_tx := w\<rparr>)) P (f (vc_tx v))" "\<And>x. P x \<Longrightarrow> Q (TxOut x)"
  shows "good I Q (on_tx f v)"
  using assms by (auto simp: on_tx_def good_def case_prod_beta Let_def list_all_iff)

lemma clearActive_good:
  assumes ok: "flowOk E pend host v"
  shows "good (idle E v) no_tx (clearActive reason v)"
  unfolding clearActive_def
proof (rule good_then)
  show "good (\<lambda>v'. flowOk E pend host v' \<and> views v' = views v) no_tx
      (case vc_active v of Some h \<Rightarrow> stop_decoder h v | None \<Rightarrow> (v, []))"
    using ok stop_decoder_good [OF ok] by (simp split: option.split)
next
  fix u assume u: "flowOk E pend host u \<and> views u = views v"
  then have t: "txOk (ve_webtx E) (vc_tx u)" by (simp add: flowOk_def)
  show "good (idle E v) no_tx (on_tx (invalidateTxSession reason [])
      (u\<lparr>vc_active := None, vc_key := [], vc_target := None, vc_session := None\<rparr>))"
    by (rule on_tx_good [where P = no_send])
      (use invalidate_quiet [OF t, of "[]" reason] u in \<open>auto simp: good_def idle_def no_tx_def\<close>)
qed simp

lemma idle_flow: "idle E v v' \<Longrightarrow> flowOk E pend host v'"
  by (simp add: idle_def flowOk_def)

text \<open>The session is dropped or kept by \<open>invalidateTxSession\<close>.\<close>

lemma invalidate_flow:
  assumes ok: "flowOk E pend host v"
  shows "good (\<lambda>v'. flowOk E pend host v' \<and> views v' = views v) no_tx (on_tx (invalidateTxSession reason k) v)"
proof (rule on_tx_good [where P = no_send])
  have t: "txOk (ve_webtx E) (vc_tx v)" using ok by (simp add: flowOk_def)
  have "flowOk E pend host (v\<lparr>vc_tx := w\<rparr>)"
    if "txOk (ve_webtx E) w" "tx_link w = tx_link (vc_tx v) \<or> tx_link w = None" for w
  proof -
    have "linkOk v sock \<Longrightarrow> linkOk (v\<lparr>vc_tx := w\<rparr>) sock" for sock using that(2) by (auto simp: linkOk_def)
    then have "activeOk pend host v h \<Longrightarrow> activeOk pend host (v\<lparr>vc_tx := w\<rparr>) h" for h
      unfolding activeOk_def by simp blast
    with ok that show ?thesis by (auto simp: flowOk_def)
  qed
  then show "good (\<lambda>w. flowOk E pend host (v\<lparr>vc_tx := w\<rparr>) \<and> views (v\<lparr>vc_tx := w\<rparr>) = views v) no_send
      (invalidateTxSession reason k (vc_tx v))"
    by (intro good_mono [OF invalidate_quiet [OF t]]) (auto split: if_splits)
qed (simp add: no_tx_def)

subsection \<open>Callbacks\<close>

lemma flow_active_mono:
  assumes "activeOk pend host v h"
    "\<And>k r. h = host \<Longrightarrow> ClientClose k r \<in> set pend \<Longrightarrow> h = host' \<and> ClientClose k r \<in> set pend'"
  shows "activeOk pend' host' v h"
  using assms unfolding activeOk_def by blast

lemma flowOk_mono:
  assumes "flowOk E pend host v"
    "\<And>k r. ClientClose k r \<in> set pend \<Longrightarrow> host' = host \<and> ClientClose k r \<in> set pend'"
  shows "flowOk E pend' host' v"
proof -
  have "activeOk pend host v h \<Longrightarrow> activeOk pend' host' v h" for h
    by (erule flow_active_mono) (use assms(2) in auto)
  with assms(1) show ?thesis by (simp add: flowOk_def)
qed

lemma flowOk_drop:
  assumes "\<And>k r. out \<noteq> ClientClose k r" "flowOk E (out # pend) host v"
  shows "flowOk E pend host v"
  by (rule flowOk_mono [OF assms(2)]) (use assms(1) in auto)

lemma login_good:
  assumes ok: "flowOk E pend host v" and w: "mget (views v) host = Some w" "mget (rv_udp w) key = Some (sock, t)"
  shows "good (\<lambda>v'. flowOk E pend host v' \<and> views v' = views v) no_tx
    (if is_login packet
     then andThen (clearActive (js ''voice connection changed''))
            (\<lambda>v. (v\<lparr>vc_active := Some host, vc_key := scoped_key (rv_address w) key, vc_target := Some t\<rparr>, [])) v
     else (v, []))"
proof (rule good_if)
  show "good (\<lambda>v'. flowOk E pend host v' \<and> views v' = views v) no_tx
     (andThen (clearActive (js ''voice connection changed''))
        (\<lambda>v. (v\<lparr>vc_active := Some host, vc_key := scoped_key (rv_address w) key, vc_target := Some t\<rparr>, [])) v)"
  proof (rule good_then)
    show "good (idle E v) no_tx (clearActive (js ''voice connection changed'') v)" by (rule clearActive_good [OF ok])
  qed (use w in \<open>auto simp: idle_def flowOk_def activeOk_def linkOk_def simp del: split_paired_Ex\<close>)
qed (use ok in simp)

lemma learn_flow:
  assumes "flowOk E pend host v"
  shows "flowOk E pend host (learn_session key packet v)" "views (learn_session key packet v) = views v"
    "vc_active (learn_session key packet v) = vc_active v"
proof -
  have "linkOk v sock \<Longrightarrow> vc_session v = None \<Longrightarrow> linkOk (v\<lparr>vc_session := b\<rparr>) sock" for sock b
    by (auto simp: linkOk_def)
  then have "activeOk pend host v h \<Longrightarrow> vc_session v = None \<Longrightarrow> activeOk pend host (v\<lparr>vc_session := b\<rparr>) h" for b h
    unfolding activeOk_def by simp blast
  with assms show "flowOk E pend host (learn_session key packet v)" by (auto simp: learn_session_def flowOk_def)
qed (simp_all add: learn_session_def)

lemma seed_packet: "is_seed packet \<Longrightarrow> u16 packet 0 = CLASS_TXVOICE \<or> isTxSeedSetupPacket packet"
  by (auto simp: is_seed_def is_setup_def isTxSeedSetupPacket_def CLASS_TXVOICE_def CLASS_SESSION_def CLASS_ACK_def
      CLASS_CONTROL_def Let_def)

lemma seed_good:
  assumes ok: "flowOk E pend host v" and noclose: "\<forall>k r. ClientClose k r \<notin> set pend"
    and w: "mget (views v) host = Some w" "mget (rv_udp w) key = Some (sock, t)"
    and packet: "16 \<le> length packet" "is_seed packet" "vc_session v = Some (session_of packet)"
    and active: "vc_active v = Some host"
  shows "good (\<lambda>v'. flowOk E pend host v' \<and> views v' = views v) no_tx
    (on_tx (cacheTxSession packet (scoped_key (rv_address w) key) sock)
       (v\<lparr>vc_key := scoped_key (rv_address w) key, vc_target := Some t\<rparr>))"
proof (rule on_tx_good [where P = no_send])
  let ?k = "scoped_key (rv_address w) key" and ?b = "take 8 (drop 4 packet)"
  have tx: "txOk (ve_webtx E) (vc_tx v)" using ok by (simp add: flowOk_def)
  have nonzero: "\<not> list_all (\<lambda>x. x = 0) ?b" using ok packet(3) by (simp add: flowOk_def session_of_def)
  obtain w' key' sock' where *: "mget (views v) host = Some w'" "vc_key v = scoped_key (rv_address w') key'"
      "\<exists>t. mget (rv_udp w') key' = Some (sock', t)" "linkOk v sock'"
    using ok active noclose unfolding flowOk_def activeOk_def by blast
  have same: "s = sock" if "tx_link (vc_tx v) = Some (?k, s, h)" for s h
    using that * w unfolding linkOk_def by auto
  have "flowOk E pend host (v\<lparr>vc_key := ?k, vc_target := Some t, vc_tx := u\<rparr>)"
    if u: "txOk (ve_webtx E) u" "link_of ?k sock ?b (vc_tx v) u" for u
  proof -
    obtain s h where sh: "tx_link u = Some (?k, s, h)" "length h = 12" "take 8 (drop 4 h) = ?b" "u16 h 0 = CLASS_TXVOICE"
        "s = sock \<or> tx_link (vc_tx v) = Some (?k, s, h)"
      using u(2) unfolding link_of_def by blast
    have "s = sock" using sh(5) same by blast
    then have "linkOk (v\<lparr>vc_key := ?k, vc_target := Some t, vc_tx := u\<rparr>) sock"
      using sh packet(3) by (simp add: linkOk_def session_of_def)
    then have "activeOk pend host (v\<lparr>vc_key := ?k, vc_target := Some t, vc_tx := u\<rparr>) host"
      using w unfolding activeOk_def by auto
    with ok u(1) active show ?thesis by (simp add: flowOk_def)
  qed
  then show "good (\<lambda>u. flowOk E pend host (v\<lparr>vc_key := ?k, vc_target := Some t, vc_tx := u\<rparr>)
        \<and> views (v\<lparr>vc_key := ?k, vc_target := Some t, vc_tx := u\<rparr>) = views v) no_send
      (cacheTxSession packet ?k sock (vc_tx (v\<lparr>vc_key := ?k, vc_target := Some t\<rparr>)))"
    using good_mono [OF cache_quiet [OF tx packet(1) seed_packet [OF packet(2)] nonzero, of ?k sock]] by simp
qed (simp add: no_tx_def)

lemma packet_good:
  assumes ok: "flowOk E (ClientPacket packet key sock t # pend) host v" and noclose: "\<forall>k r. ClientClose k r \<notin> set pend"
    and w: "mget (views v) host = Some w" "mget (rv_udp w) key = Some (sock, t)"
  shows "good (\<lambda>v'. flowOk E pend host v' \<and> views v' = views v) no_tx
    (onClientPacket host (rv_address w) packet key sock t v)"
proof -
  note ok = flowOk_drop [OF _ ok, simplified]
  let ?k = "scoped_key (rv_address w) key"
  have rest: "good (\<lambda>v'. flowOk E pend host v' \<and> views v' = views v) no_tx
    (if vc_active u \<noteq> Some host \<or> length packet < 16 then (u, [])
     else (let v1 = learn_session ?k packet u in
       if \<not> is_seed packet \<or> vc_session v1 \<noteq> Some (session_of packet) then (v1, [])
       else on_tx (cacheTxSession packet ?k sock) (v1\<lparr>vc_key := ?k, vc_target := Some t\<rparr>)))"
    if u: "flowOk E pend host u \<and> views u = views v" for u
  proof -
    let ?l = "learn_session ?k packet u"
    note l = learn_flow [of E pend host u ?k packet]
    have seed: "good (\<lambda>v'. flowOk E pend host v' \<and> views v' = views ?l) no_tx
        (on_tx (cacheTxSession packet ?k sock) (?l\<lparr>vc_key := ?k, vc_target := Some t\<rparr>))"
      if "vc_active u = Some host" "16 \<le> length packet" "is_seed packet" "vc_session ?l = Some (session_of packet)"
      using that w l u by (intro seed_good noclose) auto
    show ?thesis unfolding Let_def
      by (intro good_if) (use u l seed in \<open>simp_all add: not_less\<close>)
  qed
  show ?thesis unfolding onClientPacket_def Let_def
  proof (rule good_then)
    show "good (\<lambda>v'. flowOk E pend host v' \<and> views v' = views v) no_tx
      ((if is_login packet
        then andThen (clearActive (js ''voice connection changed''))
               (\<lambda>v. (v\<lparr>vc_active := Some host, vc_key := ?k, vc_target := Some t\<rparr>, []))
        else (\<lambda>v. (v, []))) v)"
      using login_good [OF ok w, of packet] by (cases "is_login packet") simp_all
  qed (use rest in \<open>simp_all only: Let_def\<close>)
qed

lemma close_good:
  assumes ok: "flowOk E (ClientClose key reason # pend) host v" and w: "mget (views v) host = Some w"
  shows "good (\<lambda>v'. flowOk E pend host v' \<and> views v' = views v) no_tx
    (onClientClose host (rv_address w) key reason v)"
  unfolding onClientClose_def Let_def
proof (rule good_then)
  let ?k = "scoped_key (rv_address w) key"
  show "good (\<lambda>v'. flowOk E pend host v' \<and> views v' = views v) no_tx
      (if vc_active v = Some host \<and> vc_key v = ?k then clearActive reason v else (v, []))"
  proof (rule good_if)
    show "good (\<lambda>v'. flowOk E pend host v' \<and> views v' = views v) no_tx (clearActive reason v)"
      by (rule good_mono [OF clearActive_good [OF ok]]) (simp_all add: idle_flow, simp add: idle_def)
  next
    assume other: "\<not> (vc_active v = Some host \<and> vc_key v = ?k)"
    have "activeOk pend host v h" if a: "vc_active v = Some h" "activeOk (ClientClose key reason # pend) host v h" for h
    proof -
      obtain w' key' sock t where *: "mget (views v) h = Some w'" "vc_key v = scoped_key (rv_address w') key'"
          "vc_target v = Some t" "linkOk v sock"
          "mget (rv_udp w') key' = Some (sock, t)
            \<or> h = host \<and> (\<exists>r. ClientClose key' r \<in> set (ClientClose key reason # pend))"
        using a(2) unfolding activeOk_def by blast
      have "mget (rv_udp w') key' = Some (sock, t) \<or> h = host \<and> (\<exists>r. ClientClose key' r \<in> set pend)"
        using * a(1) other w by auto
      with * show ?thesis unfolding activeOk_def by blast
    qed
    then show "good (\<lambda>v'. flowOk E pend host v' \<and> views v' = views v) no_tx (v, [])"
      using ok by (simp add: flowOk_def)
  qed
next
  fix u assume u: "flowOk E pend host u \<and> views u = views v"
  show "good (\<lambda>v'. flowOk E pend host v' \<and> views v' = views v) no_tx
      (on_tx (invalidateTxSession (if reason = [] then js ''TS2 UDP client closed'' else reason)
         (scoped_key (rv_address w) key)) u)"
    using good_mono [OF invalidate_flow] u by auto
qed simp

lemma callbacks_good:
  assumes "flowOk E outs host v" "mget (views v) host = Some w"
    and "\<And>m k s t. ClientPacket m k s t \<in> set outs \<Longrightarrow>
      mget (rv_udp w) k = Some (s, t) \<and> (\<forall>k r. ClientClose k r \<notin> set outs)"
  shows "good (\<lambda>v'. flowOk E [] host v' \<and> views v' = views v) no_tx (each (callback host (rv_address w)) outs v)"
  using assms
proof (induction outs arbitrary: v)
  case (Cons out outs)
  have out: "good (\<lambda>v'. flowOk E outs host v' \<and> views v' = views v) no_tx (callback host (rv_address w) out v)"
  proof (cases "\<exists>m k s t. out = ClientPacket m k s t")
    case True
    then obtain m k s t where o: "out = ClientPacket m k s t" by blast
    with Cons.prems(3) [of m k s t] have "mget (rv_udp w) k = Some (s, t)" "\<forall>k r. ClientClose k r \<notin> set outs" by simp_all
    with Cons.prems(1,2) show ?thesis by (simp add: o packet_good)
  next
    case False
    show ?thesis
    proof (cases "\<exists>k r. out = ClientClose k r")
      case True
      then show ?thesis using Cons.prems(1,2) close_good by auto
    next
      case other: False
      have "flowOk E outs host v" by (rule flowOk_drop [OF _ Cons.prems(1)]) (use other in blast)
      with False other show ?thesis by (cases out) (auto simp: no_tx_def)
    qed
  qed
  have rest: "good (\<lambda>v'. flowOk E [] host v' \<and> views v' = views v) no_tx (each (callback host (rv_address w)) outs u)"
    if u: "flowOk E outs host u \<and> views u = views v" for u
  proof -
    have "mget (rv_udp w) k = Some (s, t) \<and> (\<forall>k r. ClientClose k r \<notin> set outs)"
      if "ClientPacket m k s t \<in> set outs" for m k s t using Cons.prems(3) [of m k s t] that by simp
    then show ?thesis using Cons.IH [of u] Cons.prems(2) u by simp
  qed
  show ?case unfolding each.simps
  proof (rule good_then)
    show "good (\<lambda>v'. flowOk E outs host v' \<and> views v' = views v) no_tx (callback host (rv_address w) out v)"
      by (rule out)
  qed (use rest in simp_all)
qed simp

subsection \<open>What the router needs of the operations of a proxy\<close>

text \<open>
  An operation keeps the targets of the proxy right; a flow that it removes is closed by a
  callback; and a packet is shown with the socket and the target of its flow.
\<close>

definition proxyOk :: "nat \<Rightarrow> (jstr \<Rightarrow> jstr \<Rightarrow> bool) \<Rightarrow> jstr \<Rightarrow> ts2 \<Rightarrow> bool" where
  "proxyOk port R h p \<longleftrightarrow> tp_server p = h \<and> (\<forall>x. tp_ip p = Some x \<longrightarrow> R h x)
     \<and> (\<forall>key sock t. mget (tp_udp p) key = Some (sock, t) \<longrightarrow> targetOk port R h t)"

lemma proxyOk_view: "proxyOk port R h (rt_proxy rt) \<longleftrightarrow> viewOk port R h (view rt)"
  by (simp add: proxyOk_def viewOk_def view_def)

locale proxy_operation =
  fixes E :: voice_env and R :: "jstr \<Rightarrow> jstr \<Rightarrow> bool" and host :: jstr and f :: ts2_handler
  assumes keeps: "proxyOk (tc_port (ve_ts2 E)) R host p \<Longrightarrow> proxyOk (tc_port (ve_ts2 E)) R host (fst (f p))"
    and closes: "mget (tp_udp p) key = Some (sock, t) \<Longrightarrow>
      mget (tp_udp (fst (f p))) key = Some (sock, t) \<or> (\<exists>r. ClientClose key r \<in> set (snd (f p)))"
    and shows_flow: "ClientPacket m key sock t \<in> set (snd (f p)) \<Longrightarrow>
      mget (tp_udp (fst (f p))) key = Some (sock, t) \<and> (\<forall>k r. ClientClose k r \<notin> set (snd (f p)))"
begin

lemma operation_good:
  assumes ok: "voiceOk E R v"
  shows "good (voiceOk E R) no_tx (proxy_op host f v)"
proof (cases "mget (vc_routes v) host")
  case (Some rt)
  obtain p outs where p: "f (rt_proxy rt) = (p, outs)" by force
  let ?w = "view (rt\<lparr>rt_proxy := p\<rparr>)" and ?v = "put_proxy host p v"
  have V: "views ?v = mput (views v) host ?w" using Some by (simp add: put_proxy_def views_put)
  have old: "mget (views v) host = Some (view rt)" using Some by (simp add: get_view)
  have r: "routesOk E R (views v)" and flow: "flowOk E [] [] v" using ok by (simp_all add: voiceOk_def)
  have "proxyOk (tc_port (ve_ts2 E)) R host (rt_proxy rt)" using r old by (simp add: routesOk_def proxyOk_view)
  then have "proxyOk (tc_port (ve_ts2 E)) R host (rt_proxy (rt\<lparr>rt_proxy := p\<rparr>))" using keeps [of "rt_proxy rt"] p by simp
  then have view: "viewOk (tc_port (ve_ts2 E)) R host ?w" by (simp only: proxyOk_view)
  have routes: "routesOk E R (views ?v)" unfolding V by (rule routesOk_put [OF r old _ view]) (simp add: view_def)
  have "activeOk outs host ?v h" if a: "activeOk [] [] v h" for h
  proof -
    obtain w key sock t where *: "mget (views v) h = Some w" "vc_key v = scoped_key (rv_address w) key"
        "vc_target v = Some t" "linkOk v sock" "mget (rv_udp w) key = Some (sock, t)"
      using a unfolding activeOk_def by auto
    have l: "linkOk ?v sock" using *(4) by (simp add: linkOk_def)
    show ?thesis
    proof (cases "h = host")
      case True
      then have w: "w = view rt" using *(1) old by simp
      then have "mget (tp_udp p) key = Some (sock, t) \<or> (\<exists>r. ClientClose key r \<in> set outs)"
        using closes [of "rt_proxy rt" key sock t] *(5) p by (simp add: view_def)
      then have "mget (rv_udp ?w) key = Some (sock, t) \<or> (h = host \<and> (\<exists>r. ClientClose key r \<in> set outs))"
        using True by (simp add: view_def)
      moreover have "mget (views ?v) h = Some ?w" using True by (simp add: V)
      moreover have "vc_key ?v = scoped_key (rv_address ?w) key" using *(2) w by (simp add: view_def)
      ultimately show ?thesis using *(3) l unfolding activeOk_def by (simp del: split_paired_Ex) blast
    next
      case False
      then have "mget (views ?v) h = Some w" using *(1) by (simp add: V)
      with * l show ?thesis unfolding activeOk_def by (simp del: split_paired_Ex) blast
    qed
  qed
  with flow have "flowOk E outs host ?v" by (simp add: flowOk_def)
  then have "good (\<lambda>v'. flowOk E [] host v' \<and> views v' = views ?v) no_tx (each (callback host (rv_address ?w)) outs ?v)"
  proof (rule callbacks_good)
    show "mget (views ?v) host = Some ?w" by (simp add: V)
  next
    fix m k s t assume "ClientPacket m k s t \<in> set outs"
    then show "mget (rv_udp ?w) k = Some (s, t) \<and> (\<forall>k r. ClientClose k r \<notin> set outs)"
      using shows_flow [of m k s t "rt_proxy rt"] p by (simp add: view_def)
  qed
  then have "good (voiceOk E R) no_tx (each (callback host (rv_address ?w)) outs ?v)"
    by (rule good_mono) (use routes in \<open>auto simp: voiceOk_def intro: flowOk_mono\<close>)
  then show ?thesis using Some p by (simp add: proxy_op_def view_def)
qed (use ok in \<open>simp add: proxy_op_def\<close>)

end

end
