(* ===== verification/Ts2Props.thy ===== *)
theory Ts2Props
  imports Ts2Facts
begin

section \<open>Properties of the voice side\<close>

subsection \<open>The operations of a proxy\<close>

text \<open>Most operations change no flow except that they remove some, each with its callback.\<close>

definition tidy_at :: "ts2 \<Rightarrow> ts2 \<times> ts2_out list \<Rightarrow> bool" where
  "tidy_at p r \<longleftrightarrow> tp_server (fst r) = tp_server p \<and> tp_ip (fst r) = tp_ip p
     \<and> (\<forall>key x. mget (tp_udp (fst r)) key = Some x \<longrightarrow> mget (tp_udp p) key = Some x)
     \<and> (\<forall>key x. mget (tp_udp p) key = Some x \<longrightarrow>
          mget (tp_udp (fst r)) key = Some x \<or> (\<exists>r'. ClientClose key r' \<in> set (snd r)))
     \<and> (\<forall>m key sock t. ClientPacket m key sock t \<notin> set (snd r))"

definition tidy :: "ts2_handler \<Rightarrow> bool" where
  "tidy f \<longleftrightarrow> (\<forall>p. tidy_at p (f p))"

lemma tidyD:
  assumes "tidy f"
  shows "tp_server (fst (f p)) = tp_server p" "tp_ip (fst (f p)) = tp_ip p"
    "mget (tp_udp (fst (f p))) key = Some x \<Longrightarrow> mget (tp_udp p) key = Some x"
    "mget (tp_udp p) key = Some x \<Longrightarrow>
       mget (tp_udp (fst (f p))) key = Some x \<or> (\<exists>r. ClientClose key r \<in> set (snd (f p)))"
    "ClientPacket m key sock t \<notin> set (snd (f p))"
  using assms unfolding tidy_def tidy_at_def by blast+

lemma tidyI:
  assumes "\<And>p. tp_server (fst (f p)) = tp_server p" "\<And>p. tp_ip (fst (f p)) = tp_ip p"
    "\<And>p key x. mget (tp_udp (fst (f p))) key = Some x \<Longrightarrow> mget (tp_udp p) key = Some x"
    "\<And>p key x. mget (tp_udp p) key = Some x \<Longrightarrow>
       mget (tp_udp (fst (f p))) key = Some x \<or> (\<exists>r. ClientClose key r \<in> set (snd (f p)))"
    "\<And>p m key sock t. ClientPacket m key sock t \<notin> set (snd (f p))"
  shows "tidy f"
  unfolding tidy_def tidy_at_def using assms by blast

lemma tidy_andThen: assumes f: "tidy f" and g: "tidy g" shows "tidy (andThen f g)"
proof -
  have e: "fst (andThen f g p) = fst (g (fst (f p)))" "snd (andThen f g p) = snd (f p) @ snd (g (fst (f p)))" for p
    by (simp_all add: andThen_def case_prod_beta Let_def)
  have "mget (tp_udp (fst (g (fst (f p))))) key = Some x
      \<or> (\<exists>r. ClientClose key r \<in> set (snd (f p) @ snd (g (fst (f p)))))" if "mget (tp_udp p) key = Some x" for p key x
    using tidyD(4) [OF f that] tidyD(4) [OF g, of "fst (f p)" key x] by auto
  note closes = this
  show ?thesis
  proof (rule tidyI, unfold e)
    show "tp_server (fst (g (fst (f p)))) = tp_server p" for p by (simp only: tidyD(1) [OF f] tidyD(1) [OF g])
    show "tp_ip (fst (g (fst (f p)))) = tp_ip p" for p by (simp only: tidyD(2) [OF f] tidyD(2) [OF g])
    show "mget (tp_udp (fst (g (fst (f p))))) key = Some x \<Longrightarrow> mget (tp_udp p) key = Some x" for p key x
      by (rule tidyD(3) [OF f], rule tidyD(3) [OF g])
    show "ClientPacket m key sock t \<notin> set (snd (f p) @ snd (g (fst (f p))))" for p m key sock t
      using tidyD(5) [OF f, of m key sock t p] tidyD(5) [OF g, of m key sock t "fst (f p)"] by simp
  qed (rule closes)
qed

lemma tidy_each: "(\<And>x. tidy (f x)) \<Longrightarrow> tidy (each f xs)"
proof (induction xs)
  case (Cons x xs)
  have "each f (x # xs) = andThen (f x) (each f xs)" by (rule ext) simp
  with Cons show ?case by (simp only: tidy_andThen)
next
  case Nil
  show ?case by (rule tidyI) simp_all
qed

lemma tidy_state: assumes "\<And>p. tidy (f p)" shows "tidy (\<lambda>p. f p p)"
  using assms unfolding tidy_def by blast

lemma tidy_cleanup: "tidy (cleanupUdpClient key sock reason)"
  unfolding tidy_def tidy_at_def cleanupUdpClient_def by (auto split: option.split if_splits)

lemma tidy_reset: "tidy (resetUdpClients reason)"
proof -
  have "tidy (\<lambda>p. each (\<lambda>(key, sock, t). andThen (cleanupUdpClient key sock reason) (\<lambda>s. (s, [CloseUdp sock])))
      (tp_udp p) p)"
  proof (rule tidy_state, rule tidy_each)
    fix x :: "jstr \<times> nat \<times> target"
    obtain key sock t where x: "x = (key, sock, t)" by (metis prod_cases3)
    have "tidy (\<lambda>s. (s, [CloseUdp sock]))" by (simp add: tidy_def tidy_at_def)
    then show "tidy (case x of (key, sock, t) \<Rightarrow> andThen (cleanupUdpClient key sock reason) (\<lambda>s. (s, [CloseUdp sock])))"
      unfolding x by (simp add: tidy_andThen tidy_cleanup)
  qed
  then show ?thesis by (simp add: resetUdpClients_def [abs_def])
qed

lemma tidy_close: "tidy (close_proxy reason)"
  unfolding close_proxy_def
proof (intro tidy_andThen tidy_reset)
  show "tidy stopVoiceDecoder" by (auto simp: tidy_def tidy_at_def stopVoiceDecoder_def split: option.split)
qed (auto simp: tidy_def tidy_at_def)

lemma tidy_if: "tidy f \<Longrightarrow> tidy g \<Longrightarrow> tidy (if b then f else g)"
  by simp

lemma tidy_at_nothing [simp]: "tidy_at p (p, [])"
  by (simp add: tidy_at_def)

lemma tidy_cond: "tidy f \<Longrightarrow> tidy (\<lambda>s. if b s then f s else (s, []))"
  by (simp add: tidy_def)

lemma tidy_nothing: "tidy (\<lambda>p. (p, []))"
  by (rule tidyI) simp_all

lemma tidy_decode: "tidy (decodeIncomingVoice C d serial payload)"
proof -
  obtain w h where "headers (new_writer (tc_sampleRate C) (tc_framesPerPacket C) serial) = (w, h)" by force
  then have "tidy (startVoiceDecoder C d serial)"
    by (intro tidyI) (auto simp: startVoiceDecoder_def split: if_splits)
  moreover have "tidy (\<lambda>s. case tp_decoder s of None \<Rightarrow> (s, [])
      | Some (i, w) \<Rightarrow> (let speex = drop (tc_stripBytes C) payload in
          if speex = [] then (s, [])
          else (let (w1, p) = frame speex w in (s\<lparr>tp_decoder := Some (i, w1)\<rparr>, [DecoderWrite i p]))))"
    by (auto simp: tidy_def tidy_at_def Let_def case_prod_beta split: option.split)
  ultimately have "tidy (if \<not> tc_voiceDecode C then (\<lambda>s. (s, [])) else andThen (startVoiceDecoder C d serial)
      (\<lambda>s. case tp_decoder s of None \<Rightarrow> (s, [])
        | Some (i, w) \<Rightarrow> (let speex = drop (tc_stripBytes C) payload in
            if speex = [] then (s, [])
            else (let (w1, p) = frame speex w in (s\<lparr>tp_decoder := Some (i, w1)\<rparr>, [DecoderWrite i p])))))"
    by (intro tidy_if tidy_andThen) (simp_all add: tidy_nothing)
  then show ?thesis unfolding decodeIncomingVoice_def [abs_def] by (cases "tc_voiceDecode C") simp_all
qed

lemma tidy_reply: "tidy (server_reply C key sock reply shouldDecode d serial)"
proof -
  define D where "D = (if \<not> shouldDecode then (\<lambda>s. (s, []))
    else (let cls = (if length reply \<ge> 2 then u16 reply 0 else 0); subtype = (if length reply \<ge> 4 then u16 reply 2 else 0)
      in if cls = CLASS_RXVOICE \<and> subtype = SUBTYPE_VOICE \<and> length reply > RX_HEADER_BYTES
         then decodeIncomingVoice C d serial (drop RX_HEADER_BYTES reply)
         else if cls = CLASS_SVOICE \<and> subtype = SUBTYPE_VOICE \<and> length reply > 20
         then decodeIncomingVoice C d serial (drop 20 reply) else (\<lambda>s. (s, []))))"
  have "tidy (andThen (\<lambda>s. (s, [ToClient key reply])) D)"
    unfolding D_def Let_def by (intro tidy_andThen tidy_if tidy_decode tidy_nothing) (simp add: tidy_def tidy_at_def)
  then have "tidy (\<lambda>s. if \<exists>t. mget (tp_udp s) key = Some (sock, t) then andThen (\<lambda>s. (s, [ToClient key reply])) D s else (s, []))"
    by (rule tidy_cond)
  moreover have "server_reply C key sock reply shouldDecode d serial = (\<lambda>s. if \<exists>t. mget (tp_udp s) key = Some (sock, t)
      then andThen (\<lambda>s. (s, [ToClient key reply])) D s else (s, []))"
  proof (rule ext)
    fix s
    show "server_reply C key sock reply shouldDecode d serial s = (if \<exists>t. mget (tp_udp s) key = Some (sock, t)
        then andThen (\<lambda>s. (s, [ToClient key reply])) D s else (s, []))"
      unfolding server_reply_def D_def [symmetric] by (simp split: option.split)
  qed
  ultimately show ?thesis by simp
qed

lemma tidy_operation: assumes "tidy f" shows "proxy_operation E R host f"
proof
  show "proxyOk (tc_port (ve_ts2 E)) R host p \<Longrightarrow> proxyOk (tc_port (ve_ts2 E)) R host (fst (f p))" for p
    using tidyD(1,2,3) [OF assms] unfolding proxyOk_def by metis
qed (use tidyD(4,5) [OF assms] in blast)+

interpretation reset_op: proxy_operation E R host "resetUdpClients reason" for E R host reason
  by (rule tidy_operation [OF tidy_reset])

interpretation close_op: proxy_operation E R host "close_proxy reason" for E R host reason
  by (rule tidy_operation [OF tidy_close])

interpretation reply_op: proxy_operation E R host "server_reply C key sock reply b d serial" for E R host C key sock reply b d serial
  by (rule tidy_operation [OF tidy_reply])

interpretation error_op: proxy_operation E R host "udp_error key sock" for E R host key sock
  unfolding udp_error_def
  by (rule tidy_operation, intro tidy_andThen tidy_cleanup) (simp add: tidy_def tidy_at_def)

interpretation closed_op: proxy_operation E R host "udp_closed key sock" for E R host key sock
  unfolding udp_closed_def by (rule tidy_operation [OF tidy_cleanup])

interpretation data_op: proxy_operation E R host "decoder_data d pcm" for E R host d pcm
  by (rule tidy_operation) (auto simp: tidy_def tidy_at_def decoder_data_def split: option.split)

interpretation exit_op: proxy_operation E R host "decoder_exit d" for E R host d
  by (rule tidy_operation) (auto simp: tidy_def tidy_at_def decoder_exit_def split: option.split)

interpretation tcp_open_op: proxy_operation E R host "tcp_open C i address" for E R host C i address
  by (rule tidy_operation) (auto simp: tidy_def tidy_at_def tcp_open_def)

interpretation tcp_closed_op: proxy_operation E R host "tcp_closed i" for E R host i
  by (rule tidy_operation) (auto simp: tidy_def tidy_at_def tcp_closed_def)

interpretation tcp_data_op: proxy_operation E R host "tcp_data from_client i b" for E R host from_client i b
  by (rule tidy_operation) (auto simp: tidy_def tidy_at_def tcp_data_def)

interpretation message_op: proxy_operation E R host "udp_message (route_config E) address port msg sock" for E R host address port msg sock
proof
  have target: "proxyOk (tc_port (ve_ts2 E)) R host p \<Longrightarrow> targetOk (tc_port (ve_ts2 E)) R host (getTarget (route_config E) p)" for p
    by (auto simp: proxyOk_def targetOk_def getTarget_def route_config_def split: option.split)
  show "proxyOk (tc_port (ve_ts2 E)) R host p \<Longrightarrow>
      proxyOk (tc_port (ve_ts2 E)) R host (fst (udp_message (route_config E) address port msg sock p))" for p
    using target [of p] by (auto simp: udp_message_def Let_def proxyOk_def split: option.splits if_splits)
qed (auto simp: udp_message_def Let_def mhas_def split: option.splits if_splits)

lemma dns_op: "(\<And>x. ip = Some x \<Longrightarrow> R host x) \<Longrightarrow> proxy_operation E R host (dns_answer g ip)"
  by unfold_locales (auto simp: dns_answer_def proxyOk_def split: option.splits if_splits)

subsection \<open>Every event keeps the invariant\<close>

definition resolves :: "(jstr \<Rightarrow> jstr \<Rightarrow> bool) \<Rightarrow> voice_in \<Rightarrow> bool" where
  "resolves R e = (case e of DnsAnswer host g (Some ip) \<Rightarrow> R host ip | _ \<Rightarrow> True)"

abbreviation safe :: "voice_env \<Rightarrow> (jstr \<Rightarrow> jstr \<Rightarrow> bool) \<Rightarrow> voice \<times> voice_out list \<Rightarrow> bool" where
  "safe E R \<equiv> good (voiceOk E R) no_tx"

lemma voiceOk_cong:
  assumes "voiceOk E R v" "views v' = views v" "vc_active v' = vc_active v" "vc_key v' = vc_key v"
    "vc_target v' = vc_target v" "vc_session v' = vc_session v" "vc_tx v' = vc_tx v"
  shows "voiceOk E R v'"
  using assms flowOk_cong [of E "[]" "[]" v v'] by (simp add: voiceOk_def)

lemma clear_safe:
  assumes "voiceOk E R v"
  shows "safe E R (clearActive reason v)"
proof -
  have "flowOk E [] [] v" using assms by (simp add: voiceOk_def)
  from clearActive_good [OF this] show ?thesis
    by (rule good_mono) (use assms in \<open>simp_all add: voiceOk_def idle_flow\<close>, simp add: idle_def)
qed

lemma stop_safe:
  assumes "voiceOk E R v"
  shows "safe E R (stop_decoder h v)"
proof -
  have "flowOk E [] [] v" using assms by (simp add: voiceOk_def)
  from stop_decoder_good [OF this] show ?thesis by (rule good_mono) (use assms in \<open>simp_all add: voiceOk_def\<close>)
qed

lemma on_tx_safe:
  assumes ok: "voiceOk E R v" and q: "quiet (ve_webtx E) (tx_link (vc_tx v)) (f (vc_tx v))"
  shows "safe E R (on_tx f v)"
proof (rule on_tx_good [where P = no_send])
  have "flowOk E [] [] (v\<lparr>vc_tx := w\<rparr>)" if "txOk (ve_webtx E) w" "tx_link w = tx_link (vc_tx v)" for w
  proof -
    have "activeOk [] [] v h \<Longrightarrow> activeOk [] [] (v\<lparr>vc_tx := w\<rparr>) h" for h
      unfolding activeOk_def linkOk_def using that(2) by simp
    with ok that show ?thesis by (auto simp: voiceOk_def flowOk_def)
  qed
  with ok show "good (\<lambda>w. voiceOk E R (v\<lparr>vc_tx := w\<rparr>)) no_send (f (vc_tx v))"
    by (intro good_mono [OF q]) (auto simp: voiceOk_def)
qed (simp add: no_tx_def)

lemma invalidate_safe:
  assumes "voiceOk E R v"
  shows "safe E R (on_tx (invalidateTxSession reason k) v)"
proof -
  have "flowOk E [] [] v" using assms by (simp add: voiceOk_def)
  from invalidate_flow [OF this] show ?thesis by (rule good_mono) (use assms in \<open>simp_all add: voiceOk_def\<close>)
qed

lemma fail_safe:
  assumes ok: "voiceOk E R v"
  shows "safe E R (fail host message v)"
proof (cases "mget (vc_routes v) host")
  case (Some rt)
  let ?rt = "rt\<lparr>rt_failure := Some (endpoint_error (rt_address rt) message), rt_settled := True\<rparr>"
  let ?v = "v\<lparr>vc_routes := mput (vc_routes v) host ?rt\<rparr>"
  have v1: "voiceOk E R ?v"
    by (rule voiceOk_cong [OF ok]) (simp_all add: views_same [OF Some] view_def)
  have "safe E R (andThen (\<lambda>v. if vc_active v = Some host then clearActive endpoint_failed v else (v, []))
      (proxy_op host (close_proxy endpoint_failed)) ?v)"
    by (rule good_andThen) (use v1 clear_safe close_op.operation_good in \<open>auto intro: good_if\<close>)
  moreover have "safe E R (andThen (proxy_op host (close_proxy endpoint_failed))
      (\<lambda>v. (v, [EndpointFailed host (endpoint_error (rt_address rt) message)])) ?v)"
    by (rule good_andThen) (use v1 close_op.operation_good in \<open>auto simp: no_tx_def\<close>)
  ultimately show ?thesis using ok by (simp add: fail_def Some Let_def)
qed (use ok in \<open>simp add: fail_def\<close>)

lemma listening_safe:
  assumes ok: "voiceOk E R v"
  shows "safe E R (listening host v)"
proof (cases "mget (vc_routes v) host")
  case (Some rt)
  have "voiceOk E R (v\<lparr>vc_routes := mput (vc_routes v) host rt'\<rparr>)" if "view rt' = view rt" for rt'
    by (rule voiceOk_cong [OF ok]) (simp_all add: views_same [OF Some that])
  with ok Some show ?thesis by (simp add: listening_def no_tx_def view_def)
qed (use ok in \<open>simp add: listening_def\<close>)

lemma cancel_safe: "voiceOk E R v \<Longrightarrow> safe E R (cancel_route message host v)"
  using fail_safe by (simp add: cancel_route_def split: option.split)

lemma mput_absent: "mget m k = None \<Longrightarrow> mput m k x = m @ [(k, x)]"
  by (induction m) (auto split: if_splits)

lemma routesOk_new:
  assumes ok: "routesOk E R m" and h: "mget m h = None" "rx_match ts2_host h" "length m < MAX_SERVERS"
    and x: "rv_address x \<notin> set (map (\<lambda>p. rv_address (snd p)) m)" "rv_address x = local_address (ve_sha256 E h)"
      "viewOk (tc_port (ve_ts2 E)) R h x"
  shows "routesOk E R (mput m h x)"
proof -
  have "map (\<lambda>p. rv_address (snd p)) (mput m h x) = map (\<lambda>p. rv_address (snd p)) m @ [rv_address x]"
    using h(1) by (simp add: mput_absent)
  moreover have "length (mput m h x) \<le> MAX_SERVERS" using h by (simp add: length_mput mhas_def)
  moreover have "rx_match ts2_host k \<and> rv_address w = local_address (ve_sha256 E k) \<and> viewOk (tc_port (ve_ts2 E)) R k w"
    if "mget (mput m h x) k = Some w" for k w
    using that ok h(2) x(2,3) by (cases "k = h") (simp_all add: routesOk_def)
  ultimately show ?thesis using ok x(1) unfolding routesOk_def by (simp only: mwf_mput distinct_append) simp
qed

lemma endpoint_safe:
  assumes ok: "voiceOk E R v"
  shows "safe E R (getEndpoint E text v)"
proof -
  let ?host = "lower (trim text)"
  let ?address = "local_address (ve_sha256 E ?host)"
  obtain p outs where p: "createTs2VoiceProxy ?host = (p, outs)" by force
  then have p_facts: "tp_server p = ?host" "tp_ip p = None" "tp_udp p = []"
    by (auto simp: createTs2VoiceProxy_def resolveServer_def)
  let ?rt = "new_route ?address p"
  let ?v = "v\<lparr>vc_routes := mput (vc_routes v) ?host ?rt\<rparr>"
  have new: "voiceOk E R ?v"
    if h: "rx_match ts2_host ?host" and none: "mget (vc_routes v) ?host = None"
      and room: "length (vc_routes v) < MAX_SERVERS" and fresh: "\<forall>(h, rt) \<in> set (vc_routes v). rt_address rt \<noteq> ?address"
  proof -
    have r: "routesOk E R (views v)" and f: "flowOk E [] [] v" using ok by (simp_all add: voiceOk_def)
    have absent: "mget (views v) ?host = None" using none by (simp add: get_view)
    have V: "views ?v = mput (views v) ?host (view ?rt)" by (rule views_put)
    have "length (views v) < MAX_SERVERS" using room by (simp add: views_def)
    moreover have "?address \<notin> set (map (\<lambda>p. rv_address (snd p)) (views v))"
      using fresh by (auto simp: views_def view_def)
    moreover have "rv_address (view ?rt) = ?address" by (simp add: view_def new_route_def)
    moreover have "viewOk (tc_port (ve_ts2 E)) R ?host (view ?rt)"
      using p_facts by (simp add: viewOk_def view_def new_route_def)
    ultimately have "routesOk E R (views ?v)"
      unfolding V using r h absent by (intro routesOk_new) simp_all
    moreover have "flowOk E [] [] ?v"
    proof -
      have "activeOk [] [] ?v h" if a: "activeOk [] [] v h" for h
      proof -
        have "mget (views ?v) h = Some w" if "mget (views v) h = Some w" for w
          using that absent by (auto simp: V)
        moreover have "linkOk v sock \<Longrightarrow> linkOk ?v sock" for sock by (simp add: linkOk_def)
        ultimately show ?thesis using a unfolding activeOk_def by (simp del: split_paired_Ex) blast
      qed
      with f show ?thesis by (simp add: flowOk_def)
    qed
    ultimately show ?thesis by (simp add: voiceOk_def)
  qed
  show ?thesis
    unfolding getEndpoint_def Let_def p prod.case
    by (intro good_if) (use ok new in \<open>auto simp: no_tx_def not_le list_all_iff split: option.split\<close>)
qed

lemma reset_safe: "voiceOk E R v \<Longrightarrow> safe E R (router_resetUdpClients reason v)"
  unfolding router_resetUdpClients_def
  by (rule good_andThen [OF clear_safe]) (auto intro!: good_each reset_op.operation_good)

lemma close_safe: assumes ok: "voiceOk E R v" shows "safe E R (router_close v)"
  unfolding router_close_def
proof (rule good_andThen)
  show "safe E R (clearActive (js ''voice router closed'') (v\<lparr>vc_closed := True\<rparr>))"
    by (rule clear_safe, rule voiceOk_cong [OF ok]) simp_all
qed (auto intro!: good_each good_andThen cancel_safe close_op.operation_good)

lemma fsd_closed_safe: "voiceOk E R v \<Longrightarrow> safe E R (fsd_closed v)"
  unfolding fsd_closed_def router_stopVoiceDecoder_def
  by (auto intro!: good_andThen good_each stop_safe reset_safe invalidate_safe)

subsection \<open>Every run\<close>

fun is_pump :: "voice_in \<Rightarrow> bool" where
  "is_pump (TxPump ws i sends) = True"
| "is_pump _ = False"

lemma without_answer_quiet:
  "(\<And>w' b outs. f w = (w', b, outs) \<Longrightarrow> quiet C l (w', outs)) \<Longrightarrow> quiet C l (without_answer f w)"
  by (auto simp: without_answer_def split: prod.split)

lemma step_safe:
  assumes ok: "voiceOk E R v" and e: "resolves R e" "\<not> is_pump e"
  shows "safe E R (voice_step E e v)"
proof -
  have tx: "txOk (ve_webtx E) (vc_tx v)" using ok by (simp add: voiceOk_def flowOk_def)
  show ?thesis
  proof (cases e)
    case (DnsAnswer host g ip)
    then have "proxy_operation E R host (dns_answer g ip)" using e(1) by (intro dns_op) (simp add: resolves_def)
    from proxy_operation.operation_good [OF this ok] show ?thesis by (simp add: DnsAnswer)
  next
    case (TxStart i serial ws com monitorOnly monitor)
    show ?thesis by (auto simp: TxStart intro!: on_tx_safe ok without_answer_quiet start_quiet [OF tx])
  next
    case (TxPcm ws pcm alive)
    show ?thesis by (auto simp: TxPcm intro!: on_tx_safe ok without_answer_quiet pcm_quiet [OF tx])
  next
    case (TxStop ws reason)
    show ?thesis by (auto simp: TxStop intro!: on_tx_safe ok stop_quiet tx)
  next
    case (EncoderData ws i chunk)
    show ?thesis by (auto simp: EncoderData intro!: on_tx_safe ok encoder_data_quiet tx)
  next
    case (EncoderExit ws i)
    show ?thesis by (auto simp: EncoderExit intro!: on_tx_safe ok encoder_exit_quiet tx)
  next
    case (MonitorData ws i pcm)
    show ?thesis by (auto simp: MonitorData intro!: on_tx_safe ok monitor_quiet tx)
  qed (use ok e in \<open>simp_all add: endpoint_safe listening_safe fail_safe cancel_safe fsd_closed_safe close_safe
      message_op.operation_good reply_op.operation_good error_op.operation_good closed_op.operation_good
      data_op.operation_good exit_op.operation_good tcp_open_op.operation_good tcp_closed_op.operation_good
      tcp_data_op.operation_good\<close>)
qed

definition pump_out :: "voice_env \<Rightarrow> voice \<Rightarrow> nat \<Rightarrow> voice_out \<Rightarrow> bool" where
  "pump_out E v ws out = (case out of TxOut x \<Rightarrow> sent_ok (ve_webtx E) (router_target E v) (vc_tx v) ws x | _ \<Rightarrow> True)"

lemma pump_safe:
  assumes ok: "voiceOk E R v"
  shows "good (voiceOk E R) (pump_out E v ws) (voice_step E (TxPump ws i sends) v)"
proof -
  have tx: "txOk (ve_webtx E) (vc_tx v)" using ok by (simp add: voiceOk_def flowOk_def)
  have "flowOk E [] [] (v\<lparr>vc_tx := w\<rparr>)" if "txOk (ve_webtx E) w" "tx_link w = tx_link (vc_tx v)" for w
  proof -
    have "activeOk [] [] v h \<Longrightarrow> activeOk [] [] (v\<lparr>vc_tx := w\<rparr>) h" for h
      unfolding activeOk_def linkOk_def using that(2) by simp
    with ok that show ?thesis by (auto simp: voiceOk_def flowOk_def)
  qed
  with ok have "good (\<lambda>w. voiceOk E R (v\<lparr>vc_tx := w\<rparr>)) (sent_ok (ve_webtx E) (router_target E v) (vc_tx v) ws)
      (pump_fires (ve_webtx E) (router_target E v) sends ws i (vc_tx v))"
    by (intro good_mono [OF pump_sent [OF tx]]) (auto simp: voiceOk_def)
  then show ?thesis by (auto simp: pump_out_def intro: on_tx_good)
qed

lemma init_safe: "voiceOk E R init_voice"
  by (simp add: voiceOk_def init_voice_def routesOk_def flowOk_def views_def txOk_def createWebTx_def tx_link_def)

interpretation voice: machine init_voice "voice_step E" "resolves R" "voiceOk E R" for E R
proof
  show "voiceOk E R init_voice" by (rule init_safe)
  show "voiceOk E R s \<Longrightarrow> resolves R e \<Longrightarrow> voiceOk E R (fst (voice_step E e s))" for s e
    using good_inv [OF step_safe] good_inv [OF pump_safe] by (cases "is_pump e") (auto elim: is_pump.elims)
qed

lemma voice_run_ok: "list_all (resolves R) es \<Longrightarrow> voiceOk E R (voice_run E es)"
  using voice.inv_reachable by (simp add: voice_run_def fst_run_machine)

definition resolved_in :: "voice_in list \<Rightarrow> jstr \<Rightarrow> jstr \<Rightarrow> bool" where
  "resolved_in es host ip \<longleftrightarrow> (\<exists>g. DnsAnswer host g (Some ip) \<in> set es)"

lemma resolves_resolved: "list_all (resolves (resolved_in es)) es"
  unfolding list_all_iff resolves_def resolved_in_def by (auto split: voice_in.split option.split)

lemma only_pump_sends:
  assumes "TxOut (UdpSend sock packet target) \<in> set (snd (voice_step E e (voice_run E es)))"
  obtains ws i sends where "e = TxPump ws i sends"
proof (cases "is_pump e")
  case False
  have "list_all (resolves (\<lambda>_ _. True)) es" by (auto simp: list_all_iff resolves_def split: voice_in.split option.split)
  then have "voiceOk E (\<lambda>_ _. True) (voice_run E es)" by (rule voice_run_ok)
  then have "list_all no_tx (snd (voice_step E e (voice_run E es)))"
    using step_safe [of E "\<lambda>_ _. True" "voice_run E es" e] False
    by (auto simp: good_def resolves_def split: voice_in.split option.split)
  with assms show thesis by (auto simp: list_all_iff no_tx_def no_send_def)
qed (use that in \<open>auto elim: is_pump.elims\<close>)

lemma tx_packet_facts:
  assumes "length (ts_header a) = 12" "length speex \<le> speexLimit"
  shows "session_of (tx_packet fixed a speex) = take 8 (drop 4 (ts_header a))"
    "u16 (tx_packet fixed a speex) 0 = u16 (ts_header a) 0" "length (tx_packet fixed a speex) \<le> 16 + TS2_PAYLOAD_SIZE"
  using assms by (auto simp: tx_packet_def session_of_def u16_def speexLimit_def TS2_PAYLOAD_SIZE_def)

subsection \<open>Where the session comes from\<close>

text \<open>A datagram that is taken as a login: from this computer to an open route, with class 0xBEF4 and subtype 3.\<close>

definition login_taken :: "voice_env \<Rightarrow> voice \<Rightarrow> voice_in \<Rightarrow> bool" where
  "login_taken E v e = (case e of
     UdpMessage host address port msg sock \<Rightarrow> is_local (ve_local E) address \<and> mhas (vc_routes v) host
       \<and> 16 \<le> length msg \<and> u16 msg 0 = 48884 \<and> u16 msg 2 = 3
   | _ \<Rightarrow> False)"

text \<open>Every step but a datagram of the flight client keeps the active flow and its session, or leaves none.\<close>

definition drops :: "voice \<Rightarrow> voice \<Rightarrow> bool" where
  "drops v v' \<longleftrightarrow> vc_active v' = None
     \<or> (vc_active v' = vc_active v \<and> vc_session v' = vc_session v \<and> vc_key v' = vc_key v)"

abbreviation dropping :: "voice \<Rightarrow> voice \<times> voice_out list \<Rightarrow> bool" where
  "dropping v0 \<equiv> good (drops v0) (\<lambda>_. True)"

lemma drops_refl [simp]: "drops v v"
  by (simp add: drops_def)

lemma put_proxy_flow [simp]:
  "vc_active (put_proxy h p v) = vc_active v" "vc_session (put_proxy h p v) = vc_session v" "vc_key (put_proxy h p v) = vc_key v"
  by (simp_all add: put_proxy_def split: option.split)

lemma drops_on_tx: "drops v0 v \<Longrightarrow> dropping v0 (on_tx f v)"
  by (simp add: good_def on_tx_def case_prod_beta drops_def list_all_iff)

lemma drops_stop: "drops v0 v \<Longrightarrow> dropping v0 (stop_decoder h v)"
  by (simp add: good_def stop_decoder_def case_prod_beta drops_def list_all_iff split: option.split)

lemma clear_none: "vc_active (fst (clearActive reason v)) = None"
  by (simp add: clearActive_def andThen_def on_tx_def case_prod_beta Let_def)

lemma drops_clear: "dropping v0 (clearActive reason v)"
  using clear_none [of reason v] by (simp add: good_def drops_def list_all_iff)

lemma drops_close: "drops v0 v \<Longrightarrow> dropping v0 (onClientClose host address key reason v)"
  unfolding onClientClose_def Let_def
  by (rule good_andThen) (auto intro: good_if drops_clear drops_on_tx)

lemma drops_callback:
  assumes "\<forall>m key sock t. out \<noteq> ClientPacket m key sock t" "drops v0 v"
  shows "dropping v0 (callback host address out v)"
  using assms by (cases out) (simp_all add: drops_close)

lemma drops_proxy_op:
  assumes "\<And>p m key sock t. ClientPacket m key sock t \<notin> set (snd (f p))" "drops v0 v"
  shows "dropping v0 (proxy_op host f v)"
proof (cases "mget (vc_routes v) host")
  case (Some rt)
  obtain p outs where f: "f (rt_proxy rt) = (p, outs)" by force
  have n: "ClientPacket m key sock t \<notin> set outs" for m key sock t using assms(1) [of m key sock t "rt_proxy rt"] f by simp
  have "drops v0 (put_proxy host p v)" using assms(2) by (simp add: drops_def)
  then have "dropping v0 (each (callback host (rt_address rt)) outs (put_proxy host p v))"
    by (rule good_each) (use n in \<open>auto intro!: drops_callback\<close>)
  then show ?thesis by (simp add: proxy_op_def Some f)
qed (use assms(2) in \<open>simp add: proxy_op_def\<close>)

lemma drops_reset: "drops v0 v \<Longrightarrow> dropping v0 (proxy_op host (resetUdpClients reason) v)"
  by (rule drops_proxy_op [OF tidyD(5) [OF tidy_reset]])

lemma drops_close_proxy: "drops v0 v \<Longrightarrow> dropping v0 (proxy_op host (close_proxy reason) v)"
  by (rule drops_proxy_op [OF tidyD(5) [OF tidy_close]])

lemma drops_fail: assumes "drops v0 v" shows "dropping v0 (fail host message v)"
proof (cases "mget (vc_routes v) host")
  case (Some rt)
  have "drops v0 (v\<lparr>vc_routes := r\<rparr>)" for r using assms by (simp add: drops_def)
  then show ?thesis using assms
    by (auto simp: fail_def Some Let_def intro!: good_andThen good_if drops_clear drops_close_proxy)
qed (use assms in \<open>simp add: fail_def\<close>)

lemma drops_cancel: "drops v0 v \<Longrightarrow> dropping v0 (cancel_route message host v)"
  using drops_fail by (simp add: cancel_route_def split: option.split)

lemma drops_router:
  "dropping v (fsd_closed v)" "dropping v (router_close v)" "dropping v (listening host v)" "dropping v (getEndpoint E text v)"
proof -
  show "dropping v (fsd_closed v)"
    unfolding fsd_closed_def router_stopVoiceDecoder_def router_resetUdpClients_def
    by (auto intro!: good_andThen good_each drops_stop drops_clear drops_reset drops_on_tx)
  show "dropping v (router_close v)"
    unfolding router_close_def
    by (auto intro!: good_andThen good_each drops_clear drops_cancel drops_close_proxy)
  show "dropping v (listening host v)"
    by (simp add: listening_def drops_def Let_def split: option.split)
  show "dropping v (getEndpoint E text v)"
    by (simp add: getEndpoint_def drops_def Let_def list_all_iff case_prod_beta split: option.split)
qed

lemma shows_nothing:
  "ClientPacket m key sock t \<notin> set (snd (dns_answer g ip p))" "ClientPacket m key sock t \<notin> set (snd (decoder_data d pcm p))"
  "ClientPacket m key sock t \<notin> set (snd (decoder_exit d p))" "ClientPacket m key sock t \<notin> set (snd (tcp_open C i address p))"
  "ClientPacket m key sock t \<notin> set (snd (tcp_closed i p))" "ClientPacket m key sock t \<notin> set (snd (tcp_data from_client i b p))"
  "ClientPacket m key sock t \<notin> set (snd (udp_error k u p))" "ClientPacket m key sock t \<notin> set (snd (udp_closed k u p))"
  "ClientPacket m key sock t \<notin> set (snd (server_reply C k u reply s d serial p))"
  using tidyD(5) [OF tidy_reply] tidyD(5) [OF tidy_cleanup]
  by (auto simp: dns_answer_def decoder_data_def decoder_exit_def tcp_open_def tcp_closed_def tcp_data_def udp_error_def
      udp_closed_def andThen_def Let_def case_prod_beta split: option.splits if_splits)

fun is_message :: "voice_in \<Rightarrow> bool" where
  "is_message (UdpMessage host address port msg sock) = True"
| "is_message _ = False"

lemma step_drops: "\<not> is_message e \<Longrightarrow> drops v (fst (voice_step E e v))"
  by (rule good_inv [where Q = "\<lambda>_. True"], cases e)
    (simp_all add: drops_router drops_fail drops_cancel drops_on_tx drops_proxy_op shows_nothing)

lemma udp_key_eq: "udp_key a p = udp_key a' p' \<longleftrightarrow> a = a' \<and> p = p'"
proof
  have split: "takeWhile (\<lambda>c. c \<noteq> 58) (rev (udp_key a p)) = rev (nat_digits p)"
    "dropWhile (\<lambda>c. c \<noteq> 58) (rev (udp_key a p)) = 58 # rev a" for a p
  proof -
    have "\<forall>c \<in> set (nat_digits p). c \<noteq> 58"
    proof
      fix c assume "c \<in> set (nat_digits p)"
      then have "is_digit c" by (rule nat_digits_digit)
      then show "c \<noteq> 58" by (simp add: is_digit_def)
    qed
    then have d: "\<And>c. c \<in> set (rev (nat_digits p)) \<Longrightarrow> c \<noteq> 58" by simp
    have k: "rev (udp_key a p) = rev (nat_digits p) @ 58 # rev a" by (simp add: udp_key_def)
    show "takeWhile (\<lambda>c. c \<noteq> 58) (rev (udp_key a p)) = rev (nat_digits p)"
      unfolding k using d by (subst takeWhile_append2) auto
    show "dropWhile (\<lambda>c. c \<noteq> 58) (rev (udp_key a p)) = 58 # rev a"
      unfolding k using d by (subst dropWhile_append2) auto
  qed
  assume e: "udp_key a p = udp_key a' p'"
  have "rev (nat_digits p) = rev (nat_digits p')" "58 # rev a = 58 # rev a'"
    using split [of a p] split [of a' p'] by (simp_all only: e)
  then show "a = a' \<and> p = p'" by (metis dec_value_digits list.inject rev_rev_ident)
qed simp

lemma packet_session:
  fixes host address m key sock t v
  defines "u \<equiv> fst (onClientPacket host address m key sock t v)" and "k \<equiv> scoped_key address key"
  shows "is_login m \<Longrightarrow> vc_active u = Some host \<and> vc_session u = None \<and> vc_key u = k"
    and "\<not> is_login m \<Longrightarrow> vc_active u = vc_active v \<and>
      (vc_session u = vc_session v \<and> vc_key u = vc_key v
       \<or> vc_active v = Some host \<and> vc_session u = Some (session_of m) \<and> vc_key u = k
         \<and> (vc_session v = vc_session u \<or> vc_session v = None \<and> vc_key v = k \<and> is_setup m \<and> 16 \<le> length m))"
proof -
  have "is_login m \<Longrightarrow> \<not> is_setup m" by (simp add: is_login_def is_setup_def)
  then show "is_login m \<Longrightarrow> vc_active u = Some host \<and> vc_session u = None \<and> vc_key u = k"
    by (simp add: u_def k_def onClientPacket_def andThen_def clearActive_def on_tx_def case_prod_beta Let_def learn_session_def)
  have "is_setup m \<Longrightarrow> is_seed m" by (simp add: is_seed_def)
  then show "\<not> is_login m \<Longrightarrow> vc_active u = vc_active v \<and>
      (vc_session u = vc_session v \<and> vc_key u = vc_key v
       \<or> vc_active v = Some host \<and> vc_session u = Some (session_of m) \<and> vc_key u = k
         \<and> (vc_session v = vc_session u \<or> vc_session v = None \<and> vc_key v = k \<and> is_setup m \<and> 16 \<le> length m))"
    by (auto simp: u_def k_def onClientPacket_def andThen_def on_tx_def case_prod_beta Let_def learn_session_def)
qed

lemma message_step:
  assumes ok: "routesOk E R (views v)"
  shows "(\<exists>p' i t. is_local (ve_local E) a \<and> mhas (vc_routes v) h \<and> fst (voice_step E (UdpMessage h a p m sock) v)
      = fst (onClientPacket h (local_address (ve_sha256 E h)) m (udp_key a p) i t (put_proxy h p' v)))
    \<or> \<not> (is_local (ve_local E) a \<and> mhas (vc_routes v) h) \<and> drops v (fst (voice_step E (UdpMessage h a p m sock) v))"
proof (cases "is_local (ve_local E) a \<and> mhas (vc_routes v) h")
  case True
  then obtain rt where rt: "mget (vc_routes v) h = Some rt" by (auto simp: mhas_def)
  have "rt_address rt = local_address (ve_sha256 E h)" 
  proof -
    have "mget (views v) h = Some (view rt)" using rt by (simp add: get_view)
    then have "rv_address (view rt) = local_address (ve_sha256 E h)" using ok by (simp add: routesOk_def)
    then show ?thesis by (simp add: view_def)
  qed
  moreover obtain q i t where "udp_message (route_config E) a p m sock (rt_proxy rt)
      = (q, [ClientPacket m (udp_key a p) i t, ToServer i m t])"
    using True that
    by (cases "mget (tp_udp (rt_proxy rt)) (udp_key a p)") (auto simp: udp_message_def route_config_def Let_def mhas_def)
  ultimately have "fst (voice_step E (UdpMessage h a p m sock) v)
      = fst (onClientPacket h (local_address (ve_sha256 E h)) m (udp_key a p) i t (put_proxy h q v))"
    by (simp add: proxy_op_def rt andThen_def case_prod_beta Let_def)
  with True show ?thesis by blast
next
  case False
  then show ?thesis
    by (auto simp: proxy_op_def udp_message_def route_config_def mhas_def drops_def split: option.splits)
qed

text \<open>
  The login that the active route goes back to: the last one that was taken (after \<open>es1\<close>), and no other after it.
\<close>

definition last_login :: "voice_env \<Rightarrow> voice_in list \<Rightarrow> voice_in list \<Rightarrow> voice_in \<Rightarrow> voice_in list \<Rightarrow> bool" where
  "last_login E es es1 login rest \<longleftrightarrow> es = es1 @ login # rest \<and> login_taken E (voice_run E es1) login
     \<and> (\<forall>pre e suf. es = pre @ e # suf \<and> length es1 < length pre \<longrightarrow> \<not> login_taken E (voice_run E pre) e)"

text \<open>
  The session was shown, after that login, by a setup packet of the flow that logged in; and the
  flow in use showed it too, then or later.
\<close>

definition shown_after :: "voice_env \<Rightarrow> jstr \<Rightarrow> jstr \<Rightarrow> nat \<Rightarrow> voice_in list \<Rightarrow> bytes \<Rightarrow> jstr \<Rightarrow> bool" where
  "shown_after E h a p rest b key \<longleftrightarrow> (\<exists>es2 sm s2 es3. rest = es2 @ UdpMessage h a p sm s2 # es3
     \<and> 16 \<le> length sm \<and> u16 sm 0 = 48880 \<and> u16 sm 2 = 5 \<and> session_of sm = b
     \<and> (\<exists>a2 p2 m2 s. UdpMessage h a2 p2 m2 s \<in> set (UdpMessage h a p sm s2 # es3) \<and> session_of m2 = b
          \<and> key = scoped_key (local_address (ve_sha256 E h)) (udp_key a2 p2)))"

lemma last_login_now: "login_taken E (voice_run E es) e \<Longrightarrow> last_login E (es @ [e]) es e []"
proof -
  have "length pre \<le> length es" if "es @ [e] = pre @ x # suf" for pre x suf
    using arg_cong [OF that, of length] by simp
  then show "login_taken E (voice_run E es) e \<Longrightarrow> last_login E (es @ [e]) es e []"
    unfolding last_login_def by (metis append.right_neutral not_le)
qed

lemma last_login_later:
  assumes "last_login E es es1 login rest" "\<not> login_taken E (voice_run E es) e"
  shows "last_login E (es @ [e]) es1 login (rest @ [e])"
proof -
  have "\<not> login_taken E (voice_run E pre) x" if "es @ [e] = pre @ x # suf" "length es1 < length pre" for pre x suf
  proof (cases suf rule: rev_cases)
    case Nil
    then show ?thesis using that(1) assms(2) by simp
  next
    case (snoc ys y)
    then have "es = pre @ x # ys" using that(1) by simp
    then show ?thesis using assms(1) that(2) unfolding last_login_def by blast
  qed
  with assms(1) show ?thesis by (simp add: last_login_def)
qed

lemma shown_later:
  assumes "shown_after E h a p rest b key"
  shows "shown_after E h a p (rest @ [e]) b key"
proof -
  obtain es2 sm s2 es3 a2 p2 m2 s where *: "rest = es2 @ UdpMessage h a p sm s2 # es3" "16 \<le> length sm"
      "u16 sm 0 = 48880" "u16 sm 2 = 5" "session_of sm = b"
      "UdpMessage h a2 p2 m2 s \<in> set (UdpMessage h a p sm s2 # es3)" "session_of m2 = b"
      "key = scoped_key (local_address (ve_sha256 E h)) (udp_key a2 p2)"
    using assms unfolding shown_after_def by blast
  have "rest @ [e] = es2 @ UdpMessage h a p sm s2 # (es3 @ [e])" using *(1) by simp
  moreover have "UdpMessage h a2 p2 m2 s \<in> set (UdpMessage h a p sm s2 # (es3 @ [e]))" using *(6) by auto
  ultimately show ?thesis unfolding shown_after_def using *(2-5,7,8) by blast
qed

lemma shown_again:
  assumes "shown_after E h a p rest b key'" "session_of m = b"
  shows "shown_after E h a p (rest @ [UdpMessage h a2 p2 m s]) b (scoped_key (local_address (ve_sha256 E h)) (udp_key a2 p2))"
proof -
  obtain es2 sm s2 es3 where *: "rest = es2 @ UdpMessage h a p sm s2 # es3" "16 \<le> length sm"
      "u16 sm 0 = 48880" "u16 sm 2 = 5" "session_of sm = b"
    using assms(1) unfolding shown_after_def by blast
  let ?e = "UdpMessage h a2 p2 m s"
  have "rest @ [?e] = es2 @ UdpMessage h a p sm s2 # (es3 @ [?e])" using *(1) by simp
  moreover have "?e \<in> set (UdpMessage h a p sm s2 # (es3 @ [?e]))" by simp
  ultimately show ?thesis unfolding shown_after_def using *(2-5) assms(2) by blast
qed

lemma shown_now:
  assumes "is_setup m" "16 \<le> length m"
  shows "shown_after E h a p (rest @ [UdpMessage h a p m s]) (session_of m) (scoped_key (local_address (ve_sha256 E h)) (udp_key a p))"
  unfolding shown_after_def using assms
  by (intro exI [of _ rest] exI [of _ m] exI [of _ s] exI [of _ "[]"]) (auto simp: is_setup_def)

definition traced :: "voice_env \<Rightarrow> voice_in list \<Rightarrow> bool" where
  "traced E es \<longleftrightarrow> (\<forall>h. vc_active (voice_run E es) = Some h \<longrightarrow> (\<exists>es1 a p login s1 rest.
     last_login E es es1 (UdpMessage h a p login s1) rest
     \<and> (case vc_session (voice_run E es) of
          None \<Rightarrow> vc_key (voice_run E es) = scoped_key (local_address (ve_sha256 E h)) (udp_key a p)
        | Some b \<Rightarrow> shown_after E h a p rest b (vc_key (voice_run E es)))))"

lemma traced_drops:
  assumes "traced E es" "\<not> login_taken E (voice_run E es) e" "drops (voice_run E es) (voice_run E (es @ [e]))"
  shows "traced E (es @ [e])"
proof (unfold traced_def, intro allI impI)
  fix h assume a: "vc_active (voice_run E (es @ [e])) = Some h"
  then have same: "vc_active (voice_run E es) = Some h" "vc_session (voice_run E (es @ [e])) = vc_session (voice_run E es)"
    "vc_key (voice_run E (es @ [e])) = vc_key (voice_run E es)"
    using assms(3) by (simp_all add: drops_def)
  obtain es1 a p login s1 rest where t: "last_login E es es1 (UdpMessage h a p login s1) rest"
     "case vc_session (voice_run E es) of
          None \<Rightarrow> vc_key (voice_run E es) = scoped_key (local_address (ve_sha256 E h)) (udp_key a p)
        | Some b \<Rightarrow> shown_after E h a p rest b (vc_key (voice_run E es))"
    using assms(1) same(1) unfolding traced_def by blast
  show "\<exists>es1 a p login s1 rest. last_login E (es @ [e]) es1 (UdpMessage h a p login s1) rest
     \<and> (case vc_session (voice_run E (es @ [e])) of
          None \<Rightarrow> vc_key (voice_run E (es @ [e])) = scoped_key (local_address (ve_sha256 E h)) (udp_key a p)
        | Some b \<Rightarrow> shown_after E h a p rest b (vc_key (voice_run E (es @ [e]))))"
    using last_login_later [OF t(1) assms(2)] t(2) shown_later unfolding same
    by (intro exI [of _ es1] exI [of _ a] exI [of _ p] exI [of _ login] exI [of _ s1] exI [of _ "rest @ [e]"])
      (simp split: option.splits)
qed

lemma traced_step: assumes "traced E es" shows "traced E (es @ [e])"
proof (cases "is_message e")
  case False
  have "\<not> login_taken E (voice_run E es) e" using False by (cases e) (simp_all add: login_taken_def)
  then show ?thesis using traced_drops [OF assms] step_drops [OF False, of "voice_run E es" E]
    by (simp add: voice_run_def fst_run_machine)
next
  case True
  then obtain h a p m s where e: "e = UdpMessage h a p m s" by (auto elim: is_message.elims)
  let ?v = "voice_run E es" and ?v' = "voice_run E (es @ [e])" and ?k = "\<lambda>h a p. scoped_key (local_address (ve_sha256 E h)) (udp_key a p)"
  have step: "?v' = fst (voice_step E e ?v)" by (simp add: voice_run_def fst_run_machine)
  have "voiceOk E (resolved_in es) ?v" by (rule voice_run_ok [OF resolves_resolved])
  then have ok: "routesOk E (resolved_in es) (views ?v)" by (simp add: voiceOk_def)
  from message_step [OF ok, of a h p m s] show ?thesis
  proof (elim disjE exE conjE)
    assume "\<not> (is_local (ve_local E) a \<and> mhas (vc_routes ?v) h)" "drops ?v (fst (voice_step E (UdpMessage h a p m s) ?v))"
    moreover from this have "\<not> login_taken E ?v e" by (auto simp: e login_taken_def)
    moreover have "drops ?v ?v'" using \<open>drops ?v (fst (voice_step E (UdpMessage h a p m s) ?v))\<close> unfolding step unfolding e .
    ultimately show ?thesis by (intro traced_drops [OF assms])
  next
    fix p' i t
    assume l: "is_local (ve_local E) a" "mhas (vc_routes ?v) h"
      and u: "fst (voice_step E (UdpMessage h a p m s) ?v)
        = fst (onClientPacket h (local_address (ve_sha256 E h)) m (udp_key a p) i t (put_proxy h p' ?v))"
    have taken: "login_taken E ?v e \<longleftrightarrow> is_login m" using l by (simp add: login_taken_def e is_login_def)
    note out = packet_session [of m h "local_address (ve_sha256 E h)" "udp_key a p" i t "put_proxy h p' ?v",
        folded u e step, unfolded put_proxy_flow]
    show ?thesis
    proof (cases "is_login m")
      case login: True
      have "vc_active ?v' = Some h" "vc_session ?v' = None" "vc_key ?v' = ?k h a p" using out(1) [OF login] by (simp_all add: step e u)
      moreover have "last_login E (es @ [e]) es (UdpMessage h a p m s) []"
        using last_login_now taken login by (simp add: e)
      ultimately show ?thesis unfolding traced_def by fastforce
    next
      case False
      have nt: "\<not> login_taken E ?v e" using taken False by simp
      show ?thesis
      proof (cases "vc_session ?v' = vc_session ?v \<and> vc_key ?v' = vc_key ?v")
        case True
        have "drops ?v ?v'" using True out(2) [OF False] by (simp add: drops_def step e u)
        then show ?thesis by (rule traced_drops [OF assms nt])
      next
        case changed: False
        have now: "vc_active ?v = Some h" "vc_active ?v' = Some h" "vc_session ?v' = Some (session_of m)" "vc_key ?v' = ?k h a p"
          "vc_session ?v = vc_session ?v' \<or> vc_session ?v = None \<and> vc_key ?v = ?k h a p \<and> is_setup m \<and> 16 \<le> length m"
          using changed out(2) [OF False] by (auto simp: step e u)
        obtain es1 a0 p0 login s1 rest where t: "last_login E es es1 (UdpMessage h a0 p0 login s1) rest"
           "case vc_session ?v of None \<Rightarrow> vc_key ?v = ?k h a0 p0 | Some b \<Rightarrow> shown_after E h a0 p0 rest b (vc_key ?v)"
          using assms now(1) unfolding traced_def by blast
        have "shown_after E h a0 p0 (rest @ [e]) (session_of m) (?k h a p)"
          using now(5)
        proof (elim disjE conjE)
          assume "vc_session ?v = vc_session ?v'"
          then show ?thesis using t(2) now(3) shown_again unfolding e by simp
        next
          assume n: "vc_session ?v = None" "vc_key ?v = ?k h a p" "is_setup m" "16 \<le> length m"
          then have "udp_key a0 p0 = udp_key a p" using t(2) by (simp add: scoped_key_def)
          then have "a0 = a" "p0 = p" by (simp_all add: udp_key_eq)
          then show ?thesis using shown_now [OF n(3,4)] by (simp add: e)
        qed
        moreover have "last_login E (es @ [e]) es1 (UdpMessage h a0 p0 login s1) (rest @ [e])"
          by (rule last_login_later [OF t(1) nt])
        ultimately show ?thesis using now unfolding traced_def by fastforce
      qed
    qed
  qed
qed

lemma traced_run: "traced E es"
proof (induction es rule: rev_induct)
  case Nil
  show ?case by (simp add: traced_def voice_run_def init_voice_def)
qed (rule traced_step)

subsection \<open>A run that transmits\<close>

definition demo_voice :: voice_env where
  "demo_voice = \<lparr>ve_sha256 = (\<lambda>_. [1, 2, 3]), ve_local = [],
     ve_ts2 = \<lparr>tc_port = 8767, tc_voiceDecode = False, tc_stripBytes = 1, tc_sampleRate = 32000,
       tc_framesPerPacket = 12, tc_accept = (\<lambda>_. False)\<rparr>,
     ve_webtx = \<lparr>wx_enabled = True, wx_fixed = False, wx_sampleRate = 32000, wx_framesPerPacket = 3\<rparr>\<rparr>"

definition demo_host :: jstr where
  "demo_host = js ''ts-1.a.ivao.aero''"

definition demo_login :: bytes where
  "demo_login = [244, 190, 3, 0] @ replicate 12 0"

definition demo_setup :: bytes where
  "demo_setup = [240, 190, 5, 0, 1, 2, 3, 4, 5, 6, 7, 8, 0, 0, 0, 0]"

definition demo_page :: bytes where
  "demo_page = OggS @ replicate 22 0 @ [3, 1, 1, 1, 7, 8, 9]"

definition demo_proxy :: ts2 where
  "demo_proxy = \<lparr>tp_server = demo_host, tp_ip = None, tp_dns = 1,
     tp_udp = [(js ''127.0.0.1:5000'', 7, (demo_host, 8767))], tp_tcp = [], tp_decoder = None\<rparr>"

definition demo_route :: route where
  "demo_route = new_route (js ''127.65.2.4'') demo_proxy"

definition demo_key :: jstr where
  "demo_key = js ''127.65.2.4/127.0.0.1:5000''"

definition demo_link :: tx_session where
  "demo_link = \<lparr>ts_clientKey = demo_key, ts_serverSock = 7, ts_header = [242, 190, 0, 12, 1, 2, 3, 4, 5, 6, 7, 8],
     ts_seq = 4294967295\<rparr>"

definition demo_transmission :: tx_state where
  "demo_transmission = \<lparr>tx_id = 1, tx_com = 1, tx_monitorOnly = False, tx_monitor = None, tx_queue = [[9]],
     tx_timer = True, tx_reader = \<lparr>og_buffer = [], og_pending = [], og_count = 3\<rparr>\<rparr>"

definition demo_state :: "bytes option \<Rightarrow> webtx \<Rightarrow> voice" where
  "demo_state b w = \<lparr>vc_routes = [(demo_host, demo_route)], vc_active = Some demo_host, vc_key = demo_key,
     vc_target = Some (demo_host, 8767), vc_session = b, vc_closed = False, vc_tx = w\<rparr>"

lemma demo_is_host: "rx_match ts2_host demo_host"
  by (simp add: demo_host_def ts2_host_def rx_match_def seqs.simps lit_def plus_def js_def char_classes)

lemma demo_endpoint: "fst (getEndpoint demo_voice demo_host init_voice) =
    init_voice\<lparr>vc_routes := [(demo_host, new_route (js ''127.65.2.4'') (demo_proxy\<lparr>tp_udp := []\<rparr>))]\<rparr>"
proof -
  have "lower (trim demo_host) = demo_host"
    by (simp add: demo_host_def js_def trim_def is_ws_def lower_def lower_unit_def lower_special_def latin_upper_def char_classes)
  moreover have "local_address [1, 2, 3] = js ''127.65.2.4''" by (simp add: js_def nat_digits.simps)
  ultimately show ?thesis
    by (simp add: getEndpoint_def Let_def demo_is_host demo_voice_def init_voice_def MAX_SERVERS_def
        createTs2VoiceProxy_def resolveServer_def demo_proxy_def)
qed

lemma demo_udp_key: "udp_key (js ''127.0.0.1'') 5000 = js ''127.0.0.1:5000''"
  by (simp add: udp_key_def js_def nat_digits.simps)

lemma demo_logged_in: "fst (proxy_op demo_host (udp_message (route_config demo_voice) (js ''127.0.0.1'') 5000 demo_login 7)
    (fst (getEndpoint demo_voice demo_host init_voice))) = demo_state None createWebTx"
proof -
  have a: "tc_accept (route_config demo_voice) (js ''127.0.0.1'')"
    by (simp add: route_config_def demo_voice_def is_local_def js_def)
  have t: "getTarget (route_config demo_voice) (demo_proxy\<lparr>tp_udp := []\<rparr>) = (demo_host, 8767)"
    by (simp add: getTarget_def route_config_def demo_voice_def demo_proxy_def)
  have u: "udp_message (route_config demo_voice) (js ''127.0.0.1'') 5000 demo_login 7 (demo_proxy\<lparr>tp_udp := []\<rparr>) =
      (demo_proxy, [ClientPacket demo_login (js ''127.0.0.1:5000'') 7 (demo_host, 8767), ToServer 7 demo_login (demo_host, 8767)])"
    by (simp add: udp_message_def a t demo_udp_key Let_def mhas_def) (simp add: demo_proxy_def)
  have l: "is_login demo_login" "\<not> is_setup demo_login" "\<not> is_seed demo_login" "length demo_login = 16"
    by (simp_all add: is_login_def is_setup_def is_seed_def u16_def demo_login_def)
  have k: "scoped_key (js ''127.65.2.4'') (js ''127.0.0.1:5000'') = demo_key"
    by (simp add: scoped_key_def demo_key_def js_def)
  show ?thesis
    unfolding demo_endpoint
    by (simp add: proxy_op_def u new_route_def put_proxy_def init_voice_def onClientPacket_def andThen_def
        clearActive_def on_tx_def invalidateTxSession_def stop_transmissions_def createWebTx_def l learn_session_def
        Let_def k demo_state_def demo_route_def)
qed

lemma demo_set_up: "fst (proxy_op demo_host (udp_message (route_config demo_voice) (js ''127.0.0.1'') 5000 demo_setup 8)
    (demo_state None createWebTx)) = demo_state (Some [1, 2, 3, 4, 5, 6, 7, 8]) (createWebTx\<lparr>wt_session := Some demo_link\<rparr>)"
proof -
  have a: "tc_accept (route_config demo_voice) (js ''127.0.0.1'')"
    by (simp add: route_config_def demo_voice_def is_local_def js_def)
  have u: "udp_message (route_config demo_voice) (js ''127.0.0.1'') 5000 demo_setup 8 demo_proxy =
      (demo_proxy, [ClientPacket demo_setup (js ''127.0.0.1:5000'') 7 (demo_host, 8767), ToServer 7 demo_setup (demo_host, 8767)])"
    by (simp add: udp_message_def a demo_udp_key Let_def mhas_def demo_proxy_def)
  have l: "\<not> is_login demo_setup" "is_setup demo_setup" "is_seed demo_setup" "length demo_setup = 16"
    "session_of demo_setup = [1, 2, 3, 4, 5, 6, 7, 8]"
    by (simp_all add: is_login_def is_setup_def is_seed_def u16_def demo_setup_def session_of_def)
  have k: "scoped_key (js ''127.65.2.4'') (js ''127.0.0.1:5000'') = demo_key"
    by (simp add: scoped_key_def demo_key_def js_def)
  have h: "derived_header [1, 2, 3, 4, 5, 6, 7, 8] = [242, 190, 0, 12, 1, 2, 3, 4, 5, 6, 7, 8]"
    by (simp add: derived_header_def CLASS_TXVOICE_def SUBTYPE_VOICE_def numeral_2_eq_2)
  have c: "cacheTxSession demo_setup demo_key 7 createWebTx =
      (createWebTx\<lparr>wt_session := Some demo_link\<rparr>, [Ready])"
    using l(4,5) by (simp del: One_nat_def add: cacheTxSession_def deriveTxSessionFromSetup_def isTxSeedSetupPacket_def createWebTx_def
        replaceTxSession_def andThen_def Let_def demo_link_def h session_of_def DERIVED_INITIAL_SEQ_def)
      (simp add: demo_setup_def u16_def CLASS_TXVOICE_def CLASS_SESSION_def)
  show ?thesis
    by (simp add: proxy_op_def u new_route_def put_proxy_def onClientPacket_def andThen_def
        on_tx_def l learn_session_def Let_def k demo_state_def demo_route_def c)
qed

lemma demo_started: "fst (on_tx (without_answer (start (ve_webtx demo_voice) 1 0 9 1 False False))
    (demo_state b (createWebTx\<lparr>wt_session := Some demo_link\<rparr>))) =
    demo_state b (\<lparr>wt_session = Some demo_link,
      wt_by_socket = [(9, demo_transmission\<lparr>tx_queue := [], tx_timer := False, tx_reader := new_reader\<rparr>)]\<rparr>)"
  by (simp add: on_tx_def without_answer_def start_def demo_voice_def demo_state_def createWebTx_def Let_def stop_def
      case_prod_beta put_tx_def demo_transmission_def)

lemma demo_pushed: "ogg_push new_reader demo_page = (\<lparr>og_buffer = [], og_pending = [], og_count = 3\<rparr>, [[9]])"
  unfolding ogg_push_def
  by (subst drain_pages.simps)
    (simp add: new_reader_def demo_page_def OggS_def page_length_def page_table_def numeral_eq_Suc drain_pages.simps)

lemma demo_encoded: "fst (on_tx (encoder_data 9 1 demo_page) (demo_state b (\<lparr>wt_session = Some demo_link,
      wt_by_socket = [(9, demo_transmission\<lparr>tx_queue := [], tx_timer := False, tx_reader := new_reader\<rparr>)]\<rparr>))) =
    demo_state b \<lparr>wt_session = Some demo_link, wt_by_socket = [(9, demo_transmission)]\<rparr>"
  by (simp add: on_tx_def encoder_data_def demo_pushed put_tx_def demo_transmission_def demo_state_def andThen_def
      encoded_packet_def Let_def queuePacket_def pumpQueue_def last_24_def normalizeSpeexPacket_def speexLimit_def
      TS2_PAYLOAD_SIZE_def)

definition demo_events :: "voice_in list" where
  "demo_events = [GetEndpoint demo_host, UdpMessage demo_host (js ''127.0.0.1'') 5000 demo_login 7,
     UdpMessage demo_host (js ''127.0.0.1'') 5000 demo_setup 8, TxStart 1 0 9 1 False False, EncoderData 9 1 demo_page]"

lemma demo_run: "voice_run demo_voice demo_events =
    demo_state (Some [1, 2, 3, 4, 5, 6, 7, 8]) \<lparr>wt_session = Some demo_link, wt_by_socket = [(9, demo_transmission)]\<rparr>"
  unfolding voice_run_def fst_run_machine demo_events_def fold.simps comp_apply id_apply voice_step.simps
    demo_logged_in demo_set_up demo_started demo_encoded ..

lemma demo_sent: "TxOut (UdpSend 7 [242, 190, 0, 12, 1, 2, 3, 4, 5, 6, 7, 8, 0, 0, 0, 0, 5, 9] (demo_host, 8767))
    \<in> set (snd (voice_step demo_voice (TxPump 9 1 True) (voice_run demo_voice demo_events)))"
proof -
  have "write_le (Suc (Suc (Suc (Suc 0)))) 0 = [0, 0, 0, 0]" by simp
  moreover have "(4 :: nat) = Suc (Suc (Suc (Suc 0)))" by simp
  ultimately have z: "write_le 4 0 = [0, 0, 0, 0]" by (simp only:)
  show ?thesis
    unfolding demo_run
    by (simp add: z on_tx_def pump_fires_def demo_transmission_def put_tx_def sendPacket_def demo_link_def Let_def tx_packet_def
      demo_state_def normalizeSpeexPacket_def speexLimit_def TS2_PAYLOAD_SIZE_def demo_voice_def router_target_def)
qed

subsection \<open>Where the browser's voice goes\<close>

text \<open>
  C35: what the browser transmits goes to the voice server that the flight client is logged in to,
  as part of its session, and nowhere else. After any run, a packet is sent only by the timer of a
  transmission that is not a microphone test and with web transmitting enabled; then there is an
  active route to a server of IVAO; the packet leaves through the UDP socket of a flow of the
  client on this route, to the target of this flow (the server or an address that its
  name was resolved to, on the voice port); and it is a voice packet of at most 325 bytes with
  eight session bytes, not all zero. These bytes are the client's own: the last login that was taken
  (a datagram from this computer of at least 16 bytes with class 0xBEF4 and subtype 3) came in on
  this route from an address and port; after it the same address and port sent a setup packet (class
  0xBEF0, subtype 5, at least 16 bytes) with these session bytes; and the flow in use is of an
  address and port that sent a packet with these session bytes, that one or a later one.
\<close>

theorem web_tx_stays_in_session:
  assumes "TxOut (UdpSend sock packet target) \<in> set (snd (voice_step E e (voice_run E es)))"
  shows "\<exists>host rt key ws i sends tx. e = TxPump ws i sends \<and> wx_enabled (ve_webtx E)
     \<and> mget (wt_by_socket (vc_tx (voice_run E es))) ws = Some tx \<and> \<not> tx_monitorOnly tx
     \<and> vc_active (voice_run E es) = Some host \<and> rx_match ts2_host host
     \<and> mget (vc_routes (voice_run E es)) host = Some rt
     \<and> vc_key (voice_run E es) = scoped_key (rt_address rt) key
     \<and> mget (tp_udp (rt_proxy rt)) key = Some (sock, target)
     \<and> snd target = tc_port (ve_ts2 E)
     \<and> (fst target = host \<or> (\<exists>g. DnsAnswer host g (Some (fst target)) \<in> set es))
     \<and> vc_session (voice_run E es) = Some (session_of packet) \<and> \<not> list_all (\<lambda>b. b = 0) (session_of packet)
     \<and> u16 packet 0 = CLASS_TXVOICE \<and> length packet \<le> 325
     \<and> (\<exists>es1 a p login s1 es2 sm s2 es3.
          es = es1 @ UdpMessage host a p login s1 # es2 @ UdpMessage host a p sm s2 # es3
          \<and> login_taken E (voice_run E es1) (UdpMessage host a p login s1)
          \<and> (\<forall>pre x suf. es = pre @ x # suf \<and> length es1 < length pre \<longrightarrow> \<not> login_taken E (voice_run E pre) x)
          \<and> 16 \<le> length sm \<and> u16 sm 0 = 48880 \<and> u16 sm 2 = 5 \<and> session_of sm = session_of packet
          \<and> (\<exists>a2 p2 m2 s. UdpMessage host a2 p2 m2 s \<in> set (UdpMessage host a p sm s2 # es3)
               \<and> session_of m2 = session_of packet \<and> key = udp_key a2 p2))"
proof -
  define v where "v = voice_run E es"
  obtain ws i sends where e: "e = TxPump ws i sends" using only_pump_sends [OF assms] .
  have ok: "voiceOk E (resolved_in es) v" unfolding v_def by (rule voice_run_ok [OF resolves_resolved])
  have flow: "flowOk E [] [] v" and routes: "routesOk E (resolved_in es) (views v)" using ok by (simp_all add: voiceOk_def)
  have "pump_out E v ws (TxOut (UdpSend sock packet target))"
    using good_out [OF pump_safe [OF ok, of ws i sends]] assms by (simp add: e v_def)
  then obtain tx a q speex where s: "target = router_target E v" "wx_enabled (ve_webtx E)"
      "mget (wt_by_socket (vc_tx v)) ws = Some tx" "\<not> tx_monitorOnly tx" "wt_session (vc_tx v) = Some a"
      "sock = ts_serverSock a" "length speex \<le> speexLimit"
      "packet = tx_packet (wx_fixed (ve_webtx E)) (a\<lparr>ts_seq := q\<rparr>) speex"
    by (auto simp: pump_out_def sent_ok_def)
  have link: "tx_link (vc_tx v) = Some (ts_clientKey a, ts_serverSock a, ts_header a)" using s(5) by (simp add: tx_link_def)
  with flow obtain h where h: "vc_active v = Some h" "activeOk [] [] v h" unfolding flowOk_def by force
  then obtain w key sock' t where w: "mget (views v) h = Some w" "vc_key v = scoped_key (rv_address w) key"
      "vc_target v = Some t" "mget (rv_udp w) key = Some (sock', t)" "linkOk v sock'"
    unfolding activeOk_def by auto
  have l: "sock = sock'" "vc_session v = Some (take 8 (drop 4 (ts_header a)))" "u16 (ts_header a) 0 = CLASS_TXVOICE"
    "length (ts_header a) = 12"
    using w(5) link s(6) unfolding linkOk_def by auto
  obtain rt where rt: "mget (vc_routes v) h = Some rt" "w = view rt" using w(1) by (auto simp: get_view)
  have t: "target = t" using s(1) w(3) by (simp add: router_target_def)
  have p: "session_of packet = take 8 (drop 4 (ts_header a))" "u16 packet 0 = CLASS_TXVOICE" "length packet \<le> 325"
    using tx_packet_facts [of "a\<lparr>ts_seq := q\<rparr>" speex "wx_fixed (ve_webtx E)"] l s(7,8)
    by (simp_all add: TS2_PAYLOAD_SIZE_def)
  have "rx_match ts2_host h" "viewOk (tc_port (ve_ts2 E)) (resolved_in es) h w"
    using routes w(1) by (simp_all add: routesOk_def)
  then have "targetOk (tc_port (ve_ts2 E)) (resolved_in es) h t" using w(4) unfolding viewOk_def by blast
  then have target: "snd target = tc_port (ve_ts2 E)"
    "fst target = h \<or> (\<exists>g. DnsAnswer h g (Some (fst target)) \<in> set es)"
    by (simp_all add: targetOk_def t resolved_in_def)
  have at: "mget (tp_udp (rt_proxy rt)) key = Some (sock, target)" "vc_key v = scoped_key (rt_address rt) key"
    using w(2,4) l(1) rt(2) t by (simp_all add: view_def)
  moreover have session: "\<not> list_all (\<lambda>b. b = 0) (session_of packet)" "vc_session v = Some (session_of packet)"
    using flow l(2) p(1) by (simp_all add: flowOk_def)
  moreover have "rv_address w = local_address (ve_sha256 E h)" using routes w(1) by (simp add: routesOk_def)
  then have "rt_address rt = local_address (ve_sha256 E h)" using rt(2) by (simp add: view_def)
  moreover obtain es1 a p login s1 rest where t: "last_login E es es1 (UdpMessage h a p login s1) rest"
      "shown_after E h a p rest (session_of packet) (vc_key v)"
    using traced_run [of E es] h(1) session(2) unfolding traced_def v_def by fastforce
  moreover obtain es2 sm s2 es3 a2 p2 m2 s where sm: "rest = es2 @ UdpMessage h a p sm s2 # es3"
      "16 \<le> length sm" "u16 sm 0 = 48880" "u16 sm 2 = 5" "session_of sm = session_of packet"
      "UdpMessage h a2 p2 m2 s \<in> set (UdpMessage h a p sm s2 # es3)" "session_of m2 = session_of packet"
      "vc_key v = scoped_key (local_address (ve_sha256 E h)) (udp_key a2 p2)"
    using t(2) unfolding shown_after_def by blast
  ultimately have key: "key = udp_key a2 p2" using sm(8) by (simp add: scoped_key_def)
  have origin: "\<exists>es1 a p login s1 es2 sm s2 es3.
      es = es1 @ UdpMessage h a p login s1 # es2 @ UdpMessage h a p sm s2 # es3
      \<and> login_taken E (voice_run E es1) (UdpMessage h a p login s1)
      \<and> (\<forall>pre x suf. es = pre @ x # suf \<and> length es1 < length pre \<longrightarrow> \<not> login_taken E (voice_run E pre) x)
      \<and> 16 \<le> length sm \<and> u16 sm 0 = 48880 \<and> u16 sm 2 = 5 \<and> session_of sm = session_of packet
      \<and> (\<exists>a2 p2 m2 s. UdpMessage h a2 p2 m2 s \<in> set (UdpMessage h a p sm s2 # es3)
           \<and> session_of m2 = session_of packet \<and> key = udp_key a2 p2)"
    using t(1) sm key unfolding last_login_def by blast
  show ?thesis
    unfolding v_def [symmetric]
    by (rule exI [of _ h], rule exI [of _ rt], rule exI [of _ key], rule exI [of _ ws], rule exI [of _ i],
        rule exI [of _ sends], rule exI [of _ tx], intro conjI)
      (fact e s(2-4) h(1) rt(1) p(2,3) target at session origin \<open>rx_match ts2_host h\<close>)+
qed

theorem web_tx_stays_in_session_witness:
  "\<exists>host rt key es1 a p login s1 es2 sm s2 es3. vc_active (voice_run demo_voice demo_events) = Some host
     \<and> mget (vc_routes (voice_run demo_voice demo_events)) host = Some rt
     \<and> mget (tp_udp (rt_proxy rt)) key = Some (7, (demo_host, 8767))
     \<and> demo_events = es1 @ UdpMessage host a p login s1 # es2 @ UdpMessage host a p sm s2 # es3
     \<and> login_taken demo_voice (voice_run demo_voice es1) (UdpMessage host a p login s1)
     \<and> u16 sm 0 = 48880 \<and> u16 sm 2 = 5 \<and> session_of sm = [1, 2, 3, 4, 5, 6, 7, 8]"
proof -
  have "session_of [242, 190, 0, 12, 1, 2, 3, 4, 5, 6, 7, 8, 0, 0, 0, 0, 5, 9 :: nat] = [1, 2, 3, 4, 5, 6, 7, 8]"
    by (simp add: session_of_def)
  then show ?thesis using web_tx_stays_in_session [OF demo_sent] by (elim exE conjE) metis
qed

end
