(* ===== verification/Ops.thy ===== *)
theory Ops
  imports JStrings
begin

section \<open>Operations that change a state and may throw\<close>

text \<open>
  The database functions and the HTTP handlers of the relay are written as operations: from the
  state before to the value or the error thrown, and the state after. An error keeps the changes
  made before it; only a transaction undoes them. \<open>keeping P m\<close> says that the operation keeps the
  invariant \<open>P\<close>, whether it returns or throws.
\<close>

named_theorems keep_intros
named_theorems op_simps

text \<open>An error with a status for the client (\<open>apiError\<close>), or any other error (answered with 500).\<close>

datatype thrown = Api nat jstr jstr | Err jstr

type_synonym ('s, 'a) op = "'s \<Rightarrow> (thrown + 'a) \<times> 's"

definition return_op :: "'a \<Rightarrow> ('s, 'a) op" where
  "return_op x s = (Inr x, s)"

definition throw_op :: "thrown \<Rightarrow> ('s, 'a) op" where
  "throw_op e s = (Inl e, s)"

definition bind_op :: "('s, 'a) op \<Rightarrow> ('a \<Rightarrow> ('s, 'b) op) \<Rightarrow> ('s, 'b) op" where
  "bind_op m f s = (case m s of (Inl e, s1) \<Rightarrow> (Inl e, s1) | (Inr x, s1) \<Rightarrow> f x s1)"

definition get_op :: "('s \<Rightarrow> 'a) \<Rightarrow> ('s, 'a) op" where
  "get_op f s = (Inr (f s), s)"

definition put_op :: "('s \<Rightarrow> 's) \<Rightarrow> ('s, unit) op" where
  "put_op f s = (Inr (), f s)"

text \<open>Evaluate, and change the state by what was found: the value and the new state together.\<close>

definition step_op :: "('s \<Rightarrow> 'a \<times> 's) \<Rightarrow> ('s, 'a) op" where
  "step_op f s = (let (x, s1) = f s in (Inr x, s1))"

definition transaction :: "('s, 'a) op \<Rightarrow> ('s, 'a) op" where
  "transaction m s = (case m s of (Inl e, s1) \<Rightarrow> (Inl e, s) | (Inr x, s1) \<Rightarrow> (Inr x, s1))"

text \<open>\<open>try { m } catch { d }\<close> where the error is only logged.\<close>

definition attempt :: "'a \<Rightarrow> ('s, 'a) op \<Rightarrow> ('s, 'a) op" where
  "attempt d m s = (case m s of (Inl e, s1) \<Rightarrow> (Inr d, s1) | (Inr x, s1) \<Rightarrow> (Inr x, s1))"

text \<open>The operations of a part of the state: \<open>get\<close> reads it, \<open>upd\<close> replaces it.\<close>

definition on_part :: "('s \<Rightarrow> 'p) \<Rightarrow> ('p \<Rightarrow> 's \<Rightarrow> 's) \<Rightarrow> ('p, 'a) op \<Rightarrow> ('s, 'a) op" where
  "on_part get upd m s = (let (r, p) = m (get s) in (r, upd p s))"

fun each_op :: "('x \<Rightarrow> ('s, unit) op) \<Rightarrow> 'x list \<Rightarrow> ('s, unit) op" where
  "each_op f [] = return_op ()"
| "each_op f (x # xs) = bind_op (f x) (\<lambda>_. each_op f xs)"

subsection \<open>Evaluation\<close>

lemma op_evals [simp, op_simps]:
  "return_op x s = (Inr x, s)" "throw_op e s = (Inl e, s)"
  "get_op f s = (Inr (f s), s)" "put_op g s = (Inr (), g s)"
  "step_op h s = (Inr (fst (h s)), snd (h s))"
  by (simp_all add: return_op_def throw_op_def get_op_def put_op_def step_op_def split_beta Let_def)

lemma bind_evals [simp, op_simps]:
  "bind_op (return_op x) f = f x"
  "bind_op (throw_op e) f = throw_op e"
  "bind_op (get_op g) f s = f (g s) s"
  "bind_op (put_op h) k s = k () (h s)"
  "bind_op (step_op st) f s = f (fst (st s)) (snd (st s))"
  by (simp_all add: bind_op_def fun_eq_iff)

lemma bind_eta [simp]: "bind_op (\<lambda>s. (Inr (g s), s)) f s = f (g s) s"
  by (simp add: bind_op_def)

lemma bind_op_Inr: "m s = (Inr x, s1) \<Longrightarrow> bind_op m f s = f x s1"
  by (simp add: bind_op_def)

lemma bind_op_Inl: "m s = (Inl e, s1) \<Longrightarrow> bind_op m f s = (Inl e, s1)"
  by (simp add: bind_op_def)

lemma bind_op_assoc: "bind_op (bind_op m f) g = bind_op m (\<lambda>x. bind_op (f x) g)"
  by (auto simp: bind_op_def fun_eq_iff split: sum.splits prod.splits)

lemma bind_op_InrE:
  assumes "bind_op m f s = (Inr y, s2)"
  obtains x s1 where "m s = (Inr x, s1)" "f x s1 = (Inr y, s2)"
  using assms by (auto simp: bind_op_def split: prod.splits sum.splits)

lemma transaction_InrE: "transaction m s = (Inr x, s1) \<longleftrightarrow> m s = (Inr x, s1)"
  by (auto simp: transaction_def split: prod.splits sum.splits)

lemma transaction_throws: "fst (m s) = Inl e \<Longrightarrow> transaction m s = (Inl e, s)"
  by (cases "m s") (simp add: transaction_def)

subsection \<open>Invariants of operations\<close>

definition keeping :: "('s \<Rightarrow> bool) \<Rightarrow> ('s, 'a) op \<Rightarrow> bool" where
  "keeping P m = (\<forall>s. P s \<longrightarrow> P (snd (m s)))"

lemma keepingI: "(\<And>s. P s \<Longrightarrow> P (snd (m s))) \<Longrightarrow> keeping P m"
  by (simp add: keeping_def)

lemma keepingD: "keeping P m \<Longrightarrow> P s \<Longrightarrow> P (snd (m s))"
  by (simp add: keeping_def)

lemma keeping_basic [keep_intros]:
  "keeping P (return_op x)" "keeping P (throw_op e)" "keeping P (get_op f)"
  by (simp_all add: keeping_def)

lemma keeping_put [keep_intros]: "(\<And>s. P s \<Longrightarrow> P (g s)) \<Longrightarrow> keeping P (put_op g)"
  by (simp add: keeping_def)

lemma keeping_step [keep_intros]: "(\<And>s. P s \<Longrightarrow> P (snd (h s))) \<Longrightarrow> keeping P (step_op h)"
  by (simp add: keeping_def)

lemma keeping_bind [keep_intros]: "keeping P m \<Longrightarrow> (\<And>x. keeping P (f x)) \<Longrightarrow> keeping P (bind_op m f)"
  by (auto simp: keeping_def bind_op_def split: prod.splits sum.splits)

lemma keeping_transaction [keep_intros]: "keeping P m \<Longrightarrow> keeping P (transaction m)"
  by (auto simp: keeping_def transaction_def split: prod.splits sum.splits)

lemma keeping_attempt [keep_intros]: "keeping P m \<Longrightarrow> keeping P (attempt d m)"
  by (auto simp: keeping_def attempt_def split: prod.splits sum.splits)

lemma keeping_if [keep_intros]: "(b \<Longrightarrow> keeping P m) \<Longrightarrow> (\<not> b \<Longrightarrow> keeping P n) \<Longrightarrow> keeping P (if b then m else n)"
  by simp

lemma keeping_option [keep_intros]:
  "(z = None \<Longrightarrow> keeping P m) \<Longrightarrow> (\<And>x. z = Some x \<Longrightarrow> keeping P (f x)) \<Longrightarrow> keeping P (case z of None \<Rightarrow> m | Some x \<Rightarrow> f x)"
  by (cases z) auto

lemma keeping_Let [keep_intros]: "(\<And>x. x = v \<Longrightarrow> keeping P (f x)) \<Longrightarrow> keeping P (Let v f)"
  by simp

lemma keeping_split [keep_intros]:
  "(\<And>x y. z = (x, y) \<Longrightarrow> keeping P (f x y)) \<Longrightarrow> keeping P (case z of (x, y) \<Rightarrow> f x y)"
  by (cases z) auto

lemma keeping_on_part [keep_intros]:
  assumes "keeping Q m" "\<And>s. P s \<Longrightarrow> Q (get s)" "\<And>s p. P s \<Longrightarrow> Q p \<Longrightarrow> P (upd p s)"
  shows "keeping P (on_part get upd m)"
  using assms by (auto simp: keeping_def on_part_def Let_def split_beta)

lemma keeping_each [keep_intros]: "(\<And>x. x \<in> set xs \<Longrightarrow> keeping P (f x)) \<Longrightarrow> keeping P (each_op f xs)"
  by (induction xs) (auto intro: keep_intros)

lemma keeping_conj: "keeping P m \<Longrightarrow> keeping Q m \<Longrightarrow> keeping (\<lambda>s. P s \<and> Q s) m"
  by (simp add: keeping_def)

subsection \<open>Before and after\<close>

text \<open>
  \<open>triple P m Q E\<close>: started with \<open>P\<close>, the operation returns a value and a state with \<open>Q\<close> or throws
  with \<open>E\<close>. For operations that leave an invariant for a while and restore it.
\<close>

named_theorems triple_intros

definition triple :: "('s \<Rightarrow> bool) \<Rightarrow> ('s, 'a) op \<Rightarrow> ('a \<Rightarrow> 's \<Rightarrow> bool) \<Rightarrow> ('s \<Rightarrow> bool) \<Rightarrow> bool" where
  "triple P m Q E = (\<forall>s. P s \<longrightarrow> (case m s of (Inl e, s1) \<Rightarrow> E s1 | (Inr x, s1) \<Rightarrow> Q x s1))"

lemma tripleI:
  "(\<And>s e s1. P s \<Longrightarrow> m s = (Inl e, s1) \<Longrightarrow> E s1) \<Longrightarrow> (\<And>s x s1. P s \<Longrightarrow> m s = (Inr x, s1) \<Longrightarrow> Q x s1) \<Longrightarrow> triple P m Q E"
  by (auto simp: triple_def split: prod.split sum.split)

lemma triple_keeping: "keeping P m \<longleftrightarrow> triple P m (\<lambda>_. P) P"
proof -
  have "P (snd r) = (case r of (Inl e, s1) \<Rightarrow> P s1 | (Inr x, s1) \<Rightarrow> P s1)" for r :: "(thrown + 'b) \<times> 'a"
    by (cases r; cases "fst r") auto
  then show ?thesis by (simp add: keeping_def triple_def)
qed

lemma triple_bind: "triple P m R E \<Longrightarrow> (\<And>x. triple (R x) (f x) Q E) \<Longrightarrow> triple P (bind_op m f) Q E"
  by (fastforce simp: triple_def bind_op_def split: prod.splits sum.splits)

lemma triple_keep: "keeping P m \<Longrightarrow> (\<And>x. triple P (f x) Q P) \<Longrightarrow> triple P (bind_op m f) Q P"
  by (auto simp: triple_keeping intro: triple_bind)

lemma triple_if: "(b \<Longrightarrow> triple P m Q E) \<Longrightarrow> (\<not> b \<Longrightarrow> triple P n Q E) \<Longrightarrow> triple P (if b then m else n) Q E"
  by simp

lemma triple_conseq: "triple P m R E \<Longrightarrow> (\<And>s. P' s \<Longrightarrow> P s) \<Longrightarrow> (\<And>x s. R x s \<Longrightarrow> Q x s) \<Longrightarrow> (\<And>s. E s \<Longrightarrow> E' s) \<Longrightarrow> triple P' m Q E'"
  by (fastforce simp: triple_def split: prod.splits sum.splits)

lemma triple_return: "(\<And>s. P s \<Longrightarrow> Q x s) \<Longrightarrow> triple P (return_op x) Q E"
  by (simp add: triple_def)

lemma triple_put: "(\<And>s. P s \<Longrightarrow> Q () (g s)) \<Longrightarrow> triple P (put_op g) Q E"
  by (simp add: triple_def)

lemma triple_on_part:
  assumes "triple P m Q E" "\<And>s. P' s \<Longrightarrow> P (get s)" "\<And>s x p. P' s \<Longrightarrow> Q x p \<Longrightarrow> Q' x (upd p s)"
    "\<And>s p. P' s \<Longrightarrow> E p \<Longrightarrow> E' (upd p s)"
  shows "triple P' (on_part get upd m) Q' E'"
proof (rule tripleI)
  fix s e s1 assume s: "P' s" "on_part get upd m s = (Inl e, s1)"
  then show "E' s1"
    using assms(1) assms(2) [OF s(1)] assms(4) [OF s(1)]
    by (cases "m (get s)") (fastforce simp: triple_def on_part_def split: prod.splits sum.splits)
next
  fix s x s1 assume s: "P' s" "on_part get upd m s = (Inr x, s1)"
  then show "Q' x s1"
    using assms(1) assms(2) [OF s(1)] assms(3) [OF s(1)]
    by (cases "m (get s)") (fastforce simp: triple_def on_part_def split: prod.splits sum.splits)
qed

end
