(* ===== verification/RelayDb.thy ===== *)
theory RelayDb
  imports RelayBase Ops
begin

section \<open>The database of the relay (apps/relay/db.js)\<close>

text \<open>
  Each table is the list of its rows, in the order of insertion; each function of the module is an
  operation that runs its SQL statements on the tables. A column that is never read or written by
  these functions is left out. A time stamp is the number of milliseconds that its text denotes
  (the texts are all made by \<open>toISOString\<close>, whose order is that of the times); \<open>now\<close> is the clock,
  \<open>uuid\<close> what \<open>randomUUID\<close> returns, \<open>H\<close> the hexadecimal SHA-256.

  An operation throws (\<open>Inl\<close>) as the code does and when a statement breaks a constraint of the
  schema (migrations/*.sql): a primary key, a unique column, a reference. A transaction that throws
  is rolled back; a statement outside is not.
\<close>

subsection \<open>Tables\<close>

record user_row =
  us_id :: jstr
  us_name :: jstr
  us_display :: jstr
  us_password :: "jstr option"
  us_created :: int
  us_disabled :: "int option"
  us_legal :: "(jstr \<times> jstr \<times> int \<times> jstr) option"

record token_row =
  tk_id :: jstr
  tk_user :: jstr
  tk_name :: jstr
  tk_prefix :: jstr
  tk_hash :: jstr
  tk_created :: int
  tk_revoked :: "int option"

record agent_row =
  gr_id :: jstr
  gr_user :: jstr
  gr_device :: jstr
  gr_name :: jstr
  gr_first :: int
  gr_last :: int
  gr_disabled :: "int option"

record pairing_row =
  pr_id :: jstr
  pr_user :: jstr
  pr_agent :: jstr
  pr_hash :: jstr
  pr_label :: "jstr option"
  pr_created :: int
  pr_used :: int
  pr_revoked :: "int option"

record session_row =
  sr_id :: jstr
  sr_owner :: jstr
  sr_hash :: jstr
  sr_browser :: "jstr option"
  sr_created :: int
  sr_seen :: int
  sr_expires :: int
  sr_revoked :: "int option"
  sr_ip :: "jstr option"
  sr_agent :: "jstr option"

record recovery_row =
  ry_id :: jstr
  ry_user :: jstr
  ry_hash :: jstr
  ry_created :: int
  ry_expires :: int

datatype admin_role = Owner | Operator

record admin_row =
  ad_id :: jstr
  ad_name :: jstr
  ad_display :: jstr
  ad_password :: jstr
  ad_role :: admin_role
  ad_created :: int
  ad_changed :: int
  ad_login :: "int option"
  ad_disabled :: "int option"

record passkey_row =
  pk_id :: jstr
  pk_admin :: jstr
  pk_name :: jstr
  pk_userid :: jstr
  pk_key :: "nat list"
  pk_counter :: nat
  pk_transports :: json
  pk_type :: jstr
  pk_backed :: bool
  pk_created :: int
  pk_used :: "int option"

datatype mfa_purpose = Authentication | Registration

record challenge_row =
  ch_id :: jstr
  ch_admin :: jstr
  ch_flow :: jstr
  ch_purpose :: mfa_purpose
  ch_challenge :: jstr
  ch_origin :: jstr
  ch_rp :: jstr
  ch_session :: "jstr option"
  ch_created :: int
  ch_expires :: int

record code_row =
  cd_id :: jstr
  cd_admin :: jstr
  cd_hash :: jstr
  cd_created :: int
  cd_used :: "int option"

record audit_row =
  aw_id :: jstr
  aw_user :: "jstr option"
  aw_actorType :: jstr
  aw_actorId :: "jstr option"
  aw_event :: jstr
  aw_ip :: "jstr option"
  aw_agent :: "jstr option"
  aw_pairing :: "jstr option"
  aw_command :: "jstr option"
  aw_created :: int
  aw_metadata :: "payload option"

record relay_db =
  db_users :: "user_row list"
  db_tokens :: "token_row list"
  db_agents :: "agent_row list"
  db_pairings :: "pairing_row list"
  db_sessions :: "session_row list"
  db_recovery :: "recovery_row list"
  db_admins :: "admin_row list"
  db_admin_sessions :: "session_row list"
  db_passkeys :: "passkey_row list"
  db_challenges :: "challenge_row list"
  db_codes :: "code_row list"
  db_audit :: "audit_row list"

type_synonym 'a rdb = "(relay_db, 'a) op"

definition empty_db :: relay_db where
  "empty_db = \<lparr>db_users = [], db_tokens = [], db_agents = [], db_pairings = [], db_sessions = [], db_recovery = [],
     db_admins = [], db_admin_sessions = [], db_passkeys = [], db_challenges = [], db_codes = [], db_audit = []\<rparr>"

subsection \<open>Statements\<close>

text \<open>\<open>UPDATE\<close> and the number of rows it changed; \<open>ORDER BY\<close> with a comparison (rows that tie keep their order).\<close>

definition rows_set :: "('r \<Rightarrow> bool) \<Rightarrow> ('r \<Rightarrow> 'r) \<Rightarrow> 'r list \<Rightarrow> 'r list" where
  "rows_set P f rs = map (\<lambda>r. if P r then f r else r) rs"

definition hits :: "('r \<Rightarrow> bool) \<Rightarrow> 'r list \<Rightarrow> nat" where
  "hits P rs = length (filter P rs)"

fun order_insert :: "('r \<Rightarrow> 'r \<Rightarrow> bool) \<Rightarrow> 'r \<Rightarrow> 'r list \<Rightarrow> 'r list" where
  "order_insert le r [] = [r]"
| "order_insert le r (x # xs) = (if le r x then r # x # xs else x # order_insert le r xs)"

definition order_by :: "('r \<Rightarrow> 'r \<Rightarrow> bool) \<Rightarrow> 'r list \<Rightarrow> 'r list" where
  "order_by le rs = foldr (order_insert le) rs []"

definition constraint :: "string \<Rightarrow> thrown" where
  "constraint what = Err (js ''constraint failed: '' @ js what)"

text \<open>Texts that must not be empty, texts that may be \<open>NULL\<close>.\<close>

definition requireDbText :: "jstr \<Rightarrow> string \<Rightarrow> ('s, jstr) op" where
  "requireDbText value field =
     (let t = trim value in if t = [] then throw_op (Err (js field @ js '' is required'')) else return_op t)"

definition optionalDbText :: "jstr \<Rightarrow> jstr option" where
  "optionalDbText value = (let t = trim value in if t = [] then None else Some t)"

definition tokenPrefix :: "jstr \<Rightarrow> jstr" where
  "tokenPrefix token = take 8 token"

definition relayUserDbId :: "(jstr \<Rightarrow> jstr) \<Rightarrow> jstr \<Rightarrow> jstr" where
  "relayUserDbId H userId = js ''usr_'' @ take 24 (H userId)"

definition relayAgentDbId :: "(jstr \<Rightarrow> jstr) \<Rightarrow> jstr \<Rightarrow> jstr \<Rightarrow> jstr" where
  "relayAgentDbId H dbUserId deviceId = js ''agt_'' @ take 24 (H (dbUserId @ [58] @ deviceId))"

definition hashToken :: "(jstr \<Rightarrow> jstr) \<Rightarrow> jstr \<Rightarrow> jstr" where
  "hashToken H token = H token"

definition hashBrowserForUser :: "(jstr \<Rightarrow> jstr) \<Rightarrow> jstr \<Rightarrow> jstr \<Rightarrow> jstr" where
  "hashBrowserForUser H userId browserId = hashToken H (userId @ [58] @ browserId)"

subsection \<open>Rows with constraints\<close>

definition insert_user :: "user_row \<Rightarrow> unit rdb" where
  "insert_user r =
     bind_op (get_op db_users) (\<lambda>us.
       if \<exists>u \<in> set us. us_id u = us_id r \<or> us_name u = us_name r then throw_op (constraint ''users'')
       else put_op (\<lambda>d. d\<lparr>db_users := db_users d @ [r]\<rparr>))"

definition insert_token :: "token_row \<Rightarrow> unit rdb" where
  "insert_token r =
     bind_op (get_op id) (\<lambda>d.
       if (\<exists>t \<in> set (db_tokens d). tk_id t = tk_id r \<or> tk_hash t = tk_hash r)
          \<or> \<not> (\<exists>u \<in> set (db_users d). us_id u = tk_user r) then throw_op (constraint ''agent_tokens'')
       else put_op (\<lambda>d. d\<lparr>db_tokens := db_tokens d @ [r]\<rparr>))"

definition insert_session :: "session_row \<Rightarrow> unit rdb" where
  "insert_session r =
     bind_op (get_op id) (\<lambda>d.
       if (\<exists>t \<in> set (db_sessions d). sr_id t = sr_id r \<or> sr_hash t = sr_hash r)
          \<or> \<not> (\<exists>u \<in> set (db_users d). us_id u = sr_owner r) then throw_op (constraint ''browser_sessions'')
       else put_op (\<lambda>d. d\<lparr>db_sessions := db_sessions d @ [r]\<rparr>))"

definition insert_admin_session :: "session_row \<Rightarrow> unit rdb" where
  "insert_admin_session r =
     bind_op (get_op id) (\<lambda>d.
       if (\<exists>t \<in> set (db_admin_sessions d). sr_id t = sr_id r \<or> sr_hash t = sr_hash r)
          \<or> \<not> (\<exists>a \<in> set (db_admins d). ad_id a = sr_owner r) then throw_op (constraint ''admin_sessions'')
       else put_op (\<lambda>d. d\<lparr>db_admin_sessions := db_admin_sessions d @ [r]\<rparr>))"

subsection \<open>Users and their tokens\<close>

definition find_user :: "jstr \<Rightarrow> relay_db \<Rightarrow> user_row option" where
  "find_user userId d = find (\<lambda>u. us_name u = userId) (db_users d)"

definition getRelayUser :: "jstr \<Rightarrow> user_row option rdb" where
  "getRelayUser userId = bind_op (requireDbText userId ''userId'') (\<lambda>name. get_op (find_user name))"

definition requireRelayUser :: "jstr \<Rightarrow> user_row rdb" where
  "requireRelayUser userId = bind_op (getRelayUser userId)
     (\<lambda>u. case u of Some r \<Rightarrow> return_op r | None \<Rightarrow> throw_op (Err (js ''Relay user not found: '' @ userId)))"

definition new_token :: "(jstr \<Rightarrow> jstr) \<Rightarrow> int \<Rightarrow> jstr \<Rightarrow> jstr \<Rightarrow> jstr \<Rightarrow> jstr \<Rightarrow> token_row" where
  "new_token H now uuid user name token =
     \<lparr>tk_id = js ''tok_'' @ uuid, tk_user = user, tk_name = name, tk_prefix = tokenPrefix token,
      tk_hash = hashToken H token, tk_created = now, tk_revoked = None\<rparr>"

definition AGENT_TOKEN_NAME :: jstr where
  "AGENT_TOKEN_NAME = js ''VoxHF agent token''"

datatype token_action = Unchanged | Rotated | Created

text \<open>The token name is always \<open>AGENT_TOKEN_NAME\<close> here. An upsert enables a user that was disabled.\<close>

definition upsert_user :: "(jstr \<Rightarrow> jstr) \<Rightarrow> int \<Rightarrow> jstr \<Rightarrow> jstr \<Rightarrow> unit rdb" where
  "upsert_user H now userId displayName =
     bind_op (get_op (find_user userId)) (\<lambda>u. case u of
         Some _ \<Rightarrow> put_op (\<lambda>d. d\<lparr>db_users := rows_set (\<lambda>r. us_name r = userId)
                     (\<lambda>r. r\<lparr>us_display := displayName, us_disabled := None\<rparr>) (db_users d)\<rparr>)
       | None \<Rightarrow> insert_user \<lparr>us_id = relayUserDbId H userId, us_name = userId, us_display = displayName,
                     us_password = None, us_created = now, us_disabled = None, us_legal = None\<rparr>)"

definition active_tokens :: "jstr \<Rightarrow> jstr \<Rightarrow> relay_db \<Rightarrow> token_row list" where
  "active_tokens user name d = filter (\<lambda>t. tk_user t = user \<and> tk_name t = name \<and> tk_revoked t = None) (db_tokens d)"

definition importRelayUserToken ::
  "(jstr \<Rightarrow> jstr) \<Rightarrow> int \<Rightarrow> jstr \<Rightarrow> jstr \<Rightarrow> jstr \<Rightarrow> jstr \<Rightarrow> (token_action \<times> jstr) rdb" where
  "importRelayUserToken H now uuid userId displayName token =
     bind_op (requireDbText userId ''userId'') (\<lambda>userId.
     bind_op (requireDbText (if displayName \<noteq> [] then displayName else userId) ''displayName'') (\<lambda>displayName.
     bind_op (requireDbText token ''token'') (\<lambda>token.
     transaction (
       bind_op (upsert_user H now userId displayName) (\<lambda>_.
       bind_op (requireRelayUser userId) (\<lambda>user.
       bind_op (get_op (active_tokens (us_id user) AGENT_TOKEN_NAME)) (\<lambda>existing.
         if \<exists>t \<in> set existing. tk_hash t = hashToken H token then return_op (Unchanged, tokenPrefix token)
         else bind_op (put_op (\<lambda>d. d\<lparr>db_tokens := rows_set
                  (\<lambda>t. tk_user t = us_id user \<and> tk_name t = AGENT_TOKEN_NAME \<and> tk_revoked t = None)
                  (\<lambda>t. t\<lparr>tk_revoked := Some now\<rparr>) (db_tokens d)\<rparr>)) (\<lambda>_.
              bind_op (insert_token (new_token H now uuid (us_id user) AGENT_TOKEN_NAME token)) (\<lambda>_.
              return_op (if existing \<noteq> [] then Rotated else Created, tokenPrefix token))))))))))"

definition createRelayAccount ::
  "(jstr \<Rightarrow> jstr) \<Rightarrow> int \<Rightarrow> jstr \<Rightarrow> jstr \<Rightarrow> jstr \<Rightarrow> jstr \<Rightarrow> jstr \<Rightarrow> jstr \<Rightarrow> jstr \<Rightarrow> jstr \<Rightarrow> jstr rdb" where
  "createRelayAccount H now uuid userId displayName passwordHash token terms privacy legalMethod =
     bind_op (requireDbText userId ''userId'') (\<lambda>userId.
     bind_op (requireDbText (if displayName \<noteq> [] then displayName else userId) ''displayName'') (\<lambda>displayName.
     bind_op (requireDbText passwordHash ''passwordHash'') (\<lambda>passwordHash.
     bind_op (requireDbText token ''token'') (\<lambda>token.
     bind_op (requireDbText terms ''termsVersion'') (\<lambda>terms.
     bind_op (requireDbText privacy ''privacyVersion'') (\<lambda>privacy.
     bind_op (requireDbText legalMethod ''legalAcceptanceMethod'') (\<lambda>legalMethod.
     transaction (
       bind_op (get_op (find_user userId)) (\<lambda>existing.
         if existing \<noteq> None then throw_op (Err (js ''user already exists''))
         else bind_op (insert_user \<lparr>us_id = relayUserDbId H userId, us_name = userId, us_display = displayName,
                  us_password = Some passwordHash, us_created = now, us_disabled = None,
                  us_legal = Some (terms, privacy, now, legalMethod)\<rparr>) (\<lambda>_.
              bind_op (insert_token (new_token H now uuid (relayUserDbId H userId) AGENT_TOKEN_NAME token)) (\<lambda>_.
              return_op (tokenPrefix token))))))))))))"

definition listActiveRelayTokenUsers :: "(jstr \<times> jstr \<times> jstr) list rdb" where
  "listActiveRelayTokenUsers = get_op (\<lambda>d.
     map (\<lambda>(u, t). (us_name u, us_display u, tk_hash t))
       (order_by (\<lambda>(u, t) (u', t'). us_name u \<noteq> us_name u' \<and> jstr_le (us_name u) (us_name u')
            \<or> us_name u = us_name u' \<and> tk_created t \<le> tk_created t')
         [(u, t). u \<leftarrow> db_users d, t \<leftarrow> db_tokens d, tk_user t = us_id u \<and> us_disabled u = None \<and> tk_revoked t = None]))"

definition ensureRelayUser :: "(jstr \<Rightarrow> jstr) \<Rightarrow> int \<Rightarrow> jstr \<Rightarrow> jstr \<Rightarrow> user_row rdb" where
  "ensureRelayUser H now userId displayName =
     bind_op (requireDbText userId ''userId'') (\<lambda>name.
     bind_op (requireDbText (if displayName \<noteq> [] then displayName else name) ''displayName'') (\<lambda>display.
     bind_op (get_op (find_user name)) (\<lambda>u.
     bind_op (case u of Some _ \<Rightarrow> return_op ()
        | None \<Rightarrow> insert_user \<lparr>us_id = relayUserDbId H name, us_name = name, us_display = display,
                     us_password = None, us_created = now, us_disabled = None, us_legal = None\<rparr>) (\<lambda>_.
     requireRelayUser name))))"

definition setRelayUserDisabled :: "int \<Rightarrow> jstr \<Rightarrow> bool \<Rightarrow> unit rdb" where
  "setRelayUserDisabled now userId disabled =
     bind_op (requireRelayUser userId) (\<lambda>user.
     put_op (\<lambda>d. d\<lparr>db_users := rows_set (\<lambda>u. us_id u = us_id user)
       (\<lambda>u. u\<lparr>us_disabled := (if disabled then Some now else None)\<rparr>) (db_users d)\<rparr>))"

definition revokeRelayUserTokens :: "int \<Rightarrow> jstr \<Rightarrow> jstr option \<Rightarrow> nat rdb" where
  "revokeRelayUserTokens now userId tokenName =
     bind_op (requireRelayUser userId) (\<lambda>user.
     bind_op (case tokenName of Some n \<Rightarrow> if n = [] then return_op None else bind_op (requireDbText n ''tokenName'') (\<lambda>t. return_op (Some t))
              | None \<Rightarrow> return_op None) (\<lambda>name.
     (let P = (\<lambda>t. tk_user t = us_id user \<and> tk_revoked t = None \<and> (name = None \<or> name = Some (tk_name t))) in
      bind_op (get_op (\<lambda>d. hits P (db_tokens d))) (\<lambda>n.
      bind_op (put_op (\<lambda>d. d\<lparr>db_tokens := rows_set P (\<lambda>t. t\<lparr>tk_revoked := Some now\<rparr>) (db_tokens d)\<rparr>)) (\<lambda>_. return_op n)))))"

text \<open>Deleting a user deletes what refers to it (\<open>ON DELETE CASCADE\<close>); its audit events stay without it.\<close>

definition delete_users :: "(user_row \<Rightarrow> bool) \<Rightarrow> relay_db \<Rightarrow> relay_db" where
  "delete_users P d =
     (let gone = map us_id (filter P (db_users d));
          agents = map gr_id (filter (\<lambda>a. gr_user a \<in> set gone) (db_agents d))
      in d\<lparr>db_users := filter (\<lambda>u. \<not> P u) (db_users d),
           db_tokens := filter (\<lambda>t. tk_user t \<notin> set gone) (db_tokens d),
           db_agents := filter (\<lambda>a. gr_user a \<notin> set gone) (db_agents d),
           db_pairings := filter (\<lambda>p. pr_user p \<notin> set gone \<and> pr_agent p \<notin> set agents) (db_pairings d),
           db_sessions := filter (\<lambda>s. sr_owner s \<notin> set gone) (db_sessions d),
           db_recovery := filter (\<lambda>r. ry_user r \<notin> set gone) (db_recovery d),
           db_audit := map (\<lambda>a. case aw_user a of
               Some u \<Rightarrow> if u \<in> set gone then a\<lparr>aw_user := None\<rparr> else a | None \<Rightarrow> a) (db_audit d)\<rparr>)"

definition deleteRelayUser :: "jstr \<Rightarrow> nat rdb" where
  "deleteRelayUser userId =
     bind_op (requireRelayUser userId) (\<lambda>user.
     bind_op (get_op (\<lambda>d. hits (\<lambda>u. us_id u = us_id user) (db_users d))) (\<lambda>n.
     bind_op (put_op (delete_users (\<lambda>u. us_id u = us_id user))) (\<lambda>_. return_op n)))"

definition setRelayUserPassword :: "jstr \<Rightarrow> jstr \<Rightarrow> nat rdb" where
  "setRelayUserPassword userId passwordHash =
     bind_op (requireRelayUser userId) (\<lambda>user.
     bind_op (requireDbText passwordHash ''passwordHash'') (\<lambda>hash.
     bind_op (get_op (\<lambda>d. hits (\<lambda>u. us_id u = us_id user) (db_users d))) (\<lambda>n.
     bind_op (put_op (\<lambda>d. d\<lparr>db_users := rows_set (\<lambda>u. us_id u = us_id user)
       (\<lambda>u. u\<lparr>us_password := Some hash\<rparr>) (db_users d)\<rparr>)) (\<lambda>_. return_op n))))"

subsection \<open>Agents and pairings\<close>

definition find_agent :: "jstr \<Rightarrow> jstr \<Rightarrow> relay_db \<Rightarrow> agent_row option" where
  "find_agent user deviceId d = find (\<lambda>a. gr_user a = user \<and> gr_device a = deviceId) (db_agents d)"

definition insert_agent :: "agent_row \<Rightarrow> unit rdb" where
  "insert_agent r =
     bind_op (get_op id) (\<lambda>d.
       if (\<exists>a \<in> set (db_agents d). gr_id a = gr_id r \<or> gr_user a = gr_user r \<and> gr_device a = gr_device r)
          \<or> \<not> (\<exists>u \<in> set (db_users d). us_id u = gr_user r)
       then throw_op (constraint ''agents'')
       else put_op (\<lambda>d. d\<lparr>db_agents := db_agents d @ [r]\<rparr>))"

text \<open>The result is the id that the device would get, which a later insertion refers to.\<close>

definition upsertRelayAgent ::
  "(jstr \<Rightarrow> jstr) \<Rightarrow> int \<Rightarrow> jstr \<Rightarrow> jstr \<Rightarrow> jstr \<Rightarrow> jstr \<Rightarrow> jstr rdb" where
  "upsertRelayAgent H now userId userName deviceId name =
     bind_op (requireDbText userId ''userId'') (\<lambda>userId.
     bind_op (requireDbText deviceId ''deviceId'') (\<lambda>deviceId.
     bind_op (requireDbText (if name \<noteq> [] then name else deviceId) ''deviceName'') (\<lambda>name.
     bind_op (ensureRelayUser H now userId (if userName \<noteq> [] then userName else userId)) (\<lambda>user.
     let agentId = relayAgentDbId H (us_id user) deviceId in
     bind_op (get_op (find_agent (us_id user) deviceId)) (\<lambda>a.
     bind_op (case a of
         Some x \<Rightarrow> put_op (\<lambda>d. d\<lparr>db_agents := rows_set (\<lambda>a. gr_user a = us_id user \<and> gr_device a = deviceId)
                     (\<lambda>a. a\<lparr>gr_name := name, gr_last := now, gr_disabled := None\<rparr>) (db_agents d)\<rparr>)
       | None \<Rightarrow> insert_agent \<lparr>gr_id = agentId, gr_user = us_id user, gr_device = deviceId, gr_name = name,
                     gr_first = now, gr_last = now, gr_disabled = None\<rparr>) (\<lambda>_.
     return_op agentId))))))"

definition insert_pairing :: "pairing_row \<Rightarrow> unit rdb" where
  "insert_pairing r =
     bind_op (get_op id) (\<lambda>d.
       if (\<exists>p \<in> set (db_pairings d). pr_id p = pr_id r
              \<or> pr_user p = pr_user r \<and> pr_agent p = pr_agent r \<and> pr_hash p = pr_hash r)
          \<or> \<not> (\<exists>u \<in> set (db_users d). us_id u = pr_user r)
          \<or> \<not> (\<exists>a \<in> set (db_agents d). gr_id a = pr_agent r)
       then throw_op (constraint ''browser_pairings'')
       else put_op (\<lambda>d. d\<lparr>db_pairings := db_pairings d @ [r]\<rparr>))"

definition pairing_key :: "jstr \<Rightarrow> jstr \<Rightarrow> jstr \<Rightarrow> pairing_row \<Rightarrow> bool" where
  "pairing_key user agent hash p = (pr_user p = user \<and> pr_agent p = agent \<and> pr_hash p = hash)"

definition upsertBrowserPairing ::
  "(jstr \<Rightarrow> jstr) \<Rightarrow> int \<Rightarrow> jstr \<Rightarrow> jstr \<Rightarrow> jstr \<Rightarrow> jstr \<Rightarrow> jstr \<Rightarrow> jstr \<Rightarrow> jstr \<Rightarrow> jstr rdb" where
  "upsertBrowserPairing H now uuid userId userName deviceId deviceName browserId browserLabel =
     bind_op (requireDbText userId ''userId'') (\<lambda>name.
     bind_op (requireDbText deviceId ''deviceId'') (\<lambda>_.
     bind_op (requireDbText browserId ''browserId'') (\<lambda>browser.
     bind_op (upsertRelayAgent H now userId userName deviceId deviceName) (\<lambda>agentId.
     bind_op (requireRelayUser name) (\<lambda>user.
     let hash = hashBrowserForUser H name browser; label = optionalDbText browserLabel in
     bind_op (get_op (\<lambda>d. list_ex (pairing_key (us_id user) agentId hash) (db_pairings d))) (\<lambda>known.
     bind_op (if known then put_op (\<lambda>d. d\<lparr>db_pairings := rows_set (pairing_key (us_id user) agentId hash)
                  (\<lambda>p. p\<lparr>pr_label := (if label \<noteq> None then label else pr_label p), pr_used := now,
                         pr_revoked := None\<rparr>) (db_pairings d)\<rparr>)
              else insert_pairing \<lparr>pr_id = js ''pair_'' @ uuid, pr_user = us_id user, pr_agent = agentId,
                     pr_hash = hash, pr_label = label, pr_created = now, pr_used = now, pr_revoked = None\<rparr>) (\<lambda>_.
     return_op hash)))))))"

definition update_pairings :: "(pairing_row \<Rightarrow> bool) \<Rightarrow> int \<Rightarrow> nat rdb" where
  "update_pairings P now =
     bind_op (get_op (\<lambda>d. hits (\<lambda>p. P p \<and> pr_revoked p = None) (db_pairings d))) (\<lambda>n.
     bind_op (put_op (\<lambda>d. d\<lparr>db_pairings := rows_set (\<lambda>p. P p \<and> pr_revoked p = None)
       (\<lambda>p. p\<lparr>pr_revoked := Some now\<rparr>) (db_pairings d)\<rparr>)) (\<lambda>_. return_op n))"

definition revokeBrowserPairing ::
  "(jstr \<Rightarrow> jstr) \<Rightarrow> int \<Rightarrow> jstr \<Rightarrow> jstr \<Rightarrow> jstr \<Rightarrow> (jstr \<times> nat) rdb" where
  "revokeBrowserPairing H now userId deviceId browserId =
     bind_op (requireDbText userId ''userId'') (\<lambda>userId.
     bind_op (requireDbText deviceId ''deviceId'') (\<lambda>deviceId.
     bind_op (requireDbText browserId ''browserId'') (\<lambda>browserId.
     bind_op (requireRelayUser userId) (\<lambda>user.
     let hash = hashBrowserForUser H userId browserId in
     bind_op (get_op (find_agent (us_id user) deviceId)) (\<lambda>a. case a of
         None \<Rightarrow> return_op (hash, 0)
       | Some agent \<Rightarrow> bind_op (update_pairings (pairing_key (us_id user) (gr_id agent) hash) now)
           (\<lambda>n. return_op (hash, n)))))))"

text \<open>A pairing with its user and its device; the parts of \<open>JOIN\<close>.\<close>

record pairing_info =
  pi_id :: jstr
  pi_user :: jstr
  pi_display :: jstr
  pi_device :: jstr
  pi_deviceName :: jstr
  pi_hash :: jstr
  pi_label :: "jstr option"
  pi_created :: int
  pi_used :: int

definition pairing_rows :: "relay_db \<Rightarrow> (user_row \<times> agent_row \<times> pairing_row) list" where
  "pairing_rows d = [(u, a, p). p \<leftarrow> db_pairings d, u \<leftarrow> db_users d, us_id u = pr_user p,
                                a \<leftarrow> db_agents d, gr_id a = pr_agent p]"

definition pairing_info :: "user_row \<times> agent_row \<times> pairing_row \<Rightarrow> pairing_info" where
  "pairing_info x = (case x of (u, a, p) \<Rightarrow>
     \<lparr>pi_id = pr_id p, pi_user = us_name u, pi_display = us_display u, pi_device = gr_device a,
      pi_deviceName = gr_name a, pi_hash = pr_hash p, pi_label = pr_label p, pi_created = pr_created p,
      pi_used = pr_used p\<rparr>)"

definition getBrowserPairingById :: "jstr \<Rightarrow> pairing_info option rdb" where
  "getBrowserPairingById pairingId =
     bind_op (requireDbText pairingId ''pairingId'') (\<lambda>i.
     get_op (\<lambda>d. find (\<lambda>x. pi_id x = i) (map pairing_info (pairing_rows d))))"

text \<open>The update uses the id as it was given, the lookup its trimmed form.\<close>

definition revokeBrowserPairingById :: "int \<Rightarrow> jstr \<Rightarrow> (pairing_info \<times> nat) option rdb" where
  "revokeBrowserPairingById now pairingId =
     bind_op (getBrowserPairingById pairingId) (\<lambda>x. case x of
         None \<Rightarrow> return_op None
       | Some info \<Rightarrow> bind_op (update_pairings (\<lambda>p. pr_id p = pairingId) now) (\<lambda>n. return_op (Some (info, n))))"

definition listActiveBrowserPairings :: "pairing_info list rdb" where
  "listActiveBrowserPairings = get_op (\<lambda>d.
     order_by (\<lambda>x y. (pi_user x \<noteq> pi_user y \<and> jstr_le (pi_user x) (pi_user y))
         \<or> (pi_user x = pi_user y \<and> pi_deviceName x \<noteq> pi_deviceName y \<and> jstr_le (pi_deviceName x) (pi_deviceName y))
         \<or> (pi_user x = pi_user y \<and> pi_deviceName x = pi_deviceName y \<and> pi_used y \<le> pi_used x))
       (map pairing_info (filter (\<lambda>(u, a, p). us_disabled u = None \<and> gr_disabled a = None \<and> pr_revoked p = None)
         (pairing_rows d))))"

record agent_summary =
  ag_user :: jstr
  ag_display :: jstr
  ag_device :: jstr
  ag_name :: jstr
  ag_first :: int
  ag_last :: int
  ag_disabled :: "int option"
  ag_pairings :: nat

definition listRelayAgentSummaries :: "agent_summary list rdb" where
  "listRelayAgentSummaries = get_op (\<lambda>d.
     order_by (\<lambda>x y. (ag_user x \<noteq> ag_user y \<and> jstr_le (ag_user x) (ag_user y))
         \<or> (ag_user x = ag_user y \<and> jstr_le (ag_name x) (ag_name y)))
       [\<lparr>ag_user = us_name u, ag_display = us_display u, ag_device = gr_device a, ag_name = gr_name a,
         ag_first = gr_first a, ag_last = gr_last a, ag_disabled = gr_disabled a,
         ag_pairings = hits (\<lambda>p. pr_agent p = gr_id a \<and> pr_revoked p = None) (db_pairings d)\<rparr>.
        a \<leftarrow> db_agents d, u \<leftarrow> db_users d, us_id u = gr_user a])"

subsection \<open>Summaries and audit events\<close>

text \<open>The prefixes of the active tokens are given in the order of the rows, which SQL leaves open.\<close>

record user_summary =
  sm_user :: jstr
  sm_display :: jstr
  sm_created :: int
  sm_disabled :: "int option"
  sm_tokens :: nat
  sm_active :: nat
  sm_prefixes :: "jstr list"

definition listRelayUserSummaries :: "user_summary list rdb" where
  "listRelayUserSummaries = get_op (\<lambda>d.
     order_by (\<lambda>x y. jstr_le (sm_user x) (sm_user y))
       (map (\<lambda>u. let ts = filter (\<lambda>t. tk_user t = us_id u) (db_tokens d);
                      active = filter (\<lambda>t. tk_revoked t = None) ts
                  in \<lparr>sm_user = us_name u, sm_display = us_display u, sm_created = us_created u,
                       sm_disabled = us_disabled u, sm_tokens = length ts, sm_active = length active,
                       sm_prefixes = map tk_prefix active\<rparr>) (db_users d)))"

record audit_input =
  ai_event :: jstr
  ai_actorType :: jstr
  ai_actorId :: jstr
  ai_user :: jstr
  ai_ip :: jstr
  ai_agent :: jstr
  ai_pairing :: jstr
  ai_command :: jstr
  ai_metadata :: "payload option"

definition audit_input :: "string \<Rightarrow> audit_input" where
  "audit_input event = \<lparr>ai_event = js event, ai_actorType = [], ai_actorId = [], ai_user = [], ai_ip = [],
     ai_agent = [], ai_pairing = [], ai_command = [], ai_metadata = None\<rparr>"

definition insertAuditEvent :: "int \<Rightarrow> jstr \<Rightarrow> audit_input \<Rightarrow> unit rdb" where
  "insertAuditEvent now uuid i =
     bind_op (requireDbText (ai_event i) ''eventType'') (\<lambda>event.
     bind_op (requireDbText (ai_actorType i) ''actorType'') (\<lambda>actor.
     bind_op (if ai_user i \<noteq> [] then getRelayUser (ai_user i) else return_op None) (\<lambda>user.
     bind_op (get_op (\<lambda>d. \<exists>a \<in> set (db_audit d). aw_id a = js ''aud_'' @ uuid)) (\<lambda>taken.
     if taken then throw_op (constraint ''audit_events'')
     else put_op (\<lambda>d. d\<lparr>db_audit := db_audit d @
       [\<lparr>aw_id = js ''aud_'' @ uuid, aw_user = map_option us_id user, aw_actorType = actor,
         aw_actorId = optionalDbText (ai_actorId i), aw_event = event, aw_ip = optionalDbText (ai_ip i),
         aw_agent = optionalDbText (ai_agent i), aw_pairing = optionalDbText (ai_pairing i),
         aw_command = optionalDbText (ai_command i), aw_created = now, aw_metadata = ai_metadata i\<rparr>]\<rparr>)))))"

text \<open>Each event with the name of its user, the newest first.\<close>

definition listAuditEvents :: "int \<Rightarrow> (audit_row \<times> jstr option) list rdb" where
  "listAuditEvents limit = get_op (\<lambda>d.
     take (nat (max 1 (min (if limit = 0 then 100 else limit) 500)))
       (order_by (\<lambda>(a, u) (b, v). aw_created b \<le> aw_created a)
         (map (\<lambda>a. (a, case aw_user a of None \<Rightarrow> None
             | Some i \<Rightarrow> map_option us_name (find (\<lambda>u. us_id u = i) (db_users d)))) (db_audit d))))"

definition getRelayUserCredentials :: "jstr \<Rightarrow> user_row option rdb" where
  "getRelayUserCredentials userId = bind_op (requireDbText userId ''userId'') (\<lambda>name. get_op (find_user name))"

subsection \<open>Browser sessions\<close>

record account_session =
  as_id :: jstr
  as_user :: jstr
  as_display :: jstr
  as_expires :: int

definition createBrowserSession ::
  "(jstr \<Rightarrow> jstr) \<Rightarrow> int \<Rightarrow> jstr \<Rightarrow> jstr \<Rightarrow> jstr \<Rightarrow> int \<Rightarrow> jstr \<Rightarrow> jstr \<Rightarrow> jstr \<Rightarrow> account_session rdb" where
  "createBrowserSession H now uuid userId sessionToken expiresAt browserIdHash ip userAgent =
     bind_op (requireRelayUser userId) (\<lambda>user.
     bind_op (requireDbText sessionToken ''sessionToken'') (\<lambda>token.
     let sessionId = js ''ses_'' @ uuid in
     bind_op (insert_session \<lparr>sr_id = sessionId, sr_owner = us_id user, sr_hash = hashToken H token,
         sr_browser = optionalDbText browserIdHash, sr_created = now, sr_seen = now, sr_expires = expiresAt,
         sr_revoked = None, sr_ip = optionalDbText ip, sr_agent = optionalDbText userAgent\<rparr>) (\<lambda>_.
     return_op \<lparr>as_id = sessionId, as_user = us_name user, as_display = us_display user, as_expires = expiresAt\<rparr>)))"

definition session_valid :: "int \<Rightarrow> session_row \<Rightarrow> bool" where
  "session_valid now r = (sr_revoked r = None \<and> now < sr_expires r)"

definition find_session :: "(jstr \<Rightarrow> jstr) \<Rightarrow> int \<Rightarrow> jstr \<Rightarrow> relay_db \<Rightarrow> account_session option" where
  "find_session H now token d =
     (case find (\<lambda>r. sr_hash r = hashToken H token \<and> session_valid now r) (db_sessions d) of
        None \<Rightarrow> None
      | Some r \<Rightarrow> (case find (\<lambda>u. us_id u = sr_owner r \<and> us_disabled u = None) (db_users d) of
          None \<Rightarrow> None
        | Some u \<Rightarrow> Some \<lparr>as_id = sr_id r, as_user = us_name u, as_display = us_display u,
                           as_expires = sr_expires r\<rparr>))"

definition getBrowserSession :: "(jstr \<Rightarrow> jstr) \<Rightarrow> int \<Rightarrow> jstr \<Rightarrow> account_session option rdb" where
  "getBrowserSession H now sessionToken =
     bind_op (requireDbText sessionToken ''sessionToken'') (\<lambda>token.
     bind_op (get_op (find_session H now token)) (\<lambda>x. case x of
         None \<Rightarrow> return_op None
       | Some s \<Rightarrow> bind_op (put_op (\<lambda>d. d\<lparr>db_sessions := rows_set (\<lambda>r. sr_id r = as_id s)
                     (\<lambda>r. r\<lparr>sr_seen := now\<rparr>) (db_sessions d)\<rparr>)) (\<lambda>_. return_op (Some s))))"

definition newest_seen :: "session_row \<Rightarrow> session_row \<Rightarrow> bool" where
  "newest_seen x y = (sr_seen y < sr_seen x \<or> sr_seen x = sr_seen y \<and> sr_created y \<le> sr_created x)"

definition listBrowserSessions :: "int \<Rightarrow> jstr \<Rightarrow> session_row list rdb" where
  "listBrowserSessions now userId =
     bind_op (requireRelayUser userId) (\<lambda>user.
     get_op (\<lambda>d. order_by newest_seen (filter (\<lambda>r. sr_owner r = us_id user \<and> session_valid now r) (db_sessions d))))"

text \<open>Revoking the sessions that \<open>P\<close> selects and that are not revoked yet: their ids.\<close>

definition revoke_sessions :: "(session_row \<Rightarrow> bool) \<Rightarrow> int \<Rightarrow> jstr list rdb" where
  "revoke_sessions P now =
     bind_op (get_op (\<lambda>d. map sr_id (filter (\<lambda>r. P r \<and> sr_revoked r = None) (db_sessions d)))) (\<lambda>ids.
     bind_op (put_op (\<lambda>d. d\<lparr>db_sessions := rows_set (\<lambda>r. P r \<and> sr_revoked r = None)
       (\<lambda>r. r\<lparr>sr_revoked := Some now\<rparr>) (db_sessions d)\<rparr>)) (\<lambda>_. return_op ids))"

definition revokeBrowserSession :: "(jstr \<Rightarrow> jstr) \<Rightarrow> int \<Rightarrow> jstr \<Rightarrow> nat rdb" where
  "revokeBrowserSession H now sessionToken =
     bind_op (requireDbText sessionToken ''sessionToken'') (\<lambda>token.
     bind_op (revoke_sessions (\<lambda>r. sr_hash r = hashToken H token) now) (\<lambda>ids. return_op (length ids)))"

definition revokeBrowserSessionById :: "int \<Rightarrow> jstr \<Rightarrow> jstr \<Rightarrow> nat rdb" where
  "revokeBrowserSessionById now userId sessionId =
     bind_op (requireRelayUser userId) (\<lambda>user.
     bind_op (requireDbText sessionId ''sessionId'') (\<lambda>i.
     bind_op (revoke_sessions (\<lambda>r. sr_id r = i \<and> sr_owner r = us_id user) now) (\<lambda>ids. return_op (length ids))))"

definition revokeOtherBrowserSessions :: "int \<Rightarrow> jstr \<Rightarrow> jstr \<Rightarrow> (nat \<times> jstr list) rdb" where
  "revokeOtherBrowserSessions now userId currentSessionId =
     bind_op (requireRelayUser userId) (\<lambda>user.
     bind_op (requireDbText currentSessionId ''currentSessionId'') (\<lambda>keep.
     bind_op (revoke_sessions (\<lambda>r. sr_owner r = us_id user \<and> sr_id r \<noteq> keep) now) (\<lambda>ids.
     return_op (length ids, ids))))"

definition revokeAllBrowserSessions :: "int \<Rightarrow> jstr \<Rightarrow> (nat \<times> jstr list) rdb" where
  "revokeAllBrowserSessions now userId =
     bind_op (requireRelayUser userId) (\<lambda>user.
     bind_op (revoke_sessions (\<lambda>r. sr_owner r = us_id user) now) (\<lambda>ids. return_op (length ids, ids)))"

definition delete_sessions :: "(session_row \<Rightarrow> bool) \<Rightarrow> nat rdb" where
  "delete_sessions P =
     bind_op (get_op (\<lambda>d. hits P (db_sessions d))) (\<lambda>n.
     bind_op (put_op (\<lambda>d. d\<lparr>db_sessions := filter (\<lambda>r. \<not> P r) (db_sessions d)\<rparr>)) (\<lambda>_. return_op n))"

definition purgeBrowserSessions :: "int \<Rightarrow> nat rdb" where
  "purgeBrowserSessions now = delete_sessions (\<lambda>r. \<not> session_valid now r)"

subsection \<open>Recovery codes of accounts\<close>

definition createAccountRecoveryCode :: "int \<Rightarrow> jstr \<Rightarrow> jstr \<Rightarrow> jstr \<Rightarrow> int \<Rightarrow> unit rdb" where
  "createAccountRecoveryCode now uuid userId codeHash expiresAt =
     bind_op (requireRelayUser userId) (\<lambda>user.
     bind_op (requireDbText codeHash ''codeHash'') (\<lambda>hash.
     transaction (
       bind_op (put_op (\<lambda>d. d\<lparr>db_recovery := filter (\<lambda>r. ry_user r \<noteq> us_id user) (db_recovery d)\<rparr>)) (\<lambda>_.
       bind_op (get_op (\<lambda>d. \<exists>r \<in> set (db_recovery d). ry_id r = js ''rec_'' @ uuid \<or> ry_hash r = hash)) (\<lambda>taken.
       if taken then throw_op (constraint ''account_recovery_codes'')
       else put_op (\<lambda>d. d\<lparr>db_recovery := db_recovery d @
         [\<lparr>ry_id = js ''rec_'' @ uuid, ry_user = us_id user, ry_hash = hash, ry_created = now,
           ry_expires = expiresAt\<rparr>]\<rparr>))))))"

definition consumeAccountRecoveryCode :: "int \<Rightarrow> jstr \<Rightarrow> jstr \<Rightarrow> nat rdb" where
  "consumeAccountRecoveryCode now userId codeHash =
     bind_op (requireRelayUser userId) (\<lambda>user.
     bind_op (requireDbText codeHash ''codeHash'') (\<lambda>hash.
     transaction (
       bind_op (get_op (\<lambda>d. find (\<lambda>r. ry_user r = us_id user \<and> ry_hash r = hash \<and> now < ry_expires r) (db_recovery d)))
         (\<lambda>row. case row of
             None \<Rightarrow> return_op 0
           | Some x \<Rightarrow>
               bind_op (get_op (\<lambda>d. hits (\<lambda>r. ry_id r = ry_id x) (db_recovery d))) (\<lambda>n.
               bind_op (put_op (\<lambda>d. d\<lparr>db_recovery := filter (\<lambda>r. ry_id r \<noteq> ry_id x) (db_recovery d)\<rparr>))
                 (\<lambda>_. return_op n))))))"

definition purgeAccountRecoveryCodes :: "int \<Rightarrow> nat rdb" where
  "purgeAccountRecoveryCodes now =
     bind_op (get_op (\<lambda>d. hits (\<lambda>r. ry_expires r \<le> now) (db_recovery d))) (\<lambda>n.
     bind_op (put_op (\<lambda>d. d\<lparr>db_recovery := filter (\<lambda>r. now < ry_expires r) (db_recovery d)\<rparr>)) (\<lambda>_. return_op n))"

subsection \<open>Clearing\<close>

definition has_metadata :: "session_row \<Rightarrow> bool" where
  "has_metadata r = (sr_ip r \<noteq> None \<or> sr_agent r \<noteq> None)"

definition clearBrowserSessionMetadata :: "nat rdb" where
  "clearBrowserSessionMetadata =
     bind_op (get_op (\<lambda>d. hits has_metadata (db_sessions d))) (\<lambda>n.
     bind_op (put_op (\<lambda>d. d\<lparr>db_sessions := rows_set has_metadata (\<lambda>r. r\<lparr>sr_ip := None, sr_agent := None\<rparr>)
       (db_sessions d)\<rparr>)) (\<lambda>_. return_op n))"

definition purgeAuditEvents :: "int option \<Rightarrow> nat rdb" where
  "purgeAuditEvents cutoff =
     (let P = (\<lambda>a. case cutoff of None \<Rightarrow> True | Some t \<Rightarrow> aw_created a < t) in
      bind_op (get_op (\<lambda>d. hits P (db_audit d))) (\<lambda>n.
      bind_op (put_op (\<lambda>d. d\<lparr>db_audit := filter (\<lambda>a. \<not> P a) (db_audit d)\<rparr>)) (\<lambda>_. return_op n)))"

end
