(* ===== verification/AdminDb.thy ===== *)
theory AdminDb
  imports RelayDb
begin

section \<open>The tables of the administrators (apps/relay/db.js)\<close>

text \<open>
  The owner accounts of the relay with their sessions, passkeys, pending challenges and recovery
  codes, and the migrations of the schema. User names of administrators are compared without
  regard to ASCII case (\<open>COLLATE NOCASE\<close>). The conventions are those of \<open>RelayDb\<close>.
\<close>

subsection \<open>Accounts\<close>

definition countAdminAccounts :: "nat rdb" where
  "countAdminAccounts = get_op (\<lambda>d. length (db_admins d))"

definition insert_admin :: "admin_row \<Rightarrow> unit rdb" where
  "insert_admin r =
     bind_op (get_op db_admins) (\<lambda>as.
       if \<exists>a \<in> set as. ad_id a = ad_id r \<or> fold_case (ad_name a) = fold_case (ad_name r)
       then throw_op (constraint ''admin_accounts'')
       else put_op (\<lambda>d. d\<lparr>db_admins := db_admins d @ [r]\<rparr>))"

definition createAdminAccount ::
  "int \<Rightarrow> jstr \<Rightarrow> jstr \<Rightarrow> jstr \<Rightarrow> jstr \<Rightarrow> admin_role \<Rightarrow> admin_row rdb" where
  "createAdminAccount now uuid username displayName passwordHash role =
     bind_op (requireDbText username ''username'') (\<lambda>name. let name = lower name in
     bind_op (requireDbText (if displayName \<noteq> [] then displayName else name) ''displayName'') (\<lambda>display.
     bind_op (requireDbText passwordHash ''passwordHash'') (\<lambda>hash.
     let row = \<lparr>ad_id = js ''adm_'' @ uuid, ad_name = name, ad_display = display, ad_password = hash,
                ad_role = role, ad_created = now, ad_changed = now, ad_login = None, ad_disabled = None\<rparr> in
     bind_op (insert_admin row) (\<lambda>_. return_op row))))"

definition getAdminAccountCredentials :: "jstr \<Rightarrow> admin_row option rdb" where
  "getAdminAccountCredentials username =
     bind_op (requireDbText username ''username'') (\<lambda>name.
     get_op (\<lambda>d. find (\<lambda>a. fold_case (ad_name a) = fold_case (lower name)) (db_admins d)))"

definition find_admin :: "jstr \<Rightarrow> relay_db \<Rightarrow> admin_row option" where
  "find_admin adminId d = find (\<lambda>a. ad_id a = adminId) (db_admins d)"

definition getAdminAccountCredentialsById :: "jstr \<Rightarrow> admin_row option rdb" where
  "getAdminAccountCredentialsById adminId = bind_op (requireDbText adminId ''adminId'') (\<lambda>i. get_op (find_admin i))"

definition update_admins :: "(admin_row \<Rightarrow> bool) \<Rightarrow> (admin_row \<Rightarrow> admin_row) \<Rightarrow> nat rdb" where
  "update_admins P f =
     bind_op (get_op (\<lambda>d. hits P (db_admins d))) (\<lambda>n.
     bind_op (put_op (\<lambda>d. d\<lparr>db_admins := rows_set P f (db_admins d)\<rparr>)) (\<lambda>_. return_op n))"

definition setAdminLastLogin :: "int \<Rightarrow> jstr \<Rightarrow> nat rdb" where
  "setAdminLastLogin now adminId =
     bind_op (requireDbText adminId ''adminId'') (\<lambda>i. update_admins (\<lambda>a. ad_id a = i) (\<lambda>a. a\<lparr>ad_login := Some now\<rparr>))"

definition setAdminPassword :: "int \<Rightarrow> jstr \<Rightarrow> jstr \<Rightarrow> nat rdb" where
  "setAdminPassword now adminId passwordHash =
     bind_op (requireDbText adminId ''adminId'') (\<lambda>i.
     bind_op (requireDbText passwordHash ''passwordHash'') (\<lambda>hash.
     update_admins (\<lambda>a. ad_id a = i \<and> ad_disabled a = None) (\<lambda>a. a\<lparr>ad_password := hash, ad_changed := now\<rparr>)))"

subsection \<open>Sessions\<close>

text \<open>What a session of an administrator tells of its account and of itself.\<close>

record admin_session =
  ss_id :: jstr
  ss_admin :: jstr
  ss_username :: jstr
  ss_display :: jstr
  ss_role :: admin_role
  ss_created :: int
  ss_seen :: int
  ss_expires :: int

text \<open>The result is the id of the session.\<close>

definition createAdminSession ::
  "(jstr \<Rightarrow> jstr) \<Rightarrow> int \<Rightarrow> jstr \<Rightarrow> jstr \<Rightarrow> jstr \<Rightarrow> int \<Rightarrow> jstr \<Rightarrow> jstr \<Rightarrow> jstr rdb" where
  "createAdminSession H now uuid adminId sessionToken expiresAt ip userAgent =
     bind_op (requireDbText adminId ''adminId'') (\<lambda>admin.
     bind_op (requireDbText sessionToken ''sessionToken'') (\<lambda>token.
     let sessionId = js ''adms_'' @ uuid in
     bind_op (insert_admin_session \<lparr>sr_id = sessionId, sr_owner = admin, sr_hash = hashToken H token,
         sr_browser = None, sr_created = now, sr_seen = now, sr_expires = expiresAt, sr_revoked = None,
         sr_ip = optionalDbText ip, sr_agent = optionalDbText userAgent\<rparr>) (\<lambda>_. return_op sessionId)))"

definition idle_cutoff :: "int \<Rightarrow> int \<Rightarrow> int" where
  "idle_cutoff now idleTtlMs = (let ttl = max 0 idleTtlMs in if ttl \<noteq> 0 then now - ttl else 0)"

definition find_admin_session :: "(jstr \<Rightarrow> jstr) \<Rightarrow> int \<Rightarrow> int \<Rightarrow> jstr \<Rightarrow> relay_db \<Rightarrow> admin_session option" where
  "find_admin_session H now idleTtlMs token d =
     (case find (\<lambda>r. sr_hash r = hashToken H token \<and> session_valid now r \<and> idle_cutoff now idleTtlMs < sr_seen r)
             (db_admin_sessions d) of
        None \<Rightarrow> None
      | Some r \<Rightarrow> (case find (\<lambda>a. ad_id a = sr_owner r \<and> ad_disabled a = None) (db_admins d) of
          None \<Rightarrow> None
        | Some a \<Rightarrow> Some \<lparr>ss_id = sr_id r, ss_admin = ad_id a, ss_username = ad_name a,
                           ss_display = ad_display a, ss_role = ad_role a, ss_created = sr_created r,
                           ss_seen = now, ss_expires = sr_expires r\<rparr>))"

definition getAdminSession :: "(jstr \<Rightarrow> jstr) \<Rightarrow> int \<Rightarrow> int \<Rightarrow> jstr \<Rightarrow> admin_session option rdb" where
  "getAdminSession H now idleTtlMs sessionToken =
     bind_op (requireDbText sessionToken ''sessionToken'') (\<lambda>token.
     bind_op (get_op (find_admin_session H now idleTtlMs token)) (\<lambda>x. case x of
         None \<Rightarrow> return_op None
       | Some s \<Rightarrow> bind_op (put_op (\<lambda>d. d\<lparr>db_admin_sessions := rows_set (\<lambda>r. sr_id r = ss_id s)
                     (\<lambda>r. r\<lparr>sr_seen := now\<rparr>) (db_admin_sessions d)\<rparr>)) (\<lambda>_. return_op (Some s))))"

definition listAdminSessions :: "int \<Rightarrow> jstr \<Rightarrow> session_row list rdb" where
  "listAdminSessions now adminId =
     bind_op (requireDbText adminId ''adminId'') (\<lambda>i.
     get_op (\<lambda>d. order_by (\<lambda>x y. sr_seen y \<le> sr_seen x)
       (filter (\<lambda>r. sr_owner r = i \<and> session_valid now r) (db_admin_sessions d))))"

definition revoke_admin_sessions :: "(session_row \<Rightarrow> bool) \<Rightarrow> int \<Rightarrow> nat rdb" where
  "revoke_admin_sessions P now =
     bind_op (get_op (\<lambda>d. hits (\<lambda>r. P r \<and> sr_revoked r = None) (db_admin_sessions d))) (\<lambda>n.
     bind_op (put_op (\<lambda>d. d\<lparr>db_admin_sessions := rows_set (\<lambda>r. P r \<and> sr_revoked r = None)
       (\<lambda>r. r\<lparr>sr_revoked := Some now\<rparr>) (db_admin_sessions d)\<rparr>)) (\<lambda>_. return_op n))"

definition revokeAdminSessionById :: "int \<Rightarrow> jstr \<Rightarrow> jstr \<Rightarrow> nat rdb" where
  "revokeAdminSessionById now adminId sessionId =
     bind_op (requireDbText adminId ''adminId'') (\<lambda>owner.
     bind_op (requireDbText sessionId ''sessionId'') (\<lambda>i.
     revoke_admin_sessions (\<lambda>r. sr_id r = i \<and> sr_owner r = owner) now))"

definition revokeOtherAdminSessions :: "int \<Rightarrow> jstr \<Rightarrow> jstr \<Rightarrow> nat rdb" where
  "revokeOtherAdminSessions now adminId currentSessionId =
     bind_op (requireDbText adminId ''adminId'') (\<lambda>owner.
     bind_op (requireDbText currentSessionId ''currentSessionId'') (\<lambda>keep.
     revoke_admin_sessions (\<lambda>r. sr_owner r = owner \<and> sr_id r \<noteq> keep) now))"

definition revokeAllAdminSessions :: "int \<Rightarrow> jstr \<Rightarrow> nat rdb" where
  "revokeAllAdminSessions now adminId =
     bind_op (requireDbText adminId ''adminId'') (\<lambda>owner. revoke_admin_sessions (\<lambda>r. sr_owner r = owner) now)"

text \<open>Deleting a session deletes the challenges that are bound to it.\<close>

definition purgeAdminSessions :: "int \<Rightarrow> nat rdb" where
  "purgeAdminSessions now =
     bind_op (get_op (\<lambda>d. map sr_id (filter (\<lambda>r. \<not> session_valid now r) (db_admin_sessions d)))) (\<lambda>gone.
     bind_op (put_op (\<lambda>d. d\<lparr>db_admin_sessions := filter (session_valid now) (db_admin_sessions d),
         db_challenges := filter (\<lambda>c. \<forall>s \<in> set gone. ch_session c \<noteq> Some s) (db_challenges d)\<rparr>))
       (\<lambda>_. return_op (length gone)))"

definition clearAdminSessionMetadata :: "nat rdb" where
  "clearAdminSessionMetadata =
     bind_op (get_op (\<lambda>d. hits has_metadata (db_admin_sessions d))) (\<lambda>n.
     bind_op (put_op (\<lambda>d. d\<lparr>db_admin_sessions := rows_set has_metadata (\<lambda>r. r\<lparr>sr_ip := None, sr_agent := None\<rparr>)
       (db_admin_sessions d)\<rparr>)) (\<lambda>_. return_op n))"

subsection \<open>Passkeys\<close>

definition listAdminPasskeys :: "jstr \<Rightarrow> passkey_row list rdb" where
  "listAdminPasskeys adminId =
     bind_op (requireDbText adminId ''adminId'') (\<lambda>i.
     get_op (\<lambda>d. order_by (\<lambda>x y. pk_created x \<le> pk_created y) (filter (\<lambda>p. pk_admin p = i) (db_passkeys d))))"

definition getAdminPasskey :: "jstr \<Rightarrow> jstr \<Rightarrow> passkey_row option rdb" where
  "getAdminPasskey adminId credentialId =
     bind_op (requireDbText adminId ''adminId'') (\<lambda>i.
     bind_op (requireDbText credentialId ''credentialId'') (\<lambda>c.
     get_op (\<lambda>d. find (\<lambda>p. pk_admin p = i \<and> pk_id p = c) (db_passkeys d))))"

definition createAdminPasskey :: "int \<Rightarrow> passkey_row \<Rightarrow> unit rdb" where
  "createAdminPasskey now r =
     bind_op (requireDbText (pk_admin r) ''adminId'') (\<lambda>admin.
     bind_op (requireDbText (pk_id r) ''credentialId'') (\<lambda>cred.
     bind_op (requireDbText (pk_name r) ''name'') (\<lambda>name.
     bind_op (requireDbText (pk_userid r) ''webauthnUserId'') (\<lambda>userid.
     bind_op (requireDbText (pk_type r) ''deviceType'') (\<lambda>type.
     bind_op (get_op id) (\<lambda>d.
     if (\<exists>p \<in> set (db_passkeys d). pk_id p = cred) \<or> \<not> (\<exists>a \<in> set (db_admins d). ad_id a = admin)
     then throw_op (constraint ''admin_passkeys'')
     else put_op (\<lambda>d. d\<lparr>db_passkeys := db_passkeys d @
       [r\<lparr>pk_admin := admin, pk_id := cred, pk_name := name, pk_userid := userid, pk_type := type,
          pk_created := now, pk_used := None\<rparr>]\<rparr>)))))))"

definition updateAdminPasskeyUsage :: "int \<Rightarrow> jstr \<Rightarrow> jstr \<Rightarrow> nat \<Rightarrow> jstr \<Rightarrow> bool option \<Rightarrow> unit rdb" where
  "updateAdminPasskeyUsage now adminId credentialId counter deviceType backedUp =
     bind_op (requireDbText adminId ''adminId'') (\<lambda>i.
     bind_op (requireDbText credentialId ''credentialId'') (\<lambda>c.
     put_op (\<lambda>d. d\<lparr>db_passkeys := rows_set (\<lambda>p. pk_admin p = i \<and> pk_id p = c)
       (\<lambda>p. p\<lparr>pk_counter := counter,
              pk_type := (case optionalDbText deviceType of None \<Rightarrow> pk_type p | Some t \<Rightarrow> t),
              pk_backed := (case backedUp of None \<Rightarrow> pk_backed p | Some b \<Rightarrow> b),
              pk_used := Some now\<rparr>) (db_passkeys d)\<rparr>)))"

definition deleteAdminPasskey :: "jstr \<Rightarrow> jstr \<Rightarrow> nat rdb" where
  "deleteAdminPasskey adminId credentialId =
     bind_op (requireDbText adminId ''adminId'') (\<lambda>i.
     bind_op (requireDbText credentialId ''credentialId'') (\<lambda>c.
     bind_op (get_op (\<lambda>d. hits (\<lambda>p. pk_admin p = i \<and> pk_id p = c) (db_passkeys d))) (\<lambda>n.
     bind_op (put_op (\<lambda>d. d\<lparr>db_passkeys := filter (\<lambda>p. \<not> (pk_admin p = i \<and> pk_id p = c)) (db_passkeys d)\<rparr>))
       (\<lambda>_. return_op n))))"

subsection \<open>Challenges\<close>

definition createAdminMfaChallenge ::
  "(jstr \<Rightarrow> jstr) \<Rightarrow> int \<Rightarrow> jstr \<Rightarrow> jstr \<Rightarrow> jstr \<Rightarrow> mfa_purpose \<Rightarrow> jstr \<Rightarrow> jstr \<Rightarrow> jstr \<Rightarrow> jstr \<Rightarrow> int \<Rightarrow> unit rdb" where
  "createAdminMfaChallenge H now uuid adminId flowToken purpose challenge origin rpId sessionId expiresAt =
     bind_op (requireDbText adminId ''adminId'') (\<lambda>admin.
     bind_op (requireDbText flowToken ''flowToken'') (\<lambda>flow.
     bind_op (requireDbText challenge ''challenge'') (\<lambda>challenge.
     bind_op (requireDbText origin ''origin'') (\<lambda>origin.
     bind_op (requireDbText rpId ''rpId'') (\<lambda>rp.
     let session = optionalDbText sessionId in
     bind_op (get_op id) (\<lambda>d.
     if (\<exists>c \<in> set (db_challenges d). ch_id c = js ''mfac_'' @ uuid \<or> ch_flow c = hashToken H flow)
        \<or> \<not> (\<exists>a \<in> set (db_admins d). ad_id a = admin)
        \<or> (session \<noteq> None \<and> \<not> (\<exists>s \<in> set (db_admin_sessions d). Some (sr_id s) = session))
     then throw_op (constraint ''admin_mfa_challenges'')
     else put_op (\<lambda>d. d\<lparr>db_challenges := db_challenges d @
       [\<lparr>ch_id = js ''mfac_'' @ uuid, ch_admin = admin, ch_flow = hashToken H flow, ch_purpose = purpose,
         ch_challenge = challenge, ch_origin = origin, ch_rp = rp, ch_session = session, ch_created = now,
         ch_expires = expiresAt\<rparr>]\<rparr>)))))))"

text \<open>
  \<open>adminId\<close> and \<open>sessionId\<close> restrict the challenge only where they are given (not empty). The
  expired challenges are deleted first, and stay deleted when nothing is found.
\<close>

definition consumeAdminMfaChallenge ::
  "(jstr \<Rightarrow> jstr) \<Rightarrow> int \<Rightarrow> jstr \<Rightarrow> mfa_purpose \<Rightarrow> jstr \<Rightarrow> jstr \<Rightarrow> challenge_row option rdb" where
  "consumeAdminMfaChallenge H now flowToken purpose adminId sessionId =
     transaction (
       bind_op (put_op (\<lambda>d. d\<lparr>db_challenges := filter (\<lambda>c. now < ch_expires c) (db_challenges d)\<rparr>)) (\<lambda>_.
       bind_op (requireDbText flowToken ''flowToken'') (\<lambda>flow.
       bind_op (get_op (\<lambda>d. find (\<lambda>c. ch_flow c = hashToken H flow \<and> ch_purpose c = purpose \<and> now < ch_expires c)
           (db_challenges d))) (\<lambda>row. case row of
           None \<Rightarrow> return_op None
         | Some c \<Rightarrow>
             if adminId \<noteq> [] \<and> ch_admin c \<noteq> adminId then return_op None
             else if sessionId \<noteq> [] \<and> ch_session c \<noteq> Some sessionId then return_op None
             else bind_op (put_op (\<lambda>d. d\<lparr>db_challenges := filter (\<lambda>x. ch_id x \<noteq> ch_id c) (db_challenges d)\<rparr>))
                    (\<lambda>_. return_op (Some c))))))"

subsection \<open>Recovery codes\<close>

definition insert_code :: "code_row \<Rightarrow> unit rdb" where
  "insert_code r =
     bind_op (get_op id) (\<lambda>d.
       if (\<exists>c \<in> set (db_codes d). cd_id c = cd_id r \<or> cd_hash c = cd_hash r)
          \<or> \<not> (\<exists>a \<in> set (db_admins d). ad_id a = cd_admin r)
       then throw_op (constraint ''admin_recovery_codes'')
       else put_op (\<lambda>d. d\<lparr>db_codes := db_codes d @ [r]\<rparr>))"

definition replaceAdminRecoveryCodes :: "int \<Rightarrow> (nat \<Rightarrow> jstr) \<Rightarrow> jstr \<Rightarrow> jstr list \<Rightarrow> unit rdb" where
  "replaceAdminRecoveryCodes now uuids adminId codeHashes =
     bind_op (requireDbText adminId ''adminId'') (\<lambda>admin.
     transaction (
       bind_op (put_op (\<lambda>d. d\<lparr>db_codes := filter (\<lambda>c. cd_admin c \<noteq> admin) (db_codes d)\<rparr>)) (\<lambda>_.
       each_op (\<lambda>(i, h). bind_op (requireDbText h ''codeHash'') (\<lambda>hash.
           insert_code \<lparr>cd_id = js ''mfar_'' @ uuids i, cd_admin = admin, cd_hash = hash, cd_created = now,
             cd_used = None\<rparr>)) (zip [0..<length codeHashes] codeHashes))))"

definition consumeAdminRecoveryCode :: "int \<Rightarrow> jstr \<Rightarrow> jstr \<Rightarrow> nat rdb" where
  "consumeAdminRecoveryCode now adminId codeHash =
     bind_op (requireDbText adminId ''adminId'') (\<lambda>admin.
     bind_op (requireDbText codeHash ''codeHash'') (\<lambda>hash.
     transaction (
       bind_op (get_op (\<lambda>d. find (\<lambda>c. cd_admin c = admin \<and> cd_hash c = hash \<and> cd_used c = None) (db_codes d)))
         (\<lambda>row. case row of
             None \<Rightarrow> return_op 0
           | Some x \<Rightarrow> (let P = (\<lambda>c. cd_id c = cd_id x \<and> cd_used c = None) in
               bind_op (get_op (\<lambda>d. hits P (db_codes d))) (\<lambda>n.
               bind_op (put_op (\<lambda>d. d\<lparr>db_codes := rows_set P (\<lambda>c. c\<lparr>cd_used := Some now\<rparr>) (db_codes d)\<rparr>))
                 (\<lambda>_. return_op n)))))))"

definition countAdminRecoveryCodes :: "jstr \<Rightarrow> nat rdb" where
  "countAdminRecoveryCodes adminId =
     bind_op (requireDbText adminId ''adminId'') (\<lambda>i.
     get_op (\<lambda>d. hits (\<lambda>c. cd_admin c = i \<and> cd_used c = None) (db_codes d)))"

definition clearAdminMfa :: "jstr \<Rightarrow> (nat \<times> nat) rdb" where
  "clearAdminMfa adminId =
     bind_op (requireDbText adminId ''adminId'') (\<lambda>i.
     transaction (
       bind_op (get_op (\<lambda>d. (hits (\<lambda>p. pk_admin p = i) (db_passkeys d), hits (\<lambda>c. cd_admin c = i) (db_codes d)))) (\<lambda>n.
       bind_op (put_op (\<lambda>d. d\<lparr>db_passkeys := filter (\<lambda>p. pk_admin p \<noteq> i) (db_passkeys d),
           db_codes := filter (\<lambda>c. cd_admin c \<noteq> i) (db_codes d),
           db_challenges := filter (\<lambda>c. ch_admin c \<noteq> i) (db_challenges d)\<rparr>)) (\<lambda>_. return_op n))))"

end
