(* ===== verification/Uri.thy ===== *)
theory Uri
  imports Bytes
begin

section \<open>Percent encoding and hexadecimal texts\<close>

text \<open>
  \<open>encodeURIComponent\<close> and \<open>decodeURIComponent\<close> (\<open>None\<close> where they throw a \<open>URIError\<close>) and the
  hexadecimal encoding of Node's buffers: \<open>toString('hex')\<close>, and \<open>Buffer.from(text, 'hex')\<close>, which
  stops at the first pair that is not hexadecimal.
\<close>

definition hex_value :: "nat \<Rightarrow> nat option" where
  "hex_value c =
     (if is_digit c then Some (c - 48) else if 97 \<le> c \<and> c \<le> 102 then Some (c - 87)
      else if 65 \<le> c \<and> c \<le> 70 then Some (c - 55) else None)"

definition hex_digit :: "nat \<Rightarrow> nat" where
  "hex_digit d = (if d < 10 then 48 + d else 87 + d)"

definition hex_encode :: "bytes \<Rightarrow> jstr" where
  "hex_encode bs = concat (map (\<lambda>b. [hex_digit (b div 16), hex_digit (b mod 16)]) bs)"

fun hex_decode :: "jstr \<Rightarrow> bytes" where
  "hex_decode (h # l # s) =
     (case (hex_value h, hex_value l) of (Some a, Some b) \<Rightarrow> (16 * a + b) # hex_decode s | _ \<Rightarrow> [])"
| "hex_decode s = []"

lemma hex_value_digit [simp]: "d < 16 \<Longrightarrow> hex_value (hex_digit d) = Some d"
  by (auto simp: hex_value_def hex_digit_def is_digit_def)

lemma hex_roundtrip: "is_bytes bs \<Longrightarrow> hex_decode (hex_encode bs) = bs"
  by (induction bs) (auto simp: hex_encode_def is_bytes_def)

lemma hex_digit_chars: "d < 16 \<Longrightarrow> hex_digit d < 128 \<and> \<not> is_upper (hex_digit d) \<and> (is_digit (hex_digit d) \<or> 97 \<le> hex_digit d \<and> hex_digit d \<le> 102)"
  by (auto simp: hex_digit_def is_upper_def is_digit_def)

lemma hex_encode_chars:
  "is_bytes bs \<Longrightarrow> c \<in> set (hex_encode bs) \<Longrightarrow> \<exists>d < 16. c = hex_digit d"
proof (induction bs)
  case (Cons b bs)
  have b: "b div 16 < 16" using Cons.prems(1) by (auto simp: is_bytes_def)
  have "c = hex_digit (b div 16) \<or> c = hex_digit (b mod 16) \<or> c \<in> set (hex_encode bs)"
    using Cons.prems(2) by (auto simp: hex_encode_def)
  then show ?case
    using b mod_less_divisor [of 16 b] Cons.IH Cons.prems(1) unfolding is_bytes_def by fastforce
qed (simp add: hex_encode_def)

lemma length_hex_encode [simp]: "length (hex_encode bs) = 2 * length bs"
  by (induction bs) (auto simp: hex_encode_def)

subsection \<open>Percent encoding\<close>

definition uri_unreserved :: "nat \<Rightarrow> bool" where
  "uri_unreserved c = (is_upper c \<or> is_lower c \<or> is_digit c \<or> one_of ''-_.!~*'' c \<or> c = 39 \<or> c = 40 \<or> c = 41)"

definition percent :: "nat \<Rightarrow> jstr" where
  "percent b = (let up = (\<lambda>d. if d < 10 then 48 + d else 55 + d) in [37, up (b div 16), up (b mod 16)])"

definition encodeURIComponent :: "jstr \<Rightarrow> jstr option" where
  "encodeURIComponent s =
     (if \<not> well_formed s then None
      else Some (concat (map (\<lambda>b. if uri_unreserved b then [b] else percent b) (utf8_encode s))))"

fun uri_octet :: "jstr \<Rightarrow> (nat \<times> jstr) option" where
  "uri_octet (p # h # l # s) =
     (case (hex_value h, hex_value l) of
        (Some a, Some b) \<Rightarrow> if p = 37 then Some (16 * a + b, s) else None
      | _ \<Rightarrow> None)"
| "uri_octet s = None"

text \<open>The octets that follow the lead of a sequence, in the ranges that UTF-8 allows.\<close>

fun uri_follow :: "nat \<Rightarrow> (nat \<times> nat) list \<Rightarrow> jstr \<Rightarrow> (nat \<times> jstr) option" where
  "uri_follow acc [] s = Some (acc, s)"
| "uri_follow acc ((lo, hi) # rs) s =
     (case uri_octet s of
        None \<Rightarrow> None
      | Some (b, t) \<Rightarrow> if lo \<le> b \<and> b \<le> hi then uri_follow (acc * 64 + (b - 128)) rs t else None)"

lemma uri_octet_shorter: "uri_octet s = Some (b, t) \<Longrightarrow> length t < length s"
  by (induction s rule: uri_octet.induct) (auto split: option.splits if_splits)

lemma uri_follow_shorter: "uri_follow acc rs s = Some (cp, t) \<Longrightarrow> length t \<le> length s"
proof (induction acc rs s rule: uri_follow.induct)
  case (2 acc lo hi rs s)
  then obtain b u where o: "uri_octet s = Some (b, u)" "uri_follow (acc * 64 + (b - 128)) rs u = Some (cp, t)"
    "lo \<le> b \<and> b \<le> hi"
    by (auto split: option.splits if_splits)
  then have "length t \<le> length u" using "2.IH" by simp
  then show ?case using uri_octet_shorter [OF o(1)] by simp
qed simp

function decodeURIComponent :: "jstr \<Rightarrow> jstr option" where
  "decodeURIComponent [] = Some []"
| "decodeURIComponent (c # s) =
     (if c \<noteq> 37 then map_option ((#) c) (decodeURIComponent s)
      else (case uri_octet (c # s) of
          None \<Rightarrow> None
        | Some (b, t) \<Rightarrow>
            if b < 128 then map_option ((#) b) (decodeURIComponent t)
            else (case utf8_lead b of
                None \<Rightarrow> None
              | Some (acc, rs) \<Rightarrow> (case uri_follow acc rs t of
                    None \<Rightarrow> None
                  | Some (cp, u) \<Rightarrow> map_option ((@) (utf16_units cp)) (decodeURIComponent u)))))"
  by pat_completeness auto

termination decodeURIComponent
  by (relation "measure length") (auto dest!: uri_octet_shorter uri_follow_shorter)

declare decodeURIComponent.simps [simp del]

text \<open>A text of unreserved ASCII characters stands for itself.\<close>

lemma decode_uri_plain: "37 \<notin> set s \<Longrightarrow> decodeURIComponent s = Some s"
  by (induction s) (auto simp: decodeURIComponent.simps)

lemma utf8_encode_ascii: "\<forall>c \<in> set s. c < 128 \<Longrightarrow> utf8_encode s = s"
  by (induction s rule: utf8_encode.induct) auto

lemma well_formed_ascii: "\<forall>c \<in> set s. c < 128 \<Longrightarrow> well_formed s"
  by (induction s rule: well_formed.induct) (auto simp: is_high_def is_low_def)

lemma encode_uri_plain:
  assumes "\<forall>c \<in> set s. c < 128 \<and> uri_unreserved c"
  shows "encodeURIComponent s = Some s"
proof -
  have "concat (map (\<lambda>b. if uri_unreserved b then [b] else percent b) s) = s"
    using assms by (induction s) auto
  then show ?thesis using assms by (simp add: encodeURIComponent_def well_formed_ascii utf8_encode_ascii)
qed

end
