(* ===== verification/Credentials.thy ===== *)
theory Credentials
  imports RelayBase Uri Ops
begin

section \<open>Credentials (apps/relay/credentials.js) and codes\<close>

text \<open>
  The policy of user names, display names and passwords, the password hashes with their
  verification, the recovery codes of accounts and administrators, and the versions of the legal
  documents. \<open>scrypt\<close> is an argument: from password, salt and length to the bytes of the key.
\<close>

type_synonym scrypt = "jstr \<Rightarrow> jstr \<Rightarrow> nat \<Rightarrow> bytes"

text \<open>\<open>isUserId\<close> of the module is \<open>user_id_like\<close>.\<close>

definition INVALID_USERNAME :: thrown where
  "INVALID_USERNAME = Api 400 (js ''invalid_username'')
     (js ''Use a 2-48 character username: letters, numbers, dot, underscore, or dash.'')"

definition requireAccountUserId :: "json option \<Rightarrow> ('s, jstr) op" where
  "requireAccountUserId value =
     (let userId = lower (trim (str_or_empty value)) in
      if user_id_like userId then return_op userId else throw_op INVALID_USERNAME)"

definition requireAccountDisplayName :: "json option \<Rightarrow> ('s, jstr) op" where
  "requireAccountDisplayName value =
     (let text = trim (str_or_empty value) in
      if text = [] \<or> length text > 80
      then throw_op (Api 400 (js ''invalid_display_name'') (js ''Display name must be 1-80 characters.''))
      else return_op text)"

definition requireAccountPassword :: "json option \<Rightarrow> ('s, jstr) op" where
  "requireAccountPassword value =
     (let password = str_or_empty value in
      if length password < 10 \<or> length password > 256
      then throw_op (Api 400 (js ''invalid_password'') (js ''Password must be 10-256 characters.''))
      else return_op password)"

text \<open>\<open>salt\<close> is what \<open>randomBytes(16)\<close> returns.\<close>

definition hashPassword :: "scrypt \<Rightarrow> bytes \<Rightarrow> jstr \<Rightarrow> jstr" where
  "hashPassword F salt password =
     (let s = hex_encode salt
      in js ''scrypt'' @ [58] @ s @ [58] @ hex_encode (F password s 64))"

text \<open>\<open>timingSafeEqual\<close> compares buffers of one length.\<close>

definition verifyPassword :: "scrypt \<Rightarrow> jstr \<Rightarrow> jstr \<Rightarrow> bool" where
  "verifyPassword F password storedHash =
     (case split_on 58 storedHash of
        [scheme, salt, key] \<Rightarrow>
          scheme = js ''scrypt''
          \<and> (let expected = hex_decode key; actual = F password salt (length expected)
             in length expected = length actual \<and> expected = actual)
      | _ \<Rightarrow> False)"

subsection \<open>Recovery codes\<close>

definition alnum_only :: "jstr \<Rightarrow> jstr" where
  "alnum_only s = filter (\<lambda>c. is_upper c \<or> is_digit c) s"

definition recovery_rx :: rx where
  "recovery_rx = Seq (lit ''VHFRESET'') (Reps (\<lambda>c. 65 \<le> c \<and> c \<le> 70 \<or> is_digit c) 32 32)"

definition normalizeAccountRecoveryCode :: "json option \<Rightarrow> jstr" where
  "normalizeAccountRecoveryCode value =
     (let normalized = alnum_only (upper (trim (str_or_empty value)))
      in if rx_match recovery_rx normalized then normalized else [])"

fun groups4 :: "jstr \<Rightarrow> jstr list" where
  "groups4 (a # b # c # d # s) = [a, b, c, d] # groups4 s"
| "groups4 [] = []"
| "groups4 s = [s]"

text \<open>\<open>random\<close> is what \<open>randomBytes(16)\<close> returns.\<close>

definition generateAccountRecoveryCode :: "bytes \<Rightarrow> jstr" where
  "generateAccountRecoveryCode random = js ''VHF-RESET-'' @ join [45] (groups4 (upper (hex_encode random)))"

definition RECOVERY_ALPHABET :: jstr where
  "RECOVERY_ALPHABET = js ''23456789ABCDEFGHJKLMNPQRSTUVWXYZ''"

definition recovery_code :: "bytes \<Rightarrow> jstr" where
  "recovery_code random =
     (let raw = map (\<lambda>b. RECOVERY_ALPHABET ! (b mod length RECOVERY_ALPHABET)) random
      in take 5 raw @ [45] @ take 5 (drop 5 raw) @ [45] @ take 5 (drop 10 raw))"

text \<open>\<open>random i\<close> is what the i-th call of \<open>randomBytes(15)\<close> returns.\<close>

definition generateRecoveryCodes :: "(nat \<Rightarrow> bytes) \<Rightarrow> jstr list" where
  "generateRecoveryCodes random = map (\<lambda>i. recovery_code (random i)) [0..<10]"

definition normalizeRecoveryCode :: "json option \<Rightarrow> jstr" where
  "normalizeRecoveryCode value = alnum_only (upper (str_or_empty value))"

definition hashRecoveryCode :: "(jstr \<Rightarrow> jstr) \<Rightarrow> jstr \<Rightarrow> jstr \<Rightarrow> jstr" where
  "hashRecoveryCode H adminId code = H (adminId @ [58] @ normalizeRecoveryCode (Some (JStr code)))"

subsection \<open>Legal documents (apps/relay/legal.js)\<close>

definition legalValue :: "jstr option \<Rightarrow> jstr \<Rightarrow> jstr" where
  "legalValue value fallback =
     (let text = trim (case value of None \<Rightarrow> [] | Some v \<Rightarrow> v) in
      if text = [] \<or> length text > 40 \<or> \<not> rx_match (plus (Chr (\<lambda>c. alnum c \<or> one_of ''._-'' c))) text
      then fallback else text)"

subsection \<open>Passwords\<close>

lemma hex_no_colon: "is_bytes bs \<Longrightarrow> 58 \<notin> set (hex_encode bs)"
  using hex_encode_chars hex_digit_chars by (fastforce simp: is_digit_def)

lemma split_no_sep: "c \<notin> set s \<Longrightarrow> split_on c s = [s]"
  by (induction s) auto

lemma split_sep: "c \<notin> set s \<Longrightarrow> split_on c (s @ c # t) = s # split_on c t"
  by (induction s) auto

lemma split_three:
  assumes "c \<notin> set x" "c \<notin> set y" "c \<notin> set z"
  shows "split_on c (x @ [c] @ y @ [c] @ z) = [x, y, z]"
  using assms by (simp add: split_sep split_no_sep)

lemma scheme_no_colon: "58 \<notin> set (js ''scrypt'')"
  by (simp add: js_def)

lemma verify_hashed:
  assumes "is_bytes salt" "\<And>p s n. is_bytes (F p s n) \<and> length (F p s n) = n"
  shows "verifyPassword F q (hashPassword F salt p) \<longleftrightarrow> F q (hex_encode salt) 64 = F p (hex_encode salt) 64"
proof -
  have "split_on 58 (hashPassword F salt p)
      = [js ''scrypt'', hex_encode salt, hex_encode (F p (hex_encode salt) 64)]"
    unfolding hashPassword_def Let_def
    by (rule split_three) (use assms hex_no_colon scheme_no_colon in auto)
  then show ?thesis using assms(2) by (auto simp: verifyPassword_def hex_roundtrip)
qed

subsection \<open>Recovery codes are accepted as they are shown\<close>

lemma alnum_only_append: "alnum_only (a @ b) = alnum_only a @ alnum_only b"
  by (simp add: alnum_only_def)

lemma alnum_only_join: "alnum_only (join [45] (g # gs)) = alnum_only g @ alnum_only (join [45] gs)"
  by (cases gs) (simp_all add: alnum_only_def is_upper_def is_digit_def)

lemma alnum_only_groups: "alnum_only (join [45] (groups4 s)) = alnum_only s"
  by (induction s rule: groups4.induct) (simp_all add: alnum_only_join alnum_only_append [symmetric] del: join.simps(3))

definition upper_hex :: "nat \<Rightarrow> bool" where
  "upper_hex c = (65 \<le> c \<and> c \<le> 70 \<or> is_digit c)"

lemma upper_hex_encode:
  assumes "is_bytes r"
  shows "list_all upper_hex (upper (hex_encode r))" "length (upper (hex_encode r)) = 2 * length r"
proof -
  have c: "c < 128 \<and> \<not> is_upper c \<and> (is_digit c \<or> 97 \<le> c \<and> c \<le> 102)" if "c \<in> set (hex_encode r)" for c
    using hex_encode_chars [OF assms that] hex_digit_chars by auto
  have "upper s = map (\<lambda>c. if is_lower c then c - 32 else c) s" if "\<forall>c \<in> set s. c < 128" for s
    using that by (induction s) (auto simp: upper_def upper_unit_ascii)
  then have "upper (hex_encode r) = map (\<lambda>c. if is_lower c then c - 32 else c) (hex_encode r)"
    using c by blast
  then show "list_all upper_hex (upper (hex_encode r))" "length (upper (hex_encode r)) = 2 * length r"
    using c by (fastforce simp: list_all_iff upper_hex_def is_lower_def is_digit_def)+
qed

lemma alnum_only_upper_hex: "list_all upper_hex s \<Longrightarrow> alnum_only s = s"
  by (auto simp: alnum_only_def list_all_iff upper_hex_def is_upper_def intro!: filter_True)

lemma groups4_chars: "c \<in> set (join [45] (groups4 s)) \<Longrightarrow> c = 45 \<or> c \<in> set s"
proof (induction s rule: groups4.induct)
  case (1 a b d e s)
  then show ?case by (cases "groups4 s") auto
qed auto

lemma normalize_generated:
  assumes "is_bytes r" "length r = 16"
  shows "normalizeAccountRecoveryCode (Some (JStr (generateAccountRecoveryCode r))) = js ''VHFRESET'' @ upper (hex_encode r)"
proof -
  let ?u = "upper (hex_encode r)"
  let ?c = "generateAccountRecoveryCode r"
  have u: "list_all upper_hex ?u" "length ?u = 32" using upper_hex_encode assms by auto
  have lit: "js ''VHF-RESET-'' = [86, 72, 70, 45, 82, 69, 83, 69, 84, 45]" "js ''VHFRESET'' = [86, 72, 70, 82, 69, 83, 69, 84]"
    by (simp_all add: js_def)
  have cs: "c < 128 \<and> \<not> is_lower c \<and> \<not> is_ws c" if "c \<in> set ?c" for c
  proof -
    have "c \<in> set (js ''VHF-RESET-'') \<or> c = 45 \<or> upper_hex c"
      using that groups4_chars [of c ?u] u(1) by (auto simp: generateAccountRecoveryCode_def list_all_iff)
    then show ?thesis unfolding lit by (auto simp: upper_hex_def is_lower_def is_digit_def is_ws_def)
  qed
  have "alnum_only (js ''VHF-RESET-'') = js ''VHFRESET''"
    unfolding lit by (simp add: alnum_only_def is_upper_def is_digit_def)
  then have n: "alnum_only ?c = js ''VHFRESET'' @ ?u"
    using u(1) by (simp add: generateAccountRecoveryCode_def alnum_only_append alnum_only_groups alnum_only_upper_hex)
  have "rx_match recovery_rx (js ''VHFRESET'' @ ?u)"
    unfolding recovery_rx_def rx_match_iff using u
    by (auto simp: rx_lang.simps list_all_iff upper_hex_def)
  then show ?thesis
    using cs by (simp add: normalizeAccountRecoveryCode_def trim_no_ws upper_id n)
qed

end
