(* ===== verification/Web.thy ===== *)
theory Web
  imports AdminDb Credentials RelayHttp Relay
begin

section \<open>Requests, sessions and replies of the relay's HTTP server\<close>

text \<open>
  What the handlers of the accounts and of the administration share: the request, the
  configuration, the state of the server outside its sockets, the sessions with their cookies
  (apps/relay/sessions.js), the limiter, the audit and the replies (apps/relay/index.js). What a
  handler does to the sockets is a list of effects, in the order of the calls.
\<close>

record host =
  h_node :: node
  h_scrypt :: scrypt

abbreviation h_sha :: "host \<Rightarrow> jstr \<Rightarrow> jstr" where
  "h_sha H \<equiv> n_sha (h_node H)"

record web_config =
  wc_relay :: relay_config
  wc_registration :: bool
  wc_requireInvite :: bool
  wc_maxAuth :: nat
  wc_maxAdmin :: nat
  wc_accountCookie :: jstr
  wc_accountTtlMs :: int
  wc_adminCookie :: jstr
  wc_adminTtlMs :: int
  wc_adminIdleMs :: int
  wc_storeMetadata :: bool
  wc_auditDays :: int
  wc_terms :: jstr
  wc_privacy :: jstr
  wc_effective :: jstr
  wc_recoveryTtlMs :: int
  wc_adminTokenHash :: "jstr option"
  wc_rpId :: jstr
  wc_rpName :: jstr
  wc_mfaTtlMs :: int
  wc_usersText :: jstr
  wc_defaultToken :: jstr
  wc_database :: jstr

text \<open>A request; a header that is missing is empty.\<close>

record request =
  q_method :: jstr
  q_path :: jstr
  q_origin :: jstr
  q_contentType :: jstr
  q_authorization :: jstr
  q_cookie :: jstr
  q_forwardedFor :: jstr
  q_forwardedProto :: jstr
  q_forwardedHost :: jstr
  q_host :: jstr
  q_userAgent :: jstr
  q_remote :: jstr
  q_encrypted :: bool

text \<open>
  What the clock and the random source give during one uninterrupted part of a handler: the time,
  the tokens and identifiers of its calls in order, the salt and the random bytes.
\<close>

record tick =
  k_now :: int
  k_token :: "nat \<Rightarrow> jstr"
  k_uuid :: "nat \<Rightarrow> jstr"
  k_salt :: bytes
  k_bytes :: "nat \<Rightarrow> bytes"
  k_invite :: jstr

datatype web_effect = CloseSessionsOf jstr "jstr list" jstr
  | CloseAgentsOf jstr jstr
  | CloseClientsOf jstr jstr
  | RevokeByHash jstr jstr
  | DisconnectPairing jstr jstr jstr

record web =
  w_db :: relay_db
  w_rates :: http_rates
  w_invites :: invites
  w_users :: relay_users
  w_effects :: "web_effect list"

type_synonym 'a web_op = "(web, 'a) op"

definition with_db :: "'a rdb \<Rightarrow> 'a web_op" where
  "with_db m = on_part w_db (\<lambda>d w. w\<lparr>w_db := d\<rparr>) m"

definition effect :: "web_effect \<Rightarrow> unit web_op" where
  "effect e = put_op (\<lambda>w. w\<lparr>w_effects := w_effects w @ [e]\<rparr>)"

subsection \<open>Replies\<close>

definition int_string :: "int \<Rightarrow> jstr" where
  "int_string i = num_to_string (Fin (of_int i))"

record response =
  rs_status :: nat
  rs_headers :: "(jstr \<times> jstr) list"
  rs_body :: payload

datatype 'k outcome = Reply response | Await 'k

definition obj :: "(string \<times> json) list \<Rightarrow> payload" where
  "obj fs = map (\<lambda>(k, v). (js k, v)) fs"

abbreviation jint :: "int \<Rightarrow> json" where
  "jint i \<equiv> JNum (Fin (of_int i))"

abbreviation jstring :: "string \<Rightarrow> json" where
  "jstring s \<equiv> JStr (js s)"

definition jtime :: "int \<Rightarrow> json" where
  "jtime ms = JStr (iso_string ms)"

definition jopt :: "('a \<Rightarrow> json) \<Rightarrow> 'a option \<Rightarrow> json" where
  "jopt f x = (case x of None \<Rightarrow> JNull | Some v \<Rightarrow> f v)"

text \<open>\<open>content-length\<close> is left out: the text of the body is not part of the model.\<close>

definition sendJson :: "web_config \<Rightarrow> request \<Rightarrow> nat \<Rightarrow> payload \<Rightarrow> (jstr \<times> jstr) list \<Rightarrow> response" where
  "sendJson C q status body headers =
     \<lparr>rs_status = status,
      rs_headers = corsHeaders (wc_relay C) (q_origin q) @ headers
        @ [(js ''content-type'', js ''application/json; charset=utf-8''), (js ''cache-control'', js ''no-store''),
           (js ''x-content-type-options'', js ''nosniff''), (js ''referrer-policy'', js ''no-referrer'')],
      rs_body = body\<rparr>"

definition ok_json :: "web_config \<Rightarrow> request \<Rightarrow> nat \<Rightarrow> (string \<times> json) list \<Rightarrow> (jstr \<times> jstr) list \<Rightarrow> response" where
  "ok_json C q status fs headers = sendJson C q status (obj ((''ok'', JBool True) # fs)) headers"

definition fail_json :: "web_config \<Rightarrow> request \<Rightarrow> nat \<Rightarrow> jstr \<Rightarrow> jstr \<Rightarrow> response" where
  "fail_json C q status code error =
     sendJson C q status (obj [(''ok'', JBool False), (''code'', JStr code), (''error'', JStr error)]) []"

definition plain_fail :: "web_config \<Rightarrow> request \<Rightarrow> nat \<Rightarrow> jstr \<Rightarrow> response" where
  "plain_fail C q status error = sendJson C q status (obj [(''ok'', JBool False), (''error'', JStr error)]) []"

text \<open>The reply to an error that a handler throws.\<close>

definition answer_error :: "web_config \<Rightarrow> request \<Rightarrow> thrown \<Rightarrow> response" where
  "answer_error C q e = (case e of
     Api status code message \<Rightarrow> fail_json C q status code message
   | Err message \<Rightarrow> plain_fail C q 500 (js ''internal error''))"

subsection \<open>The body of a request\<close>

text \<open>The chunks that arrive; reading stops as soon as they are too long.\<close>

definition readJsonBody :: "host \<Rightarrow> bytes list \<Rightarrow> ('s, json) op" where
  "readJsonBody H chunks =
     (if length (concat chunks) > 16384
      then throw_op (Api 413 (js ''body_too_large'') (js ''request body is too large''))
      else if chunks = [] then return_op (JObj [])
      else (case n_parse (h_node H) (utf8_decode (concat chunks)) of
          None \<Rightarrow> throw_op (Api 400 (js ''invalid_json'') (js ''invalid json''))
        | Some v \<Rightarrow> return_op v))"

text \<open>The properties of the body: reading one of \<open>null\<close> throws, other values have none of those read.\<close>

definition fields_of :: "json \<Rightarrow> ('s, payload) op" where
  "fields_of body = (case body of
     JNull \<Rightarrow> throw_op (Err (js ''Cannot read properties of null''))
   | JObj ps \<Rightarrow> return_op ps
   | _ \<Rightarrow> return_op [])"

subsection \<open>Paths\<close>

definition cut_prefix :: "jstr \<Rightarrow> jstr \<Rightarrow> jstr option" where
  "cut_prefix prefix s = (if starts_with s prefix then Some (drop (length prefix) s) else None)"

definition cut_suffix :: "jstr \<Rightarrow> jstr \<Rightarrow> jstr option" where
  "cut_suffix suffix s = (if ends_with s suffix then Some (take (length s - length suffix) s) else None)"

text \<open>The one segment between a prefix and a suffix: \<open>/^prefix([^/]+)suffix$/\<close>.\<close>

definition segment :: "string \<Rightarrow> string \<Rightarrow> jstr \<Rightarrow> jstr option" where
  "segment prefix suffix path =
     (case cut_prefix (js prefix) path of None \<Rightarrow> None | Some r \<Rightarrow> (case cut_suffix (js suffix) r of None \<Rightarrow> None
        | Some s \<Rightarrow> if s \<noteq> [] \<and> 47 \<notin> set s then Some s else None))"

definition decoded :: "jstr \<Rightarrow> ('s, jstr) op" where
  "decoded s = (case decodeURIComponent s of
     Some t \<Rightarrow> return_op t | None \<Rightarrow> throw_op (Err (js ''URI malformed'')))"

subsection \<open>Cookies (apps/relay/sessions.js)\<close>

definition cookie_part :: "jstr \<Rightarrow> (jstr \<times> jstr) option" where
  "cookie_part part =
     (case index_of 61 part of
        None \<Rightarrow> None
      | Some i \<Rightarrow>
          (let name = trim (take i part); value = trim (drop (Suc i) part) in
           if i = 0 \<or> name = [] then None
           else Some (name, case decodeURIComponent value of Some v \<Rightarrow> v | None \<Rightarrow> value)))"

definition parseCookies :: "jstr \<Rightarrow> (jstr, jstr) jmap" where
  "parseCookies header =
     fold (\<lambda>part m. case cookie_part part of
         None \<Rightarrow> m
       | Some (name, value) \<Rightarrow> if name = js ''__proto__'' then m else mput m name value) (split_on 59 header) []"

definition cookie_value :: "jstr \<Rightarrow> request \<Rightarrow> jstr" where
  "cookie_value name q = (case mget (parseCookies (q_cookie q)) name of None \<Rightarrow> [] | Some v \<Rightarrow> v)"

definition first_item :: "jstr \<Rightarrow> jstr" where
  "first_item header = trim (hd (split_on 44 header))"

definition isSecureRequest :: "request \<Rightarrow> bool" where
  "isSecureRequest q = (q_encrypted q \<or> first_item (q_forwardedProto q) = js ''https'')"

definition secondsUntil :: "int \<Rightarrow> int \<Rightarrow> int" where
  "secondsUntil now expiresAt = max 1 ((expiresAt - now) div 1000)"

text \<open>The tokens are hexadecimal texts; for a text that cannot be encoded the code would throw.\<close>

definition buildCookie :: "request \<Rightarrow> jstr \<Rightarrow> jstr \<Rightarrow> string \<Rightarrow> string \<Rightarrow> int \<Rightarrow> jstr" where
  "buildCookie q name value path sameSite maxAge =
     join (js ''; '') ([name @ [61] @ (case encodeURIComponent value of Some v \<Rightarrow> v | None \<Rightarrow> []),
       js ''Path='' @ js path, js ''HttpOnly'', js ''SameSite='' @ js sameSite,
       js ''Max-Age='' @ int_string (max 0 maxAge)] @ (if isSecureRequest q then [js ''Secure''] else []))"

definition accountCookieHeaders :: "web_config \<Rightarrow> tick \<Rightarrow> request \<Rightarrow> jstr \<Rightarrow> int \<Rightarrow> (jstr \<times> jstr) list" where
  "accountCookieHeaders C T q token expiresAt =
     [(js ''set-cookie'', buildCookie q (wc_accountCookie C) token ''/'' ''Lax'' (secondsUntil (k_now T) expiresAt))]"

definition clearAccountCookieHeaders :: "web_config \<Rightarrow> request \<Rightarrow> (jstr \<times> jstr) list" where
  "clearAccountCookieHeaders C q = [(js ''set-cookie'', buildCookie q (wc_accountCookie C) [] ''/'' ''Lax'' 0)]"

definition adminCookieHeaders :: "web_config \<Rightarrow> tick \<Rightarrow> request \<Rightarrow> jstr \<Rightarrow> int \<Rightarrow> (jstr \<times> jstr) list" where
  "adminCookieHeaders C T q token expiresAt =
     [(js ''set-cookie'', buildCookie q (wc_adminCookie C) token ''/admin'' ''Strict'' (secondsUntil (k_now T) expiresAt))]"

definition clearAdminCookieHeaders :: "web_config \<Rightarrow> request \<Rightarrow> (jstr \<times> jstr) list" where
  "clearAdminCookieHeaders C q = [(js ''set-cookie'', buildCookie q (wc_adminCookie C) [] ''/admin'' ''Strict'' 0)]"

subsection \<open>Sessions (apps/relay/sessions.js)\<close>

definition request_ip :: "request \<Rightarrow> jstr" where
  "request_ip q = getRequestIp (q_forwardedFor q) (q_remote q)"

text \<open>Address and user agent, kept only where the configuration says so.\<close>

definition requestMetadata :: "web_config \<Rightarrow> request \<Rightarrow> jstr \<times> jstr" where
  "requestMetadata C q = (if wc_storeMetadata C then (request_ip q, q_userAgent q) else ([], []))"

definition account_mode :: "web_config \<Rightarrow> bool" where
  "account_mode C = (rc_authMode (wc_relay C) \<noteq> EnvMode)"

definition getAccountToken :: "web_config \<Rightarrow> request \<Rightarrow> jstr" where
  "getAccountToken C q = cookie_value (wc_accountCookie C) q"

definition getAdminToken :: "web_config \<Rightarrow> request \<Rightarrow> jstr" where
  "getAdminToken C q = cookie_value (wc_adminCookie C) q"

definition getAccountSession :: "host \<Rightarrow> web_config \<Rightarrow> tick \<Rightarrow> request \<Rightarrow> account_session option web_op" where
  "getAccountSession H C T q =
     (if getAccountToken C q = [] \<or> \<not> account_mode C then return_op None
      else attempt None (with_db (getBrowserSession (h_sha H) (k_now T) (getAccountToken C q))))"

definition getAdminSessionOf :: "host \<Rightarrow> web_config \<Rightarrow> tick \<Rightarrow> request \<Rightarrow> admin_session option web_op" where
  "getAdminSessionOf H C T q =
     (if getAdminToken C q = [] \<or> \<not> account_mode C then return_op None
      else attempt None (with_db (getAdminSession (h_sha H) (k_now T) (wc_adminIdleMs C) (getAdminToken C q))))"

definition session_name :: "account_session \<Rightarrow> jstr" where
  "session_name s = (if as_display s \<noteq> [] then as_display s else as_user s)"

definition findRelayUserBySession ::
  "host \<Rightarrow> web_config \<Rightarrow> tick \<Rightarrow> request \<Rightarrow> (jstr \<times> jstr \<times> jstr) option web_op" where
  "findRelayUserBySession H C T q =
     bind_op (getAccountSession H C T q) (\<lambda>s.
       return_op (map_option (\<lambda>s. (as_user s, session_name s, as_id s)) s))"

text \<open>A new session with its token; \<open>i\<close> and \<open>j\<close> count the calls of the random source.\<close>

definition createAccountSession ::
  "host \<Rightarrow> web_config \<Rightarrow> tick \<Rightarrow> request \<Rightarrow> nat \<Rightarrow> nat \<Rightarrow> jstr \<Rightarrow> (account_session \<times> jstr) web_op" where
  "createAccountSession H C T q i j userId =
     (let (ip, ua) = requestMetadata C q in
      bind_op (with_db (createBrowserSession (h_sha H) (k_now T) (k_uuid T j) userId (k_token T i)
                 (k_now T + wc_accountTtlMs C) [] ip ua)) (\<lambda>s.
      return_op (s, k_token T i)))"

definition createAdminLoginSession ::
  "host \<Rightarrow> web_config \<Rightarrow> tick \<Rightarrow> request \<Rightarrow> nat \<Rightarrow> nat \<Rightarrow> admin_row \<Rightarrow> (admin_session \<times> jstr) web_op" where
  "createAdminLoginSession H C T q i j account =
     (let (ip, ua) = requestMetadata C q; expires = k_now T + wc_adminTtlMs C in
      bind_op (with_db (createAdminSession (h_sha H) (k_now T) (k_uuid T j) (ad_id account) (k_token T i)
                 expires ip ua)) (\<lambda>sid.
      return_op (\<lparr>ss_id = sid, ss_admin = ad_id account, ss_username = ad_name account,
        ss_display = ad_display account, ss_role = ad_role account, ss_created = k_now T, ss_seen = k_now T,
        ss_expires = expires\<rparr>, k_token T i)))"

subsection \<open>Limits, users and invites\<close>

text \<open>\<open>None\<close> where the attempt is allowed, else the reply.\<close>

definition allowAttempt :: "web_config \<Rightarrow> tick \<Rightarrow> request \<Rightarrow> string \<Rightarrow> nat \<Rightarrow> response option web_op" where
  "allowAttempt C T q buck limit =
     step_op (\<lambda>w. let (rates, verdict) = allowHttpAttempt (wc_relay C) (k_now T)
                        (httpRateKey (request_ip q) (js buck)) limit (w_rates w)
       in (case verdict of
             Inr _ \<Rightarrow> None
           | Inl retry \<Rightarrow> Some (sendJson C q 429 (obj [(''ok'', JBool False), (''code'', jstring ''auth_rate_limited''),
               (''error'', jstring ''too many authentication attempts; try again shortly'')])
               [(js ''retry-after'', int_string retry)]), w\<lparr>w_rates := rates\<rparr>))"

definition clearAttempts :: "request \<Rightarrow> string \<Rightarrow> unit web_op" where
  "clearAttempts q buck = put_op (\<lambda>w. w\<lparr>w_rates := clearHttpAttempts (httpRateKey (request_ip q) (js buck)) (w_rates w)\<rparr>)"

text \<open>
  \<open>reloadRelayUsers\<close>: the texts of the environment were accepted when the relay started, so reading
  them again cannot fail; where it would, the users stay as they are.
\<close>

definition reloadRelayUsers :: "host \<Rightarrow> web_config \<Rightarrow> unit web_op" where
  "reloadRelayUsers H C =
     bind_op (with_db listActiveRelayTokenUsers) (\<lambda>rows.
     put_op (\<lambda>w. case loadRelayUsers (h_node H) (rc_authMode (wc_relay C)) rows (wc_usersText C) (wc_defaultToken C) of
         Inr users \<Rightarrow> w\<lparr>w_users := users\<rparr> | Inl e \<Rightarrow> w))"

definition hasInvite :: "host \<Rightarrow> tick \<Rightarrow> json option \<Rightarrow> bool web_op" where
  "hasInvite H T value =
     step_op (\<lambda>w. let (m, b) = hasRegistrationInvite (h_node H) (k_now T) (str_or_empty value) (w_invites w)
       in (b, w\<lparr>w_invites := m\<rparr>))"

definition consumeInvite :: "host \<Rightarrow> json option \<Rightarrow> bool web_op" where
  "consumeInvite H value =
     step_op (\<lambda>w. let (m, b) = consumeRegistrationInvite (h_node H) (str_or_empty value) (w_invites w)
       in (b, w\<lparr>w_invites := m\<rparr>))"

subsection \<open>Audit\<close>

text \<open>Events are written only where the configuration keeps them; an error is logged and forgotten.\<close>

definition write_audit :: "web_config \<Rightarrow> tick \<Rightarrow> request \<Rightarrow> nat \<Rightarrow> string \<Rightarrow> jstr \<Rightarrow> audit_input \<Rightarrow> unit web_op" where
  "write_audit C T q j actorType actorId i =
     (if \<not> rc_persistAudit (wc_relay C) then return_op ()
      else attempt () (with_db (insertAuditEvent (k_now T) (k_uuid T j)
             (i\<lparr>ai_actorType := js actorType, ai_actorId := actorId, ai_ip := request_ip q\<rparr>))))"

definition insertAccountAuditEvent ::
  "web_config \<Rightarrow> tick \<Rightarrow> request \<Rightarrow> nat \<Rightarrow> string \<Rightarrow> jstr \<Rightarrow> payload option \<Rightarrow> unit web_op" where
  "insertAccountAuditEvent C T q j event userId metadata =
     write_audit C T q j ''account'' userId ((audit_input event)\<lparr>ai_user := userId, ai_metadata := metadata\<rparr>)"

end
