(* ===== verification/AccountApi.thy ===== *)
theory AccountApi
  imports Web
begin

section \<open>The accounts of the pilots (apps/relay/account-api.js)\<close>

text \<open>
  \<open>account_begin\<close> is a request up to its reply or to \<open>await readJsonBody\<close>; \<open>account_finish\<close> what
  follows when the body has arrived, with what the first part looked up (\<open>account_kont\<close>). Other
  requests, messages and timers may run between the two. The parts themselves are not interrupted.
\<close>

datatype account_kont = KRegister | KLogin | KChangePassword account_session | KRecover

definition publicAccountUser :: "account_session \<Rightarrow> json" where
  "publicAccountUser s = JObj (obj [(''userId'', JStr (as_user s)), (''userName'', JStr (session_name s)),
     (''expiresAt'', jtime (as_expires s))])"

definition legal_json :: "web_config \<Rightarrow> json" where
  "legal_json C = JObj (obj [(''termsVersion'', JStr (wc_terms C)), (''privacyVersion'', JStr (wc_privacy C)),
     (''effectiveDate'', JStr (wc_effective C))])"

definition hasCurrentLegalAcceptance :: "web_config \<Rightarrow> payload \<Rightarrow> bool" where
  "hasCurrentLegalAcceptance C b =
     (fld b ''acceptTerms'' = Some (JBool True) \<and> fld b ''acknowledgePrivacy'' = Some (JBool True)
      \<and> fld b ''termsVersion'' = Some (JStr (wc_terms C)) \<and> fld b ''privacyVersion'' = Some (JStr (wc_privacy C)))"

definition notAuthenticated :: "web_config \<Rightarrow> request \<Rightarrow> response" where
  "notAuthenticated C q = fail_json C q 401 (js ''not_authenticated'') (js ''not authenticated'')"

definition invalidCredentials :: "web_config \<Rightarrow> request \<Rightarrow> response" where
  "invalidCredentials C q = fail_json C q 401 (js ''invalid_credentials'') (js ''invalid username or password'')"

definition session_json :: "jstr \<Rightarrow> session_row \<Rightarrow> json" where
  "session_json current r = JObj (obj [(''sessionId'', JStr (sr_id r)), (''createdAt'', jtime (sr_created r)),
     (''lastSeenAt'', jtime (sr_seen r)), (''expiresAt'', jtime (sr_expires r)), (''ipAddress'', jopt JStr (sr_ip r)),
     (''userAgent'', jopt JStr (sr_agent r)), (''current'', JBool (sr_id r = current))])"

abbreviation reply_op :: "response \<Rightarrow> ('s, 'k outcome) op" where
  "reply_op r \<equiv> return_op (Reply r)"

text \<open>A part that needs the session of the request, and the guard of the limiter.\<close>

definition with_account ::
  "host \<Rightarrow> web_config \<Rightarrow> tick \<Rightarrow> request \<Rightarrow> (account_session \<Rightarrow> 'k outcome web_op) \<Rightarrow> 'k outcome web_op" where
  "with_account H C T q f =
     bind_op (getAccountSession H C T q) (\<lambda>s. case s of
         None \<Rightarrow> reply_op (notAuthenticated C q) | Some s \<Rightarrow> f s)"

definition limited :: "web_config \<Rightarrow> tick \<Rightarrow> request \<Rightarrow> string \<Rightarrow> nat \<Rightarrow> 'k outcome web_op \<Rightarrow> 'k outcome web_op" where
  "limited C T q buck limit m =
     bind_op (allowAttempt C T q buck limit) (\<lambda>r. case r of Some x \<Rightarrow> reply_op x | None \<Rightarrow> m)"

subsection \<open>Requests without a body\<close>

definition account_status :: "host \<Rightarrow> web_config \<Rightarrow> tick \<Rightarrow> request \<Rightarrow> account_kont outcome web_op" where
  "account_status H C T q =
     bind_op (getAccountSession H C T q) (\<lambda>s.
     reply_op (ok_json C q 200
       [(''registrationEnabled'', JBool (wc_registration C)),
        (''registrationRequiresInvite'', JBool (wc_registration C \<and> wc_requireInvite C)),
        (''legal'', legal_json C), (''authenticated'', JBool (s \<noteq> None)),
        (''user'', jopt publicAccountUser s)] []))"

definition account_me :: "host \<Rightarrow> web_config \<Rightarrow> tick \<Rightarrow> request \<Rightarrow> account_kont outcome web_op" where
  "account_me H C T q = with_account H C T q (\<lambda>s. reply_op (ok_json C q 200 [(''user'', publicAccountUser s)] []))"

definition account_sessions :: "host \<Rightarrow> web_config \<Rightarrow> tick \<Rightarrow> request \<Rightarrow> account_kont outcome web_op" where
  "account_sessions H C T q =
     with_account H C T q (\<lambda>s.
     bind_op (with_db (listBrowserSessions (k_now T) (as_user s))) (\<lambda>rows.
     reply_op (ok_json C q 200 [(''sessions'', JArr (map (session_json (as_id s)) rows))] [])))"

definition account_revoke :: "host \<Rightarrow> web_config \<Rightarrow> tick \<Rightarrow> request \<Rightarrow> jstr \<Rightarrow> account_kont outcome web_op" where
  "account_revoke H C T q encoded =
     with_account H C T q (\<lambda>s.
     bind_op (decoded encoded) (\<lambda>sessionId.
     bind_op (with_db (revokeBrowserSessionById (k_now T) (as_user s) sessionId)) (\<lambda>count.
     let current = (sessionId = as_id s) in
     if count = 0 then reply_op (fail_json C q 404 (js ''session_not_found'') (js ''session not found''))
     else
       bind_op (insertAccountAuditEvent C T q 0 ''account.session_revoked'' (as_user s)
         (Some (obj [(''sessionId'', JStr sessionId), (''current'', JBool current)]))) (\<lambda>_.
       bind_op (effect (CloseSessionsOf (as_user s) [sessionId] (js ''browser session revoked''))) (\<lambda>_.
       reply_op (ok_json C q 200 [(''count'', jint (int count)), (''current'', JBool current)]
         (if current then clearAccountCookieHeaders C q else [])))))))"

definition account_revoke_others :: "host \<Rightarrow> web_config \<Rightarrow> tick \<Rightarrow> request \<Rightarrow> account_kont outcome web_op" where
  "account_revoke_others H C T q =
     with_account H C T q (\<lambda>s.
     bind_op (with_db (revokeOtherBrowserSessions (k_now T) (as_user s) (as_id s))) (\<lambda>(count, ids).
     bind_op (insertAccountAuditEvent C T q 0 ''account.sessions_revoked_others'' (as_user s)
       (Some (obj [(''count'', jint (int count))]))) (\<lambda>_.
     bind_op (effect (CloseSessionsOf (as_user s) ids (js ''browser session revoked''))) (\<lambda>_.
     reply_op (ok_json C q 200 [(''count'', jint (int count))] [])))))"

definition account_logout :: "host \<Rightarrow> web_config \<Rightarrow> tick \<Rightarrow> request \<Rightarrow> account_kont outcome web_op" where
  "account_logout H C T q =
     (let token = getAccountToken C q in
      bind_op (getAccountSession H C T q) (\<lambda>s.
      bind_op (if token = [] then return_op 0 else with_db (revokeBrowserSession (h_sha H) (k_now T) token)) (\<lambda>_.
      bind_op (case s of None \<Rightarrow> return_op ()
               | Some s \<Rightarrow> effect (CloseSessionsOf (as_user s) [as_id s] (js ''account logged out''))) (\<lambda>_.
      reply_op (ok_json C q 200 [] (clearAccountCookieHeaders C q))))))"

definition account_rotate :: "host \<Rightarrow> web_config \<Rightarrow> tick \<Rightarrow> request \<Rightarrow> account_kont outcome web_op" where
  "account_rotate H C T q =
     with_account H C T q (\<lambda>s.
     bind_op (with_db (importRelayUserToken (h_sha H) (k_now T) (k_uuid T 0) (as_user s) (session_name s) (k_token T 0)))
       (\<lambda>(action, prefix).
     bind_op (insertAccountAuditEvent C T q 1 ''account.agent_token_rotated'' (as_user s)
       (Some (obj [(''tokenPrefix'', JStr prefix)]))) (\<lambda>_.
     bind_op (reloadRelayUsers H C) (\<lambda>_.
     bind_op (effect (CloseAgentsOf (as_user s) (js ''relay token rotated''))) (\<lambda>_.
     reply_op (ok_json C q 200 [(''agentToken'', JStr (k_token T 0)), (''tokenPrefix'', JStr prefix)] []))))))"

subsection \<open>Requests with a body\<close>

definition finish_register :: "host \<Rightarrow> web_config \<Rightarrow> tick \<Rightarrow> request \<Rightarrow> payload \<Rightarrow> account_kont outcome web_op" where
  "finish_register H C T q b =
     bind_op (if wc_requireInvite C then hasInvite H T (fld b ''inviteCode'') else return_op True) (\<lambda>invited.
     if \<not> invited
     then reply_op (fail_json C q 403 (js ''invalid_invite'') (js ''a valid registration invite is required''))
     else if \<not> hasCurrentLegalAcceptance C b
     then reply_op (sendJson C q 400 (obj [(''ok'', JBool False), (''code'', jstring ''legal_acceptance_required''),
            (''error'', jstring ''the current terms and privacy notice must be accepted''),
            (''legal'', legal_json C)]) [])
     else
       bind_op (requireAccountUserId (fld b ''userId'')) (\<lambda>userId.
       bind_op (requireAccountDisplayName (Some (or_else (fld b ''displayName'') (JStr userId)))) (\<lambda>displayName.
       bind_op (requireAccountPassword (fld b ''password'')) (\<lambda>password.
       let hash = hashPassword (h_scrypt H) (k_salt T) password in
       bind_op (with_db (getRelayUser userId)) (\<lambda>known.
       if known \<noteq> None then reply_op (fail_json C q 409 (js ''username_taken'') (js ''username already exists''))
       else
         bind_op (with_db (createRelayAccount (h_sha H) (k_now T) (k_uuid T 0) userId displayName hash (k_token T 0)
           (wc_terms C) (wc_privacy C) (js ''registration''))) (\<lambda>prefix.
         bind_op (if wc_requireInvite C then consumeInvite H (fld b ''inviteCode'') else return_op False) (\<lambda>_.
         bind_op (createAccountSession H C T q 1 1 userId) (\<lambda>(s, token).
         bind_op (insertAccountAuditEvent C T q 2 ''account.registered'' userId
           (Some (obj [(''tokenPrefix'', JStr prefix)]))) (\<lambda>_.
         bind_op (reloadRelayUsers H C) (\<lambda>_.
         bind_op (clearAttempts q ''registration'') (\<lambda>_.
         reply_op (ok_json C q 201 [(''user'', publicAccountUser s), (''agentToken'', JStr (k_token T 0)),
             (''tokenPrefix'', JStr prefix)] (accountCookieHeaders C T q token (as_expires s))))))))))))))"

text \<open>Whether the password is that of the account, which must be enabled and have one.\<close>

definition login_accepts :: "host \<Rightarrow> jstr \<Rightarrow> user_row option \<Rightarrow> bool" where
  "login_accepts H password user = (case user of
     None \<Rightarrow> False
   | Some u \<Rightarrow> us_disabled u = None \<and> (case us_password u of
       None \<Rightarrow> False | Some h \<Rightarrow> h \<noteq> [] \<and> verifyPassword (h_scrypt H) password h))"

definition finish_login :: "host \<Rightarrow> web_config \<Rightarrow> tick \<Rightarrow> request \<Rightarrow> payload \<Rightarrow> account_kont outcome web_op" where
  "finish_login H C T q b =
     (let userId = lower (trim (str_or_empty (fld b ''userId''))); password = str_or_empty (fld b ''password'') in
      if \<not> user_id_like userId \<or> length password < 1 \<or> length password > 256
      then reply_op (invalidCredentials C q)
      else
        bind_op (with_db (getRelayUserCredentials userId)) (\<lambda>user.
        if \<not> login_accepts H password user then reply_op (invalidCredentials C q)
        else
          bind_op (createAccountSession H C T q 0 0 (us_name (the user))) (\<lambda>(s, token).
          bind_op (insertAccountAuditEvent C T q 1 ''account.login'' (us_name (the user)) None) (\<lambda>_.
          bind_op (clearAttempts q ''login'') (\<lambda>_.
          reply_op (ok_json C q 200 [(''user'', publicAccountUser s)]
            (accountCookieHeaders C T q token (as_expires s))))))))"

definition has_password :: "host \<Rightarrow> jstr \<Rightarrow> user_row option \<Rightarrow> bool" where
  "has_password H password user = (case user of
     None \<Rightarrow> False
   | Some u \<Rightarrow> (case us_password u of
       None \<Rightarrow> False | Some h \<Rightarrow> h \<noteq> [] \<and> verifyPassword (h_scrypt H) password h))"

definition finish_change ::
  "host \<Rightarrow> web_config \<Rightarrow> tick \<Rightarrow> request \<Rightarrow> account_session \<Rightarrow> payload \<Rightarrow> account_kont outcome web_op" where
  "finish_change H C T q s b =
     bind_op (requireAccountPassword (fld b ''newPassword'')) (\<lambda>newPassword.
     let hash = hashPassword (h_scrypt H) (k_salt T) newPassword in
     bind_op (with_db (getRelayUserCredentials (as_user s))) (\<lambda>account.
     if \<not> has_password H (str_or_empty (fld b ''currentPassword'')) account
     then reply_op (fail_json C q 401 (js ''invalid_credentials'') (js ''invalid current password''))
     else
       bind_op (with_db (setRelayUserPassword (as_user s) hash)) (\<lambda>_.
       bind_op (with_db (revokeOtherBrowserSessions (k_now T) (as_user s) (as_id s))) (\<lambda>(count, ids).
       bind_op (insertAccountAuditEvent C T q 0 ''account.password_changed'' (as_user s)
         (Some (obj [(''revokedSessions'', jint (int count))]))) (\<lambda>_.
       bind_op (effect (CloseSessionsOf (as_user s) ids (js ''password changed''))) (\<lambda>_.
       bind_op (clearAttempts q ''password-change'') (\<lambda>_.
       reply_op (ok_json C q 200 [(''revokedSessions'', jint (int count))] []))))))))"

definition finish_recover :: "host \<Rightarrow> web_config \<Rightarrow> tick \<Rightarrow> request \<Rightarrow> payload \<Rightarrow> account_kont outcome web_op" where
  "finish_recover H C T q b =
     bind_op (requireAccountUserId (fld b ''userId'')) (\<lambda>userId.
     let code = normalizeAccountRecoveryCode (fld b ''recoveryCode'') in
     bind_op (requireAccountPassword (fld b ''newPassword'')) (\<lambda>newPassword.
     let hash = hashPassword (h_scrypt H) (k_salt T) newPassword;
         invalid = fail_json C q 401 (js ''invalid_recovery_code'') (js ''invalid or expired recovery code'') in
     bind_op (with_db (getRelayUserCredentials userId)) (\<lambda>account.
     if account = None \<or> us_disabled (the account) \<noteq> None \<or> code = [] then reply_op invalid
     else
       bind_op (with_db (consumeAccountRecoveryCode (k_now T) userId (hashToken (h_sha H) code))) (\<lambda>used.
       if used = 0 then reply_op invalid
       else
         bind_op (with_db (setRelayUserPassword userId hash)) (\<lambda>_.
         bind_op (with_db (revokeAllBrowserSessions (k_now T) userId)) (\<lambda>(count, ids).
         bind_op (effect (CloseSessionsOf userId ids (js ''account recovered''))) (\<lambda>_.
         bind_op (createAccountSession H C T q 0 0 userId) (\<lambda>(s, token).
         bind_op (insertAccountAuditEvent C T q 1 ''account.password_recovered'' userId
           (Some (obj [(''revokedSessions'', jint (int count))]))) (\<lambda>_.
         bind_op (clearAttempts q ''password-recovery'') (\<lambda>_.
         reply_op (ok_json C q 200 [(''user'', publicAccountUser s)]
           (accountCookieHeaders C T q token (as_expires s)))))))))))))"

subsection \<open>The handler\<close>

definition account_route :: "host \<Rightarrow> web_config \<Rightarrow> tick \<Rightarrow> request \<Rightarrow> account_kont outcome web_op" where
  "account_route H C T q =
     (let get = (q_method q = js ''GET''); post = (q_method q = js ''POST''); is = (\<lambda>p. q_path q = js p) in
      if get \<and> is ''/account/api/status'' then account_status H C T q
      else if get \<and> is ''/account/api/me'' then account_me H C T q
      else if get \<and> is ''/account/api/sessions'' then account_sessions H C T q
      else case (if post then segment ''/account/api/sessions/'' ''/revoke'' (q_path q) else None) of
        Some encoded \<Rightarrow> account_revoke H C T q encoded
      | None \<Rightarrow>
          if post \<and> is ''/account/api/sessions/revoke-others'' then account_revoke_others H C T q
          else if post \<and> is ''/account/api/register'' then
            limited C T q ''registration'' (wc_maxAuth C)
              (if wc_registration C then return_op (Await KRegister)
               else reply_op (fail_json C q 403 (js ''registration_disabled'') (js ''registration is disabled'')))
          else if post \<and> is ''/account/api/login'' then
            limited C T q ''login'' (wc_maxAuth C) (return_op (Await KLogin))
          else if post \<and> is ''/account/api/password/change'' then
            with_account H C T q (\<lambda>s. limited C T q ''password-change'' (wc_maxAuth C)
              (return_op (Await (KChangePassword s))))
          else if post \<and> is ''/account/api/password/recover'' then
            limited C T q ''password-recovery'' (wc_maxAuth C) (return_op (Await KRecover))
          else if post \<and> is ''/account/api/logout'' then account_logout H C T q
          else if post \<and> is ''/account/api/agent-token/rotate'' then account_rotate H C T q
          else reply_op (plain_fail C q 404 (js ''not found'')))"

definition account_begin :: "host \<Rightarrow> web_config \<Rightarrow> tick \<Rightarrow> request \<Rightarrow> account_kont outcome web_op" where
  "account_begin H C T q =
     (case validateApiRequest (wc_relay C) (q_method q) (q_origin q) (q_contentType q) of
        ApiError status code error \<Rightarrow> reply_op (fail_json C q status code error)
      | ApiOk \<Rightarrow>
          if \<not> account_mode C
          then reply_op (fail_json C q 409 (js ''account_mode_unavailable'')
                 (js ''account login requires sqlite-fallback or sqlite auth mode''))
          else account_route H C T q)"

definition account_resume ::
  "host \<Rightarrow> web_config \<Rightarrow> tick \<Rightarrow> request \<Rightarrow> account_kont \<Rightarrow> payload \<Rightarrow> account_kont outcome web_op" where
  "account_resume H C T q k b = (case k of
     KRegister \<Rightarrow> finish_register H C T q b
   | KLogin \<Rightarrow> finish_login H C T q b
   | KChangePassword s \<Rightarrow> finish_change H C T q s b
   | KRecover \<Rightarrow> finish_recover H C T q b)"

definition account_finish ::
  "host \<Rightarrow> web_config \<Rightarrow> tick \<Rightarrow> request \<Rightarrow> account_kont \<Rightarrow> bytes list \<Rightarrow> account_kont outcome web_op" where
  "account_finish H C T q k chunks =
     bind_op (readJsonBody H chunks) (\<lambda>body. bind_op (fields_of body) (\<lambda>b. account_resume H C T q k b))"

text \<open>The listener of the server: what is thrown becomes a reply.\<close>

definition answered :: "web_config \<Rightarrow> request \<Rightarrow> 'k outcome web_op \<Rightarrow> web \<Rightarrow> 'k outcome \<times> web" where
  "answered C q m w = (case m w of (Inr x, w1) \<Rightarrow> (x, w1) | (Inl e, w1) \<Rightarrow> (Reply (answer_error C q e), w1))"

end
