(* ===== verification/AdminAuth.thy ===== *)
theory AdminAuth
  imports AccountApi
begin

section \<open>The administrators: sign-in, second factor, password (apps/relay/admin-api.js, admin-mfa.js)\<close>

text \<open>
  The part of the administration API that signs an owner in: \<open>handleAdminAuthApi\<close>, and the
  decisions of apps/relay/admin-mfa.js. A handler waits for the body of its request and, where it
  uses WebAuthn, for the library @simplewebauthn/server, which is the argument \<open>W\<close>: the options
  and the challenge it makes from the random source, and the verdict on a response.
\<close>

record reg_info =
  ri_id :: jstr
  ri_key :: bytes
  ri_counter :: nat
  ri_transports :: "json option"
  ri_type :: jstr
  ri_backed :: bool

record auth_info =
  ui_counter :: nat
  ui_type :: jstr
  ui_backed :: bool

text \<open>Where a response must come from, and the data a registration is for.\<close>

record rp_context =
  rp_origin :: jstr
  rp_id :: jstr
  rp_name :: jstr

record rp_user =
  ru_id :: bytes
  ru_name :: jstr
  ru_display :: jstr

type_synonym descriptors = "(jstr \<times> json) list"

record webauthn =
  wa_reg_options :: "rp_context \<Rightarrow> rp_user \<Rightarrow> descriptors \<Rightarrow> bytes \<Rightarrow> (jstr \<times> json) option"
  wa_verify_reg :: "json \<Rightarrow> jstr \<Rightarrow> jstr \<Rightarrow> jstr \<Rightarrow> reg_info option"
  wa_auth_options :: "jstr \<Rightarrow> descriptors \<Rightarrow> bytes \<Rightarrow> (jstr \<times> json) option"
  wa_verify_auth :: "json \<Rightarrow> jstr \<Rightarrow> jstr \<Rightarrow> jstr \<Rightarrow> passkey_row \<Rightarrow> auth_info option"

definition webAuthnUserIdBytes :: "host \<Rightarrow> jstr \<Rightarrow> bytes" where
  "webAuthnUserIdBytes H adminId = hex_decode (h_sha H adminId)"

definition webAuthnUserId :: "host \<Rightarrow> jstr \<Rightarrow> jstr" where
  "webAuthnUserId H adminId = base64url (webAuthnUserIdBytes H adminId)"

subsection \<open>The origin of a request (admin-mfa.js)\<close>

definition requestOrigin :: "host \<Rightarrow> request \<Rightarrow> jstr + jstr" where
  "requestOrigin H q =
     (let parse = (\<lambda>s. case p_url (n_platform (h_node H)) s of
            Some u \<Rightarrow> Inr (u_origin u) | None \<Rightarrow> Inl (js ''Invalid URL''));
          explicit = trim (q_origin q) in
      if explicit \<noteq> [] then parse explicit
      else
        (let forwarded = first_item (q_forwardedProto q);
             protocol = (if forwarded \<noteq> [] then forwarded else if q_encrypted q then js ''https'' else js ''http'');
             hostname = first_item (if q_forwardedHost q \<noteq> [] then q_forwardedHost q else q_host q) in
         if hostname = [] then Inl (js ''WebAuthn request host is missing'')
         else parse (protocol @ js ''://'' @ hostname)))"

definition isRpIdForHost :: "jstr \<Rightarrow> jstr \<Rightarrow> bool" where
  "isRpIdForHost rpId hostname = (hostname = rpId \<or> ends_with hostname ([46] @ rpId))"

definition resolveWebAuthnContext :: "host \<Rightarrow> web_config \<Rightarrow> request \<Rightarrow> jstr + rp_context" where
  "resolveWebAuthnContext H C q =
     (case requestOrigin H q of
        Inl e \<Rightarrow> Inl e
      | Inr origin \<Rightarrow>
          if \<not> List.member (rc_allowedOrigins (wc_relay C)) origin then Inl (js ''WebAuthn origin is not allowed'')
          else (case p_url (n_platform (h_node H)) origin of
              None \<Rightarrow> Inl (js ''Invalid URL'')
            | Some u \<Rightarrow>
                (let local = (u_hostname u = js ''localhost'' \<or> u_hostname u = js ''127.0.0.1'');
                     configured = lower (trim (wc_rpId C));
                     hostname = lower (u_hostname u);
                     rpId = (if configured \<noteq> [] then configured else hostname);
                     name = trim (if wc_rpName C \<noteq> [] then wc_rpName C else js ''VoxHF Relay'') in
                 if u_protocol u \<noteq> js ''https:'' \<and> \<not> local
                 then Inl (js ''WebAuthn requires HTTPS outside localhost'')
                 else if \<not> isRpIdForHost rpId hostname
                 then Inl (js ''WebAuthn RP ID does not match the admin origin'')
                 else Inr \<lparr>rp_origin = origin, rp_id = rpId,
                            rp_name = (if name \<noteq> [] then name else js ''VoxHF Relay'')\<rparr>)))"

definition webauthn_context :: "host \<Rightarrow> web_config \<Rightarrow> request \<Rightarrow> rp_context web_op" where
  "webauthn_context H C q = (case resolveWebAuthnContext H C q of
     Inl e \<Rightarrow> throw_op (Api 400 (js ''webauthn_configuration_error'') e)
   | Inr ctx \<Rightarrow> return_op ctx)"

text \<open>The transports of a passkey are stored as JSON; anything but an array counts as none.\<close>

definition parseTransports :: "json \<Rightarrow> json" where
  "parseTransports v = (case v of JArr xs \<Rightarrow> JArr xs | _ \<Rightarrow> JArr [])"

definition publicCredentialDescriptor :: "passkey_row \<Rightarrow> jstr \<times> json" where
  "publicCredentialDescriptor p = (pk_id p, parseTransports (pk_transports p))"

definition library_failed :: thrown where
  "library_failed = Err (js ''the library failed'')"

subsection \<open>Waiting handlers\<close>

datatype admin_actor = OwnerSession admin_session | BreakGlass

datatype admin_body = ABootstrap | ALogin | AMfaPasskey | AMfaRecovery | APassword admin_session | ARecover
  | ACreateUser admin_actor | AKeyOptions admin_session | AKeyComplete admin_session
  | ARegenerate admin_session | ADisableMfa admin_session | ARemoveKey admin_session jstr

datatype admin_library = WLogin admin_row "passkey_row list" rp_context
  | WPasskey admin_row passkey_row json challenge_row
  | WOptions admin_session admin_row "passkey_row list" rp_context jstr
  | WComplete admin_session jstr json challenge_row

datatype admin_kont = AwaitBody admin_body | AwaitLibrary admin_library

subsection \<open>Shared parts\<close>

definition role_name :: "admin_role \<Rightarrow> jstr" where
  "role_name r = (case r of Owner \<Rightarrow> js ''owner'' | Operator \<Rightarrow> js ''operator'')"

definition publicAdminAccount :: "admin_session \<Rightarrow> json" where
  "publicAdminAccount s = JObj (obj [(''username'', JStr (ss_username s)),
     (''displayName'', JStr (if ss_display s \<noteq> [] then ss_display s else ss_username s)),
     (''role'', JStr (role_name (ss_role s))), (''expiresAt'', jtime (ss_expires s))])"

definition actor_name :: "admin_actor \<Rightarrow> jstr" where
  "actor_name a = (case a of OwnerSession s \<Rightarrow> ss_username s | BreakGlass \<Rightarrow> js ''admin-token'')"

definition insertAdminAuditEvent :: "web_config \<Rightarrow> tick \<Rightarrow> request \<Rightarrow> nat \<Rightarrow> jstr \<Rightarrow> audit_input \<Rightarrow> unit web_op" where
  "insertAdminAuditEvent C T q j actor i =
     write_audit C T q j ''admin'' (if actor \<noteq> [] then actor else js ''admin-token'') i"

definition admin_event :: "string \<Rightarrow> (string \<times> json) list \<Rightarrow> audit_input" where
  "admin_event event fs = (audit_input event)\<lparr>ai_metadata := Some (obj fs)\<rparr>"

definition requireAdminLoginName :: "json option \<Rightarrow> ('s, jstr) op" where
  "requireAdminLoginName value = requireAccountUserId value"

definition requirePasskeyName :: "json option \<Rightarrow> ('s, jstr) op" where
  "requirePasskeyName value =
     (let name = trim (str_or_empty value) in
      if name = [] \<or> length name > 60
      then throw_op (Api 400 (js ''invalid_passkey_name'') (js ''passkey name must be 1-60 characters''))
      else return_op name)"

definition isTokenLike :: "jstr \<Rightarrow> bool" where
  "isTokenLike value = rx_match (Reps (\<lambda>c. alnum c \<or> one_of ''._:-'' c) 8 160) value"

text \<open>\<open>credential?.id\<close>\<close>

definition credential_id :: "json option \<Rightarrow> json option" where
  "credential_id credential = (case credential of Some (JObj ps) \<Rightarrow> fld ps ''id'' | _ \<Rightarrow> None)"

definition token_admin :: "host \<Rightarrow> web_config \<Rightarrow> request \<Rightarrow> admin_decision" where
  "token_admin H C q = authorizeAdminTokenRequest (h_node H) (wc_adminTokenHash C) (q_authorization q)"

definition with_token :: "host \<Rightarrow> web_config \<Rightarrow> request \<Rightarrow> admin_kont outcome web_op \<Rightarrow> admin_kont outcome web_op" where
  "with_token H C q m = (case token_admin H C q of
     AdminDenied status error \<Rightarrow> reply_op (plain_fail C q status error) | AdminOk \<Rightarrow> m)"

definition with_owner ::
  "host \<Rightarrow> web_config \<Rightarrow> tick \<Rightarrow> request \<Rightarrow> (admin_session \<Rightarrow> 'k outcome web_op) \<Rightarrow> 'k outcome web_op" where
  "with_owner H C T q f =
     bind_op (getAdminSessionOf H C T q) (\<lambda>s. case s of
         None \<Rightarrow> reply_op (notAuthenticated C q) | Some s \<Rightarrow> f s)"

text \<open>The end of every sign-in: the session, its time, the audit event, the reply with the cookie.\<close>

definition sign_in ::
  "host \<Rightarrow> web_config \<Rightarrow> tick \<Rightarrow> request \<Rightarrow> nat \<Rightarrow> bool \<Rightarrow> string \<Rightarrow> audit_input \<Rightarrow> nat \<Rightarrow> admin_row
    \<Rightarrow> admin_kont outcome web_op" where
  "sign_in H C T q i setLogin buck event status account =
     bind_op (createAdminLoginSession H C T q i i account) (\<lambda>(s, token).
     bind_op (if setLogin then with_db (setAdminLastLogin (k_now T) (ad_id account)) else return_op 0) (\<lambda>_.
     bind_op (insertAdminAuditEvent C T q (Suc i) (ad_name account) event) (\<lambda>_.
     bind_op (clearAttempts q buck) (\<lambda>_.
     reply_op (ok_json C q status [(''admin'', publicAdminAccount s)]
       (adminCookieHeaders C T q token (ss_expires s)))))))"

subsection \<open>Requests without a body\<close>

definition auth_status :: "host \<Rightarrow> web_config \<Rightarrow> tick \<Rightarrow> request \<Rightarrow> admin_kont outcome web_op" where
  "auth_status H C T q =
     bind_op (getAdminSessionOf H C T q) (\<lambda>s.
     bind_op (if account_mode C then with_db countAdminAccounts else return_op 0) (\<lambda>count.
     reply_op (ok_json C q 200
       [(''accountLoginAvailable'', JBool (account_mode C)),
        (''bootstrapRequired'', JBool (account_mode C \<and> count = 0)),
        (''breakGlassAvailable'', JBool (wc_adminTokenHash C \<noteq> None)),
        (''authenticated'', JBool (s \<noteq> None)), (''admin'', jopt publicAdminAccount s)] [])))"

definition auth_logout :: "host \<Rightarrow> web_config \<Rightarrow> tick \<Rightarrow> request \<Rightarrow> admin_kont outcome web_op" where
  "auth_logout H C T q =
     bind_op (getAdminSessionOf H C T q) (\<lambda>s.
     bind_op (case s of
         None \<Rightarrow> return_op ()
       | Some s \<Rightarrow> bind_op (with_db (revokeAdminSessionById (k_now T) (ss_admin s) (ss_id s))) (\<lambda>_.
           insertAdminAuditEvent C T q 0 (ss_username s) (audit_input ''admin.logout''))) (\<lambda>_.
     reply_op (ok_json C q 200 [] (clearAdminCookieHeaders C q))))"

definition auth_me :: "host \<Rightarrow> web_config \<Rightarrow> tick \<Rightarrow> request \<Rightarrow> admin_kont outcome web_op" where
  "auth_me H C T q = with_owner H C T q (\<lambda>s. reply_op (ok_json C q 200 [(''admin'', publicAdminAccount s)] []))"

subsection \<open>Requests with a body\<close>

definition finish_bootstrap :: "host \<Rightarrow> web_config \<Rightarrow> tick \<Rightarrow> request \<Rightarrow> payload \<Rightarrow> admin_kont outcome web_op" where
  "finish_bootstrap H C T q b =
     bind_op (requireAdminLoginName (fld b ''username'')) (\<lambda>username.
     bind_op (requireAccountDisplayName (Some (or_else (fld b ''displayName'') (JStr username)))) (\<lambda>displayName.
     bind_op (requireAccountPassword (fld b ''password'')) (\<lambda>password.
     bind_op (with_db countAdminAccounts) (\<lambda>count.
     if count > 0
     then reply_op (fail_json C q 409 (js ''admin_already_bootstrapped'') (js ''an owner account already exists''))
     else
       bind_op (with_db (createAdminAccount (k_now T) (k_uuid T 0) username displayName
         (hashPassword (h_scrypt H) (k_salt T) password) Owner)) (\<lambda>account.
       sign_in H C T q 1 False ''admin-bootstrap'' (audit_input ''admin.owner_bootstrapped'') 201 account)))))"

definition admin_accepts :: "host \<Rightarrow> jstr \<Rightarrow> admin_row option \<Rightarrow> bool" where
  "admin_accepts H password account = (case account of
     None \<Rightarrow> False
   | Some a \<Rightarrow> ad_disabled a = None \<and> verifyPassword (h_scrypt H) password (ad_password a))"

definition finish_admin_login :: "host \<Rightarrow> web_config \<Rightarrow> tick \<Rightarrow> request \<Rightarrow> payload \<Rightarrow> admin_kont outcome web_op" where
  "finish_admin_login H C T q b =
     (let username = lower (trim (str_or_empty (fld b ''username''))); password = str_or_empty (fld b ''password'') in
      bind_op (if user_id_like username then with_db (getAdminAccountCredentials username) else return_op None)
        (\<lambda>account.
      if \<not> admin_accepts H password account then reply_op (invalidCredentials C q)
      else
        bind_op (with_db (listAdminPasskeys (ad_id (the account)))) (\<lambda>passkeys.
        if passkeys \<noteq> [] then
          bind_op (webauthn_context H C q) (\<lambda>ctx.
          return_op (Await (AwaitLibrary (WLogin (the account) passkeys ctx))))
        else sign_in H C T q 0 True ''admin-login'' (audit_input ''admin.login'') 200 (the account))))"

definition resume_login ::
  "host \<Rightarrow> web_config \<Rightarrow> webauthn \<Rightarrow> tick \<Rightarrow> request \<Rightarrow> admin_row \<Rightarrow> passkey_row list \<Rightarrow> rp_context
    \<Rightarrow> admin_kont outcome web_op" where
  "resume_login H C W T q account passkeys ctx =
     (case wa_auth_options W (rp_id ctx) (map publicCredentialDescriptor passkeys) (k_bytes T 0) of
        None \<Rightarrow> throw_op library_failed
      | Some (challenge, options) \<Rightarrow>
          (let flow = k_token T 0; expires = k_now T + wc_mfaTtlMs C in
           bind_op (with_db (createAdminMfaChallenge (h_sha H) (k_now T) (k_uuid T 0) (ad_id account) flow
             Authentication challenge (rp_origin ctx) (rp_id ctx) [] expires)) (\<lambda>_.
           bind_op (clearAttempts q ''admin-login'') (\<lambda>_.
           bind_op (with_db (countAdminRecoveryCodes (ad_id account))) (\<lambda>codes.
           reply_op (ok_json C q 200 [(''mfaRequired'', JBool True), (''flowToken'', JStr flow),
             (''expiresAt'', jtime expires), (''options'', options), (''recoveryAvailable'', JBool (codes > 0))] []))))))"

definition INVALID_MFA :: thrown where
  "INVALID_MFA = Api 401 (js ''invalid_mfa_response'') (js ''passkey authentication failed'')"

definition CHALLENGE_EXPIRED :: thrown where
  "CHALLENGE_EXPIRED = Api 401 (js ''mfa_challenge_expired'') (js ''MFA challenge expired; sign in again'')"

definition finish_mfa_passkey :: "host \<Rightarrow> web_config \<Rightarrow> tick \<Rightarrow> request \<Rightarrow> payload \<Rightarrow> admin_kont outcome web_op" where
  "finish_mfa_passkey H C T q b =
     (let flow = trim (str_or_empty (fld b ''flowToken'')); credential = fld b ''credential'' in
      if \<not> isTokenLike flow \<or> \<not> opt_truthy (credential_id credential)
      then throw_op (Api 400 (js ''invalid_mfa_response'') (js ''passkey response is incomplete''))
      else
        bind_op (with_db (consumeAdminMfaChallenge (h_sha H) (k_now T) flow Authentication [] [])) (\<lambda>ch. case ch of
            None \<Rightarrow> throw_op CHALLENGE_EXPIRED
          | Some ch \<Rightarrow>
              bind_op (with_db (getAdminAccountCredentialsById (ch_admin ch))) (\<lambda>account.
              bind_op (with_db (getAdminPasskey (ch_admin ch) (str_or_empty (credential_id credential)))) (\<lambda>passkey.
              if account = None \<or> ad_disabled (the account) \<noteq> None \<or> passkey = None then throw_op INVALID_MFA
              else return_op (Await (AwaitLibrary (WPasskey (the account) (the passkey) (the credential) ch)))))))"

definition resume_passkey ::
  "host \<Rightarrow> web_config \<Rightarrow> webauthn \<Rightarrow> tick \<Rightarrow> request \<Rightarrow> admin_row \<Rightarrow> passkey_row \<Rightarrow> json \<Rightarrow> challenge_row
    \<Rightarrow> admin_kont outcome web_op" where
  "resume_passkey H C W T q account passkey credential ch =
     (case wa_verify_auth W credential (ch_challenge ch) (ch_origin ch) (ch_rp ch) passkey of
        None \<Rightarrow> throw_op INVALID_MFA
      | Some info \<Rightarrow>
          bind_op (with_db (updateAdminPasskeyUsage (k_now T) (ad_id account) (pk_id passkey) (ui_counter info)
            (ui_type info) (Some (ui_backed info)))) (\<lambda>_.
          sign_in H C T q 0 True ''admin-mfa-login''
            (admin_event ''admin.login_mfa'' [(''factor'', jstring ''passkey''), (''credentialId'', JStr (pk_id passkey))])
            200 account))"

definition finish_mfa_recovery :: "host \<Rightarrow> web_config \<Rightarrow> tick \<Rightarrow> request \<Rightarrow> payload \<Rightarrow> admin_kont outcome web_op" where
  "finish_mfa_recovery H C T q b =
     (let flow = trim (str_or_empty (fld b ''flowToken'')); code = normalizeRecoveryCode (fld b ''recoveryCode'') in
      if \<not> isTokenLike flow \<or> code = []
      then throw_op (Api 400 (js ''invalid_recovery_code'') (js ''recovery code is required''))
      else
        bind_op (with_db (consumeAdminMfaChallenge (h_sha H) (k_now T) flow Authentication [] [])) (\<lambda>ch. case ch of
            None \<Rightarrow> throw_op CHALLENGE_EXPIRED
          | Some ch \<Rightarrow>
              bind_op (with_db (getAdminAccountCredentialsById (ch_admin ch))) (\<lambda>account.
              bind_op (case account of
                  None \<Rightarrow> return_op 0
                | Some a \<Rightarrow> with_db (consumeAdminRecoveryCode (k_now T) (ad_id a)
                    (hashRecoveryCode (h_sha H) (ad_id a) code))) (\<lambda>used.
              if account = None \<or> ad_disabled (the account) \<noteq> None \<or> used = 0
              then throw_op (Api 401 (js ''invalid_recovery_code'') (js ''recovery code is invalid or already used''))
              else sign_in H C T q 0 True ''admin-mfa-recovery''
                     (admin_event ''admin.login_mfa'' [(''factor'', jstring ''recovery_code'')]) 200 (the account)))))"

definition finish_admin_password ::
  "host \<Rightarrow> web_config \<Rightarrow> tick \<Rightarrow> request \<Rightarrow> admin_session \<Rightarrow> payload \<Rightarrow> admin_kont outcome web_op" where
  "finish_admin_password H C T q s b =
     bind_op (requireAccountPassword (fld b ''newPassword'')) (\<lambda>newPassword.
     bind_op (with_db (getAdminAccountCredentials (ss_username s))) (\<lambda>account.
     if account = None
        \<or> \<not> verifyPassword (h_scrypt H) (str_or_empty (fld b ''currentPassword'')) (ad_password (the account))
     then reply_op (fail_json C q 401 (js ''invalid_credentials'') (js ''current password is incorrect''))
     else
       bind_op (with_db (setAdminPassword (k_now T) (ss_admin s) (hashPassword (h_scrypt H) (k_salt T) newPassword))) (\<lambda>_.
       bind_op (with_db (revokeOtherAdminSessions (k_now T) (ss_admin s) (ss_id s))) (\<lambda>count.
       bind_op (insertAdminAuditEvent C T q 0 (ss_username s)
         (admin_event ''admin.password_changed'' [(''revokedSessions'', jint (int count))])) (\<lambda>_.
       bind_op (clearAttempts q ''admin-password'') (\<lambda>_.
       reply_op (ok_json C q 200 [(''revokedSessions'', jint (int count))] [])))))))"

definition finish_admin_recover :: "host \<Rightarrow> web_config \<Rightarrow> tick \<Rightarrow> request \<Rightarrow> payload \<Rightarrow> admin_kont outcome web_op" where
  "finish_admin_recover H C T q b =
     bind_op (requireAdminLoginName (fld b ''username'')) (\<lambda>username.
     bind_op (requireAccountPassword (fld b ''newPassword'')) (\<lambda>newPassword.
     bind_op (with_db (getAdminAccountCredentials username)) (\<lambda>account.
     if account = None \<or> ad_disabled (the account) \<noteq> None
     then reply_op (fail_json C q 404 (js ''admin_not_found'') (js ''admin account not found''))
     else
       (let a = the account in
        bind_op (with_db (setAdminPassword (k_now T) (ad_id a) (hashPassword (h_scrypt H) (k_salt T) newPassword))) (\<lambda>_.
        bind_op (with_db (revokeAllAdminSessions (k_now T) (ad_id a))) (\<lambda>_.
        bind_op (with_db (clearAdminMfa (ad_id a))) (\<lambda>(keys, codes).
        sign_in H C T q 0 False ''admin-recovery''
          (admin_event ''admin.break_glass_recovery'' [(''clearedPasskeys'', jint (int keys))]) 200 a)))))))"

subsection \<open>The routes of /admin/api/auth/\<close>

definition auth_route :: "host \<Rightarrow> web_config \<Rightarrow> tick \<Rightarrow> request \<Rightarrow> admin_kont outcome web_op" where
  "auth_route H C T q =
     (let get = (q_method q = js ''GET''); post = (q_method q = js ''POST''); is = (\<lambda>p. q_path q = js p);
          guard = (\<lambda>buck. limited C T q buck (wc_maxAdmin C));
          body = (\<lambda>k. return_op (Await (AwaitBody k))) in
      if get \<and> is ''/admin/api/auth/status'' then auth_status H C T q
      else if \<not> account_mode C
      then reply_op (fail_json C q 409 (js ''admin_accounts_unavailable'')
             (js ''admin accounts require sqlite-fallback or sqlite auth mode''))
      else if post \<and> is ''/admin/api/auth/bootstrap'' then guard ''admin-bootstrap'' (with_token H C q (body ABootstrap))
      else if post \<and> is ''/admin/api/auth/login'' then guard ''admin-login'' (body ALogin)
      else if post \<and> is ''/admin/api/auth/mfa/passkey'' then guard ''admin-mfa-login'' (body AMfaPasskey)
      else if post \<and> is ''/admin/api/auth/mfa/recovery'' then guard ''admin-mfa-recovery'' (body AMfaRecovery)
      else if post \<and> is ''/admin/api/auth/logout'' then auth_logout H C T q
      else if get \<and> is ''/admin/api/auth/me'' then auth_me H C T q
      else if post \<and> is ''/admin/api/auth/password''
      then with_owner H C T q (\<lambda>s. guard ''admin-password'' (body (APassword s)))
      else if post \<and> is ''/admin/api/auth/recover'' then guard ''admin-recovery'' (with_token H C q (body ARecover))
      else reply_op (plain_fail C q 404 (js ''not found'')))"

end
