(* ===== verification/AdminApi.thy ===== *)
theory AdminApi
  imports AdminAuth
begin

section \<open>The administration of the relay (apps/relay/admin-api.js)\<close>

text \<open>
  The rest of the administration API: the passkeys of an owner (\<open>handleAdminMfaApi\<close>), its sessions,
  the users with their tokens, the pairings, the invites and the audit. An actor is an owner with a
  session, or the holder of the configured token (\<open>BreakGlass\<close>). \<open>online\<close> tells of a device key
  whether the device is connected: since when, and when it was last seen.
\<close>

subsection \<open>Passkeys\<close>

text \<open>The current password, asked again before the second factor is changed.\<close>

definition requireCurrentAdminPassword :: "host \<Rightarrow> admin_session \<Rightarrow> json option \<Rightarrow> admin_row web_op" where
  "requireCurrentAdminPassword H s value =
     bind_op (with_db (getAdminAccountCredentialsById (ss_admin s))) (\<lambda>account.
     if \<not> admin_accepts H (str_or_empty value) account
     then throw_op (Api 401 (js ''invalid_credentials'') (js ''current password is incorrect''))
     else return_op (the account))"

definition passkey_json :: "passkey_row \<Rightarrow> json" where
  "passkey_json p = JObj (obj [(''credentialId'', JStr (pk_id p)), (''name'', JStr (pk_name p)),
     (''deviceType'', JStr (pk_type p)), (''backedUp'', JBool (pk_backed p)), (''createdAt'', jtime (pk_created p)),
     (''lastUsedAt'', jopt jtime (pk_used p))])"

definition publicAdminPasskeys :: "passkey_row list \<Rightarrow> json" where
  "publicAdminPasskeys ps = JArr (map passkey_json ps)"

definition mfa_status :: "web_config \<Rightarrow> request \<Rightarrow> admin_session \<Rightarrow> admin_kont outcome web_op" where
  "mfa_status C q s =
     bind_op (with_db (listAdminPasskeys (ss_admin s))) (\<lambda>keys.
     bind_op (with_db (countAdminRecoveryCodes (ss_admin s))) (\<lambda>codes.
     reply_op (ok_json C q 200 [(''enabled'', JBool (keys \<noteq> [])), (''supported'', JBool True),
       (''passkeys'', publicAdminPasskeys keys), (''recoveryCodesRemaining'', jint (int codes))] [])))"

definition finish_key_options ::
  "host \<Rightarrow> web_config \<Rightarrow> request \<Rightarrow> admin_session \<Rightarrow> payload \<Rightarrow> admin_kont outcome web_op" where
  "finish_key_options H C q s b =
     bind_op (requirePasskeyName (fld b ''name'')) (\<lambda>name.
     bind_op (requireCurrentAdminPassword H s (fld b ''currentPassword'')) (\<lambda>_.
     bind_op (with_db (getAdminAccountCredentialsById (ss_admin s))) (\<lambda>account.
     bind_op (with_db (listAdminPasskeys (ss_admin s))) (\<lambda>keys.
     bind_op (webauthn_context H C q) (\<lambda>ctx.
     return_op (Await (AwaitLibrary (WOptions s (the account) keys ctx name))))))))"

definition resume_key_options ::
  "host \<Rightarrow> web_config \<Rightarrow> webauthn \<Rightarrow> tick \<Rightarrow> request \<Rightarrow> admin_session \<Rightarrow> admin_row \<Rightarrow> passkey_row list \<Rightarrow> rp_context
    \<Rightarrow> jstr \<Rightarrow> admin_kont outcome web_op" where
  "resume_key_options H C W T q s account keys ctx name =
     (case wa_reg_options W ctx \<lparr>ru_id = webAuthnUserIdBytes H (ad_id account), ru_name = ad_name account,
             ru_display = (if ad_display account \<noteq> [] then ad_display account else ad_name account)\<rparr>
             (map publicCredentialDescriptor keys) (k_bytes T 0) of
        None \<Rightarrow> throw_op library_failed
      | Some (challenge, options) \<Rightarrow>
          (let flow = k_token T 0; expires = k_now T + wc_mfaTtlMs C in
           bind_op (with_db (createAdminMfaChallenge (h_sha H) (k_now T) (k_uuid T 0) (ss_admin s) flow
             Registration challenge (rp_origin ctx) (rp_id ctx) (ss_id s) expires)) (\<lambda>_.
           bind_op (clearAttempts q ''admin-mfa-manage'') (\<lambda>_.
           reply_op (ok_json C q 200 [(''flowToken'', JStr flow), (''expiresAt'', jtime expires),
             (''name'', JStr name), (''options'', options)] [])))))"

definition finish_key_complete ::
  "host \<Rightarrow> tick \<Rightarrow> admin_session \<Rightarrow> payload \<Rightarrow> admin_kont outcome web_op" where
  "finish_key_complete H T s b =
     (let flow = trim (str_or_empty (fld b ''flowToken'')) in
      bind_op (requirePasskeyName (fld b ''name'')) (\<lambda>name.
      let credential = fld b ''credential'' in
      if \<not> isTokenLike flow \<or> \<not> opt_truthy (credential_id credential)
      then throw_op (Api 400 (js ''invalid_mfa_response'') (js ''passkey response is incomplete''))
      else
        bind_op (with_db (consumeAdminMfaChallenge (h_sha H) (k_now T) flow Registration (ss_admin s) (ss_id s)))
          (\<lambda>ch. case ch of
            None \<Rightarrow> throw_op (Api 401 (js ''mfa_challenge_expired'') (js ''Passkey challenge expired; try again''))
          | Some ch \<Rightarrow>
              bind_op (with_db (getAdminPasskey (ss_admin s) (str_or_empty (credential_id credential)))) (\<lambda>known.
              if known \<noteq> None
              then throw_op (Api 409 (js ''passkey_exists'') (js ''this passkey is already registered''))
              else return_op (Await (AwaitLibrary (WComplete s name (the credential) ch)))))))"

text \<open>\<open>registrationInfo.credential.transports || credential.response?.transports || []\<close>\<close>

definition chosen_transports :: "reg_info \<Rightarrow> json \<Rightarrow> json" where
  "chosen_transports info credential =
     or_else (ri_transports info)
       (or_else (case credential of JObj ps \<Rightarrow> (case fld ps ''response'' of Some (JObj rs) \<Rightarrow> fld rs ''transports'' | _ \<Rightarrow> None)
                 | _ \<Rightarrow> None) (JArr []))"

definition resume_key_complete ::
  "host \<Rightarrow> web_config \<Rightarrow> webauthn \<Rightarrow> tick \<Rightarrow> request \<Rightarrow> admin_session \<Rightarrow> jstr \<Rightarrow> json \<Rightarrow> challenge_row
    \<Rightarrow> admin_kont outcome web_op" where
  "resume_key_complete H C W T q s name credential ch =
     (case wa_verify_reg W credential (ch_challenge ch) (ch_origin ch) (ch_rp ch) of
        None \<Rightarrow> throw_op (Api 400 (js ''invalid_mfa_response'') (js ''passkey registration failed''))
      | Some info \<Rightarrow>
          bind_op (with_db (listAdminPasskeys (ss_admin s))) (\<lambda>old.
          bind_op (with_db (createAdminPasskey (k_now T)
            \<lparr>pk_id = ri_id info, pk_admin = ss_admin s, pk_name = name, pk_userid = webAuthnUserId H (ss_admin s),
             pk_key = ri_key info, pk_counter = ri_counter info, pk_transports = chosen_transports info credential,
             pk_type = ri_type info, pk_backed = ri_backed info, pk_created = k_now T, pk_used = None\<rparr>)) (\<lambda>_.
          let codes = (if old = [] then generateRecoveryCodes (k_bytes T) else []) in
          bind_op (if old = [] then with_db (replaceAdminRecoveryCodes (k_now T) (k_uuid T) (ss_admin s)
              (map (hashRecoveryCode (h_sha H) (ss_admin s)) codes)) else return_op ()) (\<lambda>_.
          bind_op (insertAdminAuditEvent C T q 10 (ss_username s)
            (admin_event (if old = [] then ''admin.mfa_enabled'' else ''admin.passkey_added'')
              [(''credentialId'', JStr (ri_id info)), (''name'', JStr name)])) (\<lambda>_.
          bind_op (clearAttempts q ''admin-mfa-manage'') (\<lambda>_.
          bind_op (with_db (listAdminPasskeys (ss_admin s))) (\<lambda>keys.
          bind_op (with_db (countAdminRecoveryCodes (ss_admin s))) (\<lambda>count.
          reply_op (ok_json C q 201 [(''enabled'', JBool True), (''passkeys'', publicAdminPasskeys keys),
            (''recoveryCodesRemaining'', jint (int count)), (''recoveryCodes'', JArr (map JStr codes))] [])))))))))"

definition finish_regenerate ::
  "host \<Rightarrow> web_config \<Rightarrow> tick \<Rightarrow> request \<Rightarrow> admin_session \<Rightarrow> payload \<Rightarrow> admin_kont outcome web_op" where
  "finish_regenerate H C T q s b =
     bind_op (requireCurrentAdminPassword H s (fld b ''currentPassword'')) (\<lambda>_.
     bind_op (with_db (listAdminPasskeys (ss_admin s))) (\<lambda>keys.
     if keys = []
     then throw_op (Api 409 (js ''mfa_not_enabled'') (js ''add a passkey before generating recovery codes''))
     else
       (let codes = generateRecoveryCodes (k_bytes T) in
        bind_op (with_db (replaceAdminRecoveryCodes (k_now T) (k_uuid T) (ss_admin s)
          (map (hashRecoveryCode (h_sha H) (ss_admin s)) codes))) (\<lambda>_.
        bind_op (insertAdminAuditEvent C T q 10 (ss_username s) (audit_input ''admin.recovery_codes_regenerated'')) (\<lambda>_.
        bind_op (clearAttempts q ''admin-mfa-manage'') (\<lambda>_.
        reply_op (ok_json C q 200 [(''recoveryCodes'', JArr (map JStr codes)),
          (''recoveryCodesRemaining'', jint (int (length codes)))] [])))))))"

definition finish_disable_mfa ::
  "host \<Rightarrow> web_config \<Rightarrow> tick \<Rightarrow> request \<Rightarrow> admin_session \<Rightarrow> payload \<Rightarrow> admin_kont outcome web_op" where
  "finish_disable_mfa H C T q s b =
     bind_op (requireCurrentAdminPassword H s (fld b ''currentPassword'')) (\<lambda>_.
     bind_op (with_db (clearAdminMfa (ss_admin s))) (\<lambda>(keys, codes).
     bind_op (with_db (revokeOtherAdminSessions (k_now T) (ss_admin s) (ss_id s))) (\<lambda>count.
     bind_op (insertAdminAuditEvent C T q 0 (ss_username s)
       (admin_event ''admin.mfa_disabled'' [(''passkeys'', jint (int keys)), (''revokedSessions'', jint (int count))])) (\<lambda>_.
     bind_op (clearAttempts q ''admin-mfa-manage'') (\<lambda>_.
     reply_op (ok_json C q 200 [(''enabled'', JBool False), (''revokedSessions'', jint (int count))] []))))))"

definition finish_remove_key ::
  "host \<Rightarrow> web_config \<Rightarrow> tick \<Rightarrow> request \<Rightarrow> admin_session \<Rightarrow> jstr \<Rightarrow> payload \<Rightarrow> admin_kont outcome web_op" where
  "finish_remove_key H C T q s encoded b =
     bind_op (decoded encoded) (\<lambda>credentialId.
     bind_op (requireCurrentAdminPassword H s (fld b ''currentPassword'')) (\<lambda>_.
     bind_op (with_db (deleteAdminPasskey (ss_admin s) credentialId)) (\<lambda>count.
     if count = 0 then throw_op (Api 404 (js ''passkey_not_found'') (js ''passkey not found''))
     else
       bind_op (with_db (listAdminPasskeys (ss_admin s))) (\<lambda>keys.
       bind_op (if keys = [] then bind_op (with_db (clearAdminMfa (ss_admin s))) (\<lambda>_. return_op ()) else return_op ()) (\<lambda>_.
       bind_op (insertAdminAuditEvent C T q 0 (ss_username s)
         (admin_event (if keys \<noteq> [] then ''admin.passkey_removed'' else ''admin.mfa_disabled'')
           [(''credentialId'', JStr credentialId)])) (\<lambda>_.
       bind_op (clearAttempts q ''admin-mfa-manage'') (\<lambda>_.
       bind_op (if keys \<noteq> [] then with_db (countAdminRecoveryCodes (ss_admin s)) else return_op 0) (\<lambda>codes.
       reply_op (ok_json C q 200 [(''enabled'', JBool (keys \<noteq> [])), (''passkeys'', publicAdminPasskeys keys),
         (''recoveryCodesRemaining'', jint (int codes))] [])))))))))"

definition mfa_route :: "web_config \<Rightarrow> tick \<Rightarrow> request \<Rightarrow> admin_session \<Rightarrow> admin_kont outcome web_op" where
  "mfa_route C T q s =
     (let get = (q_method q = js ''GET''); post = (q_method q = js ''POST''); is = (\<lambda>p. q_path q = js p);
          body = (\<lambda>k. limited C T q ''admin-mfa-manage'' (wc_maxAdmin C) (return_op (Await (AwaitBody k)))) in
      if get \<and> is ''/admin/api/mfa'' then mfa_status C q s
      else if post \<and> is ''/admin/api/mfa/passkeys/options'' then body (AKeyOptions s)
      else if post \<and> is ''/admin/api/mfa/passkeys/complete'' then body (AKeyComplete s)
      else if post \<and> is ''/admin/api/mfa/recovery-codes/regenerate'' then body (ARegenerate s)
      else if post \<and> is ''/admin/api/mfa/disable'' then body (ADisableMfa s)
      else case (if post then segment ''/admin/api/mfa/passkeys/'' ''/remove'' (q_path q) else None) of
        Some encoded \<Rightarrow> body (ARemoveKey s encoded)
      | None \<Rightarrow> reply_op (plain_fail C q 404 (js ''not found'')))"

subsection \<open>Sessions of the owner, invites, audit\<close>

definition owner_only ::
  "web_config \<Rightarrow> request \<Rightarrow> admin_actor \<Rightarrow> string \<Rightarrow> (admin_session \<Rightarrow> 'k outcome web_op) \<Rightarrow> 'k outcome web_op" where
  "owner_only C q actor message f = (case actor of
     OwnerSession s \<Rightarrow> f s
   | BreakGlass \<Rightarrow> reply_op (fail_json C q 403 (js ''admin_session_required'') (js message)))"

definition admin_status ::
  "web_config \<Rightarrow> tick \<Rightarrow> request \<Rightarrow> admin_actor \<Rightarrow> admin_kont outcome web_op" where
  "admin_status C T q actor =
     bind_op (put_op (\<lambda>w. w\<lparr>w_invites := purgeExpiredRegistrationInvites (k_now T) (w_invites w)\<rparr>)) (\<lambda>_.
     bind_op (get_op id) (\<lambda>w.
     reply_op (ok_json C q 200
       [(''authMode'', JStr (case rc_authMode (wc_relay C) of EnvMode \<Rightarrow> js ''env''
            | SqliteFallback \<Rightarrow> js ''sqlite-fallback'' | Sqlite \<Rightarrow> js ''sqlite'')),
        (''sqliteAdmin'', JBool (account_mode C)), (''users'', jint (int (length (w_users w)))),
        (''database'', JStr (wc_database C)), (''registrationEnabled'', JBool (wc_registration C)),
        (''registrationRequiresInvite'', JBool (wc_requireInvite C)),
        (''activeRegistrationInvites'', jint (int (length (w_invites w)))),
        (''auditEnabled'', JBool (rc_persistAudit (wc_relay C))), (''auditRetentionDays'', jint (wc_auditDays C)),
        (''sessionMetadataEnabled'', JBool (wc_storeMetadata C)),
        (''adminSession'', JBool (case actor of OwnerSession s \<Rightarrow> True | BreakGlass \<Rightarrow> False)),
        (''admin'', case actor of OwnerSession s \<Rightarrow> publicAdminAccount s | BreakGlass \<Rightarrow> JNull)] [])))"

definition admin_invite :: "host \<Rightarrow> web_config \<Rightarrow> tick \<Rightarrow> request \<Rightarrow> admin_actor \<Rightarrow> admin_kont outcome web_op" where
  "admin_invite H C T q actor =
     (if \<not> wc_registration C \<or> \<not> wc_requireInvite C
      then reply_op (plain_fail C q 409 (js ''invite-only registration is not enabled''))
      else
        bind_op (step_op (\<lambda>w. let (m, code, expires) =
            createRegistrationInvite (h_node H) (wc_relay C) (k_now T) (k_invite T) (w_invites w)
            in ((code, expires), w\<lparr>w_invites := m\<rparr>))) (\<lambda>(code, expires).
        bind_op (insertAdminAuditEvent C T q 0 (actor_name actor)
          (admin_event ''registration.invite_created'' [(''expiresAt'', JStr expires)])) (\<lambda>_.
        reply_op (ok_json C q 201 [(''code'', JStr code), (''expiresAt'', JStr expires)] []))))"

definition admin_sessions :: "web_config \<Rightarrow> tick \<Rightarrow> request \<Rightarrow> admin_session \<Rightarrow> admin_kont outcome web_op" where
  "admin_sessions C T q s =
     bind_op (with_db (listAdminSessions (k_now T) (ss_admin s))) (\<lambda>rows.
     reply_op (ok_json C q 200 [(''sessions'', JArr (map (session_json (ss_id s)) rows))] []))"

definition admin_revoke_session ::
  "web_config \<Rightarrow> tick \<Rightarrow> request \<Rightarrow> jstr \<Rightarrow> admin_session \<Rightarrow> admin_kont outcome web_op" where
  "admin_revoke_session C T q encoded s =
     bind_op (decoded encoded) (\<lambda>sessionId.
     bind_op (with_db (revokeAdminSessionById (k_now T) (ss_admin s) sessionId)) (\<lambda>count.
     if count = 0 then reply_op (plain_fail C q 404 (js ''session not found''))
     else
       (let current = (sessionId = ss_id s) in
        bind_op (insertAdminAuditEvent C T q 0 (ss_username s)
          (admin_event ''admin.session_revoked'' [(''sessionId'', JStr sessionId), (''current'', JBool current)])) (\<lambda>_.
        reply_op (ok_json C q 200 [(''count'', jint (int count))] (if current then clearAdminCookieHeaders C q else []))))))"

definition admin_revoke_others :: "web_config \<Rightarrow> tick \<Rightarrow> request \<Rightarrow> admin_session \<Rightarrow> admin_kont outcome web_op" where
  "admin_revoke_others C T q s =
     bind_op (with_db (revokeOtherAdminSessions (k_now T) (ss_admin s) (ss_id s))) (\<lambda>count.
     bind_op (insertAdminAuditEvent C T q 0 (ss_username s)
       (admin_event ''admin.sessions_revoked_others'' [(''count'', jint (int count))])) (\<lambda>_.
     reply_op (ok_json C q 200 [(''count'', jint (int count))] [])))"

definition audit_json :: "audit_row \<times> jstr option \<Rightarrow> json" where
  "audit_json x = (case x of (a, user) \<Rightarrow> JObj (obj [(''auditId'', JStr (aw_id a)), (''userId'', jopt JStr user),
     (''actorType'', JStr (aw_actorType a)), (''actorId'', jopt JStr (aw_actorId a)), (''eventType'', JStr (aw_event a)),
     (''ipAddress'', jopt JStr (aw_ip a)), (''targetAgentId'', jopt JStr (aw_agent a)),
     (''targetBrowserPairingId'', jopt JStr (aw_pairing a)), (''commandType'', jopt JStr (aw_command a)),
     (''createdAt'', jtime (aw_created a)), (''metadata'', JObj (case aw_metadata a of None \<Rightarrow> [] | Some m \<Rightarrow> m))]))"

definition admin_audit :: "web_config \<Rightarrow> request \<Rightarrow> admin_kont outcome web_op" where
  "admin_audit C q =
     bind_op (if rc_persistAudit (wc_relay C) then with_db (listAuditEvents 120) else return_op []) (\<lambda>rows.
     reply_op (ok_json C q 200 [(''enabled'', JBool (rc_persistAudit (wc_relay C))),
       (''events'', JArr (map audit_json rows))] []))"

subsection \<open>Users, devices, pairings\<close>

type_synonym online = "jstr \<Rightarrow> (int \<times> int) option"

definition user_json :: "user_summary \<Rightarrow> json" where
  "user_json u = JObj (obj [(''userId'', JStr (sm_user u)), (''displayName'', JStr (sm_display u)),
     (''createdAt'', jtime (sm_created u)), (''disabledAt'', jopt jtime (sm_disabled u)),
     (''tokenCount'', jint (int (sm_tokens u))), (''activeTokenCount'', jint (int (sm_active u))),
     (''activeTokenPrefixes'', JArr (map JStr (sm_prefixes u)))])"

definition admin_users :: "web_config \<Rightarrow> request \<Rightarrow> admin_kont outcome web_op" where
  "admin_users C q =
     bind_op (with_db listRelayUserSummaries) (\<lambda>us.
     reply_op (ok_json C q 200 [(''users'', JArr (map user_json us))] []))"

definition device_json :: "online \<Rightarrow> agent_summary \<Rightarrow> json" where
  "device_json online a =
     (let on = online (scopedDeviceKey (ag_user a) (ag_device a)) in
      JObj (obj [(''userId'', JStr (ag_user a)), (''displayName'', JStr (ag_display a)), (''deviceId'', JStr (ag_device a)),
        (''deviceName'', JStr (ag_name a)), (''online'', JBool (on \<noteq> None)), (''connectedAt'', jopt (\<lambda>x. jtime (fst x)) on),
        (''lastSeenAt'', case on of Some (_, seen) \<Rightarrow> jtime seen | None \<Rightarrow> jtime (ag_last a)),
        (''firstSeenAt'', jtime (ag_first a)), (''disabledAt'', jopt jtime (ag_disabled a)),
        (''activePairingCount'', jint (int (ag_pairings a)))]))"

definition admin_devices :: "web_config \<Rightarrow> online \<Rightarrow> request \<Rightarrow> admin_kont outcome web_op" where
  "admin_devices C online q =
     bind_op (with_db listRelayAgentSummaries) (\<lambda>as.
     reply_op (ok_json C q 200 [(''devices'', JArr (map (device_json online) as))] []))"

definition pairing_json :: "online \<Rightarrow> pairing_info \<Rightarrow> json" where
  "pairing_json online p = JObj (obj [(''pairingId'', JStr (pi_id p)), (''userId'', JStr (pi_user p)),
     (''displayName'', JStr (pi_display p)), (''deviceId'', JStr (pi_device p)), (''deviceName'', JStr (pi_deviceName p)),
     (''browserLabel'', jopt JStr (pi_label p)), (''browserHashPrefix'', JStr (take 12 (pi_hash p))),
     (''createdAt'', jtime (pi_created p)), (''lastUsedAt'', jtime (pi_used p)),
     (''online'', JBool (online (scopedDeviceKey (pi_user p) (pi_device p)) \<noteq> None))])"

definition admin_pairings :: "web_config \<Rightarrow> online \<Rightarrow> request \<Rightarrow> admin_kont outcome web_op" where
  "admin_pairings C online q =
     bind_op (with_db listActiveBrowserPairings) (\<lambda>ps.
     reply_op (ok_json C q 200 [(''pairings'', JArr (map (pairing_json online) ps))] []))"

definition admin_revoke_pairing ::
  "web_config \<Rightarrow> tick \<Rightarrow> request \<Rightarrow> admin_actor \<Rightarrow> jstr \<Rightarrow> admin_kont outcome web_op" where
  "admin_revoke_pairing C T q actor encoded =
     bind_op (decoded encoded) (\<lambda>pairingId.
     bind_op (with_db (revokeBrowserPairingById (k_now T) pairingId)) (\<lambda>r. case r of
         None \<Rightarrow> reply_op (plain_fail C q 404 (js ''pairing not found''))
       | Some (p, count) \<Rightarrow>
           bind_op (insertAdminAuditEvent C T q 0 (actor_name actor)
             ((admin_event ''pairing.revoked_admin'' [(''deviceId'', JStr (pi_device p))])
               \<lparr>ai_user := pi_user p, ai_agent := pi_device p, ai_pairing := pi_id p\<rparr>)) (\<lambda>_.
           bind_op (effect (RevokeByHash (pi_hash p) (pi_device p))) (\<lambda>_.
           bind_op (effect (DisconnectPairing (pi_user p) (pi_hash p) (pi_device p))) (\<lambda>_.
           reply_op (ok_json C q 200 [(''action'', jstring ''revoked''), (''count'', jint (int count))] []))))))"

definition requireAdminUserId :: "jstr \<Rightarrow> ('s, jstr) op" where
  "requireAdminUserId userId =
     (let value = trim userId in
      if user_id_like value then return_op value else throw_op (Err (js ''invalid user id'')))"

definition action_json :: "token_action \<Rightarrow> json" where
  "action_json a = (case a of Unchanged \<Rightarrow> jstring ''unchanged'' | Rotated \<Rightarrow> jstring ''rotated''
     | Created \<Rightarrow> jstring ''created'')"

definition finish_create_user ::
  "host \<Rightarrow> web_config \<Rightarrow> tick \<Rightarrow> request \<Rightarrow> admin_actor \<Rightarrow> payload \<Rightarrow> admin_kont outcome web_op" where
  "finish_create_user H C T q actor b =
     bind_op (requireAdminUserId (str_or_empty (fld b ''userId''))) (\<lambda>userId.
     bind_op (with_db (getRelayUser userId)) (\<lambda>known.
     if known \<noteq> None then reply_op (plain_fail C q 409 (js ''user already exists''))
     else
       (let display = trim (to_str (or_else (fld b ''displayName'') (JStr userId))); token = k_token T 0 in
        bind_op (with_db (importRelayUserToken (h_sha H) (k_now T) (k_uuid T 0) userId
          (if display \<noteq> [] then display else userId) token)) (\<lambda>(action, prefix).
        bind_op (insertAdminAuditEvent C T q 1 (actor_name actor)
          ((admin_event ''admin.user_created'' [(''targetUserId'', JStr userId)])\<lparr>ai_user := userId\<rparr>)) (\<lambda>_.
        bind_op (reloadRelayUsers H C) (\<lambda>_.
        reply_op (ok_json C q 201 [(''action'', action_json action), (''userId'', JStr userId),
          (''token'', JStr token)] [])))))))"

datatype user_action = Rotate | Revoke | PasswordReset | Disable | Enable | Delete

definition action_segments :: "(string \<times> user_action) list" where
  "action_segments = [(''/rotate'', Rotate), (''/revoke'', Revoke), (''/password-reset'', PasswordReset),
     (''/disable'', Disable), (''/enable'', Enable), (''/delete'', Delete)]"

definition user_action_path :: "jstr \<Rightarrow> (jstr \<times> user_action) option" where
  "user_action_path path =
     (case find (\<lambda>(s, a). segment ''/admin/api/users/'' s path \<noteq> None) action_segments of
        None \<Rightarrow> None
      | Some (s, a) \<Rightarrow> Some (the (segment ''/admin/api/users/'' s path), a))"

definition user_event :: "string \<Rightarrow> jstr \<Rightarrow> (string \<times> json) list \<Rightarrow> audit_input" where
  "user_event event userId fs = (admin_event event ((''targetUserId'', JStr userId) # fs))\<lparr>ai_user := userId\<rparr>"

definition user_rotate ::
  "host \<Rightarrow> web_config \<Rightarrow> tick \<Rightarrow> request \<Rightarrow> admin_actor \<Rightarrow> user_row \<Rightarrow> jstr \<Rightarrow> admin_kont outcome web_op" where
  "user_rotate H C T q actor existing userId =
     (let token = k_token T 0 in
      bind_op (with_db (importRelayUserToken (h_sha H) (k_now T) (k_uuid T 0) userId
        (if us_display existing \<noteq> [] then us_display existing else userId) token)) (\<lambda>(action, prefix).
      bind_op (insertAdminAuditEvent C T q 1 (actor_name actor) (user_event ''admin.token_rotated'' userId [])) (\<lambda>_.
      bind_op (reloadRelayUsers H C) (\<lambda>_.
      bind_op (effect (CloseClientsOf userId (js ''relay token rotated''))) (\<lambda>_.
      reply_op (ok_json C q 200 [(''action'', action_json action), (''userId'', JStr userId),
        (''token'', JStr token)] []))))))"

definition user_revoke ::
  "host \<Rightarrow> web_config \<Rightarrow> tick \<Rightarrow> request \<Rightarrow> admin_actor \<Rightarrow> jstr \<Rightarrow> admin_kont outcome web_op" where
  "user_revoke H C T q actor userId =
     bind_op (with_db (revokeRelayUserTokens (k_now T) userId (Some AGENT_TOKEN_NAME))) (\<lambda>count.
     bind_op (insertAdminAuditEvent C T q 0 (actor_name actor)
       (user_event ''admin.tokens_revoked'' userId [(''count'', jint (int count))])) (\<lambda>_.
     bind_op (reloadRelayUsers H C) (\<lambda>_.
     bind_op (effect (CloseClientsOf userId (js ''relay token revoked''))) (\<lambda>_.
     reply_op (ok_json C q 200 [(''action'', jstring ''revoked''), (''userId'', JStr userId),
       (''count'', jint (int count))] [])))))"

definition user_password_reset ::
  "host \<Rightarrow> web_config \<Rightarrow> tick \<Rightarrow> request \<Rightarrow> admin_actor \<Rightarrow> jstr \<Rightarrow> admin_kont outcome web_op" where
  "user_password_reset H C T q actor userId =
     (let code = generateAccountRecoveryCode (k_bytes T 0); expires = k_now T + wc_recoveryTtlMs C in
      bind_op (with_db (createAccountRecoveryCode (k_now T) (k_uuid T 0) userId
        (hashToken (h_sha H) (normalizeAccountRecoveryCode (Some (JStr code)))) expires)) (\<lambda>_.
      bind_op (insertAdminAuditEvent C T q 1 (actor_name actor)
        (user_event ''admin.password_recovery_created'' userId [(''expiresAt'', jtime expires)])) (\<lambda>_.
      reply_op (ok_json C q 201 [(''action'', jstring ''password-reset''), (''userId'', JStr userId),
        (''code'', JStr code), (''expiresAt'', jtime expires)] []))))"

definition user_disable ::
  "host \<Rightarrow> web_config \<Rightarrow> tick \<Rightarrow> request \<Rightarrow> admin_actor \<Rightarrow> bool \<Rightarrow> jstr \<Rightarrow> admin_kont outcome web_op" where
  "user_disable H C T q actor disabled userId =
     bind_op (with_db (setRelayUserDisabled (k_now T) userId disabled)) (\<lambda>_.
     bind_op (insertAdminAuditEvent C T q 0 (actor_name actor)
       (user_event (if disabled then ''admin.user_disabled'' else ''admin.user_enabled'') userId [])) (\<lambda>_.
     bind_op (reloadRelayUsers H C) (\<lambda>_.
     bind_op (if disabled then effect (CloseClientsOf userId (js ''relay user disabled'')) else return_op ()) (\<lambda>_.
     reply_op (ok_json C q 200 [(''action'', jstring (if disabled then ''disabled'' else ''enabled'')),
       (''userId'', JStr userId)] [])))))"

definition user_delete ::
  "host \<Rightarrow> web_config \<Rightarrow> tick \<Rightarrow> request \<Rightarrow> admin_actor \<Rightarrow> jstr \<Rightarrow> admin_kont outcome web_op" where
  "user_delete H C T q actor userId =
     bind_op (with_db listActiveBrowserPairings) (\<lambda>all.
     let pairings = filter (\<lambda>p. pi_user p = userId) all in
     bind_op (insertAdminAuditEvent C T q 0 (actor_name actor)
       (user_event ''admin.user_deleted'' userId [(''activePairingCount'', jint (int (length pairings)))])) (\<lambda>_.
     bind_op (with_db (deleteRelayUser userId)) (\<lambda>count.
     bind_op (reloadRelayUsers H C) (\<lambda>_.
     bind_op (each_op (\<lambda>p. effect (RevokeByHash (pi_hash p) (pi_device p))) pairings) (\<lambda>_.
     bind_op (effect (CloseClientsOf userId (js ''relay user deleted''))) (\<lambda>_.
     reply_op (ok_json C q 200 [(''action'', jstring ''deleted''), (''userId'', JStr userId),
       (''count'', jint (int count))] [])))))))"

definition admin_user_action ::
  "host \<Rightarrow> web_config \<Rightarrow> tick \<Rightarrow> request \<Rightarrow> admin_actor \<Rightarrow> jstr \<Rightarrow> user_action \<Rightarrow> admin_kont outcome web_op" where
  "admin_user_action H C T q actor encoded action =
     bind_op (decoded encoded) (\<lambda>segment.
     bind_op (requireAdminUserId segment) (\<lambda>userId.
     bind_op (with_db (getRelayUser userId)) (\<lambda>existing. case existing of
         None \<Rightarrow> reply_op (plain_fail C q 404 (js ''user not found''))
       | Some user \<Rightarrow> (case action of
             Rotate \<Rightarrow> user_rotate H C T q actor user userId
           | Revoke \<Rightarrow> user_revoke H C T q actor userId
           | PasswordReset \<Rightarrow> user_password_reset H C T q actor userId
           | Disable \<Rightarrow> user_disable H C T q actor True userId
           | Enable \<Rightarrow> user_disable H C T q actor False userId
           | Delete \<Rightarrow> user_delete H C T q actor userId))))"

subsection \<open>The handler\<close>

text \<open>An actor, or the refusal: the session of the request first, then the configured token.\<close>

definition authorizeAdminRequest :: "host \<Rightarrow> web_config \<Rightarrow> tick \<Rightarrow> request \<Rightarrow> ((nat \<times> jstr) + admin_actor) web_op" where
  "authorizeAdminRequest H C T q =
     bind_op (getAdminSessionOf H C T q) (\<lambda>s. return_op (case s of
         Some s \<Rightarrow> Inr (OwnerSession s)
       | None \<Rightarrow> (case token_admin H C q of
           AdminOk \<Rightarrow> Inr BreakGlass | AdminDenied status error \<Rightarrow> Inl (status, error))))"

definition admin_route ::
  "host \<Rightarrow> web_config \<Rightarrow> tick \<Rightarrow> online \<Rightarrow> request \<Rightarrow> admin_actor \<Rightarrow> admin_kont outcome web_op" where
  "admin_route H C T online q actor =
     (let get = (q_method q = js ''GET''); post = (q_method q = js ''POST''); is = (\<lambda>p. q_path q = js p);
          seg = (\<lambda>a z. if post then segment a z (q_path q) else None) in
      if get \<and> is ''/admin/api/status'' then admin_status C T q actor
      else if \<not> account_mode C
      then reply_op (plain_fail C q 409 (js ''sqlite admin is disabled while VOXHF_RELAY_AUTH_MODE=env''))
      else if is ''/admin/api/mfa'' \<or> starts_with (q_path q) (js ''/admin/api/mfa/'')
      then owner_only C q actor ''login with an admin account to manage MFA'' (mfa_route C T q)
      else if post \<and> is ''/admin/api/registration-invites'' then admin_invite H C T q actor
      else if get \<and> is ''/admin/api/sessions''
      then owner_only C q actor ''login with an admin account to manage sessions'' (admin_sessions C T q)
      else if seg ''/admin/api/sessions/'' ''/revoke'' \<noteq> None
      then owner_only C q actor ''admin session required''
             (admin_revoke_session C T q (the (seg ''/admin/api/sessions/'' ''/revoke'')))
      else if post \<and> is ''/admin/api/sessions/revoke-others''
      then owner_only C q actor ''admin session required'' (admin_revoke_others C T q)
      else if get \<and> is ''/admin/api/users'' then admin_users C q
      else if get \<and> is ''/admin/api/devices'' then admin_devices C online q
      else if get \<and> is ''/admin/api/pairings'' then admin_pairings C online q
      else if get \<and> is ''/admin/api/audit'' then admin_audit C q
      else if seg ''/admin/api/pairings/'' ''/revoke'' \<noteq> None
      then admin_revoke_pairing C T q actor (the (seg ''/admin/api/pairings/'' ''/revoke''))
      else if post \<and> is ''/admin/api/users'' then return_op (Await (AwaitBody (ACreateUser actor)))
      else case (if post then user_action_path (q_path q) else None) of
        Some (encoded, action) \<Rightarrow> admin_user_action H C T q actor encoded action
      | None \<Rightarrow> reply_op (plain_fail C q 404 (js ''not found'')))"

definition admin_begin :: "host \<Rightarrow> web_config \<Rightarrow> tick \<Rightarrow> online \<Rightarrow> request \<Rightarrow> admin_kont outcome web_op" where
  "admin_begin H C T online q =
     (case validateApiRequest (wc_relay C) (q_method q) (q_origin q) (q_contentType q) of
        ApiError status code error \<Rightarrow> reply_op (fail_json C q status code error)
      | ApiOk \<Rightarrow>
          if starts_with (q_path q) (js ''/admin/api/auth/'') then auth_route H C T q
          else
            bind_op (authorizeAdminRequest H C T q) (\<lambda>r. case r of
                Inl (status, error) \<Rightarrow> limited C T q ''admin'' (wc_maxAdmin C) (reply_op (plain_fail C q status error))
              | Inr actor \<Rightarrow> bind_op (clearAttempts q ''admin'') (\<lambda>_. admin_route H C T online q actor)))"

definition admin_resume ::
  "host \<Rightarrow> web_config \<Rightarrow> tick \<Rightarrow> request \<Rightarrow> admin_body \<Rightarrow> payload \<Rightarrow> admin_kont outcome web_op" where
  "admin_resume H C T q k b = (case k of
     ABootstrap \<Rightarrow> finish_bootstrap H C T q b
   | ALogin \<Rightarrow> finish_admin_login H C T q b
   | AMfaPasskey \<Rightarrow> finish_mfa_passkey H C T q b
   | AMfaRecovery \<Rightarrow> finish_mfa_recovery H C T q b
   | APassword s \<Rightarrow> finish_admin_password H C T q s b
   | ARecover \<Rightarrow> finish_admin_recover H C T q b
   | ACreateUser actor \<Rightarrow> finish_create_user H C T q actor b
   | AKeyOptions s \<Rightarrow> finish_key_options H C q s b
   | AKeyComplete s \<Rightarrow> finish_key_complete H T s b
   | ARegenerate s \<Rightarrow> finish_regenerate H C T q s b
   | ADisableMfa s \<Rightarrow> finish_disable_mfa H C T q s b
   | ARemoveKey s encoded \<Rightarrow> finish_remove_key H C T q s encoded b)"

definition admin_finish ::
  "host \<Rightarrow> web_config \<Rightarrow> tick \<Rightarrow> request \<Rightarrow> admin_body \<Rightarrow> bytes list \<Rightarrow> admin_kont outcome web_op" where
  "admin_finish H C T q k chunks =
     bind_op (readJsonBody H chunks) (\<lambda>body. bind_op (fields_of body) (\<lambda>b. admin_resume H C T q k b))"

definition admin_library ::
  "host \<Rightarrow> web_config \<Rightarrow> webauthn \<Rightarrow> tick \<Rightarrow> request \<Rightarrow> admin_library \<Rightarrow> admin_kont outcome web_op" where
  "admin_library H C W T q k = (case k of
     WLogin account keys ctx \<Rightarrow> resume_login H C W T q account keys ctx
   | WPasskey account key credential ch \<Rightarrow> resume_passkey H C W T q account key credential ch
   | WOptions s account keys ctx name \<Rightarrow> resume_key_options H C W T q s account keys ctx name
   | WComplete s name credential ch \<Rightarrow> resume_key_complete H C W T q s name credential ch)"

end
