(* ===== verification/Server.thy ===== *)
theory Server
  imports AdminApi RelayHandlers
begin

section \<open>The relay process: HTTP and WebSockets together (apps/relay/index.js)\<close>

text \<open>
  The composition root of the relay. An HTTP request runs its handler up to the reply or to what it
  awaits; the body and the verdict of WebAuthn are events of their own, so requests interleave
  with each other and with the sockets. The effects of a handler on the sockets run in the order
  of its calls, and what the sockets want stored is written to the database; a handler touches
  the database after an effect only to write rows that the effect neither reads nor writes. An
  upgrade looks up the agent tokens and then the session of its cookie.
\<close>

datatype waiting = WaitAccount account_kont | WaitAdmin admin_kont

record server =
  sv_web :: web
  sv_relay :: relay
  sv_waiting :: "(nat, request \<times> waiting) jmap"

datatype sv_event = HttpRequest nat request
  | HttpBody nat "bytes list"
  | HttpLibrary nat
  | UpgradeSocket nat upgrade request
  | SocketEvent r_event
  | Maintain

datatype sv_out = HttpReply nat response
  | HttpHeaders nat nat "(jstr \<times> jstr) list"
  | ServeFile nat jstr jstr
  | FromRelay r_out
  | RefuseUpgrade nat nat jstr

text \<open>What the relay reads at one moment: the clock and the random source, for both parts.\<close>

record moment =
  mo_env :: env
  mo_tick :: tick

subsection \<open>Effects and rows\<close>

definition run_effect ::
  "host \<Rightarrow> web_config \<Rightarrow> env \<Rightarrow> web_effect \<Rightarrow> relay \<Rightarrow> relay \<times> r_out list" where
  "run_effect H C E e = (case e of
     CloseSessionsOf userId ids reason \<Rightarrow> closeBrowserSessionClients (h_node H) (wc_relay C) E userId ids reason
   | CloseAgentsOf userId reason \<Rightarrow> closeAgentClientsForUser (h_node H) (wc_relay C) E userId reason
   | CloseClientsOf userId reason \<Rightarrow> closeClientsForUser (h_node H) (wc_relay C) E userId reason
   | RevokeByHash hash deviceId \<Rightarrow> quiet (revokeBrowserAuthorizationByHash hash deviceId)
   | DisconnectPairing userId hash deviceId \<Rightarrow> disconnectRevokedPairingClients (h_node H) E userId hash deviceId)"

text \<open>What the sockets want stored; an error is logged and forgotten. \<open>j\<close> counts the identifiers.\<close>

definition audit_of :: "audit \<Rightarrow> audit_input" where
  "audit_of a = (audit_input (au_event a))\<lparr>ai_user := au_userId a, ai_actorType := js (au_actorType a),
     ai_actorId := au_actorId a, ai_ip := au_ip a, ai_agent := au_target a,
     ai_metadata := Some (map (\<lambda>(k, v). (k, JStr v)) (au_metadata a))\<rparr>"

definition forget :: "'a rdb \<Rightarrow> unit rdb" where
  "forget m = attempt () (bind_op m (\<lambda>_. return_op ()))"

definition store_out :: "host \<Rightarrow> tick \<Rightarrow> nat \<Rightarrow> r_out \<Rightarrow> unit rdb" where
  "store_out H T j r = (case r of
     UpsertPairing userId deviceId deviceName browserId \<Rightarrow>
       forget (upsertBrowserPairing (h_sha H) (k_now T) (k_uuid T j) userId [] deviceId deviceName browserId [])
   | RevokePairingRow userId browserId deviceId \<Rightarrow>
       forget (revokeBrowserPairing (h_sha H) (k_now T) userId deviceId browserId)
   | UpsertAgent userId deviceId deviceName \<Rightarrow>
       forget (upsertRelayAgent (h_sha H) (k_now T) userId [] deviceId deviceName)
   | Audit a \<Rightarrow> forget (insertAuditEvent (k_now T) (k_uuid T j) (audit_of a))
   | _ \<Rightarrow> return_op ())"

definition store_outs :: "host \<Rightarrow> tick \<Rightarrow> r_out list \<Rightarrow> unit rdb" where
  "store_outs H T os = each_op (\<lambda>(j, r). store_out H T (j + 20) r) (zip [0..<length os] os)"

text \<open>A step of the sockets, and the rows it stores.\<close>

definition socket_step ::
  "host \<Rightarrow> moment \<Rightarrow> (relay \<Rightarrow> relay \<times> r_out list) \<Rightarrow> server \<Rightarrow> server \<times> sv_out list" where
  "socket_step H M f sv =
     (let (r, os) = f (sv_relay sv)
      in (sv\<lparr>sv_relay := r, sv_web := snd (with_db (store_outs H (mo_tick M) os) (sv_web sv))\<rparr>, map FromRelay os))"

text \<open>After a part of a handler: its effects on the sockets.\<close>

definition settle :: "host \<Rightarrow> web_config \<Rightarrow> moment \<Rightarrow> server \<Rightarrow> server \<times> sv_out list" where
  "settle H C M sv =
     (let es = w_effects (sv_web sv)
      in socket_step H M (each (run_effect H C (mo_env M)) es)
           (sv\<lparr>sv_web := (sv_web sv)\<lparr>w_effects := []\<rparr>\<rparr>))"

subsection \<open>Handlers\<close>

text \<open>One uninterrupted part of the handler of request \<open>i\<close>, with its reply or what it awaits.\<close>

definition handle ::
  "host \<Rightarrow> web_config \<Rightarrow> moment \<Rightarrow> nat \<Rightarrow> request \<Rightarrow> ('k \<Rightarrow> waiting) \<Rightarrow> 'k outcome web_op \<Rightarrow> server
    \<Rightarrow> server \<times> sv_out list" where
  "handle H C M i q wait m sv =
     (let (x, w) = answered C q m (sv_web sv);
          sv1 = sv\<lparr>sv_web := w, sv_waiting := (case x of
                  Reply r \<Rightarrow> mdel (sv_waiting sv) i | Await k \<Rightarrow> mput (sv_waiting sv) i (q, wait k))\<rparr>;
          (sv2, os) = settle H C M sv1
      in (sv2, os @ (case x of Reply r \<Rightarrow> [HttpReply i r] | Await k \<Rightarrow> [])))"

definition online_devices :: "relay \<Rightarrow> online" where
  "online_devices r key = map_option (\<lambda>d. (dv_connectedAt d, dv_lastSeenAt d)) (mget (r_devices r) key)"

definition health :: "web_config \<Rightarrow> request \<Rightarrow> server \<Rightarrow> response" where
  "health C q sv =
     ok_json C q 200 [(''service'', jstring ''voxhf-relay''),
       (''clients'', jint (int (length (r_clients (sv_relay sv))))),
       (''devices'', jint (int (length (r_devices (sv_relay sv))))), (''users'', jint (int (length (w_users (sv_web sv))))),
       (''pairingRequired'', JBool (rc_requirePairing (wc_relay C))),
       (''persistedPairings'', jint (int (sum_list (map (\<lambda>p. length (snd p)) (r_auth (sv_relay sv))))))] []"

definition sendOptions :: "web_config \<Rightarrow> request \<Rightarrow> (jstr \<times> jstr) list" where
  "sendOptions C q = corsHeaders (wc_relay C) (q_origin q)
     @ [(js ''access-control-allow-methods'', js ''GET, POST, OPTIONS''),
        (js ''access-control-allow-headers'', js ''content-type, authorization''),
        (js ''access-control-max-age'', js ''600''), (js ''cache-control'', js ''no-store''),
        (js ''x-content-type-options'', js ''nosniff'')]"

definition ADMIN_ASSET_FILES :: "(string \<times> string \<times> string) list" where
  "ADMIN_ASSET_FILES =
     [(''/admin/admin.css'', ''admin.css'', ''text/css; charset=utf-8''),
      (''/admin/admin.js'', ''admin.js'', ''text/javascript; charset=utf-8''),
      (''/admin/webauthn.js'', ''../../node_modules/@simplewebauthn/browser/dist/bundle/index.umd.min.js'',
       ''text/javascript; charset=utf-8'')]"

text \<open>The listener. A file of the administrator's page is named; reading it is not modelled.\<close>

definition on_request ::
  "host \<Rightarrow> web_config \<Rightarrow> moment \<Rightarrow> nat \<Rightarrow> request \<Rightarrow> server \<Rightarrow> server \<times> sv_out list" where
  "on_request H C M i q sv =
     (let get = (q_method q = js ''GET''); path = q_path q;
          asset = find (\<lambda>(p, f, t). get \<and> path = js p) ADMIN_ASSET_FILES in
      if q_method q = js ''OPTIONS'' then (sv, [HttpHeaders i 204 (sendOptions C q)])
      else if get \<and> (path = js ''/admin'' \<or> path = js ''/admin/'')
      then (sv, [ServeFile i (js ''admin.html'') (js ''text/html; charset=utf-8'')])
      else if asset \<noteq> None then (sv, [ServeFile i (js (fst (snd (the asset)))) (js (snd (snd (the asset))))])
      else if starts_with path (js ''/account/api/'')
      then handle H C M i q WaitAccount (account_begin H C (mo_tick M) q) sv
      else if starts_with path (js ''/admin/api/'')
      then handle H C M i q WaitAdmin (admin_begin H C (mo_tick M) (online_devices (sv_relay sv)) q) sv
      else if get \<and> path = js ''/health'' then (sv, [HttpReply i (health C q sv)])
      else (sv, [HttpReply i (plain_fail C q 404 (js ''not found''))]))"

definition on_body ::
  "host \<Rightarrow> web_config \<Rightarrow> moment \<Rightarrow> nat \<Rightarrow> bytes list \<Rightarrow> server \<Rightarrow> server \<times> sv_out list" where
  "on_body H C M i chunks sv =
     (case mget (sv_waiting sv) i of
        Some (q, WaitAccount k) \<Rightarrow> handle H C M i q WaitAccount (account_finish H C (mo_tick M) q k chunks) sv
      | Some (q, WaitAdmin (AwaitBody k)) \<Rightarrow> handle H C M i q WaitAdmin (admin_finish H C (mo_tick M) q k chunks) sv
      | _ \<Rightarrow> (sv, []))"

definition on_library ::
  "host \<Rightarrow> web_config \<Rightarrow> webauthn \<Rightarrow> moment \<Rightarrow> nat \<Rightarrow> server \<Rightarrow> server \<times> sv_out list" where
  "on_library H C W M i sv =
     (case mget (sv_waiting sv) i of
        Some (q, WaitAdmin (AwaitLibrary k)) \<Rightarrow> handle H C M i q WaitAdmin (admin_library H C W (mo_tick M) q k) sv
      | _ \<Rightarrow> (sv, []))"

subsection \<open>Upgrades\<close>

text \<open>The session is looked up only where the token admits nobody, as the code does.\<close>

definition upgrade_decision ::
  "host \<Rightarrow> web_config \<Rightarrow> moment \<Rightarrow> upgrade \<Rightarrow> request \<Rightarrow> server \<Rightarrow> upgrade_result \<times> server" where
  "upgrade_decision H C M u q sv =
     (let decide = (\<lambda>session. authorizeUpgrade (h_node H) (wc_relay C) (w_users (sv_web sv))
                      (length (r_clients (sv_relay sv))) (u\<lparr>up_session := session\<rparr>)) in
      case decide None of
        Allow d \<Rightarrow> (Allow d, sv)
      | Deny status reason \<Rightarrow>
          if status = 401 \<and> up_source u = source_name BROWSER then
            (case findRelayUserBySession H C (mo_tick M) q (sv_web sv) of
               (Inr session, w) \<Rightarrow> (decide session, sv\<lparr>sv_web := w\<rparr>)
             | (Inl e, w) \<Rightarrow> (Deny status reason, sv\<lparr>sv_web := w\<rparr>))
          else (Deny status reason, sv))"

definition on_upgrade ::
  "host \<Rightarrow> web_config \<Rightarrow> moment \<Rightarrow> nat \<Rightarrow> upgrade \<Rightarrow> request \<Rightarrow> server \<Rightarrow> server \<times> sv_out list" where
  "on_upgrade H C M ws u q sv =
     (case upgrade_decision H C M u q sv of
        (Deny status reason, sv1) \<Rightarrow> (sv1, [RefuseUpgrade ws status reason])
      | (Allow d, sv1) \<Rightarrow> socket_step H M (relayStep (h_node H) (wc_relay C) (mo_env M, Connect ws d (q_remote q))) sv1)"

subsection \<open>Maintenance\<close>

definition data_maintenance :: "web_config \<Rightarrow> int \<Rightarrow> unit rdb" where
  "data_maintenance C now =
     bind_op (purgeBrowserSessions now) (\<lambda>_.
     bind_op (purgeAccountRecoveryCodes now) (\<lambda>_.
     bind_op (purgeAdminSessions now) (\<lambda>_.
     bind_op (if wc_storeMetadata C then return_op ()
              else bind_op clearBrowserSessionMetadata (\<lambda>_. bind_op clearAdminSessionMetadata (\<lambda>_. return_op ()))) (\<lambda>_.
     bind_op (purgeAuditEvents (if rc_persistAudit (wc_relay C) then Some (now - wc_auditDays C * 86400000) else None))
       (\<lambda>_. return_op ())))))"

definition runDataMaintenance :: "web_config \<Rightarrow> int \<Rightarrow> web \<Rightarrow> web" where
  "runDataMaintenance C now w =
     (let w1 = w\<lparr>w_invites := purgeExpiredRegistrationInvites now (w_invites w)\<rparr> in
      if \<not> account_mode C then w1 else snd (with_db (forget (data_maintenance C now)) w1))"

subsection \<open>The process as a machine\<close>

text \<open>The events of the sockets themselves; the others come from handlers and upgrades.\<close>

definition own_event :: "r_event \<Rightarrow> bool" where
  "own_event e = (case e of
     Connect _ _ _ \<Rightarrow> False | CloseAgents _ _ \<Rightarrow> False | CloseSessions _ _ _ \<Rightarrow> False | CloseUser _ _ \<Rightarrow> False
   | AdminRevoke _ _ _ \<Rightarrow> False | _ \<Rightarrow> True)"

fun serverStep ::
  "host \<Rightarrow> web_config \<Rightarrow> webauthn \<Rightarrow> moment \<times> sv_event \<Rightarrow> server \<Rightarrow> server \<times> sv_out list" where
  "serverStep H C W (M, HttpRequest i q) sv =
     (if mhas (sv_waiting sv) i then (sv, []) else on_request H C M i q sv)"
| "serverStep H C W (M, HttpBody i chunks) sv = on_body H C M i chunks sv"
| "serverStep H C W (M, HttpLibrary i) sv = on_library H C W M i sv"
| "serverStep H C W (M, UpgradeSocket ws u q) sv = on_upgrade H C M ws u q sv"
| "serverStep H C W (M, SocketEvent e) sv =
     (if own_event e then socket_step H M (relayStep (h_node H) (wc_relay C) (mo_env M, e)) sv else (sv, []))"
| "serverStep H C W (M, Maintain) sv =
     (sv\<lparr>sv_web := runDataMaintenance C (k_now (mo_tick M)) (sv_web sv)\<rparr>, [])"

subsection \<open>The start\<close>

definition is_hash :: "jstr \<Rightarrow> bool" where
  "is_hash s = rx_match (Reps (\<lambda>c. is_digit c \<or> 97 \<le> c \<and> c \<le> 102) 64 64) s"

text \<open>The pairings in the database whose hash and device id have the right form.\<close>

definition loadDatabasePairings :: "relay_db \<Rightarrow> (jstr, jstr list) jmap" where
  "loadDatabasePairings d =
     fold (\<lambda>p m. if \<not> is_hash (pi_hash p) \<or> \<not> token_like (pi_device p) then m
         else mput m (pi_hash p) (set_add (pi_device p) (case mget m (pi_hash p) of None \<Rightarrow> [] | Some ds \<Rightarrow> ds)))
       (case listActiveBrowserPairings d of (Inr ps, d1) \<Rightarrow> ps | (Inl e, d1) \<Rightarrow> []) []"

definition active_rows :: "relay_db \<Rightarrow> (jstr \<times> jstr \<times> jstr) list" where
  "active_rows d = (case listActiveRelayTokenUsers d of (Inr rows, d1) \<Rightarrow> rows | (Inl e, d1) \<Rightarrow> [])"

text \<open>
  The process started on a database; \<open>None\<close> where it exits. \<open>filePairings\<close> are the pairings of the
  file, which is used where the database does not hold them.
\<close>

definition bootServer ::
  "host \<Rightarrow> web_config \<Rightarrow> int \<Rightarrow> relay_db \<Rightarrow> (jstr, jstr list) jmap \<Rightarrow> server option" where
  "bootServer H C now d filePairings =
     (case loadRelayUsers (h_node H) (rc_authMode (wc_relay C)) (active_rows d) (wc_usersText C) (wc_defaultToken C) of
        Inl e \<Rightarrow> None
      | Inr users \<Rightarrow>
          if users = [] \<and> \<not> (account_mode C \<and> (wc_registration C \<or> wc_adminTokenHash C \<noteq> None)) then None
          else
            (let pairings = (if \<not> rc_persistPairings (wc_relay C) then []
                    else if pairingsUseDatabase (wc_relay C) then loadDatabasePairings d else filePairings);
                 w = \<lparr>w_db = d, w_rates = [], w_invites = [], w_users = users, w_effects = []\<rparr>
             in Some \<lparr>sv_web = runDataMaintenance C now w, sv_relay = initRelay pairings, sv_waiting = []\<rparr>))"

end
