(* ===== verification/DbFacts.thy ===== *)
theory DbFacts
  imports AdminDb
begin

section \<open>The integrity of the database\<close>

text \<open>
  \<open>db_inv\<close>: the keys and unique columns of the schema have no duplicates, every reference has its
  row, and a user has at most one recovery code. Every operation of the module keeps it, whether
  it returns or throws.
\<close>

definition uniq :: "('r \<Rightarrow> 'k) \<Rightarrow> 'r list \<Rightarrow> bool" where
  "uniq f rs = distinct (map f rs)"

definition refs :: "('r \<Rightarrow> 'k) \<Rightarrow> 'r list \<Rightarrow> ('p \<Rightarrow> 'k) \<Rightarrow> 'p list \<Rightarrow> bool" where
  "refs f rs g ps = (f ` set rs \<subseteq> g ` set ps)"

definition opt_refs :: "('r \<Rightarrow> 'k option) \<Rightarrow> 'r list \<Rightarrow> ('p \<Rightarrow> 'k) \<Rightarrow> 'p list \<Rightarrow> bool" where
  "opt_refs f rs g ps = list_all (\<lambda>r. case f r of None \<Rightarrow> True | Some k \<Rightarrow> k \<in> g ` set ps) rs"

definition users_inv :: "relay_db \<Rightarrow> bool" where
  "users_inv d \<longleftrightarrow>
     uniq us_id (db_users d) \<and> uniq us_name (db_users d)
   \<and> uniq tk_id (db_tokens d) \<and> uniq tk_hash (db_tokens d) \<and> refs tk_user (db_tokens d) us_id (db_users d)
   \<and> uniq gr_id (db_agents d) \<and> uniq (\<lambda>a. (gr_user a, gr_device a)) (db_agents d)
   \<and> refs gr_user (db_agents d) us_id (db_users d)
   \<and> uniq pr_id (db_pairings d) \<and> uniq (\<lambda>p. (pr_user p, pr_agent p, pr_hash p)) (db_pairings d)
   \<and> refs pr_user (db_pairings d) us_id (db_users d) \<and> refs pr_agent (db_pairings d) gr_id (db_agents d)
   \<and> uniq sr_id (db_sessions d) \<and> uniq sr_hash (db_sessions d) \<and> refs sr_owner (db_sessions d) us_id (db_users d)
   \<and> uniq ry_id (db_recovery d) \<and> uniq ry_hash (db_recovery d) \<and> uniq ry_user (db_recovery d)
   \<and> refs ry_user (db_recovery d) us_id (db_users d)
   \<and> uniq aw_id (db_audit d) \<and> opt_refs aw_user (db_audit d) us_id (db_users d)"

definition admins_inv :: "relay_db \<Rightarrow> bool" where
  "admins_inv d \<longleftrightarrow>
     uniq ad_id (db_admins d) \<and> uniq (\<lambda>a. fold_case (ad_name a)) (db_admins d)
   \<and> uniq sr_id (db_admin_sessions d) \<and> uniq sr_hash (db_admin_sessions d)
   \<and> refs sr_owner (db_admin_sessions d) ad_id (db_admins d)
   \<and> uniq pk_id (db_passkeys d) \<and> refs pk_admin (db_passkeys d) ad_id (db_admins d)
   \<and> uniq ch_id (db_challenges d) \<and> uniq ch_flow (db_challenges d)
   \<and> refs ch_admin (db_challenges d) ad_id (db_admins d)
   \<and> opt_refs ch_session (db_challenges d) sr_id (db_admin_sessions d)
   \<and> uniq cd_id (db_codes d) \<and> uniq cd_hash (db_codes d) \<and> refs cd_admin (db_codes d) ad_id (db_admins d)"

definition db_inv :: "relay_db \<Rightarrow> bool" where
  "db_inv d \<longleftrightarrow> users_inv d \<and> admins_inv d"

lemma db_inv_empty: "db_inv empty_db"
  by (simp add: db_inv_def users_inv_def admins_inv_def empty_db_def uniq_def refs_def opt_refs_def)

subsection \<open>Rows\<close>

lemma uniq_insert [simp]: "uniq f (rs @ [r]) \<longleftrightarrow> uniq f rs \<and> (\<forall>x \<in> set rs. f x \<noteq> f r)"
  by (auto simp: uniq_def image_iff)

lemma uniq_filter [simp]: "uniq f rs \<Longrightarrow> uniq f (filter P rs)"
  by (simp add: uniq_def distinct_map_filter)

lemma map_rows_set: "(\<And>r. f (g r) = f r) \<Longrightarrow> map f (rows_set P g rs) = map f rs"
  by (simp add: rows_set_def)

lemma uniq_set [simp]: "(\<And>r. f (g r) = f r) \<Longrightarrow> uniq f (rows_set P g rs) = uniq f rs"
  by (simp add: uniq_def map_rows_set)

lemma image_rows_set [simp]: "(\<And>r. f (g r) = f r) \<Longrightarrow> f ` set (rows_set P g rs) = f ` set rs"
  using map_rows_set [of f g P rs] by (metis image_set)

lemma refs_insert [simp]: "refs f (rs @ [r]) g ps \<longleftrightarrow> refs f rs g ps \<and> (\<exists>p \<in> set ps. g p = f r)"
  by (force simp: refs_def)

lemma refs_filter [simp]: "refs f rs g ps \<Longrightarrow> refs f (filter P rs) g ps"
  by (auto simp: refs_def)

lemma refs_set [simp]: "(\<And>r. f (h r) = f r) \<Longrightarrow> refs f (rows_set P h rs) g ps = refs f rs g ps"
  by (simp add: refs_def)

lemma refs_target_insert [simp]: "refs f rs g ps \<Longrightarrow> refs f rs g (ps @ [p])"
  by (auto simp: refs_def)

lemma refs_target_set [simp]: "(\<And>p. g (h p) = g p) \<Longrightarrow> refs f rs g (rows_set P h ps) = refs f rs g ps"
  by (simp add: refs_def)

lemma opt_refs_insert [simp]:
  "opt_refs f (rs @ [r]) g ps \<longleftrightarrow> opt_refs f rs g ps \<and> (\<forall>k. f r = Some k \<longrightarrow> (\<exists>p \<in> set ps. g p = k))"
  by (auto simp: opt_refs_def image_iff split: option.splits)

lemma opt_refs_filter [simp]: "opt_refs f rs g ps \<Longrightarrow> opt_refs f (filter P rs) g ps"
  by (auto simp: opt_refs_def list_all_iff)

lemma opt_refs_target_insert [simp]: "opt_refs f rs g ps \<Longrightarrow> opt_refs f rs g (ps @ [p])"
  by (auto simp: opt_refs_def list_all_iff split: option.splits)

lemma opt_refs_target_set [simp]:
  "(\<And>p. g (h p) = g p) \<Longrightarrow> opt_refs f rs g (rows_set P h ps) = opt_refs f rs g ps"
  unfolding opt_refs_def by (subst image_rows_set) simp_all

lemma find_in: "find P rs = Some r \<Longrightarrow> r \<in> set rs \<and> P r"
  by (induction rs) (auto split: if_splits)

lemma find_absent: "find P rs = None \<longleftrightarrow> (\<forall>r \<in> set rs. \<not> P r)"
  by (induction rs) auto

lemma uniq_eq: "uniq f rs \<Longrightarrow> a \<in> set rs \<Longrightarrow> b \<in> set rs \<Longrightarrow> f a = f b \<Longrightarrow> a = b"
  by (auto simp: uniq_def distinct_map inj_on_def)

text \<open>An operation that reads and then decides.\<close>

lemma keeping_get:
  "(\<And>s. P s \<Longrightarrow> P (snd (f (g s) s))) \<Longrightarrow> keeping P (bind_op (get_op g) f)"
  by (simp add: keeping_def)

subsection \<open>The statements\<close>

lemmas inv_defs = db_inv_def users_inv_def admins_inv_def

lemma keeping_insert_users [keep_intros]: "keeping db_inv (insert_user r)"
  unfolding insert_user_def by (rule keeping_get) (auto simp: inv_defs)

lemma keeping_insert_token [keep_intros]: "keeping db_inv (insert_token r)"
  unfolding insert_token_def by (rule keeping_get) (auto simp: inv_defs)

lemma keeping_insert_session [keep_intros]: "keeping db_inv (insert_session r)"
  unfolding insert_session_def by (rule keeping_get) (auto simp: inv_defs)

lemma keeping_insert_admin_session [keep_intros]: "keeping db_inv (insert_admin_session r)"
  unfolding insert_admin_session_def by (rule keeping_get) (auto simp: inv_defs)

lemma keeping_insert_agent [keep_intros]: "keeping db_inv (insert_agent r)"
  unfolding insert_agent_def by (rule keeping_get) (auto simp: inv_defs)

lemma keeping_insert_pairing [keep_intros]: "keeping db_inv (insert_pairing r)"
  unfolding insert_pairing_def by (rule keeping_get) (auto simp: inv_defs)

lemma keeping_insert_admin [keep_intros]: "keeping db_inv (insert_admin r)"
  unfolding insert_admin_def by (rule keeping_get) (auto simp: inv_defs)

lemma keeping_insert_code [keep_intros]: "keeping db_inv (insert_code r)"
  unfolding insert_code_def by (rule keeping_get) (auto simp: inv_defs)

lemma keeping_text [keep_intros]: "keeping P (requireDbText v f)"
  unfolding requireDbText_def by (intro keep_intros)

lemma keeping_user [keep_intros]:
  "keeping P (getRelayUser u)" "keeping P (requireRelayUser u)" "keeping P (getRelayUserCredentials u)"
  unfolding getRelayUser_def requireRelayUser_def getRelayUserCredentials_def by (intro keep_intros)+

lemma keeping_upsert_user [keep_intros]: "keeping db_inv (upsert_user H now u n)"
  unfolding upsert_user_def by (intro keep_intros) (simp_all add: inv_defs)

lemma keeping_import [keep_intros]: "keeping db_inv (importRelayUserToken H now i u n t)"
  unfolding importRelayUserToken_def by (intro keep_intros) (simp_all add: inv_defs)

lemma keeping_create_account [keep_intros]: "keeping db_inv (createRelayAccount H now i u n p t a b c)"
  unfolding createRelayAccount_def by (intro keep_intros)

lemma keeping_ensure [keep_intros]: "keeping db_inv (ensureRelayUser H now u n)"
  unfolding ensureRelayUser_def by (intro keep_intros)

lemma keeping_disabled [keep_intros]: "keeping db_inv (setRelayUserDisabled now u b)"
  unfolding setRelayUserDisabled_def by (intro keep_intros) (simp_all add: inv_defs)

lemma keeping_revoke_tokens [keep_intros]: "keeping db_inv (revokeRelayUserTokens now u n)"
  unfolding revokeRelayUserTokens_def by (intro keep_intros) (simp_all add: inv_defs)

lemma keeping_set_password [keep_intros]: "keeping db_inv (setRelayUserPassword u h)"
  unfolding setRelayUserPassword_def by (intro keep_intros) (simp_all add: inv_defs)

text \<open>Deleting parents together with the rows that refer to them.\<close>

lemma refs_cascade:
  assumes "refs f rs g ps" "\<And>x. R x \<Longrightarrow> f x \<notin> set (map g (filter P ps))"
  shows "refs f (filter R rs) g (filter (\<lambda>p. \<not> P p) ps)"
  unfolding refs_def
proof
  fix k assume "k \<in> f ` set (filter R rs)"
  then obtain x where x: "x \<in> set rs" "R x" "k = f x" by auto
  then obtain p where p: "p \<in> set ps" "g p = k" using assms(1) by (auto simp: refs_def)
  have "P p \<Longrightarrow> k \<in> set (map g (filter P ps))" using p by force
  then have "\<not> P p" using assms(2) [OF x(2)] x(3) by blast
  with p show "k \<in> g ` set (filter (\<lambda>p. \<not> P p) ps)" by auto
qed

lemma opt_refs_clear:
  assumes "opt_refs f rs g ps" "\<And>r k. f (h r) = Some k \<Longrightarrow> f r = Some k \<and> k \<notin> set (map g (filter P ps))"
  shows "opt_refs f (map h rs) g (filter (\<lambda>p. \<not> P p) ps)"
proof -
  have "k \<in> g ` set (filter (\<lambda>p. \<not> P p) ps)" if "r \<in> set rs" "f (h r) = Some k" for r k
  proof -
    have k: "f r = Some k" "k \<notin> set (map g (filter P ps))" using assms(2) [OF that(2)] by auto
    have "case f r of None \<Rightarrow> True | Some k \<Rightarrow> k \<in> g ` set ps"
      using assms(1) that(1) by (simp add: opt_refs_def list_all_iff)
    then obtain p where p: "p \<in> set ps" "g p = k" using k(1) by auto
    then have "P p \<Longrightarrow> k \<in> set (map g (filter P ps))" by force
    with k(2) have "\<not> P p" by blast
    with p show ?thesis by auto
  qed
  then show ?thesis by (simp add: opt_refs_def list_all_iff split: option.split)
qed

definition forget_user :: "jstr list \<Rightarrow> audit_row \<Rightarrow> audit_row" where
  "forget_user gone a = (case aw_user a of
     Some u \<Rightarrow> if u \<in> set gone then a\<lparr>aw_user := None\<rparr> else a | None \<Rightarrow> a)"

lemma forget_user_simps:
  "aw_id (forget_user gone a) = aw_id a"
  "aw_user (forget_user gone a) = Some k \<Longrightarrow> aw_user a = Some k \<and> k \<notin> set gone"
  by (auto simp: forget_user_def split: option.splits if_splits)

lemma delete_users_sel:
  fixes P :: "user_row \<Rightarrow> bool" and d :: relay_db
  defines "gone \<equiv> map us_id (filter P (db_users d))"
  shows "db_users (delete_users P d) = filter (\<lambda>u. \<not> P u) (db_users d)"
    "db_tokens (delete_users P d) = filter (\<lambda>t. tk_user t \<notin> set gone) (db_tokens d)"
    "db_agents (delete_users P d) = filter (\<lambda>a. \<not> (gr_user a \<in> set gone)) (db_agents d)"
    "db_pairings (delete_users P d) = filter (\<lambda>p. pr_user p \<notin> set gone \<and>
       pr_agent p \<notin> set (map gr_id (filter (\<lambda>a. gr_user a \<in> set gone) (db_agents d)))) (db_pairings d)"
    "db_sessions (delete_users P d) = filter (\<lambda>s. sr_owner s \<notin> set gone) (db_sessions d)"
    "db_recovery (delete_users P d) = filter (\<lambda>r. ry_user r \<notin> set gone) (db_recovery d)"
    "db_audit (delete_users P d) = map (forget_user gone) (db_audit d)"
    "db_admins (delete_users P d) = db_admins d" "db_admin_sessions (delete_users P d) = db_admin_sessions d"
    "db_passkeys (delete_users P d) = db_passkeys d" "db_challenges (delete_users P d) = db_challenges d"
    "db_codes (delete_users P d) = db_codes d"
  by (simp_all add: delete_users_def Let_def gone_def forget_user_def cong: option.case_cong)

lemma delete_users_inv:
  assumes "db_inv d"
  shows "db_inv (delete_users P d)"
proof -
  note d = assms [unfolded inv_defs]
  have "uniq aw_id (map (forget_user g) (db_audit d))" for g
    using d by (simp add: uniq_def comp_def forget_user_simps(1))
  moreover have "opt_refs aw_user (map (forget_user (map us_id (filter P (db_users d)))) (db_audit d))
      us_id (filter (\<lambda>u. \<not> P u) (db_users d))"
    by (rule opt_refs_clear) (use d forget_user_simps(2) in blast)+
  moreover have "refs pr_agent (filter (\<lambda>p. pr_user p \<notin> set g \<and>
       pr_agent p \<notin> set (map gr_id (filter (\<lambda>a. gr_user a \<in> set g) (db_agents d)))) (db_pairings d))
      gr_id (filter (\<lambda>a. \<not> (gr_user a \<in> set g)) (db_agents d))" for g
    by (rule refs_cascade) (use d in blast)+
  ultimately show ?thesis
    unfolding inv_defs delete_users_sel using d
    by (simp del: set_map set_filter) (intro conjI; rule refs_cascade; blast)
qed

lemma keeping_delete_user [keep_intros]: "keeping db_inv (deleteRelayUser u)"
  unfolding deleteRelayUser_def by (intro keep_intros) (rule delete_users_inv)

lemma keeping_agent [keep_intros]: "keeping db_inv (upsertRelayAgent H now u un x n)"
  unfolding upsertRelayAgent_def by (intro keep_intros) (simp_all add: inv_defs)

lemma keeping_update_pairings [keep_intros]: "keeping db_inv (update_pairings P now)"
  unfolding update_pairings_def by (intro keep_intros) (simp_all add: inv_defs)

lemma keeping_pairing [keep_intros]: "keeping db_inv (upsertBrowserPairing H now i u un x n b l)"
  unfolding upsertBrowserPairing_def by (intro keep_intros) (simp_all add: inv_defs)

lemma keeping_revoke_pairing [keep_intros]:
  "keeping db_inv (revokeBrowserPairing H now u x b)" "keeping db_inv (revokeBrowserPairingById now p)"
  unfolding revokeBrowserPairing_def revokeBrowserPairingById_def getBrowserPairingById_def by (intro keep_intros)+

lemma keeping_lists [keep_intros]:
  "keeping P listActiveRelayTokenUsers" "keeping P listActiveBrowserPairings" "keeping P listRelayAgentSummaries"
  "keeping P listRelayUserSummaries" "keeping P (listAuditEvents n)" "keeping P (listBrowserSessions now u)"
  "keeping P (listAdminSessions now i)" "keeping P (listAdminPasskeys i)" "keeping P (getAdminPasskey i c)"
  "keeping P (countAdminRecoveryCodes i)" "keeping P countAdminAccounts" "keeping P (getAdminAccountCredentials un)"
  "keeping P (getAdminAccountCredentialsById i)"
  unfolding listActiveRelayTokenUsers_def listActiveBrowserPairings_def listRelayAgentSummaries_def
    listRelayUserSummaries_def listAuditEvents_def listBrowserSessions_def listAdminSessions_def
    listAdminPasskeys_def getAdminPasskey_def countAdminRecoveryCodes_def countAdminAccounts_def
    getAdminAccountCredentials_def getAdminAccountCredentialsById_def
  by (intro keep_intros)+

lemma find_user_in: "find_user n d = Some u \<Longrightarrow> u \<in> set (db_users d) \<and> us_name u = n"
  unfolding find_user_def by (drule find_in) simp

text \<open>An audit event refers to a user that was just looked up.\<close>

lemma insert_audit_row:
  "db_inv d \<Longrightarrow> \<forall>a \<in> set (db_audit d). aw_id a \<noteq> aw_id r \<Longrightarrow>
     \<forall>k. aw_user r = Some k \<longrightarrow> (\<exists>u \<in> set (db_users d). us_id u = k) \<Longrightarrow> db_inv (d\<lparr>db_audit := db_audit d @ [r]\<rparr>)"
  by (simp add: inv_defs)

lemma requireDbText_cases: "requireDbText v f s = (Inr (trim v), s) \<or> (\<exists>e. requireDbText v f s = (Inl e, s))"
  by (simp add: requireDbText_def Let_def)

lemma keeping_audit [keep_intros]: "keeping db_inv (insertAuditEvent now i a)"
proof (rule keepingI)
  fix d assume d: "db_inv d"
  have row: "db_inv (snd ((if \<exists>a \<in> set (db_audit d). aw_id a = j then throw_op e
        else put_op (\<lambda>d. d\<lparr>db_audit := db_audit d @ [r]\<rparr>)) d))"
    if "aw_id r = j" "\<forall>k. aw_user r = Some k \<longrightarrow> (\<exists>u \<in> set (db_users d). us_id u = k)" for e r j
    using that d by (auto intro: insert_audit_row)
  show "db_inv (snd (insertAuditEvent now i a d))"
  proof (cases "trim (ai_event a) = [] \<or> trim (ai_actorType a) = [] \<or> ai_user a \<noteq> [] \<and> trim (ai_user a) = []")
    case True
    then show ?thesis using d by (auto simp: insertAuditEvent_def requireDbText_def getRelayUser_def Let_def)
  next
    case False
    have u: "\<forall>k. map_option us_id (find_user n d) = Some k \<longrightarrow> (\<exists>u \<in> set (db_users d). us_id u = k)" for n
      by (auto dest: find_user_in)
    show ?thesis
      using False row u
      by (cases "ai_user a = []") (simp_all add: insertAuditEvent_def requireDbText_def getRelayUser_def Let_def)
  qed
qed

lemma keeping_create_session [keep_intros]: "keeping db_inv (createBrowserSession H now i u t e b ip ua)"
  unfolding createBrowserSession_def by (intro keep_intros)

lemma keeping_session [keep_intros]: "keeping db_inv (getBrowserSession H now t)"
  unfolding getBrowserSession_def by (intro keep_intros) (simp_all add: inv_defs)

lemma keeping_revoke_sessions [keep_intros]: "keeping db_inv (revoke_sessions P now)"
  unfolding revoke_sessions_def by (intro keep_intros) (simp_all add: inv_defs)

lemma keeping_revocations [keep_intros]:
  "keeping db_inv (revokeBrowserSession H now t)" "keeping db_inv (revokeBrowserSessionById now u i)"
  "keeping db_inv (revokeOtherBrowserSessions now u i)" "keeping db_inv (revokeAllBrowserSessions now u)"
  unfolding revokeBrowserSession_def revokeBrowserSessionById_def revokeOtherBrowserSessions_def
    revokeAllBrowserSessions_def
  by (intro keep_intros)+

lemma keeping_purge_sessions [keep_intros]: "keeping db_inv (purgeBrowserSessions now)"
  unfolding purgeBrowserSessions_def delete_sessions_def by (intro keep_intros) (simp_all add: inv_defs)

lemma recovery_replaced:
  assumes "db_inv d" "u \<in> set (db_users d)" "ry_user r = us_id u"
    "\<forall>x. x \<in> set (db_recovery d) \<longrightarrow> ry_user x = us_id u \<or> ry_id x \<noteq> ry_id r \<and> ry_hash x \<noteq> ry_hash r"
  shows "db_inv (d\<lparr>db_recovery := filter (\<lambda>r. ry_user r \<noteq> us_id u) (db_recovery d) @ [r]\<rparr>)"
  using assms by (auto simp: inv_defs)

lemma requireRelayUser_cases:
  "(\<exists>e. requireRelayUser n d = (Inl e, d))
   \<or> (\<exists>u. requireRelayUser n d = (Inr u, d) \<and> u \<in> set (db_users d) \<and> us_name u = trim n)"
  by (auto simp: requireRelayUser_def getRelayUser_def requireDbText_def Let_def split: option.split
      dest: find_user_in)

lemma keeping_create_code [keep_intros]: "keeping db_inv (createAccountRecoveryCode now i n h e)"
proof (rule keepingI)
  fix d assume d: "db_inv d"
  show "db_inv (snd (createAccountRecoveryCode now i n h e d))"
    using requireRelayUser_cases [of n d]
  proof (elim disjE exE conjE)
    fix u assume u: "requireRelayUser n d = (Inr u, d)" "u \<in> set (db_users d)"
    note b = bind_op_Inr [where m = "requireRelayUser n", OF u(1)]
    show ?thesis
      using d u(2) by (auto simp: createAccountRecoveryCode_def b requireDbText_def Let_def transaction_def
        intro!: recovery_replaced)
  next
    fix e' assume e: "requireRelayUser n d = (Inl e', d)"
    show ?thesis
      using d by (simp add: createAccountRecoveryCode_def bind_op_Inl [where m = "requireRelayUser n", OF e])
  qed
qed

lemma keeping_consume_code [keep_intros]: "keeping db_inv (consumeAccountRecoveryCode now n h)"
  unfolding consumeAccountRecoveryCode_def by (intro keep_intros) (simp_all add: inv_defs)

lemma keeping_purges [keep_intros]:
  "keeping db_inv (purgeAccountRecoveryCodes now)" "keeping db_inv clearBrowserSessionMetadata"
  "keeping db_inv (purgeAuditEvents b)"
  unfolding purgeAccountRecoveryCodes_def clearBrowserSessionMetadata_def purgeAuditEvents_def
  by (intro keep_intros; simp add: inv_defs)+

subsection \<open>The tables of the administrators\<close>

lemma keeping_create_admin [keep_intros]: "keeping db_inv (createAdminAccount now i u n p r)"
  unfolding createAdminAccount_def by (intro keep_intros)

lemma keeping_update_admins [keep_intros]: "keeping db_inv (setAdminLastLogin now i)" "keeping db_inv (setAdminPassword now i h)"
  unfolding setAdminLastLogin_def setAdminPassword_def update_admins_def
  by (intro keep_intros; simp add: inv_defs)+

lemma keeping_admin_session [keep_intros]: "keeping db_inv (createAdminSession H now i a t e ip ua)"
  unfolding createAdminSession_def by (intro keep_intros)

lemma keeping_get_admin_session [keep_intros]: "keeping db_inv (getAdminSession H now idle t)"
  unfolding getAdminSession_def by (intro keep_intros) (simp_all add: inv_defs)

lemma keeping_revoke_admin_sessions [keep_intros]: "keeping db_inv (revoke_admin_sessions P now)"
  unfolding revoke_admin_sessions_def by (intro keep_intros) (simp_all add: inv_defs)

lemma keeping_admin_revocations [keep_intros]:
  "keeping db_inv (revokeAdminSessionById now a i)" "keeping db_inv (revokeOtherAdminSessions now a i)"
  "keeping db_inv (revokeAllAdminSessions now a)"
  unfolding revokeAdminSessionById_def revokeOtherAdminSessions_def revokeAllAdminSessions_def
  by (intro keep_intros)+

lemma purge_challenges:
  "opt_refs ch_session cs sr_id rs \<Longrightarrow>
     opt_refs ch_session (filter (\<lambda>c. \<forall>s \<in> set (map sr_id (filter (\<lambda>r. \<not> Q r) rs)). ch_session c \<noteq> Some s) cs) sr_id (filter Q rs)"
  by (fastforce simp: opt_refs_def list_all_iff split: option.splits)

lemma keeping_purge_admin_sessions [keep_intros]: "keeping db_inv (purgeAdminSessions now)"
  unfolding purgeAdminSessions_def
  by (rule keeping_get) (use purge_challenges [where Q = "session_valid now"] in \<open>auto simp: inv_defs\<close>)

lemma keeping_admin_metadata [keep_intros]: "keeping db_inv clearAdminSessionMetadata"
  unfolding clearAdminSessionMetadata_def by (intro keep_intros) (simp_all add: inv_defs)

lemma keeping_passkey [keep_intros]: "keeping db_inv (createAdminPasskey now r)"
  unfolding createAdminPasskey_def by (intro keeping_bind keeping_text keeping_get) (auto simp: inv_defs)

lemma keeping_usage [keep_intros]:
  "keeping db_inv (updateAdminPasskeyUsage now a c n ty b)" "keeping db_inv (deleteAdminPasskey a c)"
  unfolding updateAdminPasskeyUsage_def deleteAdminPasskey_def by (intro keep_intros; simp add: inv_defs)+

lemma keeping_challenge [keep_intros]:
  "keeping db_inv (createAdminMfaChallenge H now i a f p c origin rp s e)"
  unfolding createAdminMfaChallenge_def Let_def
  by (intro keeping_bind keeping_text keeping_get) (auto simp: inv_defs)

lemma keeping_consume [keep_intros]: "keeping db_inv (consumeAdminMfaChallenge H now f p a s)"
  unfolding consumeAdminMfaChallenge_def by (intro keep_intros) (simp_all add: inv_defs)

lemma keeping_replace_codes [keep_intros]: "keeping db_inv (replaceAdminRecoveryCodes now us a hs)"
  unfolding replaceAdminRecoveryCodes_def by (intro keep_intros) (simp_all add: inv_defs)

lemma keeping_consume_admin_code [keep_intros]: "keeping db_inv (consumeAdminRecoveryCode now a h)"
  unfolding consumeAdminRecoveryCode_def by (intro keep_intros) (simp_all add: inv_defs)

lemma keeping_clear_mfa [keep_intros]: "keeping db_inv (clearAdminMfa a)"
  unfolding clearAdminMfa_def by (intro keep_intros) (simp_all add: inv_defs)

end
