(* ===== verification/WebFacts.thy ===== *)
theory WebFacts
  imports Server DbFacts
begin

section \<open>Every handler keeps the integrity of the database\<close>

definition on_db :: "(relay_db \<Rightarrow> bool) \<Rightarrow> web \<Rightarrow> bool" where
  "on_db P w = P (w_db w)"

lemma keeping_with_db [keep_intros]: "keeping P m \<Longrightarrow> keeping (on_db P) (with_db m)"
  unfolding with_db_def by (rule keeping_on_part) (simp_all add: on_db_def)

lemma on_db_simps [simp]:
  "on_db P (w\<lparr>w_rates := r\<rparr>) = on_db P w" "on_db P (w\<lparr>w_invites := i\<rparr>) = on_db P w"
  "on_db P (w\<lparr>w_users := u\<rparr>) = on_db P w" "on_db P (w\<lparr>w_effects := e\<rparr>) = on_db P w"
  by (simp_all add: on_db_def)

lemma keeping_sum [keep_intros]:
  "(\<And>a. z = Inl a \<Longrightarrow> keeping P (f a)) \<Longrightarrow> (\<And>b. z = Inr b \<Longrightarrow> keeping P (g b)) \<Longrightarrow>
     keeping P (case z of Inl a \<Rightarrow> f a | Inr b \<Rightarrow> g b)"
  by (cases z) auto

subsection \<open>Shared parts\<close>

lemma keeping_effect [keep_intros]: "keeping (on_db P) (effect e)"
  unfolding effect_def by (intro keep_intros) simp

lemma keeping_clear [keep_intros]: "keeping (on_db P) (clearAttempts q b)"
  unfolding clearAttempts_def by (intro keep_intros) simp

lemma keeping_allow [keep_intros]: "keeping (on_db P) (allowAttempt C T q b n)"
  unfolding allowAttempt_def by (intro keep_intros) (simp add: case_prod_beta Let_def)

lemma keeping_invites [keep_intros]: "keeping (on_db P) (hasInvite H T v)" "keeping (on_db P) (consumeInvite H v)"
  unfolding hasInvite_def consumeInvite_def by (intro keep_intros; simp add: case_prod_beta Let_def)+

lemma keeping_reload [keep_intros]: "keeping (on_db P) (reloadRelayUsers H C)"
  unfolding reloadRelayUsers_def by (intro keep_intros) (simp split: sum.split)

lemma keeping_write_audit [keep_intros]:
  "keeping (on_db db_inv) (write_audit C T q j ty ai i)" "keeping (on_db db_inv) (insertAccountAuditEvent C T q j e u m)"
  "keeping (on_db db_inv) (insertAdminAuditEvent C T q j a i)"
  unfolding insertAccountAuditEvent_def insertAdminAuditEvent_def write_audit_def by (intro keep_intros)+

lemma keeping_get_session [keep_intros]:
  "keeping (on_db db_inv) (getAccountSession H C T q)" "keeping (on_db db_inv) (getAdminSessionOf H C T q)"
  unfolding getAccountSession_def getAdminSessionOf_def by (intro keep_intros)+

lemma keeping_new_session [keep_intros]:
  "keeping (on_db db_inv) (createAccountSession H C T q i j u)" "keeping (on_db db_inv) (createAdminLoginSession H C T q i j a)"
  unfolding createAccountSession_def createAdminLoginSession_def by (intro keep_intros)+

lemma keeping_required [keep_intros]:
  "keeping P (requireAccountUserId v)" "keeping P (requireAccountDisplayName v)" "keeping P (requireAccountPassword v)"
  "keeping P (requireAdminLoginName v)" "keeping P (requirePasskeyName v)" "keeping P (requireAdminUserId u)"
  "keeping P (decoded s)" "keeping P (readJsonBody H cs)" "keeping P (webauthn_context H C q)"
  unfolding requireAccountUserId_def requireAccountDisplayName_def requireAccountPassword_def
    requireAdminLoginName_def requirePasskeyName_def requireAdminUserId_def decoded_def readJsonBody_def
    webauthn_context_def
  by (intro keep_intros)+

lemma keeping_fields [keep_intros]: "keeping P (fields_of b)"
  unfolding fields_of_def by (cases b) (auto intro: keep_intros)

lemma keeping_guards [keep_intros]:
  "keeping (on_db P) m \<Longrightarrow> keeping (on_db P) (limited C T q b n m)"
  "(\<And>s. keeping (on_db db_inv) (f s)) \<Longrightarrow> keeping (on_db db_inv) (with_account H C T q f)"
  "(\<And>s. keeping (on_db db_inv) (g s)) \<Longrightarrow> keeping (on_db db_inv) (with_owner H C T q g)"
  unfolding limited_def with_account_def with_owner_def by (intro keep_intros; assumption)+

subsection \<open>Accounts\<close>

lemma keeping_account_route [keep_intros]: "keeping (on_db db_inv) (account_route H C T q)"
  unfolding account_route_def account_status_def account_me_def account_sessions_def account_revoke_def
    account_revoke_others_def account_logout_def account_rotate_def
  by (intro keep_intros)

lemma keeping_account_begin [keep_intros]: "keeping (on_db db_inv) (account_begin H C T q)"
  unfolding account_begin_def by (cases "validateApiRequest (wc_relay C) (q_method q) (q_origin q) (q_contentType q)")
    (auto intro: keep_intros)

lemma keeping_account_finish [keep_intros]: "keeping (on_db db_inv) (account_finish H C T q k cs)"
  unfolding account_finish_def account_resume_def
  by (cases k) (auto simp: finish_register_def finish_login_def finish_change_def finish_recover_def intro!: keep_intros)

subsection \<open>Administration\<close>

lemma keeping_sign_in [keep_intros]: "keeping (on_db db_inv) (sign_in H C T q i b buck e n a)"
  unfolding sign_in_def by (intro keep_intros)

lemma keeping_with_token [keep_intros]: "keeping P m \<Longrightarrow> keeping P (with_token H C q m)"
  unfolding with_token_def by (cases "token_admin H C q") (auto intro: keep_intros)

lemma keeping_auth_route [keep_intros]: "keeping (on_db db_inv) (auth_route H C T q)"
  unfolding auth_route_def auth_status_def auth_logout_def auth_me_def Let_def by (intro keep_intros)

lemma keeping_current_password [keep_intros]: "keeping (on_db db_inv) (requireCurrentAdminPassword H s v)"
  unfolding requireCurrentAdminPassword_def by (intro keep_intros)

lemma keeping_owner_only [keep_intros]: "(\<And>s. keeping P (f s)) \<Longrightarrow> keeping P (owner_only C q a m f)"
  unfolding owner_only_def by (cases a) (auto intro: keep_intros)

lemma keeping_mfa_route [keep_intros]: "keeping (on_db db_inv) (mfa_route C T q s)"
  unfolding mfa_route_def mfa_status_def Let_def by (intro keep_intros)

lemma keeping_user_action [keep_intros]: "keeping (on_db db_inv) (admin_user_action H C T q actor e a)"
  unfolding admin_user_action_def user_rotate_def user_revoke_def user_password_reset_def user_disable_def
    user_delete_def
  by (cases a; simp only: user_action.case if_True if_False; intro keep_intros)

lemma keeping_admin_route [keep_intros]: "keeping (on_db db_inv) (admin_route H C T online q actor)"
  unfolding admin_route_def admin_status_def admin_invite_def admin_sessions_def admin_revoke_session_def
    admin_revoke_others_def admin_audit_def admin_users_def admin_devices_def admin_pairings_def
    admin_revoke_pairing_def
  by (intro keep_intros; simp add: case_prod_beta Let_def)

lemma keeping_admin_begin [keep_intros]: "keeping (on_db db_inv) (admin_begin H C T online q)"
  unfolding admin_begin_def authorizeAdminRequest_def
  by (cases "validateApiRequest (wc_relay C) (q_method q) (q_origin q) (q_contentType q)") (auto intro!: keep_intros)

lemma keeping_admin_finish [keep_intros]: "keeping (on_db db_inv) (admin_finish H C T q k cs)"
  unfolding admin_finish_def admin_resume_def
  by (cases k) (auto simp: finish_bootstrap_def finish_admin_login_def finish_mfa_passkey_def finish_mfa_recovery_def
      finish_admin_password_def finish_admin_recover_def finish_create_user_def finish_key_options_def
      finish_key_complete_def finish_regenerate_def finish_disable_mfa_def finish_remove_key_def intro!: keep_intros)

lemma keeping_admin_library [keep_intros]: "keeping (on_db db_inv) (admin_library H C W T q k)"
  unfolding admin_library_def
  by (cases k) (auto simp: resume_login_def resume_passkey_def resume_key_options_def resume_key_complete_def
      intro!: keep_intros)

section \<open>What operations do to users, tokens and sessions\<close>

text \<open>
  \<open>on_view V\<close>: a property of the tables of users, tokens and sessions alone. Most operations do not
  touch these tables. The sections below are about those that do: a socket that a session opened
  stays only while \<open>bearer_ok\<close> holds, an agent token is accepted only while it is \<open>in_force\<close>.
\<close>

definition on_view :: "(user_row list \<Rightarrow> token_row list \<Rightarrow> session_row list \<Rightarrow> bool) \<Rightarrow> relay_db \<Rightarrow> bool" where
  "on_view V d = V (db_users d) (db_tokens d) (db_sessions d)"

lemma on_view_other [simp]:
  "on_view V (d\<lparr>db_agents := a\<rparr>) = on_view V d" "on_view V (d\<lparr>db_pairings := b\<rparr>) = on_view V d"
  "on_view V (d\<lparr>db_recovery := c\<rparr>) = on_view V d" "on_view V (d\<lparr>db_admins := e\<rparr>) = on_view V d"
  "on_view V (d\<lparr>db_admin_sessions := f\<rparr>) = on_view V d" "on_view V (d\<lparr>db_passkeys := g\<rparr>) = on_view V d"
  "on_view V (d\<lparr>db_challenges := h\<rparr>) = on_view V d" "on_view V (d\<lparr>db_codes := k\<rparr>) = on_view V d"
  "on_view V (d\<lparr>db_audit := l\<rparr>) = on_view V d"
  by (simp_all add: on_view_def)

subsection \<open>Operations outside\<close>

lemma view_inserts [keep_intros]:
  "keeping (on_view V) (insert_admin_session r1)" "keeping (on_view V) (insert_agent r2)"
  "keeping (on_view V) (insert_pairing r3)" "keeping (on_view V) (insert_admin r4)" "keeping (on_view V) (insert_code r5)"
  unfolding insert_admin_session_def insert_agent_def insert_pairing_def insert_admin_def insert_code_def
  by (intro keep_intros; simp)+

lemma view_audit [keep_intros]: "keeping (on_view V) (insertAuditEvent now i a)"
  unfolding insertAuditEvent_def by (intro keep_intros; simp)

lemma view_pairings [keep_intros]:
  "keeping (on_view V) (update_pairings P now)" "keeping (on_view V) (revokeBrowserPairing H now u x b)"
  "keeping (on_view V) (revokeBrowserPairingById now p)"
  unfolding revokeBrowserPairing_def revokeBrowserPairingById_def getBrowserPairingById_def update_pairings_def
  by (intro keep_intros; simp)+

lemma view_recovery [keep_intros]:
  "keeping (on_view V) (createAccountRecoveryCode now i n h e)" "keeping (on_view V) (consumeAccountRecoveryCode now n h)"
  "keeping (on_view V) (purgeAccountRecoveryCodes now)" "keeping (on_view V) (purgeAuditEvents b)"
  unfolding createAccountRecoveryCode_def consumeAccountRecoveryCode_def purgeAccountRecoveryCodes_def
    purgeAuditEvents_def
  by (intro keep_intros; simp)+

lemma view_admins [keep_intros]:
  "keeping (on_view V) (createAdminAccount now i u n p r)" "keeping (on_view V) (setAdminLastLogin now a)"
  "keeping (on_view V) (setAdminPassword now a h)" "keeping (on_view V) (createAdminSession H now i a t e ip ua)"
  "keeping (on_view V) (getAdminSession H now idle t)" "keeping (on_view V) (revoke_admin_sessions P now)"
  "keeping (on_view V) (revokeAdminSessionById now a i)" "keeping (on_view V) (revokeOtherAdminSessions now a i)"
  "keeping (on_view V) (revokeAllAdminSessions now a)" "keeping (on_view V) (purgeAdminSessions now)"
  "keeping (on_view V) clearAdminSessionMetadata"
  unfolding createAdminAccount_def setAdminLastLogin_def setAdminPassword_def update_admins_def
    createAdminSession_def getAdminSession_def revoke_admin_sessions_def revokeAdminSessionById_def
    revokeOtherAdminSessions_def revokeAllAdminSessions_def purgeAdminSessions_def clearAdminSessionMetadata_def
  by (intro keep_intros; simp)+

lemma view_mfa [keep_intros]:
  "keeping (on_view V) (createAdminPasskey now r)" "keeping (on_view V) (updateAdminPasskeyUsage now a c n ty b)"
  "keeping (on_view V) (deleteAdminPasskey a c)"
  "keeping (on_view V) (createAdminMfaChallenge H now i a f p c origin rp s e)"
  "keeping (on_view V) (consumeAdminMfaChallenge H now f p a s)"
  "keeping (on_view V) (replaceAdminRecoveryCodes now us a hs)" "keeping (on_view V) (consumeAdminRecoveryCode now a h)"
  "keeping (on_view V) (clearAdminMfa a)"
  unfolding createAdminPasskey_def updateAdminPasskeyUsage_def deleteAdminPasskey_def createAdminMfaChallenge_def
    consumeAdminMfaChallenge_def replaceAdminRecoveryCodes_def consumeAdminRecoveryCode_def clearAdminMfa_def
  by (intro keep_intros; simp)+

subsection \<open>Names of users\<close>

definition names_ok :: "user_row list \<Rightarrow> token_row list \<Rightarrow> session_row list \<Rightarrow> bool" where
  "names_ok us ts ss = (\<forall>u \<in> set us. trim (us_name u) = us_name u)"

text \<open>A text that the database requires is trimmed.\<close>

lemma keeping_text_bind:
  "(\<And>x. trim x = x \<Longrightarrow> keeping P (f x)) \<Longrightarrow> keeping P (bind_op (requireDbText v n) f)"
  unfolding requireDbText_def Let_def by (auto simp: keeping_def)

lemma names_insert [keep_intros]: "trim (us_name r) = us_name r \<Longrightarrow> keeping (on_view names_ok) (insert_user r)"
  unfolding insert_user_def by (intro keep_intros) (auto simp: on_view_def names_ok_def)

lemma names_set:
  "(\<And>r. us_name (f r) = us_name r) \<Longrightarrow> names_ok us ts ss \<Longrightarrow> names_ok (rows_set P f us) ts' ss'"
  by (auto simp: names_ok_def rows_set_def)

lemma names_upsert [keep_intros]: "trim u = u \<Longrightarrow> keeping (on_view names_ok) (upsert_user H now u n)"
  unfolding upsert_user_def by (intro keep_intros) (auto simp: on_view_def intro: names_set)

lemma names_tokens [keep_intros]: "keeping (on_view names_ok) (insert_token r)" "keeping (on_view names_ok) (insert_session s)"
  unfolding insert_token_def insert_session_def by (intro keep_intros; simp add: on_view_def names_ok_def)+

lemma names_import [keep_intros]: "keeping (on_view names_ok) (importRelayUserToken H now i u n t)"
  unfolding importRelayUserToken_def
  by (intro keeping_text_bind keep_intros; simp add: on_view_def names_ok_def)

lemma names_create [keep_intros]: "keeping (on_view names_ok) (createRelayAccount H now i u n p t a b c)"
  unfolding createRelayAccount_def by (intro keeping_text_bind keep_intros; simp)

lemma names_ensure [keep_intros]: "keeping (on_view names_ok) (ensureRelayUser H now u n)"
  unfolding ensureRelayUser_def by (intro keeping_text_bind keep_intros; simp)

lemma names_agent [keep_intros]: "keeping (on_view names_ok) (upsertRelayAgent H now u un x n)"
  unfolding upsertRelayAgent_def by (intro keep_intros; simp)

lemma names_pairing [keep_intros]: "keeping (on_view names_ok) (upsertBrowserPairing H now i u un x n b l)"
  unfolding upsertBrowserPairing_def by (intro keep_intros; simp)

lemma names_users [keep_intros]:
  "keeping (on_view names_ok) (setRelayUserDisabled now u b)" "keeping (on_view names_ok) (setRelayUserPassword u h)"
  "keeping (on_view names_ok) (revokeRelayUserTokens now u n)" "keeping (on_view names_ok) (deleteRelayUser u)"
  unfolding setRelayUserDisabled_def setRelayUserPassword_def revokeRelayUserTokens_def deleteRelayUser_def
  by (intro keep_intros; auto simp: on_view_def delete_users_sel names_ok_def rows_set_def)+

lemma names_sessions [keep_intros]:
  "keeping (on_view names_ok) (createBrowserSession H now i u t e b ip ua)"
  "keeping (on_view names_ok) (getBrowserSession H now t)" "keeping (on_view names_ok) (revoke_sessions P now)"
  "keeping (on_view names_ok) (revokeBrowserSession H now t)" "keeping (on_view names_ok) (revokeBrowserSessionById now u i)"
  "keeping (on_view names_ok) (revokeOtherBrowserSessions now u i)" "keeping (on_view names_ok) (revokeAllBrowserSessions now u)"
  "keeping (on_view names_ok) (purgeBrowserSessions now)" "keeping (on_view names_ok) clearBrowserSessionMetadata"
  unfolding createBrowserSession_def getBrowserSession_def revoke_sessions_def revokeBrowserSession_def
    revokeBrowserSessionById_def revokeOtherBrowserSessions_def revokeAllBrowserSessions_def
    purgeBrowserSessions_def delete_sessions_def clearBrowserSessionMetadata_def
  by (intro keep_intros; simp add: on_view_def names_ok_def)+

subsection \<open>The bearer of a session\<close>

text \<open>
  The user \<open>u\<close> with the session \<open>i\<close>: no row of that session and user was revoked before it expired,
  and the user is not disabled.
\<close>

definition revoked_early :: "session_row \<Rightarrow> bool" where
  "revoked_early r = (case sr_revoked r of None \<Rightarrow> False | Some t \<Rightarrow> t < sr_expires r)"

definition owned_by :: "user_row list \<Rightarrow> jstr \<Rightarrow> session_row \<Rightarrow> bool" where
  "owned_by us u r = ((sr_owner r, u) \<in> (\<lambda>x. (us_id x, us_name x)) ` set us)"

definition bearer_ok :: "jstr \<Rightarrow> jstr \<Rightarrow> user_row list \<Rightarrow> token_row list \<Rightarrow> session_row list \<Rightarrow> bool" where
  "bearer_ok u i us ts ss \<longleftrightarrow>
     (\<forall>r \<in> set ss. sr_id r = i \<and> owned_by us u r \<longrightarrow> \<not> revoked_early r)
     \<and> (\<forall>x \<in> set us. us_name x = u \<longrightarrow> us_disabled x = None)"

definition secure :: "jstr \<Rightarrow> jstr \<Rightarrow> relay_db \<Rightarrow> bool" where
  "secure u i d \<longleftrightarrow> db_inv d \<and> on_view names_ok d \<and> on_view (bearer_ok u i) d"

text \<open>An operation that keeps the integrity, the names and the bearer keeps all three.\<close>

lemma secureI:
  assumes "keeping db_inv m" "keeping (on_view names_ok) m"
    "\<And>d. secure u i d \<Longrightarrow> on_view (bearer_ok u i) (snd (m d))"
  shows "keeping (secure u i) m"
  using assms unfolding keeping_def secure_def by blast

lemma secure_view: "keeping db_inv m \<Longrightarrow> keeping (on_view names_ok) m \<Longrightarrow> keeping (on_view (bearer_ok u i)) m \<Longrightarrow> keeping (secure u i) m"
  unfolding keeping_def secure_def by blast

lemma owned_set [simp]:
  "(\<And>r. us_id (f r) = us_id r \<and> us_name (f r) = us_name r) \<Longrightarrow> owned_by (rows_set P f us) u = owned_by us u"
  by (simp add: owned_by_def fun_eq_iff)

lemma owned_insert: "refs sr_owner ss us_id us \<Longrightarrow> r \<in> set ss \<Longrightarrow> \<forall>x \<in> set us. us_id x \<noteq> us_id n \<Longrightarrow>
    owned_by (us @ [n]) u r = owned_by us u r"
proof -
  assume r: "refs sr_owner ss us_id us" "r \<in> set ss" "\<forall>x \<in> set us. us_id x \<noteq> us_id n"
  then have "sr_owner r \<noteq> us_id n" by (auto simp: refs_def)
  then show ?thesis by (auto simp: owned_by_def)
qed

lemma bearer_insert_user:
  assumes "secure u i d" "\<forall>x \<in> set (db_users d). us_id x \<noteq> us_id n" "us_disabled n = None"
  shows "on_view (bearer_ok u i) (d\<lparr>db_users := db_users d @ [n]\<rparr>)"
proof -
  have "owned_by (db_users d @ [n]) u r = owned_by (db_users d) u r" if "r \<in> set (db_sessions d)" for r
    by (rule owned_insert [OF _ that assms(2)]) (use assms(1) in \<open>simp add: secure_def inv_defs\<close>)
  then show ?thesis using assms(1,3) by (simp add: secure_def on_view_def bearer_ok_def)
qed

lemma secure_insert_user:
  assumes "us_disabled n = None" "trim (us_name n) = us_name n"
  shows "keeping (secure u i) (insert_user n)"
proof (rule secureI)
  fix d assume d: "secure u i d"
  then show "on_view (bearer_ok u i) (snd (insert_user n d))"
    using bearer_insert_user [OF d] assms(1) by (auto simp: insert_user_def secure_def)
qed (intro keep_intros, use assms in \<open>intro keep_intros\<close>)

lemma bearer_users:
  "(\<And>r. us_id (f r) = us_id r \<and> us_name (f r) = us_name r) \<Longrightarrow> (\<And>r. us_disabled r = None \<Longrightarrow> us_disabled (f r) = None) \<Longrightarrow>
     bearer_ok u i us ts ss \<Longrightarrow> bearer_ok u i (rows_set P f us) ts' ss"
  by (auto simp: bearer_ok_def) (auto simp: rows_set_def)

lemma bearer_sessions:
  "(\<And>r. sr_id (f r) = sr_id r \<and> sr_owner (f r) = sr_owner r \<and> (revoked_early (f r) \<longrightarrow> revoked_early r)) \<Longrightarrow>
     bearer_ok u i us ts ss \<Longrightarrow> bearer_ok u i us ts' (rows_set P f ss)"
proof -
  assume f: "\<And>r. sr_id (f r) = sr_id r \<and> sr_owner (f r) = sr_owner r \<and> (revoked_early (f r) \<longrightarrow> revoked_early r)"
    and b: "bearer_ok u i us ts ss"
  have "owned_by us u (f r) = owned_by us u r" for r using f [of r] by (simp add: owned_by_def)
  then show ?thesis using f b by (fastforce simp: bearer_ok_def rows_set_def)
qed

lemma secure_upsert:
  assumes "trim n = n"
  shows "keeping (secure u i) (upsert_user H now n x)"
proof -
  have set: "keeping (secure u i) (put_op (\<lambda>d. d\<lparr>db_users := rows_set P (\<lambda>r. r\<lparr>us_display := x, us_disabled := None\<rparr>) (db_users d)\<rparr>))"
    for P
    by (rule secureI; rule keeping_put | rule keepingI; auto simp: inv_defs on_view_def secure_def
        intro: names_set bearer_users)
  show ?thesis
    unfolding upsert_user_def using assms
    by (intro keep_intros set secure_insert_user) simp_all
qed

named_theorems secure_intros

lemmas secure_up [secure_intros] = secure_insert_user secure_upsert

lemma secure_put:
  assumes "\<And>d. db_inv d \<Longrightarrow> db_inv (g d)" "\<And>d. on_view names_ok d \<Longrightarrow> on_view names_ok (g d)"
    "\<And>d. secure u i d \<Longrightarrow> on_view (bearer_ok u i) (g d)"
  shows "keeping (secure u i) (put_op g)"
  using assms by (auto simp: keeping_def secure_def)

lemma secure_insert_token [secure_intros]: "keeping (secure u i) (insert_token r)"
  by (rule secure_view; (rule keep_intros)?) (auto simp: insert_token_def on_view_def bearer_ok_def intro!: keeping_get)

lemma secure_import [secure_intros]: "keeping (secure u i) (importRelayUserToken H now j n x t)"
  unfolding importRelayUserToken_def
  by (intro keeping_text_bind keep_intros secure_intros secure_put; simp add: inv_defs on_view_def names_ok_def secure_def bearer_ok_def)

lemma secure_create [secure_intros]: "keeping (secure u i) (createRelayAccount H now j n x p t a b c)"
  unfolding createRelayAccount_def by (intro keeping_text_bind keep_intros secure_intros; simp)

lemma secure_ensure [secure_intros]: "keeping (secure u i) (ensureRelayUser H now n x)"
  unfolding ensureRelayUser_def by (intro keeping_text_bind keep_intros secure_intros; simp)

lemma secure_agent [secure_intros]: "keeping (secure u i) (upsertRelayAgent H now n un x dn)"
  unfolding upsertRelayAgent_def
  by (intro keep_intros secure_intros secure_put secure_view; simp add: inv_defs secure_def)

lemma secure_pairing [secure_intros]: "keeping (secure u i) (upsertBrowserPairing H now j n un x dn b l)"
  unfolding upsertBrowserPairing_def
  by (intro keep_intros secure_intros secure_put secure_view; simp add: inv_defs secure_def)

lemma secure_users [secure_intros]:
  "keeping (secure u i) (setRelayUserPassword n h)" "keeping (secure u i) (revokeRelayUserTokens now n tn)"
  "keeping (secure u i) (setRelayUserDisabled now n False)"
proof -
  have set: "keeping (secure u i) (put_op (\<lambda>d. d\<lparr>db_users := rows_set P f (db_users d)\<rparr>))"
    if "\<And>r. us_id (f r) = us_id r \<and> us_name (f r) = us_name r" "\<And>r. us_disabled r = None \<Longrightarrow> us_disabled (f r) = None" for f P
    by (rule secure_put) (use that in \<open>auto simp: inv_defs on_view_def secure_def intro: names_set bearer_users\<close>)
  show "keeping (secure u i) (setRelayUserPassword n h)" "keeping (secure u i) (revokeRelayUserTokens now n tn)"
    "keeping (secure u i) (setRelayUserDisabled now n False)"
    unfolding setRelayUserPassword_def revokeRelayUserTokens_def setRelayUserDisabled_def
    by (intro keep_intros set secure_put; simp add: inv_defs on_view_def names_ok_def secure_def bearer_ok_def)+
qed

lemma bearer_filter:
  "bearer_ok u i us ts ss \<Longrightarrow> bearer_ok u i (filter P us) ts' (filter Q ss)"
  by (auto simp: bearer_ok_def owned_by_def)

lemma secure_delete [secure_intros]: "keeping (secure u i) (deleteRelayUser n)"
  unfolding deleteRelayUser_def
  by (intro keep_intros secure_put delete_users_inv)
    (auto simp: on_view_def delete_users_sel names_ok_def secure_def intro: bearer_filter)

lemma secure_insert_session [secure_intros]: "sr_revoked r = None \<Longrightarrow> keeping (secure u i) (insert_session r)"
proof (rule secureI)
  fix d assume r: "sr_revoked r = None" and d: "secure u i d"
  then show "on_view (bearer_ok u i) (snd (insert_session r d))"
    by (auto simp: secure_def insert_session_def on_view_def bearer_ok_def revoked_early_def)
qed (intro keep_intros)+

lemma secure_sessions [secure_intros]:
  "keeping (secure u i) (createBrowserSession H now j n t e b ip ua)" "keeping (secure u i) (getBrowserSession H now t)"
  "keeping (secure u i) (purgeBrowserSessions now)" "keeping (secure u i) clearBrowserSessionMetadata"
proof -
  have set: "keeping (secure u i) (put_op (\<lambda>d. d\<lparr>db_sessions := rows_set P f (db_sessions d)\<rparr>))"
    if "\<And>r. sr_id (f r) = sr_id r \<and> sr_owner (f r) = sr_owner r \<and> sr_hash (f r) = sr_hash r
        \<and> sr_revoked (f r) = sr_revoked r \<and> sr_expires (f r) = sr_expires r" for f P
  proof -
    have "bearer_ok u i us ts ss \<Longrightarrow> bearer_ok u i us ts' (rows_set P f ss)" for us ts ts' ss
      by (rule bearer_sessions) (use that in \<open>auto simp: revoked_early_def split: option.splits\<close>)
    then show ?thesis by (intro secure_put) (use that in \<open>auto simp: inv_defs on_view_def secure_def names_ok_def\<close>)
  qed
  have del: "keeping (secure u i) (put_op (\<lambda>d. d\<lparr>db_sessions := filter P (db_sessions d)\<rparr>))" for P
    using bearer_filter [where P = "\<lambda>x. True"]
    by (intro secure_put) (auto simp: inv_defs on_view_def secure_def names_ok_def)
  show "keeping (secure u i) (createBrowserSession H now j n t e b ip ua)" "keeping (secure u i) (getBrowserSession H now t)"
    "keeping (secure u i) (purgeBrowserSessions now)" "keeping (secure u i) clearBrowserSessionMetadata"
    unfolding createBrowserSession_def getBrowserSession_def purgeBrowserSessions_def delete_sessions_def clearBrowserSessionMetadata_def
    by (intro keep_intros secure_intros set del; simp)+
qed

end
