(* ===== verification/SessionFacts.thy ===== *)
theory SessionFacts
  imports WebFacts
begin

section \<open>Revoked sessions and the effects that close their sockets\<close>

text \<open>
  \<open>clean_but K u i w\<close>: the bearer (user \<open>u\<close>, session \<open>i\<close>) is in order, or an effect of the handler
  closes its sockets, or \<open>K\<close>. A handler that revokes a session leaves \<open>clean_but False\<close> for the
  moment between the database and the effect; every handler ends with it.
\<close>

subsection \<open>Operations that keep the bearer\<close>

lemma secure_outside [secure_intros]:
  "keeping (secure u i) (insertAuditEvent now j ai)" "keeping (secure u i) (revokeBrowserPairing H now n x b)"
  "keeping (secure u i) (revokeBrowserPairingById now p)"
  "keeping (secure u i) (createAccountRecoveryCode now j n h e)" "keeping (secure u i) (consumeAccountRecoveryCode now n h)"
  "keeping (secure u i) (purgeAccountRecoveryCodes now)" "keeping (secure u i) (purgeAuditEvents bf)"
  "keeping (secure u i) (createAdminAccount now j n dn p r)" "keeping (secure u i) (setAdminLastLogin now a)"
  "keeping (secure u i) (setAdminPassword now a h)" "keeping (secure u i) (createAdminSession H now j a t e ip ua)"
  "keeping (secure u i) (getAdminSession H now idle t)" "keeping (secure u i) (revokeAdminSessionById now a j)"
  "keeping (secure u i) (revokeOtherAdminSessions now a j)" "keeping (secure u i) (revokeAllAdminSessions now a)"
  "keeping (secure u i) (purgeAdminSessions now)" "keeping (secure u i) clearAdminSessionMetadata"
  "keeping (secure u i) (createAdminPasskey now pk)" "keeping (secure u i) (updateAdminPasskeyUsage now a c n2 ty b2)"
  "keeping (secure u i) (deleteAdminPasskey a c)" "keeping (secure u i) (createAdminMfaChallenge H now j a f pu c origin rp s e)"
  "keeping (secure u i) (consumeAdminMfaChallenge H now f pu a s)" "keeping (secure u i) (replaceAdminRecoveryCodes now us a hs)"
  "keeping (secure u i) (consumeAdminRecoveryCode now a h)" "keeping (secure u i) (clearAdminMfa a)"
  by (rule secure_view; intro keep_intros)+

subsection \<open>Revocations\<close>

definition secure_but :: "bool \<Rightarrow> jstr \<Rightarrow> jstr \<Rightarrow> relay_db \<Rightarrow> bool" where
  "secure_but K u i d \<longleftrightarrow> db_inv d \<and> on_view names_ok d \<and> (K \<or> on_view (bearer_ok u i) d)"

lemma secure_but_False: "secure_but False u i = secure u i"
  by (simp add: secure_but_def secure_def fun_eq_iff)

lemma user_of_id:
  "db_inv d \<Longrightarrow> x \<in> set (db_users d) \<Longrightarrow> owned_by (db_users d) u r \<Longrightarrow> sr_owner r = us_id x \<Longrightarrow> us_name x = u"
  using uniq_eq [of us_id "db_users d"] by (fastforce simp: owned_by_def inv_defs)

lemma revoked_late [simp]: "revoked_early (r\<lparr>sr_revoked := Some now\<rparr>) \<longleftrightarrow> now < sr_expires r"
  by (simp add: revoked_early_def)

text \<open>What a revocation can break: a valid row of the bearer that it selects.\<close>

lemma revoke_secure:
  assumes d: "secure u i d"
    and hit: "\<And>r. r \<in> set (db_sessions d) \<Longrightarrow> P r \<Longrightarrow> sr_revoked r = None \<Longrightarrow> sr_id r = i \<Longrightarrow>
       owned_by (db_users d) u r \<Longrightarrow> now < sr_expires r \<Longrightarrow> K (map sr_id (filter (\<lambda>r. P r \<and> sr_revoked r = None) (db_sessions d)))"
  shows "case revoke_sessions P now d of (Inl e, d1) \<Rightarrow> False | (Inr ids, d1) \<Rightarrow> secure_but (K ids) u i d1"
proof -
  let ?ss = "rows_set (\<lambda>r. P r \<and> sr_revoked r = None) (\<lambda>r. r\<lparr>sr_revoked := Some now\<rparr>) (db_sessions d)"
  let ?ids = "map sr_id (filter (\<lambda>r. P r \<and> sr_revoked r = None) (db_sessions d))"
  have "bearer_ok u i (db_users d) (db_tokens d) ?ss" if no: "\<not> K ?ids"
  proof -
    have "\<not> revoked_early r" if m: "r \<in> set ?ss" and k: "sr_id r = i" "owned_by (db_users d) u r" for r
    proof -
      obtain r0 where r0: "r0 \<in> set (db_sessions d)"
        "r = (if P r0 \<and> sr_revoked r0 = None then r0\<lparr>sr_revoked := Some now\<rparr> else r0)"
        using m by (auto simp: rows_set_def split: if_splits)
      have o: "owned_by (db_users d) u r0" "sr_id r0 = i"
        using k r0(2) by (auto simp: owned_by_def split: if_splits)
      have b: "\<not> revoked_early r0" using d r0(1) o by (auto simp: secure_def on_view_def bearer_ok_def)
      have "P r0 \<and> sr_revoked r0 = None \<Longrightarrow> \<not> now < sr_expires r0" using hit [OF r0(1)] o no by blast
      then show ?thesis using b r0(2) by auto
    qed
    then show ?thesis using d by (auto simp: secure_def on_view_def bearer_ok_def)
  qed
  then show ?thesis
    using d by (auto simp: revoke_sessions_def secure_but_def secure_def on_view_def names_ok_def inv_defs)
qed

lemma requireRelayUser_triple:
  "triple (secure u i) (requireRelayUser n) (\<lambda>x d. secure u i d \<and> x \<in> set (db_users d) \<and> us_name x = trim n) (secure u i)"
proof (rule tripleI)
  fix d x d1 assume "secure u i d" "requireRelayUser n d = (Inr x, d1)"
  then show "secure u i d1 \<and> x \<in> set (db_users d1) \<and> us_name x = trim n"
    using requireRelayUser_cases [of n d] by auto
next
  fix d e d1 assume "secure u i d" "requireRelayUser n d = (Inl e, d1)"
  then show "secure u i d1" using requireRelayUser_cases [of n d] by auto
qed

lemma triple_text:
  "(\<And>s. P s \<Longrightarrow> E s) \<Longrightarrow> (trim v \<noteq> [] \<Longrightarrow> triple P (f (trim v)) Q E) \<Longrightarrow> triple P (bind_op (requireDbText v n) f) Q E"
  by (auto simp: triple_def requireDbText_def Let_def)

lemma revoke_triple:
  assumes "\<And>d r. secure u i d \<Longrightarrow> A d \<Longrightarrow> r \<in> set (db_sessions d) \<Longrightarrow> P r \<Longrightarrow> sr_revoked r = None \<Longrightarrow> sr_id r = i \<Longrightarrow>
      owned_by (db_users d) u r \<Longrightarrow> now < sr_expires r \<Longrightarrow> K (map sr_id (filter (\<lambda>r. P r \<and> sr_revoked r = None) (db_sessions d)))"
  shows "triple (\<lambda>d. secure u i d \<and> A d) (revoke_sessions P now) (\<lambda>ids. secure_but (K ids) u i) (secure u i)"
proof -
  have "case revoke_sessions P now d of (Inl e, d1) \<Rightarrow> False | (Inr ids, d1) \<Rightarrow> secure_but (K ids) u i d1"
    if "secure u i d" "A d" for d
    by (rule revoke_secure [OF that(1)]) (rule assms [OF that])
  then show ?thesis by (fastforce simp: triple_def split: prod.splits sum.splits)
qed

lemma others_triple:
  "triple (secure u i) (revokeOtherBrowserSessions now n keep)
     (\<lambda>(count, ids). secure_but (u = trim n \<and> i \<in> set ids) u i) (secure u i)"
proof -
  have "triple (\<lambda>d. secure u i d \<and> x \<in> set (db_users d) \<and> us_name x = trim n)
      (bind_op (revoke_sessions (\<lambda>r. sr_owner r = us_id x \<and> Q r) now) (\<lambda>ids. return_op (length ids, ids)))
      (\<lambda>(count, ids). secure_but (u = trim n \<and> i \<in> set ids) u i) (secure u i)" for x Q
    by (rule triple_bind [OF revoke_triple [where K = "\<lambda>ids. u = trim n \<and> i \<in> set ids"]])
      (auto intro: triple_return simp: secure_def dest: user_of_id)
  then show ?thesis
    unfolding revokeOtherBrowserSessions_def
    by (intro triple_bind [OF requireRelayUser_triple] triple_text) auto
qed

lemma all_triple:
  "triple (secure u i) (revokeAllBrowserSessions now n)
     (\<lambda>(count, ids). secure_but (u = trim n \<and> i \<in> set ids) u i) (secure u i)"
proof -
  have "triple (\<lambda>d. secure u i d \<and> x \<in> set (db_users d) \<and> us_name x = trim n)
      (bind_op (revoke_sessions (\<lambda>r. sr_owner r = us_id x) now) (\<lambda>ids. return_op (length ids, ids)))
      (\<lambda>(count, ids). secure_but (u = trim n \<and> i \<in> set ids) u i) (secure u i)" for x
    by (rule triple_bind [OF revoke_triple [where K = "\<lambda>ids. u = trim n \<and> i \<in> set ids"]])
      (auto intro: triple_return simp: secure_def dest: user_of_id)
  then show ?thesis
    unfolding revokeAllBrowserSessions_def by (intro triple_bind [OF requireRelayUser_triple]) auto
qed

lemma by_id_triple:
  "triple (secure u i) (revokeBrowserSessionById now n sid)
     (\<lambda>count. secure_but (u = trim n \<and> i = trim sid \<and> count \<noteq> 0) u i) (secure u i)"
proof -
  have "triple (\<lambda>d. secure u i d \<and> x \<in> set (db_users d) \<and> us_name x = trim n)
      (bind_op (revoke_sessions (\<lambda>r. sr_id r = trim sid \<and> sr_owner r = us_id x) now) (\<lambda>ids. return_op (length ids)))
      (\<lambda>count. secure_but (u = trim n \<and> i = trim sid \<and> count \<noteq> 0) u i) (secure u i)" for x
    by (rule triple_bind [OF revoke_triple [where K = "\<lambda>ids. u = trim n \<and> i = trim sid \<and> ids \<noteq> []"]])
      (auto intro: triple_return simp: secure_def filter_empty_conv dest: user_of_id)
  then show ?thesis
    unfolding revokeBrowserSessionById_def
    by (intro triple_bind [OF requireRelayUser_triple] triple_text) auto
qed

text \<open>The row that a token selects is the one that its lookup found, as long as it is valid.\<close>

lemma find_session_row:
  assumes d: "secure u i d" and r: "r \<in> set (db_sessions d)" "sr_hash r = hashToken H t" "session_valid now r"
    and o: "sr_id r = i" "owned_by (db_users d) u r"
  shows "\<exists>s. find_session H now t d = Some s \<and> as_user s = u \<and> as_id s = i"
proof -
  have inv: "db_inv d" using d by (simp add: secure_def)
  let ?P = "\<lambda>r. sr_hash r = hashToken H t \<and> session_valid now r"
  obtain r1 where r1: "find ?P (db_sessions d) = Some r1" using r find_absent [of ?P "db_sessions d"] by (cases "find ?P (db_sessions d)") auto
  then have "r1 = r" using find_in [OF r1] r inv uniq_eq [of sr_hash "db_sessions d" r1 r] by (auto simp: inv_defs)
  obtain x where x: "x \<in> set (db_users d)" "us_id x = sr_owner r" "us_name x = u" using o(2) by (auto simp: owned_by_def)
  then have e: "us_disabled x = None" using d by (auto simp: secure_def on_view_def bearer_ok_def)
  let ?Q = "\<lambda>y. us_id y = sr_owner r \<and> us_disabled y = None"
  obtain y where y: "find ?Q (db_users d) = Some y" using x e find_absent [of ?Q "db_users d"] by (cases "find ?Q (db_users d)") auto
  then have "y = x" using find_in [OF y] x inv uniq_eq [of us_id "db_users d" y x] by (auto simp: inv_defs)
  then show ?thesis using r1 y x o \<open>r1 = r\<close> by (simp add: find_session_def)
qed

lemma by_token_triple:
  "triple (\<lambda>d. secure u i d \<and> (trim t \<noteq> [] \<longrightarrow> z = find_session H now (trim t) d)) (revokeBrowserSession H now t)
     (\<lambda>n. secure_but (\<exists>s. z = Some s \<and> as_user s = u \<and> as_id s = i) u i) (secure u i)"
proof -
  have v: "session_valid now r \<longleftrightarrow> sr_revoked r = None \<and> now < sr_expires r" for r by (simp add: session_valid_def)
  have "triple (\<lambda>d. secure u i d \<and> z = find_session H now (trim t) d)
      (bind_op (revoke_sessions (\<lambda>r. sr_hash r = hashToken H (trim t)) now) (\<lambda>ids. return_op (length ids)))
      (\<lambda>n. secure_but (\<exists>s. z = Some s \<and> as_user s = u \<and> as_id s = i) u i) (secure u i)"
    by (rule triple_bind [OF revoke_triple [where K = "\<lambda>ids. \<exists>s. z = Some s \<and> as_user s = u \<and> as_id s = i"]])
      (use find_session_row v in \<open>blast intro: triple_return\<close>)+
  then show ?thesis
    unfolding revokeBrowserSession_def by (intro triple_text) (auto intro: triple_conseq)
qed

lemma find_rows_set:
  "(\<And>r. Q (f r) = Q r) \<Longrightarrow> find Q (rows_set P f rs) = map_option (\<lambda>r. if P r then f r else r) (find Q rs)"
  by (induction rs) (auto simp: rows_set_def)

lemma find_session_touch:
  "find_session H now t (d\<lparr>db_sessions := rows_set P (\<lambda>r. r\<lparr>sr_seen := x\<rparr>) (db_sessions d)\<rparr>) = find_session H now t d"
  by (simp add: find_session_def find_rows_set session_valid_def split: option.split)

lemma lookup_triple:
  assumes "keeping P (getBrowserSession H now t)"
  shows "triple P (getBrowserSession H now t) (\<lambda>z d. P d \<and> z = find_session H now (trim t) d) (\<lambda>d. P d \<and> trim t = [])"
proof (rule tripleI)
  fix d z d1 assume d: "P d" "getBrowserSession H now t d = (Inr z, d1)"
  have "P d1" using keepingD [OF assms d(1)] d(2) by simp
  moreover have "z = find_session H now (trim t) d1"
    using d(2) by (auto simp: getBrowserSession_def requireDbText_def Let_def find_session_touch split: if_splits option.splits)
  ultimately show "P d1 \<and> z = find_session H now (trim t) d1" by simp
next
  fix d e d1 assume d: "P d" "getBrowserSession H now t d = (Inl e, d1)"
  then show "P d1 \<and> trim t = []"
    using keepingD [OF assms d(1)] by (auto simp: getBrowserSession_def requireDbText_def Let_def split: if_splits option.splits)
qed

text \<open>Disabling a user concerns the bearers of that user only.\<close>

lemma disable_triple:
  "triple (secure u i) (setRelayUserDisabled now n True) (\<lambda>_. secure_but (u = trim n) u i) (secure u i)"
  unfolding setRelayUserDisabled_def
proof (rule triple_bind [OF requireRelayUser_triple])
  fix x
  show "triple (\<lambda>d. secure u i d \<and> x \<in> set (db_users d) \<and> us_name x = trim n)
      (put_op (\<lambda>d. d\<lparr>db_users := rows_set (\<lambda>u. us_id u = us_id x) (\<lambda>u. u\<lparr>us_disabled := (if True then Some now else None)\<rparr>) (db_users d)\<rparr>))
      (\<lambda>_. secure_but (u = trim n) u i) (secure u i)"
  proof (rule triple_put)
    fix d assume d: "secure u i d \<and> x \<in> set (db_users d) \<and> us_name x = trim n"
    have "us_name y = u \<Longrightarrow> us_disabled y = None" if m: "y \<in> set (rows_set (\<lambda>u. us_id u = us_id x) (\<lambda>u. u\<lparr>us_disabled := Some now\<rparr>) (db_users d))"
      and ne: "u \<noteq> trim n" for y
    proof -
      assume y: "us_name y = u"
      obtain z where z: "z \<in> set (db_users d)" "y = (if us_id z = us_id x then z\<lparr>us_disabled := Some now\<rparr> else z)"
        using m by (auto simp: rows_set_def)
      have "us_id z = us_id x \<Longrightarrow> z = x" using d z(1) uniq_eq [of us_id "db_users d" z x] by (auto simp: secure_def inv_defs)
      then show ?thesis using d z y ne by (auto simp: secure_def on_view_def bearer_ok_def split: if_splits)
    qed
    then show "secure_but (u = trim n) u i (d\<lparr>db_users := rows_set (\<lambda>u. us_id u = us_id x) (\<lambda>u. u\<lparr>us_disabled := (if True then Some now else None)\<rparr>) (db_users d)\<rparr>)"
      using d by (auto simp: secure_but_def secure_def inv_defs on_view_def bearer_ok_def intro: names_set)
  qed
qed

subsection \<open>Handlers\<close>

definition closes :: "web_effect \<Rightarrow> jstr \<Rightarrow> jstr \<Rightarrow> bool" where
  "closes e u i = (case e of
     CloseSessionsOf v ids reason \<Rightarrow> v = u \<and> i \<in> set ids
   | CloseClientsOf v reason \<Rightarrow> v = u
   | _ \<Rightarrow> False)"

definition clean_but :: "bool \<Rightarrow> jstr \<Rightarrow> jstr \<Rightarrow> web \<Rightarrow> bool" where
  "clean_but K u i w \<longleftrightarrow> db_inv (w_db w) \<and> on_view names_ok (w_db w)
     \<and> (K \<or> (\<exists>e \<in> set (w_effects w). closes e u i) \<or> on_view (bearer_ok u i) (w_db w))"

abbreviation clean :: "jstr \<Rightarrow> jstr \<Rightarrow> web \<Rightarrow> bool" where
  "clean \<equiv> clean_but False"

lemma clean_secure: "secure u i (w_db w) \<Longrightarrow> clean_but K u i w"
  by (simp add: secure_def clean_but_def)

lemma clean_db:
  assumes "keeping db_inv m" "keeping (on_view names_ok) m" "keeping (secure u i) m"
  shows "keeping (clean_but K u i) (with_db m)"
  using assms by (auto simp: keeping_def with_db_def on_part_def clean_but_def secure_def split_beta Let_def)

lemma clean_db_triple:
  assumes "keeping db_inv m" "keeping (on_view names_ok) m"
    "triple (\<lambda>d. secure u i d \<and> A d) m (\<lambda>x. secure_but (K x) u i) (secure u i)"
  shows "triple (\<lambda>w. clean u i w \<and> A (w_db w)) (with_db m) (\<lambda>x. clean_but (K x) u i) (clean u i)"
proof (rule tripleI)
  fix w x w1 assume w: "clean u i w \<and> A (w_db w)" "with_db m w = (Inr x, w1)"
  then have m: "m (w_db w) = (Inr x, w_db w1)" and e: "w_effects w1 = w_effects w"
    by (auto simp: with_db_def on_part_def split_beta Let_def prod_eq_iff)
  have "db_inv (w_db w1) \<and> on_view names_ok (w_db w1)"
    using keepingD [OF assms(1)] keepingD [OF assms(2)] w(1) m by (metis clean_but_def snd_conv)
  moreover have "secure u i (w_db w) \<Longrightarrow> secure_but (K x) u i (w_db w1)"
    using assms(3) m w(1) by (auto simp: triple_def)
  ultimately show "clean_but (K x) u i w1"
    using w(1) e by (auto simp: clean_but_def secure_def secure_but_def)
next
  fix w x w1 assume w: "clean u i w \<and> A (w_db w)" "with_db m w = (Inl x, w1)"
  then have m: "m (w_db w) = (Inl x, w_db w1)" and e: "w_effects w1 = w_effects w"
    by (auto simp: with_db_def on_part_def split_beta Let_def prod_eq_iff)
  have "db_inv (w_db w1) \<and> on_view names_ok (w_db w1)"
    using keepingD [OF assms(1)] keepingD [OF assms(2)] w(1) m by (metis clean_but_def snd_conv)
  moreover have "secure u i (w_db w) \<Longrightarrow> secure u i (w_db w1)"
    using assms(3) m w(1) by (auto simp: triple_def)
  ultimately show "clean u i w1"
    using w(1) e by (auto simp: clean_but_def secure_def)
qed

text \<open>The effect that was missing.\<close>

lemma effect_triple: "(K \<Longrightarrow> closes e u i) \<Longrightarrow> triple (clean_but K u i) (effect e) (\<lambda>_. clean u i) (clean u i)"
  by (auto simp: effect_def triple_def clean_but_def)

lemma clean_other [simp]:
  "clean_but K u i (w\<lparr>w_rates := a\<rparr>) = clean_but K u i w" "clean_but K u i (w\<lparr>w_invites := b\<rparr>) = clean_but K u i w"
  "clean_but K u i (w\<lparr>w_users := c\<rparr>) = clean_but K u i w"
  by (simp_all add: clean_but_def)

lemma clean_effect [secure_intros]: "keeping (clean_but K u i) (effect e)"
  by (auto simp: effect_def keeping_def clean_but_def)

lemma clean_parts [secure_intros]:
  "keeping (clean_but K u i) (clearAttempts q b)" "keeping (clean_but K u i) (allowAttempt C T q b n)"
  "keeping (clean_but K u i) (hasInvite H T v)" "keeping (clean_but K u i) (consumeInvite H v)"
  unfolding clearAttempts_def allowAttempt_def hasInvite_def consumeInvite_def
  by (intro keep_intros; simp add: case_prod_beta Let_def)+

lemma clean_reload [secure_intros]: "keeping (clean_but K u i) (reloadRelayUsers H C)"
  unfolding reloadRelayUsers_def by (intro keep_intros clean_db) (simp split: sum.split)

lemma clean_audit [secure_intros]:
  "keeping (clean_but K u i) (insertAccountAuditEvent C T q j e n m)"
  "keeping (clean_but K u i) (insertAdminAuditEvent C T q j a ai)"
  unfolding insertAccountAuditEvent_def insertAdminAuditEvent_def write_audit_def
  by (intro keep_intros clean_db secure_intros)+

lemma clean_sessions [secure_intros]:
  "keeping (clean_but K u i) (getAccountSession H C T q)" "keeping (clean_but K u i) (getAdminSessionOf H C T q)"
  "keeping (clean_but K u i) (createAccountSession H C T q j1 j2 n)"
  "keeping (clean_but K u i) (createAdminLoginSession H C T q j1 j2 a)"
  unfolding getAccountSession_def getAdminSessionOf_def createAccountSession_def createAdminLoginSession_def
  by (intro keep_intros clean_db secure_intros)+

lemma clean_guards [secure_intros]:
  "keeping (clean_but K u i) m \<Longrightarrow> keeping (clean_but K u i) (limited C T q b n m)"
  "(\<And>s. keeping (clean_but K u i) (f s)) \<Longrightarrow> keeping (clean_but K u i) (with_account H C T q f)"
  "(\<And>s. keeping (clean_but K u i) (g s)) \<Longrightarrow> keeping (clean_but K u i) (with_owner H C T q g)"
  unfolding limited_def with_account_def with_owner_def by (intro keep_intros secure_intros; assumption)+

lemma clean_required [secure_intros]: "keeping (clean_but K u i) (with_db (getRelayUser n))"
  "keeping (clean_but K u i) (with_db (getRelayUserCredentials n))" "keeping (clean_but K u i) (with_db (listBrowserSessions now n))"
  "keeping (clean_but K u i) (with_db countAdminAccounts)"
  by (intro clean_db keep_intros)+

subsection \<open>The session of a request\<close>

lemma find_session_named: "on_view names_ok d \<Longrightarrow> find_session H now t d = Some s \<Longrightarrow> trim (as_user s) = as_user s"
  by (auto simp: find_session_def on_view_def names_ok_def split: option.splits dest: find_in)

definition looked_up :: "host \<Rightarrow> web_config \<Rightarrow> tick \<Rightarrow> request \<Rightarrow> account_session option \<Rightarrow> relay_db \<Rightarrow> bool" where
  "looked_up H C T q z d \<longleftrightarrow> (trim (getAccountToken C q) \<noteq> [] \<longrightarrow> z = find_session (h_sha H) (k_now T) (trim (getAccountToken C q)) d)"

lemma session_triple:
  assumes m: "account_mode C"
  shows "triple (clean u i) (getAccountSession H C T q)
     (\<lambda>z w. clean u i w \<and> looked_up H C T q z (w_db w) \<and> (\<forall>s. z = Some s \<longrightarrow> trim (as_user s) = as_user s)) (clean u i)"
proof (cases "getAccountToken C q = []")
  case True
  then show ?thesis by (auto simp: getAccountSession_def looked_up_def trim_def intro: triple_return)
next
  case False
  let ?m = "getBrowserSession (h_sha H) (k_now T) (getAccountToken C q)"
  show ?thesis
  proof (rule tripleI)
    fix w z w1 assume w: "clean u i w" "getAccountSession H C T q w = (Inr z, w1)"
    have k: "clean u i w1" using keepingD [OF clean_sessions(1) w(1)] w(2) by (metis snd_conv)
    have r: "triple (\<lambda>d. True) ?m (\<lambda>z d. True \<and> z = find_session (h_sha H) (k_now T) (trim (getAccountToken C q)) d)
        (\<lambda>d. True \<and> trim (getAccountToken C q) = [])"
      by (rule lookup_triple) (simp add: keeping_def)
    have l: "z = None \<or> z = find_session (h_sha H) (k_now T) (trim (getAccountToken C q)) (w_db w1)"
      and u: "looked_up H C T q z (w_db w1)"
      using w(2) False m r
      by (auto simp: getAccountSession_def attempt_def with_db_def on_part_def triple_def looked_up_def split_beta Let_def
          split: sum.splits prod.splits)
    show "clean u i w1 \<and> looked_up H C T q z (w_db w1) \<and> (\<forall>s. z = Some s \<longrightarrow> trim (as_user s) = as_user s)"
      using k l u find_session_named [of "w_db w1"] by (auto simp: clean_but_def)
  next
    fix w e w1 assume w: "clean u i w" "getAccountSession H C T q w = (Inl e, w1)"
    then show "clean u i w1" using keepingD [OF clean_sessions(1) w(1)] by (metis snd_conv)
  qed
qed

lemma with_account_triple:
  assumes "account_mode C" "\<And>s. trim (as_user s) = as_user s \<Longrightarrow> triple (clean u i) (f s) (\<lambda>_. clean u i) (clean u i)"
  shows "keeping (clean u i) (with_account H C T q f)"
  unfolding triple_keeping with_account_def
proof (rule triple_bind [OF session_triple [OF assms(1)]])
  fix z
  show "triple (\<lambda>w. clean u i w \<and> looked_up H C T q z (w_db w) \<and> (\<forall>s. z = Some s \<longrightarrow> trim (as_user s) = as_user s))
      (case z of None \<Rightarrow> reply_op (notAuthenticated C q) | Some s \<Rightarrow> f s) (\<lambda>_. clean u i) (clean u i)"
    using assms(2) by (cases z) (fastforce simp: triple_def)+
qed

section \<open>Every handler leaves the sockets of revoked sessions to be closed\<close>

text \<open>
  For a bearer (user \<open>u\<close>, session \<open>i\<close>): each part of each handler of the accounts and of the
  administration keeps \<open>clean u i\<close>. The handlers that revoke sessions or disable a user ask for the
  sockets to be closed; the others do not touch the bearer.
\<close>

subsection \<open>Operations that cannot throw\<close>

definition steady :: "('s, 'a) op \<Rightarrow> bool" where
  "steady m = (\<forall>s. \<not> isl (fst (m s)))"

lemma triple_steady:
  "keeping P m \<Longrightarrow> steady m \<Longrightarrow> (\<And>x. triple P (f x) Q E) \<Longrightarrow> triple P (bind_op m f) Q E"
proof (rule triple_bind [of P m "\<lambda>_. P" E], rule tripleI)
  fix s e s1 assume "steady m" "m s = (Inl e, s1)"
  then show "E s1" by (metis steady_def fst_conv isl_def)
next
  fix s x s1 assume "keeping P m" "P s" "m s = (Inr x, s1)"
  then show "P s1" by (metis keepingD snd_conv)
qed

lemma steady_audit [simp]: "steady (insertAccountAuditEvent C T q j e n m)" "steady (insertAdminAuditEvent C T q j a ai)"
  by (auto simp: insertAccountAuditEvent_def insertAdminAuditEvent_def write_audit_def steady_def attempt_def
      split: prod.split sum.split)

lemma steady_reload [simp]: "steady (reloadRelayUsers H C)"
  by (simp add: reloadRelayUsers_def steady_def listActiveRelayTokenUsers_def with_db_def on_part_def bind_op_def)

lemma triple_pure: "keeping P m \<Longrightarrow> triple P m (\<lambda>_. P) P"
  by (simp add: triple_keeping)

subsection \<open>The revocations of the database, under a handler\<close>

lemma clean_db_all:
  assumes "keeping db_inv m" "keeping (on_view names_ok) m" "triple (secure u i) m (\<lambda>x. secure_but (K x) u i) (secure u i)"
  shows "triple (clean u i) (with_db m) (\<lambda>x. clean_but (K x) u i) (clean u i)"
  using clean_db_triple [where A = "\<lambda>_. True" and m = m] assms by simp

lemma clean_by_id:
  "trim n = n \<Longrightarrow> trim sid = sid \<Longrightarrow>
     triple (clean u i) (with_db (revokeBrowserSessionById now n sid)) (\<lambda>c. clean_but (u = n \<and> i = sid \<and> c \<noteq> 0) u i) (clean u i)"
  using clean_db_all [OF _ _ by_id_triple [of u i now n sid]] by (simp add: keep_intros)

lemma clean_many:
  assumes "trim n = n"
  shows "triple (clean u i) (with_db (revokeOtherBrowserSessions now n sid)) (\<lambda>r. clean_but (u = n \<and> i \<in> set (snd r)) u i) (clean u i)"
    "triple (clean u i) (with_db (revokeAllBrowserSessions now n)) (\<lambda>r. clean_but (u = n \<and> i \<in> set (snd r)) u i) (clean u i)"
proof -
  have "triple (secure u i) (revokeOtherBrowserSessions now n sid) (\<lambda>r. secure_but (u = n \<and> i \<in> set (snd r)) u i) (secure u i)"
    "triple (secure u i) (revokeAllBrowserSessions now n) (\<lambda>r. secure_but (u = n \<and> i \<in> set (snd r)) u i) (secure u i)"
    using others_triple [of u i now n sid] all_triple [of u i now n] assms by (simp_all add: case_prod_beta')
  then show "triple (clean u i) (with_db (revokeOtherBrowserSessions now n sid)) (\<lambda>r. clean_but (u = n \<and> i \<in> set (snd r)) u i) (clean u i)"
    "triple (clean u i) (with_db (revokeAllBrowserSessions now n)) (\<lambda>r. clean_but (u = n \<and> i \<in> set (snd r)) u i) (clean u i)"
    by (simp_all add: clean_db_all keep_intros)
qed

lemma clean_disable:
  "trim n = n \<Longrightarrow> triple (clean u i) (with_db (setRelayUserDisabled now n True)) (\<lambda>_. clean_but (u = n) u i) (clean u i)"
  using clean_db_all [OF _ _ disable_triple [of u i now n]] by (simp add: keep_intros)

text \<open>The audit event and the effect after a revocation, and the rest of the handler.\<close>

lemma triple_audited:
  "(\<And>x. triple (clean_but K u i) (f x) Q E) \<Longrightarrow> triple (clean_but K u i) (bind_op (insertAccountAuditEvent C T q j e n m) f) Q E"
  "(\<And>x. triple (clean_but K u i) (f x) Q E) \<Longrightarrow> triple (clean_but K u i) (bind_op (insertAdminAuditEvent C T q j a ai) f) Q E"
  "(\<And>x. triple (clean_but K u i) (g x) Q E) \<Longrightarrow> triple (clean_but K u i) (bind_op (reloadRelayUsers H C) g) Q E"
  by (intro triple_steady steady_audit steady_reload clean_audit clean_reload; assumption)+

lemma triple_closed:
  "(K \<Longrightarrow> closes e u i) \<Longrightarrow> keeping (clean u i) (f ()) \<Longrightarrow> triple (clean_but K u i) (bind_op (effect e) f) (\<lambda>_. clean u i) (clean u i)"
  by (rule triple_bind [OF effect_triple]) (auto simp: triple_keeping)

text \<open>A revocation inside a handler, up to the effect.\<close>

lemma clean_then_close:
  "trim n = n \<Longrightarrow> (\<And>r. triple (clean_but (u = n \<and> i \<in> set (snd r)) u i) (f r) (\<lambda>_. clean u i) (clean u i)) \<Longrightarrow>
     keeping (clean u i) (bind_op (with_db (revokeOtherBrowserSessions now n sid)) f)"
  "trim n = n \<Longrightarrow> (\<And>r. triple (clean_but (u = n \<and> i \<in> set (snd r)) u i) (f r) (\<lambda>_. clean u i) (clean u i)) \<Longrightarrow>
     keeping (clean u i) (bind_op (with_db (revokeAllBrowserSessions now n)) f)"
  "trim n = n \<Longrightarrow> (\<And>r. triple (clean_but (u = n) u i) (g r) (\<lambda>_. clean u i) (clean u i)) \<Longrightarrow>
     keeping (clean u i) (bind_op (with_db (setRelayUserDisabled now n True)) g)"
  unfolding triple_keeping by (rule triple_bind [OF clean_many(1)] triple_bind [OF clean_many(2)] triple_bind [OF clean_disable]; assumption)+

lemmas close_intros = clean_then_close triple_audited triple_closed

subsection \<open>Accounts\<close>

lemma clean_revoke:
  assumes "account_mode C" "\<And>t. decodeURIComponent e = Some t \<Longrightarrow> trim t = t"
  shows "keeping (clean u i) (account_revoke H C T q e)"
  unfolding account_revoke_def Let_def
proof (rule with_account_triple [OF assms(1)])
  fix s assume s: "trim (as_user s) = as_user s"
  show "triple (clean u i)
     (bind_op (decoded e) (\<lambda>sessionId. bind_op (with_db (revokeBrowserSessionById (k_now T) (as_user s) sessionId)) (\<lambda>count.
       if count = 0 then reply_op (fail_json C q 404 (js ''session_not_found'') (js ''session not found''))
       else bind_op (insertAccountAuditEvent C T q 0 ''account.session_revoked'' (as_user s)
                (Some (obj [(''sessionId'', JStr sessionId), (''current'', JBool (sessionId = as_id s))]))) (\<lambda>_.
              bind_op (effect (CloseSessionsOf (as_user s) [sessionId] (js ''browser session revoked''))) (\<lambda>_.
              reply_op (ok_json C q 200 [(''count'', jint (int count)), (''current'', JBool (sessionId = as_id s))]
                (if sessionId = as_id s then clearAccountCookieHeaders C q else [])))))))
     (\<lambda>_. clean u i) (clean u i)"
  proof (cases "decodeURIComponent e")
    case None
    then show ?thesis by (simp add: decoded_def triple_def)
  next
    case (Some t)
    have off: "clean_but (u = n \<and> i = t \<and> c \<noteq> 0) u i = clean u i" if "c = 0" for n and c :: nat
      using that by (simp add: clean_but_def fun_eq_iff)
    show ?thesis
      unfolding decoded_def Some option.case bind_evals
      by (intro triple_bind [OF clean_by_id [OF s assms(2) [OF Some]]] triple_if triple_audited triple_closed triple_return keep_intros)
        (auto simp: off closes_def)
  qed
qed

lemma clean_others: "account_mode C \<Longrightarrow> keeping (clean u i) (account_revoke_others H C T q)"
  unfolding account_revoke_others_def case_prod_beta
  by (rule with_account_triple, assumption)
    (intro triple_bind [OF clean_many(1)] triple_audited triple_closed keep_intros, auto simp: closes_def)

lemma clean_logout:
  assumes m: "account_mode C"
  shows "keeping (clean u i) (account_logout H C T q)"
  unfolding account_logout_def Let_def triple_keeping
proof (rule triple_bind [OF session_triple [OF m]])
  fix z :: "account_session option"
  let ?Z = "\<exists>s. z = Some s \<and> as_user s = u \<and> as_id s = i"
  have rest: "triple (clean_but ?Z u i)
      (bind_op (case z of None \<Rightarrow> return_op () | Some s \<Rightarrow> effect (CloseSessionsOf (as_user s) [as_id s] (js ''account logged out'')))
         (\<lambda>_. reply_op (ok_json C q 200 [] (clearAccountCookieHeaders C q)))) (\<lambda>_. clean u i) (clean u i)"
    by (cases z) (simp_all add: triple_closed keeping_basic triple_return closes_def bind_evals(1) del: op_evals)
  show "triple (\<lambda>w. clean u i w \<and> looked_up H C T q z (w_db w) \<and> (\<forall>s. z = Some s \<longrightarrow> trim (as_user s) = as_user s))
      (bind_op (if getAccountToken C q = [] then return_op 0 else with_db (revokeBrowserSession (h_sha H) (k_now T) (getAccountToken C q))) (\<lambda>_.
       bind_op (case z of None \<Rightarrow> return_op () | Some s \<Rightarrow> effect (CloseSessionsOf (as_user s) [as_id s] (js ''account logged out'')))
         (\<lambda>_. reply_op (ok_json C q 200 [] (clearAccountCookieHeaders C q)))))
      (\<lambda>_. clean u i) (clean u i)"
  proof (rule triple_bind [OF _ rest], rule triple_if)
    show "triple (\<lambda>w. clean u i w \<and> looked_up H C T q z (w_db w) \<and> (\<forall>s. z = Some s \<longrightarrow> trim (as_user s) = as_user s))
        (return_op 0) (\<lambda>_. clean_but ?Z u i) (clean u i)"
      by (rule triple_return) (auto simp: clean_but_def)
    show "triple (\<lambda>w. clean u i w \<and> looked_up H C T q z (w_db w) \<and> (\<forall>s. z = Some s \<longrightarrow> trim (as_user s) = as_user s))
        (with_db (revokeBrowserSession (h_sha H) (k_now T) (getAccountToken C q))) (\<lambda>_. clean_but ?Z u i) (clean u i)"
      by (rule triple_conseq [OF clean_db_triple [where A = "looked_up H C T q z" and K = "\<lambda>_. ?Z", OF _ _ triple_conseq [OF by_token_triple [where z = z]]]])
        (auto simp: looked_up_def intro: keep_intros)
  qed
qed

lemma clean_account_db [secure_intros]:
  "keeping (clean_but K u i) (with_db (importRelayUserToken H now j n x t))"
  "keeping (clean_but K u i) (with_db (createRelayAccount H now j n x p t a b c))"
  "keeping (clean_but K u i) (with_db (setRelayUserPassword n h))"
  "keeping (clean_but K u i) (with_db (consumeAccountRecoveryCode now n h))"
  by (intro clean_db keep_intros secure_intros)+

lemma clean_reads:
  "keeping (clean_but K u i) (account_status H C T q)" "keeping (clean_but K u i) (account_me H C T q)"
  "keeping (clean_but K u i) (account_sessions H C T q)" "keeping (clean_but K u i) (account_rotate H C T q)"
  unfolding account_status_def account_me_def account_sessions_def account_rotate_def
  by (intro keep_intros secure_intros)+

lemma clean_register: "keeping (clean_but K u i) (finish_register H C T q b)"
  unfolding finish_register_def by (intro keep_intros secure_intros)

lemma clean_login: "keeping (clean_but K u i) (finish_login H C T q b)"
  unfolding finish_login_def by (intro keep_intros secure_intros)

lemma clean_change: "trim (as_user s) = as_user s \<Longrightarrow> keeping (clean u i) (finish_change H C T q s b)"
  unfolding finish_change_def case_prod_beta Let_def
  by (intro close_intros keep_intros secure_intros) (auto simp: closes_def)

lemma user_id_trim: "user_id_like x \<Longrightarrow> trim x = x"
  by (rule trim_no_ws)
    (auto simp: user_id_like_def list_all_iff alnum_def char_classes is_ws_def js_def dest!: bspec)

lemma keeping_user_id:
  "(\<And>n. trim n = n \<Longrightarrow> keeping P (f n)) \<Longrightarrow> keeping P (bind_op (requireAccountUserId v) f)"
  "(\<And>n. trim n = n \<Longrightarrow> keeping P (g n)) \<Longrightarrow> keeping P (bind_op (requireAdminUserId x) g)"
  by (auto simp: requireAccountUserId_def requireAdminUserId_def Let_def user_id_trim keeping_basic)

lemma clean_recover: "keeping (clean u i) (finish_recover H C T q b)"
  unfolding finish_recover_def case_prod_beta Let_def
  by (intro keeping_user_id close_intros keep_intros secure_intros) (auto simp: closes_def)

definition kont_ok :: "account_kont \<Rightarrow> bool" where
  "kont_ok k = (case k of KChangePassword s \<Rightarrow> trim (as_user s) = as_user s | _ \<Rightarrow> True)"

text \<open>The identifier in the path of a revocation is decoded to a text without surrounding spaces.\<close>

definition neat :: "request \<Rightarrow> bool" where
  "neat q \<longleftrightarrow> (case segment ''/account/api/sessions/'' ''/revoke'' (q_path q) of
     None \<Rightarrow> True
   | Some e \<Rightarrow> (case decodeURIComponent e of None \<Rightarrow> True | Some t \<Rightarrow> trim t = t))"

lemma clean_account_route: "account_mode C \<Longrightarrow> neat q \<Longrightarrow> keeping (clean u i) (account_route H C T q)"
  unfolding account_route_def Let_def
  by (intro keep_intros clean_reads clean_others clean_logout clean_revoke secure_intros)
    (auto simp: neat_def split: if_splits)

lemma clean_account_begin: "neat q \<Longrightarrow> keeping (clean u i) (account_begin H C T q)"
  unfolding account_begin_def
  by (cases "validateApiRequest (wc_relay C) (q_method q) (q_origin q) (q_contentType q)")
    (auto simp: keeping_basic clean_account_route)

lemma clean_account_finish: "kont_ok k \<Longrightarrow> keeping (clean u i) (account_finish H C T q k cs)"
  unfolding account_finish_def account_resume_def kont_ok_def
  by (cases k) (auto intro!: keeping_bind keeping_required keeping_fields clean_register clean_login clean_change clean_recover)

subsection \<open>Administration\<close>

lemma secure_reads [secure_intros]:
  "keeping (secure u i) countAdminAccounts" "keeping (secure u i) (getAdminAccountCredentials n)"
  "keeping (secure u i) (getAdminAccountCredentialsById a)" "keeping (secure u i) (listAdminSessions idle a)"
  "keeping (secure u i) (listAdminPasskeys a)" "keeping (secure u i) (getAdminPasskey a c)"
  "keeping (secure u i) (countAdminRecoveryCodes a)" "keeping (secure u i) (getRelayUser n)"
  "keeping (secure u i) listActiveBrowserPairings" "keeping (secure u i) listRelayUserSummaries"
  "keeping (secure u i) listRelayAgentSummaries" "keeping (secure u i) (listAuditEvents l)"
  by (rule secure_view; intro keep_intros)+

lemma clean_sign_in [secure_intros]: "keeping (clean_but K u i) (sign_in H C T q j b buck e n a)"
  unfolding sign_in_def by (intro keep_intros secure_intros clean_db)

lemma clean_auth_route: "keeping (clean_but K u i) (auth_route H C T q)"
  unfolding auth_route_def auth_status_def auth_logout_def auth_me_def Let_def
  by (intro keep_intros secure_intros clean_db)

lemma clean_current_password [secure_intros]: "keeping (clean_but K u i) (requireCurrentAdminPassword H s v)"
  unfolding requireCurrentAdminPassword_def by (intro keep_intros secure_intros clean_db)

lemma clean_mfa_route: "keeping (clean_but K u i) (mfa_route C T q s)"
  unfolding mfa_route_def mfa_status_def Let_def by (intro keep_intros secure_intros clean_db)

lemma clean_user_action: "trim n = n \<Longrightarrow> keeping (clean u i) (user_disable H C T q actor b n)"
  unfolding user_disable_def
  by (cases b; simp only: if_True if_False; intro close_intros keep_intros secure_intros clean_db) (auto simp: closes_def)

lemma clean_user_others [secure_intros]:
  "keeping (clean_but K u i) (user_rotate H C T q actor x n)" "keeping (clean_but K u i) (user_revoke H C T q actor n)"
  "keeping (clean_but K u i) (user_password_reset H C T q actor n)" "keeping (clean_but K u i) (user_delete H C T q actor n)"
  unfolding user_rotate_def user_revoke_def user_password_reset_def user_delete_def
  by (intro keep_intros secure_intros clean_db)+

lemma clean_admin_user_action: "keeping (clean u i) (admin_user_action H C T q actor e a)"
  unfolding admin_user_action_def
  by (cases a; simp only: user_action.case; intro keeping_bind keeping_required keeping_user_id(2) keeping_option
      clean_user_action clean_user_others clean_required keeping_basic)

lemma clean_admin_route: "keeping (clean u i) (admin_route H C T online q actor)"
  unfolding admin_route_def admin_status_def admin_invite_def admin_sessions_def admin_revoke_session_def
    admin_revoke_others_def admin_audit_def admin_users_def admin_devices_def admin_pairings_def
    admin_revoke_pairing_def
  by (intro clean_admin_user_action clean_mfa_route keep_intros secure_intros clean_db; simp add: case_prod_beta Let_def)

lemma clean_admin_begin: "keeping (clean u i) (admin_begin H C T online q)"
  unfolding admin_begin_def authorizeAdminRequest_def
  by (cases "validateApiRequest (wc_relay C) (q_method q) (q_origin q) (q_contentType q)")
    (auto intro!: clean_auth_route clean_admin_route keep_intros secure_intros)

lemma clean_admin_finish: "keeping (clean u i) (admin_finish H C T q k cs)"
  unfolding admin_finish_def admin_resume_def
  by (cases k) (auto simp: finish_bootstrap_def finish_admin_login_def finish_mfa_passkey_def finish_mfa_recovery_def
      finish_admin_password_def finish_admin_recover_def finish_create_user_def finish_key_options_def
      finish_key_complete_def finish_regenerate_def finish_disable_mfa_def finish_remove_key_def
      intro!: keep_intros secure_intros clean_db)

lemma clean_admin_library: "keeping (clean u i) (admin_library H C W T q k)"
  unfolding admin_library_def
  by (cases k) (auto simp: resume_login_def resume_passkey_def resume_key_options_def resume_key_complete_def
      intro!: keep_intros secure_intros clean_db)

end
