(* ===== verification/RelayBearer.thy ===== *)
theory RelayBearer
  imports RelayReach
begin

section \<open>Who the sockets belong to\<close>

text \<open>
  The badge of a socket: its kind, its user and its session, as the upgrade admitted it.
  \<open>held s0 s\<close>: the sockets of \<open>s\<close> were among those of \<open>s0\<close>, with the same badges. Every step but
  an upgrade keeps it.
\<close>

type_synonym badge = "source \<times> auth_kind \<times> jstr \<times> jstr"

definition badge :: "client \<Rightarrow> badge" where
  "badge c = (c_source c, c_authKind c, c_userId c, c_sessionId c)"

definition held :: "relay \<Rightarrow> relay \<Rightarrow> bool" where
  "held s0 s \<longleftrightarrow> (\<forall>w \<in> set (r_clients s). w \<in> set (r_clients s0) \<and> badge (client_of s w) = badge (client_of s0 w))"

abbreviation holds :: "relay \<Rightarrow> relay \<times> r_out list \<Rightarrow> bool" where
  "holds s0 \<equiv> good (held s0) (\<lambda>out. True)"

lemma held_refl [simp]: "held s s"
  by (simp add: held_def)

lemma held_trans: "held s0 s1 \<Longrightarrow> held s1 s2 \<Longrightarrow> held s0 s2"
  by (simp add: held_def)

text \<open>A client object is only changed in ways that leave its badge.\<close>

lemma held_upd: "(\<And>c. badge (f c) = badge c) \<Longrightarrow> held s0 (upd_client ws f s) = held s0 s"
  by (auto simp: held_def upd_client_def client_of_def)

lemma held_other [simp]:
  "held s0 (s\<lparr>r_open := z\<rparr>) = held s0 s" "held s0 (s\<lparr>r_codes := c\<rparr>) = held s0 s"
  "held s0 (s\<lparr>r_devices := a\<rparr>) = held s0 s" "held s0 (s\<lparr>r_watchdog := v\<rparr>) = held s0 s"
  "held s0 (s\<lparr>r_auth := ob\<rparr>) = held s0 s"
  by (simp_all add: held_def client_of_def)

lemma held_fewer [simp]: "held s0 s \<Longrightarrow> held s0 (s\<lparr>r_clients := filter P (r_clients s)\<rparr>)"
  by (simp add: held_def client_of_def)

lemma held_steps [simp]:
  "held z (clearBrowserTx ws s) = held z s" "held z (startBrowserTx E ws x n s) = held z s"
  "held z (setAlive ws s) = held z s" "held z (deletePairingCodesForDevice u x s) = held z s"
  "held z (touch_device k f s) = held z s" "held z (setDevice ws k d s) = held z s"
  "held z (onPong E ws s) = held z s" "held z (revokeBrowserAuthorizationByHash h x s) = held z s"
  by (simp_all add: clearBrowserTx_def startBrowserTx_def setAlive_def deletePairingCodesForDevice_def
      touch_device_def setDevice_def onPong_def revokeBrowserAuthorizationByHash_def Let_def held_upd badge_def
      split: option.split)

lemma holds_simps [simp]:
  "held z s \<Longrightarrow> holds z (send w m s)" "held z s \<Longrightarrow> holds z (sendBinary w f s)"
  "held z s \<Longrightarrow> holds z (closeProtocol w r s)" "held z s \<Longrightarrow> holds z (recordAuditEvent C a s)"
  "held z s \<Longrightarrow> holds z (rememberRelayAgent C d s)" "held z s \<Longrightarrow> holds z (run_watchdog g s)"
  "held z s \<Longrightarrow> holds z (persistBrowserAuthorization C E u b x s)"
  "held z s \<Longrightarrow> holds z (persistBrowserRevocation C E u b x s)"
  by (simp_all add: send_def sendBinary_def closeProtocol_def recordAuditEvent_def rememberRelayAgent_def
      run_watchdog_def case_prod_beta list_all_iff persistBrowserAuthorization_def
      persistBrowserRevocation_def persistPairings_def)

lemma holds_more [simp]:
  "held z s \<Longrightarrow> holds z (allowRate C E ws bk n s)"
  "held z s \<Longrightarrow> holds z (stopBrowserTx E ws s)"
  "held z s \<Longrightarrow> holds z (report_invalid E ws r s)"
  "held z s \<Longrightarrow> holds z (authorizeBrowser N C E u b x s)"
  "held z s \<Longrightarrow> holds z (revokeBrowserAuthorization N C E u b x s)"
  by (simp_all add: allowRate_def stopBrowserTx_def report_invalid_def revokeBrowserAuthorization_def
      authorizeBrowser_def Let_def held_upd badge_def split: option.split sum.split)

lemma holds_loops [simp]:
  "held z s \<Longrightarrow> holds z (sendCachedDeviceState ws d s)"
  "held z s \<Longrightarrow> holds z (sendDeviceList N C E ws s)"
  "held z s \<Longrightarrow> holds z (broadcastDeviceState N C E u x p s)"
  "held z s \<Longrightarrow> holds z (heartbeat s)"
  unfolding sendCachedDeviceState_def sendDeviceList_def broadcastDeviceState_def heartbeat_def Let_def
  by (rule good_each; auto simp: held_upd badge_def split: option.split)+

lemma holds_fan [simp]:
  "held z s \<Longrightarrow> holds z (each (\<lambda>t s. if P t s then send t m s else (s, [])) xs s)"
  "held z s \<Longrightarrow> holds z (each (\<lambda>t s. if P t s then sendBinary t f s else (s, [])) xs s)"
  by (rule good_each; simp)+

lemma holds_if: "holds z (f s) \<Longrightarrow> holds z (g s) \<Longrightarrow> holds z ((if b then f else g) s)"
  by simp

lemma holds_register [simp]: "held z s \<Longrightarrow> holds z (registerAgent N C E ws m s)"
  unfolding registerAgent_def Let_def by (intro good_if good_andThen) simp_all

lemma holds_watchdog [simp]: "held z s \<Longrightarrow> holds z (handleAgentWatchdogMessage N C E ws m s)"
proof -
  assume s: "held z s"
  have g: "holds z (andThen (\<lambda>s. (s\<lparr>r_watchdog := v\<rparr>, os)) h s)" if "\<And>t. held z t \<Longrightarrow> holds z (h t)" for v os h
    by (rule good_andThen) (use s that in \<open>simp_all add: list_all_iff\<close>)
  show ?thesis
    using s by (auto simp: handleAgentWatchdogMessage_def Let_def case_prod_beta intro!: g)
qed

lemma holds_refresh [simp]: "held z s \<Longrightarrow> holds z (refreshPairingCode C E ws s)"
  by (simp add: refreshPairingCode_def Let_def case_prod_beta)

lemma holds_revoke [simp]: "held z s \<Longrightarrow> holds z (revokePairing N C E ws x s)"
  unfolding revokePairing_def Let_def by (intro good_if good_andThen holds_if) (simp_all add: held_upd badge_def)

lemma holds_confirm [simp]: "held z s \<Longrightarrow> holds z (confirmPairing N C E ws code s)"
  unfolding confirmPairing_def Let_def
  by (intro good_if) (auto simp: held_upd badge_def intro!: good_andThen split: option.split)

lemma holds_select [simp]: "held z s \<Longrightarrow> holds z (selectDevice N C E ws x s)"
  unfolding selectDevice_def Let_def
  by (intro good_if) (auto simp: held_upd badge_def intro!: good_andThen holds_if split: option.split)

lemma holds_command [simp]: "held z s \<Longrightarrow> holds z (routeBrowserCommand N C E ws m s)"
  unfolding routeBrowserCommand_def Let_def
  by (intro good_if) (auto intro!: good_andThen good_if split: option.split)

lemma holds_update [simp]: "held z s \<Longrightarrow> holds z (routeAgentUpdate E ws m s)"
  unfolding routeAgentUpdate_def Let_def by (intro good_if good_andThen) simp_all

lemma holds_audio [simp]: "held z s \<Longrightarrow> holds z (routeAgentAudio E ws f s)"
  unfolding routeAgentAudio_def Let_def by (auto intro!: good_andThen split: option.split)

lemma holds_binary [simp]: "held z s \<Longrightarrow> holds z (handleBinaryMessage N C E ws f s)"
  by (simp add: handleBinaryMessage_def handleBrowserTxAudio_def Let_def split: option.split)

lemma holds_leaves: "held z s \<Longrightarrow> holds z (agentLeaves N C E ws c s)"
proof -
  assume s: "held z s"
  have "holds z (agentGone N C E c s)"
    unfolding agentGone_def by (intro good_andThen) (simp_all add: s)
  then show ?thesis using s by (simp add: agentLeaves_def split: option.split)
qed

lemma holds_remove [simp]: "held z s \<Longrightarrow> holds z (removeClient N C E ws s)"
  unfolding removeClient_def Let_def by (intro good_if good_andThen holds_if holds_leaves) simp_all

lemma holds_close_remove [simp]: "held z s \<Longrightarrow> holds z (close_and_remove N C E r P s)"
  unfolding close_and_remove_def by (intro good_each good_if good_andThen) simp_all

lemma holds_disconnect [simp]: "held z s \<Longrightarrow> holds z (disconnectRevokedPairingClients N E u h x s)"
  unfolding disconnectRevokedPairingClients_def Let_def
  by (intro good_each good_if good_andThen holds_if) (simp_all add: held_upd badge_def)

lemma holds_settled [simp]: "held z s \<Longrightarrow> holds z (watchdogSettled C E k i n s)"
  by (simp add: watchdogSettled_def case_prod_beta Let_def list_all_iff split: option.split)

lemma holds_message [simp]: "held z s \<Longrightarrow> holds z (handleMessage N C E ws m s)"
  unfolding handleMessage_def by (intro good_if) simp_all

lemma holds_text [simp]: "held z s \<Longrightarrow> holds z (onText N C E ws text s)"
  unfolding onText_def onParsed_def by (auto intro!: good_if good_andThen split: sum.split)

lemma holds_on_message [simp]: "held z s \<Longrightarrow> holds z (onMessage N C E ws text s)"
  unfolding onMessage_def by (intro good_if good_andThen) simp_all

text \<open>Every event but a connection.\<close>

lemma held_step:
  assumes "\<And>ws d a. e \<noteq> Connect ws d a"
  shows "held s (fst (relayStep N C (E, e) s))"
proof -
  have "holds s (relayStep N C (E, e) s)"
    using assms by (cases e) (auto simp: on_socket_def onBinary_def closeAgentClientsForUser_def
        closeBrowserSessionClients_def closeClientsForUser_def intro!: good_andThen)
  then show ?thesis by (rule good_inv)
qed

lemma held_connect:
  assumes "w \<in> set (r_clients (fst (relayStep N C (E, Connect ws d addr) s)))"
  shows "w \<in> set (r_clients s) \<and> badge (client_of (fst (relayStep N C (E, Connect ws d addr) s)) w) = badge (client_of s w)
    \<or> badge (client_of (fst (relayStep N C (E, Connect ws d addr) s)) w) = (d_source d, d_authKind d, d_userId d, d_sessionId d)"
proof (cases "mhas (r_obj s) ws")
  case True
  then show ?thesis using assms by simp
next
  case False
  let ?s = "s\<lparr>r_obj := mput (r_obj s) ws (new_client E d addr), r_clients := r_clients s @ [ws], r_open := ws # r_open s\<rparr>"
  have "holds ?s (onConnection C E ws d addr s)"
    unfolding onConnection_def Let_def by (rule good_each) simp_all
  then have h: "held ?s (fst (relayStep N C (E, Connect ws d addr) s))" using False by (simp add: good_inv)
  then have w: "w \<in> set (r_clients ?s)" "badge (client_of (fst (relayStep N C (E, Connect ws d addr) s)) w) = badge (client_of ?s w)"
    using assms by (simp_all add: held_def)
  have "client_of ?s w = (if w = ws then new_client E d addr else client_of s w)" by (simp add: client_of_def)
  then show ?thesis using w by (auto simp: badge_def new_client_def blank_client_def)
qed

subsection \<open>Closing\<close>

lemma removed: "ws \<notin> set (r_clients (fst (removeClient N C E ws s)))"
proof (cases "List.member (r_clients s) ws")
  case True
  let ?z = "s\<lparr>r_clients := filter (\<lambda>x. x \<noteq> ws) (r_clients s)\<rparr>"
  have "holds ?z (andThen (quiet (\<lambda>s. s\<lparr>r_clients := filter (\<lambda>x. x \<noteq> ws) (r_clients s)\<rparr>))
      (andThen (if b then stopBrowserTx E ws else (\<lambda>s. (s, []))) (agentLeaves N C E ws c)) s)" for b c
    by (intro good_andThen holds_if holds_leaves) simp_all
  then have "holds ?z (removeClient N C E ws s)"
    unfolding removeClient_def Let_def using True by (simp del: filter_filter)
  then have "held ?z (fst (removeClient N C E ws s))" by (rule good_inv)
  then show ?thesis by (auto simp: held_def)
qed (simp add: removeClient_def)

lemma closed_all:
  assumes P: "\<And>c c'. badge c = badge c' \<Longrightarrow> P c = P c'"
    and w: "w \<in> set (r_clients (fst (close_and_remove N C E reason P s)))"
  shows "\<not> P (client_of s w)"
proof -
  let ?g = "\<lambda>ws s. if P (client_of s ws) then andThen (closeProtocol ws reason) (removeClient N C E ws) s else (s, [])"
  have g: "holds z (?g x s)" if "held z s" for z x s
    by (intro good_if good_andThen holds_simps(3) holds_remove that) (simp_all add: that)
  have gs: "holds z (each ?g xs s)" if "held z s" for z xs s
    by (rule good_each [OF that g])
  have all: "w \<in> set xs \<Longrightarrow> w \<in> set (r_clients (fst (each ?g xs s))) \<Longrightarrow> \<not> P (client_of s w)" for xs s
  proof (induction xs arbitrary: s)
    case (Cons y ys)
    let ?s1 = "fst (?g y s)"
    have e: "fst (each ?g (y # ys) s) = fst (each ?g ys ?s1)" by (simp add: andThen_def case_prod_beta Let_def)
    have h: "held s ?s1" "held ?s1 (fst (each ?g ys ?s1))"
      by (rule good_inv [OF g [OF held_refl]], rule good_inv [OF gs [OF held_refl]])
    have in1: "w \<in> set (r_clients ?s1)" using Cons.prems(2) h(2) e by (simp add: held_def)
    show ?case
    proof (cases "w \<in> set ys")
      case True
      have m: "w \<in> set (r_clients (fst (each ?g ys ?s1)))" using Cons.prems(2) unfolding e .
      have b: "badge (client_of ?s1 w) = badge (client_of s w)" using h(1) in1 by (simp only: held_def)
      from P [OF b] Cons.IH [OF True m] show ?thesis by (rule subst [where P = "\<lambda>b. \<not> b"])
    next
      case False
      then have "w = y" using Cons.prems by auto
      have gone: "w \<notin> set (r_clients ?s1)" if "P (client_of s w)"
        unfolding \<open>w = y\<close> [symmetric] if_P [OF that] by (simp add: andThen_def case_prod_beta Let_def removed)
      then show ?thesis using in1 by blast
    qed
  qed simp
  have "held s (fst (close_and_remove N C E reason P s))"
    unfolding close_and_remove_def by (rule good_inv [OF gs]) simp
  then have "w \<in> set (r_clients s)" using w by (simp add: held_def)
  then show ?thesis using all [of "r_clients s" s] w by (simp add: close_and_remove_def)
qed

end
