(* ===== verification/ServerFacts.thy ===== *)
theory ServerFacts
  imports SessionFacts RelayBearer
begin

section \<open>The server: sessions, sockets and the database together\<close>

subsection \<open>What a handler returns\<close>

text \<open>\<open>yields P R m\<close>: a value that the operation returns, started with \<open>P\<close>, has \<open>R\<close>.\<close>

definition yields :: "('s \<Rightarrow> bool) \<Rightarrow> ('a \<Rightarrow> bool) \<Rightarrow> ('s, 'a) op \<Rightarrow> bool" where
  "yields P R m = (\<forall>s x s1. P s \<and> m s = (Inr x, s1) \<longrightarrow> R x)"

named_theorems yield_intros

abbreviation always :: "'s \<Rightarrow> bool" where
  "always s \<equiv> True"

lemma yields_return [yield_intros]: "R x \<Longrightarrow> yields P R (return_op x)"
  by (simp add: yields_def)

lemma yields_throw [yield_intros]: "yields P R (throw_op e)"
  by (simp add: yields_def)

lemma yields_bind [yield_intros]: "(\<And>x. yields always R (f x)) \<Longrightarrow> yields P R (bind_op m f)"
  by (auto simp: yields_def elim!: bind_op_InrE)

lemma yields_Let [yield_intros]: "(\<And>x. x = v \<Longrightarrow> yields P R (f x)) \<Longrightarrow> yields P R (Let v f)"
  by simp

lemma yields_if [yield_intros]: "(b \<Longrightarrow> yields P R m) \<Longrightarrow> (\<not> b \<Longrightarrow> yields P R n) \<Longrightarrow> yields P R (if b then m else n)"
  by simp

lemma yields_option [yield_intros]:
  "(z = None \<Longrightarrow> yields P R m) \<Longrightarrow> (\<And>x. z = Some x \<Longrightarrow> yields P R (f x)) \<Longrightarrow> yields P R (case z of None \<Rightarrow> m | Some x \<Rightarrow> f x)"
  by (cases z) auto

lemma yields_split [yield_intros]:
  "(\<And>x y. z = (x, y) \<Longrightarrow> yields P R (f x y)) \<Longrightarrow> yields P R (case z of (x, y) \<Rightarrow> f x y)"
  by (cases z) auto

definition awaits_ok :: "account_kont outcome \<Rightarrow> bool" where
  "awaits_ok x = (case x of Reply r \<Rightarrow> True | Await k \<Rightarrow> kont_ok k)"

lemma yields_limited [yield_intros]: "yields always R m \<Longrightarrow> (\<And>x. R (Reply x)) \<Longrightarrow> yields P R (limited C T q b n m)"
  unfolding limited_def by (intro yield_intros; simp)

lemma yields_account:
  assumes m: "account_mode C" and f: "\<And>s. trim (as_user s) = as_user s \<Longrightarrow> yields always R (f s)"
    and r: "\<And>x. R (Reply x)"
  shows "yields (clean u i) R (with_account H C T q f)"
  unfolding yields_def
proof (intro allI impI)
  fix w x w1 assume w: "clean u i w \<and> with_account H C T q f w = (Inr x, w1)"
  then obtain z w2 where z: "getAccountSession H C T q w = (Inr z, w2)"
    "(case z of None \<Rightarrow> reply_op (notAuthenticated C q) | Some s \<Rightarrow> f s) w2 = (Inr x, w1)"
    unfolding with_account_def by (auto elim: bind_op_InrE)
  have "z = Some s \<Longrightarrow> trim (as_user s) = as_user s" for s
    using session_triple [OF m, of u i H T q] w z(1) by (auto simp: triple_def)
  then show "R x" using z(2) f r by (cases z) (auto simp: yields_def)
qed

lemma awaits_begin: "yields (clean u i) awaits_ok (account_begin H C T q)"
proof -
  have route: "yields (clean u i) awaits_ok (account_route H C T q)" if "account_mode C"
    unfolding account_route_def Let_def account_status_def account_me_def account_sessions_def account_revoke_def
      account_revoke_others_def account_logout_def account_rotate_def
    by (intro yields_account [OF that] yield_intros) (simp_all add: awaits_ok_def kont_ok_def)
  show ?thesis
    unfolding account_begin_def
    by (cases "validateApiRequest (wc_relay C) (q_method q) (q_origin q) (q_contentType q)")
      (auto intro!: yields_return route simp: awaits_ok_def)
qed

lemma awaits_finish: "yields P awaits_ok (account_finish H C T q k cs)"
  unfolding account_finish_def account_resume_def
  by (cases k) (auto simp: finish_register_def finish_login_def finish_change_def finish_recover_def awaits_ok_def
      intro!: yield_intros)

subsection \<open>The effects on the sockets\<close>

abbreviation session_badge :: "jstr \<Rightarrow> jstr \<Rightarrow> badge" where
  "session_badge u i \<equiv> (BROWSER, SESSION, u, i)"

lemma held_effect: "held s (fst (run_effect H C E e s))"
proof -
  have "holds s (run_effect H C E e s)"
    unfolding run_effect_def closeBrowserSessionClients_def closeAgentClientsForUser_def closeClientsForUser_def
    by (cases e) simp_all
  then show ?thesis by (rule good_inv)
qed

lemma effect_closes:
  assumes c: "closes e u i" and w: "w \<in> set (r_clients (fst (run_effect H C E e s)))"
  shows "badge (client_of s w) \<noteq> session_badge u i"
proof (cases e)
  case (CloseSessionsOf v ids reason)
  let ?P = "\<lambda>c. c_userId c = u \<and> c_source c = BROWSER \<and> c_authKind c = SESSION \<and> List.member ids (c_sessionId c)"
  have "i \<in> set ids" "v = u" using c CloseSessionsOf by (simp_all add: closes_def)
  then have "w \<in> set (r_clients (fst (close_and_remove (h_node H) (wc_relay C) E reason ?P s)))"
    using w CloseSessionsOf by (cases ids) (simp_all add: run_effect_def closeBrowserSessionClients_def)
  then have "\<not> ?P (client_of s w)" by (rule closed_all [rotated]) (auto simp: badge_def)
  then show ?thesis using \<open>i \<in> set ids\<close> by (auto simp: badge_def)
next
  case (CloseClientsOf v reason)
  have "w \<in> set (r_clients (fst (close_and_remove (h_node H) (wc_relay C) E reason (\<lambda>c. c_userId c = u) s)))"
    using w c CloseClientsOf by (simp add: run_effect_def closeClientsForUser_def closes_def)
  then have "\<not> c_userId (client_of s w) = u" by (rule closed_all [rotated]) (auto simp: badge_def)
  then show ?thesis by (auto simp: badge_def)
qed (use c in \<open>simp_all add: closes_def\<close>)

lemma effects_held: "held s (fst (each (run_effect H C E) es s))"
proof -
  have "holds s (each (run_effect H C E) es s)"
    by (rule good_each) (auto simp: good_def list_all_iff intro: held_trans held_effect)
  then show ?thesis by (rule good_inv)
qed

lemma effects_close:
  "\<exists>e \<in> set es. closes e u i \<Longrightarrow> w \<in> set (r_clients (fst (each (run_effect H C E) es s))) \<Longrightarrow>
     badge (client_of (fst (each (run_effect H C E) es s)) w) \<noteq> session_badge u i"
proof (induction es arbitrary: s)
  case (Cons e es)
  let ?s1 = "fst (run_effect H C E e s)"
  let ?s2 = "fst (each (run_effect H C E) es ?s1)"
  have f: "fst (each (run_effect H C E) (e # es) s) = ?s2" by (simp add: andThen_def case_prod_beta Let_def)
  have w2: "w \<in> set (r_clients ?s2)" using Cons.prems(2) unfolding f .
  have h: "w \<in> set (r_clients ?s1)" "badge (client_of ?s2 w) = badge (client_of ?s1 w)"
    using w2 effects_held [of ?s1] unfolding held_def by blast+
  then have b: "badge (client_of ?s1 w) = badge (client_of s w)"
    using held_effect [of s] unfolding held_def by blast
  show ?case
  proof (cases "\<exists>e \<in> set es. closes e u i")
    case True
    show ?thesis unfolding f by (rule Cons.IH [OF True w2])
  next
    case False
    then have c: "closes e u i" using Cons.prems(1) by auto
    show ?thesis using effect_closes [OF c h(1)] h(2) b unfolding f by metis
  qed
qed simp

subsection \<open>The rows that the sockets store\<close>

lemma keeping_forget: "keeping P m \<Longrightarrow> keeping P (forget m)"
  unfolding forget_def by (intro keep_intros)

lemma keeping_store:
  "keeping db_inv (store_outs H T os)" "keeping (on_view names_ok) (store_outs H T os)" "keeping (secure u i) (store_outs H T os)"
proof -
  have "keeping db_inv (store_out H T j r)" "keeping (on_view names_ok) (store_out H T j r)" "keeping (secure u i) (store_out H T j r)" for j r
    unfolding store_out_def by (cases r; simp only: r_out.case; intro keeping_forget keep_intros secure_intros)+
  then show "keeping db_inv (store_outs H T os)" "keeping (on_view names_ok) (store_outs H T os)" "keeping (secure u i) (store_outs H T os)"
    unfolding store_outs_def by (auto intro!: keeping_each)
qed

lemma keeping_maintenance:
  "keeping db_inv (data_maintenance C now)" "keeping (on_view names_ok) (data_maintenance C now)"
  "keeping (secure u i) (data_maintenance C now)"
  unfolding data_maintenance_def by (intro keep_intros secure_intros)+

subsection \<open>The invariant of the server\<close>

definition bearers_ok :: "relay \<Rightarrow> relay_db \<Rightarrow> bool" where
  "bearers_ok r d \<longleftrightarrow> (\<forall>w \<in> set (r_clients r). \<forall>u i. badge (client_of r w) = session_badge u i \<longrightarrow> on_view (bearer_ok u i) d)"

definition waiting_ok :: "waiting \<Rightarrow> bool" where
  "waiting_ok k = (case k of WaitAccount k \<Rightarrow> kont_ok k | WaitAdmin k \<Rightarrow> True)"

definition sv_inv :: "server \<Rightarrow> bool" where
  "sv_inv sv \<longleftrightarrow> db_inv (w_db (sv_web sv)) \<and> on_view names_ok (w_db (sv_web sv)) \<and> w_effects (sv_web sv) = []
     \<and> (\<forall>x \<in> set (sv_waiting sv). waiting_ok (snd (snd x))) \<and> bearers_ok (sv_relay sv) (w_db (sv_web sv))"

lemma with_db_web: "w_db (snd (with_db m w)) = snd (m (w_db w))" "w_effects (snd (with_db m w)) = w_effects w"
  by (simp_all add: with_db_def on_part_def split_beta Let_def)

text \<open>The rows of the sockets, after their step.\<close>

lemma bearers_stored:
  assumes "db_inv d" "on_view names_ok d" "bearers_ok r d"
  shows "db_inv (snd (store_outs H T os d)) \<and> on_view names_ok (snd (store_outs H T os d)) \<and> bearers_ok r (snd (store_outs H T os d))"
proof -
  have "on_view (bearer_ok u i) (snd (store_outs H T os d))" if "on_view (bearer_ok u i) d" for u i
    using keepingD [OF keeping_store(3)] assms that by (simp add: secure_def)
  then show ?thesis
    using keepingD [OF keeping_store(1)] keepingD [OF keeping_store(2)] assms by (simp add: bearers_ok_def)
qed

lemma socket_step_inv:
  assumes "db_inv (w_db (sv_web sv))" "on_view names_ok (w_db (sv_web sv))" "w_effects (sv_web sv) = []"
    "\<forall>x \<in> set (sv_waiting sv). waiting_ok (snd (snd x))" "bearers_ok (fst (f (sv_relay sv))) (w_db (sv_web sv))"
  shows "sv_inv (fst (socket_step H M f sv))"
  using assms bearers_stored by (simp add: socket_step_def split_beta Let_def sv_inv_def with_db_web)

lemma settle_inv:
  assumes d: "db_inv (w_db (sv_web sv))" "on_view names_ok (w_db (sv_web sv))" "\<forall>x \<in> set (sv_waiting sv). waiting_ok (snd (snd x))"
    and c: "\<And>w u i. w \<in> set (r_clients (sv_relay sv)) \<Longrightarrow> badge (client_of (sv_relay sv) w) = session_badge u i \<Longrightarrow> clean u i (sv_web sv)"
  shows "sv_inv (fst (settle H C M sv))"
proof -
  let ?r = "fst (each (run_effect H C (mo_env M)) (w_effects (sv_web sv)) (sv_relay sv))"
  have "bearers_ok ?r (w_db (sv_web sv))"
    unfolding bearers_ok_def
  proof (intro ballI allI impI)
    fix w u i assume w: "w \<in> set (r_clients ?r)" "badge (client_of ?r w) = session_badge u i"
    then have n: "\<not> (\<exists>e \<in> set (w_effects (sv_web sv)). closes e u i)" using effects_close by blast
    have "w \<in> set (r_clients (sv_relay sv))" "badge (client_of (sv_relay sv) w) = session_badge u i"
      using w effects_held [of "sv_relay sv"] unfolding held_def by force+
    then have "clean u i (sv_web sv)" by (rule c)
    then show "on_view (bearer_ok u i) (w_db (sv_web sv))" using n by (simp add: clean_but_def)
  qed
  then show ?thesis
    unfolding settle_def Let_def by (intro socket_step_inv) (simp_all add: d)
qed

subsection \<open>Requests\<close>

text \<open>No user has a name with a space around it, so this bearer is always in order.\<close>

lemma nobody: "on_view names_ok d \<Longrightarrow> on_view (bearer_ok [32] i) d"
proof -
  assume n: "on_view names_ok d"
  have "trim [32] \<noteq> [32]" by code_simp
  then have "us_name x \<noteq> [32]" if "x \<in> set (db_users d)" for x using n that by (auto simp: on_view_def names_ok_def)
  then show ?thesis by (force simp: on_view_def bearer_ok_def owned_by_def)
qed

lemma handle_inv:
  assumes inv: "sv_inv sv" and keep: "\<And>u i. keeping (clean u i) m"
    and yields: "yields (clean [32] []) (\<lambda>x. case x of Reply r \<Rightarrow> True | Await k \<Rightarrow> waiting_ok (wait k)) m"
  shows "sv_inv (fst (handle H C M i q wait m sv))"
proof -
  obtain x w where a: "answered C q m (sv_web sv) = (x, w)" by force
  have start: "clean u i (sv_web sv)" if "on_view (bearer_ok u i) (w_db (sv_web sv))" for u i
    using inv that by (simp add: sv_inv_def clean_but_def)
  have "w = snd (m (sv_web sv))"
    using a by (auto simp: answered_def split: prod.splits sum.splits)
  then have c: "clean u i w" if "on_view (bearer_ok u i) (w_db (sv_web sv))" for u i
    using keepingD [OF keep start [OF that]] by simp
  have n: "clean [32] [] (sv_web sv)" "clean [32] [] w"
    using inv by (simp_all add: sv_inv_def start c nobody)
  have y: "case x of Reply r \<Rightarrow> True | Await k \<Rightarrow> waiting_ok (wait k)"
    using a yields n(1) by (auto simp: answered_def yields_def split: prod.splits sum.splits)
  let ?sv = "sv\<lparr>sv_web := w, sv_waiting := (case x of
                  Reply r \<Rightarrow> mdel (sv_waiting sv) i | Await k \<Rightarrow> mput (sv_waiting sv) i (q, wait k))\<rparr>"
  have "sv_inv (fst (settle H C M ?sv))"
  proof (rule settle_inv)
    have "\<forall>x \<in> set (sv_waiting sv). waiting_ok (snd (snd x))" using inv by (simp add: sv_inv_def)
    then have "\<forall>x \<in> set (mdel (sv_waiting sv) i). waiting_ok (snd (snd x))"
      "waiting_ok (wait k) \<Longrightarrow> \<forall>x \<in> set (mput (sv_waiting sv) i (q, wait k)). waiting_ok (snd (snd x))" for k
      using set_mdel [of "sv_waiting sv" i] set_mput [of "sv_waiting sv" i "(q, wait k)"] by fastforce+
    then show "\<forall>x \<in> set (sv_waiting ?sv). waiting_ok (snd (snd x))"
      using y by (simp split: outcome.splits)
    fix v u i assume "v \<in> set (r_clients (sv_relay ?sv))" "badge (client_of (sv_relay ?sv) v) = session_badge u i"
    then have "on_view (bearer_ok u i) (w_db (sv_web sv))" using inv unfolding sv_inv_def bearers_ok_def by auto
    then show "clean u i (sv_web ?sv)" using c by simp
  qed (use n(2) in \<open>simp_all add: clean_but_def\<close>)
  then show ?thesis by (simp add: handle_def a case_prod_beta Let_def)
qed

lemma yields_admin: "yields P (\<lambda>x. case x of Reply r \<Rightarrow> True | Await k \<Rightarrow> waiting_ok (WaitAdmin k)) m"
  by (auto simp: yields_def waiting_ok_def split: outcome.split)

lemma yields_waits:
  "yields P awaits_ok m \<Longrightarrow> yields P (\<lambda>x. case x of Reply r \<Rightarrow> True | Await k \<Rightarrow> waiting_ok (WaitAccount k)) m"
  by (fastforce simp: yields_def awaits_ok_def waiting_ok_def split: outcome.splits)

lemma request_inv: "sv_inv sv \<Longrightarrow> neat q \<Longrightarrow> sv_inv (fst (on_request H C M i q sv))"
  unfolding on_request_def Let_def
  by (simp add: handle_inv clean_account_begin clean_admin_begin yields_waits awaits_begin yields_admin)

lemma waiting_in: "mget m k = Some v \<Longrightarrow> \<forall>x \<in> set m. waiting_ok (snd (snd x)) \<Longrightarrow> waiting_ok (snd v)"
  by (fastforce dest: mget_in)

lemma body_inv: "sv_inv sv \<Longrightarrow> sv_inv (fst (on_body H C M i cs sv))"
proof (cases "mget (sv_waiting sv) i")
  case (Some v)
  assume inv: "sv_inv sv"
  obtain q k where v: "v = (q, k)" by force
  have "waiting_ok k" using waiting_in [OF Some] inv v by (simp add: sv_inv_def)
  then show ?thesis
    using inv Some unfolding v on_body_def
    by (auto simp: waiting_ok_def intro!: handle_inv clean_account_finish clean_admin_finish yields_waits awaits_finish
        yields_admin split: waiting.splits admin_kont.split)
qed (simp add: on_body_def)

lemma library_inv: "sv_inv sv \<Longrightarrow> sv_inv (fst (on_library H C W M i sv))"
  unfolding on_library_def
  by (auto intro!: handle_inv clean_admin_library yields_admin split: option.split waiting.splits admin_kont.split)

subsection \<open>Upgrades\<close>

text \<open>A session that the lookup finds is in order.\<close>

lemma found_in_order:
  assumes d: "db_inv d" and f: "find_session H now t d = Some s"
  shows "on_view (bearer_ok (as_user s) (as_id s)) d"
proof -
  let ?P = "\<lambda>r. sr_hash r = hashToken H t \<and> session_valid now r"
  obtain r x where r: "find ?P (db_sessions d) = Some r"
    and x: "find (\<lambda>u. us_id u = sr_owner r \<and> us_disabled u = None) (db_users d) = Some x"
    and s: "as_user s = us_name x" "as_id s = sr_id r"
    using f by (auto simp: find_session_def split: option.splits)
  note r1 = find_in [OF r] and x1 = find_in [OF x]
  have u: "uniq us_name (db_users d)" "uniq sr_id (db_sessions d)" using d by (simp_all add: inv_defs)
  have "y = r" if "y \<in> set (db_sessions d)" "sr_id y = sr_id r" for y
    using uniq_eq [OF u(2) that(1) _ that(2)] r1 by blast
  moreover have "y = x" if "y \<in> set (db_users d)" "us_name y = us_name x" for y
    using uniq_eq [OF u(1) that(1) _ that(2)] x1 by blast
  moreover have "\<not> revoked_early r" "us_disabled x = None" using r1 x1 by (simp_all add: session_valid_def revoked_early_def)
  ultimately show ?thesis unfolding on_view_def bearer_ok_def s by blast
qed

lemma session_found:
  assumes "getAccountSession H C T q w = (Inr (Some s), w1)"
  shows "find_session (h_sha H) (k_now T) (trim (getAccountToken C q)) (w_db w1) = Some s"
proof -
  let ?m = "getBrowserSession (h_sha H) (k_now T) (getAccountToken C q)"
  have r: "triple (\<lambda>d. True) ?m (\<lambda>z d. True \<and> z = find_session (h_sha H) (k_now T) (trim (getAccountToken C q)) d)
      (\<lambda>d. True \<and> trim (getAccountToken C q) = [])"
    by (rule lookup_triple) (simp add: keeping_def)
  show ?thesis
    using assms r by (auto simp: getAccountSession_def attempt_def with_db_def on_part_def triple_def split_beta Let_def
        split: sum.splits prod.splits if_splits)
qed

lemma upgrade_session:
  assumes "findRelayUserBySession H C T q w = (Inr (Some (u, n, i)), w1)" "db_inv (w_db w1)"
  shows "on_view (bearer_ok u i) (w_db w1)"
proof -
  obtain z where z: "getAccountSession H C T q w = (Inr z, w1)"
      "map_option (\<lambda>s. (as_user s, session_name s, as_id s)) z = Some (u, n, i)"
    using assms(1) by (auto simp: findRelayUserBySession_def elim: bind_op_InrE)
  obtain s where s: "z = Some s" "u = as_user s" "i = as_id s" using z(2) by auto
  show ?thesis
    using found_in_order [OF assms(2) session_found [of H C T q w s w1]] z(1) s by simp
qed

lemma upgrade_keeps: "keeping (clean_but K u i) (findRelayUserBySession H C T q)"
  unfolding findRelayUserBySession_def by (intro keep_intros secure_intros)

text \<open>The invariant without the sockets, after a lookup that no effect follows.\<close>

lemma lookup_inv:
  assumes inv: "sv_inv sv" and f: "findRelayUserBySession H C T q (sv_web sv) = (r, w)"
  shows "sv_inv (sv\<lparr>sv_web := w\<rparr>)"
proof -
  have w: "w = snd (findRelayUserBySession H C T q (sv_web sv))" using f by simp
  have e: "w_effects w = []"
    using f inv by (auto simp: findRelayUserBySession_def getAccountSession_def bind_op_def attempt_def with_db_def on_part_def
        split_beta Let_def sv_inv_def split: if_splits sum.splits prod.splits)
  have c: "clean u i w" if "on_view (bearer_ok u i) (w_db (sv_web sv))" for u i
    using keepingD [OF upgrade_keeps, of False u i "sv_web sv" H C T q] inv that by (simp add: w sv_inv_def clean_but_def)
  have b: "on_view (bearer_ok u i) (w_db w)" if "on_view (bearer_ok u i) (w_db (sv_web sv))" for u i
    using c [OF that] e by (simp add: clean_but_def)
  have "clean [32] [] w" by (rule c) (use inv in \<open>simp add: sv_inv_def nobody\<close>)
  then show ?thesis
    using inv b unfolding sv_inv_def clean_but_def bearers_ok_def by (simp add: e)
qed

lemma authorize_session:
  "authorizeUpgrade N C users n (r\<lparr>up_session := z\<rparr>) = Allow d \<Longrightarrow> d_source d = BROWSER \<Longrightarrow> d_authKind d = SESSION \<Longrightarrow>
     \<exists>m. z = Some (d_userId d, m, d_sessionId d)"
  by (auto simp: authorizeUpgrade_def Let_def split: if_splits option.splits)

lemma decision_inv:
  assumes inv: "sv_inv sv" and d: "upgrade_decision H C M u q sv = (x, sv1)"
  shows "sv_inv sv1 \<and> (\<forall>d. x = Allow d \<longrightarrow> d_source d = BROWSER \<longrightarrow> d_authKind d = SESSION \<longrightarrow>
      on_view (bearer_ok (d_userId d) (d_sessionId d)) (w_db (sv_web sv1)))"
proof -
  define decide where "decide z = authorizeUpgrade (h_node H) (wc_relay C) (w_users (sv_web sv))
     (length (r_clients (sv_relay sv))) (u\<lparr>up_session := z\<rparr>)" for z
  have a: "decide z = Allow e \<Longrightarrow> d_source e = BROWSER \<Longrightarrow> d_authKind e = SESSION \<Longrightarrow> \<exists>m. z = Some (d_userId e, m, d_sessionId e)" for z e
    unfolding decide_def by (rule authorize_session)
  obtain r w where f: "findRelayUserBySession H C (mo_tick M) q (sv_web sv) = (r, w)" by force
  have i: "sv_inv (sv\<lparr>sv_web := w\<rparr>)" by (rule lookup_inv [OF inv f])
  then have o: "on_view (bearer_ok v s) (w_db w)" if "r = Inr (Some (v, m, s))" for v m s
    using upgrade_session f that by (simp add: sv_inv_def)
  have d': "(case decide None of
        Allow d \<Rightarrow> (Allow d, sv)
      | Deny status reason \<Rightarrow>
          if status = 401 \<and> up_source u = source_name BROWSER then
            (case r of Inr session \<Rightarrow> (decide session, sv\<lparr>sv_web := w\<rparr>) | Inl e \<Rightarrow> (Deny status reason, sv\<lparr>sv_web := w\<rparr>))
          else (Deny status reason, sv)) = (x, sv1)"
    using d unfolding upgrade_decision_def Let_def f decide_def prod.case .
  show ?thesis
    using d' inv i a o by (fastforce split: upgrade_result.splits if_splits sum.splits)
qed

lemma upgrade_inv: "sv_inv sv \<Longrightarrow> sv_inv (fst (on_upgrade H C M ws u q sv))"
proof -
  assume inv: "sv_inv sv"
  obtain x sv1 where d: "upgrade_decision H C M u q sv = (x, sv1)" by force
  note i = decision_inv [OF inv d]
  show ?thesis
  proof (cases x)
    case (Allow y)
    let ?f = "relayStep (h_node H) (wc_relay C) (mo_env M, Connect ws y (q_remote q))"
    have "bearers_ok (fst (?f (sv_relay sv1))) (w_db (sv_web sv1))"
      unfolding bearers_ok_def
    proof (intro ballI allI impI)
      fix w v s assume w: "w \<in> set (r_clients (fst (?f (sv_relay sv1))))" "badge (client_of (fst (?f (sv_relay sv1))) w) = session_badge v s"
      show "on_view (bearer_ok v s) (w_db (sv_web sv1))"
        using held_connect [OF w(1)] w(2) i Allow by (auto simp: sv_inv_def bearers_ok_def)
    qed
    then show ?thesis
      using i by (simp add: on_upgrade_def d Allow del: relayStep.simps) (rule socket_step_inv; simp add: sv_inv_def)
  qed (use i in \<open>simp add: on_upgrade_def d\<close>)
qed

end
