(* ===== verification/TokenFacts.thy ===== *)
theory TokenFacts
  imports ServerFacts
begin

section \<open>The tokens that the relay accepts are those in the database\<close>

text \<open>
  The relay keeps the token hashes of the database in memory and reads them again after every
  handler that changes them. \<open>live us\<close>: each hash in the memory \<open>us\<close> belongs to a token that is not
  revoked, of an enabled user of that name. Operations that only add rows keep it; the four that
  revoke, disable or delete leave it open until \<open>reloadRelayUsers\<close>.
\<close>

definition live_hash :: "user_row list \<Rightarrow> token_row list \<Rightarrow> jstr \<Rightarrow> jstr \<Rightarrow> bool" where
  "live_hash us ts k h = (\<exists>t \<in> set ts. tk_hash t = h \<and> tk_revoked t = None
     \<and> (\<exists>x \<in> set us. us_id x = tk_user t \<and> us_name x = k \<and> us_disabled x = None))"

definition live :: "relay_users \<Rightarrow> user_row list \<Rightarrow> token_row list \<Rightarrow> session_row list \<Rightarrow> bool" where
  "live users us ts ss = (\<forall>x \<in> set users. ru_userId (snd x) = fst x \<and> (\<forall>h \<in> set (ru_tokenHashes (snd x)). live_hash us ts (fst x) h))"

definition in_force :: "web \<Rightarrow> bool" where
  "in_force w = on_view (live (w_users w)) (w_db w)"

named_theorems live_intros

subsection \<open>Operations that keep it\<close>

lemma live_hash_more: "live_hash us ts k h \<Longrightarrow> live_hash (us @ xs) (ts @ ys) k h"
  unfolding live_hash_def by fastforce

lemma live_hash_set:
  "(\<And>r. us_id (f r) = us_id r \<and> us_name (f r) = us_name r) \<Longrightarrow> (\<And>r. us_disabled r = None \<Longrightarrow> us_disabled (f r) = None) \<Longrightarrow>
     live_hash us ts k h \<Longrightarrow> live_hash (rows_set P f us) ts k h"
proof -
  assume f: "\<And>r. us_id (f r) = us_id r \<and> us_name (f r) = us_name r" "\<And>r. us_disabled r = None \<Longrightarrow> us_disabled (f r) = None"
    and l: "live_hash us ts k h"
  obtain t x where t: "t \<in> set ts" "tk_hash t = h" "tk_revoked t = None" and x: "x \<in> set us" "us_id x = tk_user t" "us_name x = k" "us_disabled x = None"
    using l by (auto simp: live_hash_def)
  have "(if P x then f x else x) \<in> set (rows_set P f us)" using x(1) by (auto simp: rows_set_def)
  moreover have "us_id (if P x then f x else x) = tk_user t \<and> us_name (if P x then f x else x) = k \<and> us_disabled (if P x then f x else x) = None"
    using f x by simp
  ultimately show ?thesis using t unfolding live_hash_def by blast
qed

lemma live_more: "live users us ts ss \<Longrightarrow> live users (us @ xs) (ts @ ys) ss'"
  unfolding live_def using live_hash_more by blast

lemma live_set:
  "(\<And>r. us_id (f r) = us_id r \<and> us_name (f r) = us_name r) \<Longrightarrow> (\<And>r. us_disabled r = None \<Longrightarrow> us_disabled (f r) = None) \<Longrightarrow>
     live users us ts ss \<Longrightarrow> live users (rows_set P f us) ts ss'"
  unfolding live_def using live_hash_set by blast

lemma live_put_users [live_intros]:
  "(\<And>r. us_id (f r) = us_id r \<and> us_name (f r) = us_name r) \<Longrightarrow> (\<And>r. us_disabled r = None \<Longrightarrow> us_disabled (f r) = None) \<Longrightarrow>
     keeping (on_view (live users)) (put_op (\<lambda>d. d\<lparr>db_users := rows_set P f (db_users d)\<rparr>))"
  by (auto simp: on_view_def intro!: keeping_put live_set)

lemma live_put_sessions [live_intros]: "keeping (on_view (live users)) (put_op (\<lambda>d. d\<lparr>db_sessions := g d\<rparr>))"
  by (auto simp: on_view_def live_def intro!: keeping_put)

lemma live_inserts [live_intros]:
  "keeping (on_view (live users)) (insert_user r)" "keeping (on_view (live users)) (insert_token t)"
  "keeping (on_view (live users)) (insert_session s)"
  unfolding insert_user_def insert_token_def insert_session_def
  using live_more [where xs = "[r]" and ys = "[]"] live_more [where xs = "[]" and ys = "[t]"]
  by (auto simp: on_view_def live_def intro!: keep_intros)

lemma live_upsert [live_intros]: "keeping (on_view (live users)) (upsert_user H now n x)"
  unfolding upsert_user_def by (intro keep_intros live_intros) simp_all

lemma live_writers [live_intros]:
  "keeping (on_view (live users)) (createRelayAccount H now j n x p t a b c)"
  "keeping (on_view (live users)) (ensureRelayUser H now n x)"
  "keeping (on_view (live users)) (upsertRelayAgent H now n un y dn)"
  "keeping (on_view (live users)) (upsertBrowserPairing H now j n un y dn bi l)"
  "keeping (on_view (live users)) (setRelayUserPassword n h)"
  "keeping (on_view (live users)) (setRelayUserDisabled now n False)"
  "keeping (on_view (live users)) (createBrowserSession H now j n t e bi ip ua)"
  "keeping (on_view (live users)) (getBrowserSession H now t)" "keeping (on_view (live users)) (revoke_sessions P now)"
  "keeping (on_view (live users)) (purgeBrowserSessions now)" "keeping (on_view (live users)) clearBrowserSessionMetadata"
  unfolding createRelayAccount_def ensureRelayUser_def upsertRelayAgent_def upsertBrowserPairing_def setRelayUserPassword_def
    setRelayUserDisabled_def createBrowserSession_def getBrowserSession_def revoke_sessions_def purgeBrowserSessions_def
    delete_sessions_def clearBrowserSessionMetadata_def
  by (intro keep_intros live_intros; simp add: on_view_def live_def)+

lemma live_revokes [live_intros]:
  "keeping (on_view (live users)) (revokeBrowserSession H now t)" "keeping (on_view (live users)) (revokeBrowserSessionById now n i)"
  "keeping (on_view (live users)) (revokeOtherBrowserSessions now n i)" "keeping (on_view (live users)) (revokeAllBrowserSessions now n)"
  unfolding revokeBrowserSession_def revokeBrowserSessionById_def revokeOtherBrowserSessions_def revokeAllBrowserSessions_def
  by (intro keep_intros live_intros)+

subsection \<open>Handlers\<close>

lemma in_force_db [live_intros]: "(\<And>users. keeping (on_view (live users)) m) \<Longrightarrow> keeping in_force (with_db m)"
  by (auto simp: keeping_def in_force_def with_db_def on_part_def split_beta Let_def)

lemma in_force_other [simp]:
  "in_force (w\<lparr>w_rates := a\<rparr>) = in_force w" "in_force (w\<lparr>w_invites := b\<rparr>) = in_force w" "in_force (w\<lparr>w_effects := c\<rparr>) = in_force w"
  by (simp_all add: in_force_def)

lemma in_force_parts [live_intros]:
  "keeping in_force (clearAttempts q b)" "keeping in_force (allowAttempt C T q b n)" "keeping in_force (effect e)"
  "keeping in_force (hasInvite H T v)" "keeping in_force (consumeInvite H v)"
  unfolding clearAttempts_def allowAttempt_def hasInvite_def consumeInvite_def effect_def
  by (intro keep_intros; simp add: case_prod_beta Let_def)+

lemma in_force_audit [live_intros]:
  "keeping in_force (insertAccountAuditEvent C T q j e n m)" "keeping in_force (insertAdminAuditEvent C T q j a ai)"
  unfolding insertAccountAuditEvent_def insertAdminAuditEvent_def write_audit_def
  by (intro keep_intros live_intros)+

lemma in_force_sessions [live_intros]:
  "keeping in_force (getAccountSession H C T q)" "keeping in_force (getAdminSessionOf H C T q)"
  "keeping in_force (createAccountSession H C T q j1 j2 n)" "keeping in_force (createAdminLoginSession H C T q j1 j2 a)"
  unfolding getAccountSession_def getAdminSessionOf_def createAccountSession_def createAdminLoginSession_def
  by (intro keep_intros live_intros)+

lemma in_force_guards [live_intros]:
  "keeping in_force m \<Longrightarrow> keeping in_force (limited C T q b n m)"
  "(\<And>s. keeping in_force (f s)) \<Longrightarrow> keeping in_force (with_account H C T q f)"
  "(\<And>s. keeping in_force (g s)) \<Longrightarrow> keeping in_force (with_owner H C T q g)"
  unfolding limited_def with_account_def with_owner_def by (intro keep_intros live_intros; assumption)+

subsection \<open>Reading the tokens again\<close>

lemma live_add: "live users us ts ss \<Longrightarrow> live_hash us ts k h \<Longrightarrow> live (addRelayUserToken users k n h) us ts ss"
proof -
  assume l: "live users us ts ss" and h: "live_hash us ts k h"
  have m: "x \<in> set users" if "mget users k = Some y" "x = (k, y)" for x y using mget_in [OF that(1)] that(2) by simp
  show ?thesis
  proof (cases "mget users k")
    case None
    show ?thesis
      unfolding live_def addRelayUserToken_def None option.case
      using l h set_mput [of users k] by (fastforce simp: live_def)
  next
    case (Some y)
    have y: "ru_userId y = k" "\<forall>h \<in> set (ru_tokenHashes y). live_hash us ts k h"
      using l m [OF Some refl] by (auto simp: live_def)
    show ?thesis
      unfolding live_def addRelayUserToken_def Some option.case
      using l h y set_mput [of users k] by (fastforce simp: live_def)
  qed
qed

lemma live_loaded:
  "\<forall>(k, n, h) \<in> set rows. live_hash us ts k h \<Longrightarrow> live users us ts ss \<Longrightarrow> live (loadDatabaseRelayUsers rows users) us ts ss"
  by (induction rows arbitrary: users) (auto simp: loadDatabaseRelayUsers_def live_add)

lemma set_order_insert: "set (order_insert le r rs) = insert r (set rs)"
  by (induction rs) auto

lemma set_order_by: "set (order_by le rs) = set rs"
  by (induction rs) (simp_all add: order_by_def set_order_insert)

lemma live_rows:
  assumes "listActiveRelayTokenUsers d = (Inr rows, d1)"
  shows "live (loadDatabaseRelayUsers rows []) (db_users d) (db_tokens d) ss"
proof (rule live_loaded)
  show "\<forall>(k, n, h) \<in> set rows. live_hash (db_users d) (db_tokens d) k h"
    using assms by (fastforce simp: listActiveRelayTokenUsers_def set_order_by live_hash_def)
qed (simp add: live_def)

lemma reload_triple:
  assumes "rc_authMode (wc_relay C) = Sqlite"
  shows "triple P (reloadRelayUsers H C) (\<lambda>_. in_force) E"
  using live_rows assms
  by (auto simp: triple_def reloadRelayUsers_def bind_op_def with_db_def on_part_def listActiveRelayTokenUsers_def
      loadRelayUsers_def in_force_def on_view_def)

lemma reload_keeps:
  assumes "rc_authMode (wc_relay C) = Sqlite"
  shows "keeping in_force (reloadRelayUsers H C)"
  unfolding triple_keeping by (rule reload_triple [OF assms])

subsection \<open>Operations followed by the reading\<close>

text \<open>They throw only before they change anything.\<close>

lemma late_triple:
  "triple in_force (with_db (importRelayUserToken H now j n x t)) (\<lambda>_ _. True) in_force"
  "triple in_force (with_db (setRelayUserDisabled now n b)) (\<lambda>_ _. True) in_force"
  "triple in_force (with_db (revokeRelayUserTokens now n tn)) (\<lambda>_ _. True) in_force"
  "triple in_force (with_db (deleteRelayUser n)) (\<lambda>_ _. True) in_force"
proof -
  have lift: "triple in_force (with_db m) (\<lambda>_ _. True) in_force" if "\<And>P. triple P m (\<lambda>_ _. True) P" for m :: "'a rdb"
    using that unfolding triple_def with_db_def on_part_def in_force_def
    by (fastforce simp: split_beta Let_def split: prod.splits sum.splits)
  have trans: "triple P (transaction m) (\<lambda>_ _. True) P" for P and m :: "'a rdb"
    by (auto simp: triple_def transaction_def split: prod.splits sum.splits)
  have required: "triple P (bind_op (requireDbText v what) f) (\<lambda>_ _. True) P" if "\<And>x. triple P (f x) (\<lambda>_ _. True) P" for P v what and f :: "jstr \<Rightarrow> 'a rdb"
    using that by (auto simp: triple_def requireDbText_def Let_def)
  have user: "triple P (requireRelayUser v) (\<lambda>_. P) P" for P v
  proof (rule tripleI)
    fix d e d1 assume "P d" "requireRelayUser v d = (Inl e, d1)"
    then show "P d1" using requireRelayUser_cases [of v d] by auto
  next
    fix d x d1 assume "P d" "requireRelayUser v d = (Inr x, d1)"
    then show "P d1" using requireRelayUser_cases [of v d] by auto
  qed
  show "triple in_force (with_db (importRelayUserToken H now j n x t)) (\<lambda>_ _. True) in_force"
    by (rule lift) (simp only: importRelayUserToken_def, intro required trans)
  show "triple in_force (with_db (setRelayUserDisabled now n b)) (\<lambda>_ _. True) in_force"
    by (rule lift) (simp only: setRelayUserDisabled_def, rule triple_bind [OF user], simp add: triple_def)
  show "triple in_force (with_db (deleteRelayUser n)) (\<lambda>_ _. True) in_force"
    by (rule lift) (simp only: deleteRelayUser_def, rule triple_bind [OF user], simp add: triple_def)
  show "triple in_force (with_db (revokeRelayUserTokens now n tn)) (\<lambda>_ _. True) in_force"
    by (rule lift) (simp only: revokeRelayUserTokens_def, rule triple_bind [OF user],
        auto simp: triple_def bind_op_def requireDbText_def Let_def split: option.split)
qed

text \<open>Up to the reading nothing throws.\<close>

lemma bare_steps:
  "rc_authMode (wc_relay C) = Sqlite \<Longrightarrow> (\<And>x. keeping in_force (f x)) \<Longrightarrow>
     triple (\<lambda>_. True) (bind_op (reloadRelayUsers H C) f) (\<lambda>_. in_force) in_force"
  "(\<And>x. triple (\<lambda>_. True) (g x) (\<lambda>_. in_force) in_force) \<Longrightarrow>
     triple (\<lambda>_. True) (bind_op (insertAccountAuditEvent C T q j e n m) g) (\<lambda>_. in_force) in_force"
  "(\<And>x. triple (\<lambda>_. True) (g x) (\<lambda>_. in_force) in_force) \<Longrightarrow>
     triple (\<lambda>_. True) (bind_op (insertAdminAuditEvent C T q j a ai) g) (\<lambda>_. in_force) in_force"
  "(\<And>x y. triple (\<lambda>_. True) (h x y) (\<lambda>_. in_force) in_force) \<Longrightarrow>
     triple (\<lambda>_. True) (case z of (x, y) \<Rightarrow> h x y) (\<lambda>_. in_force) in_force"
proof -
  assume m: "rc_authMode (wc_relay C) = Sqlite" "\<And>x. keeping in_force (f x)"
  show "triple (\<lambda>_. True) (bind_op (reloadRelayUsers H C) f) (\<lambda>_. in_force) in_force"
    by (rule triple_bind [OF reload_triple [OF m(1)]]) (use m(2) in \<open>simp add: triple_keeping\<close>)
next
  assume "\<And>x. triple (\<lambda>_. True) (g x) (\<lambda>_. in_force) in_force"
  then show "triple (\<lambda>_. True) (bind_op (insertAccountAuditEvent C T q j e n m) g) (\<lambda>_. in_force) in_force"
    "triple (\<lambda>_. True) (bind_op (insertAdminAuditEvent C T q j a ai) g) (\<lambda>_. in_force) in_force"
    by (simp_all add: triple_steady keeping_def)
qed (simp add: case_prod_beta)

lemma late_bind:
  "(\<And>r. triple (\<lambda>_. True) (f r) (\<lambda>_. in_force) in_force) \<Longrightarrow> keeping in_force (bind_op (with_db (importRelayUserToken H now j n x t)) f)"
  "(\<And>r. triple (\<lambda>_. True) (g r) (\<lambda>_. in_force) in_force) \<Longrightarrow> keeping in_force (bind_op (with_db (setRelayUserDisabled now n b)) g)"
  "(\<And>r. triple (\<lambda>_. True) (h r) (\<lambda>_. in_force) in_force) \<Longrightarrow> keeping in_force (bind_op (with_db (revokeRelayUserTokens now n tn)) h)"
  "(\<And>r. triple (\<lambda>_. True) (h r) (\<lambda>_. in_force) in_force) \<Longrightarrow> keeping in_force (bind_op (with_db (deleteRelayUser n)) h)"
  unfolding triple_keeping
  by (rule triple_bind [OF late_triple(1)] triple_bind [OF late_triple(2)] triple_bind [OF late_triple(3)]
      triple_bind [OF late_triple(4)]; assumption)+

lemmas late_intros = late_bind bare_steps

subsection \<open>The handlers\<close>

lemmas handler_intros = late_intros reload_keeps keep_intros live_intros

lemma force_account_begin: "rc_authMode (wc_relay C) = Sqlite \<Longrightarrow> keeping in_force (account_begin H C T q)"
proof -
  assume m: "rc_authMode (wc_relay C) = Sqlite"
  have "keeping in_force (account_route H C T q)"
    unfolding account_route_def account_status_def account_me_def account_sessions_def account_revoke_def
      account_revoke_others_def account_logout_def account_rotate_def
    by (intro handler_intros) (simp_all add: m)
  then show ?thesis
    unfolding account_begin_def
    by (cases "validateApiRequest (wc_relay C) (q_method q) (q_origin q) (q_contentType q)") (auto intro: keep_intros)
qed

lemma force_account_finish: "rc_authMode (wc_relay C) = Sqlite \<Longrightarrow> keeping in_force (account_finish H C T q k cs)"
  unfolding account_finish_def account_resume_def
  by (cases k) (auto simp: finish_register_def finish_login_def finish_change_def finish_recover_def intro!: handler_intros)

lemma force_sign_in [live_intros]: "keeping in_force (sign_in H C T q j b buck e n a)"
  unfolding sign_in_def by (intro keep_intros live_intros)

lemma force_current_password [live_intros]: "keeping in_force (requireCurrentAdminPassword H s v)"
  unfolding requireCurrentAdminPassword_def by (intro keep_intros live_intros)

lemma force_user_action:
  "rc_authMode (wc_relay C) = Sqlite \<Longrightarrow> keeping in_force (admin_user_action H C T q actor e a)"
proof -
  assume m: "rc_authMode (wc_relay C) = Sqlite"
  have "keeping in_force (user_rotate H C T q actor x n)" "keeping in_force (user_revoke H C T q actor n)"
    "keeping in_force (user_password_reset H C T q actor n)" "keeping in_force (user_disable H C T q actor b n)"
    "keeping in_force (user_delete H C T q actor n)" for x n b
    unfolding user_rotate_def user_revoke_def user_password_reset_def user_disable_def user_delete_def
    by (intro handler_intros; simp add: m)+
  then show ?thesis
    unfolding admin_user_action_def
    by (cases a; simp only: user_action.case; intro keeping_bind keeping_required keeping_option live_intros keep_intros)
qed

lemma force_admin_begin: "rc_authMode (wc_relay C) = Sqlite \<Longrightarrow> keeping in_force (admin_begin H C T online q)"
proof -
  assume m: "rc_authMode (wc_relay C) = Sqlite"
  have mfa: "keeping in_force (mfa_route C T q s)" for s
    unfolding mfa_route_def mfa_status_def Let_def by (intro keep_intros live_intros)
  have "keeping in_force (admin_route H C T online q actor)" for actor
    unfolding admin_route_def admin_status_def admin_invite_def admin_sessions_def admin_revoke_session_def
      admin_revoke_others_def admin_audit_def admin_users_def admin_devices_def admin_pairings_def
      admin_revoke_pairing_def
    by (intro mfa force_user_action [OF m] keep_intros live_intros; simp add: case_prod_beta Let_def)
  moreover have "keeping in_force (auth_route H C T q)"
    unfolding auth_route_def auth_status_def auth_logout_def auth_me_def Let_def by (intro keep_intros live_intros)
  ultimately show ?thesis
    unfolding admin_begin_def authorizeAdminRequest_def
    by (cases "validateApiRequest (wc_relay C) (q_method q) (q_origin q) (q_contentType q)")
      (auto intro!: keep_intros live_intros)
qed

lemma force_admin_finish: "rc_authMode (wc_relay C) = Sqlite \<Longrightarrow> keeping in_force (admin_finish H C T q k cs)"
  unfolding admin_finish_def admin_resume_def
  by (cases k) (auto simp: finish_bootstrap_def finish_admin_login_def finish_mfa_passkey_def finish_mfa_recovery_def
      finish_admin_password_def finish_admin_recover_def finish_create_user_def finish_key_options_def
      finish_key_complete_def finish_regenerate_def finish_disable_mfa_def finish_remove_key_def
      intro!: handler_intros force_sign_in force_current_password)

lemma force_admin_library: "keeping in_force (admin_library H C W T q k)"
  unfolding admin_library_def
  by (cases k) (auto simp: resume_login_def resume_passkey_def resume_key_options_def resume_key_complete_def
      intro!: keep_intros live_intros)

subsection \<open>The machine\<close>

lemma keeping_force_store: "keeping (on_view (live users)) (store_outs H T os)"
proof -
  have "keeping (on_view (live users)) (store_out H T j r)" for j r
    unfolding store_out_def by (cases r; simp only: r_out.case; intro keeping_forget keep_intros live_intros)+
  then show ?thesis unfolding store_outs_def by (auto intro!: keeping_each)
qed

lemma force_socket: "in_force (sv_web sv) \<Longrightarrow> in_force (sv_web (fst (socket_step H M f sv)))"
  using keepingD [OF in_force_db [OF keeping_force_store]] by (simp add: socket_step_def case_prod_beta Let_def)

lemma force_handle:
  "in_force (sv_web sv) \<Longrightarrow> keeping in_force m \<Longrightarrow> in_force (sv_web (fst (handle H C M i q wait m sv)))"
proof -
  assume d: "in_force (sv_web sv)" "keeping in_force m"
  obtain x w where a: "answered C q m (sv_web sv) = (x, w)" by force
  have "w = snd (m (sv_web sv))" using a by (auto simp: answered_def split: prod.splits sum.splits)
  then have "in_force w" using keepingD [OF d(2,1)] by simp
  then show ?thesis
    by (simp add: handle_def a case_prod_beta Let_def settle_def force_socket)
qed

lemma force_upgrade: "in_force (sv_web sv) \<Longrightarrow> in_force (sv_web (fst (on_upgrade H C M ws u q sv)))"
proof -
  assume d: "in_force (sv_web sv)"
  have k: "keeping in_force (findRelayUserBySession H C T q)" for T
    unfolding findRelayUserBySession_def by (intro keep_intros live_intros)
  have "in_force (sv_web (snd (upgrade_decision H C M u q sv)))"
    using keepingD [OF k d] d
    by (auto simp: upgrade_decision_def Let_def split: upgrade_result.split sum.split prod.split) (metis snd_conv)+
  then show ?thesis
    by (auto simp: on_upgrade_def force_socket simp del: relayStep.simps split: prod.split upgrade_result.split)
qed

lemma force_maintenance: "in_force w \<Longrightarrow> in_force (runDataMaintenance C now w)"
proof -
  assume w: "in_force w"
  have "keeping in_force (with_db (forget (data_maintenance C now)))"
    unfolding data_maintenance_def
    by (intro keeping_forget keep_intros live_intros)
  then have "in_force (snd (with_db (forget (data_maintenance C now)) (w\<lparr>w_invites := x\<rparr>)))" for x
    by (rule keepingD) (simp add: w)
  then show ?thesis using w by (simp add: runDataMaintenance_def Let_def)
qed

lemma force_step:
  assumes m: "rc_authMode (wc_relay C) = Sqlite" and d: "in_force (sv_web sv)"
  shows "in_force (sv_web (fst (serverStep H C W (M, e) sv)))"
proof (cases e)
  case (HttpRequest i q)
  show ?thesis
    using d m by (simp add: HttpRequest on_request_def Let_def force_handle force_account_begin force_admin_begin)
qed (use m d in \<open>auto simp: on_body_def on_library_def force_upgrade force_socket force_maintenance simp del: relayStep.simps
    intro!: force_handle force_account_finish force_admin_finish force_admin_library
    split: option.split waiting.split admin_kont.split\<close>)

end
