(* ===== verification/ServerProps.thy ===== *)
theory ServerProps
  imports TokenFacts RelayReplies
begin

section \<open>The relay process: sessions and sockets\<close>

subsection \<open>Every event keeps the invariant\<close>

text \<open>The events of a run: a path that revokes a session names it without surrounding spaces.\<close>

definition neat_event :: "moment \<times> sv_event \<Rightarrow> bool" where
  "neat_event e = (case snd e of HttpRequest i q \<Rightarrow> neat q | _ \<Rightarrow> True)"

lemma server_step_inv: "sv_inv sv \<Longrightarrow> neat_event e \<Longrightarrow> sv_inv (fst (serverStep H C W e sv))"
proof -
  assume inv: "sv_inv sv" and n: "neat_event e"
  obtain M x where e: "e = (M, x)" by force
  show ?thesis
  proof (cases x)
    case (HttpRequest i q)
    then show ?thesis using inv n by (simp add: e neat_event_def request_inv)
  next
    case (SocketEvent y)
    have "bearers_ok (fst (relayStep (h_node H) (wc_relay C) (mo_env M, y) (sv_relay sv))) (w_db (sv_web sv))" if "own_event y"
    proof -
      have "held (sv_relay sv) (fst (relayStep (h_node H) (wc_relay C) (mo_env M, y) (sv_relay sv)))"
        by (rule held_step) (use that in \<open>auto simp: own_event_def\<close>)
      then show ?thesis using inv unfolding held_def sv_inv_def bearers_ok_def by metis
    qed
    then show ?thesis
      using inv by (simp add: e SocketEvent del: relayStep.simps) (intro impI socket_step_inv; simp add: sv_inv_def)
  next
    case Maintain
    let ?w = "(sv_web sv)\<lparr>w_invites := purgeExpiredRegistrationInvites (k_now (mo_tick M)) (w_invites (sv_web sv))\<rparr>"
    have k: "keeping P (forget (data_maintenance C now))" if "keeping P (data_maintenance C now)" for P now
      by (rule keeping_forget [OF that])
    have "on_view (bearer_ok u i) (snd (forget (data_maintenance C now) d))"
      if "db_inv d" "on_view names_ok d" "on_view (bearer_ok u i) d" for u i d now
      using keepingD [OF k [OF keeping_maintenance(3)]] that by (simp add: secure_def)
    then show ?thesis
      using inv keepingD [OF k [OF keeping_maintenance(1)]] keepingD [OF k [OF keeping_maintenance(2)]]
      unfolding e Maintain serverStep.simps runDataMaintenance_def
      by (simp add: sv_inv_def with_db_web bearers_ok_def Let_def)
  qed (use inv in \<open>simp_all add: e body_inv library_inv upgrade_inv\<close>)
qed

text \<open>A database as the schema and the writers leave it.\<close>

definition sound_db :: "relay_db \<Rightarrow> bool" where
  "sound_db d \<longleftrightarrow> db_inv d \<and> on_view names_ok d"

lemma boot_inv: "bootServer H C now d files = Some sv \<Longrightarrow> sound_db d \<Longrightarrow> sv_inv sv"
proof -
  assume b: "bootServer H C now d files = Some sv" and s: "sound_db d"
  have k: "db_inv (snd (forget (data_maintenance C now) d)) \<and> on_view names_ok (snd (forget (data_maintenance C now) d))"
    using keepingD [OF keeping_forget [OF keeping_maintenance(1)]] keepingD [OF keeping_forget [OF keeping_maintenance(2)]] s
    by (simp add: sound_db_def)
  show ?thesis
    using b s k by (auto simp: bootServer_def runDataMaintenance_def sv_inv_def sound_db_def bearers_ok_def initRelay_def
        with_db_web Let_def split: sum.splits if_splits)
qed

text \<open>The server as it starts; where it exits, a server that never started is not in question.\<close>

definition booted :: "host \<Rightarrow> web_config \<Rightarrow> int \<Rightarrow> relay_db \<Rightarrow> (jstr, jstr list) jmap \<Rightarrow> server" where
  "booted H C now d files = (case bootServer H C now d files of Some sv \<Rightarrow> sv
     | None \<Rightarrow> \<lparr>sv_web = \<lparr>w_db = d, w_rates = [], w_invites = [], w_users = [], w_effects = []\<rparr>,
                sv_relay = initRelay [], sv_waiting = []\<rparr>)"

interpretation server: machine "booted H C now d files" "serverStep H C W" neat_event "\<lambda>sv. sound_db d \<longrightarrow> sv_inv sv"
  for H C W now d files
proof
  show "sound_db d \<longrightarrow> sv_inv (booted H C now d files)"
    by (cases "bootServer H C now d files")
      (simp_all add: booted_def boot_inv, simp add: sv_inv_def bearers_ok_def initRelay_def sound_db_def)
qed (simp add: server_step_inv)

lemma server_runs:
  "bootServer H C now d files = Some sv0 \<Longrightarrow> sound_db d \<Longrightarrow> list_all neat_event es \<Longrightarrow>
     sv_inv (fst (run_machine (serverStep H C W) es sv0))"
  using server.inv_reachable [where d = d and H = H and C = C and now = now and files = files and W = W] by (simp add: booted_def fst_run_machine)

subsection \<open>A small server for the witnesses\<close>

text \<open>
  A user with two sessions, \<open>s1\<close> with the cookie [49] and \<open>s2\<close> with the
  cookie [50]. The hash is the identity.
\<close>

definition demo_host :: host where
  "demo_host = \<lparr>h_node = demo_node, h_scrypt = (\<lambda>password salt n. [])\<rparr>"

definition demo_wc :: web_config where
  "demo_wc = \<lparr>wc_relay = (demo_rc False)\<lparr>rc_authMode := Sqlite\<rparr>, wc_registration = True, wc_requireInvite = False,
     wc_maxAuth = 10, wc_maxAdmin = 10, wc_accountCookie = [97], wc_accountTtlMs = 1000000, wc_adminCookie = [98],
     wc_adminTtlMs = 1000000, wc_adminIdleMs = 1000000, wc_storeMetadata = False, wc_auditDays = 30, wc_terms = [49],
     wc_privacy = [49], wc_effective = [], wc_recoveryTtlMs = 1000, wc_adminTokenHash = None, wc_rpId = [], wc_rpName = [],
     wc_mfaTtlMs = 1000, wc_usersText = [], wc_defaultToken = [], wc_database = []\<rparr>"

definition demo_tick :: tick where
  "demo_tick = \<lparr>k_now = 1000, k_token = (\<lambda>i. [116, 48 + i]), k_uuid = (\<lambda>i. [117, 48 + i]), k_salt = [],
     k_bytes = (\<lambda>i. []), k_invite = []\<rparr>"

definition demo_moment :: moment where
  "demo_moment = \<lparr>mo_env = demo_env, mo_tick = demo_tick\<rparr>"

definition demo_request :: "string \<Rightarrow> string \<Rightarrow> jstr \<Rightarrow> request" where
  "demo_request method path cookie = \<lparr>q_method = js method, q_path = js path, q_origin = [],
     q_contentType = js ''application/json'', q_authorization = [], q_cookie = cookie, q_forwardedFor = [],
     q_forwardedProto = [], q_forwardedHost = [], q_host = [], q_userAgent = [], q_remote = [], q_encrypted = True\<rparr>"

definition demo_upgrade :: upgrade where
  "demo_upgrade = \<lparr>up_path = js ''/ws'', up_source = source_name BROWSER, up_browserId = [], up_token = [],
     up_origin = [79], up_authorization = [], up_session = None\<rparr>"

definition demo_session :: "jstr \<Rightarrow> jstr \<Rightarrow> session_row" where
  "demo_session sid token = \<lparr>sr_id = sid, sr_owner = [1], sr_hash = token, sr_browser = None, sr_created = 0, sr_seen = 0,
     sr_expires = 9000, sr_revoked = None, sr_ip = None, sr_agent = None\<rparr>"

definition demo_db :: relay_db where
  "demo_db = empty_db\<lparr>
     db_users := [\<lparr>us_id = [1], us_name = js ''ada'', us_display = [], us_password = None, us_created = 0,
       us_disabled = None, us_legal = None\<rparr>],
     db_sessions := [demo_session (js ''s1'') [49], demo_session (js ''s2'') [50]]\<rparr>"

definition demo_boot :: server where
  "demo_boot = \<lparr>sv_web = \<lparr>w_db = demo_db, w_rates = [], w_invites = [],
       w_users = [], w_effects = []\<rparr>,
     sv_relay = initRelay [], sv_waiting = []\<rparr>"

definition demo_webauthn :: webauthn where
  "demo_webauthn = \<lparr>wa_reg_options = (\<lambda>c u d b. None), wa_verify_reg = (\<lambda>r c g p. None), wa_auth_options = (\<lambda>a b c. None),
     wa_verify_auth = (\<lambda>a b c d e. None)\<rparr>"

text \<open>A browser with the cookie of \<open>s2\<close> connects; the session \<open>s1\<close> revokes \<open>s2\<close>.\<close>

definition demo_connect :: "moment \<times> sv_event" where
  "demo_connect = (demo_moment, UpgradeSocket 5 demo_upgrade (demo_request ''GET'' ''/ws'' [97, 61, 50]))"

definition demo_revoke :: "string \<Rightarrow> moment \<times> sv_event" where
  "demo_revoke sid = (demo_moment, HttpRequest 1 (demo_request ''POST'' (''/account/api/sessions/'' @ sid @ ''/revoke'') [97, 61, 49]))"

definition demo_run :: "(moment \<times> sv_event) list \<Rightarrow> server" where
  "demo_run es = fst (run_machine (serverStep demo_host demo_wc demo_webauthn) es demo_boot)"

lemma demo_rc_sel [simp]:
  "rc_authMode (wc_relay demo_wc) = Sqlite" "rc_persistPairings (wc_relay demo_wc) = False" "account_mode demo_wc"
  "wc_registration demo_wc" "wc_adminTokenHash demo_wc = None" "wc_storeMetadata demo_wc = False"
  "rc_persistAudit (wc_relay demo_wc) = False"
  by (simp_all add: demo_wc_def demo_rc_def account_mode_def)

lemma demo_tables [simp]:
  "db_tokens demo_db = []" "db_recovery demo_db = []" "db_admins demo_db = []" "db_admin_sessions demo_db = []"
  "db_challenges demo_db = []" "db_codes demo_db = []" "db_audit demo_db = []" "db_passkeys demo_db = []"
  "db_agents demo_db = []" "db_pairings demo_db = []"
  by (simp_all add: demo_db_def empty_db_def)

lemma demo_users: "db_users demo_db = [\<lparr>us_id = [1], us_name = js ''ada'', us_display = [], us_password = None, us_created = 0,
       us_disabled = None, us_legal = None\<rparr>]"
  by (simp add: demo_db_def)

lemma demo_boots: "bootServer demo_host demo_wc 1000 demo_db [] = Some demo_boot"
proof -
  have "snd (forget (data_maintenance demo_wc 1000) demo_db) = demo_db"
    unfolding forget_def data_maintenance_def purgeBrowserSessions_def purgeAccountRecoveryCodes_def
       purgeAdminSessions_def clearBrowserSessionMetadata_def clearAdminSessionMetadata_def purgeAuditEvents_def
       delete_sessions_def Let_def bind_op_assoc
    by (simp add: attempt_def bind_op_def demo_db_def demo_session_def session_valid_def has_metadata_def empty_db_def
       rows_set_def hits_def)
  then show ?thesis
    by (simp add: bootServer_def loadRelayUsers_def active_rows_def listActiveRelayTokenUsers_def runDataMaintenance_def
       demo_boot_def with_db_def on_part_def split_beta Let_def loadDatabaseRelayUsers_def order_by_def
       purgeExpiredRegistrationInvites_def mfilter_def demo_users)
qed

definition demo_cookie :: request where
  "demo_cookie = demo_request ''GET'' ''/ws'' [97, 61, 50]"

lemma demo_trims: "trim [50] = [50]" "trim [49] = [49]" "trim [97] = [97]" "trim (js ''s2'') = js ''s2''"
  by (rule trim_no_ws, simp add: is_ws_def js_def)+

lemma demo_texts: "decodeURIComponent [50] = Some [50]" "decodeURIComponent [49] = Some [49]" "([97] :: jstr) \<noteq> js ''__proto__''"
  by (code_simp, code_simp, simp add: js_def)

lemma demo_token: "getAccountToken demo_wc (demo_request m p [97, 61, 50]) = [50]"
  "getAccountToken demo_wc (demo_request m p [97, 61, 49]) = [49]"
  by (simp_all add: getAccountToken_def cookie_value_def demo_request_def demo_wc_def parseCookies_def
     cookie_part_def demo_texts demo_trims Let_def)

lemma demo_found: "find_session (h_sha demo_host) (k_now demo_tick) [50] demo_db
    = Some \<lparr>as_id = js ''s2'', as_user = js ''ada'', as_display = [], as_expires = 9000\<rparr>"
  by (simp add: find_session_def demo_host_def demo_tick_def hashToken_def demo_db_def
       demo_session_def demo_node_def session_valid_def)

lemma demo_lookup: "\<exists>w. findRelayUserBySession demo_host demo_wc demo_tick demo_cookie (sv_web demo_boot)
   = (Inr (Some (js ''ada'', js ''ada'', js ''s2'')), w)"
  by (simp add: findRelayUserBySession_def getAccountSession_def demo_token demo_cookie_def demo_trims getBrowserSession_def
     requireDbText_def demo_boot_def demo_found with_db_def on_part_def attempt_def bind_op_def session_name_def)

text \<open>The welcome of a socket leaves the state as it is.\<close>

lemma each_send: "fst (each (send ws) ms s) = s"
  by (induction ms arbitrary: s) (simp_all add: andThen_def send_def case_prod_beta Let_def)

lemma demo_authorize:
  "authorizeUpgrade (h_node demo_host) (wc_relay demo_wc) [] 0 (demo_upgrade\<lparr>up_session := None\<rparr>) = Deny 401 (js ''unauthorized'')"
  "authorizeUpgrade (h_node demo_host) (wc_relay demo_wc) [] 0 (demo_upgrade\<lparr>up_session := Some (u, n, i)\<rparr>)
     = Allow \<lparr>d_source = BROWSER, d_browserId = [], d_userId = u, d_userName = n, d_authKind = SESSION, d_sessionId = i\<rparr>"
  by (simp_all add: authorizeUpgrade_def demo_upgrade_def demo_wc_def demo_rc_def source_name_def
        up_is_agent_def up_effective_token_def findRelayUserByToken_def js_def)

lemma demo_decision: "\<exists>w d. upgrade_decision demo_host demo_wc demo_moment demo_upgrade demo_cookie demo_boot
    = (Allow d, demo_boot\<lparr>sv_web := w\<rparr>) \<and> badge (new_client demo_env d []) = session_badge (js ''ada'') (js ''s2'')"
proof -
  obtain w where f: "findRelayUserBySession demo_host demo_wc demo_tick demo_cookie (sv_web demo_boot)
      = (Inr (Some (js ''ada'', js ''ada'', js ''s2'')), w)" using demo_lookup by blast
  have t: "mo_tick demo_moment = demo_tick" "w_users (sv_web demo_boot) = []" "length (r_clients (sv_relay demo_boot)) = 0"
    "up_source demo_upgrade = source_name BROWSER"
    by (simp_all add: demo_moment_def demo_boot_def initRelay_def demo_upgrade_def)
  show ?thesis
    by (simp add: upgrade_decision_def Let_def t f demo_authorize badge_def new_client_def blank_client_def) blast
qed

lemma demo_connected: "r_clients (sv_relay (demo_run [demo_connect])) = [5]"
  "badge (client_of (sv_relay (demo_run [demo_connect])) 5) = session_badge (js ''ada'') (js ''s2'')"
proof -
  obtain w d where u: "upgrade_decision demo_host demo_wc demo_moment demo_upgrade demo_cookie demo_boot
      = (Allow d, demo_boot\<lparr>sv_web := w\<rparr>)" "badge (new_client demo_env d []) = session_badge (js ''ada'') (js ''s2'')"
    using demo_decision by blast
  have s: "sv_relay (demo_run [demo_connect]) = (initRelay [])\<lparr>r_obj := [(5, new_client demo_env d [])], r_clients := [5], r_open := [5]\<rparr>"
    by (simp add: demo_run_def demo_connect_def demo_cookie_def [symmetric] on_upgrade_def u(1) socket_step_def case_prod_beta Let_def)
      (simp add: demo_boot_def initRelay_def mhas_def onConnection_def Let_def each_send demo_cookie_def demo_request_def demo_moment_def)
  show "r_clients (sv_relay (demo_run [demo_connect])) = [5]"
    "badge (client_of (sv_relay (demo_run [demo_connect])) 5) = session_badge (js ''ada'') (js ''s2'')"
    by (simp_all add: s client_of_def u(2))
qed

lemma demo_sound: "sound_db demo_db"
proof -
  have "trim (js ''ada'') = js ''ada''" by (rule trim_no_ws) (simp add: is_ws_def js_def)
  then show ?thesis
    by (simp add: sound_db_def inv_defs on_view_def names_ok_def uniq_def refs_def opt_refs_def demo_users) (simp add: demo_db_def demo_session_def js_def)
qed

subsection \<open>Tokens\<close>

interpretation tokens: machine "booted H C now d files" "serverStep H C W" "\<lambda>e. True"
  "\<lambda>sv. rc_authMode (wc_relay C) = Sqlite \<and> bootServer H C now d files \<noteq> None \<longrightarrow> in_force (sv_web sv)" for H C W now d files
proof
  have "in_force \<lparr>w_db = d, w_rates = [], w_invites = [], w_users = loadDatabaseRelayUsers (active_rows d) [], w_effects = []\<rparr>"
    using live_rows [of d] by (auto simp: in_force_def on_view_def active_rows_def listActiveRelayTokenUsers_def)
  then show "rc_authMode (wc_relay C) = Sqlite \<and> bootServer H C now d files \<noteq> None \<longrightarrow> in_force (sv_web (booted H C now d files))"
    by (auto simp: booted_def bootServer_def loadRelayUsers_def force_maintenance Let_def)
next
  fix s and e :: "moment \<times> sv_event"
  show "rc_authMode (wc_relay C) = Sqlite \<and> bootServer H C now d files \<noteq> None \<longrightarrow> in_force (sv_web s) \<Longrightarrow>
      rc_authMode (wc_relay C) = Sqlite \<and> bootServer H C now d files \<noteq> None \<longrightarrow> in_force (sv_web (fst (serverStep H C W e s)))"
    using force_step by (cases e) simp
qed

lemma authorize_token:
  assumes "authorizeUpgrade N C users n u = Allow d" "d_authKind d = TOKEN"
  shows "\<exists>x \<in> set users. d_userId d = ru_userId (snd x) \<and> (\<exists>h \<in> set (ru_tokenHashes (snd x)). verifySecret N (up_effective_token C u) h)"
proof -
  obtain y where y: "findRelayUserByToken N users (up_effective_token C u) = Some y" "d_userId d = ru_userId y"
    using assms by (auto simp: authorizeUpgrade_def Let_def split: if_splits option.splits)
  then show ?thesis
    by (fastforce simp: findRelayUserByToken_def list_ex_iff split: if_splits dest: find_in)
qed

lemma effective_session [simp]: "up_effective_token C (u\<lparr>up_session := z\<rparr>) = up_effective_token C u"
  by (simp add: up_effective_token_def up_is_agent_def up_header_token_def)

lemma decision_token:
  assumes "upgrade_decision H C M u q sv = (Allow d, sv1)" "d_authKind d = TOKEN"
  shows "\<exists>z. authorizeUpgrade (h_node H) (wc_relay C) (w_users (sv_web sv)) (length (r_clients (sv_relay sv))) (u\<lparr>up_session := z\<rparr>) = Allow d"
  using assms by (fastforce simp: upgrade_decision_def Let_def split: upgrade_result.splits if_splits sum.splits prod.splits)

text \<open>
  C16: Where the relay takes its tokens from the database, an upgrade that is admitted by a token
  presents, at that moment of any run, the token of a row that is not revoked, of an enabled user,
  and the socket gets that user's name: rotation, revocation, disabling and deletion take effect for
  the very next connection.
\<close>
theorem token_admission:
  assumes "bootServer H C now d files = Some sv0" "rc_authMode (wc_relay C) = Sqlite"
    and "upgrade_decision H C M u q (fst (run_machine (serverStep H C W) es sv0)) = (Allow dc, sv1)" "d_authKind dc = TOKEN"
  shows "\<exists>t \<in> set (db_tokens (w_db (sv_web (fst (run_machine (serverStep H C W) es sv0))))).
      \<exists>x \<in> set (db_users (w_db (sv_web (fst (run_machine (serverStep H C W) es sv0))))).
        verifySecret (h_node H) (up_effective_token (wc_relay C) u) (tk_hash t) \<and> tk_revoked t = None
        \<and> us_id x = tk_user t \<and> us_name x = d_userId dc \<and> us_disabled x = None"
proof -
  let ?sv = "fst (run_machine (serverStep H C W) es sv0)"
  have f: "in_force (sv_web ?sv)"
    using tokens.inv_reachable [where d = d and H = H and C = C and now = now and files = files and W = W and es = es] assms(1,2)
    by (simp add: booted_def fst_run_machine list_all_iff)
  obtain z where a: "authorizeUpgrade (h_node H) (wc_relay C) (w_users (sv_web ?sv)) (length (r_clients (sv_relay ?sv)))
      (u\<lparr>up_session := z\<rparr>) = Allow dc"
    using decision_token [OF assms(3,4)] by blast
  obtain x h where x: "x \<in> set (w_users (sv_web ?sv))" "d_userId dc = ru_userId (snd x)" "h \<in> set (ru_tokenHashes (snd x))"
    "verifySecret (h_node H) (up_effective_token (wc_relay C) u) h"
    using authorize_token [OF a assms(4)] by auto
  then have "live_hash (db_users (w_db (sv_web ?sv))) (db_tokens (w_db (sv_web ?sv))) (d_userId dc) h"
    using f by (auto simp: in_force_def on_view_def live_def)
  then show ?thesis using x(4) unfolding live_hash_def by blast
qed

definition demo_token_db :: relay_db where
  "demo_token_db = demo_db\<lparr>db_tokens := [\<lparr>tk_id = [1], tk_user = [1], tk_name = [], tk_prefix = [], tk_hash = [5],
     tk_created = 0, tk_revoked = None\<rparr>]\<rparr>"

lemma demo_token_boots:
  "\<exists>sv. bootServer demo_host demo_wc 1000 demo_token_db [] = Some sv \<and> sv_relay sv = initRelay []
    \<and> w_users (sv_web sv) = [(js ''ada'', \<lparr>ru_userId = js ''ada'', ru_userName = js ''ada'', ru_tokenHashes = [[5]]\<rparr>)]"
proof -
  have u: "user_id_like (js ''ada'')"
    by (simp add: user_id_like_def rx_match_Reps js_def alnum_def char_classes)
  have "active_rows demo_token_db = [(js ''ada'', [], [5])]"
    by (simp add: active_rows_def listActiveRelayTokenUsers_def demo_token_db_def demo_users order_by_def)
  then show ?thesis
    by (simp add: bootServer_def loadRelayUsers_def runDataMaintenance_def Let_def loadDatabaseRelayUsers_def u
        addRelayUserToken_def with_db_def on_part_def split_beta)
qed

theorem token_admission_witness:
  "\<exists>sv t x. bootServer demo_host demo_wc 1000 demo_token_db [] = Some sv \<and> t \<in> set (db_tokens (w_db (sv_web sv)))
     \<and> x \<in> set (db_users (w_db (sv_web sv))) \<and> tk_hash t = [5] \<and> tk_revoked t = None \<and> us_id x = tk_user t
     \<and> us_name x = js ''ada'' \<and> us_disabled x = None"
proof -
  let ?u = "demo_upgrade\<lparr>up_token := [5]\<rparr>"
  obtain sv where b: "bootServer demo_host demo_wc 1000 demo_token_db [] = Some sv" and r: "sv_relay sv = initRelay []"
    and w: "w_users (sv_web sv) = [(js ''ada'', \<lparr>ru_userId = js ''ada'', ru_userName = js ''ada'', ru_tokenHashes = [[5]]\<rparr>)]"
    using demo_token_boots by blast
  obtain dc where d: "upgrade_decision demo_host demo_wc demo_moment ?u demo_cookie sv = (Allow dc, sv)"
    "d_authKind dc = TOKEN" "d_userId dc = js ''ada''"
    by (simp add: upgrade_decision_def Let_def r w authorizeUpgrade_def demo_upgrade_def demo_wc_def demo_rc_def source_name_def
        initRelay_def up_is_agent_def up_effective_token_def findRelayUserByToken_def verifySecret_def hashSecret_def
        demo_host_def demo_node_def js_def)
  have "verifySecret (h_node demo_host) (up_effective_token (wc_relay demo_wc) ?u) h = (h = [5])" for h
    by (auto simp: verifySecret_def hashSecret_def demo_host_def demo_node_def up_effective_token_def up_is_agent_def
        demo_upgrade_def source_name_def js_def)
  then show ?thesis
    using token_admission [OF b, where es = "[]" and u = ?u and M = demo_moment and q = demo_cookie and W = demo_webauthn] d b by auto
qed

subsection \<open>Revocation\<close>

text \<open>
  C15: After any run of the relay process from a sound database, in which the paths that revoke a
  session name it without surrounding spaces, a connected socket that a browser session admitted
  belongs to a session that was not revoked before it expired, and to a user who is not disabled.
  So revoking a session, logging out, changing or recovering a password and disabling a user close
  the sockets they concern, whatever requests and messages interleave.
\<close>
theorem revoked_sessions_closed:
  assumes boot: "bootServer H C now d files = Some sv0" and d: "sound_db d" and es: "list_all neat_event es"
    and sv: "sv = fst (run_machine (serverStep H C W) es sv0)"
    and w: "w \<in> set (r_clients (sv_relay sv))" and c: "c = client_of (sv_relay sv) w" "c_source c = BROWSER" "c_authKind c = SESSION"
  shows "(\<forall>r \<in> set (db_sessions (w_db (sv_web sv))).
      sr_id r = c_sessionId c \<and> owned_by (db_users (w_db (sv_web sv))) (c_userId c) r \<longrightarrow> \<not> revoked_early r)
    \<and> (\<forall>x \<in> set (db_users (w_db (sv_web sv))). us_name x = c_userId c \<longrightarrow> us_disabled x = None)"
proof -
  have "sv_inv sv" unfolding sv by (rule server_runs [OF boot d es])
  moreover have "badge (client_of (sv_relay sv) w) = session_badge (c_userId c) (c_sessionId c)" using c by (simp add: badge_def)
  ultimately show ?thesis using w unfolding sv_inv_def bearers_ok_def on_view_def bearer_ok_def by blast
qed

theorem revoked_sessions_closed_witness:
  "r_clients (sv_relay (demo_run [demo_connect])) = [5]
    \<and> filter (\<lambda>r. sr_id r = js ''s2'' \<and> owned_by (db_users (w_db (sv_web (demo_run [demo_connect])))) (js ''ada'') r \<and> revoked_early r)
        (db_sessions (w_db (sv_web (demo_run [demo_connect])))) = []"
proof -
  have "list_all neat_event [demo_connect]" by (simp add: neat_event_def demo_connect_def)
  then show ?thesis
    using revoked_sessions_closed [OF demo_boots demo_sound _ demo_run_def, of "[demo_connect]" 5] demo_connected
    by (auto simp: badge_def filter_empty_conv)
qed

subsection \<open>A path with a space\<close>

text \<open>
  The handler revokes the trimmed identifier, but the effect names the decoded text as it is: where
  the two differ, no effect closes the sockets of the session whose row was revoked.
\<close>

definition closes_nothing :: "jstr \<Rightarrow> jstr \<Rightarrow> web \<Rightarrow> bool" where
  "closes_nothing u i w = (\<forall>f \<in> set (w_effects w). \<not> closes f u i)"

lemma quiet_parts:
  "keeping (closes_nothing u i) (with_db m)" "keeping (closes_nothing u i) (getAccountSession H C T q)"
  "keeping (closes_nothing u i) (insertAccountAuditEvent C T q j e n md)"
  "\<not> closes f u i \<Longrightarrow> keeping (closes_nothing u i) (effect f)"
proof -
  show db: "keeping (closes_nothing u i) (with_db m)" for m :: "'x rdb"
    by (simp add: keeping_def closes_nothing_def with_db_web)
  show "keeping (closes_nothing u i) (getAccountSession H C T q)" "keeping (closes_nothing u i) (insertAccountAuditEvent C T q j e n md)"
    unfolding getAccountSession_def insertAccountAuditEvent_def write_audit_def by (intro keep_intros db)+
  show "\<not> closes f u i \<Longrightarrow> keeping (closes_nothing u i) (effect f)"
    by (auto simp: keeping_def closes_nothing_def effect_def)
qed

theorem untrimmed_revocation_closes_nothing:
  assumes "decodeURIComponent e = Some t" "trim t \<noteq> t"
  shows "keeping (closes_nothing u (trim t)) (account_revoke H C T q e)"
  unfolding account_revoke_def with_account_def decoded_def assms(1) option.case bind_evals Let_def
  by (intro keep_intros quiet_parts) (use assms(2) in \<open>auto simp: closes_def\<close>)

theorem untrimmed_revocation_closes_nothing_witness:
  "trim [32, 115, 50] = js ''s2'' \<and> keeping (closes_nothing (js ''ada'') (js ''s2'')) (account_revoke demo_host demo_wc demo_tick demo_cookie (js ''%20s2''))"
proof -
  have "decodeURIComponent (js ''%20s2'') = Some [32, 115, 50]" by code_simp
  moreover have "trim [32, 115, 50] = js ''s2''" by (simp add: trim_def is_ws_def js_def)
  moreover have "js ''s2'' \<noteq> [32, 115, 50]" by (simp add: js_def)
  ultimately show ?thesis using untrimmed_revocation_closes_nothing [of "js ''%20s2''" "[32, 115, 50]"] by simp
qed

end
