(* ===== verification/RemoteAgent.thy ===== *)
theory RemoteAgent
  imports Agent Validate Versions
begin

section \<open>The agent's connection to the relay (proxy/remote-agent.js)\<close>

text \<open>
  The agent dials the relay, tells it the state of the flight and carries out the commands that the
  relay passes on from paired browsers. It calls the rest of the local program through its options:
  the calls that act are outputs (\<open>remote_call\<close>), the getters are a view that an event comes with
  (\<open>local_view\<close>), with what they return when the handler calls them, after the calls that it made
  before; \<open>lv_tx_started\<close> and \<open>lv_pcm_taken\<close> are the answers of the transmitter. A call may come
  back to the agent, as the event \<open>publishFromLocal\<close> or \<open>handleRemoteTxSocketSend\<close>: it is an event of
  its own, behind the handler that made the call, which sends nothing after it.

  Sockets are numbers. A timer is pending or not; its callback is an event that is void when the
  timer is not pending. Identifiers that are made of the clock and random digits are given by the
  view. Logs, diagnostics and their counters' printing are left out.
\<close>

definition RX_PCM_CHUNK_BYTES :: nat where
  "RX_PCM_CHUNK_BYTES = 32 * 1024"

definition TX_MAX_MS :: int where
  "TX_MAX_MS = 120 * 1000"

definition WATCHDOG_REFRESH_MS :: int where
  "WATCHDOG_REFRESH_MS = 5 * 60 * 1000"

subsection \<open>Options\<close>

text \<open>
  What the URL parser gives of the configured address: the protocol, the path and the address that
  results for another protocol and path, with the parameter \<open>source=agent\<close>.
\<close>

record relay_url =
  ru_protocol :: jstr
  ru_pathname :: jstr
  ru_agent_url :: "jstr \<Rightarrow> jstr \<Rightarrow> jstr"

record remote_options =
  ro_enabled :: bool
  ro_url :: jstr
  ro_token :: jstr
  ro_deviceId :: jstr
  ro_deviceName :: jstr
  ro_appVersion :: jstr
  ro_reconnectMs :: jnum

definition buildRemoteRelayWsUrl :: "(jstr \<Rightarrow> relay_url option) \<Rightarrow> bool \<Rightarrow> jstr \<Rightarrow> jstr \<Rightarrow> jstr" where
  "buildRemoteRelayWsUrl U enabled url token =
     (if \<not> enabled \<or> url = [] \<or> token = [] then []
      else (case U url of
          None \<Rightarrow> []
        | Some u \<Rightarrow>
            (let protocol = (if ru_protocol u = js ''http:'' then js ''ws:''
                   else if ru_protocol u = js ''https:'' then js ''wss:'' else ru_protocol u);
                 path = (if ru_pathname u = [] \<or> ru_pathname u = js ''/'' then js ''/ws'' else ru_pathname u)
             in if protocol \<noteq> js ''ws:'' \<and> protocol \<noteq> js ''wss:'' then []
                else ru_agent_url u protocol path)))"

text \<open>\<open>replace(/-+/g, '-')\<close>.\<close>

fun single_dashes :: "jstr \<Rightarrow> jstr" where
  "single_dashes (a # b # s) =
     (if a = 45 \<and> b = 45 then single_dashes (b # s) else a # single_dashes (b # s))"
| "single_dashes s = s"

definition normalizeRemoteDeviceId :: "jstr \<Rightarrow> jstr" where
  "normalizeRemoteDeviceId value =
     (let t = single_dashes (map (\<lambda>c. if token_char c then c else 45) (trim value))
      in if rx_match (Reps token_char 8 160) t then t else [])"

text \<open>The options as \<open>createRemoteAgent\<close> reads them of the configuration.\<close>

definition remoteOptions ::
  "(jstr \<Rightarrow> relay_url option) \<Rightarrow> payload \<Rightarrow> jstr \<Rightarrow> jstr \<Rightarrow> remote_options" where
  "remoteOptions U config hostname appVersion =
     (let enabled = (fld config ''remoteAgentEnabled'' = Some (JBool True));
          text = (\<lambda>k. str_or_empty (mget config (js k)));
          given = normalizeRemoteDeviceId (text ''remoteDeviceId'');
          reconnect = (case fld config ''remoteReconnectMs'' of Some v \<Rightarrow> json_number v | None \<Rightarrow> NaN)
      in \<lparr>ro_enabled = enabled,
          ro_url = buildRemoteRelayWsUrl U (opt_truthy (fld config ''remoteAgentEnabled''))
            (text ''remoteRelayUrl'') (text ''remoteRelayToken''),
          ro_token = trim (text ''remoteRelayToken''),
          ro_deviceId = (if given \<noteq> [] then given
            else normalizeRemoteDeviceId (js ''voxhf-'' @ (if hostname \<noteq> [] then hostname else js ''local''))),
          ro_deviceName = to_str (or_else (fld config ''remoteDeviceName'')
            (JStr ((if hostname \<noteq> [] then hostname else js ''Local'') @ js '' VoxHF''))),
          ro_appVersion = (if appVersion \<noteq> [] then appVersion else js ''0.0.0''),
          ro_reconnectMs = (if reconnect = NaN \<or> reconnect = Fin 0 then Fin 5000 else reconnect)\<rparr>)"

subsection \<open>State, view, outputs\<close>

record tx_stats =
  xs_com :: nat
  xs_frames :: nat
  xs_bytes :: nat
  xs_rejected :: nat
  xs_startedAt :: int

text \<open>\<open>rm_open\<close> says that the socket of \<open>rm_ws\<close> is in the state \<open>OPEN\<close>.\<close>

record remote =
  rm_ws :: "nat option"
  rm_open :: bool
  rm_timer :: bool
  rm_pairing :: "(json option \<times> json option) option"
  rm_tx_timer :: bool
  rm_tx :: "tx_stats option"
  rm_tx_logged :: bool
  rm_update :: bool
  rm_refresh :: bool
  rm_windows :: "(mtype, int list) jmap"

record local_view =
  lv_now :: int
  lv_gen :: jstr
  lv_random :: jstr
  lv_app :: app_state
  lv_webTxEnabled :: bool
  lv_txReady :: bool
  lv_txSampleRate :: nat
  lv_unicom :: unicom
  lv_armed :: bool
  lv_session :: jstr
  lv_vapidPublicKey :: jstr
  lv_subscriptionCount :: nat
  lv_tickets :: "ticket list"
  lv_tx_started :: bool
  lv_pcm_taken :: bool

text \<open>The calls of the options, with the fields of the payload as they are (\<open>None\<close> is \<open>undefined\<close>).\<close>

datatype remote_call = CallCom "json option" "json option" json
  | CallChat payload | CallSubscribe payload | CallUnsubscribe "json option"
  | CallTimerStart | CallTimerCancel
  | CallWeather "json option" "json option" "json option" "json option" | CallAtis "json option"
  | CallSquawk "json option" | CallXpdr "json option" | CallIdent
  | CallTxStart "json option" | CallTxStop jstr | CallTxPcm bytes
  | CallWatchdogFired "json option" | CallBroadcast payload

datatype remote_out = Dial nat jstr jstr | Sent message | SentPcm bytes | CloseForUpdate
  | ReconnectIn jnum | RefreshIn int | TxEndsIn int | Called remote_call | Report jstr

type_synonym remote_handler = "remote \<Rightarrow> remote \<times> remote_out list"

definition init_remote :: remote where
  "init_remote = \<lparr>rm_ws = None, rm_open = False, rm_timer = False, rm_pairing = None, rm_tx_timer = False,
     rm_tx = None, rm_tx_logged = False, rm_update = False, rm_refresh = False, rm_windows = []\<rparr>"

definition quiet :: remote_handler where
  "quiet s = (s, [])"

definition called :: "remote_call \<Rightarrow> remote_handler" where
  "called c s = (s, [Called c])"

text \<open>\<open>send\<close>, which does nothing while the socket is not open; \<open>i\<close> is \<open>''\<close> for an identifier of its own.\<close>

definition send_remote :: "local_view \<Rightarrow> mtype \<Rightarrow> payload \<Rightarrow> jstr \<Rightarrow> remote_handler" where
  "send_remote V t p i s =
     (s, if rm_open s then [Sent (createRemoteMessage (lv_gen V) t p i)] else [])"

definition own_callsign :: "local_view \<Rightarrow> jstr" where
  "own_callsign V = opt_text (as_callsign (lv_app V))"

subsection \<open>The state of the flight\<close>

definition plan_text :: "plan_status \<Rightarrow> jstr" where
  "plan_text p = (case p of Filed \<Rightarrow> js ''filed'' | NoPlan \<Rightarrow> js ''missing'')"

definition status_payload :: "remote_options \<Rightarrow> local_view \<Rightarrow> payload" where
  "status_payload R V =
     (let a = lv_app V in
      [(js ''connected'', JBool (as_connected a)), (js ''webTxEnabled'', JBool (lv_webTxEnabled V)),
       (js ''txReady'', JBool (lv_txReady V)),
       (js ''txSampleRate'', JNum (Fin (rat_of_nat (lv_txSampleRate V)))),
       (js ''agentVersion'', JStr (ro_appVersion R))]
      @ (if own_callsign V \<noteq> [] then [(js ''callsign'', JStr (own_callsign V))] else [])
      @ [(js ''flightPlanStatus'', JStr (plan_text (as_plan_status a)))]
      @ (if as_squawk a \<noteq> [] then [(js ''squawk'', JStr (as_squawk a))] else [])
      @ (if as_xpdr_mode a = js ''stby'' \<or> as_xpdr_mode a = js ''alt''
         then [(js ''xpdrMode'', JStr (as_xpdr_mode a))] else []))"

definition sendStatus :: "remote_options \<Rightarrow> local_view \<Rightarrow> remote_handler" where
  "sendStatus R V = send_remote V AGENT_STATUS (status_payload R V) []"

definition formatRemoteComFrequency :: "jstr \<Rightarrow> jstr" where
  "formatRemoteComFrequency freq =
     (let raw = trim freq in
      if raw = [] then []
      else (let formatted = formatComFrequency (JStr raw)
            in if rx_match freq_rx formatted then formatted else []))"

definition sendRadioState :: "local_view \<Rightarrow> remote_handler" where
  "sendRadioState V =
     (let a = lv_app V;
          com1 = formatRemoteComFrequency (as_com a 1); com2 = formatRemoteComFrequency (as_com a 2)
      in if com1 = [] \<or> com2 = [] then quiet
         else send_remote V RADIO_STATE [(js ''com1'', JStr com1), (js ''com2'', JStr com2),
           (js ''station1'', JStr (as_com_station a 1)), (js ''station2'', JStr (as_com_station a 2))] [])"

definition finite_field :: "string \<Rightarrow> jnum option \<Rightarrow> payload" where
  "finite_field k x = (case x of Some (Fin q) \<Rightarrow> [(js k, JNum (Fin q))] | _ \<Rightarrow> [])"

definition station_payload :: "known_station \<Rightarrow> json" where
  "station_payload st = JObj ([(js ''callsign'', JStr (ks_callsign st)),
       (js ''freq'', JStr (formatRemoteComFrequency (ks_freq st)))]
     @ finite_field ''lat'' (ks_lat st) @ finite_field ''lon'' (ks_lon st)
     @ (if ks_voice st \<noteq> [] then [(js ''voice'', JStr (take 256 (ks_voice st)))] else []))"

definition stations_payload :: "app_state \<Rightarrow> payload" where
  "stations_payload a =
     [(js ''stations'', JArr (map station_payload
         (filter (\<lambda>st. ks_callsign st \<noteq> [] \<and> \<not> ends_with (ks_callsign st) (js ''_OBS''))
           (map snd (as_stations a)))))]
     @ (case as_position a of
          Some (Fin lat, Fin lon) \<Rightarrow>
            [(js ''ownPosition'', JObj [(js ''lat'', JNum (Fin lat)), (js ''lon'', JNum (Fin lon))])]
        | _ \<Rightarrow> [])"

definition sendStationsState :: "local_view \<Rightarrow> remote_handler" where
  "sendStationsState V = send_remote V STATIONS_STATE (stations_payload (lv_app V)) []"

definition weather_entry :: "(jstr \<times> jstr) option \<Rightarrow> json" where
  "weather_entry e = (case e of None \<Rightarrow> JNull
     | Some (text, receivedAt) \<Rightarrow> JObj [(js ''text'', JStr text), (js ''receivedAt'', JStr receivedAt),
         (js ''source'', JStr (js ''IVAO''))])"

definition weather_slot_json :: "weather_slot \<Rightarrow> json" where
  "weather_slot_json w = JObj [(js ''icao'', JStr (ws_icao w)), (js ''metar'', weather_entry (ws_metar w)),
     (js ''taf'', weather_entry (ws_taf w))]"

definition sendWeatherState :: "local_view \<Rightarrow> remote_handler" where
  "sendWeatherState V =
     (let a = lv_app V; p = as_plan a
      in send_remote V WEATHER_STATE
        [(js ''flightPlanStatus'', JStr (plan_text (as_plan_status a))),
         (js ''flightPlan'', JObj [(js ''departure'', JStr (fp_departure p)),
            (js ''destination'', JStr (fp_destination p)), (js ''alternate'', JStr (fp_alternate p))]),
         (js ''weatherState'', JObj [(js ''departure'', weather_slot_json (as_departure a)),
            (js ''destination'', weather_slot_json (as_destination a))])] [])"

subsection \<open>Chat\<close>

text \<open>A message as the agent published it, and what is sent of it; nothing without a text.\<close>

definition message_data :: "jstr \<Rightarrow> chat_msg \<Rightarrow> payload" where
  "message_data i m = [(js ''sender'', JStr (cm_sender m))] @ opt_pair ''recipient'' (map_option JStr (cm_recipient m))
     @ [(js ''text'', JStr (cm_text m)), (js ''timestamp'', JStr (cm_timestamp m)),
        (js ''direction'', JStr (case cm_direction m of Outgoing \<Rightarrow> js ''outgoing'' | Incoming \<Rightarrow> js ''incoming'')),
        (js ''messageId'', JStr i)]"

definition chat_payload :: "local_view \<Rightarrow> payload \<Rightarrow> payload option" where
  "chat_payload V data =
     (let text = trim (str_or_empty (fld data ''text''));
          own = (if own_callsign V \<noteq> [] then own_callsign V else js ''LOCAL'')
      in if text = [] then None
         else Some ([(js ''sender'', JStr (to_str (or_else (fld data ''sender'') (JStr (js ''LOCAL''))))),
           (js ''recipient'', JStr (to_str (or_else (fld data ''recipient'') (JStr own)))),
           (js ''text'', JStr text),
           (js ''timestamp'', or_else (fld data ''timestamp'') (JStr (iso_string (lv_now V)))),
           (js ''direction'', JStr (if fld data ''direction'' = Some (JStr (js ''outgoing''))
             then js ''outgoing'' else js ''incoming''))]
           @ (if opt_truthy (fld data ''messageId'')
              then [(js ''messageId'', JStr (to_str (val data ''messageId'')))] else [])))"

definition sendChatMessage :: "local_view \<Rightarrow> payload \<Rightarrow> remote_handler" where
  "sendChatMessage V data = (case chat_payload V data of None \<Rightarrow> quiet | Some p \<Rightarrow> send_remote V CHAT_MESSAGE p [])"

definition last_50 :: "'a list \<Rightarrow> 'a list" where
  "last_50 l = drop (length l - 50) l"

definition sendChatHistory :: "local_view \<Rightarrow> remote_handler" where
  "sendChatHistory V = send_remote V CHAT_HISTORY
     [(js ''messages'', JArr (map JObj (List.map_filter (\<lambda>(i, m). chat_payload V (message_data i m))
        (last_50 (as_log (lv_app V))))))] []"

definition sendSystemMessage :: "local_view \<Rightarrow> json \<Rightarrow> remote_handler" where
  "sendSystemMessage V text = send_remote V CHAT_MESSAGE
     [(js ''sender'', JStr (js ''LOCAL'')),
      (js ''recipient'', JStr (if own_callsign V \<noteq> [] then own_callsign V else js ''REMOTE'')),
      (js ''text'', text), (js ''timestamp'', JStr (iso_string (lv_now V))),
      (js ''direction'', JStr (js ''incoming''))] []"

subsection \<open>Notifications and the timer\<close>

definition sendNotificationState :: "local_view \<Rightarrow> remote_handler" where
  "sendNotificationState V = send_remote V NOTIFICATION_STATE
     [(js ''available'', JBool True), (js ''vapidPublicKey'', JStr (lv_vapidPublicKey V)),
      (js ''subscriptionCount'', JNum (Fin (rat_of_nat (lv_subscriptionCount V))))] []"

definition timer_data :: "unicom \<Rightarrow> payload" where
  "timer_data u = (case ut_running u of
       Some (startedAt, expiresAt) \<Rightarrow> [(js ''active'', JBool True), (js ''startedAt'', JStr startedAt),
         (js ''expiresAt'', JStr expiresAt)]
     | None \<Rightarrow> [(js ''active'', JBool False)])"

definition sendUnicomTimerState :: "local_view \<Rightarrow> payload \<Rightarrow> remote_handler" where
  "sendUnicomTimerState V value = send_remote V UNICOM_TIMER_STATE
     (if fld value ''active'' = Some (JBool True)
      then [(js ''active'', JBool True)] @ opt_pair ''startedAt'' (fld value ''startedAt'')
        @ opt_pair ''expiresAt'' (fld value ''expiresAt'')
      else [(js ''active'', JBool False)]) []"

subsection \<open>The watchdog of the relay\<close>

definition scheduleWatchdogRefresh :: remote_handler where
  "scheduleWatchdogRefresh s = (s\<lparr>rm_refresh := True\<rparr>, [RefreshIn WATCHDOG_REFRESH_MS])"

definition send_disarm :: "local_view \<Rightarrow> remote_handler" where
  "send_disarm V = send_remote V AGENT_WATCHDOG_DISARM [(js ''sessionId'', JStr (lv_session V))] []"

definition batch_id :: "local_view \<Rightarrow> jstr" where
  "batch_id V = js ''watchdog-'' @ to_string36 (lv_now V) @ [45] @ lv_random V"

definition send_ticket :: "local_view \<Rightarrow> ticket \<Rightarrow> remote_handler" where
  "send_ticket V t = send_remote V AGENT_WATCHDOG_TICKET
     [(js ''sessionId'', JStr (lv_session V)), (js ''batchId'', JStr (batch_id V)), (js ''ticket'', ticket_json t)] []"

definition send_commit :: "local_view \<Rightarrow> remote_handler" where
  "send_commit V = send_remote V AGENT_WATCHDOG_COMMIT
     [(js ''sessionId'', JStr (lv_session V)), (js ''batchId'', JStr (batch_id V))] []"

definition syncAgentWatchdog :: "bool \<Rightarrow> local_view \<Rightarrow> remote_handler" where
  "syncAgentWatchdog clearFirst V s0 =
     (let s = s0\<lparr>rm_refresh := False\<rparr> in
      if \<not> rm_open s then quiet s
      else if \<not> lv_armed V \<or> lv_session V = [] then
        (if lv_session V \<noteq> [] then send_disarm V s else quiet s)
      else if lv_tickets V = [] then andThen (send_disarm V) scheduleWatchdogRefresh s
      else andThen (if clearFirst then send_disarm V else quiet)
        (andThen (each (send_ticket V) (lv_tickets V))
          (andThen (send_commit V) scheduleWatchdogRefresh)) s)"

definition pairing_request :: "remote_options \<Rightarrow> payload" where
  "pairing_request R = [(js ''deviceName'', JStr (ro_deviceName R)), (js ''agentVersion'', JStr (ro_appVersion R))]"

definition renewPairingCode :: "remote_options \<Rightarrow> local_view \<Rightarrow> remote_handler" where
  "renewPairingCode R V s =
     (if \<not> ro_enabled R then (s, [Report (js ''Remote agent mode is disabled in config.json.'')])
      else if \<not> rm_open s then (s, [Report (js ''Remote relay is not connected yet.'')])
      else andThen (send_remote V PAIRING_BEGIN (pairing_request R) (js ''pairing-renew-'' @ to_string36 (lv_now V)))
        (\<lambda>s. (s, [Report (js ''Requested a new remote pairing code.'')])) s)"

subsection \<open>Transmitting for a browser\<close>

definition startRemoteWebTx :: "local_view \<Rightarrow> json option \<Rightarrow> remote_handler" where
  "startRemoteWebTx V com s =
     (if \<not> lv_tx_started V then called (CallTxStart com) s
      else (s\<lparr>rm_tx := Some \<lparr>xs_com = (if com = Some (JNum (Fin 2)) then 2 else 1), xs_frames = 0,
                 xs_bytes = 0, xs_rejected = 0, xs_startedAt = lv_now V\<rparr>,
              rm_tx_logged := False, rm_tx_timer := True\<rparr>,
            [Called (CallTxStart com), TxEndsIn TX_MAX_MS]))"

definition stopRemoteWebTx :: "jstr \<Rightarrow> remote_handler" where
  "stopRemoteWebTx reason s =
     (s\<lparr>rm_tx := None, rm_tx_timer := False\<rparr>, [Called (CallTxStop reason)])"

definition writeRemoteTxPcm :: "local_view \<Rightarrow> bytes \<Rightarrow> remote_handler" where
  "writeRemoteTxPcm V pcm s =
     (case rm_tx s of
        Some x \<Rightarrow> s\<lparr>rm_tx := Some (x\<lparr>xs_frames := xs_frames x + 1, xs_bytes := xs_bytes x + length pcm,
            xs_rejected := xs_rejected x + (if lv_pcm_taken V then 0 else 1)\<rparr>)\<rparr>
      | None \<Rightarrow> if lv_pcm_taken V then s else s\<lparr>rm_tx_logged := True\<rparr>,
      [Called (CallTxPcm pcm)])"

definition tx_timed_out :: "local_view \<Rightarrow> remote_handler" where
  "tx_timed_out V = andThen (stopRemoteWebTx (js ''remote tx timed out''))
     (sendSystemMessage V (JStr (js ''Remote TX timed out.'')))"

text \<open>What the transmitter says to its socket: an error becomes a message for the browser.\<close>

definition handleRemoteTxSocketSend :: "local_view \<Rightarrow> payload \<Rightarrow> remote_handler" where
  "handleRemoteTxSocketSend V m =
     (if fld m ''kind'' = Some (JStr (js ''error'')) \<and> opt_truthy (fld m ''text'')
      then sendSystemMessage V (val m ''text'') else quiet)"

function rx_chunks :: "bytes \<Rightarrow> bytes list" where
  "rx_chunks b = (if b = [] then [] else take RX_PCM_CHUNK_BYTES b # rx_chunks (drop RX_PCM_CHUNK_BYTES b))"
  by pat_completeness auto
termination by (relation "measure length") (auto simp: RX_PCM_CHUNK_BYTES_def)

declare rx_chunks.simps [simp del]

definition sendBinary_remote :: "bytes \<Rightarrow> remote_handler" where
  "sendBinary_remote b s = (s, if rm_open s then map SentPcm (rx_chunks b) else [])"

subsection \<open>Commands\<close>

text \<open>The most calls of a command and the length of their window; most commands share one entry.\<close>

definition makeCommandRateLimits :: "(mtype, nat \<times> int) jmap" where
  "makeCommandRateLimits =
     [(RADIO_SET, 8, 10000), (CHAT_SEND, 8, 10000), (CHAT_HISTORY_REQUEST, 6, 10000),
      (NOTIFICATION_SUBSCRIBE, 6, 60000), (NOTIFICATION_UNSUBSCRIBE, 6, 60000),
      (UNICOM_TIMER_START, 6, 10000), (UNICOM_TIMER_CANCEL, 6, 10000), (WEATHER_REQUEST, 6, 10000),
      (ATIS_REQUEST, 6, 10000), (XPDR_SET_SQUAWK, 6, 10000), (XPDR_SET_MODE, 6, 10000), (XPDR_IDENT, 3, 30000)]"

definition window_of :: "remote \<Rightarrow> mtype \<Rightarrow> int list" where
  "window_of s t = (case mget (rm_windows s) t of Some l \<Rightarrow> l | None \<Rightarrow> [])"

definition allowCommand :: "int \<Rightarrow> mtype \<Rightarrow> remote \<Rightarrow> remote \<times> bool" where
  "allowCommand now t s =
     (case mget makeCommandRateLimits t of
        None \<Rightarrow> (s, True)
      | Some (most, windowMs) \<Rightarrow>
          (let recent = filter (\<lambda>time. time \<ge> now - windowMs) (window_of s t)
           in if length recent \<ge> most then (s\<lparr>rm_windows := mput (rm_windows s) t recent\<rparr>, False)
              else (s\<lparr>rm_windows := mput (rm_windows s) t (recent @ [now])\<rparr>, True)))"

definition run_command :: "local_view \<Rightarrow> message \<Rightarrow> remote_handler" where
  "run_command V m =
     (let p = m_payload m; subscribed = andThen (sendNotificationState V) (syncAgentWatchdog True V) in
      case m_type m of
        RADIO_SET \<Rightarrow> called (CallCom (fld p ''com'') (fld p ''freq'') (or_else (fld p ''station'') (JStr [])))
      | CHAT_SEND \<Rightarrow> called (CallChat p)
      | CHAT_HISTORY_REQUEST \<Rightarrow> sendChatHistory V
      | NOTIFICATION_SUBSCRIBE \<Rightarrow> andThen (called (CallSubscribe p)) subscribed
      | NOTIFICATION_UNSUBSCRIBE \<Rightarrow> andThen (called (CallUnsubscribe (fld p ''endpoint''))) subscribed
      | UNICOM_TIMER_START \<Rightarrow> called CallTimerStart
      | UNICOM_TIMER_CANCEL \<Rightarrow> called CallTimerCancel
      | WEATHER_REQUEST \<Rightarrow> called (CallWeather (fld p ''kind'') (fld p ''icao'') (fld p ''source'') (fld p ''role''))
      | ATIS_REQUEST \<Rightarrow> called (CallAtis (fld p ''callsign''))
      | XPDR_SET_SQUAWK \<Rightarrow> called (CallSquawk (fld p ''code''))
      | XPDR_SET_MODE \<Rightarrow> called (CallXpdr (fld p ''mode''))
      | XPDR_IDENT \<Rightarrow> called CallIdent
      | TX_START \<Rightarrow> startRemoteWebTx V (fld p ''com'')
      | TX_STOP \<Rightarrow> stopRemoteWebTx (js ''remote tx stopped'')
      | _ \<Rightarrow> quiet)"

definition handleRemoteCommand :: "local_view \<Rightarrow> message \<Rightarrow> remote_handler" where
  "handleRemoteCommand V m s =
     (let (s1, ok) = allowCommand (lv_now V) (m_type m) s
      in if ok then run_command V m s1 else quiet s1)"

subsection \<open>Messages of the relay\<close>

definition remote_broadcast :: "string \<Rightarrow> payload \<Rightarrow> remote_handler" where
  "remote_broadcast kind p = called (CallBroadcast ((js ''kind'', JStr (js kind)) # p))"

definition nextCloseForUpdate :: remote_handler where
  "nextCloseForUpdate s = (if rm_open s then (s\<lparr>rm_open := False\<rparr>, [CloseForUpdate]) else quiet s)"

definition update_policy :: "payload \<Rightarrow> payload" where
  "update_policy p =
     (let latest = or_else (fld p ''recommendedAgentVersion'') (or_else (fld p ''relayVersion'') (JStr []))
      in [(js ''latestVersion'', latest), (js ''recommendedLocalVersion'', latest),
          (js ''minimumLocalVersion'', or_else (fld p ''minimumAgentVersion'') (JStr [])),
          (js ''downloadUrl'', or_else (fld p ''downloadUrl'') (JStr []))])"

definition update_required :: "(jstr \<Rightarrow> jstr \<Rightarrow> int) \<Rightarrow> remote_options \<Rightarrow> payload \<Rightarrow> bool" where
  "update_required coll R p =
     (opt_truthy (fld p ''minimumAgentVersion'')
      \<and> compareVersions coll (Some (JStr (ro_appVersion R))) (fld p ''minimumAgentVersion'') < 0)"

definition handle_relay_message ::
  "(jstr \<Rightarrow> jstr \<Rightarrow> int) \<Rightarrow> remote_options \<Rightarrow> local_view \<Rightarrow> message \<Rightarrow> remote_handler" where
  "handle_relay_message coll R V m =
     (let p = m_payload m in
      case m_type m of
        PING \<Rightarrow> send_remote V PONG [] (js ''pong-'' @ m_id m)
      | RELAY_IDENTITY \<Rightarrow>
          andThen (remote_broadcast ''update_policy'' (update_policy p))
            (\<lambda>s. if update_required coll R p then nextCloseForUpdate (s\<lparr>rm_update := True\<rparr>) else quiet s)
      | PONG \<Rightarrow> quiet
      | DEVICE_STATE \<Rightarrow> quiet
      | AGENT_WATCHDOG_FIRED \<Rightarrow> called (CallWatchdogFired (fld p ''sessionId''))
      | PAIRING_CODE \<Rightarrow>
          andThen (\<lambda>s. (s\<lparr>rm_pairing := Some (fld p ''code'', fld p ''expiresAt'')\<rparr>, []))
            (remote_broadcast ''remote_pairing''
              (opt_pair ''code'' (fld p ''code'') @ opt_pair ''expiresAt'' (fld p ''expiresAt'')))
      | RELAY_ERROR \<Rightarrow> quiet
      | _ \<Rightarrow> handleRemoteCommand V m)"

text \<open>What the platform gives: JSON parser, URL parser and collator.\<close>

record remote_env =
  re_parse :: "jstr \<Rightarrow> json option"
  re_url :: url_parser
  re_coll :: "jstr \<Rightarrow> jstr \<Rightarrow> int"
  re_options :: remote_options

definition handleRelayMessage :: "remote_env \<Rightarrow> local_view \<Rightarrow> jstr \<Rightarrow> remote_handler" where
  "handleRelayMessage E V raw =
     (case parseRemoteJson (re_parse E) (re_url E) None raw of
        Inl e \<Rightarrow> quiet
      | Inr m \<Rightarrow> handle_relay_message (re_coll E) (re_options E) V m)"

subsection \<open>Updates of the local program\<close>

definition data_kind :: "payload \<Rightarrow> string \<Rightarrow> bool" where
  "data_kind data k = (fld data ''kind'' = Some (JStr (js k)))"

definition publishFromLocal :: "remote_options \<Rightarrow> local_view \<Rightarrow> payload \<Rightarrow> remote_handler" where
  "publishFromLocal R V data s =
     (if \<not> rm_open s then quiet s
      else if data_kind data ''status'' \<or> data_kind data ''login'' \<or> data_kind data ''xpdr_update''
        then sendStatus R V s
      else if data_kind data ''flight_plan_status'' \<or> data_kind data ''weather_update''
        then andThen (sendStatus R V) (sendWeatherState V) s
      else if data_kind data ''freq_update'' then sendRadioState V s
      else if data_kind data ''atc_detected'' \<or> data_kind data ''atc_voice_info'' \<or> data_kind data ''own_position''
        then sendStationsState V s
      else if data_kind data ''message'' then sendChatMessage V data s
      else if data_kind data ''unicom_timer_state'' then sendUnicomTimerState V data s
      else if data_kind data ''unicom_timer_expired''
        then send_remote V UNICOM_TIMER_EXPIRED (opt_pair ''expiredAt'' (fld data ''expiredAt'')) [] s
      else quiet s)"

subsection \<open>The connection\<close>

definition connect_remote :: "remote_options \<Rightarrow> nat \<Rightarrow> remote_handler" where
  "connect_remote R n s =
     (s\<lparr>rm_ws := Some n, rm_open := False\<rparr>, [Dial n (ro_url R) (js ''Bearer '' @ ro_token R)])"

definition start_remote :: "remote_options \<Rightarrow> nat \<Rightarrow> remote_handler" where
  "start_remote R n s = (if \<not> ro_enabled R \<or> ro_url R = [] then quiet s else connect_remote R n s)"

definition greeting :: "remote_options \<Rightarrow> local_view \<Rightarrow> remote_handler" where
  "greeting R V =
     andThen (send_remote V AGENT_HELLO ((js ''deviceId'', JStr (ro_deviceId R)) # pairing_request R) (js ''agent-hello''))
       (andThen (send_remote V PAIRING_BEGIN (pairing_request R) (js ''pairing-begin''))
         (andThen (sendStatus R V)
           (andThen (sendRadioState V)
             (andThen (sendStationsState V)
               (andThen (sendWeatherState V)
                 (andThen (sendNotificationState V)
                   (andThen (sendUnicomTimerState V (timer_data (lv_unicom V)))
                     (syncAgentWatchdog False V))))))))"

definition on_open :: "remote_options \<Rightarrow> local_view \<Rightarrow> nat \<Rightarrow> remote_handler" where
  "on_open R V n s = greeting R V (if rm_ws s = Some n then s\<lparr>rm_open := True\<rparr> else s)"

definition scheduleReconnect :: "remote_options \<Rightarrow> remote_handler" where
  "scheduleReconnect R s =
     (if \<not> ro_enabled R \<or> rm_update s \<or> rm_timer s then quiet s
      else (s\<lparr>rm_timer := True\<rparr>, [ReconnectIn (ro_reconnectMs R)]))"

definition on_close :: "remote_options \<Rightarrow> nat \<Rightarrow> remote_handler" where
  "on_close R n =
     andThen (\<lambda>s. ((if rm_ws s = Some n then s\<lparr>rm_ws := None, rm_open := False\<rparr> else s)\<lparr>rm_refresh := False\<rparr>, []))
       (andThen (stopRemoteWebTx (js ''remote relay closed'')) (scheduleReconnect R))"

subsection \<open>The machine\<close>

text \<open>
  \<open>RelayClosing\<close> is the end of \<open>OPEN\<close> when the relay begins to close. The callback of the timer that
  connects again comes with the number of the new socket.
\<close>

datatype remote_in = Start nat | Opened nat | RelayText nat jstr | RelayBinary nat bytes | RelayClosing nat
  | RelayClosed nat | ReconnectTimer nat | RefreshTimer | TxTimer | Published_local payload | Status
  | SyncWatchdog bool | RxAudio bytes | RenewPairing | TxSocketSays payload

fun remote_step :: "remote_env \<Rightarrow> local_view \<times> remote_in \<Rightarrow> remote_handler" where
  "remote_step E (V, Start n) s = start_remote (re_options E) n s"
| "remote_step E (V, Opened n) s = on_open (re_options E) V n s"
| "remote_step E (V, RelayText n raw) s = handleRelayMessage E V raw s"
| "remote_step E (V, RelayBinary n b) s = writeRemoteTxPcm V b s"
| "remote_step E (V, RelayClosing n) s = (if rm_ws s = Some n then (s\<lparr>rm_open := False\<rparr>, []) else quiet s)"
| "remote_step E (V, RelayClosed n) s = on_close (re_options E) n s"
| "remote_step E (V, ReconnectTimer n) s =
     (if rm_timer s then connect_remote (re_options E) n (s\<lparr>rm_timer := False\<rparr>) else quiet s)"
| "remote_step E (V, RefreshTimer) s = (if rm_refresh s then syncAgentWatchdog False V s else quiet s)"
| "remote_step E (V, TxTimer) s = (if rm_tx_timer s then tx_timed_out V s else quiet s)"
| "remote_step E (V, Published_local data) s = publishFromLocal (re_options E) V data s"
| "remote_step E (V, Status) s = sendStatus (re_options E) V s"
| "remote_step E (V, SyncWatchdog clearFirst) s = syncAgentWatchdog clearFirst V s"
| "remote_step E (V, RxAudio b) s = sendBinary_remote b s"
| "remote_step E (V, RenewPairing) s = renewPairingCode (re_options E) V s"
| "remote_step E (V, TxSocketSays m) s = handleRemoteTxSocketSend V m s"

end
