(* ===== verification/RemoteFacts.thy ===== *)
theory RemoteFacts
  imports RemoteAgent
begin

section \<open>What the agent's connection to the relay keeps\<close>

text \<open>
  The commands that are carried out are read off the outputs (\<open>command_of\<close>). The locale
  \<open>observation\<close> proves once which operations leave a part of the state alone, and is interpreted for
  the windows of the commands, the permission to dial and the remote transmission. Only
  \<open>handleRemoteCommand\<close> carries out commands, and it counts them first, in sliding windows.
\<close>

subsection \<open>Small facts\<close>

lemma remote_evals [simp]:
  "quiet s = (s, [])" "called c s = (s, [Called c])"
  "send_remote V t p i s = (s, if rm_open s then [Sent (createRemoteMessage (lv_gen V) t p i)] else [])"
  by (simp_all add: RemoteAgent.quiet_def called_def send_remote_def)

definition call_type :: "remote_call \<Rightarrow> mtype option" where
  "call_type c = (case c of
     CallCom a b d \<Rightarrow> Some RADIO_SET | CallChat p \<Rightarrow> Some CHAT_SEND
   | CallSubscribe p \<Rightarrow> Some NOTIFICATION_SUBSCRIBE | CallUnsubscribe e \<Rightarrow> Some NOTIFICATION_UNSUBSCRIBE
   | CallTimerStart \<Rightarrow> Some UNICOM_TIMER_START | CallTimerCancel \<Rightarrow> Some UNICOM_TIMER_CANCEL
   | CallWeather a b d e \<Rightarrow> Some WEATHER_REQUEST | CallAtis a \<Rightarrow> Some ATIS_REQUEST
   | CallSquawk a \<Rightarrow> Some XPDR_SET_SQUAWK | CallXpdr a \<Rightarrow> Some XPDR_SET_MODE
   | CallIdent \<Rightarrow> Some XPDR_IDENT | _ \<Rightarrow> None)"

text \<open>The command of which an output is the effect; a history is only sent on request.\<close>

definition command_of :: "remote_out \<Rightarrow> mtype option" where
  "command_of x = (case x of
     Called c \<Rightarrow> call_type c
   | Sent m \<Rightarrow> if m_type m = CHAT_HISTORY then Some CHAT_HISTORY_REQUEST else None
   | _ \<Rightarrow> None)"

text \<open>The times at which a command of type \<open>t\<close> was carried out in a run.\<close>

fun executed :: "remote_env \<Rightarrow> mtype \<Rightarrow> (local_view \<times> remote_in) list \<Rightarrow> remote \<Rightarrow> int list" where
  "executed E t [] s = []"
| "executed E t (e # es) s =
     (let (s1, outs) = remote_step E e s
      in map (\<lambda>x. lv_now (fst e)) (filter (\<lambda>x. command_of x = Some t) outs) @ executed E t es s1)"

subsection \<open>Observations\<close>

text \<open>
  What an operation does to a part \<open>piece\<close> of the state and which outputs it has. Sending, synchronising the
  watchdog, pairing and publishing change nothing but the timer of the refresh: they are \<open>bare\<close> for every
  part that does not contain it.
\<close>

definition bare :: "(remote \<Rightarrow> 'a) \<Rightarrow> (remote_out \<Rightarrow> bool) \<Rightarrow> remote_handler \<Rightarrow> bool" where
  "bare piece Q h \<longleftrightarrow> (\<forall>s. piece (fst (h s)) = piece s \<and> list_all Q (snd (h s)))"

lemma bareI:
  "(\<And>s. piece (fst (h s)) = piece s \<and> list_all Q (snd (h s))) \<Longrightarrow> bare piece Q h"
  by (simp add: bare_def)

lemma bareD:
  "bare piece Q h \<Longrightarrow> piece (fst (h s)) = piece s"
  "bare piece Q h \<Longrightarrow> list_all Q (snd (h s))"
  by (simp_all add: bare_def)

named_theorems bare_intros \<open>operations that leave a part of the state alone\<close>

lemma bare_andThen [bare_intros]: "bare piece Q f \<Longrightarrow> bare piece Q g \<Longrightarrow> bare piece Q (andThen f g)"
  by (simp add: bare_def andThen_def case_prod_beta Let_def)

lemma bare_each [bare_intros]: "(\<And>x. bare piece Q (f x)) \<Longrightarrow> bare piece Q (each f xs)"
proof (induction xs)
  case (Cons x xs)
  have "each f (x # xs) = andThen (f x) (each f xs)" by (rule ext) simp
  then show ?case using Cons by (simp add: bare_andThen)
qed (simp add: bare_def)

lemma bare_if [bare_intros]: "bare piece Q f \<Longrightarrow> bare piece Q g \<Longrightarrow> bare piece Q (if b then f else g)"
  by simp

lemma bare_if_state [bare_intros]: "bare piece Q f \<Longrightarrow> bare piece Q g \<Longrightarrow> bare piece Q (\<lambda>s. if P s then f s else g s)"
  by (simp add: bare_def)

lemma bare_quiet [bare_intros]: "bare piece Q RemoteAgent.quiet"
  by (simp add: bare_def)

locale observation =
  fixes piece :: "remote \<Rightarrow> 'a" and Q :: "remote_out \<Rightarrow> bool"
  assumes piece_refresh: "piece (s\<lparr>rm_refresh := x\<rparr>) = piece s"
    and piece_pairing: "piece (s\<lparr>rm_pairing := y\<rparr>) = piece s"
    and sent_ok: "m_type m \<noteq> CHAT_HISTORY \<Longrightarrow> Q (Sent m)"
    and called_ok: "call_type c = None \<Longrightarrow> Q (Called c)"
    and others_ok: "Q (RefreshIn i)" "Q (Report r)"
begin

lemma send: "t \<noteq> CHAT_HISTORY \<Longrightarrow> bare piece Q (send_remote V t p i)"
  by (simp add: bare_def sent_ok createRemoteMessage_def)

lemma call: "call_type c = None \<Longrightarrow> bare piece Q (called c)"
  by (simp add: bare_def called_ok)

lemma sends:
  "bare piece Q (RemoteAgent.sendStatus R V)" "bare piece Q (sendRadioState V)" "bare piece Q (sendStationsState V)"
  "bare piece Q (sendWeatherState V)" "bare piece Q (sendNotificationState V)" "bare piece Q (sendUnicomTimerState V p)"
  "bare piece Q (sendSystemMessage V x)" "bare piece Q (sendChatMessage V d)" "bare piece Q (send_disarm V)"
  "bare piece Q (send_ticket V k)" "bare piece Q (send_commit V)"
  by (auto simp: RemoteAgent.sendStatus_def sendRadioState_def sendStationsState_def sendWeatherState_def
      sendNotificationState_def sendUnicomTimerState_def sendSystemMessage_def sendChatMessage_def
      send_disarm_def send_ticket_def send_commit_def Let_def split: option.splits intro!: bare_intros send)

lemma refresh: "bare piece Q scheduleWatchdogRefresh"
  by (simp add: bare_def scheduleWatchdogRefresh_def piece_refresh others_ok)

lemma sync: "bare piece Q (syncAgentWatchdog c V)"
proof -
  have "bare piece Q (andThen (send_disarm V) scheduleWatchdogRefresh)"
    "bare piece Q (andThen (if c then send_disarm V else RemoteAgent.quiet)
       (andThen (each (send_ticket V) (lv_tickets V)) (andThen (send_commit V) scheduleWatchdogRefresh)))"
    by (intro bare_intros sends refresh)+
  then show ?thesis
    using bareD [OF bare_quiet [of piece Q]] bareD [OF sends(9) [of V]]
    by (intro bareI) (simp add: syncAgentWatchdog_def Let_def bareD [where piece = piece and Q = Q] piece_refresh del: remote_evals)
qed

lemma renew: "bare piece Q (renewPairingCode R V)"
  by (intro bareI)
    (simp add: renewPairingCode_def andThen_def others_ok sent_ok createRemoteMessage_def)

lemma local_broadcast: "bare piece Q (remote_broadcast k p)"
  unfolding remote_broadcast_def by (rule call) (simp add: call_type_def)

lemma paired: "bare piece Q (andThen (\<lambda>s. (s\<lparr>rm_pairing := x\<rparr>, [])) (remote_broadcast k p))"
  by (intro bare_intros local_broadcast) (simp add: bare_def piece_pairing)

lemma says: "bare piece Q (handleRemoteTxSocketSend V p)"
  unfolding handleRemoteTxSocketSend_def by (intro bare_intros sends)

lemma greet: "bare piece Q (greeting R V)"
  unfolding greeting_def by (intro bare_intros sends sync send; simp)

lemma publish: "bare piece Q (publishFromLocal R V d)"
  unfolding publishFromLocal_def [abs_def] by (intro bare_intros sends send; simp)

end

text \<open>
  Three parts: the windows of the commands, where no command is carried out; whether the agent may connect, where
  it does not dial; the remote transmission.
\<close>

definition no_command :: "remote_out \<Rightarrow> bool" where
  "no_command x \<longleftrightarrow> command_of x = None"

definition no_dial :: "remote_out \<Rightarrow> bool" where
  "no_dial x = (case x of Dial n u a \<Rightarrow> False | _ \<Rightarrow> True)"

interpretation windows: observation rm_windows no_command
  by unfold_locales (simp_all add: no_command_def command_of_def)

interpretation dialling: observation "\<lambda>s. (rm_update s, rm_timer s)" no_dial
  by unfold_locales (simp_all add: no_dial_def)

interpretation transmission: observation "\<lambda>s. (rm_tx s, rm_tx_timer s)" "\<lambda>x. True"
  by unfold_locales simp_all

lemmas idle_sends = windows.sends windows.sync windows.renew windows.says windows.greet windows.publish
  windows.local_broadcast windows.paired

abbreviation idle_op :: "remote_handler \<Rightarrow> bool" where
  "idle_op \<equiv> bare rm_windows no_command"

lemmas idleD = bareD [where piece = rm_windows and Q = no_command]

lemma idle_steps:
  "idle_op (stopRemoteWebTx r)" "idle_op (writeRemoteTxPcm V b)"
  "idle_op (startRemoteWebTx V c)" "idle_op nextCloseForUpdate" "idle_op (sendBinary_remote b)"
  "idle_op (connect_remote R n)" "idle_op (scheduleReconnect R)"
  by (auto simp: bare_def no_command_def stopRemoteWebTx_def writeRemoteTxPcm_def command_of_def
      startRemoteWebTx_def nextCloseForUpdate_def sendBinary_remote_def call_type_def connect_remote_def
      scheduleReconnect_def list_all_iff split: option.splits)

lemma idle_timeout: "idle_op (tx_timed_out V)"
  unfolding tx_timed_out_def by (intro bare_intros idle_sends idle_steps)

lemma idle_open: "idle_op (on_open R V n)"
  by (intro bareI) (simp add: on_open_def idleD windows.greet del: remote_evals)

lemma idle_close: "idle_op (on_close R n)"
  unfolding on_close_def by (intro bare_intros idle_steps) (simp add: bare_def)

lemma idle_start: "idle_op (start_remote R n)"
  unfolding start_remote_def [abs_def] by (intro bare_intros idle_steps)

lemma idle_too_old:
  "idle_op (andThen (remote_broadcast k p) (\<lambda>s. if b then nextCloseForUpdate (s\<lparr>rm_update := True\<rparr>) else RemoteAgent.quiet s))"
  by (intro bare_intros windows.local_broadcast bareI) (simp add: idleD idle_steps del: remote_evals)

subsection \<open>Commands\<close>

definition carried :: "mtype \<Rightarrow> remote_out list \<Rightarrow> nat" where
  "carried t outs = length (filter (\<lambda>x. command_of x = Some t) outs)"

lemma carried_simps [simp]:
  "carried t [] = 0" "carried t (xs @ ys) = carried t xs + carried t ys"
  "carried t (x # xs) = (if command_of x = Some t then 1 else 0) + carried t xs"
  by (simp_all add: carried_def)

lemma carried_idle: "list_all no_command outs \<Longrightarrow> carried t outs = 0"
  by (induction outs) (auto simp: no_command_def)

lemma run_command_carried:
  "rm_windows (fst (run_command V m s)) = rm_windows s
   \<and> carried t (snd (run_command V m s)) \<le> (if t = m_type m then 1 else 0)"
proof -
  have i: "idle_op (andThen (sendNotificationState V) (syncAgentWatchdog True V))"
    by (intro bare_intros idle_sends)
  show ?thesis
    using carried_idle [OF idleD(2) [OF i]] idleD(1) [OF i]
      carried_idle [OF idleD(2) [OF idle_steps(3)]] idleD(1) [OF idle_steps(3)]
      carried_idle [OF idleD(2) [OF idle_steps(1)]] idleD(1) [OF idle_steps(1)]
    by (cases "m_type m")
      (simp_all add: run_command_def sendChatHistory_def command_of_def call_type_def andThen_def case_prod_beta Let_def
        createRemoteMessage_def)
qed

lemma allow_windows: "rm_windows (fst (handleRemoteCommand V m s)) = rm_windows (fst (allowCommand (lv_now V) (m_type m) s))"
  by (simp add: handleRemoteCommand_def case_prod_beta run_command_carried)

lemma command_carried:
  "carried t (snd (handleRemoteCommand V m s))
     \<le> (if t = m_type m \<and> snd (allowCommand (lv_now V) (m_type m) s) then 1 else 0)"
  using run_command_carried [of V m "fst (allowCommand (lv_now V) (m_type m) s)" t]
  by (auto simp: handleRemoteCommand_def case_prod_beta)

lemma message_cases:
  "(rm_windows (fst (handle_relay_message coll R V m s)) = rm_windows s
      \<and> carried t (snd (handle_relay_message coll R V m s)) = 0)
   \<or> handle_relay_message coll R V m s = handleRemoteCommand V m s"
  using carried_idle [OF idleD(2) [OF idle_too_old]] idleD(1) [OF idle_too_old]
    carried_idle [OF idleD(2) [OF windows.paired]] idleD(1) [OF windows.paired]
  by (cases "m_type m") (simp_all add: handle_relay_message_def Let_def command_of_def call_type_def
      createRemoteMessage_def)

lemma step_cases:
  obtains (idle) "rm_windows (fst (remote_step E (V, e) s)) = rm_windows s"
      "\<And>t. carried t (snd (remote_step E (V, e) s)) = 0"
    | (command) m :: message where "rm_windows (fst (remote_step E (V, e) s)) = rm_windows (fst (allowCommand (lv_now V) (m_type m) s))"
      "\<And>t. carried t (snd (remote_step E (V, e) s))
         \<le> (if t = m_type m \<and> snd (allowCommand (lv_now V) (m_type m) s) then 1 else 0)"
proof -
  have idle: "thesis" if "idle_op h" "remote_step E (V, e) s = h s'" "rm_windows s' = rm_windows s" for h s'
    using that idle carried_idle [OF idleD(2) [OF that(1)]] idleD(1) [OF that(1)] by simp
  show ?thesis
  proof (cases e)
    case (RelayText n raw)
    show ?thesis
    proof (cases "parseRemoteJson (re_parse E) (re_url E) None raw")
      case (Inr m)
      have *: "remote_step E (V, e) s = handle_relay_message (re_coll E) (re_options E) V m s"
        by (simp add: RelayText handleRelayMessage_def Inr)
      show ?thesis
      proof (cases "handle_relay_message (re_coll E) (re_options E) V m s = handleRemoteCommand V m s")
        case True
        then show ?thesis using command [of m] * allow_windows command_carried by simp
      next
        case False
        then have "rm_windows (fst (remote_step E (V, e) s)) = rm_windows s"
          "carried t (snd (remote_step E (V, e) s)) = 0" for t
          using message_cases * by metis+
        then show ?thesis by (rule local.that(1))
      qed
    qed (use idle [OF bare_quiet] RelayText in \<open>simp add: handleRelayMessage_def\<close>)
  next
    case (Opened n)
    then show ?thesis by (intro idle [OF idle_open, of "re_options E" V n s]) simp_all
  next
    case (RelayClosed n)
    then show ?thesis by (intro idle [OF idle_close, of "re_options E" n s]) simp_all
  next
    case (Start n)
    then show ?thesis by (intro idle [OF idle_start, of "re_options E" n s]) simp_all
  next
    case (ReconnectTimer n)
    then show ?thesis
      using idle [OF idle_steps(6), of "re_options E" n "s\<lparr>rm_timer := False\<rparr>"] idle [OF bare_quiet, of s]
      by (cases "rm_timer s") simp_all
  next
    case RefreshTimer
    then show ?thesis using idle [OF windows.sync, of False V s] idle [OF bare_quiet, of s]
      by (cases "rm_refresh s") simp_all
  next
    case TxTimer
    then show ?thesis using idle [OF idle_timeout, of V s] idle [OF bare_quiet, of s]
      by (cases "rm_tx_timer s") simp_all
  next
    case (RelayClosing n)
    then show ?thesis
      using idle [of RemoteAgent.quiet "s\<lparr>rm_open := False\<rparr>", OF bare_quiet] idle [OF bare_quiet, of s]
      by (cases "rm_ws s = Some n") simp_all
  next
    case (RelayBinary n b)
    then show ?thesis by (intro idle [OF idle_steps(2), of V b s]) simp_all
  next
    case (Published_local d)
    then show ?thesis by (intro idle [OF windows.publish, of "re_options E" V d s]) simp_all
  next
    case Status
    then show ?thesis by (intro idle [OF windows.sends(1), of "re_options E" V s]) simp_all
  next
    case (SyncWatchdog c)
    then show ?thesis by (intro idle [OF windows.sync, of c V s]) simp_all
  next
    case (RxAudio b)
    then show ?thesis by (intro idle [OF idle_steps(5), of b s]) simp_all
  next
    case RenewPairing
    then show ?thesis by (intro idle [OF windows.renew, of "re_options E" V s]) simp_all
  next
    case (TxSocketSays d)
    then show ?thesis by (intro idle [OF windows.says, of V d s]) simp_all
  qed
qed

subsection \<open>Sliding windows\<close>

text \<open>
  \<open>hist\<close> are the times of the commands of one type so far, \<open>now\<close> the last time that was seen: the
  window holds what is not older than \<open>w\<close>, and no span of \<open>w\<close> has more than \<open>most\<close>.
\<close>

definition in_span :: "int \<Rightarrow> int \<Rightarrow> int list \<Rightarrow> nat" where
  "in_span a w l = length (filter (\<lambda>x. a \<le> x \<and> x \<le> a + w) l)"

definition windowed :: "nat \<Rightarrow> int \<Rightarrow> int \<Rightarrow> int list \<Rightarrow> int list \<Rightarrow> bool" where
  "windowed most w now hist win \<longleftrightarrow> (\<forall>x \<in> set hist. x \<le> now)
     \<and> (\<forall>b. now - w \<le> b \<longrightarrow> length (filter (\<lambda>x. b \<le> x) hist) \<le> length (filter (\<lambda>x. b \<le> x) win))
     \<and> (\<forall>a. in_span a w hist \<le> most)"

lemma filter_later: "(a::int) \<le> b \<Longrightarrow> filter (\<lambda>x. a \<le> x \<and> b \<le> x) l = filter (\<lambda>x. b \<le> x) l"
  by (induction l) auto

lemma windowed_later:
  assumes "windowed most w now hist win" "now \<le> now'"
  shows "windowed most w now' hist win" "windowed most w now' hist (filter (\<lambda>x. now' - w \<le> x) win)"
  using assms by (auto simp: windowed_def filter_later)

lemma windowed_more: "windowed most w now hist win \<Longrightarrow> windowed most w now hist (win @ xs)"
  by (auto simp: windowed_def trans_le_add1)

lemma windowed_add:
  assumes "windowed most w now hist win" "length (filter (\<lambda>x. now - w \<le> x) win) < most" "0 \<le> w"
  shows "windowed most w now (hist @ [now]) (filter (\<lambda>x. now - w \<le> x) win @ [now])"
proof -
  have "in_span a w (hist @ [now]) \<le> most" for a
  proof (cases "a \<le> now \<and> now \<le> a + w")
    case True
    have "in_span a w hist \<le> length (filter (\<lambda>x. now - w \<le> x) hist)"
      unfolding in_span_def using True by (induction hist) auto
    also have "\<dots> \<le> length (filter (\<lambda>x. now - w \<le> x) win)" using assms(1) by (simp add: windowed_def)
    finally show ?thesis using True assms(2) by (simp add: in_span_def)
  qed (use assms(1) in \<open>auto simp: windowed_def in_span_def\<close>)
  then show ?thesis using assms by (auto simp: windowed_def filter_later)
qed

end
