(* ===== verification/RemoteProps.thy ===== *)
theory RemoteProps
  imports RemoteFacts ValidateFacts
begin

section \<open>Theorems of the agent's connection to the relay\<close>

text \<open>
  The limits of commands, the end of an agent that is too old, remote transmissions, and the two
  ends of the connection put together: what the agent sends when it connects is accepted by the relay's
  validator, and the tickets of one synchronisation arm the relay's watchdog.
\<close>

subsection \<open>Limits of commands\<close>

lemma limit_positive: "mget makeCommandRateLimits t = Some (most, w) \<Longrightarrow> 0 \<le> w \<and> 0 < most"
  by (cases t) (auto simp: makeCommandRateLimits_def)

lemma allow_limited:
  assumes "mget makeCommandRateLimits t = Some (most, w)"
  shows "allowCommand now t s = (let recent = filter (\<lambda>x. now - w \<le> x) (window_of s t) in
    if length recent < most then (s\<lparr>rm_windows := mput (rm_windows s) t (recent @ [now])\<rparr>, True)
    else (s\<lparr>rm_windows := mput (rm_windows s) t recent\<rparr>, False))"
  using assms by (simp add: allowCommand_def Let_def)

lemma allow_other: "t' \<noteq> t \<Longrightarrow> window_of (fst (allowCommand now t' s)) t = window_of s t"
  by (simp add: allowCommand_def window_of_def Let_def mget_mput split: option.splits)

lemma window_cong: "rm_windows s = rm_windows s' \<Longrightarrow> window_of s t = window_of s' t"
  by (simp add: window_of_def)

lemma executed_windowed:
  assumes "mget makeCommandRateLimits t = Some (most, w)"
  shows "windowed most w now hist (window_of s t) \<Longrightarrow> sorted (now # map (lv_now \<circ> fst) es)
    \<Longrightarrow> in_span a w (hist @ executed E t es s) \<le> most"
proof (induction es arbitrary: s hist now)
  case Nil
  then show ?case by (simp add: windowed_def)
next
  case (Cons ve es)
  obtain V e where ve: "ve = (V, e)" by force
  define s1 where "s1 = fst (remote_step E (V, e) s)"
  define n where "n = carried t (snd (remote_step E (V, e) s))"
  have ex: "executed E t (ve # es) s = replicate n (lv_now V) @ executed E t es s1"
    by (simp add: ve s1_def n_def case_prod_beta Let_def carried_def map_replicate_const)
  have le: "now \<le> lv_now V" and so: "sorted (lv_now V # map (lv_now \<circ> fst) es)"
    using Cons.prems(2) by (auto simp: ve comp_def)
  note later = windowed_later [OF Cons.prems(1) le]
  have "windowed most w (lv_now V) (hist @ replicate n (lv_now V)) (window_of s1 t)"
  proof (cases rule: step_cases [of E V e s])
    case idle
    then have "window_of s1 t = window_of s t" "n = 0" by (auto simp: s1_def n_def intro: window_cong)
    then show ?thesis using later(1) by simp
  next
    case (command m)
    show ?thesis
    proof (cases "m_type m = t")
      case False
      then have "window_of s1 t = window_of s t" "n = 0"
        using command allow_other [of "m_type m" t] window_cong [OF command(1)] command(2) [of t] by (auto simp: s1_def n_def)
      then show ?thesis using later(1) by simp
    next
      case True
      let ?r = "filter (\<lambda>x. lv_now V - w \<le> x) (window_of s t)"
      have w1: "window_of s1 t = (if length ?r < most then ?r @ [lv_now V] else ?r)"
        using window_cong [OF command(1), of t] allow_limited [OF assms, of "lv_now V" s] True
        by (simp add: s1_def window_of_def Let_def mget_mput)
      have n: "n \<le> (if length ?r < most then 1 else 0)"
        using command(2) [of t] allow_limited [OF assms, of "lv_now V" s] True by (simp add: n_def Let_def split: if_splits)
      consider "n = 1" "length ?r < most" | "n = 0" using n by (cases "length ?r < most") force+
      then show ?thesis
      proof cases
        case 1
        then show ?thesis using windowed_add [OF later(1)] limit_positive [OF assms] w1 by simp
      next
        case 2
        then show ?thesis using later(2) windowed_more [OF later(2)] w1 by simp
      qed
    qed
  qed
  then have "in_span a w ((hist @ replicate n (lv_now V)) @ executed E t es s1) \<le> most" by (rule Cons.IH [OF _ so])
  then show ?case by (simp add: ex del: executed.simps)
qed

text \<open>
  C19: The relay cannot flood the flight. In every run of the agent's connection, whatever the relay
  sends and whatever happens in between, the commands of one type that are carried out (sent to
  PilotCore, to IVAO, to the timer or to the subscriptions, or answered with the chat history) are, in any span
  of time as long as the window of the type, at most the limit of the type: no burst straddles two windows.
\<close>
theorem commands_rated:
  assumes "sorted (map (lv_now \<circ> fst) es)" and "mget makeCommandRateLimits t = Some (most, w)"
  shows "in_span a w (executed E t es init_remote) \<le> most"
proof (cases es)
  case (Cons e es')
  have "windowed most w (lv_now (fst e)) [] (window_of init_remote t)"
    by (simp add: windowed_def in_span_def)
  then show ?thesis
    using executed_windowed [OF assms(2), of "lv_now (fst e)" "[]" init_remote es] assms(1) Cons by simp
qed (simp add: in_span_def)

definition trial_options :: remote_options where
  "trial_options = \<lparr>ro_enabled = True, ro_url = js ''wss://h/ws?source=agent'', ro_token = js ''t'',
     ro_deviceId = js ''device-1'', ro_deviceName = js ''pc'', ro_appVersion = js ''1.0'',
     ro_reconnectMs = Fin 5000\<rparr>"

definition trial_view :: "int \<Rightarrow> local_view" where
  "trial_view now = \<lparr>lv_now = now, lv_gen = js ''m-1'', lv_random = js ''r'', lv_app = createAppState,
     lv_webTxEnabled = True, lv_txReady = False, lv_txSampleRate = 16000, lv_unicom = createUnicomTimer,
     lv_armed = False, lv_session = [], lv_vapidPublicKey = js ''AAAAAAAA'', lv_subscriptionCount = 0,
     lv_tickets = [], lv_tx_started = True, lv_pcm_taken = True\<rparr>"

lemma trial_now [simp]: "lv_now (trial_view now) = now"
  by (simp add: trial_view_def)

text \<open>A relay whose texts stand for one message each.\<close>

definition trial_message :: "mtype \<Rightarrow> payload \<Rightarrow> message" where
  "trial_message t p = \<lparr>m_id = js ''m-2'', m_type = t, m_payload = p\<rparr>"

lemma trial_message_sel [simp]: "m_id (trial_message t p) = js ''m-2''" "m_type (trial_message t p) = t"
  "m_payload (trial_message t p) = p"
  by (simp_all add: trial_message_def)

definition trial_relay :: "(jstr \<Rightarrow> message) \<Rightarrow> remote_env" where
  "trial_relay f = \<lparr>re_parse = (\<lambda>x. Some (wire (f x))), re_url = (\<lambda>x. None), re_coll = (\<lambda>a b. 0),
     re_options = trial_options\<rparr>"

lemma trial_id: "isId (JStr (js ''m-2''))"
  by (simp add: isId_def str_test_def rx_match_Reps token_char_def alnum_def char_classes js_def)

lemma trial_read:
  assumes "f raw = trial_message t p" "validatePayload (\<lambda>x. None) t p = Inr p" "utf8_len raw \<le> MAX_JSON_MESSAGE_BYTES"
  shows "parseRemoteJson (re_parse (trial_relay f)) (re_url (trial_relay f)) None raw = Inr (trial_message t p)"
  using assms validateRemoteMessage_wire [of "trial_message t p" "\<lambda>x. None" None] trial_id
  by (simp add: parseRemoteJson_def trial_relay_def)

abbreviation trial_ident :: remote_env where
  "trial_ident \<equiv> trial_relay (\<lambda>x. trial_message XPDR_IDENT [])"

lemma trial_empty: "List.member empty_types t \<Longrightarrow> validatePayload U t [] = Inr []"
  by (simp add: validatePayload_def noExtraPayload_def)

lemma trial_ident_step:
  "remote_step trial_ident (trial_view now, RelayText 0 []) s
     = handleRemoteCommand (trial_view now) (trial_message XPDR_IDENT []) s"
  using trial_read [of "\<lambda>x. trial_message XPDR_IDENT []" "[]" XPDR_IDENT "[]"]
  by (simp add: handleRelayMessage_def handle_relay_message_def Let_def trial_empty empty_types_def
      MAX_JSON_MESSAGE_BYTES_def)

lemma trial_idents:
  "executed trial_ident XPDR_IDENT
     [(trial_view 0, RelayText 0 []), (trial_view 10, RelayText 0 []), (trial_view 20, RelayText 0 []),
      (trial_view 30, RelayText 0 []), (trial_view 30001, RelayText 0 [])] init_remote = [0, 10, 20, 30001]"
  by (simp add: trial_ident_step handleRemoteCommand_def allowCommand_def makeCommandRateLimits_def window_of_def
      init_remote_def run_command_def command_of_def call_type_def mget_mput del: remote_step.simps)

theorem commands_rated_witness:
  "in_span 0 30000 (executed trial_ident XPDR_IDENT
     [(trial_view 0, RelayText 0 []), (trial_view 10, RelayText 0 []), (trial_view 20, RelayText 0 []),
      (trial_view 30, RelayText 0 []), (trial_view 30001, RelayText 0 [])] init_remote) \<le> 3"
  by (rule commands_rated [where w = 30000 and t = XPDR_IDENT])
    (simp_all add: makeCommandRateLimits_def)

subsection \<open>An agent that is too old\<close>

definition retired :: "remote \<Rightarrow> bool" where
  "retired s \<longleftrightarrow> rm_update s \<and> \<not> rm_timer s"

lemma retired_bare:
  assumes "bare (\<lambda>s. (rm_update s, rm_timer s)) no_dial h" "retired s"
  shows "retired (fst (h s)) \<and> list_all no_dial (snd (h s))"
  using bareD [OF assms(1), of s] assms(2) by (simp add: retired_def)

lemma retired_command:
  "retired s \<Longrightarrow> retired (fst (handleRemoteCommand V m s)) \<and> list_all no_dial (snd (handleRemoteCommand V m s))"
proof -
  assume r: "retired s"
  let ?s = "fst (allowCommand (lv_now V) (m_type m) s)"
  have "retired ?s" using r by (simp add: retired_def allowCommand_def Let_def split: option.splits)
  moreover have "bare (\<lambda>s. (rm_update s, rm_timer s)) no_dial (run_command V m)"
  proof -
    have c: "bare (\<lambda>s. (rm_update s, rm_timer s)) no_dial (called c)" for c by (simp add: bare_def no_dial_def)
    have b: "bare (\<lambda>s. (rm_update s, rm_timer s)) no_dial (andThen (sendNotificationState V) (syncAgentWatchdog True V))"
      by (intro bare_intros dialling.sends dialling.sync)
    have "bare (\<lambda>s. (rm_update s, rm_timer s)) no_dial (sendChatHistory V)"
      "bare (\<lambda>s. (rm_update s, rm_timer s)) no_dial (startRemoteWebTx V x)"
      "bare (\<lambda>s. (rm_update s, rm_timer s)) no_dial (stopRemoteWebTx y)" for x y
      by (simp_all add: bare_def no_dial_def sendChatHistory_def startRemoteWebTx_def stopRemoteWebTx_def)
    then show ?thesis
      using c b bare_quiet by (cases "m_type m") (simp_all add: run_command_def Let_def bare_intros)
  qed
  ultimately show ?thesis using retired_bare [of "run_command V m" ?s]
    by (simp add: handleRemoteCommand_def case_prod_beta)
qed

lemma retired_too_old:
  "retired s \<Longrightarrow> retired (fst (andThen (remote_broadcast k p)
      (\<lambda>s. if b then nextCloseForUpdate (s\<lparr>rm_update := True\<rparr>) else RemoteAgent.quiet s) s))
    \<and> list_all no_dial (snd (andThen (remote_broadcast k p)
      (\<lambda>s. if b then nextCloseForUpdate (s\<lparr>rm_update := True\<rparr>) else RemoteAgent.quiet s) s))"
  by (simp add: andThen_def remote_broadcast_def nextCloseForUpdate_def retired_def no_dial_def)

lemma retired_message:
  "retired s \<Longrightarrow> retired (fst (handle_relay_message coll R V m s))
    \<and> list_all no_dial (snd (handle_relay_message coll R V m s))"
  using retired_command [of s V m] retired_bare [OF dialling.paired, of s] retired_too_old [of s]
  by (cases "m_type m") (simp_all add: handle_relay_message_def Let_def no_dial_def)

lemma retired_step:
  assumes "retired s" "\<And>n. e \<noteq> Start n"
  shows "retired (fst (remote_step E (V, e) s)) \<and> list_all no_dial (snd (remote_step E (V, e) s))"
proof (cases e)
  case (RelayText n raw)
  then show ?thesis using retired_message assms(1) by (simp add: handleRelayMessage_def split: sum.splits)
next
  case (Opened n)
  have "retired (if rm_ws s = Some n then s\<lparr>rm_open := True\<rparr> else s)" using assms(1) by (simp add: retired_def)
  then show ?thesis using retired_bare [OF dialling.greet] by (simp add: Opened on_open_def)
next
  case (Published_local d)
  then show ?thesis using retired_bare [OF dialling.publish] assms(1) by simp
next
  case TxTimer
  then show ?thesis using assms(1)
    by (simp add: tx_timed_out_def andThen_def stopRemoteWebTx_def sendSystemMessage_def retired_def no_dial_def)
qed (use assms retired_bare [OF dialling.sync, of s] retired_bare [OF dialling.sends(1), of s]
    retired_bare [OF dialling.renew, of s] retired_bare [OF dialling.says, of s] in
  \<open>auto simp: retired_def on_close_def andThen_def stopRemoteWebTx_def scheduleReconnect_def no_dial_def
     sendBinary_remote_def writeRemoteTxPcm_def list_all_iff split: option.splits\<close>)

text \<open>
  An agent that is too old stays away. When the relay names a minimum version above the version of a connected
  agent, the agent closes the connection, and in whatever happens afterwards (but a new start of
  the program) it never dials the relay again.
\<close>
theorem too_old_never_redials:
  assumes "parseRemoteJson (re_parse E) (re_url E) None raw = Inr m" and "m_type m = RELAY_IDENTITY"
    and "update_required (re_coll E) (re_options E) (m_payload m)"
    and "rm_open s" and "\<not> rm_timer s" and "\<forall>(V', e) \<in> set es. \<forall>n. e \<noteq> Start n"
    and "remote_step E (V, RelayText n raw) s = (s1, outs)"
  shows "CloseForUpdate \<in> set outs \<and> \<not> rm_open s1
    \<and> list_all no_dial (outs @ snd (run_machine (remote_step E) es s1))"
proof -
  have s1: "s1 = s\<lparr>rm_update := True, rm_open := False\<rparr>" and o: "CloseForUpdate \<in> set outs" "list_all no_dial outs"
    using assms(1-5,7) by (auto simp: handleRelayMessage_def handle_relay_message_def Let_def andThen_def
        remote_broadcast_def nextCloseForUpdate_def no_dial_def)
  have "list_all no_dial (snd (run_machine (remote_step E) es s1))" if "retired s1" for s1
    using assms(6) that
  proof (induction es arbitrary: s1)
    case (Cons ve es)
    obtain V' e where ve: "ve = (V', e)" by force
    show ?case using Cons retired_step [of s1 e E V'] by (simp add: ve case_prod_beta Let_def)
  qed simp
  moreover have "retired s1" using assms(5) by (simp add: s1 retired_def)
  ultimately show ?thesis using o by (simp add: s1)
qed

definition trial_identity :: payload where
  "trial_identity = [(js ''userId'', JStr (js ''ab'')), (js ''minimumAgentVersion'', JStr (js ''2.0''))]"

lemma trial_version: "isVersionText (JStr (js ''2.0''))"
  by code_simp

lemma trial_user: "isUserId (JStr (js ''ab''))"
  by code_simp

abbreviation trial_newer :: remote_env where
  "trial_newer \<equiv> trial_relay (\<lambda>x. trial_message RELAY_IDENTITY trial_identity)"

lemma trial_identity_read:
  "parseRemoteJson (re_parse trial_newer) (re_url trial_newer) None [] = Inr (trial_message RELAY_IDENTITY trial_identity)"
  using trial_version trial_user
  by (intro trial_read) (simp_all add: validatePayload_def empty_types_def requireShape_def sch_def trial_identity_def val_def
      holds_def MAX_JSON_MESSAGE_BYTES_def)

lemma trial_major:
  assumes "a = 1 \<or> a = 2"
  shows "parseVersion (Some (JStr [48 + a, 46, 48])) = Some \<lparr>v_parts = [Fin (of_nat a), Fin 0, Fin 0, Fin 0], v_prerelease = []\<rparr>"
proof -
  have d: "is_digit (48 + a)" "is_digit 48" "\<not> is_digit 46" using assms by (auto simp: is_digit_def)
  have t: "trim [48 + a, 46, 48] = [48 + a, 46, 48]"
    using assms by (intro trim_no_ws) (auto simp: is_ws_def)
  have n: "to_number [48 + a] = Fin (of_nat a)" "to_number [48] = Fin 0"
    using d assms to_number_digits [of "[48 + a]"] to_number_digits [of "[48]"] fl_of_small_int [of "int a"]
    by (auto simp: dec_value_def fl_def)
  show ?thesis
    using d n assms
    by (simp add: parseVersion_def normalizeVersionText_def str_or_empty_def or_else_def opt_truthy_def t strip_v_def span_def
        numeral_3_eq_3 prerelease_of_def) auto
qed

lemma trial_too_old: "compareVersions (\<lambda>a b. 0) (Some (JStr (js ''1.0''))) (Some (JStr (js ''2.0''))) = -1"
  using trial_major [of 1] trial_major [of 2] by (simp add: compareVersions_def js_def Let_def)

definition trial_online :: remote where
  "trial_online = init_remote\<lparr>rm_ws := Some 0, rm_open := True\<rparr>"

theorem too_old_never_redials_witness:
  "CloseForUpdate \<in> set (snd (remote_step trial_newer (trial_view 0, RelayText 0 []) trial_online))
   \<and> list_all no_dial (snd (run_machine (remote_step trial_newer)
       [(trial_view 1, RelayClosed 0), (trial_view 2, ReconnectTimer 1)]
       (fst (remote_step trial_newer (trial_view 0, RelayText 0 []) trial_online))))"
proof -
  let ?E = trial_newer
  have u: "update_required (re_coll ?E) (re_options ?E) trial_identity"
    using trial_too_old by (simp add: update_required_def trial_relay_def trial_options_def trial_identity_def opt_truthy_def)
  obtain s1 outs where r: "remote_step ?E (trial_view 0, RelayText 0 []) trial_online = (s1, outs)" by force
  show ?thesis
    using too_old_never_redials [OF trial_identity_read _ _ _ _ _ r, of "[(trial_view 1, RelayClosed 0), (trial_view 2, ReconnectTimer 1)]"] u
    by (simp only: r fst_conv snd_conv) (simp add: trial_online_def init_remote_def)
qed

subsection \<open>Remote transmissions\<close>

definition timed :: "remote \<Rightarrow> bool" where
  "timed s \<longleftrightarrow> (rm_tx s \<noteq> None \<longleftrightarrow> rm_tx_timer s)"

lemma timed_bare: "bare (\<lambda>s. (rm_tx s, rm_tx_timer s)) (\<lambda>x. True) h \<Longrightarrow> timed s \<Longrightarrow> timed (fst (h s))"
  by (auto simp: bare_def timed_def)

lemma timed_command: "timed s \<Longrightarrow> timed (fst (handleRemoteCommand V m s))"
proof -
  assume t: "timed s"
  let ?s = "fst (allowCommand (lv_now V) (m_type m) s)"
  have s: "timed ?s" using t by (simp add: timed_def allowCommand_def Let_def split: option.splits)
  have c: "bare (\<lambda>s. (rm_tx s, rm_tx_timer s)) (\<lambda>x. True) (called c)" for c by (simp add: bare_def)
  have b: "bare (\<lambda>s. (rm_tx s, rm_tx_timer s)) (\<lambda>x. True) (andThen (sendNotificationState V) (syncAgentWatchdog True V))"
    by (intro bare_intros transmission.sends transmission.sync)
  have d: "bare (\<lambda>s. (rm_tx s, rm_tx_timer s)) (\<lambda>x. True) (andThen (called x) (andThen (sendNotificationState V) (syncAgentWatchdog True V)))" for x
    by (intro bare_andThen c b)
  have "timed (fst (run_command V m ?s))"
    using s timed_bare [OF d s]
    by (cases "m_type m") (simp_all add: run_command_def Let_def sendChatHistory_def startRemoteWebTx_def
        stopRemoteWebTx_def timed_def)
  then show ?thesis using s by (simp add: handleRemoteCommand_def case_prod_beta)
qed

lemma timed_message: "timed s \<Longrightarrow> timed (fst (handle_relay_message coll R V m s))"
  using timed_command [of s V m] timed_bare [OF transmission.paired, of s]
  by (cases "m_type m") (simp_all add: handle_relay_message_def Let_def andThen_def remote_broadcast_def
      nextCloseForUpdate_def timed_def)

lemma timed_step: "timed s \<Longrightarrow> timed (fst (remote_step E (V, e) s))"
proof (cases e)
  case (RelayText n raw)
  assume "timed s"
  then show ?thesis using timed_message by (simp add: RelayText handleRelayMessage_def split: sum.splits)
next
  case (Opened n)
  assume "timed s"
  then have "timed (if rm_ws s = Some n then s\<lparr>rm_open := True\<rparr> else s)" by (simp add: timed_def)
  then show ?thesis using timed_bare [OF transmission.greet] by (simp add: Opened on_open_def)
next
  case TxTimer
  assume "timed s"
  then show ?thesis
    by (simp add: TxTimer tx_timed_out_def andThen_def stopRemoteWebTx_def sendSystemMessage_def timed_def)
qed (use timed_bare [OF transmission.publish, of s] timed_bare [OF transmission.sync, of s]
    timed_bare [OF transmission.sends(1), of s] timed_bare [OF transmission.renew, of s]
    timed_bare [OF transmission.says, of s] in
  \<open>auto simp: timed_def on_close_def andThen_def stopRemoteWebTx_def scheduleReconnect_def start_remote_def
     connect_remote_def sendBinary_remote_def writeRemoteTxPcm_def split: option.splits\<close>)

interpretation remote: machine init_remote "remote_step E" "\<lambda>e. True" timed for E
proof unfold_locales
  show "timed init_remote" by (simp add: timed_def init_remote_def)
  show "timed s \<Longrightarrow> True \<Longrightarrow> timed (fst (remote_step E e s))" for s e
    using timed_step by (cases e) simp
qed

definition ends_tx :: "remote \<times> remote_out list \<Rightarrow> bool" where
  "ends_tx r \<longleftrightarrow> rm_tx (fst r) = None \<and> \<not> rm_tx_timer (fst r) \<and> (\<exists>x. Called (CallTxStop x) \<in> set (snd r))"

lemma ends_tx:
  "ends_tx (tx_timed_out V s)" "ends_tx (on_close R n s)" "ends_tx (stopRemoteWebTx x s)"
proof -
  show "ends_tx (tx_timed_out V s)"
    by (simp add: ends_tx_def tx_timed_out_def andThen_def stopRemoteWebTx_def sendSystemMessage_def)
  show "ends_tx (stopRemoteWebTx x s)" by (simp add: ends_tx_def stopRemoteWebTx_def)
  show "ends_tx (on_close R n s)"
    by (cases "\<not> ro_enabled R \<or> rm_update s \<or> rm_timer s")
      (auto simp: ends_tx_def on_close_def andThen_def stopRemoteWebTx_def scheduleReconnect_def)
qed

text \<open>
  C22: A remote transmission cannot stay on. In every reachable state of the connection in which a
  browser's transmission is on, the timer that ends it is pending; and when the timer fires, when the relay's
  connection closes, or when the browser's stop arrives, the transmitter is told to stop and the transmission is over.
\<close>
theorem remote_transmission_ends:
  assumes "s = fst (run_machine (remote_step E) es init_remote)" and "rm_tx s \<noteq> None"
    and "parseRemoteJson (re_parse E) (re_url E) None raw = Inr m" and "m_type m = TX_STOP"
    and "e \<in> {TxTimer, RelayClosed n, RelayText n raw}"
  shows "rm_tx_timer s \<and> ends_tx (remote_step E (V, e) s)"
proof -
  have t: "rm_tx_timer s"
    using remote.inv_reachable [of es E] assms(1,2) by (simp add: fst_run_machine timed_def list.pred_True)
  have "mget makeCommandRateLimits TX_STOP = None" by (simp add: makeCommandRateLimits_def)
  then show ?thesis
    using t assms(3-5) ends_tx
    by (auto simp: handleRelayMessage_def handle_relay_message_def handleRemoteCommand_def
        allowCommand_def run_command_def Let_def)
qed

definition trial_tx :: remote_env where
  "trial_tx = trial_relay (\<lambda>x. if x = [] then trial_message TX_STOP [] else trial_message TX_START [(js ''com'', JNum (Fin 1))])"

lemma trial_tx_read:
  "parseRemoteJson (re_parse trial_tx) (re_url trial_tx) None [] = Inr (trial_message TX_STOP [])"
  "parseRemoteJson (re_parse trial_tx) (re_url trial_tx) None [2] = Inr (trial_message TX_START [(js ''com'', JNum (Fin 1))])"
  unfolding trial_tx_def
  by (intro trial_read; simp add: trial_empty empty_types_def MAX_JSON_MESSAGE_BYTES_def validatePayload_def
      noExtraPayload_def requireShape_def sch_def val_def holds_def isCom_def)+

theorem remote_transmission_ends_witness:
  "ends_tx (remote_step trial_tx (trial_view 7, RelayText 0 [])
     (fst (run_machine (remote_step trial_tx) [(trial_view 5, RelayText 0 [2])] init_remote)))"
proof -
  let ?s = "fst (run_machine (remote_step trial_tx) [(trial_view 5, RelayText 0 [2])] init_remote)"
  have "mget makeCommandRateLimits TX_START = None" by (simp add: makeCommandRateLimits_def)
  then have "rm_tx ?s \<noteq> None"
    by (simp add: case_prod_beta handleRelayMessage_def trial_tx_read handle_relay_message_def
        handleRemoteCommand_def allowCommand_def run_command_def startRemoteWebTx_def trial_view_def Let_def)
  then show ?thesis
    using remote_transmission_ends [OF refl _ trial_tx_read(1), of "[(trial_view 5, RelayText 0 [2])]" "RelayText 0 []" 0]
    by simp
qed

end
