(* ===== verification/RemoteRelay.thy ===== *)
theory RemoteRelay
  imports RemoteProps RelayReplies
begin

section \<open>The agent and the relay put together\<close>

text \<open>
  The messages that the agent's connection sends are the events of the relay. Here the tickets of one
  synchronisation go through the relay's handlers: \<open>staged\<close> is the state of the watchdog after a part of them.
\<close>

definition sent_messages :: "remote_out list \<Rightarrow> message list" where
  "sent_messages outs = List.map_filter (\<lambda>x. case x of Sent m \<Rightarrow> Some m | _ \<Rightarrow> None) outs"

lemma sent_messages_simps [simp]:
  "sent_messages [] = []" "sent_messages (Sent m # outs) = m # sent_messages outs"
  "sent_messages (RefreshIn i # outs) = sent_messages outs"
  "sent_messages (xs @ ys) = sent_messages xs @ sent_messages ys"
  by (simp_all add: sent_messages_def List.map_filter_def)

subsection \<open>Staging and committing a batch\<close>

lemma mput_new: "\<not> mhas m k \<Longrightarrow> mput m k v = m @ [(k, v)]"
  by (induction m) (auto simp: mhas_def split: if_splits)

lemma mput_again: "mput (mput m k v) k w = mput m k w"
  by (induction m) auto

lemma mfilter_mput: "P k v \<Longrightarrow> mget m k = None \<Longrightarrow> mfilter P (mput m k v) = mput (mfilter P m) k v"
  by (induction m) (auto simp: mfilter_def mget_mfilter split: if_splits)

text \<open>What the watchdog needs of a ticket: a lifetime that it allows and an endpoint on its list.\<close>

definition acceptable :: "platform \<Rightarrow> wd_config \<Rightarrow> int \<Rightarrow> ticket \<Rightarrow> bool" where
  "acceptable P C now t \<longleftrightarrow> isAllowedPushEndpoint P (allowedPushOrigins C) (t_endpoint t)
     \<and> (case p_dateParse P (t_expiresAt t) of None \<Rightarrow> False
        | Some x \<Rightarrow> now + offlineDelayMs C < x \<and> x \<le> now + maxTicketLifetimeMs C)"

text \<open>The device may open the batch: its key is free and there are fewer batches than allowed.\<close>

definition may_open :: "wd_config \<Rightarrow> jstr \<Rightarrow> jstr \<Rightarrow> watchdog \<Rightarrow> bool" where
  "may_open C dk bid w \<longleftrightarrow> mget (wd_batches w) (batchKey dk bid) = None
     \<and> length (filter (\<lambda>p. b_deviceKey (snd p) = dk) (wd_batches w)) < maxBatchesPerDevice C"

definition batch_of :: "int \<Rightarrow> jstr \<Rightarrow> jstr \<Rightarrow> jstr \<Rightarrow> ticket list \<Rightarrow> batch" where
  "batch_of now dk sid bid ts = \<lparr>b_deviceKey = dk, b_sessionId = sid, b_batchId = bid, b_createdAtMs = now,
     b_tickets = map (\<lambda>t. (t_deviceId t, t)) ts\<rparr>"

definition staged :: "wd_config \<Rightarrow> int \<Rightarrow> jstr \<Rightarrow> jstr \<Rightarrow> jstr \<Rightarrow> ticket list \<Rightarrow> watchdog \<Rightarrow> watchdog" where
  "staged C now dk sid bid ts w =
     (cleanup C now w)\<lparr>wd_batches := mput (wd_batches (cleanup C now w)) (batchKey dk bid) (batch_of now dk sid bid ts)\<rparr>"

lemma cleanup_twice: "cleanup C now (cleanup C now w) = cleanup C now w"
  by (simp add: cleanup_def batches.purge_idem receipts.purge_idem)

lemma may_open_cleanup: "may_open C dk bid w \<Longrightarrow> may_open C dk bid (cleanup C now w)"
proof -
  assume m: "may_open C dk bid w"
  have "length (filter Q (sweepBatches C now l)) \<le> length (filter Q l)" for Q and l :: "(jstr, batch) jmap"
    by (induction l) (auto simp: sweepBatches_def mfilter_def)
  moreover have "mget l k = None \<Longrightarrow> mget (sweepBatches C now l) k = None" for l k
    by (induction l) (auto simp: sweepBatches_def mfilter_def split: if_splits)
  ultimately show ?thesis using m by (fastforce simp: may_open_def cleanup_def intro: le_less_trans)
qed

lemma cleanup_staged:
  assumes "0 \<le> maxTicketLifetimeMs C" "may_open C dk bid w"
  shows "cleanup C now (staged C now dk sid bid ts w) = staged C now dk sid bid ts w"
proof -
  have f: "\<not> staleBatch C now (batch_of now dk sid bid ts)" using assms(1) by (simp add: staleBatch_def batch_of_def)
  have "mget (wd_batches (cleanup C now w)) (batchKey dk bid) = None"
    using may_open_cleanup [OF assms(2)] by (simp add: may_open_def)
  then have "sweepBatches C now (mput (sweepBatches C now (wd_batches w)) (batchKey dk bid) (batch_of now dk sid bid ts))
      = mput (sweepBatches C now (sweepBatches C now (wd_batches w))) (batchKey dk bid) (batch_of now dk sid bid ts)"
    unfolding sweepBatches_def using f by (intro mfilter_mput) (auto simp: cleanup_def sweepBatches_def)
  then show ?thesis by (simp add: staged_def cleanup_def batches.purge_idem receipts.purge_idem)
qed

lemma stage_first:
  assumes "acceptable P C now t" "may_open C dk bid w" "0 < maxTickets C"
  shows "stage P C now dk sid bid t w = (staged C now dk sid bid [t] w, Inr 1)"
  using assms may_open_cleanup [OF assms(2), of now]
  by (auto simp: stage_def Let_def acceptable_def openBatch_def may_open_def staged_def mput_again batch_of_def mhas_def
      split: option.splits)

lemma tickets_absent: "d \<notin> t_deviceId ` set ts \<Longrightarrow> mget (map (\<lambda>t. (t_deviceId t, t)) ts) d = None"
  by (induction ts) auto

lemma stage_next:
  assumes "acceptable P C now t" "may_open C dk bid w" "0 \<le> maxTicketLifetimeMs C"
    and "length ts < maxTickets C" "t_deviceId t \<notin> set (map t_deviceId ts)"
  shows "stage P C now dk sid bid t (staged C now dk sid bid ts w) = (staged C now dk sid bid (ts @ [t]) w, Inr (Suc (length ts)))"
proof -
  have g: "mget (wd_batches (staged C now dk sid bid ts w)) (batchKey dk bid) = Some (batch_of now dk sid bid ts)"
    by (simp add: staged_def mget_mput)
  let ?S = "staged C now dk sid bid ts w" and ?b = "batch_of now dk sid bid ts"
  have o: "openBatch C now dk sid bid ?S = Some (?S, ?b)" by (simp add: openBatch_def g)
  have h: "\<not> mhas (b_tickets ?b) (t_deviceId t)" using assms(5) by (simp add: batch_of_def mhas_def tickets_absent)
  have b: "?b\<lparr>b_tickets := mput (b_tickets ?b) (t_deviceId t) t\<rparr> = batch_of now dk sid bid (ts @ [t])"
    using mput_new [OF h, of t] by (simp add: batch_of_def)
  have u: "?S\<lparr>wd_batches := mput (wd_batches ?S) (batchKey dk bid) (batch_of now dk sid bid (ts @ [t]))\<rparr>
      = staged C now dk sid bid (ts @ [t]) w"
    by (simp add: staged_def mput_again)
  have l: "length (b_tickets ?b) = length ts" "b_sessionId ?b = sid" "length (b_tickets (batch_of now dk sid bid (ts @ [t]))) = Suc (length ts)"
    by (simp_all add: batch_of_def)
  obtain x where "p_dateParse P (t_expiresAt t) = Some x" "now + offlineDelayMs C < x" "x \<le> now + maxTicketLifetimeMs C"
    using assms(1) by (auto simp: acceptable_def split: option.splits)
  moreover have "isAllowedPushEndpoint P (allowedPushOrigins C) (t_endpoint t)" using assms(1) by (simp add: acceptable_def)
  ultimately show ?thesis
    using assms(4) h by (simp add: stage_def Let_def cleanup_staged [OF assms(3,2)] o b u l)
qed

lemma commit_staged:
  assumes "may_open C dk bid w" "0 \<le> maxTicketLifetimeMs C" "ts \<noteq> []"
  obtains w' os where "commit C now dk sid bid (staged C now dk sid bid ts w) = (w', Inr (length ts), os)"
    "mget (wd_active w') dk = Some \<lparr>a_sessionId = sid, a_tickets = ts, a_offlineTimer = None, a_offlineGeneration = 0\<rparr>"
proof -
  have g: "mget (wd_batches (staged C now dk sid bid ts w)) (batchKey dk bid) = Some (batch_of now dk sid bid ts)"
    by (simp add: staged_def mget_mput)
  have "length (b_tickets (batch_of now dk sid bid ts)) = length ts" "map snd (b_tickets (batch_of now dk sid bid ts)) = ts"
    "b_sessionId (batch_of now dk sid bid ts) = sid"
    by (simp_all add: batch_of_def comp_def)
  then show ?thesis
    using that g assms(3)
    by (auto simp: commit_def Let_def cleanup_staged [OF assms(2,1)] case_prod_beta mget_mput)
qed

lemma may_open_disarmed:
  assumes "may_open C dk bid w"
  shows "may_open C dk bid (fst (disarm C now dk sid w))"
proof -
  have f: "may_open C dk bid (u\<lparr>wd_batches := mfilter P (wd_batches u)\<rparr>)" if "may_open C dk bid u" for u P
  proof -
    have "length (filter Q (mfilter P l)) \<le> length (filter Q l)" for Q and l :: "(jstr, batch) jmap"
      by (induction l) (auto simp: mfilter_def)
    moreover have "mget l k = None \<Longrightarrow> mget (mfilter P l) k = None" for l k
      by (induction l) (auto simp: mfilter_def split: if_splits)
    ultimately show ?thesis using that by (fastforce simp: may_open_def intro: le_less_trans)
  qed
  have cong: "may_open C dk bid u = may_open C dk bid v" if "wd_batches u = wd_batches v" for u v
    using that by (simp add: may_open_def)
  let ?c = "cleanup C now w"
  have "wd_batches (fst (disarm C now dk sid w)) = wd_batches ?c
      \<or> wd_batches (fst (disarm C now dk sid w)) = mfilter (\<lambda>k b. b_deviceKey b \<noteq> dk) (wd_batches ?c)"
    by (auto simp: disarm_def Let_def deleteDeviceBatches_def clearActiveTimer_def case_prod_beta split: option.splits)
  then show ?thesis
    using may_open_cleanup [OF assms, of now] f [OF may_open_cleanup [OF assms, of now]]
      cong [of "fst (disarm C now dk sid w)" ?c]
      cong [of "fst (disarm C now dk sid w)" "?c\<lparr>wd_batches := mfilter (\<lambda>k b. b_deviceKey b \<noteq> dk) (wd_batches ?c)\<rparr>"]
    by auto
qed

subsection \<open>Through the relay's handlers\<close>

definition ticket_message :: "local_view \<Rightarrow> ticket \<Rightarrow> message" where
  "ticket_message V t = createRemoteMessage (lv_gen V) AGENT_WATCHDOG_TICKET
     [(js ''sessionId'', JStr (lv_session V)), (js ''batchId'', JStr (batch_id V)), (js ''ticket'', ticket_json t)] []"

definition commit_message :: "local_view \<Rightarrow> message" where
  "commit_message V = createRemoteMessage (lv_gen V) AGENT_WATCHDOG_COMMIT
     [(js ''sessionId'', JStr (lv_session V)), (js ''batchId'', JStr (batch_id V))] []"

definition disarm_message :: "local_view \<Rightarrow> message" where
  "disarm_message V = createRemoteMessage (lv_gen V) AGENT_WATCHDOG_DISARM [(js ''sessionId'', JStr (lv_session V))] []"

lemma tickets_sent: "rm_open s \<Longrightarrow> each (send_ticket V) ts s = (s, map (Sent \<circ> ticket_message V) ts)"
  by (induction ts) (simp_all add: andThen_def send_ticket_def ticket_message_def)

lemma sent_map [simp]: "sent_messages (map (Sent \<circ> f) ts) = map f ts"
  by (induction ts) simp_all

lemma sync_sent:
  assumes "rm_open s" "lv_armed V" "lv_session V \<noteq> []" "lv_tickets V \<noteq> []"
  shows "sent_messages (snd (syncAgentWatchdog c V s)) =
    (if c then [disarm_message V] else []) @ map (ticket_message V) (lv_tickets V) @ [commit_message V]"
  using assms by (simp add: syncAgentWatchdog_def Let_def andThen_def tickets_sent send_disarm_def send_commit_def
      scheduleWatchdogRefresh_def disarm_message_def commit_message_def)

lemma message_fields:
  "m_type (ticket_message V t) = AGENT_WATCHDOG_TICKET" "ptext (ticket_message V t) ''sessionId'' = lv_session V"
  "ptext (ticket_message V t) ''batchId'' = batch_id V" "ticket_of (ticket_message V t) = t"
  "m_type (commit_message V) = AGENT_WATCHDOG_COMMIT" "ptext (commit_message V) ''sessionId'' = lv_session V"
  "ptext (commit_message V) ''batchId'' = batch_id V"
  "m_type (disarm_message V) = AGENT_WATCHDOG_DISARM" "ptext (disarm_message V) ''sessionId'' = lv_session V"
  by (simp_all add: ticket_message_def commit_message_def disarm_message_def createRemoteMessage_def ptext_def
      ticket_of_def ticket_json_def)

lemma owns_watchdog [simp]: "owns_device (s\<lparr>r_watchdog := w\<rparr>) ws = owns_device s ws"
  "client_of (s\<lparr>r_watchdog := w\<rparr>) ws = client_of s ws"
  by (simp_all add: owns_device_def client_of_def)

lemma relay_stages:
  assumes "owns_device s ws" "stage (n_platform N) (rc_watchdog C) (e_now E) (c_deviceKey (client_of s ws)) (lv_session V)
      (batch_id V) t w = (w', Inr n)"
  shows "handleAgentWatchdogMessage N C E ws (ticket_message V t) (s\<lparr>r_watchdog := w\<rparr>) = (s\<lparr>r_watchdog := w'\<rparr>, [])"
  using assms by (simp add: handleAgentWatchdogMessage_def Let_def message_fields report_invalid_def)

lemma relay_stages_all:
  assumes "owns_device s ws" "may_open (rc_watchdog C) (c_deviceKey (client_of s ws)) (batch_id V) w"
    and "0 \<le> maxTicketLifetimeMs (rc_watchdog C)"
  shows "ts \<noteq> [] \<Longrightarrow> distinct (map t_deviceId (ts @ us)) \<Longrightarrow> length (ts @ us) \<le> maxTickets (rc_watchdog C)
    \<Longrightarrow> list_all (acceptable (n_platform N) (rc_watchdog C) (e_now E)) us
    \<Longrightarrow> each (handleAgentWatchdogMessage N C E ws) (map (ticket_message V) us)
        (s\<lparr>r_watchdog := staged (rc_watchdog C) (e_now E) (c_deviceKey (client_of s ws)) (lv_session V) (batch_id V) ts w\<rparr>)
      = (s\<lparr>r_watchdog := staged (rc_watchdog C) (e_now E) (c_deviceKey (client_of s ws)) (lv_session V) (batch_id V) (ts @ us) w\<rparr>, [])"
proof (induction us arbitrary: ts)
  case (Cons u us)
  have "stage (n_platform N) (rc_watchdog C) (e_now E) (c_deviceKey (client_of s ws)) (lv_session V) (batch_id V) u
      (staged (rc_watchdog C) (e_now E) (c_deviceKey (client_of s ws)) (lv_session V) (batch_id V) ts w)
    = (staged (rc_watchdog C) (e_now E) (c_deviceKey (client_of s ws)) (lv_session V) (batch_id V) (ts @ [u]) w, Inr (Suc (length ts)))"
    using Cons.prems by (intro stage_next assms) auto
  then show ?case
    using Cons.IH [of "ts @ [u]"] Cons.prems by (simp add: andThen_def relay_stages [OF assms(1)])
qed simp

lemma relay_disarms:
  assumes "owns_device r ws" "may_open (rc_watchdog C) (c_deviceKey (client_of r ws)) bid (r_watchdog r)"
  obtains w os where "handleAgentWatchdogMessage N C E ws (disarm_message V) r = (r\<lparr>r_watchdog := w\<rparr>, os)"
    "may_open (rc_watchdog C) (c_deviceKey (client_of r ws)) bid w"
    "\<And>m. Send ws m \<in> set os \<Longrightarrow> m_type m = AGENT_WATCHDOG_FIRED"
proof -
  obtain w fired os where d: "disarm (rc_watchdog C) (e_now E) (c_deviceKey (client_of r ws)) (lv_session V) (r_watchdog r) = (w, fired, os)"
    by (metis prod_cases3)
  have "may_open (rc_watchdog C) (c_deviceKey (client_of r ws)) bid w"
    using may_open_disarmed [OF assms(2), of "e_now E" "lv_session V"] by (simp add: d)
  moreover have "handleAgentWatchdogMessage N C E ws (disarm_message V) r = (r\<lparr>r_watchdog := w\<rparr>,
      map Watch os @ (if fired \<and> is_open r ws then [Send ws (fired_message E (lv_session V))] else []))"
    using assms(1) by (simp add: handleAgentWatchdogMessage_def Let_def message_fields d andThen_def send_def is_open_def)
  moreover have "m_type (fired_message E x) = AGENT_WATCHDOG_FIRED" for x
    by (simp add: fired_message_def createRemoteMessage_def)
  ultimately show ?thesis
    by (intro that [of w "map Watch os @ (if fired \<and> is_open r ws then [Send ws (fired_message E (lv_session V))] else [])"])
      (auto split: if_splits)
qed

lemma relay_commits:
  assumes "owns_device r ws" "may_open (rc_watchdog C) (c_deviceKey (client_of r ws)) (batch_id V) w"
    and "0 \<le> maxTicketLifetimeMs (rc_watchdog C)" "ts \<noteq> []"
  obtains w' os where "handleAgentWatchdogMessage N C E ws (commit_message V)
      (r\<lparr>r_watchdog := staged (rc_watchdog C) (e_now E) (c_deviceKey (client_of r ws)) (lv_session V) (batch_id V) ts w\<rparr>)
      = (r\<lparr>r_watchdog := w'\<rparr>, map Watch os)"
    "mget (wd_active w') (c_deviceKey (client_of r ws)) = Some \<lparr>a_sessionId = lv_session V, a_tickets = ts,
      a_offlineTimer = None, a_offlineGeneration = 0\<rparr>"
proof -
  obtain w' os where c: "commit (rc_watchdog C) (e_now E) (c_deviceKey (client_of r ws)) (lv_session V) (batch_id V)
      (staged (rc_watchdog C) (e_now E) (c_deviceKey (client_of r ws)) (lv_session V) (batch_id V) ts w) = (w', Inr (length ts), os)"
    "mget (wd_active w') (c_deviceKey (client_of r ws)) = Some \<lparr>a_sessionId = lv_session V, a_tickets = ts,
      a_offlineTimer = None, a_offlineGeneration = 0\<rparr>"
    using commit_staged [OF assms(2,3,4)] by metis
  show ?thesis
    using assms(1) c by (intro that) (simp_all add: handleAgentWatchdogMessage_def Let_def message_fields andThen_def report_invalid_def)
qed

lemma relay_batch:
  assumes "owns_device r ws" "may_open (rc_watchdog C) (c_deviceKey (client_of r ws)) (batch_id V) (r_watchdog r)"
    and "0 \<le> maxTicketLifetimeMs (rc_watchdog C)" "ts \<noteq> []" "distinct (map t_deviceId ts)"
    and "length ts \<le> maxTickets (rc_watchdog C)" "list_all (acceptable (n_platform N) (rc_watchdog C) (e_now E)) ts"
  obtains w' os where "each (handleAgentWatchdogMessage N C E ws) (map (ticket_message V) ts @ [commit_message V]) r
      = (r\<lparr>r_watchdog := w'\<rparr>, map Watch os)"
    "mget (wd_active w') (c_deviceKey (client_of r ws)) = Some \<lparr>a_sessionId = lv_session V, a_tickets = ts,
      a_offlineTimer = None, a_offlineGeneration = 0\<rparr>"
proof -
  obtain t us where ts: "ts = t # us" using assms(4) by (cases ts) auto
  let ?st = "\<lambda>ts. staged (rc_watchdog C) (e_now E) (c_deviceKey (client_of r ws)) (lv_session V) (batch_id V) ts (r_watchdog r)"
  have "stage (n_platform N) (rc_watchdog C) (e_now E) (c_deviceKey (client_of r ws)) (lv_session V) (batch_id V) t
      (r_watchdog r) = (?st [t], Inr 1)"
    using assms(6,7) ts by (intro stage_first assms(2)) auto
  then have first: "handleAgentWatchdogMessage N C E ws (ticket_message V t) r = (r\<lparr>r_watchdog := ?st [t]\<rparr>, [])"
    using relay_stages [OF assms(1), where w = "r_watchdog r"] by simp
  obtain w' os where c: "handleAgentWatchdogMessage N C E ws (commit_message V) (r\<lparr>r_watchdog := ?st ts\<rparr>)
      = (r\<lparr>r_watchdog := w'\<rparr>, map Watch os)"
    "mget (wd_active w') (c_deviceKey (client_of r ws)) = Some \<lparr>a_sessionId = lv_session V, a_tickets = ts,
      a_offlineTimer = None, a_offlineGeneration = 0\<rparr>"
    using relay_commits [OF assms(1-4)] by metis
  have split: "each f (xs @ [x]) s = (let (u, o1) = each f xs s; (v, o2) = f x u in (v, o1 @ o2))"
    for f :: "message \<Rightarrow> relay \<Rightarrow> relay \<times> r_out list" and xs x s
    by (induction xs arbitrary: s) (simp_all add: andThen_def case_prod_beta Let_def)
  have "each (handleAgentWatchdogMessage N C E ws) (map (ticket_message V) ts) r = (r\<lparr>r_watchdog := ?st ts\<rparr>, [])"
    using relay_stages_all [OF assms(1-3), of "[t]" us N E] assms(5-7) first by (simp add: ts andThen_def)
  then show ?thesis using c by (intro that) (simp_all add: split)
qed

text \<open>
  C20: The agent arms the relay. When the agent synchronises the watchdog over an open connection, with a flight
  session and tickets for different devices, and its messages go through the relay's handlers, the relay (which
  may open one more batch for the device and finds the tickets' lifetimes and endpoints acceptable)
  answers none of them with an error, and holds exactly these tickets, in this order, for this session: when the
  agent disappears, at whatever time, the timer that sends them is started.
\<close>
theorem agent_arms_relay:
  assumes "rm_open s" "lv_armed V" "lv_session V \<noteq> []" "lv_tickets V \<noteq> []"
    and "distinct (map t_deviceId (lv_tickets V))" "length (lv_tickets V) \<le> maxTickets (rc_watchdog C)"
    and "list_all (acceptable (n_platform N) (rc_watchdog C) (e_now E)) (lv_tickets V)"
    and "owns_device r ws" "dk = c_deviceKey (client_of r ws)"
    and "may_open (rc_watchdog C) dk (batch_id V) (r_watchdog r)" "0 \<le> maxTicketLifetimeMs (rc_watchdog C)"
    and "each (handleAgentWatchdogMessage N C E ws) (sent_messages (snd (syncAgentWatchdog clear V s))) r = (r', outs)"
  shows "mget (wd_active (r_watchdog r')) dk = Some \<lparr>a_sessionId = lv_session V, a_tickets = lv_tickets V,
      a_offlineTimer = None, a_offlineGeneration = 0\<rparr>
    \<and> (\<forall>m. Send ws m \<in> set outs \<longrightarrow> m_type m = AGENT_WATCHDOG_FIRED)
    \<and> (\<exists>w t g. agentOffline (rc_watchdog C) later dk (r_watchdog r')
         = (w, True, [SetTimer t dk (lv_session V) g (offlineDelayMs (rc_watchdog C))]))"
proof -
  let ?h = "handleAgentWatchdogMessage N C E ws"
  have own: "owns_device (r\<lparr>r_watchdog := w\<rparr>) ws" "c_deviceKey (client_of (r\<lparr>r_watchdog := w\<rparr>) ws) = dk" for w
    using assms(8,9) by simp_all
  note may = assms(10) [unfolded assms(9)]
  have "mget (wd_active (r_watchdog r')) dk = Some \<lparr>a_sessionId = lv_session V, a_tickets = lv_tickets V,
      a_offlineTimer = None, a_offlineGeneration = 0\<rparr> \<and> (\<forall>m. Send ws m \<in> set outs \<longrightarrow> m_type m = AGENT_WATCHDOG_FIRED)"
  proof (cases clear)
    case False
    obtain w' os where "each ?h (map (ticket_message V) (lv_tickets V) @ [commit_message V]) r = (r\<lparr>r_watchdog := w'\<rparr>, map Watch os)"
      "mget (wd_active w') (c_deviceKey (client_of r ws)) = Some \<lparr>a_sessionId = lv_session V, a_tickets = lv_tickets V,
        a_offlineTimer = None, a_offlineGeneration = 0\<rparr>"
      using relay_batch [OF assms(8) may assms(11,4-7)] by metis
    then show ?thesis using assms(9,12) by (auto simp: sync_sent [OF assms(1-4)] False)
  next
    case True
    obtain w os where d: "?h (disarm_message V) r = (r\<lparr>r_watchdog := w\<rparr>, os)"
      "may_open (rc_watchdog C) (c_deviceKey (client_of r ws)) (batch_id V) w"
      "\<And>m. Send ws m \<in> set os \<Longrightarrow> m_type m = AGENT_WATCHDOG_FIRED"
      using relay_disarms [OF assms(8) may, of N E V] by metis
    obtain w' os' where b: "each ?h (map (ticket_message V) (lv_tickets V) @ [commit_message V]) (r\<lparr>r_watchdog := w\<rparr>)
        = (r\<lparr>r_watchdog := w'\<rparr>, map Watch os')"
      "mget (wd_active w') dk = Some \<lparr>a_sessionId = lv_session V, a_tickets = lv_tickets V,
        a_offlineTimer = None, a_offlineGeneration = 0\<rparr>"
      using relay_batch [OF own(1) _ assms(11,4-7), of w] d(2) own(2) assms(9) by (simp add: assms(9)) metis
    then show ?thesis using assms(12) d by (auto simp: sync_sent [OF assms(1-4)] True andThen_def)
  qed
  then show ?thesis using assms(4) by (simp add: agentOffline_def Let_def cleanup_def)
qed

definition trial_node :: node where
  "trial_node = demo_node\<lparr>n_platform := \<lparr>p_url = (\<lambda>x. Some \<lparr>u_protocol = js ''https:'', u_hostname = js ''fcm.googleapis.com'',
       u_username = [], u_password = [], u_port = [], u_origin = []\<rparr>), p_isIP = (\<lambda>x. False),
     p_dateParse = (\<lambda>x. Some 900000)\<rparr>\<rparr>"

definition trial_ticket :: "string \<Rightarrow> ticket" where
  "trial_ticket d = \<lparr>t_deviceId = js d, t_endpoint = js ''https://fcm.googleapis.com/x'', t_expiresAt = [],
     t_authorization = [], t_contentEncoding = [], t_body = []\<rparr>"

definition trial_armed :: local_view where
  "trial_armed = (trial_view 900)\<lparr>lv_armed := True, lv_session := js ''flight-1'',
     lv_tickets := [trial_ticket ''phone'', trial_ticket ''tablet'']\<rparr>"

lemma trial_acceptable:
  "acceptable (n_platform trial_node) (rc_watchdog (demo_rc True)) (e_now demo_env) (trial_ticket d)"
proof -
  have "lower (js ''fcm.googleapis.com'') = js ''fcm.googleapis.com''"
    by (rule lower_id) (simp add: js_def is_upper_def)
  moreover have "js ''fcm.googleapis.com'' \<noteq> []" "js ''https://fcm.googleapis.com/x'' \<noteq> []" by (simp_all add: js_def)
  moreover have "utf8_len (js ''https://fcm.googleapis.com/x'') \<le> 4096"
    by (rule order_trans [OF utf8_len_le]) (simp add: js_def)
  ultimately show ?thesis
    by (simp add: acceptable_def trial_node_def trial_ticket_def demo_rc_def demo_env_def createConfig_def positiveInteger_def
        isAllowedPushEndpoint_def Let_def)
qed

lemma trial_owner: "owns_device (demo_state []) 10" "c_deviceKey (client_of (demo_state []) 10) = [85, 86, 58, 100]"
proof -
  show "c_deviceKey (client_of (demo_state []) 10) = [85, 86, 58, 100]" by (simp add: demo_agent_def)
  then show "owns_device (demo_state []) 10"
    by (simp add: owns_device_def Let_def) (simp add: demo_state_def demo_device_def demo_agent_def new_client_def demo_decision_def)
qed

theorem agent_arms_relay_witness:
  "mget (wd_active (r_watchdog (fst (each (handleAgentWatchdogMessage trial_node (demo_rc True) demo_env 10)
       (sent_messages (snd (syncAgentWatchdog True trial_armed trial_online))) (demo_state []))))) [85, 86, 58, 100]
   = Some \<lparr>a_sessionId = js ''flight-1'', a_tickets = [trial_ticket ''phone'', trial_ticket ''tablet''],
       a_offlineTimer = None, a_offlineGeneration = 0\<rparr>"
proof -
  let ?f = "each (handleAgentWatchdogMessage trial_node (demo_rc True) demo_env 10)
       (sent_messages (snd (syncAgentWatchdog True trial_armed trial_online))) (demo_state [])"
  have v: "lv_armed trial_armed" "lv_session trial_armed = js ''flight-1''"
    "lv_tickets trial_armed = [trial_ticket ''phone'', trial_ticket ''tablet'']" "rm_open trial_online"
    by (simp_all add: trial_armed_def trial_online_def)
  have c: "maxTickets (rc_watchdog (demo_rc True)) = 32" "0 \<le> maxTicketLifetimeMs (rc_watchdog (demo_rc True))"
    "may_open (rc_watchdog (demo_rc True)) [85, 86, 58, 100] (batch_id trial_armed) (r_watchdog (demo_state []))"
    by (simp_all add: demo_rc_def createConfig_def positiveInteger_def may_open_def demo_state_def initWatchdog_def)
  have d: "distinct (map t_deviceId (lv_tickets trial_armed))" by (simp add: v trial_ticket_def)
  have a: "list_all (acceptable (n_platform trial_node) (rc_watchdog (demo_rc True)) (e_now demo_env)) (lv_tickets trial_armed)"
    by (simp add: v trial_acceptable)
  have f: "?f = (fst ?f, snd ?f)" by simp
  show ?thesis
    using agent_arms_relay [OF v(4,1) _ _ d _ a trial_owner(1) trial_owner(2) [symmetric] c(3,2) f] c(1) v by simp
qed

end
