(* ===== verification/RemoteWire.thy ===== *)
theory RemoteWire
  imports RemoteProps
begin

section \<open>What the agent says is what the relay accepts\<close>

text \<open>
  The contract between the agent's state and the protocol: \<open>view_ok\<close> is what the validator of the
  protocol needs of the configuration and of the state of the flight. Under it every message about the
  state of the flight passes the validator, with the agent as its source.
\<close>

definition accepted :: "url_parser \<Rightarrow> message \<Rightarrow> bool" where
  "accepted U m \<longleftrightarrow> is_ok (validateRemoteMessage U (Some AGENT) (wire m))"

definition empty_or :: "(json \<Rightarrow> bool) \<Rightarrow> jstr \<Rightarrow> bool" where
  "empty_or P s \<longleftrightarrow> s = [] \<or> P (JStr s)"

definition options_ok :: "remote_options \<Rightarrow> bool" where
  "options_ok R \<longleftrightarrow> isTokenLike (JStr (ro_deviceId R)) \<and> isShortText (JStr (ro_deviceName R))
     \<and> isVersionText (JStr (ro_appVersion R))"

definition coordinate_ok :: "rat \<Rightarrow> jnum option \<Rightarrow> bool" where
  "coordinate_ok b x \<longleftrightarrow> (case x of Some (Fin q) \<Rightarrow> -b \<le> q \<and> q \<le> b | _ \<Rightarrow> True)"

definition station_sound :: "known_station \<Rightarrow> bool" where
  "station_sound st \<longleftrightarrow> isStationName (JStr (ks_callsign st))
     \<and> empty_or isFrequency (formatRemoteComFrequency (ks_freq st))
     \<and> coordinate_ok 90 (ks_lat st) \<and> coordinate_ok 180 (ks_lon st) \<and> utf8_len (take 256 (ks_voice st)) \<le> 256"

definition entry_sound :: "(jstr \<times> jstr) option \<Rightarrow> bool" where
  "entry_sound e \<longleftrightarrow> (case e of None \<Rightarrow> True
     | Some (text, time) \<Rightarrow> utf8_len text \<le> 4096 \<and> isIsoLike (JStr time))"

definition slot_sound :: "weather_slot \<Rightarrow> bool" where
  "slot_sound w \<longleftrightarrow> empty_or isIcao (ws_icao w) \<and> entry_sound (ws_metar w) \<and> entry_sound (ws_taf w)"

definition flight_ok :: "app_state \<Rightarrow> bool" where
  "flight_ok a \<longleftrightarrow>
     (case as_callsign a of None \<Rightarrow> True | Some c \<Rightarrow> empty_or isCallsign c)
     \<and> empty_or isSquawk (as_squawk a)
     \<and> empty_or isFrequency (formatRemoteComFrequency (as_com a 1))
     \<and> empty_or isFrequency (formatRemoteComFrequency (as_com a 2))
     \<and> isStationName (JStr (as_com_station a 1)) \<and> isStationName (JStr (as_com_station a 2))
     \<and> length (as_stations a) \<le> 250 \<and> list_all (station_sound \<circ> snd) (as_stations a)
     \<and> (case as_position a of Some (Fin lat, Fin lon) \<Rightarrow> -90 \<le> lat \<and> lat \<le> 90 \<and> -180 \<le> lon \<and> lon \<le> 180 | _ \<Rightarrow> True)
     \<and> empty_or isIcao (fp_departure (as_plan a)) \<and> empty_or isIcao (fp_destination (as_plan a))
     \<and> empty_or isIcao (fp_alternate (as_plan a))
     \<and> slot_sound (as_departure a) \<and> slot_sound (as_destination a)"

definition watchdog_ok :: "url_parser \<Rightarrow> local_view \<Rightarrow> bool" where
  "watchdog_ok U V \<longleftrightarrow> empty_or isTokenLike (lv_session V) \<and> isTokenLike (JStr (batch_id V))
     \<and> list_all (\<lambda>t. is_ok (case ticket_json t of JObj p \<Rightarrow> requireShape p (ticket_schema U) [] | _ \<Rightarrow> Inl [])) (lv_tickets V)"

definition view_ok :: "url_parser \<Rightarrow> local_view \<Rightarrow> bool" where
  "view_ok U V \<longleftrightarrow> isId (JStr (lv_gen V)) \<and> 8000 \<le> lv_txSampleRate V \<and> lv_txSampleRate V \<le> 48000
     \<and> flight_ok (lv_app V) \<and> isPushKey (JStr (lv_vapidPublicKey V)) \<and> lv_subscriptionCount V \<le> 32
     \<and> (case ut_running (lv_unicom V) of None \<Rightarrow> True | Some (a, b) \<Rightarrow> isIsoLike (JStr a) \<and> isIsoLike (JStr b))
     \<and> watchdog_ok U V"

subsection \<open>Shapes\<close>

lemma accepted_wire:
  assumes "isId (JStr (m_id m))" "AGENT \<in> set (source_rules (m_type m))" "is_ok (validatePayload U (m_type m) (m_payload m))"
  shows "accepted U m"
  using assms by (auto simp: accepted_def validateRemoteMessage_def wire_def isPlainObject_def holds_def val_def
      split: sum.splits)

lemma take_required_ok:
  "list_all (\<lambda>(k, P). holds P (mget p k)) r \<Longrightarrow> is_ok (take_required p r acc)"
  by (induction r arbitrary: acc) (auto simp: holds_def split: option.splits)

lemma take_optional_ok:
  "list_all (\<lambda>(k, P). absent_or P (mget p k)) r \<Longrightarrow> is_ok (take_optional p r acc)"
  by (induction r arbitrary: acc) (auto simp: absent_or_def split: option.splits)

lemma shape_ok:
  assumes "unexpected (map fst req @ map fst options) p = None" "list_all (\<lambda>(k, P). holds P (mget p k)) req"
    and "list_all (\<lambda>(k, P). absent_or P (mget p k)) options"
  shows "is_ok (requireShape p req options)"
  using assms take_required_ok [OF assms(2), of "[]"] take_optional_ok [OF assms(3)]
  by (auto simp: requireShape_def split: sum.splits)

lemmas wire_evals = validatePayload_def empty_types_def holds_def absent_or_def opt_pair_def sch_def val_def empty_or_def
  isBoolean_def unexpected_None

lemma hello_ok:
  "options_ok R \<Longrightarrow> is_ok (validatePayload U AGENT_HELLO ((js ''deviceId'', JStr (ro_deviceId R)) # pairing_request R))"
  "options_ok R \<Longrightarrow> is_ok (validatePayload U PAIRING_BEGIN (pairing_request R))"
  by (simp_all add: validatePayload_def empty_types_def)
    (intro shape_ok; simp add: wire_evals pairing_request_def options_ok_def)+

lemma sample_rate: "8000 \<le> n \<Longrightarrow> n \<le> 48000 \<Longrightarrow> isSampleRate (JNum (Fin (rat_of_nat n)))"
  by (simp add: isSampleRate_def num_test_def is_integer_code)

lemma subscription_count: "n \<le> 32 \<Longrightarrow> isSubscriptionCount (JNum (Fin (rat_of_nat n)))"
  by (simp add: isSubscriptionCount_def num_test_def is_integer_code)

lemma status_ok:
  assumes "options_ok R" "view_ok U V"
  shows "is_ok (validatePayload U AGENT_STATUS (status_payload R V))"
proof -
  have c: "own_callsign V = [] \<or> isCallsign (JStr (own_callsign V))"
    using assms(2) by (auto simp: view_ok_def flight_ok_def empty_or_def own_callsign_def opt_text_def split: option.splits)
  have q: "as_squawk (lv_app V) = [] \<or> isSquawk (JStr (as_squawk (lv_app V)))"
    using assms(2) by (auto simp: view_ok_def flight_ok_def empty_or_def)
  have r: "isSampleRate (JNum (Fin (rat_of_nat (lv_txSampleRate V))))" "isVersionText (JStr (ro_appVersion R))"
    using assms by (auto simp: view_ok_def options_ok_def intro: sample_rate)
  have p: "isFlightPlanStatus (JStr (plan_text x))" for x
    by (cases x) (simp_all add: isFlightPlanStatus_def plan_text_def)
  have s: "shape_of U AGENT_STATUS \<noteq> None" "\<not> List.member empty_types AGENT_STATUS" by (simp_all add: empty_types_def)
  show ?thesis
    unfolding validatePayload_def if_not_P [OF s(2)] shape_of.simps option.case prod.case
  proof (rule shape_ok)
    show "unexpected (map fst (sch [(''connected'', isBoolean)]) @ map fst (sch [(''callsign'', isCallsign),
        (''flightPlanStatus'', isFlightPlanStatus), (''webTxEnabled'', isBoolean), (''txReady'', isBoolean),
        (''txSampleRate'', isSampleRate), (''squawk'', isSquawk), (''xpdrMode'', isXpdrMode), (''agentVersion'', isVersionText)]))
        (status_payload R V) = None"
      by (auto simp: unexpected_None status_payload_def Let_def sch_def)
    show "list_all (\<lambda>(k, P). holds P (mget (status_payload R V) k)) (sch [(''connected'', isBoolean)])"
      by (simp add: status_payload_def Let_def sch_def holds_def isBoolean_def)
    show "list_all (\<lambda>(k, P). absent_or P (mget (status_payload R V) k)) (sch [(''callsign'', isCallsign),
        (''flightPlanStatus'', isFlightPlanStatus), (''webTxEnabled'', isBoolean), (''txReady'', isBoolean),
        (''txSampleRate'', isSampleRate), (''squawk'', isSquawk), (''xpdrMode'', isXpdrMode), (''agentVersion'', isVersionText)])"
      using c q by (simp add: status_payload_def Let_def sch_def absent_or_def isBoolean_def r p isXpdrMode_def) blast
  qed
qed

lemma radio_ok:
  assumes "view_ok U V" "formatRemoteComFrequency (as_com (lv_app V) 1) \<noteq> []" "formatRemoteComFrequency (as_com (lv_app V) 2) \<noteq> []"
  shows "is_ok (validatePayload U RADIO_STATE [(js ''com1'', JStr (formatRemoteComFrequency (as_com (lv_app V) 1))),
     (js ''com2'', JStr (formatRemoteComFrequency (as_com (lv_app V) 2))),
     (js ''station1'', JStr (as_com_station (lv_app V) 1)), (js ''station2'', JStr (as_com_station (lv_app V) 2))])"
proof -
  have "isFrequency (JStr (formatRemoteComFrequency (as_com (lv_app V) 1)))"
    "isFrequency (JStr (formatRemoteComFrequency (as_com (lv_app V) 2)))"
    "isStationName (JStr (as_com_station (lv_app V) 1))" "isStationName (JStr (as_com_station (lv_app V) 2))"
    using assms by (simp_all add: view_ok_def flight_ok_def empty_or_def)
  then show ?thesis
    by (simp add: validatePayload_def empty_types_def) (rule shape_ok; simp add: wire_evals)
qed

lemma notification_ok:
  assumes "view_ok U V"
  shows "is_ok (validatePayload U NOTIFICATION_STATE
     [(js ''available'', JBool True), (js ''vapidPublicKey'', JStr (lv_vapidPublicKey V)),
      (js ''subscriptionCount'', JNum (Fin (rat_of_nat (lv_subscriptionCount V))))])"
proof -
  have "isPushKey (JStr (lv_vapidPublicKey V))" "isSubscriptionCount (JNum (Fin (rat_of_nat (lv_subscriptionCount V))))"
    using assms by (simp_all add: view_ok_def subscription_count)
  then show ?thesis
    by (simp add: validatePayload_def empty_types_def) (rule shape_ok; simp add: wire_evals)
qed

lemma timer_ok:
  assumes "view_ok U V"
  shows "is_ok (validatePayload U UNICOM_TIMER_STATE
     (if fld (timer_data (lv_unicom V)) ''active'' = Some (JBool True)
      then [(js ''active'', JBool True)] @ opt_pair ''startedAt'' (fld (timer_data (lv_unicom V)) ''startedAt'')
        @ opt_pair ''expiresAt'' (fld (timer_data (lv_unicom V)) ''expiresAt'')
      else [(js ''active'', JBool False)]))"
proof (cases "ut_running (lv_unicom V)")
  case None
  then show ?thesis by (simp add: wire_evals timer_data_def validateUnicomTimerState_def opt_truthy_def)
next
  case (Some r)
  then have "isIsoLike (JStr (fst r))" "isIsoLike (JStr (snd r))"
    using assms by (simp_all add: view_ok_def split: prod.splits)
  then show ?thesis
    using Some by (cases r) (simp add: wire_evals timer_data_def validateUnicomTimerState_def opt_truthy_def)
qed

lemma commit_ok:
  assumes "isTokenLike (JStr a)" "isTokenLike (JStr b)"
  shows "is_ok (validatePayload U AGENT_WATCHDOG_COMMIT [(js ''sessionId'', JStr a), (js ''batchId'', JStr b)])"
    "is_ok (validatePayload U AGENT_WATCHDOG_DISARM [(js ''sessionId'', JStr a)])"
  using assms by (simp_all add: validatePayload_def empty_types_def) (rule shape_ok; simp add: wire_evals)+

lemma ticket_ok:
  assumes "isTokenLike (JStr a)" "isTokenLike (JStr b)"
    and "is_ok (case ticket_json t of JObj p \<Rightarrow> requireShape p (ticket_schema U) [] | _ \<Rightarrow> Inl [])"
  shows "is_ok (validatePayload U AGENT_WATCHDOG_TICKET
    [(js ''sessionId'', JStr a), (js ''batchId'', JStr b), (js ''ticket'', ticket_json t)])"
  using assms by (auto simp: wire_evals validateAgentWatchdogTicket_def isPlainObject_def ticket_json_def split: sum.splits)

subsection \<open>Stations and weather\<close>

lemma collect_ok: "list_all (\<lambda>x. is_ok (f x)) xs \<Longrightarrow> is_ok (collect f xs)"
  by (induction xs) (auto split: sum.splits)

lemma finite_field_get:
  "coordinate_ok b x \<Longrightarrow> absent_or (isCoordinate (-b) b) (mget (finite_field k x) (js k))"
  by (auto simp: coordinate_ok_def finite_field_def absent_or_def isCoordinate_def num_test_def is_finite_def split: option.splits jnum.splits)

lemma finite_field_other: "k \<noteq> l \<Longrightarrow> mget (finite_field k x) (js l) = None"
  by (auto simp: finite_field_def split: option.splits jnum.splits)

lemma finite_field_keys: "fst ` set (finite_field k x) \<subseteq> {js k}"
  by (auto simp: finite_field_def split: option.splits jnum.splits)

lemma station_item_ok:
  assumes "station_sound st" "ks_callsign st \<noteq> []"
  shows "is_ok (station_item (station_payload st))"
proof -
  define v where "v = (if ks_voice st \<noteq> [] then [(js ''voice'', JStr (take 256 (ks_voice st)))] else [])"
  define p where "p = [(js ''callsign'', JStr (ks_callsign st)), (js ''freq'', JStr (formatRemoteComFrequency (ks_freq st)))]
     @ finite_field ''lat'' (ks_lat st) @ finite_field ''lon'' (ks_lon st) @ v"
  have pl: "station_payload st = JObj p" by (simp add: station_payload_def p_def v_def)
  have u: "unexpected [js ''callsign'', js ''freq'', js ''lat'', js ''lon'', js ''voice''] p = None"
    using finite_field_keys [of "''lat''" "ks_lat st"] finite_field_keys [of "''lon''" "ks_lon st"]
    by (auto simp: unexpected_None p_def v_def)
  have f: "fld p ''callsign'' = Some (JStr (ks_callsign st))" "fld p ''freq'' = Some (JStr (formatRemoteComFrequency (ks_freq st)))"
    "fld p ''lat'' = mget (finite_field ''lat'' (ks_lat st)) (js ''lat'')"
    "fld p ''lon'' = mget (finite_field ''lon'' (ks_lon st)) (js ''lon'')"
    "fld p ''voice'' = mget v (js ''voice'')"
    by (simp_all add: p_def map_add_def finite_field_other v_def split: option.splits)
  have c: "isStationName (JStr (ks_callsign st))"
    "formatRemoteComFrequency (ks_freq st) = [] \<or> isFrequency (JStr (formatRemoteComFrequency (ks_freq st)))"
    "absent_or (isCoordinate (-90) 90) (fld p ''lat'')" "absent_or (isCoordinate (-180) 180) (fld p ''lon'')"
    using assms(1) finite_field_get by (simp_all add: station_sound_def empty_or_def f)
  have w: "absent_or (\<lambda>v. v = JStr [] \<or> isShortishText 256 v) (fld p ''voice'')"
    using assms(1) by (simp add: f v_def absent_or_def station_sound_def isShortishText_def str_test_def)
  have n: "normalizeStationSnapshot (JObj p) \<noteq> None"
    using u c w assms(2)
    by (simp add: normalizeStationSnapshot_def isPlainObject_def f(1,2) holds_def opt_truthy_def absent_or_def [of _ "Some x" for x])
  show ?thesis using n by (auto simp: station_item_def pl split: option.splits)
qed

lemma stations_ok:
  assumes "view_ok U V"
  shows "is_ok (validatePayload U STATIONS_STATE (stations_payload (lv_app V)))"
proof -
  let ?a = "lv_app V"
  define l where "l = filter (\<lambda>st. ks_callsign st \<noteq> [] \<and> \<not> ends_with (ks_callsign st) (js ''_OBS'')) (map snd (as_stations ?a))"
  define o1 where "o1 = (case as_position ?a of Some (Fin lat, Fin lon) \<Rightarrow>
     [(js ''ownPosition'', JObj [(js ''lat'', JNum (Fin lat)), (js ''lon'', JNum (Fin lon))])] | _ \<Rightarrow> [])"
  have p: "stations_payload ?a = [(js ''stations'', JArr (map station_payload l))] @ o1"
    by (simp add: stations_payload_def l_def o1_def)
  have fo: "length (as_stations ?a) \<le> 250" "list_all (station_sound \<circ> snd) (as_stations ?a)"
    "case as_position ?a of Some (Fin lat, Fin lon) \<Rightarrow> -90 \<le> lat \<and> lat \<le> 90 \<and> -180 \<le> lon \<and> lon \<le> 180 | _ \<Rightarrow> True"
    using assms by (simp_all add: view_ok_def flight_ok_def)
  have len: "length l \<le> 250" using fo(1) length_filter_le [of _ "map snd (as_stations ?a)"] by (simp add: l_def filter_map) (meson le_trans length_filter_le)
  have "list_all (\<lambda>x. is_ok (station_item x)) (map station_payload l)"
    using fo(2) station_item_ok by (auto simp: l_def list_all_iff)
  then obtain ss where ss: "collect station_item (map station_payload l) = Inr ss"
    using collect_ok [of station_item "map station_payload l"]
    by (cases "collect station_item (map station_payload l)") simp_all
  have u: "unexpected [js ''stations'', js ''ownPosition''] (stations_payload ?a) = None"
    by (auto simp: unexpected_None p o1_def split: option.splits jnum.splits)
  have own: "fld (stations_payload ?a) ''ownPosition'' = None \<or> (\<exists>v. fld (stations_payload ?a) ''ownPosition'' = Some v \<and> isOwnPosition v)"
    using fo(3) by (auto simp: p o1_def isOwnPosition_def isCoordinate_def num_test_def is_finite_def split: option.splits jnum.splits)
  have st: "fld (stations_payload ?a) ''stations'' = Some (JArr (map station_payload l))" by (simp add: p)
  have "is_ok (validateStationsState (stations_payload ?a))"
    using own len by (auto simp: validateStationsState_def u st ss)
  then show ?thesis by (simp add: validatePayload_def empty_types_def)
qed

lemma icao_ok: "empty_or isIcao s \<Longrightarrow> icao_or_empty (Some (JStr s)) \<noteq> None"
  by (auto simp: icao_or_empty_def empty_or_def or_else_def)

lemma entry_ok:
  "entry_sound e \<Longrightarrow> normalizeWeatherEntry (Some (weather_entry e)) = weather_entry e"
  by (auto simp: entry_sound_def weather_entry_def normalizeWeatherEntry_def holds_def val_def absent_or_def or_else_def
      isShortishText_def str_test_def js_eq_Nil split: option.splits)
    (simp add: js_def)

lemma weather_entry_truthy: "truthy (weather_entry e) \<longleftrightarrow> e \<noteq> None"
  by (auto simp: weather_entry_def split: option.splits)

lemma slot_ok: "slot_sound w \<Longrightarrow> normalizeWeatherSlot (weather_slot_json w) \<noteq> None"
  using icao_ok [of "ws_icao w"]
  by (auto simp: slot_sound_def normalizeWeatherSlot_def weather_slot_json_def isPlainObject_def entry_ok opt_truthy_def
      weather_entry_truthy Let_def split: option.splits)

lemma weather_ok:
  assumes "view_ok U V"
  shows "is_ok (validatePayload U WEATHER_STATE
    [(js ''flightPlanStatus'', JStr (plan_text (as_plan_status (lv_app V)))),
     (js ''flightPlan'', JObj [(js ''departure'', JStr (fp_departure (as_plan (lv_app V)))),
        (js ''destination'', JStr (fp_destination (as_plan (lv_app V)))), (js ''alternate'', JStr (fp_alternate (as_plan (lv_app V))))]),
     (js ''weatherState'', JObj [(js ''departure'', weather_slot_json (as_departure (lv_app V))),
        (js ''destination'', weather_slot_json (as_destination (lv_app V)))])])"
proof -
  let ?a = "lv_app V"
  have s: "normalizeWeatherSlot (weather_slot_json (as_departure ?a)) \<noteq> None"
    "normalizeWeatherSlot (weather_slot_json (as_destination ?a)) \<noteq> None"
    using assms by (simp_all add: view_ok_def flight_ok_def slot_ok)
  have i: "icao_or_empty (Some (JStr (fp_departure (as_plan ?a)))) \<noteq> None"
    "icao_or_empty (Some (JStr (fp_destination (as_plan ?a)))) \<noteq> None"
    "icao_or_empty (Some (JStr (fp_alternate (as_plan ?a)))) \<noteq> None"
    using assms by (simp_all add: view_ok_def flight_ok_def icao_ok)
  have t: "truthy (weather_slot_json w)" for w by (simp add: weather_slot_json_def)
  have p: "isFlightPlanStatus (JStr (plan_text x))" for x
    by (cases x) (simp_all add: isFlightPlanStatus_def plan_text_def)
  show ?thesis
    using s i t p by (auto simp: validatePayload_def empty_types_def validateWeatherState_def holds_def or_else_def
        normalizeFlightPlanSnapshot_def normalizeWeatherSnapshot_def isPlainObject_def)
qed

subsection \<open>Handlers\<close>

definition speaks :: "url_parser \<Rightarrow> remote_handler \<Rightarrow> bool" where
  "speaks U h \<longleftrightarrow> (\<forall>s m. Sent m \<in> set (snd (h s)) \<longrightarrow> accepted U m)"

named_theorems speaks_intros \<open>handlers whose messages are accepted\<close>

lemma speaks_andThen [speaks_intros]: "speaks U f \<Longrightarrow> speaks U g \<Longrightarrow> speaks U (andThen f g)"
  by (auto simp: speaks_def andThen_def case_prod_beta Let_def)

lemma speaks_each [speaks_intros]: "(\<And>x. x \<in> set xs \<Longrightarrow> speaks U (f x)) \<Longrightarrow> speaks U (each f xs)"
proof (induction xs)
  case (Cons x xs)
  have "each f (x # xs) = andThen (f x) (each f xs)" by (rule ext) simp
  then show ?case using Cons by (simp add: speaks_andThen)
qed (simp add: speaks_def)

lemma speaks_if [speaks_intros]: "(b \<Longrightarrow> speaks U f) \<Longrightarrow> (\<not> b \<Longrightarrow> speaks U g) \<Longrightarrow> speaks U (if b then f else g)"
  by simp

lemma speaks_quiet [speaks_intros]: "speaks U RemoteAgent.quiet"
  by (simp add: speaks_def)

lemma speaks_refresh [speaks_intros]: "speaks U scheduleWatchdogRefresh"
  by (simp add: speaks_def scheduleWatchdogRefresh_def)

lemma speaks_send:
  assumes "is_ok (validatePayload U t p)" "AGENT \<in> set (source_rules t)" "isId (JStr (lv_gen V))" "i = [] \<or> isId (JStr i)"
  shows "speaks U (send_remote V t p i)"
  using assms by (auto simp: speaks_def createRemoteMessage_def intro!: accepted_wire)

lemma view_gen: "view_ok U V \<Longrightarrow> isId (JStr (lv_gen V))"
  by (simp add: view_ok_def)

lemma speaks_status [speaks_intros]: "options_ok R \<Longrightarrow> view_ok U V \<Longrightarrow> speaks U (RemoteAgent.sendStatus R V)"
  unfolding RemoteAgent.sendStatus_def by (rule speaks_send [OF status_ok]) (simp_all add: view_gen)

lemma speaks_radio [speaks_intros]: "view_ok U V \<Longrightarrow> speaks U (sendRadioState V)"
  by (cases "formatRemoteComFrequency (as_com (lv_app V) 1) = [] \<or> formatRemoteComFrequency (as_com (lv_app V) 2) = []")
    (auto simp: sendRadioState_def Let_def speaks_quiet radio_ok [unfolded One_nat_def] view_gen intro!: speaks_send simp del: remote_evals)

lemma speaks_stations [speaks_intros]: "view_ok U V \<Longrightarrow> speaks U (sendStationsState V)"
  unfolding sendStationsState_def by (rule speaks_send [OF stations_ok]) (simp_all add: view_gen)

lemma speaks_weather [speaks_intros]: "view_ok U V \<Longrightarrow> speaks U (sendWeatherState V)"
  unfolding sendWeatherState_def Let_def by (rule speaks_send [OF weather_ok]) (simp_all add: view_gen)

lemma speaks_notification [speaks_intros]: "view_ok U V \<Longrightarrow> speaks U (sendNotificationState V)"
  unfolding sendNotificationState_def by (rule speaks_send [OF notification_ok]) (simp_all add: view_gen)

lemma speaks_timer [speaks_intros]: "view_ok U V \<Longrightarrow> speaks U (sendUnicomTimerState V (timer_data (lv_unicom V)))"
  unfolding sendUnicomTimerState_def by (rule speaks_send [OF timer_ok]) (simp_all add: view_gen)

lemma speaks_sync [speaks_intros]:
  assumes "view_ok U V"
  shows "speaks U (syncAgentWatchdog c V)"
proof -
  have b: "isTokenLike (JStr (batch_id V))" and t: "list_all (\<lambda>t. is_ok (case ticket_json t of
      JObj p \<Rightarrow> requireShape p (ticket_schema U) [] | _ \<Rightarrow> Inl [])) (lv_tickets V)"
    and s: "lv_session V = [] \<or> isTokenLike (JStr (lv_session V))"
    using assms by (simp_all add: view_ok_def watchdog_ok_def empty_or_def)
  note g = view_gen [OF assms]
  have d: "speaks U (send_disarm V)" if "lv_session V \<noteq> []"
    unfolding send_disarm_def using s that by (intro speaks_send commit_ok g) simp_all
  have k: "speaks U (send_ticket V x)" if "lv_session V \<noteq> []" "x \<in> set (lv_tickets V)" for x
    unfolding send_ticket_def using s t that by (intro speaks_send ticket_ok b g) (simp_all add: list_all_iff)
  have m: "speaks U (send_commit V)" if "lv_session V \<noteq> []"
    unfolding send_commit_def using s that by (intro speaks_send commit_ok b g) simp_all
  have "speaks U (if \<not> lv_armed V \<or> lv_session V = [] then (if lv_session V \<noteq> [] then send_disarm V else RemoteAgent.quiet)
      else if lv_tickets V = [] then andThen (send_disarm V) scheduleWatchdogRefresh
      else andThen (if c then send_disarm V else RemoteAgent.quiet)
        (andThen (each (send_ticket V) (lv_tickets V)) (andThen (send_commit V) scheduleWatchdogRefresh)))"
    using d k m by (intro speaks_intros) simp_all
  then show ?thesis
    by (fastforce simp: speaks_def syncAgentWatchdog_def Let_def simp del: remote_evals(3))
qed

lemma own_ids: "isId (JStr (js ''agent-hello''))" "isId (JStr (js ''pairing-begin''))"
  by (simp_all add: isId_def str_test_def rx_match_Reps token_char_def alnum_def char_classes js_def)

lemma speaks_greeting: "options_ok R \<Longrightarrow> view_ok U V \<Longrightarrow> speaks U (greeting R V)"
  unfolding greeting_def
  by (intro speaks_intros speaks_send hello_ok) (simp_all add: view_gen own_ids)

text \<open>The updates that carry the state, unlike chat messages and the timer's own events.\<close>

definition state_update :: "payload \<Rightarrow> bool" where
  "state_update d \<longleftrightarrow> \<not> data_kind d ''message'' \<and> \<not> data_kind d ''unicom_timer_state'' \<and> \<not> data_kind d ''unicom_timer_expired''"

lemma speaks_publish:
  assumes "options_ok R" "view_ok U V" "state_update d"
  shows "speaks U (publishFromLocal R V d)"
proof -
  have "speaks U (andThen (RemoteAgent.sendStatus R V) (sendWeatherState V))" using assms(1,2) by (intro speaks_intros)
  then show ?thesis
    using assms(3) speaks_status [OF assms(1,2)] speaks_radio [OF assms(2)] speaks_stations [OF assms(2)]
    by (auto simp: speaks_def publishFromLocal_def state_update_def split: if_splits simp del: remote_evals(3))
qed

text \<open>
  C21: The relay understands the agent. With a configuration and a state of the flight that satisfy the contract
  \<open>view_ok\<close>, every message the agent sends when it connects (the announcement, the pairing request, the
  status, the radios, the stations, the weather, the notifications, the timer and the tickets), when the state
  changes and when it synchronises the watchdog passes the relay's validator as a message of an agent.
\<close>
theorem agent_speaks_protocol:
  assumes "options_ok (re_options E)" and "view_ok U V"
    and "e \<in> {Opened n, Status, RefreshTimer, SyncWatchdog clear} \<or> (e = Published_local d \<and> state_update d)"
    and "Sent m \<in> set (snd (remote_step E (V, e) s))"
  shows "accepted U m"
proof -
  have *: "speaks U h \<Longrightarrow> Sent m \<in> set (snd (h s')) \<Longrightarrow> accepted U m" for h s' by (simp add: speaks_def)
  consider "e = Opened n" | "e = Status" | "e = RefreshTimer" | "e = SyncWatchdog clear" | "e = Published_local d" "state_update d"
    using assms(3) by blast
  then show ?thesis
  proof cases
    case 1
    then show ?thesis using * [OF speaks_greeting [OF assms(1,2)]] assms(4) by (simp add: on_open_def)
  next
    case 2
    then show ?thesis using * [OF speaks_status [OF assms(1,2)]] assms(4) by simp
  next
    case 3
    then show ?thesis using * [OF speaks_sync [OF assms(2)]] assms(4) by (simp split: if_splits)
  next
    case 4
    then show ?thesis using * [OF speaks_sync [OF assms(2)]] assms(4) by simp
  next
    case 5
    then show ?thesis using * [OF speaks_publish [OF assms(1,2)]] assms(4) by simp
  qed
qed

lemma trial_contract: "options_ok trial_options" "view_ok U (trial_view 0)"
proof -
  show "options_ok trial_options"
    unfolding options_ok_def trial_options_def by code_simp
  have e: "formatRemoteComFrequency [] = []" by (simp add: formatRemoteComFrequency_def trim_Nil)
  have "isId (JStr (js ''m-1''))" "isPushKey (JStr (js ''AAAAAAAA''))" "isStationName (JStr [])" by code_simp+
  moreover have "isTokenLike (JStr (batch_id (trial_view 0)))"
    unfolding batch_id_def trial_view_def by code_simp
  moreover have "flight_ok createAppState"
    using \<open>isStationName (JStr [])\<close>
    by (simp add: flight_ok_def createAppState_def empty_or_def e slot_sound_def entry_sound_def createWeatherSlot_def
        no_plan_def)
      (simp add: normalizeIcao_def opt_text_def trim_Nil upper_Nil Let_def)
  ultimately show "view_ok U (trial_view 0)"
    by (simp add: view_ok_def trial_view_def watchdog_ok_def empty_or_def createUnicomTimer_def)
qed

theorem agent_speaks_protocol_witness:
  "list_all (\<lambda>x. case x of Sent m \<Rightarrow> accepted (\<lambda>x. None) m | _ \<Rightarrow> True)
     (snd (remote_step (trial_relay (\<lambda>x. trial_message PING [])) (trial_view 0, Opened 0) trial_online))
   \<and> length (filter (\<lambda>x. case x of Sent m \<Rightarrow> True | _ \<Rightarrow> False)
     (snd (remote_step (trial_relay (\<lambda>x. trial_message PING [])) (trial_view 0, Opened 0) trial_online))) = 7"
proof -
  let ?E = "trial_relay (\<lambda>x. trial_message PING [])"
  have "options_ok (re_options ?E)" using trial_contract(1) by (simp add: trial_relay_def)
  then have "accepted (\<lambda>x. None) m" if "Sent m \<in> set (snd (remote_step ?E (trial_view 0, Opened 0) trial_online))" for m
    using agent_speaks_protocol [OF _ trial_contract(2) _ that, where n = 0] by simp
  then have a: "list_all (\<lambda>x. case x of Sent m \<Rightarrow> accepted (\<lambda>x. None) m | _ \<Rightarrow> True)
      (snd (remote_step ?E (trial_view 0, Opened 0) trial_online))"
    by (auto simp: list_all_iff split: remote_out.splits)
  have e: "formatRemoteComFrequency [] = []" by (simp add: formatRemoteComFrequency_def trim_Nil)
  have "length (filter (\<lambda>x. case x of Sent m \<Rightarrow> True | _ \<Rightarrow> False) (snd (remote_step ?E (trial_view 0, Opened 0) trial_online))) = 7"
    by (simp add: on_open_def greeting_def andThen_def RemoteAgent.sendStatus_def sendRadioState_def sendStationsState_def
        sendWeatherState_def sendNotificationState_def sendUnicomTimerState_def syncAgentWatchdog_def trial_online_def
        init_remote_def trial_view_def createAppState_def e Let_def)
  with a show ?thesis ..
qed

end
