(* ===== verification/RemoteCommands.thy ===== *)
theory RemoteCommands
  imports RemoteProps AgentProps
begin

section \<open>The commands of the relay, carried out (remote-agent.js with proxy.js)\<close>

text \<open>
  proxy.js gives the connection to the relay the commands of the agent: \<open>perform\<close> carries out one call
  on the agent, \<open>carry\<close> those of a handler, in order. The calls of the transmitter and the events for
  the webapps go to other parts (Ts2Router has the transmitter) and leave the agent alone. A field is
  converted the way its receiver reads it.
\<close>

definition given_text :: "json option \<Rightarrow> jstr" where
  "given_text v = str_or_empty v"

definition com_number :: "json option \<Rightarrow> nat" where
  "com_number v = (case v of Some (JNum (Fin q)) \<Rightarrow> nat \<lfloor>q\<rfloor> | _ \<Rightarrow> 0)"

definition perform :: "agent_env \<Rightarrow> moment \<Rightarrow> remote_call \<Rightarrow> agent_handler" where
  "perform A t c =
     (case c of
        CallCom com freq station \<Rightarrow>
          (\<lambda>s. command (Agent.setCom (com_number com) (case freq of Some v \<Rightarrow> v | None \<Rightarrow> JStr []) (to_str station) s))
      | CallChat p \<Rightarrow> agent_fsd A t (Chat \<lparr>cc_callsign = fld p ''callsign'', cc_recipient = fld p ''recipient'', cc_text = fld p ''text''\<rparr>)
      | CallSubscribe p \<Rightarrow> agent_step A (t, PushIn (Subscribe (JObj p)))
      | CallUnsubscribe e \<Rightarrow> agent_step A (t, PushIn (Unsubscribe e))
      | CallTimerStart \<Rightarrow> agent_unicom A t StartTimer
      | CallTimerCancel \<Rightarrow> agent_unicom A t CancelTimer
      | CallWeather kind icao src role \<Rightarrow>
          agent_fsd A t (Weather (if kind = Some (JStr (js ''taf'')) then TAF else METAR) (given_text icao)
            (normalizeWeatherRequestSource src)
            (if role = Some (JStr (js ''destination'')) then Some Destination
             else if role = Some (JStr (js ''departure'')) then Some Departure else None))
      | CallAtis callsign \<Rightarrow> agent_fsd A t (Atis (given_text callsign))
      | CallSquawk code \<Rightarrow> (\<lambda>s. command (Agent.setSquawk t (given_text code) s))
      | CallXpdr mode \<Rightarrow> (\<lambda>s. command (Agent.toggleXpdr t (given_text mode) s))
      | CallIdent \<Rightarrow> (\<lambda>s. command (Agent.sendIdent s))
      | CallWatchdogFired sid \<Rightarrow> agent_step A (t, WatchdogFired (given_text sid))
      | _ \<Rightarrow> (\<lambda>s. (s, [])))"

definition carry :: "agent_env \<Rightarrow> moment \<Rightarrow> remote_out list \<Rightarrow> agent_handler" where
  "carry A t outs = each (perform A t) (List.map_filter (\<lambda>x. case x of Called c \<Rightarrow> Some c | _ \<Rightarrow> None) outs)"

subsection \<open>Tuning a radio\<close>

lemma bridge_only:
  assumes "ToCore i pkt \<in> set (snd (PilotBridge.setCom com v b))"
  shows "(if br_protocol b = MessagePack then makeV114FreqPacket com v else makeFreqPacket com v) = Inr pkt"
  using assms by (auto simp: PilotBridge.setCom_def sendToCore_def split: sum.splits option.splits if_splits)

lemma valid_normalized:
  assumes "digits5 a b c d e" "118000 \<le> freq_khz a b c d e" "freq_khz a b c d e \<le> 136975"
  shows "normalizePilotComFrequency (JStr (freq_text a b c d e)) = freq_text a b c d e"
proof -
  have "isFrequency (JStr (freq_text a b c d e))" unfolding isFrequency_iff using assms by blast
  then have r: "rx_match freq_rx (freq_text a b c d e)" "jle (Fin 118) (to_number (freq_text a b c d e))"
    "jle (to_number (freq_text a b c d e)) (fl (136975 / 1000))"
    by (simp_all add: isFrequency_def str_test_def Let_def)
  obtain w where w: "to_number (freq_text a b c d e) = Fin w"
    using fl_khz freq_khz_bounds [OF assms(1)] freq_text_number [OF assms(1)] by force
  obtain m where m: "fl (136975 / 1000) = Fin m" using fl_khz [of 136975] by auto
  show ?thesis using r w m by (simp add: normalizePilotComFrequency_def format_freq [OF assms(1)] Let_def)
qed

lemma tuned_message:
  assumes "parseRemoteJson parse U None raw = Inr m" "m_type m = RADIO_SET"
  obtains a b c d e com where "com = (1::nat) \<or> com = 2" "fld (m_payload m) ''com'' = Some (JNum (Fin (of_nat com)))"
    "digits5 a b c d e" "fld (m_payload m) ''freq'' = Some (JStr (freq_text a b c d e))"
    "118000 \<le> freq_khz a b c d e" "freq_khz a b c d e \<le> 136975"
proof -
  obtain v where v: "validateRemoteMessage U None v = Inr m"
    using assms(1) by (auto simp: parseRemoteJson_def split: if_splits option.splits)
  obtain p where "validatePayload U RADIO_SET p = Inr (m_payload m)"
    using validated_payload [OF v] assms(2) by auto
  then have r: "requireShape p (sch [(''com'', isCom), (''freq'', isFrequency)]) (sch [(''station'', isStationName)])
      = Inr (m_payload m)"
    by (simp add: validatePayload_def empty_types_def)
  obtain x y where x: "fld (m_payload m) ''com'' = Some x" "isCom x"
    and y: "fld (m_payload m) ''freq'' = Some y" "isFrequency y"
    using requireShape_required [OF r] by (auto simp: sch_def)
  obtain s where s: "y = JStr s" using y(2) by (auto simp: isFrequency_def str_test_def split: json.splits)
  obtain a b c d e where f: "digits5 a b c d e" "s = freq_text a b c d e" "118000 \<le> freq_khz a b c d e" "freq_khz a b c d e \<le> 136975"
    using y(2) unfolding s isFrequency_iff by blast
  show ?thesis
  proof (cases "x = JNum (Fin 1)")
    case True
    then show ?thesis using that [of 1 a b c d e] x y f s by simp
  next
    case False
    then show ?thesis using that [of 2 a b c d e] x y f s by (simp add: isCom_def)
  qed
qed

text \<open>
  C18: The relay's radio command, end to end. A text of the relay that the agent reads as a radio command
  names COM1 or COM2 and a frequency \<open>f\<close> between 118.000 and 136.975 MHz; its kHz \<open>k\<close> are the number that
  the digits of \<open>f\<close> write. When the limit lets the command pass and the agent carries out what its
  connection calls, every packet that goes to PilotCore is the one that sets this radio to \<open>k\<close> kHz, in
  the encoding of the protocol in use; and when the bridge reports that it was sent, there is such a
  packet and the state of the agent shows \<open>f\<close> for this radio.
\<close>
theorem relay_tunes_radio:
  assumes "parseRemoteJson (re_parse E) (re_url E) None raw = Inr m" and "m_type m = RADIO_SET"
    and "remote_step E (V, RelayText n raw) r = (r', outs)" and "outs \<noteq> []"
    and "carry A t outs s = (s', aouts)"
  shows "\<exists>com f k. (com = 1 \<or> com = 2) \<and> fld (m_payload m) ''com'' = Some (JNum (Fin (of_nat com)))
    \<and> fld (m_payload m) ''freq'' = Some (JStr f) \<and> k = dec_value (filter is_digit f) \<and> 118000 \<le> k \<and> k \<le> 136975
    \<and> (\<forall>i pkt. BridgeOut (ToCore i pkt) \<in> set aouts \<longrightarrow>
         (if br_protocol (ag_bridge s) = MessagePack
          then makeMessagePackFrame 6144 (JArr [JNum (Fin (of_nat com)), JNum (Fin (of_nat k))]) = Inr pkt
          else pkt = [7, 0, 0, 0, 32, 32, com] @ write_le 3 k @ [0]))
    \<and> (BridgeOut (Replied True) \<in> set aouts \<longrightarrow>
         (\<exists>i pkt. BridgeOut (ToCore i pkt) \<in> set aouts) \<and> as_com (app_of s') com = f)"
proof -
  obtain a b c d e com where m: "com = 1 \<or> com = 2" "fld (m_payload m) ''com'' = Some (JNum (Fin (of_nat com)))"
    "digits5 a b c d e" "fld (m_payload m) ''freq'' = Some (JStr (freq_text a b c d e))"
    "118000 \<le> freq_khz a b c d e" "freq_khz a b c d e \<le> 136975"
    using tuned_message [OF assms(1,2)] by metis
  let ?f = "freq_text a b c d e" and ?k = "freq_khz a b c d e"
  obtain st where o: "outs = [Called (CallCom (fld (m_payload m) ''com'') (fld (m_payload m) ''freq'') st)]"
    using assms(3,4) by (auto simp: handleRelayMessage_def assms(1,2) handle_relay_message_def handleRemoteCommand_def
        run_command_def Let_def split: prod.splits if_splits)
  obtain ok where sc: "Agent.setCom com (JStr ?f) (to_str st) s = (s', aouts, ok)"
  proof -
    have "com_number (Some (JNum (Fin (of_nat com)))) = com" by (simp add: com_number_def)
    then have "carry A t outs s = command (Agent.setCom com (JStr ?f) (to_str st) s)"
      by (simp add: carry_def o List.map_filter_def andThen_def perform_def m case_prod_beta Let_def)
    then show ?thesis using that assms(5) by (cases "Agent.setCom com (JStr ?f) (to_str st) s") (auto simp: command_def)
  qed
  have v: "normalizePilotComFrequency (JStr ?f) = ?f" using m by (intro valid_normalized)
  have khz: "to_khz (to_number ?f) = Fin (of_nat ?k)"
    using freq_khz_bounds [OF m(3)] freq_text_number [OF m(3)] by (simp add: to_khz_exact)
  have rad: "com mod 256 = com" "radio_of com = com" using m(1) by (auto simp: radio_of_def)
  have only: "if br_protocol (ag_bridge s) = MessagePack
      then makeMessagePackFrame 6144 (JArr [JNum (Fin (of_nat com)), JNum (Fin (of_nat ?k))]) = Inr pkt
      else pkt = [7, 0, 0, 0, 32, 32, com] @ write_le 3 ?k @ [0]" if "BridgeOut (ToCore i pkt) \<in> set aouts" for i pkt
  proof -
    have "ToCore i pkt \<in> set (snd (PilotBridge.setCom com ?f (ag_bridge s)))"
      using that sc v by (auto simp: Agent.setCom_def app_op_def case_prod_beta Let_def freq_text_ne split: if_splits)
    from bridge_only [OF this] show ?thesis
      using freq_packet [OF m(3), of com] rad khz by (auto simp: makeV114FreqPacket_def split: if_splits)
  qed
  have shown: "(\<exists>i pkt. BridgeOut (ToCore i pkt) \<in> set aouts) \<and> as_com (app_of s') com = ?f"
    if r: "BridgeOut (Replied True) \<in> set aouts"
  proof -
    have "ok" using r sc v by (auto simp: Agent.setCom_def replied_def app_op_def case_prod_beta Let_def freq_text_ne split: if_splits)
    then have "app_of s' = fst (updateComFrequency com (JStr ?f) (to_str st) (app_of s))"
      "Replied True \<in> set (snd (PilotBridge.setCom com ?f (ag_bridge s)))"
      "set (snd (PilotBridge.setCom com ?f (ag_bridge s))) \<subseteq> {b. BridgeOut b \<in> set aouts}"
      using set_com_shape [OF sc] v by (auto simp: Let_def)
    then show ?thesis using bridge_sent [of com ?f "ag_bridge s"] com_shown [OF m(3,1)] by auto
  qed
  show ?thesis
    by (rule exI [of _ com], rule exI [of _ ?f], rule exI [of _ ?k])
      (use m freq_khz_digits [OF m(3), symmetric] only shown in \<open>blast\<close>)
qed

definition trial_radio :: payload where
  "trial_radio = [(js ''com'', JNum (Fin 2)), (js ''freq'', JStr (js ''122.800''))]"

lemma trial_radio_read:
  "parseRemoteJson (re_parse (trial_relay (\<lambda>x. trial_message RADIO_SET trial_radio)))
     (re_url (trial_relay (\<lambda>x. trial_message RADIO_SET trial_radio))) None [] = Inr (trial_message RADIO_SET trial_radio)"
proof -
  have "js ''122.800'' = freq_text 2 2 8 0 0" by (simp add: freq_text_def js_def)
  then have "isFrequency (JStr (js ''122.800''))"
    unfolding isFrequency_iff by (force simp: digits5_def freq_khz_def)
  then show ?thesis
    by (intro trial_read) (simp_all add: validatePayload_def empty_types_def requireShape_def sch_def trial_radio_def isCom_def
        MAX_JSON_MESSAGE_BYTES_def)
qed

abbreviation trial_tuner :: remote_env where
  "trial_tuner \<equiv> trial_relay (\<lambda>x. trial_message RADIO_SET trial_radio)"

lemma trial_tuned:
  "snd (remote_step trial_tuner (trial_view 0, RelayText 0 []) trial_online)
     = [Called (CallCom (Some (JNum (Fin 2))) (Some (JStr (js ''122.800''))) (JStr []))]"
  by (simp add: handleRelayMessage_def trial_radio_read handle_relay_message_def handleRemoteCommand_def run_command_def Let_def
      allowCommand_def makeCommandRateLimits_def window_of_def trial_online_def init_remote_def)
    (simp add: trial_radio_def or_else_def)

theorem relay_tunes_radio_witness:
  "as_com (app_of (fst (carry AgentProps.demo_env \<lparr>at_now = 5, at_uuid = []\<rparr>
      (snd (remote_step trial_tuner (trial_view 0, RelayText 0 []) trial_online)) demo_linked))) 2 = js ''122.800''"
proof -
  let ?t = "\<lparr>at_now = 5, at_uuid = []\<rparr> :: moment"
  obtain r' outs where r: "remote_step trial_tuner (trial_view 0, RelayText 0 []) trial_online = (r', outs)" by force
  obtain s' aouts where c: "carry AgentProps.demo_env ?t outs demo_linked = (s', aouts)" by force
  have o: "outs = [Called (CallCom (Some (JNum (Fin 2))) (Some (JStr (js ''122.800''))) (JStr []))]"
    using trial_tuned unfolding r by (simp only: snd_conv)
  then have "carry AgentProps.demo_env ?t outs demo_linked = command (Agent.setCom 2 (JStr (js ''122.800'')) [] demo_linked)"
    by (simp add: carry_def List.map_filter_def andThen_def perform_def com_number_def)
  moreover obtain u os where "Agent.setCom 2 (JStr (js ''122.800'')) [] demo_linked = (u, os, True)"
    using demo_set_com by (cases "Agent.setCom 2 (JStr (js ''122.800'')) [] demo_linked") auto
  ultimately have "BridgeOut (Replied True) \<in> set aouts"
    using c set_com_shape [of 2 "JStr (js ''122.800'')" "[]" demo_linked] by (auto simp: command_def Let_def)
  then show ?thesis
    using relay_tunes_radio [OF trial_radio_read _ r _ c] o c r by (auto simp: trial_radio_def)
qed

end
