(* ===== verification/Weather.thy ===== *)
theory Weather
  imports FsdProxy
begin

section \<open>Reading weather reports for the page (webapp/weather.js)\<close>

text \<open>
  The page shows a METAR or a TAF as rows of a label, a value and a hint. The reader takes the text
  apart at white space, reads the groups one by one and lists what it does not know as it is. A
  regular expression with groups is a function that returns the groups: the expressions are anchored
  and every prefix that they can take is determined by its characters, so there is one way to match.
  The arrays \<open>rows\<close> and \<open>unparsed\<close> that the readers append to are a \<open>weather_report\<close>.
\<close>

record weather_row =
  wr_label :: jstr
  wr_value :: jstr
  wr_hint :: jstr

record weather_report =
  wp_rows :: "weather_row list"
  wp_unparsed :: "jstr list"

definition METAR_CLOUDS :: "(jstr \<times> jstr) list" where
  "METAR_CLOUDS =
     [(js ''FEW'', js ''few clouds''), (js ''SCT'', js ''scattered clouds''),
      (js ''BKN'', js ''broken cloud layer''), (js ''OVC'', js ''overcast''),
      (js ''NSC'', js ''no significant cloud''), (js ''NCD'', js ''no cloud detected''),
      (js ''VV'', js ''vertical visibility'')]"

definition METAR_WEATHER :: "(jstr \<times> jstr) list" where
  "METAR_WEATHER =
     [(js ''MI'', js ''shallow''), (js ''PR'', js ''partial''), (js ''BC'', js ''patches''),
      (js ''DR'', js ''low drifting''), (js ''BL'', js ''blowing''), (js ''SH'', js ''showers''),
      (js ''TS'', js ''thunderstorm''), (js ''FZ'', js ''freezing''), (js ''DZ'', js ''drizzle''),
      (js ''RA'', js ''rain''), (js ''SN'', js ''snow''), (js ''SG'', js ''snow grains''),
      (js ''IC'', js ''ice crystals''), (js ''PL'', js ''ice pellets''), (js ''GR'', js ''hail''),
      (js ''GS'', js ''small hail or snow pellets''), (js ''UP'', js ''unknown precipitation''),
      (js ''BR'', js ''mist''), (js ''FG'', js ''fog''), (js ''FU'', js ''smoke''),
      (js ''VA'', js ''volcanic ash''), (js ''DU'', js ''widespread dust''), (js ''SA'', js ''sand''),
      (js ''HZ'', js ''haze''), (js ''PY'', js ''spray''), (js ''PO'', js ''dust or sand whirls''),
      (js ''SQ'', js ''squalls''), (js ''FC'', js ''funnel cloud, tornado, or waterspout''),
      (js ''SS'', js ''sandstorm''), (js ''DS'', js ''duststorm'')]"

subsection \<open>Groups\<close>

text \<open>\<open>cut i n t\<close> is \<open>t.slice(i, i + n)\<close>; \<open>digits_n n t\<close> is \<open>/^\d{n}$/\<close>.\<close>

definition cut :: "nat \<Rightarrow> nat \<Rightarrow> jstr \<Rightarrow> jstr" where
  "cut i n t = take n (drop i t)"

definition digits_n :: "nat \<Rightarrow> jstr \<Rightarrow> bool" where
  "digits_n n t = (length t = n \<and> list_all is_digit t)"

definition signedTemperature :: "jstr \<Rightarrow> jstr" where
  "signedTemperature token = (if starts_with token (js ''M'') then 45 # drop 1 token else token)"

definition fraction_rx :: rx where
  "fraction_rx = seqs [plus (Chr is_digit), lit ''/'', Chr (\<lambda>c. is_digit c \<and> c \<noteq> 48), many is_digit]"

definition whole_miles :: "jstr \<Rightarrow> bool" where
  "whole_miles t = rx_match (Seq (opt (Chr (one_of ''MP''))) (Reps is_digit 1 2)) t"

definition fraction_miles :: "jstr \<Rightarrow> bool" where
  "fraction_miles t = (ends_with t (js ''SM'') \<and> rx_match fraction_rx (take (length t - 2) t))"

fun merge_miles :: "jstr list \<Rightarrow> jstr list" where
  "merge_miles (a # b # ts) =
     (if whole_miles a \<and> fraction_miles b then (a @ [32] @ b) # merge_miles ts
      else a # merge_miles (b # ts))"
| "merge_miles ts = ts"

definition drop_equals :: "jstr \<Rightarrow> jstr" where
  "drop_equals t = (if t \<noteq> [] \<and> last t = 61 then butlast t else t)"

definition weatherTokens :: "jstr \<Rightarrow> jstr list" where
  "weatherTokens raw = merge_miles (ws_tokens (upper (trim (drop_equals (trim raw)))))"

text \<open>\<open>Math.round(speed * 3600 / 1852)\<close>.\<close>

definition knots :: "jnum \<Rightarrow> jnum" where
  "knots speed = (case speed of
       Fin q \<Rightarrow> (case fl (q * 3600) of
           Fin a \<Rightarrow> (case fl (a / 1852) of Fin b \<Rightarrow> Fin (of_int (math_round b)) | x \<Rightarrow> x)
         | x \<Rightarrow> x)
     | x \<Rightarrow> x)"

definition windSpeed :: "jstr \<Rightarrow> jstr \<Rightarrow> jstr" where
  "windSpeed value unit =
     (let speed = to_number value in
      if unit = js ''MPS''
      then num_to_string speed @ js '' m/s (~'' @ num_to_string (knots speed) @ js '' kt)''
      else num_to_string speed @ js '' kt'')"

definition cloudHeight :: "jstr \<Rightarrow> jstr" where
  "cloudHeight token =
     (if token = [] \<or> token = js ''///'' then js ''height unknown''
      else num_to_string (case to_number token of Fin q \<Rightarrow> fl (q * 100) | x \<Rightarrow> x) @ js '' ft'')"

fun weather_codes :: "jstr \<Rightarrow> jstr list option" where
  "weather_codes [] = Some []"
| "weather_codes [c] = None"
| "weather_codes (a # b # rest) =
     (case map_of METAR_WEATHER [a, b] of
        None \<Rightarrow> None
      | Some w \<Rightarrow> (case weather_codes rest of None \<Rightarrow> None | Some ws \<Rightarrow> Some (w # ws)))"

definition decodeMetarWeather :: "jstr \<Rightarrow> jstr" where
  "decodeMetarWeather token =
     (let (strength, rest) =
            (if starts_with token (js ''-'') then ([js ''light''], drop 1 token)
             else if starts_with token (js ''+'') then ([js ''heavy''], drop 1 token)
             else ([], token));
          (place, rest') =
            (if starts_with rest (js ''VC'') then ([js ''in the vicinity''], drop 2 rest) else ([], rest))
      in case weather_codes rest' of None \<Rightarrow> [] | Some ws \<Rightarrow> join [32] (strength @ place @ ws))"

definition validityPeriod :: "jstr \<Rightarrow> jstr" where
  "validityPeriod token =
     (if digits_n 4 (take 4 token) \<and> cut 4 1 token = js ''/'' \<and> digits_n 4 (drop 5 token)
      then js ''Day '' @ cut 0 2 token @ [32] @ cut 2 2 token @ js '':00Z to day '' @ cut 5 2 token
        @ [32] @ cut 7 2 token @ js '':00Z''
      else [])"

definition fromTime :: "jstr \<Rightarrow> jstr" where
  "fromTime token =
     (if take 2 token = js ''FM'' \<and> digits_n 6 (drop 2 token)
      then js ''From day '' @ cut 2 2 token @ js '' at '' @ cut 4 2 token @ js '':'' @ cut 6 2 token @ js ''Z''
      else [])"

text \<open>\<open>/^(\d{2})(\d{2})(\d{2})Z$/\<close>: the day, hour and minute.\<close>

definition day_time :: "jstr \<Rightarrow> (jstr \<times> jstr \<times> jstr) option" where
  "day_time token =
     (if digits_n 6 (take 6 token) \<and> drop 6 token = js ''Z''
      then Some (cut 0 2 token, cut 2 2 token, cut 4 2 token) else None)"

definition is_station :: "jstr \<Rightarrow> bool" where
  "is_station t = (length t = 4 \<and> list_all is_upper t)"

text \<open>\<open>/^(VRB|\d{3})(\d{2,3})(?:G(\d{2,3}))?(KT|MPS)$/\<close>.\<close>

definition two_or_three :: "jstr \<Rightarrow> bool" where
  "two_or_three t = (length t = 2 \<or> length t = 3)"

definition wind_groups :: "jstr \<Rightarrow> (jstr \<times> jstr \<times> jstr option \<times> jstr) option" where
  "wind_groups token =
     (let direction = take 3 token;
          (speed, r) = span is_digit (drop 3 token);
          (gust, unit) = (if starts_with r (js ''G'')
             then (Some (takeWhile is_digit (drop 1 r)), dropWhile is_digit (drop 1 r)) else (None, r))
      in if (direction = js ''VRB'' \<or> digits_n 3 direction) \<and> two_or_three speed
            \<and> (case gust of None \<Rightarrow> True | Some g \<Rightarrow> two_or_three g)
            \<and> (unit = js ''KT'' \<or> unit = js ''MPS'')
         then Some (direction, speed, gust, unit) else None)"

text \<open>\<open>/^([MP]?)(\d+(?: \d+\/[1-9]\d*|\/[1-9]\d*)?)SM$/\<close>.\<close>

definition miles_rx :: rx where
  "miles_rx = Seq (plus (Chr is_digit))
     (opt (Alt (seqs [lit '' '', fraction_rx])
               (seqs [lit ''/'', Chr (\<lambda>c. is_digit c \<and> c \<noteq> 48), many is_digit])))"

definition miles_groups :: "jstr \<Rightarrow> (jstr \<times> jstr) option" where
  "miles_groups token =
     (let sign = (if token \<noteq> [] \<and> one_of ''MP'' (hd token) then take 1 token else []);
          rest = drop (length sign) token; distance = take (length rest - 2) rest
      in if ends_with rest (js ''SM'') \<and> rx_match miles_rx distance then Some (sign, distance) else None)"

text \<open>\<open>/^(FEW|SCT|BKN|OVC|NSC|NCD|VV)(\d{3}|\/\/\/)?(CB|TCU)?$/\<close>; a group that is absent is empty.\<close>

definition cloud_groups :: "jstr \<Rightarrow> (jstr \<times> jstr \<times> jstr) option" where
  "cloud_groups token =
     (let amount = (if starts_with token (js ''VV'') then js ''VV'' else take 3 token);
          r = drop (length amount) token;
          height = (if digits_n 3 (take 3 r) \<or> take 3 r = js ''///'' then take 3 r else []);
          kind = drop (length height) r
      in if map_of METAR_CLOUDS amount \<noteq> None \<and> (kind = [] \<or> kind = js ''CB'' \<or> kind = js ''TCU'')
         then Some (amount, height, kind) else None)"

text \<open>\<open>/^(M?\d{2})\/(M?\d{2})$/\<close>.\<close>

definition temperature :: "jstr \<Rightarrow> bool" where
  "temperature t = (digits_n 2 t \<or> starts_with t (js ''M'') \<and> digits_n 2 (drop 1 t))"

definition temperature_groups :: "jstr \<Rightarrow> (jstr \<times> jstr) option" where
  "temperature_groups token = (case split_on 47 token of
       [a, b] \<Rightarrow> if temperature a \<and> temperature b then Some (a, b) else None
     | _ \<Rightarrow> None)"

subsection \<open>Rows of a group\<close>

definition row :: "jstr \<Rightarrow> jstr \<Rightarrow> string \<Rightarrow> weather_row" where
  "row label value hint = \<lparr>wr_label = trim label, wr_value = value, wr_hint = js hint\<rparr>"

definition text_row :: "string \<Rightarrow> jstr \<Rightarrow> string \<Rightarrow> weather_row" where
  "text_row label value hint = \<lparr>wr_label = js label, wr_value = value, wr_hint = js hint\<rparr>"

definition unavailable_row :: "jstr \<Rightarrow> jstr \<Rightarrow> weather_row option" where
  "unavailable_row context token =
     (if token = js ''////'' then Some (row (context @ js ''Visibility'') (js ''Not available'')
          ''The visibility field contains solidi because no usable value was reported.'')
      else if token = js ''//////'' then Some (row (context @ js ''Cloud'') (js ''Not available'')
          ''The cloud field contains solidi because no usable cloud amount or base was reported.'')
      else None)"

definition cavok_row :: "jstr \<Rightarrow> jstr \<Rightarrow> weather_row option" where
  "cavok_row context token =
     (if token = js ''CAVOK'' then Some (row (context @ js ''Visibility/cloud'') (js ''Ceiling and visibility OK'')
          ''CAVOK means visibility 10 km or more, no significant weather, and no relevant low cloud.'')
      else None)"

definition wind_text :: "jstr \<Rightarrow> jstr \<Rightarrow> jstr option \<Rightarrow> jstr \<Rightarrow> jstr" where
  "wind_text dir speed gust unit =
     (let direction = (if dir = js ''VRB'' then js ''variable'' else num_to_string (to_number dir) @ js '' degrees'');
          gusting = (case gust of Some g \<Rightarrow> js '', gusting '' @ windSpeed g unit | None \<Rightarrow> []);
          calm = (dir = js ''000'' \<and> to_number speed = Fin 0 \<and> gust = None)
      in (if calm then js ''Calm, '' else direction @ js '' at '') @ windSpeed speed unit @ gusting)"

definition wind_row :: "jstr \<Rightarrow> jstr \<Rightarrow> weather_row option" where
  "wind_row context token = (case wind_groups token of
       Some (dir, speed, gust, unit) \<Rightarrow> Some (row (context @ js ''Wind'') (wind_text dir speed gust unit)
          ''Direction is where the wind blows from, in degrees true. MPS means metres per second; the knot equivalent is approximate.'')
     | None \<Rightarrow> None)"

definition variation_row :: "jstr \<Rightarrow> jstr \<Rightarrow> weather_row option" where
  "variation_row context token =
     (if digits_n 3 (take 3 token) \<and> cut 3 1 token = js ''V'' \<and> digits_n 3 (drop 4 token)
      then Some (row (context @ js ''Wind variation'')
          (num_to_string (to_number (take 3 token)) @ js '' to '' @ num_to_string (to_number (drop 4 token)) @ js '' degrees'')
          ''Variable direction range reported when wind direction changes significantly.'')
      else None)"

definition visibility_row :: "jstr \<Rightarrow> jstr \<Rightarrow> weather_row option" where
  "visibility_row context token =
     (if digits_n 4 token then Some (row (context @ js ''Visibility'')
          (if token = js ''9999'' then js ''10 km or more'' else if token = js ''0000'' then js ''Less than 50 m''
           else num_to_string (to_number token) @ js '' m'')
          ''Prevailing visibility in metres. 0000 means less than 50 m; 9999 means 10 km or more.'')
      else None)"

definition miles_row :: "jstr \<Rightarrow> jstr \<Rightarrow> weather_row option" where
  "miles_row context token = (case miles_groups token of
       Some (sign, distance) \<Rightarrow> Some (row (context @ js ''Visibility'')
          ((if sign = js ''M'' then js ''Less than '' else if sign = js ''P'' then js ''More than '' else [])
           @ distance @ js '' statute miles'')
          ''Visibility in statute miles, common in US-style METARs.'')
     | None \<Rightarrow> None)"

definition phenomenon_row :: "jstr \<Rightarrow> jstr \<Rightarrow> weather_row option" where
  "phenomenon_row context token =
     (let weather = decodeMetarWeather token in
      if weather \<noteq> [] then Some (row (context @ js ''Weather '' @ token) weather
          ''Weather group: intensity/proximity, descriptor, and phenomenon.'')
      else None)"

definition cloud_text :: "jstr \<Rightarrow> jstr \<Rightarrow> jstr \<Rightarrow> jstr" where
  "cloud_text amount height kind =
     (case map_of METAR_CLOUDS amount of Some w \<Rightarrow> w | None \<Rightarrow> amount)
     @ (if height \<noteq> [] then js '' at '' @ cloudHeight height else [])
     @ (if kind = js ''CB'' then js '', cumulonimbus'' else if kind = js ''TCU'' then js '', towering cumulus'' else [])"

definition cloud_row :: "jstr \<Rightarrow> jstr \<Rightarrow> weather_row option" where
  "cloud_row context token = (case cloud_groups token of
       Some (amount, height, kind) \<Rightarrow> Some (row (context @ js ''Cloud '' @ token) (cloud_text amount height kind)
          ''Cloud cover amount and base height. Heights are hundreds of feet above aerodrome elevation.'')
     | None \<Rightarrow> None)"

definition temperature_row :: "jstr \<Rightarrow> jstr \<Rightarrow> weather_row option" where
  "temperature_row context token = (case temperature_groups token of
       Some (air, dew) \<Rightarrow> Some (row (context @ js ''Temperature'')
          (signedTemperature air @ js '' C, dewpoint '' @ signedTemperature dew @ js '' C'')
          ''Temperature and dewpoint in Celsius. M means below zero.'')
     | None \<Rightarrow> None)"

definition qnh_row :: "jstr \<Rightarrow> jstr \<Rightarrow> weather_row option" where
  "qnh_row context token =
     (if take 1 token = js ''Q'' \<and> digits_n 4 (drop 1 token)
      then Some (row (context @ js ''QNH'') (num_to_string (to_number (drop 1 token)) @ js '' hPa'')
          ''Altimeter setting in hectopascals.'')
      else None)"

definition altimeter_row :: "jstr \<Rightarrow> jstr \<Rightarrow> weather_row option" where
  "altimeter_row context token =
     (if take 1 token = js ''A'' \<and> digits_n 4 (drop 1 token)
      then Some (row (context @ js ''Altimeter'') (cut 1 2 token @ js ''.'' @ drop 3 token @ js '' inHg'')
          ''Altimeter setting in inches of mercury.'')
      else None)"

definition no_weather_row :: "jstr \<Rightarrow> jstr \<Rightarrow> weather_row option" where
  "no_weather_row context token =
     (if token = js ''NSW'' then Some (row (context @ js ''Weather'') (js ''No significant weather'')
          ''NSW is used in forecasts when significant weather is expected to end.'')
      else None)"

text \<open>The readers in the order in which they are tried.\<close>

fun first_row :: "(jstr \<Rightarrow> jstr \<Rightarrow> weather_row option) list \<Rightarrow> jstr \<Rightarrow> jstr \<Rightarrow> weather_row option" where
  "first_row [] context token = None"
| "first_row (f # fs) context token =
     (case f context token of Some r \<Rightarrow> Some r | None \<Rightarrow> first_row fs context token)"

definition condition_row :: "jstr \<Rightarrow> jstr \<Rightarrow> weather_row option" where
  "condition_row = first_row [unavailable_row, cavok_row, wind_row, variation_row, visibility_row, miles_row,
     phenomenon_row, cloud_row, temperature_row, qnh_row, altimeter_row, no_weather_row]"

definition silent_group :: "jstr \<Rightarrow> bool" where
  "silent_group token = (token = [] \<or> token = js ''AUTO'' \<or> token = js ''COR'')"

definition add_row :: "weather_row \<Rightarrow> weather_report \<Rightarrow> weather_report" where
  "add_row x r = r\<lparr>wp_rows := wp_rows r @ [x]\<rparr>"

text \<open>The returned truth value is read by nobody.\<close>

definition appendConditionTokenRows :: "jstr \<Rightarrow> jstr \<Rightarrow> weather_report \<Rightarrow> weather_report" where
  "appendConditionTokenRows token context r =
     (if silent_group token then r
      else (case condition_row context token of
          Some x \<Rightarrow> add_row x r
        | None \<Rightarrow> r\<lparr>wp_unparsed := wp_unparsed r @ [context @ token]\<rparr>))"

text \<open>\<open>/^CLD FROM CEILOMETER RWY (\d{2}[LCR]?) NCD$/\<close>.\<close>

definition ceilometer :: "jstr \<Rightarrow> jstr option" where
  "ceilometer original =
     (let head = js ''CLD FROM CEILOMETER RWY ''; tail = js '' NCD'';
          runway = take (length original - length head - length tail) (drop (length head) original)
      in if original = head @ runway @ tail
            \<and> (digits_n 2 runway \<or> digits_n 2 (take 2 runway) \<and> length runway = 3 \<and> one_of ''LCR'' (runway ! 2))
         then Some runway else None)"

definition appendRemarks :: "jstr list \<Rightarrow> jstr \<Rightarrow> weather_report \<Rightarrow> weather_report" where
  "appendRemarks tokens context r =
     (let original = trim (join [32] tokens) in
      if original = [] then r
      else add_row (case ceilometer original of
          Some runway \<Rightarrow> \<lparr>wr_label = trim (context @ js ''Remarks''),
              wr_value = js ''Runway '' @ runway @ js '' ceilometer: no cloud detected'',
              wr_hint = js ''Decoded from the original remark: '' @ original\<rparr>
        | None \<Rightarrow> row (context @ js ''Remarks'') original
            ''Supplementary station remarks are preserved in their original form.'') r)"

subsection \<open>METAR\<close>

definition trend_marker :: "jstr \<Rightarrow> bool" where
  "trend_marker token = (token = js ''TEMPO'' \<or> token = js ''BECMG''
     \<or> take 4 token = js ''PROB'' \<and> digits_n 2 (drop 4 token))"

definition nosig_row :: "jstr \<Rightarrow> weather_row" where
  "nosig_row label = \<lparr>wr_label = label, wr_value = js ''No significant change expected'',
     wr_hint = js ''NOSIG means no significant weather change is forecast in the trend period.''\<rparr>"

definition trend_row :: "jstr \<Rightarrow> weather_row" where
  "trend_row token = text_row ''Trend'' token
     ''Forecast trend group. TEMPO means temporary, BECMG means becoming, PROB gives probability.''"

fun metar_loop :: "jstr list \<Rightarrow> weather_report \<Rightarrow> weather_report" where
  "metar_loop [] r = r"
| "metar_loop (t # ts) r =
     (let token = upper t in
      if silent_group token then metar_loop ts r
      else if token = js ''RMK'' then appendRemarks (map upper ts) [] r
      else if token = js ''NOSIG'' then metar_loop ts (add_row (nosig_row (js ''Trend'')) r)
      else if trend_marker token then metar_loop ts (add_row (trend_row token) r)
      else metar_loop ts (appendConditionTokenRows token [] r))"

definition add_unparsed :: "string \<Rightarrow> weather_report \<Rightarrow> weather_row list" where
  "add_unparsed hint r =
     (if wp_unparsed r \<noteq> [] then wp_rows r @ [text_row ''Not interpreted'' (join [32] (wp_unparsed r)) hint]
      else wp_rows r)"

definition METAR_UNPARSED :: string where
  "METAR_UNPARSED =
     ''These METAR groups were left unchanged because the visual parser does not recognize them yet.''"

definition head_token :: "jstr list \<Rightarrow> jstr" where
  "head_token ts = (case ts of t # r \<Rightarrow> t | [] \<Rightarrow> [])"

definition metar_head_rows :: "jstr \<Rightarrow> bool \<Rightarrow> jstr \<Rightarrow> jstr \<times> jstr \<times> jstr \<Rightarrow> weather_row list" where
  "metar_head_rows type corrected station = (\<lambda>(day, hour, minute).
     [text_row ''Report'' (type @ (if corrected then js '' COR'' else []) @ js '' for '' @ station)
        ''METAR is a routine aviation weather observation. SPECI is a special observation. COR means corrected.'',
      text_row ''Observed'' (js ''Day '' @ day @ js '' at '' @ hour @ js '':'' @ minute @ js ''Z'')
        ''The timestamp is UTC: day of month, hour, and minute.''])"

definition interpretMetar :: "jstr \<Rightarrow> weather_row list option" where
  "interpretMetar raw =
     (let tokens = weatherTokens raw; named = head_is [''METAR'', ''SPECI''] tokens;
          type = (if named then upper (head_token tokens) else js ''METAR'');
          ts1 = (if named then tl tokens else tokens);
          corrected = (head_token ts1 = js ''COR'');
          ts2 = (if corrected then tl ts1 else ts1);
          station = head_token ts2;
          ts3 = tl ts2
      in if \<not> is_station station then None
         else (case day_time (head_token ts3) of
             None \<Rightarrow> None
           | Some time \<Rightarrow> Some (add_unparsed METAR_UNPARSED
               (metar_loop (tl ts3) \<lparr>wp_rows = metar_head_rows type corrected station time, wp_unparsed = []\<rparr>))))"

subsection \<open>TAF\<close>

definition change_row :: "jstr \<Rightarrow> jstr \<Rightarrow> jstr \<Rightarrow> weather_row" where
  "change_row token section period =
     \<lparr>wr_label = section, wr_value = (if period \<noteq> [] then period else js ''period not decoded''),
      wr_hint = (if token = js ''TEMPO'' then js ''TEMPO marks temporary conditions during the given period.''
        else js ''BECMG marks a gradual change during the given period.'')\<rparr>"

definition probability_row :: "jstr \<Rightarrow> jstr \<Rightarrow> weather_row" where
  "probability_row section period =
     \<lparr>wr_label = section, wr_value = (if period \<noteq> [] then period else js ''period not decoded''),
      wr_hint = js ''PROB gives the probability of the following forecast conditions.''\<rparr>"

definition from_row :: "jstr \<Rightarrow> weather_row" where
  "from_row fm = text_row ''From'' fm ''FM starts a new set of conditions from this exact UTC time.''"

function taf_loop :: "jstr list \<Rightarrow> jstr \<Rightarrow> weather_report \<Rightarrow> weather_report" where
  "taf_loop [] section r = r"
| "taf_loop (t # ts) section r =
     (let token = upper t; fm = fromTime token in
      if token = js ''RMK'' then appendRemarks (map upper ts) (section @ [32]) r
      else if fm \<noteq> [] then taf_loop ts fm (add_row (from_row fm) r)
      else if token = js ''TEMPO'' \<or> token = js ''BECMG'' then
        (let period = validityPeriod (head_token ts);
             section' = (if token = js ''TEMPO'' then js ''Temporary'' else js ''Becoming'')
         in taf_loop (if period \<noteq> [] then tl ts else ts) section' (add_row (change_row token section' period) r))
      else if take 4 token = js ''PROB'' \<and> digits_n 2 (drop 4 token) then
        (let temporary = (upper (head_token ts) = js ''TEMPO'');
             period = (if temporary then validityPeriod (head_token (tl ts)) else validityPeriod (head_token ts));
             section' = js ''Probability '' @ drop 4 token @ (if temporary then js ''% temporary'' else js ''%'')
         in taf_loop (if period = [] then ts else if temporary then tl (tl ts) else tl ts) section'
              (add_row (probability_row section' period) r))
      else if token = js ''NOSIG'' then taf_loop ts section (add_row (nosig_row (section @ js '' trend'')) r)
      else taf_loop ts section (appendConditionTokenRows token (section @ [32]) r))"
  by pat_completeness auto
termination by (relation "measure (\<lambda>(ts, _). length ts)") (auto split: if_splits)

declare taf_loop.simps(2) [simp del]

definition TAF_UNPARSED :: string where
  "TAF_UNPARSED =
     ''These TAF groups were left unchanged because the visual parser does not recognize them yet.''"

definition BASE_FORECAST :: jstr where
  "BASE_FORECAST = js ''Base forecast''"

definition taf_head_rows :: "jstr option \<Rightarrow> jstr \<Rightarrow> jstr \<times> jstr \<times> jstr \<Rightarrow> jstr \<Rightarrow> weather_row list" where
  "taf_head_rows amended station = (\<lambda>(day, hour, minute) validity.
     (case amended of
        Some t \<Rightarrow> [text_row ''Report'' (js ''TAF '' @ t) ''AMD means amended forecast. COR means corrected forecast.'',
            text_row ''Station'' station ''ICAO airport identifier for this TAF.'']
      | None \<Rightarrow> [text_row ''Report'' (js ''TAF for '' @ station) ''TAF is an aerodrome forecast.''])
     @ [text_row ''Issued'' (js ''Day '' @ day @ js '' at '' @ hour @ js '':'' @ minute @ js ''Z'')
          ''The issue timestamp is UTC: day of month, hour, and minute.'',
        text_row ''Valid'' validity ''TAF validity period in UTC.'',
        text_row ''Base forecast'' (js ''Initial forecast conditions'')
          ''Base conditions valid unless changed by later forecast groups.''])"

definition interpretTaf :: "jstr \<Rightarrow> weather_row list option" where
  "interpretTaf raw =
     (let tokens = weatherTokens raw;
          ts1 = (if upper (head_token tokens) = js ''TAF'' then tl tokens else tokens);
          amended = (if head_is [''AMD'', ''COR''] ts1 then Some (upper (head_token ts1)) else None);
          ts2 = (if amended \<noteq> None then tl ts1 else ts1);
          station = head_token ts2;
          ts3 = tl ts2;
          validity = validityPeriod (head_token (tl ts3))
      in if \<not> is_station station then None
         else (case day_time (head_token ts3) of
             None \<Rightarrow> None
           | Some time \<Rightarrow>
               if validity = [] then None
               else Some (add_unparsed TAF_UNPARSED (taf_loop (tl (tl ts3)) BASE_FORECAST
                 \<lparr>wp_rows = taf_head_rows amended station time validity, wp_unparsed = []\<rparr>))))"

end
