(* ===== verification/WeatherFacts.thy ===== *)
theory WeatherFacts
  imports Weather JNumbers Versions
begin

section \<open>Facts about the groups of weather reports\<close>

text \<open>
  The groups that reports are made of, as data, with the words they are written with and what the
  page shall show. The lemmas say that the readers of \<open>Weather\<close> find for the words of a group what
  the group means, whatever other readers are tried before.
\<close>

subsection \<open>Numbers of a fixed width\<close>

definition dec :: "nat \<Rightarrow> nat \<Rightarrow> jstr" where
  "dec k n = pad_start k 48 (nat_digits n)"

definition num :: "nat \<Rightarrow> jstr" where
  "num n = num_to_string (Fin (of_nat n))"

lemma length_nat_digits: "n < 10 ^ k \<Longrightarrow> 0 < k \<Longrightarrow> length (nat_digits n) \<le> k"
proof (induction n arbitrary: k rule: nat_digits.induct)
  case (1 n)
  show ?case
  proof (cases "n < 10")
    case True
    then show ?thesis using 1 by (subst nat_digits.simps) simp
  next
    case False
    then obtain j where k: "k = Suc j" "0 < j" using 1 by (cases k; cases "k - 1") auto
    then have "n div 10 < 10 ^ j" using 1(2) by (simp add: less_mult_imp_div_less mult.commute)
    with 1(1) [OF False, of j] k False show ?thesis by (subst nat_digits.simps) simp
  qed
qed

lemma dec_digits:
  assumes "n < 10 ^ k" "0 < k"
  shows "digits_n k (dec k n)" and "dec_value (dec k n) = n"
proof -
  show "digits_n k (dec k n)"
    using length_nat_digits [OF assms] nat_digits_digit
    by (auto simp: dec_def digits_n_def pad_start_def list_all_iff is_digit_def)
  show "dec_value (dec k n) = n" by (simp add: dec_def pad_start_def dec_value_zeros)
qed

lemma digit_carry: "10 * x + c = 10 * y + d \<Longrightarrow> c < 10 \<Longrightarrow> d < 10 \<Longrightarrow> x = y \<and> c = (d :: nat)"
  by arith

lemma dec_value_inj:
  "dec_value s = dec_value t \<Longrightarrow> length s = length t \<Longrightarrow> list_all is_digit s \<Longrightarrow> list_all is_digit t \<Longrightarrow> s = t"
proof (induction s arbitrary: t rule: rev_induct)
  case (snoc c s)
  then obtain d t' where t: "t = t' @ [d]" by (cases t rule: rev_cases) auto
  with snoc.prems have cd: "is_digit c" "is_digit d" by simp_all
  then have b: "c - 48 < 10" "d - 48 < 10" by (auto simp: is_digit_def)
  have "10 * dec_value s + (c - 48) = 10 * dec_value t' + (d - 48)"
    using snoc.prems(1) by (simp add: t dec_value_snoc)
  then have "dec_value s = dec_value t'" "c - 48 = d - 48" using digit_carry [OF _ b] by blast+
  then show ?case using snoc t cd by (auto simp: is_digit_def)
qed simp

lemma fl_of_nat: "n < 2 ^ 53 \<Longrightarrow> fl (of_nat n) = Fin (of_nat n)"
proof (cases "n = 0")
  case False
  assume "n < 2 ^ 53"
  then have "int n < 2 ^ 53" by simp
  with False show ?thesis using fl_of_small_int [of "int n"] by simp
qed (simp add: fl_def)

lemma number_dec:
  assumes "n < 10 ^ k" "0 < k" "k \<le> 4"
  shows "to_number (dec k n) = Fin (of_nat n)"
proof -
  have d: "dec k n \<noteq> []" "list_all is_digit (dec k n)"
    using dec_digits(1) [OF assms(1,2)] assms(2) by (auto simp: digits_n_def)
  have "(10 :: nat) ^ k \<le> 10 ^ 4" using assms(3) by (rule power_increasing) simp
  then have "n < 2 ^ 53" using assms(1) by (simp add: less_le_trans)
  then show ?thesis
    using to_number_digits [OF d] dec_digits(2) [OF assms(1,2)] by (simp add: fl_of_nat)
qed

lemma digits_2: "digits_n 2 t \<longleftrightarrow> (\<exists>a b. t = [a, b] \<and> is_digit a \<and> is_digit b)"
  by (auto simp: digits_n_def numeral_2_eq_2 length_Suc_conv)

lemma digits_3: "digits_n 3 t \<longleftrightarrow> (\<exists>a b c. t = [a, b, c] \<and> is_digit a \<and> is_digit b \<and> is_digit c)"
  by (auto simp: digits_n_def numeral_3_eq_3 length_Suc_conv)

lemma digits_4:
  "digits_n 4 t \<longleftrightarrow> (\<exists>a b c d. t = [a, b, c, d] \<and> is_digit a \<and> is_digit b \<and> is_digit c \<and> is_digit d)"
  by (auto simp: digits_n_def eval_nat_numeral length_Suc_conv)

lemma dec2: "n < 100 \<Longrightarrow> \<exists>a b. dec 2 n = [a, b] \<and> is_digit a \<and> is_digit b"
  and dec3: "n < 1000 \<Longrightarrow> \<exists>a b c. dec 3 n = [a, b, c] \<and> is_digit a \<and> is_digit b \<and> is_digit c"
  and dec4: "n < 10000 \<Longrightarrow> \<exists>a b c d. dec 4 n = [a, b, c, d] \<and> is_digit a \<and> is_digit b \<and> is_digit c \<and> is_digit d"
  using dec_digits(1) [of n 2] dec_digits(1) [of n 3] dec_digits(1) [of n 4]
  by (simp_all add: digits_2 digits_3 digits_4)

text \<open>The knots are the nearest integer of the exact quotient: the rounding of the division is harmless.\<close>

definition knots_of :: "nat \<Rightarrow> nat" where
  "knots_of n = nat \<lfloor>of_nat n * 3600 / 1852 + (1 / 2 :: rat)\<rfloor>"

lemma half_floor: "\<lfloor>1 / 2 :: rat\<rfloor> = 0"
  by (rule floor_unique) simp_all

lemma knots_exact:
  assumes "n < 1000"
  shows "knots (Fin (of_nat n)) = Fin (of_nat (knots_of n))"
proof (cases "n = 0")
  case False
  let ?q = "of_nat n * 3600 / 1852 :: rat"
  have a: "fl (of_nat n * 3600) = Fin (of_nat n * 3600)"
    using fl_of_nat [of "n * 3600"] assms by simp
  have n1: "1 \<le> (of_nat n :: rat)" "(of_nat n :: rat) < 1000" using False assms by simp_all
  then have q: "1 \<le> ?q" "?q < 2000" by (simp_all add: field_simps)
  moreover have "(2000 :: rat) < 2 ^ 1000" by simp
  ultimately obtain v where v: "fl ?q = Fin v" "\<bar>v - ?q\<bar> \<le> ?q / 2 ^ 53"
    using fl_error [of ?q] by force
  then have err: "\<bar>v - ?q\<bar> \<le> 1 / 1000000" using q by (simp add: abs_le_iff)
  define k where "k = \<lfloor>?q + 1 / 2\<rfloor>"
  have k: "of_int k \<le> ?q + 1 / 2" "?q + 1 / 2 < of_int k + 1" unfolding k_def by linarith+
  have "926 * k \<le> 1800 * int n + 463"
  proof -
    have "926 * (of_int k :: rat) \<le> of_nat n * 1800 + 463" using k(1) by (simp add: field_simps)
    then have "(of_int (926 * k) :: rat) \<le> of_int (1800 * int n + 463)" by (simp add: mult.commute)
    then show ?thesis by (simp only: of_int_le_iff)
  qed
  moreover have "1800 * int n + 463 < 926 * k + 926"
  proof -
    have "of_nat n * 1800 + 463 < 926 * (of_int k :: rat) + 926" using k(2) by (simp add: field_simps)
    then have "(of_int (1800 * int n + 463) :: rat) < of_int (926 * k + 926)" by (simp add: mult.commute)
    then show ?thesis by (simp only: of_int_less_iff)
  qed
  moreover have "926 * k \<noteq> 1800 * int n + 463"
  proof
    assume "926 * k = 1800 * int n + 463"
    then have "even (1800 * int n + 463)" by (metis dvd_mult2 even_numeral)
    then show False by simp
  qed
  ultimately have i: "926 * k + 1 \<le> 1800 * int n + 463" "1800 * int n + 464 \<le> 926 * k + 926" by linarith+
  have "(of_int (926 * k + 1) :: rat) \<le> of_int (1800 * int n + 463)" using i(1) by (simp only: of_int_le_iff)
  then have lo: "of_int k + 1 / 926 \<le> ?q + 1 / 2" by (simp add: field_simps)
  have "(of_int (1800 * int n + 464) :: rat) \<le> of_int (926 * k + 926)" using i(2) by (simp only: of_int_le_iff)
  then have hi: "?q + 1 / 2 + 1 / 926 \<le> of_int k + 1" by (simp add: field_simps)
  have "v - ?q \<le> 1 / 1000000" "?q - v \<le> 1 / 1000000" using err by (simp_all only: abs_le_iff minus_diff_eq)
  moreover have "(1 / 1000000 :: rat) < 1 / 926" by simp
  ultimately have "of_int k \<le> v + 1 / 2" "v + 1 / 2 < of_int k + 1" using lo hi by linarith+
  then have "math_round v = k" unfolding math_round_def by (rule floor_eq_int)
  moreover have "0 \<le> k" using k(2) q by linarith
  moreover have "knots_of n = nat k" by (simp add: knots_of_def k_def)
  moreover have "knots (Fin (of_nat n)) = Fin (of_int (math_round v))" by (simp only: knots_def a v jnum.case)
  ultimately show ?thesis by simp
qed (simp add: knots_def fl_def math_round_def knots_of_def half_floor)


subsection \<open>Groups\<close>

datatype bound = Exactly | LessThan | MoreThan

datatype distance = Whole nat | Fraction nat nat | Mixed nat nat nat

text \<open>
  \<open>GWind\<close>: the direction (\<open>None\<close> is variable), speed, gust, and whether the unit is m/s. \<open>GPhenomenon\<close>:
  the intensity (\<open>Some True\<close> is heavy), vicinity and the codes. \<open>GCloud\<close>: the amount, the height in
  hundreds of feet (\<open>Some None\<close> is reported as unknown) and the convective type. Temperatures have a
  sign and a magnitude.
\<close>

datatype wx_group = GWind "nat option" nat "nat option" bool | GVary nat nat | GCavok | GVis nat
  | GMiles bound distance | GPhenomenon "bool option" bool "string list" | GCloud string "nat option option" "string option"
  | GTemp "bool \<times> nat" "bool \<times> nat" | GQnh nat | GAltimeter nat | GNoWeather | GNoVis | GNoCloud

fun distance_text :: "distance \<Rightarrow> jstr" where
  "distance_text (Whole n) = nat_digits n"
| "distance_text (Fraction a b) = nat_digits a @ [47] @ nat_digits b"
| "distance_text (Mixed n a b) = nat_digits n @ [32] @ nat_digits a @ [47] @ nat_digits b"

definition bound_letter :: "bound \<Rightarrow> jstr" where
  "bound_letter b = (case b of Exactly \<Rightarrow> [] | LessThan \<Rightarrow> js ''M'' | MoreThan \<Rightarrow> js ''P'')"

definition signed :: "nat \<Rightarrow> bool \<times> nat \<Rightarrow> jstr" where
  "signed mark = (\<lambda>(negative, n). (if negative then [mark] else []) @ dec 2 n)"

fun group_text :: "wx_group \<Rightarrow> jstr" where
  "group_text (GWind dir speed gust mps) =
     (case dir of None \<Rightarrow> js ''VRB'' | Some d \<Rightarrow> dec 3 d) @ dec 2 speed
     @ (case gust of None \<Rightarrow> [] | Some g \<Rightarrow> js ''G'' @ dec 2 g) @ (if mps then js ''MPS'' else js ''KT'')"
| "group_text (GVary a b) = dec 3 a @ js ''V'' @ dec 3 b"
| "group_text GCavok = js ''CAVOK''"
| "group_text (GVis n) = dec 4 n"
| "group_text (GMiles b d) = bound_letter b @ distance_text d @ js ''SM''"
| "group_text (GPhenomenon strength near codes) =
     (case strength of None \<Rightarrow> [] | Some heavy \<Rightarrow> if heavy then js ''+'' else js ''-'')
     @ (if near then js ''VC'' else []) @ concat (map js codes)"
| "group_text (GCloud amount height kind) =
     js amount @ (case height of None \<Rightarrow> [] | Some h \<Rightarrow> (case h of None \<Rightarrow> js ''///'' | Some n \<Rightarrow> dec 3 n))
     @ (case kind of None \<Rightarrow> [] | Some k \<Rightarrow> js k)"
| "group_text (GTemp air dew) = signed 77 air @ js ''/'' @ signed 77 dew"
| "group_text (GQnh n) = js ''Q'' @ dec 4 n"
| "group_text (GAltimeter n) = js ''A'' @ dec 4 n"
| "group_text GNoWeather = js ''NSW''"
| "group_text GNoVis = js ''////''"
| "group_text GNoCloud = js ''//////''"

fun valid_distance :: "distance \<Rightarrow> bool" where
  "valid_distance (Whole n) = True"
| "valid_distance (Fraction a b) = (0 < b)"
| "valid_distance (Mixed n a b) = (n < 100 \<and> 0 < b)"

definition phenomena :: "(string \<times> string) list" where
  "phenomena =
     [(''MI'', ''shallow''), (''PR'', ''partial''), (''BC'', ''patches''), (''DR'', ''low drifting''),
      (''BL'', ''blowing''), (''SH'', ''showers''), (''TS'', ''thunderstorm''), (''FZ'', ''freezing''),
      (''DZ'', ''drizzle''), (''RA'', ''rain''), (''SN'', ''snow''), (''SG'', ''snow grains''),
      (''IC'', ''ice crystals''), (''PL'', ''ice pellets''), (''GR'', ''hail''),
      (''GS'', ''small hail or snow pellets''), (''UP'', ''unknown precipitation''), (''BR'', ''mist''),
      (''FG'', ''fog''), (''FU'', ''smoke''), (''VA'', ''volcanic ash''), (''DU'', ''widespread dust''),
      (''SA'', ''sand''), (''HZ'', ''haze''), (''PY'', ''spray''), (''PO'', ''dust or sand whirls''),
      (''SQ'', ''squalls''), (''FC'', ''funnel cloud, tornado, or waterspout''), (''SS'', ''sandstorm''),
      (''DS'', ''duststorm'')]"

definition amounts :: "(string \<times> string) list" where
  "amounts =
     [(''FEW'', ''few clouds''), (''SCT'', ''scattered clouds''), (''BKN'', ''broken cloud layer''),
      (''OVC'', ''overcast''), (''NSC'', ''no significant cloud''), (''NCD'', ''no cloud detected''),
      (''VV'', ''vertical visibility'')]"

definition known :: "(string \<times> string) list \<Rightarrow> string \<Rightarrow> bool" where
  "known table k = (map_of table k \<noteq> None)"

definition meaning :: "(string \<times> string) list \<Rightarrow> string \<Rightarrow> jstr" where
  "meaning table k = (case map_of table k of Some m \<Rightarrow> js m | None \<Rightarrow> [])"

fun valid_group :: "wx_group \<Rightarrow> bool" where
  "valid_group (GWind dir speed gust mps) =
     ((case dir of None \<Rightarrow> True | Some d \<Rightarrow> d < 1000) \<and> speed < 100 \<and> (case gust of None \<Rightarrow> True | Some g \<Rightarrow> g < 100))"
| "valid_group (GVary a b) = (a < 1000 \<and> b < 1000)"
| "valid_group (GVis n) = (n < 10000)"
| "valid_group (GMiles b d) = valid_distance d"
| "valid_group (GPhenomenon strength near codes) = (codes \<noteq> [] \<and> list_all (known phenomena) codes)"
| "valid_group (GCloud amount height kind) =
     (known amounts amount \<and> (case height of Some (Some n) \<Rightarrow> n < 1000 | _ \<Rightarrow> True)
      \<and> (case kind of None \<Rightarrow> True | Some k \<Rightarrow> k = ''CB'' \<or> k = ''TCU''))"
| "valid_group (GTemp air dew) = (snd air < 100 \<and> snd dew < 100)"
| "valid_group (GQnh n) = (n < 10000)"
| "valid_group (GAltimeter n) = (n < 10000)"
| "valid_group _ = True"

definition speed_text :: "nat \<Rightarrow> bool \<Rightarrow> jstr" where
  "speed_text n mps =
     (if mps then num n @ js '' m/s (~'' @ num (knots_of n) @ js '' kt)'' else num n @ js '' kt'')"

text \<open>The label and the value of a group.\<close>

fun group_meaning :: "wx_group \<Rightarrow> jstr \<times> jstr" where
  "group_meaning (GWind dir speed gust mps) = (js ''Wind'',
     (if dir = Some 0 \<and> speed = 0 \<and> gust = None then js ''Calm, ''
      else (case dir of None \<Rightarrow> js ''variable'' | Some d \<Rightarrow> num d @ js '' degrees'') @ js '' at '')
     @ speed_text speed mps @ (case gust of None \<Rightarrow> [] | Some g \<Rightarrow> js '', gusting '' @ speed_text g mps))"
| "group_meaning (GVary a b) = (js ''Wind variation'', num a @ js '' to '' @ num b @ js '' degrees'')"
| "group_meaning GCavok = (js ''Visibility/cloud'', js ''Ceiling and visibility OK'')"
| "group_meaning (GVis n) = (js ''Visibility'',
     if n = 9999 then js ''10 km or more'' else if n = 0 then js ''Less than 50 m'' else num n @ js '' m'')"
| "group_meaning (GMiles b d) = (js ''Visibility'',
     (case b of Exactly \<Rightarrow> [] | LessThan \<Rightarrow> js ''Less than '' | MoreThan \<Rightarrow> js ''More than '')
     @ distance_text d @ js '' statute miles'')"
| "group_meaning (GPhenomenon strength near codes) =
     (js ''Weather '' @ group_text (GPhenomenon strength near codes),
      join [32] ((case strength of None \<Rightarrow> [] | Some heavy \<Rightarrow> [if heavy then js ''heavy'' else js ''light''])
        @ (if near then [js ''in the vicinity''] else []) @ map (meaning phenomena) codes))"
| "group_meaning (GCloud amount height kind) =
     (js ''Cloud '' @ group_text (GCloud amount height kind),
      meaning amounts amount
      @ (case height of None \<Rightarrow> [] | Some h \<Rightarrow> js '' at ''
          @ (case h of None \<Rightarrow> js ''height unknown'' | Some n \<Rightarrow> num (100 * n) @ js '' ft''))
      @ (if kind = Some ''CB'' then js '', cumulonimbus'' else if kind = Some ''TCU'' then js '', towering cumulus'' else []))"
| "group_meaning (GTemp air dew) = (js ''Temperature'', signed 45 air @ js '' C, dewpoint '' @ signed 45 dew @ js '' C'')"
| "group_meaning (GQnh n) = (js ''QNH'', num n @ js '' hPa'')"
| "group_meaning (GAltimeter n) = (js ''Altimeter'', dec 2 (n div 100) @ js ''.'' @ dec 2 (n mod 100) @ js '' inHg'')"
| "group_meaning GNoWeather = (js ''Weather'', js ''No significant weather'')"
| "group_meaning GNoVis = (js ''Visibility'', js ''Not available'')"
| "group_meaning GNoCloud = (js ''Cloud'', js ''Not available'')"

definition seen :: "weather_row \<Rightarrow> jstr \<times> jstr" where
  "seen r = (wr_label r, wr_value r)"

text \<open>What the readers shall find for a group: its meaning, with the label in the context.\<close>

definition reads :: "wx_group \<Rightarrow> bool" where
  "reads g = (\<forall>context. map_option seen (condition_row context (group_text g))
     = Some (trim (context @ fst (group_meaning g)), snd (group_meaning g)))"

section \<open>The readers of weather groups find what the groups mean\<close>

text \<open>One lemma per constructor of \<open>wx_group\<close>; \<open>reads_valid\<close> gathers them.\<close>

lemmas readers = condition_row_def unavailable_row_def cavok_row_def wind_row_def variation_row_def
  visibility_row_def miles_row_def phenomenon_row_def cloud_row_def temperature_row_def qnh_row_def
  altimeter_row_def no_weather_row_def

lemmas literal = js_def is_digit_def one_of_def

lemma seen_row [simp]: "seen (row label value hint) = (trim label, value)"
  by (simp add: seen_def row_def)

lemma reads_simple: "reads GCavok" "reads GNoVis" "reads GNoCloud"
  by (simp_all add: reads_def readers)

lemma reads_vis: "n < 10000 \<Longrightarrow> reads (GVis n)"
proof -
  assume n: "n < 10000"
  then obtain a b c d where e: "dec 4 n = [a, b, c, d]" "is_digit a" "is_digit b" "is_digit c" "is_digit d"
    using dec4 by blast
  have t: "to_number [a, b, c, d] = Fin (of_nat n)" "dec_value [a, b, c, d] = n"
    using number_dec [of n 4] dec_digits(2) [of n 4] n e(1) by simp_all
  have w: "wind_groups [a, b, c, d] = None"
    using e(2-) by (simp add: wind_groups_def span_def two_or_three_def)
  have s: "a = 57 \<and> b = 57 \<and> c = 57 \<and> d = 57 \<longleftrightarrow> n = 9999" "a = 48 \<and> b = 48 \<and> c = 48 \<and> d = 48 \<longleftrightarrow> n = 0"
    using t(2) e(2-) by (auto simp: dec_value_def is_digit_def)
  show ?thesis
    using e t(1) w s by (auto simp: reads_def readers digits_n_def cut_def num_def js_def is_digit_def)
qed


subsection \<open>Phenomena are letters\<close>

lemma weather_code_upper: "map_of METAR_WEATHER k = Some w \<Longrightarrow> list_all is_upper k"
proof -
  assume "map_of METAR_WEATHER k = Some w"
  then have "(k, w) \<in> set METAR_WEATHER" by (rule map_of_SomeD)
  then show ?thesis by (auto simp: METAR_WEATHER_def js_def is_upper_def)
qed

lemma weather_codes_upper: "weather_codes t = Some ws \<Longrightarrow> list_all is_upper t"
  by (induction t arbitrary: ws rule: weather_codes.induct)
    (auto split: option.splits dest!: weather_code_upper)

lemma weather_codes_Nil: "weather_codes t = Some ws \<Longrightarrow> ws = [] \<longleftrightarrow> t = []"
  by (cases t rule: weather_codes.cases) (auto split: option.splits)

lemma decode_upper:
  assumes "decodeMetarWeather t \<noteq> []" "c \<in> set t" "c \<noteq> 43" "c \<noteq> 45"
  shows "is_upper c"
proof -
  define r where "r = (if starts_with t (js ''-'') \<or> starts_with t (js ''+'') then drop 1 t else t)"
  define r' where "r' = (if starts_with r (js ''VC'') then drop 2 r else r)"
  have "weather_codes r' \<noteq> None" using assms(1)
    by (auto simp: decodeMetarWeather_def Let_def r_def r'_def split: if_splits prod.splits option.splits)
  then have "list_all is_upper r'" using weather_codes_upper by blast
  then have r: "list_all is_upper r"
    by (auto simp: r'_def starts_with_iff js_def is_upper_def split: if_splits)
  have "c \<in> set r" using assms(2-) by (auto simp: r_def starts_with_iff js_def split: if_splits)
  with r show ?thesis by (simp add: list_all_iff)
qed

lemma no_phenomenon: "c \<in> set t \<Longrightarrow> \<not> is_upper c \<Longrightarrow> c \<noteq> 43 \<Longrightarrow> c \<noteq> 45 \<Longrightarrow> decodeMetarWeather t = []"
  using decode_upper by blast

lemma no_phenomenon_digit: "is_digit c \<Longrightarrow> c \<in> set t \<Longrightarrow> decodeMetarWeather t = []"
  by (rule no_phenomenon) (auto simp: is_digit_def is_upper_def)

subsection \<open>Miles begin with a digit\<close>

lemma miles_rx_digit: "rx_match miles_rx d \<Longrightarrow> d \<noteq> [] \<and> is_digit (hd d)"
  unfolding rx_match_iff miles_rx_def rx_lang.simps rx_lang_plus_Chr
  by (auto simp: hd_append list_all_iff)

text \<open>A token that does not begin with a digit, nor with a bound and a digit, is not a distance.\<close>

lemma no_miles:
  assumes "\<not> (t \<noteq> [] \<and> is_digit (hd t))" "\<not> (tl t \<noteq> [] \<and> one_of ''MP'' (hd t) \<and> is_digit (hd (tl t)))"
  shows "miles_groups t = None"
proof -
  have "\<not> rx_match miles_rx (take n u)" if "\<not> (u \<noteq> [] \<and> is_digit (hd u))" for n u
    using miles_rx_digit [of "take n u"] that by auto
  then show ?thesis using assms
    by (cases t) (auto simp: miles_groups_def Let_def ends_with_def js_def)
qed

lemma no_miles_end: "\<not> ends_with (drop 1 t) (js ''SM'') \<Longrightarrow> \<not> ends_with t (js ''SM'') \<Longrightarrow> miles_groups t = None"
  by (cases t) (auto simp: miles_groups_def Let_def)

lemma reads_vary: "a < 1000 \<Longrightarrow> b < 1000 \<Longrightarrow> reads (GVary a b)"
proof -
  assume ab: "a < 1000" "b < 1000"
  obtain x y z where a: "dec 3 a = [x, y, z]" "is_digit x" "is_digit y" "is_digit z" using dec3 ab(1) by blast
  obtain u v w where b: "dec 3 b = [u, v, w]" "is_digit u" "is_digit v" "is_digit w" using dec3 ab(2) by blast
  have "to_number [x, y, z] = Fin (of_nat a)" "to_number [u, v, w] = Fin (of_nat b)"
    using number_dec [of a 3] number_dec [of b 3] ab a(1) b(1) by simp_all
  moreover have "wind_groups [x, y, z, 86, u, v, w] = None"
    using a(2-) b(2-) by (simp add: wind_groups_def span_def two_or_three_def literal)
  ultimately show ?thesis
    using a b by (auto simp: reads_def readers digits_n_def cut_def num_def literal)
qed


lemma temperature_other:
  assumes "is_digit x" "is_digit y" "c = 47"
  shows "wind_groups (x # y # c # t) = None" "wind_groups (77 # x # y # c # t) = None"
    "cloud_groups (x # y # c # t) = None" "cloud_groups (77 # x # y # c # t) = None"
  using assms by (auto simp: wind_groups_def span_def two_or_three_def digits_n_def literal cloud_groups_def
    METAR_CLOUDS_def)

lemma temperature_readers:
  assumes "is_digit x" "is_digit y" "temperature dew" "signedTemperature dew = e" "47 \<notin> set dew"
    "a = [x, y] \<and> b = [x, y] \<or> a = [77, x, y] \<and> b = [45, x, y]"
  shows "map_option seen (condition_row context (a @ 47 # dew))
     = Some (trim (context @ js ''Temperature''), b @ js '' C, dewpoint '' @ e @ js '' C'')"
proof -
  have p: "decodeMetarWeather (a @ 47 # dew) = []"
    by (rule no_phenomenon_digit [of x]) (use assms in auto)
  have last: "\<exists>u d. dew = u @ [d] \<and> is_digit d" using assms(3)
    by (cases dew rule: rev_cases) (auto simp: temperature_def digits_n_def starts_with_iff js_def Cons_eq_append_conv
      split: if_splits)
  then have m: "miles_groups (a @ 47 # dew) = None"
    by (intro no_miles_end) (use assms(6) in \<open>auto simp: ends_with_def literal\<close>)
  have g: "temperature_groups (a @ 47 # dew) = Some (a, dew)"
    using assms by (auto simp: temperature_groups_def temperature_def split_on_single literal digits_n_def)
  have "\<not> digits_n 4 (a @ 47 # dew)" by (simp add: digits_n_def literal)
  with p m g assms(1,2,4,6) temperature_other [OF assms(1,2)] show ?thesis
    by (auto simp: readers literal digits_n_def cut_def signedTemperature_def)
qed

lemma reads_temp: "snd air < 100 \<Longrightarrow> snd dew < 100 \<Longrightarrow> reads (GTemp air dew)"
proof -
  assume n: "snd air < 100" "snd dew < 100"
  obtain x y where a: "dec 2 (snd air) = [x, y]" "is_digit x" "is_digit y" using dec2 n(1) by blast
  obtain u v where d: "dec 2 (snd dew) = [u, v]" "is_digit u" "is_digit v" using dec2 n(2) by blast
  have "temperature (signed 77 dew)" "signedTemperature (signed 77 dew) = signed 45 dew" "47 \<notin> set (signed 77 dew)"
    using d by (auto simp: signed_def split_beta temperature_def digits_n_def signedTemperature_def literal)
  then show ?thesis
    using temperature_readers [of x y "signed 77 dew" "signed 45 dew" "signed 77 air" "signed 45 air"] a
    by (auto simp: reads_def signed_def split_beta js_def)
qed

lemma reads_qnh: "n < 10000 \<Longrightarrow> reads (GQnh n)"
proof -
  assume n: "n < 10000"
  then obtain a b c d where e: "dec 4 n = [a, b, c, d]" "is_digit a" "is_digit b" "is_digit c" "is_digit d"
    using dec4 by blast
  have t: "to_number [a, b, c, d] = Fin (of_nat n)" using number_dec [of n 4] n e(1) by simp
  have p: "decodeMetarWeather [81, a, b, c, d] = []" by (rule no_phenomenon_digit [OF e(2)]) simp
  have m: "miles_groups [81, a, b, c, d] = None" by (rule no_miles) (simp_all add: literal)
  show ?thesis
    using e t p m by (auto simp: reads_def readers digits_n_def cut_def num_def literal wind_groups_def span_def
      cloud_groups_def METAR_CLOUDS_def temperature_groups_def)
qed

lemma reads_altimeter: "n < 10000 \<Longrightarrow> reads (GAltimeter n)"
proof -
  assume n: "n < 10000"
  then obtain a b c d where e: "dec 4 n = [a, b, c, d]" "is_digit a" "is_digit b" "is_digit c" "is_digit d"
    using dec4 by blast
  have "n div 100 < 100" "n mod 100 < 100" using n by auto
  then obtain a' b' c' d' where f: "dec 2 (n div 100) = [a', b']" "dec 2 (n mod 100) = [c', d']"
      "is_digit a'" "is_digit b'" "is_digit c'" "is_digit d'" using dec2 by meson
  have "dec_value [a, b, c, d] = n" "dec_value [a', b'] = n div 100" "dec_value [c', d'] = n mod 100"
    using dec_digits(2) [of n 4] dec_digits(2) [of "n div 100" 2] dec_digits(2) [of "n mod 100" 2] n e f by simp_all
  then have "dec_value [a, b, c, d] = 100 * dec_value [a', b'] + dec_value [c', d']" by simp
  also have "\<dots> = dec_value [a', b', c', d']" by (simp add: dec_value_def)
  finally have i: "[a, b, c, d] = [a', b', c', d']" by (rule dec_value_inj) (use e f in simp_all)
  have p: "decodeMetarWeather [65, a, b, c, d] = []" by (rule no_phenomenon_digit [OF e(2)]) simp
  have m: "miles_groups [65, a, b, c, d] = None" by (rule no_miles) (simp_all add: literal)
  show ?thesis
    using e f i p m by (auto simp: reads_def readers digits_n_def cut_def num_def literal wind_groups_def span_def
      cloud_groups_def METAR_CLOUDS_def temperature_groups_def)
qed

lemma reads_no_weather: "reads GNoWeather"
proof -
  have "decodeMetarWeather (js ''NSW'') = []" by (simp add: decodeMetarWeather_def METAR_WEATHER_def js_def)
  moreover have "miles_groups (js ''NSW'') = None" by (rule no_miles) (simp_all add: literal)
  ultimately show ?thesis
    by (simp add: reads_def readers digits_n_def cut_def literal wind_groups_def span_def
      cloud_groups_def METAR_CLOUDS_def temperature_groups_def)
qed


subsection \<open>Wind\<close>

lemma wind_digit: "wind_groups t \<noteq> None \<Longrightarrow> \<exists>c \<in> set t. is_digit c"
proof -
  assume "wind_groups t \<noteq> None"
  then have "two_or_three (takeWhile is_digit (drop 3 t))"
    by (auto simp: wind_groups_def Let_def span_def split: if_splits prod.splits)
  then obtain c where "c \<in> set (takeWhile is_digit (drop 3 t))"
    by (cases "takeWhile is_digit (drop 3 t)") (auto simp: two_or_three_def)
  then show ?thesis by (meson in_set_dropD set_takeWhileD)
qed

lemma wind_last: "wind_groups t \<noteq> None \<Longrightarrow> last t = 83 \<or> last t = 84"
proof -
  assume w: "wind_groups t \<noteq> None"
  define r where "r = dropWhile is_digit (drop 3 t)"
  define u where "u = (if starts_with r (js ''G'') then dropWhile is_digit (drop 1 r) else r)"
  have u: "u = js ''KT'' \<or> u = js ''MPS''" using w
    by (auto simp: wind_groups_def Let_def span_def r_def u_def split: if_splits prod.splits)
  have "\<exists>a. r = a @ u" by (metis u_def append_Nil append_take_drop_id takeWhile_dropWhile_id append.assoc)
  moreover have "\<exists>a. t = a @ r" by (metis r_def append.assoc append_take_drop_id takeWhile_dropWhile_id)
  ultimately obtain a where "t = a @ u" by (metis append.assoc)
  then show ?thesis using u by (auto simp: js_def)
qed

lemma wind_groups_parts:
  assumes "d = js ''VRB'' \<or> digits_n 3 d" "digits_n 2 sp" "\<And>x. g = Some x \<Longrightarrow> digits_n 2 x" "unit = js ''KT'' \<or> unit = js ''MPS''"
  shows "wind_groups (d @ sp @ (case g of None \<Rightarrow> [] | Some x \<Rightarrow> js ''G'' @ x) @ unit) = Some (d, sp, g, unit)"
  using assms by (cases g) (auto simp: digits_2 digits_3 wind_groups_def span_def two_or_three_def literal)

lemma speed_reads: "n < 100 \<Longrightarrow> windSpeed (dec 2 n) (if mps then js ''MPS'' else js ''KT'') = speed_text n mps"
  using number_dec [of n 2] by (simp add: windSpeed_def speed_text_def Let_def knots_exact num_def)

lemma dec3_zero:
  assumes "n < 1000" shows "dec 3 n = js ''000'' \<longleftrightarrow> n = 0"
proof
  assume "dec 3 n = js ''000''"
  then show "n = 0" using assms dec_digits(2) [of n 3] by (simp add: dec_value_def js_def)
qed (simp add: dec_def pad_start_def nat_digits.simps [of 0] js_def eval_nat_numeral)

lemma reads_wind:
  assumes v: "valid_group (GWind dir speed gust mps)"
  shows "reads (GWind dir speed gust mps)"
proof -
  let ?d = "case dir of None \<Rightarrow> js ''VRB'' | Some d \<Rightarrow> dec 3 d" and ?u = "if mps then js ''MPS'' else js ''KT''"
  let ?g = "map_option (dec 2) gust" and ?t = "group_text (GWind dir speed gust mps)"
  have t: "?t = ?d @ dec 2 speed @ (case ?g of None \<Rightarrow> [] | Some x \<Rightarrow> js ''G'' @ x) @ ?u" by (cases gust) simp_all
  have "?d = js ''VRB'' \<or> digits_n 3 ?d" using v dec_digits(1) [of _ 3] by (cases dir) auto
  then have w: "wind_groups ?t = Some (?d, dec 2 speed, ?g, ?u)"
    unfolding t by (intro wind_groups_parts) (use v dec_digits(1) [of _ 2] in auto)
  have n: "?t \<noteq> js ''////''" "?t \<noteq> js ''//////''" "?t \<noteq> js ''CAVOK''"
    using w by (auto simp: wind_groups_def js_def span_def digits_n_def)
  have s: "to_number (dec 2 speed) = Fin (of_nat speed)" using v number_dec [of speed 2] by simp
  have z: "?d = js ''000'' \<longleftrightarrow> dir = Some 0" using v dec3_zero by (cases dir) (auto simp: js_def)
  have d: "(if ?d = js ''VRB'' then js ''variable'' else num_to_string (to_number ?d) @ js '' degrees'')
    = (case dir of None \<Rightarrow> js ''variable'' | Some d \<Rightarrow> num d @ js '' degrees'')"
    using v number_dec [of "the dir" 3] dec3 [of "the dir"]
    by (cases dir) (auto simp: num_def js_def is_digit_def)
  have g: "(case ?g of Some g \<Rightarrow> js '', gusting '' @ windSpeed g ?u | None \<Rightarrow> [])
    = (case gust of None \<Rightarrow> [] | Some g \<Rightarrow> js '', gusting '' @ speed_text g mps)"
    using v by (cases gust) (simp_all add: speed_reads)
  have "wind_text ?d (dec 2 speed) ?g ?u = snd (group_meaning (GWind dir speed gust mps))"
    unfolding wind_text_def Let_def d g using v speed_reads by (simp add: s z)
  then show ?thesis using w n by (simp add: reads_def readers del: group_text.simps)
qed

subsection \<open>Miles\<close>

lemma nat_digits_hd: "0 < n \<Longrightarrow> hd (nat_digits n) \<noteq> 48"
proof (induction n rule: nat_digits.induct)
  case (1 n)
  then show ?case by (cases "n < 10") (auto simp: nat_digits.simps [of n])
qed

lemma digits_shape: "list_all is_digit (nat_digits n)" "is_digit (hd (nat_digits n))"
  using nat_digits_digit nat_digits_digit [OF hd_in_set [OF nat_digits_ne]] by (auto simp: list_all_iff)

lemma fraction_shape:
  assumes "0 < b" shows "\<exists>c t. nat_digits b = c # t \<and> is_digit c \<and> c \<noteq> 48 \<and> list_all is_digit t"
  using digits_shape [of b] nat_digits_hd [OF assms] by (cases "nat_digits b") auto

lemma seq_intro: "u \<in> rx_lang r \<Longrightarrow> v \<in> rx_lang s \<Longrightarrow> u @ v \<in> rx_lang (Seq r s)"
  by auto

lemma seqs_intro:
  "s \<in> rx_lang r \<Longrightarrow> t \<in> rx_lang (seqs rs) \<Longrightarrow> s @ t \<in> rx_lang (seqs (r # rs))"
  by auto

lemma fraction_tail: "0 < b \<Longrightarrow> 47 # nat_digits b \<in> rx_lang (seqs [lit ''/'', Chr (\<lambda>c. is_digit c \<and> c \<noteq> 48), many is_digit])"
proof -
  assume "0 < b"
  then obtain c t where c: "nat_digits b = c # t" "is_digit c" "c \<noteq> 48" "list_all is_digit t" using fraction_shape by blast
  have "js ''/'' @ [c] @ t @ [] \<in> rx_lang (seqs [lit ''/'', Chr (\<lambda>c. is_digit c \<and> c \<noteq> 48), many is_digit])"
    by (intro seqs_intro) (use c in simp_all)
  then show ?thesis by (simp add: c(1) js_def)
qed

lemma fraction_match: "0 < b \<Longrightarrow> rx_match fraction_rx (nat_digits a @ 47 # nat_digits b)"
  unfolding rx_match_iff fraction_rx_def
  by (rule seqs_intro [OF _ fraction_tail]) (use digits_shape(1) [of a] in simp_all)

lemma distance_match:
  assumes "valid_distance d"
  shows "rx_match miles_rx (distance_text d)"
proof -
  have n: "nat_digits n \<in> rx_lang (plus (Chr is_digit))" for n using digits_shape(1) [of n] by simp
  show ?thesis
  proof (cases d)
    case (Whole k)
    have "nat_digits k @ [] \<in> rx_lang miles_rx" unfolding miles_rx_def by (rule seq_intro [OF n]) simp
    then show ?thesis by (simp add: rx_match_iff Whole)
  next
    case (Fraction a b)
    show ?thesis unfolding rx_match_iff miles_rx_def Fraction distance_text.simps
      by (rule seq_intro [OF n]) (use fraction_tail [of b] assms Fraction in simp)
  next
    case (Mixed k a b)
    have "[32] @ nat_digits a @ [47] @ nat_digits b \<in> rx_lang (seqs [lit '' '', fraction_rx])"
      using fraction_match [of b a] assms Mixed seqs_intro [of "[32]" "lit '' ''" "nat_digits a @ 47 # nat_digits b" "[fraction_rx]"]
      by (simp add: rx_match_iff js_def)
    then show ?thesis unfolding rx_match_iff miles_rx_def Mixed distance_text.simps
      by (intro seq_intro [OF n]) (simp add: del: seqs.simps)
  qed
qed

lemma distance_hd: "distance_text d \<noteq> []" "is_digit (hd (distance_text d))"
  using digits_shape(2) by (cases d; auto simp: hd_append)+

lemma no_digits_end: "\<not> is_digit (last t) \<Longrightarrow> \<not> digits_n 4 t \<and> \<not> digits_n 3 (drop 4 t)"
proof -
  assume l: "\<not> is_digit (last t)"
  have d: "is_digit (last s)" if "digits_n n s" "0 < n" for n s
    using that by (cases s rule: rev_cases) (auto simp: digits_n_def)
  have "4 < length t" if "digits_n 3 (drop 4 t)" using that by (auto simp: digits_n_def)
  then show ?thesis using d [of 4 t] d [of 3 "drop 4 t"] l last_drop [of 4 t] by auto
qed

lemma reads_miles:
  assumes "valid_distance d"
  shows "reads (GMiles b d)"
proof -
  let ?t = "group_text (GMiles b d)"
  obtain c u where c: "distance_text d = c # u" "is_digit c" using distance_hd [of d] by (cases "distance_text d") auto
  have l: "last ?t = 77" "?t \<noteq> []" by (simp_all add: js_def)
  have m: "miles_groups ?t = Some (bound_letter b, distance_text d)"
    using distance_match [OF assms] c
    by (cases b) (auto simp: miles_groups_def bound_letter_def literal ends_with_def)
  have w: "wind_groups ?t = None"
    using wind_last [of ?t] unfolding l(1) by (cases "wind_groups ?t") (simp_all del: group_text.simps)
  have d: "\<not> digits_n 4 ?t" "\<not> digits_n 3 (drop 4 ?t)"
    using no_digits_end [of ?t] unfolding l(1) by (simp_all del: group_text.simps add: is_digit_def)
  have n: "?t \<noteq> js ''////''" "?t \<noteq> js ''//////''" "?t \<noteq> js ''CAVOK''" using l(1) by (auto simp: js_def)
  show ?thesis using m w d n
    by (cases b) (simp_all add: reads_def readers bound_letter_def js_def del: group_text.simps)
qed


subsection \<open>Tables\<close>

lemma map_of_js: "map_of (map (\<lambda>(k, m). (js k, js m)) table) (js k) = map_option js (map_of table k)"
  by (induction table) auto

lemma weather_table: "METAR_WEATHER = map (\<lambda>(k, m). (js k, js m)) phenomena"
  by (simp add: METAR_WEATHER_def phenomena_def)

lemma cloud_table: "METAR_CLOUDS = map (\<lambda>(k, m). (js k, js m)) amounts"
  by (simp add: METAR_CLOUDS_def amounts_def)

lemma known_lookup: "known table k \<Longrightarrow> map_of (map (\<lambda>(k, m). (js k, js m)) table) (js k) = Some (meaning table k)"
  by (auto simp: map_of_js known_def meaning_def)

subsection \<open>Clouds\<close>

lemma known_amount:
  "known amounts a \<Longrightarrow> a = ''FEW'' \<or> a = ''SCT'' \<or> a = ''BKN'' \<or> a = ''OVC'' \<or> a = ''NSC'' \<or> a = ''NCD'' \<or> a = ''VV''"
  by (auto simp: known_def amounts_def split: if_splits)

lemma amount_starts:
  "known amounts a \<Longrightarrow> \<exists>x y r. js a = x # y # r \<and> map_of METAR_WEATHER [x, y] = None \<and> is_upper x \<and> is_upper y
     \<and> x \<noteq> 77 \<and> x \<noteq> 80 \<and> x \<noteq> 67 \<and> (x = 86 \<longrightarrow> y = 86)"
  by (drule known_amount, elim disjE) (simp_all add: js_def METAR_WEATHER_def is_upper_def)

lemma height_text:
  assumes "case height of Some (Some n) \<Rightarrow> n < 1000 | _ \<Rightarrow> True"
  obtains "height = None" | x y z where
    "(case height of None \<Rightarrow> [] | Some h \<Rightarrow> (case h of None \<Rightarrow> js ''///'' | Some n \<Rightarrow> dec 3 n)) = [x, y, z]"
    "digits_n 3 [x, y, z] \<or> [x, y, z] = js ''///''"
    "cloudHeight [x, y, z] = (case the height of None \<Rightarrow> js ''height unknown'' | Some n \<Rightarrow> num (100 * n) @ js '' ft'')"
    "height \<noteq> None"
proof (cases height)
  case (Some h)
  show ?thesis
  proof (cases h)
    case None
    then show ?thesis using Some that(2) [of 47 47 47] by (simp add: cloudHeight_def js_def)
  next
    case (Some n)
    with assms \<open>height = Some h\<close> have n: "n < 1000" by simp
    then obtain x y z where d: "dec 3 n = [x, y, z]" "is_digit x" "is_digit y" "is_digit z" using dec3 by blast
    have "to_number (dec 3 n) = Fin (of_nat n)" using n number_dec [of n 3] by simp
    moreover have "fl (of_nat n * 100) = Fin (of_nat (100 * n))" using n fl_of_nat [of "100 * n"] by (simp add: mult.commute)
    ultimately have "cloudHeight [x, y, z] = num (100 * n) @ js '' ft''"
      using d by (auto simp: cloudHeight_def num_def js_def is_digit_def)
    then show ?thesis using d \<open>height = Some h\<close> Some that(2) [of x y z] by (simp add: digits_n_def)
  qed
qed (use that(1) in blast)

lemma cloud_groups_parts:
  assumes "known amounts a" "h = [] \<or> (\<exists>x y z. h = [x, y, z]) \<and> (digits_n 3 h \<or> h = js ''///'')"
    "k = [] \<or> k = js ''CB'' \<or> k = js ''TCU''"
  shows "cloud_groups (js a @ h @ k) = Some (js a, h, k)"
proof -
  have w: "map_of METAR_CLOUDS (js a) \<noteq> None" using known_lookup [OF assms(1)] by (simp add: cloud_table)
  have c: "\<not> (digits_n 3 (take 3 k) \<or> take 3 k = js ''///'')" using assms(3) by (auto simp: digits_n_def literal)
  have h: "(if digits_n 3 (take 3 (h @ k)) \<or> take 3 (h @ k) = js ''///'' then take 3 (h @ k) else []) = h"
    using assms(2) c by auto
  have l: "length (js a) = (if a = ''VV'' then 2 else 3)" "starts_with (js a @ h @ k) (js ''VV'') \<longleftrightarrow> a = ''VV''"
    using known_amount [OF assms(1)] by (auto simp: js_def)
  have a: "(if starts_with (js a @ h @ k) (js ''VV'') then js ''VV'' else take 3 (js a @ h @ k)) = js a"
    unfolding l(2) using l(1) by (auto split: if_splits)
  have r: "drop (length (js a)) (js a @ h @ k) = h @ k" "drop (length h) (h @ k) = k" by simp_all
  show ?thesis unfolding cloud_groups_def Let_def a r h using w assms(3) by simp
qed

lemma reads_cloud:
  assumes "valid_group (GCloud amount height kind)"
  shows "reads (GCloud amount height kind)"
proof -
  let ?t = "group_text (GCloud amount height kind)"
  let ?h = "case height of None \<Rightarrow> [] | Some h \<Rightarrow> (case h of None \<Rightarrow> js ''///'' | Some n \<Rightarrow> dec 3 n)"
  let ?k = "case kind of None \<Rightarrow> [] | Some k \<Rightarrow> js k"
  have a: "known amounts amount" and hv: "case height of Some (Some n) \<Rightarrow> n < 1000 | _ \<Rightarrow> True" using assms by auto
  obtain x y r where s: "js amount = x # y # r" "map_of METAR_WEATHER [x, y] = None" "is_upper x" "is_upper y"
    "x \<noteq> 77" "x \<noteq> 80" "x \<noteq> 67" "x = 86 \<longrightarrow> y = 86"
    using amount_starts [OF a] by blast
  have hh: "?h = [] \<or> (\<exists>x y z. ?h = [x, y, z]) \<and> (digits_n 3 ?h \<or> ?h = js ''///'')"
    using hv by (rule height_text) auto
  have g: "cloud_groups ?t = Some (js amount, ?h, ?k)"
    unfolding group_text.simps
    by (rule cloud_groups_parts [OF a hh]) (use assms in \<open>auto split: option.splits\<close>)
  have t: "?t = x # y # (r @ ?h @ ?k)" using s(1) by simp
  have u: "\<not> is_digit x" "x \<noteq> 43" "x \<noteq> 45" "x \<noteq> 47" using s(3) by (auto simp: is_upper_def is_digit_def)
  have "\<not> starts_with (x # y # (r @ ?h @ ?k)) (js ''VC'')" using s(8) by (simp add: js_def)
  then have p: "decodeMetarWeather ?t = []" unfolding t using s(2) u by (auto simp: decodeMetarWeather_def js_def)
  have m: "miles_groups ?t = None" unfolding t by (rule no_miles) (use u s(5,6) in \<open>auto simp: one_of_def js_def\<close>)
  have w: "wind_groups ?t = None" unfolding t using s(8) u
    by (auto simp: wind_groups_def Let_def digits_n_def js_def split: prod.splits)
  have v: "(case height of None \<Rightarrow> [] | Some h \<Rightarrow> js '' at ''
      @ (case h of None \<Rightarrow> js ''height unknown'' | Some n \<Rightarrow> num (100 * n) @ js '' ft''))
    = (if ?h \<noteq> [] then js '' at '' @ cloudHeight ?h else [])"
    using hv by (rule height_text) auto
  have k: "kind = None \<or> kind = Some ''CB'' \<or> kind = Some ''TCU''" using assms by (cases kind) auto
  have c: "cloud_text (js amount) ?h ?k = snd (group_meaning (GCloud amount height kind))"
    unfolding cloud_text_def group_meaning.simps snd_conv v using known_lookup [OF a] k by (auto simp: cloud_table)
  have n: "?t \<noteq> js ''////''" "?t \<noteq> js ''//////''" "?t \<noteq> js ''CAVOK''" "\<not> digits_n 3 (take 3 ?t)" "\<not> digits_n 4 ?t"
    unfolding t using u s(7) by (auto simp: js_def digits_n_def)
  show ?thesis using n p m w g c by (simp add: reads_def readers del: group_text.simps)
qed

subsection \<open>Phenomena\<close>

lemma phenomenon_code: "known phenomena k \<Longrightarrow> \<exists>a b. js k = [a, b] \<and> is_upper a \<and> is_upper b \<and> [a, b] \<noteq> js ''VC'' \<and> [a, b] \<noteq> js ''CA''"
  by (auto simp: known_def phenomena_def js_def is_upper_def split: if_splits)

lemma codes_read: "list_all (known phenomena) codes \<Longrightarrow> weather_codes (concat (map js codes)) = Some (map (meaning phenomena) codes)"
proof (induction codes)
  case (Cons k codes)
  obtain a b where "js k = [a, b]" using Cons.prems phenomenon_code [of k] by auto
  moreover have "map_of METAR_WEATHER (js k) = Some (meaning phenomena k)"
    using Cons.prems known_lookup [of phenomena k] by (simp add: weather_table)
  ultimately show ?case using Cons by simp
qed simp

lemma codes_upper: "list_all (known phenomena) codes \<Longrightarrow> list_all is_upper (concat (map js codes))"
  by (induction codes) (auto dest!: phenomenon_code simp: list_all_iff)

lemma meaning_ne: "known phenomena k \<Longrightarrow> meaning phenomena k \<noteq> []"
  by (auto simp: known_def meaning_def phenomena_def split: if_splits)

lemma join_ne: "x \<noteq> [] \<Longrightarrow> join c (x # xs) \<noteq> []"
  by (cases xs) auto

lemma phenomenon_decode:
  assumes "codes \<noteq> []" "list_all (known phenomena) codes"
  shows "decodeMetarWeather (group_text (GPhenomenon strength near codes))
    = snd (group_meaning (GPhenomenon strength near codes))"
    and "group_text (GPhenomenon strength near codes) \<noteq> js ''CAVOK''"
proof -
  obtain k ks where c: "codes = k # ks" using assms(1) by (cases codes) auto
  then obtain a b where k: "js k = [a, b]" "is_upper a" "[a, b] \<noteq> js ''VC''" "[a, b] \<noteq> js ''CA''"
    using assms(2) phenomenon_code [of k] by auto
  let ?r = "concat (map js codes)"
  have r: "?r = a # b # concat (map js ks)" by (simp add: c k(1))
  have w: "weather_codes ?r = Some (map (meaning phenomena) codes)" by (rule codes_read [OF assms(2)])
  have v: "\<not> starts_with ?r (js ''VC'')" "\<not> starts_with ?r (js ''-'')" "\<not> starts_with ?r (js ''+'')"
    unfolding r using k(2,3) by (auto simp: js_def is_upper_def)
  have n: "(if starts_with ((if near then js ''VC'' else []) @ ?r) (js ''VC'') then ([js ''in the vicinity''], drop 2 ((if near then js ''VC'' else []) @ ?r))
       else ([], (if near then js ''VC'' else []) @ ?r)) = (if near then [js ''in the vicinity''] else [], ?r)"
    using v(1) by (auto simp: js_def)
  have m: "\<not> starts_with ((if near then js ''VC'' else []) @ ?r) (js ''-'')" "\<not> starts_with ((if near then js ''VC'' else []) @ ?r) (js ''+'')"
    using v(2,3) by (auto simp: js_def)
  have s: "starts_with (js x @ t) (js x)" "drop 1 (js [x1] @ t) = t" for x x1 t by (simp_all add: js_def)
  have o: "\<not> starts_with (js ''+'' @ t) (js ''-'')" for t by (simp add: js_def)
  show "decodeMetarWeather (group_text (GPhenomenon strength near codes))
    = snd (group_meaning (GPhenomenon strength near codes))"
    unfolding decodeMetarWeather_def Let_def group_text.simps group_meaning.simps
    by (cases strength) (simp_all add: m n w s o split: if_splits)
  show "group_text (GPhenomenon strength near codes) \<noteq> js ''CAVOK''"
    using k(4) by (cases strength) (auto simp: r js_def)
qed

lemma reads_phenomenon:
  assumes "valid_group (GPhenomenon strength near codes)"
  shows "reads (GPhenomenon strength near codes)"
proof -
  let ?t = "group_text (GPhenomenon strength near codes)"
  have v: "codes \<noteq> []" "list_all (known phenomena) codes" using assms by auto
  note d = phenomenon_decode [OF v, of strength near]
  have u: "is_upper c \<or> c = 43 \<or> c = 45" if "c \<in> set ?t" for c
    using that codes_upper [OF v(2)] by (auto simp: list_all_iff js_def is_upper_def split: option.splits if_splits)
  have g: "\<not> is_digit c" "c \<noteq> 47" if "c \<in> set ?t" for c
    using u [OF that] by (auto simp: is_digit_def is_upper_def)
  have ne: "decodeMetarWeather ?t \<noteq> []"
  proof -
    have "list_all (\<lambda>k. meaning phenomena k \<noteq> []) codes" using v(2) meaning_ne by (auto simp: list_all_iff)
    then show ?thesis unfolding d(1) using v(1)
      by (cases strength; cases near; cases codes) (auto simp: join_ne)
  qed
  have tne: "?t \<noteq> []" using v phenomenon_code [of "hd codes"] by (cases codes) auto
  then have dig: "\<not> digits_n 3 (take 3 ?t)" "\<not> digits_n 4 ?t"
    using g(1) hd_in_set [of "take 3 ?t"] hd_in_set [of ?t] in_set_takeD [of _ 3 ?t]
    by (fastforce simp: digits_n_def list_all_iff simp del: group_text.simps)+
  have m: "miles_groups ?t = None"
    by (rule no_miles) (use g(1) tne in \<open>cases ?t; cases "tl ?t"; auto simp del: group_text.simps\<close>)+
  have w: "wind_groups ?t = None" using wind_digit g(1) by blast
  have n: "?t \<noteq> js ''////''" "?t \<noteq> js ''//////''"
    using g(2) [of 47] by (auto simp: js_def simp del: group_text.simps)
  show ?thesis using n d ne dig m w by (simp add: reads_def readers del: group_text.simps)
qed

lemma reads_valid: "valid_group g \<Longrightarrow> reads g"
  by (cases g) (simp_all only: reads_simple reads_no_weather reads_wind reads_phenomenon reads_cloud,
      simp_all add: reads_vary reads_vis reads_miles reads_temp reads_qnh reads_altimeter)

end
