(* ===== verification/WeatherProps.thy ===== *)
theory WeatherProps
  imports WeatherFacts
begin

section \<open>Reports as texts\<close>

text \<open>
  The words of a report and their way through \<open>weatherTokens\<close>: white space, case, the closing equals
  sign, and the distance in miles that is written as two words.
\<close>

definition report_word :: "jstr \<Rightarrow> bool" where
  "report_word w = (w \<noteq> [] \<and> (\<forall>c \<in> set w. c < 128 \<and> \<not> is_lower c \<and> \<not> is_ws c \<and> c \<noteq> 61))"

lemma word_hd: "report_word w \<Longrightarrow> w \<noteq> [] \<and> \<not> is_ws (hd w) \<and> \<not> is_ws (last w) \<and> last w \<noteq> 61"
  by (simp add: report_word_def)

lemma join_word:
  "ws \<noteq> [] \<Longrightarrow> list_all report_word ws \<Longrightarrow>
     join [32] ws \<noteq> [] \<and> \<not> is_ws (hd (join [32] ws)) \<and> \<not> is_ws (last (join [32] ws)) \<and> last (join [32] ws) \<noteq> 61"
proof (induction ws rule: induct_list012)
  case (3 x y zs)
  then show ?case using word_hd [of x] by auto
qed (auto dest: word_hd)

lemma join_chars: "c \<in> set (join [32] ws) \<Longrightarrow> list_all report_word ws \<Longrightarrow> c < 128 \<and> \<not> is_lower c"
  by (induction ws rule: induct_list012) (auto simp: report_word_def is_lower_def)

lemma ws_tokens_word: "report_word w \<Longrightarrow> ws_tokens w = [w]"
proof -
  have "w \<noteq> [] \<Longrightarrow> \<forall>c \<in> set w. \<not> is_ws c \<Longrightarrow> ws_tokens w = [w]"
  proof (induction w)
    case (Cons c w)
    then show ?case by (cases w) auto
  qed simp
  then show "report_word w \<Longrightarrow> ws_tokens w = [w]" by (simp add: report_word_def)
qed

lemma ws_tokens_step:
  assumes "report_word w" "s \<noteq> []" "\<not> is_ws (hd s)"
  shows "ws_tokens (w @ 32 # s) = w # ws_tokens s"
proof -
  have sp: "ws_tokens (32 # s) = [] # ws_tokens s" using assms(2,3) by (cases s) (auto simp: is_ws_def)
  have "\<forall>c \<in> set w. \<not> is_ws c \<Longrightarrow> ws_tokens (w @ 32 # s) = w # ws_tokens s"
  proof (induction w)
    case (Cons c w)
    then show ?case by simp
  qed (use sp in simp)
  then show ?thesis using assms(1) by (simp add: report_word_def)
qed

lemma ws_tokens_join: "ws \<noteq> [] \<Longrightarrow> list_all report_word ws \<Longrightarrow> ws_tokens (join [32] ws) = ws"
proof (induction ws rule: induct_list012)
  case (3 x y zs)
  then show ?case using ws_tokens_step [of x "join [32] (y # zs)"] join_word [of "y # zs"] by simp
qed (simp_all add: ws_tokens_word)

definition report_text :: "jstr list \<Rightarrow> bool \<Rightarrow> jstr" where
  "report_text ws equals = join [32] ws @ (if equals then [61] else [])"

lemma tokens_of_text:
  assumes "ws \<noteq> []" "list_all report_word ws"
  shows "weatherTokens (report_text ws equals) = merge_miles ws"
proof -
  let ?t = "join [32] ws"
  note j = join_word [OF assms]
  have t: "trim ?t = ?t" "trim (?t @ [61]) = ?t @ [61]"
    by (rule trim_fixed; use j in \<open>simp add: is_ws_def hd_append\<close>)+
  have "drop_equals (trim (report_text ws equals)) = ?t"
    using t j by (simp add: report_text_def drop_equals_def)
  moreover have "upper ?t = ?t" by (rule upper_id) (use join_chars assms(2) in blast)
  ultimately show ?thesis using t(1) ws_tokens_join [OF assms] by (simp add: weatherTokens_def)
qed

subsection \<open>Words of groups\<close>

fun group_words :: "wx_group \<Rightarrow> jstr list" where
  "group_words (GMiles x (Mixed n a b)) =
     [bound_letter x @ nat_digits n, nat_digits a @ [47] @ nat_digits b @ js ''SM'']"
| "group_words g = [group_text g]"

lemma join_group_words: "join [32] (group_words g) = group_text g"
  by (cases g rule: group_words.cases) simp_all

lemma merge_Nil [simp]: "merge_miles ts = [] \<longleftrightarrow> ts = []"
  by (cases ts rule: merge_miles.cases) auto

text \<open>Joining two words of a distance with a blank changes nothing of the text.\<close>

lemma join_merge: "join [32] (merge_miles ts) = join [32] ts"
proof (induction ts rule: merge_miles.induct)
  case (1 a b ts)
  have c: "join [32] (x # merge_miles us) = join [32] (x # us)" if "join [32] (merge_miles us) = join [32] us" for x us
    using that by (cases us; cases "merge_miles us") (auto split: if_splits)
  have m: "join [32] ((a @ [32] @ b) # us) = join [32] (a # b # us)" for us by (cases us) auto
  show ?case using 1 c [of ts] c [of "b # ts" a] m [of ts] by auto
qed simp_all

lemma join_member: "t \<in> set ts \<Longrightarrow> set t \<subseteq> set (join c ts)"
  by (induction ts rule: induct_list012) auto

lemma merged_upper:
  assumes "list_all report_word ws" "t \<in> set (merge_miles ws)"
  shows "upper t = t"
proof (rule upper_id)
  have "set t \<subseteq> set (join [32] ws)" using join_member [OF assms(2), of "[32]"] by (simp add: join_merge)
  then show "\<forall>c \<in> set t. c < 128 \<and> \<not> is_lower c" using join_chars assms(1) by blast
qed

lemma whole_miles_end: "whole_miles t \<Longrightarrow> t \<noteq> [] \<and> length t \<le> 3 \<and> is_digit (last t)"
proof -
  have d: "is_digit (last v)" if "list_all is_digit v" "Suc 0 \<le> length v" for v
    using that by (cases v rule: rev_cases) auto
  then show "whole_miles t \<Longrightarrow> ?thesis" by (force simp: whole_miles_def rx_match_iff opt_def)
qed

lemma merge_plain: "\<not> whole_miles w \<Longrightarrow> merge_miles (w # ts) = w # merge_miles ts"
  by (cases ts) auto


lemma fraction_word: "0 < b \<Longrightarrow> fraction_miles (nat_digits a @ [47] @ nat_digits b @ js ''SM'')"
  using fraction_match [of b a] ends_with_append [of "nat_digits a @ 47 # nat_digits b" "js ''SM''"]
  by (simp add: fraction_miles_def)

lemma whole_word: "n < 100 \<Longrightarrow> whole_miles (bound_letter x @ nat_digits n)"
proof -
  assume n: "n < 100"
  have d: "list_all is_digit (nat_digits n)" "1 \<le> length (nat_digits n)" "length (nat_digits n) \<le> 2"
    using digits_shape(1) length_nat_digits [of n 2] n by (simp_all add: Suc_le_eq)
  show ?thesis unfolding whole_miles_def rx_match_iff
  proof (rule seq_intro)
    show "bound_letter x \<in> rx_lang (opt (Chr (one_of ''MP'')))" by (cases x) (simp_all add: bound_letter_def literal)
    show "nat_digits n \<in> rx_lang (Reps is_digit 1 2)" using d by simp
  qed
qed

lemma dec_length: "n < 10 ^ k \<Longrightarrow> 0 < k \<Longrightarrow> length (dec k n) = k"
  using dec_digits(1) by (simp add: digits_n_def)

lemma group_not_whole:
  assumes "valid_group g"
  shows "\<not> whole_miles (group_text g)"
proof
  assume w: "whole_miles (group_text g)"
  note e = whole_miles_end [OF w]
  show False
  proof (cases g)
    case (GPhenomenon strength near codes)
    have "list_all is_upper (concat (map js codes))" "codes \<noteq> []" "concat (map js codes) \<noteq> []"
      using assms codes_upper phenomenon_code [of "hd codes"] unfolding GPhenomenon by (auto; cases codes; auto)+
    then have "is_upper (last (group_text g))" unfolding GPhenomenon
      by (cases "concat (map js codes)" rule: rev_cases) auto
    with e show False by (auto simp: is_upper_def is_digit_def)
  next
    case (GCloud amount height kind)
    have a: "\<not> is_digit (last (js amount))" "2 \<le> length (js amount)"
      using assms known_amount [of amount] unfolding GCloud by (auto simp: js_def is_digit_def)
    have k: "js k \<noteq> [] \<and> \<not> is_digit (last (js k))" if "kind = Some k" for k
      using assms that unfolding GCloud by (auto simp: js_def is_digit_def)
    have h: "length (case height of None \<Rightarrow> [] | Some h \<Rightarrow> (case h of None \<Rightarrow> js ''///'' | Some n \<Rightarrow> dec 3 n))
        = (if height = None then 0 else 3)"
      using assms dec_length [of _ 3] unfolding GCloud by (auto split: option.splits)
    show False
    proof (cases height)
      case None
      then show False using e a k unfolding GCloud by (cases kind) auto
    next
      case (Some x)
      then have "5 \<le> length (group_text g)" using a(2) h unfolding GCloud by simp
      with e show False by simp
    qed
  next
    case (GWind dir speed gust mps)
    have "5 \<le> length (group_text g)" using assms dec_length [of speed 2] dec_length [of _ 3]
      unfolding GWind by (cases dir) auto
    with e show False by simp
  next
    case (GTemp air dew)
    then show False using e assms dec_length [of _ 2] by (auto simp: signed_def split_beta)
  next
    case (GMiles x d)
    then show False using e by (simp add: js_def is_digit_def)
  qed (use e assms dec_length [of _ 3] dec_length [of _ 4] in \<open>auto simp: js_def is_digit_def\<close>)
qed

lemma merge_group:
  assumes "valid_group g"
  shows "merge_miles (group_words g @ ts) = group_text g # merge_miles ts"
proof (cases g rule: group_words.cases)
  case (1 x n a b)
  then show ?thesis using assms whole_word [of n x] fraction_word [of b a] by simp
qed (use merge_plain [OF group_not_whole [OF assms], of ts] in simp_all)

definition word_chars :: "jstr \<Rightarrow> bool" where
  "word_chars t = (\<forall>c \<in> set t. c < 128 \<and> \<not> is_lower c \<and> \<not> is_ws c \<and> c \<noteq> 61)"

lemma report_word_chars: "report_word w \<longleftrightarrow> w \<noteq> [] \<and> word_chars w"
  by (simp add: report_word_def word_chars_def)

lemma word_chars_append [simp]: "word_chars (a @ b) \<longleftrightarrow> word_chars a \<and> word_chars b"
  and word_chars_Nil [simp]: "word_chars []"
  and word_chars_Cons [simp]: "word_chars (c # b) \<longleftrightarrow> (c < 128 \<and> \<not> is_lower c \<and> \<not> is_ws c \<and> c \<noteq> 61) \<and> word_chars b"
  by (auto simp: word_chars_def)

lemma word_chars_digits: "list_all is_digit t \<Longrightarrow> word_chars t"
  by (auto simp: word_chars_def list_all_iff is_digit_def is_lower_def is_ws_def)

lemma word_chars_upper: "list_all is_upper t \<Longrightarrow> word_chars t"
  by (auto simp: word_chars_def list_all_iff is_upper_def is_lower_def is_ws_def)

lemma word_chars_nat [simp]: "word_chars (nat_digits n)"
  by (rule word_chars_digits [OF digits_shape(1)])

lemma word_chars_dec: "n < 10 ^ k \<Longrightarrow> 0 < k \<Longrightarrow> word_chars (dec k n)"
  using dec_digits(1) word_chars_digits by (simp add: digits_n_def)

lemma dec_ne: "n < 10 ^ k \<Longrightarrow> 0 < k \<Longrightarrow> dec k n \<noteq> []"
  using dec_length [of n k] by auto

lemma word_chars_bound [simp]: "word_chars (bound_letter x)"
  by (cases x) (simp_all add: bound_letter_def js_def is_lower_def is_ws_def)

lemma group_text_ok:
  assumes "valid_group g" "\<And>x n a b. g \<noteq> GMiles x (Mixed n a b)"
  shows "report_word (group_text g)"
proof (cases g)
  case (GPhenomenon strength near codes)
  have "list_all is_upper (concat (map js codes))" "concat (map js codes) \<noteq> []"
    using assms(1) codes_upper phenomenon_code [of "hd codes"] unfolding GPhenomenon by (auto; cases codes; auto)+
  then show ?thesis using word_chars_upper unfolding GPhenomenon
    by (auto simp: report_word_chars js_def is_lower_def is_ws_def split: option.splits)
next
  case (GCloud amount height kind)
  have "word_chars (js amount)" "js amount \<noteq> []"
    using assms(1) known_amount [of amount] unfolding GCloud by (auto simp: js_def is_lower_def is_ws_def)
  then show ?thesis using assms(1) word_chars_dec [of _ 3] unfolding GCloud
    by (auto simp: report_word_chars js_def is_lower_def is_ws_def split: option.splits)
next
  case (GMiles x d)
  then show ?thesis using assms(2) by (cases d) (auto simp: report_word_chars js_def is_lower_def is_ws_def)
next
  case (GWind dir speed gust mps)
  then show ?thesis using assms(1) word_chars_dec [of _ 2] word_chars_dec [of _ 3] dec_ne [of _ 2]
    by (auto simp: report_word_chars js_def is_lower_def is_ws_def split: option.splits)
next
  case (GTemp air dew)
  then show ?thesis using assms(1) word_chars_dec [of _ 2]
    by (auto simp: report_word_chars js_def is_lower_def is_ws_def signed_def split_beta)
qed (use assms(1) word_chars_dec [of _ 3] word_chars_dec [of _ 4] dec_ne [of _ 4] in
    \<open>auto simp: report_word_chars js_def is_lower_def is_ws_def\<close>)

lemma group_words_ok:
  assumes "valid_group g"
  shows "list_all report_word (group_words g)"
proof (cases "\<exists>x n a b. g = GMiles x (Mixed n a b)")
  case True
  then show ?thesis by (auto simp: report_word_chars js_def is_lower_def is_ws_def)
next
  case False
  then have "group_words g = [group_text g]" by (cases g rule: group_words.cases) auto
  with group_text_ok [OF assms] False show ?thesis by auto
qed

section \<open>The page shows what a report says\<close>

text \<open>
  Reports as data (\<open>metar\<close>, \<open>taf\<close>), the text they are published as, and the rows they mean. The
  readers are shown to give these rows for every well-formed report.
\<close>

subsection \<open>Markers are not groups\<close>

lemma no_group_constant:
  "t = [] \<or> t = js ''AUTO'' \<or> t = js ''COR'' \<or> t = js ''RMK'' \<or> t = js ''NOSIG'' \<or> t = js ''TEMPO'' \<or> t = js ''BECMG''
     \<Longrightarrow> condition_row context t = None"
  by (elim disjE) (simp_all add: readers decodeMetarWeather_def METAR_WEATHER_def cloud_groups_def METAR_CLOUDS_def
    wind_groups_def span_def two_or_three_def digits_n_def cut_def literal temperature_groups_def miles_groups_def
    ends_with_def)

lemma no_group_marked:
  assumes "a = js ''PROB'' \<or> a = js ''FM''" "list_all is_digit b" "b \<noteq> []"
  shows "condition_row context (a @ b) = None"
proof -
  obtain c where c: "c \<in> set b" "is_digit c" using assms(2,3) by (cases b) auto
  have "decodeMetarWeather (a @ b) = []" by (rule no_phenomenon_digit [OF c(2)]) (use c in simp)
  moreover have l: "last (a @ b) \<noteq> 77" "last (a @ b) \<noteq> 83" "last (a @ b) \<noteq> 84"
    using assms(2,3) by (cases b rule: rev_cases; auto simp: is_digit_def)+
  have "miles_groups (a @ b) = None"
  proof (rule no_miles_end)
    have "drop 1 (a @ b) \<noteq> []" "last (drop 1 (a @ b)) = last (a @ b)" using assms by (auto simp: js_def last_drop)
    then show "\<not> ends_with (drop 1 (a @ b)) (js ''SM'')" "\<not> ends_with (a @ b) (js ''SM'')"
      using l(1) by (auto simp: ends_with_iff js_def)
  qed
  moreover have "wind_groups (a @ b) = None" using wind_last [of "a @ b"] l by (cases "wind_groups (a @ b)") auto
  moreover have "temperature_groups (a @ b) = None"
  proof -
    have "47 \<notin> set (a @ b)" using assms by (auto simp: js_def list_all_iff is_digit_def)
    then show ?thesis by (simp add: temperature_groups_def split_on_single)
  qed
  ultimately show ?thesis using assms(1)
    by (elim disjE) (simp_all add: readers cloud_groups_def METAR_CLOUDS_def digits_n_def cut_def literal)
qed

lemma group_is_read:
  assumes "valid_group g"
  obtains r where "condition_row context (group_text g) = Some r"
    "seen r = (trim (context @ fst (group_meaning g)), snd (group_meaning g))"
  using reads_valid [OF assms] by (auto simp: reads_def)

text \<open>What the loops test before they read a group.\<close>

lemma group_unmarked:
  assumes "valid_group g"
  shows "\<not> silent_group (group_text g)" "group_text g \<noteq> js ''RMK''" "group_text g \<noteq> js ''NOSIG''"
    "\<not> trend_marker (group_text g)" "fromTime (group_text g) = []"
    "group_text g \<noteq> js ''TEMPO''" "group_text g \<noteq> js ''BECMG''"
    "\<not> (take 4 (group_text g) = js ''PROB'' \<and> digits_n 2 (drop 4 (group_text g)))"
proof -
  obtain r where r: "condition_row [] (group_text g) = Some r" using assms by (rule group_is_read)
  have c: "group_text g \<noteq> t" if "condition_row [] t = None" for t using that r by auto
  show k: "group_text g \<noteq> js ''RMK''" "group_text g \<noteq> js ''NOSIG''" "group_text g \<noteq> js ''TEMPO''" "group_text g \<noteq> js ''BECMG''"
    by (rule c, rule no_group_constant, simp)+
  show "\<not> silent_group (group_text g)" unfolding silent_group_def using no_group_constant c by blast
  have p: "\<not> (take n (group_text g) = a \<and> digits_n m (drop n (group_text g)))" if "a = js ''PROB'' \<or> a = js ''FM''" "0 < m" for n m a
  proof
    assume a: "take n (group_text g) = a \<and> digits_n m (drop n (group_text g))"
    then have "condition_row [] (a @ drop n (group_text g)) = None"
      by (intro no_group_marked [OF that(1)]) (use that(2) in \<open>auto simp: digits_n_def\<close>)
    then show False using a r append_take_drop_id [of n "group_text g"] by simp
  qed
  show t: "\<not> (take 4 (group_text g) = js ''PROB'' \<and> digits_n 2 (drop 4 (group_text g)))" by (rule p) simp_all
  show "\<not> trend_marker (group_text g)" using t k by (simp add: trend_marker_def)
  show "fromTime (group_text g) = []" using p [of "js ''FM''" 6 2] by (simp add: fromTime_def)
qed

lemma group_upper:
  assumes "valid_group g" shows "upper (group_text g) = group_text g"
proof (rule upper_id)
  show "\<forall>c \<in> set (group_text g). c < 128 \<and> \<not> is_lower c"
    using group_words_ok [OF assms] join_chars [of _ "group_words g"] join_group_words [of g] by auto
qed

lemma label_fixed:
  assumes "valid_group g" "context = [] \<or> \<not> is_ws (hd context)"
  shows "trim (context @ fst (group_meaning g)) = context @ fst (group_meaning g)"
proof -
  have t: "c \<in> set (group_text g) \<Longrightarrow> \<not> is_ws c" if "\<And>x n a b. g \<noteq> GMiles x (Mixed n a b)" for c
    using group_text_ok [OF assms(1) that] by (auto simp: report_word_def)
  have ne: "group_text g \<noteq> []" if "\<And>x n a b. g \<noteq> GMiles x (Mixed n a b)"
    using group_text_ok [OF assms(1) that] by (auto simp: report_word_def)
  have "fst (group_meaning g) \<noteq> [] \<and> \<not> is_ws (hd (fst (group_meaning g))) \<and> \<not> is_ws (last (fst (group_meaning g)))"
  proof (cases g)
    case (GPhenomenon strength near codes)
    have "last (group_text g) \<in> set (group_text g)" by (rule last_in_set, rule ne) (simp add: GPhenomenon)
    then have "\<not> is_ws (last (group_text g))" by (intro t) (simp_all add: GPhenomenon)
    then show ?thesis using ne unfolding GPhenomenon group_meaning.simps fst_conv
      by (simp add: js_def is_ws_def del: group_text.simps)
  next
    case (GCloud amount height kind)
    have "last (group_text g) \<in> set (group_text g)" by (rule last_in_set, rule ne) (simp add: GCloud)
    then have "\<not> is_ws (last (group_text g))" by (intro t) (simp_all add: GCloud)
    then show ?thesis using ne unfolding GCloud group_meaning.simps fst_conv
      by (simp add: js_def is_ws_def del: group_text.simps)
  qed (simp_all add: js_def is_ws_def)
  then show ?thesis using assms(2) by (intro trim_fixed) (auto simp: hd_append)
qed

text \<open>\<open>extends r r' l\<close>: \<open>r'\<close> has the rows \<open>l\<close> more and nothing more that is not understood.\<close>

definition extends :: "weather_report \<Rightarrow> weather_report \<Rightarrow> (jstr \<times> jstr) list \<Rightarrow> bool" where
  "extends r r' l = (map seen (wp_rows r') = map seen (wp_rows r) @ l \<and> wp_unparsed r' = wp_unparsed r)"

lemma extends_refl: "extends r r []"
  by (simp add: extends_def)

lemma extends_trans: "extends r r' l \<Longrightarrow> extends r' r'' l' \<Longrightarrow> extends r r'' (l @ l')"
  by (simp add: extends_def)

lemma extends_row: "extends r (add_row x r) [seen x]"
  by (simp add: extends_def add_row_def)

definition in_context :: "jstr \<Rightarrow> wx_group \<Rightarrow> jstr \<times> jstr" where
  "in_context context g = (context @ fst (group_meaning g), snd (group_meaning g))"

lemma group_appended:
  assumes "valid_group g" "context = [] \<or> \<not> is_ws (hd context)"
  shows "extends r (appendConditionTokenRows (group_text g) context r) [in_context context g]"
proof -
  obtain x where "condition_row context (group_text g) = Some x"
    "seen x = (trim (context @ fst (group_meaning g)), snd (group_meaning g))"
    using assms(1) by (rule group_is_read)
  then show ?thesis using group_unmarked(1) [OF assms(1)] extends_row [of r x] label_fixed [OF assms]
    by (simp add: appendConditionTokenRows_def in_context_def)
qed


subsection \<open>METAR\<close>

datatype metar_item = MGroup wx_group | MAuto | MNosig | MTempo | MBecmg

primrec item_words :: "metar_item \<Rightarrow> jstr list" where
  "item_words (MGroup g) = group_words g"
| "item_words MAuto = [js ''AUTO'']"
| "item_words MNosig = [js ''NOSIG'']"
| "item_words MTempo = [js ''TEMPO'']"
| "item_words MBecmg = [js ''BECMG'']"

primrec item_token :: "metar_item \<Rightarrow> jstr" where
  "item_token (MGroup g) = group_text g"
| "item_token MAuto = js ''AUTO''"
| "item_token MNosig = js ''NOSIG''"
| "item_token MTempo = js ''TEMPO''"
| "item_token MBecmg = js ''BECMG''"

primrec valid_item :: "metar_item \<Rightarrow> bool" where
  "valid_item (MGroup g) = valid_group g"
| "valid_item MAuto = True"
| "valid_item MNosig = True"
| "valid_item MTempo = True"
| "valid_item MBecmg = True"

primrec item_meaning :: "metar_item \<Rightarrow> (jstr \<times> jstr) list" where
  "item_meaning (MGroup g) = [group_meaning g]"
| "item_meaning MAuto = []"
| "item_meaning MNosig = [(js ''Trend'', js ''No significant change expected'')]"
| "item_meaning MTempo = [(js ''Trend'', js ''TEMPO'')]"
| "item_meaning MBecmg = [(js ''Trend'', js ''BECMG'')]"

record metar =
  mt_named :: "bool option"
  mt_corrected :: bool
  mt_station :: jstr
  mt_day :: nat
  mt_hour :: nat
  mt_minute :: nat
  mt_items :: "metar_item list"
  mt_remarks :: "jstr list"
  mt_equals :: bool

definition time_word :: "nat \<Rightarrow> nat \<Rightarrow> nat \<Rightarrow> jstr" where
  "time_word d h m = dec 2 d @ dec 2 h @ dec 2 m @ js ''Z''"

definition time_text :: "nat \<Rightarrow> nat \<Rightarrow> nat \<Rightarrow> jstr" where
  "time_text d h m = js ''Day '' @ dec 2 d @ js '' at '' @ dec 2 h @ js '':'' @ dec 2 m @ js ''Z''"

definition remark_words :: "jstr list \<Rightarrow> jstr list" where
  "remark_words ws = (if ws = [] then [] else js ''RMK'' # ws)"

definition remark_text :: "jstr \<Rightarrow> jstr" where
  "remark_text original = (case ceilometer original of
     Some runway \<Rightarrow> js ''Runway '' @ runway @ js '' ceilometer: no cloud detected'' | None \<Rightarrow> original)"

definition metar_type :: "metar \<Rightarrow> jstr" where
  "metar_type m = (if mt_named m = Some True then js ''SPECI'' else js ''METAR'')"

definition metar_words :: "metar \<Rightarrow> jstr list" where
  "metar_words m = (if mt_named m = None then [] else [metar_type m])
     @ (if mt_corrected m then [js ''COR''] else [])
     @ [mt_station m, time_word (mt_day m) (mt_hour m) (mt_minute m)]
     @ concat (map item_words (mt_items m)) @ remark_words (mt_remarks m)"

definition valid_metar :: "metar \<Rightarrow> bool" where
  "valid_metar m = (is_station (mt_station m) \<and> mt_day m < 100 \<and> mt_hour m < 100 \<and> mt_minute m < 100
     \<and> list_all valid_item (mt_items m) \<and> list_all report_word (mt_remarks m))"

definition metar_meaning :: "metar \<Rightarrow> (jstr \<times> jstr) list" where
  "metar_meaning m =
     [(js ''Report'', metar_type m @ (if mt_corrected m then js '' COR'' else []) @ js '' for '' @ mt_station m),
      (js ''Observed'', time_text (mt_day m) (mt_hour m) (mt_minute m))]
     @ concat (map item_meaning (mt_items m))
     @ (if mt_remarks m = [] then [] else [(js ''Remarks'', remark_text (join [32] (mt_remarks m)))])"

lemma seen_text_row [simp]: "seen (text_row label value hint) = (js label, value)"
  by (simp add: seen_def text_row_def)

lemma seen_nosig [simp]: "seen (nosig_row label) = (label, js ''No significant change expected'')"
  by (simp add: seen_def nosig_row_def)

lemma metar_item:
  assumes "valid_item i"
  shows "\<exists>r'. metar_loop (item_token i # ts) r = metar_loop ts r' \<and> extends r r' (item_meaning i)"
proof (cases i)
  case (MGroup g)
  with assms have g: "valid_group g" by simp
  have "metar_loop (group_text g # ts) r = metar_loop ts (appendConditionTokenRows (group_text g) [] r)"
    using group_unmarked [OF g] group_upper [OF g] by (simp add: Let_def)
  then show ?thesis using group_appended [OF g, of "[]" r] by (auto simp: MGroup in_context_def)
next
  case MAuto
  have "metar_loop (js ''AUTO'' # ts) r = metar_loop ts r"
    by (simp add: Let_def upper_id silent_group_def js_def is_lower_def)
  with MAuto show ?thesis using extends_refl by auto
next
  case MNosig
  have "metar_loop (js ''NOSIG'' # ts) r = metar_loop ts (add_row (nosig_row (js ''Trend'')) r)"
    by (simp add: Let_def upper_id silent_group_def js_def is_lower_def)
  with MNosig show ?thesis using extends_row [of r "nosig_row (js ''Trend'')"] by auto
next
  case MTempo
  have "metar_loop (js ''TEMPO'' # ts) r = metar_loop ts (add_row (trend_row (js ''TEMPO'')) r)"
    by (simp add: Let_def upper_id silent_group_def js_def is_lower_def trend_marker_def)
  with MTempo show ?thesis using extends_row [of r "trend_row (js ''TEMPO'')"] by (auto simp: trend_row_def)
next
  case MBecmg
  have "metar_loop (js ''BECMG'' # ts) r = metar_loop ts (add_row (trend_row (js ''BECMG'')) r)"
    by (simp add: Let_def upper_id silent_group_def js_def is_lower_def trend_marker_def)
  with MBecmg show ?thesis using extends_row [of r "trend_row (js ''BECMG'')"] by (auto simp: trend_row_def)
qed

lemma metar_items:
  "list_all valid_item is \<Longrightarrow>
     \<exists>r'. metar_loop (map item_token is @ ts) r = metar_loop ts r' \<and> extends r r' (concat (map item_meaning is))"
proof (induction "is" arbitrary: r)
  case (Cons i "is")
  then obtain r1 where r1: "metar_loop (item_token i # map item_token is @ ts) r = metar_loop (map item_token is @ ts) r1"
    "extends r r1 (item_meaning i)" using metar_item [of i "map item_token is @ ts" r] by auto
  obtain r2 where r2: "metar_loop (map item_token is @ ts) r1 = metar_loop ts r2"
    "extends r1 r2 (concat (map item_meaning is))" using Cons by fastforce
  from r1(1) r2(1) extends_trans [OF r1(2) r2(2)] show ?case by (auto simp del: metar_loop.simps)
qed (use extends_refl in auto)

lemma remarks_shown:
  assumes "list_all report_word ws" "ws \<noteq> []" "context = [] \<or> \<not> is_ws (hd context)"
  shows "extends r (appendRemarks (map upper (merge_miles ws)) context r)
    [(context @ js ''Remarks'', remark_text (join [32] ws))]"
proof -
  have "map upper (merge_miles ws) = merge_miles ws" using merged_upper [OF assms(1)] by (simp add: map_idI)
  then have j: "trim (join [32] (map upper (merge_miles ws))) = join [32] ws" "join [32] ws \<noteq> []"
    using join_word [OF assms(2,1)] by (simp_all add: join_merge trim_fixed)
  have "trim (context @ js ''Remarks'') = context @ js ''Remarks''"
    using assms(3) by (intro trim_fixed) (auto simp: hd_append js_def is_ws_def)
  then show ?thesis using j
    by (auto simp: appendRemarks_def extends_def add_row_def remark_text_def seen_def row_def split: option.splits)
qed

lemma upper_RMK: "upper (js ''RMK'') = js ''RMK''" "\<not> silent_group (js ''RMK'')" "\<not> whole_miles (js ''RMK'')"
  using whole_miles_end [of "js ''RMK''"] by (auto simp: upper_id js_def is_lower_def silent_group_def is_digit_def)

lemma metar_end:
  assumes "list_all report_word ws"
  shows "\<exists>r'. metar_loop (merge_miles (remark_words ws)) r = r'
    \<and> extends r r' (if ws = [] then [] else [(js ''Remarks'', remark_text (join [32] ws))])"
proof (cases "ws = []")
  case False
  have "metar_loop (js ''RMK'' # merge_miles ws) r = appendRemarks (map upper (merge_miles ws)) [] r"
    using upper_RMK by simp
  then show ?thesis using remarks_shown [OF assms False, of "[]" r] False merge_plain [OF upper_RMK(3), of ws]
    by (simp add: remark_words_def)
qed (simp add: remark_words_def extends_refl)


lemma not_whole: "\<not> is_digit (last t) \<Longrightarrow> \<not> whole_miles t"
  using whole_miles_end [of t] by blast

lemma literal_whole:
  "\<not> whole_miles (js ''COR'')" "\<not> whole_miles (js ''METAR'')" "\<not> whole_miles (js ''SPECI'')" "\<not> whole_miles (js ''AUTO'')"
  "\<not> whole_miles (js ''NOSIG'')" "\<not> whole_miles (js ''TEMPO'')" "\<not> whole_miles (js ''BECMG'')"
  "\<not> whole_miles (js ''TAF'')" "\<not> whole_miles (js ''AMD'')"
  by (rule not_whole, simp add: js_def is_digit_def)+

lemma merge_items: "list_all valid_item is \<Longrightarrow> merge_miles (concat (map item_words is) @ ts) = map item_token is @ merge_miles ts"
proof (induction "is")
  case (Cons i "is")
  show ?case
  proof (cases i)
    case (MGroup g)
    then show ?thesis using Cons merge_group [of g] by simp
  qed (use Cons in \<open>simp_all add: merge_plain literal_whole\<close>)
qed simp

lemma literal_words:
  "report_word (js ''RMK'')" "report_word (js ''COR'')" "report_word (js ''METAR'')" "report_word (js ''SPECI'')"
  "report_word (js ''AUTO'')" "report_word (js ''NOSIG'')" "report_word (js ''TEMPO'')" "report_word (js ''BECMG'')"
  "report_word (js ''TAF'')" "report_word (js ''AMD'')"
  by (simp_all add: report_word_chars js_def is_lower_def is_ws_def)

lemma item_words_ok: "list_all valid_item is \<Longrightarrow> list_all report_word (concat (map item_words is))"
proof (induction "is")
  case (Cons i "is")
  then show ?case by (cases i) (auto simp: literal_words group_words_ok)
qed simp

lemma station_word: "is_station t \<Longrightarrow> report_word t \<and> \<not> whole_miles t \<and> upper t = t \<and> ci_units t = t"
proof -
  assume t: "is_station t"
  then have u: "list_all is_upper t" "length t = 4" by (auto simp: is_station_def)
  have l: "\<not> is_lower c" if "c \<in> set t" for c using u(1) that by (auto simp: list_all_iff is_upper_def is_lower_def)
  have "upper t = t" by (rule upper_id) (use u l in \<open>auto simp: list_all_iff is_upper_def\<close>)
  moreover have "ci_units t = t" using l by (simp add: ci_units_def map_idI)
  moreover have "report_word t" using u word_chars_upper by (auto simp: report_word_chars)
  ultimately show ?thesis using whole_miles_end [of t] u by auto
qed

lemma time_word_ok:
  assumes "d < 100" "h < 100" "m < 100"
  shows "report_word (time_word d h m)" "\<not> whole_miles (time_word d h m)"
    "day_time (time_word d h m) = Some (dec 2 d, dec 2 h, dec 2 m)"
proof -
  obtain a b where t1: "dec 2 d = [a, b]" "is_digit a" "is_digit b" using dec2 assms(1) by blast
  obtain c e where t2: "dec 2 h = [c, e]" "is_digit c" "is_digit e" using dec2 assms(2) by blast
  obtain f g where t3: "dec 2 m = [f, g]" "is_digit f" "is_digit g" using dec2 assms(3) by blast
  have t: "dec 2 d = [a, b]" "dec 2 h = [c, e]" "dec 2 m = [f, g]" "list_all is_digit [a, b, c, e, f, g]"
    using t1 t2 t3 by simp_all
  show "report_word (time_word d h m)" using t(1-3) word_chars_digits [OF t(4)]
    by (simp add: time_word_def report_word_chars js_def is_lower_def is_ws_def)
  show "\<not> whole_miles (time_word d h m)" by (rule not_whole) (simp add: time_word_def js_def is_digit_def)
  show "day_time (time_word d h m) = Some (dec 2 d, dec 2 h, dec 2 m)"
    using t by (simp add: time_word_def day_time_def digits_n_def cut_def)
qed


text \<open>The tokens that \<open>interpretMetar\<close> and \<open>interpretTaf\<close> begin with.\<close>

lemma metar_tokens:
  assumes "valid_metar m"
  shows "weatherTokens (report_text (metar_words m) (mt_equals m)) =
     (if mt_named m = None then [] else [metar_type m]) @ (if mt_corrected m then [js ''COR''] else [])
     @ mt_station m # time_word (mt_day m) (mt_hour m) (mt_minute m)
     # map item_token (mt_items m) @ merge_miles (remark_words (mt_remarks m))"
proof -
  have v: "is_station (mt_station m)" "mt_day m < 100" "mt_hour m < 100" "mt_minute m < 100"
    "list_all valid_item (mt_items m)" "list_all report_word (mt_remarks m)" using assms by (auto simp: valid_metar_def)
  note st = station_word [OF v(1)] and tw = time_word_ok [OF v(2-4)]
  have ty: "report_word (metar_type m)" "\<not> whole_miles (metar_type m)"
    by (simp_all add: metar_type_def literal_words literal_whole)
  have "metar_words m \<noteq> []" by (simp add: metar_words_def)
  moreover have "list_all report_word (metar_words m)"
    using st tw ty v(5,6) item_words_ok by (simp add: metar_words_def remark_words_def literal_words)
  moreover have "merge_miles (mt_station m # time_word (mt_day m) (mt_hour m) (mt_minute m)
       # concat (map item_words (mt_items m)) @ remark_words (mt_remarks m))
     = mt_station m # time_word (mt_day m) (mt_hour m) (mt_minute m)
       # map item_token (mt_items m) @ merge_miles (remark_words (mt_remarks m))"
    using st tw(2) merge_items [OF v(5)] by (simp add: merge_plain)
  ultimately show ?thesis
    using ty(2) by (auto simp: tokens_of_text metar_words_def merge_plain literal_whole)
qed

text \<open>
  C38: A METAR or SPECI that is written as the standard says is shown as what it says. For every
  report made of a station, a time, groups of every kind the page knows (wind in knots or metres per
  second, calm or variable, with gusts; visibility in metres and in miles with fractions; weather,
  clouds, temperatures, pressure), trends and remarks, with or without the type, a correction and the
  closing equals sign, \<open>interpretMetar\<close> gives the rows of the report, the groups in their order with
  the meaning of each, and no group is left uninterpreted.
\<close>
theorem metar_shown:
  assumes "valid_metar m"
  shows "map_option (map seen) (interpretMetar (report_text (metar_words m) (mt_equals m))) = Some (metar_meaning m)"
proof -
  have v: "is_station (mt_station m)" "mt_day m < 100" "mt_hour m < 100" "mt_minute m < 100"
    "list_all valid_item (mt_items m)" "list_all report_word (mt_remarks m)" using assms by (auto simp: valid_metar_def)
  note st = station_word [OF v(1)] and tw = time_word_ok [OF v(2-4)]
  define r0 where "r0 = \<lparr>wp_rows = metar_head_rows (metar_type m) (mt_corrected m) (mt_station m)
     (dec 2 (mt_day m), dec 2 (mt_hour m), dec 2 (mt_minute m)), wp_unparsed = []\<rparr>"
  let ?rest = "map item_token (mt_items m) @ merge_miles (remark_words (mt_remarks m))"
  have c: "mt_station m \<noteq> js ''COR''" "mt_station m \<noteq> js ''METAR''" "mt_station m \<noteq> js ''SPECI''"
    using v(1) by (auto simp: is_station_def)
  have "interpretMetar (report_text (metar_words m) (mt_equals m)) = Some (add_unparsed METAR_UNPARSED (metar_loop ?rest r0))"
    using c v(1) tw(3) st
    by (cases "mt_named m") (auto simp: interpretMetar_def metar_tokens [OF assms] Let_def head_is_def head_token_def
      metar_type_def ci_units_def js_def is_lower_def upper_id r0_def)
  moreover obtain r1 where r1: "metar_loop ?rest r0 = metar_loop (merge_miles (remark_words (mt_remarks m))) r1"
    "extends r0 r1 (concat (map item_meaning (mt_items m)))" using metar_items [OF v(5)] by blast
  moreover obtain r2 where r2: "metar_loop (merge_miles (remark_words (mt_remarks m))) r1 = r2"
    "extends r1 r2 (if mt_remarks m = [] then [] else [(js ''Remarks'', remark_text (join [32] (mt_remarks m)))])"
    using metar_end [OF v(6)] by blast
  moreover have "extends r0 r2 (concat (map item_meaning (mt_items m))
      @ (if mt_remarks m = [] then [] else [(js ''Remarks'', remark_text (join [32] (mt_remarks m)))]))"
    by (rule extends_trans [OF r1(2) r2(2)])
  ultimately show ?thesis
    by (simp add: extends_def r0_def add_unparsed_def metar_head_rows_def metar_meaning_def time_text_def)
qed


definition sample_metar :: metar where
  "sample_metar = \<lparr>mt_named = Some False, mt_corrected = False, mt_station = js ''LIRF'', mt_day = 12, mt_hour = 18,
     mt_minute = 50,
     mt_items = [MAuto, MGroup (GWind (Some 240) 15 (Some 27) False), MGroup (GMiles LessThan (Mixed 1 1 2)),
       MGroup (GPhenomenon (Some False) True [''SH'', ''RA'']), MGroup (GCloud ''BKN'' (Some (Some 25)) (Some ''CB'')),
       MGroup (GTemp (False, 3) (True, 1)), MGroup (GQnh 1013), MNosig],
     mt_remarks = [js ''QFE1010''], mt_equals = True\<rparr>"

lemma sample_valid: "valid_metar sample_metar"
  by (simp add: sample_metar_def valid_metar_def is_station_def report_word_chars literal is_upper_def is_lower_def is_ws_def
    known_def phenomena_def amounts_def)

theorem metar_shown_witness:
  "map_option (map seen) (interpretMetar (report_text (metar_words sample_metar) (mt_equals sample_metar)))
     = Some (metar_meaning sample_metar)
   \<and> length (metar_meaning sample_metar) = 10"
  using metar_shown [OF sample_valid]
  by (simp add: metar_meaning_def sample_metar_def)

subsection \<open>TAF\<close>

type_synonym taf_period = "nat \<times> nat \<times> nat \<times> nat"

datatype taf_item = TGroup wx_group | TNosig | TFrom nat nat nat | TChange bool taf_period | TProb nat bool taf_period

definition period_word :: "taf_period \<Rightarrow> jstr" where
  "period_word = (\<lambda>(d1, h1, d2, h2). dec 2 d1 @ dec 2 h1 @ js ''/'' @ dec 2 d2 @ dec 2 h2)"

definition period_meaning :: "taf_period \<Rightarrow> jstr" where
  "period_meaning = (\<lambda>(d1, h1, d2, h2). js ''Day '' @ dec 2 d1 @ js '' '' @ dec 2 h1 @ js '':00Z to day ''
     @ dec 2 d2 @ js '' '' @ dec 2 h2 @ js '':00Z'')"

definition valid_period :: "taf_period \<Rightarrow> bool" where
  "valid_period = (\<lambda>(d1, h1, d2, h2). d1 < 100 \<and> h1 < 100 \<and> d2 < 100 \<and> h2 < 100)"

definition change_word :: "bool \<Rightarrow> jstr" where
  "change_word temporary = (if temporary then js ''TEMPO'' else js ''BECMG'')"

primrec taf_words :: "taf_item \<Rightarrow> jstr list" where
  "taf_words (TGroup g) = group_words g"
| "taf_words TNosig = [js ''NOSIG'']"
| "taf_words (TFrom d h m) = [js ''FM'' @ dec 2 d @ dec 2 h @ dec 2 m]"
| "taf_words (TChange temporary p) = [change_word temporary, period_word p]"
| "taf_words (TProb n temporary p) =
     [js ''PROB'' @ dec 2 n] @ (if temporary then [js ''TEMPO''] else []) @ [period_word p]"

primrec taf_tokens :: "taf_item \<Rightarrow> jstr list" where
  "taf_tokens (TGroup g) = [group_text g]"
| "taf_tokens TNosig = [js ''NOSIG'']"
| "taf_tokens (TFrom d h m) = [js ''FM'' @ dec 2 d @ dec 2 h @ dec 2 m]"
| "taf_tokens (TChange temporary p) = [change_word temporary, period_word p]"
| "taf_tokens (TProb n temporary p) =
     [js ''PROB'' @ dec 2 n] @ (if temporary then [js ''TEMPO''] else []) @ [period_word p]"

primrec valid_taf_item :: "taf_item \<Rightarrow> bool" where
  "valid_taf_item (TGroup g) = valid_group g"
| "valid_taf_item TNosig = True"
| "valid_taf_item (TFrom d h m) = (d < 100 \<and> h < 100 \<and> m < 100)"
| "valid_taf_item (TChange temporary p) = valid_period p"
| "valid_taf_item (TProb n temporary p) = (n < 100 \<and> valid_period p)"

text \<open>The part of the forecast that an item begins, and what is shown for it.\<close>

definition from_meaning :: "nat \<Rightarrow> nat \<Rightarrow> nat \<Rightarrow> jstr" where
  "from_meaning d h m = js ''From day '' @ dec 2 d @ js '' at '' @ dec 2 h @ js '':'' @ dec 2 m @ js ''Z''"

primrec next_section :: "taf_item \<Rightarrow> jstr \<Rightarrow> jstr" where
  "next_section (TGroup g) s = s"
| "next_section TNosig s = s"
| "next_section (TFrom d h m) s = from_meaning d h m"
| "next_section (TChange temporary p) s = (if temporary then js ''Temporary'' else js ''Becoming'')"
| "next_section (TProb n temporary p) s =
     js ''Probability '' @ dec 2 n @ (if temporary then js ''% temporary'' else js ''%'')"

primrec taf_row :: "taf_item \<Rightarrow> jstr \<Rightarrow> jstr \<times> jstr" where
  "taf_row (TGroup g) s = in_context (s @ [32]) g"
| "taf_row TNosig s = (s @ js '' trend'', js ''No significant change expected'')"
| "taf_row (TFrom d h m) s = (js ''From'', from_meaning d h m)"
| "taf_row (TChange temporary p) s = (next_section (TChange temporary p) s, period_meaning p)"
| "taf_row (TProb n temporary p) s = (next_section (TProb n temporary p) s, period_meaning p)"

fun taf_rows :: "jstr \<Rightarrow> taf_item list \<Rightarrow> (jstr \<times> jstr) list" where
  "taf_rows s [] = []"
| "taf_rows s (i # is) = taf_row i s # taf_rows (next_section i s) is"

definition section_ok :: "jstr \<Rightarrow> bool" where
  "section_ok s = (s \<noteq> [] \<and> \<not> is_ws (hd s))"

lemma next_section_ok: "section_ok s \<Longrightarrow> section_ok (next_section i s)"
  by (cases i) (auto simp: section_ok_def from_meaning_def js_def is_ws_def)

lemma period_read:
  assumes "valid_period p"
  shows "validityPeriod (period_word p) = period_meaning p" "report_word (period_word p)" "\<not> whole_miles (period_word p)"
proof -
  obtain d1 h1 d2 h2 where p: "p = (d1, h1, d2, h2)" by (cases p)
  with assms have b: "d1 < 100" "h1 < 100" "d2 < 100" "h2 < 100" by (auto simp: valid_period_def)
  obtain a b where t1: "dec 2 d1 = [a, b]" "is_digit a" "is_digit b" using dec2 b(1) by blast
  obtain c d where t2: "dec 2 h1 = [c, d]" "is_digit c" "is_digit d" using dec2 b(2) by blast
  obtain e f where t3: "dec 2 d2 = [e, f]" "is_digit e" "is_digit f" using dec2 b(3) by blast
  obtain g h where t4: "dec 2 h2 = [g, h]" "is_digit g" "is_digit h" using dec2 b(4) by blast
  note t = t1 t2 t3 t4
  have w: "word_chars [a, b, c, d, e, f, g, h]" using t by (intro word_chars_digits) simp
  show "validityPeriod (period_word p) = period_meaning p"
    using t by (simp add: p period_word_def period_meaning_def validityPeriod_def digits_n_def cut_def js_def)
  show "report_word (period_word p)"
    using t w by (simp add: p period_word_def report_word_chars js_def is_lower_def is_ws_def)
  show "\<not> whole_miles (period_word p)" using whole_miles_end [of "period_word p"] t by (auto simp: p period_word_def)
qed

lemma period_ne: "period_meaning p \<noteq> []"
  by (cases p) (simp add: period_meaning_def js_def)

lemma digit_words:
  assumes "n < 100"
  shows "report_word (js ''PROB'' @ dec 2 n)" "\<not> whole_miles (js ''PROB'' @ dec 2 n)" "upper (js ''PROB'' @ dec 2 n) = js ''PROB'' @ dec 2 n"
    "digits_n 2 (dec 2 n)"
proof -
  obtain a b where t: "dec 2 n = [a, b]" "is_digit a" "is_digit b" using dec2 assms by blast
  show "report_word (js ''PROB'' @ dec 2 n)" "\<not> whole_miles (js ''PROB'' @ dec 2 n)" "digits_n 2 (dec 2 n)"
    using t whole_miles_end [of "js ''PROB'' @ dec 2 n"]
    by (auto simp: report_word_chars js_def is_lower_def is_ws_def is_digit_def digits_n_def)
  then show "upper (js ''PROB'' @ dec 2 n) = js ''PROB'' @ dec 2 n"
    by (intro upper_id) (auto simp: report_word_def)
qed

lemma from_word:
  assumes "d < 100" "h < 100" "m < 100"
  shows "report_word (js ''FM'' @ dec 2 d @ dec 2 h @ dec 2 m)" "\<not> whole_miles (js ''FM'' @ dec 2 d @ dec 2 h @ dec 2 m)"
    "upper (js ''FM'' @ dec 2 d @ dec 2 h @ dec 2 m) = js ''FM'' @ dec 2 d @ dec 2 h @ dec 2 m"
    "fromTime (js ''FM'' @ dec 2 d @ dec 2 h @ dec 2 m) = from_meaning d h m"
proof -
  obtain a b where t1: "dec 2 d = [a, b]" "is_digit a" "is_digit b" using dec2 assms(1) by blast
  obtain c e where t2: "dec 2 h = [c, e]" "is_digit c" "is_digit e" using dec2 assms(2) by blast
  obtain f g where t3: "dec 2 m = [f, g]" "is_digit f" "is_digit g" using dec2 assms(3) by blast
  note t = t1 t2 t3
  have w: "word_chars [a, b, c, e, f, g]" using t by (intro word_chars_digits) simp
  show r: "report_word (js ''FM'' @ dec 2 d @ dec 2 h @ dec 2 m)"
    using t w by (simp add: report_word_chars js_def is_lower_def is_ws_def)
  show "\<not> whole_miles (js ''FM'' @ dec 2 d @ dec 2 h @ dec 2 m)"
    using t whole_miles_end [of "js ''FM'' @ dec 2 d @ dec 2 h @ dec 2 m"] by (auto simp: js_def)
  show "upper (js ''FM'' @ dec 2 d @ dec 2 h @ dec 2 m) = js ''FM'' @ dec 2 d @ dec 2 h @ dec 2 m"
    by (rule upper_id) (use r in \<open>auto simp: report_word_def\<close>)
  show "fromTime (js ''FM'' @ dec 2 d @ dec 2 h @ dec 2 m) = from_meaning d h m"
    using t by (simp add: fromTime_def from_meaning_def digits_n_def cut_def js_def)
qed


lemma change_words: "report_word (change_word x)" "\<not> whole_miles (change_word x)" "upper (change_word x) = change_word x"
proof -
  show "report_word (change_word x)" "\<not> whole_miles (change_word x)"
    by (simp_all add: change_word_def literal_words literal_whole)
  show "upper (change_word x) = change_word x"
    by (rule upper_id) (simp add: change_word_def js_def is_lower_def)
qed

lemma fixed_words_time: "fromTime (change_word x) = []" "fromTime (js ''NOSIG'') = []" "fromTime (js ''RMK'') = []"
  "fromTime (js ''PROB'' @ t) = []"
  by (auto simp: change_word_def fromTime_def js_def)

lemma seen_change: "p \<noteq> [] \<Longrightarrow> seen (change_row token section p) = (section, p)"
  and seen_probability: "p \<noteq> [] \<Longrightarrow> seen (probability_row section p) = (section, p)"
  by (simp_all add: seen_def change_row_def probability_row_def)

lemma taf_item:
  assumes "valid_taf_item i" "section_ok s"
  shows "\<exists>r'. taf_loop (taf_tokens i @ ts) s r = taf_loop ts (next_section i s) r' \<and> extends r r' [taf_row i s]"
proof (cases i)
  case (TGroup g)
  with assms have g: "valid_group g" by simp
  have "taf_loop (group_text g # ts) s r = taf_loop ts s (appendConditionTokenRows (group_text g) (s @ [32]) r)"
    using group_unmarked [OF g] group_upper [OF g] by (subst taf_loop.simps(2)) (auto simp: Let_def)
  then show ?thesis using group_appended [OF g, of "s @ [32]" r] assms(2) TGroup by (auto simp: section_ok_def)
next
  case TNosig
  have "taf_loop (js ''NOSIG'' # ts) s r = taf_loop ts s (add_row (nosig_row (s @ js '' trend'')) r)"
    by (subst taf_loop.simps(2)) (simp add: Let_def upper_id fromTime_def js_def is_lower_def)
  then show ?thesis using extends_row [of r "nosig_row (s @ js '' trend'')"] TNosig by auto
next
  case (TFrom d h m)
  let ?t = "js ''FM'' @ dec 2 d @ dec 2 h @ dec 2 m"
  have v: "d < 100" "h < 100" "m < 100" using assms(1) TFrom by auto
  have "?t \<noteq> js ''RMK''" "from_meaning d h m \<noteq> []" by (simp_all add: js_def from_meaning_def)
  then have "taf_loop (?t # ts) s r = taf_loop ts (from_meaning d h m) (add_row (from_row (from_meaning d h m)) r)"
    using from_word [OF v] by (subst taf_loop.simps(2)) (simp add: Let_def)
  then show ?thesis using extends_row [of r "from_row (from_meaning d h m)"] TFrom by (auto simp: from_row_def)
next
  case (TChange temporary p)
  have v: "valid_period p" using assms(1) TChange by simp
  let ?s = "if temporary then js ''Temporary'' else js ''Becoming''"
  have c: "change_word temporary \<noteq> js ''RMK''" "change_word temporary = js ''TEMPO'' \<or> change_word temporary = js ''BECMG''"
    "change_word temporary = js ''TEMPO'' \<longleftrightarrow> temporary" by (auto simp: change_word_def)
  have "taf_loop (change_word temporary # period_word p # ts) s r
    = taf_loop ts ?s (add_row (change_row (change_word temporary) ?s (period_meaning p)) r)"
    using c change_words(3) [of temporary] fixed_words_time(1) [of temporary] period_read(1) [OF v] period_ne [of p]
    by (subst taf_loop.simps(2)) (simp add: Let_def head_token_def)
  then show ?thesis using extends_row [of r "change_row (change_word temporary) ?s (period_meaning p)"] TChange
    by (auto simp: seen_change period_ne)
next
  case (TProb n temporary p)
  have v: "valid_period p" "n < 100" using assms(1) TProb by simp_all
  let ?s = "next_section i s"
  have u: "upper (js ''TEMPO'') = js ''TEMPO''" using change_words(3) [of True] by (simp add: change_word_def)
  have pw: "upper (period_word p) \<noteq> js ''TEMPO''"
  proof -
    have "upper (period_word p) = period_word p"
      by (rule upper_id) (use period_read(2) [OF v(1)] in \<open>auto simp: report_word_def\<close>)
    moreover have "period_word p \<noteq> js ''TEMPO''" using period_read(1) [OF v(1)] period_ne [of p]
      by (auto simp: validityPeriod_def js_def digits_n_def is_digit_def split: if_splits)
    ultimately show ?thesis by simp
  qed
  have m: "js ''PROB'' @ t \<noteq> js ''RMK''" "js ''PROB'' @ t \<noteq> js ''TEMPO''" "js ''PROB'' @ t \<noteq> js ''BECMG''"
    "take 4 (js ''PROB'' @ t) = js ''PROB''" "drop 4 (js ''PROB'' @ t) = t" for t by (simp_all add: js_def)
  have "taf_loop (taf_tokens i @ ts) s r = taf_loop ts ?s (add_row (probability_row ?s (period_meaning p)) r)"
    using digit_words [OF v(2)] fixed_words_time(4) [of "dec 2 n"] m [of "dec 2 n"] u pw period_read(1) [OF v(1)] period_ne [of p] TProb
    by (cases temporary) (simp_all add: taf_loop.simps(2) [of "js ''PROB'' @ dec 2 n"] Let_def head_token_def)
  then show ?thesis using extends_row [of r "probability_row ?s (period_meaning p)"] TProb
    by (auto simp: seen_probability period_ne)
qed

lemma taf_items:
  "list_all valid_taf_item is \<Longrightarrow> section_ok s \<Longrightarrow>
     \<exists>r' s'. taf_loop (concat (map taf_tokens is) @ ts) s r = taf_loop ts s' r' \<and> section_ok s'
       \<and> s' = fold next_section is s \<and> extends r r' (taf_rows s is)"
proof (induction "is" arbitrary: r s)
  case (Cons i "is")
  then obtain r1 where r1: "taf_loop (taf_tokens i @ concat (map taf_tokens is) @ ts) s r
      = taf_loop (concat (map taf_tokens is) @ ts) (next_section i s) r1" "extends r r1 [taf_row i s]"
    using taf_item [of i s "concat (map taf_tokens is) @ ts" r] by auto
  obtain r2 where r2: "taf_loop (concat (map taf_tokens is) @ ts) (next_section i s) r1
      = taf_loop ts (fold next_section is (next_section i s)) r2" "section_ok (fold next_section is (next_section i s))"
    "extends r1 r2 (taf_rows (next_section i s) is)"
    using Cons next_section_ok by fastforce
  from r1(1) r2(1,2) extends_trans [OF r1(2) r2(3)] show ?case by auto
qed (use extends_refl in auto)

record taf =
  tf_named :: bool
  tf_change :: "jstr option"
  tf_station :: jstr
  tf_day :: nat
  tf_hour :: nat
  tf_minute :: nat
  tf_period :: taf_period
  tf_items :: "taf_item list"
  tf_remarks :: "jstr list"
  tf_equals :: bool

definition taf_report :: "taf \<Rightarrow> jstr list" where
  "taf_report f = (if tf_named f then [js ''TAF''] else []) @ (case tf_change f of None \<Rightarrow> [] | Some t \<Rightarrow> [t])
     @ [tf_station f, time_word (tf_day f) (tf_hour f) (tf_minute f), period_word (tf_period f)]
     @ concat (map taf_words (tf_items f)) @ remark_words (tf_remarks f)"

definition valid_taf :: "taf \<Rightarrow> bool" where
  "valid_taf f = (is_station (tf_station f) \<and> tf_day f < 100 \<and> tf_hour f < 100 \<and> tf_minute f < 100
     \<and> (case tf_change f of None \<Rightarrow> True | Some t \<Rightarrow> t = js ''AMD'' \<or> t = js ''COR'')
     \<and> valid_period (tf_period f) \<and> list_all valid_taf_item (tf_items f) \<and> list_all report_word (tf_remarks f))"

definition taf_meaning :: "taf \<Rightarrow> (jstr \<times> jstr) list" where
  "taf_meaning f =
     (case tf_change f of None \<Rightarrow> [(js ''Report'', js ''TAF for '' @ tf_station f)]
      | Some t \<Rightarrow> [(js ''Report'', js ''TAF '' @ t), (js ''Station'', tf_station f)])
     @ [(js ''Issued'', time_text (tf_day f) (tf_hour f) (tf_minute f)), (js ''Valid'', period_meaning (tf_period f)),
        (js ''Base forecast'', js ''Initial forecast conditions'')]
     @ taf_rows (js ''Base forecast'') (tf_items f)
     @ (if tf_remarks f = [] then []
        else [(fold next_section (tf_items f) (js ''Base forecast'') @ js '' Remarks'',
          remark_text (join [32] (tf_remarks f)))])"

lemma merge_taf_items:
  "list_all valid_taf_item is \<Longrightarrow> merge_miles (concat (map taf_words is) @ ts) = concat (map taf_tokens is) @ merge_miles ts"
proof (induction "is")
  case (Cons i "is")
  then show ?case
    by (cases i) (auto simp: merge_group merge_plain literal_whole from_word change_words period_read digit_words)
qed simp

lemma taf_words_ok: "list_all valid_taf_item is \<Longrightarrow> list_all report_word (concat (map taf_words is))"
proof (induction "is")
  case (Cons i "is")
  then show ?case
    by (cases i) (auto simp: literal_words group_words_ok from_word change_words period_read digit_words)
qed simp


lemma taf_weather_tokens:
  assumes "valid_taf f"
  shows "weatherTokens (report_text (taf_report f) (tf_equals f)) =
     (if tf_named f then [js ''TAF''] else []) @ (case tf_change f of None \<Rightarrow> [] | Some t \<Rightarrow> [t])
     @ tf_station f # time_word (tf_day f) (tf_hour f) (tf_minute f) # period_word (tf_period f)
     # concat (map taf_tokens (tf_items f)) @ merge_miles (remark_words (tf_remarks f))"
proof -
  have v: "is_station (tf_station f)" "tf_day f < 100" "tf_hour f < 100" "tf_minute f < 100" "valid_period (tf_period f)"
    "list_all valid_taf_item (tf_items f)" "list_all report_word (tf_remarks f)" using assms by (auto simp: valid_taf_def)
  note st = station_word [OF v(1)] and tw = time_word_ok [OF v(2-4)] and pw = period_read [OF v(5)]
  have ch: "report_word t \<and> \<not> whole_miles t" if "tf_change f = Some t" for t
    using assms that literal_words literal_whole by (auto simp: valid_taf_def)
  have "taf_report f \<noteq> []" by (simp add: taf_report_def)
  moreover have "list_all report_word (taf_report f)"
    using st tw pw ch v(6,7) taf_words_ok by (auto simp: taf_report_def remark_words_def literal_words split: option.splits)
  moreover have "merge_miles (tf_station f # time_word (tf_day f) (tf_hour f) (tf_minute f) # period_word (tf_period f)
       # concat (map taf_words (tf_items f)) @ remark_words (tf_remarks f))
     = tf_station f # time_word (tf_day f) (tf_hour f) (tf_minute f) # period_word (tf_period f)
       # concat (map taf_tokens (tf_items f)) @ merge_miles (remark_words (tf_remarks f))"
    using st tw(2) pw(3) merge_taf_items [OF v(6)] by (simp add: merge_plain)
  ultimately show ?thesis
    using ch by (auto simp: tokens_of_text taf_report_def merge_plain literal_whole split: option.splits)
qed

lemma taf_end:
  assumes "list_all report_word ws" "section_ok s"
  shows "\<exists>r'. taf_loop (merge_miles (remark_words ws)) s r = r'
    \<and> extends r r' (if ws = [] then [] else [(s @ js '' Remarks'', remark_text (join [32] ws))])"
proof (cases "ws = []")
  case False
  have "taf_loop (js ''RMK'' # merge_miles ws) s r = appendRemarks (map upper (merge_miles ws)) (s @ [32]) r"
    using upper_RMK by (subst taf_loop.simps(2)) (simp add: Let_def)
  moreover have "(s @ [32]) @ js ''Remarks'' = s @ js '' Remarks''" by (simp add: js_def)
  ultimately show ?thesis
    using remarks_shown [OF assms(1) False, of "s @ [32]" r] assms(2) False merge_plain [OF upper_RMK(3), of ws]
    by (simp add: remark_words_def section_ok_def)
qed (simp add: remark_words_def extends_refl)

text \<open>
  C39: A TAF that is written as the standard says is shown as what it says: \<open>interpretTaf\<close> gives the
  rows of the head, then those of the groups, the changes (FM, TEMPO, BECMG, PROB, PROB with TEMPO)
  and the remarks in their order, with every group under the label of the part of the forecast that
  it belongs to, and leaves no group uninterpreted.
\<close>
theorem taf_shown:
  assumes "valid_taf f"
  shows "map_option (map seen) (interpretTaf (report_text (taf_report f) (tf_equals f))) = Some (taf_meaning f)"
proof -
  have v: "is_station (tf_station f)" "tf_day f < 100" "tf_hour f < 100" "tf_minute f < 100" "valid_period (tf_period f)"
    "list_all valid_taf_item (tf_items f)" "list_all report_word (tf_remarks f)"
    "case tf_change f of None \<Rightarrow> True | Some t \<Rightarrow> t = js ''AMD'' \<or> t = js ''COR''" using assms by (auto simp: valid_taf_def)
  note st = station_word [OF v(1)] and tw = time_word_ok [OF v(2-4)] and pw = period_read [OF v(5)]
  define r0 where "r0 = \<lparr>wp_rows = taf_head_rows (tf_change f) (tf_station f)
     (dec 2 (tf_day f), dec 2 (tf_hour f), dec 2 (tf_minute f)) (period_meaning (tf_period f)), wp_unparsed = []\<rparr>"
  let ?remarks = "merge_miles (remark_words (tf_remarks f))"
  let ?rest = "concat (map taf_tokens (tf_items f)) @ ?remarks"
  let ?last = "fold next_section (tf_items f) BASE_FORECAST"
  have c: "tf_station f \<noteq> js ''COR''" "tf_station f \<noteq> js ''AMD''" "tf_station f \<noteq> js ''TAF''"
    using v(1) by (auto simp: is_station_def)
  have "interpretTaf (report_text (taf_report f) (tf_equals f)) = Some (add_unparsed TAF_UNPARSED (taf_loop ?rest BASE_FORECAST r0))"
    using c v(1,8) tw(3) st pw(1) period_ne [of "tf_period f"]
    by (cases "tf_named f"; cases "tf_change f") (auto simp: interpretTaf_def taf_weather_tokens [OF assms] Let_def head_is_def head_token_def
      ci_units_def js_def is_lower_def upper_id r0_def)
  moreover have b: "section_ok BASE_FORECAST" by (simp add: section_ok_def BASE_FORECAST_def js_def is_ws_def)
  moreover obtain r1 where r1: "taf_loop ?rest BASE_FORECAST r0 = taf_loop ?remarks ?last r1" "section_ok ?last"
    "extends r0 r1 (taf_rows BASE_FORECAST (tf_items f))" using taf_items [OF v(6) b] by blast
  moreover obtain r2 where r2: "taf_loop ?remarks ?last r1 = r2" "extends r1 r2
      (if tf_remarks f = [] then [] else [(?last @ js '' Remarks'', remark_text (join [32] (tf_remarks f)))])"
    using taf_end [OF v(7) r1(2)] by blast
  moreover have "extends r0 r2 (taf_rows BASE_FORECAST (tf_items f)
      @ (if tf_remarks f = [] then [] else [(?last @ js '' Remarks'', remark_text (join [32] (tf_remarks f)))]))"
    by (rule extends_trans [OF r1(3) r2(2)])
  ultimately show ?thesis
    by (cases "tf_change f") (simp_all add: extends_def r0_def add_unparsed_def taf_head_rows_def taf_meaning_def time_text_def
      BASE_FORECAST_def)
qed

definition sample_taf :: taf where
  "sample_taf = \<lparr>tf_named = True, tf_change = Some (js ''AMD''), tf_station = js ''EGLL'', tf_day = 12, tf_hour = 11,
     tf_minute = 0, tf_period = (12, 12, 13, 18),
     tf_items = [TGroup (GWind None 3 None True), TGroup GCavok, TChange True (12, 14, 12, 18),
       TGroup (GPhenomenon None False [''RA'']), TProb 30 True (12, 16, 12, 17), TGroup (GVis 800),
       TFrom 13 6 30, TGroup (GCloud ''OVC'' (Some (Some 8)) None)],
     tf_remarks = [], tf_equals = False\<rparr>"

lemma sample_taf_valid: "valid_taf sample_taf"
  by (simp add: sample_taf_def valid_taf_def is_station_def literal is_upper_def known_def phenomena_def amounts_def
    valid_period_def)

theorem taf_shown_witness:
  "map_option (map seen) (interpretTaf (report_text (taf_report sample_taf) (tf_equals sample_taf))) = Some (taf_meaning sample_taf)
   \<and> length (taf_meaning sample_taf) = 13"
  using taf_shown [OF sample_taf_valid]
  by (simp add: taf_meaning_def sample_taf_def)

end
