(* ===== verification/LocalWeb.thy ===== *)
theory LocalWeb
  imports Agent Ts2Router
begin

section \<open>The local web server (proxy/local-web-server.js, proxy/websocket-commands.js)\<close>

text \<open>
  The agent serves the page to the browsers of its own computer and takes their commands from a
  WebSocket. The set of clients is kept in the order of insertion; sockets are numbers, and
  \<open>lw_open\<close> are those whose state is \<open>OPEN\<close>. The library \<open>ws\<close> completes an upgrade (\<open>Upgraded\<close>) and
  closes a connection whose frame exceeds \<open>maxPayload\<close>, which is the event of an error.

  Calls of the rest of the program are outputs (\<open>local_call\<close>); what they return and what the getters
  give comes with the event (\<open>web_view\<close>; \<open>wv_done\<close> is \<open>None\<close> when the call throws, which the handler of
  messages catches). A text that a call says later, or at once, is the event \<open>SystemText\<close>. The files
  of the page (static-web.js) are left out.
\<close>

definition DEFAULT_MAX_JSON_BYTES :: nat where
  "DEFAULT_MAX_JSON_BYTES = 16 * 1024"

definition DEFAULT_RATE_WINDOW_MS :: int where
  "DEFAULT_RATE_WINDOW_MS = 10000"

definition DEFAULT_MAX_MESSAGES_PER_WINDOW :: nat where
  "DEFAULT_MAX_MESSAGES_PER_WINDOW = 240"

record local_rate =
  lr_windowStartMs :: int
  lr_messages :: nat

record local_web =
  lw_clients :: "(nat, local_rate) jmap"
  lw_open :: "nat list"

record local_config =
  lc_port :: nat
  lc_lanIp :: jstr
  lc_maxJsonBytes :: nat
  lc_rateWindowMs :: int
  lc_maxMessages :: nat

text \<open>
  \<open>wv_subscribed\<close> is the error of \<open>addSubscription\<close>, \<open>None\<close> when there is none. \<open>we_parse\<close> is \<open>JSON.parse\<close>,
  \<open>we_sine i\<close> the rounded sample \<open>i\<close> of the test tone.
\<close>

record web_view =
  wv_now :: int
  wv_status :: payload
  wv_init :: payload
  wv_done :: "bool option"
  wv_subscribed :: "jstr option"
  wv_notifications :: payload

record web_env =
  we_config :: local_config
  we_parse :: "jstr \<Rightarrow> json option"
  we_sine :: "nat \<Rightarrow> int"

datatype local_call = LStartTx nat nat bool bool | LStopTx nat jstr | LWritePcm nat bytes
  | LRenewPairing nat | LSubscribe "json option" | LUnsubscribe "json option" | LNotificationsChanged
  | LTimerStart | LTimerCancel | LCom nat "json option" "json option" | LSquawk "json option"
  | LXpdr "json option" | LIdent | LWeather nat "json option" "json option" "json option" "json option"
  | LAtis nat "json option" | LChat nat payload

datatype local_out = Said nat payload | SaidBinary nat bytes | Refused403 nat | Destroyed nat
  | Terminated nat | LCalled local_call

type_synonym local_handler = "local_web \<Rightarrow> local_web \<times> local_out list"

definition init_local :: local_web where
  "init_local = \<lparr>lw_clients = [], lw_open = []\<rparr>"

definition ws_open :: "local_web \<Rightarrow> nat \<Rightarrow> bool" where
  "ws_open s n = List.member (lw_open s) n"

definition local_call :: "local_call \<Rightarrow> local_handler" where
  "local_call c s = (s, [LCalled c])"

text \<open>\<open>ws.send\<close>: nothing is sent over a socket that is not open.\<close>

definition say :: "nat \<Rightarrow> payload \<Rightarrow> local_handler" where
  "say n p s = (s, if ws_open s n then [Said n p] else [])"

text \<open>\<open>{...a, ...b}\<close>.\<close>

definition spread :: "payload \<Rightarrow> payload \<Rightarrow> payload" where
  "spread a b = foldl (\<lambda>m (k, v). mput m k v) a b"

subsection \<open>Sending\<close>

definition sendSystem :: "web_view \<Rightarrow> nat \<Rightarrow> jstr \<Rightarrow> local_handler" where
  "sendSystem V n text = say n
     [(js ''kind'', JStr (js ''message'')), (js ''type'', JStr (js ''system'')), (js ''sender'', JStr (js ''LOCAL'')),
      (js ''text'', JStr text), (js ''direction'', JStr (js ''incoming'')),
      (js ''timestamp'', JStr (iso_string (wv_now V)))]"

definition sendJson_local :: "payload \<Rightarrow> local_handler" where
  "sendJson_local p s = each (\<lambda>n. say n p) (map fst (lw_clients s)) s"

definition sendBinary_local :: "bytes \<Rightarrow> local_handler" where
  "sendBinary_local b s = each (\<lambda>n s. (s, if ws_open s n then [SaidBinary n b] else [])) (map fst (lw_clients s)) s"

definition sendNotificationState_local :: "web_view \<Rightarrow> nat \<Rightarrow> local_handler" where
  "sendNotificationState_local V n = say n (wv_notifications V)"

text \<open>\<open>writeInt16LE\<close>.\<close>

definition int16_le :: "int \<Rightarrow> bytes" where
  "int16_le i = write_le 2 (nat (i mod 65536))"

definition test_tone :: "(nat \<Rightarrow> int) \<Rightarrow> bytes" where
  "test_tone sine = concat (map (\<lambda>i. int16_le (sine i)) [0..<16000])"

subsection \<open>Commands of the page\<close>

text \<open>\<open>`${v}`\<close>.\<close>

definition template :: "json option \<Rightarrow> jstr" where
  "template v = (case v of None \<Rightarrow> js ''undefined'' | Some x \<Rightarrow> to_str x)"

definition sendCommandResult :: "web_view \<Rightarrow> nat \<Rightarrow> jstr \<Rightarrow> local_handler" where
  "sendCommandResult V n text =
     (case wv_done V of
        None \<Rightarrow> (\<lambda>s. (s, []))
      | Some ok \<Rightarrow> sendSystem V n (if ok then text else js ''PilotCore is not connected''))"

definition action_is :: "payload \<Rightarrow> string \<Rightarrow> bool" where
  "action_is p a = (fld p ''action'' = Some (JStr (js a)))"

definition handleWebCommand :: "web_env \<Rightarrow> web_view \<Rightarrow> nat \<Rightarrow> payload \<Rightarrow> local_handler" where
  "handleWebCommand E V n p =
     (if action_is p ''ping'' then
        say n (spread [(js ''kind'', JStr (js ''pong'')), (js ''at'', JNum (Fin (of_int (wv_now V))))] (wv_status V))
      else if action_is p ''test_audio'' then sendBinary_local (test_tone (we_sine E))
      else if action_is p ''voice_tx_start'' then
        local_call (LStartTx n (if map_option json_number (fld p ''com'') = Some (Fin 2) then 2 else 1) False
          (fld p ''monitor'' = Some (JBool True)))
      else if action_is p ''voice_tx_monitor_start'' then local_call (LStartTx n 1 True False)
      else if action_is p ''voice_tx_stop'' then local_call (LStopTx n [])
      else if action_is p ''remote_pairing_renew'' then local_call (LRenewPairing n)
      else if action_is p ''notification_subscribe'' then
        andThen (local_call (LSubscribe (fld p ''subscription'')))
          (andThen (case wv_subscribed V of None \<Rightarrow> (\<lambda>s. (s, [])) | Some error \<Rightarrow> sendSystem V n error)
            (andThen (sendNotificationState_local V n) (local_call LNotificationsChanged)))
      else if action_is p ''notification_unsubscribe'' then
        andThen (local_call (LUnsubscribe (fld p ''endpoint'')))
          (andThen (sendNotificationState_local V n) (local_call LNotificationsChanged))
      else if action_is p ''unicom_timer_start'' then local_call LTimerStart
      else if action_is p ''unicom_timer_cancel'' then local_call LTimerCancel
      else if action_is p ''sim_com1'' then
        andThen (local_call (LCom 1 (fld p ''freq'') (fld p ''station'')))
          (sendCommandResult V n (js ''COM1 -> '' @ template (fld p ''freq'') @ js '' MHz''))
      else if action_is p ''sim_com2'' then
        andThen (local_call (LCom 2 (fld p ''freq'') (fld p ''station'')))
          (sendCommandResult V n (js ''COM2 -> '' @ template (fld p ''freq'') @ js '' MHz''))
      else if action_is p ''sim_squawk'' then
        andThen (local_call (LSquawk (fld p ''code'')))
          (sendCommandResult V n (js ''Squawk -> '' @ template (fld p ''code'')))
      else if action_is p ''sim_xpdr'' then
        andThen (local_call (LXpdr (fld p ''mode''))) (sendCommandResult V n (js ''Transponder toggle''))
      else if action_is p ''sim_ident'' then
        andThen (local_call LIdent) (sendCommandResult V n (js ''IDENT sent''))
      else if action_is p ''weather_request'' then
        local_call (LWeather n (fld p ''kind'') (fld p ''icao'') (fld p ''source'') (fld p ''role''))
      else if action_is p ''atis_request'' then local_call (LAtis n (fld p ''callsign''))
      else if action_is p ''send_message'' then local_call (LChat n p)
      else (\<lambda>s. (s, [])))"

subsection \<open>Connections\<close>

definition local_origins :: "local_config \<Rightarrow> jstr list" where
  "local_origins C = map (\<lambda>host. js ''http://'' @ host @ js '':'' @ nat_digits (lc_port C))
     [js ''localhost'', js ''127.0.0.1'', lc_lanIp C]"

definition isAllowedLocalWebOrigin :: "local_config \<Rightarrow> jstr \<Rightarrow> bool" where
  "isAllowedLocalWebOrigin C origin = (origin \<noteq> [] \<and> List.member (local_origins C) origin)"

text \<open>The new connection, with its greeting; \<open>origin\<close> is \<open>''\<close> when the header is missing.\<close>

definition on_page_upgrade :: "web_env \<Rightarrow> web_view \<Rightarrow> nat \<Rightarrow> jstr \<Rightarrow> jstr \<Rightarrow> local_handler" where
  "on_page_upgrade E V n url origin s =
     (if url \<noteq> js ''/ws'' then (s, [Destroyed n])
      else if \<not> isAllowedLocalWebOrigin (we_config E) origin then (s, [Refused403 n, Destroyed n])
      else say n (wv_init V)
        (s\<lparr>lw_clients := mput (lw_clients s) n \<lparr>lr_windowStartMs = wv_now V, lr_messages = 0\<rparr>,
           lw_open := n # lw_open s\<rparr>))"

definition cleanup_client :: "nat \<Rightarrow> jstr \<Rightarrow> local_handler" where
  "cleanup_client n reason s =
     (if mget (lw_clients s) n = None then (s, [])
      else local_call (LStopTx n reason) (s\<lparr>lw_clients := mdel (lw_clients s) n\<rparr>))"

definition not_open :: "nat \<Rightarrow> local_web \<Rightarrow> local_web" where
  "not_open n s = s\<lparr>lw_open := filter (\<lambda>x. x \<noteq> n) (lw_open s)\<rparr>"

definition on_error :: "nat \<Rightarrow> local_handler" where
  "on_error n s =
     (if mget (lw_clients s) n = None then (s, [])
      else andThen (cleanup_client n (js ''webapp connection error'')) (\<lambda>s. (not_open n s, [Terminated n])) s)"

definition allowLocalWsMessage :: "local_config \<Rightarrow> int \<Rightarrow> nat \<Rightarrow> local_rate \<Rightarrow> local_web \<Rightarrow> local_web \<times> bool" where
  "allowLocalWsMessage C now n rate0 s =
     (let rate = (if now - lr_windowStartMs rate0 > lc_rateWindowMs C
            then \<lparr>lr_windowStartMs = now, lr_messages = 0\<rparr> else rate0);
          rate1 = rate\<lparr>lr_messages := Suc (lr_messages rate)\<rparr>
      in (s\<lparr>lw_clients := mput (lw_clients s) n rate1\<rparr>, lr_messages rate1 \<le> lc_maxMessages C))"

text \<open>
  \<open>toString('ascii')\<close> drops the highest bit of each byte. A JSON text that is no object has no action,
  and \<open>null\<close> throws; both do nothing.
\<close>

definition is_pcm :: "bytes \<Rightarrow> bool" where
  "is_pcm b = (map (\<lambda>x. x mod 128) (take 4 b) = js ''CTX1'')"

definition too_many :: payload where
  "too_many = [(js ''kind'', JStr (js ''error'')),
     (js ''text'', JStr (js ''Too many webapp messages. Slow down and try again.''))]"

definition on_command :: "web_env \<Rightarrow> web_view \<Rightarrow> nat \<Rightarrow> bytes \<Rightarrow> local_handler" where
  "on_command E V n b =
     (case we_parse E (utf8_decode b) of Some (JObj p) \<Rightarrow> handleWebCommand E V n p | _ \<Rightarrow> (\<lambda>s. (s, [])))"

definition on_message :: "web_env \<Rightarrow> web_view \<Rightarrow> nat \<Rightarrow> bytes \<Rightarrow> local_handler" where
  "on_message E V n b s =
     (case mget (lw_clients s) n of
        None \<Rightarrow> (s, [])
      | Some rate \<Rightarrow>
          if is_pcm b then local_call (LWritePcm n (drop 4 b)) s
          else if length b > lc_maxJsonBytes (we_config E) then say n too_many s
          else (let (s1, ok) = allowLocalWsMessage (we_config E) (wv_now V) n rate s
                in if ok then on_command E V n b s1 else say n too_many s1))"

subsection \<open>The machine\<close>

text \<open>\<open>WsClosing\<close> is the end of \<open>OPEN\<close> when a browser begins to close.\<close>

datatype local_in = Upgraded nat jstr jstr | WsMessage nat bytes | WsClosing nat | WsClosed nat | WsError nat
  | SystemText nat jstr | Broadcast payload | BroadcastPcm bytes

fun local_step :: "web_env \<Rightarrow> web_view \<times> local_in \<Rightarrow> local_handler" where
  "local_step E (V, Upgraded n url origin) s = on_page_upgrade E V n url origin s"
| "local_step E (V, WsMessage n b) s = on_message E V n b s"
| "local_step E (V, WsClosing n) s = (not_open n s, [])"
| "local_step E (V, WsClosed n) s = cleanup_client n (js ''webapp closed'') (not_open n s)"
| "local_step E (V, WsError n) s = on_error n s"
| "local_step E (V, SystemText n text) s = sendSystem V n text s"
| "local_step E (V, Broadcast p) s = sendJson_local p s"
| "local_step E (V, BroadcastPcm b) s = sendBinary_local b s"

subsection \<open>Microphones\<close>

text \<open>
  proxy.js hands the page's transmissions to the transmitter: the calls of the local server are
  events of the voice side (\<open>Ts2Router\<close>). \<open>mn_encoder\<close> and \<open>mn_serial\<close> are the numbers of the encoder
  and of the monitor's stream for a start, \<open>mn_alive\<close> says that the encoder takes the samples.
\<close>

record mic_numbers =
  mn_encoder :: nat
  mn_serial :: nat
  mn_alive :: bool

definition mic_call :: "voice_env \<Rightarrow> mic_numbers \<Rightarrow> local_out \<Rightarrow> voice_handler" where
  "mic_call E m out = (case out of
     LCalled (LStartTx n com monitorOnly monitor) \<Rightarrow>
       voice_step E (TxStart (mn_encoder m) (mn_serial m) n com monitorOnly monitor)
   | LCalled (LStopTx n reason) \<Rightarrow> voice_step E (TxStop n reason)
   | LCalled (LWritePcm n pcm) \<Rightarrow> voice_step E (TxPcm n pcm (mn_alive m))
   | _ \<Rightarrow> (\<lambda>v. (v, [])))"

datatype mic_in = FromPage web_view mic_numbers local_in | FromVoice voice_in

datatype mic_out = PageOut local_out | VoiceOut voice_out

fun mic_step :: "web_env \<Rightarrow> voice_env \<Rightarrow> mic_in \<Rightarrow> local_web \<times> voice \<Rightarrow> (local_web \<times> voice) \<times> mic_out list" where
  "mic_step W E (FromPage V m e) (s, v) =
     (let (s1, outs) = local_step W (V, e) s; (v1, outs1) = each (mic_call E m) outs v
      in ((s1, v1), map PageOut outs @ map VoiceOut outs1))"
| "mic_step W E (FromVoice e) (s, v) = (let (v1, outs) = voice_step E e v in ((s, v1), map VoiceOut outs))"

end
