(* ===== verification/LocalProps.thy ===== *)
theory LocalProps
  imports LocalWeb WebTxFacts
begin

section \<open>Theorems about the local web server\<close>

subsection \<open>Who is a client\<close>

text \<open>No command changes who is connected; messages keep the clients, errors and closes remove one.\<close>

definition clients :: "local_web \<Rightarrow> nat set" where
  "clients s = dom (mget (lw_clients s))"

definition keeps :: "local_handler \<Rightarrow> bool" where
  "keeps f \<longleftrightarrow> (\<forall>s. fst (f s) = s)"

lemma keeps_simple [simp]: "keeps (\<lambda>s. (s, []))" "keeps (local_call c)" "keeps (say n p)"
  "keeps (\<lambda>s. (s, if b s then x else y))"
  by (simp_all add: keeps_def local_call_def say_def)

lemma keeps_andThen [simp]: "keeps f \<Longrightarrow> keeps g \<Longrightarrow> keeps (andThen f g)"
  by (auto simp: keeps_def andThen_def case_prod_beta Let_def)

lemma keeps_each [simp]: "(\<And>x. keeps (f x)) \<Longrightarrow> keeps (each f xs)"
proof (induction xs)
  case Nil
  show ?case by (simp add: keeps_def)
next
  case (Cons x xs)
  have "keeps (andThen (f x) (each f xs))" by (rule keeps_andThen [OF Cons.prems Cons.IH [OF Cons.prems]])
  then show ?case by (simp add: keeps_def)
qed

lemma keeps_if [simp]: "keeps f \<Longrightarrow> keeps g \<Longrightarrow> keeps (if b then f else g)"
  by simp

lemma keeps_option [simp]: "(x = None \<Longrightarrow> keeps f) \<Longrightarrow> (\<And>y. x = Some y \<Longrightarrow> keeps (g y)) \<Longrightarrow> keeps (case x of None \<Rightarrow> f | Some y \<Rightarrow> g y)"
  by (cases x) auto

lemma keeps_state [simp]: "(\<And>t. keeps (f t)) \<Longrightarrow> keeps (\<lambda>s. f s s)"
  by (simp add: keeps_def)

lemma keeps_sending [simp]: "keeps (sendSystem V n t)" "keeps (sendJson_local p)" "keeps (sendBinary_local b)"
  "keeps (sendNotificationState_local V n)"
proof -
  show "keeps (sendJson_local p)" unfolding sendJson_local_def by (rule keeps_state) simp
  show "keeps (sendBinary_local b)" unfolding sendBinary_local_def by (rule keeps_state) simp
qed (simp_all add: sendSystem_def sendNotificationState_local_def)

lemma keeps_result [simp]: "keeps (sendCommandResult V n t)"
  by (simp add: sendCommandResult_def)

lemma keeps_command [simp]: "keeps (handleWebCommand E V n p)"
  unfolding handleWebCommand_def by (intro keeps_if keeps_andThen keeps_option keeps_simple keeps_sending keeps_result)

lemma keeps_on_command [simp]: "keeps (on_command E V n b)"
  unfolding on_command_def by (cases "we_parse E (utf8_decode b)") (auto split: json.split)

lemma allow_state:
  "fst (allowLocalWsMessage C now n r s) = s\<lparr>lw_clients := mput (lw_clients s) n
     (let r0 = (if now - lr_windowStartMs r > lc_rateWindowMs C then \<lparr>lr_windowStartMs = now, lr_messages = 0\<rparr> else r)
      in r0\<lparr>lr_messages := Suc (lr_messages r0)\<rparr>)\<rparr>"
  by (simp add: allowLocalWsMessage_def Let_def)

lemma message_clients: "clients (fst (on_message E V n b s)) = clients s"
proof (cases "mget (lw_clients s) n")
  case (Some r)
  have k: "fst (on_command E V n b t) = t" "fst (say n p t) = t" "fst (local_call c t) = t" for t p c
    using keeps_on_command [of E V n b] keeps_simple by (auto simp: keeps_def)
  show ?thesis using Some
    by (auto simp: on_message_def Let_def case_prod_beta k allow_state clients_def split: if_splits)
qed (simp add: on_message_def)

text \<open>What a step does to the set of clients.\<close>

lemma step_clients:
  "clients (fst (local_step E (V, e) s)) =
     (case e of Upgraded n url origin \<Rightarrow>
        (if url = js ''/ws'' \<and> isAllowedLocalWebOrigin (we_config E) origin then insert n (clients s) else clients s)
      | WsClosed n \<Rightarrow> clients s - {n} | WsError n \<Rightarrow> clients s - {n} | _ \<Rightarrow> clients s)"
proof (cases e)
  case (Upgraded n url origin)
  then show ?thesis by (auto simp: on_page_upgrade_def say_def clients_def split: if_splits)
next
  case (WsClosed n)
  then show ?thesis by (auto simp: cleanup_client_def local_call_def clients_def not_open_def split: if_splits)
next
  case (WsError n)
  then show ?thesis
    by (auto simp: on_error_def cleanup_client_def local_call_def clients_def not_open_def andThen_def split: if_splits)
next
  case (WsMessage n b)
  then show ?thesis by (simp add: message_clients)
qed (use keeps_sending in \<open>auto simp: keeps_def clients_def not_open_def\<close>)

definition local_run :: "web_env \<Rightarrow> (web_view \<times> local_in) list \<Rightarrow> local_web" where
  "local_run E es = fold (\<lambda>e s. fst (local_step E e s)) es init_local"

lemma local_run_snoc: "local_run E (es @ [e]) = fst (local_step E e (local_run E es))"
  by (simp add: local_run_def)

text \<open>The connection of a client: its admission, and nothing that ended it since.\<close>

definition connected_by :: "local_config \<Rightarrow> (web_view \<times> local_in) list \<Rightarrow> nat \<Rightarrow> bool" where
  "connected_by C es n = (\<exists>es1 V origin es2. es = es1 @ (V, Upgraded n (js ''/ws'') origin) # es2
     \<and> origin \<in> set (local_origins C) \<and> (\<forall>(V', e) \<in> set es2. e \<noteq> WsClosed n \<and> e \<noteq> WsError n))"

lemma connected_by_new: "origin \<in> set (local_origins C) \<Longrightarrow> connected_by C (es @ [(V, Upgraded n (js ''/ws'') origin)]) n"
  unfolding connected_by_def by fastforce

lemma connected_by_snoc:
  assumes "connected_by C es n" "e \<noteq> WsClosed n" "e \<noteq> WsError n"
  shows "connected_by C (es @ [(V, e)]) n"
proof -
  obtain es1 V1 origin es2 where h: "es = es1 @ (V1, Upgraded n (js ''/ws'') origin) # es2" "origin \<in> set (local_origins C)"
    "\<forall>(V', e) \<in> set es2. e \<noteq> WsClosed n \<and> e \<noteq> WsError n" using assms(1) by (auto simp: connected_by_def)
  then have "es @ [(V, e)] = es1 @ (V1, Upgraded n (js ''/ws'') origin) # (es2 @ [(V, e)])" by simp
  moreover have "\<forall>(V', e) \<in> set (es2 @ [(V, e)]). e \<noteq> WsClosed n \<and> e \<noteq> WsError n" using h(3) assms(2,3) by auto
  ultimately show ?thesis using h(2) unfolding connected_by_def by blast
qed

lemma client_connected: "n \<in> clients (local_run E es) \<Longrightarrow> connected_by (we_config E) es n"
proof (induction es rule: rev_induct)
  case Nil
  then show ?case by (simp add: local_run_def init_local_def clients_def)
next
  case (snoc x es)
  obtain V e where x: "x = (V, e)" by force
  have c: "n \<in> clients (fst (local_step E (V, e) (local_run E es)))" using snoc.prems by (simp add: local_run_snoc x)
  show ?case
  proof (cases "\<exists>origin. e = Upgraded n (js ''/ws'') origin \<and> isAllowedLocalWebOrigin (we_config E) origin")
    case True
    then show ?thesis using connected_by_new by (auto simp: x isAllowedLocalWebOrigin_def)
  next
    case False
    then have "n \<in> clients (local_run E es)" "e \<noteq> WsClosed n" "e \<noteq> WsError n"
      using c by (auto simp: step_clients split: local_in.splits if_splits)
    then show ?thesis using snoc.IH connected_by_snoc by (simp add: x)
  qed
qed

subsection \<open>What commands call\<close>

definition is_stop :: "local_out \<Rightarrow> bool" where
  "is_stop out = (case out of LCalled c \<Rightarrow> (case c of LStopTx n r \<Rightarrow> True | _ \<Rightarrow> False) | _ \<Rightarrow> True)"

text \<open>\<open>outputs Q f\<close>: whatever the state, the outputs of the handler satisfy \<open>Q\<close>.\<close>

definition outputs :: "(local_out \<Rightarrow> bool) \<Rightarrow> local_handler \<Rightarrow> bool" where
  "outputs Q f \<longleftrightarrow> (\<forall>s. list_all Q (snd (f s)))"

lemma outputs_nothing: "outputs Q (\<lambda>s. (s, []))"
  by (simp add: outputs_def)

lemma outputs_call: "Q (LCalled c) \<Longrightarrow> outputs Q (local_call c)"
  by (simp add: outputs_def local_call_def)

lemma outputs_andThen: "outputs Q f \<Longrightarrow> outputs Q g \<Longrightarrow> outputs Q (andThen f g)"
  by (simp add: outputs_def andThen_def case_prod_beta Let_def)

lemma outputs_if: "outputs Q f \<Longrightarrow> outputs Q g \<Longrightarrow> outputs Q (if b then f else g)"
  by simp

lemma outputs_option: "outputs Q f \<Longrightarrow> (\<And>y. outputs Q (g y)) \<Longrightarrow> outputs Q (case x of None \<Rightarrow> f | Some y \<Rightarrow> g y)"
  by (cases x) auto

lemma outputs_each: "(\<And>x. outputs Q (f x)) \<Longrightarrow> outputs Q (each f xs)"
  by (induction xs) (auto simp: outputs_def andThen_def case_prod_beta Let_def)

lemma outputs_send:
  assumes "\<And>n p. Q (Said n p)" "\<And>n b. Q (SaidBinary n b)"
  shows "outputs Q (say n p)" "outputs Q (sendSystem V n t)" "outputs Q (sendJson_local p)" "outputs Q (sendBinary_local b)"
    "outputs Q (sendNotificationState_local V n)" "outputs Q (sendCommandResult V n t)"
proof -
  show s: "outputs Q (say n p)" for n p using assms(1) by (simp add: outputs_def say_def)
  then show y: "outputs Q (sendSystem V n t)" "outputs Q (sendNotificationState_local V n)" for t
    by (simp_all add: sendSystem_def sendNotificationState_local_def)
  then show "outputs Q (sendCommandResult V n t)"
    unfolding sendCommandResult_def by (intro outputs_option outputs_nothing)
  have "outputs Q (each (\<lambda>n. say n p) xs)" for xs by (rule outputs_each [OF s])
  then show "outputs Q (sendJson_local p)" by (simp add: outputs_def sendJson_local_def)
  have "outputs Q (each (\<lambda>n s. (s, if ws_open s n then [SaidBinary n b] else [])) xs)" for xs
    using assms(2) by (intro outputs_each) (simp add: outputs_def)
  then show "outputs Q (sendBinary_local b)" by (simp add: outputs_def sendBinary_local_def)
qed

lemmas speaks_send = outputs_send [where Q = is_stop]

lemma only_messages_call:
  assumes "out \<in> set (snd (local_step E (V, e) s))" "\<not> is_stop out"
  obtains n b where "e = WsMessage n b" "n \<in> clients s"
proof (cases e)
  case (WsMessage n b)
  then have "n \<in> clients s" using assms(1) by (cases "mget (lw_clients s) n") (auto simp: on_message_def clients_def)
  with WsMessage that show ?thesis by blast
next
  case (Upgraded n url origin)
  then show ?thesis using assms by (auto simp: on_page_upgrade_def say_def is_stop_def split: if_splits)
next
  case (WsClosed n)
  then show ?thesis using assms by (auto simp: cleanup_client_def local_call_def is_stop_def split: if_splits)
next
  case (WsError n)
  then show ?thesis
    using assms by (auto simp: on_error_def cleanup_client_def local_call_def is_stop_def andThen_def split: if_splits)
qed (use assms speaks_send in \<open>auto simp: outputs_def list_all_iff is_stop_def\<close>)

text \<open>
  C36: Only the agent's own page controls the radio. In every run of the local server, whatever
  browsers and pages try, a call of the rest of the program (a frequency, a transponder code, a chat
  message, a transmission, a subscription, microphone samples, everything but the end of a
  transmission) is made for a message of a socket that was opened for \<open>/ws\<close> from one of the three
  origins of the local page, and that has neither closed nor failed since.
\<close>
theorem local_page_only:
  assumes "LCalled c \<in> set (snd (local_step E (V, e) (local_run E es)))" and "\<And>n reason. c \<noteq> LStopTx n reason"
  shows "\<exists>n b. e = WsMessage n b \<and> connected_by (we_config E) es n"
proof -
  have "\<not> is_stop (LCalled c)" using assms(2) by (cases c) (auto simp: is_stop_def)
  with assms(1) obtain n b where "e = WsMessage n b" "n \<in> clients (local_run E es)" by (rule only_messages_call)
  then show ?thesis using client_connected by blast
qed

definition page_config :: local_config where
  "page_config = \<lparr>lc_port = 3000, lc_lanIp = js ''10.0.0.2'', lc_maxJsonBytes = DEFAULT_MAX_JSON_BYTES,
     lc_rateWindowMs = DEFAULT_RATE_WINDOW_MS, lc_maxMessages = DEFAULT_MAX_MESSAGES_PER_WINDOW\<rparr>"

definition page_env :: web_env where
  "page_env = \<lparr>we_config = page_config,
     we_parse = (\<lambda>t. Some (JObj [(js ''action'', JStr (js ''sim_ident''))])), we_sine = (\<lambda>i. 0)\<rparr>"

definition page_view :: web_view where
  "page_view = \<lparr>wv_now = 5, wv_status = [], wv_init = [], wv_done = Some True, wv_subscribed = None, wv_notifications = []\<rparr>"

definition page_origin :: jstr where
  "page_origin = js ''http://localhost:3000''"

definition page_start :: "(web_view \<times> local_in) list" where
  "page_start = [(page_view, Upgraded 4 (js ''/ws'') (js ''http://evil.example'')), (page_view, Upgraded 7 (js ''/ws'') page_origin)]"

lemma page_digits: "nat_digits 3000 = js ''3000''"
  by (simp add: nat_digits.simps js_def)

lemma page_running: "lw_clients (local_run page_env page_start) = [(7, \<lparr>lr_windowStartMs = 5, lr_messages = 0\<rparr>)]"
  by (simp add: local_run_def page_start_def on_page_upgrade_def isAllowedLocalWebOrigin_def local_origins_def page_env_def page_config_def
    page_origin_def page_view_def say_def init_local_def page_digits) (simp add: js_def)

lemma page_ident_at:
  assumes "mget (lw_clients s) 7 = Some \<lparr>lr_windowStartMs = 5, lr_messages = 0\<rparr>"
  shows "LCalled LIdent \<in> set (snd (local_step page_env (page_view, WsMessage 7 [123, 125]) s))"
proof -
  have a: "action_is [(js ''action'', JStr (js ''sim_ident''))] k \<longleftrightarrow> k = ''sim_ident''" for k
    by (auto simp: action_is_def)
  have "\<not> is_pcm [123, 125]" by (simp add: is_pcm_def js_def)
  then show ?thesis using assms
    by (simp add: on_message_def allowLocalWsMessage_def on_command_def page_env_def page_config_def page_view_def
      handleWebCommand_def a local_call_def andThen_def DEFAULT_MAX_JSON_BYTES_def DEFAULT_MAX_MESSAGES_PER_WINDOW_def
      case_prod_beta Let_def)
qed

lemma page_ident: "LCalled LIdent \<in> set (snd (local_step page_env (page_view, WsMessage 7 [123, 125]) (local_run page_env page_start)))"
  by (rule page_ident_at) (simp add: page_running)

theorem local_page_only_witness:
  "\<exists>n b. WsMessage 7 [123, 125] = WsMessage n b \<and> connected_by (we_config page_env) page_start n"
  by (rule local_page_only [OF page_ident]) simp

subsection \<open>Microphones end with their page\<close>

text \<open>\<open>shrinks m f\<close>: the handler \<open>f\<close> adds nothing to the set \<open>m\<close> that it reads of the state.\<close>

definition shrinks :: "('s \<Rightarrow> 'a set) \<Rightarrow> ('s \<Rightarrow> 's \<times> 'o list) \<Rightarrow> bool" where
  "shrinks m f \<longleftrightarrow> (\<forall>s. m (fst (f s)) \<subseteq> m s)"

lemma shrinksI: "(\<And>s. m (fst (f s)) \<subseteq> m s) \<Longrightarrow> shrinks m f"
  and shrinksD: "shrinks m f \<Longrightarrow> m (fst (f s)) \<subseteq> m s"
  by (auto simp: shrinks_def)

lemma shrinks_andThen: "shrinks m f \<Longrightarrow> shrinks m g \<Longrightarrow> shrinks m (andThen f g)"
  unfolding shrinks_def by (simp add: andThen_def case_prod_beta Let_def) blast

lemma shrinks_nothing: "shrinks m (\<lambda>s. (s, outs s))"
  by (simp add: shrinks_def)

lemma shrinks_each: "(\<And>x. shrinks m (f x)) \<Longrightarrow> shrinks m (each f xs)"
proof (induction xs)
  case (Cons x xs)
  have "shrinks m (andThen (f x) (each f xs))" by (rule shrinks_andThen [OF Cons.prems Cons.IH [OF Cons.prems]])
  then show ?case by (simp add: shrinks_def)
qed (simp add: shrinks_def)

lemma shrinks_if: "shrinks m f \<Longrightarrow> shrinks m g \<Longrightarrow> shrinks m (if b then f else g)"
  by simp

lemma shrinks_state: "(\<And>t. shrinks m (f t)) \<Longrightarrow> shrinks m (\<lambda>s. f s s)"
  by (simp add: shrinks_def)

lemma shrinks_cond: "shrinks m f \<Longrightarrow> shrinks m g \<Longrightarrow> shrinks m (\<lambda>s. if b s then f s else g s)"
  by (simp add: shrinks_def)

lemma shrinks_change: "(\<And>s. m (h s) \<subseteq> m s) \<Longrightarrow> shrinks m f \<Longrightarrow> shrinks m (\<lambda>s. f (h s))"
  unfolding shrinks_def by blast

lemmas shrinks_rules = shrinks_andThen shrinks_nothing shrinks_each shrinks_if

definition tx_sockets :: "webtx \<Rightarrow> nat set" where
  "tx_sockets w = dom (mget (wt_by_socket w))"

lemma put_sockets [simp]: "tx_sockets (put_tx ws tx w) = insert ws (tx_sockets w)"
  by (auto simp: tx_sockets_def put_tx_def split: if_splits)

lemma put_known: "mget (wt_by_socket w) ws = Some tx0 \<Longrightarrow> insert ws (tx_sockets w) = tx_sockets w"
  by (auto simp: tx_sockets_def)

lemma shrinks_stop: "shrinks tx_sockets (stop ws reason)"
  by (rule shrinksI) (auto simp: tx_sockets_def stop_get split: if_splits)

lemma shrinks_transmissions: "shrinks tx_sockets (stop_transmissions reason)"
  unfolding stop_transmissions_def
  by (rule shrinks_state, rule shrinks_each) (auto intro: shrinks_stop shrinks_nothing split: prod.split)

lemma shrinks_replace: "shrinks tx_sockets (replaceTxSession a reason)"
proof (rule shrinksI)
  fix w
  have "shrinks tx_sockets (andThen (if b then stop_transmissions reason else (\<lambda>s. (s, [])))
     (\<lambda>s1. (s1\<lparr>wt_session := Some a\<rparr>, outs)))" for b outs
    by (intro shrinks_andThen shrinks_if shrinks_transmissions shrinks_nothing)
      (simp add: shrinks_def tx_sockets_def)
  then show "tx_sockets (fst (replaceTxSession a reason w)) \<subseteq> tx_sockets w"
    unfolding replaceTxSession_def Let_def by (rule shrinksD)
qed

lemma shrinks_cache: "shrinks tx_sockets (cacheTxSession msg k sock)"
  using shrinks_replace unfolding shrinks_def
  by (simp add: cacheTxSession_def deriveTxSessionFromSetup_def Let_def)

lemma shrinks_invalidate: "shrinks tx_sockets (invalidateTxSession reason k)"
proof (rule shrinksI)
  fix w
  have "shrinks tx_sockets (andThen (stop_transmissions reason) (\<lambda>s1. (s1, outs)))" for outs
    by (intro shrinks_andThen shrinks_transmissions shrinks_nothing)
  from shrinksD [OF this, of _ "w\<lparr>wt_session := None\<rparr>"]
  show "tx_sockets (fst (invalidateTxSession reason k w)) \<subseteq> tx_sockets w"
    by (simp add: invalidateTxSession_def tx_sockets_def)
qed

lemma shrinks_put: "shrinks tx_sockets (\<lambda>w. case mget (wt_by_socket w) ws of None \<Rightarrow> (w, []) | Some tx \<Rightarrow> (put_tx ws (f tx) w, g tx))"
  by (rule shrinksI) (auto simp: put_known split: option.splits)

lemma sendPacket_sockets: "tx_sockets (fst (sendPacket C target sends packet w)) = tx_sockets w"
  by (simp add: sendPacket_def tx_sockets_def Let_def split: option.splits)

lemma pumpQueue_sockets: "ws \<in> tx_sockets w \<Longrightarrow> tx_sockets (fst (pumpQueue ws tx w)) = tx_sockets w"
  by (auto simp: pumpQueue_def)

lemma queuePacket_sockets: "tx_sockets (fst (queuePacket ws packet w)) = tx_sockets w"
proof (cases "mget (wt_by_socket w) ws")
  case (Some tx)
  have "ws \<in> tx_sockets (put_tx ws x w)" for x by simp
  from pumpQueue_sockets [OF this] Some show ?thesis by (simp add: queuePacket_def Let_def put_known)
qed (simp add: queuePacket_def)

lemma shrinks_encoded: "shrinks tx_sockets (encoded_packet ws packet)"
proof (rule shrinksI)
  fix w
  show "tx_sockets (fst (encoded_packet ws packet w)) \<subseteq> tx_sockets w"
  proof (cases "mget (wt_by_socket w) ws")
    case (Some tx)
    then show ?thesis
      by (auto simp: encoded_packet_def Let_def case_prod_beta queuePacket_sockets put_known split: option.splits)
  qed (simp add: encoded_packet_def)
qed

lemma shrinks_encoder: "shrinks tx_sockets (encoder_data ws i chunk)" "shrinks tx_sockets (encoder_exit ws i)"
proof -
  have e: "shrinks tx_sockets (each (encoded_packet ws) packets)" for packets by (rule shrinks_each [OF shrinks_encoded])
  show "shrinks tx_sockets (encoder_data ws i chunk)"
  proof (rule shrinksI)
    fix w
    show "tx_sockets (fst (encoder_data ws i chunk w)) \<subseteq> tx_sockets w"
    proof (cases "mget (wt_by_socket w) ws")
      case (Some tx)
      let ?r = "ogg_push (tx_reader tx) chunk"
      have "tx_sockets (fst (each (encoded_packet ws) (snd ?r) (put_tx ws (tx\<lparr>tx_reader := fst ?r\<rparr>) w))) \<subseteq> tx_sockets w"
        using shrinksD [OF e, of "snd ?r" "put_tx ws (tx\<lparr>tx_reader := fst ?r\<rparr>) w"] Some by (simp add: put_known)
      with Some show ?thesis by (simp add: encoder_data_def case_prod_beta Let_def)
    qed (simp add: encoder_data_def)
  qed
  show "shrinks tx_sockets (encoder_exit ws i)"
    using shrinks_stop by (intro shrinksI) (auto simp: encoder_exit_def dest: shrinksD split: option.splits)
qed

lemma shrinks_pump: "shrinks tx_sockets (pump_fires C target sends ws i)"
proof (rule shrinksI)
  fix w
  show "tx_sockets (fst (pump_fires C target sends ws i w)) \<subseteq> tx_sockets w"
  proof (cases "mget (wt_by_socket w) ws")
    case (Some tx0)
    let ?tx = "tx0\<lparr>tx_timer := False, tx_queue := tl (tx_queue tx0)\<rparr>"
    have p: "insert ws (tx_sockets w) = tx_sockets w" "ws \<in> tx_sockets w"
      using Some put_known by (auto simp: tx_sockets_def)
    show ?thesis using Some p pumpQueue_sockets [of ws]
      by (auto simp: pump_fires_def Let_def case_prod_beta sendPacket_sockets split: list.splits)
  qed (simp add: pump_fires_def)
qed

subsection \<open>The voice side\<close>

definition mics :: "voice \<Rightarrow> nat set" where
  "mics v = tx_sockets (vc_tx v)"

lemma mics_other [simp]: "mics (v\<lparr>vc_routes := a\<rparr>) = mics v" "mics (v\<lparr>vc_active := b\<rparr>) = mics v"
  "mics (v\<lparr>vc_key := c\<rparr>) = mics v" "mics (v\<lparr>vc_target := d\<rparr>) = mics v" "mics (v\<lparr>vc_session := e\<rparr>) = mics v"
  "mics (v\<lparr>vc_closed := f\<rparr>) = mics v" "mics (put_proxy host p v) = mics v" "mics (learn_session key packet v) = mics v"
  by (simp_all add: mics_def put_proxy_def learn_session_def split: option.splits)

lemma shrinks_on_tx: "shrinks tx_sockets f \<Longrightarrow> shrinks mics (on_tx f)"
  by (simp add: shrinks_def on_tx_def mics_def case_prod_beta Let_def)

lemma shrinks_decoder: "shrinks mics (stop_decoder host)"
  by (rule shrinksI) (simp add: stop_decoder_def case_prod_beta Let_def split: option.splits)

lemma shrinks_clear: "shrinks mics (clearActive reason)"
  unfolding clearActive_def
proof (rule shrinks_andThen)
  show "shrinks mics (\<lambda>v. case vc_active v of Some host \<Rightarrow> stop_decoder host v | None \<Rightarrow> (v, []))"
    using shrinks_decoder unfolding shrinks_def by (auto split: option.splits)
  show "shrinks mics (\<lambda>v. on_tx (invalidateTxSession reason [])
     (v\<lparr>vc_active := None, vc_key := [], vc_target := None, vc_session := None\<rparr>))"
    by (rule shrinks_change [OF _ shrinks_on_tx [OF shrinks_invalidate]]) simp
qed

lemma shrinks_packet: "shrinks mics (onClientPacket host address packet key sock target)"
  unfolding onClientPacket_def Let_def
proof (rule shrinks_andThen)
  show "shrinks mics (if is_login packet then andThen (clearActive (js ''voice connection changed''))
      (\<lambda>v. (v\<lparr>vc_active := Some host, vc_key := scoped_key address key, vc_target := Some target\<rparr>, [])) else (\<lambda>v. (v, [])))"
    by (intro shrinks_if shrinks_andThen shrinks_clear shrinks_nothing) (simp add: shrinks_def)
  have t: "mics (fst (on_tx (cacheTxSession packet k sock) v)) \<subseteq> mics v" for k v
    by (rule shrinksD [OF shrinks_on_tx [OF shrinks_cache]])
  show "shrinks mics (\<lambda>v. if vc_active v \<noteq> Some host \<or> length packet < 16 then (v, [])
      else if \<not> is_seed packet \<or> vc_session (learn_session (scoped_key address key) packet v) \<noteq> Some (session_of packet)
        then (learn_session (scoped_key address key) packet v, [])
        else on_tx (cacheTxSession packet (scoped_key address key) sock)
          ((learn_session (scoped_key address key) packet v)\<lparr>vc_key := scoped_key address key, vc_target := Some target\<rparr>))"
    by (rule shrinksI) (use t [of _ "learn_session _ _ _\<lparr>vc_key := _, vc_target := _\<rparr>"] in simp)
qed

lemma shrinks_close: "shrinks mics (onClientClose host address key reason)"
  unfolding onClientClose_def Let_def
  by (intro shrinks_andThen shrinks_cond shrinks_clear shrinks_nothing shrinks_on_tx shrinks_invalidate)

lemma shrinks_callback: "shrinks mics (callback host address out)"
  using shrinks_packet shrinks_close by (cases out) (auto simp: shrinks_def)

lemma shrinks_proxy: "shrinks mics (proxy_op host f)"
proof (rule shrinksI)
  fix v
  have "mics (fst (each (callback host a) outs (put_proxy host p v))) \<subseteq> mics v" for a outs p
    using shrinksD [OF shrinks_each [OF shrinks_callback], where s = "put_proxy host p v"] by simp
  then show "mics (fst (proxy_op host f v)) \<subseteq> mics v"
    by (simp add: proxy_op_def case_prod_beta Let_def split: option.splits)
qed

lemma shrinks_fail: "shrinks mics (fail host message)"
proof (rule shrinksI)
  fix v
  have a: "shrinks mics (andThen (\<lambda>v. if vc_active v = Some host then clearActive r v else (v, [])) (proxy_op host f))" for r f
    by (intro shrinks_andThen shrinks_cond shrinks_clear shrinks_nothing shrinks_proxy)
  have b: "shrinks mics (andThen (proxy_op host f) (\<lambda>v. (v, outs)))" for f outs
    by (intro shrinks_andThen shrinks_nothing shrinks_proxy)
  show "mics (fst (fail host message v)) \<subseteq> mics v"
    using shrinksD [OF a, where s = "v\<lparr>vc_routes := _\<rparr>"] shrinksD [OF b, where s = "v\<lparr>vc_routes := _\<rparr>"]
    by (simp add: fail_def Let_def split: option.splits)
qed

lemma shrinks_rest: "shrinks mics (getEndpoint E t)" "shrinks mics (listening host)" "shrinks mics (cancel_route r host)"
proof -
  show "shrinks mics (getEndpoint E t)"
    by (rule shrinksI) (simp add: getEndpoint_def Let_def case_prod_beta split: option.splits)
  show "shrinks mics (listening host)"
    by (rule shrinksI) (simp add: listening_def Let_def split: option.splits)
  show "shrinks mics (cancel_route r host)"
    using shrinks_fail by (intro shrinksI) (auto simp: cancel_route_def dest: shrinksD split: option.splits)
qed

lemma shrinks_router: "shrinks mics router_close" "shrinks mics fsd_closed"
proof -
  have h: "shrinks mics (\<lambda>v. each f (hosts v) v)" if "\<And>x. shrinks mics (f x)" for f
    by (rule shrinks_state) (rule shrinks_each [OF that])
  show "shrinks mics router_close" unfolding router_close_def
    by (rule shrinks_change) (simp, intro shrinks_andThen shrinks_clear h shrinks_rest shrinks_proxy)
  show "shrinks mics fsd_closed"
    unfolding fsd_closed_def router_stopVoiceDecoder_def router_resetUdpClients_def
    by (intro shrinks_andThen shrinks_clear h shrinks_proxy shrinks_decoder shrinks_on_tx shrinks_invalidate)
qed

lemma write_sockets: "fst (writePcm ws pcm alive w) = w"
  by (simp add: writePcm_def split: option.splits)

lemma start_sockets: "tx_sockets (fst (start C i serial ws com only monitor w)) \<subseteq> insert ws (tx_sockets w)"
  by (auto simp: start_def Let_def case_prod_beta dest: subsetD [OF shrinksD [OF shrinks_stop]])

text \<open>Only a start adds a transmission, for its own socket.\<close>

lemma voice_mics: "mics (fst (voice_step E e v)) \<subseteq> (case e of TxStart i serial ws com only monitor \<Rightarrow> insert ws (mics v) | _ \<Rightarrow> mics v)"
proof (cases e)
  case (TxStart i serial ws com only monitor)
  then show ?thesis using start_sockets [of "ve_webtx E" i serial ws com only monitor "vc_tx v"]
    by (simp add: on_tx_def without_answer_def mics_def case_prod_beta Let_def)
next
  case (TxPcm ws pcm alive)
  then show ?thesis by (simp add: on_tx_def without_answer_def mics_def case_prod_beta Let_def write_sockets)
qed (use shrinksD [OF shrinks_proxy] shrinksD [OF shrinks_fail] shrinks_rest [THEN shrinksD] shrinks_router [THEN shrinksD]
    shrinks_on_tx [OF shrinks_stop, THEN shrinksD] shrinks_on_tx [OF shrinks_encoder(1), THEN shrinksD]
    shrinks_on_tx [OF shrinks_encoder(2), THEN shrinksD] shrinks_on_tx [OF shrinks_pump, THEN shrinksD] in
    \<open>simp_all add: on_tx_def monitor_data_def mics_def\<close>)

subsection \<open>The page and the voice side together\<close>

text \<open>A message of a socket starts a transmission for this socket only.\<close>

definition own_start :: "nat \<Rightarrow> local_out \<Rightarrow> bool" where
  "own_start n out = (case out of LCalled c \<Rightarrow> (case c of LStartTx k com only monitor \<Rightarrow> k = n | _ \<Rightarrow> True) | _ \<Rightarrow> True)"

lemma own_start_simps [simp]: "own_start n (Said k p)" "own_start n (SaidBinary k b)"
  "own_start n (LCalled (LStartTx k com only monitor)) \<longleftrightarrow> k = n"
  by (simp_all add: own_start_def)

lemma command_starts: "outputs (own_start n) (handleWebCommand E V n p)"
  unfolding handleWebCommand_def
  by (intro outputs_if outputs_andThen outputs_option outputs_call outputs_nothing outputs_send own_start_simps)
    (simp_all add: own_start_def)

lemma message_starts: "list_all (own_start n) (snd (on_message E V n b s))"
proof (cases "mget (lw_clients s) n")
  case (Some r)
  have c: "list_all (own_start n) (snd (on_command E V n b t))" for t
    using command_starts [of n E V] by (auto simp: on_command_def outputs_def split: option.split json.split)
  show ?thesis using Some c
    by (simp add: on_message_def Let_def case_prod_beta local_call_def say_def) (simp add: own_start_def)
qed (simp add: on_message_def)

lemma stop_mics: "mics (fst (voice_step E (TxStop n reason) v)) = mics v - {n}"
  by (auto simp: on_tx_def mics_def tx_sockets_def case_prod_beta Let_def stop_get split: if_splits)

lemma start_mics: "mics (fst (voice_step E (TxStart i serial n com only monitor) v)) \<subseteq> insert n (mics v)"
  and pcm_mics: "mics (fst (voice_step E (TxPcm n pcm alive) v)) \<subseteq> mics v"
  using voice_mics [of E "TxStart i serial n com only monitor" v] voice_mics [of E "TxPcm n pcm alive" v]
  by (simp_all del: voice_step.simps)

lemma mic_call_mics:
  assumes "own_start n out" shows "mics (fst (mic_call E m out v)) \<subseteq> insert n (mics v)"
proof (cases "\<exists>c. out = LCalled c")
  case True
  then obtain c where c: "out = LCalled c" by blast
  show ?thesis
  proof (cases c)
    case (LStartTx k com only monitor)
    with assms c have "k = n" by simp
    then show ?thesis using start_mics by (simp add: mic_call_def c LStartTx del: voice_step.simps)
  next
    case (LWritePcm k pcm)
    then show ?thesis using pcm_mics by (simp add: mic_call_def c subset_insertI2 del: voice_step.simps)
  next
    case (LStopTx k reason)
    then show ?thesis by (auto simp: mic_call_def c stop_mics simp del: voice_step.simps)
  qed (auto simp: mic_call_def c)
qed (auto simp: mic_call_def split: local_out.splits)

lemma mic_stop_mics: "is_stop out \<Longrightarrow> mics (fst (mic_call E m out v)) \<subseteq> mics v"
  by (cases out) (auto simp: mic_call_def is_stop_def stop_mics simp del: voice_step.simps split: local_call.splits)

lemma each_own: "list_all (own_start n) outs \<Longrightarrow> mics (fst (each (mic_call E m) outs v)) \<subseteq> insert n (mics v)"
proof (induction outs arbitrary: v)
  case (Cons out outs)
  have "mics (fst (each (mic_call E m) outs (fst (mic_call E m out v)))) \<subseteq> insert n (mics (fst (mic_call E m out v)))"
    using Cons by simp
  moreover have "mics (fst (mic_call E m out v)) \<subseteq> insert n (mics v)" using mic_call_mics Cons.prems by simp
  ultimately show ?case by (auto simp: andThen_def case_prod_beta Let_def)
qed auto

lemma each_stop: "list_all is_stop outs \<Longrightarrow> mics (fst (each (mic_call E m) outs v)) \<subseteq> mics v"
proof (induction outs arbitrary: v)
  case (Cons out outs)
  have "mics (fst (each (mic_call E m) outs (fst (mic_call E m out v)))) \<subseteq> mics (fst (mic_call E m out v))"
    using Cons by simp
  moreover have "mics (fst (mic_call E m out v)) \<subseteq> mics v" using mic_stop_mics Cons.prems by simp
  ultimately show ?case by (auto simp: andThen_def case_prod_beta Let_def)
qed auto

definition remote_only :: "nat \<Rightarrow> mic_in \<Rightarrow> bool" where
  "remote_only remote e = (case e of FromVoice x \<Rightarrow>
     (case x of TxStart i serial ws com only monitor \<Rightarrow> ws = remote | _ \<Rightarrow> True) | _ \<Rightarrow> True)"

lemma page_step_mics:
  assumes "mics v \<subseteq> insert remote (clients s)"
  shows "mics (fst (each (mic_call E m) (snd (local_step W (V, e) s)) v)) \<subseteq> insert remote (clients (fst (local_step W (V, e) s)))"
proof (cases e)
  case (WsMessage n b)
  show ?thesis
  proof (cases "n \<in> clients s")
    case True
    have "mics (fst (each (mic_call E m) (snd (on_message W V n b s)) v)) \<subseteq> insert n (mics v)"
      by (rule each_own [OF message_starts])
    with True assms WsMessage show ?thesis by (auto simp: message_clients)
  next
    case False
    then show ?thesis using assms WsMessage by (auto simp: on_message_def clients_def domIff)
  qed
next
  case (WsClosed n)
  have "snd (local_step W (V, e) s) = (if n \<in> clients s then [LCalled (LStopTx n (js ''webapp closed''))] else [])"
    unfolding WsClosed by (auto simp: cleanup_client_def local_call_def clients_def not_open_def domIff)
  then show ?thesis using assms step_clients [of W V e s] stop_mics [of E n _ v] WsClosed
    by (auto simp: mic_call_def andThen_def case_prod_beta Let_def simp del: voice_step.simps local_step.simps)
next
  case (WsError n)
  have "snd (local_step W (V, e) s)
     = (if n \<in> clients s then [LCalled (LStopTx n (js ''webapp connection error'')), Terminated n] else [])"
    unfolding WsError by (auto simp: on_error_def cleanup_client_def local_call_def clients_def andThen_def domIff)
  then show ?thesis using assms step_clients [of W V e s] stop_mics [of E n _ v] WsError
    by (auto simp: mic_call_def andThen_def case_prod_beta Let_def simp del: voice_step.simps local_step.simps)
next
  case (Upgraded n url origin)
  have "list_all is_stop (snd (local_step W (V, e) s))"
    unfolding Upgraded by (auto simp: on_page_upgrade_def say_def is_stop_def)
  from each_stop [OF this, of E m v] show ?thesis using assms step_clients [of W V e s] Upgraded by auto
next
  case (WsClosing n)
  then show ?thesis using assms by (simp add: clients_def not_open_def)
next
  case (SystemText n t)
  have "list_all is_stop (snd (local_step W (V, e) s))"
    using speaks_send by (simp add: SystemText outputs_def is_stop_def)
  from each_stop [OF this, of E m v] show ?thesis using assms step_clients [of W V e s] SystemText by auto
next
  case (Broadcast p)
  have "list_all is_stop (snd (local_step W (V, e) s))"
    using speaks_send by (simp add: Broadcast outputs_def is_stop_def)
  from each_stop [OF this, of E m v] show ?thesis using assms step_clients [of W V e s] Broadcast by auto
next
  case (BroadcastPcm b)
  have "list_all is_stop (snd (local_step W (V, e) s))"
    using speaks_send by (simp add: BroadcastPcm outputs_def is_stop_def)
  from each_stop [OF this, of E m v] show ?thesis using assms step_clients [of W V e s] BroadcastPcm by auto
qed

fun page_events :: "mic_in list \<Rightarrow> (web_view \<times> local_in) list" where
  "page_events [] = []"
| "page_events (FromPage V m e # es) = (V, e) # page_events es"
| "page_events (FromVoice e # es) = page_events es"

lemma page_events_append: "page_events (xs @ ys) = page_events xs @ page_events ys"
  by (induction xs rule: page_events.induct) simp_all

definition mic_run :: "web_env \<Rightarrow> voice_env \<Rightarrow> mic_in list \<Rightarrow> local_web \<times> voice" where
  "mic_run W E es = fst (run_machine (mic_step W E) es (init_local, init_voice))"

lemma mic_run_snoc: "mic_run W E (es @ [e]) = fst (mic_step W E e (mic_run W E es))"
  by (simp add: mic_run_def fst_run_machine)

lemma mic_invariant:
  "list_all (remote_only remote) es \<Longrightarrow>
     fst (mic_run W E es) = local_run W (page_events es) \<and> mics (snd (mic_run W E es)) \<subseteq> insert remote (clients (fst (mic_run W E es)))"
proof (induction es rule: rev_induct)
  case Nil
  show ?case by (simp add: mic_run_def local_run_def mics_def tx_sockets_def init_voice_def createWebTx_def)
next
  case (snoc e es)
  obtain s v where r: "mic_run W E es = (s, v)" by force
  have ih: "s = local_run W (page_events es)" "mics v \<subseteq> insert remote (clients s)" using snoc by (auto simp: r)
  show ?case
  proof (cases e)
    case (FromPage V m x)
    then show ?thesis using page_step_mics [OF ih(2), of E m W V x] ih(1)
      by (simp add: mic_run_snoc r case_prod_beta Let_def page_events_append local_run_snoc del: local_step.simps)
  next
    case (FromVoice x)
    have "mics (fst (voice_step E x v)) \<subseteq> insert remote (mics v)"
      using voice_mics [of E x v] snoc.prems FromVoice by (auto simp: remote_only_def split: voice_in.splits)
    then show ?thesis using ih FromVoice
      by (auto simp: mic_run_snoc r case_prod_beta Let_def page_events_append simp del: voice_step.simps)
  qed
qed

text \<open>
  C37: A microphone ends with its page. In every run of the local server with the transmitter and the
  voice proxies, whatever the browsers, the flight client, the voice servers and the encoders do, a
  transmission that exists belongs to the relay's connection (the socket \<open>remote\<close>, whose starts come
  from elsewhere) or to a socket that was opened from the local page and has neither closed nor
  failed since: a tab that disappears while it transmits has released the radio at once, and no
  message it left in the queue starts it again.
\<close>
theorem microphone_ends_with_page:
  assumes "list_all (remote_only remote) es"
    and "mget (wt_by_socket (vc_tx (snd (mic_run W E es)))) n = Some tx"
  shows "n = remote \<or> connected_by (we_config W) (page_events es) n"
proof -
  have "n \<in> mics (snd (mic_run W E es))" using assms(2) by (auto simp: mics_def tx_sockets_def)
  then show ?thesis using mic_invariant [OF assms(1), of W E] client_connected [of n W "page_events es"] by auto
qed

definition talk_env :: web_env where
  "talk_env = page_env\<lparr>we_parse := (\<lambda>t. Some (JObj [(js ''action'', JStr (js ''voice_tx_monitor_start''))]))\<rparr>"

definition talk_voice :: voice_env where
  "talk_voice = \<lparr>ve_sha256 = (\<lambda>s. []), ve_local = [], 
     ve_ts2 = \<lparr>tc_port = 8767, tc_voiceDecode = False, tc_stripBytes = 1, tc_sampleRate = 32000,
       tc_framesPerPacket = 12, tc_accept = (\<lambda>_. False)\<rparr>,
     ve_webtx = \<lparr>wx_enabled = True, wx_fixed = True, wx_sampleRate = 8000, wx_framesPerPacket = 5\<rparr>\<rparr>"

definition talk_numbers :: mic_numbers where
  "talk_numbers = \<lparr>mn_encoder = 1, mn_serial = 9, mn_alive = True\<rparr>"

definition talk :: "mic_in list" where
  "talk = [FromPage page_view talk_numbers (Upgraded 7 (js ''/ws'') page_origin),
     FromPage page_view talk_numbers (WsMessage 7 [123, 125])]"

lemma talk_local:
  assumes "lw_clients s = [(7, \<lparr>lr_windowStartMs = 5, lr_messages = 0\<rparr>)]"
  shows "snd (local_step talk_env (page_view, WsMessage 7 [123, 125]) s) = [LCalled (LStartTx 7 1 True False)]"
proof -
  have a: "action_is [(js ''action'', JStr (js ''voice_tx_monitor_start''))] k \<longleftrightarrow> k = ''voice_tx_monitor_start''" for k
    by (auto simp: action_is_def)
  have "\<not> is_pcm [123, 125]" by (simp add: is_pcm_def js_def)
  then show ?thesis using assms
    by (simp add: on_message_def allowLocalWsMessage_def on_command_def talk_env_def page_env_def page_config_def page_view_def
      handleWebCommand_def a local_call_def DEFAULT_MAX_JSON_BYTES_def DEFAULT_MAX_MESSAGES_PER_WINDOW_def Let_def)
qed

lemma talk_open:
  "local_step talk_env (page_view, Upgraded 7 (js ''/ws'') page_origin) init_local
     = (\<lparr>lw_clients = [(7, \<lparr>lr_windowStartMs = 5, lr_messages = 0\<rparr>)], lw_open = [7]\<rparr>, [Said 7 []])"
  by (simp add: on_page_upgrade_def isAllowedLocalWebOrigin_def local_origins_def talk_env_def page_env_def page_config_def
    page_origin_def page_view_def say_def init_local_def page_digits ws_open_def) (simp add: js_def)

lemma talk_transmits: "\<exists>tx. mget (wt_by_socket (vc_tx (snd (mic_run talk_env talk_voice talk)))) 7 = Some tx"
proof -
  let ?s = "\<lparr>lw_clients = [(7, \<lparr>lr_windowStartMs = 5, lr_messages = 0\<rparr>)], lw_open = [7 :: nat]\<rparr>"
  have o: "fst (mic_step talk_env talk_voice (hd talk) (init_local, init_voice)) = (?s, init_voice)"
    by (simp add: talk_def talk_open mic_call_def andThen_def del: local_step.simps)
  have "snd (fst (mic_step talk_env talk_voice (talk ! 1) (?s, init_voice)))
    = fst (voice_step talk_voice (TxStart 1 9 7 1 True False) init_voice)"
    using talk_local [of ?s]
    by (simp add: talk_def mic_call_def andThen_def case_prod_beta Let_def talk_numbers_def del: local_step.simps voice_step.simps)
  moreover have "talk = [hd talk, talk ! 1]" by (simp add: talk_def)
  ultimately have "snd (mic_run talk_env talk_voice talk) = fst (voice_step talk_voice (TxStart 1 9 7 1 True False) init_voice)"
    using o by (metis (no_types, lifting) append_Cons append_Nil mic_run_def mic_run_snoc run_machine.simps(1) fst_conv)
  then show ?thesis
    by (simp add: on_tx_def without_answer_def start_def talk_voice_def case_prod_beta Let_def put_tx_def)
qed

theorem microphone_ends_with_page_witness:
  "connected_by (we_config talk_env) (page_events talk) 7"
proof -
  obtain tx where "mget (wt_by_socket (vc_tx (snd (mic_run talk_env talk_voice talk)))) 7 = Some tx" using talk_transmits by blast
  then have "7 = (0 :: nat) \<or> connected_by (we_config talk_env) (page_events talk) 7"
    by (rule microphone_ends_with_page [rotated]) (simp add: talk_def remote_only_def)
  then show ?thesis by simp
qed

end
