(* ===== verification/Config.thy ===== *)
theory Config
  imports RemoteAgent LocalWeb
begin

section \<open>The configuration of the agent (proxy/config.js)\<close>

text \<open>
  \<open>config.json\<close> is read once. The configuration stays an object of JSON values, as the rest of the
  agent reads it (\<open>remoteOptions\<close>). \<open>JSON.parse\<close> is an argument; an object as a text is
  \<open>[object Object]\<close>, and one with a key \<open>toString\<close> or \<open>valueOf\<close> in the place of an option is left out
  of account. Warnings are left out.
\<close>

definition config_defaults :: payload where
  "config_defaults =
     [(js ''lanIp'', JStr []), (js ''voiceDecode'', JBool True), (js ''voiceDiagnostics'', JBool False),
      (js ''voiceSampleRate'', JNum (Fin 32000)), (js ''voiceStripBytes'', JNum (Fin 1)),
      (js ''voiceFramesPerPacket'', JNum (Fin 12)), (js ''webTxEnabled'', JBool False),
      (js ''webTxSampleRate'', JNum (Fin 8000)), (js ''webTxQuality'', JNum (Fin 10)), (js ''webTxAbr'', JBool False),
      (js ''webTxBitrate'', JNum (Fin 0)), (js ''webTxFramesPerPacket'', JNum (Fin 5)),
      (js ''webTxPacketIntervalMs'', JNum (Fin 92)), (js ''webTxPacketMode'', JStr (js ''fixed'')),
      (js ''remoteAgentEnabled'', JBool False), (js ''remoteRelayUrl'', JStr []), (js ''remoteRelayToken'', JStr []),
      (js ''remoteDeviceId'', JStr []), (js ''remoteDeviceName'', JStr []), (js ''remoteReconnectMs'', JNum (Fin 5000)),
      (js ''updateCheckUrl'', JStr [])]"

subsection \<open>Checks of one option\<close>

text \<open>\<open>String(value ?? '').trim()\<close> and \<open>Number(value)\<close>.\<close>

definition option_text :: "json option \<Rightarrow> jstr" where
  "option_text value = trim (case value of None \<Rightarrow> [] | Some v \<Rightarrow> if v = JNull then [] else to_str v)"

definition option_number :: "json option \<Rightarrow> jnum" where
  "option_number value = (case value of None \<Rightarrow> NaN | Some v \<Rightarrow> json_number v)"

text \<open>\<open>/^\d{1,3}(?:\.\d{1,3}){3}$/\<close>.\<close>

definition ipv4_rx :: rx where
  "ipv4_rx = (let part = Reps is_digit 1 3; dot = lit ''.'' in seqs [part, dot, part, dot, part, dot, part])"

definition validateLanIp :: "json option \<Rightarrow> jstr \<Rightarrow> json" where
  "validateLanIp value fallback =
     (let text = option_text value in
      if text = [] then JStr []
      else if rx_match ipv4_rx text
        \<and> list_all (\<lambda>part. case to_number part of Fin q \<Rightarrow> 0 \<le> q \<and> q \<le> 255 | _ \<Rightarrow> False) (split_on 46 text)
      then JStr text else JStr fallback)"

definition validateBoolean :: "bool \<Rightarrow> json option \<Rightarrow> json" where
  "validateBoolean fallback value = (case value of Some (JBool b) \<Rightarrow> JBool b | _ \<Rightarrow> JBool fallback)"

definition validateChoice :: "rat list \<Rightarrow> rat \<Rightarrow> json option \<Rightarrow> json" where
  "validateChoice allowed fallback value =
     (case option_number value of
        Fin q \<Rightarrow> if List.member allowed q then JNum (Fin q) else JNum (Fin fallback)
      | _ \<Rightarrow> JNum (Fin fallback))"

definition validateInteger :: "rat \<Rightarrow> rat \<Rightarrow> rat \<Rightarrow> json option \<Rightarrow> json" where
  "validateInteger fallback lo hi value =
     (case option_number value of
        Fin q \<Rightarrow> if is_integer (Fin q) \<and> lo \<le> q \<and> q \<le> hi then JNum (Fin q) else JNum (Fin fallback)
      | _ \<Rightarrow> JNum (Fin fallback))"

definition validateTextOption :: "nat \<Rightarrow> json option \<Rightarrow> json" where
  "validateTextOption maxBytes value =
     (let text = option_text value in if utf8_len text \<le> maxBytes then JStr text else JStr [])"

definition validate_packet_mode :: "json option \<Rightarrow> json" where
  "validate_packet_mode value =
     (if value = Some (JStr (js ''fixed'')) \<or> value = Some (JStr (js ''variable'')) then the value
      else JStr (js ''fixed''))"

subsection \<open>The whole configuration\<close>

text \<open>The checks in the order in which they are made.\<close>

definition option_checks :: "(jstr \<times> (json option \<Rightarrow> json)) list" where
  "option_checks =
     [(js ''lanIp'', \<lambda>v. validateLanIp v []),
      (js ''voiceDecode'', validateBoolean True), (js ''voiceDiagnostics'', validateBoolean False),
      (js ''webTxEnabled'', validateBoolean False), (js ''webTxAbr'', validateBoolean False),
      (js ''remoteAgentEnabled'', validateBoolean False),
      (js ''voiceSampleRate'', validateChoice [8000, 16000, 32000] 32000),
      (js ''webTxSampleRate'', validateChoice [8000, 16000, 32000] 8000),
      (js ''voiceStripBytes'', validateInteger 1 0 8), (js ''voiceFramesPerPacket'', validateInteger 12 1 20),
      (js ''webTxQuality'', validateInteger 10 0 10), (js ''webTxBitrate'', validateInteger 0 0 128000),
      (js ''webTxFramesPerPacket'', validateInteger 5 1 12), (js ''webTxPacketIntervalMs'', validateInteger 92 20 1000),
      (js ''remoteReconnectMs'', validateInteger 5000 1000 60000),
      (js ''remoteRelayUrl'', validateTextOption 512), (js ''remoteRelayToken'', validateTextOption 512),
      (js ''remoteDeviceId'', validateTextOption 160), (js ''remoteDeviceName'', validateTextOption 128),
      (js ''updateCheckUrl'', validateTextOption 512), (js ''webTxPacketMode'', validate_packet_mode)]"

definition check_options :: "(jstr \<times> (json option \<Rightarrow> json)) list \<Rightarrow> payload \<Rightarrow> payload" where
  "check_options checks config = foldl (\<lambda>c (k, f). mput c k (f (mget c k))) config checks"

definition validateConfig :: "payload \<Rightarrow> payload" where
  "validateConfig = check_options option_checks"

text \<open>The own entries of a value that is spread: those of an object, the elements of a list, the units of a text.\<close>

fun own_entries :: "json \<Rightarrow> payload" where
  "own_entries (JObj ps) = ps"
| "own_entries (JArr xs) = zip (map nat_digits [0..<length xs]) xs"
| "own_entries (JStr s) = zip (map nat_digits [0..<length s]) (map (\<lambda>c. JStr [c]) s)"
| "own_entries _ = []"

definition drop_bom :: "jstr \<Rightarrow> jstr" where
  "drop_bom t = (case t of c # r \<Rightarrow> if c = 65279 then r else t | [] \<Rightarrow> [])"

text \<open>\<open>contents\<close> is \<open>None\<close> when it cannot be read.\<close>

definition readConfig :: "(jstr \<Rightarrow> json option) \<Rightarrow> jstr option \<Rightarrow> payload" where
  "readConfig parse contents =
     (case contents of
        None \<Rightarrow> config_defaults
      | Some text \<Rightarrow> (case parse (drop_bom text) of
          None \<Rightarrow> config_defaults
        | Some raw \<Rightarrow> validateConfig (spread config_defaults (own_entries raw))))"

subsection \<open>The address in the local network\<close>

definition dotted_rx :: rx where
  "dotted_rx = (let part = plus (Chr is_digit); dot = lit ''.'' in seqs [part, dot, part, dot, part, dot, part])"

text \<open>The tests of names ignore case; \<open>wi-?fi\<close> is either of two words.\<close>

definition names :: "jstr \<Rightarrow> string list \<Rightarrow> bool" where
  "names name ws = list_ex (\<lambda>w. str_includes (map (\<lambda>c. if is_upper c then c + 32 else c) name) (js w)) ws"

definition ifaceScore :: "jstr \<Rightarrow> int" where
  "ifaceScore name =
     (if names name [''virtual'', ''vmware'', ''virtualbox'', ''docker'', ''wsl'', ''hyper-v'', ''vethernet''] then -20
      else if names name [''wi-fi'', ''wifi'', ''wlan'', ''wireless'', ''ethernet''] then 10 else 0)"

definition ipScore :: "jstr \<Rightarrow> int" where
  "ipScore ip =
     (if \<not> rx_match dotted_rx ip then -1
      else if starts_with ip (js ''127.'') \<or> starts_with ip (js ''169.254.'') then -1
      else if starts_with ip (js ''192.168.1.'') then 50
      else if starts_with ip (js ''192.168.'') \<and> \<not> starts_with ip (js ''192.168.56.'') then 40
      else if starts_with ip (js ''10.'') then 30
      else (let second = to_number (split_on 46 ip ! 1) in
        if starts_with ip (js ''172.'') \<and> jle (Fin 16) second \<and> jle second (Fin 31) then 30
        else if starts_with ip (js ''192.168.56.'') then 5 else 1))"

text \<open>
  An interface: its name and its addresses with their family and whether they are internal. Equal
  scores keep their order.
\<close>

record candidate =
  cd_ip :: jstr
  cd_score :: int
  cd_name :: jstr

definition listLocalNetworkIps :: "(jstr \<times> (jstr \<times> jstr \<times> bool) list) list \<Rightarrow> candidate list" where
  "listLocalNetworkIps interfaces =
     sort_key (\<lambda>c. - cd_score c) (filter (\<lambda>c. 0 \<le> cd_score c) (concat (map (\<lambda>(name, addresses).
       map (\<lambda>(address, family, internal). \<lparr>cd_ip = address, cd_score = ipScore address + ifaceScore name, cd_name = name\<rparr>)
         (filter (\<lambda>(address, family, internal). family = js ''IPv4'' \<and> \<not> internal) addresses)) interfaces)))"

definition detectLanIp :: "jstr \<Rightarrow> candidate list \<Rightarrow> jstr" where
  "detectLanIp configuredIp candidates =
     (if list_ex (\<lambda>c. cd_ip c = configuredIp) candidates then configuredIp
      else (case candidates of c # cs \<Rightarrow> if cd_ip c = [] then js ''127.0.0.1'' else cd_ip c | [] \<Rightarrow> js ''127.0.0.1''))"

subsection \<open>Validated options have their type\<close>

definition is_text_option :: "nat \<Rightarrow> json \<Rightarrow> bool" where
  "is_text_option maxBytes v = (case v of JStr t \<Rightarrow> utf8_len t \<le> maxBytes \<and> trim t = t | _ \<Rightarrow> False)"

definition is_integer_option :: "rat \<Rightarrow> rat \<Rightarrow> json \<Rightarrow> bool" where
  "is_integer_option lo hi v = (case v of JNum (Fin q) \<Rightarrow> q \<in> \<int> \<and> lo \<le> q \<and> q \<le> hi | _ \<Rightarrow> False)"

definition is_choice_option :: "rat list \<Rightarrow> json \<Rightarrow> bool" where
  "is_choice_option allowed v = (case v of JNum (Fin q) \<Rightarrow> List.member allowed q | _ \<Rightarrow> False)"

definition is_boolean_option :: "json \<Rightarrow> bool" where
  "is_boolean_option v = (case v of JBool b \<Rightarrow> True | _ \<Rightarrow> False)"

definition is_lan_ip :: "json \<Rightarrow> bool" where
  "is_lan_ip v = (case v of JStr t \<Rightarrow> t = [] \<or> (rx_match ipv4_rx t
     \<and> list_all (\<lambda>part. case to_number part of Fin q \<Rightarrow> 0 \<le> q \<and> q \<le> 255 | _ \<Rightarrow> False) (split_on 46 t)) | _ \<Rightarrow> False)"

definition option_types :: "(jstr \<times> (json \<Rightarrow> bool)) list" where
  "option_types =
     [(js ''lanIp'', is_lan_ip),
      (js ''voiceDecode'', is_boolean_option), (js ''voiceDiagnostics'', is_boolean_option),
      (js ''webTxEnabled'', is_boolean_option), (js ''webTxAbr'', is_boolean_option),
      (js ''remoteAgentEnabled'', is_boolean_option),
      (js ''voiceSampleRate'', is_choice_option [8000, 16000, 32000]),
      (js ''webTxSampleRate'', is_choice_option [8000, 16000, 32000]),
      (js ''voiceStripBytes'', is_integer_option 0 8), (js ''voiceFramesPerPacket'', is_integer_option 1 20),
      (js ''webTxQuality'', is_integer_option 0 10), (js ''webTxBitrate'', is_integer_option 0 128000),
      (js ''webTxFramesPerPacket'', is_integer_option 1 12), (js ''webTxPacketIntervalMs'', is_integer_option 20 1000),
      (js ''remoteReconnectMs'', is_integer_option 1000 60000),
      (js ''remoteRelayUrl'', is_text_option 512), (js ''remoteRelayToken'', is_text_option 512),
      (js ''remoteDeviceId'', is_text_option 160), (js ''remoteDeviceName'', is_text_option 128),
      (js ''updateCheckUrl'', is_text_option 512),
      (js ''webTxPacketMode'', \<lambda>v. v = JStr (js ''fixed'') \<or> v = JStr (js ''variable''))]"

text \<open>
  A check for a type: what it returns has the type, and it returns a value of the type as it is.
\<close>

locale option_check =
  fixes check :: "json option \<Rightarrow> json" and typed :: "json \<Rightarrow> bool"
  assumes sound: "typed (check v)" and exact: "typed x \<Longrightarrow> check (Some x) = x"
begin

lemma idempotent: "check (Some (check v)) = check v"
  by (rule exact [OF sound])

end

lemma option_text_trim [simp]: "trim (option_text v) = option_text v"
  by (simp add: option_text_def)

lemma option_text_str [simp]: "option_text (Some (JStr t)) = trim t"
  by (simp add: option_text_def)

lemma ipv4_chars: "rx_match ipv4_rx t \<Longrightarrow> c \<in> set t \<Longrightarrow> is_digit c \<or> c = 46"
  by (auto simp: rx_match_iff ipv4_rx_def Let_def list_all_iff js_def)

lemma ipv4_trim: "rx_match ipv4_rx t \<Longrightarrow> trim t = t"
  by (rule trim_no_ws) (auto dest!: ipv4_chars simp: is_digit_def is_ws_def)

interpretation lan_ip: option_check "\<lambda>v. validateLanIp v []" is_lan_ip
  by unfold_locales (auto simp: validateLanIp_def is_lan_ip_def Let_def ipv4_trim split: json.splits)

interpretation boolean: option_check "validateBoolean b" is_boolean_option for b
  by unfold_locales (auto simp: validateBoolean_def is_boolean_option_def split: option.splits json.splits)

interpretation text_option: option_check "validateTextOption n" "is_text_option n" for n
  by unfold_locales (auto simp: validateTextOption_def is_text_option_def Let_def split: json.splits)

interpretation packet_mode: option_check validate_packet_mode "\<lambda>v. v = JStr (js ''fixed'') \<or> v = JStr (js ''variable'')"
  by unfold_locales (auto simp: validate_packet_mode_def)

lemma integer_check:
  assumes "fallback \<in> \<int>" "lo \<le> fallback" "fallback \<le> hi"
  shows "option_check (validateInteger fallback lo hi) (is_integer_option lo hi)"
  using assms
  by unfold_locales (auto simp: validateInteger_def is_integer_option_def option_number_def is_integer_def
    split: jnum.splits json.splits)

lemma choice_check:
  assumes "fallback \<in> set allowed"
  shows "option_check (validateChoice allowed fallback) (is_choice_option allowed)"
  using assms
  by unfold_locales (auto simp: validateChoice_def is_choice_option_def option_number_def split: jnum.splits json.splits)

lemma all_checks: "list_all2 (\<lambda>(k, f) (k', typed). k = k' \<and> option_check f typed) option_checks option_types"
  by (simp add: option_checks_def option_types_def lan_ip.option_check_axioms boolean.option_check_axioms
    text_option.option_check_axioms packet_mode.option_check_axioms integer_check choice_check)

lemma distinct_checks: "distinct (map fst option_checks)"
  by (simp add: option_checks_def)

lemma mput_stays: "mget m k = Some x \<Longrightarrow> mput m k x = m"
  by (induction m) (auto split: if_splits)

lemma checked_get:
  "distinct (map fst checks) \<Longrightarrow> mget (check_options checks c) k
     = (case map_of checks k of Some f \<Rightarrow> Some (f (mget c k)) | None \<Rightarrow> mget c k)"
proof (induction checks arbitrary: c)
  case (Cons x checks)
  obtain k' f where x: "x = (k', f)" by force
  have n: "map_of checks k' = None" using Cons.prems by (simp add: x map_of_eq_None_iff)
  have "mget (check_options (x # checks) c) k = mget (check_options checks (mput c k' (f (mget c k')))) k"
    by (simp add: check_options_def x)
  also have "\<dots> = (case map_of checks k of Some g \<Rightarrow> Some (g (mget (mput c k' (f (mget c k'))) k))
      | None \<Rightarrow> mget (mput c k' (f (mget c k'))) k)" by (rule Cons.IH) (use Cons.prems in simp)
  finally show ?case using n by (auto simp: x split: option.split)
qed (simp add: check_options_def)

lemma checks_stay:
  "\<forall>(k, f) \<in> set checks. \<exists>x. mget c k = Some x \<and> f (Some x) = x \<Longrightarrow> check_options checks c = c"
proof (induction checks)
  case (Cons x checks)
  obtain k f y where x: "x = (k, f)" "mget c k = Some y" "f (Some y) = y" using Cons.prems by fastforce
  then have "check_options (x # checks) c = check_options checks c" by (simp add: check_options_def mput_stays)
  with Cons show ?case by simp
qed (simp add: check_options_def)

definition options_typed :: "payload \<Rightarrow> bool" where
  "options_typed c = list_all (\<lambda>(k, typed). case mget c k of Some v \<Rightarrow> typed v | None \<Rightarrow> False) option_types"

lemma check_at:
  assumes "(k, typed) \<in> set option_types"
  obtains f where "map_of option_checks k = Some f" "option_check f typed"
proof -
  obtain i where i: "i < length option_types" "option_types ! i = (k, typed)" using assms by (meson in_set_conv_nth)
  have l: "length option_checks = length option_types" using all_checks by (rule list_all2_lengthD)
  obtain k' f where f: "option_checks ! i = (k', f)" by force
  have "k' = k \<and> option_check f typed" using list_all2_nthD [OF all_checks, of i] i l f by simp
  moreover have "(k', f) \<in> set option_checks" using i(1) l f by (metis nth_mem)
  ultimately show ?thesis using that distinct_checks by simp
qed

lemma validated_typed: "options_typed (validateConfig c)"
proof -
  have "case mget (validateConfig c) k of Some v \<Rightarrow> typed v | None \<Rightarrow> False" if t: "(k, typed) \<in> set option_types" for k typed
  proof -
    obtain f where f: "map_of option_checks k = Some f" "option_check f typed" using t by (rule check_at)
    then show ?thesis using option_check.sound [OF f(2)] by (simp add: validateConfig_def checked_get [OF distinct_checks])
  qed
  then show ?thesis by (auto simp: options_typed_def list_all_iff)
qed

lemma typed_stays: "options_typed c \<Longrightarrow> validateConfig c = c"
  unfolding validateConfig_def
proof (rule checks_stay, clarify)
  fix k f assume c: "options_typed c" and kf: "(k, f) \<in> set option_checks"
  then obtain i where i: "i < length option_checks" "option_checks ! i = (k, f)" by (meson in_set_conv_nth)
  obtain k' typed where t: "option_types ! i = (k', typed)" by force
  have l: "length option_checks = length option_types" using all_checks by (rule list_all2_lengthD)
  have o: "k = k' \<and> option_check f typed" using list_all2_nthD [OF all_checks i(1)] i(2) t by simp
  have "(k', typed) \<in> set option_types" using i(1) l t by (metis nth_mem)
  then obtain v where "mget c k' = Some v" "typed v"
    using c by (fastforce simp: options_typed_def list_all_iff split: option.splits)
  then show "\<exists>x. mget c k = Some x \<and> f (Some x) = x" using o option_check.exact by blast
qed

lemma defaults_typed: "options_typed config_defaults"
  by (simp add: options_typed_def option_types_def config_defaults_def is_lan_ip_def is_boolean_option_def
    is_choice_option_def is_integer_option_def is_text_option_def)

lemma read_typed: "options_typed (readConfig parse contents)"
  using defaults_typed validated_typed by (auto simp: readConfig_def split: option.split)

subsection \<open>What the file says is what the agent runs with\<close>

text \<open>
  How a value \<open>v\<close> of the file is read for an option of a type with a default: as it is, or as the
  number or the trimmed text it stands for, when that is of the type; else as the default. The
  packet mode is one of two words as written.
\<close>

definition read_as :: "bool \<Rightarrow> (json \<Rightarrow> bool) \<Rightarrow> json \<Rightarrow> json \<Rightarrow> json" where
  "read_as exact typed d v =
     (if typed v then v
      else if \<not> exact \<and> typed (JNum (json_number v)) then JNum (json_number v)
      else if \<not> exact \<and> typed (JStr (option_text (Some v))) then JStr (option_text (Some v))
      else d)"

lemma read_lan_ip: "validateLanIp (Some v) [] = read_as False is_lan_ip (JStr []) v"
  by (cases v) (auto simp: validateLanIp_def read_as_def is_lan_ip_def Let_def ipv4_trim)

lemma read_boolean: "validateBoolean b (Some v) = read_as False is_boolean_option (JBool b) v"
  by (cases v) (auto simp: validateBoolean_def read_as_def is_boolean_option_def)

lemma read_number:
  "validateChoice allowed fallback (Some v) = read_as False (is_choice_option allowed) (JNum (Fin fallback)) v"
  "validateInteger fallback lo hi (Some v) = read_as False (is_integer_option lo hi) (JNum (Fin fallback)) v"
  by (cases v; cases "json_number v";
      auto simp: validateChoice_def validateInteger_def read_as_def is_choice_option_def is_integer_option_def
        option_number_def is_integer_def split: jnum.splits)+

lemma read_text: "validateTextOption n (Some v) = read_as False (is_text_option n) (JStr []) v"
  by (cases v) (auto simp: validateTextOption_def read_as_def is_text_option_def Let_def)

lemma read_mode:
  "validate_packet_mode (Some v)
     = read_as True (\<lambda>v. v = JStr (js ''fixed'') \<or> v = JStr (js ''variable'')) (JStr (js ''fixed'')) v"
  by (auto simp: validate_packet_mode_def read_as_def)

lemma all_read:
  "list_all (\<lambda>(k, typed). \<exists>f d. map_of option_checks k = Some f \<and> mget config_defaults k = Some d
     \<and> (\<forall>v. f (Some v) = read_as (k = js ''webTxPacketMode'') typed d v)) option_types"
  by (simp add: option_types_def option_checks_def config_defaults_def read_lan_ip read_boolean read_number read_text read_mode)

lemma spread_get: "mwf b \<Longrightarrow> mget (spread a b) k = (case mget b k of None \<Rightarrow> mget a k | Some v \<Rightarrow> Some v)"
proof (induction b arbitrary: a)
  case (Cons p b)
  obtain k' v where p: "p = (k', v)" by force
  have n: "mget b k' = None" using Cons.prems by (simp add: p mwf_def map_of_eq_None_iff)
  have "mget (spread a (p # b)) k = mget (spread (mput a k' v) b) k" by (simp add: spread_def p)
  also have "\<dots> = (case mget b k of None \<Rightarrow> mget (mput a k' v) k | Some v \<Rightarrow> Some v)"
    by (rule Cons.IH) (use Cons.prems in \<open>simp add: mwf_def\<close>)
  finally show ?case using n by (auto simp: p split: option.split)
qed (simp add: spread_def)

lemma file_get:
  assumes "parse (drop_bom t) = Some (JObj raw)" "mwf raw"
  shows "mget (readConfig parse (Some t)) k = (case map_of option_checks k of
       Some f \<Rightarrow> Some (f (case mget raw k of None \<Rightarrow> mget config_defaults k | Some v \<Rightarrow> Some v))
     | None \<Rightarrow> (case mget raw k of None \<Rightarrow> mget config_defaults k | Some v \<Rightarrow> Some v))"
  by (cases "map_of option_checks k")
    (simp_all add: readConfig_def assms(1) validateConfig_def checked_get [OF distinct_checks] spread_get [OF assms(2)])

text \<open>
  C40: The agent runs with what \<open>config.json\<close> says, made safe. A file that is missing or no JSON
  gives the defaults. Otherwise, for each option and its type: one that the file does not name has
  its default; one that it names has the value of the file when that is of the type, else the number
  or the trimmed text that the value stands for when that is (not for the packet mode), else the
  default. So whatever the file holds, every option is present with its type and in its range:
  switches are booleans, rates are among the three of the codec, integers lie between their bounds,
  texts are trimmed and bounded in bytes, the address of the network is empty or four numbers up to
  255. The checks are exact: any configuration of this kind, and so one that was validated, is left
  as it is. The relay's connection gets a delay between one second and one minute for its next attempt.
\<close>
theorem config_typed:
  "(contents = None \<or> (\<exists>t. contents = Some t \<and> parse (drop_bom t) = None) \<longrightarrow> readConfig parse contents = config_defaults)
   \<and> (\<forall>t raw. contents = Some t \<and> parse (drop_bom t) = Some (JObj raw) \<and> mwf raw \<longrightarrow>
        (\<forall>(k, typed) \<in> set option_types. \<exists>d. mget config_defaults k = Some d \<and> mget (readConfig parse contents) k
           = Some (case mget raw k of None \<Rightarrow> d | Some v \<Rightarrow> read_as (k = js ''webTxPacketMode'') typed d v)))
   \<and> options_typed (readConfig parse contents)
   \<and> (\<forall>c. options_typed c \<longrightarrow> validateConfig c = c)
   \<and> (\<exists>q. ro_reconnectMs (remoteOptions U (readConfig parse contents) hostname version) = Fin q \<and> 1000 \<le> q \<and> q \<le> 60000)"
proof (intro conjI)
  let ?c = "readConfig parse contents"
  show "contents = None \<or> (\<exists>t. contents = Some t \<and> parse (drop_bom t) = None) \<longrightarrow> ?c = config_defaults"
    by (auto simp: readConfig_def)
  show "\<forall>t raw. contents = Some t \<and> parse (drop_bom t) = Some (JObj raw) \<and> mwf raw \<longrightarrow>
      (\<forall>(k, typed) \<in> set option_types. \<exists>d. mget config_defaults k = Some d \<and> mget ?c k
         = Some (case mget raw k of None \<Rightarrow> d | Some v \<Rightarrow> read_as (k = js ''webTxPacketMode'') typed d v))"
  proof clarify
    fix t raw k typed
    assume t: "contents = Some t" "parse (drop_bom t) = Some (JObj raw)" "mwf raw" and k: "(k, typed) \<in> set option_types"
    obtain f d where f: "map_of option_checks k = Some f" "mget config_defaults k = Some d"
      "\<And>v. f (Some v) = read_as (k = js ''webTxPacketMode'') typed d v"
      using all_read k by (fastforce simp: list_all_iff)
    have "typed d" using defaults_typed k f(2) by (fastforce simp: options_typed_def list_all_iff)
    then have "f (Some d) = d" by (simp add: f(3) read_as_def)
    then show "\<exists>d. mget config_defaults k = Some d \<and> mget (readConfig parse (Some t)) k
        = Some (case mget raw k of None \<Rightarrow> d | Some v \<Rightarrow> read_as (k = js ''webTxPacketMode'') typed d v)"
      using f by (simp add: file_get [of parse, OF t(2,3)] split: option.split)
  qed
  show "options_typed ?c" by (rule read_typed)
  show "\<forall>c. options_typed c \<longrightarrow> validateConfig c = c" using typed_stays by blast
  have "(js ''remoteReconnectMs'', is_integer_option 1000 60000) \<in> set option_types" by (simp add: option_types_def)
  then obtain v where "mget ?c (js ''remoteReconnectMs'') = Some v" "is_integer_option 1000 60000 v"
    using read_typed [of parse contents] by (fastforce simp: options_typed_def list_all_iff split: option.splits)
  then obtain q where "mget ?c (js ''remoteReconnectMs'') = Some (JNum (Fin q))" "1000 \<le> q" "q \<le> 60000"
    by (auto simp: is_integer_option_def split: json.splits jnum.splits)
  then show "\<exists>q. ro_reconnectMs (remoteOptions U ?c hostname version) = Fin q \<and> 1000 \<le> q \<and> q \<le> 60000"
    by (simp add: remoteOptions_def Let_def)
qed

text \<open>
  A file (the text [1], behind its mark) that sets the rate of the microphone, writes another rate
  that the codec does not have, a switch as a text and a name with blanks around it.
\<close>

definition demo_file :: payload where
  "demo_file = [(js ''webTxSampleRate'', JNum (Fin 16000)), (js ''voiceSampleRate'', JNum (Fin 44100)),
     (js ''webTxEnabled'', JStr (js ''true'')), (js ''remoteDeviceName'', JStr (js '' desk ''))]"

definition demo_parse :: "jstr \<Rightarrow> json option" where
  "demo_parse t = (if t = [1] then Some (JObj demo_file) else None)"

theorem config_typed_witness:
  "mget (readConfig demo_parse (Some [65279, 1])) (js ''webTxSampleRate'') = Some (JNum (Fin 16000))
   \<and> mget (readConfig demo_parse (Some [65279, 1])) (js ''voiceSampleRate'') = Some (JNum (Fin 32000))
   \<and> mget (readConfig demo_parse (Some [65279, 1])) (js ''webTxEnabled'') = Some (JBool False)
   \<and> mget (readConfig demo_parse (Some [65279, 1])) (js ''remoteDeviceName'') = Some (JStr (js ''desk''))
   \<and> readConfig demo_parse None = config_defaults \<and> validateConfig config_defaults = config_defaults"
proof -
  have p: "demo_parse (drop_bom [65279, 1]) = Some (JObj demo_file)" "mwf demo_file"
    by (simp_all add: demo_parse_def drop_bom_def demo_file_def mwf_def)
  have got: "(k, typed) \<in> set option_types \<Longrightarrow> \<exists>d. mget config_defaults k = Some d
      \<and> mget (readConfig demo_parse (Some [65279, 1])) k
        = Some (case mget demo_file k of None \<Rightarrow> d | Some v \<Rightarrow> read_as (k = js ''webTxPacketMode'') typed d v)" for k typed
    using config_typed [of "Some [65279, 1]" demo_parse] p by blast
  have o: "(js ''webTxSampleRate'', is_choice_option [8000, 16000, 32000]) \<in> set option_types"
    "(js ''voiceSampleRate'', is_choice_option [8000, 16000, 32000]) \<in> set option_types"
    "(js ''webTxEnabled'', is_boolean_option) \<in> set option_types"
    "(js ''remoteDeviceName'', is_text_option 128) \<in> set option_types"
    by (simp_all add: option_types_def)
  have t: "option_text (Some (JStr (js '' desk ''))) = js ''desk''" "trim (js ''desk'') = js ''desk''"
    "utf8_len (js ''desk'') = 4" by (simp_all add: trim_def is_ws_def js_def)
  have "mget (readConfig demo_parse (Some [65279, 1])) (js ''webTxSampleRate'') = Some (JNum (Fin 16000))"
    using got [OF o(1)] by (simp add: demo_file_def read_as_def is_choice_option_def)
  moreover have "mget (readConfig demo_parse (Some [65279, 1])) (js ''voiceSampleRate'') = Some (JNum (Fin 32000))"
    using got [OF o(2)] by (simp add: demo_file_def config_defaults_def read_as_def is_choice_option_def)
  moreover have "mget (readConfig demo_parse (Some [65279, 1])) (js ''webTxEnabled'') = Some (JBool False)"
    using got [OF o(3)] by (simp add: demo_file_def config_defaults_def read_as_def is_boolean_option_def)
  moreover have "mget (readConfig demo_parse (Some [65279, 1])) (js ''remoteDeviceName'') = Some (JStr (js ''desk''))"
  proof -
    have r: "read_as False (is_text_option 128) (JStr []) (JStr (js '' desk '')) = JStr (js ''desk'')"
      by (simp add: read_as_def is_text_option_def t del: option_text_str) (simp add: trim_def is_ws_def js_def)
    have d: "mget demo_file (js ''remoteDeviceName'') = Some (JStr (js '' desk ''))"
      "mget config_defaults (js ''remoteDeviceName'') = Some (JStr [])" "js ''remoteDeviceName'' \<noteq> js ''webTxPacketMode''"
      by (simp_all add: demo_file_def config_defaults_def)
    show ?thesis using got [OF o(4)] by (simp only: d r option.case option.inject ex_simps simp_thms)
  qed
  moreover have "readConfig demo_parse None = config_defaults" "validateConfig config_defaults = config_defaults"
    using config_typed [of None demo_parse] defaults_typed by blast+
  ultimately show ?thesis by blast
qed

end
