(* ===== verification/Spec2Isabelle.thy ===== *)
theory Spec2Isabelle
  imports ProtocolProps WatchdogProps RelayProps RelayLimits FsdProps PilotProps AgentProps OggProps Ts2Props ServerProps RemoteProps RemoteRelay RemoteWire RemoteCommands WeatherProps LocalProps Config
begin

text \<open>
  \<^bold>\<open>VoxHF\<close> lets a pilot operate the radio of an IVAO flight from a browser. A local agent
  (src/proxy.js, src/proxy/) stands between the flight client (PilotUI, PilotCore) and the IVAO
  servers, reads the traffic, rewrites addresses and sends commands; a relay (src/apps/relay/)
  connects agents and browsers over WebSockets and keeps the accounts, the tokens and the
  administration in a database; both speak the protocol of src/packages/protocol. Each theory
  opens with the files it models; the theorems that are stated of the program are those behind a
  text block with a claim id.

  \<^bold>\<open>Host.\<close> \<open>Prelude\<close> has the insertion-ordered map and the contracts (locales) of state machines,
  expiring stores and chunked parsers. \<open>JStrings\<close>, \<open>JRegex\<close>, \<open>JNumbers\<close>, \<open>JDates\<close>,
  \<open>Json\<close>, \<open>Bytes\<close> and \<open>Uri\<close> model what the program uses of JavaScript and Node: UTF-16 strings,
  anchored regular expressions, binary64 numbers with correct rounding, dates, JSON values, buffers,
  UTF-8 and URI components. \<open>Ops\<close> has the operations of handlers that run in turns between
  requests to the database: return, failure, and what happens after an await.

  \<^bold>\<open>Protocol.\<close> \<open>Protocol\<close>, \<open>Validate\<close>, \<open>Versions\<close>: packages/protocol/index.js; \<open>ValidateFacts\<close>,
  \<open>Freq\<close> and \<open>ProtocolProps\<close> its theorems.

  \<^bold>\<open>Watchdog.\<close> \<open>Watchdog\<close>: apps/relay/agent-watchdog.js as a machine whose events are the messages, the
  disconnects and the callbacks of timers and of fetch; \<open>WatchdogFacts\<close>, \<open>WatchdogProps\<close>.

  \<^bold>\<open>Relay, sockets.\<close> \<open>RelayBase\<close> (configuration, users, upgrades), \<open>Relay\<close> (state, sending, rates,
  authorization), \<open>RelayHandlers\<close> (every message handler and the step function), \<open>RelayHttp\<close>
  (limiter of HTTP attempts, invites): apps/relay/index.js. \<open>RelayFacts\<close>,
  \<open>RelayReach\<close>, \<open>RelayAuth\<close> and \<open>RelayReplies\<close> (with the data of the witnesses) carry
  \<open>RelayProps\<close> and \<open>RelayLimits\<close>.

  \<^bold>\<open>Relay, accounts and administration.\<close> \<open>RelayDb\<close> and \<open>AdminDb\<close>: the tables and the statements of
  apps/relay/db.js, with the constraints of the schema. \<open>Credentials\<close>: credentials.js, the password
  hashes and recovery codes. \<open>Web\<close>: sessions.js and the cookies, bodies and headers of index.js.
  \<open>AccountApi\<close>: account-api.js; \<open>AdminAuth\<close> and \<open>AdminApi\<close>: admin-api.js and admin-mfa.js.
  \<open>Server\<close> is the process of index.js: the sockets of \<open>RelayHandlers\<close>, the cache of tokens, the database
  and the requests in progress, with an event per socket event, request, body, answer of the
  WebAuthn library and timer. \<open>DbFacts\<close> (the integrity of the tables under each statement), \<open>WebFacts\<close>
  (what a statement leaves of the accounts and tokens), \<open>SessionFacts\<close> (a handler
  that revokes a session or a token reports it to the sockets), \<open>RelayBearer\<close> (the token a socket was
  admitted with stays its token), \<open>ServerFacts\<close> (the process runs the handlers turn by
  turn) and \<open>TokenFacts\<close> (the cache agrees with the tables) carry \<open>ServerProps\<close>.

  \<^bold>\<open>Agent.\<close> \<open>FsdParser\<close>, \<open>FsdFacts\<close> (lines, and the flow of records of the proxy): proxy/fsd-parser.js. \<open>PilotCore\<close>, \<open>PilotBridge\<close>:
  proxy/pilot-core.js and proxy/pilot-bridge.js; \<open>PilotFacts\<close>, \<open>PilotProps\<close>. \<open>AppState\<close>:
  proxy/app-state.js; \<open>FsdProxy\<close>: proxy/fsd-proxy.js, with \<open>FsdProps\<close>.
  \<open>UnicomTimer\<close>: proxy/unicom-timer.js. \<open>PushNotifications\<close>: proxy/push-notifications.js, with
  \<open>DateFacts\<close> and \<open>PushProps\<close>. \<open>Agent\<close> is proxy.js, the machine that joins these parts: the outputs
  of one are the calls of the callbacks of the other; \<open>AgentProps\<close>.

  \<^bold>\<open>Voice.\<close> \<open>OggSpeex\<close>: proxy/ogg-speex.js, the pages and the checksum; \<open>OggProps\<close>. \<open>Ts2Proxy\<close>
  and \<open>Ts2Router\<close>: proxy/ts2-voice-proxy.js and proxy/ts2-voice-router.js, the proxy of a voice
  server and the routes of the flight client to its servers; \<open>WebTx\<close>: proxy/web-tx.js, the transmission of the browser through the encoder.
  \<open>Ts2Facts\<close>, \<open>WebTxFacts\<close> and \<open>Ts2Props\<close> have their theorems; the last also traces the session of
  a transmission back to the login and the setup packet of the flight client (\<open>traced\<close>).

  \<^bold>\<open>Connection to the relay.\<close> \<open>RemoteAgent\<close> is proxy/remote-agent.js: dialling, the greeting, the
  backoff, the watchdog's registration, the window of a voice transmission and the rate of commands,
  with an event per frame, timer and call of proxy.js. \<open>RemoteFacts\<close> states once, in the locale
  \<open>observation\<close>, what every step leaves of a part of the state, and reads it for the windows, the
  dialling and the transmission; \<open>RemoteProps\<close> has the theorems of the agent alone. \<open>RemoteRelay\<close>
  composes it with the relay's watchdog, \<open>RemoteWire\<close> with the validation of packages/protocol, and
  \<open>RemoteCommands\<close> follows a command of a browser through the relay, the agent's connection and
  \<open>PilotCore\<close> to the packet the flight client receives.

  \<^bold>\<open>Local page.\<close> \<open>LocalWeb\<close> is proxy/local-web-server.js and proxy/websocket-commands.js: the upgrades
  with their origins, the clients and their commands, and the page joined with the voice side as
  proxy.js does (\<open>mic_step\<close>). \<open>LocalProps\<close> shows who is a client, which messages reach the rest of the
  program, and that a transmission does not outlive its page. \<open>Config\<close> is proxy/config.js; the
  locale \<open>option_check\<close> is the contract of a check of one option, and \<open>read_as\<close> what a value of the file
  means for an option of a type.

  \<^bold>\<open>Weather.\<close> \<open>Weather\<close> is webapp/weather.js, the reader of METAR and TAF for the page, with a
  definition for each kind of group. \<open>WeatherFacts\<close> has the groups as data and what they mean, shows
  that the rounding of knots is exact and that the readers find for each kind of group what it means;
  \<open>WeatherProps\<close> follows a text to its tokens and has the theorems for whole reports.

  \<^bold>\<open>Bounds and fuel.\<close> The only fuel is that of the MessagePack reader: one more than the bytes, and
  every value takes a byte (\<open>mp_fuel\<close>), so it is never exhausted (\<open>decode_never_out_of_fuel\<close>) and any
  larger fuel gives the same value; \<open>PilotProps\<close> states it as termination.

  \<^bold>\<open>Not modelled.\<close> Logs and traces; the call stack's depth. Cryptography, the URL parser, JSON.parse,
  the collator, WebAuthn, the clock and random bytes are arguments. Files (the migrations, the
  backups, the contents of the pages, served by static-web.js), the diagnosis of used ports, the
  administrator's page, the rest of the webapp and the
  scripts are not modelled.
\<close>

end
